(* ===== verification/Pollek_Prelude.thy ===== *)
theory Pollek_Prelude
  imports Complex_Main "HOL-Library.Word" "HOL-Library.AList" "HOL-Library.Sublist"
begin

text \<open>
  Shared vocabulary of the development.

  \<^item> Machine integers: the release profile of the workspace (\<^verbatim>\<open>src/Cargo.toml\<close>) leaves
    overflow checks off, so \<^verbatim>\<open>u32\<close>, \<^verbatim>\<open>u64\<close> and \<^verbatim>\<open>usize\<close> counters are words whose
    addition wraps, and \<^verbatim>\<open>i64\<close> values are integers in the two's complement range with the
    wrap-around written out (\<open>i64_wrap\<close>).
  \<^item> Time: an \<^verbatim>\<open>Instant\<close> and a \<^verbatim>\<open>Duration\<close> are natural numbers of nanoseconds, so that
    the truncated subtraction of \<open>nat\<close> is \<^verbatim>\<open>Instant::duration_since\<close>, which saturates at zero.
  \<^item> Strings are the bytes of the UTF-8 text; \<^verbatim>\<open>HashMap\<close> and the insertion-ordered map of
    \<^verbatim>\<open>serde_json\<close> are association lists updated in place by \<open>AList.update\<close>.
  \<^item> Every finite \<^verbatim>\<open>f64\<close> is a rational number; the model computes with rationals and leaves
    the rounding of floating-point operations out.
  \<^item> A fallible call returns a sum: \<open>Inl\<close> is the error, \<open>Inr\<close> the value.
\<close>

type_synonym u32 = "32 word"
type_synonym u64 = "64 word"
type_synonym usize = "64 word"
type_synonym f64 = rat
type_synonym instant = nat
type_synonym duration = nat
type_synonym ('e, 'a) result = "'e + 'a"

named_theorems step_simps "equations that compute one step of a component"
named_theorems frame_simps "what an operation leaves unchanged"
named_theorems inv_intros "invariants an operation preserves"

definition from_secs :: "nat \<Rightarrow> duration" where
  "from_secs s = s * 1000000000"

definition from_millis :: "nat \<Rightarrow> duration" where
  "from_millis m = m * 1000000"

definition as_secs_f64 :: "duration \<Rightarrow> f64" where
  "as_secs_f64 d = of_nat d / 1000000000"

lemma as_secs_f64_nonneg [simp]: "0 \<le> as_secs_f64 d"
  by (simp add: as_secs_f64_def)

lemma as_secs_f64_add: "as_secs_f64 (a + b) = as_secs_f64 a + as_secs_f64 b"
  by (simp add: as_secs_f64_def add_divide_distrib)

subsection \<open>Words\<close>

lemma unat_plus_one_if_bound:
  assumes "unat (x :: 'a::len word) < unat (y :: 'a::len word)"
  shows "unat (x + 1) = unat x + 1"
proof -
  have "unat y < 2 ^ LENGTH('a)" by (rule unsigned_less)
  with assms have "unat x + 1 < 2 ^ LENGTH('a)" by linarith
  then show ?thesis by (simp add: unat_word_ariths)
qed

lemma unat_plus_one_if_less: "(x :: 'a::len word) < y \<Longrightarrow> unat (x + 1) = unat x + 1"
  by (rule unat_plus_one_if_bound) (simp add: word_less_nat_alt)

subsection \<open>Signed 64-bit integers\<close>

abbreviation i64_min :: int where "i64_min \<equiv> - 9223372036854775808"
abbreviation i64_max :: int where "i64_max \<equiv> 9223372036854775807"

definition i64_range :: "int \<Rightarrow> bool" where
  "i64_range x \<longleftrightarrow> i64_min \<le> x \<and> x \<le> i64_max"

definition i64_wrap :: "int \<Rightarrow> int" where
  "i64_wrap x = (x + 9223372036854775808) mod 18446744073709551616 - 9223372036854775808"

definition i64_saturating_sub :: "int \<Rightarrow> int \<Rightarrow> int" where
  "i64_saturating_sub a b = max i64_min (min i64_max (a - b))"

lemma i64_wrap_range [simp]: "i64_range (i64_wrap x)"
proof -
  have "0 \<le> (x + 9223372036854775808) mod 18446744073709551616"
    and "(x + 9223372036854775808) mod 18446744073709551616 < 18446744073709551616"
    by simp_all
  then show ?thesis unfolding i64_range_def i64_wrap_def by linarith
qed

lemma i64_wrap_id: "i64_range x \<Longrightarrow> i64_wrap x = x"
  by (simp add: i64_range_def i64_wrap_def)

lemma i64_saturating_sub_range [simp]: "i64_range (i64_saturating_sub a b)"
  by (auto simp: i64_range_def i64_saturating_sub_def)

lemma i64_saturating_sub_id: "i64_range (a - b) \<Longrightarrow> i64_saturating_sub a b = a - b"
  by (simp add: i64_range_def i64_saturating_sub_def)

subsection \<open>Decimal printing\<close>

definition digit_char :: "nat \<Rightarrow> char" where
  "digit_char d = char_of (48 + d)"

fun show_nat :: "nat \<Rightarrow> string" where
  "show_nat n = (if n < 10 then [digit_char n] else show_nat (n div 10) @ [digit_char (n mod 10)])"

declare show_nat.simps [simp del]

definition show_int :: "int \<Rightarrow> string" where
  "show_int i = (if i < 0 then CHR ''-'' # show_nat (nat (- i)) else show_nat (nat i))"

definition show_bool :: "bool \<Rightarrow> string" where
  "show_bool b = (if b then ''true'' else ''false'')"

subsection \<open>Strings\<close>

definition starts_with :: "string \<Rightarrow> string \<Rightarrow> bool" where
  "starts_with s p \<longleftrightarrow> take (length p) s = p"

definition ends_with :: "string \<Rightarrow> string \<Rightarrow> bool" where
  "ends_with s p \<longleftrightarrow> starts_with (rev s) (rev p)"

fun str_contains :: "string \<Rightarrow> string \<Rightarrow> bool" where
  "str_contains [] p \<longleftrightarrow> p = []"
| "str_contains (c # s) p \<longleftrightarrow> starts_with (c # s) p \<or> str_contains s p"

lemma starts_with_prefix: "starts_with s p \<longleftrightarrow> prefix p s"
  by (metis append_eq_conv_conj append_take_drop_id prefix_def starts_with_def)

lemma ends_with_suffix: "ends_with s p \<longleftrightarrow> suffix p s"
  by (simp add: ends_with_def starts_with_prefix suffix_to_prefix)

lemma str_contains_sublist: "str_contains s p \<longleftrightarrow> sublist p s"
  by (induction s) (auto simp: starts_with_prefix sublist_Cons_right)

subsection \<open>Lists\<close>

lemma find_filter_hd: "filter P xs = y # ys \<Longrightarrow> find P xs = Some y"
  by (induction xs) (auto split: if_splits)

subsection \<open>Association lists\<close>

lemma map_of_update [simp]: "map_of (AList.update k v xs) k' = (if k' = k then Some v else map_of xs k')"
  by (simp add: AList.update_conv')

lemma map_of_update_fun: "map_of (AList.update k v xs) = (map_of xs)(k \<mapsto> v)"
  by (simp add: AList.update_conv')

subsection \<open>Keyed stores\<close>

text \<open>
  The contract of a store updated key by key: a lookup sees the update of its own key and no other.
  Then a whole batch of updates leaves at every key the last update for it.
\<close>

locale upsert_store =
  fixes lookup :: "'s \<Rightarrow> 'k \<Rightarrow> 'v option"
    and upsert :: "'s \<Rightarrow> 'i \<Rightarrow> 's"
    and key_of :: "'i \<Rightarrow> 'k"
    and val_of :: "'i \<Rightarrow> 'v"
    and ok :: "'s \<Rightarrow> bool"
  assumes ok_upsert: "ok s \<Longrightarrow> ok (upsert s i)"
    and lookup_upsert: "ok s \<Longrightarrow> lookup (upsert s i) k = (if k = key_of i then Some (val_of i) else lookup s k)"
begin

lemma ok_batch: "ok s \<Longrightarrow> ok (foldl upsert s us)"
  by (induction us arbitrary: s) (auto intro: ok_upsert)

lemma lookup_batch:
  "ok s \<Longrightarrow> lookup (foldl upsert s us) k =
     (case find (\<lambda>i. key_of i = k) (rev us) of Some i \<Rightarrow> Some (val_of i) | None \<Rightarrow> lookup s k)"
  by (induction us rule: rev_induct) (auto simp: lookup_upsert ok_batch)

lemma lookup_batch_untouched:
  "ok s \<Longrightarrow> \<forall>i\<in>set us. key_of i \<noteq> k \<Longrightarrow> lookup (foldl upsert s us) k = lookup s k"
  by (induction us arbitrary: s) (auto simp: lookup_upsert ok_upsert)

end

subsection \<open>Invariants of transition systems\<close>

text \<open>
  The contract every stateful component of the development discharges: its initial states
  satisfy the invariant and each of its steps keeps it; then every reachable state satisfies it.
\<close>

locale invariant_system =
  fixes init :: "'s \<Rightarrow> bool"
    and step :: "'s \<Rightarrow> 's \<Rightarrow> bool"
    and inv :: "'s \<Rightarrow> bool"
  assumes inv_init: "init s \<Longrightarrow> inv s"
    and inv_step: "step s t \<Longrightarrow> inv s \<Longrightarrow> inv t"
begin

lemma inv_steps: "step\<^sup>*\<^sup>* s t \<Longrightarrow> inv s \<Longrightarrow> inv t"
  by (induction rule: rtranclp_induct) (auto intro: inv_step)

lemma inv_reachable: "init s \<Longrightarrow> step\<^sup>*\<^sup>* s t \<Longrightarrow> inv t"
  using inv_init inv_steps by blast

end

end
