(* ===== verification/Json_Value.thy ===== *)
theory Json_Value
  imports Pollek_Prelude
begin

text \<open>
  The part of \<^verbatim>\<open>serde_json::Value\<close> the crates use: the value type, its accessors and the update of
  an object. The workspace builds \<^verbatim>\<open>serde_json\<close> with insertion-ordered maps (\<^verbatim>\<open>indexmap\<close> in
  \<^verbatim>\<open>src/Cargo.lock\<close>), so an object is an association list and inserting a key replaces its value in
  place or appends. Parsing and printing JSON text are third-party code: parameters where needed.
\<close>

datatype json =
    JNull
  | JBool bool
  | JInt int
  | JFloat f64
  | JStr string
  | JArr "json list"
  | JObj "(string \<times> json) list"

fun json_get :: "json \<Rightarrow> string \<Rightarrow> json option" where
  "json_get (JObj m) k = map_of m k"
| "json_get _ k = None"

definition json_has :: "json \<Rightarrow> string \<Rightarrow> bool" where
  "json_has j k \<longleftrightarrow> json_get j k \<noteq> None"

definition or_else :: "'a option \<Rightarrow> 'a option \<Rightarrow> 'a option" where
  "or_else a b = (case a of Some x \<Rightarrow> Some x | None \<Rightarrow> b)"

text \<open>\<^verbatim>\<open>value[key]\<close>: a missing key reads as null.\<close>

definition json_index :: "json \<Rightarrow> string \<Rightarrow> json" where
  "json_index j k = (case json_get j k of Some v \<Rightarrow> v | None \<Rightarrow> JNull)"

fun as_str :: "json \<Rightarrow> string option" where
  "as_str (JStr s) = Some s"
| "as_str _ = None"

fun as_bool :: "json \<Rightarrow> bool option" where
  "as_bool (JBool b) = Some b"
| "as_bool _ = None"

fun as_array :: "json \<Rightarrow> json list option" where
  "as_array (JArr xs) = Some xs"
| "as_array _ = None"

fun as_object :: "json \<Rightarrow> (string \<times> json) list option" where
  "as_object (JObj m) = Some m"
| "as_object _ = None"

fun as_u64 :: "json \<Rightarrow> nat option" where
  "as_u64 (JInt i) = (if 0 \<le> i \<and> i < 18446744073709551616 then Some (nat i) else None)"
| "as_u64 _ = None"

definition is_object :: "json \<Rightarrow> bool" where
  "is_object j \<longleftrightarrow> as_object j \<noteq> None"

definition is_null :: "json \<Rightarrow> bool" where
  "is_null j \<longleftrightarrow> j = JNull"

text \<open>\<^verbatim>\<open>value[key] = v\<close> on an object; null becomes an object first (other values panic, and no caller
  in the model has one).\<close>

fun json_insert :: "json \<Rightarrow> string \<Rightarrow> json \<Rightarrow> json" where
  "json_insert (JObj m) k v = JObj (AList.update k v m)"
| "json_insert JNull k v = JObj [(k, v)]"
| "json_insert j k v = j"

definition json_insert_all :: "json \<Rightarrow> (string \<times> json) list \<Rightarrow> json" where
  "json_insert_all j kvs = fold (\<lambda>(k, v) acc. json_insert acc k v) kvs j"

abbreviation json_empty :: json where "json_empty \<equiv> JObj []"

abbreviation get_str :: "json \<Rightarrow> string \<Rightarrow> string option" where
  "get_str j k \<equiv> Option.bind (json_get j k) as_str"

lemma json_get_insert [simp]:
  "json_get (json_insert (JObj m) k v) k' = (if k' = k then Some v else json_get (JObj m) k')"
  by simp

lemma json_insert_is_obj: "\<exists>m'. json_insert (JObj m) k v = JObj m'"
  by simp

lemma json_insert_all_Nil [simp]: "json_insert_all j [] = j"
  by (simp add: json_insert_all_def)

lemma json_insert_all_Cons [simp]:
  "json_insert_all j (kv # kvs) = json_insert_all (json_insert j (fst kv) (snd kv)) kvs"
  by (simp add: json_insert_all_def split_def)

lemma json_insert_all_obj: "\<exists>m'. json_insert_all (JObj m) kvs = JObj m'"
  by (induction kvs arbitrary: m) auto

text \<open>After inserting a list of bindings, a key has its last binding, or else its old value.\<close>

lemma json_get_insert_all:
  "json_get (json_insert_all (JObj m) kvs) k =
     (case map_of (rev kvs) k of Some v \<Rightarrow> Some v | None \<Rightarrow> map_of m k)"
  by (induction kvs arbitrary: m) (auto simp: map_add_def split: option.splits)

end
