(* ===== verification/Policy_Runtime.thy ===== *)
theory Policy_Runtime
  imports Json_Value
begin

text \<open>
  \<^verbatim>\<open>src/crates/dek-policy-runtime/src/lib.rs\<close> and \<^verbatim>\<open>explanation.rs\<close>: the decision type every
  evaluator returns, the error type, the mock evaluator, the WebAssembly evaluator and the probe of a
  local PDP. The WebAssembly engine and the JSON text parser are parameters: what the engine did with
  the module (\<open>wasm_run\<close>), and the parser's partial function from text to value.
\<close>

datatype policy_error = Unavailable string | Invalid string | Eval string

fun show_policy_error :: "policy_error \<Rightarrow> string" where
  "show_policy_error (Unavailable m) = ''policy backend unavailable: '' @ m"
| "show_policy_error (Invalid m) = ''invalid policy or input: '' @ m"
| "show_policy_error (Eval m) = ''evaluation error: '' @ m"

datatype status_badge = BadgeOk | BadgeDegraded | BadgeFailed | BadgeActionNeeded

text \<open>
  Thai user texts: one constructor for each literal of the sources (which are not ASCII), and one for
  texts that come from an evaluator.
\<close>

datatype th_text =
    ThText string
  | ThPdpUnavailable
  | ThPdpError
  | ThPdpTimeout
  | ThEvaluatorMissing string

record decision_explanation =
  ex_decision :: string
  ex_allow :: bool
  ex_pdp_engine :: "string option"
  ex_pdp_reason_th :: th_text
  ex_pep_plane :: string
  ex_pep_capability :: string
  ex_pep_reason_th :: th_text
  ex_enforced_for_real :: bool
  ex_success :: bool
  ex_status_badge :: status_badge
  ex_user_action_th :: "th_text option"
  ex_correlation_id :: string

record policy_decision =
  pd_evaluator_id :: string
  pd_evaluator_type :: string
  pd_required :: bool
  pd_status :: string
  pd_decision :: string
  pd_allow :: bool
  pd_reason :: string
  pd_effects :: json
  pd_obligations :: "string list"
  pd_metadata :: json
  pd_explanation :: "decision_explanation option"
  pd_user_action_required :: bool
  pd_user_action_th :: "th_text option"

type_synonym policy_result = "(policy_error, policy_decision) result"

text \<open>A decision is coherent when its text agrees with its verdict.\<close>

definition coherent :: "policy_decision \<Rightarrow> bool" where
  "coherent d \<longleftrightarrow> pd_decision d = (if pd_allow d then ''allow'' else ''deny'')"

subsection \<open>The mock evaluator\<close>

definition mock_evaluate :: "json \<Rightarrow> policy_result" where
  "mock_evaluate input =
     (let allow = (case json_get input ''mcp'' of
            Some mcp \<Rightarrow> (case json_get mcp ''tool_name'' of
                Some tool \<Rightarrow> as_str tool = Some ''safe.echo''
              | None \<Rightarrow> False)
          | None \<Rightarrow> False)
      in Inr \<lparr>pd_evaluator_id = ''opa_wasm_mock'', pd_evaluator_type = ''local_pdp'', pd_required = True,
          pd_status = ''success'', pd_decision = (if allow then ''allow'' else ''deny''), pd_allow = allow,
          pd_reason = (if allow then ''allowed by guardrail policy'' else ''tool is not allowed''),
          pd_effects = JObj [(''audit'', JBool True)], pd_obligations = [''write_decision_log''],
          pd_metadata = JObj [(''version'', JStr ''mock-v0.1.0'')], pd_explanation = None,
          pd_user_action_required = False, pd_user_action_th = None\<rparr>)"

subsection \<open>The WebAssembly evaluator\<close>

record wasm_profile =
  max_memory_bytes :: nat
  max_fuel :: nat

definition default_wasm_profile :: wasm_profile where
  "default_wasm_profile = \<lparr>max_memory_bytes = 10 * 1024 * 1024, max_fuel = 1000000\<rparr>"

datatype wasm_trap = OutOfFuel | OtherTrap string

text \<open>
  What the engine reports for one run of the policy module: setting the fuel, instantiating or
  looking up \<^verbatim>\<open>_start\<close> fails; the call traps or fails otherwise; or it returns with this output.
\<close>

datatype wasm_run =
    SetFuelError string
  | InstantiateError string
  | StartMissing string
  | CallTrapped wasm_trap
  | CallFailed string
  | CallReturned string

definition wasm_evaluate :: "(string \<Rightarrow> json option) \<Rightarrow> (wasm_profile \<Rightarrow> json \<Rightarrow> wasm_run) \<Rightarrow>
    wasm_profile \<Rightarrow> string \<Rightarrow> json \<Rightarrow> policy_result" where
  "wasm_evaluate parse engine profile wasm_path input =
     (let finish = (\<lambda>allow reason. Inr
          \<lparr>pd_evaluator_id = ''opa_wasm_native'', pd_evaluator_type = ''wasm_pdp'', pd_required = True,
           pd_status = ''success'', pd_decision = (if allow then ''allow'' else ''deny''), pd_allow = allow,
           pd_reason = reason, pd_effects = json_empty, pd_obligations = [],
           pd_metadata = JObj [(''wasm_path'', JStr wasm_path)], pd_explanation = None,
           pd_user_action_required = False, pd_user_action_th = None\<rparr>)
      in case engine profile input of
           SetFuelError e \<Rightarrow> Inl (Eval (''failed to set fuel: '' @ e))
         | InstantiateError e \<Rightarrow> Inl (Eval (''instantiate: '' @ e))
         | StartMissing e \<Rightarrow> Inl (Eval (''get _start: '' @ e))
         | CallTrapped OutOfFuel \<Rightarrow>
             finish False ''WASM execution failed: out of fuel (CPU/instruction limit exceeded)''
         | CallTrapped (OtherTrap t) \<Rightarrow> finish False (''WASM execution failed: wasm trap: '' @ t)
         | CallFailed e \<Rightarrow> finish False (''WASM execution failed: '' @ e)
         | CallReturned out \<Rightarrow>
             (case parse out of
                None \<Rightarrow> finish False (''Failed to parse WASM output JSON: '' @ out)
              | Some v \<Rightarrow>
                  finish (case Option.bind (json_get v ''allow'') as_bool of Some b \<Rightarrow> b | None \<Rightarrow> False)
                    (case get_str v ''reason'' of Some r \<Rightarrow> r | None \<Rightarrow> ''Executed WASM policy'')))"

subsection \<open>Probing a local PDP\<close>

record pdp_probe_result =
  probe_status :: string
  probe_latency_ms :: nat
  probe_message :: string

definition probe_input :: json where
  "probe_input = JObj [(''principal'', JStr ''agent:test''), (''action'', JStr ''tool.call''),
     (''resource'', JStr ''tool:test''), (''context'', JObj [(''probe'', JBool True)])]"

definition probe_local_pdp :: "(json \<Rightarrow> policy_result) \<Rightarrow> nat \<Rightarrow> pdp_probe_result" where
  "probe_local_pdp evaluate elapsed_ms =
     (case evaluate probe_input of
        Inr d \<Rightarrow> \<lparr>probe_status = ''ready'', probe_latency_ms = elapsed_ms,
                   probe_message = ''probe decision: '' @ show_bool (pd_allow d)\<rparr>
      | Inl e \<Rightarrow> \<lparr>probe_status = ''misconfigured'', probe_latency_ms = elapsed_ms,
                   probe_message = show_policy_error e\<rparr>)"

subsection \<open>Properties\<close>

lemma mock_evaluate_coherent: "mock_evaluate input = Inr d \<Longrightarrow> coherent d"
  by (auto simp: mock_evaluate_def Let_def coherent_def)

text \<open>
  The WebAssembly evaluator fails closed: whatever the engine does and whatever the parser
  accepts, it reports an allow exactly when the module returned normally with an output that parses
  to an object whose \<open>allow\<close> member is the boolean true. A trap, an exhausted fuel budget, output
  that is not JSON or has no boolean \<open>allow\<close> is a deny or an error.
\<close>

lemma wasm_evaluate_fail_closed:
  "(\<exists>d. wasm_evaluate parse engine profile path input = Inr d \<and> pd_allow d) \<longleftrightarrow>
     (\<exists>out v. engine profile input = CallReturned out \<and> parse out = Some v \<and>
        json_get v ''allow'' = Some (JBool True))"
proof -
  have *: "(case Option.bind (json_get v ''allow'') as_bool of Some b \<Rightarrow> b | None \<Rightarrow> False) \<longleftrightarrow>
      json_get v ''allow'' = Some (JBool True)" for v
    by (cases "json_get v ''allow''"; cases "the (json_get v ''allow'')") auto
  show ?thesis
    by (cases "engine profile input")
      (auto simp: wasm_evaluate_def Let_def * split: option.splits wasm_trap.splits)
qed

lemma wasm_evaluate_coherent: "wasm_evaluate parse engine profile path input = Inr d \<Longrightarrow> coherent d"
  by (auto simp: wasm_evaluate_def Let_def coherent_def split: wasm_run.splits wasm_trap.splits option.splits)

end
