(* ===== verification/Engine_Selection.thy ===== *)
theory Engine_Selection
  imports Policy_Runtime
begin

text \<open>
  The pure parts of \<^verbatim>\<open>src/crates/dek-policy-router\<close>: the route data model (\<^verbatim>\<open>lib.rs\<close>), the
  extraction of the request context (\<^verbatim>\<open>context.rs\<close>), route matching (\<^verbatim>\<open>route_matcher.rs\<close>), the
  automatic engine choice (\<^verbatim>\<open>engine_selector.rs\<close>), the evaluation plan (\<^verbatim>\<open>engine_plan.rs\<close>) and
  the combination of verdicts (\<^verbatim>\<open>merge.rs\<close>).
\<close>

subsection \<open>Routes\<close>

datatype enforcement_mode = Standard | FailClosed | ObserveOnly | BreakGlass

datatype pdp_route_mode =
    LocalOnly
  | LocalPrimaryRemoteFallback
  | RemotePrimaryLocalFallback
  | CloudPrimaryLocalFallback
  | ShadowRemote
  | MirrorAuditOnly
  | StrictRemote

datatype pdp_failure_behavior = FbDeny | FbAllow | FbFallback | FbLastKnownGood | FbNotApplicable

datatype failover_strategy = Priority | HealthBased | RoundRobin | LeastLatency

record enterprise_match_rule =
  mr_method :: "string option"
  mr_tool_category :: "string option"
  mr_resource_type :: "string option"
  mr_severity_level :: "string option"

record conditional_pdp =
  cp_evaluator :: string
  cp_required_payload_key :: string

record route =
  route_id :: string
  route_priority :: int
  route_enforcement_mode :: enforcement_mode
  route_match_rule :: enterprise_match_rule
  route_mode :: pdp_route_mode
  primary_pdp_id :: string
  fallback_pdp_ids :: "string list"
  shadow_pdp_ids :: "string list"
  merge_strategy :: string
  failure_behavior :: pdp_failure_behavior
  pdp_required :: "string list"
  pdp_pool :: "string list"
  route_failover_strategy :: failover_strategy
  pdp_conditional :: "conditional_pdp list"

definition default_merge_strategy :: string where
  "default_merge_strategy = ''override''"

fun debug_enforcement_mode :: "enforcement_mode \<Rightarrow> string" where
  "debug_enforcement_mode Standard = ''Standard''"
| "debug_enforcement_mode FailClosed = ''FailClosed''"
| "debug_enforcement_mode ObserveOnly = ''ObserveOnly''"
| "debug_enforcement_mode BreakGlass = ''BreakGlass''"

subsection \<open>Request context\<close>

record policy_context =
  ctx_payload :: json
  ctx_method :: string
  ctx_tool_category :: "string option"
  ctx_resource_type :: "string option"
  ctx_severity_level :: "string option"

definition context_extract :: "json \<Rightarrow> policy_context" where
  "context_extract payload =
     \<lparr>ctx_payload = payload,
      ctx_method =
        (case or_else (get_str payload ''request_type'')
            (or_else (Option.bind (json_get payload ''mcp'') (\<lambda>mcp. get_str mcp ''method''))
               (get_str payload ''action'')) of
           Some m \<Rightarrow> m | None \<Rightarrow> ''''),
      ctx_tool_category = Option.bind (json_get payload ''mcp'') (\<lambda>mcp. get_str mcp ''category''),
      ctx_resource_type =
        Option.bind (json_get payload ''resource'') (\<lambda>v.
          if is_object v
          then Option.bind (or_else (json_get v ''kind'')
                 (or_else (json_get v ''resource_type'') (json_get v ''type''))) as_str
          else as_str v),
      ctx_severity_level = get_str payload ''severity''\<rparr>"

subsection \<open>Route matching\<close>

definition route_matches :: "route \<Rightarrow> policy_context \<Rightarrow> bool" where
  "route_matches r ctx \<longleftrightarrow>
     (case mr_method (route_match_rule r) of None \<Rightarrow> True
      | Some m \<Rightarrow> \<not> (m \<noteq> ''*'' \<and> m \<noteq> ctx_method ctx)) \<and>
     (case mr_tool_category (route_match_rule r) of None \<Rightarrow> True
      | Some c \<Rightarrow> \<not> (Some c \<noteq> ctx_tool_category ctx \<and> c \<noteq> ''*'')) \<and>
     (case mr_resource_type (route_match_rule r) of None \<Rightarrow> True
      | Some t \<Rightarrow> \<not> (Some t \<noteq> ctx_resource_type ctx \<and> t \<noteq> ''*'')) \<and>
     (case mr_severity_level (route_match_rule r) of None \<Rightarrow> True
      | Some s \<Rightarrow> \<not> (Some s \<noteq> ctx_severity_level ctx \<and> s \<noteq> ''*''))"

definition no_route_decision :: policy_decision where
  "no_route_decision =
     \<lparr>pd_evaluator_id = ''router_default'', pd_evaluator_type = ''router'', pd_required = True,
      pd_status = ''success'', pd_decision = ''deny'', pd_allow = False, pd_reason = ''no matching route'',
      pd_effects = json_empty, pd_obligations = [],
      pd_metadata = JObj [(''reason'', JStr ''no route matched'')], pd_explanation = None,
      pd_user_action_required = False, pd_user_action_th = None\<rparr>"

fun match_route :: "route list \<Rightarrow> policy_context \<Rightarrow> (policy_decision, route) result" where
  "match_route [] ctx = Inl no_route_decision"
| "match_route (r # rs) ctx = (if route_matches r ctx then Inr r else match_route rs ctx)"

subsection \<open>Automatic engine choice\<close>

datatype decision_kind = Authorization | Relationship | ComplexLogic | NetworkEgress

definition infer_kind :: "string \<Rightarrow> json \<Rightarrow> decision_kind" where
  "infer_kind method payload =
     (if starts_with method ''net.'' \<or> starts_with method ''network.'' \<or>
         json_has payload ''destination'' \<or> json_has payload ''egress''
      then NetworkEgress
      else if json_has payload ''relation'' \<or> (json_has payload ''object'' \<and> json_has payload ''subject'')
      then Relationship
      else if json_has payload ''rego_query'' \<or>
         Option.bind (json_get payload ''complex'') as_bool = Some True
      then ComplexLogic
      else Authorization)"

fun preference :: "decision_kind \<Rightarrow> string list" where
  "preference Authorization = [''cedar'', ''opa_wasm'', ''openfga'']"
| "preference Relationship = [''openfga'', ''cedar'', ''opa_wasm'']"
| "preference ComplexLogic = [''opa_wasm'', ''cedar'', ''openfga'']"
| "preference NetworkEgress = [''ebpf'', ''cedar'', ''opa_wasm'']"

definition select_engine :: "decision_kind \<Rightarrow> string list \<Rightarrow> string option" where
  "select_engine kind available = find (\<lambda>e. list_ex (\<lambda>a. a = e) available) (preference kind)"

definition resolve_engine :: "string \<Rightarrow> json \<Rightarrow> string list \<Rightarrow> string option" where
  "resolve_engine method payload available = select_engine (infer_kind method payload) available"

record pdp_choice =
  pc_engine_id :: "string option"
  pc_kind :: decision_kind
  pc_considered :: "string list"
  pc_reason_code :: string

definition resolve_explained :: "string \<Rightarrow> json \<Rightarrow> string list \<Rightarrow> pdp_choice" where
  "resolve_explained method payload pdp_types =
     (let kind = infer_kind method payload;
          pref = preference kind;
          chosen = find (\<lambda>e. list_ex (\<lambda>a. a = e) pdp_types) pref
      in \<lparr>pc_engine_id = chosen, pc_kind = kind, pc_considered = pref,
          pc_reason_code = (case chosen of
               Some e \<Rightarrow> if (case pref of p # _ \<Rightarrow> p = e | [] \<Rightarrow> False) then ''selected'' else ''fallback''
             | None \<Rightarrow> ''none_available'')\<rparr>)"

subsection \<open>Evaluation plan\<close>

record engine_plan =
  plan_evaluate_queue :: "string list"
  plan_fallback_queue :: "string list"
  plan_shadow_pdps :: "string list"

definition engine_plan_build :: "route \<Rightarrow> policy_context \<Rightarrow> string list \<Rightarrow> string option \<Rightarrow> engine_plan option" where
  "engine_plan_build r ctx available selected_pool_pdp =
     (let to_evaluate = pdp_required r @
            map cp_evaluator (filter (\<lambda>c. json_has (ctx_payload ctx) (cp_required_payload_key c) \<or>
                cp_required_payload_key c = ''*'') (pdp_conditional r)) @
            (case selected_pool_pdp of Some p \<Rightarrow> [p] | None \<Rightarrow> []);
          finish = (\<lambda>q. Some \<lparr>plan_evaluate_queue = (if primary_pdp_id r \<noteq> '''' then primary_pdp_id r # q else q),
             plan_fallback_queue = fallback_pdp_ids r, plan_shadow_pdps = shadow_pdp_ids r\<rparr>)
      in if to_evaluate = [] \<and> primary_pdp_id r = ''''
         then (case resolve_engine (ctx_method ctx) (ctx_payload ctx) available of
                 Some engine \<Rightarrow> finish [engine] | None \<Rightarrow> None)
         else finish to_evaluate)"

subsection \<open>Combining verdicts\<close>

definition initial_decision :: policy_decision where
  "initial_decision =
     \<lparr>pd_evaluator_id = ''router_combiner'', pd_evaluator_type = ''router'', pd_required = True,
      pd_status = ''success'', pd_decision = ''allow'', pd_allow = True,
      pd_reason = ''All evaluators passed'', pd_effects = json_empty, pd_obligations = [],
      pd_metadata = json_empty, pd_explanation = None, pd_user_action_required = False,
      pd_user_action_th = None\<rparr>"

definition merge_effects :: "json \<Rightarrow> json \<Rightarrow> json" where
  "merge_effects combined res =
     (case combined of
        JObj cm \<Rightarrow> (case res of JObj rm \<Rightarrow> json_insert_all (JObj cm) rm | _ \<Rightarrow> JObj cm)
      | _ \<Rightarrow> combined)"

definition merge_deny :: "policy_decision \<Rightarrow> policy_decision \<Rightarrow> policy_decision" where
  "merge_deny combined res =
     (if \<not> pd_allow res
      then combined\<lparr>pd_allow := False, pd_decision := ''deny'', pd_reason := pd_reason res\<rparr>
      else combined)"

definition merge_decision :: "policy_decision \<Rightarrow> policy_decision \<Rightarrow> string \<Rightarrow> policy_decision" where
  "merge_decision combined res strategy =
     (let c = combined
          \<lparr>pd_obligations := pd_obligations combined @ pd_obligations res,
           pd_user_action_required := (pd_user_action_required combined \<or> pd_user_action_required res),
           pd_user_action_th := or_else (pd_user_action_th combined) (pd_user_action_th res),
           pd_effects := merge_effects (pd_effects combined) (pd_effects res)\<rparr>
      in if strategy = ''deny_overrides'' then merge_deny c res
         else if strategy = ''permit_overrides'' then
           (if pd_allow res
            then c\<lparr>pd_allow := True, pd_decision := ''allow'', pd_reason := pd_reason res\<rparr> else c)
         else if strategy = ''first_applicable'' then
           (if pd_reason c = ''All evaluators passed''
            then c\<lparr>pd_allow := pd_allow res, pd_decision := pd_decision res, pd_reason := pd_reason res\<rparr>
            else c)
         else merge_deny c res)"

subsection \<open>Facts about matching, planning and merging\<close>

lemma match_route_Inr:
  "match_route rs ctx = Inr r \<longleftrightarrow>
     (\<exists>pre post. rs = pre @ r # post \<and> route_matches r ctx \<and> (\<forall>r' \<in> set pre. \<not> route_matches r' ctx))"
proof (induction rs)
  case Nil
  then show ?case by simp
next
  case (Cons a rs)
  show ?case
  proof (cases "route_matches a ctx")
    case True
    then show ?thesis by (auto simp: Cons_eq_append_conv)
  next
    case False
    then have "match_route (a # rs) ctx = match_route rs ctx" by simp
    with Cons False show ?thesis
      by (auto simp: Cons_eq_append_conv) (metis append_Cons set_ConsD)
  qed
qed

lemma match_route_Inl:
  "match_route rs ctx = Inl d \<longleftrightarrow> d = no_route_decision \<and> (\<forall>r \<in> set rs. \<not> route_matches r ctx)"
  by (induction rs) auto

lemma select_engine_in_available:
  "select_engine kind available = Some e \<Longrightarrow> e \<in> set available \<and> e \<in> set (preference kind)"
  by (auto simp: select_engine_def find_Some_iff list_ex_iff)

lemma select_engine_None:
  "select_engine kind available = None \<longleftrightarrow> set (preference kind) \<inter> set available = {}"
  by (auto simp: select_engine_def find_None_iff list_ex_iff)

lemma engine_plan_queue_nonempty:
  "engine_plan_build r ctx available p = Some pl \<Longrightarrow> plan_evaluate_queue pl \<noteq> []"
  by (auto simp: engine_plan_build_def Let_def split: if_splits option.splits)

lemma engine_plan_fallback:
  "engine_plan_build r ctx available p = Some pl \<Longrightarrow>
     plan_fallback_queue pl = fallback_pdp_ids r \<and> plan_shadow_pdps pl = shadow_pdp_ids r"
  by (auto simp: engine_plan_build_def Let_def split: if_splits option.splits)

text \<open>The strategies under which a deny can never be taken back by a later verdict.\<close>

definition deny_wins :: "string \<Rightarrow> bool" where
  "deny_wins strategy \<longleftrightarrow> strategy \<noteq> ''permit_overrides'' \<and> strategy \<noteq> ''first_applicable''"

lemma merge_deny_wins:
  "deny_wins strategy \<Longrightarrow> pd_allow (merge_decision c res strategy) \<longleftrightarrow> pd_allow c \<and> pd_allow res"
  by (auto simp: deny_wins_def merge_decision_def merge_deny_def Let_def)

lemma merge_obligations:
  "pd_obligations (merge_decision c res strategy) = pd_obligations c @ pd_obligations res"
  by (simp add: merge_decision_def merge_deny_def Let_def)

lemma merge_permit:
  "pd_allow c \<Longrightarrow> pd_allow (merge_decision c res ''permit_overrides'')"
  by (simp add: merge_decision_def Let_def)

lemma merge_effects_get:
  "json_get (merge_effects (JObj m) (JObj rm)) k = (case map_of (rev rm) k of Some v \<Rightarrow> Some v | None \<Rightarrow> map_of m k)"
  by (simp add: merge_effects_def json_get_insert_all)

end
