(* ===== verification/Circuit_Breaker.thy ===== *)
theory Circuit_Breaker
  imports Pollek_Prelude
begin

text \<open>
  \<^verbatim>\<open>src/crates/dek-resilience/src/breaker.rs\<close>: the per-evaluator circuit breaker.

  The breaker's mutex-protected \<^verbatim>\<open>Inner\<close> and its configuration are one record; every method is a
  function from the breaker to the breaker, the clock being an argument as in the \<^verbatim>\<open>*_at\<close> methods.
  A poisoned mutex is recovered by the code (\<^verbatim>\<open>into_inner\<close>), so poisoning has no effect here.
  Logging and metrics are left out.
\<close>

subsection \<open>State and operations\<close>

record circuit_config =
  failure_threshold :: u32
  cooldown :: duration
  half_open_required_successes :: u32

definition default_circuit_config :: circuit_config where
  "default_circuit_config =
     \<lparr>failure_threshold = 5, cooldown = from_secs 10, half_open_required_successes = 2\<rparr>"

datatype cb_state = Closed | Open | HalfOpen

record circuit_breaker =
  cb_name :: string
  cb_cfg :: circuit_config
  cb_state :: cb_state
  consecutive_failures :: u32
  opened_at :: "instant option"
  half_open_successes :: u32
  half_open_inflight :: u32

datatype admit = Allow | Reject

definition circuit_breaker_new :: "string \<Rightarrow> circuit_config \<Rightarrow> circuit_breaker" where
  "circuit_breaker_new name cfg =
     \<lparr>cb_name = name, cb_cfg = cfg, cb_state = Closed, consecutive_failures = 0,
      opened_at = None, half_open_successes = 0, half_open_inflight = 0\<rparr>"

definition permitted_at :: "circuit_breaker \<Rightarrow> instant \<Rightarrow> admit \<times> circuit_breaker" where
  "permitted_at b now =
     (case cb_state b of
        Closed \<Rightarrow> (Allow, b)
      | Open \<Rightarrow>
          (let elapsed = (case opened_at b of Some t \<Rightarrow> now - t | None \<Rightarrow> 0)
           in if elapsed \<ge> cooldown (cb_cfg b)
              then (Allow, b\<lparr>cb_state := HalfOpen, half_open_successes := 0, half_open_inflight := 1\<rparr>)
              else (Reject, b))
      | HalfOpen \<Rightarrow>
          (if half_open_inflight b = 0
           then (Allow, b\<lparr>half_open_inflight := 1\<rparr>)
           else (Reject, b)))"

definition u32_saturating_sub :: "u32 \<Rightarrow> u32 \<Rightarrow> u32" where
  "u32_saturating_sub a b = (if a < b then 0 else a - b)"

definition on_success :: "circuit_breaker \<Rightarrow> circuit_breaker" where
  "on_success b =
     (case cb_state b of
        Closed \<Rightarrow> b\<lparr>consecutive_failures := 0\<rparr>
      | HalfOpen \<Rightarrow>
          (let b' = b\<lparr>half_open_inflight := u32_saturating_sub (half_open_inflight b) 1,
                      half_open_successes := half_open_successes b + 1\<rparr>
           in if half_open_successes b' \<ge> half_open_required_successes (cb_cfg b')
              then b'\<lparr>cb_state := Closed, consecutive_failures := 0, opened_at := None\<rparr>
              else b')
      | Open \<Rightarrow> b)"

definition on_failure_at :: "circuit_breaker \<Rightarrow> instant \<Rightarrow> circuit_breaker" where
  "on_failure_at b now =
     (case cb_state b of
        Closed \<Rightarrow>
          (let b' = b\<lparr>consecutive_failures := consecutive_failures b + 1\<rparr>
           in if consecutive_failures b' \<ge> failure_threshold (cb_cfg b')
              then b'\<lparr>cb_state := Open, opened_at := Some now\<rparr>
              else b')
      | HalfOpen \<Rightarrow>
          b\<lparr>cb_state := Open, opened_at := Some now, half_open_inflight := 0, half_open_successes := 0\<rparr>
      | Open \<Rightarrow> b)"

definition is_open :: "circuit_breaker \<Rightarrow> bool" where
  "is_open b \<longleftrightarrow> cb_state b = Open"

lemmas breaker_defs = permitted_at_def on_success_def on_failure_at_def is_open_def Let_def
  u32_saturating_sub_def

subsection \<open>The breaker as a transition system\<close>

inductive breaker_step :: "circuit_breaker \<Rightarrow> circuit_breaker \<Rightarrow> bool" where
  permit: "breaker_step b (snd (permitted_at b now))"
| success: "breaker_step b (on_success b)"
| failure: "breaker_step b (on_failure_at b now)"

inductive_cases breaker_stepE: "breaker_step b b'"

definition breaker_init :: "circuit_breaker \<Rightarrow> bool" where
  "breaker_init b \<longleftrightarrow> (\<exists>name cfg. b = circuit_breaker_new name cfg)"

text \<open>
  Well-formed breakers: a closed breaker has fewer failures than its threshold, an open one
  records when it opened, a half-open one has at most one probe in flight and fewer successes
  than it needs. The failure counter of a closed breaker can therefore never wrap.
\<close>

definition breaker_inv :: "circuit_breaker \<Rightarrow> bool" where
  "breaker_inv b \<longleftrightarrow>
     (case cb_state b of
        Closed \<Rightarrow> consecutive_failures b = 0 \<or> consecutive_failures b < failure_threshold (cb_cfg b)
      | Open \<Rightarrow> opened_at b \<noteq> None
      | HalfOpen \<Rightarrow> opened_at b \<noteq> None \<and> half_open_inflight b \<le> 1 \<and>
          (half_open_successes b = 0 \<or>
           half_open_successes b < half_open_required_successes (cb_cfg b)))"

lemma breaker_inv_new [inv_intros]: "breaker_inv (circuit_breaker_new name cfg)"
  by (simp add: breaker_inv_def circuit_breaker_new_def)

lemma breaker_inv_permitted [inv_intros]: "breaker_inv b \<Longrightarrow> breaker_inv (snd (permitted_at b now))"
  by (auto simp: breaker_inv_def breaker_defs split: cb_state.splits option.splits)

lemma u32_le_one_cases: "(x::u32) \<le> 1 \<Longrightarrow> x = 0 \<or> x = 1"
proof -
  assume "x \<le> 1"
  then have "unat x \<le> 1" by (simp add: word_le_nat_alt)
  then have "unat x = unat (0::u32) \<or> unat x = unat (1::u32)" by auto
  then show ?thesis by (simp only: word_unat_eq_iff)
qed

lemma breaker_inv_success [inv_intros]: "breaker_inv b \<Longrightarrow> breaker_inv (on_success b)"
  by (auto simp: breaker_inv_def breaker_defs not_le split: cb_state.splits dest!: u32_le_one_cases)

lemma breaker_inv_failure [inv_intros]: "breaker_inv b \<Longrightarrow> breaker_inv (on_failure_at b now)"
  by (auto simp: breaker_inv_def breaker_defs not_le split: cb_state.splits)

interpretation breaker_sys: invariant_system breaker_init breaker_step breaker_inv
  by unfold_locales (auto simp: breaker_init_def elim!: breaker_stepE intro: inv_intros)

lemma cfg_permitted [frame_simps]: "cb_cfg (snd (permitted_at b now)) = cb_cfg b"
  by (simp add: breaker_defs split: cb_state.split option.split)

lemma cfg_success [frame_simps]: "cb_cfg (on_success b) = cb_cfg b"
  by (simp add: breaker_defs split: cb_state.split)

lemma cfg_failure [frame_simps]: "cb_cfg (on_failure_at b now) = cb_cfg b"
  by (simp add: breaker_defs split: cb_state.split)

subsection \<open>Tripping\<close>

primrec fail_times :: "circuit_breaker \<Rightarrow> instant list \<Rightarrow> circuit_breaker" where
  "fail_times b [] = b"
| "fail_times b (t # ts) = fail_times (on_failure_at b t) ts"

lemma fail_times_open: "cb_state b = Open \<Longrightarrow> fail_times b ts = b"
  by (induction ts) (auto simp: on_failure_at_def)

lemma on_failure_below:
  assumes "cb_state b = Closed"
    and "unat (consecutive_failures b) + 1 < unat (failure_threshold (cb_cfg b))"
  shows "cb_state (on_failure_at b t) = Closed"
    and "unat (consecutive_failures (on_failure_at b t)) = unat (consecutive_failures b) + 1"
    and "cb_cfg (on_failure_at b t) = cb_cfg b"
proof -
  have "unat (consecutive_failures b + 1) = unat (consecutive_failures b) + 1"
    using assms(2) by (intro unat_plus_one_if_bound [where y = "failure_threshold (cb_cfg b)"]) simp
  with assms show "cb_state (on_failure_at b t) = Closed"
    and "unat (consecutive_failures (on_failure_at b t)) = unat (consecutive_failures b) + 1"
    and "cb_cfg (on_failure_at b t) = cb_cfg b"
    by (simp_all add: on_failure_at_def Let_def word_le_nat_alt)
qed

lemma on_failure_at_threshold:
  assumes "cb_state b = Closed"
    and "unat (consecutive_failures b) + 1 = unat (failure_threshold (cb_cfg b))"
  shows "cb_state (on_failure_at b t) = Open \<and> opened_at (on_failure_at b t) = Some t"
proof -
  have "unat (consecutive_failures b + 1) = unat (consecutive_failures b) + 1"
    using assms(2) by (intro unat_plus_one_if_bound [where y = "failure_threshold (cb_cfg b)"]) simp
  with assms show ?thesis by (simp add: on_failure_at_def Let_def word_le_nat_alt)
qed

lemma fail_times_state:
  assumes "cb_state b = Closed"
    and "unat (consecutive_failures b) < unat (failure_threshold (cb_cfg b))"
  shows "cb_state (fail_times b ts) =
    (if unat (consecutive_failures b) + length ts < unat (failure_threshold (cb_cfg b))
     then Closed else Open)"
  using assms
proof (induction ts arbitrary: b)
  case Nil
  then show ?case by simp
next
  case (Cons t ts)
  show ?case
  proof (cases "unat (consecutive_failures b) + 1 < unat (failure_threshold (cb_cfg b))")
    case True
    note s = on_failure_below [OF Cons.prems(1) True, of t]
    from Cons.IH [of "on_failure_at b t"] s True show ?thesis by simp
  next
    case False
    with Cons.prems(2) have eq: "unat (consecutive_failures b) + 1 = unat (failure_threshold (cb_cfg b))"
      by simp
    from on_failure_at_threshold [OF Cons.prems(1) eq, of t] False show ?thesis
      by (simp add: fail_times_open)
  qed
qed

subsection \<open>Half-open probes\<close>

text \<open>A probe in flight: nobody else is admitted until its outcome is reported.\<close>

definition probe_in_flight :: "circuit_breaker \<Rightarrow> bool" where
  "probe_in_flight b \<longleftrightarrow> cb_state b = HalfOpen \<and> half_open_inflight b \<noteq> 0"

lemma probe_in_flight_rejects [step_simps]:
  "probe_in_flight b \<Longrightarrow> permitted_at b now = (Reject, b)"
  by (simp add: probe_in_flight_def permitted_at_def)

lemma permitted_open_probe:
  assumes "cb_state b = Open" and "opened_at b = Some t" and "cooldown (cb_cfg b) \<le> now - t"
  shows "fst (permitted_at b now) = Allow" and "probe_in_flight (snd (permitted_at b now))"
  using assms by (simp_all add: permitted_at_def probe_in_flight_def)

lemma permitted_not_closed_probe:
  assumes "cb_state b \<noteq> Closed" and "fst (permitted_at b now) = Allow"
  shows "probe_in_flight (snd (permitted_at b now))"
  using assms by (auto simp: breaker_defs probe_in_flight_def split: cb_state.splits if_splits)

text \<open>One healthy probe: the breaker admits the call and the call succeeds. A breaker that rejects it gives no result.\<close>

definition healthy_probe :: "circuit_breaker \<Rightarrow> instant \<Rightarrow> circuit_breaker option" where
  "healthy_probe b now = (case permitted_at b now of (Allow, b') \<Rightarrow> Some (on_success b') | (Reject, _) \<Rightarrow> None)"

primrec healthy_probes :: "circuit_breaker \<Rightarrow> instant list \<Rightarrow> circuit_breaker option" where
  "healthy_probes b [] = Some b"
| "healthy_probes b (t # ts) = Option.bind (healthy_probe b t) (\<lambda>b'. healthy_probes b' ts)"

text \<open>A closed breaker without failures stays one.\<close>

lemma healthy_probe_closed: "cb_state b = Closed \<Longrightarrow> healthy_probe b t = Some (b\<lparr>consecutive_failures := 0\<rparr>)"
  by (simp add: healthy_probe_def breaker_defs)

lemma healthy_probes_closed:
  assumes "cb_state b = Closed" "consecutive_failures b = 0"
  shows "healthy_probes b ts = Some b"
proof -
  have "b\<lparr>consecutive_failures := 0\<rparr> = b" using assms(2) by (cases b) simp
  then show ?thesis using assms(1) by (induction ts) (simp_all add: healthy_probe_closed)
qed

lemma healthy_probe_half_open:
  assumes "cb_state b = HalfOpen" and "half_open_inflight b = 0"
    and "unat (half_open_successes b) < unat (half_open_required_successes (cb_cfg b))"
  obtains b' where "healthy_probe b t = Some b'" "unat (half_open_successes b) + 1 = unat (half_open_required_successes (cb_cfg b))"
      "cb_state b' = Closed" "consecutive_failures b' = 0"
  | b' where "healthy_probe b t = Some b'" "unat (half_open_successes b) + 1 < unat (half_open_required_successes (cb_cfg b))"
      "cb_state b' = HalfOpen" "half_open_inflight b' = 0" "unat (half_open_successes b') = unat (half_open_successes b) + 1" "cb_cfg b' = cb_cfg b"
proof -
  have u: "unat (half_open_successes b + 1) = unat (half_open_successes b) + 1"
    using assms(3) by (rule unat_plus_one_if_bound)
  have p: "healthy_probe b t = Some (on_success (b\<lparr>half_open_inflight := 1\<rparr>))" (is "_ = Some ?b'")
    using assms(1,2) by (simp add: healthy_probe_def permitted_at_def)
  show thesis
  proof (cases "unat (half_open_successes b) + 1 = unat (half_open_required_successes (cb_cfg b))")
    case True
    then have "cb_state ?b' = Closed" "consecutive_failures ?b' = 0" using assms(1) u by (simp_all add: breaker_defs word_le_nat_alt)
    with p True show thesis by (rule that(1))
  next
    case False
    then have lt: "unat (half_open_successes b) + 1 < unat (half_open_required_successes (cb_cfg b))" using assms(3) by simp
    then have "cb_state ?b' = HalfOpen" "half_open_inflight ?b' = 0" "unat (half_open_successes ?b') = unat (half_open_successes b) + 1"
        "cb_cfg ?b' = cb_cfg b"
      using assms(1) u by (simp_all add: breaker_defs word_le_nat_alt)
    with p lt show thesis by (rule that(2))
  qed
qed

lemma healthy_probes_half_open:
  assumes "cb_state b = HalfOpen" and "half_open_inflight b = 0"
    and "unat (half_open_successes b) < unat (half_open_required_successes (cb_cfg b))"
    and "unat (half_open_required_successes (cb_cfg b)) \<le> unat (half_open_successes b) + length ts"
  shows "\<exists>b'. healthy_probes b ts = Some b' \<and> cb_state b' = Closed \<and> consecutive_failures b' = 0"
  using assms
proof (induction ts arbitrary: b)
  case (Cons t ts)
  show ?case
  proof (cases rule: healthy_probe_half_open [OF Cons.prems(1-3), of t])
    case (1 b')
    then show ?thesis by (simp add: healthy_probes_closed)
  next
    case (2 b')
    with Cons.IH [of b'] Cons.prems(4) show ?thesis by simp
  qed
qed simp

subsection \<open>Properties\<close>

text \<open>
  In every reachable state of a breaker built by \<open>circuit_breaker_new\<close>, whatever the order of
  admissions, successes and failures: an open breaker knows when it opened, a half-open breaker has
  at most one probe in flight, and the failure counter of a closed breaker stays below the threshold,
  so reporting one more failure does not wrap the 32-bit counter.
\<close>

lemma breaker_reachable_inv:
  assumes "breaker_step\<^sup>*\<^sup>* (circuit_breaker_new name cfg) b"
  shows "breaker_inv b \<and>
    (cb_state b = Closed \<longrightarrow> unat (consecutive_failures b + 1) = unat (consecutive_failures b) + 1)"
proof -
  have inv: "breaker_inv b"
    using breaker_sys.inv_reachable assms by (auto simp: breaker_init_def)
  then have "cb_state b = Closed \<Longrightarrow> unat (consecutive_failures b + 1) = unat (consecutive_failures b) + 1"
    using unat_plus_one_if_less by (auto simp: breaker_inv_def)
  with inv show ?thesis by blast
qed

text \<open>
  A fresh breaker with a positive threshold opens exactly when the number of consecutive
  failures reported to it reaches the threshold, at whatever times they are reported; with fewer
  failures it stays closed. No failure count is skipped or counted twice.
\<close>

lemma breaker_trips_exactly_at_threshold:
  assumes "failure_threshold cfg \<noteq> 0"
  shows "is_open (fail_times (circuit_breaker_new name cfg) ts) \<longleftrightarrow>
    unat (failure_threshold cfg) \<le> length ts"
proof -
  let ?b = "circuit_breaker_new name cfg"
  from assms have "0 < unat (failure_threshold cfg)"
    by (simp add: unat_gt_0)
  then have "cb_state (fail_times ?b ts) = (if length ts < unat (failure_threshold cfg) then Closed else Open)"
    using fail_times_state [of ?b ts] by (simp add: circuit_breaker_new_def)
  then show ?thesis by (simp add: is_open_def)
qed

text \<open>
  An open breaker fails closed: before the cooldown has passed it rejects and does not change;
  from then on it admits one probe, and until that probe's outcome is reported it rejects every
  other call, however late it arrives.
\<close>

lemma open_breaker_single_probe:
  assumes "cb_state b = Open" and "opened_at b = Some t"
  shows "(now - t < cooldown (cb_cfg b) \<longrightarrow> permitted_at b now = (Reject, b)) \<and>
    (cooldown (cb_cfg b) \<le> now - t \<longrightarrow>
       fst (permitted_at b now) = Allow \<and>
       (\<forall>later. permitted_at (snd (permitted_at b now)) later = (Reject, snd (permitted_at b now))))"
proof (intro conjI impI allI)
  assume "now - t < cooldown (cb_cfg b)"
  with assms show "permitted_at b now = (Reject, b)"
    by (simp add: permitted_at_def)
next
  assume "cooldown (cb_cfg b) \<le> now - t"
  note probe = permitted_open_probe [OF assms this]
  show "fst (permitted_at b now) = Allow" by (rule probe)
  show "permitted_at (snd (permitted_at b now)) later = (Reject, snd (permitted_at b now))" for later
    by (rule probe_in_flight_rejects [OF probe(2)])
qed

text \<open>
  C26. An open breaker recovers: once the cooldown has passed, a series of probes that all succeed, as many as required or more and one after the other,
  is admitted by the breaker probe by probe, and leaves it closed with its failure count at zero.
\<close>

theorem open_breaker_recovers:
  assumes "cb_state b = Open" and "opened_at b = Some t" and "cooldown (cb_cfg b) \<le> now - t"
    and "unat (half_open_required_successes (cb_cfg b)) \<le> length (now # nows)"
  shows "\<exists>b'. healthy_probes b (now # nows) = Some b' \<and> cb_state b' = Closed \<and> consecutive_failures b' = 0"
proof -
  let ?p = "b\<lparr>cb_state := HalfOpen, half_open_successes := 0, half_open_inflight := 1\<rparr>"
  have p: "healthy_probe b now = Some (on_success ?p)"
    using assms by (simp add: healthy_probe_def permitted_at_def)
  show ?thesis
  proof (cases "half_open_required_successes (cb_cfg b) \<le> 1")
    case True
    then have "cb_state (on_success ?p) = Closed" "consecutive_failures (on_success ?p) = 0" by (simp_all add: on_success_def Let_def)
    then show ?thesis using p by (simp add: healthy_probes_closed)
  next
    case False
    then have "cb_state (on_success ?p) = HalfOpen" "half_open_inflight (on_success ?p) = 0" "half_open_successes (on_success ?p) = 1"
      "cb_cfg (on_success ?p) = cb_cfg b" and "1 < unat (half_open_required_successes (cb_cfg b))"
      by (simp_all add: on_success_def u32_saturating_sub_def Let_def word_le_nat_alt)
    with healthy_probes_half_open [of "on_success ?p" nows] assms(4) p show ?thesis by simp
  qed
qed

theorem open_breaker_recovers_witness:
  "\<exists>b'. healthy_probes (fail_times (circuit_breaker_new ''opa'' default_circuit_config)
     [0, 0, 0, 0, 0]) [10000000000, 10000000001] = Some b' \<and> cb_state b' = Closed"
proof -
  let ?b = "fail_times (circuit_breaker_new ''opa'' default_circuit_config) [0, 0, 0, 0, 0]"
  have st: "cb_state ?b = Open" "opened_at ?b = Some 0" "cooldown (cb_cfg ?b) \<le> 10000000000 - 0"
    "unat (half_open_required_successes (cb_cfg ?b)) \<le> length [10000000000, 10000000001 :: nat]"
    by (simp_all add: breaker_defs circuit_breaker_new_def default_circuit_config_def from_secs_def)
  from open_breaker_recovers [OF st] show ?thesis by blast
qed

end
