(* ===== verification/Policy_Router.thy ===== *)
theory Policy_Router
  imports Engine_Selection Circuit_Breaker
begin

text \<open>
  \<^verbatim>\<open>src/crates/dek-policy-router/src/lib.rs\<close>: the router's state (routes, evaluators, breakers,
  statistics, manual overrides, round-robin counter), pool selection and the authorization loop.

  Interior mutability becomes explicit state passing: every method returns the router it leaves
  behind. An evaluator (a \<^verbatim>\<open>dyn PolicyRuntime\<close>, possibly a remote service) is a parameter: a function
  from the time of the call and the payload to its answer and the time the answer takes, or \<open>None\<close> if
  it never answers. \<^verbatim>\<open>tokio::time::timeout\<close> cuts the answer off at the configured limit. The clock
  advances by what the calls take; \<^verbatim>\<open>Instant::now()\<close> reads it. The spawned shadow evaluations only
  write log lines, so the model records which ones are dispatched. Logging and metrics are left out.
\<close>

subsection \<open>State\<close>

type_synonym runtime = "instant \<Rightarrow> json \<Rightarrow> (policy_result \<times> duration) option"

datatype forced_state = ForceDown | ForceUp

record manual_override =
  mo_pdp_id :: string
  mo_forced_state :: forced_state
  mo_until :: "instant option"

record pdp_stats =
  ewma_latency :: f64
  successes :: u64
  failures :: u64

record policy_router =
  routes :: "route list"
  evaluators :: "(string \<times> runtime) list"
  breakers :: "(string \<times> circuit_breaker) list"
  stats :: "(string \<times> pdp_stats) list"
  overrides :: "(string \<times> manual_override) list"
  round_robin_counter :: usize
  pdp_timeout_ms :: nat
  circuit_config :: circuit_config

subsection \<open>Configuration\<close>

definition pdp_stats_new :: pdp_stats where
  "pdp_stats_new = \<lparr>ewma_latency = 0, successes = 0, failures = 0\<rparr>"

definition record_latency :: "pdp_stats \<Rightarrow> f64 \<Rightarrow> f64 \<Rightarrow> pdp_stats" where
  "record_latency s latency alpha =
     (if ewma_latency s = 0 then s\<lparr>ewma_latency := latency\<rparr>
      else s\<lparr>ewma_latency := alpha * latency + (1 - alpha) * ewma_latency s\<rparr>)"

definition health_score :: "pdp_stats \<Rightarrow> f64" where
  "health_score s =
     (let total = successes s + failures s
      in if total = 0 then 1 else of_nat (unat (successes s)) / of_nat (unat total))"

definition policy_router_new :: policy_router where
  "policy_router_new =
     \<lparr>routes = [], evaluators = [], breakers = [], stats = [], overrides = [], round_robin_counter = 0,
      pdp_timeout_ms = 500, circuit_config = default_circuit_config\<rparr>"

definition evaluator_ids :: "policy_router \<Rightarrow> string list" where
  "evaluator_ids rt = map fst (evaluators rt)"

definition set_scale_config :: "policy_router \<Rightarrow> nat \<Rightarrow> u32 \<Rightarrow> nat \<Rightarrow> policy_router" where
  "set_scale_config rt timeout_ms threshold cooldown_secs =
     rt\<lparr>pdp_timeout_ms := timeout_ms,
        circuit_config := \<lparr>failure_threshold = threshold, cooldown = from_secs cooldown_secs,
          half_open_required_successes = 2\<rparr>\<rparr>"

definition set_override :: "policy_router \<Rightarrow> string \<Rightarrow> forced_state \<Rightarrow> duration option \<Rightarrow> instant \<Rightarrow> policy_router" where
  "set_override rt pdp_id forced ttl now =
     rt\<lparr>overrides := AList.update pdp_id
          \<lparr>mo_pdp_id = pdp_id, mo_forced_state = forced, mo_until = map_option (\<lambda>t. now + t) ttl\<rparr>
          (overrides rt)\<rparr>"

definition override_for :: "policy_router \<Rightarrow> string \<Rightarrow> instant \<Rightarrow> forced_state option \<times> policy_router" where
  "override_for rt pdp_id now =
     (case map_of (overrides rt) pdp_id of
        Some entry \<Rightarrow>
          (case mo_until entry of
             Some until \<Rightarrow>
               if now > until then (None, rt\<lparr>overrides := AList.delete pdp_id (overrides rt)\<rparr>)
               else (Some (mo_forced_state entry), rt)
           | None \<Rightarrow> (Some (mo_forced_state entry), rt))
      | None \<Rightarrow> (None, rt))"

definition register_evaluator :: "policy_router \<Rightarrow> string \<Rightarrow> runtime \<Rightarrow> policy_router" where
  "register_evaluator rt i ev =
     rt\<lparr>evaluators := AList.update i ev (evaluators rt),
        breakers := AList.update i (circuit_breaker_new i (circuit_config rt)) (breakers rt),
        stats := AList.update i pdp_stats_new (stats rt)\<rparr>"

text \<open>\<^verbatim>\<open>sort_by_key(Reverse(priority))\<close> is a stable sort.\<close>

definition set_routes :: "policy_router \<Rightarrow> route list \<Rightarrow> policy_router" where
  "set_routes rt rs = rt\<lparr>routes := sort_key (\<lambda>r. - route_priority r) rs\<rparr>"

definition permitted :: "policy_router \<Rightarrow> string \<Rightarrow> instant \<Rightarrow> admit option \<times> policy_router" where
  "permitted rt i now =
     (case map_of (breakers rt) i of
        None \<Rightarrow> (None, rt)
      | Some b \<Rightarrow> (let (a, b') = permitted_at b now in (Some a, rt\<lparr>breakers := AList.update i b' (breakers rt)\<rparr>)))"

subsection \<open>Pool selection\<close>

definition pool_member_available :: "policy_router \<Rightarrow> string \<Rightarrow> instant \<Rightarrow> bool \<times> policy_router" where
  "pool_member_available rt p now =
     (case override_for rt p now of
        (Some ForceDown, rt1) \<Rightarrow> (False, rt1)
      | (Some ForceUp, rt1) \<Rightarrow> (True, rt1)
      | (None, rt1) \<Rightarrow>
          (case permitted rt1 p now of
             (Some Allow, rt2) \<Rightarrow> (True, rt2)
           | (Some Reject, rt2) \<Rightarrow> (False, rt2)
           | (None, rt2) \<Rightarrow> (False, rt2)))"

primrec pool_available :: "policy_router \<Rightarrow> string list \<Rightarrow> instant \<Rightarrow> string list \<times> policy_router" where
  "pool_available rt [] now = ([], rt)"
| "pool_available rt (p # ps) now =
     (let (ok, rt1) = pool_member_available rt p now; (as, rt2) = pool_available rt1 ps now
      in (if ok then p # as else as, rt2))"

primrec best_health :: "policy_router \<Rightarrow> string \<Rightarrow> f64 \<Rightarrow> string list \<Rightarrow> string" where
  "best_health rt best best_score [] = best"
| "best_health rt best best_score (p # ps) =
     (case map_of (stats rt) p of
        Some s \<Rightarrow> if health_score s > best_score then best_health rt p (health_score s) ps
                  else best_health rt best best_score ps
      | None \<Rightarrow> best_health rt best best_score ps)"

definition f64_max :: f64 where
  "f64_max = of_nat ((2 ^ 53 - 1) * 2 ^ 971)"

primrec least_latency :: "policy_router \<Rightarrow> string \<Rightarrow> f64 \<Rightarrow> string list \<Rightarrow> string" where
  "least_latency rt best min_lat [] = best"
| "least_latency rt best min_lat (p # ps) =
     (case map_of (stats rt) p of
        Some s \<Rightarrow>
          (if ewma_latency s = 0 then p
           else if ewma_latency s < min_lat then least_latency rt p (ewma_latency s) ps
           else least_latency rt best min_lat ps)
      | None \<Rightarrow> least_latency rt best min_lat ps)"

definition select_pdp_from_pool ::
    "policy_router \<Rightarrow> string list \<Rightarrow> failover_strategy \<Rightarrow> instant \<Rightarrow> string option \<times> policy_router" where
  "select_pdp_from_pool rt pool strategy now =
     (case pool of
        [] \<Rightarrow> (None, rt)
      | first # _ \<Rightarrow>
          (case pool_available rt pool now of
             ([], rt1) \<Rightarrow> (Some first, rt1)
           | (a # as, rt1) \<Rightarrow>
               (case strategy of
                  Priority \<Rightarrow> (Some a, rt1)
                | RoundRobin \<Rightarrow>
                    (Some ((a # as) ! (unat (round_robin_counter rt1) mod length (a # as))),
                     rt1\<lparr>round_robin_counter := round_robin_counter rt1 + 1\<rparr>)
                | HealthBased \<Rightarrow> (Some (best_health rt1 a (- 1) (a # as)), rt1)
                | LeastLatency \<Rightarrow> (Some (least_latency rt1 a f64_max (a # as)), rt1))))"

subsection \<open>The authorization loop\<close>

datatype eval_outcome = Completed policy_result | TimedOut

definition evaluate_with_timeout :: "runtime \<Rightarrow> duration \<Rightarrow> instant \<Rightarrow> json \<Rightarrow> eval_outcome \<times> duration" where
  "evaluate_with_timeout ev limit now payload =
     (case ev now payload of
        Some (res, d) \<Rightarrow> if d \<le> limit then (Completed res, d) else (TimedOut, limit)
      | None \<Rightarrow> (TimedOut, limit))"

definition report_success :: "policy_router \<Rightarrow> string \<Rightarrow> f64 \<Rightarrow> policy_router" where
  "report_success rt i latency =
     rt\<lparr>breakers := (case map_of (breakers rt) i of
            Some b \<Rightarrow> AList.update i (on_success b) (breakers rt) | None \<Rightarrow> breakers rt),
        stats := (case map_of (stats rt) i of
            Some s \<Rightarrow> AList.update i (record_latency (s\<lparr>successes := successes s + 1\<rparr>) latency (1/5)) (stats rt)
          | None \<Rightarrow> stats rt)\<rparr>"

definition report_failure :: "policy_router \<Rightarrow> string \<Rightarrow> instant \<Rightarrow> policy_router" where
  "report_failure rt i now =
     rt\<lparr>breakers := (case map_of (breakers rt) i of
            Some b \<Rightarrow> AList.update i (on_failure_at b now) (breakers rt) | None \<Rightarrow> breakers rt),
        stats := (case map_of (stats rt) i of
            Some s \<Rightarrow> AList.update i (s\<lparr>failures := failures s + 1\<rparr>) (stats rt) | None \<Rightarrow> stats rt)\<rparr>"

text \<open>How one turn of the loop ends: leave the loop, go on, or queue the next fallback PDP.\<close>

datatype turn = Break | Continue | FallBack

definition deny_with :: "policy_decision \<Rightarrow> string \<Rightarrow> policy_decision" where
  "deny_with c reason = c\<lparr>pd_allow := False, pd_decision := ''deny'', pd_reason := reason\<rparr>"

definition allow_with :: "policy_decision \<Rightarrow> string \<Rightarrow> th_text \<Rightarrow> policy_decision" where
  "allow_with c reason th = c\<lparr>pd_allow := True, pd_decision := ''allow'', pd_reason := reason,
     pd_user_action_required := True, pd_user_action_th := Some th\<rparr>"

text \<open>The common shape of the three failure branches (unavailable, other error, timeout).\<close>

definition pdp_failure :: "route \<Rightarrow> string list \<Rightarrow> policy_decision \<Rightarrow> string \<Rightarrow> th_text \<Rightarrow> string \<Rightarrow>
    turn \<times> policy_decision" where
  "pdp_failure r fallback_queue c allow_reason th deny_reason =
     (if failure_behavior r = FbFallback \<and> fallback_queue \<noteq> [] then (FallBack, c)
      else if failure_behavior r = FbAllow \<or> route_enforcement_mode r = ObserveOnly
      then (Continue, allow_with c allow_reason th)
      else (Break, deny_with c deny_reason))"

definition merge_turn :: "route \<Rightarrow> string \<Rightarrow> policy_decision \<Rightarrow> policy_decision \<Rightarrow> turn \<times> policy_decision" where
  "merge_turn r ev_id c res =
     (let c' = merge_decision c res (merge_strategy r)
      in if \<not> pd_allow c' \<and> (merge_strategy r = ''deny_overrides'' \<or> merge_strategy r = '''')
         then (Break, c'\<lparr>pd_reason := ''Blocked by '' @ ev_id\<rparr>)
         else if pd_allow c' \<and> merge_strategy r = ''permit_overrides'' then (Break, c')
         else (Continue, c'))"

definition eval_turn :: "policy_router \<Rightarrow> route \<Rightarrow> json \<Rightarrow> bool \<Rightarrow> string \<Rightarrow> string list \<Rightarrow>
    policy_decision \<Rightarrow> instant \<Rightarrow> (turn \<times> policy_decision) \<times> policy_router \<times> instant" where
  "eval_turn rt r payload dry_run ev_id fallback_queue c now =
     (case map_of (evaluators rt) ev_id of
        None \<Rightarrow>
          ((if route_enforcement_mode r = ObserveOnly
            then (Continue, allow_with c (''Evaluator not found but ObserveOnly for '' @ ev_id)
                    (ThEvaluatorMissing ev_id))
            else (Break, deny_with c (''Required evaluator '' @ ev_id @
                    '' not configured or failed to load (Mode: '' @
                    debug_enforcement_mode (route_enforcement_mode r) @ '')''))), rt, now)
      | Some ev \<Rightarrow>
          (case permitted rt ev_id now of
             (Some Reject, rt1) \<Rightarrow>
               ((Break, deny_with c (''Blocked by Circuit Breaker for '' @ ev_id)), rt1, now)
           | (_, rt1) \<Rightarrow>
               (case evaluate_with_timeout ev (from_millis (pdp_timeout_ms rt)) now payload of
                  (Completed (Inr res), d) \<Rightarrow>
                    (merge_turn r ev_id c res,
                     (if dry_run then rt1 else report_success rt1 ev_id (of_nat (d div 1000000))), now + d)
                | (Completed (Inl (Unavailable msg)), d) \<Rightarrow>
                    (pdp_failure r fallback_queue c (''PDP unavailable but Allow/ObserveOnly: '' @ msg)
                       ThPdpUnavailable
                       (''required PDP unavailable: '' @ msg @ '' (Mode: '' @
                        debug_enforcement_mode (route_enforcement_mode r) @ '')''),
                     (if dry_run then rt1 else report_failure rt1 ev_id (now + d)), now + d)
                | (Completed (Inl e), d) \<Rightarrow>
                    (pdp_failure r fallback_queue c
                       (''PDP error but Allow/ObserveOnly: '' @ show_policy_error e) ThPdpError
                       (''evaluator error: '' @ show_policy_error e),
                     (if dry_run then rt1 else report_failure rt1 ev_id (now + d)), now + d)
                | (TimedOut, d) \<Rightarrow>
                    (pdp_failure r fallback_queue c ''PDP timeout but Allow/ObserveOnly'' ThPdpTimeout
                       (''evaluator timeout: '' @ show_nat (pdp_timeout_ms rt) @ ''ms''),
                     (if dry_run then rt1 else report_failure rt1 ev_id (now + d)), now + d))))"

function eval_loop :: "policy_router \<Rightarrow> route \<Rightarrow> json \<Rightarrow> bool \<Rightarrow> string list \<Rightarrow> string list \<Rightarrow>
    policy_decision \<Rightarrow> instant \<Rightarrow> policy_decision \<times> policy_router \<times> instant" where
  "eval_loop rt r payload dry_run [] fq c now = (c, rt, now)"
| "eval_loop rt r payload dry_run (ev_id # eq) fq c now =
     (case eval_turn rt r payload dry_run ev_id fq c now of
        ((Break, c'), rt', now') \<Rightarrow> (c', rt', now')
      | ((Continue, c'), rt', now') \<Rightarrow> eval_loop rt' r payload dry_run eq fq c' now'
      | ((FallBack, c'), rt', now') \<Rightarrow>
          (case fq of
             next_pdp # fq' \<Rightarrow> eval_loop rt' r payload dry_run (eq @ [next_pdp]) fq' c' now'
           | [] \<Rightarrow> (c', rt', now')))"
  by pat_completeness auto
termination
  by (relation "measure (\<lambda>(rt, r, payload, dry_run, eq, fq, c, now). length eq + length fq)") auto

definition breakglass_decision :: policy_decision where
  "breakglass_decision =
     \<lparr>pd_evaluator_id = ''router_breakglass'', pd_evaluator_type = ''router'', pd_required = False,
      pd_status = ''success'', pd_decision = ''allow'', pd_allow = True,
      pd_reason = ''Break-glass mode activated'', pd_effects = json_empty, pd_obligations = [],
      pd_metadata = JObj [(''mode'', JStr ''breakglass'')], pd_explanation = None,
      pd_user_action_required = False, pd_user_action_th = None\<rparr>"

definition no_engine_decision :: policy_decision where
  "no_engine_decision =
     \<lparr>pd_evaluator_id = ''router_autoselect'', pd_evaluator_type = ''router'', pd_required = True,
      pd_status = ''success'', pd_decision = ''deny'', pd_allow = False,
      pd_reason = ''no suitable policy engine available for request'', pd_effects = json_empty,
      pd_obligations = [],
      pd_metadata = JObj [(''warning'', JStr ''no engine explicitly assigned, and selector found no match'')],
      pd_explanation = None, pd_user_action_required = False, pd_user_action_th = None\<rparr>"

record authorize_result =
  ar_decision :: policy_decision
  ar_router :: policy_router
  ar_finished :: instant
  ar_shadow_dispatched :: "string list"

definition route_metadata :: "route \<Rightarrow> engine_plan \<Rightarrow> json" where
  "route_metadata r plan =
     JObj [(''matched_route'', JStr (route_id r)),
           (''selected_engines'', JArr (map JStr (plan_evaluate_queue plan))),
           (''shadow_engines'', JArr (map JStr (plan_shadow_pdps plan))),
           (''auto_selected'', JBool (pdp_required r = [] \<and> pdp_pool r = []))]"

definition authorize_inner :: "policy_router \<Rightarrow> json \<Rightarrow> bool \<Rightarrow> instant \<Rightarrow> authorize_result" where
  "authorize_inner rt payload dry_run now =
     (let ctx = context_extract payload;
          answer = (\<lambda>d rt' t. \<lparr>ar_decision = d, ar_router = rt', ar_finished = t, ar_shadow_dispatched = []\<rparr>)
      in case match_route (routes rt) ctx of
           Inl default_deny \<Rightarrow> answer default_deny rt now
         | Inr r \<Rightarrow>
             if route_enforcement_mode r = BreakGlass then answer breakglass_decision rt now
             else
               let (selected, rt1) =
                     (if pdp_pool r \<noteq> [] then select_pdp_from_pool rt (pdp_pool r) (route_failover_strategy r) now
                      else (None, rt))
               in case engine_plan_build r ctx (evaluator_ids rt1) selected of
                    None \<Rightarrow> answer no_engine_decision rt1 now
                  | Some plan \<Rightarrow>
                      let (c, rt2, t) = eval_loop rt1 r payload dry_run (plan_evaluate_queue plan)
                            (plan_fallback_queue plan) initial_decision now
                      in \<lparr>ar_decision = c\<lparr>pd_metadata := route_metadata r plan\<rparr>, ar_router = rt2, ar_finished = t,
                          ar_shadow_dispatched = (if dry_run then [] else
                            filter (\<lambda>s. map_of (evaluators rt2) s \<noteq> None) (plan_shadow_pdps plan))\<rparr>)"

definition authorize :: "policy_router \<Rightarrow> json \<Rightarrow> instant \<Rightarrow> authorize_result" where
  "authorize rt payload now = authorize_inner rt payload False now"

definition authorize_dry_run :: "policy_router \<Rightarrow> json \<Rightarrow> instant \<Rightarrow> authorize_result" where
  "authorize_dry_run rt payload now = authorize_inner rt payload True now"

subsection \<open>What authorization leaves unchanged\<close>

definition same_config :: "policy_router \<Rightarrow> policy_router \<Rightarrow> bool" where
  "same_config rt rt' \<longleftrightarrow> routes rt' = routes rt \<and> evaluators rt' = evaluators rt \<and>
     pdp_timeout_ms rt' = pdp_timeout_ms rt \<and> circuit_config rt' = circuit_config rt"

lemma same_config_refl [simp]: "same_config rt rt"
  by (simp add: same_config_def)

lemma same_config_trans [trans]: "same_config a b \<Longrightarrow> same_config b c \<Longrightarrow> same_config a c"
  by (simp add: same_config_def)

lemma same_config_updates [simp]:
  "same_config a (b\<lparr>breakers := x\<rparr>) = same_config a b"
  "same_config a (b\<lparr>stats := y\<rparr>) = same_config a b"
  "same_config a (b\<lparr>overrides := z\<rparr>) = same_config a b"
  "same_config a (b\<lparr>round_robin_counter := n\<rparr>) = same_config a b"
  by (simp_all add: same_config_def)

lemma permitted_config [simp]: "same_config a (snd (permitted rt i now)) = same_config a rt"
  by (auto simp: permitted_def split: option.splits prod.splits)

lemma override_for_config [simp]: "same_config a (snd (override_for rt i now)) = same_config a rt"
  by (auto simp: override_for_def split: option.splits)

lemma report_config [simp]:
  "same_config a (report_success rt i l) = same_config a rt"
  "same_config a (report_failure rt i t) = same_config a rt"
  by (simp_all add: report_success_def report_failure_def)

lemma pool_member_config: "same_config rt (snd (pool_member_available rt p now))"
proof -
  obtain f rt1 where f: "override_for rt p now = (f, rt1)" by fastforce
  obtain a rt2 where a: "permitted rt1 p now = (a, rt2)" by fastforce
  have "same_config rt rt1" using override_for_config [of rt rt p now] f by simp
  moreover have "same_config rt1 rt2" using permitted_config [of rt1 rt1 p now] a by simp
  ultimately show ?thesis
    by (auto simp: pool_member_available_def f a split: option.splits forced_state.splits admit.splits
        intro: same_config_trans)
qed

lemma pool_available_config: "same_config rt (snd (pool_available rt ps now))"
proof (induction ps arbitrary: rt)
  case (Cons p ps)
  show ?case using same_config_trans [OF pool_member_config Cons] by (simp add: Let_def split_def)
qed simp

lemma select_pool_config: "same_config rt (snd (select_pdp_from_pool rt pool strategy now))"
  using pool_available_config [of rt pool now]
  by (auto simp: select_pdp_from_pool_def split: list.splits prod.splits failover_strategy.splits)

lemma eval_turn_config: "same_config rt (fst (snd (eval_turn rt r payload dry ev_id fq c now)))"
proof -
  obtain a rt1 where a: "permitted rt ev_id now = (a, rt1)" by fastforce
  have "same_config rt rt1" using permitted_config [of rt rt ev_id now] a by simp
  then show ?thesis
    by (auto simp: eval_turn_def a split: option.splits admit.splits prod.splits eval_outcome.splits
        sum.splits policy_error.splits)
qed

subsection \<open>Failing closed\<close>

text \<open>An evaluator answers in time, at some moment, with an allow for this payload.\<close>

definition allowed_by :: "policy_router \<Rightarrow> json \<Rightarrow> string \<Rightarrow> bool" where
  "allowed_by rt payload ev_id \<longleftrightarrow>
     (\<exists>ev t res d. map_of (evaluators rt) ev_id = Some ev \<and> ev t payload = Some (Inr res, d) \<and>
        d \<le> from_millis (pdp_timeout_ms rt) \<and> pd_allow res)"

lemma allowed_by_config: "same_config rt rt' \<Longrightarrow> allowed_by rt' payload ev_id = allowed_by rt payload ev_id"
  by (simp add: same_config_def allowed_by_def)

text \<open>Routes that neither observe only nor allow on failure, under a strategy in which a deny wins.\<close>

definition enforcing :: "route \<Rightarrow> bool" where
  "enforcing r \<longleftrightarrow> route_enforcement_mode r \<noteq> ObserveOnly \<and> failure_behavior r \<noteq> FbAllow \<and>
     deny_wins (merge_strategy r)"

lemma pdp_failure_enforcing:
  assumes "enforcing r"
  shows "pdp_failure r fq c a th d =
    (if failure_behavior r = FbFallback \<and> fq \<noteq> [] then (FallBack, c) else (Break, deny_with c d))"
  using assms by (simp add: pdp_failure_def enforcing_def)

lemma merge_turn_enforcing:
  assumes "enforcing r" and "merge_turn r ev_id c res = (tn, c')"
  shows "tn \<noteq> FallBack \<and> (pd_allow c' \<longrightarrow> tn = Continue \<and> pd_allow c \<and> pd_allow res)"
  using assms merge_deny_wins [of "merge_strategy r" c res]
  by (auto simp: merge_turn_def enforcing_def deny_wins_def Let_def split: if_splits)

lemma eval_turn_enforcing:
  assumes "enforcing r" and "eval_turn rt r payload dry ev_id fq c now = ((tn, c'), rt', now')"
  shows "(tn = FallBack \<longrightarrow> c' = c \<and> failure_behavior r = FbFallback \<and> fq \<noteq> []) \<and>
    (pd_allow c' \<and> tn \<noteq> FallBack \<longrightarrow> tn = Continue \<and> pd_allow c \<and> allowed_by rt payload ev_id)"
proof (cases "map_of (evaluators rt) ev_id")
  case None
  with assms show ?thesis by (auto simp: eval_turn_def deny_with_def enforcing_def)
next
  case (Some ev)
  obtain a rt1 where a: "permitted rt ev_id now = (a, rt1)" by fastforce
  obtain o1 d where o1: "evaluate_with_timeout ev (from_millis (pdp_timeout_ms rt)) now payload = (o1, d)"
    by fastforce
  have time: "o1 = Completed (Inr res) \<Longrightarrow> pd_allow res \<Longrightarrow> allowed_by rt payload ev_id" for res
    using o1 Some unfolding evaluate_with_timeout_def allowed_by_def
    by (auto split: option.splits if_splits) blast
  show ?thesis
  proof (cases "a = Some Reject")
    case True
    with assms Some a show ?thesis by (auto simp: eval_turn_def deny_with_def)
  next
    case False
    show ?thesis
    proof (cases "\<exists>res. o1 = Completed (Inr res)")
      case True
      then obtain res where res: "o1 = Completed (Inr res)" by blast
      with assms(2) Some a False o1 have "merge_turn r ev_id c res = (tn, c')"
        by (auto simp: eval_turn_def split: option.splits admit.splits)
      from merge_turn_enforcing [OF assms(1) this] time [OF res] show ?thesis by blast
    next
      case fail: False
      with assms(2) Some a False o1 obtain x th y where "pdp_failure r fq c x th y = (tn, c')"
        by (auto simp: eval_turn_def split: option.splits admit.splits eval_outcome.splits sum.splits
            policy_error.splits)
      with assms(1) show ?thesis
        by (auto simp: pdp_failure_enforcing deny_with_def split: if_splits)
    qed
  qed
qed

lemma eval_loop_enforcing:
  assumes "enforcing r" and "pd_allow (fst (eval_loop rt r payload dry eq fq c now))"
  shows "pd_allow c \<and> (eq \<noteq> [] \<longrightarrow> (\<exists>ev_id. allowed_by rt payload ev_id)) \<and>
    (failure_behavior r \<noteq> FbFallback \<longrightarrow> (\<forall>ev_id \<in> set eq. allowed_by rt payload ev_id))"
  using assms
proof (induction rt r payload dry eq fq c now rule: eval_loop.induct)
  case (1 rt r payload dry_run fq c now)
  then show ?case by simp
next
  case (2 rt r payload dry_run ev_id eq fq c now)
  obtain tn c' rt' now' where t: "eval_turn rt r payload dry_run ev_id fq c now = ((tn, c'), rt', now')"
    by (metis prod_cases3 surj_pair)
  have cfg: "same_config rt rt'" using eval_turn_config [of rt r payload dry_run ev_id fq c now] t by simp
  note tf = eval_turn_enforcing [OF "2.prems"(1) t]
  note ab = allowed_by_config [OF cfg]
  show ?case
  proof (cases tn)
    case Break
    with "2.prems"(2) t tf show ?thesis by simp
  next
    case Continue
    with "2.prems" t have "pd_allow (fst (eval_loop rt' r payload dry_run eq fq c' now'))" by simp
    from "2.IH"(1) [OF t [symmetric] refl Continue refl "2.prems"(1) this]
    have "pd_allow c' \<and> (failure_behavior r \<noteq> FbFallback \<longrightarrow> (\<forall>ev_id \<in> set eq. allowed_by rt payload ev_id))"
      by (simp add: ab)
    with tf Continue show ?thesis by auto
  next
    case FallBack
    with tf obtain n fq' where fq: "fq = n # fq'" and fb: "failure_behavior r = FbFallback" "c' = c"
      by (cases fq) auto
    with "2.prems" t FallBack have "pd_allow (fst (eval_loop rt' r payload dry_run (eq @ [n]) fq' c' now'))"
      by simp
    from "2.IH"(2) [OF t [symmetric] refl FallBack refl fq "2.prems"(1) this] fb show ?thesis
      by (auto simp: ab)
  qed
qed

lemma authorize_inner_routed:
  assumes "match_route (routes rt) (context_extract payload) = Inr r"
    and "route_enforcement_mode r \<noteq> BreakGlass"
    and "(if pdp_pool r \<noteq> [] then select_pdp_from_pool rt (pdp_pool r) (route_failover_strategy r) now
          else (None, rt)) = (selected, rt1)"
  shows "ar_decision (authorize_inner rt payload dry now) =
      (case engine_plan_build r (context_extract payload) (evaluator_ids rt1) selected of
         None \<Rightarrow> no_engine_decision
       | Some plan \<Rightarrow> (fst (eval_loop rt1 r payload dry (plan_evaluate_queue plan)
           (plan_fallback_queue plan) initial_decision now))\<lparr>pd_metadata := route_metadata r plan\<rparr>)"
    and "ar_router (authorize_inner rt payload dry now) =
      (case engine_plan_build r (context_extract payload) (evaluator_ids rt1) selected of
         None \<Rightarrow> rt1
       | Some plan \<Rightarrow> fst (snd (eval_loop rt1 r payload dry (plan_evaluate_queue plan)
           (plan_fallback_queue plan) initial_decision now)))"
  using assms by (simp_all add: authorize_inner_def Let_def split_def split: option.split)

subsection \<open>Breakers during authorization\<close>

text \<open>While a probe is in flight, nothing authorization does touches that breaker.\<close>

definition stuck :: "string \<Rightarrow> circuit_breaker \<Rightarrow> policy_router \<Rightarrow> bool" where
  "stuck i b rt \<longleftrightarrow> map_of (breakers rt) i = Some b \<and> probe_in_flight b"

lemma stuck_permitted: "stuck i b rt \<Longrightarrow> stuck i b (snd (permitted rt j now))"
  by (auto simp: stuck_def permitted_def probe_in_flight_rejects split: option.splits prod.splits)

lemma stuck_rejected: "stuck i b rt \<Longrightarrow> fst (permitted rt i now) = Some Reject"
  by (simp add: stuck_def permitted_def probe_in_flight_rejects)

lemma stuck_override: "stuck i b rt \<Longrightarrow> stuck i b (snd (override_for rt j now))"
  by (auto simp: stuck_def override_for_def split: option.splits)

lemma stuck_report:
  "stuck i b rt \<Longrightarrow> j \<noteq> i \<Longrightarrow> stuck i b (report_success rt j l)"
  "stuck i b rt \<Longrightarrow> j \<noteq> i \<Longrightarrow> stuck i b (report_failure rt j t)"
  by (auto simp: stuck_def report_success_def report_failure_def split: option.splits)

lemma stuck_member: "stuck i b rt \<Longrightarrow> stuck i b (snd (pool_member_available rt p now))"
proof -
  assume s: "stuck i b rt"
  obtain f rt1 where f: "override_for rt p now = (f, rt1)" by fastforce
  obtain a rt2 where a: "permitted rt1 p now = (a, rt2)" by fastforce
  have "stuck i b rt1" using stuck_override [OF s, of p now] f by simp
  moreover from this have "stuck i b rt2" using stuck_permitted [of i b rt1 p now] a by simp
  ultimately show ?thesis
    by (auto simp: pool_member_available_def f a split: option.splits forced_state.splits admit.splits)
qed

lemma stuck_pool: "stuck i b rt \<Longrightarrow> stuck i b (snd (pool_available rt ps now))"
  by (induction ps arbitrary: rt) (auto simp: Let_def split_def stuck_member)

lemma stuck_select: "stuck i b rt \<Longrightarrow> stuck i b (snd (select_pdp_from_pool rt pool strategy now))"
proof -
  assume "stuck i b rt"
  then have "stuck i b (snd (pool_available rt pool now))" by (rule stuck_pool)
  then show ?thesis using \<open>stuck i b rt\<close>
    by (auto simp: select_pdp_from_pool_def stuck_def split: list.splits prod.splits failover_strategy.splits)
qed

lemma stuck_turn: "stuck i b rt \<Longrightarrow> stuck i b (fst (snd (eval_turn rt r payload dry j fq c now)))"
proof -
  assume s: "stuck i b rt"
  obtain a rt1 where a: "permitted rt j now = (a, rt1)" by fastforce
  have s1: "stuck i b rt1" using stuck_permitted [OF s, of j now] a by simp
  show ?thesis
  proof (cases "j = i")
    case True
    with stuck_rejected [OF s, of now] a have "a = Some Reject" by simp
    with a s s1 show ?thesis by (auto simp: eval_turn_def split: option.splits)
  next
    case False
    with s s1 stuck_report show ?thesis
      by (auto simp: eval_turn_def a split: option.splits admit.splits prod.splits eval_outcome.splits
          sum.splits policy_error.splits)
  qed
qed

lemma stuck_loop: "stuck i b rt \<Longrightarrow> stuck i b (fst (snd (eval_loop rt r payload dry eq fq c now)))"
proof (induction rt r payload dry eq fq c now rule: eval_loop.induct)
  case (2 rt r payload dry_run ev_id eq fq c now)
  obtain tn c' rt' now' where t: "eval_turn rt r payload dry_run ev_id fq c now = ((tn, c'), rt', now')"
    by (metis prod_cases3 surj_pair)
  have s: "stuck i b rt'" using stuck_turn [OF "2.prems", of r payload dry_run ev_id fq c now] t by simp
  show ?case
  proof (cases tn)
    case Break
    with t s show ?thesis by simp
  next
    case Continue
    from "2.IH"(1) [OF t [symmetric] refl Continue refl s] t Continue show ?thesis by simp
  next
    case FallBack
    from "2.IH"(2) [OF t [symmetric] refl FallBack refl _ s] t FallBack s show ?thesis
      by (auto split: list.splits)
  qed
qed simp

lemma stuck_authorize: "stuck i b rt \<Longrightarrow> stuck i b (ar_router (authorize_inner rt payload dry now))"
  using stuck_select stuck_loop
  by (auto simp: authorize_inner_def Let_def split_def split: sum.split option.split)

text \<open>A history of requests, each with its payload, whether it is a dry run, and its time.\<close>

definition authorize_history :: "policy_router \<Rightarrow> (json \<times> bool \<times> instant) list \<Rightarrow> policy_router" where
  "authorize_history rt calls = foldl (\<lambda>rt' (p, dry, t). ar_router (authorize_inner rt' p dry t)) rt calls"

lemma stuck_history: "stuck i b rt \<Longrightarrow> stuck i b (authorize_history rt calls)"
  by (induction calls arbitrary: rt) (auto simp: authorize_history_def stuck_authorize)

lemma eval_turn_dry_breaker:
  assumes "map_of (evaluators rt) i = Some ev" and "map_of (breakers rt) i = Some b"
    and "permitted_at b now = (Allow, b')"
  shows "map_of (breakers (fst (snd (eval_turn rt r payload True i fq c now)))) i = Some b'"
  using assms by (auto simp: eval_turn_def permitted_def split: prod.splits eval_outcome.splits sum.splits
      policy_error.splits)

lemma eval_loop_first_stuck:
  assumes "stuck i b (fst (snd (eval_turn rt r payload dry j fq c now)))"
  shows "stuck i b (fst (snd (eval_loop rt r payload dry (j # eq) fq c now)))"
proof -
  obtain tn c' rt' now' where t: "eval_turn rt r payload dry j fq c now = ((tn, c'), rt', now')"
    by (metis prod_cases3 surj_pair)
  with assms have "stuck i b rt'" by simp
  with t show ?thesis by (auto simp: stuck_loop split: turn.split list.split)
qed

end
