(* ===== verification/Router_Builder.thy ===== *)
theory Router_Builder
  imports Policy_Router
begin

text \<open>
  \<^verbatim>\<open>src/crates/dek-pdp-sdk/src/lib.rs\<close> (the registry of adapter factories) and
  \<^verbatim>\<open>src/crates/dek-router-builder/src\<close> (the factories and the construction of a router from a bundle).

  The engines behind the adapters (Cedar, OPA in WebAssembly, OpenFGA) are parameters: a constructor
  returns an error or a runtime. So are the derived deserialisers and the compiled-in features.
\<close>

record builder_env =
  feature_cedar :: bool
  feature_opa :: bool
  feature_openfga :: bool
  cedar_new :: "string \<Rightarrow> (string, runtime) result"
  opa_new :: "string \<Rightarrow> (string, runtime) result"
  openfga_new :: "string \<Rightarrow> string \<Rightarrow> json option \<Rightarrow> (string, runtime) result"
  path_exists :: "string \<Rightarrow> bool"
  mtls_from_value :: "json \<Rightarrow> json option"
  scale_from_value :: "json \<Rightarrow> (nat \<times> u32 \<times> nat) option"
  routes_from_value :: "json \<Rightarrow> (string, route list) result"

subsection \<open>Adapter registry\<close>

datatype build_error = MissingConfig string | InvalidConfig string | InitFailed string

type_synonym factory = "json \<Rightarrow> (build_error, runtime) result"
type_synonym adapter_registry = "(string \<times> factory) list"

definition registry_new :: adapter_registry where
  "registry_new = []"

definition registry_register :: "adapter_registry \<Rightarrow> string \<Rightarrow> factory \<Rightarrow> adapter_registry" where
  "registry_register reg i f = AList.update i f reg"

definition registry_get :: "adapter_registry \<Rightarrow> string \<Rightarrow> factory option" where
  "registry_get reg i = map_of reg i"

definition available_ids :: "adapter_registry \<Rightarrow> string list" where
  "available_ids reg = map fst reg"

definition build_adapter :: "adapter_registry \<Rightarrow> string \<Rightarrow> json \<Rightarrow> (build_error, runtime) result" where
  "build_adapter reg i config =
     (case registry_get reg i of
        Some factory \<Rightarrow> factory config
      | None \<Rightarrow> Inl (InitFailed (''Adapter '' @ [CHR 0x27] @ i @ [CHR 0x27] @ '' not found'')))"

subsection \<open>Factories\<close>

definition init_result :: "(string, runtime) result \<Rightarrow> (build_error, runtime) result" where
  "init_result r = (case r of Inl e \<Rightarrow> Inl (InitFailed e) | Inr rt \<Rightarrow> Inr rt)"

definition cedar_build :: "builder_env \<Rightarrow> factory" where
  "cedar_build env config =
     init_result (cedar_new env (case get_str config ''policy_src'' of Some s \<Rightarrow> s | None \<Rightarrow> ''''))"

definition opa_build :: "builder_env \<Rightarrow> factory" where
  "opa_build env config =
     (case get_str config ''policy_path'' of
        None \<Rightarrow> Inl (MissingConfig ''policy_path'')
      | Some policy_path \<Rightarrow>
          if \<not> path_exists env policy_path
          then Inl (InvalidConfig (''WASM policy file not found at: '' @ policy_path))
          else init_result (opa_new env policy_path))"

definition openfga_build :: "builder_env \<Rightarrow> factory" where
  "openfga_build env config =
     init_result (openfga_new env
       (case get_str config ''endpoint'' of Some e \<Rightarrow> e | None \<Rightarrow> ''http://localhost:8080'')
       (case get_str config ''store_id'' of Some s \<Rightarrow> s | None \<Rightarrow> ''store_123'')
       (Option.bind (json_get config ''mtls'') (mtls_from_value env)))"

definition default_registry :: "builder_env \<Rightarrow> adapter_registry" where
  "default_registry env =
     (let r = registry_new;
          r = (if feature_cedar env then registry_register r ''cedar'' (cedar_build env) else r);
          r = (if feature_opa env then registry_register r ''opa_wasm'' (opa_build env) else r);
          r = (if feature_openfga env then registry_register r ''openfga'' (openfga_build env) else r)
      in r)"

subsection \<open>Building a router\<close>

text \<open>One engine section of the bundle: a missing or null section is skipped, an adapter that cannot be
  built is only logged.\<close>

definition load_adapter :: "builder_env \<Rightarrow> adapter_registry \<Rightarrow> json \<Rightarrow> string \<Rightarrow> policy_router \<Rightarrow> policy_router" where
  "load_adapter env registry payload name router =
     (case json_get payload name of
        None \<Rightarrow> router
      | Some cfg \<Rightarrow>
          if is_null cfg then router
          else case build_adapter registry name cfg of
                 Inr adapter \<Rightarrow> register_evaluator router name adapter
               | Inl e \<Rightarrow> router)"

definition load_scale :: "builder_env \<Rightarrow> json \<Rightarrow> policy_router \<Rightarrow> policy_router" where
  "load_scale env payload router =
     (case json_get payload ''scale'' of
        None \<Rightarrow> router
      | Some v \<Rightarrow>
          (case scale_from_value env v of
             None \<Rightarrow> router
           | Some (timeout, threshold, cooldown_secs) \<Rightarrow> set_scale_config router timeout threshold cooldown_secs))"

definition load_routes :: "builder_env \<Rightarrow> json \<Rightarrow> policy_router \<Rightarrow> policy_router" where
  "load_routes env payload router =
     (case json_get payload ''routes'' of
        None \<Rightarrow> router
      | Some v \<Rightarrow> (case routes_from_value env v of Inr rs \<Rightarrow> set_routes router rs | Inl e \<Rightarrow> router))"

definition load_router_config :: "builder_env \<Rightarrow> policy_router \<Rightarrow> json \<Rightarrow> policy_router" where
  "load_router_config env router payload =
     (let registry = default_registry env;
          router = load_scale env payload router;
          router = load_adapter env registry payload ''openfga'' router;
          router = load_adapter env registry payload ''cedar'' router;
          router = load_adapter env registry payload ''opa_wasm'' router
      in load_routes env payload router)"

subsection \<open>Lemmas\<close>

lemma load_adapter_routes [simp]: "routes (load_adapter env reg payload name rt) = routes rt"
  by (simp add: load_adapter_def register_evaluator_def split: option.splits sum.splits)

lemma load_scale_routes [simp]: "routes (load_scale env payload rt) = routes rt"
  by (simp add: load_scale_def set_scale_config_def split: option.splits prod.splits)

text \<open>Only engines that are compiled in, configured and buildable become evaluators.\<close>

lemma load_adapter_evaluator:
  assumes "map_of (evaluators (load_adapter env reg payload name rt)) i = Some ev"
  shows "map_of (evaluators rt) i = Some ev \<or>
    (i = name \<and> (\<exists>cfg factory. json_get payload name = Some cfg \<and> registry_get reg name = Some factory \<and>
      factory cfg = Inr ev))"
  using assms
  by (auto simp: load_adapter_def register_evaluator_def build_adapter_def
      split: option.splits sum.splits if_splits)

lemma load_scale_evaluators [simp]: "evaluators (load_scale env payload rt) = evaluators rt"
  by (simp add: load_scale_def set_scale_config_def split: option.splits prod.splits)

lemma load_routes_evaluators [simp]: "evaluators (load_routes env payload rt) = evaluators rt"
  by (simp add: load_routes_def set_routes_def split: option.splits sum.splits)

lemma loaded_evaluators:
  assumes "map_of (evaluators (load_router_config env policy_router_new payload)) i = Some ev"
  shows "\<exists>cfg factory. json_get payload i = Some cfg \<and> registry_get (default_registry env) i = Some factory \<and>
    factory cfg = Inr ev"
proof -
  have "evaluators policy_router_new = []" by (simp add: policy_router_new_def)
  with assms show ?thesis
    unfolding load_router_config_def Let_def by (auto dest!: load_adapter_evaluator)
qed

end
