(* ===== verification/Trusted_Keys.thy ===== *)
theory Trusted_Keys
  imports Json_Value
begin

text \<open>
  \<^verbatim>\<open>src/crates/dek-bundle-sync/src/keys.rs\<close> (the set of trusted bundle-signing keys, verification and
  rotation) and \<^verbatim>\<open>src/crates/dek-policy-syncer/src/keys.rs\<close> (fetching a rotation over HTTP).

  Third-party code is a parameter: base64 decoding, the validity of an ed25519 public key and strict
  signature verification are the record \<open>crypto\<close>; the HTTP client is a function from the requested URL
  and bearer token to a reply; JSON parsing and printing and the derived deserialiser of the key list
  are functions. Byte arrays are strings.
\<close>

subsection \<open>Parameters\<close>

record crypto =
  b64_decode :: "string \<Rightarrow> string option"
  vk_from_bytes_ok :: "string \<Rightarrow> bool"
  verify_strict :: "string \<Rightarrow> string \<Rightarrow> string \<Rightarrow> bool"

record http_reply =
  http_status :: nat
  http_status_text :: string
  http_body :: "(string, string) result"

type_synonym http = "string \<Rightarrow> string option \<Rightarrow> (string, http_reply) result"

definition is_success :: "http_reply \<Rightarrow> bool" where
  "is_success r \<longleftrightarrow> 200 \<le> http_status r \<and> http_status r < 300"

subsection \<open>Keys\<close>

datatype key_status = KeyActive | KeyNext | KeyRevoked

record trusted_key =
  key_id :: string
  public_b64 :: string
  key_status :: key_status
  not_before_unix :: int
  not_after_unix :: int

definition verifying_key :: "crypto \<Rightarrow> trusted_key \<Rightarrow> string option" where
  "verifying_key c k =
     (case b64_decode c (public_b64 k) of
        None \<Rightarrow> None
      | Some bytes \<Rightarrow> if length bytes = 32 \<and> vk_from_bytes_ok c bytes then Some bytes else None)"

definition key_usable :: "trusted_key \<Rightarrow> int \<Rightarrow> bool" where
  "key_usable k now_unix \<longleftrightarrow>
     key_status k \<noteq> KeyRevoked \<and> now_unix \<ge> not_before_unix k \<and>
     (not_after_unix k = 0 \<or> now_unix \<le> not_after_unix k)"

record signature_entry =
  sig_key_id :: "string option"
  sig_b64 :: string

datatype verify_outcome =
    Valid string
  | NoValidSignature
  | NoUsableKeys

type_synonym trusted_key_set = "trusted_key list"

definition from_single_pinned :: "string \<Rightarrow> trusted_key_set" where
  "from_single_pinned pk = [\<lparr>key_id = ''bootstrap'', public_b64 = pk, key_status = KeyActive,
     not_before_unix = 0, not_after_unix = 0\<rparr>]"

definition usable_keys :: "trusted_key_set \<Rightarrow> int \<Rightarrow> trusted_key list" where
  "usable_keys ks now_unix = filter (\<lambda>k. key_usable k now_unix) ks"

subsection \<open>Verification\<close>

text \<open>The inner loop over candidate keys and the outer loop over signatures.\<close>

fun try_keys :: "crypto \<Rightarrow> string \<Rightarrow> string \<Rightarrow> trusted_key list \<Rightarrow> string option" where
  "try_keys c msg sig [] = None"
| "try_keys c msg sig (k # ks) =
     (case verifying_key c k of
        None \<Rightarrow> try_keys c msg sig ks
      | Some vk \<Rightarrow> if verify_strict c vk msg sig then Some (key_id k) else try_keys c msg sig ks)"

definition candidates :: "trusted_key_set \<Rightarrow> int \<Rightarrow> string option \<Rightarrow> trusted_key list" where
  "candidates ks now_unix kid =
     (case kid of
        Some i \<Rightarrow> filter (\<lambda>k. key_id k = i) (usable_keys ks now_unix)
      | None \<Rightarrow> usable_keys ks now_unix)"

fun verify_entries :: "crypto \<Rightarrow> trusted_key_set \<Rightarrow> int \<Rightarrow> string \<Rightarrow> signature_entry list \<Rightarrow> verify_outcome" where
  "verify_entries c ks now_unix msg [] = NoValidSignature"
| "verify_entries c ks now_unix msg (e # es) =
     (case b64_decode c (sig_b64 e) of
        None \<Rightarrow> verify_entries c ks now_unix msg es
      | Some sig \<Rightarrow>
          if length sig \<noteq> 64 then verify_entries c ks now_unix msg es
          else case try_keys c msg sig (candidates ks now_unix (sig_key_id e)) of
                 Some kid \<Rightarrow> Valid kid
               | None \<Rightarrow> verify_entries c ks now_unix msg es)"

definition verify :: "crypto \<Rightarrow> trusted_key_set \<Rightarrow> int \<Rightarrow> string \<Rightarrow> signature_entry list \<Rightarrow> verify_outcome" where
  "verify c ks now_unix msg signatures =
     (if usable_keys ks now_unix = [] then NoUsableKeys
      else verify_entries c ks now_unix msg signatures)"

subsection \<open>Rotation\<close>

record rotation_delta =
  added :: "string list"
  promoted :: "string list"
  revoked :: "string list"

definition empty_delta :: rotation_delta where
  "empty_delta = \<lparr>added = [], promoted = [], revoked = []\<rparr>"

definition delta_is_empty :: "rotation_delta \<Rightarrow> bool" where
  "delta_is_empty d \<longleftrightarrow> added d = [] \<and> promoted d = [] \<and> revoked d = []"

definition update_existing :: "trusted_key \<Rightarrow> trusted_key \<Rightarrow> trusted_key" where
  "update_existing existing inc = existing\<lparr>key_status := key_status inc,
     not_before_unix := not_before_unix inc, not_after_unix := not_after_unix inc,
     public_b64 := public_b64 inc\<rparr>"

fun merge_key :: "trusted_key_set \<Rightarrow> trusted_key \<Rightarrow> trusted_key_set" where
  "merge_key [] inc = [inc]"
| "merge_key (k # ks) inc = (if key_id k = key_id inc then update_existing k inc # ks else k # merge_key ks inc)"

definition find_key :: "trusted_key_set \<Rightarrow> string \<Rightarrow> trusted_key option" where
  "find_key ks i = find (\<lambda>k. key_id k = i) ks"

definition merge_delta :: "trusted_key_set \<Rightarrow> trusted_key \<Rightarrow> rotation_delta \<Rightarrow> rotation_delta" where
  "merge_delta ks inc d =
     (case find_key ks (key_id inc) of
        Some existing \<Rightarrow>
          if key_status existing \<noteq> key_status inc then
            if key_status inc = KeyRevoked then d\<lparr>revoked := revoked d @ [key_id inc]\<rparr>
            else if key_status inc = KeyActive \<and> key_status existing = KeyNext
            then d\<lparr>promoted := promoted d @ [key_id inc]\<rparr>
            else d
          else d
      | None \<Rightarrow> d\<lparr>added := added d @ [key_id inc]\<rparr>)"

primrec merge_loop :: "trusted_key_set \<Rightarrow> rotation_delta \<Rightarrow> trusted_key list \<Rightarrow> trusted_key_set \<times> rotation_delta" where
  "merge_loop ks d [] = (ks, d)"
| "merge_loop ks d (inc # incs) = merge_loop (merge_key ks inc) (merge_delta ks inc d) incs"

definition merge_rotation :: "trusted_key_set \<Rightarrow> trusted_key list \<Rightarrow> trusted_key_set \<times> rotation_delta" where
  "merge_rotation ks incoming = merge_loop ks empty_delta incoming"

subsection \<open>Signature lists\<close>

definition parse_signature :: "json \<Rightarrow> signature_entry option" where
  "parse_signature s =
     (case Option.bind (or_else (json_get s ''sig'') (json_get s ''payload'')) as_str of
        None \<Rightarrow> None
      | Some sg \<Rightarrow> Some \<lparr>sig_key_id = Option.bind (or_else (json_get s ''keyid'') (json_get s ''signature_id'')) as_str,
                         sig_b64 = sg\<rparr>)"

definition parse_signatures :: "json \<Rightarrow> signature_entry list" where
  "parse_signatures j = (case as_array j of Some arr \<Rightarrow> List.map_filter parse_signature arr | None \<Rightarrow> [])"

subsection \<open>Distribution\<close>

text \<open>
  \<open>fetch_and_merge\<close> over its environment: the HTTP client, JSON parsing and printing, the derived
  deserialiser of \<^verbatim>\<open>Vec<TrustedKey>\<close>, and the outcome of writing the key file. The key file is what
  reading and parsing it gives, \<open>None\<close> when it is absent or does not parse.
\<close>

datatype sync_error = Fetch string | Verify string | Activation string

fun show_sync_error :: "sync_error \<Rightarrow> string" where
  "show_sync_error (Fetch s) = ''fetch failed: '' @ s"
| "show_sync_error (Verify s) = ''verify failed: '' @ s"
| "show_sync_error (Activation s) = ''activation failed: '' @ s"

fun show_verify_outcome :: "verify_outcome \<Rightarrow> string" where
  "show_verify_outcome (Valid k) = ''Valid { key_id: '' @ [CHR 0x22] @ k @ [CHR 0x22] @ '' }''"
| "show_verify_outcome NoValidSignature = ''NoValidSignature''"
| "show_verify_outcome NoUsableKeys = ''NoUsableKeys''"

record keys_env =
  ke_crypto :: crypto
  ke_http :: http
  ke_from_slice :: "string \<Rightarrow> (string, json) result"
  ke_to_vec :: "json \<Rightarrow> (string, string) result"
  ke_keys_from_value :: "json \<Rightarrow> (string, trusted_key list) result"
  ke_persist :: "trusted_key_set \<Rightarrow> string option"

definition load_or_bootstrap :: "trusted_key_set option \<Rightarrow> string \<Rightarrow> trusted_key_set" where
  "load_or_bootstrap file pinned_b64 =
     (case file of
        Some ks \<Rightarrow> if ks \<noteq> [] then ks else from_single_pinned pinned_b64
      | None \<Rightarrow> from_single_pinned pinned_b64)"

definition persist :: "keys_env \<Rightarrow> trusted_key_set option \<Rightarrow> trusted_key_set \<Rightarrow> (string, trusted_key_set option) result" where
  "persist env file ks = (case ke_persist env ks of Some e \<Rightarrow> Inl e | None \<Rightarrow> Inr (Some ks))"

definition fetch_body :: "keys_env \<Rightarrow> string \<Rightarrow> string option \<Rightarrow> (sync_error, json) result" where
  "fetch_body env keys_url api_token =
     (case ke_http env keys_url api_token of
        Inl e \<Rightarrow> Inl (Fetch (''GET /v1/keys failed: '' @ e))
      | Inr res \<Rightarrow>
          if \<not> is_success res
          then Inl (Fetch (''keys fetch failed: HTTP '' @ http_status_text res))
          else case http_body res of
                 Inl e \<Rightarrow> Inl (Fetch (''parse /v1/keys: '' @ e))
               | Inr bytes \<Rightarrow>
                   (case ke_from_slice env bytes of
                      Inl e \<Rightarrow> Inl (Fetch (''parse /v1/keys: '' @ e))
                    | Inr j \<Rightarrow> Inr j))"

definition merge_body :: "keys_env \<Rightarrow> int \<Rightarrow> trusted_key_set option \<Rightarrow> trusted_key_set \<Rightarrow> json \<Rightarrow>
    (sync_error, trusted_key_set \<times> rotation_delta) result \<times> trusted_key_set option" where
  "merge_body env now file current body =
     (case json_get body ''signed'' of
        None \<Rightarrow> (Inl (Verify (''missing '' @ [CHR 0x27] @ ''signed'' @ [CHR 0x27])), file)
      | Some sgnd \<Rightarrow>
     (case ke_to_vec env sgnd of
        Inl e \<Rightarrow> (Inl (Verify (''serialize signed: '' @ e)), file)
      | Inr signed_bytes \<Rightarrow>
     (case verify (ke_crypto env) current now signed_bytes (parse_signatures (json_index body ''signatures'')) of
        Valid _ \<Rightarrow>
          (case json_get sgnd ''keys'' of
             None \<Rightarrow> (Inl (Verify ''missing signed.keys''), file)
           | Some ks \<Rightarrow>
          (case ke_keys_from_value env ks of
             Inl e \<Rightarrow> (Inl (Verify (''parse keys list: '' @ e)), file)
           | Inr incoming \<Rightarrow>
               let (merged, delta) = merge_rotation current incoming
               in if delta_is_empty delta then (Inr (merged, delta), file)
                  else case persist env file merged of
                         Inl e \<Rightarrow> (Inl (Activation (''failed to persist keys: '' @ e)), file)
                       | Inr file' \<Rightarrow> (Inr (merged, delta), file')))
      | other \<Rightarrow>
          (Inl (Verify (''payload not signed by a trusted key ('' @ show_verify_outcome other @ '')'')), file))))"

definition fetch_and_merge :: "keys_env \<Rightarrow> int \<Rightarrow> string \<Rightarrow> string option \<Rightarrow> trusted_key_set option \<Rightarrow> trusted_key_set \<Rightarrow>
    (sync_error, trusted_key_set \<times> rotation_delta) result \<times> trusted_key_set option" where
  "fetch_and_merge env now keys_url api_token file current =
     (case fetch_body env keys_url api_token of
        Inl e \<Rightarrow> (Inl e, file)
      | Inr body \<Rightarrow> merge_body env now file current body)"

subsection \<open>Lemmas\<close>

lemma in_usable_keys [simp]: "k \<in> set (usable_keys ks now) \<longleftrightarrow> k \<in> set ks \<and> key_usable k now"
  by (auto simp: usable_keys_def)

lemma in_candidates [simp]:
  "k \<in> set (candidates ks now kid) \<longleftrightarrow>
     k \<in> set ks \<and> key_usable k now \<and> (\<forall>i. kid = Some i \<longrightarrow> key_id k = i)"
  by (auto simp: candidates_def split: option.splits)

definition key_verifies :: "crypto \<Rightarrow> trusted_key \<Rightarrow> string \<Rightarrow> string \<Rightarrow> bool" where
  "key_verifies c k msg sig \<longleftrightarrow> (\<exists>vk. verifying_key c k = Some vk \<and> verify_strict c vk msg sig)"

definition vouches :: "crypto \<Rightarrow> int \<Rightarrow> string \<Rightarrow> trusted_key \<Rightarrow> signature_entry \<Rightarrow> bool" where
  "vouches c now msg k e \<longleftrightarrow> key_usable k now \<and> (\<forall>i. sig_key_id e = Some i \<longrightarrow> key_id k = i) \<and>
     (\<exists>sig. b64_decode c (sig_b64 e) = Some sig \<and> length sig = 64 \<and> key_verifies c k msg sig)"

lemma try_keys_Some: "try_keys c msg sig ks = Some i \<Longrightarrow> \<exists>k\<in>set ks. key_id k = i \<and> key_verifies c k msg sig"
  by (induction ks) (auto simp: key_verifies_def split: option.splits if_splits)

lemma try_keys_None: "try_keys c msg sig ks = None \<longleftrightarrow> (\<forall>k\<in>set ks. \<not> key_verifies c k msg sig)"
  by (induction ks) (auto simp: key_verifies_def split: option.splits)

lemma verify_entries_Valid:
  "verify_entries c ks now msg es = Valid i \<Longrightarrow>
     \<exists>k\<in>set ks. \<exists>e\<in>set es. key_id k = i \<and> vouches c now msg k e"
proof (induction es)
  case (Cons e es)
  show ?case
  proof (cases "verify_entries c ks now msg es = Valid i")
    case True
    with Cons.IH show ?thesis by auto
  next
    case False
    with Cons.prems obtain sig where "b64_decode c (sig_b64 e) = Some sig" "length sig = 64"
        "try_keys c msg sig (candidates ks now (sig_key_id e)) = Some i"
      by (auto split: option.splits if_splits)
    with try_keys_Some [OF this(3)] show ?thesis by (auto simp: vouches_def)
  qed
qed simp

lemma verify_entries_complete:
  "k \<in> set ks \<Longrightarrow> e \<in> set es \<Longrightarrow> vouches c now msg k e \<Longrightarrow> \<exists>i. verify_entries c ks now msg es = Valid i"
proof (induction es)
  case (Cons e' es)
  show ?case
  proof (cases "e \<in> set es")
    case True
    with Cons show ?thesis by (auto split: option.splits)
  next
    case False
    with Cons.prems have [simp]: "e' = e" by simp
    from Cons.prems(3) obtain sig where sig: "b64_decode c (sig_b64 e) = Some sig" "length sig = 64"
        "key_verifies c k msg sig" and u: "key_usable k now" "\<forall>i. sig_key_id e = Some i \<longrightarrow> key_id k = i"
      by (auto simp: vouches_def)
    from sig(3) u Cons.prems(1) have "try_keys c msg sig (candidates ks now (sig_key_id e)) \<noteq> None"
      by (auto simp: try_keys_None)
    with sig show ?thesis by auto
  qed
qed simp

lemma verify_Valid_iff:
  "(\<exists>i. verify c ks now msg es = Valid i) \<longleftrightarrow> (\<exists>k\<in>set ks. \<exists>e\<in>set es. vouches c now msg k e)"
proof -
  have "usable_keys ks now \<noteq> []" if "k \<in> set ks" "vouches c now msg k e" for k e
    using that in_usable_keys [of k ks now] by (auto simp: vouches_def simp del: in_usable_keys)
  then show ?thesis
    unfolding verify_def using verify_entries_Valid verify_entries_complete
    by (metis verify_outcome.distinct(3))
qed

lemma verify_Valid_key:
  "verify c ks now msg es = Valid i \<Longrightarrow> \<exists>k\<in>set ks. \<exists>e\<in>set es. key_id k = i \<and> vouches c now msg k e"
  using verify_entries_Valid by (simp add: verify_def split: if_splits)

text \<open>Rotation as a keyed store: ids stay distinct and a lookup sees the last entry for its id.\<close>

definition distinct_ids :: "trusted_key_set \<Rightarrow> bool" where
  "distinct_ids ks \<longleftrightarrow> distinct (map key_id ks)"

lemma key_id_update_existing [simp]: "key_id (update_existing k inc) = key_id k"
  by (simp add: update_existing_def)

lemma update_existing_same: "key_id k = key_id inc \<Longrightarrow> update_existing k inc = inc"
  by (cases k, cases inc) (simp add: update_existing_def)

lemma merge_key_ids: "set (map key_id (merge_key ks inc)) = insert (key_id inc) (set (map key_id ks))"
  by (induction ks) auto

lemma merge_key_distinct: "distinct_ids ks \<Longrightarrow> distinct_ids (merge_key ks inc)"
proof (induction ks)
  case (Cons k ks)
  then show ?case using merge_key_ids [of ks inc] by (auto simp: distinct_ids_def)
qed (simp add: distinct_ids_def)

lemma find_merge_key: "find_key (merge_key ks inc) i = (if i = key_id inc then Some inc else find_key ks i)"
  by (induction ks) (auto simp: find_key_def update_existing_same)

interpretation key_store: upsert_store find_key merge_key key_id "\<lambda>k. k" distinct_ids
  by unfold_locales (auto simp: merge_key_distinct find_merge_key)

lemma merge_loop_keys: "fst (merge_loop ks d incs) = foldl merge_key ks incs"
  by (induction incs arbitrary: ks d) auto

lemma merge_rotation_keys: "fst (merge_rotation ks incs) = foldl merge_key ks incs"
  by (simp add: merge_rotation_def merge_loop_keys)

lemma find_key_distinct: "distinct_ids ks \<Longrightarrow> k \<in> set ks \<Longrightarrow> find_key ks (key_id k) = Some k"
  by (induction ks) (auto simp: distinct_ids_def find_key_def)

lemma distinct_ids_bootstrap [simp]: "distinct_ids (from_single_pinned pk)"
  by (simp add: distinct_ids_def from_single_pinned_def)

subsection \<open>Properties\<close>

text \<open>
  C13. Verification is exact: a payload is accepted if and only if one of its signatures decodes to 64
  bytes and strictly verifies under a key of the set that is not revoked, inside its validity window and,
  when the signature names a key, has that id; the id reported is that of such a key. The set is reported
  as having no usable keys exactly when no key is usable.
\<close>

theorem verify_exact:
  "((\<exists>i. verify c ks now msg es = Valid i) \<longleftrightarrow> (\<exists>k e. k \<in> set ks \<and> e \<in> set es \<and> vouches c now msg k e)) \<and>
   (verify c ks now msg es = Valid i \<longrightarrow> (\<exists>k e. k \<in> set ks \<and> e \<in> set es \<and> key_id k = i \<and> vouches c now msg k e)) \<and>
   (verify c ks now msg es = NoUsableKeys \<longleftrightarrow> (\<nexists>k. k \<in> set ks \<and> key_usable k now))"
proof -
  have "verify_entries c ks now msg es \<noteq> NoUsableKeys" for es
    by (induction es) (auto split: option.splits)
  then have "verify c ks now msg es = NoUsableKeys \<longleftrightarrow> usable_keys ks now = []"
    by (simp add: verify_def)
  also have "\<dots> \<longleftrightarrow> (\<nexists>k. k \<in> set ks \<and> key_usable k now)"
    using in_usable_keys [of _ ks now] by (metis list.set_intros(1) neq_Nil_conv empty_iff list.set(1))
  finally show ?thesis using verify_Valid_iff [of c ks now msg es] verify_Valid_key [of c ks now msg es i] by blast
qed

text \<open>A toy instance of the cryptography for witnesses: a signature is 64 copies of the key's first byte.\<close>

definition demo_crypto :: crypto where
  "demo_crypto = \<lparr>b64_decode = (\<lambda>s. case s of [] \<Rightarrow> None | [b] \<Rightarrow> Some (replicate 32 b) | b # _ \<Rightarrow> Some (replicate 64 b)),
     vk_from_bytes_ok = (\<lambda>_. True), verify_strict = (\<lambda>vk msg sig. hd vk = hd sig)\<rparr>"

theorem verify_exact_witness:
  "verify demo_crypto (from_single_pinned ''A'') 5 ''m'' [\<lparr>sig_key_id = None, sig_b64 = ''AA''\<rparr>] = Valid ''bootstrap'' \<and>
   (\<exists>k e. k \<in> set (from_single_pinned ''A'') \<and> key_id k = ''bootstrap'' \<and> vouches demo_crypto 5 ''m'' k e)"
proof -
  have v: "verify demo_crypto (from_single_pinned ''A'') 5 ''m'' [\<lparr>sig_key_id = None, sig_b64 = ''AA''\<rparr>] = Valid ''bootstrap''"
    by (simp add: verify_def usable_keys_def from_single_pinned_def key_usable_def candidates_def
        demo_crypto_def verifying_key_def)
  with verify_exact show ?thesis by blast
qed

text \<open>
  A rotation leaves exactly the last word on every key: ids stay distinct, an id named by the
  incoming list has the last entry for it, and every other key is as it was.
\<close>

lemma rotation_last_entry_wins:
  assumes "distinct_ids ks"
  shows "distinct_ids (fst (merge_rotation ks incoming)) \<and>
    find_key (fst (merge_rotation ks incoming)) i =
      (case find (\<lambda>k. key_id k = i) (rev incoming) of Some k \<Rightarrow> Some k | None \<Rightarrow> find_key ks i)"
  using assms by (simp add: merge_rotation_keys key_store.ok_batch key_store.lookup_batch)

text \<open>
  A key revoked by the last entry of a rotation for its id never vouches again: whatever the payload,
  the signatures and the time, verification against the merged set does not report that key.
\<close>

lemma revoked_key_never_verifies:
  assumes "distinct_ids ks" and "find (\<lambda>k. key_id k = i) (rev incoming) = Some inc"
    and "key_status inc = KeyRevoked"
  shows "verify c (fst (merge_rotation ks incoming)) now msg es \<noteq> Valid i"
proof
  let ?m = "fst (merge_rotation ks incoming)"
  assume "verify c ?m now msg es = Valid i"
  from verify_Valid_key [OF this] obtain k where k: "k \<in> set ?m" "key_id k = i" "key_usable k now"
    by (auto simp: vouches_def)
  have "distinct_ids ?m" using assms(1) by (simp add: merge_rotation_keys key_store.ok_batch)
  from find_key_distinct [OF this k(1)] have "find_key ?m i = Some k" by (simp add: k(2))
  then have "k = inc" using assms(1,2) by (simp add: merge_rotation_keys key_store.lookup_batch)
  with k(3) assms(3) show False by (simp add: key_usable_def)
qed

text \<open>
  C14. Chain of trust: keys are merged only from a payload whose signed part is vouched for by a key of
  the current set, and then the new set is the merge of that payload's key list; every failure leaves the
  key file untouched.
\<close>

theorem key_chain_of_trust:
  assumes "fetch_and_merge env now url tok file current = (r, file')"
  shows "(\<forall>e. r = Inl e \<longrightarrow> file' = file) \<and>
    (\<forall>merged delta. r = Inr (merged, delta) \<longrightarrow>
      (\<exists>body sgnd bytes k e ks incoming.
         fetch_body env url tok = Inr body \<and> json_get body ''signed'' = Some sgnd \<and>
         ke_to_vec env sgnd = Inr bytes \<and> k \<in> set current \<and>
         e \<in> set (parse_signatures (json_index body ''signatures'')) \<and> vouches (ke_crypto env) now bytes k e \<and>
         json_get sgnd ''keys'' = Some ks \<and> ke_keys_from_value env ks = Inr incoming \<and>
         (merged, delta) = merge_rotation current incoming \<and>
         file' = (if delta_is_empty delta then file else Some merged)))"
proof (cases r)
  case (Inl e)
  with assms show ?thesis
    by (auto simp: fetch_and_merge_def merge_body_def Let_def persist_def split: sum.splits option.splits
        verify_outcome.splits if_splits prod.splits)
next
  case (Inr md)
  obtain merged delta where md: "md = (merged, delta)" by (cases md)
  from assms Inr obtain body where b: "fetch_body env url tok = Inr body"
      "merge_body env now file current body = (r, file')"
    by (auto simp: fetch_and_merge_def split: sum.splits)
  from b(2) Inr md obtain sgnd bytes i ks incoming where s: "json_get body ''signed'' = Some sgnd"
      "ke_to_vec env sgnd = Inr bytes"
      "verify (ke_crypto env) current now bytes (parse_signatures (json_index body ''signatures'')) = Valid i"
      "json_get sgnd ''keys'' = Some ks" "ke_keys_from_value env ks = Inr incoming"
      "(merged, delta) = merge_rotation current incoming"
      "file' = (if delta_is_empty delta then file else Some merged)"
    by (auto simp: merge_body_def Let_def persist_def split: sum.splits option.splits
        verify_outcome.splits if_splits prod.splits)
  from verify_Valid_key [OF s(3)] b(1) s Inr md show ?thesis by blast
qed

definition demo_keys_env :: keys_env where
  "demo_keys_env = \<lparr>ke_crypto = demo_crypto,
     ke_http = (\<lambda>_ _. Inr \<lparr>http_status = 200, http_status_text = ''200 OK'', http_body = Inr []\<rparr>),
     ke_from_slice = (\<lambda>_. Inr (JObj [(''signed'', JObj [(''keys'', JArr [])]),
        (''signatures'', JArr [JObj [(''sig'', JStr ''AA'')]])])),
     ke_to_vec = (\<lambda>_. Inr ''m''), ke_keys_from_value = (\<lambda>_. Inr (from_single_pinned ''B'')),
     ke_persist = (\<lambda>_. None)\<rparr>"

theorem key_chain_of_trust_witness:
  "\<exists>body sgnd bytes k e. fetch_body demo_keys_env ''u'' None = Inr body \<and>
     json_get body ''signed'' = Some sgnd \<and> ke_to_vec demo_keys_env sgnd = Inr bytes \<and>
     vouches demo_crypto 5 bytes k e \<and> k \<in> set (from_single_pinned ''A'')"
proof -
  have "\<exists>r. fetch_and_merge demo_keys_env 5 ''u'' None None (from_single_pinned ''A'') = (Inr r, None)"
    by (simp add: fetch_and_merge_def fetch_body_def merge_body_def demo_keys_env_def is_success_def
        verify_def usable_keys_def from_single_pinned_def key_usable_def candidates_def demo_crypto_def
        verifying_key_def json_index_def parse_signatures_def parse_signature_def or_else_def
        List.map_filter_def merge_rotation_def merge_delta_def find_key_def empty_delta_def
        delta_is_empty_def)
  then obtain m d where
      "fetch_and_merge demo_keys_env 5 ''u'' None None (from_single_pinned ''A'') = (Inr (m, d), None)"
    by auto
  from key_chain_of_trust [OF this] have "\<exists>body sgnd bytes k e. fetch_body demo_keys_env ''u'' None = Inr body \<and>
     json_get body ''signed'' = Some sgnd \<and> ke_to_vec demo_keys_env sgnd = Inr bytes \<and>
     vouches (ke_crypto demo_keys_env) 5 bytes k e \<and> k \<in> set (from_single_pinned ''A'')" by blast
  then show ?thesis by (simp add: demo_keys_env_def)
qed

end
