(* ===== verification/Civil_Time.thy ===== *)
theory Civil_Time
  imports Pollek_Prelude "HOL-Library.Signed_Division"
begin

text \<open>
  \<^verbatim>\<open>parse_rfc3339_to_unix\<close> of \<^verbatim>\<open>src/crates/dek-policy-syncer/src/lib.rs\<close>: the expiry date of a manifest
  as Unix seconds. The string operations of the standard library it uses are written out (white space is
  the ASCII white space), and the \<^verbatim>\<open>i64\<close> arithmetic wraps and divides towards zero as in a release build.
\<close>

subsection \<open>String operations\<close>

definition is_ws :: "char \<Rightarrow> bool" where
  "is_ws c \<longleftrightarrow> (of_char c :: nat) \<in> {9, 10, 11, 12, 13, 32}"

definition trim :: "string \<Rightarrow> string" where
  "trim s = rev (dropWhile is_ws (rev (dropWhile is_ws s)))"

definition before :: "char \<Rightarrow> string \<Rightarrow> string" where
  "before c s = takeWhile (\<lambda>x. x \<noteq> c) s"

definition split_once :: "char \<Rightarrow> string \<Rightarrow> (string \<times> string) option" where
  "split_once c s = (if c \<in> set s then Some (before c s, tl (dropWhile (\<lambda>x. x \<noteq> c) s)) else None)"

fun split_on :: "char \<Rightarrow> string \<Rightarrow> string list" where
  "split_on c [] = [[]]"
| "split_on c (x # s) =
     (if x = c then [] # split_on c s
      else case split_on c s of [] \<Rightarrow> [[x]] | p # ps \<Rightarrow> (x # p) # ps)"

definition trim_end_char :: "char \<Rightarrow> string \<Rightarrow> string" where
  "trim_end_char c s = rev (dropWhile (\<lambda>x. x = c) (rev s))"

definition digit_value :: "char \<Rightarrow> int option" where
  "digit_value c = (let n = (of_char c :: nat) in if 48 \<le> n \<and> n \<le> 57 then Some (int n - 48) else None)"

fun digits_value :: "int \<Rightarrow> string \<Rightarrow> int option" where
  "digits_value acc [] = Some acc"
| "digits_value acc (c # s) = (case digit_value c of None \<Rightarrow> None | Some d \<Rightarrow> digits_value (acc * 10 + d) s)"

definition unsigned_value :: "string \<Rightarrow> int option" where
  "unsigned_value s = (if s = [] then None else digits_value 0 s)"

definition parse_i64 :: "string \<Rightarrow> int option" where
  "parse_i64 s =
     (let v = (case s of
                 [] \<Rightarrow> None
               | c # r \<Rightarrow> if c = CHR ''-'' then map_option uminus (unsigned_value r)
                          else if c = CHR ''+'' then unsigned_value r
                          else unsigned_value s)
      in case v of Some n \<Rightarrow> if i64_range n then Some n else None | None \<Rightarrow> None)"

subsection \<open>Day number\<close>

definition days_from_civil :: "int \<Rightarrow> int \<Rightarrow> int \<Rightarrow> int" where
  "days_from_civil y mo d =
     (let yy = (if mo \<le> 2 then i64_wrap (y - 1) else y);
          era = (if yy \<ge> 0 then yy else i64_wrap (yy - 399)) sdiv 400;
          yoe = i64_wrap (yy - i64_wrap (era * 400));
          mp = (if mo > 2 then i64_wrap (mo - 3) else i64_wrap (mo + 9));
          doy = i64_wrap (i64_wrap (i64_wrap (i64_wrap (153 * mp) + 2) sdiv 5 + d) - 1);
          doe = i64_wrap (i64_wrap (i64_wrap (i64_wrap (yoe * 365) + yoe sdiv 4) - yoe sdiv 100) + doy)
      in i64_wrap (i64_wrap (i64_wrap (era * 146097) + doe) - 719468))"

definition unix_seconds :: "int \<Rightarrow> int \<Rightarrow> int \<Rightarrow> int \<Rightarrow> int" where
  "unix_seconds days h mi sec =
     i64_wrap (i64_wrap (i64_wrap (i64_wrap (days * 86400) + i64_wrap (h * 3600)) + i64_wrap (mi * 60)) + sec)"

text \<open>The first two parts of a split, and the third, of which the time may have none.\<close>

definition nth_part :: "string list \<Rightarrow> nat \<Rightarrow> string option" where
  "nth_part ps i = (if i < length ps then Some (ps ! i) else None)"

definition parse_date :: "string \<Rightarrow> (int \<times> int \<times> int) option" where
  "parse_date date =
     (let ps = split_on (CHR ''-'') date in
      case Option.bind (nth_part ps 0) parse_i64 of None \<Rightarrow> None | Some y \<Rightarrow>
     (case Option.bind (nth_part ps 1) parse_i64 of None \<Rightarrow> None | Some mo \<Rightarrow>
     (case Option.bind (nth_part ps 2) parse_i64 of None \<Rightarrow> None | Some d \<Rightarrow> Some (y, mo, d))))"

definition parse_time :: "string \<Rightarrow> (int \<times> int \<times> int) option" where
  "parse_time time =
     (let time = trim_end_char (CHR ''Z'') time;
          time = before (CHR ''+'') time;
          time = before (CHR ''.'') time;
          ps = split_on (CHR '':'') time in
      case Option.bind (nth_part ps 0) parse_i64 of None \<Rightarrow> None | Some h \<Rightarrow>
     (case Option.bind (nth_part ps 1) parse_i64 of None \<Rightarrow> None | Some mi \<Rightarrow>
     (case parse_i64 (case nth_part ps 2 of Some p \<Rightarrow> p | None \<Rightarrow> ''0'') of None \<Rightarrow> None | Some sec \<Rightarrow>
        Some (h, mi, sec))))"

definition parse_rfc3339_to_unix :: "string \<Rightarrow> int option" where
  "parse_rfc3339_to_unix s =
     (case split_once (CHR ''T'') (trim s) of
        None \<Rightarrow> None
      | Some (date, time) \<Rightarrow>
          (case parse_date date of
             None \<Rightarrow> None
           | Some (y, mo, d) \<Rightarrow>
               (case parse_time time of
                  None \<Rightarrow> None
                | Some (h, mi, sec) \<Rightarrow> Some (unix_seconds (days_from_civil y mo d) h mi sec))))"

subsection \<open>The calendar\<close>

text \<open>The reference: the Gregorian calendar by its leap-year rule and the step from a day to the next.\<close>

definition leap :: "int \<Rightarrow> bool" where
  "leap y \<longleftrightarrow> 4 dvd y \<and> (\<not> 100 dvd y \<or> 400 dvd y)"

definition month_length :: "int \<Rightarrow> int \<Rightarrow> int" where
  "month_length y mo = (if mo = 2 then if leap y then 29 else 28 else if mo \<in> {4, 6, 9, 11} then 30 else 31)"

definition valid_date :: "int \<Rightarrow> int \<Rightarrow> int \<Rightarrow> bool" where
  "valid_date y mo d \<longleftrightarrow> 1 \<le> mo \<and> mo \<le> 12 \<and> 1 \<le> d \<and> d \<le> month_length y mo"

definition next_day :: "int \<Rightarrow> int \<Rightarrow> int \<Rightarrow> int \<times> int \<times> int" where
  "next_day y mo d = (if d < month_length y mo then (y, mo, d + 1) else if mo < 12 then (y, mo + 1, 1) else (y + 1, 1, 1))"

definition year_days :: "int \<Rightarrow> int" where
  "year_days yy = 365 * yy + yy div 4 - yy div 100 + yy div 400"

definition civil_days :: "int \<Rightarrow> int \<Rightarrow> int \<Rightarrow> int" where
  "civil_days y mo d =
     (let yy = (if mo \<le> 2 then y - 1 else y); mp = (if mo > 2 then mo - 3 else mo + 9)
      in year_days yy + (153 * mp + 2) div 5 + d - 1 - 719468)"

lemma div_step:
  fixes y k :: int
  assumes "0 < k"
  shows "y div k = (y - 1) div k + (if k dvd y then 1 else 0)"
proof (cases "k dvd y")
  case True
  have "y - 1 = k * (y div k - 1) + (k - 1)" using True by (simp add: algebra_simps)
  then have "(y - 1) div k = y div k - 1" by (rule int_div_pos_eq) (use assms in simp_all)
  with True show ?thesis by simp
next
  case False
  have "0 < y mod k" using False assms by (metis dvd_eq_mod_eq_0 order_le_less pos_mod_sign)
  moreover have "y - 1 = k * (y div k) + (y mod k - 1)" by (simp add: algebra_simps)
  ultimately have "(y - 1) div k = y div k"
    using pos_mod_bound [OF assms, of y] int_div_pos_eq [of "y - 1" k "y div k" "y mod k - 1"] by simp
  with False show ?thesis by simp
qed

lemma year_step: "year_days y = year_days (y - 1) + 365 + (if leap y then 1 else 0)"
proof -
  have dvds: "(100 :: int) dvd 400" "(4 :: int) dvd 100" by simp_all
  note imps = dvd_trans [OF dvds(1), of y] dvd_trans [OF dvds(2), of y]
  have "(if leap y then 1 else 0 :: int) =
      (if 4 dvd y then 1 else 0) - (if 100 dvd y then 1 else 0) + (if 400 dvd y then 1 else 0)"
    unfolding leap_def using imps by (cases "4 dvd y"; cases "100 dvd y"; cases "400 dvd y"; simp only: if_True if_False simp_thms)
  moreover have "y div 4 = (y - 1) div 4 + (if 4 dvd y then 1 else 0)"
      "y div 100 = (y - 1) div 100 + (if 100 dvd y then 1 else 0)"
      "y div 400 = (y - 1) div 400 + (if 400 dvd y then 1 else 0)"
    by (rule div_step, simp)+
  moreover have "a = a' + p \<Longrightarrow> b = b' + q \<Longrightarrow> c = c' + r \<Longrightarrow> l = p - q + r \<Longrightarrow>
      365 * y + a - b + c = 365 * (y - 1) + a' - b' + c' + 365 + l" for a b c a' b' c' p q r l :: int by simp
  ultimately show ?thesis unfolding year_days_def by blast
qed

lemma civil_days_next:
  assumes "valid_date y mo d" and "next_day y mo d = (y', mo', d')"
  shows "valid_date y' mo' d' \<and> civil_days y' mo' d' = civil_days y mo d + 1"
proof -
  have "1 \<le> mo" "mo \<le> 12" using assms(1) by (auto simp: valid_date_def)
  then have "mo = 1 \<or> mo = 2 \<or> mo = 3 \<or> mo = 4 \<or> mo = 5 \<or> mo = 6 \<or> mo = 7 \<or> mo = 8 \<or> mo = 9 \<or>
      mo = 10 \<or> mo = 11 \<or> mo = 12" by presburger
  then show ?thesis
    using assms year_step [of y]
    by (elim disjE) (auto simp: valid_date_def next_day_def civil_days_def Let_def month_length_def split: if_splits)
qed

lemma civil_days_epoch: "civil_days 1970 1 1 = 0"
  by (simp add: civil_days_def year_days_def)

lemma era_floor: "(if (yy :: int) \<ge> 0 then yy else yy - 399) sdiv 400 = yy div 400"
proof (cases "yy \<ge> 0")
  case True
  then show ?thesis by (simp add: signed_divide_int_def sgn_if)
next
  case False
  then have "\<bar>yy - 399\<bar> = 399 - yy" "sgn (yy - 399) = -1" by simp_all
  moreover have "(399 - yy) div 400 = - (yy div 400)"
    by (rule int_div_pos_eq [where r = "399 - yy mod 400"]) (simp_all add: algebra_simps minus_mod_eq_mult_div)
  ultimately show ?thesis using False by (simp add: signed_divide_int_def)
qed

lemma sdiv_nonneg: "0 \<le> (a :: int) \<Longrightarrow> 0 < b \<Longrightarrow> a sdiv b = a div b"
  by (cases "a = 0") (simp_all add: signed_divide_int_def sgn_if)

lemma era_split:
  "(yy div 400) * 146097 + ((yy - yy div 400 * 400) * 365 + (yy - yy div 400 * 400) div 4 -
     (yy - yy div 400 * 400) div 100) = year_days yy" for yy :: int
proof -
  define q r where "q = yy div 400" and "r = yy mod 400"
  have yy: "yy = r + 400 * q" by (simp add: q_def r_def)
  have "yy div 4 = r div 4 + 100 * q" "yy div 100 = r div 100 + 4 * q"
    unfolding yy using div_mult_self2 [of 4 r "100 * q"] div_mult_self2 [of 100 r "4 * q"] by simp_all
  then show ?thesis unfolding q_def [symmetric] year_days_def by (simp add: yy)
qed

lemma days_from_civil_eq:
  assumes "\<bar>y\<bar> \<le> 1000000000" and "1 \<le> mo" and "mo \<le> 12" and "1 \<le> d" and "d \<le> 31"
  shows "days_from_civil y mo d = civil_days y mo d"
proof -
  define yy where "yy = (if mo \<le> 2 then y - 1 else y)"
  define mp where "mp = (if mo > 2 then mo - 3 else mo + 9)"
  define yoe where "yoe = yy - yy div 400 * 400"
  have yy: "\<bar>yy\<bar> \<le> 1000000001" using assms by (auto simp: yy_def)
  have mp: "0 \<le> mp" "mp \<le> 11" using assms by (auto simp: mp_def)
  have yoe: "0 \<le> yoe" "yoe < 400" unfolding yoe_def using minus_mod_eq_div_mult [of yy 400] by simp_all
  have era: "\<bar>yy div 400\<bar> \<le> 2500001" using yy by linarith
  have m5: "0 \<le> (153 * mp + 2) div 5" "(153 * mp + 2) div 5 \<le> 337" using mp by linarith+
  have yd: "yoe div 4 \<le> 99" "yoe div 100 \<le> 3" "0 \<le> yoe div 4" "0 \<le> yoe div 100" using yoe by linarith+
  note bounds = yd yoe mp m5 era yy assms
  have w: "i64_wrap x = x" if "\<bar>x\<bar> \<le> 1000000000000" for x
    using that by (intro i64_wrap_id) (unfold i64_range_def, linarith)
  have y1: "(if mo \<le> 2 then i64_wrap (y - 1) else y) = yy"
    using w [of "y - 1"] assms(1) by (auto simp: yy_def)
  have e1: "(if yy \<ge> 0 then yy else i64_wrap (yy - 399)) sdiv 400 = yy div 400"
    using w [of "yy - 399"] yy era_floor [of yy] by auto
  have o1: "i64_wrap (yy - i64_wrap (yy div 400 * 400)) = yoe"
  proof -
    have "\<bar>yy div 400 * 400\<bar> \<le> 1000000000000" "\<bar>yoe\<bar> \<le> 1000000000000" using era yoe by linarith+
    then show ?thesis by (simp only: w yoe_def [symmetric])
  qed
  have m1: "(if mo > 2 then i64_wrap (mo - 3) else i64_wrap (mo + 9)) = mp"
    using w [of "mo - 3"] w [of "mo + 9"] assms by (auto simp: mp_def)
  have d1: "i64_wrap (i64_wrap (i64_wrap (i64_wrap (153 * mp) + 2) sdiv 5 + d) - 1) = (153 * mp + 2) div 5 + d - 1"
    using w [of "153 * mp"] w [of "153 * mp + 2"] w [of "(153 * mp + 2) div 5 + d"]
      w [of "(153 * mp + 2) div 5 + d - 1"] sdiv_nonneg [of "153 * mp + 2" 5] bounds by simp
  let ?doy = "(153 * mp + 2) div 5 + d - 1"
  have f1: "i64_wrap (i64_wrap (i64_wrap (i64_wrap (yoe * 365) + yoe sdiv 4) - yoe sdiv 100) + ?doy) =
      yoe * 365 + yoe div 4 - yoe div 100 + ?doy"
  proof -
    have "\<bar>yoe * 365\<bar> \<le> 1000000000000" "\<bar>yoe * 365 + yoe div 4\<bar> \<le> 1000000000000"
        "\<bar>yoe * 365 + yoe div 4 - yoe div 100\<bar> \<le> 1000000000000"
        "\<bar>yoe * 365 + yoe div 4 - yoe div 100 + ?doy\<bar> \<le> 1000000000000"
      using yd yoe m5 assms(4,5) unfolding abs_le_iff by simp_all
    moreover have "yoe sdiv 4 = yoe div 4" "yoe sdiv 100 = yoe div 100" using yoe by (simp_all add: sdiv_nonneg)
    ultimately show ?thesis by (simp only: w)
  qed
  have g1: "i64_wrap (i64_wrap (i64_wrap (yy div 400 * 146097) + doe) - 719468) = yy div 400 * 146097 + doe - 719468"
    if "\<bar>doe\<bar> \<le> 200000" for doe
    using w [of "yy div 400 * 146097"] w [of "yy div 400 * 146097 + doe"]
      w [of "yy div 400 * 146097 + doe - 719468"] era that by simp
  have "\<bar>yoe * 365 + yoe div 4 - yoe div 100 + ?doy\<bar> \<le> 200000"
    using yd yoe m5 assms(4,5) unfolding abs_le_iff by simp
  from g1 [OF this] have "days_from_civil y mo d =
      yy div 400 * 146097 + (yoe * 365 + yoe div 4 - yoe div 100 + ?doy) - 719468"
    unfolding days_from_civil_def Let_def y1 e1 o1 m1 d1 f1 .
  also have "\<dots> = civil_days y mo d"
    using era_split [of yy] unfolding civil_days_def Let_def yy_def [symmetric] mp_def [symmetric] yoe_def by linarith
  finally show ?thesis .
qed

lemma unix_seconds_eq:
  assumes "\<bar>days\<bar> \<le> 1000000000000" and "0 \<le> h" "h < 24" "0 \<le> mi" "mi < 60" "0 \<le> sec" "sec < 61"
  shows "unix_seconds days h mi sec = days * 86400 + h * 3600 + mi * 60 + sec"
proof -
  have w: "i64_wrap x = x" if "\<bar>x\<bar> \<le> 90000000000000000" for x
    using that by (intro i64_wrap_id) (unfold i64_range_def, linarith)
  show ?thesis
    using w [of "days * 86400"] w [of "h * 3600"] w [of "mi * 60"] w [of "days * 86400 + h * 3600"]
      w [of "days * 86400 + h * 3600 + mi * 60"] w [of "days * 86400 + h * 3600 + mi * 60 + sec"] assms
    by (simp add: unix_seconds_def)
qed

subsection \<open>Printed dates\<close>

definition pad :: "nat \<Rightarrow> int \<Rightarrow> string" where
  "pad k n = rev (map (\<lambda>i. digit_char (nat (n div 10 ^ i) mod 10)) [0..<k])"

definition format_date :: "int \<Rightarrow> int \<Rightarrow> int \<Rightarrow> string" where
  "format_date y mo d = pad 4 y @ ''-'' @ pad 2 mo @ ''-'' @ pad 2 d"

definition format_time :: "int \<Rightarrow> int \<Rightarrow> int \<Rightarrow> string" where
  "format_time h mi sec = pad 2 h @ '':'' @ pad 2 mi @ '':'' @ pad 2 sec"

definition is_digit :: "char \<Rightarrow> bool" where
  "is_digit c \<longleftrightarrow> digit_value c \<noteq> None"

lemma digit_char_value: "n < 10 \<Longrightarrow> digit_value (digit_char n) = Some (int n)"
  by (simp add: digit_value_def digit_char_def)

lemma pad_Suc: "pad (Suc k) n = digit_char (nat (n div 10 ^ k) mod 10) # pad k n"
  by (simp add: pad_def)

lemma pad_0 [simp]: "pad 0 n = []"
  by (simp add: pad_def)

lemma pad_digits: "c \<in> set (pad k n) \<Longrightarrow> is_digit c"
  by (auto simp: pad_def is_digit_def digit_char_value)

lemma digits_value_pad:
  "0 \<le> n \<Longrightarrow> digits_value acc (pad k n) = Some (acc * 10 ^ k + n mod 10 ^ k)"
proof (induction k arbitrary: acc)
  case (Suc k)
  let ?d = "n div 10 ^ k mod 10"
  have d: "int (nat (n div 10 ^ k) mod 10) = ?d"
    using Suc.prems by (simp add: zmod_int pos_imp_zdiv_nonneg_iff)
  have "digits_value acc (pad (Suc k) n) = Some ((acc * 10 + ?d) * 10 ^ k + n mod 10 ^ k)"
    using Suc by (simp add: pad_Suc digit_char_value d)
  moreover have "n mod 10 ^ Suc k = 10 ^ k * ?d + n mod 10 ^ k"
    using zmod_zmult2_eq [of 10 n "10 ^ k"] by (simp add: mult.commute)
  ultimately show ?case by (simp add: algebra_simps)
qed simp

lemma parse_pad:
  assumes "0 \<le> n" and "n < 10 ^ k" and "0 < k" and "k \<le> 18"
  shows "parse_i64 (pad k n) = Some n"
proof -
  obtain j where k: "k = Suc j" using assms(3) by (cases k) auto
  let ?c = "digit_char (nat (n div 10 ^ j) mod 10)"
  have "is_digit ?c" using pad_digits [of ?c k n] by (simp add: k pad_Suc)
  then have "?c \<noteq> CHR ''-''" "?c \<noteq> CHR ''+''" by (auto simp: is_digit_def digit_value_def)
  moreover have "i64_range n"
  proof -
    have "(10 :: int) ^ k \<le> 10 ^ 18" using assms(4) by (intro power_increasing) simp_all
    with assms(1,2) show ?thesis by (simp add: i64_range_def)
  qed
  moreover have "digits_value 0 (pad k n) = Some n" using digits_value_pad [OF assms(1), of 0 k] assms(1,2) by simp
  ultimately show ?thesis by (simp add: parse_i64_def unsigned_value_def k pad_Suc Let_def del: digits_value.simps)
qed

lemma split_on_nonempty [simp]: "split_on c s \<noteq> []"
  by (induction s) (auto split: list.splits)

lemma split_on_none: "c \<notin> set s \<Longrightarrow> split_on c s = [s]"
  by (induction s) auto

lemma split_on_append: "c \<notin> set s \<Longrightarrow> split_on c (s @ c # r) = s # split_on c r"
  by (induction s) auto

lemma digits_avoid: "\<forall>x\<in>set s. is_digit x \<Longrightarrow> \<not> is_digit c \<Longrightarrow> c \<notin> set s"
  by auto

lemma pad_avoid: "\<not> is_digit c \<Longrightarrow> c \<notin> set (pad k n)"
  using pad_digits by blast

lemma separators [simp]: "\<not> is_digit (CHR ''-'')" "\<not> is_digit (CHR '':'')" "\<not> is_digit (CHR ''T'')"
    "\<not> is_digit (CHR ''Z'')" "\<not> is_digit (CHR ''+'')" "\<not> is_digit (CHR ''.'')"
  by (simp_all add: is_digit_def digit_value_def)

lemma parse_format_date:
  assumes "0 \<le> y" "y < 10000" "0 \<le> mo" "mo < 100" "0 \<le> d" "d < 100"
  shows "parse_date (format_date y mo d) = Some (y, mo, d)"
proof -
  have "split_on (CHR ''-'') (format_date y mo d) = [pad 4 y, pad 2 mo, pad 2 d]"
    by (simp add: format_date_def split_on_append split_on_none pad_avoid)
  then show ?thesis using assms by (simp add: parse_date_def nth_part_def parse_pad)
qed

lemma parse_format_time:
  assumes "0 \<le> h" "h < 100" "0 \<le> mi" "mi < 100" "0 \<le> sec" "sec < 100"
    and "before (CHR ''.'') (before (CHR ''+'') (trim_end_char (CHR ''Z'') t)) = format_time h mi sec"
  shows "parse_time t = Some (h, mi, sec)"
proof -
  have "split_on (CHR '':'') (format_time h mi sec) = [pad 2 h, pad 2 mi, pad 2 sec]"
    by (simp add: format_time_def split_on_append split_on_none pad_avoid)
  then show ?thesis using assms by (simp add: parse_time_def nth_part_def parse_pad Let_def)
qed

lemma before_none: "c \<notin> set s \<Longrightarrow> before c s = s"
  by (induction s) (auto simp: before_def)

lemma before_append: "c \<notin> set s \<Longrightarrow> before c (s @ c # r) = s"
  by (induction s) (auto simp: before_def)

lemma format_time_avoid: "\<not> is_digit c \<Longrightarrow> c \<noteq> CHR '':'' \<Longrightarrow> c \<notin> set (format_time h mi sec)"
  by (auto simp: format_time_def dest: pad_digits)

lemma trim_end_append: "c \<notin> set s \<Longrightarrow> trim_end_char c (s @ [c]) = s"
proof -
  assume "c \<notin> set s"
  then have "dropWhile (\<lambda>x. x = c) (rev s) = rev s" by (cases s rule: rev_cases) auto
  then show ?thesis by (simp add: trim_end_char_def)
qed

lemma trim_end_prefix: "c \<notin> set s \<Longrightarrow> x \<noteq> c \<Longrightarrow> \<exists>r'. trim_end_char c (s @ x # r) = s @ x # r'"
proof -
  assume "x \<noteq> c"
  then have "\<exists>r'. dropWhile (\<lambda>y. y = c) (rev r @ x # rev s) = r' @ x # rev s"
    by (induction r rule: rev_induct) auto
  then obtain r' where "dropWhile (\<lambda>y. y = c) (rev r @ x # rev s) = r' @ x # rev s" by blast
  then have "trim_end_char c (s @ x # r) = s @ x # rev r'" by (simp add: trim_end_char_def)
  then show ?thesis by blast
qed

lemma trim_id: "s \<noteq> [] \<Longrightarrow> \<not> is_ws (hd s) \<Longrightarrow> \<not> is_ws (last s) \<Longrightarrow> trim s = s"
proof -
  assume "s \<noteq> []" "\<not> is_ws (hd s)" "\<not> is_ws (last s)"
  then have "dropWhile is_ws s = s" "dropWhile is_ws (rev s) = rev s"
    by (cases s, simp_all, cases s rule: rev_cases, simp_all)
  then show ?thesis by (simp add: trim_def)
qed

lemma digit_not_ws: "is_digit c \<Longrightarrow> \<not> is_ws c"
  by (auto simp: is_digit_def digit_value_def is_ws_def Let_def split: if_splits)

lemma split_once_T: "CHR ''T'' \<notin> set a \<Longrightarrow> split_once (CHR ''T'') (a @ CHR ''T'' # b) = Some (a, b)"
  by (induction a) (auto simp: split_once_def before_def)

lemma format_date_T: "CHR ''T'' \<notin> set (format_date y mo d)"
  by (auto simp: format_date_def dest: pad_digits)

lemma format_date_start: "format_date y mo d \<noteq> [] \<and> \<not> is_ws (hd (format_date y mo d))"
proof -
  have p: "pad 4 y = digit_char (nat (y div 10 ^ 3) mod 10) # pad 3 y" using pad_Suc [of 3 y] by simp
  then have "is_digit (digit_char (nat (y div 10 ^ 3) mod 10))"
    using pad_digits [of "digit_char (nat (y div 10 ^ 3) mod 10)" 4 y] by (metis list.set_intros(1))
  then show ?thesis unfolding format_date_def p using digit_not_ws by (metis append_Cons list.distinct(1) list.sel(1))
qed

lemma parse_rfc3339_formatted:
  assumes "0 \<le> y" "y < 10000" "valid_date y mo d" "0 \<le> h" "h < 24" "0 \<le> mi" "mi < 60" "0 \<le> sec" "sec < 60"
    and "before (CHR ''.'') (before (CHR ''+'') (trim_end_char (CHR ''Z'') t)) = format_time h mi sec"
    and "t \<noteq> []" "\<not> is_ws (last t)"
  shows "parse_rfc3339_to_unix (format_date y mo d @ ''T'' @ t) =
    Some (civil_days y mo d * 86400 + h * 3600 + mi * 60 + sec)"
proof -
  have md: "1 \<le> mo" "mo \<le> 12" "1 \<le> d" "d \<le> 31"
    using assms(3) by (auto simp: valid_date_def month_length_def split: if_splits)
  have "trim (format_date y mo d @ ''T'' @ t) = format_date y mo d @ CHR ''T'' # t"
    using format_date_start [of y mo d] assms(11,12) by (subst trim_id) (auto simp: hd_append)
  moreover have "parse_date (format_date y mo d) = Some (y, mo, d)" using assms(1,2) md by (intro parse_format_date) simp_all
  moreover have "parse_time t = Some (h, mi, sec)" using assms(4-10) by (intro parse_format_time) simp_all
  moreover have "days_from_civil y mo d = civil_days y mo d" using assms(1,2) md by (intro days_from_civil_eq) simp_all
  moreover have "unix_seconds (civil_days y mo d) h mi sec = civil_days y mo d * 86400 + h * 3600 + mi * 60 + sec"
  proof (rule unix_seconds_eq)
    define mp where "mp = (if mo > 2 then mo - 3 else mo + 9)"
    have "0 \<le> mp" "mp \<le> 11" using md by (auto simp: mp_def)
    then have "(153 * mp + 2) div 5 \<le> 337" "0 \<le> (153 * mp + 2) div 5" by linarith+
    moreover have "\<bar>year_days (if mo \<le> 2 then y - 1 else y)\<bar> \<le> 4000000"
      using assms(1,2) unfolding year_days_def abs_le_iff by (auto split: if_splits)
    ultimately show "\<bar>civil_days y mo d\<bar> \<le> 1000000000000"
      using md unfolding civil_days_def Let_def mp_def abs_le_iff by linarith
  qed (use assms in simp_all)
  ultimately show ?thesis by (simp add: parse_rfc3339_to_unix_def split_once_T format_date_T)
qed

subsection \<open>Properties\<close>

text \<open>
  The day number is the civil calendar: it is 0 on 1970-01-01 and, for every valid date within a
  billion years, the number of the following day (by the Gregorian leap-year rule) is one more, so no
  intermediate \<^verbatim>\<open>i64\<close> operation wraps there and no date is skipped or counted twice.
\<close>

lemma days_from_civil_calendar:
  assumes "valid_date y mo d" and "\<bar>y\<bar> < 1000000000" and "next_day y mo d = (y', mo', d')"
  shows "days_from_civil 1970 1 1 = 0 \<and> days_from_civil y' mo' d' = days_from_civil y mo d + 1"
proof -
  have len: "month_length a b \<le> 31" for a b by (simp add: month_length_def)
  note n = civil_days_next [OF assms(1,3)]
  have "\<bar>y'\<bar> \<le> 1000000000" using assms(2,3) by (auto simp: next_day_def split: if_splits)
  moreover have "d' \<le> 31" "d \<le> 31" using n assms(1) len [of y mo] len [of y' mo'] by (auto simp: valid_date_def)
  ultimately have "days_from_civil y' mo' d' = civil_days y' mo' d'" "days_from_civil y mo d = civil_days y mo d"
      "days_from_civil 1970 1 1 = civil_days 1970 1 1"
    using n assms(1,2) by (simp_all add: valid_date_def days_from_civil_eq)
  with n civil_days_epoch show ?thesis by simp
qed

text \<open>
  C25. Round trip: a valid date and time printed as \<open>YYYY-MM-DDTHH:MM:SSZ\<close> parses to its Unix seconds.
\<close>

theorem rfc3339_roundtrip:
  assumes "0 \<le> y" "y < 10000" "valid_date y mo d" "0 \<le> h" "h < 24" "0 \<le> mi" "mi < 60" "0 \<le> sec" "sec < 60"
  shows "parse_rfc3339_to_unix (format_date y mo d @ ''T'' @ format_time h mi sec @ ''Z'') =
      Some (civil_days y mo d * 86400 + h * 3600 + mi * 60 + sec)"
  using assms
  by (intro parse_rfc3339_formatted)
     (simp_all add: trim_end_append format_time_avoid before_none is_ws_def)

theorem rfc3339_roundtrip_witness:
  "parse_rfc3339_to_unix (format_date 2026 6 27 @ ''T'' @ format_time 1 2 3 @ ''Z'') =
     Some (civil_days 2026 6 27 * 86400 + 1 * 3600 + 2 * 60 + 3)"
  by (rule rfc3339_roundtrip) (simp_all add: valid_date_def month_length_def)

text \<open>
  A positive zone offset is dropped: the same date and time followed by \<open>+\<close> and any offset parses to
  the seconds of the date and time read as UTC.
\<close>

lemma rfc3339_offset_dropped:
  assumes "0 \<le> y" "y < 10000" "valid_date y mo d" "0 \<le> h" "h < 24" "0 \<le> mi" "mi < 60" "0 \<le> sec" "sec < 60"
    and "off \<noteq> []" "\<not> is_ws (last off)"
  shows "parse_rfc3339_to_unix (format_date y mo d @ ''T'' @ format_time h mi sec @ ''+'' @ off) =
      Some (civil_days y mo d * 86400 + h * 3600 + mi * 60 + sec)"
proof (rule parse_rfc3339_formatted)
  obtain r where "trim_end_char (CHR ''Z'') (format_time h mi sec @ CHR ''+'' # off) = format_time h mi sec @ CHR ''+'' # r"
    using trim_end_prefix [of "CHR ''Z''" "format_time h mi sec" "CHR ''+''" off] by (auto simp: format_time_avoid)
  then show "before (CHR ''.'') (before (CHR ''+'') (trim_end_char (CHR ''Z'') (format_time h mi sec @ ''+'' @ off))) =
      format_time h mi sec"
    by (simp add: before_append before_none format_time_avoid)
qed (use assms in simp_all)

end
