(* ===== verification/Activation.thy ===== *)
theory Activation
  imports Router_Builder Trusted_Keys Civil_Time
begin

text \<open>
  \<^verbatim>\<open>src/crates/dek-activation/src\<close>: the coordinator that turns a staged bundle into the live router:
  signature check (\<^verbatim>\<open>signature.rs\<close>), construction of the router (\<^verbatim>\<open>hydration.rs\<close>), preflight tests
  (\<^verbatim>\<open>preflight.rs\<close>), the last-known-good copy (\<^verbatim>\<open>lkg.rs\<close>), the activation modes (\<^verbatim>\<open>modes.rs\<close>), the
  runtime snapshot (\<^verbatim>\<open>snapshot.rs\<close>) and \<^verbatim>\<open>coordinator.rs\<close>.

  The files are an association list from paths to contents; any file operation may fail, which the
  environment decides. Non-strict ed25519 verification, canonical JSON, the derived deserialisers and the
  engines are parameters. The plugin host is only carried along, so it is left out of the snapshot. The
  coordinator holds its mutex for the whole of \<^verbatim>\<open>process_activation\<close>, so activations are serial.
\<close>

subsection \<open>Configuration\<close>

datatype activation_source = PollSync | CloudPush | LocalAdmin | EmergencyDenySource

datatype activation_mode = AmFull | AmObserveOnly | AmShadow | AmCanary

datatype enterprise_profile = Developer | Pilot | Enterprise | Regulated

fun debug_profile :: "enterprise_profile \<Rightarrow> string" where
  "debug_profile Developer = ''Developer''"
| "debug_profile Pilot = ''Pilot''"
| "debug_profile Enterprise = ''Enterprise''"
| "debug_profile Regulated = ''Regulated''"

record preflight_test =
  pt_name :: string
  pt_input :: json
  pt_expected_decision :: string

record dek_config =
  dc_pinned_bundle_public_key :: string
  dc_activation_mode :: activation_mode
  dc_enterprise_profile :: enterprise_profile
  dc_openfga :: "(string \<times> string) option"
  dc_cedar :: "string option"
  dc_preflight_tests :: "preflight_test list"

datatype activation_error =
    SchemaFailed string
  | RuntimeHydrationFailed string
  | PreflightFailed string
  | CanaryFailed string
  | SnapshotSwapFailed string
  | RollbackFailed string
  | ProfileViolation string
  | ActivationTimeout

fun show_activation_error :: "activation_error \<Rightarrow> string" where
  "show_activation_error (SchemaFailed m) = ''Schema Failed: '' @ m"
| "show_activation_error (RuntimeHydrationFailed m) = ''Runtime Hydration Failed: '' @ m"
| "show_activation_error (PreflightFailed m) = ''Preflight Failed: '' @ m"
| "show_activation_error (CanaryFailed m) = ''Canary Failed: '' @ m"
| "show_activation_error (SnapshotSwapFailed m) = ''Snapshot Swap Failed: '' @ m"
| "show_activation_error (RollbackFailed m) = ''Rollback Failed: '' @ m"
| "show_activation_error (ProfileViolation m) = ''Profile Violation: '' @ m"
| "show_activation_error ActivationTimeout = ''Activation Timeout''"

record activation_request =
  rq_manifest_path :: string
  rq_source :: activation_source
  rq_tenant_id :: string
  rq_device_id :: string

record activation_receipt =
  rc_timestamp_version :: u64
  rc_bundle_id :: string
  rc_mode :: activation_mode

datatype activation_decision =
    Activated activation_receipt
  | Rejected activation_error
  | Deferred string

subsection \<open>Environment and files\<close>

datatype file_op = OpRead string | OpCopy string string | OpRename string string | OpRemove string

record activation_env =
  ax_crypto :: crypto
  ax_verify :: "string \<Rightarrow> string \<Rightarrow> string \<Rightarrow> bool"
  ax_from_str :: "string \<Rightarrow> (string, json) result"
  ax_jcs :: "json \<Rightarrow> (string, string) result"
  ax_builder :: builder_env
  ax_jwks_from_value :: "json \<Rightarrow> json option"
  ax_audience_from_value :: "json \<Rightarrow> string list option"
  ax_io :: "file_op \<Rightarrow> string option"
  ax_active_path :: string
  ax_data_dir :: string
  ax_now :: instant

type_synonym files = "(string \<times> string) list"

definition file_read :: "activation_env \<Rightarrow> string \<Rightarrow> files \<Rightarrow> (string, string) result" where
  "file_read env p fs =
     (case ax_io env (OpRead p) of
        Some e \<Rightarrow> Inl e
      | None \<Rightarrow> (case map_of fs p of Some c \<Rightarrow> Inr c | None \<Rightarrow> Inl ''No such file or directory''))"

definition file_copy :: "activation_env \<Rightarrow> string \<Rightarrow> string \<Rightarrow> files \<Rightarrow> (string, files) result" where
  "file_copy env a b fs =
     (case ax_io env (OpCopy a b) of
        Some e \<Rightarrow> Inl e
      | None \<Rightarrow> (case map_of fs a of Some c \<Rightarrow> Inr (AList.update b c fs) | None \<Rightarrow> Inl ''No such file or directory''))"

definition file_rename :: "activation_env \<Rightarrow> string \<Rightarrow> string \<Rightarrow> files \<Rightarrow> (string, files) result" where
  "file_rename env a b fs =
     (case ax_io env (OpRename a b) of
        Some e \<Rightarrow> Inl e
      | None \<Rightarrow>
          (case map_of fs a of
             Some c \<Rightarrow> Inr (if a = b then fs else AList.update b c (AList.delete a fs))
           | None \<Rightarrow> Inl ''No such file or directory''))"

definition file_remove :: "activation_env \<Rightarrow> string \<Rightarrow> files \<Rightarrow> files" where
  "file_remove env p fs = (if ax_io env (OpRemove p) = None then AList.delete p fs else fs)"

definition lkg_path :: "activation_env \<Rightarrow> string" where
  "lkg_path env = ax_data_dir env @ ''/active_bundle_lkg.json''"

definition shadow_path :: "activation_env \<Rightarrow> string" where
  "shadow_path env = ax_data_dir env @ ''/shadow_bundle.json''"

subsection \<open>Last known good\<close>

definition update_lkg :: "activation_env \<Rightarrow> files \<Rightarrow> files" where
  "update_lkg env fs =
     (if map_of fs (ax_active_path env) \<noteq> None
      then case file_copy env (ax_active_path env) (lkg_path env) fs of Inr fs' \<Rightarrow> fs' | Inl _ \<Rightarrow> fs
      else fs)"

definition rollback_lkg :: "activation_env \<Rightarrow> files \<Rightarrow> (string, unit) result \<times> files" where
  "rollback_lkg env fs =
     (if map_of fs (lkg_path env) \<noteq> None
      then case file_rename env (lkg_path env) (ax_active_path env) fs of Inr fs' \<Rightarrow> (Inr (), fs') | Inl e \<Rightarrow> (Inl e, fs)
      else (Inl ''LKG not found'', fs))"

subsection \<open>Modes\<close>

definition move_bundle :: "activation_env \<Rightarrow> string \<Rightarrow> string \<Rightarrow> string \<Rightarrow> files \<Rightarrow> (activation_error, unit) result \<times> files" where
  "move_bundle env what staged target fs =
     (if staged = target then (Inr (), fs)
      else case file_rename env staged target fs of
             Inr fs' \<Rightarrow> (Inr (), fs')
           | Inl _ \<Rightarrow>
               (case file_copy env staged target fs of
                  Inl e \<Rightarrow> (Inl (SnapshotSwapFailed (''Failed to move bundle to '' @ what @ '' path: '' @ e)), fs)
                | Inr fs' \<Rightarrow> (Inr (), file_remove env staged fs')))"

definition handle_activation_mode ::
    "activation_env \<Rightarrow> string \<Rightarrow> activation_mode \<Rightarrow> files \<Rightarrow> (activation_error, unit) result \<times> files" where
  "handle_activation_mode env staged mode fs =
     (if mode = AmFull then move_bundle env ''active'' staged (ax_active_path env) fs
      else move_bundle env ''shadow'' staged (shadow_path env) fs)"

subsection \<open>Signature\<close>

definition first_signature :: "json \<Rightarrow> string option" where
  "first_signature payload =
     (case Option.bind (json_get payload ''signatures'') as_array of
        Some (sg # _) \<Rightarrow> get_str sg ''payload''
      | _ \<Rightarrow> None)"

definition verify_bundle_signature :: "activation_env \<Rightarrow> string \<Rightarrow> string \<Rightarrow> (activation_error, json) result" where
  "verify_bundle_signature env raw_payload public_key_b64 =
     (case ax_from_str env raw_payload of
        Inl e \<Rightarrow> Inl (SchemaFailed e)
      | Inr payload \<Rightarrow>
     (let pub_key_bytes = (case b64_decode (ax_crypto env) (trim public_key_b64) of Some b \<Rightarrow> b | None \<Rightarrow> []) in
      if length pub_key_bytes \<noteq> 32 then Inr payload else
      case first_signature payload of
        None \<Rightarrow> Inl (SchemaFailed ''Missing signature field'')
      | Some signature_b64 \<Rightarrow>
     (case json_get payload ''manifest'' of
        None \<Rightarrow> Inl (SchemaFailed ''Missing manifest field'')
      | Some manifest \<Rightarrow>
     (case ax_jcs env manifest of
        Inl e \<Rightarrow> Inl (SchemaFailed e)
      | Inr canonical_payload \<Rightarrow>
     (case b64_decode (ax_crypto env) signature_b64 of
        None \<Rightarrow> Inl (SchemaFailed ''Invalid base64 signature'')
      | Some sig \<Rightarrow>
          if length sig \<noteq> 64 then Inl (SchemaFailed ''Invalid signature length'')
          else if \<not> vk_from_bytes_ok (ax_crypto env) pub_key_bytes then Inl (SchemaFailed ''Invalid public key format'')
          else if \<not> ax_verify env pub_key_bytes canonical_payload sig
          then Inl (SchemaFailed ''Signature verification failed'')
          else Inr payload)))))"

subsection \<open>Hydration\<close>

definition hydrate_runtime :: "activation_env \<Rightarrow> dek_config \<Rightarrow> json \<Rightarrow> (activation_error, policy_router) result" where
  "hydrate_runtime env config payload =
     (let router_payload = (case json_get payload ''policy_config'' of Some p \<Rightarrow> p | None \<Rightarrow> payload);
          router = load_router_config (ax_builder env) policy_router_new router_payload;
          with_openfga =
            (case dc_openfga config of
               None \<Rightarrow> Inr router
             | Some (endpoint, store_id) \<Rightarrow>
                 (case openfga_new (ax_builder env) endpoint store_id None of
                    Inr adapter \<Rightarrow> Inr (register_evaluator router ''openfga'' adapter)
                  | Inl e \<Rightarrow> Inl (RuntimeHydrationFailed (''Failed to load OpenFGA adapter: '' @ e))))
      in case with_openfga of
           Inl e \<Rightarrow> Inl e
         | Inr router \<Rightarrow>
             (case dc_cedar config of
                None \<Rightarrow> Inr router
              | Some policy_src \<Rightarrow>
                  (case cedar_new (ax_builder env) policy_src of
                     Inr adapter \<Rightarrow> Inr (register_evaluator router ''cedar'' adapter)
                   | Inl e \<Rightarrow> Inl (RuntimeHydrationFailed (''Failed to load Cedar adapter: '' @ e)))))"

subsection \<open>Preflight\<close>

text \<open>The tests run one after the other on the router that will go live, whose breakers and statistics
  they change.\<close>

fun run_preflight_tests :: "preflight_test list \<Rightarrow> policy_router \<Rightarrow> instant \<Rightarrow> (activation_error, policy_router \<times> instant) result" where
  "run_preflight_tests [] router now = Inr (router, now)"
| "run_preflight_tests (t # ts) router now =
     (let r = authorize router (pt_input t) now
      in if pd_decision (ar_decision r) \<noteq> pt_expected_decision t
         then Inl (PreflightFailed (''Preflight test '' @ [CHR 0x27] @ pt_name t @ [CHR 0x27] @ '' failed: expected '' @
                pt_expected_decision t @ '', got '' @ pd_decision (ar_decision r)))
         else run_preflight_tests ts (ar_router r) (ar_finished r))"

subsection \<open>Snapshot\<close>

record dek_metadata =
  dm_tenant_id :: string
  dm_device_id :: string
  dm_spiffe_id :: "string option"
  dm_jwt_public_key_pem :: "string option"
  dm_jwks :: "json option"
  dm_issuer_url :: "string option"
  dm_audience :: "string list option"
  dm_enterprise_profile :: enterprise_profile

record verifier_config =
  vc_jwks :: "json option"
  vc_public_key_pem :: "string option"
  vc_issuer :: "string option"
  vc_audience :: "string list option"
  vc_leeway_secs :: nat

record runtime_snapshot =
  sn_generation :: u64
  sn_bundle_id :: string
  sn_bundle_version :: u64
  sn_router :: policy_router
  sn_metadata :: dek_metadata
  sn_verifier :: verifier_config

definition snapshot_new :: "u64 \<Rightarrow> string \<Rightarrow> u64 \<Rightarrow> policy_router \<Rightarrow> dek_metadata \<Rightarrow> runtime_snapshot" where
  "snapshot_new generation bundle_id version router metadata =
     \<lparr>sn_generation = generation, sn_bundle_id = bundle_id, sn_bundle_version = version, sn_router = router,
      sn_metadata = metadata,
      sn_verifier = \<lparr>vc_jwks = dm_jwks metadata, vc_public_key_pem = dm_jwt_public_key_pem metadata,
        vc_issuer = dm_issuer_url metadata, vc_audience = dm_audience metadata, vc_leeway_secs = 60\<rparr>\<rparr>"

definition payload_metadata :: "activation_env \<Rightarrow> dek_config \<Rightarrow> json \<Rightarrow> dek_metadata" where
  "payload_metadata env config payload =
     (let jwt = json_get payload ''jwt_config''
      in \<lparr>dm_tenant_id = (case get_str payload ''tenant_id'' of Some t \<Rightarrow> t | None \<Rightarrow> ''''),
          dm_device_id = '''',
          dm_spiffe_id = get_str payload ''spiffe_id'',
          dm_jwt_public_key_pem = Option.bind jwt (\<lambda>j. get_str j ''public_key_pem''),
          dm_jwks = Option.bind jwt (\<lambda>j. Option.bind (json_get j ''jwks'') (ax_jwks_from_value env)),
          dm_issuer_url = Option.bind jwt (\<lambda>j. get_str j ''issuer_url''),
          dm_audience = Option.bind jwt (\<lambda>j. Option.bind (json_get j ''audience'') (ax_audience_from_value env)),
          dm_enterprise_profile = dc_enterprise_profile config\<rparr>)"

subsection \<open>Coordinator\<close>

datatype activation_state = ActIdle | ActWarming | ActPreflighting | ActActivating | ActFailed

record coordinator =
  co_state :: activation_state
  co_snapshot :: runtime_snapshot
  co_generation :: u64
  co_reloads :: "u64 list"
  co_files :: files

definition coordinator_new :: "runtime_snapshot \<Rightarrow> files \<Rightarrow> coordinator" where
  "coordinator_new initial fs = \<lparr>co_state = ActIdle, co_snapshot = initial, co_generation = 1, co_reloads = [], co_files = fs\<rparr>"

definition reject :: "coordinator \<Rightarrow> activation_error \<Rightarrow> activation_decision \<times> coordinator" where
  "reject c e = (Rejected e, c\<lparr>co_state := ActFailed\<rparr>)"

definition swap_snapshot :: "activation_env \<Rightarrow> activation_request \<Rightarrow> dek_config \<Rightarrow> json \<Rightarrow> policy_router \<Rightarrow> coordinator \<Rightarrow> coordinator" where
  "swap_snapshot env req config payload router c =
     (let gen = co_generation c
      in c\<lparr>co_generation := gen + 1,
           co_snapshot := snapshot_new gen (rq_tenant_id req @ ''_'' @ rq_device_id req) 0 router
             (payload_metadata env config payload),
           co_reloads := co_reloads c @ [gen], co_state := ActIdle\<rparr>)"

text \<open>The steps after the preflight: backup, mode, swap. The canary check of the source is the constant
  true, so its branch is not reachable and is left out.\<close>

definition go_live :: "activation_env \<Rightarrow> activation_request \<Rightarrow> dek_config \<Rightarrow> json \<Rightarrow> policy_router \<Rightarrow> coordinator \<Rightarrow>
    activation_decision \<times> coordinator" where
  "go_live env req config payload router c =
     (let fs1 = (if rq_manifest_path req \<noteq> ax_active_path env then update_lkg env (co_files c) else co_files c);
          c1 = c\<lparr>co_files := fs1, co_state := ActActivating\<rparr>
      in case handle_activation_mode env (rq_manifest_path req) (dc_activation_mode config) fs1 of
           (Inl e, fs2) \<Rightarrow> reject (c1\<lparr>co_files := snd (rollback_lkg env fs2)\<rparr>) e
         | (Inr _, fs2) \<Rightarrow>
             (Activated \<lparr>rc_timestamp_version = 0, rc_bundle_id = rq_tenant_id req @ ''_'' @ rq_device_id req,
                rc_mode = dc_activation_mode config\<rparr>,
              swap_snapshot env req config payload router (c1\<lparr>co_files := fs2\<rparr>)))"

definition process_activation :: "activation_env \<Rightarrow> activation_request \<Rightarrow> dek_config \<Rightarrow> coordinator \<Rightarrow>
    activation_decision \<times> coordinator" where
  "process_activation env req config c =
     (if co_state c \<noteq> ActIdle \<and> co_state c \<noteq> ActFailed
      then (Deferred ''Activation already in progress'', c)
      else
     (let c = c\<lparr>co_state := ActWarming\<rparr> in
      if dc_enterprise_profile config \<in> {Enterprise, Regulated} \<and> dc_activation_mode config \<noteq> AmFull
      then reject c (ProfileViolation (''Profile '' @ debug_profile (dc_enterprise_profile config) @
             '' requires Full activation mode''))
      else
      case file_read env (rq_manifest_path req) (co_files c) of
        Inl e \<Rightarrow> reject c (SchemaFailed e)
      | Inr payload_str \<Rightarrow>
     (case verify_bundle_signature env payload_str (dc_pinned_bundle_public_key config) of
        Inl e \<Rightarrow> reject c e
      | Inr payload \<Rightarrow>
     (case hydrate_runtime env config payload of
        Inl e \<Rightarrow> reject c e
      | Inr router \<Rightarrow>
     (let c = c\<lparr>co_state := ActPreflighting\<rparr> in
      case run_preflight_tests (dc_preflight_tests config) router (ax_now env) of
        Inl e \<Rightarrow> reject c e
      | Inr (router, _) \<Rightarrow> go_live env req config payload router c)))))"

subsection \<open>Lemmas\<close>

definition at_rest :: "coordinator \<Rightarrow> bool" where
  "at_rest c \<longleftrightarrow> co_state c = ActIdle \<or> co_state c = ActFailed"

lemma go_live_cases:
  obtains e c' where "go_live env req config payload router c = (Rejected e, c')"
      "co_state c' = ActFailed" "co_snapshot c' = co_snapshot c" "co_generation c' = co_generation c"
      "co_reloads c' = co_reloads c"
  | fs where "go_live env req config payload router c =
        (Activated \<lparr>rc_timestamp_version = 0, rc_bundle_id = rq_tenant_id req @ ''_'' @ rq_device_id req,
           rc_mode = dc_activation_mode config\<rparr>,
         swap_snapshot env req config payload router (c\<lparr>co_files := fs\<rparr>))"
proof (cases "handle_activation_mode env (rq_manifest_path req) (dc_activation_mode config)
    (if rq_manifest_path req \<noteq> ax_active_path env then update_lkg env (co_files c) else co_files c)")
  case (Pair r fs)
  then show thesis
    using that by (cases r) (auto simp: go_live_def Let_def reject_def swap_snapshot_def)
qed

lemma process_rest: "at_rest c \<Longrightarrow> \<exists>d c'. process_activation env req config c = (d, c') \<and> at_rest c' \<and> (\<forall>m. d \<noteq> Deferred m)"
proof -
  assume "at_rest c"
  moreover have "at_rest (snd (go_live env req config p r c1)) \<and> (\<forall>m. fst (go_live env req config p r c1) \<noteq> Deferred m)" for p r c1
    by (rule go_live_cases [of env req config p r c1]) (auto simp: at_rest_def swap_snapshot_def Let_def)
  ultimately show ?thesis
    unfolding process_activation_def Let_def at_rest_def [symmetric]
    by (cases "process_activation env req config c")
       (auto simp: reject_def at_rest_def prod_eq_iff split: sum.splits)
qed


inductive co_step :: "coordinator \<Rightarrow> coordinator \<Rightarrow> bool" where
  "process_activation env req config c = (d, c') \<Longrightarrow> co_step c c'"

text \<open>Every way an activation can end at rest.\<close>

lemma process_cases:
  assumes "process_activation env req config c = (d, c')" and "at_rest c"
  obtains (rejected) e where "d = Rejected e" "co_snapshot c' = co_snapshot c" "co_generation c' = co_generation c"
      "co_reloads c' = co_reloads c" "co_state c' = ActFailed"
  | (live) raw payload router0 router t fs where
      "dc_enterprise_profile config \<in> {Enterprise, Regulated} \<longrightarrow> dc_activation_mode config = AmFull"
      "file_read env (rq_manifest_path req) (co_files c) = Inr raw"
      "verify_bundle_signature env raw (dc_pinned_bundle_public_key config) = Inr payload"
      "hydrate_runtime env config payload = Inr router0"
      "run_preflight_tests (dc_preflight_tests config) router0 (ax_now env) = Inr (router, t)"
      "d = Activated \<lparr>rc_timestamp_version = 0, rc_bundle_id = rq_tenant_id req @ ''_'' @ rq_device_id req,
           rc_mode = dc_activation_mode config\<rparr>"
      "c' = swap_snapshot env req config payload router (c\<lparr>co_state := ActPreflighting, co_files := fs\<rparr>)"
      "go_live env req config payload router (c\<lparr>co_state := ActPreflighting\<rparr>) = (d, c')"
proof (cases "\<exists>e. d = Rejected e")
  case True
  then obtain e where e: "d = Rejected e" by blast
  have "co_snapshot c' = co_snapshot c \<and> co_generation c' = co_generation c \<and> co_reloads c' = co_reloads c \<and> co_state c' = ActFailed"
  proof -
    have gl: "go_live env req config p r c1 = (Rejected e, c') \<Longrightarrow> co_snapshot c' = co_snapshot c1 \<and>
        co_generation c' = co_generation c1 \<and> co_reloads c' = co_reloads c1 \<and> co_state c' = ActFailed" for p r c1
      by (rule go_live_cases [of env req config p r c1]) auto
    show ?thesis
      using assms e unfolding process_activation_def Let_def at_rest_def
      by (auto simp: reject_def dest!: gl split: sum.splits if_splits)
  qed
  with e rejected show thesis by blast
next
  case False
  with assms obtain raw payload router0 router t where *:
      "dc_enterprise_profile config \<in> {Enterprise, Regulated} \<longrightarrow> dc_activation_mode config = AmFull"
      "file_read env (rq_manifest_path req) (co_files c) = Inr raw"
      "verify_bundle_signature env raw (dc_pinned_bundle_public_key config) = Inr payload"
      "hydrate_runtime env config payload = Inr router0"
      "run_preflight_tests (dc_preflight_tests config) router0 (ax_now env) = Inr (router, t)"
      "go_live env req config payload router (c\<lparr>co_state := ActPreflighting\<rparr>) = (d, c')"
    unfolding process_activation_def Let_def at_rest_def
    by (auto simp: reject_def split: sum.splits if_splits)
  with False live show thesis
    by (cases rule: go_live_cases [of env req config payload router "c\<lparr>co_state := ActPreflighting\<rparr>"]) auto
qed

definition co_inv :: "coordinator \<Rightarrow> bool" where
  "co_inv c \<longleftrightarrow> at_rest c \<and> co_reloads c = map of_nat [1..<Suc (length (co_reloads c))] \<and>
     co_generation c = of_nat (Suc (length (co_reloads c))) \<and>
     (co_reloads c \<noteq> [] \<longrightarrow> sn_generation (co_snapshot c) = last (co_reloads c))"

lemma co_inv_step: "co_step c c' \<Longrightarrow> co_inv c \<Longrightarrow> co_inv c'"
proof (induction rule: co_step.induct)
  case (1 env req config c d c')
  then have r: "at_rest c" by (simp add: co_inv_def)
  from 1(1) r show ?case
  proof (cases rule: process_cases)
    case rejected
    with 1(2) show ?thesis by (simp add: co_inv_def at_rest_def)
  next
    case (live raw payload router0 router t fs)
    with 1(2) show ?thesis
      by (simp add: co_inv_def at_rest_def swap_snapshot_def Let_def snapshot_new_def)
  qed
qed

interpretation co_sys: invariant_system "\<lambda>c. \<exists>s fs. c = coordinator_new s fs" co_step co_inv
  by unfold_locales (auto simp: co_inv_step, simp add: co_inv_def coordinator_new_def at_rest_def)

text \<open>The decisions the preflight tests see, in order, on the router as it evolves.\<close>

fun preflight_decisions :: "preflight_test list \<Rightarrow> policy_router \<Rightarrow> instant \<Rightarrow> string list" where
  "preflight_decisions [] router now = []"
| "preflight_decisions (t # ts) router now =
     (let r = authorize router (pt_input t) now
      in pd_decision (ar_decision r) # preflight_decisions ts (ar_router r) (ar_finished r))"

lemma preflight_passes_iff:
  "(\<exists>r. run_preflight_tests ts router now = Inr r) \<longleftrightarrow> preflight_decisions ts router now = map pt_expected_decision ts"
  by (induction ts router now rule: run_preflight_tests.induct) (auto simp: Let_def)

lemma update_lkg_other: "p \<noteq> lkg_path env \<Longrightarrow> map_of (update_lkg env fs) p = map_of fs p"
  by (simp add: update_lkg_def file_copy_def split: sum.splits option.splits)

lemma move_bundle_other:
  "move_bundle env what staged target fs = (Inr (), fs') \<Longrightarrow> p \<noteq> staged \<Longrightarrow> p \<noteq> target \<Longrightarrow> map_of fs' p = map_of fs p"
  by (auto simp: move_bundle_def file_rename_def file_copy_def file_remove_def delete_conv'
      split: sum.splits option.splits if_splits)

subsection \<open>Properties\<close>

text \<open>
  C18. Activation is all or nothing: in every state a run of activations can reach, an attempt is never
  deferred; it is either rejected, and then the live snapshot, the generation counter and the announced
  reloads are as before, or it goes live, and then the snapshot carries the next generation, which is
  announced exactly once. The announced generations are 1, 2, 3, ... without gap, and the last one
  announced is the generation of the live snapshot.
\<close>

theorem activation_all_or_nothing:
  assumes "co_step\<^sup>*\<^sup>* (coordinator_new s fs) c" and "process_activation env req config c = (d, c')"
  shows "((\<exists>e. d = Rejected e \<and> co_snapshot c' = co_snapshot c \<and> co_generation c' = co_generation c \<and>
         co_reloads c' = co_reloads c) \<or>
      (\<exists>r. d = Activated r \<and> sn_generation (co_snapshot c') = co_generation c \<and>
         co_generation c' = co_generation c + 1 \<and> co_reloads c' = co_reloads c @ [co_generation c])) \<and>
    co_reloads c' = map of_nat [1..<Suc (length (co_reloads c'))] \<and>
    (co_reloads c' = [] \<or> sn_generation (co_snapshot c') = last (co_reloads c'))"
proof -
  have inv: "co_inv c" by (rule co_sys.inv_reachable [OF _ assms(1)]) blast
  then have rest: "at_rest c" by (simp add: co_inv_def)
  have "co_inv c'" by (rule co_inv_step [OF co_step.intros [OF assms(2)] inv])
  moreover from assms(2) rest have "(\<exists>e. d = Rejected e \<and> co_snapshot c' = co_snapshot c \<and>
      co_generation c' = co_generation c \<and> co_reloads c' = co_reloads c) \<or>
    (\<exists>r. d = Activated r \<and> sn_generation (co_snapshot c') = co_generation c \<and>
       co_generation c' = co_generation c + 1 \<and> co_reloads c' = co_reloads c @ [co_generation c])"
    by (cases rule: process_cases) (auto simp: swap_snapshot_def Let_def snapshot_new_def)
  ultimately show ?thesis by (auto simp: co_inv_def)
qed

definition demo_act_env :: activation_env where
  "demo_act_env = \<lparr>ax_crypto = demo_crypto, ax_verify = (\<lambda>_ _ _. True), ax_from_str = (\<lambda>_. Inr json_empty),
     ax_jcs = (\<lambda>_. Inr ''m''),
     ax_builder = \<lparr>feature_cedar = False, feature_opa = False, feature_openfga = False,
       cedar_new = (\<lambda>_. Inl ''e''), opa_new = (\<lambda>_. Inl ''e''), openfga_new = (\<lambda>_ _ _. Inl ''e''),
       path_exists = (\<lambda>_. False), mtls_from_value = (\<lambda>_. None), scale_from_value = (\<lambda>_. None),
       routes_from_value = (\<lambda>_. Inr [])\<rparr>,
     ax_jwks_from_value = (\<lambda>_. None), ax_audience_from_value = (\<lambda>_. None), ax_io = (\<lambda>_. None),
     ax_active_path = ''/d/active_bundle.json'', ax_data_dir = ''/d'', ax_now = 0\<rparr>"

definition demo_config :: "activation_mode \<Rightarrow> string \<Rightarrow> dek_config" where
  "demo_config mode key = \<lparr>dc_pinned_bundle_public_key = key, dc_activation_mode = mode, dc_enterprise_profile = Developer,
     dc_openfga = None, dc_cedar = None, dc_preflight_tests = []\<rparr>"

definition demo_request :: activation_request where
  "demo_request = \<lparr>rq_manifest_path = ''/d/staged.json'', rq_source = PollSync, rq_tenant_id = ''t'', rq_device_id = ''dev''\<rparr>"

definition demo_coordinator :: coordinator where
  "demo_coordinator = coordinator_new (snapshot_new 0 ''b'' 0 policy_router_new
     (payload_metadata demo_act_env (demo_config AmFull '''') json_empty)) [(''/d/staged.json'', ''{}'')]"

lemma demo_activation: "\<exists>r c'. process_activation demo_act_env demo_request (demo_config mode '''') demo_coordinator = (Activated r, c')"
proof -
  have r: "at_rest demo_coordinator" by (simp add: demo_coordinator_def coordinator_new_def at_rest_def)
  have v: "verify_bundle_signature demo_act_env x '''' = Inr json_empty" for x
    by (simp add: verify_bundle_signature_def demo_act_env_def trim_def demo_crypto_def)
  have h: "hydrate_runtime demo_act_env (demo_config mode '''') json_empty = Inr policy_router_new"
    by (simp add: hydrate_runtime_def demo_config_def demo_act_env_def load_router_config_def load_scale_def
        load_adapter_def load_routes_def Let_def)
  have "fst (go_live demo_act_env demo_request (demo_config mode '''') json_empty policy_router_new
      (demo_coordinator\<lparr>co_state := ActPreflighting\<rparr>)) = Activated \<lparr>rc_timestamp_version = 0,
        rc_bundle_id = ''t_dev'', rc_mode = mode\<rparr>"
    by (simp add: go_live_def Let_def demo_request_def demo_act_env_def demo_coordinator_def coordinator_new_def
        update_lkg_def handle_activation_mode_def move_bundle_def file_rename_def demo_config_def shadow_path_def)
  then obtain c' where "go_live demo_act_env demo_request (demo_config mode '''') json_empty policy_router_new
      (demo_coordinator\<lparr>co_state := ActPreflighting\<rparr>) = (Activated \<lparr>rc_timestamp_version = 0,
        rc_bundle_id = ''t_dev'', rc_mode = mode\<rparr>, c')" by (metis prod.collapse)
  moreover have "file_read demo_act_env (rq_manifest_path demo_request) (co_files demo_coordinator) = Inr ''{}''"
    by (simp add: file_read_def demo_act_env_def demo_request_def demo_coordinator_def coordinator_new_def)
  moreover have "dc_enterprise_profile (demo_config mode '''') = Developer" "dc_pinned_bundle_public_key (demo_config mode '''') = ''''"
      "dc_preflight_tests (demo_config mode '''') = []"
    by (simp_all add: demo_config_def)
  ultimately show ?thesis using r by (auto simp: process_activation_def Let_def at_rest_def v h)
qed

theorem activation_all_or_nothing_witness:
  "co_reloads (snd (process_activation demo_act_env demo_request (demo_config AmFull '''') demo_coordinator)) = [1]"
proof -
  from demo_activation obtain r c' where
    p: "process_activation demo_act_env demo_request (demo_config AmFull '''') demo_coordinator = (Activated r, c')" by blast
  have "co_step\<^sup>*\<^sup>* (coordinator_new (co_snapshot demo_coordinator) (co_files demo_coordinator)) demo_coordinator"
    by (simp add: demo_coordinator_def coordinator_new_def)
  from activation_all_or_nothing [OF this p] p show ?thesis by (auto simp: demo_coordinator_def coordinator_new_def)
qed

text \<open>What acceptance of a bundle under a pinned key of 32 bytes rests on: a signature of 64 bytes over the canonical text of its manifest.\<close>

definition manifest_signed :: "activation_env \<Rightarrow> string \<Rightarrow> json \<Rightarrow> bool" where
  "manifest_signed env vk payload \<longleftrightarrow>
     vk_from_bytes_ok (ax_crypto env) vk \<and>
     (\<exists>s64 manifest canonical sig. first_signature payload = Some s64 \<and> json_get payload ''manifest'' = Some manifest \<and>
        ax_jcs env manifest = Inr canonical \<and> b64_decode (ax_crypto env) s64 = Some sig \<and> length sig = 64 \<and> ax_verify env vk canonical sig)"

lemma verify_bundle_signature_iff:
  "verify_bundle_signature env raw key = Inr payload \<longleftrightarrow>
     ax_from_str env raw = Inr payload \<and>
     (\<forall>vk. b64_decode (ax_crypto env) (trim key) = Some vk \<and> length vk = 32 \<longrightarrow> manifest_signed env vk payload)"
  by (auto simp: verify_bundle_signature_def manifest_signed_def Let_def split: sum.splits option.splits if_splits)

definition demo_signed :: json where
  "demo_signed = JObj [(''manifest'', JNull), (''signatures'', JArr [JObj [(''payload'', JStr ''AA'')]])]"

text \<open>
  C17. Nothing goes live untested: an activation that succeeds respected the profile's mode rule and read the staged bundle;
  when the pinned key is 32 bytes of base64, the bundle carries a signature that verifies under this key over the canonical
  text of its manifest; the router was built from the bundle, and every preflight test got its expected decision
  on exactly the router that is live afterwards (as the tests left it).
\<close>

theorem activation_gated:
  assumes "process_activation env req config c = (Activated r, c')" and "at_rest c"
  shows "(dc_enterprise_profile config \<in> {Enterprise, Regulated} \<longrightarrow> dc_activation_mode config = AmFull) \<and>
    (\<exists>raw payload router0 t.
       file_read env (rq_manifest_path req) (co_files c) = Inr raw \<and> ax_from_str env raw = Inr payload \<and>
       (\<forall>vk. b64_decode (ax_crypto env) (trim (dc_pinned_bundle_public_key config)) = Some vk \<and> length vk = 32 \<longrightarrow>
          vk_from_bytes_ok (ax_crypto env) vk \<and>
          (\<exists>s64 manifest canonical sig. first_signature payload = Some s64 \<and> json_get payload ''manifest'' = Some manifest \<and>
             ax_jcs env manifest = Inr canonical \<and> b64_decode (ax_crypto env) s64 = Some sig \<and> length sig = 64 \<and>
             ax_verify env vk canonical sig)) \<and>
       hydrate_runtime env config payload = Inr router0 \<and>
       preflight_decisions (dc_preflight_tests config) router0 (ax_now env) =
         map pt_expected_decision (dc_preflight_tests config) \<and>
       run_preflight_tests (dc_preflight_tests config) router0 (ax_now env) = Inr (sn_router (co_snapshot c'), t))"
  using assms
proof (cases rule: process_cases)
  case (live raw payload router0 router t fs)
  moreover from live(5) have "preflight_decisions (dc_preflight_tests config) router0 (ax_now env) =
      map pt_expected_decision (dc_preflight_tests config)"
    using preflight_passes_iff by blast
  ultimately show ?thesis
    unfolding verify_bundle_signature_iff manifest_signed_def
    by (intro conjI exI [of _ raw] exI [of _ payload] exI [of _ router0] exI [of _ t]) (simp_all add: swap_snapshot_def Let_def snapshot_new_def)
qed simp

text \<open>A bundle that is signed under the pinned key and has to answer a preflight test.\<close>

definition demo_gate_env :: activation_env where
  "demo_gate_env = demo_act_env\<lparr>ax_verify := \<lambda>vk msg sig. msg = ''m'' \<and> hd vk = hd sig, ax_from_str := \<lambda>_. Inr demo_signed\<rparr>"

definition demo_gate_config :: dek_config where
  "demo_gate_config = (demo_config AmFull ''A'')
     \<lparr>dc_preflight_tests := [\<lparr>pt_name = ''closed'', pt_input = json_empty, pt_expected_decision = ''deny''\<rparr>]\<rparr>"

lemma demo_gated_activation: "\<exists>r c'. process_activation demo_gate_env demo_request demo_gate_config demo_coordinator = (Activated r, c')"
proof -
  have v: "verify_bundle_signature demo_gate_env x ''A'' = Inr demo_signed" for x
    by (simp add: verify_bundle_signature_def demo_gate_env_def demo_act_env_def trim_def demo_crypto_def demo_signed_def first_signature_def)
  have h: "hydrate_runtime demo_gate_env demo_gate_config demo_signed = Inr policy_router_new"
    by (simp add: hydrate_runtime_def demo_gate_config_def demo_gate_env_def demo_config_def demo_act_env_def load_router_config_def load_scale_def
        load_adapter_def load_routes_def demo_signed_def Let_def)
  have "pd_decision (ar_decision (authorize policy_router_new json_empty 0)) = ''deny''"
    by (simp add: authorize_def authorize_inner_def policy_router_new_def no_route_decision_def Let_def)
  then obtain rt t where p: "run_preflight_tests (dc_preflight_tests demo_gate_config) policy_router_new 0 = Inr (rt, t)"
    by (simp add: demo_gate_config_def Let_def)
  have "fst (go_live demo_gate_env demo_request demo_gate_config demo_signed rt
      (demo_coordinator\<lparr>co_state := ActPreflighting\<rparr>)) = Activated \<lparr>rc_timestamp_version = 0, rc_bundle_id = ''t_dev'', rc_mode = AmFull\<rparr>"
    by (simp add: go_live_def Let_def demo_request_def demo_gate_env_def demo_act_env_def demo_coordinator_def coordinator_new_def
        update_lkg_def handle_activation_mode_def move_bundle_def file_rename_def demo_gate_config_def demo_config_def shadow_path_def)
  then obtain c' where "go_live demo_gate_env demo_request demo_gate_config demo_signed rt (demo_coordinator\<lparr>co_state := ActPreflighting\<rparr>) =
      (Activated \<lparr>rc_timestamp_version = 0, rc_bundle_id = ''t_dev'', rc_mode = AmFull\<rparr>, c')" by (metis prod.collapse)
  moreover have "file_read demo_gate_env (rq_manifest_path demo_request) (co_files demo_coordinator) = Inr ''{}''"
    by (simp add: file_read_def demo_gate_env_def demo_act_env_def demo_request_def demo_coordinator_def coordinator_new_def)
  moreover have "dc_enterprise_profile demo_gate_config = Developer" "dc_pinned_bundle_public_key demo_gate_config = ''A''" "ax_now demo_gate_env = 0"
      "co_state demo_coordinator = ActIdle"
    by (simp_all add: demo_gate_config_def demo_config_def demo_gate_env_def demo_act_env_def demo_coordinator_def coordinator_new_def)
  ultimately show ?thesis using p by (simp add: process_activation_def Let_def v h)
qed

theorem activation_gated_witness:
  "\<exists>canonical sig router0. ax_verify demo_gate_env (replicate 32 CHR ''A'') canonical sig \<and>
     preflight_decisions (dc_preflight_tests demo_gate_config) router0 0 = [''deny'']"
proof -
  from demo_gated_activation obtain r c' where
    p: "process_activation demo_gate_env demo_request demo_gate_config demo_coordinator = (Activated r, c')" by blast
  have "at_rest demo_coordinator" by (simp add: demo_coordinator_def coordinator_new_def at_rest_def)
  from activation_gated [OF p this] obtain payload router0 where
      "\<forall>vk. b64_decode (ax_crypto demo_gate_env) (trim (dc_pinned_bundle_public_key demo_gate_config)) = Some vk \<and> length vk = 32 \<longrightarrow>
          (\<exists>canonical sig. ax_verify demo_gate_env vk canonical sig)"
      "preflight_decisions (dc_preflight_tests demo_gate_config) router0 (ax_now demo_gate_env) = map pt_expected_decision (dc_preflight_tests demo_gate_config)"
    by blast
  moreover have "b64_decode (ax_crypto demo_gate_env) (trim (dc_pinned_bundle_public_key demo_gate_config)) = Some (replicate 32 CHR ''A'')"
      "map pt_expected_decision (dc_preflight_tests demo_gate_config) = [''deny'']" "ax_now demo_gate_env = 0"
    by (simp_all add: demo_gate_env_def demo_act_env_def demo_crypto_def demo_gate_config_def demo_config_def trim_def is_ws_def)
  ultimately show ?thesis by (metis length_replicate)
qed

text \<open>
  The signature covers only the manifest: given an accepted bundle, the same envelope with any other
  policy configuration put beside the signed manifest is accepted under the same key, and the router is
  built from the configuration put there, not from what was signed.
\<close>

lemma signature_misses_policy:
  assumes "verify_bundle_signature env raw key = Inr payload" and "ax_from_str env raw = Inr (JObj m)"
    and "ax_from_str env raw' = Inr (json_insert (JObj m) ''policy_config'' evil)"
    and "dc_openfga config = None" and "dc_cedar config = None"
  shows "verify_bundle_signature env raw' key = Inr (json_insert (JObj m) ''policy_config'' evil) \<and>
    hydrate_runtime env config (json_insert (JObj m) ''policy_config'' evil) =
      Inr (load_router_config (ax_builder env) policy_router_new evil)"
proof
  have "first_signature (json_insert (JObj m) ''policy_config'' evil) = first_signature (JObj m)"
    "json_get (json_insert (JObj m) ''policy_config'' evil) ''manifest'' = json_get (JObj m) ''manifest''"
    by (simp_all add: first_signature_def)
  with assms(1-3) show "verify_bundle_signature env raw' key = Inr (json_insert (JObj m) ''policy_config'' evil)"
    unfolding verify_bundle_signature_def Let_def
    by (auto simp del: json_get.simps json_insert.simps split: sum.splits option.splits if_splits)
  show "hydrate_runtime env config (json_insert (JObj m) ''policy_config'' evil) =
      Inr (load_router_config (ax_builder env) policy_router_new evil)"
    using assms(4,5) by (simp add: hydrate_runtime_def Let_def)
qed

definition demo_sig_env :: activation_env where
  "demo_sig_env = demo_act_env\<lparr>ax_verify := \<lambda>vk msg sig. hd vk = hd sig,
     ax_from_str := \<lambda>s. Inr (if s = ''good'' then demo_signed else json_insert demo_signed ''policy_config'' (JStr ''evil''))\<rparr>"

text \<open>A pinned key that is not 32 bytes of base64 turns the check off: every bundle that parses is accepted.\<close>

lemma malformed_key_accepts_all:
  assumes "\<And>b. b64_decode (ax_crypto env) (trim key) = Some b \<Longrightarrow> length b \<noteq> 32" and "ax_from_str env raw = Inr payload"
  shows "verify_bundle_signature env raw key = Inr payload"
  using assms by (auto simp: verify_bundle_signature_def Let_def split: option.splits)

text \<open>
  Shadow, observe-only and canary activations go live: in these modes the active bundle file is left
  alone and the bundle is stored as the shadow bundle, but the live snapshot is replaced by the new router
  all the same.
\<close>

lemma shadow_mode_goes_live:
  assumes "process_activation env req config c = (Activated r, c')" and "at_rest c"
    and "dc_activation_mode config \<noteq> AmFull" and "rq_manifest_path req \<noteq> ax_active_path env"
    and "shadow_path env \<noteq> ax_active_path env" and "lkg_path env \<noteq> ax_active_path env"
  shows "map_of (co_files c') (ax_active_path env) = map_of (co_files c) (ax_active_path env) \<and>
    (\<exists>payload router0 t. hydrate_runtime env config payload = Inr router0 \<and>
       run_preflight_tests (dc_preflight_tests config) router0 (ax_now env) = Inr (sn_router (co_snapshot c'), t)) \<and>
    sn_generation (co_snapshot c') = co_generation c"
  using assms(1,2)
proof (cases rule: process_cases)
  case (live raw payload router0 router t fs)
  let ?fs1 = "update_lkg env (co_files c)"
  from live(6,8) assms(3,4) obtain fs2 where m: "move_bundle env ''shadow'' (rq_manifest_path req) (shadow_path env) ?fs1 = (Inr (), fs2)"
      and f: "co_files c' = fs2"
    by (auto simp: go_live_def Let_def handle_activation_mode_def reject_def swap_snapshot_def
        split: prod.splits sum.splits)
  from move_bundle_other [OF m, of "ax_active_path env"] assms(4,5)
  have "map_of fs2 (ax_active_path env) = map_of ?fs1 (ax_active_path env)" by simp
  also have "\<dots> = map_of (co_files c) (ax_active_path env)" using assms(6) by (intro update_lkg_other) simp
  finally show ?thesis using live f by (auto simp: swap_snapshot_def Let_def snapshot_new_def)
qed simp

end
