(* ===== verification/Kernel_Guard.thy ===== *)
theory Kernel_Guard
  imports Json_Value "HOL-Library.Multiset"
begin

text \<open>
  \<^verbatim>\<open>src/crates/dek-core/src/kernel_guard.rs\<close> with the guardrail data model of
  \<^verbatim>\<open>src/crates/dek-domain-schema/src/network_guardrail.rs\<close>: which destinations of a compiled network
  ruleset go to the kernel plane and which to user mode.
\<close>

subsection \<open>Data model\<close>

datatype network_guardrail_effect = NgAllow | NgDeny | NgAllowOrDeny

record network_targets =
  nt_agents :: "string list"
  nt_processes :: "string list"
  nt_users :: "string list"
  nt_devices :: "string list"

record network_destination =
  nd_type :: string
  nd_value :: json

record network_conditions =
  nc_destinations :: "network_destination list"
  nc_protocols :: "string list"
  nc_time_window :: "string option"

record network_fallback =
  nf_cloud_unavailable :: string
  nf_policy_stale :: string

record compiled_network_rules =
  nr_policy_id :: string
  nr_policy_type :: string
  nr_version :: u64
  nr_risk_tier :: string
  nr_targets :: network_targets
  nr_conditions :: network_conditions
  nr_effect :: network_guardrail_effect
  nr_obligations :: "string list"
  nr_fallback :: network_fallback

subsection \<open>Classification\<close>

definition max_kernel_entries :: nat where
  "max_kernel_entries = 1024"

datatype rule_complexity = KernelSafe | UserModeOnly

definition classify_destination :: "network_destination \<Rightarrow> bool \<Rightarrow> rule_complexity" where
  "classify_destination dest has_conditions =
     (if has_conditions then UserModeOnly
      else if nd_type dest = ''cidr'' \<or> nd_type dest = ''port'' then KernelSafe
      else if nd_type dest = ''domain'' then
        (let v = (case as_str (nd_value dest) of Some s \<Rightarrow> s | None \<Rightarrow> '''')
         in if CHR ''*'' \<in> set v \<or> CHR 0x3F \<in> set v \<or> starts_with v ''/'' \<or> v = [] then UserModeOnly else KernelSafe)
      else UserModeOnly)"

definition conditions_force_usermode :: "network_conditions \<Rightarrow> bool" where
  "conditions_force_usermode c \<longleftrightarrow> nc_time_window c \<noteq> None \<or> nc_protocols c \<noteq> []"

subsection \<open>Partition\<close>

record partitioned_rules =
  pr_kernel :: "network_destination list"
  pr_user_mode :: "network_destination list"
  pr_overflow_to_user :: usize

definition default_partition :: partitioned_rules where
  "default_partition = \<lparr>pr_kernel = [], pr_user_mode = [], pr_overflow_to_user = 0\<rparr>"

definition place :: "bool \<Rightarrow> network_destination \<Rightarrow> partitioned_rules \<Rightarrow> partitioned_rules" where
  "place force_user dest out =
     (case (if force_user then UserModeOnly else classify_destination dest False) of
        KernelSafe \<Rightarrow>
          if length (pr_kernel out) < max_kernel_entries then out\<lparr>pr_kernel := pr_kernel out @ [dest]\<rparr>
          else out\<lparr>pr_user_mode := pr_user_mode out @ [dest], pr_overflow_to_user := pr_overflow_to_user out + 1\<rparr>
      | UserModeOnly \<Rightarrow> out\<lparr>pr_user_mode := pr_user_mode out @ [dest]\<rparr>)"

definition partition_rules :: "compiled_network_rules \<Rightarrow> partitioned_rules" where
  "partition_rules rules =
     fold (place (conditions_force_usermode (nr_conditions rules))) (nc_destinations (nr_conditions rules)) default_partition"

definition kernel_subset :: "compiled_network_rules \<Rightarrow> compiled_network_rules \<times> partitioned_rules" where
  "kernel_subset rules =
     (let part = partition_rules rules
      in (rules\<lparr>nr_conditions := \<lparr>nc_destinations = pr_kernel part, nc_protocols = [], nc_time_window = None\<rparr>\<rparr>, part))"

subsection \<open>Specification\<close>

text \<open>
  What the guard promises, without a loop: the kernel gets the first \<open>max_kernel_entries\<close> safe destinations
  in order (none when a condition forces user mode), user mode gets all the others in order, and the
  overflow counts the safe ones that did not fit.
\<close>

definition safe :: "network_conditions \<Rightarrow> network_destination \<Rightarrow> bool" where
  "safe c d \<longleftrightarrow> \<not> conditions_force_usermode c \<and> classify_destination d False = KernelSafe"

text \<open>The destinations that do not fit: user-mode ones, and safe ones after the first \<open>n\<close>.\<close>

fun user_share :: "network_conditions \<Rightarrow> nat \<Rightarrow> network_destination list \<Rightarrow> network_destination list" where
  "user_share c n [] = []"
| "user_share c n (d # ds) =
     (if safe c d then if 0 < n then user_share c (n - 1) ds else d # user_share c n ds
      else d # user_share c n ds)"

lemma place_fold:
  "length (pr_kernel out) + n = max_kernel_entries \<Longrightarrow>
   fold (place (conditions_force_usermode c)) ds out =
     \<lparr>pr_kernel = pr_kernel out @ take n (filter (safe c) ds),
      pr_user_mode = pr_user_mode out @ user_share c n ds,
      pr_overflow_to_user = pr_overflow_to_user out + of_nat (length (filter (safe c) ds) - n)\<rparr>"
proof (induction ds arbitrary: out n)
  case (Cons d ds)
  show ?case
  proof (cases "safe c d")
    case False
    then have "place (conditions_force_usermode c) d out = out\<lparr>pr_user_mode := pr_user_mode out @ [d]\<rparr>"
      by (auto simp: place_def safe_def split: rule_complexity.splits)
    with Cons False show ?thesis by simp
  next
    case safe: True
    show ?thesis
    proof (cases n)
      case (Suc k)
      with safe Cons.prems have "place (conditions_force_usermode c) d out = out\<lparr>pr_kernel := pr_kernel out @ [d]\<rparr>"
        by (simp add: place_def safe_def)
      with Cons.IH [of "out\<lparr>pr_kernel := pr_kernel out @ [d]\<rparr>" k] Cons.prems safe Suc show ?thesis by simp
    next
      case 0
      let ?out = "out\<lparr>pr_user_mode := pr_user_mode out @ [d], pr_overflow_to_user := pr_overflow_to_user out + 1\<rparr>"
      from safe 0 Cons.prems have "place (conditions_force_usermode c) d out = ?out"
        by (simp add: place_def safe_def)
      with Cons.IH [of ?out 0] Cons.prems safe 0 show ?thesis by (simp add: algebra_simps)
    qed
  qed
qed simp

lemma user_share_mset:
  "mset (take n (filter (safe c) ds)) + mset (user_share c n ds) = mset ds"
proof (induction ds arbitrary: n)
  case (Cons d ds)
  then show ?case using Cons.IH [of 0] by (cases n) (simp_all add: Cons.IH)
qed simp

subsection \<open>Properties\<close>

text \<open>
  C22. The guard's loop refines the partition it promises: the kernel plane receives exactly the first 1024
  kernel-safe destinations in order, and none of a ruleset with conditions; together the two planes hold
  every destination of the ruleset exactly as often as it occurs, so nothing is dropped; the user-mode list
  keeps the order; and the overflow counter is the number of safe destinations beyond the cap.
\<close>

theorem partition_refines_spec:
  "(let c = nr_conditions rules; ds = nc_destinations c; p = partition_rules rules
    in pr_kernel p = take 1024 (filter (safe c) ds) \<and> pr_user_mode p = user_share c 1024 ds \<and>
       mset (pr_kernel p) + mset (pr_user_mode p) = mset ds \<and>
       pr_overflow_to_user p = of_nat (length (filter (safe c) ds) - 1024)) \<and>
   nc_destinations (nr_conditions (fst (kernel_subset rules))) = pr_kernel (partition_rules rules) \<and>
   nr_effect (fst (kernel_subset rules)) = nr_effect rules"
  using place_fold [of default_partition 1024 "nr_conditions rules" "nc_destinations (nr_conditions rules)"]
    user_share_mset [of 1024 "nr_conditions rules" "nc_destinations (nr_conditions rules)"]
  by (simp add: partition_rules_def default_partition_def max_kernel_entries_def kernel_subset_def Let_def)

end
