(* ===== verification/Utf8_Text.thy ===== *)
theory Utf8_Text
  imports Json_Value Civil_Time
begin

text \<open>
  The operations of \<^verbatim>\<open>str\<close> and \<^verbatim>\<open>String\<close> the guards use, on the UTF-8 bytes of a text: its characters
  as groups of bytes, character boundaries, validation, replacement, byte ranges. A range that is out of
  bounds, reversed or not on character boundaries panics in Rust; here it is \<open>None\<close>.
\<close>

subsection \<open>Characters\<close>

definition bytes :: "nat list \<Rightarrow> string" where
  "bytes ns = map char_of ns"

definition is_cont :: "char \<Rightarrow> bool" where
  "is_cont b \<longleftrightarrow> 128 \<le> (of_char b :: nat) \<and> (of_char b :: nat) < 192"

lemma dropWhile_shorter [termination_simp]: "length (dropWhile P s) < Suc (length s)"
  by (simp add: less_Suc_eq_le length_dropWhile_le)

fun utf8_chars :: "string \<Rightarrow> string list" where
  "utf8_chars [] = []"
| "utf8_chars (b # s) = (b # takeWhile is_cont s) # utf8_chars (dropWhile is_cont s)"

definition is_char_boundary :: "string \<Rightarrow> nat \<Rightarrow> bool" where
  "is_char_boundary s i \<longleftrightarrow> i = 0 \<or> i = length s \<or> i < length s \<and> \<not> is_cont (s ! i)"

definition utf8_group :: "string \<Rightarrow> bool" where
  "utf8_group c \<longleftrightarrow> c \<noteq> [] \<and> \<not> is_cont (hd c) \<and> list_all is_cont (tl c)"

text \<open>\<^verbatim>\<open>String::from_utf8\<close>: the well-formed byte sequences of the Unicode standard.\<close>

fun valid_utf8 :: "nat list \<Rightarrow> bool" where
  "valid_utf8 [] = True"
| "valid_utf8 (a # s) =
     (let cont = (\<lambda>b. 128 \<le> b \<and> b < (192::nat)) in
      if a < 128 then valid_utf8 s
      else if 194 \<le> a \<and> a \<le> 223 then
        (case s of b # s' \<Rightarrow> cont b \<and> valid_utf8 s' | _ \<Rightarrow> False)
      else if 224 \<le> a \<and> a \<le> 239 then
        (case s of b # c # s' \<Rightarrow>
             (if a = 224 then 160 \<le> b \<and> b < 192 else if a = 237 then 128 \<le> b \<and> b < 160 else cont b) \<and>
             cont c \<and> valid_utf8 s'
         | _ \<Rightarrow> False)
      else if 240 \<le> a \<and> a \<le> 244 then
        (case s of b # c # d # s' \<Rightarrow>
             (if a = 240 then 144 \<le> b \<and> b < 192 else if a = 244 then 128 \<le> b \<and> b < 144 else cont b) \<and>
             cont c \<and> cont d \<and> valid_utf8 s'
         | _ \<Rightarrow> False)
      else False)"

definition from_utf8 :: "string \<Rightarrow> string option" where
  "from_utf8 s = (if valid_utf8 (map of_char s) then Some s else None)"

lemma concat_utf8_chars [simp]: "concat (utf8_chars s) = s"
  by (induction s rule: utf8_chars.induct) simp_all

lemma takeWhile_group:
  "list_all is_cont t \<Longrightarrow> (rest = [] \<or> \<not> is_cont (hd rest)) \<Longrightarrow>
   takeWhile is_cont (t @ rest) = t \<and> dropWhile is_cont (t @ rest) = rest"
  by (cases rest) (auto simp: takeWhile_append dropWhile_append list_all_iff)

lemma utf8_chars_group:
  assumes "utf8_group c" and "rest = [] \<or> \<not> is_cont (hd rest)"
  shows "utf8_chars (c @ rest) = c # utf8_chars rest"
  using assms takeWhile_group [of "tl c" rest] by (cases c) (auto simp: utf8_group_def)

text \<open>Groups of bytes put together are read back as the same characters.\<close>

lemma utf8_chars_concat: "list_all utf8_group cs \<Longrightarrow> utf8_chars (concat cs) = cs"
proof (induction cs)
  case (Cons c cs)
  then have "concat cs = [] \<or> \<not> is_cont (hd (concat cs))"
    by (cases cs) (auto simp: utf8_group_def)
  with Cons show ?case by (simp add: utf8_chars_group)
qed simp

lemma utf8_chars_groups:
  "s = [] \<or> \<not> is_cont (hd s) \<Longrightarrow> list_all utf8_group (utf8_chars s)"
proof (induction s rule: utf8_chars.induct)
  case (2 b s)
  have "dropWhile is_cont s = [] \<or> \<not> is_cont (hd (dropWhile is_cont s))"
    using hd_dropWhile [of is_cont s] by blast
  then have "list_all utf8_group (utf8_chars (dropWhile is_cont s))" by (rule "2.IH")
  moreover have "list_all is_cont (takeWhile is_cont s)"
    unfolding list_all_iff by (blast dest: set_takeWhileD)
  ultimately show ?case using "2.prems" by (simp add: utf8_group_def [of "b # takeWhile is_cont s"])
qed simp

lemma ascii_not_cont: "(of_char c :: nat) < 128 \<Longrightarrow> \<not> is_cont c"
  by (simp add: is_cont_def)

subsection \<open>Search and replacement\<close>

definition to_ascii_lowercase :: "string \<Rightarrow> string" where
  "to_ascii_lowercase s =
     map (\<lambda>c. let n = (of_char c :: nat) in if 65 \<le> n \<and> n \<le> 90 then char_of (n + 32) else c) s"

definition to_ascii_uppercase :: "string \<Rightarrow> string" where
  "to_ascii_uppercase s =
     map (\<lambda>c. let n = (of_char c :: nat) in if 97 \<le> n \<and> n \<le> 122 then char_of (n - 32) else c) s"

text \<open>\<^verbatim>\<open>str::replace\<close> with a non-empty pattern: every occurrence from left to right, without overlap.\<close>

fun str_replace_all :: "string \<Rightarrow> string \<Rightarrow> string \<Rightarrow> string" where
  "str_replace_all p r [] = []"
| "str_replace_all p r (c # s) =
     (if p \<noteq> [] \<and> starts_with (c # s) p then r @ str_replace_all p r (drop (length p - 1) s)
      else c # str_replace_all p r s)"

fun split_by :: "('a \<Rightarrow> bool) \<Rightarrow> 'a list \<Rightarrow> 'a list list" where
  "split_by P [] = [[]]"
| "split_by P (x # xs) =
     (if P x then [] # split_by P xs
      else case split_by P xs of [] \<Rightarrow> [[x]] | w # ws \<Rightarrow> (x # w) # ws)"

definition trim_matches :: "('a \<Rightarrow> bool) \<Rightarrow> 'a list \<Rightarrow> 'a list" where
  "trim_matches P xs = rev (dropWhile P (rev (dropWhile P xs)))"

definition split_whitespace :: "(string \<Rightarrow> bool) \<Rightarrow> string \<Rightarrow> string list" where
  "split_whitespace ws s = map concat (filter (\<lambda>w. w \<noteq> []) (split_by ws (utf8_chars s)))"

fun str_join :: "string \<Rightarrow> string list \<Rightarrow> string" where
  "str_join sep [] = []"
| "str_join sep [w] = w"
| "str_join sep (w # ws) = w @ sep @ str_join sep ws"

definition push_unique :: "string \<Rightarrow> string list \<Rightarrow> string list" where
  "push_unique v vs = (if v \<in> set vs then vs else vs @ [v])"

lemma set_push_unique [simp]: "set (push_unique v vs) = insert v (set vs)"
  by (auto simp: push_unique_def)

lemma distinct_push_unique [simp]: "distinct (push_unique v vs) = distinct vs"
  by (auto simp: push_unique_def)

subsection \<open>Byte ranges\<close>

definition range_ok :: "string \<Rightarrow> nat \<Rightarrow> nat \<Rightarrow> bool" where
  "range_ok s a b \<longleftrightarrow> a \<le> b \<and> b \<le> length s \<and> is_char_boundary s a \<and> is_char_boundary s b"

definition str_range :: "string \<Rightarrow> nat \<Rightarrow> nat \<Rightarrow> string option" where
  "str_range s a b = (if range_ok s a b then Some (take (b - a) (drop a s)) else None)"

definition replace_range :: "string \<Rightarrow> nat \<Rightarrow> nat \<Rightarrow> string \<Rightarrow> string option" where
  "replace_range s a b r = (if range_ok s a b then Some (take a s @ r @ drop b s) else None)"

lemma boundary_take:
  "is_char_boundary s a \<Longrightarrow> a \<le> b \<Longrightarrow> b \<le> length s \<Longrightarrow> is_char_boundary (take b s @ t) a \<longleftrightarrow>
     a < b \<or> a = 0 \<or> t = [] \<or> \<not> is_cont (hd t)"
  by (cases t) (auto simp: is_char_boundary_def nth_append)

end
