(* ===== verification/Kernel_Maps.thy ===== *)
theory Kernel_Maps
  imports Json_Value Utf8_Text Civil_Time
begin

unbundle bit_operations_syntax

text \<open>
  The network guard in the kernel: the programs of \<^verbatim>\<open>src/crates/dek-ebpf-prog/src/main.rs\<close>, the maps they read
  (\<^verbatim>\<open>src/crates/dek-ebpf-common\<close>), and the user-mode side that writes the maps, \<^verbatim>\<open>map_updater.rs\<close>, \<^verbatim>\<open>dns_cache.rs\<close> and the DNS reader of
  \<^verbatim>\<open>lib.rs\<close> in \<^verbatim>\<open>src/crates/dek-ebpfd/src\<close>. A map is an association list with its capacity. A longest-prefix map compares the bits of a key in the order of its bytes in memory, which on the little-endian targets of the repository starts
  with the lowest byte of a \<^verbatim>\<open>u32\<close>. Parameters: which maps are pinned, whether the event buffer has room, the entry a full DNS cache gives
  up, the DNS message parser and the domain hash. Loading and attaching the programs and the metrics are left out.
\<close>

subsection \<open>Addresses\<close>

definition read_octet :: "string \<Rightarrow> int option" where
  "read_octet s =
     (if length s > 3 \<or> length s > 1 \<and> hd s = CHR ''0'' then None
      else case unsigned_value s of Some v \<Rightarrow> if v \<le> 255 then Some v else None | None \<Rightarrow> None)"

text \<open>\<^verbatim>\<open>Ipv4Addr::from_str\<close> and the number of the address.\<close>

definition parse_ipv4 :: "string \<Rightarrow> u32 option" where
  "parse_ipv4 s =
     (case map read_octet (split_on (CHR ''.'') s) of
        [Some a, Some b, Some c, Some d] \<Rightarrow> Some (word_of_int (((a * 256 + b) * 256 + c) * 256 + d))
      | _ \<Rightarrow> None)"

definition parse_u32 :: "string \<Rightarrow> nat option" where
  "parse_u32 s =
     (case (case s of c # r \<Rightarrow> if c = CHR ''+'' then unsigned_value r else unsigned_value s | [] \<Rightarrow> None) of
        Some v \<Rightarrow> if v \<le> 4294967295 then Some (nat v) else None
      | None \<Rightarrow> None)"

subsection \<open>The maps\<close>

record policy_verdict =
  pv_allow :: "8 word"
  pv_log_event :: "8 word"

record dns_cache_value =
  dc_domain_hash :: string
  dc_first_seen_ns :: u64
  dc_last_seen_ns :: u64
  dc_expires_at_ns :: u64
  dc_policy_id :: u32
  dc_tenant_id :: u32
  dc_source :: u32
  dc_flags :: u32

record egress_event =
  ee_pid :: u32
  ee_cgroup_id :: u64
  ee_dest_ip :: u32
  ee_dest_port :: "16 word"
  ee_action_taken :: "8 word"

record kernel_maps =
  km_verdict :: "(bool list \<times> policy_verdict) list"
  km_verdict_v6 :: "(bool list \<times> policy_verdict) list"
  km_ports :: "(16 word \<times> policy_verdict) list"
  km_cgroup :: "(u64 \<times> policy_verdict) list"
  km_dns :: "(u32 \<times> dns_cache_value) list"
  km_default_action :: "u32 option"
  km_events :: "egress_event list"

definition lpm_map_capacity :: nat where "lpm_map_capacity = 4096"
definition ports_map_capacity :: nat where "ports_map_capacity = 4096"
definition cgroup_map_capacity :: nat where "cgroup_map_capacity = 1024"
definition dek_dns_cache_max_entries :: nat where "dek_dns_cache_max_entries = 262144"

text \<open>The bits of a key from the first byte in memory on, each byte from its highest bit on.\<close>

definition key_bits :: "u32 \<Rightarrow> bool list" where
  "key_bits ip = map (bit ip) (concat (map (\<lambda>k. rev [8 * k..<8 * k + 8]) [0..<4]))"

definition key_bits_v6 :: "u32 list \<Rightarrow> bool list" where
  "key_bits_v6 ws = concat (map key_bits ws)"

definition lpm_lookup :: "(bool list \<times> 'v) list \<Rightarrow> bool list \<Rightarrow> 'v option" where
  "lpm_lookup m key =
     (case find (\<lambda>n. map_of m (take n key) \<noteq> None) (rev [0..<length key + 1]) of
        Some n \<Rightarrow> map_of m (take n key) | None \<Rightarrow> None)"

definition map_insert :: "nat \<Rightarrow> 'k \<Rightarrow> 'v \<Rightarrow> ('k \<times> 'v) list \<Rightarrow> ('k \<times> 'v) list option" where
  "map_insert cap k v m = (if map_of m k = None \<and> cap \<le> length m then None else Some (AList.update k v m))"

definition lru_insert :: "(('k \<times> 'v) list \<Rightarrow> ('k \<times> 'v) list) \<Rightarrow> nat \<Rightarrow> 'k \<Rightarrow> 'v \<Rightarrow> ('k \<times> 'v) list \<Rightarrow> ('k \<times> 'v) list" where
  "lru_insert evict cap k v m = AList.update k v (if map_of m k = None \<and> cap \<le> length m then evict m else m)"

definition map_remove :: "'k \<Rightarrow> ('k \<times> 'v) list \<Rightarrow> ('k \<times> 'v) list option" where
  "map_remove k m = (if map_of m k = None then None else Some (AList.delete k m))"

subsection \<open>The programs\<close>

definition default_verdict :: policy_verdict where
  "default_verdict = \<lparr>pv_allow = 1, pv_log_event = 0\<rparr>"

definition runtime_default_action :: "kernel_maps \<Rightarrow> u32" where
  "runtime_default_action km = (case km_default_action km of Some a \<Rightarrow> a | None \<Rightarrow> 1)"

definition log_verdict :: "bool \<Rightarrow> policy_verdict \<Rightarrow> u32 \<Rightarrow> u64 \<Rightarrow> u32 \<Rightarrow> 16 word \<Rightarrow> kernel_maps \<Rightarrow> kernel_maps" where
  "log_verdict room v pid cgroup ip port km =
     (if pv_log_event v \<noteq> 0 \<and> room
      then km\<lparr>km_events := km_events km @ [\<lparr>ee_pid = pid, ee_cgroup_id = cgroup, ee_dest_ip = ip, ee_dest_port = port, ee_action_taken = pv_allow v\<rparr>]\<rparr>
      else km)"

definition connect_verdict :: "kernel_maps \<Rightarrow> u64 \<Rightarrow> policy_verdict option \<Rightarrow> 16 word \<Rightarrow> policy_verdict" where
  "connect_verdict km cgroup by_address port =
     (case map_of (km_cgroup km) cgroup of
        Some v \<Rightarrow> v
      | None \<Rightarrow> (case by_address of
            Some v \<Rightarrow> v
          | None \<Rightarrow> (case map_of (km_ports km) port of Some v \<Rightarrow> v | None \<Rightarrow> default_verdict)))"

definition dns_expired :: "u64 \<Rightarrow> dns_cache_value \<Rightarrow> bool" where
  "dns_expired now v \<longleftrightarrow> dc_expires_at_ns v \<noteq> 0 \<and> now > dc_expires_at_ns v"

definition dek_connect4 :: "bool \<Rightarrow> u64 \<Rightarrow> u32 \<Rightarrow> u64 \<Rightarrow> u32 \<Rightarrow> 16 word \<Rightarrow> kernel_maps \<Rightarrow> int \<times> kernel_maps" where
  "dek_connect4 room now pid cgroup dest_ip dest_port km =
     (let cached = map_of (km_dns km) dest_ip;
          is_expired = (case cached of Some v \<Rightarrow> dns_expired now v | None \<Rightarrow> False);
          has_dns_context = (cached \<noteq> None \<and> \<not> is_expired);
          km1 = (if is_expired then km\<lparr>km_dns := AList.delete dest_ip (km_dns km)\<rparr> else km)
      in if \<not> has_dns_context \<and> runtime_default_action km = 0 then (0, km1)
         else
           let v = connect_verdict km1 cgroup (lpm_lookup (km_verdict km1) (key_bits dest_ip)) dest_port
           in (uint (pv_allow v), log_verdict room v pid cgroup dest_ip dest_port km1))"

definition dek_connect6 :: "bool \<Rightarrow> u32 \<Rightarrow> u64 \<Rightarrow> u32 list \<Rightarrow> 16 word \<Rightarrow> kernel_maps \<Rightarrow> int \<times> kernel_maps" where
  "dek_connect6 room pid cgroup dest_ip6 dest_port km =
     (let v = connect_verdict km cgroup (lpm_lookup (km_verdict_v6 km) (key_bits_v6 dest_ip6)) dest_port
      in (uint (pv_allow v), log_verdict room v pid cgroup (dest_ip6 ! 3) dest_port km))"

text \<open>The DNS payload that is copied to user mode: bytes of the packet from the IP header on.\<close>

definition load_u8 :: "8 word list \<Rightarrow> nat \<Rightarrow> nat option" where
  "load_u8 pkt off = (if off < length pkt then Some (unat (pkt ! off)) else None)"

definition load_be16 :: "8 word list \<Rightarrow> nat \<Rightarrow> nat option" where
  "load_be16 pkt off = (if off + 1 < length pkt then Some (unat (pkt ! off) * 256 + unat (pkt ! (off + 1))) else None)"

definition l4_of :: "8 word list \<Rightarrow> (nat \<times> nat) option" where
  "l4_of pkt =
     Option.bind (load_u8 pkt 0) (\<lambda>first.
       if first div 16 = 4 then
         (let ihl = (first mod 16) * 4 in if ihl < 20 then None else map_option (Pair ihl) (load_u8 pkt 9))
       else if first div 16 = 6 then map_option (Pair 40) (load_u8 pkt 6)
       else None)"

definition try_capture :: "bool \<Rightarrow> 8 word list \<Rightarrow> 8 word list option" where
  "try_capture room pkt =
     Option.bind (l4_of pkt) (\<lambda>(l4, proto).
       if proto \<noteq> 17 then None
       else Option.bind (load_be16 pkt l4) (\<lambda>src. Option.bind (load_be16 pkt (l4 + 2)) (\<lambda>dst.
         if src \<noteq> 53 \<and> dst \<noteq> 53 then None
         else Option.bind (load_be16 pkt (l4 + 4)) (\<lambda>udp_len.
           let n = (udp_len - 8) mod 512 in
           if n = 0 \<or> \<not> room \<or> length pkt < l4 + 8 + n then None else Some (take n (drop (l4 + 8) pkt))))))"

subsection \<open>Writing the maps\<close>

datatype update_source = FromBundle | OutOfBand

record map_update =
  mu_schema_version :: string
  mu_map_name :: string
  mu_operation :: string
  mu_source :: update_source
  mu_tenant_id :: string
  mu_device_id :: string
  mu_generation :: u64
  mu_key :: json
  mu_value :: json
  mu_signature :: "string option"

datatype pin = NotPinned | PinBroken | Pinned

datatype map_target = VerdictLpmV4 nat u32 | PortsTarget "16 word" | CgroupPolicy u64

fun pinned_name :: "map_target \<Rightarrow> string" where
  "pinned_name (VerdictLpmV4 _ _) = ''VERDICT_MAP''"
| "pinned_name (PortsTarget _) = ''PORTS_MAP''"
| "pinned_name (CgroupPolicy _) = ''CGROUP_POLICY_MAP''"

datatype map_error =
    MapTenantMismatch | MapDeviceMismatch | MapGenerationRollback | MapSignatureRequired | UnknownMap string | BadMapKey string
  | BadVerdict string | KernelRefused

record map_updater =
  mx_tenant_id :: string
  mx_device_id :: string
  mx_current_generation :: u64

definition validate_update :: "map_updater \<Rightarrow> map_update \<Rightarrow> (map_error, unit) result" where
  "validate_update u up =
     (if mu_tenant_id up \<noteq> mx_tenant_id u then Inl MapTenantMismatch
      else if mu_device_id up \<noteq> mx_device_id u then Inl MapDeviceMismatch
      else if mu_generation up < mx_current_generation u then Inl MapGenerationRollback
      else
        let requires_signature = (case mu_source up of OutOfBand \<Rightarrow> True
              | FromBundle \<Rightarrow> mu_map_name up \<in> {''VERDICT_MAP'', ''PORTS_MAP'', ''CGROUP_POLICY_MAP''})
        in if requires_signature \<and> mu_signature up = None then Inl MapSignatureRequired else Inr ())"

definition canonical_map_name :: "string \<Rightarrow> string" where
  "canonical_map_name n =
     (if n \<in> {''egress_lpm_v4'', ''LPM_MAP'', ''VERDICT_MAP''} then ''VERDICT_MAP''
      else if n \<in> {''egress_ports'', ''PORTS_MAP''} then ''PORTS_MAP''
      else if n \<in> {''cgroup_policy'', ''CGROUP_POLICY_MAP''} then ''CGROUP_POLICY_MAP'' else n)"

definition parse_cidr_v4 :: "string \<Rightarrow> (map_error, u32 \<times> nat) result" where
  "parse_cidr_v4 cidr =
     (case split_once (CHR ''/'') cidr of
        None \<Rightarrow> Inl (BadMapKey ''CIDR missing /prefix'')
      | Some (ip_part, prefix_part) \<Rightarrow>
     (case parse_ipv4 ip_part of
        None \<Rightarrow> Inl (BadMapKey ''invalid IPv4 in CIDR'')
      | Some ip \<Rightarrow>
     (case parse_u32 prefix_part of
        None \<Rightarrow> Inl (BadMapKey ''invalid prefix in CIDR'')
      | Some len \<Rightarrow> if len > 32 then Inl (BadMapKey ''CIDR prefix > 32'') else Inr (ip, len))))"

definition parse_lpm_key_v4 :: "json \<Rightarrow> (map_error, u32 \<times> nat) result" where
  "parse_lpm_key_v4 key =
     (case Option.bind (json_get key ''cidr'') as_str of
        Some cidr \<Rightarrow> parse_cidr_v4 cidr
      | None \<Rightarrow>
     (case Option.bind (json_get key ''ip'') as_str of
        None \<Rightarrow> Inl (BadMapKey ''VERDICT_MAP update requires key.cidr or key.ip'')
      | Some ip_str \<Rightarrow>
     (case parse_ipv4 ip_str of
        None \<Rightarrow> Inl (BadMapKey ''invalid IPv4 in key.ip'')
      | Some ip \<Rightarrow>
          let len = (case Option.bind (json_get key ''prefix'') as_u64 of Some n \<Rightarrow> n | None \<Rightarrow> 32)
          in if len > 32 then Inl (BadMapKey ''LPM prefix > 32'') else Inr (ip, len))))"

definition parse_verdict :: "json \<Rightarrow> (map_error, policy_verdict) result" where
  "parse_verdict val =
     (case Option.bind (json_get val ''allow'') as_u64 of
        None \<Rightarrow> Inl (BadVerdict ''verdict requires numeric allow'')
      | Some allow \<Rightarrow>
          if allow > 1 then Inl (BadVerdict ''verdict allow must be 0 or 1'')
          else Inr \<lparr>pv_allow = of_nat allow,
            pv_log_event = (case Option.bind (json_get val ''log_event'') as_u64 of Some n \<Rightarrow> if n \<noteq> 0 then 1 else 0 | None \<Rightarrow> 0)\<rparr>)"

definition plan_target :: "map_update \<Rightarrow> (map_error, map_target) result" where
  "plan_target up =
     (let name = canonical_map_name (mu_map_name up) in
      if name = ''VERDICT_MAP'' then map_sum (\<lambda>e. e) (\<lambda>(ip, len). VerdictLpmV4 len ip) (parse_lpm_key_v4 (mu_key up))
      else if name = ''PORTS_MAP'' then
        (case Option.bind (json_get (mu_key up) ''port'') as_u64 of
           None \<Rightarrow> Inl (BadMapKey ''PORTS_MAP update requires numeric key.port'')
         | Some port \<Rightarrow> if port > 65535 then Inl (BadMapKey ''PORTS_MAP port out of range'') else Inr (PortsTarget (of_nat port)))
      else if name = ''CGROUP_POLICY_MAP'' then
        (case Option.bind (json_get (mu_key up) ''cgroup_id'') as_u64 of
           None \<Rightarrow> Inl (BadMapKey ''CGROUP_POLICY_MAP update requires numeric key.cgroup_id'')
         | Some c \<Rightarrow> Inr (CgroupPolicy (of_nat c)))
      else Inl (UnknownMap name))"

definition plan_update :: "map_update \<Rightarrow> (map_error, map_target \<times> policy_verdict) result" where
  "plan_update up =
     (case plan_target up of Inl e \<Rightarrow> Inl e
      | Inr t \<Rightarrow> map_sum (\<lambda>e. e) (Pair t) (parse_verdict (mu_value up)))"

definition write_map :: "nat \<Rightarrow> 'k \<Rightarrow> policy_verdict \<Rightarrow> bool \<Rightarrow> ('k \<times> policy_verdict) list \<Rightarrow> ('k \<times> policy_verdict) list option" where
  "write_map cap k v is_delete m = (if is_delete then map_remove k m else map_insert cap k v m)"

definition write_to_kernel :: "(string \<Rightarrow> pin) \<Rightarrow> map_target \<Rightarrow> policy_verdict \<Rightarrow> bool \<Rightarrow> kernel_maps \<Rightarrow> kernel_maps option" where
  "write_to_kernel pinned t v is_delete km =
     (if pinned (pinned_name t) = NotPinned then Some km
      else if pinned (pinned_name t) = PinBroken then None
      else case t of
          VerdictLpmV4 len ip \<Rightarrow> map_option (\<lambda>m. km\<lparr>km_verdict := m\<rparr>) (write_map lpm_map_capacity (take len (key_bits ip)) v is_delete (km_verdict km))
        | PortsTarget p \<Rightarrow> map_option (\<lambda>m. km\<lparr>km_ports := m\<rparr>) (write_map ports_map_capacity p v is_delete (km_ports km))
        | CgroupPolicy c \<Rightarrow> map_option (\<lambda>m. km\<lparr>km_cgroup := m\<rparr>) (write_map cgroup_map_capacity c v is_delete (km_cgroup km)))"

definition is_delete_op :: "map_update \<Rightarrow> bool" where
  "is_delete_op up \<longleftrightarrow> to_ascii_lowercase (mu_operation up) = ''delete''"

definition apply_map_update :: "(string \<Rightarrow> pin) \<Rightarrow> map_update \<Rightarrow> map_updater \<times> kernel_maps \<Rightarrow> (map_error, unit) result \<times> map_updater \<times> kernel_maps" where
  "apply_map_update pinned up s =
     (case s of (u, km) \<Rightarrow>
      case validate_update u up of
        Inl e \<Rightarrow> (Inl e, u, km)
      | Inr _ \<Rightarrow>
          let u1 = (if mu_generation up > mx_current_generation u then u\<lparr>mx_current_generation := mu_generation up\<rparr> else u)
          in case plan_update up of
               Inl e \<Rightarrow> (Inl e, u1, km)
             | Inr (t, v) \<Rightarrow>
                 (case write_to_kernel pinned t v (is_delete_op up) km of
                    None \<Rightarrow> (Inl KernelRefused, u1, km)
                  | Some km' \<Rightarrow> (Inr (), u1, km')))"

subsection \<open>The DNS cache\<close>

datatype ip_addr = V4 u32 | V6 "u32 list"

record dns_record =
  dr_ip :: ip_addr
  dr_ttl_secs :: nat

record dns_observation =
  do_cgroup_id :: u64
  do_qname :: string
  do_answers :: "dns_record list"
  do_is_response :: bool

definition min_ttl_floor_secs :: nat where "min_ttl_floor_secs = 30"

text \<open>A message as the DNS library gives it: the names asked for, the answers with their life times, and whether it says it is a response.\<close>

datatype rdata = DataA u32 | DataAAAA "u32 list" | DataOther

record dns_message =
  dm_queries :: "string list"
  dm_answers :: "(rdata \<times> nat) list"
  dm_is_response :: bool

fun resolved_record :: "rdata \<times> nat \<Rightarrow> dns_record option" where
  "resolved_record (DataA ip, ttl) = Some \<lparr>dr_ip = V4 ip, dr_ttl_secs = max ttl min_ttl_floor_secs\<rparr>"
| "resolved_record (DataAAAA ws, ttl) = Some \<lparr>dr_ip = V6 ws, dr_ttl_secs = max ttl min_ttl_floor_secs\<rparr>"
| "resolved_record (DataOther, ttl) = None"

definition parse_dns :: "(8 word list \<Rightarrow> dns_message option) \<Rightarrow> u64 \<Rightarrow> 8 word list \<Rightarrow> dns_observation option" where
  "parse_dns from_vec cgroup payload =
     Option.bind (from_vec payload) (\<lambda>msg.
       case dm_queries msg of
         [] \<Rightarrow> None
       | q # _ \<Rightarrow> Some \<lparr>do_cgroup_id = cgroup, do_qname = q, do_answers = List.map_filter resolved_record (dm_answers msg),
                        do_is_response = dm_is_response msg\<rparr>)"

definition saturating_add_u64 :: "u64 \<Rightarrow> u64 \<Rightarrow> u64" where
  "saturating_add_u64 a b = (if unat a + unat b < 2 ^ 64 then a + b else - 1)"

definition hash_domain :: "(string \<Rightarrow> string) \<Rightarrow> string \<Rightarrow> string" where
  "hash_domain hash domain = hash (to_ascii_lowercase (rev (dropWhile (\<lambda>c. c = CHR ''.'') (rev domain))))"

type_synonym dns_entries = "(u32 \<times> dns_cache_value) list"

definition update_dns_ip_cache_v4 :: "(dns_entries \<Rightarrow> dns_entries) \<Rightarrow> (string \<Rightarrow> string) \<Rightarrow> u64 \<Rightarrow> u32 \<Rightarrow> string \<Rightarrow> nat \<Rightarrow> u32 \<Rightarrow> u32 \<Rightarrow> kernel_maps \<Rightarrow> kernel_maps" where
  "update_dns_ip_cache_v4 evict hash now ip domain ttl_secs policy_id tenant_id km =
     km\<lparr>km_dns := lru_insert evict dek_dns_cache_max_entries ip
        \<lparr>dc_domain_hash = hash_domain hash domain, dc_first_seen_ns = now, dc_last_seen_ns = now,
         dc_expires_at_ns = saturating_add_u64 now (of_nat (ttl_secs * 1000000000)), dc_policy_id = policy_id, dc_tenant_id = tenant_id,
         dc_source = 1, dc_flags = 0\<rparr> (km_dns km)\<rparr>"

definition cache_record :: "(dns_entries \<Rightarrow> dns_entries) \<Rightarrow> (string \<Rightarrow> string) \<Rightarrow> u64 \<Rightarrow> string \<Rightarrow> kernel_maps \<Rightarrow> dns_record \<Rightarrow> kernel_maps" where
  "cache_record evict hash now qname km r =
     (case dr_ip r of V4 ip \<Rightarrow> update_dns_ip_cache_v4 evict hash now ip qname (dr_ttl_secs r) 0 0 km | V6 _ \<Rightarrow> km)"

definition observe_dns :: "(dns_entries \<Rightarrow> dns_entries) \<Rightarrow> (string \<Rightarrow> string) \<Rightarrow> u64 \<Rightarrow> dns_observation \<Rightarrow> kernel_maps \<Rightarrow> kernel_maps" where
  "observe_dns evict hash now obs km = foldl (cache_record evict hash now (do_qname obs)) km (do_answers obs)"

text \<open>One packet on its way from the capture program to the cache.\<close>

definition read_dns_event :: "(8 word list \<Rightarrow> dns_message option) \<Rightarrow> (dns_entries \<Rightarrow> dns_entries) \<Rightarrow> (string \<Rightarrow> string) \<Rightarrow> bool \<Rightarrow> u64 \<Rightarrow> u64
    \<Rightarrow> 8 word list \<Rightarrow> kernel_maps \<Rightarrow> kernel_maps" where
  "read_dns_event from_vec evict hash room now cgroup pkt km =
     (case Option.bind (try_capture room pkt) (parse_dns from_vec cgroup) of
        None \<Rightarrow> km | Some obs \<Rightarrow> observe_dns evict hash now obs km)"

text \<open>\<open>on_dns_response\<close>: one verdict for every address of a domain. A write the kernel refuses ends the loop; the earlier ones stay.\<close>

fun on_dns_response :: "ip_addr list \<Rightarrow> policy_verdict \<Rightarrow> kernel_maps \<Rightarrow> bool \<times> kernel_maps" where
  "on_dns_response [] v km = (True, km)"
| "on_dns_response (V4 ip # ips) v km =
     (case map_insert lpm_map_capacity (key_bits ip) v (km_verdict km) of
        None \<Rightarrow> (False, km) | Some m \<Rightarrow> on_dns_response ips v (km\<lparr>km_verdict := m\<rparr>))"
| "on_dns_response (V6 ws # ips) v km =
     (case map_insert lpm_map_capacity (key_bits_v6 ws) v (km_verdict_v6 km) of
        None \<Rightarrow> (False, km) | Some m \<Rightarrow> on_dns_response ips v (km\<lparr>km_verdict_v6 := m\<rparr>))"

definition cleanup_expired_dns_cache_v4 :: "u64 \<Rightarrow> nat \<Rightarrow> kernel_maps \<Rightarrow> nat \<times> kernel_maps" where
  "cleanup_expired_dns_cache_v4 now scan_limit km =
     (let scanned = take (max scan_limit 1) (km_dns km);
          to_delete = map fst (filter (\<lambda>(k, v). dns_expired now v) scanned)
      in (length to_delete, km\<lparr>km_dns := foldl (\<lambda>m k. AList.delete k m) (km_dns km) to_delete\<rparr>))"

subsection \<open>Longest prefixes\<close>

lemma length_key_bits [simp]: "length (key_bits ip) = 32"
  by (simp add: key_bits_def numeral_eq_Suc)

lemma find_rev_upt_None: "find P (rev [0..<n]) = None \<longleftrightarrow> (\<forall>j<n. \<not> P j)"
  by (auto simp: find_None_iff)

lemma find_rev_upt_Some: "find P (rev [0..<n]) = Some k \<longleftrightarrow> k < n \<and> P k \<and> (\<forall>j. k < j \<and> j < n \<longrightarrow> \<not> P j)"
proof (induction n)
  case (Suc n)
  show ?case
  proof (cases "P n")
    case True
    then have "find P (rev [0..<Suc n]) = Some n" by simp
    then show ?thesis using True by (auto simp: less_Suc_eq)
  next
    case False
    then have "find P (rev [0..<Suc n]) = find P (rev [0..<n])" by simp
    then show ?thesis using False Suc.IH by (auto simp: less_Suc_eq)
  qed
qed simp

text \<open>The entry of the longest prefix of the key, when there is one.\<close>

lemma lpm_lookup_Some_iff:
  "lpm_lookup m key = Some v \<longleftrightarrow>
     (\<exists>n\<le>length key. map_of m (take n key) = Some v \<and> (\<forall>j. n < j \<and> j \<le> length key \<longrightarrow> map_of m (take j key) = None))"
  (is "?l \<longleftrightarrow> ?r")
proof
  assume ?l
  then obtain n where "find (\<lambda>n. map_of m (take n key) \<noteq> None) (rev [0..<length key + 1]) = Some n" "map_of m (take n key) = Some v"
    unfolding lpm_lookup_def by (auto split: option.splits)
  then show ?r unfolding find_rev_upt_Some by (metis Suc_eq_plus1 less_Suc_eq_le)
next
  assume ?r
  then obtain n where n: "n \<le> length key" "map_of m (take n key) = Some v" "\<forall>j. n < j \<and> j \<le> length key \<longrightarrow> map_of m (take j key) = None"
    by blast
  then have "find (\<lambda>n. map_of m (take n key) \<noteq> None) (rev [0..<length key + 1]) = Some n"
    unfolding find_rev_upt_Some by auto
  then show ?l using n by (simp add: lpm_lookup_def)
qed

lemma lpm_lookup_None_iff: "lpm_lookup m key = None \<longleftrightarrow> (\<forall>n\<le>length key. map_of m (take n key) = None)" (is "?l \<longleftrightarrow> ?r")
proof
  assume l: ?l
  show ?r
  proof (rule ccontr)
    assume "\<not> ?r"
    then obtain n where n: "n \<le> length key" "map_of m (take n key) \<noteq> None" by blast
    show False
    proof (cases "find (\<lambda>n. map_of m (take n key) \<noteq> None) (rev [0..<length key + 1])")
      case None then show False using n unfolding find_rev_upt_None by (metis Suc_eq_plus1 less_Suc_eq_le)
    next
      case (Some k)
      then have "map_of m (take k key) \<noteq> None" unfolding find_rev_upt_Some by blast
      then show False using l Some by (simp add: lpm_lookup_def)
    qed
  qed
next
  assume ?r
  then have "find (\<lambda>n. map_of m (take n key) \<noteq> None) (rev [0..<length key + 1]) = None" unfolding find_rev_upt_None by simp
  then show ?l by (simp add: lpm_lookup_def)
qed

definition lpm_longest :: "(bool list \<times> 'v) list \<Rightarrow> bool list \<Rightarrow> nat \<Rightarrow> bool" where
  "lpm_longest m key n \<longleftrightarrow> (\<forall>j\<in>{n<..length key}. map_of m (take j key) = None)"

lemma lpm_lookup_cong:
  assumes "\<And>n. n \<le> length key \<Longrightarrow> map_of m (take n key) = map_of m' (take n key)"
  shows "lpm_lookup m key = lpm_lookup m' key"
proof -
  have "lpm_lookup m key = Some v \<longleftrightarrow> lpm_lookup m' key = Some v" for v
    unfolding lpm_lookup_Some_iff by (simp add: assms cong: conj_cong imp_cong)
  then show ?thesis by (metis not_None_eq)
qed

text \<open>A new entry answers for the keys it is a prefix of, where no longer prefix has an entry; every other key keeps its answer.\<close>

lemma lpm_lookup_insert:
  assumes len: "len \<le> length key" and k: "length k = length key"
  shows "lpm_lookup (AList.update (take len k) v m) key =
     (if take len k = take len key \<and> lpm_longest m key len then Some v else lpm_lookup m key)"
proof (cases "take len k = take len key")
  case False
  have "take len k \<noteq> take n key" if "n \<le> length key" for n
    using False len k that by (metis length_take min.absorb2)
  then have "lpm_lookup (AList.update (take len k) v m) key = lpm_lookup m key"
    by (intro lpm_lookup_cong) (metis fun_upd_other update_conv)
  then show ?thesis using False by simp
next
  case True
  have other: "map_of (AList.update (take len k) v m) (take n key) = map_of m (take n key)" if "n \<le> length key" "n \<noteq> len" for n
    using True len that by (metis fun_upd_other length_take min.absorb2 update_conv)
  show ?thesis
  proof (cases "lpm_longest m key len")
    case long: True
    then have "lpm_lookup (AList.update (take len k) v m) key = Some v"
      unfolding lpm_lookup_Some_iff using True len other by (intro exI [of _ len]) (auto simp: update_conv lpm_longest_def)
    then show ?thesis using True long by simp
  next
    case False
    then obtain j0 where "len < j0" "j0 \<le> length key" "map_of m (take j0 key) \<noteq> None" by (auto simp: lpm_longest_def)
    then obtain w where w: "lpm_lookup m key = Some w" using lpm_lookup_None_iff by (metis not_None_eq)
    then obtain n where n: "n \<le> length key" "map_of m (take n key) = Some w" "\<forall>j. n < j \<and> j \<le> length key \<longrightarrow> map_of m (take j key) = None"
      unfolding lpm_lookup_Some_iff by blast
    have "len < n" using n \<open>len < j0\<close> \<open>j0 \<le> length key\<close> \<open>map_of m (take j0 key) \<noteq> None\<close> by (metis dual_order.strict_trans1 linorder_not_le)
    then have "lpm_lookup (AList.update (take len k) v m) key = Some w"
      unfolding lpm_lookup_Some_iff using n other by (intro exI [of _ n]) auto
    then show ?thesis using w False by simp
  qed
qed

subsection \<open>Updates reach the verdicts\<close>

definition verdict_v4 :: "kernel_maps \<Rightarrow> u64 \<Rightarrow> u32 \<Rightarrow> 16 word \<Rightarrow> policy_verdict" where
  "verdict_v4 km cgroup ip port = connect_verdict km cgroup (lpm_lookup (km_verdict km) (key_bits ip)) port"

text \<open>The connections whose verdict an entry decides: the ones of its control group; the addresses its prefix matches, when the control group has no
  entry and no longer prefix matches; the ones to its port, when neither the control group nor the address has an entry.\<close>

fun target_decides :: "kernel_maps \<Rightarrow> map_target \<Rightarrow> u64 \<Rightarrow> u32 \<Rightarrow> 16 word \<Rightarrow> bool" where
  "target_decides km (CgroupPolicy c) cgroup ip port \<longleftrightarrow> cgroup = c"
| "target_decides km (VerdictLpmV4 len a) cgroup ip port \<longleftrightarrow>
     map_of (km_cgroup km) cgroup = None \<and> take len (key_bits a) = take len (key_bits ip) \<and> lpm_longest (km_verdict km) (key_bits ip) len"
| "target_decides km (PortsTarget p) cgroup ip port \<longleftrightarrow>
     map_of (km_cgroup km) cgroup = None \<and> lpm_lookup (km_verdict km) (key_bits ip) = None \<and> port = p"

fun target_ok :: "map_target \<Rightarrow> bool" where
  "target_ok (VerdictLpmV4 len a) \<longleftrightarrow> len \<le> 32"
| "target_ok _ \<longleftrightarrow> True"

lemma map_insert_Some: "map_insert cap k v m = Some m' \<Longrightarrow> m' = AList.update k v m"
  by (simp add: map_insert_def split: if_splits)

lemma parse_lpm_key_v4_bound: "parse_lpm_key_v4 key = Inr (ip, len) \<Longrightarrow> len \<le> 32"
  by (auto simp: parse_lpm_key_v4_def parse_cidr_v4_def Let_def split: option.splits if_splits)

lemma plan_target_ok: "plan_target up = Inr t \<Longrightarrow> target_ok t"
  by (cases "parse_lpm_key_v4 (mu_key up)")
     (auto simp: plan_target_def Let_def dest: parse_lpm_key_v4_bound split: option.splits if_splits)

lemma plan_update_ok: "plan_update up = Inr (t, v) \<Longrightarrow> target_ok t"
  by (cases "parse_verdict (mu_value up)") (auto simp: plan_update_def dest: plan_target_ok split: sum.splits)

lemma inserted_verdict:
  assumes w: "write_to_kernel pinned t v False km = Some km'" and pin: "pinned (pinned_name t) = Pinned" and ok: "target_ok t"
  shows "verdict_v4 km' cgroup ip port = (if target_decides km t cgroup ip port then v else verdict_v4 km cgroup ip port)"
proof (cases t)
  case (VerdictLpmV4 len a)
  then have km': "km' = km\<lparr>km_verdict := AList.update (take len (key_bits a)) v (km_verdict km)\<rparr>"
    using w pin by (auto simp: write_to_kernel_def write_map_def dest!: map_insert_Some)
  have "lpm_lookup (km_verdict km') (key_bits ip) =
      (if take len (key_bits a) = take len (key_bits ip) \<and> lpm_longest (km_verdict km) (key_bits ip) len then Some v
       else lpm_lookup (km_verdict km) (key_bits ip))"
    unfolding km' using ok VerdictLpmV4 by (simp add: lpm_lookup_insert)
  then show ?thesis unfolding km' VerdictLpmV4 by (auto simp: verdict_v4_def connect_verdict_def split: option.split)
next
  case (PortsTarget p)
  then have "km' = km\<lparr>km_ports := AList.update p v (km_ports km)\<rparr>"
    using w pin by (auto simp: write_to_kernel_def write_map_def dest!: map_insert_Some)
  then show ?thesis unfolding PortsTarget by (auto simp: verdict_v4_def connect_verdict_def update_conv split: option.split)
next
  case (CgroupPolicy c)
  then have "km' = km\<lparr>km_cgroup := AList.update c v (km_cgroup km)\<rparr>"
    using w pin by (auto simp: write_to_kernel_def write_map_def dest!: map_insert_Some)
  then show ?thesis unfolding CgroupPolicy by (auto simp: verdict_v4_def connect_verdict_def update_conv split: option.split)
qed

text \<open>A verdict map with entries for single addresses only. There the order of the bytes of a key plays no part.\<close>

definition single_addresses :: "kernel_maps \<Rightarrow> bool" where
  "single_addresses km \<longleftrightarrow> (\<forall>k\<in>set (map fst (km_verdict km)). length k = 32)"

lemma key_bits_inject: "key_bits a = key_bits b \<longleftrightarrow> a = b"
proof
  assume eq: "key_bits a = key_bits b"
  have idx: "set (concat (map (\<lambda>k. rev [8 * k..<8 * k + 8]) [0..<4])) = {..<32}"
    by (auto simp: numeral_eq_Suc less_Suc_eq)
  have "bit a n = bit b n" if "n < 32" for n
    using eq that unfolding key_bits_def map_eq_conv idx by simp
  then show "a = b" by (intro bit_word_eqI) simp
qed simp

lemma single_address_lookup:
  assumes "single_addresses km"
  shows "lpm_lookup (km_verdict km) (key_bits ip) = map_of (km_verdict km) (key_bits ip)"
proof (cases "map_of (km_verdict km) (key_bits ip)")
  case (Some v)
  then have "lpm_lookup (km_verdict km) (key_bits ip) = Some v" unfolding lpm_lookup_Some_iff by (intro exI [of _ 32]) auto
  with Some show ?thesis by simp
next
  case None
  have "map_of (km_verdict km) (take n (key_bits ip)) = None" if "n \<le> 32" for n
  proof (cases "n = 32")
    case False
    then have "length (take n (key_bits ip)) \<noteq> 32" using that by simp
    then have "take n (key_bits ip) \<notin> set (map fst (km_verdict km))" using assms unfolding single_addresses_def by blast
    then show ?thesis by (simp add: map_of_eq_None_iff)
  qed (simp add: None)
  then show ?thesis using None by (auto simp: lpm_lookup_None_iff)
qed

lemma single_addresses_kept:
  assumes "write_to_kernel pinned t v False km = Some km'" "single_addresses km" "\<And>len a. t = VerdictLpmV4 len a \<Longrightarrow> len = 32"
  shows "single_addresses km'"
proof (cases t)
  case (VerdictLpmV4 len a)
  then have "km' = km \<or> km' = km\<lparr>km_verdict := AList.update (key_bits a) v (km_verdict km)\<rparr>"
    using assms(1,3) by (auto simp: write_to_kernel_def write_map_def split: if_splits dest!: map_insert_Some)
  then have "set (map fst (km_verdict km')) \<subseteq> insert (key_bits a) (set (map fst (km_verdict km)))"
    by (elim disjE) (auto simp: dom_update simp flip: image_set)
  then show ?thesis using assms(2) unfolding single_addresses_def by (metis insert_iff length_key_bits subset_iff)
qed (use assms in \<open>auto simp: write_to_kernel_def single_addresses_def split: if_splits\<close>)

text \<open>What an entry for a cgroup, an address or a port decides: the cgroup comes first, then the address, then the port.\<close>

fun entry_decides :: "kernel_maps \<Rightarrow> map_target \<Rightarrow> u64 \<Rightarrow> u32 \<Rightarrow> 16 word \<Rightarrow> bool" where
  "entry_decides km (CgroupPolicy c) cgroup ip port \<longleftrightarrow> cgroup = c"
| "entry_decides km (VerdictLpmV4 _ a) cgroup ip port \<longleftrightarrow> map_of (km_cgroup km) cgroup = None \<and> ip = a"
| "entry_decides km (PortsTarget p) cgroup ip port \<longleftrightarrow>
     map_of (km_cgroup km) cgroup = None \<and> map_of (km_verdict km) (key_bits ip) = None \<and> port = p"

lemma entry_decides_target:
  assumes "single_addresses km" "\<And>len a. t = VerdictLpmV4 len a \<Longrightarrow> len = 32"
  shows "target_decides km t cgroup ip port \<longleftrightarrow> entry_decides km t cgroup ip port"
  using assms by (cases t) (auto simp: single_address_lookup key_bits_inject lpm_longest_def)

text \<open>C23. Over a verdict map with entries for single addresses, an accepted update for a cgroup, a single IPv4 address or a port comes from the
  updater's own tenant and device, is no older than the newest one seen and becomes the newest. Where
  its map is pinned and it is not a deletion, it gives its verdict to exactly these IPv4 connections: those of the cgroup; those to the address
  from cgroups without an entry; those to the port when neither cgroup nor address has an entry. The verdict of every other
  IPv4 connection is what it was.\<close>

theorem map_update_enforced:
  assumes "apply_map_update pinned up (u, km) = (Inr (), u', km')" and "plan_update up = Inr (t, v)"
    and "pinned (pinned_name t) = Pinned" and "\<not> is_delete_op up" and "single_addresses km" and "\<And>len a. t = VerdictLpmV4 len a \<Longrightarrow> len = 32"
  shows "mu_tenant_id up = mx_tenant_id u \<and> mu_device_id up = mx_device_id u \<and> mx_current_generation u \<le> mu_generation up
    \<and> u' = u\<lparr>mx_current_generation := mu_generation up\<rparr> \<and> single_addresses km'
    \<and> (\<forall>cgroup ip port. verdict_v4 km' cgroup ip port = (if entry_decides km t cgroup ip port then v else verdict_v4 km cgroup ip port))"
proof -
  have val: "validate_update u up = Inr ()" using assms(1) by (cases "validate_update u up") (auto simp: apply_map_update_def)
  then have own: "mu_tenant_id up = mx_tenant_id u" "mu_device_id up = mx_device_id u" "mx_current_generation u \<le> mu_generation up"
    by (auto simp: validate_update_def split: if_splits)
  have u': "u' = u\<lparr>mx_current_generation := mu_generation up\<rparr>"
    using assms(1,2) val own(3) by (auto simp: apply_map_update_def Let_def split: option.splits if_splits)
  have w: "write_to_kernel pinned t v False km = Some km'"
    using assms(1-4) val by (auto simp: apply_map_update_def Let_def split: option.splits)
  show ?thesis
    using own u' single_addresses_kept [OF w assms(5,6)] inserted_verdict [OF w assms(3) plan_update_ok [OF assms(2)]]
      entry_decides_target [OF assms(5,6)] by simp
qed

definition empty_maps :: kernel_maps where
  "empty_maps = \<lparr>km_verdict = [], km_verdict_v6 = [], km_ports = [], km_cgroup = [], km_dns = [], km_default_action = None, km_events = []\<rparr>"

definition deny_update :: "string \<Rightarrow> json \<Rightarrow> map_update" where
  "deny_update name key =
     \<lparr>mu_schema_version = ''1.0'', mu_map_name = name, mu_operation = ''insert'', mu_source = FromBundle, mu_tenant_id = ''t'', mu_device_id = ''d'',
      mu_generation = 1, mu_key = key, mu_value = JObj [(''allow'', JInt 0)], mu_signature = None\<rparr>"

definition updater_td :: map_updater where
  "updater_td = \<lparr>mx_tenant_id = ''t'', mx_device_id = ''d'', mx_current_generation = 0\<rparr>"

theorem map_update_enforced_witness:
  "\<exists>km'. apply_map_update (\<lambda>_. Pinned) (deny_update ''egress_ports'' (JObj [(''port'', JInt 22)])) (updater_td, empty_maps)
        = (Inr (), updater_td\<lparr>mx_current_generation := 1\<rparr>, km')
      \<and> pv_allow (verdict_v4 km' 7 9 22) = 0 \<and> pv_allow (verdict_v4 km' 7 9 443) = 1"
proof -
  let ?up = "deny_update ''egress_ports'' (JObj [(''port'', JInt 22)])" and ?deny = "\<lparr>pv_allow = 0, pv_log_event = 0\<rparr> :: policy_verdict"
  have plan: "plan_update ?up = Inr (PortsTarget 22, ?deny)" by code_simp
  have ins: "\<not> is_delete_op ?up" by code_simp
  have val: "validate_update updater_td ?up = Inr ()" "mu_generation ?up = 1" "mx_current_generation updater_td = 0" by code_simp+
  obtain km' where wr: "write_to_kernel (\<lambda>_. Pinned) (PortsTarget 22) ?deny False empty_maps = Some km'"
    by (simp add: write_to_kernel_def write_map_def map_insert_def ports_map_capacity_def empty_maps_def)
  have app: "apply_map_update (\<lambda>_. Pinned) ?up (updater_td, empty_maps) = (Inr (), updater_td\<lparr>mx_current_generation := 1\<rparr>, km')"
    using ins by (simp add: apply_map_update_def plan val wr)
  have dec: "entry_decides empty_maps (PortsTarget 22) 7 9 22" "\<not> entry_decides empty_maps (PortsTarget 22) 7 9 443" "single_addresses empty_maps"
    by (simp_all add: empty_maps_def single_addresses_def)
  have old: "pv_allow (verdict_v4 empty_maps 7 9 443) = 1" by code_simp
  show ?thesis using app old dec map_update_enforced [OF app plan _ ins dec(3)] by (intro exI [of _ km']) (simp add: dec)
qed

subsection \<open>Where the guard falls short\<close>

text \<open>The prefix of a key starts with its lowest byte, so a \<^verbatim>\<open>/8\<close> entry matches the addresses with the same last octet.\<close>

lemma prefix_8_is_last_octet: "take 8 (key_bits a) = take 8 (key_bits ip) \<longleftrightarrow> take_bit 8 a = take_bit 8 ip"
proof -
  have t: "take 8 (key_bits w) = map (bit w) (rev [0..<8])" for w by (simp add: key_bits_def numeral_eq_Suc)
  have "take 8 (key_bits a) = take 8 (key_bits ip) \<longleftrightarrow> (\<forall>n<8. bit a n = bit ip n)"
    unfolding t by auto
  also have "\<dots> \<longleftrightarrow> take_bit 8 a = take_bit 8 ip"
  proof
    assume "take_bit 8 a = take_bit 8 ip"
    then have "bit (take_bit 8 a) n = bit (take_bit 8 ip) n" for n by simp
    then show "\<forall>n<8. bit a n = bit ip n" by (simp add: bit_take_bit_iff) blast
  qed (auto simp: bit_eq_iff bit_take_bit_iff)
  finally show ?thesis .
qed

lemma cidr_matches_the_wrong_addresses:
  "\<exists>u km. apply_map_update (\<lambda>_. Pinned) (deny_update ''egress_lpm_v4'' (JObj [(''cidr'', JStr ''10.0.0.0/8'')])) (updater_td, empty_maps) = (Inr (), u, km)
      \<and> map_option (\<lambda>ip. pv_allow (verdict_v4 km 7 ip 443)) (parse_ipv4 ''10.1.2.3'') = Some 1
      \<and> map_option (\<lambda>ip. pv_allow (verdict_v4 km 7 ip 443)) (parse_ipv4 ''192.168.7.0'') = Some 0"
proof -
  let ?up = "deny_update ''egress_lpm_v4'' (JObj [(''cidr'', JStr ''10.0.0.0/8'')])"
  have "case apply_map_update (\<lambda>_. Pinned) ?up (updater_td, empty_maps) of (r, u, km) \<Rightarrow> r = Inr ()
      \<and> map_option (\<lambda>ip. pv_allow (verdict_v4 km 7 ip 443)) (parse_ipv4 ''10.1.2.3'') = Some 1
      \<and> map_option (\<lambda>ip. pv_allow (verdict_v4 km 7 ip 443)) (parse_ipv4 ''192.168.7.0'') = Some 0"
    by code_simp
  then show ?thesis by (auto split: prod.splits)
qed

text \<open>The daemon stamps a DNS entry with the Unix clock and the kernel compares it with the time since boot, which is never past it: the check of the
  program does not see an entry expire.\<close>

lemma kernel_never_expires_dns:
  assumes "boot_now \<le> unix_now"
  shows "\<exists>v. map_of (km_dns (update_dns_ip_cache_v4 evict hash unix_now ip domain ttl p t km)) ip = Some v \<and> \<not> dns_expired boot_now v"
proof -
  have "unix_now \<le> saturating_add_u64 unix_now d" for d
  proof (cases "unat unix_now + unat d < 2 ^ 64")
    case True
    then have "unat (unix_now + d) = unat unix_now + unat d" by (simp add: unat_word_ariths)
    then have "unix_now \<le> unix_now + d" by (simp add: word_le_nat_alt)
    then show ?thesis by (simp add: saturating_add_u64_def)
  qed (simp add: saturating_add_u64_def)
  then have "boot_now \<le> saturating_add_u64 unix_now d" for d using assms order_trans by blast
  then have "\<not> saturating_add_u64 unix_now d < boot_now" for d by (simp add: not_less)
  then show ?thesis by (simp add: update_dns_ip_cache_v4_def lru_insert_def dns_expired_def update_conv)
qed

text \<open>A message that is a query, and not a response, fills the cache with the answers it carries.\<close>

lemma queries_fill_the_cache:
  assumes "try_capture room pkt = Some p" "from_vec p = Some \<lparr>dm_queries = [q], dm_answers = [(DataA ip, ttl)], dm_is_response = False\<rparr>"
  shows "map_of (km_dns (read_dns_event from_vec evict hash room now cgroup pkt km)) ip \<noteq> None"
  using assms by (simp add: read_dns_event_def parse_dns_def observe_dns_def cache_record_def update_dns_ip_cache_v4_def lru_insert_def update_conv
      map_filter_simps)

text \<open>The protected mode closes IPv4 connections without a DNS entry; IPv6 connections do not look at it.\<close>

lemma protected_mode_v4:
  "km_default_action km = Some 0 \<Longrightarrow> map_of (km_dns km) ip = None \<Longrightarrow> fst (dek_connect4 room now pid cgroup ip port km) = 0"
  by (simp add: dek_connect4_def runtime_default_action_def)

lemma protected_mode_not_v6:
  "fst (dek_connect6 room pid cgroup ip6 port (km\<lparr>km_default_action := a\<rparr>)) = fst (dek_connect6 room pid cgroup ip6 port km)"
  by (simp add: dek_connect6_def connect_verdict_def Let_def split: option.split)

lemma generation_advances_on_failure:
  assumes "validate_update u up = Inr ()" "plan_update up = Inl e"
  shows "apply_map_update pinned up (u, km) = (Inl e, u\<lparr>mx_current_generation := mu_generation up\<rparr>, km)"
  using assms by (auto simp: apply_map_update_def Let_def validate_update_def split: if_splits)

lemma map_signature_not_checked:
  "apply_map_update pinned (up\<lparr>mu_signature := Some s\<rparr>) st = apply_map_update pinned (up\<lparr>mu_signature := Some s'\<rparr>) st"
proof -
  have "plan_target (up\<lparr>mu_signature := x\<rparr>) = plan_target up" for x by (simp add: plan_target_def Let_def cong: if_cong option.case_cong)
  then have "plan_update (up\<lparr>mu_signature := x\<rparr>) = plan_update up" for x by (simp add: plan_update_def split: sum.split)
  moreover have "validate_update u (up\<lparr>mu_signature := Some s\<rparr>) = validate_update u (up\<lparr>mu_signature := Some s'\<rparr>)" for u
    by (simp add: validate_update_def Let_def)
  moreover have "is_delete_op (up\<lparr>mu_signature := x\<rparr>) = is_delete_op up" for x by (simp add: is_delete_op_def)
  ultimately show ?thesis by (cases st) (simp add: apply_map_update_def Let_def split: sum.split)
qed

lemma dns_payload_512_dropped:
  assumes "l4_of pkt = Some (l4, proto)" "load_be16 pkt (l4 + 4) = Some 520"
  shows "try_capture room pkt = None"
  using assms by (auto simp: try_capture_def split: option.splits bind_split)

end
