(* ===== verification/Probation.thy ===== *)
theory Probation
  imports Trusted_Keys
begin

text \<open>
  \<^verbatim>\<open>src/crates/dek-core/src/probation.rs\<close> (the health-gated commit or rollback of an updated binary),
  \<^verbatim>\<open>svid_renewal_failclosed.rs\<close> (the identity health class) and the ping decision of \<^verbatim>\<open>watchdog.rs\<close>.

  The probation loop may run as long as the clock allows, so it is a partial function: \<open>None\<close> would be a
  loop that never ends. What the probes of the \<open>i\<close>-th round find, and how long they take, is a function
  of \<open>i\<close>. The installed binary, the marker and the backups are a record; file operations may fail.
\<close>

subsection \<open>Markers and settings\<close>

record probation_marker =
  pm_backup_path :: string
  pm_target_version :: string

record probation_settings =
  deadline :: duration
  interval :: duration
  required_successes :: u32

definition default_probation_settings :: probation_settings where
  "default_probation_settings = \<lparr>deadline = from_secs 60, interval = from_secs 3, required_successes = 3\<rparr>"

definition default_corrupt :: probation_marker where
  "default_corrupt = \<lparr>pm_backup_path = '''', pm_target_version = ''unknown''\<rparr>"

text \<open>The marker file: absent, unreadable, or text that the derived deserialiser accepts or not.\<close>

datatype marker_file = NoMarker | UnreadableMarker | MarkerText string

fun detect :: "(string \<Rightarrow> probation_marker option) \<Rightarrow> marker_file \<Rightarrow> probation_marker option" where
  "detect parse NoMarker = None"
| "detect parse UnreadableMarker = Some default_corrupt"
| "detect parse (MarkerText s) = Some (case parse s of Some m \<Rightarrow> m | None \<Rightarrow> default_corrupt)"

subsection \<open>Checks\<close>

record probe =
  pb_health :: bool
  pb_client :: "(string, unit) result"
  pb_cloud :: "string \<Rightarrow> (string, http_reply) result"
  pb_bundle_text :: "(string, string) result"
  pb_from_str :: "string \<Rightarrow> (string, json) result"
  pb_took :: duration

definition trim_slashes :: "string \<Rightarrow> string" where
  "trim_slashes s = rev (dropWhile (\<lambda>c. c = CHR ''/'') (rev s))"

definition check_mtls :: "probe \<Rightarrow> string \<Rightarrow> bool" where
  "check_mtls p url =
     (case pb_client p of
        Inl _ \<Rightarrow> False
      | Inr _ \<Rightarrow> (case pb_cloud p (trim_slashes url @ ''/health'') of Inr resp \<Rightarrow> is_success resp | Inl _ \<Rightarrow> False))"

definition check_bundle :: "probe \<Rightarrow> bool" where
  "check_bundle p =
     (case pb_bundle_text p of
        Inl _ \<Rightarrow> False
      | Inr data \<Rightarrow>
          (case pb_from_str p data of
             Inr v \<Rightarrow> (case as_object v of Some m \<Rightarrow> m \<noteq> [] | None \<Rightarrow> False)
           | Inl _ \<Rightarrow> False))"

definition round_passes :: "probe \<Rightarrow> string \<Rightarrow> bool" where
  "round_passes p url \<longleftrightarrow> pb_health p \<and> check_mtls p url \<and> check_bundle p"

subsection \<open>The loop\<close>

datatype verdict = Committed nat | Aborted nat

partial_function (option) probation_loop ::
    "probation_settings \<Rightarrow> (nat \<Rightarrow> probe) \<Rightarrow> string \<Rightarrow> nat \<Rightarrow> duration \<Rightarrow> u32 \<Rightarrow> verdict option" where
  "probation_loop cfg probes url i elapsed streak =
     (if elapsed > deadline cfg then Some (Aborted i)
      else if round_passes (probes i) url then
        if required_successes cfg \<le> streak + 1 then Some (Committed i)
        else probation_loop cfg probes url (Suc i) (elapsed + pb_took (probes i) + interval cfg) (streak + 1)
      else probation_loop cfg probes url (Suc i) (elapsed + pb_took (probes i) + interval cfg) 0)"



subsection \<open>Commit and rollback\<close>

record update_files =
  uf_marker :: bool
  uf_backups :: "(string \<times> string) list"
  uf_binary :: string

record update_io =
  io_remove_marker :: bool
  io_remove_backup :: bool
  io_self_replace :: bool

definition commit :: "update_io \<Rightarrow> probation_marker \<Rightarrow> update_files \<Rightarrow> update_files" where
  "commit io m f =
     (let f1 = (if io_remove_marker io then f\<lparr>uf_marker := False\<rparr> else f)
      in if pm_backup_path m \<noteq> [] \<and> io_remove_backup io
         then f1\<lparr>uf_backups := AList.delete (pm_backup_path m) (uf_backups f1)\<rparr> else f1)"

text \<open>The process exits with status 1 on every path.\<close>

definition abort_and_rollback :: "update_io \<Rightarrow> probation_marker \<Rightarrow> update_files \<Rightarrow> update_files" where
  "abort_and_rollback io m f =
     (let f1 = (if io_remove_marker io then f\<lparr>uf_marker := False\<rparr> else f)
      in if pm_backup_path m = [] then f1
         else case map_of (uf_backups f1) (pm_backup_path m) of
                None \<Rightarrow> f1
              | Some old \<Rightarrow>
                  if io_self_replace io then
                    (let f2 = f1\<lparr>uf_binary := old\<rparr>
                     in if io_remove_backup io then f2\<lparr>uf_backups := AList.delete (pm_backup_path m) (uf_backups f2)\<rparr> else f2)
                  else f1)"

definition finalize :: "probation_settings \<Rightarrow> (nat \<Rightarrow> probe) \<Rightarrow> string \<Rightarrow> update_io \<Rightarrow> probation_marker \<Rightarrow> update_files \<Rightarrow>
    (verdict \<times> update_files) option" where
  "finalize cfg probes url io m f =
     map_option (\<lambda>v. (v, case v of Committed _ \<Rightarrow> commit io m f | Aborted _ \<Rightarrow> abort_and_rollback io m f))
       (probation_loop cfg probes url 0 0 0)"

subsection \<open>Identity health and watchdog\<close>

datatype identity_health = Healthy | RenewDegraded | Expired

definition classify :: "int \<Rightarrow> bool \<Rightarrow> identity_health" where
  "classify remaining_secs last_renew_ok =
     (if last_renew_ok then Healthy else if remaining_secs > 60 then RenewDegraded else Expired)"

definition watchdog_pings :: "u64 \<Rightarrow> u64 \<Rightarrow> nat \<Rightarrow> bool" where
  "watchdog_pings now last_tick interval_secs \<longleftrightarrow>
     unat now - unat last_tick < max (2 * interval_secs) 2"

subsection \<open>Lemmas\<close>

definition start_of :: "probation_settings \<Rightarrow> (nat \<Rightarrow> probe) \<Rightarrow> nat \<Rightarrow> duration" where
  "start_of cfg probes i = (\<Sum>j<i. pb_took (probes j) + interval cfg)"

definition needed :: "probation_settings \<Rightarrow> nat" where
  "needed cfg = max 1 (unat (required_successes cfg))"

text \<open>Round \<open>n\<close> completes a run of enough passing rounds.\<close>

definition proven :: "probation_settings \<Rightarrow> (nat \<Rightarrow> probe) \<Rightarrow> string \<Rightarrow> nat \<Rightarrow> bool" where
  "proven cfg probes url n \<longleftrightarrow> needed cfg \<le> Suc n \<and> (\<forall>j. Suc n - needed cfg \<le> j \<and> j \<le> n \<longrightarrow> round_passes (probes j) url)"

definition streak_inv :: "probation_settings \<Rightarrow> (nat \<Rightarrow> probe) \<Rightarrow> string \<Rightarrow> nat \<Rightarrow> u32 \<Rightarrow> bool" where
  "streak_inv cfg probes url i streak \<longleftrightarrow> unat streak \<le> i \<and> unat streak < needed cfg \<and>
     (\<forall>j. i - unat streak \<le> j \<and> j < i \<longrightarrow> round_passes (probes j) url) \<and>
     (unat streak < i \<longrightarrow> \<not> round_passes (probes (i - unat streak - 1)) url)"

lemma needed_pos: "required_successes cfg \<noteq> 0 \<Longrightarrow> needed cfg = unat (required_successes cfg)"
  using unat_gt_0 [of "required_successes cfg"] by (simp add: needed_def)

lemma start_of_Suc [simp]: "start_of cfg probes (Suc i) = start_of cfg probes i + pb_took (probes i) + interval cfg"
  by (simp add: start_of_def)

lemma start_of_lower: "i * interval cfg \<le> start_of cfg probes i"
  by (induction i) (simp_all add: start_of_def)

lemma streak_step_commit:
  assumes "streak_inv cfg probes url i streak" and "round_passes (probes i) url"
    and "required_successes cfg \<le> streak + 1"
  shows "proven cfg probes url i"
proof -
  have "unat streak < needed cfg" "unat streak \<le> i" using assms(1) by (auto simp: streak_inv_def)
  have "needed cfg \<le> Suc (unat streak)"
  proof (cases "required_successes cfg = 0")
    case False
    then have "unat streak < unat (required_successes cfg)"
      using \<open>unat streak < needed cfg\<close> by (simp add: needed_pos)
    then have "unat (streak + 1) = Suc (unat streak)" by (simp add: unat_plus_one_if_bound)
    with assms(3) show ?thesis by (simp add: needed_def word_le_nat_alt)
  qed (simp add: needed_def)
  with \<open>unat streak < needed cfg\<close> have "needed cfg = Suc (unat streak)" by simp
  moreover have "round_passes (probes j) url" if "i - unat streak \<le> j" "j \<le> i" for j
    using that assms(1,2) by (cases "j = i") (auto simp: streak_inv_def)
  ultimately show ?thesis using \<open>unat streak \<le> i\<close> by (simp add: proven_def)
qed

lemma streak_step_more:
  assumes "streak_inv cfg probes url i streak" and "round_passes (probes i) url"
    and "\<not> required_successes cfg \<le> streak + 1"
  shows "streak_inv cfg probes url (Suc i) (streak + 1) \<and> \<not> proven cfg probes url i"
proof -
  have s: "unat streak < needed cfg" "unat streak \<le> i" using assms(1) by (auto simp: streak_inv_def)
  have r0: "required_successes cfg \<noteq> 0" using assms(3) by auto
  then have "unat streak < unat (required_successes cfg)"
    using s by (simp add: needed_pos)
  then have u: "unat (streak + 1) = Suc (unat streak)" by (simp add: unat_plus_one_if_bound)
  have lt: "Suc (unat streak) < needed cfg"
    using assms(3) u by (simp add: needed_def word_le_nat_alt)
  have "\<not> proven cfg probes url i"
  proof
    assume p: "proven cfg probes url i"
    then have "unat streak < i" using lt by (auto simp: proven_def)
    then have "\<not> round_passes (probes (i - unat streak - 1)) url" using assms(1) by (simp add: streak_inv_def)
    moreover have "Suc i - needed cfg \<le> i - unat streak - 1" using lt by simp
    ultimately show False using p by (auto simp: proven_def)
  qed
  moreover have "streak_inv cfg probes url (Suc i) (streak + 1)"
    using assms(1,2) lt by (auto simp: streak_inv_def u less_Suc_eq)
  ultimately show ?thesis by blast
qed

lemma streak_step_reset:
  assumes "\<not> round_passes (probes i) url"
  shows "streak_inv cfg probes url (Suc i) 0 \<and> \<not> proven cfg probes url i"
proof -
  have "needed cfg \<ge> 1" by (simp add: needed_def)
  then have "\<not> proven cfg probes url i" using assms by (auto simp: proven_def intro!: exI [of _ i])
  moreover have "streak_inv cfg probes url (Suc i) 0" using assms \<open>needed cfg \<ge> 1\<close> by (auto simp: streak_inv_def)
  ultimately show ?thesis by blast
qed

lemma probation_loop_spec:
  assumes "0 < interval cfg" and "streak_inv cfg probes url i streak"
  shows "(\<exists>n\<ge>i. probation_loop cfg probes url i (start_of cfg probes i) streak = Some (Committed n) \<and>
            start_of cfg probes n \<le> deadline cfg \<and> proven cfg probes url n \<and>
            (\<forall>m. i \<le> m \<and> m < n \<longrightarrow> \<not> proven cfg probes url m)) \<or>
         (\<exists>n\<ge>i. probation_loop cfg probes url i (start_of cfg probes i) streak = Some (Aborted n) \<and>
            deadline cfg < start_of cfg probes n \<and>
            (\<forall>m. i \<le> m \<and> m < n \<longrightarrow> \<not> proven cfg probes url m \<and> start_of cfg probes m \<le> deadline cfg))"
  using assms(2)
proof (induction "Suc (deadline cfg) - start_of cfg probes i" arbitrary: i streak rule: less_induct)
  case less
  let ?t = "start_of cfg probes i"
  show ?case
  proof (cases "?t > deadline cfg")
    case True
    then show ?thesis by (intro disjI2 exI [of _ i]) (auto simp: probation_loop.simps)
  next
    case False
    show ?thesis
    proof (cases "round_passes (probes i) url \<and> required_successes cfg \<le> streak + 1")
      case True
      with False streak_step_commit [OF less.prems] show ?thesis
        by (intro disjI1 exI [of _ i]) (auto simp: probation_loop.simps)
    next
      case go: False
      define streak' where "streak' = (if round_passes (probes i) url then streak + 1 else 0)"
      have "streak_inv cfg probes url (Suc i) streak' \<and> \<not> proven cfg probes url i"
        using streak_step_more [OF less.prems] streak_step_reset [of probes i url cfg] go by (auto simp: streak'_def)
      note sp = this
      have eq: "probation_loop cfg probes url i ?t streak =
          probation_loop cfg probes url (Suc i) (start_of cfg probes (Suc i)) streak'"
        using False go by (subst probation_loop.simps) (simp add: streak'_def)
      have "Suc (deadline cfg) - start_of cfg probes (Suc i) < Suc (deadline cfg) - ?t"
        using False assms(1) by simp
      from less.hyps [OF this] sp have ih: "(\<exists>n\<ge>Suc i. probation_loop cfg probes url i ?t streak = Some (Committed n) \<and>
            start_of cfg probes n \<le> deadline cfg \<and> proven cfg probes url n \<and>
            (\<forall>m. Suc i \<le> m \<and> m < n \<longrightarrow> \<not> proven cfg probes url m)) \<or>
         (\<exists>n\<ge>Suc i. probation_loop cfg probes url i ?t streak = Some (Aborted n) \<and>
            deadline cfg < start_of cfg probes n \<and>
            (\<forall>m. Suc i \<le> m \<and> m < n \<longrightarrow> \<not> proven cfg probes url m \<and> start_of cfg probes m \<le> deadline cfg))"
        unfolding eq by blast
      have step: "Suc i \<le> m \<or> m = i" if "i \<le> m" for m using that by linarith
      from ih show ?thesis
      proof
        assume "\<exists>n\<ge>Suc i. probation_loop cfg probes url i ?t streak = Some (Committed n) \<and>
            start_of cfg probes n \<le> deadline cfg \<and> proven cfg probes url n \<and>
            (\<forall>m. Suc i \<le> m \<and> m < n \<longrightarrow> \<not> proven cfg probes url m)"
        then show ?thesis using sp step by (metis Suc_leD)
      next
        assume "\<exists>n\<ge>Suc i. probation_loop cfg probes url i ?t streak = Some (Aborted n) \<and>
            deadline cfg < start_of cfg probes n \<and>
            (\<forall>m. Suc i \<le> m \<and> m < n \<longrightarrow> \<not> proven cfg probes url m \<and> start_of cfg probes m \<le> deadline cfg)"
        then show ?thesis using sp step False by (metis Suc_leD not_less)
      qed
    qed
  qed
qed

lemma start_of_mono: "a \<le> b \<Longrightarrow> start_of cfg probes a \<le> start_of cfg probes b"
  by (induction b) (auto simp: le_Suc_eq)

lemma probation_loop_commits_iff:
  assumes "0 < interval cfg"
  obtains n where "probation_loop cfg probes url 0 0 0 = Some (Committed n)" "start_of cfg probes n \<le> deadline cfg" "proven cfg probes url n"
  | n where "probation_loop cfg probes url 0 0 0 = Some (Aborted n)" "\<And>k. start_of cfg probes k \<le> deadline cfg \<Longrightarrow> \<not> proven cfg probes url k"
proof -
  have "streak_inv cfg probes url 0 0" by (simp add: streak_inv_def needed_def)
  from probation_loop_spec [OF assms this] show thesis
  proof (elim disjE exE conjE)
    fix n assume "probation_loop cfg probes url 0 (start_of cfg probes 0) 0 = Some (Committed n)" "start_of cfg probes n \<le> deadline cfg"
      "proven cfg probes url n"
    then show thesis by (intro that(1)) (simp_all add: start_of_def)
  next
    fix n assume n: "probation_loop cfg probes url 0 (start_of cfg probes 0) 0 = Some (Aborted n)" "deadline cfg < start_of cfg probes n"
      "\<forall>m. 0 \<le> m \<and> m < n \<longrightarrow> \<not> proven cfg probes url m \<and> start_of cfg probes m \<le> deadline cfg"
    have "k < n" if "start_of cfg probes k \<le> deadline cfg" for k
      using that n(2) start_of_mono [of n k cfg probes] by linarith
    then show thesis using n(1,3) by (intro that(2)) (simp_all add: start_of_def)
  qed
qed

subsection \<open>Properties\<close>

text \<open>
  C19. The probation always ends, with the right verdict: with a positive interval between rounds, and probes that return, the loop
  ends after at most deadline / interval + 1 rounds. It commits at the first round, started within the
  deadline, that completes the required number of consecutive passing rounds (at least one). When no round started
  within the deadline does, it aborts when it finds the deadline passed at the start of a round; the streak counter never wraps.
\<close>

theorem probation_terminates:
  assumes "0 < interval cfg"
  shows "\<exists>v. probation_loop cfg probes url 0 0 0 = Some v \<and>
    (case v of
       Committed n \<Rightarrow> start_of cfg probes n \<le> deadline cfg \<and> proven cfg probes url n \<and>
         (\<forall>m<n. \<not> proven cfg probes url m) \<and> n \<le> deadline cfg div interval cfg
     | Aborted n \<Rightarrow> deadline cfg < start_of cfg probes n \<and> (\<forall>m<n. start_of cfg probes m \<le> deadline cfg) \<and>
         (\<forall>m. start_of cfg probes m \<le> deadline cfg \<longrightarrow> \<not> proven cfg probes url m) \<and>
         n \<le> deadline cfg div interval cfg + 1)"
proof -
  have rounds: "n \<le> deadline cfg div interval cfg" if "start_of cfg probes n \<le> deadline cfg" for n
    using order_trans [OF start_of_lower that] assms by (simp add: less_eq_div_iff_mult_less_eq)
  have "streak_inv cfg probes url 0 0" by (simp add: streak_inv_def needed_def)
  from probation_loop_spec [OF assms this] show ?thesis
  proof
    assume "\<exists>n\<ge>0. probation_loop cfg probes url 0 (start_of cfg probes 0) 0 = Some (Committed n) \<and>
            start_of cfg probes n \<le> deadline cfg \<and> proven cfg probes url n \<and>
            (\<forall>m. 0 \<le> m \<and> m < n \<longrightarrow> \<not> proven cfg probes url m)"
    then show ?thesis using rounds by (auto simp: start_of_def)
  next
    assume "\<exists>n\<ge>0. probation_loop cfg probes url 0 (start_of cfg probes 0) 0 = Some (Aborted n) \<and>
            deadline cfg < start_of cfg probes n \<and>
            (\<forall>m. 0 \<le> m \<and> m < n \<longrightarrow> \<not> proven cfg probes url m \<and> start_of cfg probes m \<le> deadline cfg)"
    then obtain n where n: "probation_loop cfg probes url 0 0 0 = Some (Aborted n)" "deadline cfg < start_of cfg probes n"
        "\<forall>m<n. \<not> proven cfg probes url m \<and> start_of cfg probes m \<le> deadline cfg"
      by (auto simp: start_of_def)
    have "n \<le> deadline cfg div interval cfg + 1" using n(3) rounds [of "n - 1"] by (cases n) auto
    moreover have "m < n" if "start_of cfg probes m \<le> deadline cfg" for m
      using that n(2) start_of_mono [of n m cfg probes] by (metis leD leI order_le_less_trans)
    ultimately show ?thesis using n by auto
  qed
qed

theorem probation_terminates_witness:
  "\<exists>v. probation_loop default_probation_settings (\<lambda>_. \<lparr>pb_health = False, pb_client = Inl '''',
     pb_cloud = (\<lambda>_. Inl ''''), pb_bundle_text = Inl '''', pb_from_str = (\<lambda>_. Inl ''''), pb_took = 0\<rparr>) ''u'' 0 0 0 = Some v"
proof -
  have "0 < interval default_probation_settings" by (simp add: default_probation_settings_def from_secs_def)
  from probation_terminates [OF this] show ?thesis by blast
qed

lemma commit_exact:
  "uf_binary (commit io m f) = uf_binary f" "uf_marker (commit io m f) = (uf_marker f \<and> \<not> io_remove_marker io)"
  "map_of (uf_backups (commit io m f)) p =
     (if p = pm_backup_path m \<and> p \<noteq> [] \<and> io_remove_backup io then None else map_of (uf_backups f) p)"
  by (auto simp: commit_def Let_def delete_conv')

lemma abort_exact:
  "uf_marker (abort_and_rollback io m f) = (uf_marker f \<and> \<not> io_remove_marker io)"
  "uf_binary (abort_and_rollback io m f) =
     (case map_of (uf_backups f) (pm_backup_path m) of
        Some old \<Rightarrow> if pm_backup_path m \<noteq> [] \<and> io_self_replace io then old else uf_binary f | None \<Rightarrow> uf_binary f)"
  "map_of (uf_backups (abort_and_rollback io m f)) p =
     (if p = pm_backup_path m \<and> p \<noteq> [] \<and> io_self_replace io \<and> io_remove_backup io then None else map_of (uf_backups f) p)"
  by (auto simp: abort_and_rollback_def Let_def delete_conv' split: option.splits)

text \<open>
  C20. What a probation leaves behind, whichever file operations fail: it ends, and it commits exactly when some round started within the deadline
  completes the required run of consecutive passing rounds. Then the new binary stays and the backup is removed (where that works). Otherwise
  the binary is the backup when the marker names one, it exists and can be swapped in, and stays as it is when not. Either way the marker is gone
  when it could be removed, and no other backup is touched.
\<close>

theorem probation_effects:
  assumes "0 < interval cfg"
  shows "\<exists>v f'. finalize cfg probes url io m f = Some (v, f') \<and>
    ((\<exists>n. v = Committed n) \<longleftrightarrow> (\<exists>n. start_of cfg probes n \<le> deadline cfg \<and> proven cfg probes url n)) \<and>
    uf_marker f' = (uf_marker f \<and> \<not> io_remove_marker io) \<and>
    (\<forall>p. p \<noteq> pm_backup_path m \<longrightarrow> map_of (uf_backups f') p = map_of (uf_backups f) p) \<and>
    (case v of
       Committed _ \<Rightarrow> uf_binary f' = uf_binary f \<and> (pm_backup_path m \<noteq> [] \<and> io_remove_backup io \<longrightarrow> map_of (uf_backups f') (pm_backup_path m) = None)
     | Aborted _ \<Rightarrow> uf_binary f' =
         (case map_of (uf_backups f) (pm_backup_path m) of
            Some old \<Rightarrow> if pm_backup_path m \<noteq> [] \<and> io_self_replace io then old else uf_binary f
          | None \<Rightarrow> uf_binary f))"
proof (rule probation_loop_commits_iff [OF assms, of probes url])
  fix n assume n: "probation_loop cfg probes url 0 0 0 = Some (Committed n)" "start_of cfg probes n \<le> deadline cfg" "proven cfg probes url n"
  then have "finalize cfg probes url io m f = Some (Committed n, commit io m f)" by (simp add: finalize_def)
  then show ?thesis using n(2,3) by (auto simp: commit_exact)
next
  fix n assume n: "probation_loop cfg probes url 0 0 0 = Some (Aborted n)" "\<And>k. start_of cfg probes k \<le> deadline cfg \<Longrightarrow> \<not> proven cfg probes url k"
  then have "finalize cfg probes url io m f = Some (Aborted n, abort_and_rollback io m f)" by (simp add: finalize_def)
  then show ?thesis using n(2) by (auto simp: abort_exact)
qed

theorem probation_effects_witness:
  "uf_binary (snd (the (finalize \<lparr>deadline = 0, interval = 1, required_successes = 1\<rparr>
     (\<lambda>_. \<lparr>pb_health = False, pb_client = Inl '''', pb_cloud = (\<lambda>_. Inl ''''), pb_bundle_text = Inl '''',
        pb_from_str = (\<lambda>_. Inl ''''), pb_took = 0\<rparr>) ''u''
     \<lparr>io_remove_marker = True, io_remove_backup = True, io_self_replace = True\<rparr>
     \<lparr>pm_backup_path = ''b'', pm_target_version = ''2''\<rparr>
     \<lparr>uf_marker = True, uf_backups = [(''b'', ''old'')], uf_binary = ''new''\<rparr>))) = ''old''"
proof -
  let ?io = "\<lparr>io_remove_marker = True, io_remove_backup = True, io_self_replace = True\<rparr>"
  let ?p = "\<lambda>_. \<lparr>pb_health = False, pb_client = Inl '''', pb_cloud = (\<lambda>_. Inl ''''), pb_bundle_text = Inl '''',
        pb_from_str = (\<lambda>_. Inl ''''), pb_took = 0\<rparr>"
  let ?m = "\<lparr>pm_backup_path = ''b'', pm_target_version = ''2''\<rparr>"
  let ?f = "\<lparr>uf_marker = True, uf_backups = [(''b'', ''old'')], uf_binary = ''new''\<rparr>"
  let ?cfg = "\<lparr>deadline = 0, interval = 1, required_successes = 1\<rparr>"
  have "probation_loop ?cfg ?p ''u'' 0 0 0 = Some (Aborted 1)"
    by (subst probation_loop.simps, subst probation_loop.simps) (simp add: round_passes_def)
  then obtain f' where f: "finalize ?cfg ?p ''u'' ?io ?m ?f = Some (Aborted 1, f')" by (auto simp: finalize_def)
  have "0 < interval ?cfg" by simp
  from probation_effects [OF this, of ?p "''u''" ?io ?m ?f] f have "uf_binary f' = ''old''" by auto
  with f show ?thesis by simp
qed

end
