(* ===== verification/Admission_Control.thy ===== *)
theory Admission_Control
  imports Pollek_Prelude
begin

text \<open>
  \<^verbatim>\<open>src/crates/dek-resilience/src/admission.rs\<close>: global and per-tenant concurrency limits.

  A \<^verbatim>\<open>tokio\<close> semaphore is the number of permits it still has; a permit is the tenant it was
  issued to, since every permit takes one unit of the global semaphore and one of that tenant's.
  Dropping a permit gives both units back. The tenant map only ever grows, as in the code.
\<close>

subsection \<open>State and operations\<close>

record admission_control =
  global_sem :: nat
  per_tenant_limit :: nat
  tenant_sems :: "(string \<times> nat) list"

type_synonym admit_permit = string

definition admission_new :: "nat \<Rightarrow> nat \<Rightarrow> admission_control" where
  "admission_new global_limit tenant_limit =
     \<lparr>global_sem = max global_limit 1, per_tenant_limit = max tenant_limit 1, tenant_sems = []\<rparr>"

definition tenant_sem :: "admission_control \<Rightarrow> string \<Rightarrow> nat \<times> admission_control" where
  "tenant_sem ac tenant =
     (case map_of (tenant_sems ac) tenant of
        Some n \<Rightarrow> (n, ac)
      | None \<Rightarrow> (per_tenant_limit ac,
          ac\<lparr>tenant_sems := AList.update tenant (per_tenant_limit ac) (tenant_sems ac)\<rparr>))"

definition try_admit :: "admission_control \<Rightarrow> string \<Rightarrow> admit_permit option \<times> admission_control" where
  "try_admit ac tenant =
     (if global_sem ac = 0 then (None, ac)
      else
        let ac1 = ac\<lparr>global_sem := global_sem ac - 1\<rparr>;
            (n, ac2) = tenant_sem ac1 tenant
        in if n = 0
           then (None, ac2\<lparr>global_sem := global_sem ac2 + 1\<rparr>)
           else (Some tenant, ac2\<lparr>tenant_sems := AList.update tenant (n - 1) (tenant_sems ac2)\<rparr>))"

definition drop_permit :: "admission_control \<Rightarrow> admit_permit \<Rightarrow> admission_control" where
  "drop_permit ac p =
     ac\<lparr>global_sem := global_sem ac + 1,
        tenant_sems := (case map_of (tenant_sems ac) p of
             Some n \<Rightarrow> AList.update p (n + 1) (tenant_sems ac) | None \<Rightarrow> tenant_sems ac)\<rparr>"

definition available_global :: "admission_control \<Rightarrow> nat" where
  "available_global ac = global_sem ac"

subsection \<open>Requests in flight\<close>

text \<open>The controller together with the permits that are held.\<close>

type_synonym admission_sys = "admission_control \<times> admit_permit list"

inductive adm_step :: "admission_sys \<Rightarrow> admission_sys \<Rightarrow> bool" where
  admitted: "try_admit ac t = (Some p, ac') \<Longrightarrow> adm_step (ac, fl) (ac', p # fl)"
| refused: "try_admit ac t = (None, ac') \<Longrightarrow> adm_step (ac, fl) (ac', fl)"
| dropped: "p \<in> set fl \<Longrightarrow> adm_step (ac, fl) (drop_permit ac p, remove1 p fl)"

definition adm_init :: "nat \<Rightarrow> nat \<Rightarrow> admission_sys \<Rightarrow> bool" where
  "adm_init g n s \<longleftrightarrow> s = (admission_new g n, [])"

text \<open>What a tenant's semaphore has left; a tenant not seen yet has its whole limit.\<close>

definition tenant_available :: "admission_control \<Rightarrow> string \<Rightarrow> nat" where
  "tenant_available ac t =
     (case map_of (tenant_sems ac) t of Some k \<Rightarrow> k | None \<Rightarrow> per_tenant_limit ac)"

lemma try_admit_refused:
  "global_sem ac = 0 \<or> tenant_available ac t = 0 \<Longrightarrow>
     fst (try_admit ac t) = None \<and> global_sem (snd (try_admit ac t)) = global_sem ac \<and>
     per_tenant_limit (snd (try_admit ac t)) = per_tenant_limit ac \<and>
     tenant_available (snd (try_admit ac t)) = tenant_available ac"
  by (auto simp: try_admit_def tenant_sem_def tenant_available_def Let_def fun_eq_iff split: option.splits)

lemma try_admit_admitted:
  "global_sem ac \<noteq> 0 \<and> tenant_available ac t \<noteq> 0 \<Longrightarrow>
     fst (try_admit ac t) = Some t \<and> global_sem (snd (try_admit ac t)) = global_sem ac - 1 \<and>
     per_tenant_limit (snd (try_admit ac t)) = per_tenant_limit ac \<and>
     tenant_available (snd (try_admit ac t)) = (tenant_available ac)(t := tenant_available ac t - 1)"
  by (auto simp: try_admit_def tenant_sem_def tenant_available_def Let_def fun_eq_iff split: option.splits)

lemma drop_permit_effect:
  "tenant_available ac p < per_tenant_limit ac \<Longrightarrow>
     global_sem (drop_permit ac p) = global_sem ac + 1 \<and>
     per_tenant_limit (drop_permit ac p) = per_tenant_limit ac \<and>
     tenant_available (drop_permit ac p) = (tenant_available ac)(p := tenant_available ac p + 1)"
  by (auto simp: drop_permit_def tenant_available_def fun_eq_iff split: option.splits)

lemma permit_returned:
  assumes "try_admit a t = (Some t, ac)"
  shows "global_sem (drop_permit ac t) = global_sem a" "tenant_available (drop_permit ac t) = tenant_available a"
    "per_tenant_limit (drop_permit ac t) = per_tenant_limit a"
  using assms
  by (auto simp: try_admit_def tenant_sem_def drop_permit_def tenant_available_def Let_def fun_eq_iff split: if_splits option.splits)

text \<open>Permits are conserved: what a semaphore lacks is held by the requests in flight.\<close>

definition adm_inv :: "nat \<Rightarrow> nat \<Rightarrow> admission_sys \<Rightarrow> bool" where
  "adm_inv g n s \<longleftrightarrow>
     (case s of (ac, fl) \<Rightarrow>
        global_sem ac + length fl = max g 1 \<and> per_tenant_limit ac = max n 1 \<and>
        (\<forall>t. tenant_available ac t + count_list fl t = max n 1))"

lemma adm_inv_step: "adm_step s s' \<Longrightarrow> adm_inv g n s \<Longrightarrow> adm_inv g n s'"
proof (induction rule: adm_step.induct)
  case (admitted ac t p ac' fl)
  have "global_sem ac \<noteq> 0 \<and> tenant_available ac t \<noteq> 0"
    using try_admit_refused [of ac t] admitted.hyps by force
  from try_admit_admitted [OF this] this admitted show ?case by (auto simp: adm_inv_def)
next
  case (refused ac t ac' fl)
  have "global_sem ac = 0 \<or> tenant_available ac t = 0"
    using try_admit_admitted [of ac t] refused.hyps by force
  from try_admit_refused [OF this] refused show ?case by (auto simp: adm_inv_def)
next
  case (dropped p fl ac)
  then have pos: "0 < count_list fl p" "0 < length fl"
    by (auto simp: count_list_0_iff intro: gr0I)
  from dropped.prems have inv: "tenant_available ac q + count_list fl q = max n 1"
      "global_sem ac + length fl = max g 1" "per_tenant_limit ac = max n 1" for q
    by (auto simp: adm_inv_def)
  from pos(1) inv(1) [of p] inv(3) have "tenant_available ac p < per_tenant_limit ac" by linarith
  note eff = drop_permit_effect [OF this]
  have "tenant_available (drop_permit ac p) q + count_list (remove1 p fl) q = max n 1" for q
    using eff inv(1) [of q] pos(1) dropped.hyps by auto
  moreover have "global_sem (drop_permit ac p) + length (remove1 p fl) = max g 1"
    using eff inv(2) pos(2) dropped.hyps length_remove1 [of p fl] by (simp only: if_True)
  ultimately show ?case using eff inv(3) by (simp add: adm_inv_def)
qed

interpretation adm_sys: invariant_system "adm_init g n" adm_step "adm_inv g n" for g n
proof unfold_locales
  show "adm_inv g n s" if "adm_init g n s" for s
    using that by (simp add: adm_init_def adm_inv_def admission_new_def tenant_available_def)
qed (rule adm_inv_step)

subsection \<open>Properties\<close>

text \<open>
  C27. Admission decides exactly by the two limits: in every reachable state, whatever requests came
  and went before, a request of tenant \<open>t\<close> is admitted if and only if fewer requests than the
  global limit are in flight and fewer of \<open>t\<close>'s own than the tenant limit (limits below one
  count as one). So neither limit is ever exceeded, and other tenants' traffic cannot consume a
  tenant's own share; the counter shown as available is the number of free global slots.
\<close>

theorem admission_exact:
  assumes "adm_step\<^sup>*\<^sup>* (admission_new g n, []) (ac, fl)"
  shows "(fst (try_admit ac t) \<noteq> None \<longleftrightarrow> length fl < max g 1 \<and> count_list fl t < max n 1) \<and>
    length fl \<le> max g 1 \<and> count_list fl t \<le> max n 1 \<and> available_global ac = max g 1 - length fl"
proof -
  have "adm_inv g n (ac, fl)"
    using adm_sys.inv_reachable [of g n] assms by (auto simp: adm_init_def)
  then have inv: "global_sem ac + length fl = max g 1"
      "tenant_available ac t + count_list fl t = max n 1"
    by (auto simp: adm_inv_def)
  have "fst (try_admit ac t) \<noteq> None \<longleftrightarrow> global_sem ac \<noteq> 0 \<and> tenant_available ac t \<noteq> 0"
    using try_admit_refused [of ac t] try_admit_admitted [of ac t] by force
  with inv show ?thesis by (auto simp: available_global_def)
qed

theorem admission_exact_witness:
  "fst (try_admit (snd (try_admit (admission_new 100 1) ''a'')) ''a'') = None \<and>
   fst (try_admit (snd (try_admit (admission_new 100 1) ''a'')) ''b'') \<noteq> None"
proof -
  let ?ac = "snd (try_admit (admission_new 100 1) ''a'')"
  have "try_admit (admission_new 100 1) ''a'' = (Some ''a'', ?ac)"
    by (simp add: try_admit_def tenant_sem_def admission_new_def Let_def)
  then have "adm_step (admission_new 100 1, []) (?ac, [''a''])" by (rule adm_step.admitted)
  then have "adm_step\<^sup>*\<^sup>* (admission_new 100 1, []) (?ac, [''a''])" by blast
  from admission_exact [OF this, of "''a''"] admission_exact [OF this, of "''b''"]
  show ?thesis by simp
qed

end
