(* ===== verification/Rate_Limiter.thy ===== *)
theory Rate_Limiter
  imports Pollek_Prelude
begin

text \<open>
  \<^verbatim>\<open>src/crates/dek-resilience/src/rate_limit.rs\<close>: a token bucket per key. The poisoned state of
  the bucket mutex is a field, because \<^verbatim>\<open>check_at\<close> allows the call when the lock is poisoned.
\<close>

subsection \<open>State and operations\<close>

record bucket =
  tokens :: f64
  bucket_last :: instant

record rate_limiter =
  buckets :: "(string \<times> bucket) list"
  capacity :: f64
  refill_per_sec :: f64
  buckets_poisoned :: bool

datatype rate_decision = RateAllow | Throttled

definition rate_limiter_new :: "f64 \<Rightarrow> f64 \<Rightarrow> rate_limiter" where
  "rate_limiter_new cap refill =
     \<lparr>buckets = [], capacity = cap, refill_per_sec = refill, buckets_poisoned = False\<rparr>"

definition bucket_entry :: "rate_limiter \<Rightarrow> string \<Rightarrow> instant \<Rightarrow> bucket" where
  "bucket_entry rl key now =
     (case map_of (buckets rl) key of Some b \<Rightarrow> b | None \<Rightarrow> \<lparr>tokens = capacity rl, bucket_last = now\<rparr>)"

definition check_at :: "rate_limiter \<Rightarrow> string \<Rightarrow> instant \<Rightarrow> rate_decision \<times> rate_limiter" where
  "check_at rl key now =
     (if buckets_poisoned rl then (RateAllow, rl)
      else
        let b = bucket_entry rl key now;
            elapsed = as_secs_f64 (now - bucket_last b);
            b1 = b\<lparr>tokens := min (tokens b + elapsed * refill_per_sec rl) (capacity rl), bucket_last := now\<rparr>
        in if tokens b1 \<ge> 1
           then (RateAllow, rl\<lparr>buckets := AList.update key (b1\<lparr>tokens := tokens b1 - 1\<rparr>) (buckets rl)\<rparr>)
           else (Throttled, rl\<lparr>buckets := AList.update key b1 (buckets rl)\<rparr>))"

primrec check_run :: "rate_limiter \<Rightarrow> (string \<times> instant) list \<Rightarrow> rate_decision list \<times> rate_limiter" where
  "check_run rl [] = ([], rl)"
| "check_run rl (c # cs) =
     (let (d, rl1) = check_at rl (fst c) (snd c); (ds, rl2) = check_run rl1 cs in (d # ds, rl2))"

subsection \<open>Facts about one check\<close>

lemma check_at_frame [frame_simps]:
  "capacity (snd (check_at rl k now)) = capacity rl"
  "refill_per_sec (snd (check_at rl k now)) = refill_per_sec rl"
  "buckets_poisoned (snd (check_at rl k now)) = buckets_poisoned rl"
  by (simp_all add: check_at_def Let_def)

lemma check_at_other_key [frame_simps]:
  "k' \<noteq> k \<Longrightarrow> map_of (buckets (snd (check_at rl k now))) k' = map_of (buckets rl) k'"
  by (simp add: check_at_def Let_def)

text \<open>One check of a key: its level rises by at most the refill and drops by one for each admission.\<close>

definition cost :: "rate_decision \<Rightarrow> f64" where
  "cost d = (case d of RateAllow \<Rightarrow> 1 | Throttled \<Rightarrow> 0)"

definition level :: "rate_limiter \<Rightarrow> string \<Rightarrow> f64" where
  "level rl k = (case map_of (buckets rl) k of Some b \<Rightarrow> tokens b | None \<Rightarrow> capacity rl)"

definition level_at :: "rate_limiter \<Rightarrow> string \<Rightarrow> instant \<Rightarrow> instant" where
  "level_at rl k t0 = (case map_of (buckets rl) k of Some b \<Rightarrow> bucket_last b | None \<Rightarrow> t0)"

lemma check_at_cong:
  assumes "map_of (buckets rl') k = map_of (buckets rl) k" and "capacity rl' = capacity rl"
    and "refill_per_sec rl' = refill_per_sec rl" and "buckets_poisoned rl' = buckets_poisoned rl"
  shows "fst (check_at rl' k now) = fst (check_at rl k now)"
proof -
  have "bucket_entry rl' k now = bucket_entry rl k now"
    by (simp add: bucket_entry_def assms split: option.split)
  then show ?thesis by (simp add: check_at_def Let_def assms)
qed

lemma level_other_key:
  assumes "k' \<noteq> k"
  shows "level (snd (check_at rl k now)) k' = level rl k'"
    and "level_at (snd (check_at rl k now)) k' t = level_at rl k' t"
  using check_at_other_key [OF assms, of rl now]
  by (simp_all add: level_def level_at_def check_at_frame split: option.split)

lemma check_at_level:
  assumes "\<not> buckets_poisoned rl" and "level_at rl k now \<le> now"
  shows "level (snd (check_at rl k now)) k + cost (fst (check_at rl k now)) \<le>
     level rl k + refill_per_sec rl * as_secs_f64 (now - level_at rl k now)"
  using assms
  by (auto simp: check_at_def bucket_entry_def level_def level_at_def cost_def Let_def min_def mult.commute
      split: option.splits)

definition rate_inv :: "rate_limiter \<Rightarrow> bool" where
  "rate_inv rl \<longleftrightarrow> 0 \<le> capacity rl \<and> 0 \<le> refill_per_sec rl \<and>
     (\<forall>k. 0 \<le> level rl k \<and> level rl k \<le> capacity rl)"

lemma rate_inv_check [inv_intros]: "rate_inv rl \<Longrightarrow> rate_inv (snd (check_at rl k now))"
proof -
  assume inv: "rate_inv rl"
  have "0 \<le> level (snd (check_at rl k now)) k' \<and> level (snd (check_at rl k now)) k' \<le> capacity rl" for k'
  proof (cases "k' = k")
    case True
    with inv show ?thesis
      by (auto simp: rate_inv_def check_at_def bucket_entry_def level_def Let_def min_def
          split: option.splits)
  next
    case False
    with inv show ?thesis by (simp add: rate_inv_def level_other_key)
  qed
  with inv show ?thesis by (simp add: rate_inv_def check_at_frame)
qed

lemma rate_inv_new [inv_intros]: "0 \<le> cap \<Longrightarrow> 0 \<le> refill \<Longrightarrow> rate_inv (rate_limiter_new cap refill)"
  by (simp add: rate_inv_def rate_limiter_new_def level_def)

lemma rate_inv_run [inv_intros]: "rate_inv rl \<Longrightarrow> rate_inv (snd (check_run rl cs))"
  by (induction cs arbitrary: rl) (auto simp: Let_def split_def intro: inv_intros)

lemma check_run_frame [frame_simps]:
  "capacity (snd (check_run rl cs)) = capacity rl"
  "refill_per_sec (snd (check_run rl cs)) = refill_per_sec rl"
  "buckets_poisoned (snd (check_run rl cs)) = buckets_poisoned rl"
  by (induction cs arbitrary: rl) (auto simp: Let_def split_def frame_simps)

lemma check_at_level_cap:
  assumes "\<not> buckets_poisoned rl"
  shows "level (snd (check_at rl k now)) k + cost (fst (check_at rl k now)) \<le> capacity rl"
  using assms by (auto simp: check_at_def level_def cost_def Let_def)

lemma check_at_stamp: "\<not> buckets_poisoned rl \<Longrightarrow> level_at (snd (check_at rl k now)) k t = now"
  by (simp add: check_at_def level_at_def Let_def)

subsection \<open>Admissions over a window\<close>

primrec allowed :: "string \<Rightarrow> (string \<times> instant) list \<Rightarrow> rate_limiter \<Rightarrow> f64" where
  "allowed k [] rl = 0"
| "allowed k (c # cs) rl =
     (if fst c = k then cost (fst (check_at rl (fst c) (snd c))) else 0) +
     allowed k cs (snd (check_at rl (fst c) (snd c)))"

lemma refill_mono:
  assumes "0 \<le> r" and "(a::instant) \<le> b"
  shows "r * as_secs_f64 (c - b) \<le> r * as_secs_f64 (c - a)"
  using assms by (intro mult_left_mono) (simp_all add: as_secs_f64_def divide_right_mono)

lemma allowed_after_check:
  assumes "\<not> buckets_poisoned rl" and "0 \<le> refill_per_sec rl"
    and "level_at rl k t0 \<le> t0" and "sorted (map snd cs)" and "\<forall>c \<in> set cs. t0 \<le> snd c \<and> snd c \<le> t1"
    and "t0 \<le> t1"
  shows "allowed k cs rl + level (snd (check_run rl cs)) k \<le>
     level rl k + refill_per_sec rl * as_secs_f64 (t1 - level_at rl k t0)"
  using assms
proof (induction cs arbitrary: rl t0)
  case Nil
  then show ?case by simp
next
  case (Cons c cs)
  let ?t = "snd c" and ?rl = "snd (check_at rl (fst c) (snd c))"
  have t: "t0 \<le> ?t" "?t \<le> t1" and rest: "sorted (map snd cs)" "\<forall>c' \<in> set cs. ?t \<le> snd c' \<and> snd c' \<le> t1"
    using Cons.prems(4,5) by auto
  have lt: "level_at rl k t0 \<le> level_at rl k ?t" "level_at rl k ?t \<le> ?t"
    using t Cons.prems(3) by (auto simp: level_at_def split: option.splits)
  have ih: "level_at ?rl k ?t \<le> ?t \<Longrightarrow> allowed k cs ?rl + level (snd (check_run ?rl cs)) k \<le>
      level ?rl k + refill_per_sec rl * as_secs_f64 (t1 - level_at ?rl k ?t)"
    using Cons.IH [of ?rl ?t] Cons.prems(1,2) rest t(2) by (simp add: frame_simps)
  have mono: "refill_per_sec rl * as_secs_f64 (t1 - level_at rl k ?t) \<le>
      refill_per_sec rl * as_secs_f64 (t1 - level_at rl k t0)"
    using Cons.prems(2) lt(1) by (rule refill_mono)
  show ?case
  proof (cases "fst c = k")
    case True
    have "as_secs_f64 (t1 - level_at rl k ?t) = as_secs_f64 (?t - level_at rl k ?t) + as_secs_f64 (t1 - ?t)"
      using lt(2) t(2) by (simp flip: as_secs_f64_add)
    with True check_at_level [OF Cons.prems(1) lt(2)] check_at_stamp [OF Cons.prems(1), of k ?t ?t] ih mono
    show ?thesis by (simp add: Let_def split_def distrib_left)
  next
    case False
    then have "level_at ?rl k ?t = level_at rl k ?t" "level ?rl k = level rl k"
      by (simp_all add: level_other_key)
    with False ih mono lt show ?thesis by (simp add: Let_def split_def)
  qed
qed

lemma allowed_window:
  assumes "rate_inv rl" and "\<not> buckets_poisoned rl" and "sorted (map snd cs)"
    and "\<forall>c \<in> set cs. t0 \<le> snd c \<and> snd c \<le> t1"
  shows "allowed k cs rl \<le> capacity rl + refill_per_sec rl * as_secs_f64 (t1 - t0)"
  using assms
proof (induction cs arbitrary: rl t0)
  case Nil
  then show ?case by (simp add: rate_inv_def)
next
  case (Cons c cs)
  let ?t = "snd c" and ?rl = "snd (check_at rl (fst c) (snd c))"
  have t: "t0 \<le> ?t" "?t \<le> t1" and rest: "sorted (map snd cs)" "\<forall>c' \<in> set cs. ?t \<le> snd c' \<and> snd c' \<le> t1"
    using Cons.prems(3,4) by auto
  have inv: "rate_inv ?rl" "\<not> buckets_poisoned ?rl" "refill_per_sec ?rl = refill_per_sec rl"
      "capacity ?rl = capacity rl" "0 \<le> refill_per_sec rl"
    using rate_inv_check [OF Cons.prems(1)] Cons.prems(1,2) by (simp_all add: frame_simps rate_inv_def)
  have mono: "refill_per_sec rl * as_secs_f64 (t1 - ?t) \<le> refill_per_sec rl * as_secs_f64 (t1 - t0)"
    using inv(5) t(1) by (rule refill_mono)
  show ?case
  proof (cases "fst c = k")
    case True
    have at: "level_at ?rl k ?t = ?t" using True Cons.prems(2) by (simp add: check_at_stamp)
    have "allowed k cs ?rl + level (snd (check_run ?rl cs)) k \<le>
        level ?rl k + refill_per_sec rl * as_secs_f64 (t1 - ?t)"
      using allowed_after_check [OF inv(2), of k ?t cs t1] inv(3,5) rest t(2) at by simp
    moreover have "0 \<le> level (snd (check_run ?rl cs)) k"
      using rate_inv_run [OF inv(1)] by (simp add: rate_inv_def)
    ultimately show ?thesis
      using True mono check_at_level_cap [OF Cons.prems(2), of k ?t] by simp
  next
    case False
    with Cons.IH [OF inv(1,2) rest] inv(3,4) mono show ?thesis by simp
  qed
qed

subsection \<open>Properties\<close>

text \<open>
  C28. The token bucket bounds bursts: after any earlier calls, over any time window from \<open>t0\<close> to
  \<open>t1\<close> in which calls (for this key and any others) arrive in time order, at most
  \<open>capacity + refill_per_sec * (t1 - t0)\<close> calls of a key are allowed, the lengths being in seconds.
\<close>

theorem rate_limit_window_bound:
  assumes "0 \<le> cap" and "0 \<le> refill"
    and "sorted (map snd cs)" and "\<forall>c \<in> set cs. t0 \<le> snd c \<and> snd c \<le> t1"
  shows "allowed k cs (snd (check_run (rate_limiter_new cap refill) earlier)) \<le>
    cap + refill * as_secs_f64 (t1 - t0)"
proof -
  let ?rl = "snd (check_run (rate_limiter_new cap refill) earlier)"
  have "rate_inv ?rl" using assms(1,2) by (intro inv_intros)
  moreover have "\<not> buckets_poisoned ?rl" "capacity ?rl = cap" "refill_per_sec ?rl = refill"
    by (simp_all add: frame_simps) (simp_all add: rate_limiter_new_def)
  ultimately show ?thesis using allowed_window [of ?rl, OF _ _ assms(3,4)] by simp
qed

theorem rate_limit_window_bound_witness:
  "allowed ''agent1'' [(''agent1'', 5), (''agent2'', 6), (''agent1'', 1000000005), (''agent1'', 1000000005)]
     (snd (check_run (rate_limiter_new 1 1) [(''agent1'', 3)])) \<le> 2"
proof -
  let ?cs = "[(''agent1'', 5), (''agent2'', 6), (''agent1'', 1000000005), (''agent1'', 1000000005)]
     :: (string \<times> nat) list"
  have "sorted (map snd ?cs)" and "\<forall>c \<in> set ?cs. 5 \<le> snd c \<and> snd c \<le> 1000000005"
    by simp_all
  from rate_limit_window_bound [OF _ _ this, of 1 1 "''agent1''" "[(''agent1'', 3)]"]
  show ?thesis by (simp add: as_secs_f64_def)
qed

text \<open>
  Keys are independent: checking one key leaves the bucket, and therefore every later decision,
  of any other key unchanged.
\<close>

lemma rate_limit_keys_independent:
  assumes "k' \<noteq> k"
  shows "fst (check_at (snd (check_at rl k now)) k' later) = fst (check_at rl k' later)"
  by (rule check_at_cong) (simp_all add: frame_simps assms)

end
