(* ===== verification/Router_Properties.thy ===== *)
theory Router_Properties
  imports Policy_Router
begin

text \<open>
  Properties of the policy router of \<^verbatim>\<open>src/crates/dek-policy-router\<close>, over the definitions of
  \<open>Engine_Selection\<close> and \<open>Policy_Router\<close>, with the sample router the witnesses run.
\<close>

subsection \<open>A sample router\<close>

definition sample_reply :: "string \<Rightarrow> bool \<Rightarrow> policy_decision" where
  "sample_reply i ok = initial_decision\<lparr>pd_evaluator_id := i, pd_allow := ok,
     pd_decision := (if ok then ''allow'' else ''deny''), pd_reason := ''sample''\<rparr>"

definition sample_runtime :: "string \<Rightarrow> bool \<Rightarrow> runtime" where
  "sample_runtime i ok = (\<lambda>t payload. Some (Inr (sample_reply i ok), 1000000))"

definition sample_route :: "string list \<Rightarrow> string list \<Rightarrow> string \<Rightarrow> route" where
  "sample_route required pool strategy =
     \<lparr>route_id = ''r1'', route_priority = 10, route_enforcement_mode = Standard,
      route_match_rule = \<lparr>mr_method = Some ''test'', mr_tool_category = None, mr_resource_type = None,
        mr_severity_level = None\<rparr>,
      route_mode = LocalOnly, primary_pdp_id = '''', fallback_pdp_ids = [], shadow_pdp_ids = [],
      merge_strategy = strategy, failure_behavior = FbDeny, pdp_required = required, pdp_pool = pool,
      route_failover_strategy = Priority, pdp_conditional = []\<rparr>"

definition sample_payload :: json where
  "sample_payload = JObj [(''request_type'', JStr ''test'')]"

definition sample_router :: "bool \<Rightarrow> string list \<Rightarrow> string list \<Rightarrow> string \<Rightarrow> policy_router" where
  "sample_router ok required pool strategy =
     set_routes (register_evaluator policy_router_new ''pdp'' (sample_runtime ''pdp'' ok))
       [sample_route required pool strategy]"

lemmas sample_defs = sample_router_def sample_payload_def sample_route_def sample_runtime_def
  sample_reply_def set_routes_def register_evaluator_def policy_router_new_def default_circuit_config_def
  circuit_breaker_new_def pdp_stats_new_def initial_decision_def

lemma sample_ctx:
  "context_extract sample_payload =
     \<lparr>ctx_payload = sample_payload, ctx_method = ''test'', ctx_tool_category = None,
      ctx_resource_type = None, ctx_severity_level = None\<rparr>"
  by (simp add: context_extract_def sample_payload_def or_else_def)

lemma sample_match:
  "match_route (routes (sample_router ok required pool strategy)) (context_extract sample_payload) =
     Inr (sample_route required pool strategy)"
  unfolding sample_ctx
  by (simp add: sample_router_def sample_route_def set_routes_def route_matches_def)

lemma sample_evaluator: "map_of (evaluators (sample_router ok q pool s)) ''pdp'' = Some (sample_runtime ''pdp'' ok)"
  by (simp add: sample_defs)

lemma sample_breaker:
  "map_of (breakers (sample_router ok q pool s)) ''pdp'' = Some (circuit_breaker_new ''pdp'' default_circuit_config)"
  by (simp add: sample_defs)

subsection \<open>Routes\<close>

text \<open>
  C2. Routing by priority: after \<open>set_routes\<close>, a request is matched to a route of the list whose rule
  fits it and whose priority no other fitting route exceeds; among fitting routes of that priority it
  is the one listed first. When no route fits, the answer is the default deny, so an unrouted request
  is never allowed.
\<close>

theorem match_route_highest_priority:
  "case match_route (routes (set_routes rt rs)) ctx of
     Inr r \<Rightarrow> (\<forall>r' \<in> set rs. route_matches r' ctx \<longrightarrow> route_priority r' \<le> route_priority r) \<and>
       find (\<lambda>r'. route_matches r' ctx \<and> route_priority r' = route_priority r) rs = Some r
   | Inl d \<Rightarrow> \<not> pd_allow d \<and> (\<forall>r \<in> set rs. \<not> route_matches r ctx)"
proof (cases "match_route (routes (set_routes rt rs)) ctx")
  case (Inl d)
  then have "d = no_route_decision" and "\<forall>r \<in> set rs. \<not> route_matches r ctx"
    by (simp_all add: set_routes_def match_route_Inl)
  with Inl show ?thesis by (simp add: no_route_decision_def)
next
  case (Inr r)
  let ?key = "\<lambda>r. - route_priority r"
  from Inr obtain pre post where split: "sort_key ?key rs = pre @ r # post" and m: "route_matches r ctx"
    and pre: "\<forall>r' \<in> set pre. \<not> route_matches r' ctx"
    by (auto simp: set_routes_def match_route_Inr)
  have "sorted (map ?key (pre @ r # post))" unfolding split [symmetric] by (rule sorted_sort_key)
  then have post: "\<forall>r' \<in> set post. route_priority r' \<le> route_priority r"
    by (auto simp: sorted_append)
  have "set rs = set (pre @ r # post)" unfolding split [symmetric] by simp
  with pre post have max: "\<forall>r' \<in> set rs. route_matches r' ctx \<longrightarrow> route_priority r' \<le> route_priority r"
    by auto
  let ?P = "\<lambda>r'. route_matches r' ctx \<and> route_priority r' = route_priority r"
  have "filter ?P rs = filter (\<lambda>r'. route_matches r' ctx) (filter (\<lambda>r'. ?key r' = ?key r) rs)"
    by (simp add: conj_commute)
  also have "\<dots> = filter (\<lambda>r'. route_matches r' ctx) (filter (\<lambda>r'. ?key r' = ?key r) (pre @ r # post))"
    unfolding split [symmetric] by (simp only: sort_key_stable)
  also have "\<dots> = r # filter ?P post"
    using pre m by (auto simp: filter_empty_conv conj_commute)
  finally have "find ?P rs = Some r" by (simp add: find_filter_hd)
  with Inr max show ?thesis by simp
qed

theorem match_route_highest_priority_witness:
  "match_route (routes (set_routes policy_router_new
     [sample_route [] [] ''a'', (sample_route [] [] ''b'')\<lparr>route_priority := 20\<rparr>])) (context_extract sample_payload) =
   Inr ((sample_route [] [] ''b'')\<lparr>route_priority := 20\<rparr>)"
proof -
  let ?a = "sample_route [] [] ''a''" and ?b = "(sample_route [] [] ''b'')\<lparr>route_priority := 20\<rparr>"
  let ?ctx = "context_extract sample_payload"
  let ?m = "match_route (routes (set_routes policy_router_new [?a, ?b])) ?ctx"
  have mb: "route_matches ?a ?ctx" "route_matches ?b ?ctx"
    unfolding sample_ctx by (simp_all add: route_matches_def sample_route_def)
  note best = match_route_highest_priority [where rt = policy_router_new and rs = "[?a, ?b]" and ctx = ?ctx]
  show ?thesis
  proof (cases ?m)
    case (Inl d)
    with best mb show ?thesis by simp
  next
    case (Inr r)
    with best mb have "route_priority ?b \<le> route_priority r"
      and f: "find (\<lambda>r'. route_matches r' ?ctx \<and> route_priority r' = route_priority r) [?a, ?b] = Some r"
      by simp_all
    moreover from this have "route_priority ?a \<noteq> route_priority r" by (simp add: sample_route_def)
    ultimately have "r = ?b" by (simp split: if_splits)
    with Inr show ?thesis by simp
  qed
qed

subsection \<open>Failing closed\<close>

lemma authorize_inner_allow_sound:
  assumes "match_route (routes rt) (context_extract payload) = Inr r"
    and "route_enforcement_mode r \<noteq> BreakGlass" and "enforcing r"
    and "pd_allow (ar_decision (authorize_inner rt payload dry now))"
  shows "(\<exists>ev_id. allowed_by rt payload ev_id) \<and>
    (failure_behavior r \<noteq> FbFallback \<longrightarrow>
       (\<forall>ev_id \<in> set (pdp_required r). allowed_by rt payload ev_id) \<and>
       (primary_pdp_id r \<noteq> '''' \<longrightarrow> allowed_by rt payload (primary_pdp_id r)))"
proof -
  obtain selected rt1 where sel: "(if pdp_pool r \<noteq> []
      then select_pdp_from_pool rt (pdp_pool r) (route_failover_strategy r) now else (None, rt)) = (selected, rt1)"
    by fastforce
  have "same_config rt rt1"
    using sel select_pool_config [of rt "pdp_pool r" "route_failover_strategy r" now]
    by (auto split: if_splits)
  note ab = allowed_by_config [OF this]
  note routed = authorize_inner_routed(1) [OF assms(1,2) sel, of dry]
  from routed assms(4) obtain plan where
    plan: "engine_plan_build r (context_extract payload) (evaluator_ids rt1) selected = Some plan"
    and allow: "pd_allow (fst (eval_loop rt1 r payload dry (plan_evaluate_queue plan)
      (plan_fallback_queue plan) initial_decision now))"
    by (auto simp: no_engine_decision_def split: option.splits)
  have queue: "set (pdp_required r) \<subseteq> set (plan_evaluate_queue plan)"
      "primary_pdp_id r \<noteq> '''' \<Longrightarrow> primary_pdp_id r \<in> set (plan_evaluate_queue plan)"
    using plan by (auto simp: engine_plan_build_def Let_def split: if_splits option.splits)
  from eval_loop_enforcing [OF assms(3) allow] engine_plan_queue_nonempty [OF plan] queue
  show ?thesis by (auto simp: ab)
qed

text \<open>
  C1. No allow without a PDP's allow. On a route that is not break-glass, does not observe only, does
  not allow on failure, and merges so that a deny wins: if the router allows a request, then some
  registered evaluator answered it within the timeout with an allow; and unless the route falls back on
  failure, every required evaluator and the primary PDP did. Missing evaluators, open circuits, errors
  and timeouts can therefore only deny, for dry runs too, in every state of breakers, statistics,
  overrides and clocks.
\<close>

theorem router_fails_closed:
  assumes "match_route (routes rt) (context_extract payload) = Inr r"
    and "route_enforcement_mode r \<noteq> BreakGlass" and "enforcing r"
    and "pd_allow (ar_decision (authorize_inner rt payload dry now))"
  shows "(\<exists>ev_id. allowed_by rt payload ev_id) \<and>
    (failure_behavior r \<noteq> FbFallback \<longrightarrow>
       (\<forall>ev_id \<in> set (pdp_required r). allowed_by rt payload ev_id) \<and>
       (primary_pdp_id r \<noteq> '''' \<longrightarrow> allowed_by rt payload (primary_pdp_id r)))"
  using authorize_inner_allow_sound [OF assms] .

theorem router_fails_closed_witness:
  "pd_allow (ar_decision (authorize_inner (sample_router True [''pdp''] [] ''deny_overrides'') sample_payload False 0)) \<and>
   allowed_by (sample_router True [''pdp''] [] ''deny_overrides'') sample_payload ''pdp''"
proof -
  let ?r = "sample_route [''pdp''] [] ''deny_overrides''"
  let ?rt = "sample_router True [''pdp''] [] ''deny_overrides''"
  have r: "route_enforcement_mode ?r \<noteq> BreakGlass" "enforcing ?r" "pdp_pool ?r = []"
      "failure_behavior ?r \<noteq> FbFallback" "pdp_required ?r = [''pdp'']"
    by (simp_all add: sample_route_def enforcing_def deny_wins_def)
  have plan: "engine_plan_build ?r (context_extract sample_payload) av None =
      Some \<lparr>plan_evaluate_queue = [''pdp''], plan_fallback_queue = [], plan_shadow_pdps = []\<rparr>" for av
    by (simp add: engine_plan_build_def sample_route_def Let_def)
  have turn: "fst (eval_turn ?rt ?r sample_payload False ''pdp'' [] initial_decision 0) =
      (Continue, merge_decision initial_decision (sample_reply ''pdp'' True) ''deny_overrides'')"
    by (simp add: eval_turn_def permitted_def sample_evaluator sample_breaker permitted_at_def
        circuit_breaker_new_def evaluate_with_timeout_def sample_runtime_def merge_turn_def Let_def
        merge_decision_def merge_deny_def sample_reply_def initial_decision_def sample_route_def
        sample_router_def set_routes_def register_evaluator_def policy_router_new_def from_millis_def)
  then have "pd_allow (fst (eval_loop ?rt ?r sample_payload False [''pdp''] [] initial_decision 0))"
    by (auto simp: split_def merge_decision_def merge_deny_def sample_reply_def initial_decision_def Let_def
        split: prod.splits)
  moreover have sel: "(if pdp_pool ?r \<noteq> [] then select_pdp_from_pool ?rt (pdp_pool ?r)
      (route_failover_strategy ?r) 0 else (None, ?rt)) = (None, ?rt)"
    by (simp add: r(3))
  ultimately have allow: "pd_allow (ar_decision (authorize_inner ?rt sample_payload False 0))"
    using authorize_inner_routed(1) [OF sample_match r(1) sel, of False] plan by simp
  with router_fails_closed [OF sample_match r(1,2) allow] r(4,5) show ?thesis by simp
qed

text \<open>
  Break-glass: a request matched to a break-glass route is allowed at once, without consulting any
  evaluator or breaker, and leaves the router exactly as it was.
\<close>

lemma breakglass_bypasses:
  assumes "match_route (routes rt) (context_extract payload) = Inr r"
    and "route_enforcement_mode r = BreakGlass"
  shows "authorize_inner rt payload dry now =
    \<lparr>ar_decision = breakglass_decision, ar_router = rt, ar_finished = now, ar_shadow_dispatched = []\<rparr> \<and>
    pd_allow breakglass_decision"
  using assms by (simp add: authorize_inner_def Let_def breakglass_decision_def)

subsection \<open>Merging strategies that open the door\<close>

text \<open>
  Under \<open>permit_overrides\<close> the verdict of the first evaluator does not matter: the combined
  decision starts as an allow, a deny leaves it there, and the loop then stops because it is an allow.
  So whenever the first evaluator of the queue is admitted and answers in time, with an allow or with a
  deny, the router allows the request and asks no further evaluator.
\<close>

lemma permit_overrides_ignores_deny:
  assumes "merge_strategy r = ''permit_overrides''" and "pd_allow c"
    and "map_of (evaluators rt) ev_id = Some ev" and "fst (permitted rt ev_id now) \<noteq> Some Reject"
    and "ev now payload = Some (Inr res, d)" and "d \<le> from_millis (pdp_timeout_ms rt)"
  shows "pd_allow (fst (eval_loop rt r payload dry (ev_id # eq) fq c now)) \<and>
    snd (snd (eval_loop rt r payload dry (ev_id # eq) fq c now)) = now + d"
proof -
  obtain a rt1 where a: "permitted rt ev_id now = (a, rt1)" by fastforce
  with assms(4) have "a \<noteq> Some Reject" by simp
  then have "\<exists>rt'. eval_turn rt r payload dry ev_id fq c now = (merge_turn r ev_id c res, rt', now + d)"
    using assms(3,5,6) a
    by (auto simp: eval_turn_def evaluate_with_timeout_def split: option.splits admit.splits)
  moreover have "merge_turn r ev_id c res = (Break, merge_decision c res ''permit_overrides'')"
    using assms(1) merge_permit [OF assms(2)] by (simp add: merge_turn_def Let_def)
  ultimately show ?thesis using merge_permit [OF assms(2), of res] by auto
qed

lemma breaker_other_unchanged:
  assumes "j \<noteq> i"
  shows "map_of (breakers (snd (permitted rt i now))) j = map_of (breakers rt) j"
    and "map_of (breakers (report_success rt i l)) j = map_of (breakers rt) j"
  using assms by (auto simp: permitted_def report_success_def split: option.splits prod.splits)

text \<open>
  A failing PDP can erase a deny: on a route with the default merge strategy that allows on
  failure, if the first evaluator answers deny and the second never answers, the request is allowed.
  The failure branch sets the combined decision to allow without looking at the deny already there.
\<close>

lemma failed_pdp_erases_deny:
  assumes "failure_behavior r = FbAllow" and "merge_strategy r = default_merge_strategy" and "e2 \<noteq> e1"
    and "map_of (evaluators rt) e1 = Some ev1" and "fst (permitted rt e1 now) \<noteq> Some Reject"
    and "ev1 now payload = Some (Inr res, d)" and "d \<le> from_millis (pdp_timeout_ms rt)" and "\<not> pd_allow res"
    and "map_of (evaluators rt) e2 = Some ev2" and "\<forall>t. ev2 t payload = None"
    and "map_of (breakers rt) e2 = Some b" and "cb_state b = Closed"
  shows "pd_allow (fst (eval_loop rt r payload dry [e1, e2] fq c now))"
proof -
  obtain a rt1 where a: "permitted rt e1 now = (a, rt1)" by fastforce
  with assms(5) have na: "a \<noteq> Some Reject" by simp
  let ?rt = "if dry then rt1 else report_success rt1 e1 (of_nat (d div 1000000))"
  have "same_config rt rt1" using permitted_config [of rt rt e1 now] a by simp
  then have "same_config rt ?rt" by simp
  then have ev2: "map_of (evaluators ?rt) e2 = Some ev2"
    using assms(9) by (simp add: same_config_def split: if_splits)
  have b: "map_of (breakers ?rt) e2 = Some b"
    using breaker_other_unchanged(1) [OF assms(3), of rt now] breaker_other_unchanged(2) [OF assms(3), of rt1] a assms(11)
    by simp
  have t1: "eval_turn rt r payload dry e1 fq c now =
      ((Continue, merge_decision c res (merge_strategy r)), ?rt, now + d)"
    using assms(2,4,6-8) a na
    by (auto simp: eval_turn_def evaluate_with_timeout_def merge_turn_def default_merge_strategy_def Let_def
        split: option.splits admit.splits)
  have t2: "\<exists>c' rt' now'. eval_turn ?rt r payload dry e2 fq c1 (now + d) = ((Continue, c'), rt', now') \<and> pd_allow c'"
    for c1
    using ev2 b assms(1,10,12)
    by (auto simp: eval_turn_def permitted_def permitted_at_def evaluate_with_timeout_def pdp_failure_def
        allow_with_def)
  from t1 t2 [of "merge_decision c res (merge_strategy r)"] show ?thesis by auto
qed

definition erased_router :: policy_router where
  "erased_router = register_evaluator (sample_router False [''pdp'', ''slow''] [] default_merge_strategy)
     ''slow'' (\<lambda>t payload. None)"

subsection \<open>Dry runs and probes\<close>

lemma eval_turn_dry_stats: "stats (fst (snd (eval_turn rt r payload True i fq c now))) = stats rt"
  by (auto simp: eval_turn_def permitted_def split: option.splits admit.splits prod.splits eval_outcome.splits
      sum.splits policy_error.splits)

lemma eval_loop_dry_stats: "dry \<Longrightarrow> stats (fst (snd (eval_loop rt r payload dry eq fq c now))) = stats rt"
proof (induction rt r payload dry eq fq c now rule: eval_loop.induct)
  case (2 rt r payload dry_run ev_id eq fq c now)
  obtain tn c' rt' now' where t: "eval_turn rt r payload dry_run ev_id fq c now = ((tn, c'), rt', now')"
    by (metis prod_cases3 surj_pair)
  have s: "stats rt' = stats rt"
    using eval_turn_dry_stats [of rt r payload ev_id fq c now] t "2.prems" by simp
  show ?case
  proof (cases tn)
    case Break
    with t s show ?thesis by simp
  next
    case Continue
    from "2.IH"(1) [OF t [symmetric] refl Continue refl "2.prems"] t Continue s show ?thesis by simp
  next
    case FallBack
    from "2.IH"(2) [OF t [symmetric] refl FallBack refl _ "2.prems"] t FallBack s show ?thesis
      by (auto split: list.splits)
  qed
qed simp

lemma pool_available_stats: "stats (snd (pool_available rt ps now)) = stats rt"
proof (induction ps arbitrary: rt)
  case (Cons p ps)
  have "stats (snd (override_for rt' p now)) = stats rt'" "stats (snd (permitted rt' p now)) = stats rt'" for rt'
    by (auto simp: override_for_def permitted_def split: option.splits prod.splits)
  then have "stats (snd (pool_member_available rt p now)) = stats rt"
    by (simp add: pool_member_available_def split_def split: option.split forced_state.split admit.split)
  with Cons show ?case by (simp add: Let_def split_def)
qed simp

lemma select_pool_stats: "stats (snd (select_pdp_from_pool rt pool strategy now)) = stats rt"
  using pool_available_stats [of rt pool now]
  by (auto simp: select_pdp_from_pool_def split: list.splits prod.splits failover_strategy.splits)

text \<open>
  A dry run evaluates without recording anything in the success, failure and latency statistics
  and dispatches no shadow evaluation.
\<close>

lemma dry_run_keeps_stats:
  "stats (ar_router (authorize_dry_run rt payload now)) = stats rt \<and>
   ar_shadow_dispatched (authorize_dry_run rt payload now) = []"
  using select_pool_stats eval_loop_dry_stats
  by (auto simp: authorize_dry_run_def authorize_inner_def Let_def split_def split: sum.split option.split)

text \<open>
  A dry run does change breakers: when it meets an open breaker whose cooldown has passed, it takes
  the single half-open probe and never reports its outcome. From then on, after any sequence of requests
  and dry runs, that evaluator's breaker rejects every call, at every later time: the evaluator is lost
  until it is registered again.
\<close>

lemma dry_run_leaks_probe:
  assumes "match_route (routes rt) (context_extract payload) = Inr r" and "route_enforcement_mode r \<noteq> BreakGlass"
    and "pdp_required r = [i]" and "pdp_pool r = []" and "pdp_conditional r = []" and "primary_pdp_id r = ''''"
    and "map_of (evaluators rt) i = Some ev" and "map_of (breakers rt) i = Some b"
    and "cb_state b = Open" and "opened_at b = Some t0" and "cooldown (cb_cfg b) \<le> now - t0"
  shows "fst (permitted (authorize_history (ar_router (authorize_dry_run rt payload now)) calls) i later) =
    Some Reject"
proof -
  have sel: "(if pdp_pool r \<noteq> [] then select_pdp_from_pool rt (pdp_pool r) (route_failover_strategy r) now
      else (None, rt)) = (None, rt)"
    by (simp add: assms(4))
  have plan: "engine_plan_build r (context_extract payload) av None =
      Some \<lparr>plan_evaluate_queue = [i], plan_fallback_queue = fallback_pdp_ids r,
        plan_shadow_pdps = shadow_pdp_ids r\<rparr>" for av
    by (simp add: engine_plan_build_def assms(3,5,6) Let_def)
  obtain b' where b': "permitted_at b now = (Allow, b')" "probe_in_flight b'"
    using permitted_open_probe [OF assms(9-11)] by (cases "permitted_at b now") auto
  have "stuck i b' (fst (snd (eval_turn rt r payload True i (fallback_pdp_ids r) initial_decision now)))"
    using eval_turn_dry_breaker [OF assms(7,8) b'(1)] b'(2) by (simp add: stuck_def)
  then have "stuck i b' (ar_router (authorize_dry_run rt payload now))"
    using authorize_inner_routed(2) [OF assms(1,2) sel, of True] plan
    by (simp add: authorize_dry_run_def eval_loop_first_stuck del: eval_loop.simps)
  then show ?thesis by (blast intro: stuck_rejected stuck_history)
qed

text \<open>A router whose evaluator failed five times at time zero, so that its breaker is open.\<close>

definition tripped_router :: "string list \<Rightarrow> string list \<Rightarrow> policy_router" where
  "tripped_router required pool =
     (sample_router True required pool ''deny_overrides'')
       \<lparr>breakers := [(''pdp'', fail_times (circuit_breaker_new ''pdp'' default_circuit_config) [0, 0, 0, 0, 0])]\<rparr>"

lemma tripped_breaker:
  "map_of (breakers (tripped_router required pool)) ''pdp'' =
     Some (fail_times (circuit_breaker_new ''pdp'' default_circuit_config) [0, 0, 0, 0, 0])"
  by (simp add: tripped_router_def)

lemma tripped_open:
  "cb_state (fail_times (circuit_breaker_new ''pdp'' default_circuit_config) [0, 0, 0, 0, 0]) = Open"
  "opened_at (fail_times (circuit_breaker_new ''pdp'' default_circuit_config) [0, 0, 0, 0, 0]) = Some 0"
  "cooldown (cb_cfg (fail_times (circuit_breaker_new ''pdp'' default_circuit_config) [0, 0, 0, 0, 0])) = 10000000000"
  by (simp_all add: breaker_defs circuit_breaker_new_def default_circuit_config_def from_secs_def)

lemma tripped_match:
  "match_route (routes (tripped_router required pool)) (context_extract sample_payload) =
     Inr (sample_route required pool ''deny_overrides'')"
  using sample_match by (simp add: tripped_router_def)

text \<open>
  An evaluator reached through a pool never recovers from an open breaker: once the cooldown has
  passed, selecting it from the pool takes the half-open probe, the authorization loop then asks the same
  breaker again and is rejected, so the request is denied, the probe's outcome is never reported, and
  after any further requests the breaker rejects every call, at every later time.
\<close>

lemma pool_selection_leaks_probe:
  assumes "match_route (routes rt) (context_extract payload) = Inr r" and "route_enforcement_mode r \<noteq> BreakGlass"
    and "pdp_required r = []" and "pdp_pool r = [i]" and "pdp_conditional r = []" and "primary_pdp_id r = ''''"
    and "route_failover_strategy r = Priority" and "map_of (overrides rt) i = None"
    and "map_of (evaluators rt) i = Some ev" and "map_of (breakers rt) i = Some b"
    and "cb_state b = Open" and "opened_at b = Some t0" and "cooldown (cb_cfg b) \<le> now - t0"
  shows "\<not> pd_allow (ar_decision (authorize rt payload now)) \<and>
    fst (permitted (authorize_history (ar_router (authorize rt payload now)) calls) i later) = Some Reject"
proof -
  obtain b' where b': "permitted_at b now = (Allow, b')" "probe_in_flight b'"
    using permitted_open_probe [OF assms(11-13)] by (cases "permitted_at b now") auto
  let ?rt = "rt\<lparr>breakers := AList.update i b' (breakers rt)\<rparr>"
  have sel: "(if pdp_pool r \<noteq> [] then select_pdp_from_pool rt (pdp_pool r) (route_failover_strategy r) now
      else (None, rt)) = (Some i, ?rt)"
    by (simp add: assms(4,7,8,10) select_pdp_from_pool_def pool_member_available_def override_for_def
        permitted_def b'(1))
  have plan: "engine_plan_build r (context_extract payload) av (Some i) =
      Some \<lparr>plan_evaluate_queue = [i], plan_fallback_queue = fallback_pdp_ids r,
        plan_shadow_pdps = shadow_pdp_ids r\<rparr>" for av
    by (simp add: engine_plan_build_def assms(3,5,6) Let_def)
  have st: "stuck i b' ?rt" using b'(2) by (simp add: stuck_def)
  obtain rt' where rt': "permitted ?rt i now = (Some Reject, rt')"
    using stuck_rejected [OF st, of now] by (cases "permitted ?rt i now") auto
  have "\<not> pd_allow (fst (eval_loop ?rt r payload False [i] (fallback_pdp_ids r) initial_decision now))"
    using assms(9) by (simp add: eval_turn_def rt' deny_with_def)
  then have "\<not> pd_allow (ar_decision (authorize rt payload now))"
    using authorize_inner_routed(1) [OF assms(1,2) sel, of False] plan by (simp add: authorize_def)
  moreover have "stuck i b' (ar_router (authorize rt payload now))"
    using authorize_inner_routed(2) [OF assms(1,2) sel, of False] plan stuck_loop [OF st]
    by (simp add: authorize_def del: eval_loop.simps)
  ultimately show ?thesis by (blast intro: stuck_rejected stuck_history)
qed

end
