(* ===== verification/Bundle_Rollback.thy ===== *)
theory Bundle_Rollback
  imports Json_Value
begin

text \<open>
  \<^verbatim>\<open>src/crates/dek-bundle-sync/src/rollback.rs\<close> (the anti-rollback state kept on disk) and
  \<^verbatim>\<open>merge.rs\<close> (merging configurations by precedence).

  The state file is what a load finds there: absent, unreadable, not parsing, or a state. Writing it may
  fail, which is an argument of the operations: before the file is opened, which keeps what is there, or after
  \<^verbatim>\<open>fs::write\<close> has truncated it, which leaves a proper prefix of the new text and so a file that does not parse. The bundle directory is a list of directory names and the
  target of the \<^verbatim>\<open>latest\<close> link.
\<close>

subsection \<open>Rollback state\<close>

record rollback_state =
  rb_tenant_id :: string
  rb_device_id :: string
  highest_bundle_generation :: u64
  highest_root_version :: u64
  highest_snapshot_version :: u64
  highest_timestamp_version :: u64
  accepted_key_ids :: "string list"
  last_accepted_at :: int
  last_known_good_bundle_id :: string

definition default_rollback_state :: "int \<Rightarrow> rollback_state" where
  "default_rollback_state now = \<lparr>rb_tenant_id = [], rb_device_id = [], highest_bundle_generation = 0,
     highest_root_version = 0, highest_snapshot_version = 0, highest_timestamp_version = 0,
     accepted_key_ids = [], last_accepted_at = now, last_known_good_bundle_id = []\<rparr>"

datatype rb_file = RbAbsent | RbUnreadable string | RbCorrupt string | RbStored rollback_state

datatype rb_error =
    RbRead string
  | RbParse string
  | RbTenantMismatch string string
  | RbDeviceMismatch string string
  | RbRootOlder u64 u64
  | RbSnapshotOlder u64 u64
  | RbTimestampOlder u64 u64
  | RbSave string
  | RbNoLkg
  | RbLkgMissing string
  | RbLink string

fun rb_load :: "int \<Rightarrow> rb_file \<Rightarrow> (rb_error, rollback_state) result" where
  "rb_load now RbAbsent = Inr (default_rollback_state now)"
| "rb_load now (RbUnreadable e) = Inl (RbRead e)"
| "rb_load now (RbCorrupt e) = Inl (RbParse e)"
| "rb_load now (RbStored s) = Inr s"

datatype save_fault = SaveNotBegun string | SaveTorn string string

definition rb_save :: "save_fault option \<Rightarrow> rb_file \<Rightarrow> rollback_state \<Rightarrow> (rb_error, unit) result \<times> rb_file" where
  "rb_save io_err file s =
     (case io_err of
        Some (SaveNotBegun e) \<Rightarrow> (Inl (RbSave e), file)
      | Some (SaveTorn e parse_err) \<Rightarrow> (Inl (RbSave e), RbCorrupt parse_err)
      | None \<Rightarrow> (Inr (), RbStored s))"

definition check_and_update_tuf ::
    "int \<Rightarrow> save_fault option \<Rightarrow> rb_file \<Rightarrow> string \<Rightarrow> string \<Rightarrow> u64 \<Rightarrow> u64 \<Rightarrow> u64 \<Rightarrow>
     (rb_error, rollback_state) result \<times> rb_file" where
  "check_and_update_tuf now io_err file tenant_id device_id root_version snapshot_version timestamp_version =
     (case rb_load now file of
        Inl e \<Rightarrow> (Inl e, file)
      | Inr st \<Rightarrow>
          if rb_tenant_id st \<noteq> [] \<and> rb_tenant_id st \<noteq> tenant_id
          then (Inl (RbTenantMismatch (rb_tenant_id st) tenant_id), file)
          else if rb_device_id st \<noteq> [] \<and> rb_device_id st \<noteq> device_id
          then (Inl (RbDeviceMismatch (rb_device_id st) device_id), file)
          else if root_version < highest_root_version st
          then (Inl (RbRootOlder root_version (highest_root_version st)), file)
          else if snapshot_version < highest_snapshot_version st
          then (Inl (RbSnapshotOlder snapshot_version (highest_snapshot_version st)), file)
          else if timestamp_version < highest_timestamp_version st
          then (Inl (RbTimestampOlder timestamp_version (highest_timestamp_version st)), file)
          else
            let st' = st\<lparr>rb_tenant_id := tenant_id, rb_device_id := device_id,
                  highest_root_version := root_version, highest_snapshot_version := snapshot_version,
                  highest_timestamp_version := timestamp_version, last_accepted_at := now\<rparr>
            in case rb_save io_err file st' of
                 (Inl e, file') \<Rightarrow> (Inl e, file')
               | (Inr _, file') \<Rightarrow> (Inr st', file'))"

definition mark_last_known_good ::
    "int \<Rightarrow> save_fault option \<Rightarrow> rb_file \<Rightarrow> string \<Rightarrow> (rb_error, unit) result \<times> rb_file" where
  "mark_last_known_good now io_err file bundle_id =
     (case rb_load now file of
        Inl e \<Rightarrow> (Inl e, file)
      | Inr st \<Rightarrow> rb_save io_err file (st\<lparr>last_known_good_bundle_id := bundle_id\<rparr>))"

record bundle_links =
  bundle_dirs :: "string list"
  latest_link :: "string option"

definition revert_to_lkg ::
    "int \<Rightarrow> string option \<Rightarrow> rb_file \<Rightarrow> bundle_links \<Rightarrow> (rb_error, string) result \<times> bundle_links" where
  "revert_to_lkg now link_err file bl =
     (case rb_load now file of
        Inl e \<Rightarrow> (Inl e, bl)
      | Inr st \<Rightarrow>
          let lkg_id = last_known_good_bundle_id st; bundle_dir = ''bundle_'' @ lkg_id
          in if lkg_id = [] then (Inl RbNoLkg, bl)
             else if bundle_dir \<notin> set (bundle_dirs bl) then (Inl (RbLkgMissing bundle_dir), bl)
             else case link_err of
                    Some e \<Rightarrow> (Inl (RbLink e), bl\<lparr>latest_link := None\<rparr>)
                  | None \<Rightarrow> (Inr lkg_id, bl\<lparr>latest_link := Some bundle_dir\<rparr>))"

subsection \<open>Runs of the rollback manager\<close>

text \<open>The operations that write the file, with the tenant, device and versions they are given and
  whether the write failed.\<close>

inductive rb_step :: "rb_file \<Rightarrow> rb_file \<Rightarrow> bool" where
  rb_check: "check_and_update_tuf now io file t d r s ts = (res, file') \<Longrightarrow> rb_step file file'"
| rb_mark: "mark_last_known_good now io file b = (res', file') \<Longrightarrow> rb_step file file'"

definition rb_le :: "rollback_state \<Rightarrow> rollback_state \<Rightarrow> bool" where
  "rb_le a b \<longleftrightarrow> highest_root_version a \<le> highest_root_version b \<and>
     highest_snapshot_version a \<le> highest_snapshot_version b \<and>
     highest_timestamp_version a \<le> highest_timestamp_version b \<and>
     (rb_tenant_id a \<noteq> [] \<longrightarrow> rb_tenant_id b = rb_tenant_id a) \<and>
     (rb_device_id a \<noteq> [] \<longrightarrow> rb_device_id b = rb_device_id a)"

text \<open>The file holds a state at or above a given one, or nothing that parses.\<close>

definition rb_above :: "rollback_state \<Rightarrow> rb_file \<Rightarrow> bool" where
  "rb_above a file \<longleftrightarrow> (\<exists>b. file = RbStored b \<and> rb_le a b) \<or> (\<exists>e. file = RbCorrupt e)"

lemma rb_le_refl [simp]: "rb_le a a"
  by (simp add: rb_le_def)

lemma rb_le_trans: "rb_le a b \<Longrightarrow> rb_le b c \<Longrightarrow> rb_le a c"
  by (auto simp: rb_le_def)

lemma check_step:
  assumes "check_and_update_tuf now io (RbStored b) t d r s ts = (res, file')"
  shows "(\<exists>e. res = Inl e \<and> file' = RbStored b) \<or> (\<exists>w p. io = Some (SaveTorn w p) \<and> res = Inl (RbSave w) \<and> file' = RbCorrupt p) \<or>
    (\<exists>c. res = Inr c \<and> file' = RbStored c \<and> rb_le b c \<and> rb_tenant_id c = t \<and> rb_device_id c = d \<and>
       highest_root_version c = r \<and> highest_snapshot_version c = s \<and> highest_timestamp_version c = ts)"
  using assms
  by (auto simp: check_and_update_tuf_def rb_save_def Let_def rb_le_def not_less split: if_splits option.splits save_fault.splits)

lemma mark_step:
  assumes "mark_last_known_good now io (RbStored b) i = (res, file')"
  shows "rb_above b file'"
  using assms by (auto simp: mark_last_known_good_def rb_save_def rb_le_def rb_above_def split: option.splits save_fault.splits)

lemma corrupt_refuses:
  "check_and_update_tuf now io (RbCorrupt e) t d r s ts = (Inl (RbParse e), RbCorrupt e)"
  "mark_last_known_good now io (RbCorrupt e) i = (Inl (RbParse e), RbCorrupt e)"
  by (simp_all add: check_and_update_tuf_def mark_last_known_good_def)

lemma rb_step_above: "rb_step f f' \<Longrightarrow> rb_above a f \<Longrightarrow> rb_above a f'"
proof (induction rule: rb_step.induct)
  case (rb_check now io f0 t d r s ts res f1)
  from rb_check(2) show ?case unfolding rb_above_def
  proof (elim disjE exE conjE)
    fix b assume b: "f0 = RbStored b" "rb_le a b"
    show "(\<exists>b. f1 = RbStored b \<and> rb_le a b) \<or> (\<exists>e. f1 = RbCorrupt e)"
      using check_step [OF rb_check(1) [unfolded b(1)]] rb_le_trans [OF b(2)] b(2) by blast
  qed (use rb_check(1) in \<open>auto simp: corrupt_refuses\<close>)
next
  case (rb_mark now io f0 b res' f1)
  from rb_mark(2) show ?case unfolding rb_above_def
  proof (elim disjE exE conjE)
    fix c assume c: "f0 = RbStored c" "rb_le a c"
    show "(\<exists>b. f1 = RbStored b \<and> rb_le a b) \<or> (\<exists>e. f1 = RbCorrupt e)"
      using mark_step [OF rb_mark(1) [unfolded c(1)]] rb_le_trans [OF c(2)] unfolding rb_above_def by blast
  qed (use rb_mark(1) in \<open>auto simp: corrupt_refuses\<close>)
qed

interpretation rb_sys: invariant_system "\<lambda>f. f = RbStored a" rb_step "rb_above a" for a
  by unfold_locales (auto simp: rb_above_def [of a "RbStored a"] intro: rb_step_above)

lemma above_accepts:
  assumes "rb_above a file" "check_and_update_tuf now io file t d r s ts = (Inr c, file')"
  shows "rb_le a c \<and> rb_tenant_id c = t \<and> rb_device_id c = d \<and> highest_root_version c = r \<and> highest_snapshot_version c = s \<and>
    highest_timestamp_version c = ts"
proof -
  obtain b where b: "file = RbStored b" "rb_le a b" using assms by (auto simp: rb_above_def corrupt_refuses)
  from check_step [OF assms(2) [unfolded b(1)]] rb_le_trans [OF b(2)] show ?thesis by auto
qed

subsection \<open>Precedence merge\<close>

datatype precedence_level = Baseline | Tenant | DeviceGroup | Device | EmergencyDeny

fun level_rank :: "precedence_level \<Rightarrow> nat" where
  "level_rank Baseline = 1"
| "level_rank Tenant = 2"
| "level_rank DeviceGroup = 3"
| "level_rank Device = 4"
| "level_rank EmergencyDeny = 5"

lemma level_rank_inj: "level_rank a = level_rank b \<longleftrightarrow> a = b"
  by (cases a; cases b) simp_all

instantiation precedence_level :: linorder
begin

definition less_eq_precedence_level :: "precedence_level \<Rightarrow> precedence_level \<Rightarrow> bool" where
  "a \<le> b \<longleftrightarrow> level_rank a \<le> level_rank b"

definition less_precedence_level :: "precedence_level \<Rightarrow> precedence_level \<Rightarrow> bool" where
  "a < b \<longleftrightarrow> level_rank a < level_rank b"

instance
  by standard (auto simp: less_eq_precedence_level_def less_precedence_level_def level_rank_inj)

end

definition merge_config :: "json \<Rightarrow> json \<Rightarrow> json" where
  "merge_config merged config = (case as_object config of Some obj \<Rightarrow> json_insert_all merged obj | None \<Rightarrow> merged)"

definition merge_safe :: "(precedence_level \<times> json) list \<Rightarrow> json" where
  "merge_safe configs = foldl merge_config json_empty (map snd (sort_key fst configs))"

definition wf_config :: "json \<Rightarrow> bool" where
  "wf_config c \<longleftrightarrow> (\<forall>m. c = JObj m \<longrightarrow> distinct (map fst m))"

lemma merge_config_obj: "\<exists>m'. merge_config (JObj m) c = JObj m'"
  using json_insert_all_obj by (auto simp: merge_config_def split: option.splits)

lemma merge_config_get:
  assumes "wf_config c"
  shows "json_get (merge_config (JObj m) c) k = (case json_get c k of Some v \<Rightarrow> Some v | None \<Rightarrow> map_of m k)"
proof (cases c)
  case (JObj obj)
  with assms have "map_of (rev obj) k = map_of obj k"
    by (metis wf_config_def distinct_rev map_of_eqI map_of_inject_set rev_map set_map set_rev)
  with JObj show ?thesis by (simp add: merge_config_def json_get_insert_all)
qed (simp_all add: merge_config_def)

lemma merge_fold_get:
  "\<forall>c\<in>set cs. wf_config c \<Longrightarrow>
   json_get (foldl merge_config (JObj m) cs) k =
     (case find (\<lambda>c. json_get c k \<noteq> None) (rev cs) of Some c \<Rightarrow> json_get c k | None \<Rightarrow> map_of m k)"
proof (induction cs rule: rev_induct)
  case (snoc c cs)
  have "\<exists>m'. foldl merge_config (JObj m) cs = JObj m'"
    by (induction cs arbitrary: m) (use merge_config_obj in \<open>auto, metis\<close>)
  then obtain m' where m': "foldl merge_config (JObj m) cs = JObj m'" by blast
  from snoc have "json_get (JObj m') k =
      (case find (\<lambda>c. json_get c k \<noteq> None) (rev cs) of Some c \<Rightarrow> json_get c k | None \<Rightarrow> map_of m k)"
    using m' by simp
  moreover have "wf_config c" using snoc.prems by simp
  ultimately show ?case using m' by (simp add: merge_config_get split: option.splits)
qed simp

lemma find_rev_sorted:
  assumes "sorted (map fst xs)" and "find P (rev xs) = Some x"
  shows "x \<in> set xs \<and> P x \<and> (\<forall>y\<in>set xs. P y \<longrightarrow> fst y \<le> fst x)"
  using assms
proof (induction xs rule: rev_induct)
  case (snoc z xs)
  then show ?case by (auto simp: sorted_append split: if_splits)
qed simp



lemma find_map_snd: "find P (map snd xs) = map_option snd (find (\<lambda>x. P (snd x)) xs)"
  by (induction xs) auto

subsection \<open>Properties\<close>

text \<open>
  C16. Anti-rollback is monotone: starting from a stored state, whatever sequence of version checks and
  last-known-good marks runs, with writes that fail before the file is opened or midway, the file holds a state whose root,
  snapshot and timestamp versions are at least those of the start and which is still bound to the same
  tenant and device, or a torn text that every later check refuses. So a check at any point of the run accepts no version older than
  those of the start, and no other tenant or device.
\<close>

theorem rollback_monotone:
  assumes "rb_step\<^sup>*\<^sup>* (RbStored a) file"
  shows "((\<exists>b. file = RbStored b \<and> highest_root_version a \<le> highest_root_version b \<and>
       highest_snapshot_version a \<le> highest_snapshot_version b \<and>
       highest_timestamp_version a \<le> highest_timestamp_version b \<and>
       (rb_tenant_id a \<noteq> [] \<longrightarrow> rb_tenant_id b = rb_tenant_id a) \<and>
       (rb_device_id a \<noteq> [] \<longrightarrow> rb_device_id b = rb_device_id a)) \<or>
     (\<exists>e. file = RbCorrupt e)) \<and>
    (\<forall>now io t d r s ts c file'. check_and_update_tuf now io file t d r s ts = (Inr c, file') \<longrightarrow>
       highest_root_version a \<le> r \<and> highest_snapshot_version a \<le> s \<and> highest_timestamp_version a \<le> ts \<and>
       rb_tenant_id a \<in> {[], t} \<and> rb_device_id a \<in> {[], d})"
proof -
  have above: "rb_above a file" by (rule rb_sys.inv_reachable [OF refl assms])
  show ?thesis
  proof (intro conjI allI impI)
    show "(\<exists>b. file = RbStored b \<and> highest_root_version a \<le> highest_root_version b \<and>
       highest_snapshot_version a \<le> highest_snapshot_version b \<and> highest_timestamp_version a \<le> highest_timestamp_version b \<and>
       (rb_tenant_id a \<noteq> [] \<longrightarrow> rb_tenant_id b = rb_tenant_id a) \<and> (rb_device_id a \<noteq> [] \<longrightarrow> rb_device_id b = rb_device_id a)) \<or>
      (\<exists>e. file = RbCorrupt e)"
      using above by (simp add: rb_above_def rb_le_def)
  qed (auto simp: rb_le_def dest!: above_accepts [OF above])
qed

theorem rollback_monotone_witness:
  "isl (fst (check_and_update_tuf 9 None (snd (check_and_update_tuf 7 None
       (RbStored ((default_rollback_state 0)\<lparr>highest_root_version := 2\<rparr>)) ''t'' ''d'' 3 4 5)) ''t'' ''d'' 1 4 5))"
proof (rule ccontr)
  let ?a = "(default_rollback_state 0)\<lparr>highest_root_version := 2\<rparr>"
  let ?file = "snd (check_and_update_tuf 7 None (RbStored ?a) ''t'' ''d'' 3 4 5)"
  assume "\<not> isl (fst (check_and_update_tuf 9 None ?file ''t'' ''d'' 1 4 5))"
  then obtain c file' where c: "check_and_update_tuf 9 None ?file ''t'' ''d'' 1 4 5 = (Inr c, file')"
    by (metis isl_def prod.collapse sum.exhaust)
  have "rb_step\<^sup>*\<^sup>* (RbStored ?a) ?file"
    by (rule r_into_rtranclp, rule rb_check [of 7 None _ "''t''" "''d''" 3 4 5], rule prod.collapse [symmetric])
  from conjunct2 [OF rollback_monotone [OF this], rule_format, OF c] have "(2 :: u64) \<le> 1" by simp
  then show False by (simp add: word_le_nat_alt)
qed

text \<open>A write that fails midway leaves the device without updates: no later check or mark succeeds, whatever it is given.\<close>

lemma torn_state_refuses_all:
  assumes "rb_step\<^sup>*\<^sup>* (RbCorrupt e) file"
  shows "file = RbCorrupt e \<and> fst (check_and_update_tuf now io file t d r s ts) = Inl (RbParse e)"
proof -
  have "file = RbCorrupt e" using assms
    by (induction rule: rtranclp_induct) (auto elim!: rb_step.cases simp: corrupt_refuses)
  then show ?thesis by (simp add: corrupt_refuses)
qed

text \<open>
  The version check accepts exactly the current or newer versions of the bound device: with a stored
  state and a working disk, a call succeeds if and only if tenant and device match (or are unbound) and no
  version is older; it then stores exactly the versions given, and otherwise leaves the file as it was.
\<close>

lemma version_check_exact:
  "((\<exists>c. fst (check_and_update_tuf now None (RbStored b) t d r s ts) = Inr c) \<longleftrightarrow>
     (rb_tenant_id b \<in> {[], t} \<and> rb_device_id b \<in> {[], d} \<and> highest_root_version b \<le> r \<and>
      highest_snapshot_version b \<le> s \<and> highest_timestamp_version b \<le> ts)) \<and>
   (case check_and_update_tuf now None (RbStored b) t d r s ts of
      (Inl _, file') \<Rightarrow> file' = RbStored b
    | (Inr c, file') \<Rightarrow> file' = RbStored c \<and> highest_root_version c = r \<and> highest_snapshot_version c = s \<and>
        highest_timestamp_version c = ts \<and> rb_tenant_id c = t \<and> rb_device_id c = d)"
proof
  show "(\<exists>c. fst (check_and_update_tuf now None (RbStored b) t d r s ts) = Inr c) \<longleftrightarrow>
     (rb_tenant_id b \<in> {[], t} \<and> rb_device_id b \<in> {[], d} \<and> highest_root_version b \<le> r \<and>
      highest_snapshot_version b \<le> s \<and> highest_timestamp_version b \<le> ts)"
    by (auto simp: check_and_update_tuf_def rb_save_def Let_def)
  show "case check_and_update_tuf now None (RbStored b) t d r s ts of
      (Inl _, file') \<Rightarrow> file' = RbStored b
    | (Inr c, file') \<Rightarrow> file' = RbStored c \<and> highest_root_version c = r \<and> highest_snapshot_version c = s \<and>
        highest_timestamp_version c = ts \<and> rb_tenant_id c = t \<and> rb_device_id c = d"
    using check_step [of now None b t d r s ts]
    by (cases "check_and_update_tuf now None (RbStored b) t d r s ts") (auto split: sum.splits)
qed

text \<open>
  The merged configuration takes every key from the highest level that has it: for configurations at
  distinct levels, a key has value \<open>v\<close> after the merge if and only if the configuration of the highest
  level that has the key gives it \<open>v\<close>.
\<close>

lemma merge_safe_highest_level:
  assumes "distinct (map fst configs)" and "\<forall>lc\<in>set configs. wf_config (snd lc)"
  shows "json_get (merge_safe configs) k = Some v \<longleftrightarrow>
    (\<exists>l c. (l, c) \<in> set configs \<and> json_get c k = Some v \<and>
       (\<forall>l' c'. (l', c') \<in> set configs \<and> json_get c' k \<noteq> None \<longrightarrow> l' \<le> l))"
proof -
  let ?P = "\<lambda>x. json_get (snd x) k \<noteq> None"
  let ?ys = "sort_key fst configs"
  have get: "json_get (merge_safe configs) k =
      (case find ?P (rev ?ys) of Some x \<Rightarrow> json_get (snd x) k | None \<Rightarrow> None)"
    using assms(2) unfolding merge_safe_def
    by (subst merge_fold_get) (auto simp: rev_map find_map_snd split: option.splits)
  have uniq: "x = y" if "x \<in> set configs" "y \<in> set configs" "fst x = fst y" for x y
    using assms(1) that by (auto simp: distinct_map inj_on_def)
  show ?thesis
  proof (cases "find ?P (rev ?ys)")
    case None
    then have "\<forall>x\<in>set configs. \<not> ?P x" unfolding find_None_iff by auto
    with None get show ?thesis by force
  next
    case (Some x)
    from find_rev_sorted [OF sorted_sort_key Some]
    have x: "x \<in> set configs" "?P x" "\<forall>y\<in>set configs. ?P y \<longrightarrow> fst y \<le> fst x" by auto
    have "json_get (snd x) k = Some v" if "(l, c) \<in> set configs" "json_get c k = Some v"
      "\<forall>l' c'. (l', c') \<in> set configs \<and> json_get c' k \<noteq> None \<longrightarrow> l' \<le> l" for l c
    proof -
      have "fst x \<le> l" using that(3) x(1,2) by (metis prod.collapse)
      moreover have "l \<le> fst x" using that(1,2) x(3) by force
      ultimately have "fst x = l" by simp
      with uniq [OF x(1) that(1)] that(2) show ?thesis by auto
    qed
    moreover have "json_get (snd x) k = Some v \<Longrightarrow> \<exists>l c. (l, c) \<in> set configs \<and> json_get c k = Some v \<and>
       (\<forall>l' c'. (l', c') \<in> set configs \<and> json_get c' k \<noteq> None \<longrightarrow> l' \<le> l)"
      using x by (metis fst_conv prod.collapse snd_conv)
    ultimately show ?thesis using Some get by auto
  qed
qed

end
