(* ===== verification/Bundle_Pipeline.thy ===== *)
theory Bundle_Pipeline
  imports Trusted_Keys Bundle_Rollback
begin

text \<open>
  \<^verbatim>\<open>src/crates/dek-bundle-sync/src/lib.rs\<close>: the agent that downloads, verifies and stages a policy
  bundle, in cloud mode (\<open>run_pipeline\<close>), in local mode (\<open>run_pipeline_local\<close>), and the fetch of the
  network guardrails.

  The environment is a record of parameters: HTTP, cryptography, JSON parsing, canonicalisation (JCS) and
  printing, SHA-256, the JSON schema validator, the derived deserialisers, the clock, the build profile
  and the outcome of each file operation. A configuration is the JSON value it serialises to. The bundle
  directory is an association list from paths to contents; \<open>..\<close> in a path is not resolved.
\<close>

subsection \<open>Environment and state\<close>

datatype artifact_state = Discovered | Downloaded | HashVerified | SignatureVerified | SchemaValidated
  | CompatibilityChecked | Staged | Warmed | ShadowArtifact | ActiveArtifact | LastKnownGood

datatype io_op =
    CreateDirAll string
  | WriteFile string string
  | RemoveDirAll string
  | RenameDir string string
  | SymlinkLatest string

record bundle_artifact =
  ba_type :: string
  ba_path :: string
  ba_sha256 :: string

record os_modules_config =
  os_linux :: "string list"
  os_windows :: "string list"
  os_macos :: "string list"

record bundle_compatibility =
  min_dek_version :: string
  required_crates :: "string list"
  required_pep_types :: "string list"
  required_os_modules :: os_modules_config

record bundle_metadata =
  bm_bundle_id :: string
  bm_tenant :: string
  bm_version :: string
  bm_created_at :: string
  bm_created_by :: string

record activation_config =
  ac_strategy :: string
  rollback_on_failure :: bool
  health_check_timeout_ms :: u64
  shadow_before_enforce_seconds :: u64

record pollek_policy_bundle =
  api_version :: string
  pb_kind :: string
  pb_metadata :: bundle_metadata
  pb_compatibility :: bundle_compatibility
  pb_artifacts :: "bundle_artifact list"
  pb_activation :: activation_config

record 'rules bundle_env =
  be_crypto :: crypto
  be_http :: http
  be_from_slice :: "string \<Rightarrow> (string, json) result"
  be_jcs :: "json \<Rightarrow> (string, string) result"
  be_to_pretty :: "json \<Rightarrow> (string, string) result"
  be_sha256_hex :: "string \<Rightarrow> string"
  be_config_from_slice :: "string \<Rightarrow> (string, json) result"
  be_schema :: "(json \<Rightarrow> bool) option"
  be_bundle_from_value :: "json \<Rightarrow> (string, pollek_policy_bundle) result"
  be_bundle_jcs :: "pollek_policy_bundle \<Rightarrow> (string, string) result"
  be_rules_from_value :: "json \<Rightarrow> (string, 'rules) result"
  be_io :: "io_op \<Rightarrow> string option"
  be_rollback_save :: "save_fault option"
  be_now :: int
  be_debug_assertions :: bool
  be_data_dir :: string

record bundle_sync_agent =
  cloud_url :: string
  tenant_id :: string
  device_id :: string
  key_set :: trusted_key_set
  api_token :: "string option"

record bundle_store =
  bs_rollback :: rb_file
  bs_files :: "(string \<times> string) list"
  bs_latest :: "string option"

datatype bundle_error =
    SignatureRejected string string
  | RollbackBlocked u64 u64
  | OtherError string

fun show_bundle_error :: "bundle_error \<Rightarrow> string" where
  "show_bundle_error (SignatureRejected role detail) = ''signature rejected for '' @ role @ '': '' @ detail"
| "show_bundle_error (RollbackBlocked current incoming) =
     ''anti-rollback: incoming gen '' @ show_nat (unat incoming) @ '' < current '' @ show_nat (unat current)"
| "show_bundle_error (OtherError s) = s"

definition agent_new :: "string \<Rightarrow> string \<Rightarrow> string \<Rightarrow> string \<Rightarrow> string option \<Rightarrow> bundle_sync_agent" where
  "agent_new url tenant device pinned_public_key token =
     \<lparr>cloud_url = url, tenant_id = tenant, device_id = device,
      key_set = from_single_pinned pinned_public_key, api_token = token\<rparr>"

definition update_keys :: "bundle_sync_agent \<Rightarrow> trusted_key_set \<Rightarrow> bundle_sync_agent" where
  "update_keys agent ks = agent\<lparr>key_set := ks\<rparr>"

definition key_set_snapshot :: "bundle_sync_agent \<Rightarrow> trusted_key_set" where
  "key_set_snapshot agent = key_set agent"

subsection \<open>Paths and files\<close>

definition path_join :: "string \<Rightarrow> string \<Rightarrow> string" where
  "path_join d f = (if starts_with f ''/'' then f else d @ ''/'' @ f)"

definition fs_write :: "string \<Rightarrow> string \<Rightarrow> (string \<times> string) list \<Rightarrow> (string \<times> string) list" where
  "fs_write p c fs = AList.update p c fs"

definition fs_under :: "string \<Rightarrow> string \<Rightarrow> bool" where
  "fs_under d p \<longleftrightarrow> starts_with p (d @ ''/'')"

definition fs_remove_dir :: "string \<Rightarrow> (string \<times> string) list \<Rightarrow> (string \<times> string) list" where
  "fs_remove_dir d fs = filter (\<lambda>(p, _). \<not> fs_under d p) fs"

definition fs_rename_dir :: "string \<Rightarrow> string \<Rightarrow> (string \<times> string) list \<Rightarrow> (string \<times> string) list" where
  "fs_rename_dir a b fs = map (\<lambda>(p, c). (if fs_under a p then b @ drop (length a) p else p, c)) fs"

fun write_all :: "(io_op \<Rightarrow> string option) \<Rightarrow> string \<Rightarrow> (string \<times> string) list \<Rightarrow> (string \<times> string) list \<Rightarrow>
    (string, unit) result \<times> (string \<times> string) list" where
  "write_all io dir [] fs = (Inr (), fs)"
| "write_all io dir ((name, bytes) # rest) fs =
     (case io (WriteFile (path_join dir name) bytes) of
        Some e \<Rightarrow> (Inl e, fs)
      | None \<Rightarrow> write_all io dir rest (fs_write (path_join dir name) bytes fs))"

text \<open>\<^verbatim>\<open>remove_dir_all\<close> of the old bundle (its failure is ignored), then the rename, which fails when
  the target still has files.\<close>

definition promote :: "(io_op \<Rightarrow> string option) \<Rightarrow> string \<Rightarrow> string \<Rightarrow> (string \<times> string) list \<Rightarrow>
    (string, unit) result \<times> (string \<times> string) list" where
  "promote io staging_dir bundle_dir fs =
     (let fs1 = (if io (RemoveDirAll bundle_dir) = None then fs_remove_dir bundle_dir fs else fs)
      in if (\<exists>pc\<in>set fs1. fs_under bundle_dir (fst pc)) then (Inl ''Directory not empty'', fs1)
         else case io (RenameDir staging_dir bundle_dir) of
                Some e \<Rightarrow> (Inl e, fs1)
              | None \<Rightarrow> (Inr (), fs_rename_dir staging_dir bundle_dir fs1))"

subsection \<open>Metadata\<close>

definition device_url :: "bundle_sync_agent \<Rightarrow> string" where
  "device_url agent = cloud_url agent @ ''/v1/tenants/'' @ tenant_id agent @ ''/devices/'' @ device_id agent"

definition agent_get :: "'r bundle_env \<Rightarrow> bundle_sync_agent \<Rightarrow> string \<Rightarrow> (string, http_reply) result" where
  "agent_get env agent url = be_http env url (api_token agent)"

definition read_json :: "'r bundle_env \<Rightarrow> http_reply \<Rightarrow> (string, json) result" where
  "read_json env res = (case http_body res of Inl e \<Rightarrow> Inl e | Inr bytes \<Rightarrow> be_from_slice env bytes)"

definition fetch_role :: "'r bundle_env \<Rightarrow> bundle_sync_agent \<Rightarrow> string \<Rightarrow> (bundle_error, json) result" where
  "fetch_role env agent role =
     (case agent_get env agent (device_url agent @ ''/bundles/metadata/'' @ role @ ''.json'') of
        Inl e \<Rightarrow> Inl (OtherError e)
      | Inr res \<Rightarrow>
     (if \<not> is_success res then Inl (OtherError (''TUF fetch failed for '' @ role)) else
      case read_json env res of
        Inl e \<Rightarrow> Inl (OtherError e)
      | Inr metadata \<Rightarrow>
     (case be_jcs env (json_index metadata ''signed'') of
        Inl e \<Rightarrow> Inl (OtherError ''serialize signed payload using JCS'')
      | Inr signed_bytes \<Rightarrow>
     (case verify (be_crypto env) (key_set agent) (be_now env) signed_bytes
             (parse_signatures (json_index metadata ''signatures'')) of
        Valid _ \<Rightarrow> Inr (json_index metadata ''signed'')
      | outcome \<Rightarrow> Inl (SignatureRejected role (show_verify_outcome outcome))))))"

definition version_of :: "json \<Rightarrow> u64" where
  "version_of sgnd = (case as_u64 (json_index sgnd ''version'') of Some v \<Rightarrow> of_nat v | None \<Rightarrow> 0)"

record tuf =
  root_version :: u64
  snapshot_version :: u64
  timestamp_version :: u64
  targets_metadata :: json

definition tuf_init :: tuf where
  "tuf_init = \<lparr>root_version = 0, snapshot_version = 0, timestamp_version = 0, targets_metadata = json_empty\<rparr>"

definition tuf_set :: "string \<Rightarrow> json \<Rightarrow> tuf \<Rightarrow> tuf" where
  "tuf_set role sgnd m =
     (if role = ''root'' then m\<lparr>root_version := version_of sgnd\<rparr>
      else if role = ''timestamp'' then m\<lparr>timestamp_version := version_of sgnd\<rparr>
      else if role = ''snapshot'' then m\<lparr>snapshot_version := version_of sgnd\<rparr>
      else if role = ''targets'' then m\<lparr>targets_metadata := sgnd\<rparr>
      else m)"

fun fetch_roles :: "'r bundle_env \<Rightarrow> bundle_sync_agent \<Rightarrow> string list \<Rightarrow> tuf \<Rightarrow> (bundle_error, tuf) result" where
  "fetch_roles env agent [] m = Inr m"
| "fetch_roles env agent (role # roles) m =
     (case fetch_role env agent role of
        Inl e \<Rightarrow> Inl e
      | Inr sgnd \<Rightarrow> fetch_roles env agent roles (tuf_set role sgnd m))"

definition tuf_roles :: "string list" where
  "tuf_roles = [''root'', ''timestamp'', ''snapshot'', ''targets'']"

subsection \<open>Artifacts and configuration\<close>

definition merge_artifact :: "'r bundle_env \<Rightarrow> string \<Rightarrow> string \<Rightarrow> json \<Rightarrow> json" where
  "merge_artifact env filename bytes merged =
     (if ends_with filename ''.json'' then
        case be_from_slice env bytes of
          Inl _ \<Rightarrow> merged
        | Inr val \<Rightarrow>
            (case as_object val of
               Some obj \<Rightarrow> json_insert_all merged obj
             | None \<Rightarrow> if filename = ''routes.json'' then json_insert merged ''routes'' val else merged)
      else merged)"

definition fetch_artifact :: "'r bundle_env \<Rightarrow> bundle_sync_agent \<Rightarrow> string \<Rightarrow> (bundle_error, string) result" where
  "fetch_artifact env agent hash =
     (case agent_get env agent (device_url agent @ ''/bundles/artifacts/'' @ hash) of
        Inl e \<Rightarrow> Inl (OtherError e)
      | Inr res \<Rightarrow>
          if \<not> is_success res then Inl (OtherError (''Artifact fetch failed for hash '' @ hash))
          else case http_body res of Inl e \<Rightarrow> Inl (OtherError e) | Inr bytes \<Rightarrow> Inr bytes)"

definition target_sha256 :: "json \<Rightarrow> string option" where
  "target_sha256 target_info = Option.bind (json_get target_info ''hashes'') (\<lambda>h. get_str h ''sha256'')"

definition allow_mock :: "'r bundle_env \<Rightarrow> string \<Rightarrow> bool" where
  "allow_mock env hash \<longleftrightarrow> be_debug_assertions env \<and> starts_with hash ''mock_hash''"

fun fetch_targets :: "'r bundle_env \<Rightarrow> bundle_sync_agent \<Rightarrow> (string \<times> json) list \<Rightarrow> json \<Rightarrow> (string \<times> string) list \<Rightarrow>
    (bundle_error, json \<times> (string \<times> string) list) result" where
  "fetch_targets env agent [] merged raw = Inr (merged, raw)"
| "fetch_targets env agent ((filename, target_info) # rest) merged raw =
     (case target_sha256 target_info of
        None \<Rightarrow> Inl (OtherError ''Missing sha256'')
      | Some hash \<Rightarrow>
     (case fetch_artifact env agent hash of
        Inl e \<Rightarrow> Inl e
      | Inr bytes \<Rightarrow>
          if \<not> allow_mock env hash \<and> be_sha256_hex env bytes \<noteq> hash
          then Inl (OtherError (''Artifact hash mismatch for '' @ filename))
          else fetch_targets env agent rest (merge_artifact env filename bytes merged) (raw @ [(filename, bytes)])))"

text \<open>The device configuration; its HTTP status is not looked at.\<close>

definition fetch_config :: "'r bundle_env \<Rightarrow> bundle_sync_agent \<Rightarrow> (bundle_error, json) result" where
  "fetch_config env agent =
     (case agent_get env agent (device_url agent @ ''/config'') of
        Inl e \<Rightarrow> Inl (OtherError e)
      | Inr res \<Rightarrow>
          (case http_body res of
             Inl e \<Rightarrow> Inl (OtherError ''Failed to parse DekConfig'')
           | Inr bytes \<Rightarrow>
               (case be_config_from_slice env bytes of
                  Inl e \<Rightarrow> Inl (OtherError ''Failed to parse DekConfig'')
                | Inr cfg \<Rightarrow> Inr cfg)))"

definition final_merge :: "json \<Rightarrow> json \<Rightarrow> json" where
  "final_merge config_val merged_payload = merge_safe [(Tenant, config_val), (DeviceGroup, merged_payload)]"

definition schema_ok :: "'r bundle_env \<Rightarrow> json \<Rightarrow> bool" where
  "schema_ok env v = (case be_schema env of Some valid \<Rightarrow> valid v | None \<Rightarrow> True)"

subsection \<open>Staging\<close>

definition bundle_version_of :: "tuf \<Rightarrow> string" where
  "bundle_version_of m = show_nat (unat (root_version m)) @ ''_'' @ show_nat (unat (snapshot_version m)) @ ''_'' @
     show_nat (unat (timestamp_version m))"

definition bundles_dir :: "'r bundle_env \<Rightarrow> string" where
  "bundles_dir env = path_join (path_join (be_data_dir env) ''state'') ''bundles''"

text \<open>Both modes end the same way: the merged manifest and the artifacts are written to the staging
  directory, which then replaces the bundle directory.\<close>

definition stage :: "'r bundle_env \<Rightarrow> string \<Rightarrow> string \<Rightarrow> (string \<times> string) list \<Rightarrow> (string \<times> string) list \<Rightarrow>
    (bundle_error, string) result \<times> (string \<times> string) list" where
  "stage env staging_dir bundle_dir entries fs =
     (case write_all (be_io env) staging_dir entries fs of
        (Inl e, fs1) \<Rightarrow> (Inl (OtherError e), fs1)
      | (Inr _, fs1) \<Rightarrow>
          (case promote (be_io env) staging_dir bundle_dir fs1 of
             (Inl e, fs2) \<Rightarrow> (Inl (OtherError e), fs2)
           | (Inr _, fs2) \<Rightarrow> (Inr (path_join bundle_dir ''manifest.json''), fs2)))"

definition stage_cloud :: "'r bundle_env \<Rightarrow> tuf \<Rightarrow> json \<Rightarrow> (string \<times> string) list \<Rightarrow> bundle_store \<Rightarrow>
    (bundle_error, string) result \<times> bundle_store" where
  "stage_cloud env m final_merged raw store =
     (let target_dir = bundles_dir env;
          bundle_dir = path_join target_dir (''bundle_'' @ bundle_version_of m);
          staging_dir = path_join target_dir (''staging_bundle_'' @ bundle_version_of m)
      in case be_io env (CreateDirAll target_dir) of
           Some e \<Rightarrow> (Inl (OtherError e), store)
         | None \<Rightarrow>
        (case be_io env (CreateDirAll staging_dir) of
           Some e \<Rightarrow> (Inl (OtherError e), store)
         | None \<Rightarrow>
        (case be_to_pretty env final_merged of
           Inl e \<Rightarrow> (Inl (OtherError e), store)
         | Inr payload_string \<Rightarrow>
             (case stage env staging_dir bundle_dir ((''manifest.json'', payload_string) # raw) (bs_files store) of
                (r, fs) \<Rightarrow> (r, store\<lparr>bs_files := fs\<rparr>)))))"

subsection \<open>Local mode\<close>

definition replace_slashes :: "string \<Rightarrow> string" where
  "replace_slashes s = map (\<lambda>c. if c = CHR ''/'' then CHR ''_'' else c) s"

definition last_component :: "string \<Rightarrow> string" where
  "last_component s = rev (takeWhile (\<lambda>c. c \<noteq> CHR ''/'') (rev s))"

fun fetch_local_artifacts :: "'r bundle_env \<Rightarrow> bundle_sync_agent \<Rightarrow> string \<Rightarrow> bundle_artifact list \<Rightarrow> json \<Rightarrow>
    (string \<times> string) list \<Rightarrow> (bundle_error, json) result \<times> (string \<times> string) list" where
  "fetch_local_artifacts env agent staging_dir [] merged fs = (Inr merged, fs)"
| "fetch_local_artifacts env agent staging_dir (a # rest) merged fs =
     (case fetch_artifact env agent (ba_sha256 a) of
        Inl e \<Rightarrow> (Inl e, fs)
      | Inr bytes \<Rightarrow>
          if be_sha256_hex env bytes \<noteq> ba_sha256 a
          then (Inl (OtherError (''Artifact SHA256 mismatch for '' @ ba_path a @ '', expected '' @ ba_sha256 a @
                  '', got '' @ be_sha256_hex env bytes)), fs)
          else
            let artifact_path = path_join staging_dir (replace_slashes (ba_path a))
            in case be_io env (WriteFile artifact_path bytes) of
                 Some e \<Rightarrow> (Inl (OtherError e), fs)
               | None \<Rightarrow>
                   fetch_local_artifacts env agent staging_dir rest
                     (merge_artifact env (last_component (ba_path a)) bytes merged)
                     (fs_write artifact_path bytes fs))"

text \<open>The signed manifest: the signatures' key ids are dropped, so every usable key is tried.\<close>

definition fetch_local_manifest :: "'r bundle_env \<Rightarrow> bundle_sync_agent \<Rightarrow> (bundle_error, pollek_policy_bundle) result" where
  "fetch_local_manifest env agent =
     (case agent_get env agent (device_url agent @ ''/bundles/manifest'') of
        Inl e \<Rightarrow> Inl (OtherError e)
      | Inr res \<Rightarrow>
     (if \<not> is_success res then Inl (OtherError (''Manifest fetch failed: HTTP '' @ http_status_text res)) else
      case read_json env res of
        Inl e \<Rightarrow> Inl (OtherError e)
      | Inr manifest_val \<Rightarrow>
     (case json_get manifest_val ''manifest'' of
        None \<Rightarrow> Inl (OtherError ''Missing manifest in envelope'')
      | Some manifest_json \<Rightarrow>
     (case json_get manifest_val ''signatures'' of
        None \<Rightarrow> Inl (OtherError ''Missing signatures in envelope'')
      | Some signatures_json \<Rightarrow>
     (case be_bundle_from_value env manifest_json of
        Inl e \<Rightarrow> Inl (OtherError e)
      | Inr manifest \<Rightarrow>
     (case be_bundle_jcs env manifest of
        Inl e \<Rightarrow> Inl (OtherError e)
      | Inr signed_bytes \<Rightarrow>
     (case verify (be_crypto env) (key_set agent) (be_now env) signed_bytes
             (map (\<lambda>s. s\<lparr>sig_key_id := None\<rparr>) (parse_signatures signatures_json)) of
        Valid _ \<Rightarrow> Inr manifest
      | outcome \<Rightarrow> Inl (OtherError (''Local Manifest signature rejected: '' @ show_verify_outcome outcome)))))))))"

definition run_pipeline_local :: "'r bundle_env \<Rightarrow> bundle_sync_agent \<Rightarrow> bundle_store \<Rightarrow>
    (bundle_error, json \<times> string) result \<times> bundle_store" where
  "run_pipeline_local env agent store =
     (case fetch_local_manifest env agent of
        Inl e \<Rightarrow> (Inl e, store)
      | Inr manifest \<Rightarrow>
     (let target_dir = bundles_dir env;
          bundle_dir = path_join target_dir (''bundle_'' @ bm_version (pb_metadata manifest));
          staging_dir = path_join target_dir (''staging_'' @ bm_bundle_id (pb_metadata manifest))
      in case be_io env (CreateDirAll staging_dir) of
           Some e \<Rightarrow> (Inl (OtherError e), store)
         | None \<Rightarrow>
        (case fetch_local_artifacts env agent staging_dir (pb_artifacts manifest) json_empty (bs_files store) of
           (Inl e, fs) \<Rightarrow> (Inl e, store\<lparr>bs_files := fs\<rparr>)
         | (Inr merged_payload, fs) \<Rightarrow>
        (case fetch_config env agent of
           Inl e \<Rightarrow> (Inl e, store\<lparr>bs_files := fs\<rparr>)
         | Inr dek_config \<Rightarrow>
        (case be_to_pretty env (final_merge dek_config merged_payload) of
           Inl e \<Rightarrow> (Inl (OtherError e), store\<lparr>bs_files := fs\<rparr>)
         | Inr payload_string \<Rightarrow>
        (case stage env staging_dir bundle_dir [(''manifest.json'', payload_string)] fs of
           (Inl e, fs') \<Rightarrow> (Inl e, store\<lparr>bs_files := fs'\<rparr>)
         | (Inr bundle_path, fs') \<Rightarrow>
             (Inr (dek_config, bundle_path),
              store\<lparr>bs_files := fs',
                    bs_latest := (if be_io env (SymlinkLatest bundle_dir) = None then Some bundle_dir else None)\<rparr>)))))))"

subsection \<open>Cloud mode\<close>

definition run_pipeline :: "'r bundle_env \<Rightarrow> bundle_sync_agent \<Rightarrow> bundle_store \<Rightarrow>
    (bundle_error, json \<times> string) result \<times> bundle_store" where
  "run_pipeline env agent store =
     (if tenant_id agent = ''local'' then run_pipeline_local env agent store else
      case fetch_roles env agent tuf_roles tuf_init of
        Inl e \<Rightarrow> (Inl e, store)
      | Inr m \<Rightarrow>
     (case check_and_update_tuf (be_now env) (be_rollback_save env) (bs_rollback store)
             (tenant_id agent) (device_id agent) (root_version m) (snapshot_version m) (timestamp_version m) of
        (Inl e, rb) \<Rightarrow> (Inl (RollbackBlocked 0 (root_version m)), store\<lparr>bs_rollback := rb\<rparr>)
      | (Inr _, rb) \<Rightarrow>
     (let store = store\<lparr>bs_rollback := rb\<rparr>
      in case Option.bind (json_get (targets_metadata m) ''targets'') as_object of
           None \<Rightarrow> (Inl (OtherError ''Missing targets map''), store)
         | Some targets \<Rightarrow>
        (case fetch_targets env agent targets json_empty [] of
           Inl e \<Rightarrow> (Inl e, store)
         | Inr (merged_payload, raw_artifacts) \<Rightarrow>
        (case fetch_config env agent of
           Inl e \<Rightarrow> (Inl e, store)
         | Inr dek_config \<Rightarrow>
             (let final_merged = final_merge dek_config merged_payload
              in if \<not> schema_ok env final_merged
                 then (Inl (OtherError ''Combined configuration failed schema validation''), store)
                 else case stage_cloud env m final_merged raw_artifacts store of
                        (Inl e, store) \<Rightarrow> (Inl e, store)
                      | (Inr bundle_path, store) \<Rightarrow> (Inr (dek_config, bundle_path), store)))))))"

definition fetch_network_guardrails :: "'r bundle_env \<Rightarrow> bundle_sync_agent \<Rightarrow> (bundle_error, 'r) result" where
  "fetch_network_guardrails env agent =
     (case agent_get env agent (device_url agent @ ''/bundles/artifacts/network_guardrails.json'') of
        Inl e \<Rightarrow> Inl (OtherError e)
      | Inr res \<Rightarrow>
     (if \<not> is_success res
      then Inl (OtherError (''Failed to fetch network_guardrails.json: HTTP '' @ http_status_text res)) else
      case read_json env res of
        Inl e \<Rightarrow> Inl (OtherError e)
      | Inr body \<Rightarrow>
     (case be_jcs env (json_index body ''signed'') of
        Inl e \<Rightarrow> Inl (OtherError ''serialize signed network guardrails using JCS'')
      | Inr signed_bytes \<Rightarrow>
     (case verify (be_crypto env) (key_set agent) (be_now env) signed_bytes
             (parse_signatures (json_index body ''signatures'')) of
        Valid _ \<Rightarrow>
          (case be_rules_from_value env (json_index body ''signed'') of
             Inl e \<Rightarrow> Inl (OtherError ''parse CompiledNetworkRules'')
           | Inr rules \<Rightarrow> Inr rules)
      | outcome \<Rightarrow> Inl (OtherError (''Signature verification failed for network_guardrails.json: '' @
                         show_verify_outcome outcome))))))"

subsection \<open>Lemmas\<close>

lemma fs_under_append [simp]: "fs_under d (d @ CHR ''/'' # f)"
  by (simp add: fs_under_def starts_with_def)

lemma fs_under_iff: "fs_under d p \<longleftrightarrow> (\<exists>f. p = d @ CHR ''/'' # f)"
  by (auto simp: fs_under_def starts_with_prefix prefix_def)

lemma map_of_remove_dir: "\<not> fs_under d p \<Longrightarrow> map_of (fs_remove_dir d fs) p = map_of fs p"
  by (induction fs) (auto simp: fs_remove_dir_def)

lemma map_of_rename_dir:
  "\<forall>pc\<in>set fs. \<not> fs_under b (fst pc) \<Longrightarrow>
   map_of (fs_rename_dir a b fs) (b @ CHR ''/'' # f) = map_of fs (a @ CHR ''/'' # f)"
proof (induction fs)
  case (Cons pc fs)
  obtain p c where pc: "pc = (p, c)" by (cases pc)
  have "(if fs_under a p then b @ drop (length a) p else p) = b @ CHR ''/'' # f \<longleftrightarrow> p = a @ CHR ''/'' # f"
    using Cons.prems by (auto simp: pc fs_under_iff)
  with Cons show ?case by (auto simp: pc fs_rename_dir_def)
qed (simp add: fs_rename_dir_def)

lemma promote_lookup:
  assumes "promote io a b fs = (Inr u, fs')" and "\<not> fs_under b (a @ CHR ''/'' # f)"
  shows "map_of fs' (b @ CHR ''/'' # f) = map_of fs (a @ CHR ''/'' # f)"
proof -
  define fs1 where "fs1 = (if io (RemoveDirAll b) = None then fs_remove_dir b fs else fs)"
  have "fs' = fs_rename_dir a b fs1" and "\<forall>pc\<in>set fs1. \<not> fs_under b (fst pc)"
    using assms(1) by (auto simp: promote_def Let_def fs1_def [symmetric] split: if_splits option.splits)
  moreover have "map_of fs1 (a @ CHR ''/'' # f) = map_of fs (a @ CHR ''/'' # f)"
    using assms(2) by (simp add: fs1_def map_of_remove_dir)
  ultimately show ?thesis by (simp add: map_of_rename_dir)
qed

definition relative :: "string \<Rightarrow> bool" where
  "relative f \<longleftrightarrow> \<not> starts_with f ''/''"

lemma path_join_relative: "relative f \<Longrightarrow> path_join d f = d @ CHR ''/'' # f"
  by (simp add: path_join_def relative_def)

lemma write_all_lookup:
  "write_all io d entries fs = (Inr u, fs') \<Longrightarrow> \<forall>e\<in>set entries. relative (fst e) \<Longrightarrow>
   map_of fs' (d @ CHR ''/'' # f) =
     (case map_of (rev entries) f of Some c \<Rightarrow> Some c | None \<Rightarrow> map_of fs (d @ CHR ''/'' # f))"
proof (induction entries arbitrary: fs)
  case (Cons e entries)
  obtain n c where e: "e = (n, c)" by (cases e)
  from Cons.prems(1) have "write_all io d entries (fs_write (path_join d n) c fs) = (Inr u, fs')"
    by (auto simp: e split: option.splits)
  from Cons.IH [OF this] Cons.prems(2) show ?case
    by (auto simp: e fs_write_def path_join_relative map_add_def split: option.splits)
qed simp

lemma stage_lookup:
  assumes "stage env a b entries fs = (Inr path, fs')" and "\<forall>e\<in>set entries. relative (fst e)"
    and "\<not> fs_under b (a @ CHR ''/'' # f)" and "map_of (rev entries) f = Some c"
  shows "map_of fs' (b @ CHR ''/'' # f) = Some c \<and> path = path_join b ''manifest.json''"
proof -
  from assms(1) obtain fs1 where w: "write_all (be_io env) a entries fs = (Inr (), fs1)"
      and p: "promote (be_io env) a b fs1 = (Inr (), fs')" and path: "path = path_join b ''manifest.json''"
    by (auto simp: stage_def split: prod.splits sum.splits)
  from write_all_lookup [OF w assms(2), of f] assms(4) have "map_of fs1 (a @ CHR ''/'' # f) = Some c" by simp
  with promote_lookup [OF p assms(3)] path show ?thesis by simp
qed

definition role_vouched :: "'r bundle_env \<Rightarrow> bundle_sync_agent \<Rightarrow> json \<Rightarrow> bool" where
  "role_vouched env agent sgnd \<longleftrightarrow>
     (\<exists>metadata bytes k e. sgnd = json_index metadata ''signed'' \<and> be_jcs env sgnd = Inr bytes \<and>
        k \<in> set (key_set agent) \<and> e \<in> set (parse_signatures (json_index metadata ''signatures'')) \<and>
        vouches (be_crypto env) (be_now env) bytes k e)"

lemma fetch_role_vouched: "fetch_role env agent role = Inr sgnd \<Longrightarrow> role_vouched env agent sgnd"
  unfolding fetch_role_def role_vouched_def
  by (auto split: sum.splits if_splits verify_outcome.splits dest!: verify_Valid_key)

lemma fetch_roles_Inr:
  assumes "fetch_roles env agent tuf_roles tuf_init = Inr m"
  obtains r t s g where "fetch_role env agent ''root'' = Inr r" "fetch_role env agent ''timestamp'' = Inr t"
    "fetch_role env agent ''snapshot'' = Inr s" "fetch_role env agent ''targets'' = Inr g"
    "m = \<lparr>root_version = version_of r, snapshot_version = version_of s, timestamp_version = version_of t,
          targets_metadata = g\<rparr>"
  using assms by (auto simp: tuf_roles_def tuf_init_def tuf_set_def split: sum.splits)

definition artifact_matches :: "'r bundle_env \<Rightarrow> string \<times> json \<Rightarrow> string \<times> string \<Rightarrow> bool" where
  "artifact_matches env tgt art \<longleftrightarrow> fst art = fst tgt \<and> target_sha256 (snd tgt) = Some (be_sha256_hex env (snd art))"

lemma fetch_targets_match:
  "fetch_targets env agent tgts merged raw = Inr (merged', raw') \<Longrightarrow> \<not> be_debug_assertions env \<Longrightarrow>
   \<exists>arts. raw' = raw @ arts \<and> list_all2 (artifact_matches env) tgts arts"
proof (induction tgts arbitrary: merged raw)
  case (Cons t tgts)
  obtain filename info where t: "t = (filename, info)" by (cases t)
  from Cons.prems obtain hash bytes where h: "target_sha256 info = Some hash" "be_sha256_hex env bytes = hash"
      and rest: "fetch_targets env agent tgts (merge_artifact env filename bytes merged) (raw @ [(filename, bytes)]) =
        Inr (merged', raw')"
    by (auto simp: t allow_mock_def split: option.splits sum.splits if_splits)
  from Cons.IH [OF rest Cons.prems(2)] obtain arts where
      "raw' = (raw @ [(filename, bytes)]) @ arts" "list_all2 (artifact_matches env) tgts arts" by blast
  moreover have "artifact_matches env t (filename, bytes)" using h by (simp add: t artifact_matches_def)
  ultimately show ?case by (intro exI [of _ "(filename, bytes) # arts"]) simp
qed simp

lemma run_pipeline_Inr:
  assumes "run_pipeline env agent store = (Inr (cfg, path), store')" and "tenant_id agent \<noteq> ''local''"
  obtains m rb st targets merged raw where "fetch_roles env agent tuf_roles tuf_init = Inr m"
    "check_and_update_tuf (be_now env) (be_rollback_save env) (bs_rollback store) (tenant_id agent)
       (device_id agent) (root_version m) (snapshot_version m) (timestamp_version m) = (Inr st, rb)"
    "json_get (targets_metadata m) ''targets'' = Some (JObj targets)"
    "fetch_targets env agent targets json_empty [] = Inr (merged, raw)"
    "fetch_config env agent = Inr cfg" "schema_ok env (final_merge cfg merged)"
    "stage_cloud env m (final_merge cfg merged) raw (store\<lparr>bs_rollback := rb\<rparr>) = (Inr path, store')"
proof -
  have obj: "as_object j = Some x \<Longrightarrow> j = JObj x" for j x by (cases j) auto
  show thesis
    using assms that unfolding run_pipeline_def Let_def
    by (auto split: sum.splits prod.splits option.splits if_splits simp: bind_eq_Some_conv dest!: obj)
qed

lemma stage_cloud_Inr:
  assumes "stage_cloud env m final raw store = (Inr path, store')"
  obtains payload fs where "be_to_pretty env final = Inr payload" "store' = store\<lparr>bs_files := fs\<rparr>"
    "stage env (path_join (bundles_dir env) (''staging_bundle_'' @ bundle_version_of m))
       (path_join (bundles_dir env) (''bundle_'' @ bundle_version_of m))
       ((''manifest.json'', payload) # raw) (bs_files store) = (Inr path, fs)"
  using assms that unfolding stage_cloud_def Let_def by (auto split: sum.splits prod.splits option.splits)

lemma check_accepts:
  assumes "check_and_update_tuf now io file t d r s ts = (Inr st, rb)"
  shows "rb = RbStored st \<and> highest_root_version st = r \<and> highest_snapshot_version st = s \<and>
    highest_timestamp_version st = ts \<and> rb_tenant_id st = t \<and> rb_device_id st = d \<and>
    (\<forall>b. file = RbStored b \<longrightarrow> rb_le b st)"
proof (cases "rb_load now file")
  case (Inr b)
  with assms show ?thesis
    by (auto simp: check_and_update_tuf_def rb_save_def Let_def rb_le_def not_less split: if_splits option.splits save_fault.splits)
qed (use assms in \<open>simp add: check_and_update_tuf_def\<close>)

subsection \<open>Properties\<close>

text \<open>
  C12. What the cloud pipeline accepts is authentic: in a release build, when it returns a configuration,
  each of the four metadata documents carried a signature of a usable trusted key; the versions of root,
  snapshot and timestamp are now the stored ones and none was older than the stored state; every
  downloaded artifact has the SHA-256 that the signed targets document lists for its name, in order; and
  the merged configuration passed the schema.
\<close>

theorem pipeline_authentic:
  assumes "run_pipeline env agent store = (Inr (cfg, path), store')"
    and "tenant_id agent \<noteq> ''local''" and "\<not> be_debug_assertions env"
  shows "\<exists>root timestamp snapshot tgt targets raw merged st.
    role_vouched env agent root \<and> role_vouched env agent timestamp \<and>
    role_vouched env agent snapshot \<and> role_vouched env agent tgt \<and>
    bs_rollback store' = RbStored st \<and> (\<forall>b. bs_rollback store = RbStored b \<longrightarrow> rb_le b st) \<and>
    highest_root_version st = version_of root \<and> highest_snapshot_version st = version_of snapshot \<and>
    highest_timestamp_version st = version_of timestamp \<and>
    json_get tgt ''targets'' = Some (JObj targets) \<and> list_all2 (artifact_matches env) targets raw \<and>
    fetch_targets env agent targets json_empty [] = Inr (merged, raw) \<and>
    schema_ok env (final_merge cfg merged)"
proof -
  from run_pipeline_Inr [OF assms(1,2)] obtain m rb st targets merged raw where
    m: "fetch_roles env agent tuf_roles tuf_init = Inr m"
    and c: "check_and_update_tuf (be_now env) (be_rollback_save env) (bs_rollback store) (tenant_id agent)
       (device_id agent) (root_version m) (snapshot_version m) (timestamp_version m) = (Inr st, rb)"
    and t: "json_get (targets_metadata m) ''targets'' = Some (JObj targets)"
    and f: "fetch_targets env agent targets json_empty [] = Inr (merged, raw)"
    and s: "schema_ok env (final_merge cfg merged)"
    and g: "stage_cloud env m (final_merge cfg merged) raw (store\<lparr>bs_rollback := rb\<rparr>) = (Inr path, store')" .
  from fetch_targets_match [OF f assms(3)] have "list_all2 (artifact_matches env) targets raw" by simp
  moreover have "bs_rollback store' = rb" by (rule stage_cloud_Inr [OF g]) simp
  moreover from fetch_roles_Inr [OF m] obtain r' t' s' g' where
    "role_vouched env agent r'" "role_vouched env agent t'" "role_vouched env agent s'" "role_vouched env agent g'"
    and "m = \<lparr>root_version = version_of r', snapshot_version = version_of s', timestamp_version = version_of t',
      targets_metadata = g'\<rparr>"
    by (metis fetch_role_vouched)
  ultimately show ?thesis using t f s check_accepts [OF c]
    by (intro exI [of _ r'] exI [of _ t'] exI [of _ s'] exI [of _ g'] exI [of _ targets] exI [of _ raw]
          exI [of _ merged] exI [of _ st]) simp
qed

text \<open>A server for witnesses: every metadata document is the same signed object with one target.\<close>

definition demo_doc :: json where
  "demo_doc = JObj [(''signed'', JObj [(''version'', JInt 3), (''targets'', JObj [(''p.wasm'',
       JObj [(''hashes'', JObj [(''sha256'', JStr ''h'')])])])]),
     (''signatures'', JArr [JObj [(''sig'', JStr ''AA'')]])]"

definition demo_env :: "unit bundle_env" where
  "demo_env = \<lparr>be_crypto = demo_crypto,
     be_http = (\<lambda>_ _. Inr \<lparr>http_status = 200, http_status_text = ''200 OK'', http_body = Inr ''x''\<rparr>),
     be_from_slice = (\<lambda>_. Inr demo_doc), be_jcs = (\<lambda>_. Inr ''m''), be_to_pretty = (\<lambda>_. Inr ''{}''),
     be_sha256_hex = (\<lambda>_. ''h''), be_config_from_slice = (\<lambda>_. Inr json_empty), be_schema = Some (\<lambda>_. True),
     be_bundle_from_value = (\<lambda>_. Inl ''e''), be_bundle_jcs = (\<lambda>_. Inl ''e''),
     be_rules_from_value = (\<lambda>_. Inr ()), be_io = (\<lambda>_. None), be_rollback_save = None, be_now = 5, be_debug_assertions = False,
     be_data_dir = ''/d''\<rparr>"

definition demo_agent :: bundle_sync_agent where
  "demo_agent = agent_new ''https://c'' ''t'' ''dev'' ''A'' None"

definition demo_store :: bundle_store where
  "demo_store = \<lparr>bs_rollback = RbAbsent, bs_files = [], bs_latest = None\<rparr>"

lemma demo_fetch_role: "fetch_role demo_env demo_agent role = Inr (json_index demo_doc ''signed'')"
  by (simp add: fetch_role_def agent_get_def demo_env_def read_json_def is_success_def verify_def
      usable_keys_def demo_agent_def agent_new_def from_single_pinned_def key_usable_def candidates_def
      demo_crypto_def verifying_key_def json_index_def demo_doc_def parse_signatures_def parse_signature_def
      or_else_def List.map_filter_def)

lemma demo_fetch_config: "fetch_config demo_env demo_agent = Inr json_empty"
  by (simp add: fetch_config_def agent_get_def demo_env_def)

lemma demo_fetch_targets:
  "fetch_targets demo_env demo_agent [(''p.wasm'', JObj [(''hashes'', JObj [(''sha256'', JStr ''h'')])])] j [] =
     Inr (j, [(''p.wasm'', ''x'')])"
  by (simp add: target_sha256_def fetch_artifact_def agent_get_def demo_env_def is_success_def
      merge_artifact_def ends_with_def starts_with_def)

lemma demo_not_local: "tenant_id demo_agent \<noteq> ''local''"
  by (simp add: demo_agent_def agent_new_def)



lemma demo_stage_cloud:
  "\<exists>s. stage_cloud demo_env m final [(''p.wasm'', ''x'')]
      (demo_store\<lparr>bs_rollback := rb\<rparr>) = (Inr (path_join (path_join ''/d/state/bundles'' (''bundle_'' @ bundle_version_of m)) ''manifest.json''), s)"
  by (simp add: stage_cloud_def stage_def promote_def demo_env_def demo_store_def Let_def bundles_dir_def
      path_join_def [of "''/d''"] path_join_def [of "''/d/state''"] starts_with_def fs_write_def
      path_join_relative relative_def fs_remove_dir_def split: prod.splits)

lemma demo_run: "\<exists>c p s. run_pipeline demo_env demo_agent demo_store = (Inr (c, p), s)"
proof -
  have roles: "fetch_roles demo_env demo_agent tuf_roles tuf_init = Inr \<lparr>root_version = 3, snapshot_version = 3,
      timestamp_version = 3, targets_metadata = json_index demo_doc ''signed''\<rparr>"
    by (simp add: tuf_roles_def demo_fetch_role tuf_set_def tuf_init_def version_of_def demo_doc_def json_index_def)
  have tgts: "Option.bind (json_get (json_index demo_doc ''signed'') ''targets'') as_object =
      Some [(''p.wasm'', JObj [(''hashes'', JObj [(''sha256'', JStr ''h'')])])]"
    by (simp add: demo_doc_def json_index_def)
  have ok: "schema_ok demo_env v" for v by (simp add: schema_ok_def demo_env_def)
  have rb: "\<exists>st. check_and_update_tuf (be_now demo_env) (be_rollback_save demo_env) (bs_rollback demo_store) t d 3 3 3 =
      (Inr st, RbStored st)" for t d
    by (simp add: check_and_update_tuf_def demo_env_def demo_store_def default_rollback_state_def rb_save_def Let_def)
  then obtain st where rb': "check_and_update_tuf (be_now demo_env) (be_rollback_save demo_env) (bs_rollback demo_store)
      (tenant_id demo_agent) (device_id demo_agent) 3 3 3 = (Inr st, RbStored st)" by blast
  show ?thesis
    using demo_stage_cloud [of "\<lparr>root_version = 3, snapshot_version = 3, timestamp_version = 3,
        targets_metadata = json_index demo_doc ''signed''\<rparr>" "final_merge json_empty json_empty" "RbStored st"]
    by (auto simp: run_pipeline_def demo_not_local roles rb' Let_def tgts demo_fetch_targets demo_fetch_config ok
        simp del: fetch_targets.simps)
qed

theorem pipeline_authentic_witness:
  "\<exists>root. role_vouched demo_env demo_agent root"
proof -
  from demo_run obtain c p s where r: "run_pipeline demo_env demo_agent demo_store = (Inr (c, p), s)" by blast
  have "\<not> be_debug_assertions demo_env" by (simp add: demo_env_def)
  from pipeline_authentic [OF r demo_not_local this] show ?thesis by blast
qed

text \<open>
  The staged bundle holds exactly the verified bytes: when the pipeline succeeds and the target names
  are relative and none is \<open>manifest.json\<close>, the returned path is the manifest of the bundle directory of
  these versions, that file is the printed merged configuration, and every artifact's last downloaded
  bytes are at its name in that directory.
\<close>

lemma pipeline_staged:
  assumes "run_pipeline env agent store = (Inr (cfg, path), store')" and "tenant_id agent \<noteq> ''local''"
    and "fetch_roles env agent tuf_roles tuf_init = Inr m"
    and "json_get (targets_metadata m) ''targets'' = Some (JObj targets)"
    and "fetch_targets env agent targets json_empty [] = Inr (merged, raw)"
    and "\<forall>a\<in>set raw. relative (fst a) \<and> fst a \<noteq> ''manifest.json''"
  shows "\<exists>payload dir. dir = path_join (bundles_dir env) (''bundle_'' @ bundle_version_of m) \<and>
    path = dir @ ''/manifest.json'' \<and> be_to_pretty env (final_merge cfg merged) = Inr payload \<and>
    map_of (bs_files store') path = Some payload \<and>
    (\<forall>f c. map_of (rev raw) f = Some c \<longrightarrow> map_of (bs_files store') (dir @ ''/'' @ f) = Some c)"
proof -
  from run_pipeline_Inr [OF assms(1,2)] assms(3-5) obtain rb where
    g: "stage_cloud env m (final_merge cfg merged) raw (store\<lparr>bs_rollback := rb\<rparr>) = (Inr path, store')"
    by (metis Inr_inject json.inject(6) option.inject prod.inject)
  let ?b = "path_join (bundles_dir env) (''bundle_'' @ bundle_version_of m)"
  let ?a = "path_join (bundles_dir env) (''staging_bundle_'' @ bundle_version_of m)"
  from stage_cloud_Inr [OF g] obtain payload fs where
    p: "be_to_pretty env (final_merge cfg merged) = Inr payload" and fs': "store' = store\<lparr>bs_rollback := rb, bs_files := fs\<rparr>"
    and s: "stage env ?a ?b ((''manifest.json'', payload) # raw) (bs_files (store\<lparr>bs_rollback := rb\<rparr>)) = (Inr path, fs)" .
  from fs' have fs: "bs_files store' = fs" by simp
  have rel: "\<forall>e\<in>set ((''manifest.json'', payload) # raw). relative (fst e)"
    using assms(6) by (simp add: relative_def starts_with_def)
  have nu: "\<not> fs_under ?b (?a @ CHR ''/'' # f)" for f
    by (simp add: path_join_def fs_under_def starts_with_prefix)
  have "map_of (rev raw) ''manifest.json'' = None"
    using assms(6) by (auto simp: map_of_eq_None_iff)
  then have "map_of (rev ((''manifest.json'', payload) # raw)) ''manifest.json'' = Some payload"
    by (simp add: map_add_def)
  from stage_lookup [OF s rel nu this]
  have "map_of fs (?b @ ''/manifest.json'') = Some payload" and "path = ?b @ ''/manifest.json''"
    by (simp_all add: path_join_relative relative_def starts_with_def)
  moreover have "map_of fs (?b @ ''/'' @ f) = Some c" if "map_of (rev raw) f = Some c" for f c
  proof -
    have "map_of (rev ((''manifest.json'', payload) # raw)) f = Some c" using that by (simp add: map_add_def)
    from stage_lookup [OF s rel nu this] show ?thesis by simp
  qed
  ultimately show ?thesis using p fs by blast
qed

lemma fetch_roles_error: "fetch_roles env agent roles m = Inl e \<Longrightarrow> (\<exists>s. e = OtherError s) \<or> (\<exists>r d. e = SignatureRejected r d)"
  by (induction roles arbitrary: m)
     (auto simp: fetch_role_def split: sum.splits if_splits verify_outcome.splits)

lemma fetch_artifact_error: "fetch_artifact env agent h = Inl e \<Longrightarrow> \<exists>s. e = OtherError s"
  by (auto simp: fetch_artifact_def split: sum.splits if_splits)

lemma fetch_targets_error: "fetch_targets env agent tgts j raw = Inl e \<Longrightarrow> \<exists>s. e = OtherError s"
  by (induction tgts arbitrary: j raw)
     (auto dest: fetch_artifact_error split: sum.splits if_splits option.splits)

lemma fetch_config_error: "fetch_config env agent = Inl e \<Longrightarrow> \<exists>s. e = OtherError s"
  by (auto simp: fetch_config_def split: sum.splits)

lemma stage_error: "stage env a b es fs = (Inl e, fs') \<Longrightarrow> \<exists>s. e = OtherError s"
  by (auto simp: stage_def split: sum.splits prod.splits)

lemma stage_cloud_error: "stage_cloud env m j raw store = (Inl e, store') \<Longrightarrow> \<exists>s. e = OtherError s"
  by (auto simp: stage_cloud_def Let_def dest: stage_error split: sum.splits prod.splits option.splits)

lemma fetch_local_artifacts_error:
  "fetch_local_artifacts env agent d as j fs = (Inl e, fs') \<Longrightarrow> \<exists>s. e = OtherError s"
  by (induction as arbitrary: j fs)
     (auto simp: Let_def dest: fetch_artifact_error split: sum.splits if_splits option.splits)

lemma fetch_local_manifest_error: "fetch_local_manifest env agent = Inl e \<Longrightarrow> \<exists>s. e = OtherError s"
  by (auto simp: fetch_local_manifest_def split: sum.splits if_splits option.splits verify_outcome.splits)

lemmas other_error = fetch_targets_error fetch_config_error stage_error stage_cloud_error
  fetch_local_artifacts_error fetch_local_manifest_error

lemma run_pipeline_local_error: "run_pipeline_local env agent store = (Inl e, store') \<Longrightarrow> \<exists>s. e = OtherError s"
  by (auto simp: run_pipeline_local_def Let_def dest: other_error split: sum.splits prod.splits option.splits)

text \<open>A refused check keeps the state file, unless it would have passed and its write was cut short.\<close>

lemma check_refuses:
  assumes "check_and_update_tuf now io file t d r s ts = (Inl e, rb)"
  shows "rb = file \<or> (\<exists>w p st. io = Some (SaveTorn w p) \<and> rb = RbCorrupt p \<and> check_and_update_tuf now None file t d r s ts = (Inr st, RbStored st))"
  using assms by (auto simp: check_and_update_tuf_def rb_save_def Let_def split: sum.splits if_splits option.splits save_fault.splits)

text \<open>
  C24. A rejected update leaves the installed bundle alone: when a metadata document is not vouched for, the store is exactly
  as before; and when the versions are refused, no file of the bundle directory and no link is touched and the stored
  versions stay. The pipeline gives the same error when writing acceptable versions fails, and then a write
  cut short leaves a state file that does not parse.
\<close>

theorem pipeline_rejection_frame:
  assumes "run_pipeline env agent store = (Inl e, store')"
  shows "(\<forall>role detail. e = SignatureRejected role detail \<longrightarrow> store' = store) \<and>
    (\<forall>c i. e = RollbackBlocked c i \<longrightarrow> bs_files store' = bs_files store \<and> bs_latest store' = bs_latest store \<and>
       (bs_rollback store' = bs_rollback store \<or>
        (\<exists>m w p st. fetch_roles env agent tuf_roles tuf_init = Inr m \<and>
           check_and_update_tuf (be_now env) None (bs_rollback store) (tenant_id agent) (device_id agent)
             (root_version m) (snapshot_version m) (timestamp_version m) = (Inr st, RbStored st) \<and>
           be_rollback_save env = Some (SaveTorn w p) \<and> bs_rollback store' = RbCorrupt p)))"
proof (cases "tenant_id agent = ''local''")
  case True
  with assms run_pipeline_local_error show ?thesis by (fastforce simp: run_pipeline_def)
next
  case False
  show ?thesis
  proof (cases "fetch_roles env agent tuf_roles tuf_init")
    case (Inl e')
    with assms False fetch_roles_error [of env agent tuf_roles tuf_init e'] show ?thesis by (auto simp: run_pipeline_def)
  next
    case (Inr m)
    obtain r rb where c: "check_and_update_tuf (be_now env) (be_rollback_save env) (bs_rollback store)
        (tenant_id agent) (device_id agent) (root_version m) (snapshot_version m) (timestamp_version m) = (r, rb)"
      by (meson surj_pair)
    show ?thesis
    proof (cases r)
      case (Inl x)
      then have "e = RollbackBlocked 0 (root_version m)" "store' = store\<lparr>bs_rollback := rb\<rparr>"
        using assms False Inr c by (simp_all add: run_pipeline_def)
      then show ?thesis using check_refuses [OF c [unfolded Inl]] Inr by auto
    next
      case (Inr st)
      with assms False \<open>fetch_roles env agent tuf_roles tuf_init = Inr m\<close> c have "\<exists>s. e = OtherError s"
        by (auto simp: run_pipeline_def Let_def dest!: other_error
            split: option.splits sum.splits prod.splits if_splits)
      then show ?thesis by auto
    qed
  qed
qed

theorem pipeline_rejection_frame_witness:
  "\<exists>r d. run_pipeline (demo_env\<lparr>be_from_slice := \<lambda>_. Inr JNull\<rparr>) demo_agent demo_store =
     (Inl (SignatureRejected r d), demo_store)"
proof -
  let ?env = "demo_env\<lparr>be_from_slice := \<lambda>_. Inr JNull\<rparr>"
  have "fetch_role ?env demo_agent ''root'' = Inl (SignatureRejected ''root'' ''NoValidSignature'')"
    by (simp add: fetch_role_def agent_get_def demo_env_def read_json_def is_success_def verify_def
        usable_keys_def demo_agent_def agent_new_def from_single_pinned_def key_usable_def
        json_index_def parse_signatures_def)
  then have r: "fst (run_pipeline ?env demo_agent demo_store) = Inl (SignatureRejected ''root'' ''NoValidSignature'')"
    by (simp add: run_pipeline_def demo_not_local tuf_roles_def)
  then obtain s where s: "run_pipeline ?env demo_agent demo_store = (Inl (SignatureRejected ''root'' ''NoValidSignature''), s)"
    by (metis prod.collapse)
  with pipeline_rejection_frame [OF s] show ?thesis by auto
qed

text \<open>
  The version of the targets document is never checked: when root, timestamp and snapshot are
  vouched for and not older than the stored versions, the update is not refused as a rollback whatever the
  version of the targets document is, so any targets document that was once signed is accepted again.
\<close>

lemma targets_rollback_unchecked:
  assumes "tenant_id agent \<noteq> ''local''" and "be_rollback_save env = None"
    and "bs_rollback store = RbStored b" and "rb_tenant_id b \<in> {[], tenant_id agent}"
    and "rb_device_id b \<in> {[], device_id agent}"
    and "fetch_role env agent ''root'' = Inr r" and "highest_root_version b \<le> version_of r"
    and "fetch_role env agent ''timestamp'' = Inr t" and "highest_timestamp_version b \<le> version_of t"
    and "fetch_role env agent ''snapshot'' = Inr s" and "highest_snapshot_version b \<le> version_of s"
    and "fetch_role env agent ''targets'' = Inr g" and "version_of g < v"
  shows "fst (run_pipeline env agent store) \<noteq> Inl (RollbackBlocked c i) \<and>
    (\<exists>st. bs_rollback (snd (run_pipeline env agent store)) = RbStored st \<and> highest_root_version st = version_of r)"
proof -
  let ?m = "\<lparr>root_version = version_of r, snapshot_version = version_of s, timestamp_version = version_of t,
     targets_metadata = g\<rparr>"
  have roles: "fetch_roles env agent tuf_roles tuf_init = Inr ?m"
    using assms by (simp add: tuf_roles_def tuf_set_def tuf_init_def)
  have "\<exists>st. check_and_update_tuf (be_now env) None (RbStored b) (tenant_id agent) (device_id agent)
      (version_of r) (version_of s) (version_of t) = (Inr st, RbStored st) \<and> highest_root_version st = version_of r"
    using assms(4,5,7,9,11) by (auto simp: check_and_update_tuf_def rb_save_def Let_def not_less)
  then obtain st where st: "check_and_update_tuf (be_now env) None (RbStored b) (tenant_id agent) (device_id agent)
      (version_of r) (version_of s) (version_of t) = (Inr st, RbStored st)" "highest_root_version st = version_of r"
    by blast
  have keep: "stage_cloud env m j raw x = (q, y) \<Longrightarrow> bs_rollback y = bs_rollback x" for m j raw x q y
    by (auto simp: stage_cloud_def Let_def split: option.splits sum.splits prod.splits)
  show ?thesis
    using assms(1-3) roles st unfolding run_pipeline_def Let_def
    by (auto dest: other_error keep split: option.splits sum.splits prod.splits)
qed

lemma fetch_local_artifacts_match:
  "fetch_local_artifacts env agent d as j fs = (Inr j', fs') \<Longrightarrow> a \<in> set as \<Longrightarrow>
   \<exists>bytes. fetch_artifact env agent (ba_sha256 a) = Inr bytes \<and> be_sha256_hex env bytes = ba_sha256 a"
  by (induction as arbitrary: j fs) (auto simp: Let_def split: sum.splits if_splits option.splits)

lemma fetch_local_manifest_vouched:
  "fetch_local_manifest env agent = Inr manifest \<Longrightarrow>
   \<exists>bytes k e. be_bundle_jcs env manifest = Inr bytes \<and> k \<in> set (key_set agent) \<and>
      vouches (be_crypto env) (be_now env) bytes k e"
  unfolding fetch_local_manifest_def
  by (auto split: sum.splits if_splits option.splits verify_outcome.splits dest!: verify_Valid_key)

text \<open>
  Local mode: what it accepts carries the signature of a usable trusted key over the canonical
  manifest and every artifact has the hash that manifest lists; but the anti-rollback state is neither
  read nor written, so an older signed manifest is accepted.
\<close>

lemma local_pipeline_authentic:
  assumes "tenant_id agent = ''local''" and "run_pipeline env agent store = (Inr (cfg, path), store')"
  shows "(\<exists>manifest bytes k e. be_bundle_jcs env manifest = Inr bytes \<and> k \<in> set (key_set agent) \<and>
      vouches (be_crypto env) (be_now env) bytes k e \<and>
      (\<forall>a. a \<in> set (pb_artifacts manifest) \<longrightarrow> (\<exists>b. fetch_artifact env agent (ba_sha256 a) = Inr b \<and>
         be_sha256_hex env b = ba_sha256 a))) \<and>
    bs_rollback store' = bs_rollback store \<and>
    run_pipeline env agent (store\<lparr>bs_rollback := rb\<rparr>) = (Inr (cfg, path), store'\<lparr>bs_rollback := rb\<rparr>)"
proof -
  from assms obtain manifest where m: "fetch_local_manifest env agent = Inr manifest"
    by (auto simp: run_pipeline_def run_pipeline_local_def split: sum.splits)
  with assms obtain d j fs where "fetch_local_artifacts env agent d (pb_artifacts manifest) json_empty (bs_files store) = (Inr j, fs)"
    by (auto simp: run_pipeline_def run_pipeline_local_def Let_def split: sum.splits option.splits prod.splits)
  from fetch_local_artifacts_match [OF this] fetch_local_manifest_vouched [OF m]
  have "\<exists>manifest bytes k e. be_bundle_jcs env manifest = Inr bytes \<and> k \<in> set (key_set agent) \<and>
      vouches (be_crypto env) (be_now env) bytes k e \<and>
      (\<forall>a. a \<in> set (pb_artifacts manifest) \<longrightarrow> (\<exists>b. fetch_artifact env agent (ba_sha256 a) = Inr b \<and>
         be_sha256_hex env b = ba_sha256 a))" by blast
  moreover have "bs_rollback store' = bs_rollback store"
    using assms by (auto simp: run_pipeline_def run_pipeline_local_def Let_def
        split: sum.splits option.splits prod.splits)
  moreover have "run_pipeline env agent (store\<lparr>bs_rollback := rb\<rparr>) = (Inr (cfg, path), store'\<lparr>bs_rollback := rb\<rparr>)"
    using assms by (auto simp: run_pipeline_def run_pipeline_local_def Let_def
        split: sum.splits option.splits prod.splits)
  ultimately show ?thesis by blast
qed

definition demo_manifest :: pollek_policy_bundle where
  "demo_manifest = \<lparr>api_version = ''v1'', pb_kind = ''PolicyBundle'',
     pb_metadata = \<lparr>bm_bundle_id = ''b'', bm_tenant = ''local'', bm_version = ''1'', bm_created_at = [], bm_created_by = []\<rparr>,
     pb_compatibility = \<lparr>min_dek_version = ''1'', required_crates = [], required_pep_types = [],
       required_os_modules = \<lparr>os_linux = [], os_windows = [], os_macos = []\<rparr>\<rparr>,
     pb_artifacts = [], pb_activation = \<lparr>ac_strategy = ''full'', rollback_on_failure = True,
       health_check_timeout_ms = 0, shadow_before_enforce_seconds = 0\<rparr>\<rparr>"

definition demo_local_env :: "unit bundle_env" where
  "demo_local_env = demo_env\<lparr>be_bundle_from_value := \<lambda>_. Inr demo_manifest, be_bundle_jcs := \<lambda>_. Inr ''m'',
     be_from_slice := \<lambda>_. Inr (JObj [(''manifest'', JNull), (''signatures'', JArr [JObj [(''sig'', JStr ''AA'')]])])\<rparr>"

lemma demo_local_run:
  "\<exists>c p s. run_pipeline demo_local_env (demo_agent\<lparr>tenant_id := ''local''\<rparr>) demo_store = (Inr (c, p), s)"
proof -
  let ?ag = "demo_agent\<lparr>tenant_id := ''local''\<rparr>"
  have m: "fetch_local_manifest demo_local_env ?ag = Inr demo_manifest"
    by (simp add: fetch_local_manifest_def agent_get_def demo_local_env_def demo_env_def read_json_def is_success_def
        verify_def usable_keys_def demo_agent_def agent_new_def from_single_pinned_def key_usable_def
        candidates_def demo_crypto_def verifying_key_def parse_signatures_def parse_signature_def
        or_else_def List.map_filter_def)
  have c: "fetch_config demo_local_env ?ag = Inr json_empty"
    by (simp add: fetch_config_def agent_get_def demo_local_env_def demo_env_def)
  have s: "\<exists>p fs. stage demo_local_env a b [(''manifest.json'', x)] [] = (Inr p, fs)" if "\<not> fs_under b (a @ ''/manifest.json'')" for a b x
    using that by (simp add: stage_def promote_def demo_local_env_def demo_env_def Let_def fs_write_def fs_remove_dir_def
        path_join_relative relative_def starts_with_def split: prod.splits)
  have "\<not> fs_under (path_join (bundles_dir demo_local_env) ''bundle_1'')
      (path_join (bundles_dir demo_local_env) ''staging_b'' @ ''/manifest.json'')"
    by (simp add: path_join_def fs_under_def starts_with_prefix)
  from s [OF this] obtain p fs where "stage demo_local_env (path_join (bundles_dir demo_local_env) ''staging_b'')
      (path_join (bundles_dir demo_local_env) ''bundle_1'') [(''manifest.json'', ''{}'')] [] = (Inr p, fs)" by blast
  moreover have "be_to_pretty demo_local_env j = Inr ''{}''" "be_io demo_local_env q = None" for j q
    by (simp_all add: demo_local_env_def demo_env_def)
  ultimately show ?thesis
    by (simp add: run_pipeline_def run_pipeline_local_def m c Let_def demo_manifest_def demo_store_def)
qed

end
