(* ===== verification/Audit_Trail.thy ===== *)
theory Audit_Trail
  imports Json_Value
begin

text \<open>
  \<^verbatim>\<open>src/crates/dek-policy-syncer/src/audit.rs\<close>: the hash-chained audit trail. SHA-256 (in hexadecimal)
  and the JSON printer are parameters. \<^verbatim>\<open>emit\<close> is not atomic: it takes a sequence number, reads the
  previous digest, stores the new one and hands the event to the sink in separate steps, and three tasks
  of the syncer call it, so it is a small program whose steps can interleave with those of other calls.
  The digest lock is held only for a clone or an assignment, so it is never poisoned.
\<close>

datatype priority = PHigh | PCritical

record audit_trail =
  at_sink :: bool
  at_seq :: u64
  prev_digest :: string
  at_device_id :: string
  at_tenant_id :: string
  at_emitted :: "(json \<times> priority) list"

record audit_env =
  ae_sha256_hex :: "string \<Rightarrow> string"
  ae_to_vec :: "json \<Rightarrow> string"

definition audit_new :: "bool \<Rightarrow> string \<Rightarrow> string \<Rightarrow> audit_trail" where
  "audit_new sink device tenant = \<lparr>at_sink = sink, at_seq = 0, prev_digest = ''genesis'',
     at_device_id = device, at_tenant_id = tenant, at_emitted = []\<rparr>"

subsection \<open>Emitting an event\<close>

record emit_request =
  rq_type :: string
  rq_severity :: string
  rq_payload :: "(string \<times> json) list"
  rq_priority :: priority
  rq_now :: nat

definition event_payload :: "audit_trail \<Rightarrow> emit_request \<Rightarrow> u64 \<Rightarrow> string \<Rightarrow> json" where
  "event_payload a rq sq prev =
     json_insert_all (JObj (rq_payload rq))
       [(''event_type'', JStr ''audit''), (''action'', JStr (rq_type rq)), (''severity'', JStr (rq_severity rq)),
        (''timestamp'', JStr (''unix:'' @ show_nat (rq_now rq))), (''seq'', JInt (uint sq)),
        (''prev_digest'', JStr prev), (''device_id'', JStr (at_device_id a)),
        (''tenant_id'', JStr (at_tenant_id a))]"

definition chain_digest :: "audit_env \<Rightarrow> string \<Rightarrow> json \<Rightarrow> string" where
  "chain_digest env prev payload = ''sha256:'' @ ae_sha256_hex env (prev @ ae_to_vec env payload)"

text \<open>Where a call of \<^verbatim>\<open>emit\<close> is: before taking its number, before reading the digest, before storing the
  new digest, before handing over the event, done.\<close>

datatype emit_pc =
    EStart emit_request
  | ENumbered emit_request u64
  | ELinked emit_request u64 string
  | EStored json priority
  | EDone

fun emit_step :: "audit_env \<Rightarrow> emit_pc \<Rightarrow> audit_trail \<Rightarrow> emit_pc \<times> audit_trail" where
  "emit_step env (EStart rq) a = (ENumbered rq (at_seq a), a\<lparr>at_seq := at_seq a + 1\<rparr>)"
| "emit_step env (ENumbered rq sq) a = (ELinked rq sq (prev_digest a), a)"
| "emit_step env (ELinked rq sq prev) a =
     (let payload = event_payload a rq sq prev
      in (EStored payload (rq_priority rq), a\<lparr>prev_digest := chain_digest env prev payload\<rparr>))"
| "emit_step env (EStored payload pri) a =
     (EDone, if at_sink a then a\<lparr>at_emitted := at_emitted a @ [(payload, pri)]\<rparr> else a)"
| "emit_step env EDone a = (EDone, a)"

definition emit :: "audit_env \<Rightarrow> audit_trail \<Rightarrow> emit_request \<Rightarrow> audit_trail" where
  "emit env a rq =
     (let (p1, a1) = emit_step env (EStart rq) a; (p2, a2) = emit_step env p1 a1;
          (p3, a3) = emit_step env p2 a2; (p4, a4) = emit_step env p3 a3
      in a4)"

text \<open>Several calls at once: a schedule names which call moves next.\<close>

primrec run_schedule :: "audit_env \<Rightarrow> nat list \<Rightarrow> emit_pc list \<Rightarrow> audit_trail \<Rightarrow> emit_pc list \<times> audit_trail" where
  "run_schedule env [] ps a = (ps, a)"
| "run_schedule env (i # is) ps a =
     (if i < length ps then
        let (p, a') = emit_step env (ps ! i) a in run_schedule env is (ps[i := p]) a'
      else run_schedule env is ps a)"

subsection \<open>Event constructors\<close>

definition sync_success :: "string \<Rightarrow> string \<Rightarrow> string \<Rightarrow> nat \<Rightarrow> emit_request" where
  "sync_success version kid signature_digest now = \<lparr>rq_type = ''policy.sync.success'', rq_severity = ''info'',
     rq_payload = [(''bundle_version'', JStr version), (''signing_key_id'', JStr kid),
       (''signature_digest'', JStr signature_digest), (''result'', JStr ''success'')],
     rq_priority = PHigh, rq_now = now\<rparr>"

definition unsigned_bundle_rejected :: "string \<Rightarrow> string \<Rightarrow> nat \<Rightarrow> emit_request" where
  "unsigned_bundle_rejected role reason now = \<lparr>rq_type = ''policy.sync.rejected'', rq_severity = ''critical'',
     rq_payload = [(''role'', JStr role), (''reason'', JStr reason), (''result'', JStr ''rejected'')],
     rq_priority = PCritical, rq_now = now\<rparr>"

definition rollback_blocked :: "u64 \<Rightarrow> u64 \<Rightarrow> nat \<Rightarrow> emit_request" where
  "rollback_blocked current_gen incoming_gen now = \<lparr>rq_type = ''policy.sync.rejected'', rq_severity = ''critical'',
     rq_payload = [(''reason'', JStr ''anti_rollback''), (''current_generation'', JInt (uint current_gen)),
       (''incoming_generation'', JInt (uint incoming_gen)), (''result'', JStr ''rejected'')],
     rq_priority = PCritical, rq_now = now\<rparr>"

definition activated :: "string \<Rightarrow> string \<Rightarrow> nat \<Rightarrow> emit_request" where
  "activated version mode now = \<lparr>rq_type = ''policy.activate'', rq_severity = ''info'',
     rq_payload = [(''bundle_version'', JStr version), (''mode'', JStr mode), (''result'', JStr ''success'')],
     rq_priority = PHigh, rq_now = now\<rparr>"

definition state_change :: "string \<Rightarrow> string \<Rightarrow> string \<Rightarrow> nat \<Rightarrow> emit_request" where
  "state_change src dst reason now = \<lparr>rq_type = ''policy.enforcement.state_change'',
     rq_severity = (if dst = ''strict_deny'' then ''critical'' else ''warning''),
     rq_payload = [(''from'', JStr src), (''to'', JStr dst), (''reason'', JStr reason)],
     rq_priority = (if dst = ''strict_deny'' then PCritical else PHigh), rq_now = now\<rparr>"

definition key_rotation :: "string list \<Rightarrow> string list \<Rightarrow> string list \<Rightarrow> nat \<Rightarrow> emit_request" where
  "key_rotation add promo revo now = \<lparr>rq_type = ''policy.key_rotation'', rq_severity = ''warning'',
     rq_payload = [(''added_key_ids'', JArr (map JStr add)), (''promoted_key_ids'', JArr (map JStr promo)),
       (''revoked_key_ids'', JArr (map JStr revo))],
     rq_priority = PHigh, rq_now = now\<rparr>"

subsection \<open>The chain\<close>

text \<open>What a collector checks: numbers count up by one and each event carries the digest of the one
  before it.\<close>

fun chain_ok :: "audit_env \<Rightarrow> u64 \<Rightarrow> string \<Rightarrow> (json \<times> priority) list \<Rightarrow> bool" where
  "chain_ok env sq prev [] = True"
| "chain_ok env sq prev ((e, _) # es) \<longleftrightarrow>
     json_get e ''seq'' = Some (JInt (uint sq)) \<and> json_get e ''prev_digest'' = Some (JStr prev) \<and>
     chain_ok env (sq + 1) (chain_digest env prev e) es"

lemma event_payload_fields:
  "json_get (event_payload a rq sq prev) ''seq'' = Some (JInt (uint sq))"
  "json_get (event_payload a rq sq prev) ''prev_digest'' = Some (JStr prev)"
  by (simp_all add: event_payload_def json_get_insert_all del: json_insert_all_Cons)

lemma emit_eq:
  "emit env a rq = (let e = event_payload a rq (at_seq a) (prev_digest a)
     in a\<lparr>at_seq := at_seq a + 1, prev_digest := chain_digest env (prev_digest a) e,
          at_emitted := (if at_sink a then at_emitted a @ [(e, rq_priority rq)] else at_emitted a)\<rparr>)"
  by (simp add: emit_def Let_def event_payload_def)

lemma chain_ok_append:
  "chain_ok env sq prev (es @ [(e, p)]) \<longleftrightarrow> chain_ok env sq prev es \<and>
     json_get e ''seq'' = Some (JInt (uint (sq + of_nat (length es)))) \<and>
     json_get e ''prev_digest'' = Some (JStr (foldl (chain_digest env) prev (map fst es)))"
  by (induction es arbitrary: sq prev) (auto simp: algebra_simps)

definition chain_inv :: "audit_env \<Rightarrow> audit_trail \<Rightarrow> bool" where
  "chain_inv env a \<longleftrightarrow> at_sink a \<and> chain_ok env 0 ''genesis'' (at_emitted a) \<and>
     at_seq a = of_nat (length (at_emitted a)) \<and>
     prev_digest a = foldl (chain_digest env) ''genesis'' (map fst (at_emitted a))"

lemma chain_inv_emit: "chain_inv env a \<Longrightarrow> chain_inv env (emit env a rq)"
  by (auto simp: chain_inv_def emit_eq Let_def chain_ok_append event_payload_fields add.commute)

interpretation audit_sys: invariant_system "\<lambda>a. \<exists>d t. a = audit_new True d t"
  "\<lambda>a a'. \<exists>rq. a' = emit env a rq" "chain_inv env" for env
  by unfold_locales (auto simp: chain_inv_emit, auto simp: chain_inv_def audit_new_def)

lemma emits_steps: "(\<lambda>a a'. \<exists>rq. a' = emit env a rq)\<^sup>*\<^sup>* a (foldl (emit env) a rqs)"
  by (induction rqs rule: rev_induct) (auto intro: rtranclp.rtrancl_into_rtrancl)

lemma chain_inv_emits: "chain_inv env (foldl (emit env) (audit_new True d t) rqs)"
  by (rule audit_sys.inv_reachable [OF _ emits_steps]) blast

subsection \<open>Properties\<close>

text \<open>
  Sequential emission keeps the chain: whatever events are emitted one after the other, the collector's
  check passes on the whole trail, and the trail has exactly one event per call.
\<close>

lemma audit_chain_sequential:
  "chain_ok env 0 ''genesis'' (at_emitted (foldl (emit env) (audit_new True d t) rqs)) \<and>
   length (at_emitted (foldl (emit env) (audit_new True d t) rqs)) = length rqs"
proof
  show "chain_ok env 0 ''genesis'' (at_emitted (foldl (emit env) (audit_new True d t) rqs))"
    using chain_inv_emits [of env d t rqs] by (simp add: chain_inv_def)
  have "at_sink a \<Longrightarrow> length (at_emitted (foldl (emit env) a rqs)) = length (at_emitted a) + length rqs" for a
    by (induction rqs arbitrary: a) (auto simp: emit_eq Let_def)
  then show "length (at_emitted (foldl (emit env) (audit_new True d t) rqs)) = length rqs"
    by (simp add: audit_new_def)
qed

text \<open>
  Two calls at once can fork the chain: if the second call reads the previous digest before the first
  stores its own, both events carry the same previous digest and the collector's check fails, whatever
  the hash function and the events are.
\<close>

lemma audit_chain_forks:
  "\<exists>schedule. fst (run_schedule env schedule [EStart r, EStart q] (audit_new True d t)) = [EDone, EDone] \<and>
     \<not> chain_ok env 0 ''genesis'' (at_emitted (snd (run_schedule env schedule [EStart r, EStart q] (audit_new True d t))))"
  by (rule exI [of _ "[0, 1, 0, 1, 0, 1, 0, 1]"])
     (simp add: Let_def audit_new_def event_payload_fields chain_digest_def)

end
