(* ===== verification/Enforcement_State.thy ===== *)
theory Enforcement_State
  imports Pollek_Prelude
begin

text \<open>
  \<^verbatim>\<open>src/crates/dek-policy-syncer/src/state.rs\<close> (the freshness decision and the cross-process status
  file) and \<^verbatim>\<open>gate.rs\<close> (the gate the enforcement point consults before evaluating policy).

  The status file is what a reader gets from it: \<open>None\<close> when it is absent, unreadable or does not
  parse. The gate's static cache and the poisoned flag of its mutex are one record.
\<close>

subsection \<open>Freshness\<close>

datatype enforcement_state =
    Active int
  | GracePeriod int string
  | StrictDeny int string

fun is_strict_deny :: "enforcement_state \<Rightarrow> bool" where
  "is_strict_deny (StrictDeny _ _) = True"
| "is_strict_deny _ = False"

fun state_label :: "enforcement_state \<Rightarrow> string" where
  "state_label (Active _) = ''active''"
| "state_label (GracePeriod _ _) = ''grace''"
| "state_label (StrictDeny _ _) = ''strict_deny''"

fun gauge :: "enforcement_state \<Rightarrow> f64" where
  "gauge (Active _) = 0"
| "gauge (GracePeriod _ _) = 1"
| "gauge (StrictDeny _ _) = 2"

fun state_reason :: "enforcement_state \<Rightarrow> string" where
  "state_reason (Active _) = ''active''"
| "state_reason (GracePeriod _ r) = r"
| "state_reason (StrictDeny _ r) = r"

record freshness_config =
  max_bundle_age_secs :: int
  grace_secs :: int

definition default_freshness_config :: freshness_config where
  "default_freshness_config = \<lparr>max_bundle_age_secs = 86400, grace_secs = 600\<rparr>"

definition evaluate_state :: "int \<Rightarrow> int option \<Rightarrow> int option \<Rightarrow> freshness_config \<Rightarrow> enforcement_state" where
  "evaluate_state now_unix bundle_expires_at_unix last_sync_unix cfg =
     (case bundle_expires_at_unix of
        None \<Rightarrow> StrictDeny now_unix ''no_bundle_cold_start''
      | Some expires \<Rightarrow>
          let last_sync = (case last_sync_unix of Some v \<Rightarrow> v | None \<Rightarrow> 0);
              sync_age = i64_saturating_sub now_unix last_sync
          in if sync_age > max_bundle_age_secs cfg
             then StrictDeny now_unix (''max_bundle_age_exceeded('' @ show_int sync_age @ ''s>'' @
                    show_int (max_bundle_age_secs cfg) @ ''s)'')
             else if now_unix \<le> expires then Active expires
             else if now_unix \<le> i64_wrap (expires + grace_secs cfg)
             then GracePeriod (i64_wrap (expires + grace_secs cfg)) ''bundle_expired_grace''
             else StrictDeny now_unix ''bundle_expired_beyond_grace'')"

subsection \<open>Status file\<close>

record enforcement_status =
  es_state :: enforcement_state
  es_updated_unix :: int
  es_bundle_version :: "string option"

subsection \<open>Gate\<close>

record gate_cache =
  fetched_at :: instant
  deny_reason :: "string option"

record gate =
  cache :: "gate_cache option"
  cache_poisoned :: bool

abbreviation refresh :: duration where "refresh \<equiv> 1000000000"

fun deny_of :: "enforcement_status option \<Rightarrow> string option" where
  "deny_of (Some st) = (case es_state st of
       StrictDeny _ reason \<Rightarrow> Some reason | Active _ \<Rightarrow> None | GracePeriod _ _ \<Rightarrow> None)"
| "deny_of None = Some ''enforcement_status_unavailable''"

definition strict_deny_reason :: "gate \<Rightarrow> enforcement_status option \<Rightarrow> instant \<Rightarrow> string option \<times> gate" where
  "strict_deny_reason g read_status now =
     (if cache_poisoned g then (None, g)
      else
        let fresh = (case cache g of Some c \<Rightarrow> now - fetched_at c < refresh | None \<Rightarrow> False);
            g' = (if fresh then g else g\<lparr>cache := Some \<lparr>fetched_at = now, deny_reason = deny_of read_status\<rparr>\<rparr>)
        in (Option.bind (cache g') deny_reason, g'))"

definition invalidate_cache :: "gate \<Rightarrow> gate" where
  "invalidate_cache g = (if cache_poisoned g then g else g\<lparr>cache := None\<rparr>)"

definition gate_new :: gate where
  "gate_new = \<lparr>cache = None, cache_poisoned = False\<rparr>"

text \<open>A run of the gate: each call reads what the status file holds at that time.\<close>

primrec gate_run :: "(instant \<Rightarrow> enforcement_status option) \<Rightarrow> gate \<Rightarrow> instant list \<Rightarrow> gate" where
  "gate_run file g [] = g"
| "gate_run file g (t # ts) = gate_run file (snd (strict_deny_reason g (file t) t)) ts"

definition gate_inv :: "(instant \<Rightarrow> enforcement_status option) \<Rightarrow> instant \<Rightarrow> gate \<Rightarrow> bool" where
  "gate_inv file now g \<longleftrightarrow> \<not> cache_poisoned g \<and>
     (\<forall>c. cache g = Some c \<longrightarrow> fetched_at c \<le> now \<and> deny_reason c = deny_of (file (fetched_at c)))"

lemma gate_inv_check: "gate_inv file t g \<Longrightarrow> t \<le> now \<Longrightarrow> gate_inv file now (snd (strict_deny_reason g (file now) now))"
  by (auto simp: gate_inv_def strict_deny_reason_def Let_def split: option.splits)

lemma gate_inv_run:
  "gate_inv file t g \<Longrightarrow> sorted (t # ts) \<Longrightarrow> gate_inv file (last (t # ts)) (gate_run file g ts)"
proof (induction ts arbitrary: t g)
  case (Cons u ts)
  then have "gate_inv file u (snd (strict_deny_reason g (file u) u))" by (simp add: gate_inv_check)
  from Cons.IH [OF this] Cons.prems(2) show ?case by simp
qed simp

subsection \<open>Properties\<close>

text \<open>
  Freshness is exact: with a grace period that does not overflow, enforcement is strictly denied
  exactly when there is no bundle, or the last successful sync is older than the maximum age, or the
  bundle's expiry plus the grace period has passed; it is in grace exactly between expiry and that
  deadline, and active otherwise.
\<close>

lemma evaluate_state_exact:
  assumes "i64_range now" and "i64_range (now - synced)" and "0 \<le> grace_secs cfg"
    and "i64_range (expires + grace_secs cfg)"
  shows "is_strict_deny (evaluate_state now None ls cfg) \<and>
    (is_strict_deny (evaluate_state now (Some expires) (Some synced) cfg) \<longleftrightarrow>
       now - synced > max_bundle_age_secs cfg \<or> now > expires + grace_secs cfg) \<and>
    (evaluate_state now (Some expires) (Some synced) cfg = Active expires \<longleftrightarrow>
       now - synced \<le> max_bundle_age_secs cfg \<and> now \<le> expires)"
  using assms by (auto simp: evaluate_state_def Let_def i64_wrap_id i64_saturating_sub_id)

text \<open>
  Without a new sync the posture only degrades: for the same bundle and last sync, as time passes the
  gauge never goes down, so enforcement moves from active to grace to strict deny and never back.
\<close>

lemma freshness_degrades:
  assumes "now \<le> later" and "0 \<le> grace_secs cfg"
    and "\<forall>e. expires = Some e \<longrightarrow> i64_range (e + grace_secs cfg)"
  shows "gauge (evaluate_state now expires synced cfg) \<le> gauge (evaluate_state later expires synced cfg)"
proof (cases expires)
  case None
  then show ?thesis by (simp add: evaluate_state_def)
next
  case (Some e)
  let ?l = "case synced of Some v \<Rightarrow> v | None \<Rightarrow> 0"
  have "i64_saturating_sub now ?l \<le> i64_saturating_sub later ?l"
    using assms(1) by (auto simp: i64_saturating_sub_def)
  moreover have "i64_wrap (e + grace_secs cfg) = e + grace_secs cfg"
    using assms(3) Some by (simp add: i64_wrap_id)
  ultimately show ?thesis using assms(1,2) Some by (auto simp: evaluate_state_def Let_def)
qed

text \<open>
  The gate is at most one second behind the status file: whatever calls came before, in time order,
  the answer at a time \<open>now\<close> is what the file said at some moment less than the refresh interval
  earlier. In particular, once the file has been absent or in strict deny for that long, the gate denies.
\<close>

lemma gate_tracks_status:
  assumes "sorted (ts @ [now])"
  shows "\<exists>t. t \<le> now \<and> now - t < refresh \<and>
    fst (strict_deny_reason (gate_run file gate_new ts) (file now) now) = deny_of (file t)"
proof -
  let ?g = "gate_run file gate_new ts"
  have inv0: "gate_inv file 0 gate_new" by (simp add: gate_inv_def gate_new_def)
  have "sorted (0 # ts)" using assms by (simp add: sorted_append)
  with gate_inv_run [OF inv0] have inv: "gate_inv file (last (0 # ts)) ?g" by blast
  have "last (0 # ts) \<le> now" using assms by (auto simp: sorted_append)
  then have le: "cache ?g = Some c \<Longrightarrow> fetched_at c \<le> now \<and> deny_reason c = deny_of (file (fetched_at c))" for c
    using inv by (force simp: gate_inv_def)
  show ?thesis
  proof (cases "cache ?g")
    case None
    with inv show ?thesis by (auto simp: strict_deny_reason_def gate_inv_def Let_def intro!: exI [of _ now])
  next
    case (Some c)
    show ?thesis
    proof (cases "now - fetched_at c < refresh")
      case True
      with Some le [OF Some] inv show ?thesis
        by (auto simp: strict_deny_reason_def gate_inv_def Let_def intro!: exI [of _ "fetched_at c"])
    next
      case False
      with Some inv show ?thesis
        by (auto simp: strict_deny_reason_def gate_inv_def Let_def intro!: exI [of _ now])
    qed
  qed
qed

text \<open>
  The gate does not look at the age of the status: with a working cache that is empty, a status file
  that says active or grace opens the gate no matter how long ago it was written and whether the expiry
  or grace deadline it carries has passed. A syncer that stopped leaves the gate open.
\<close>

lemma gate_ignores_status_age:
  "fst (strict_deny_reason gate_new (Some \<lparr>es_state = Active expires, es_updated_unix = updated,
     es_bundle_version = v\<rparr>) now) = None \<and>
   fst (strict_deny_reason gate_new (Some \<lparr>es_state = GracePeriod deadline r, es_updated_unix = updated,
     es_bundle_version = v\<rparr>) now) = None"
  by (simp add: strict_deny_reason_def gate_new_def Let_def)

text \<open>
  A poisoned cache mutex opens the gate: the lock error is turned into \<open>None\<close>, which callers read as
  permission to go on, whatever the status file says.
\<close>

lemma gate_poisoned_fails_open:
  "fst (strict_deny_reason (g\<lparr>cache_poisoned := True\<rparr>) file now) = None"
  by (simp add: strict_deny_reason_def)

end
