(* ===== verification/Policy_Syncer.thy ===== *)
theory Policy_Syncer
  imports Bundle_Pipeline Audit_Trail Enforcement_State Civil_Time
begin

text \<open>
  \<^verbatim>\<open>src/crates/dek-policy-syncer/src/lib.rs\<close> (the syncer: one sync cycle, the recomputation of the
  enforcement state and the three background tasks) and \<^verbatim>\<open>activation.rs\<close> (the capability check).

  The state is the syncer's record together with the files it keeps: the key file, the bundle directory
  with the rollback state, and the published status. The environment of a call is the environments of the
  components plus the clock readings it takes. A bundle file that exists can be read.
\<close>

subsection \<open>Capability check\<close>

definition missing_capability :: "string list \<Rightarrow> string list \<Rightarrow> string option" where
  "missing_capability required available = find (\<lambda>c. c \<notin> set available) required"

definition capability_error :: "string \<Rightarrow> string \<Rightarrow> string" where
  "capability_error os cap = ''Activation rejected: missing required '' @ os @ '' capability '' @ [CHR 0x27] @ cap @ [CHR 0x27]"

definition validate_os_capabilities :: "pollek_policy_bundle \<Rightarrow> os_modules_config \<Rightarrow> (string, unit) result" where
  "validate_os_capabilities bundle available_caps =
     (let req = required_os_modules (pb_compatibility bundle) in
      case missing_capability (os_linux req) (os_linux available_caps) of
        Some cap \<Rightarrow> Inl (capability_error ''Linux'' cap)
      | None \<Rightarrow>
     (case missing_capability (os_windows req) (os_windows available_caps) of
        Some cap \<Rightarrow> Inl (capability_error ''Windows'' cap)
      | None \<Rightarrow>
     (case missing_capability (os_macos req) (os_macos available_caps) of
        Some cap \<Rightarrow> Inl (capability_error ''macOS'' cap)
      | None \<Rightarrow> Inr ())))"

subsection \<open>State\<close>

record policy_syncer =
  ps_agent :: bundle_sync_agent
  ps_cfg :: freshness_config
  ps_enforcement :: enforcement_state
  ps_last_sync :: int
  ps_bundle_expires :: int
  ps_bundle_version :: "string option"
  ps_audit :: audit_trail
  ps_keys_url :: string
  ps_push_url :: string
  ps_api_token :: "string option"
  ps_capabilities :: os_modules_config
  ps_keys_file :: "trusted_key_set option"
  ps_store :: bundle_store
  ps_status_file :: "enforcement_status option"

record 'r syncer_env =
  se_bundle :: "'r bundle_env"
  se_keys :: keys_env
  se_audit :: audit_env
  se_bundle_from_slice :: "string \<Rightarrow> (string, pollek_policy_bundle) result"
  se_write_status :: "enforcement_status \<Rightarrow> string option"
  se_now_keys :: int
  se_now_synced :: int
  se_now_state :: int
  se_now_audit :: nat

datatype 'r sync_outcome =
    Updated string "'r option" json string
  | Failed string
  | StateTransition enforcement_state

definition policy_syncer_new ::
    "bundle_sync_agent \<Rightarrow> bool \<Rightarrow> freshness_config \<Rightarrow> string \<Rightarrow> string \<Rightarrow> string \<Rightarrow> string \<Rightarrow> string option \<Rightarrow>
     os_modules_config \<Rightarrow> int \<Rightarrow> trusted_key_set option \<Rightarrow> bundle_store \<Rightarrow> enforcement_status option \<Rightarrow> policy_syncer" where
  "policy_syncer_new agent telemetry cfg device tenant url pinned_b64 token caps now keys_file store status =
     \<lparr>ps_agent = update_keys agent (load_or_bootstrap keys_file pinned_b64), ps_cfg = cfg,
      ps_enforcement = StrictDeny now ''startup_not_yet_synced'', ps_last_sync = 0, ps_bundle_expires = - 1,
      ps_bundle_version = None, ps_audit = audit_new telemetry device tenant,
      ps_keys_url = trim_end_char (CHR ''/'') url @ ''/v1/tenants/'' @ tenant @ ''/devices/'' @ device @ ''/trusted-keys'',
      ps_push_url = trim_end_char (CHR ''/'') url @ ''/v1/tenants/'' @ tenant @ ''/devices/'' @ device @ ''/events'',
      ps_api_token = token, ps_capabilities = caps, ps_keys_file = keys_file, ps_store = store,
      ps_status_file = status\<rparr>"

definition audit_event :: "'r syncer_env \<Rightarrow> (nat \<Rightarrow> emit_request) \<Rightarrow> policy_syncer \<Rightarrow> policy_syncer" where
  "audit_event env rq s = s\<lparr>ps_audit := emit (se_audit env) (ps_audit s) (rq (se_now_audit env))\<rparr>"

subsection \<open>Enforcement state\<close>

definition recompute_state :: "'r syncer_env \<Rightarrow> policy_syncer \<Rightarrow> enforcement_state option \<times> policy_syncer" where
  "recompute_state env s =
     (let now = se_now_state env;
          expires = (if ps_bundle_expires s = - 1 then None else Some (ps_bundle_expires s));
          last_sync = (if ps_last_sync s = 0 then None else Some (ps_last_sync s));
          new = evaluate_state now expires last_sync (ps_cfg s);
          prev = ps_enforcement s;
          changed = (prev \<noteq> new);
          s1 = (if changed then audit_event env (state_change (state_label prev) (state_label new) (state_reason new)) s else s);
          s2 = s1\<lparr>ps_enforcement := new\<rparr>;
          status = \<lparr>es_state = new, es_updated_unix = now, es_bundle_version = ps_bundle_version s2\<rparr>;
          s3 = (if se_write_status env status = None then s2\<lparr>ps_status_file := Some status\<rparr> else s2)
      in (if changed then Some new else None, s3))"

subsection \<open>One sync cycle\<close>

definition refresh_keys :: "'r syncer_env \<Rightarrow> policy_syncer \<Rightarrow> policy_syncer" where
  "refresh_keys env s =
     (case fetch_and_merge (se_keys env) (se_now_keys env) (ps_keys_url s) (ps_api_token s) (ps_keys_file s)
             (key_set_snapshot (ps_agent s)) of
        (Inr (merged, delta), file) \<Rightarrow>
          if \<not> delta_is_empty delta then
            audit_event env (key_rotation (added delta) (promoted delta) (revoked delta))
              (s\<lparr>ps_agent := update_keys (ps_agent s) merged, ps_keys_file := file\<rparr>)
          else s\<lparr>ps_keys_file := file\<rparr>
      | (Inl _, file) \<Rightarrow> s\<lparr>ps_keys_file := file\<rparr>)"

definition path_components :: "string \<Rightarrow> string list" where
  "path_components p = filter (\<lambda>c. c \<noteq> []) (split_on (CHR ''/'') p)"

definition derive_version :: "string \<Rightarrow> string" where
  "derive_version manifest_path =
     (case rev (path_components manifest_path) of
        _ # parent # _ \<Rightarrow> if parent = ''..'' then ''unknown'' else parent
      | _ \<Rightarrow> ''unknown'')"

definition read_manifest_expiry_unix :: "'r bundle_env \<Rightarrow> bundle_store \<Rightarrow> string \<Rightarrow> int option" where
  "read_manifest_expiry_unix env store path =
     (case map_of (bs_files store) path of
        None \<Rightarrow> None
      | Some bytes \<Rightarrow>
          (case be_from_slice env bytes of
             Inl _ \<Rightarrow> None
           | Inr v \<Rightarrow> Option.bind (get_str v ''expires_at'') parse_rfc3339_to_unix))"

definition fallback_expiry :: int where
  "fallback_expiry = (case parse_rfc3339_to_unix ''2036-01-01T00:00:00Z'' of Some e \<Rightarrow> e | None \<Rightarrow> - 1)"

definition check_capabilities :: "'r syncer_env \<Rightarrow> policy_syncer \<Rightarrow> string \<Rightarrow> (string, unit) result" where
  "check_capabilities env s manifest_path =
     (case map_of (bs_files (ps_store s)) manifest_path of
        None \<Rightarrow> Inr ()
      | Some bytes \<Rightarrow>
          (case se_bundle_from_slice env bytes of
             Inl _ \<Rightarrow> Inr ()
           | Inr bundle \<Rightarrow> validate_os_capabilities bundle (ps_capabilities s)))"

text \<open>What is recorded when the pipeline returned a bundle that passes the capability check.\<close>

definition record_success :: "'r syncer_env \<Rightarrow> string \<Rightarrow> policy_syncer \<Rightarrow> policy_syncer" where
  "record_success env manifest_path s =
     (let version = derive_version manifest_path;
          signed_bytes = (case map_of (bs_files (ps_store s)) manifest_path of Some b \<Rightarrow> b | None \<Rightarrow> []);
          digest = ''sha256:'' @ be_sha256_hex (se_bundle env) signed_bytes;
          s1 = audit_event env (sync_success version ''active'' digest) s;
          s2 = audit_event env (activated version ''full'') s1;
          expires = read_manifest_expiry_unix (se_bundle env) (ps_store s) manifest_path
      in s2\<lparr>ps_bundle_expires := (case expires of Some e \<Rightarrow> e | None \<Rightarrow> fallback_expiry),
            ps_last_sync := se_now_synced env, ps_bundle_version := Some version\<rparr>)"

definition sync_once :: "'r syncer_env \<Rightarrow> policy_syncer \<Rightarrow> 'r sync_outcome \<times> policy_syncer" where
  "sync_once env s0 =
     (let s = refresh_keys env s0 in
      case run_pipeline (se_bundle env) (ps_agent s) (ps_store s) of
        (Inr (dek_config, manifest_path), store) \<Rightarrow>
          (let s = s\<lparr>ps_store := store\<rparr> in
           case check_capabilities env s manifest_path of
             Inl e \<Rightarrow> (Failed e, snd (recompute_state env s))
           | Inr _ \<Rightarrow>
               (let s = snd (recompute_state env (record_success env manifest_path s));
                    network_rules = (case fetch_network_guardrails (se_bundle env) (ps_agent s) of
                                       Inr rules \<Rightarrow> Some rules | Inl _ \<Rightarrow> None)
                in (Updated (derive_version manifest_path) network_rules dek_config manifest_path, s)))
      | (Inl e, store) \<Rightarrow>
          (let s = s\<lparr>ps_store := store\<rparr>;
               s = (case e of
                      SignatureRejected role detail \<Rightarrow> audit_event env (unsigned_bundle_rejected role detail) s
                    | RollbackBlocked current incoming \<Rightarrow> audit_event env (rollback_blocked current incoming) s
                    | OtherError _ \<Rightarrow> s)
           in (Failed (show_bundle_error e), snd (recompute_state env s))))"

subsection \<open>Background tasks\<close>

text \<open>The push task syncs when a chunk of the event stream names a bundle; the poll task syncs on every
  tick; the watchdog recomputes the state every second and reports a change.\<close>

definition push_triggers :: "string \<Rightarrow> bool" where
  "push_triggers text \<longleftrightarrow> str_contains text ''bundle_ready'' \<or> str_contains text ''PollekBundleReadyV1''"

definition watch_tick :: "'r syncer_env \<Rightarrow> policy_syncer \<Rightarrow> 'r sync_outcome option \<times> policy_syncer" where
  "watch_tick env s = (case recompute_state env s of (r, s') \<Rightarrow> (map_option StateTransition r, s'))"

inductive syncer_step :: "policy_syncer \<Rightarrow> json sync_outcome option \<Rightarrow> policy_syncer \<Rightarrow> bool" where
  poll: "sync_once env s = (out, s') \<Longrightarrow> syncer_step s (Some out) s'"
| watch: "watch_tick env s = (out', s') \<Longrightarrow> syncer_step s out' s'"
| push: "push_triggers text \<Longrightarrow> sync_once env s = (out, s') \<Longrightarrow> syncer_step s (Some out) s'"

inductive_cases syncer_stepE: "syncer_step s out s'"

subsection \<open>Lemmas\<close>

lemma audit_event_frame [simp]:
  "ps_agent (audit_event env rq s) = ps_agent s" "ps_cfg (audit_event env rq s) = ps_cfg s"
  "ps_enforcement (audit_event env rq s) = ps_enforcement s" "ps_last_sync (audit_event env rq s) = ps_last_sync s"
  "ps_bundle_expires (audit_event env rq s) = ps_bundle_expires s"
  "ps_bundle_version (audit_event env rq s) = ps_bundle_version s"
  "ps_capabilities (audit_event env rq s) = ps_capabilities s" "ps_store (audit_event env rq s) = ps_store s"
  "ps_status_file (audit_event env rq s) = ps_status_file s" "ps_keys_file (audit_event env rq s) = ps_keys_file s"
  by (simp_all add: audit_event_def)

definition freshness_of :: "'r syncer_env \<Rightarrow> policy_syncer \<Rightarrow> enforcement_state" where
  "freshness_of env s = evaluate_state (se_now_state env)
     (if ps_bundle_expires s = - 1 then None else Some (ps_bundle_expires s))
     (if ps_last_sync s = 0 then None else Some (ps_last_sync s)) (ps_cfg s)"

definition announced :: "'r syncer_env \<Rightarrow> policy_syncer \<Rightarrow> policy_syncer" where
  "announced env s =
     (if ps_enforcement s \<noteq> freshness_of env s
      then audit_event env (state_change (state_label (ps_enforcement s)) (state_label (freshness_of env s))
             (state_reason (freshness_of env s))) s
      else s)"

definition status_of :: "'r syncer_env \<Rightarrow> policy_syncer \<Rightarrow> enforcement_status" where
  "status_of env s = \<lparr>es_state = freshness_of env s, es_updated_unix = se_now_state env,
     es_bundle_version = ps_bundle_version s\<rparr>"

lemma announced_frame [simp]:
  "ps_agent (announced env s) = ps_agent s" "ps_cfg (announced env s) = ps_cfg s"
  "ps_last_sync (announced env s) = ps_last_sync s" "ps_bundle_expires (announced env s) = ps_bundle_expires s"
  "ps_bundle_version (announced env s) = ps_bundle_version s" "ps_store (announced env s) = ps_store s"
  "ps_status_file (announced env s) = ps_status_file s"
  by (simp_all add: announced_def)

lemma recompute_eq:
  "snd (recompute_state env s) =
     (if se_write_status env (status_of env s) = None
      then (announced env s)\<lparr>ps_enforcement := freshness_of env s, ps_status_file := Some (status_of env s)\<rparr>
      else (announced env s)\<lparr>ps_enforcement := freshness_of env s\<rparr>)"
proof -
  have "ps_bundle_version ((announced env s)\<lparr>ps_enforcement := freshness_of env s\<rparr>) = ps_bundle_version s" by simp
  then show ?thesis
    unfolding recompute_state_def freshness_of_def [symmetric] Let_def announced_def [symmetric] snd_conv
    by (simp only: status_of_def [symmetric])
qed

lemma recompute_frame [simp]:
  "ps_agent (snd (recompute_state env s)) = ps_agent s" "ps_cfg (snd (recompute_state env s)) = ps_cfg s"
  "ps_last_sync (snd (recompute_state env s)) = ps_last_sync s"
  "ps_bundle_expires (snd (recompute_state env s)) = ps_bundle_expires s"
  "ps_bundle_version (snd (recompute_state env s)) = ps_bundle_version s"
  "ps_store (snd (recompute_state env s)) = ps_store s"
  "ps_enforcement (snd (recompute_state env s)) = freshness_of env s"
  by (simp_all add: recompute_eq)

lemma recompute_status:
  "ps_status_file (snd (recompute_state env s)) \<in> {ps_status_file s, Some (status_of env s)}"
  by (simp add: recompute_eq)

lemma refresh_keys_frame [simp]:
  "ps_cfg (refresh_keys env s) = ps_cfg s" "ps_enforcement (refresh_keys env s) = ps_enforcement s"
  "ps_last_sync (refresh_keys env s) = ps_last_sync s"
  "ps_bundle_expires (refresh_keys env s) = ps_bundle_expires s"
  "ps_bundle_version (refresh_keys env s) = ps_bundle_version s" "ps_store (refresh_keys env s) = ps_store s"
  "ps_status_file (refresh_keys env s) = ps_status_file s"
  by (simp_all add: refresh_keys_def split: sum.splits prod.splits)

lemma record_success_frame [simp]:
  "ps_agent (record_success env p s) = ps_agent s" "ps_cfg (record_success env p s) = ps_cfg s"
  "ps_store (record_success env p s) = ps_store s" "ps_status_file (record_success env p s) = ps_status_file s"
  by (simp_all add: record_success_def Let_def)

lemma record_success_fields:
  "ps_bundle_expires (record_success env p s) =
     (case read_manifest_expiry_unix (se_bundle env) (ps_store s) p of Some e \<Rightarrow> e | None \<Rightarrow> fallback_expiry)"
  "ps_last_sync (record_success env p s) = se_now_synced env"
  "ps_bundle_version (record_success env p s) = Some (derive_version p)"
  by (simp_all add: record_success_def Let_def)

lemma fallback_expiry_value: "fallback_expiry = 2082758400"
  by code_simp

text \<open>A failed cycle is a key refresh, a new store and a recomputation.\<close>

lemma sync_once_Failed:
  assumes "sync_once env s = (Failed r, s')"
  obtains s1 where "s' = snd (recompute_state env s1)" "ps_last_sync s1 = ps_last_sync s"
    "ps_bundle_expires s1 = ps_bundle_expires s" "ps_bundle_version s1 = ps_bundle_version s"
    "ps_cfg s1 = ps_cfg s" "ps_status_file s1 = ps_status_file s" "ps_enforcement s1 = ps_enforcement s"
proof (cases "run_pipeline (se_bundle env) (ps_agent (refresh_keys env s)) (ps_store (refresh_keys env s))")
  case (Pair res store)
  then show thesis
    using assms that unfolding sync_once_def Let_def
    by (cases res) (auto split: sum.splits prod.splits bundle_error.splits)
qed

lemma sync_once_Updated:
  assumes "sync_once env s = (Updated v rules cfg path, s')"
  obtains store where "run_pipeline (se_bundle env) (ps_agent (refresh_keys env s)) (ps_store s) = (Inr (cfg, path), store)"
    "check_capabilities env ((refresh_keys env s)\<lparr>ps_store := store\<rparr>) path = Inr ()"
    "s' = snd (recompute_state env (record_success env path ((refresh_keys env s)\<lparr>ps_store := store\<rparr>)))"
    "v = derive_version path"
  using assms unfolding sync_once_def Let_def
  by (auto split: sum.splits prod.splits bundle_error.splits)

lemma sync_once_not_transition: "fst (sync_once env s) \<noteq> StateTransition st"
  by (auto simp: sync_once_def Let_def split: sum.splits prod.splits)

subsection \<open>Cold start as an invariant\<close>

definition idle_step :: "policy_syncer \<Rightarrow> policy_syncer \<Rightarrow> bool" where
  "idle_step s s' \<longleftrightarrow> (\<exists>out. syncer_step s out s' \<and> (\<forall>v r c p. out \<noteq> Some (Updated v r c p)))"

definition cold_inv :: "enforcement_status option \<Rightarrow> policy_syncer \<Rightarrow> bool" where
  "cold_inv status s \<longleftrightarrow> ps_bundle_expires s = - 1 \<and> is_strict_deny (ps_enforcement s) \<and>
     (ps_status_file s = status \<or> (\<exists>st. ps_status_file s = Some st \<and> is_strict_deny (es_state st)))"

lemma freshness_cold: "ps_bundle_expires s = - 1 \<Longrightarrow> is_strict_deny (freshness_of env s)"
  by (simp add: freshness_of_def evaluate_state_def)

lemma cold_inv_recompute: "cold_inv status s \<Longrightarrow> cold_inv status (snd (recompute_state env s))"
  using recompute_status [of env s] freshness_cold [of s env]
  by (auto simp: cold_inv_def status_of_def)

lemma cold_inv_sync:
  assumes "sync_once env s = (Failed r, s')" and "cold_inv status s"
  shows "cold_inv status s'"
proof (rule sync_once_Failed [OF assms(1)])
  fix s1 assume "s' = snd (recompute_state env s1)" "ps_bundle_expires s1 = ps_bundle_expires s"
    "ps_status_file s1 = ps_status_file s" "ps_enforcement s1 = ps_enforcement s"
  moreover from this assms(2) have "cold_inv status s1" by (simp add: cold_inv_def)
  ultimately show ?thesis by (simp add: cold_inv_recompute)
qed

lemma cold_inv_step:
  assumes "idle_step s s'" and "cold_inv status s"
  shows "cold_inv status s'"
proof -
  have sync: "cold_inv status s'" if "sync_once env s = (out, s')" "\<forall>v r c p. out \<noteq> Updated v r c p" for env out
  proof (cases out)
    case (Failed r)
    with that assms(2) show ?thesis by (auto intro: cold_inv_sync)
  next
    case (StateTransition st)
    with that sync_once_not_transition [of env s st] show ?thesis by simp
  qed (use that in auto)
  from assms(1) obtain out where out: "syncer_step s out s'" "\<forall>v r c p. out \<noteq> Some (Updated v r c p)"
    by (auto simp: idle_step_def)
  from out(1) show ?thesis
  proof (cases rule: syncer_step.cases)
    case (watch env)
    then have "s' = snd (recompute_state env s)" by (auto simp: watch_tick_def split: prod.splits)
    with assms(2) show ?thesis by (simp add: cold_inv_recompute)
  qed (use out(2) sync in auto)
qed

interpretation syncer_cold: invariant_system
  "\<lambda>s. \<exists>agent tel cfg device tenant url pinned token caps now keys store.
     s = policy_syncer_new agent tel cfg device tenant url pinned token caps now keys store status"
  idle_step "cold_inv status" for status
proof unfold_locales
  fix s s' assume "idle_step s s'" "cold_inv status s"
  then show "cold_inv status s'" by (rule cold_inv_step)
qed (auto simp: cold_inv_def policy_syncer_new_def)

subsection \<open>Properties\<close>

text \<open>
  C15. Enforcement starts closed and stays closed: from start-up, as long as no sync cycle has succeeded,
  whatever polls, pushes and watchdog ticks happen and however they fail, the in-process state is strict
  deny, and every status the syncer has published says strict deny (a status file left by an earlier
  process is the only other content the file can have).
\<close>

theorem syncer_cold_start_denies:
  assumes "idle_step\<^sup>*\<^sup>* (policy_syncer_new agent tel cfg device tenant url pinned token caps now keys store status) s"
  shows "is_strict_deny (ps_enforcement s) \<and>
    (ps_status_file s = status \<or> (\<exists>st. ps_status_file s = Some st \<and> is_strict_deny (es_state st)))"
proof -
  have "cold_inv status s" by (rule syncer_cold.inv_reachable [OF _ assms]) blast
  then show ?thesis by (simp add: cold_inv_def)
qed

theorem syncer_cold_start_denies_witness:
  "is_strict_deny (ps_enforcement (policy_syncer_new demo_agent True default_freshness_config ''d'' ''t'' ''u'' ''A'' None
     \<lparr>os_linux = [], os_windows = [], os_macos = []\<rparr> 100 None demo_store None))"
  using syncer_cold_start_denies [OF rtranclp.rtrancl_refl] by blast

text \<open>
  What a sync cycle records: a failed cycle keeps the last sync time, the expiry and the version, so
  the bundle keeps ageing; a successful one went through the pipeline with the refreshed keys and the
  capability check, sets the sync time to now and the expiry to the manifest's, or to 2036-01-01 when the
  manifest has none that parses; in both cases the enforcement state is then the freshness of what is recorded.
\<close>

lemma sync_cycle_exact:
  "(\<forall>r. sync_once env s = (Failed r, s') \<longrightarrow>
      ps_last_sync s' = ps_last_sync s \<and> ps_bundle_expires s' = ps_bundle_expires s \<and>
      ps_bundle_version s' = ps_bundle_version s \<and> ps_enforcement s' = freshness_of env s') \<and>
   (\<forall>v rules c path. sync_once env s = (Updated v rules c path, s') \<longrightarrow>
      (\<exists>store. run_pipeline (se_bundle env) (ps_agent (refresh_keys env s)) (ps_store s) = (Inr (c, path), store) \<and>
         check_capabilities env ((refresh_keys env s)\<lparr>ps_store := store\<rparr>) path = Inr () \<and>
         ps_bundle_expires s' = (case read_manifest_expiry_unix (se_bundle env) store path of
            Some e \<Rightarrow> e | None \<Rightarrow> 2082758400)) \<and>
      ps_last_sync s' = se_now_synced env \<and> ps_bundle_version s' = Some v \<and>
      ps_enforcement s' = freshness_of env s')"
proof -
  have fr: "freshness_of env (snd (recompute_state env s1)) = freshness_of env s1" for s1
    by (simp add: freshness_of_def)
  have "ps_last_sync s' = ps_last_sync s \<and> ps_bundle_expires s' = ps_bundle_expires s \<and>
      ps_bundle_version s' = ps_bundle_version s \<and> ps_enforcement s' = freshness_of env s'"
    if "sync_once env s = (Failed r, s')" for r
    by (rule sync_once_Failed [OF that]) (simp add: fr)
  moreover have "(\<exists>store. run_pipeline (se_bundle env) (ps_agent (refresh_keys env s)) (ps_store s) = (Inr (c, path), store) \<and>
         check_capabilities env ((refresh_keys env s)\<lparr>ps_store := store\<rparr>) path = Inr () \<and>
         ps_bundle_expires s' = (case read_manifest_expiry_unix (se_bundle env) store path of
            Some e \<Rightarrow> e | None \<Rightarrow> 2082758400)) \<and>
      ps_last_sync s' = se_now_synced env \<and> ps_bundle_version s' = Some v \<and>
      ps_enforcement s' = freshness_of env s'"
    if "sync_once env s = (Updated v rules c path, s')" for v rules c path
    by (rule sync_once_Updated [OF that]) (simp add: fr record_success_fields fallback_expiry_value split: option.split)
  ultimately show ?thesis by blast
qed

definition demo_syncer_env :: "unit syncer_env" where
  "demo_syncer_env = \<lparr>se_bundle = demo_env\<lparr>be_http := \<lambda>_ _. Inl ''down''\<rparr>, se_keys = demo_keys_env\<lparr>ke_http := \<lambda>_ _. Inl ''down''\<rparr>,
     se_audit = \<lparr>ae_sha256_hex = (\<lambda>_. ''00''), ae_to_vec = (\<lambda>_. [])\<rparr>,
     se_bundle_from_slice = (\<lambda>_. Inl ''e''), se_write_status = (\<lambda>_. None),
     se_now_keys = 5, se_now_synced = 5, se_now_state = 6, se_now_audit = 6\<rparr>"

definition demo_syncer :: policy_syncer where
  "demo_syncer = policy_syncer_new demo_agent True default_freshness_config ''dev'' ''t'' ''https://c'' ''A'' None
     \<lparr>os_linux = [], os_windows = [], os_macos = []\<rparr> 1 None demo_store None"

lemma demo_sync_fails: "\<exists>r s'. sync_once demo_syncer_env demo_syncer = (Failed r, s')"
proof -
  have "run_pipeline (se_bundle demo_syncer_env) (ps_agent (refresh_keys demo_syncer_env demo_syncer)) store =
      (Inl (OtherError ''down''), store)" for store
    by (simp add: refresh_keys_def fetch_and_merge_def fetch_body_def demo_syncer_env_def run_pipeline_def tuf_roles_def
        fetch_role_def agent_get_def demo_syncer_def policy_syncer_new_def demo_agent_def agent_new_def update_keys_def)
  then show ?thesis by (simp add: sync_once_def Let_def)
qed

text \<open>
  A rotation that only changes a known key is lost: when a vouched key list replaces the public key or
  the validity window of a key and keeps its status, the merge is made but reported as no change, and the
  cycle goes on verifying with the old key, which the key service asked to replace or expire.
\<close>

lemma rotation_update_lost:
  assumes "key_set (ps_agent s) = [k]" and "inc = k\<lparr>public_b64 := pk, not_after_unix := t\<rparr>"
    and "fetch_and_merge (se_keys env) (se_now_keys env) (ps_keys_url s) (ps_api_token s) (ps_keys_file s) [k] =
       (Inr (merge_rotation [k] [inc]), file)"
  shows "fst (merge_rotation [k] [inc]) = [inc] \<and> key_set (ps_agent (refresh_keys env s)) = [k]"
proof -
  have m: "merge_rotation [k] [inc] = ([inc], empty_delta)"
    using assms(2) by (simp add: merge_rotation_def merge_delta_def find_key_def update_existing_def)
  have "delta_is_empty empty_delta" by (simp add: delta_is_empty_def empty_delta_def)
  with assms m show ?thesis by (simp add: refresh_keys_def key_set_snapshot_def)
qed

end
