(* ===== verification/Detection_Glob.thy ===== *)
theory Detection_Glob
  imports Utf8_Text
begin

text \<open>
  The path patterns of the detection rules: \<^verbatim>\<open>glob_match\<close> of \<^verbatim>\<open>src/crates/dek-detection/src/eval.rs\<close>, a loop over
  two byte indices that goes back to the last star it has seen. A pattern means: a single star matches any bytes
  of one path segment, two or more stars match any bytes at all, everything else matches itself. The loop is shown to terminate,
  to accept only what the pattern means, and to accept all of it when every group of stars after the first is a
  double star; a single star after another group of stars makes it miss paths.
\<close>

subsection \<open>The loop\<close>

fun skip_stars :: "string \<Rightarrow> bool \<Rightarrow> string \<times> bool" where
  "skip_stars [] d = ([], d)"
| "skip_stars (c # s) d = (if c = CHR ''*'' then skip_stars s (d \<or> (s \<noteq> [] \<and> hd s = CHR ''*'')) else (c # s, d))"

definition after_stars :: "string \<Rightarrow> nat \<Rightarrow> nat" where
  "after_stars pat p = length pat - length (fst (skip_stars (drop p pat) False))"

lemma length_skip_stars: "length (fst (skip_stars s d)) \<le> length s"
  by (induction s d rule: skip_stars.induct) auto

lemma after_stars_bounds: "after_stars pat p \<le> length pat"
  by (simp add: after_stars_def)

lemma after_stars_greater:
  assumes "p < length pat" and "pat ! p = CHR ''*''"
  shows "p < after_stars pat p"
proof -
  have d: "drop p pat = CHR ''*'' # drop (Suc p) pat" using assms by (simp add: Cons_nth_drop_Suc [symmetric])
  have "length (fst (skip_stars (drop p pat) False)) \<le> length (drop (Suc p) pat)"
    unfolding d using length_skip_stars [of "drop (Suc p) pat"] by simp
  then show ?thesis using assms(1) by (simp add: after_stars_def)
qed

text \<open>The parameters are the indices into pattern and text, the pattern index behind the last stars, the text index up to
  which these stars reach, and whether they were a double star.\<close>

function glob_loop :: "string \<Rightarrow> string \<Rightarrow> nat \<Rightarrow> nat \<Rightarrow> nat option \<Rightarrow> nat \<Rightarrow> bool \<Rightarrow> bool" where
  "glob_loop pat inp p t star_p star_t double_star =
     (if t < length inp then
        if p < length pat \<and> pat ! p = CHR ''*'' then
          (let p' = after_stars pat p; d = snd (skip_stars (drop p pat) False) in
           if p' = length pat then d \<or> CHR ''/'' \<notin> set (drop t inp)
           else glob_loop pat inp p' t (Some p') t d)
        else if p < length pat \<and> pat ! p = inp ! t then glob_loop pat inp (p + 1) (t + 1) star_p star_t double_star
        else (case star_p of
            None \<Rightarrow> False
          | Some sp \<Rightarrow>
              if inp ! star_t = CHR ''/'' \<and> \<not> double_star then False
              else glob_loop pat inp sp (star_t + 1) (Some sp) (star_t + 1) double_star)
      else after_stars pat p = length pat)"
  by pat_completeness auto
termination
  by (relation "measures [\<lambda>(pat, inp, p, t, sp, st, d). length inp - min st t, \<lambda>(pat, inp, p, t, sp, st, d). (length pat - p) + (length inp - t)]")
    (auto simp: after_stars_greater after_stars_bounds less_diff_conv2 intro!: diff_less_mono2 add_less_mono1 simp: min_def dest: after_stars_greater)

declare glob_loop.simps [simp del]

definition glob_match :: "string \<Rightarrow> string \<Rightarrow> bool" where
  "glob_match pattern text = glob_loop pattern text 0 0 None 0 False"

subsection \<open>What a pattern means\<close>

datatype glob_token = Lit char | Stars bool

fun glob_tokens :: "string \<Rightarrow> glob_token list" where
  "glob_tokens [] = []"
| "glob_tokens (c # s) =
     (if c = CHR ''*'' then Stars (s \<noteq> [] \<and> hd s = CHR ''*'') # glob_tokens (dropWhile (\<lambda>x. x = CHR ''*'') s)
      else Lit c # glob_tokens s)"

fun token_match :: "glob_token list \<Rightarrow> string \<Rightarrow> bool" where
  "token_match [] inp \<longleftrightarrow> inp = []"
| "token_match (Lit c # ts) [] \<longleftrightarrow> False"
| "token_match (Lit c # ts) (x # xs) \<longleftrightarrow> x = c \<and> token_match ts xs"
| "token_match (Stars d # ts) [] \<longleftrightarrow> token_match ts []"
| "token_match (Stars d # ts) (x # xs) \<longleftrightarrow> token_match ts (x # xs) \<or> ((d \<or> x \<noteq> CHR ''/'') \<and> token_match (Stars d # ts) xs)"

text \<open>What a group of stars takes, in one piece: any text without a separator, or any text at all.\<close>

lemma token_match_stars:
  "token_match (Stars d # ts) inp \<longleftrightarrow> (\<exists>us vs. inp = us @ vs \<and> (d \<or> CHR ''/'' \<notin> set us) \<and> token_match ts vs)"
proof (induction inp)
  case (Cons x xs)
  show ?case (is "?l = ?r")
  proof
    assume ?l
    then consider "token_match ts (x # xs)" | "d \<or> x \<noteq> CHR ''/''" "token_match (Stars d # ts) xs" by auto
    then show ?r
    proof cases
      case 1
      then show ?thesis by (intro exI [of _ "[]"] exI [of _ "x # xs"]) simp
    next
      case 2
      then obtain us vs where "xs = us @ vs" "d \<or> CHR ''/'' \<notin> set us" "token_match ts vs" using Cons.IH by blast
      then show ?thesis using 2(1) by (intro exI [of _ "x # us"] exI [of _ vs]) auto
    qed
  next
    assume ?r
    then obtain us vs where "x # xs = us @ vs" "d \<or> CHR ''/'' \<notin> set us" "token_match ts vs" by blast
    then show ?l using Cons.IH by (cases us) auto
  qed
qed auto

lemma token_match_absorb:
  assumes "token_match (Stars True # ts) (drop t' inp)" and "t \<le> t'"
  shows "token_match (Stars True # ts) (drop t inp)"
proof -
  from assms(1) obtain us vs where "drop t' inp = us @ vs" "token_match ts vs" by (auto simp: token_match_stars)
  moreover have "drop t inp = take (t' - t) (drop t inp) @ drop t' inp"
    using assms(2) append_take_drop_id [of "t' - t" "drop t inp"] by simp
  ultimately show ?thesis unfolding token_match_stars by (metis append.assoc)
qed

lemma token_match_literals:
  "token_match (map Lit us @ ts) inp \<longleftrightarrow> (\<exists>vs. inp = us @ vs \<and> token_match ts vs)"
proof (induction us arbitrary: inp)
  case (Cons u us)
  then show ?case by (cases inp) auto
qed simp

lemma token_match_only_stars: "token_match ts [] \<longleftrightarrow> (\<forall>k\<in>set ts. \<exists>d. k = Stars d)"
proof (induction ts)
  case (Cons k ts)
  then show ?case by (cases k) auto
qed simp

lemma fst_skip_stars: "fst (skip_stars s d) = dropWhile (\<lambda>x. x = CHR ''*'') s"
  by (induction s d rule: skip_stars.induct) auto

lemma snd_skip_stars_True: "snd (skip_stars s True)"
  by (induction s) auto

lemma snd_skip_stars: "snd (skip_stars (CHR ''*'' # s) False) \<longleftrightarrow> s \<noteq> [] \<and> hd s = CHR ''*''"
  using snd_skip_stars_True by (cases s) (auto simp: hd_Cons_tl)

lemma length_run: "length (takeWhile P ys) + length (dropWhile P ys) = length ys"
  by (metis length_append takeWhile_dropWhile_id)

lemma after_stars_run: "p \<le> length pat \<Longrightarrow> after_stars pat p = p + length (takeWhile (\<lambda>x. x = CHR ''*'') (drop p pat))"
  using length_run [of "\<lambda>x. x = CHR ''*''" "drop p pat"] by (simp add: after_stars_def fst_skip_stars)

lemma drop_after_stars: "p \<le> length pat \<Longrightarrow> drop (after_stars pat p) pat = dropWhile (\<lambda>x. x = CHR ''*'') (drop p pat)"
  by (simp add: after_stars_run dropWhile_eq_drop add.commute)

lemma after_stars_end:
  assumes "p \<le> length pat"
  shows "after_stars pat p = length pat \<longleftrightarrow> (\<forall>c\<in>set (drop p pat). c = CHR ''*'')"
proof -
  have "after_stars pat p = length pat \<longleftrightarrow> drop (after_stars pat p) pat = []"
    using after_stars_bounds [of pat p] by auto
  also have "\<dots> \<longleftrightarrow> (\<forall>c\<in>set (drop p pat). c = CHR ''*'')"
    unfolding drop_after_stars [OF assms] by (simp add: dropWhile_eq_Nil_conv)
  finally show ?thesis .
qed

lemma glob_tokens_star:
  assumes "p < length pat" and "pat ! p = CHR ''*''"
  shows "glob_tokens (drop p pat) = Stars (snd (skip_stars (drop p pat) False)) # glob_tokens (drop (after_stars pat p) pat)"
proof -
  have d: "drop p pat = CHR ''*'' # drop (Suc p) pat" using assms by (simp add: Cons_nth_drop_Suc [symmetric])
  show ?thesis using drop_after_stars [of p pat] assms(1) unfolding d by (simp add: snd_skip_stars [of "drop (Suc p) pat", simplified])
qed

lemma glob_tokens_lit:
  "p < length pat \<Longrightarrow> pat ! p \<noteq> CHR ''*'' \<Longrightarrow> glob_tokens (drop p pat) = Lit (pat ! p) # glob_tokens (drop (Suc p) pat)"
  by (simp add: Cons_nth_drop_Suc [symmetric])

lemma all_dropWhile: "(\<forall>c\<in>set (dropWhile P s). P c) \<longleftrightarrow> (\<forall>c\<in>set s. P c)"
  by (induction s) auto

lemma glob_tokens_only_stars: "(\<forall>k\<in>set (glob_tokens s). \<exists>d. k = Stars d) \<longleftrightarrow> (\<forall>c\<in>set s. c = CHR ''*'')"
proof (induction s rule: glob_tokens.induct)
  case (2 c s)
  show ?case
  proof (cases "c = CHR ''*''")
    case True
    then show ?thesis using "2.IH"(1) [OF True] by (simp only: glob_tokens.simps if_True list.set ball_simps) (simp add: all_dropWhile)
  qed simp
qed simp

subsection \<open>The loop accepts only what the pattern means\<close>

definition star_match :: "string \<Rightarrow> string \<Rightarrow> nat option \<Rightarrow> nat \<Rightarrow> bool \<Rightarrow> bool" where
  "star_match pat inp star_p star_t d \<longleftrightarrow>
     (\<exists>sp. star_p = Some sp \<and> token_match (Stars d # glob_tokens (drop sp pat)) (drop star_t inp))"

lemma glob_loop_sound:
  assumes "glob_loop pat inp p t star_p star_t d" and "star_t \<le> t" and "t \<le> length inp" and "p \<le> length pat"
    and "\<And>sp. star_p = Some sp \<Longrightarrow> sp \<le> length pat"
  shows "token_match (glob_tokens (drop p pat)) (drop t inp) \<or> star_match pat inp star_p star_t d"
  using assms
proof (induction pat inp p t star_p star_t d rule: glob_loop.induct)
  case (1 pat inp p t star_p star_t d)
  note loop = "1.prems"(1) [unfolded glob_loop.simps [of pat inp p t]]
  let ?p = "after_stars pat p" and ?d = "snd (skip_stars (drop p pat) False)"
  consider (finished) "\<not> t < length inp"
    | (star) "t < length inp" "p < length pat" "pat ! p = CHR ''*''"
    | (same) "t < length inp" "p < length pat" "pat ! p \<noteq> CHR ''*''" "pat ! p = inp ! t"
    | (retry) "t < length inp" "\<not> (p < length pat \<and> pat ! p = CHR ''*'')" "\<not> (p < length pat \<and> pat ! p = inp ! t)" by blast
  then show ?case
  proof cases
    case finished
    then have "token_match (glob_tokens (drop p pat)) []"
      using loop "1.prems"(4) by (simp add: after_stars_end token_match_only_stars glob_tokens_only_stars)
    then show ?thesis using finished "1.prems"(3) by simp
  next
    case star
    have tok: "glob_tokens (drop p pat) = Stars ?d # glob_tokens (drop ?p pat)" by (rule glob_tokens_star [OF star(2,3)])
    show ?thesis
    proof (cases "?p = length pat")
      case True
      then have "?d \<or> CHR ''/'' \<notin> set (drop t inp)" using loop star by simp
      then show ?thesis unfolding tok token_match_stars using True by (intro disjI1 exI [of _ "drop t inp"] exI [of _ "[]"]) simp
    next
      case False
      then have l: "glob_loop pat inp ?p t (Some ?p) t ?d" using loop star by (simp add: Let_def)
      have "token_match (glob_tokens (drop ?p pat)) (drop t inp) \<or> star_match pat inp (Some ?p) t ?d"
        by (rule "1.IH"(1)) (use star False l after_stars_bounds "1.prems"(3) in auto)
      then show ?thesis unfolding tok by (auto simp: star_match_def token_match_stars) (metis append_Nil empty_iff list.set(1))+
    qed
  next
    case same
    have l: "glob_loop pat inp (p + 1) (t + 1) star_p star_t d" using loop same by simp
    have "token_match (glob_tokens (drop (p + 1) pat)) (drop (t + 1) inp) \<or> star_match pat inp star_p star_t d"
      by (rule "1.IH"(2)) (use same l "1.prems" in auto)
    moreover have "drop t inp = inp ! t # drop (Suc t) inp" using same(1) by (simp add: Cons_nth_drop_Suc)
    ultimately show ?thesis using same by (auto simp: glob_tokens_lit)
  next
    case retry
    then obtain sp where sp: "star_p = Some sp" using loop by (auto split: option.splits)
    then have ok: "d \<or> inp ! star_t \<noteq> CHR ''/''" and l: "glob_loop pat inp sp (star_t + 1) (Some sp) (star_t + 1) d"
      using loop retry by (auto split: if_splits)
    have "token_match (glob_tokens (drop sp pat)) (drop (star_t + 1) inp) \<or> star_match pat inp (Some sp) (star_t + 1) d"
      by (rule "1.IH"(3)) (use retry sp ok l "1.prems" in auto)
    then have "token_match (Stars d # glob_tokens (drop sp pat)) (drop (star_t + 1) inp)"
      by (auto simp: star_match_def token_match_stars) (metis append_Nil empty_iff list.set(1))
    moreover have "drop star_t inp = inp ! star_t # drop (Suc star_t) inp"
      using retry(1) "1.prems"(2) by (simp add: Cons_nth_drop_Suc)
    ultimately have "star_match pat inp star_p star_t d" using ok sp by (simp add: star_match_def)
    then show ?thesis ..
  qed
qed

lemma glob_match_sound: "glob_match pattern inp \<Longrightarrow> token_match (glob_tokens pattern) inp"
  using glob_loop_sound [of pattern inp 0 0 None 0 False] by (simp add: glob_match_def star_match_def)

subsection \<open>And all of it, when only the first stars are single\<close>

fun all_double :: "glob_token list \<Rightarrow> bool" where
  "all_double [] \<longleftrightarrow> True"
| "all_double (Lit _ # ts) \<longleftrightarrow> all_double ts"
| "all_double (Stars d # ts) \<longleftrightarrow> d \<and> all_double ts"

fun later_double :: "glob_token list \<Rightarrow> bool" where
  "later_double [] \<longleftrightarrow> True"
| "later_double (Lit _ # ts) \<longleftrightarrow> later_double ts"
| "later_double (Stars _ # ts) \<longleftrightarrow> all_double ts"

text \<open>What is still to be matched: from the last stars, if there were any, else from here. Between the last stars and here the
  pattern is literal and equal to the text.\<close>

definition matched_since :: "string \<Rightarrow> string \<Rightarrow> nat \<Rightarrow> nat \<Rightarrow> nat \<Rightarrow> nat \<Rightarrow> bool" where
  "matched_since pat inp sp p st t \<longleftrightarrow>
     (\<exists>us. glob_tokens (drop sp pat) = map Lit us @ glob_tokens (drop p pat) \<and> drop st inp = us @ drop t inp \<and>
        t = st + length us \<and> p \<le> length pat \<and> t \<le> length inp \<and> all_double (glob_tokens (drop p pat)))"

definition pending :: "string \<Rightarrow> string \<Rightarrow> nat \<Rightarrow> nat \<Rightarrow> nat option \<Rightarrow> nat \<Rightarrow> bool \<Rightarrow> bool" where
  "pending pat inp p t star_p st d \<longleftrightarrow> p \<le> length pat \<and>
     (case star_p of
        None \<Rightarrow> later_double (glob_tokens (drop p pat)) \<and> token_match (glob_tokens (drop p pat)) (drop t inp)
      | Some sp \<Rightarrow> matched_since pat inp sp p st t \<and> sp \<le> length pat \<and>
                   token_match (Stars d # glob_tokens (drop sp pat)) (drop st inp))"

lemma append_shift:
  assumes "us @ vs = ws @ us @ xs"
  shows "\<exists>ys. vs = ys @ xs"
proof -
  have "vs = drop (length us) ((ws @ us) @ xs)" using assms append_eq_conv_conj [of us vs] by simp
  also have "\<dots> = drop (length us) (ws @ us) @ xs" by simp
  finally show ?thesis by blast
qed

text \<open>At the next stars the ones before can be forgotten.\<close>

lemma pending_at_stars:
  assumes "pending pat inp p t star_p st d" and "p < length pat" and "pat ! p = CHR ''*''"
  defines "d' \<equiv> snd (skip_stars (drop p pat) False)"
  shows "token_match (Stars d' # glob_tokens (drop (after_stars pat p) pat)) (drop t inp) \<and> all_double (glob_tokens (drop (after_stars pat p) pat))"
proof -
  have tok: "glob_tokens (drop p pat) = Stars d' # glob_tokens (drop (after_stars pat p) pat)"
    unfolding d'_def by (rule glob_tokens_star [OF assms(2,3)])
  show ?thesis
  proof (cases star_p)
    case None
    then show ?thesis using assms(1) tok by (simp add: pending_def)
  next
    case (Some sp)
    then obtain us where us: "glob_tokens (drop sp pat) = map Lit us @ glob_tokens (drop p pat)" "drop st inp = us @ drop t inp"
      and ad: "all_double (glob_tokens (drop p pat))" and m: "token_match (Stars d # glob_tokens (drop sp pat)) (drop st inp)"
      using assms(1) by (auto simp: pending_def matched_since_def)
    from ad have d': "d'" "all_double (glob_tokens (drop (after_stars pat p) pat))" by (simp_all add: tok)
    from m obtain ws vs where "drop st inp = ws @ us @ vs" "token_match (Stars d' # glob_tokens (drop (after_stars pat p) pat)) vs"
      unfolding token_match_stars us(1) token_match_literals tok by blast
    moreover from this obtain ys where "drop t inp = ys @ vs" using append_shift us(2) by metis
    ultimately show ?thesis using d' by (auto simp: token_match_stars) (metis append.assoc)
  qed
qed

lemma pending_match:
  assumes "pending pat inp p t star_p st d" and "t < length inp" and "p < length pat" and "pat ! p \<noteq> CHR ''*''" and "pat ! p = inp ! t"
  shows "pending pat inp (p + 1) (t + 1) star_p st d"
proof -
  have tok: "glob_tokens (drop p pat) = Lit (pat ! p) # glob_tokens (drop (p + 1) pat)" using assms(3,4) by (simp add: glob_tokens_lit)
  have dr: "drop t inp = pat ! p # drop (t + 1) inp" using assms(2,5) by (simp add: Cons_nth_drop_Suc)
  show ?thesis
  proof (cases star_p)
    case None
    then show ?thesis using assms(1,3) by (simp add: pending_def tok dr)
  next
    case (Some sp)
    then obtain us where us: "glob_tokens (drop sp pat) = map Lit us @ glob_tokens (drop p pat)" "drop st inp = us @ drop t inp"
      "t = st + length us" "all_double (glob_tokens (drop p pat))" and rest: "sp \<le> length pat"
      "token_match (Stars d # glob_tokens (drop sp pat)) (drop st inp)"
      using assms(1) by (auto simp: pending_def matched_since_def)
    have "matched_since pat inp sp (p + 1) st (t + 1)"
      unfolding matched_since_def using us assms(2,3) dr by (intro exI [of _ "us @ [pat ! p]"]) (simp add: tok)
    then show ?thesis using Some rest assms(3) by (simp add: pending_def)
  qed
qed

lemma pending_mismatch:
  assumes "pending pat inp p t (Some sp) st d" and "t < length inp"
    and "\<not> (p < length pat \<and> pat ! p = CHR ''*'')" and "\<not> (p < length pat \<and> pat ! p = inp ! t)"
  shows "(d \<or> inp ! st \<noteq> CHR ''/'') \<and> pending pat inp sp (st + 1) (Some sp) (st + 1) d"
proof -
  obtain us where us: "glob_tokens (drop sp pat) = map Lit us @ glob_tokens (drop p pat)" "drop st inp = us @ drop t inp"
    "t = st + length us" and ad: "all_double (glob_tokens (drop p pat))" and p: "p \<le> length pat" and sp: "sp \<le> length pat"
    and m: "token_match (Stars d # glob_tokens (drop sp pat)) (drop st inp)"
    using assms(1) by (auto simp: pending_def matched_since_def)
  have dr: "drop t inp = inp ! t # drop (Suc t) inp" using assms(2) by (simp add: Cons_nth_drop_Suc)
  have "\<not> token_match (glob_tokens (drop p pat)) (drop t inp)"
    using assms(3,4) p by (cases "p < length pat") (auto simp: glob_tokens_lit dr)
  then have no: "\<not> token_match (glob_tokens (drop sp pat)) (drop st inp)" by (simp add: us token_match_literals)
  have st: "st < length inp" using us(3) assms(2) by simp
  have dst: "drop st inp = inp ! st # drop (Suc st) inp" using st by (simp add: Cons_nth_drop_Suc)
  from m no have "d \<or> inp ! st \<noteq> CHR ''/''" "token_match (Stars d # glob_tokens (drop sp pat)) (drop (st + 1) inp)"
    unfolding dst by auto
  moreover have "all_double (glob_tokens (drop sp pat))" using ad unfolding us(1) by (induction us) auto
  then have "matched_since pat inp sp sp (st + 1) (st + 1)" using sp st unfolding matched_since_def by (intro exI [of _ "[]"]) simp
  ultimately show ?thesis using sp by (simp add: pending_def)
qed

lemma pending_end:
  assumes "pending pat inp p t star_p st d" and "t = length inp"
  shows "after_stars pat p = length pat"
proof -
  have "token_match (glob_tokens (drop p pat)) []"
  proof (cases star_p)
    case None
    then show ?thesis using assms by (simp add: pending_def)
  next
    case (Some sp)
    then obtain us where us: "glob_tokens (drop sp pat) = map Lit us @ glob_tokens (drop p pat)" "drop st inp = us @ drop t inp"
      and m: "token_match (Stars d # glob_tokens (drop sp pat)) (drop st inp)"
      using assms(1) by (auto simp: pending_def matched_since_def)
    from m obtain ws vs where "us = ws @ us @ vs" "token_match (glob_tokens (drop p pat)) vs"
      using us(2) assms(2) unfolding token_match_stars us(1) token_match_literals by auto
    moreover from this have "length vs = 0" by (metis add_cancel_left_right add_is_0 length_append add.left_commute)
    ultimately show ?thesis by simp
  qed
  then show ?thesis using assms(1) by (simp add: pending_def after_stars_end token_match_only_stars glob_tokens_only_stars)
qed

lemma glob_loop_complete:
  assumes "pending pat inp p t star_p st d" and "t \<le> length inp"
  shows "glob_loop pat inp p t star_p st d"
  using assms
proof (induction pat inp p t star_p st d rule: glob_loop.induct)
  case (1 pat inp p t star_p st d)
  let ?p = "after_stars pat p" and ?d = "snd (skip_stars (drop p pat) False)"
  consider (finished) "t = length inp"
    | (star) "t < length inp" "p < length pat" "pat ! p = CHR ''*''"
    | (same) "t < length inp" "p < length pat" "pat ! p \<noteq> CHR ''*''" "pat ! p = inp ! t"
    | (retry) "t < length inp" "\<not> (p < length pat \<and> pat ! p = CHR ''*'')" "\<not> (p < length pat \<and> pat ! p = inp ! t)"
    using "1.prems"(2) by linarith
  then show ?case
  proof cases
    case finished
    then show ?thesis using pending_end [OF "1.prems"(1) finished] by (simp add: glob_loop.simps)
  next
    case star
    note here = pending_at_stars [OF "1.prems"(1) star(2,3)]
    show ?thesis
    proof (cases "?p = length pat")
      case True
      then show ?thesis using here star by (subst glob_loop.simps) (auto simp: token_match_stars Let_def)
    next
      case False
      have "pending pat inp ?p t (Some ?p) t ?d"
        using here after_stars_bounds "1.prems"(2) by (auto simp: pending_def matched_since_def)
      then have "glob_loop pat inp ?p t (Some ?p) t ?d" using "1.IH"(1) star False "1.prems"(2) by blast
      then show ?thesis using star False by (subst glob_loop.simps) (simp add: Let_def)
    qed
  next
    case same
    have "glob_loop pat inp (p + 1) (t + 1) star_p st d"
      by (rule "1.IH"(2)) (use same pending_match [OF "1.prems"(1) same] in auto)
    then show ?thesis using same by (subst glob_loop.simps) simp
  next
    case retry
    have "star_p \<noteq> None"
    proof
      assume "star_p = None"
      with "1.prems"(1) have "token_match (glob_tokens (drop p pat)) (drop t inp)" by (simp add: pending_def)
      with retry show False
        by (cases "p < length pat") (auto simp: glob_tokens_lit Cons_nth_drop_Suc [symmetric, of t inp])
    qed
    then obtain sp where sp: "star_p = Some sp" by blast
    note next_try = pending_mismatch [OF "1.prems"(1) [unfolded sp] retry]
    have st: "st + 1 \<le> length inp" using "1.prems"(1) retry(1) by (auto simp: pending_def matched_since_def sp)
    have "glob_loop pat inp sp (st + 1) (Some sp) (st + 1) d"
      by (rule "1.IH"(3)) (use retry sp next_try st in auto)
    then show ?thesis using retry sp next_try by (subst glob_loop.simps) auto
  qed
qed

lemma glob_match_complete:
  assumes "later_double (glob_tokens pattern)" and "token_match (glob_tokens pattern) inp"
  shows "glob_match pattern inp"
  unfolding glob_match_def by (rule glob_loop_complete) (use assms in \<open>simp_all add: pending_def\<close>)

text \<open>
  C39. The glob matcher of the detection rules: it returns on every input, what it accepts matches the pattern (a star stays within
  a path segment, a double star crosses separators), and a pattern in which every group of stars after the first is double is
  matched exactly.
\<close>

theorem glob_match_exact:
  "(glob_match pattern inp \<longrightarrow> token_match (glob_tokens pattern) inp) \<and>
   (later_double (glob_tokens pattern) \<longrightarrow> (glob_match pattern inp \<longleftrightarrow> token_match (glob_tokens pattern) inp))"
  using glob_match_sound glob_match_complete by blast

lemma ssh_pattern_tokens:
  "glob_tokens ''**/.ssh/**'' = [Stars True, Lit (CHR ''/''), Lit (CHR ''.''), Lit (CHR ''s''), Lit (CHR ''s''), Lit (CHR ''h''), Lit (CHR ''/''), Stars True]"
  by simp

theorem glob_match_exact_witness: "glob_match ''**/.ssh/**'' ''/u/.ssh/id''"
  using glob_match_exact [of "''**/.ssh/**''" "''/u/.ssh/id''"] unfolding ssh_pattern_tokens by simp

text \<open>A single star behind other stars is given up at the first separator, and the earlier stars are not tried again: a password
  database in a nested directory is not found by the pattern that rule \<^verbatim>\<open>POLLEK-DET-0001\<close> ships for it, although the pattern
  means it.\<close>

lemma nested_database_missed:
  "\<not> glob_match ''**/*.kdbx'' ''/home/u/v.kdbx'' \<and> token_match (glob_tokens ''**/*.kdbx'') ''/home/u/v.kdbx''"
  by (simp add: glob_match_def glob_loop.simps after_stars_def numeral_eq_Suc)

end
