(* ===== verification/Detection_Rules.thy ===== *)
theory Detection_Rules
  imports Detection_Glob
begin

text \<open>
  The detection engine of \<^verbatim>\<open>src/crates/dek-detection\<close>: the rules (\<^verbatim>\<open>spec.rs\<close>), loading and checking a signed pack of
  them (\<^verbatim>\<open>loader.rs\<close>), evaluation against the events of a session (\<^verbatim>\<open>eval.rs\<close>) and the coverage registry
  (\<^verbatim>\<open>coverage.rs\<close>). The YAML and JSON parsers, the file system, SHA-256 and the signature verifier are parameters. A byte
  index inside a character panics, which ends the process in the release profile; such a call is \<open>None\<close>.
\<close>

subsection \<open>Rules\<close>

datatype severity = SevInfo | SevLow | SevMedium | SevHigh | SevCritical

datatype confidence = ConfLow | ConfMedium | ConfHigh

datatype rule_maturity = MatExperimental | MatBeta | MatStable

datatype detect_type = DtSignature | DtHeuristic | DtSequence | DtAnomaly

datatype response_action = RaObserve | RaWarn | RaAsk | RaBlock | RaRedact | RaIsolate

record maps =
  owasp_llm :: "string list"
  owasp_agentic :: "string list"
  atlas :: "string list"
  attack :: "string list"
  nist_rmf :: "string list"

record rule_step =
  rs_activity :: "string option"
  rs_action :: "string option"
  rs_resource_classification :: "string option"
  rs_provenance_taint :: "string option"
  rs_path_matches :: "string list"
  rs_host_reputation :: "string list"
  rs_negate_allowlist :: bool
  rs_min_count :: "u32 option"

record detect_spec =
  detect_type :: detect_type
  detect_window :: "string option"
  detect_steps :: "rule_step list"

record rule_response =
  rr_default :: response_action
  rr_enforce_if_capable :: "response_action option"
  rr_observe_only_fallback :: bool
  rr_user_message :: string

record suppress_rule =
  sr_agent_id_in :: "string option"
  sr_host_in :: "string option"

record tuning =
  tn_suppress_if :: "suppress_rule list"
  tn_baseline_learning_days :: "u32 option"

record rule_spec =
  rule_id :: string
  rule_name :: string
  rule_severity :: severity
  rule_confidence :: confidence
  rule_maturity :: rule_maturity
  rule_maps :: maps
  rule_detect :: detect_spec
  rule_response :: rule_response
  rule_tuning :: "tuning option"
  rule_enabled :: bool

text \<open>The product of a release build wraps; the last byte is split off, which panics inside a character.\<close>

definition window_unit :: "string \<Rightarrow> int option" where
  "window_unit u = (if u = ''s'' then Some 1000 else if u = ''m'' then Some 60000 else if u = ''h'' then Some 3600000 else None)"

definition parse_window_ms :: "string \<Rightarrow> (string, int) result option" where
  "parse_window_ms w =
     (let s = trim w in
      if s = [] then Some (Inl ''empty window'')
      else if is_cont (last s) then None
      else case parse_i64 (butlast s) of
          None \<Rightarrow> Some (Inl (''invalid window number in '' @ [CHR 0x27] @ s @ [CHR 0x27]))
        | Some value \<Rightarrow> (case window_unit [last s] of
              None \<Rightarrow> Some (Inl (''invalid window unit in '' @ [CHR 0x27] @ s @ [CHR 0x27] @ '' (use s/m/h)''))
            | Some mult \<Rightarrow> Some (Inr (i64_wrap (value * mult)))))"

subsection \<open>Matching an event\<close>

record observed_event =
  ev_event_id :: string
  ev_ts_ms :: int
  ev_agent_id :: string
  ev_session_id :: string
  ev_activity :: string
  ev_action :: string
  ev_resource_classification :: "string option"
  ev_provenance_taint :: "string option"
  ev_path :: "string option"
  ev_host :: "string option"
  ev_host_reputation :: "string option"
  ev_in_allowlist :: bool

record detection =
  dn_rule_id :: string
  dn_matched_event_ids :: "string list"

definition untrusted_origins :: "string list" where
  "untrusted_origins = [''web'', ''email'', ''untrusted_file'', ''rag_retrieval'', ''tool_output'', ''unknown'']"

definition eq_ignore_ascii_case :: "string \<Rightarrow> string \<Rightarrow> bool" where
  "eq_ignore_ascii_case a b \<longleftrightarrow> to_ascii_lowercase a = to_ascii_lowercase b"

definition unwrap_str :: "string option \<Rightarrow> string" where
  "unwrap_str s = (case s of Some x \<Rightarrow> x | None \<Rightarrow> [])"

definition taint_ok :: "string \<Rightarrow> string \<Rightarrow> bool" where
  "taint_ok taint origin \<longleftrightarrow>
     (if eq_ignore_ascii_case taint ''any'' then \<exists>x\<in>set untrusted_origins. eq_ignore_ascii_case x origin
      else eq_ignore_ascii_case taint origin)"

definition step_matches :: "rule_step \<Rightarrow> observed_event \<Rightarrow> bool" where
  "step_matches step ev \<longleftrightarrow>
     (case rs_activity step of None \<Rightarrow> True | Some a \<Rightarrow> eq_ignore_ascii_case a (ev_activity ev)) \<and>
     (case rs_action step of None \<Rightarrow> True | Some a \<Rightarrow> eq_ignore_ascii_case a (ev_action ev)) \<and>
     (case rs_resource_classification step of None \<Rightarrow> True
      | Some rc \<Rightarrow> (case ev_resource_classification ev of Some erc \<Rightarrow> eq_ignore_ascii_case erc rc | None \<Rightarrow> False)) \<and>
     (case rs_provenance_taint step of None \<Rightarrow> True | Some t \<Rightarrow> taint_ok t (unwrap_str (ev_provenance_taint ev))) \<and>
     (rs_path_matches step \<noteq> [] \<longrightarrow> (\<exists>p\<in>set (rs_path_matches step). glob_match p (unwrap_str (ev_path ev)))) \<and>
     (rs_host_reputation step \<noteq> [] \<longrightarrow> (\<exists>r\<in>set (rs_host_reputation step). eq_ignore_ascii_case r (unwrap_str (ev_host_reputation ev)))) \<and>
     \<not> (rs_negate_allowlist step \<and> ev_in_allowlist ev)"

subsection \<open>Evaluating a rule\<close>

text \<open>The window in milliseconds; one that does not parse is as good as none.\<close>

definition window_of :: "rule_spec \<Rightarrow> int option" where
  "window_of rule =
     (case detect_window (rule_detect rule) of
        None \<Rightarrow> Some i64_max
      | Some w \<Rightarrow> (case parse_window_ms w of
            None \<Rightarrow> None
          | Some (Inl _) \<Rightarrow> Some i64_max
          | Some (Inr ms) \<Rightarrow> Some ms))"

fun match_chain :: "int \<Rightarrow> int \<Rightarrow> rule_step list \<Rightarrow> observed_event list \<Rightarrow> string list option" where
  "match_chain window_ms first_ts [] evs = Some []"
| "match_chain window_ms first_ts (s # ss) [] = None"
| "match_chain window_ms first_ts (s # ss) (e # es) =
     (if i64_wrap (ev_ts_ms e - first_ts) > window_ms then None
      else if step_matches s e then map_option (Cons (ev_event_id e)) (match_chain window_ms first_ts ss es)
      else match_chain window_ms first_ts (s # ss) es)"

fun find_sequence :: "int \<Rightarrow> rule_step \<Rightarrow> rule_step list \<Rightarrow> observed_event list \<Rightarrow> string list option" where
  "find_sequence window_ms s ss [] = None"
| "find_sequence window_ms s ss (e # es) =
     (if step_matches s e then
        (case match_chain window_ms (ev_ts_ms e) ss es of
           Some ids \<Rightarrow> Some (ev_event_id e # ids)
         | None \<Rightarrow> find_sequence window_ms s ss es)
      else find_sequence window_ms s ss es)"

definition evaluate_sequence :: "rule_spec \<Rightarrow> observed_event list \<Rightarrow> detection option option" where
  "evaluate_sequence rule events =
     map_option (\<lambda>w. map_option (\<lambda>ids. \<lparr>dn_rule_id = rule_id rule, dn_matched_event_ids = ids\<rparr>)
         (find_sequence w (hd (detect_steps (rule_detect rule))) (tl (detect_steps (rule_detect rule))) events))
       (window_of rule)"

definition min_count_of :: "rule_step \<Rightarrow> nat" where
  "min_count_of step = (case rs_min_count step of None \<Rightarrow> 1 | Some c \<Rightarrow> max 1 (unat c))"

fun find_burst :: "int \<Rightarrow> nat \<Rightarrow> observed_event list \<Rightarrow> string list option" where
  "find_burst window_ms n [] = None"
| "find_burst window_ms n (h # hs) =
     (if n - 1 < length (h # hs) \<and> i64_wrap (ev_ts_ms ((h # hs) ! (n - 1)) - ev_ts_ms h) \<le> window_ms
      then Some (map ev_event_id (take n (h # hs)))
      else find_burst window_ms n hs)"

definition evaluate_anomaly :: "rule_spec \<Rightarrow> observed_event list \<Rightarrow> detection option option" where
  "evaluate_anomaly rule events =
     map_option (\<lambda>w.
         let step = hd (detect_steps (rule_detect rule));
             hits = filter (step_matches step) events
         in if length hits < min_count_of step then None
            else map_option (\<lambda>ids. \<lparr>dn_rule_id = rule_id rule, dn_matched_event_ids = ids\<rparr>) (find_burst w (min_count_of step) hits))
       (window_of rule)"

definition evaluate_rule :: "rule_spec \<Rightarrow> observed_event list \<Rightarrow> detection option option" where
  "evaluate_rule rule events =
     (if \<not> rule_enabled rule \<or> detect_steps (rule_detect rule) = [] then Some None
      else case detect_type (rule_detect rule) of
          DtSignature \<Rightarrow> Some (map_option (\<lambda>ev. \<lparr>dn_rule_id = rule_id rule, dn_matched_event_ids = [ev_event_id ev]\<rparr>)
             (find (step_matches (hd (detect_steps (rule_detect rule)))) events))
        | DtHeuristic \<Rightarrow> Some (map_option (\<lambda>ev. \<lparr>dn_rule_id = rule_id rule, dn_matched_event_ids = [ev_event_id ev]\<rparr>)
             (find (step_matches (hd (detect_steps (rule_detect rule)))) events))
        | DtSequence \<Rightarrow> evaluate_sequence rule events
        | DtAnomaly \<Rightarrow> evaluate_anomaly rule events)"

subsection \<open>Sequences and bursts\<close>

definition timeline :: "observed_event list \<Rightarrow> bool" where
  "timeline es \<longleftrightarrow> sorted (map ev_ts_ms es) \<and> (\<forall>e\<in>set es. 0 \<le> ev_ts_ms e \<and> ev_ts_ms e \<le> i64_max)"

lemma timeline_Cons: "timeline (e # es) \<longleftrightarrow> timeline es \<and> (\<forall>x\<in>set es. ev_ts_ms e \<le> ev_ts_ms x) \<and> 0 \<le> ev_ts_ms e \<and> ev_ts_ms e \<le> i64_max"
  by (auto simp: timeline_def)

lemma timeline_filter: "timeline es \<Longrightarrow> timeline (filter P es)"
  unfolding timeline_def by (auto simp: sorted_map_same sorted_filter)

lemma ts_diff [simp]: "0 \<le> a \<Longrightarrow> a \<le> i64_max \<Longrightarrow> 0 \<le> b \<Longrightarrow> b \<le> i64_max \<Longrightarrow> i64_wrap (a - b) = a - b"
  by (simp add: i64_wrap_id i64_range_def)

lemma i64_wrap_zero [simp]: "i64_wrap 0 = 0"
  by (simp add: i64_wrap_def)

lemma subseq_set: "subseq xs ys \<Longrightarrow> set xs \<subseteq> set ys"
  by (induction rule: list_emb.induct) auto

lemma timeline_nth_mono: "timeline xs \<Longrightarrow> i \<le> j \<Longrightarrow> j < length xs \<Longrightarrow> ev_ts_ms (xs ! i) \<le> ev_ts_ms (xs ! j)"
  using sorted_nth_mono [of "map ev_ts_ms xs" i j] by (simp add: timeline_def)

lemma subseq_ConsE: "subseq (m # ms) (e # es) \<Longrightarrow> subseq ms es \<and> (m = e \<or> subseq (m # ms) es)"
  by (auto split: if_splits dest: subseq_Cons')

text \<open>Taking the first event for each step misses nothing: the chain is found exactly when some selection of later events, in order,
  matches the steps within the window.\<close>

lemma match_chain_sound:
  assumes "match_chain w t0 ss es = Some ids" and "timeline es" and "0 \<le> t0" and "t0 \<le> i64_max"
  shows "\<exists>ms. subseq ms es \<and> list_all2 step_matches ss ms \<and> (\<forall>m\<in>set ms. ev_ts_ms m - t0 \<le> w) \<and> ids = map ev_event_id ms"
  using assms
proof (induction w t0 ss es arbitrary: ids rule: match_chain.induct)
  case (3 w t0 s ss e es)
  have tl: "timeline es" and r: "0 \<le> ev_ts_ms e" "ev_ts_ms e \<le> i64_max" using "3.prems"(2) by (auto simp: timeline_Cons)
  have near: "ev_ts_ms e - t0 \<le> w" using "3.prems" r by (auto split: if_splits)
  show ?case
  proof (cases "step_matches s e")
    case True
    then obtain ids' where i: "match_chain w t0 ss es = Some ids'" "ids = ev_event_id e # ids'" using "3.prems" near r by auto
    then obtain ms where "subseq ms es \<and> list_all2 step_matches ss ms \<and> (\<forall>m\<in>set ms. ev_ts_ms m - t0 \<le> w) \<and> ids' = map ev_event_id ms"
      using "3.IH"(1) [of ids'] True near r tl "3.prems"(3,4) by auto
    then show ?thesis using True near i by (intro exI [of _ "e # ms"]) auto
  next
    case False
    then obtain ms where "subseq ms es \<and> list_all2 step_matches (s # ss) ms \<and> (\<forall>m\<in>set ms. ev_ts_ms m - t0 \<le> w) \<and> ids = map ev_event_id ms"
      using "3.IH"(2) [of ids] near r tl "3.prems" by auto
    then show ?thesis by blast
  qed
qed auto

lemma match_chain_complete:
  assumes "subseq ms es" and "list_all2 step_matches ss ms" and "\<forall>m\<in>set ms. ev_ts_ms m - t0 \<le> w"
    and "timeline es" and "0 \<le> t0" and "t0 \<le> i64_max"
  shows "\<exists>ids. match_chain w t0 ss es = Some ids"
  using assms
proof (induction w t0 ss es arbitrary: ms rule: match_chain.induct)
  case (3 w t0 s ss e es)
  obtain m ms' where ms: "ms = m # ms'" "step_matches s m" "list_all2 step_matches ss ms'" using "3.prems"(2) by (cases ms) auto
  have tl: "timeline es" and r: "0 \<le> ev_ts_ms e" "ev_ts_ms e \<le> i64_max" and le: "\<forall>x\<in>set es. ev_ts_ms e \<le> ev_ts_ms x"
    using "3.prems"(4) by (auto simp: timeline_Cons)
  have sub: "subseq ms' es" "m = e \<or> subseq ms es" using subseq_ConsE [of m ms' e es] "3.prems"(1) by (simp_all only: ms)
  have "m \<in> insert e (set es)" using subseq_set [OF "3.prems"(1)] by (simp add: ms)
  then have near: "ev_ts_ms e - t0 \<le> w" using le "3.prems"(3) by (force simp: ms)
  show ?case
  proof (cases "step_matches s e")
    case True
    then show ?thesis using "3.IH"(1) [of ms'] sub ms near r tl "3.prems" by auto
  next
    case False
    then show ?thesis using "3.IH"(2) [of ms] sub ms near r tl "3.prems" by auto
  qed
qed (auto simp: list_all2_Cons1)

definition sequence_in :: "int \<Rightarrow> rule_step list \<Rightarrow> observed_event list \<Rightarrow> observed_event list \<Rightarrow> bool" where
  "sequence_in w steps es ms \<longleftrightarrow>
     subseq ms es \<and> list_all2 step_matches steps ms \<and> (\<forall>m\<in>set ms. ev_ts_ms m - ev_ts_ms (hd ms) \<le> w)"

lemma find_sequence_sound:
  "find_sequence w s ss es = Some ids \<Longrightarrow> timeline es \<Longrightarrow> 0 \<le> w \<Longrightarrow>
   \<exists>ms. sequence_in w (s # ss) es ms \<and> ids = map ev_event_id ms"
proof (induction es)
  case (Cons e es)
  have tl: "timeline es" and r: "0 \<le> ev_ts_ms e" "ev_ts_ms e \<le> i64_max" using Cons.prems(2) by (auto simp: timeline_Cons)
  show ?case
  proof (cases "step_matches s e \<and> match_chain w (ev_ts_ms e) ss es \<noteq> None")
    case True
    then obtain ids' where i: "match_chain w (ev_ts_ms e) ss es = Some ids'" "ids = ev_event_id e # ids'" using Cons.prems(1) by auto
    then obtain ms where "subseq ms es" "list_all2 step_matches ss ms" "\<forall>m\<in>set ms. ev_ts_ms m - ev_ts_ms e \<le> w" "ids' = map ev_event_id ms"
      using match_chain_sound [OF i(1) tl r] by blast
    then show ?thesis using True i Cons.prems(3) by (intro exI [of _ "e # ms"]) (auto simp: sequence_in_def)
  next
    case False
    then have "find_sequence w s ss es = Some ids" using Cons.prems(1) by (auto split: if_splits option.splits)
    then show ?thesis using Cons.IH tl Cons.prems(3) by (auto simp: sequence_in_def)
  qed
qed simp

lemma find_sequence_complete:
  "sequence_in w (s # ss) es ms \<Longrightarrow> timeline es \<Longrightarrow> \<exists>ids. find_sequence w s ss es = Some ids"
proof (induction es)
  case (Cons e es)
  have tl: "timeline es" and r: "0 \<le> ev_ts_ms e" "ev_ts_ms e \<le> i64_max" using Cons.prems(2) by (auto simp: timeline_Cons)
  obtain m ms' where ms: "ms = m # ms'" "step_matches s m" "list_all2 step_matches ss ms'"
    using Cons.prems(1) by (cases ms) (auto simp: sequence_in_def)
  have sub: "subseq ms' es" "m = e \<or> subseq ms es" using subseq_ConsE [of m ms' e es] Cons.prems(1) by (simp_all only: ms sequence_in_def)
  show ?case
  proof (cases "m = e")
    case True
    then have "\<exists>ids. match_chain w (ev_ts_ms e) ss es = Some ids"
      using match_chain_complete [OF sub(1) ms(3) _ tl r] Cons.prems(1) by (auto simp: sequence_in_def ms)
    then show ?thesis using True ms(2) by auto
  next
    case False
    then have "\<exists>ids. find_sequence w s ss es = Some ids" using Cons.IH tl sub Cons.prems(1) by (auto simp: sequence_in_def)
    then show ?thesis by (auto split: option.splits)
  qed
qed (auto simp: sequence_in_def list_all2_Cons1)

definition burst_in :: "int \<Rightarrow> nat \<Rightarrow> observed_event list \<Rightarrow> observed_event list \<Rightarrow> bool" where
  "burst_in w n hs ms \<longleftrightarrow> subseq ms hs \<and> length ms = n \<and> (\<forall>m\<in>set ms. ev_ts_ms m - ev_ts_ms (hd ms) \<le> w)"

lemma subseq_nth_le:
  assumes "subseq ms hs" and "timeline hs" and "ms \<noteq> []"
  shows "length ms \<le> length hs \<and> ev_ts_ms (hs ! (length ms - 1)) \<le> ev_ts_ms (last ms)"
  using assms
proof (induction hs arbitrary: ms rule: list.induct)
  case (Cons h hs)
  obtain m ms' where ms: "ms = m # ms'" using Cons.prems(3) by (cases ms) auto
  have tl: "timeline hs" and le: "\<forall>x\<in>set hs. ev_ts_ms h \<le> ev_ts_ms x" using Cons.prems(2) by (auto simp: timeline_Cons)
  have sub: "subseq ms' hs" "m = h \<or> subseq ms hs" using subseq_ConsE [of m ms' h hs] Cons.prems(1) by (simp_all only: ms)
  note IH = Cons.IH [of ms']
  show ?case
  proof (cases ms')
    case Nil
    have "m \<in> insert h (set hs)" using subseq_set [OF Cons.prems(1)] by (simp add: ms)
    then show ?thesis using Nil le by (auto simp: ms)
  next
    case (Cons m' ms'')
    then show ?thesis using IH sub(1) tl by (simp add: ms)
  qed
qed simp

lemma find_burst_sound:
  "find_burst w n hs = Some ids \<Longrightarrow> timeline hs \<Longrightarrow> 0 < n \<Longrightarrow> \<exists>ms. burst_in w n hs ms \<and> ids = map ev_event_id ms"
proof (induction hs)
  case (Cons h hs)
  have tl: "timeline hs" and r: "0 \<le> ev_ts_ms h" "ev_ts_ms h \<le> i64_max" using Cons.prems(2) by (auto simp: timeline_Cons)
  let ?x = "(h # hs) ! (n - 1)"
  show ?case
  proof (cases "n - 1 < length (h # hs) \<and> i64_wrap (ev_ts_ms ?x - ev_ts_ms h) \<le> w")
    case True
    then have n: "n \<le> length (h # hs)" using Cons.prems(3) by linarith
    have x: "?x \<in> set (h # hs)" using True by (intro nth_mem) simp
    then have "ev_ts_ms ?x - ev_ts_ms h \<le> w" using True Cons.prems(2) r by (auto simp: timeline_def)
    moreover have "ev_ts_ms m \<le> ev_ts_ms ?x" if m: "m \<in> set (take n (h # hs))" for m
    proof -
      from m obtain i where "i < n" "m = (h # hs) ! i" using n by (metis in_set_conv_nth length_take min.absorb2 nth_take)
      then show ?thesis using timeline_nth_mono [OF Cons.prems(2), of i "n - 1"] True by simp
    qed
    ultimately have "burst_in w n (h # hs) (take n (h # hs))"
      unfolding burst_in_def using n Cons.prems(3) by (force simp: take_is_prefix prefix_imp_subseq hd_take simp del: take_Cons)
    moreover have "ids = map ev_event_id (take n (h # hs))" using True Cons.prems(1) by simp
    ultimately show ?thesis by blast
  next
    case False
    then have "find_burst w n hs = Some ids" using Cons.prems(1) by auto
    then obtain ms where "burst_in w n hs ms" "ids = map ev_event_id ms" using Cons.IH tl Cons.prems(3) by blast
    then show ?thesis by (intro exI [of _ ms]) (simp add: burst_in_def list_emb_Cons)
  qed
qed simp

lemma find_burst_complete:
  "burst_in w n hs ms \<Longrightarrow> timeline hs \<Longrightarrow> 0 < n \<Longrightarrow> \<exists>ids. find_burst w n hs = Some ids"
proof (induction hs)
  case (Cons h hs)
  have tl: "timeline hs" and r: "0 \<le> ev_ts_ms h" "ev_ts_ms h \<le> i64_max" using Cons.prems(2) by (auto simp: timeline_Cons)
  obtain m ms' where ms: "ms = m # ms'" using Cons.prems(1,3) by (cases ms) (auto simp: burst_in_def)
  have sub: "m = h \<or> subseq ms hs" using subseq_ConsE [of m ms' h hs] Cons.prems(1) by (simp only: ms burst_in_def)
  show ?case
  proof (cases "m = h")
    case True
    let ?x = "(h # hs) ! (n - 1)"
    have "subseq ms (h # hs)" "length ms = n" "ms \<noteq> []" using Cons.prems(1) by (simp_all only: burst_in_def ms list.distinct not_False_eq_True)
    then have n: "n - 1 < length (h # hs)" "ev_ts_ms ?x \<le> ev_ts_ms (last ms)"
      using subseq_nth_le [of ms "h # hs"] Cons.prems(2,3) by (simp_all del: subseq_Cons2_iff) linarith
    have "ev_ts_ms (last ms) - ev_ts_ms h \<le> w" using Cons.prems(1) True by (simp add: burst_in_def ms)
    moreover have "?x \<in> set (h # hs)" using n(1) by (intro nth_mem) simp
    ultimately have "i64_wrap (ev_ts_ms ?x - ev_ts_ms h) \<le> w" using n(2) Cons.prems(2) r by (auto simp: timeline_def)
    then show ?thesis using n(1) by simp
  next
    case False
    then show ?thesis using Cons sub tl by (auto simp: burst_in_def)
  qed
qed (auto simp: burst_in_def)

lemma subseq_filter_iff: "subseq ms (filter P es) \<longleftrightarrow> subseq ms es \<and> (\<forall>m\<in>set ms. P m)"
proof
  assume "subseq ms (filter P es)"
  then show "subseq ms es \<and> (\<forall>m\<in>set ms. P m)"
    using subseq_filter_left [of P es] subseq_set by (fastforce intro: subseq_order.order_trans)
next
  assume "subseq ms es \<and> (\<forall>m\<in>set ms. P m)"
  then show "subseq ms (filter P es)" using subseq_filter [of ms es P] by simp
qed

lemma find_burst_iff:
  assumes "timeline events" and "0 < n"
  shows "(\<exists>ids. find_burst w n (filter P events) = Some ids) \<longleftrightarrow>
     (\<exists>ms. burst_in w n events ms \<and> (\<forall>m\<in>set ms. P m))"
  using find_burst_sound [of w n "filter P events"] find_burst_complete [of w n "filter P events"] timeline_filter [OF assms(1), of P] assms(2)
  unfolding burst_in_def subseq_filter_iff by blast

lemma min_count_pos: "0 < min_count_of step"
  by (auto simp: min_count_of_def less_max_iff_disj split: option.splits)

lemma burst_length: "burst_in w n hs ms \<Longrightarrow> n \<le> length hs"
  by (auto simp: burst_in_def dest: list_emb_length)

definition fires :: "rule_spec \<Rightarrow> observed_event list \<Rightarrow> bool" where
  "fires rule events \<longleftrightarrow> (\<exists>d. evaluate_rule rule events = Some (Some d))"

lemma fires_anomaly:
  assumes "timeline events" and "rule_enabled rule" and "detect_type (rule_detect rule) = DtAnomaly"
    and "detect_steps (rule_detect rule) = s # ss" and "window_of rule = Some w"
  shows "fires rule events \<longleftrightarrow> (\<exists>ms. burst_in w (min_count_of s) events ms \<and> (\<forall>m\<in>set ms. step_matches s m))"
proof -
  have "fires rule events \<longleftrightarrow> min_count_of s \<le> length (filter (step_matches s) events) \<and>
      (\<exists>ids. find_burst w (min_count_of s) (filter (step_matches s) events) = Some ids)"
    using assms by (auto simp: fires_def evaluate_rule_def evaluate_anomaly_def Let_def not_less split: if_splits)
  also have "\<dots> \<longleftrightarrow> (\<exists>ids. find_burst w (min_count_of s) (filter (step_matches s) events) = Some ids)"
    using find_burst_sound [OF _ timeline_filter [OF assms(1)] min_count_pos] burst_length by blast
  finally show ?thesis using find_burst_iff [OF assms(1) min_count_pos] by simp
qed

lemma fires_sequence:
  assumes "timeline events" and "rule_enabled rule" and "detect_type (rule_detect rule) = DtSequence"
    and "detect_steps (rule_detect rule) = s # ss" and "window_of rule = Some w" and "0 \<le> w"
  shows "fires rule events \<longleftrightarrow> (\<exists>ms. sequence_in w (s # ss) events ms)"
proof -
  have "fires rule events \<longleftrightarrow> (\<exists>ids. find_sequence w s ss events = Some ids)"
    using assms by (auto simp: fires_def evaluate_rule_def evaluate_sequence_def)
  then show ?thesis using find_sequence_sound [OF _ assms(1,6)] find_sequence_complete [OF _ assms(1)] by blast
qed

lemma fires_single:
  assumes "rule_enabled rule" and "detect_type (rule_detect rule) \<in> {DtSignature, DtHeuristic}" and "detect_steps (rule_detect rule) = s # ss"
  shows "fires rule events \<longleftrightarrow> (\<exists>e\<in>set events. step_matches s e)"
proof -
  have "fires rule events \<longleftrightarrow> find (step_matches s) events \<noteq> None"
    using assms by (auto simp: fires_def evaluate_rule_def)
  then show ?thesis by (auto simp: find_None_iff)
qed

text \<open>
  C40. What a detection rule finds in the events of a session in the order of time: a signature or heuristic rule an event that matches
  its step; a sequence rule events in that order, one for each step, all within the window of the first; an anomaly rule as many
  matching events as it asks for within the window. The greedy search and the sliding window miss nothing.
\<close>

theorem detection_exact:
  assumes "timeline events" and "rule_enabled rule" and "detect_steps (rule_detect rule) = s # ss"
    and "window_of rule = Some w" and "0 \<le> w"
  shows "fires rule events \<longleftrightarrow>
    (case detect_type (rule_detect rule) of
       DtSequence \<Rightarrow> \<exists>ms. sequence_in w (s # ss) events ms
     | DtAnomaly \<Rightarrow> \<exists>ms. burst_in w (min_count_of s) events ms \<and> (\<forall>m\<in>set ms. step_matches s m)
     | _ \<Rightarrow> \<exists>e\<in>set events. step_matches s e)"
  using fires_single [OF assms(2) _ assms(3), of events] fires_sequence [OF assms(1,2) _ assms(3,4,5)] fires_anomaly [OF assms(1,2) _ assms(3,4)]
  by (cases "detect_type (rule_detect rule)") simp_all

definition demo_step :: "string \<Rightarrow> rule_step" where
  "demo_step a = \<lparr>rs_activity = Some a, rs_action = None, rs_resource_classification = None, rs_provenance_taint = None, rs_path_matches = [],
     rs_host_reputation = [], rs_negate_allowlist = False, rs_min_count = None\<rparr>"

definition demo_rule :: "string option \<Rightarrow> rule_spec" where
  "demo_rule w = \<lparr>rule_id = ''R'', rule_name = ''r'', rule_severity = SevHigh, rule_confidence = ConfHigh, rule_maturity = MatStable,
     rule_maps = \<lparr>owasp_llm = [], owasp_agentic = [''ASI01''], atlas = [''T1''], attack = [], nist_rmf = []\<rparr>,
     rule_detect = \<lparr>detect_type = DtSequence, detect_window = w, detect_steps = [demo_step ''read'', demo_step ''send'']\<rparr>,
     rule_response = \<lparr>rr_default = RaObserve, rr_enforce_if_capable = None, rr_observe_only_fallback = True, rr_user_message = []\<rparr>,
     rule_tuning = None, rule_enabled = True\<rparr>"

definition demo_event :: "string \<Rightarrow> int \<Rightarrow> observed_event" where
  "demo_event a t = \<lparr>ev_event_id = a, ev_ts_ms = t, ev_agent_id = ''a'', ev_session_id = ''s'', ev_activity = a, ev_action = [],
     ev_resource_classification = None, ev_provenance_taint = None, ev_path = None, ev_host = None, ev_host_reputation = None, ev_in_allowlist = False\<rparr>"

lemma demo_step_matches: "step_matches (demo_step a) (demo_event b t) \<longleftrightarrow> eq_ignore_ascii_case a b"
  by (simp add: step_matches_def demo_step_def demo_event_def)

lemma demo_window: "window_of (demo_rule (Some ''120s'')) = Some 120000"
  by (simp add: window_of_def demo_rule_def parse_window_ms_def window_unit_def trim_def is_ws_def is_cont_def parse_i64_def unsigned_value_def
      digit_value_def Let_def i64_range_def i64_wrap_id)

theorem detection_exact_witness:
  "fires (demo_rule (Some ''120s'')) [demo_event ''read'' 0, demo_event ''send'' 5] \<and>
   \<not> fires (demo_rule (Some ''120s'')) [demo_event ''read'' 0, demo_event ''send'' 120001]"
proof -
  have t: "timeline [demo_event ''read'' 0, demo_event ''send'' 5]" "timeline [demo_event ''read'' 0, demo_event ''send'' 120001]"
    by (simp_all add: timeline_def demo_event_def)
  have r: "rule_enabled (demo_rule w)" "detect_steps (rule_detect (demo_rule w)) = [demo_step ''read'', demo_step ''send'']"
    "detect_type (rule_detect (demo_rule w)) = DtSequence" for w by (simp_all add: demo_rule_def)
  have e: "eq_ignore_ascii_case ''read'' ''read''" "eq_ignore_ascii_case ''send'' ''send''" "\<not> eq_ignore_ascii_case ''send'' ''read''"
    "\<not> eq_ignore_ascii_case ''read'' ''send''" by (simp_all add: eq_ignore_ascii_case_def to_ascii_lowercase_def)
  have "sequence_in 120000 [demo_step ''read'', demo_step ''send''] [demo_event ''read'' 0, demo_event ''send'' 5] [demo_event ''read'' 0, demo_event ''send'' 5]"
    by (simp add: sequence_in_def demo_step_matches e) (simp add: demo_event_def)
  moreover have "\<not> sequence_in 120000 [demo_step ''read'', demo_step ''send''] [demo_event ''read'' 0, demo_event ''send'' 120001] ms" for ms
  proof
    assume s: "sequence_in 120000 [demo_step ''read'', demo_step ''send''] [demo_event ''read'' 0, demo_event ''send'' 120001] ms"
    then obtain a b where ms: "ms = [a, b]" by (auto simp: sequence_in_def list_all2_Cons1)
    have "set [a, b] \<subseteq> set [demo_event ''read'' 0, demo_event ''send'' 120001]"
      using s subseq_set unfolding sequence_in_def ms by blast
    then have "a = demo_event ''read'' 0" "b = demo_event ''send'' 120001"
      using s unfolding sequence_in_def ms by (auto simp: demo_step_matches e)
    then show False using s by (simp add: sequence_in_def ms demo_event_def)
  qed
  ultimately show ?thesis
    using detection_exact [OF t(1) r(1,2) demo_window] detection_exact [OF t(2) r(1,2) demo_window] unfolding r(3) by auto
qed

text \<open>A window that does not parse counts as no limit at all, and validation does not look at it: a rule meant for five seconds with a
  misspelt unit fires on events a day apart.\<close>

lemma misspelt_window_is_unlimited: "window_of (demo_rule (Some ''5 sec'')) = Some i64_max"
  by (simp add: window_of_def demo_rule_def parse_window_ms_def window_unit_def trim_def is_ws_def is_cont_def parse_i64_def unsigned_value_def
      digit_value_def Let_def)

text \<open>A window that ends in a character of several bytes ends the process.\<close>

lemma window_panics: "trim w \<noteq> [] \<Longrightarrow> is_cont (last (trim w)) \<Longrightarrow> parse_window_ms w = None"
  by (simp add: parse_window_ms_def Let_def)

text \<open>The tuning of a rule has no effect: no suppression and no baseline is looked at.\<close>

lemma suppression_ignored: "evaluate_rule (rule\<lparr>rule_tuning := t\<rparr>) events = evaluate_rule rule events"
  by (cases "detect_type (rule_detect rule)") (simp_all add: evaluate_rule_def evaluate_sequence_def evaluate_anomaly_def window_of_def Let_def cong: if_cong)

subsection \<open>Loading a pack\<close>

datatype load_error = LoadIo string | LoadParse string string | LoadValidation string string | LoadIntegrity string

fun show_load_error :: "load_error \<Rightarrow> string" where
  "show_load_error (LoadIo e) = ''io error: '' @ e"
| "show_load_error (LoadParse file e) = ''parse error in '' @ file @ '': '' @ e"
| "show_load_error (LoadValidation r e) = ''validation error in '' @ r @ '': '' @ e"
| "show_load_error (LoadIntegrity e) = ''integrity error: '' @ e"

record rule_entry =
  re_id :: string
  re_file :: string
  re_sha256 :: string

record pack_manifest =
  pm_schema_version :: string
  pm_pack_id :: string
  pm_version :: string
  pm_created :: string
  pm_min_engine :: string
  pm_rules :: "rule_entry list"
  pm_signature_method :: string
  pm_signature_bundle :: string

text \<open>The files of the pack directory, the parsers, the hash and the caller's signature verifier; an error carries the text of
  the library.\<close>

record pack_env =
  pe_read :: "string \<Rightarrow> (string, string) result"
  pe_listing :: "(string, string list) result"
  pe_path :: "string \<Rightarrow> string"
  pe_manifest :: "string \<Rightarrow> (string, pack_manifest) result"
  pe_yaml :: "string \<Rightarrow> (string, rule_spec) result"
  pe_sha256_hex :: "string \<Rightarrow> string"
  pe_verify :: "pack_manifest \<Rightarrow> (string, unit) result"
  pe_utf8_error :: "string \<Rightarrow> string"

definition validate_rule :: "rule_spec \<Rightarrow> (load_error, unit) result" where
  "validate_rule rule =
     (let failing = (\<lambda>m. Inl (LoadValidation (rule_id rule) m)) in
      if owasp_agentic (rule_maps rule) = [] then failing ''maps.owasp_agentic is empty (coverage proof required)''
      else if atlas (rule_maps rule) = [] \<and> attack (rule_maps rule) = [] then failing ''maps must include at least one ATLAS or ATT&CK id''
      else if \<not> rr_observe_only_fallback (rule_response rule) then failing ''response.observe_only_fallback must be true''
      else if detect_steps (rule_detect rule) = [] then failing ''detect.steps must not be empty''
      else if detect_type (rule_detect rule) \<in> {DtSequence, DtAnomaly} \<and> detect_window (rule_detect rule) = None
      then failing ''sequence/anomaly rules require a window''
      else Inr ())"

definition parse_rule :: "pack_env \<Rightarrow> string \<Rightarrow> string \<Rightarrow> (load_error, rule_spec) result" where
  "parse_rule env file text =
     (case pe_yaml env text of
        Inl e \<Rightarrow> Inl (LoadParse (pe_path env file) e)
      | Inr rule \<Rightarrow> (case validate_rule rule of Inl e \<Rightarrow> Inl e | Inr _ \<Rightarrow> Inr rule))"

fun collect_rules :: "('a \<Rightarrow> (load_error, rule_spec) result) \<Rightarrow> 'a list \<Rightarrow> (load_error, rule_spec list) result" where
  "collect_rules f [] = Inr []"
| "collect_rules f (x # xs) =
     (case f x of
        Inl e \<Rightarrow> Inl e
      | Inr r \<Rightarrow> (case collect_rules f xs of Inl e \<Rightarrow> Inl e | Inr rs \<Rightarrow> Inr (r # rs)))"

definition has_yaml_extension :: "string \<Rightarrow> bool" where
  "has_yaml_extension p \<longleftrightarrow>
     (let name = rev (takeWhile (\<lambda>c. c \<noteq> CHR ''/'') (rev p));
          ext = rev (takeWhile (\<lambda>c. c \<noteq> CHR ''.'') (rev name))
      in CHR ''.'' \<in> set (tl name) \<and> (ext = ''yaml'' \<or> ext = ''yml''))"

definition load_pack_dir :: "pack_env \<Rightarrow> (string list \<Rightarrow> string list) \<Rightarrow> (load_error, rule_spec list) result" where
  "load_pack_dir env sort_paths =
     (case pe_listing env of
        Inl e \<Rightarrow> Inl (LoadIo e)
      | Inr entries \<Rightarrow>
          collect_rules (\<lambda>file. case pe_read env file of
              Inl e \<Rightarrow> Inl (LoadIo e)
            | Inr raw \<Rightarrow> (case from_utf8 raw of
                  None \<Rightarrow> Inl (LoadIo (pe_utf8_error env raw))
                | Some text \<Rightarrow> parse_rule env file text))
            (sort_paths (filter has_yaml_extension entries)))"

definition canonical_lf :: "string \<Rightarrow> string" where
  "canonical_lf text = str_replace_all [CHR 0x0D, CHR 0x0A] [CHR 0x0A] text"

definition sha256_text_lf :: "pack_env \<Rightarrow> string \<Rightarrow> (load_error, string) result" where
  "sha256_text_lf env raw =
     (case from_utf8 raw of
        None \<Rightarrow> Inl (LoadIo (pe_utf8_error env raw))
      | Some text \<Rightarrow> Inr (pe_sha256_hex env (canonical_lf text)))"

definition load_entry :: "pack_env \<Rightarrow> rule_entry \<Rightarrow> (load_error, rule_spec) result" where
  "load_entry env entry =
     (case pe_read env (re_file entry) of
        Inl e \<Rightarrow> Inl (LoadIo e)
      | Inr raw \<Rightarrow> (case sha256_text_lf env raw of
            Inl e \<Rightarrow> Inl e
          | Inr actual \<Rightarrow>
              if actual \<noteq> re_sha256 entry
              then Inl (LoadIntegrity (''sha256 mismatch for '' @ re_file entry @ '' (manifest '' @ re_sha256 entry @ '', actual '' @ actual @ '')''))
              else case from_utf8 raw of
                  None \<Rightarrow> Inl (LoadIo (pe_utf8_error env raw))
                | Some text \<Rightarrow> parse_rule env (re_file entry) (canonical_lf text)))"

definition verify_and_load_pack :: "pack_env \<Rightarrow> (load_error, rule_spec list) result" where
  "verify_and_load_pack env =
     (case pe_read env ''manifest.json'' of
        Inl e \<Rightarrow> Inl (LoadIo e)
      | Inr raw \<Rightarrow> (case from_utf8 raw of
            None \<Rightarrow> Inl (LoadIo (pe_utf8_error env raw))
          | Some text \<Rightarrow> (case pe_manifest env text of
                Inl e \<Rightarrow> Inl (LoadParse (pe_path env ''manifest.json'') e)
              | Inr manifest \<Rightarrow> (case pe_verify env manifest of
                    Inl e \<Rightarrow> Inl (LoadIntegrity e)
                  | Inr _ \<Rightarrow> collect_rules (load_entry env) (pm_rules manifest)))))"

lemma collect_rules_iff: "collect_rules f xs = Inr rs \<longleftrightarrow> list_all2 (\<lambda>x r. f x = Inr r) xs rs"
proof (induction xs arbitrary: rs)
  case (Cons x xs)
  show ?case
  proof (cases "collect_rules f xs")
    case (Inl e)
    then show ?thesis using Cons.IH by (auto simp: list_all2_Cons1 split: sum.splits)
  next
    case (Inr rs')
    then have "list_all2 (\<lambda>x r. f x = Inr r) xs rs'' \<longleftrightarrow> rs'' = rs'" for rs'' using Cons.IH [of rs''] by auto
    then show ?thesis using Inr by (auto simp: list_all2_Cons1 split: sum.splits)
  qed
qed auto

definition valid_rule :: "rule_spec \<Rightarrow> bool" where
  "valid_rule r \<longleftrightarrow> owasp_agentic (rule_maps r) \<noteq> [] \<and> (atlas (rule_maps r) \<noteq> [] \<or> attack (rule_maps r) \<noteq> []) \<and>
     rr_observe_only_fallback (rule_response r) \<and> detect_steps (rule_detect r) \<noteq> [] \<and>
     (detect_type (rule_detect r) \<in> {DtSequence, DtAnomaly} \<longrightarrow> detect_window (rule_detect r) \<noteq> None)"

lemma validate_rule_iff: "validate_rule r = Inr u \<longleftrightarrow> valid_rule r"
  by (auto simp: validate_rule_def valid_rule_def Let_def)

lemma parse_rule_iff: "parse_rule env file t = Inr r \<longleftrightarrow> pe_yaml env t = Inr r \<and> valid_rule r"
  using validate_rule_iff [of r "()"] by (auto simp: parse_rule_def split: sum.splits)

definition intact_rule :: "pack_env \<Rightarrow> rule_entry \<Rightarrow> rule_spec \<Rightarrow> bool" where
  "intact_rule env entry r \<longleftrightarrow>
     (\<exists>raw t. pe_read env (re_file entry) = Inr raw \<and> from_utf8 raw = Some t \<and>
        pe_sha256_hex env (canonical_lf t) = re_sha256 entry \<and> pe_yaml env (canonical_lf t) = Inr r \<and> valid_rule r)"

lemma load_entry_iff: "load_entry env entry = Inr r \<longleftrightarrow> intact_rule env entry r"
  by (auto simp: load_entry_def sha256_text_lf_def intact_rule_def parse_rule_iff split: sum.splits option.splits)

text \<open>A pack is loaded exactly when its manifest verifies and every listed file has the listed hash and holds a valid rule; the
  rules are those of the files the hashes were taken of.\<close>

lemma pack_loaded_exactly:
  "verify_and_load_pack env = Inr rs \<longleftrightarrow>
   (\<exists>raw t manifest. pe_read env ''manifest.json'' = Inr raw \<and> from_utf8 raw = Some t \<and> pe_manifest env t = Inr manifest \<and>
      pe_verify env manifest = Inr () \<and> list_all2 (intact_rule env) (pm_rules manifest) rs)"
  by (auto simp: verify_and_load_pack_def collect_rules_iff load_entry_iff split: sum.splits option.splits)

lemma pack_rules_valid: "verify_and_load_pack env = Inr rs \<Longrightarrow> \<forall>r\<in>set rs. valid_rule r"
  by (auto simp: pack_loaded_exactly intact_rule_def list_all2_conv_all_nth in_set_conv_nth)

text \<open>Neither the engine version a pack asks for nor the identifier it lists for a rule is looked at.\<close>

lemma min_engine_ignored:
  assumes "\<And>t m. pe_manifest env t = Inr m \<Longrightarrow> pe_manifest env' t = Inr (m\<lparr>pm_min_engine := v\<rparr>)"
    and "env' = env\<lparr>pe_manifest := pe_manifest env'\<rparr>" and "\<And>m. pe_verify env' (m\<lparr>pm_min_engine := v\<rparr>) = pe_verify env m"
    and "verify_and_load_pack env = Inr rs"
  shows "verify_and_load_pack env' = Inr rs"
proof -
  have e: "pe_read env' = pe_read env" "intact_rule env' = intact_rule env"
    by (subst assms(2), simp add: intact_rule_def fun_eq_iff)+
  from assms(4) obtain b t m where "pe_read env ''manifest.json'' = Inr b" "from_utf8 b = Some t" "pe_manifest env t = Inr m"
    "pe_verify env m = Inr ()" "list_all2 (intact_rule env) (pm_rules m) rs" unfolding pack_loaded_exactly by blast
  then show ?thesis unfolding pack_loaded_exactly e
    by (intro exI [of _ b] exI [of _ t] exI [of _ "m\<lparr>pm_min_engine := v\<rparr>"]) (simp add: assms(1,3))
qed

subsection \<open>Coverage\<close>

type_synonym framework_map = "string \<rightharpoonup> (string \<rightharpoonup> string list)"

record coverage =
  cov_frameworks :: framework_map
  cov_rule_count :: nat

definition cover_control :: "string \<Rightarrow> (string \<rightharpoonup> string list) \<Rightarrow> string \<Rightarrow> (string \<rightharpoonup> string list)" where
  "cover_control rid m c = m(c \<mapsto> (case m c of None \<Rightarrow> [] | Some l \<Rightarrow> l) @ [rid])"

definition add_controls :: "string \<Rightarrow> string list \<Rightarrow> string \<Rightarrow> framework_map \<Rightarrow> framework_map" where
  "add_controls fw controls rid m = m(fw \<mapsto> foldl (cover_control rid) (case m fw of None \<Rightarrow> Map.empty | Some e \<Rightarrow> e) controls)"

definition cover_rule :: "framework_map \<Rightarrow> rule_spec \<Rightarrow> framework_map" where
  "cover_rule m r =
     add_controls ''nist_rmf'' (nist_rmf (rule_maps r)) (rule_id r)
    (add_controls ''attack'' (attack (rule_maps r)) (rule_id r)
    (add_controls ''atlas'' (atlas (rule_maps r)) (rule_id r)
    (add_controls ''owasp_agentic'' (owasp_agentic (rule_maps r)) (rule_id r)
    (add_controls ''owasp_llm'' (owasp_llm (rule_maps r)) (rule_id r) m))))"

definition build_coverage :: "rule_spec list \<Rightarrow> coverage" where
  "build_coverage rules = \<lparr>cov_frameworks = foldl cover_rule Map.empty rules, cov_rule_count = length rules\<rparr>"

definition rules_covering :: "framework_map \<Rightarrow> string \<Rightarrow> string \<Rightarrow> string list" where
  "rules_covering m fw c = (case m fw of None \<Rightarrow> [] | Some e \<Rightarrow> (case e c of None \<Rightarrow> [] | Some l \<Rightarrow> l))"

fun controls_of :: "maps \<Rightarrow> string \<Rightarrow> string list" where
  "controls_of m fw =
     (if fw = ''owasp_llm'' then owasp_llm m else if fw = ''owasp_agentic'' then owasp_agentic m
      else if fw = ''atlas'' then atlas m else if fw = ''attack'' then attack m
      else if fw = ''nist_rmf'' then nist_rmf m else [])"

lemma cover_controls:
  "(case foldl (cover_control rid) e cs c of None \<Rightarrow> [] | Some l \<Rightarrow> l) =
   (case e c of None \<Rightarrow> [] | Some l \<Rightarrow> l) @ replicate (count_list cs c) rid"
proof (induction cs arbitrary: e)
  case (Cons x cs)
  then show ?case by (auto simp: cover_control_def replicate_app_Cons_same split: option.splits)
qed simp

lemma rules_covering_add:
  "rules_covering (add_controls fw cs rid m) fw' c =
   rules_covering m fw' c @ (if fw' = fw then replicate (count_list cs c) rid else [])"
  using cover_controls [of rid "case m fw of None \<Rightarrow> Map.empty | Some e \<Rightarrow> e" cs c]
  by (auto simp: rules_covering_def add_controls_def split: option.splits)

lemma rules_covering_rule:
  "rules_covering (cover_rule m r) fw c = rules_covering m fw c @ replicate (count_list (controls_of (rule_maps r) fw) c) (rule_id r)"
  by (simp add: cover_rule_def rules_covering_add)

lemma coverage_exact:
  "rules_covering (cov_frameworks (build_coverage rules)) fw c =
   concat (map (\<lambda>r. replicate (count_list (controls_of (rule_maps r) fw) c) (rule_id r)) rules)"
proof -
  have "rules_covering (foldl cover_rule m rules) fw c =
     rules_covering m fw c @ concat (map (\<lambda>r. replicate (count_list (controls_of (rule_maps r) fw) c) (rule_id r)) rules)" for m
    by (induction rules arbitrary: m) (simp_all add: rules_covering_rule)
  then show ?thesis by (simp add: build_coverage_def rules_covering_def)
qed

end
