(* ===== verification/Agent_Trust.thy ===== *)
theory Agent_Trust
  imports Json_Value
begin

text \<open>
  \<^verbatim>\<open>model.rs\<close>, \<^verbatim>\<open>ingest.rs\<close> and \<^verbatim>\<open>trust.rs\<close> of \<^verbatim>\<open>src/crates/dek-agent-observer/src\<close>: the observations
  the proxy appends, the store they go to, and the trust score computed from the last hundred of an agent.
  The SQLite table is the list of its rows, oldest first; a call that fails (a poisoned lock or a database
  error) is decided by the environment. A row is read back as the event that was written. The token, browser
  and process fields of an event, which the proxy leaves empty, are left out.
\<close>

subsection \<open>Events\<close>

datatype event_kind = EvGeneric | EvLlmCall | EvToolCall | EvResourceAccess | EvDecision

record tool_call =
  tc_tool_name :: string
  tc_server :: "string option"
  tc_args_summary :: "string option"
  tc_result_status :: string

record resource_access =
  ra_resource_type :: string
  ra_target_redacted :: string
  ra_bytes :: "int option"
  ra_verb :: string

record decision_info =
  di_allow :: bool
  di_reason_code :: string
  di_obligations :: "string list"
  di_matched_policy_ids :: "string list"
  di_compliance_tags :: "string list"
  di_pep_plane :: "string option"
  di_enforced_for_real :: "bool option"
  di_status_badge :: "string option"
  di_message_th :: "string option"

record observation =
  ob_event_id :: string
  ob_tenant_id :: string
  ob_trace_id :: string
  ob_agent_id :: "string option"
  ob_shadow_candidate_id :: "string option"
  ob_tool_id :: "string option"
  ob_resource_id :: "string option"
  ob_surface :: string
  ob_action :: string
  ob_pep_type :: "string option"
  ob_risk_level :: "string option"
  ob_timestamp :: string
  ob_payload_json :: string
  ob_event_kind :: event_kind
  ob_decision :: "decision_info option"
  ob_tool_call :: "tool_call option"
  ob_resource_access :: "resource_access option"
  ob_latency_ms :: "int option"
  ob_provider :: "string option"

subsection \<open>Store\<close>

type_synonym observation_store = "observation list"

definition observer_append :: "string option \<Rightarrow> observation \<Rightarrow> observation_store \<Rightarrow> observation_store" where
  "observer_append failure ev store = (if failure = None then store @ [ev] else store)"

definition recent_for_agent :: "string \<Rightarrow> nat \<Rightarrow> observation_store \<Rightarrow> observation list" where
  "recent_for_agent agent_id limit store =
     take limit (rev (filter (\<lambda>ev. ob_agent_id ev = Some agent_id) store))"

subsection \<open>Trust\<close>

record agent_baseline =
  ab_typical_tools :: "(string \<times> nat) list"
  ab_total_events :: nat
  ab_deny_count :: nat

record trust_score =
  ts_agent_id :: string
  ts_score :: f64
  ts_high_deny_rate :: "f64 option"

definition default_baseline :: agent_baseline where
  "default_baseline = \<lparr>ab_typical_tools = [], ab_total_events = 0, ab_deny_count = 0\<rparr>"

text \<open>\<open>from_str\<close> is the JSON parser.\<close>

definition baseline_observe :: "(string \<Rightarrow> json option) \<Rightarrow> observation \<Rightarrow> agent_baseline \<Rightarrow> agent_baseline" where
  "baseline_observe from_str ev b =
     (let b1 = b\<lparr>ab_total_events := ab_total_events b + 1\<rparr>;
          b2 = (case from_str (ob_payload_json ev) of
                  None \<Rightarrow> b1
                | Some payload \<Rightarrow>
                    if get_str payload ''decision'' = Some ''deny'' then b1\<lparr>ab_deny_count := ab_deny_count b1 + 1\<rparr> else b1)
      in case ob_tool_id ev of
           None \<Rightarrow> b2
         | Some tool \<Rightarrow>
             b2\<lparr>ab_typical_tools := AList.update tool
                  ((case map_of (ab_typical_tools b2) tool of Some n \<Rightarrow> n | None \<Rightarrow> 0) + 1) (ab_typical_tools b2)\<rparr>)"

definition calculate_trust :: "agent_baseline \<Rightarrow> string \<Rightarrow> trust_score" where
  "calculate_trust b agent_id =
     (let deny_rate = of_nat (ab_deny_count b) / of_nat (ab_total_events b);
          high = (ab_total_events b > 0 \<and> deny_rate > (1 / 10 :: f64))
      in \<lparr>ts_agent_id = agent_id, ts_score = max (if high then 1 - 1 / 2 else 1) 0,
          ts_high_deny_rate = (if high then Some deny_rate else None)\<rparr>)"

definition update_baseline :: "(string \<Rightarrow> json option) \<Rightarrow> string option \<Rightarrow> string \<Rightarrow> observation_store \<Rightarrow> (string, trust_score) result" where
  "update_baseline from_str failure agent_id store =
     (case failure of
        Some e \<Rightarrow> Inl e
      | None \<Rightarrow> Inr (calculate_trust (fold (baseline_observe from_str) (recent_for_agent agent_id 100 store) default_baseline) agent_id))"

datatype trust_action = TrustNormal | TrustRequireApproval | TrustKillSwitch

definition enforce_trust :: "trust_score \<Rightarrow> trust_action" where
  "enforce_trust s =
     (if ts_score s < 3 / 10 then TrustKillSwitch
      else if ts_score s < 8 / 10 then TrustRequireApproval
      else TrustNormal)"

subsection \<open>Lemmas\<close>

text \<open>The score takes two values, neither of which reaches the kill switch.\<close>

lemma trust_values: "ts_score (calculate_trust b a) \<in> {1, 1 / 2}"
  by (simp add: calculate_trust_def Let_def)

lemma trust_never_kills: "enforce_trust (calculate_trust b a) \<noteq> TrustKillSwitch"
  using trust_values [of b a] by (auto simp: enforce_trust_def)

lemma trust_approval_exact:
  "enforce_trust (calculate_trust b a) = TrustRequireApproval \<longleftrightarrow>
     ab_total_events b > 0 \<and> of_nat (ab_deny_count b) / of_nat (ab_total_events b) > (1 / 10 :: f64)"
  by (auto simp: enforce_trust_def calculate_trust_def Let_def)

text \<open>Events whose payload is the empty object never count as denied.\<close>

lemma no_denials_counted:
  assumes "\<forall>ev\<in>set evs. ob_payload_json ev = ''{}''" and "from_str ''{}'' = Some (JObj [])"
  shows "ab_deny_count (fold (baseline_observe from_str) evs b) = ab_deny_count b"
  using assms by (induction evs arbitrary: b) (auto simp: baseline_observe_def Let_def split: option.splits)

lemma recent_subset: "set (recent_for_agent a n store) \<subseteq> set store"
  using set_take_subset [of n "rev (filter (\<lambda>ev. ob_agent_id ev = Some a) store)"] by (auto simp: recent_for_agent_def)

lemma empty_payloads_trusted:
  assumes "\<forall>ev\<in>set store. ob_payload_json ev = ''{}''" and "from_str ''{}'' = Some (JObj [])"
    and "update_baseline from_str failure a store = Inr s"
  shows "enforce_trust s = TrustNormal"
proof -
  let ?b = "fold (baseline_observe from_str) (recent_for_agent a 100 store) default_baseline"
  have "\<forall>ev\<in>set (recent_for_agent a 100 store). ob_payload_json ev = ''{}''"
    using assms(1) recent_subset by blast
  then have "ab_deny_count ?b = 0" using assms(2) no_denials_counted by (simp add: default_baseline_def)
  then show ?thesis
    using assms(3) by (auto simp: update_baseline_def calculate_trust_def enforce_trust_def Let_def split: option.splits)
qed

end
