(* ===== verification/Agent_Risk.thy ===== *)
theory Agent_Risk
  imports Agent_Trust
begin

text \<open>
  The reputation registry of MCP servers (\<^verbatim>\<open>src/crates/dek-mcp-reputation\<close>), the risk score of an agent
  (\<^verbatim>\<open>src/crates/dek-risk-score\<close>) and the mediator of messages between agents (\<^verbatim>\<open>src/crates/dek-a2a-mediator\<close>). The
  registry file, base64 and Ed25519 are parameters; the telemetry event of an allowed message is the only effect.
\<close>

subsection \<open>Reputation registry\<close>

record reputation_entry =
  rn_mcp_id :: string
  rn_score :: u32
  rn_is_allowed :: bool
  rn_description :: string

type_synonym reputation_registry = "(string \<times> reputation_entry) list"

definition reputation_new :: reputation_registry where
  "reputation_new = []"

definition add_entry :: "reputation_registry \<Rightarrow> reputation_entry \<Rightarrow> reputation_registry" where
  "add_entry r e = AList.update (rn_mcp_id e) e r"

definition registry_lookup :: "reputation_registry \<Rightarrow> string \<Rightarrow> reputation_entry option" where
  "registry_lookup r mcp_id = map_of r mcp_id"

text \<open>The content of \<^verbatim>\<open>mcp_registry.json\<close>: no file, a file that fails to read or parse, or its entries.\<close>

datatype registry_file = NoRegistry | BadRegistry string | RegistryEntries "reputation_entry list"

fun load_local :: "registry_file \<Rightarrow> reputation_registry \<Rightarrow> (string, unit) result \<times> reputation_registry" where
  "load_local NoRegistry r = (Inr (), r)"
| "load_local (BadRegistry e) r = (Inl e, r)"
| "load_local (RegistryEntries es) r = (Inr (), foldl add_entry r es)"

definition save_local :: "reputation_registry \<Rightarrow> registry_file" where
  "save_local r = RegistryEntries (map snd r)"

definition registry_ok :: "reputation_registry \<Rightarrow> bool" where
  "registry_ok r \<longleftrightarrow> distinct (map fst r) \<and> (\<forall>(k, e)\<in>set r. rn_mcp_id e = k)"

lemma registry_ok_add [inv_intros]: assumes "registry_ok r" shows "registry_ok (add_entry r e)"
proof -
  have "distinct (map fst (AList.update (rn_mcp_id e) e r))" using assms by (simp add: registry_ok_def distinct_update)
  moreover have "\<forall>(k, c)\<in>set (AList.update (rn_mcp_id e) e r). rn_mcp_id c = k"
    using assms unfolding registry_ok_def by (induction r) (auto split: if_splits)
  ultimately show ?thesis by (simp add: registry_ok_def add_entry_def)
qed

interpretation reputation: upsert_store registry_lookup add_entry rn_mcp_id id registry_ok
  by unfold_locales (rule registry_ok_add, assumption, simp add: registry_lookup_def add_entry_def)

lemma reputation_new_ok [simp]: "registry_ok reputation_new"
  by (simp add: registry_ok_def reputation_new_def)

text \<open>What is saved is loaded again, in whatever order the map is written: the last entry for a server decides, and a saved registry
  has one for each.\<close>

lemma registry_ok_find:
  assumes "registry_ok r" shows "find (\<lambda>e. rn_mcp_id e = k) (rev (map snd r)) = map_of r k"
  using assms
proof (induction r)
  case (Cons p r)
  obtain a e where p: "p = (a, e)" by (cases p)
  have ok: "registry_ok r" and a: "rn_mcp_id e = a" "a \<notin> fst ` set r" using Cons.prems by (auto simp: registry_ok_def p)
  have app: "find P (xs @ [y]) = (case find P xs of Some z \<Rightarrow> Some z | None \<Rightarrow> if P y then Some y else None)" for P and xs :: "reputation_entry list" and y
    by (induction xs) auto
  show ?case
  proof (cases "k = a")
    case True
    then have "map_of r k = None" using a(2) by (simp add: map_of_eq_None_iff)
    then show ?thesis using True Cons.IH [OF ok] a by (simp add: p app)
  next
    case False
    then show ?thesis using Cons.IH [OF ok] a by (simp add: p app split: option.splits)
  qed
qed simp

lemma registry_roundtrip:
  assumes "registry_ok r"
  shows "fst (load_local (save_local r) reputation_new) = Inr () \<and>
    registry_lookup (snd (load_local (save_local r) reputation_new)) k = registry_lookup r k"
proof -
  have "registry_lookup (foldl add_entry reputation_new (map snd r)) k = find (\<lambda>e. rn_mcp_id e = k) (rev (map snd r))"
    using reputation.lookup_batch [OF reputation_new_ok, of "map snd r" k] by (simp add: registry_lookup_def reputation_new_def split: option.splits)
  then show ?thesis using registry_ok_find [OF assms] by (simp add: save_local_def registry_lookup_def)
qed

subsection \<open>Risk score\<close>

record mcp_profile =
  mp_mcp_id :: string
  mp_reputation_score :: u32

record agent_profile =
  af_agent_id :: string
  af_permissions :: "string list"
  af_shadow_ai_status :: bool
  af_associated_mcps :: "mcp_profile list"

record risk_score =
  rk_total_score :: u32
  rk_factors :: "string list"

definition sensitive_perms :: "string list" where
  "sensitive_perms = [''filesystem:write'', ''network:outbound'', ''process:execute'']"

definition show_u32 :: "u32 \<Rightarrow> string" where
  "show_u32 n = show_nat (unat n)"

fun count_sensitive :: "string list \<Rightarrow> u32" where
  "count_sensitive [] = 0"
| "count_sensitive (p # ps) = (if p \<in> set sensitive_perms then 1 else 0) + count_sensitive ps"

definition mcp_risk :: "reputation_registry \<Rightarrow> mcp_profile \<Rightarrow> u32 \<times> string list" where
  "mcp_risk registry mcp =
     (case registry_lookup registry (mp_mcp_id mcp) of
        Some entry \<Rightarrow>
          if \<not> rn_is_allowed entry then (50, [''Associated with explicitly denied MCP: '' @ mp_mcp_id mcp])
          else if rn_score entry < 50 then (20, [''Associated with low reputation MCP: '' @ mp_mcp_id mcp])
          else if rn_score entry < 80 then (5, [''Associated with medium reputation MCP: '' @ mp_mcp_id mcp])
          else (0, [])
      | None \<Rightarrow> (10, [''Associated with unknown MCP (not in registry): '' @ mp_mcp_id mcp]))"

fun add_mcp_risks :: "reputation_registry \<Rightarrow> mcp_profile list \<Rightarrow> u32 \<Rightarrow> string list \<Rightarrow> u32 \<times> string list" where
  "add_mcp_risks registry [] score factors = (score, factors)"
| "add_mcp_risks registry (m # ms) score factors =
     (let (s, f) = mcp_risk registry m in add_mcp_risks registry ms (score + s) (factors @ f))"

definition calculate_risk_score :: "registry_file \<Rightarrow> agent_profile \<Rightarrow> risk_score" where
  "calculate_risk_score file profile =
     (let registry = snd (load_local file reputation_new);
          (score, factors) = (if af_shadow_ai_status profile then (40 :: u32, [''Unmanaged Shadow AI detected'']) else (0, []));
          sensitive_count = count_sensitive (af_permissions profile);
          (score, factors) = (if sensitive_count > 0
             then (score + sensitive_count * 10, factors @ [''Has '' @ show_u32 sensitive_count @ '' sensitive permissions''])
             else (score, factors));
          (score, factors) = add_mcp_risks registry (af_associated_mcps profile) score factors
      in \<lparr>rk_total_score = (if score > 100 then 100 else score), rk_factors = factors\<rparr>)"

lemma risk_score_bounded: "rk_total_score (calculate_risk_score file profile) \<le> 100"
  by (auto simp: calculate_risk_score_def Let_def not_less split: prod.splits)

text \<open>As natural numbers, and without overflow for every profile that fits in memory.\<close>

definition mcp_points :: "reputation_registry \<Rightarrow> mcp_profile \<Rightarrow> nat" where
  "mcp_points registry m = unat (fst (mcp_risk registry m))"

lemma mcp_points_le: "mcp_points registry m \<le> 50"
  by (simp add: mcp_points_def mcp_risk_def split: option.splits)

lemma sum_points_le: "sum_list (map (mcp_points registry) ms) \<le> 50 * length ms"
  by (induction ms) (use mcp_points_le in \<open>auto intro: add_mono\<close>)

lemma unat_add_small: "unat (a :: u32) + unat b < 2 ^ 32 \<Longrightarrow> unat (a + b) = unat a + unat b"
  by (simp add: unat_word_ariths)

lemma add_mcp_risks_sum:
  "unat score + sum_list (map (mcp_points registry) ms) < 2 ^ 32 \<Longrightarrow>
   unat (fst (add_mcp_risks registry ms score factors)) = unat score + sum_list (map (mcp_points registry) ms)"
proof (induction ms arbitrary: score factors)
  case (Cons m ms)
  obtain s f where r: "mcp_risk registry m = (s, f)" by (cases "mcp_risk registry m")
  then have p: "mcp_points registry m = unat s" by (simp add: mcp_points_def)
  have "unat (score + s) = unat score + unat s" using Cons.prems by (intro unat_add_small) (simp add: p)
  then show ?case using Cons.IH [of "score + s" "factors @ f"] Cons.prems by (simp add: r p)
qed simp

lemma count_sensitive_filter:
  "length ps < 2 ^ 32 \<Longrightarrow> unat (count_sensitive ps) = length (filter (\<lambda>p. p \<in> set sensitive_perms) ps)"
proof (induction ps)
  case (Cons p ps)
  have "length (filter (\<lambda>p. p \<in> set sensitive_perms) ps) \<le> length ps" by (rule length_filter_le)
  then have l: "length (filter (\<lambda>p. p \<in> set sensitive_perms) ps) < 2 ^ 32 - 1" using Cons.prems by (simp only: list.size)
  have "unat (1 + count_sensitive ps) = 1 + unat (count_sensitive ps)"
    using Cons l by (intro trans [OF unat_add_small]) simp_all
  then show ?case using Cons by simp
qed simp

definition risk_points :: "reputation_registry \<Rightarrow> agent_profile \<Rightarrow> nat" where
  "risk_points registry p =
     (if af_shadow_ai_status p then 40 else 0) + 10 * length (filter (\<lambda>x. x \<in> set sensitive_perms) (af_permissions p)) +
     sum_list (map (mcp_points registry) (af_associated_mcps p))"

lemma add_mcp_risks_factors: "fst (add_mcp_risks registry ms score (f # fs)) = fst (add_mcp_risks registry ms score [])"
proof -
  have "fst (add_mcp_risks registry ms score fs) = fst (add_mcp_risks registry ms score gs)" for fs gs
    by (induction ms arbitrary: score fs gs) (simp, simp only: add_mcp_risks.simps split_def Let_def)
  then show ?thesis .
qed

lemma risk_total:
  "rk_total_score (calculate_risk_score file p) =
   (let total = fst (add_mcp_risks (snd (load_local file reputation_new)) (af_associated_mcps p)
          ((if af_shadow_ai_status p then 40 else 0) + count_sensitive (af_permissions p) * 10) [])
    in if total > 100 then 100 else total)"
  by (cases "af_shadow_ai_status p"; cases "count_sensitive (af_permissions p) = 0")
    (simp_all add: calculate_risk_score_def Let_def split_def add_mcp_risks_factors word_greater_zero_iff)

lemma risk_score_exact:
  assumes "length (af_permissions p) < 10 ^ 8" and "length (af_associated_mcps p) < 10 ^ 7"
  shows "unat (rk_total_score (calculate_risk_score file p)) = min 100 (risk_points (snd (load_local file reputation_new)) p)"
proof -
  let ?r = "snd (load_local file reputation_new)" and ?n = "length (filter (\<lambda>x. x \<in> set sensitive_perms) (af_permissions p))"
  let ?b = "if af_shadow_ai_status p then 40 else 0 :: u32" and ?c = "count_sensitive (af_permissions p)"
  have n: "?n < 10 ^ 8" using assms(1) length_filter_le [of _ "af_permissions p"] by (rule le_less_trans [rotated])
  have c: "unat ?c = ?n" using assms(1) by (intro count_sensitive_filter) simp
  have c10: "unat (?c * 10) = 10 * ?n" using n by (simp add: unat_word_ariths c)
  have b: "unat (?b + ?c * 10) = (if af_shadow_ai_status p then 40 else 0) + 10 * ?n"
    using n c10 by (subst unat_add_small) simp_all
  have s: "sum_list (map (mcp_points ?r) (af_associated_mcps p)) < 50 * 10 ^ 7"
    using sum_points_le [of ?r "af_associated_mcps p"] assms(2) by simp
  have t: "unat (fst (add_mcp_risks ?r (af_associated_mcps p) (?b + ?c * 10) [])) = risk_points ?r p"
    using n s by (subst add_mcp_risks_sum) (simp_all only: b risk_points_def, simp_all)
  show ?thesis unfolding risk_total Let_def by (auto simp: word_less_nat_alt t min_def)
qed

text \<open>A registry that does not parse is taken for an empty one: every server, also a denied one, is merely unknown.\<close>

lemma broken_registry_hides_denials:
  "calculate_risk_score (BadRegistry e) p = calculate_risk_score NoRegistry p"
  by (simp add: calculate_risk_score_def)

subsection \<open>Messages between agents\<close>

record a2a_message =
  am_sender_id :: string
  am_receiver_id :: string
  am_payload_encrypted :: string
  am_signature :: string
  am_public_key_b64 :: string

record iatp_broker =
  ib_is_active :: bool
  ib_telemetry :: bool
  ib_tenant_id :: string
  ib_device_id :: string

definition iatp_broker_new :: iatp_broker where
  "iatp_broker_new = \<lparr>ib_is_active = True, ib_telemetry = False, ib_tenant_id = ''local'', ib_device_id = ''dev-01''\<rparr>"

text \<open>Base64, the points of the curve that are keys, and signature verification; the identifier and the times of the event.\<close>

record a2a_env =
  ae_b64_decode :: "string \<Rightarrow> string option"
  ae_key_ok :: "string \<Rightarrow> bool"
  ae_verify :: "string \<Rightarrow> string \<Rightarrow> string \<Rightarrow> bool"
  ae_event_id :: string
  ae_now :: string
  ae_observed_at :: string

definition digest_input :: "a2a_message \<Rightarrow> string" where
  "digest_input msg = am_sender_id msg @ ''|'' @ am_receiver_id msg @ ''|'' @ am_payload_encrypted msg"

definition a2a_event :: "a2a_env \<Rightarrow> iatp_broker \<Rightarrow> a2a_message \<Rightarrow> json" where
  "a2a_event env b msg = JObj [
     (''schema_version'', JStr ''telemetry-envelope.v1''), (''event_id'', JStr (ae_event_id env)), (''event_type'', JStr ''tool_usage''),
     (''timestamp'', JStr (ae_now env)), (''tenant_id'', JStr (ib_tenant_id b)), (''device_id'', JStr (ib_device_id b)),
     (''redaction_applied'', JBool False),
     (''payload'', JObj [(''agent_id'', JStr (am_sender_id msg)), (''agent_label'', JStr (am_sender_id msg)), (''tool_kind'', JStr ''a2a_skill''),
        (''tool_name'', JStr (''route_to_'' @ am_receiver_id msg)), (''server'', JStr ''a2a-mediator''), (''decision'', JStr ''allow''),
        (''enforced_for_real'', JBool True), (''args_redacted'', JStr ''<redacted>''), (''observed_at'', JStr (ae_observed_at env))])]"

definition verify_message :: "a2a_env \<Rightarrow> a2a_message \<Rightarrow> (string, unit) result" where
  "verify_message env msg =
     (case ae_b64_decode env (am_public_key_b64 msg) of
        None \<Rightarrow> Inl ''Invalid base64 public key''
      | Some key \<Rightarrow>
          if length key \<noteq> 32 then Inl ''Invalid Ed25519 public key length''
          else if \<not> ae_key_ok env key then Inl ''Invalid Ed25519 public key format''
          else case ae_b64_decode env (am_signature msg) of
              None \<Rightarrow> Inl ''Invalid base64 signature''
            | Some sig \<Rightarrow>
                if length sig \<noteq> 64 then Inl ''Invalid Ed25519 signature format''
                else if \<not> ae_verify env key (digest_input msg) sig then Inl ''Cryptographic signature verification failed''
                else Inr ())"

definition route_message :: "a2a_env \<Rightarrow> iatp_broker \<Rightarrow> a2a_message \<Rightarrow> trust_score \<Rightarrow> (string, unit) result \<times> json list" where
  "route_message env b msg sender_trust =
     (case verify_message env msg of
        Inl e \<Rightarrow> (Inl e, [])
      | Inr _ \<Rightarrow> (case enforce_trust sender_trust of
            TrustKillSwitch \<Rightarrow> (Inl ''Sender blocked due to critical trust score'', [])
          | TrustRequireApproval \<Rightarrow> (Inl ''A2A message requires human approval'', [])
          | TrustNormal \<Rightarrow> (Inr (), if ib_telemetry b then [a2a_event env b msg] else [])))"

definition signed_by_key_in_message :: "a2a_env \<Rightarrow> a2a_message \<Rightarrow> bool" where
  "signed_by_key_in_message env msg \<longleftrightarrow>
     (\<exists>key sig. ae_b64_decode env (am_public_key_b64 msg) = Some key \<and> length key = 32 \<and> ae_key_ok env key \<and>
        ae_b64_decode env (am_signature msg) = Some sig \<and> length sig = 64 \<and> ae_verify env key (digest_input msg) sig)"

lemma verify_message_iff: "verify_message env msg = Inr u \<longleftrightarrow> signed_by_key_in_message env msg"
  by (auto simp: verify_message_def signed_by_key_in_message_def split: option.splits)

lemma route_message_exact:
  "fst (route_message env b msg t) = Inr () \<longleftrightarrow> signed_by_key_in_message env msg \<and> 8 / 10 \<le> ts_score t"
  using verify_message_iff [of env msg "()"]
  by (auto simp: route_message_def enforce_trust_def split: sum.splits if_splits)

lemma route_message_rejection_silent: "fst (route_message env b msg t) = Inl e \<Longrightarrow> snd (route_message env b msg t) = []"
  by (auto simp: route_message_def split: sum.splits trust_action.splits)

text \<open>The key that vouches for a message comes with the message and is bound to no sender: whoever holds some key speaks for every
  agent, and with that agent's trust.\<close>

lemma sender_impersonation:
  assumes "\<And>m. \<exists>sig. ae_b64_decode env (enc sig) = Some sig \<and> length sig = 64 \<and> ae_verify env key m sig"
    and "ae_b64_decode env key64 = Some key" and "length key = 32" and "ae_key_ok env key" and "8 / 10 \<le> ts_score t"
  shows "\<exists>s. fst (route_message env b \<lparr>am_sender_id = victim, am_receiver_id = r, am_payload_encrypted = p, am_signature = s, am_public_key_b64 = key64\<rparr> t) = Inr ()"
proof -
  let ?msg = "\<lambda>s. \<lparr>am_sender_id = victim, am_receiver_id = r, am_payload_encrypted = p, am_signature = s, am_public_key_b64 = key64\<rparr>"
  obtain sig where "ae_b64_decode env (enc sig) = Some sig" "length sig = 64" "ae_verify env key (digest_input (?msg [])) sig"
    using assms(1) by blast
  then have "signed_by_key_in_message env (?msg (enc sig))" using assms(2-4) by (auto simp: signed_by_key_in_message_def digest_input_def)
  then show ?thesis using assms(5) by (intro exI [of _ "enc sig"]) (simp add: route_message_exact)
qed

text \<open>The parts are joined by a separator that may occur in them: a signed message can be read with another receiver and payload.\<close>

lemma digest_ambiguous:
  "digest_input \<lparr>am_sender_id = s, am_receiver_id = r @ ''|'' @ q, am_payload_encrypted = p, am_signature = g, am_public_key_b64 = k\<rparr> =
   digest_input \<lparr>am_sender_id = s, am_receiver_id = r, am_payload_encrypted = q @ ''|'' @ p, am_signature = g, am_public_key_b64 = k\<rparr>"
  by (simp add: digest_input_def)

end
