(* ===== verification/Adapter_Decision.thy ===== *)
theory Adapter_Decision
  imports Json_Value
begin

text \<open>
  The router of policy adapters in \<^verbatim>\<open>src/crates/dek-decision\<close> and the compiler of policy intents
  (\<^verbatim>\<open>src/crates/dek-policy-intent\<close>, \<^verbatim>\<open>src/crates/dek-policy-compiler\<close>). An adapter is what it answers to a request: a
  decision, an error or a panic; the adapters are listed in the order in which the hash map yields them. The
  release profile ends the process on a panic, so the branch that catches one is reached in the other profiles only.
\<close>

subsection \<open>Requests and decisions\<close>

record principal_ref =
  pf_entity_type :: string
  pf_entity_id :: string

record resource_ref =
  rf_resource_type :: string
  rf_resource_id :: string
  rf_uri :: "string option"

record tool_ref =
  tf_tool_id :: string
  tf_mcp_server_id :: "string option"

record enforcement_request =
  nr_request_id :: string
  nr_trace_id :: string
  nr_tenant_id :: string
  nr_workspace_id :: string
  nr_environment_id :: string
  nr_agent_id :: "string option"
  nr_principal :: principal_ref
  nr_action :: string
  nr_resource :: resource_ref
  nr_tool :: "tool_ref option"
  nr_input :: json
  nr_context :: json

datatype decision_effect = DeAllow | DeDeny | DeRedact | DeMask | DeWarn | DeRequireApproval | DeBreakGlassAllow

record adapter_result =
  ad_adapter_id :: string
  ad_decision :: decision_effect
  ad_reason :: string

record decision_result =
  dr_request_id :: string
  dr_trace_id :: string
  dr_decision :: decision_effect
  dr_reason :: string
  dr_matched_policy_ids :: "string list"
  dr_matched_route_id :: string
  dr_adapter_results :: "adapter_result list"
  dr_latency_ms :: int

datatype adapter_answer = Answered adapter_result | AdapterFailed string | AdapterPanicked

type_synonym policy_adapter = "enforcement_request \<Rightarrow> adapter_answer"

fun consult_adapters ::
  "policy_adapter list \<Rightarrow> enforcement_request \<Rightarrow> decision_effect \<Rightarrow> string \<Rightarrow> adapter_result list \<Rightarrow> decision_effect \<times> string \<times> adapter_result list" where
  "consult_adapters [] req d reason rs = (d, reason, rs)"
| "consult_adapters (a # as) req d reason rs =
     (case a req of
        Answered r \<Rightarrow>
          if ad_decision r = DeDeny then consult_adapters as req DeDeny (ad_reason r) (rs @ [r])
          else consult_adapters as req d reason (rs @ [r])
      | AdapterFailed e \<Rightarrow> consult_adapters as req d reason rs
      | AdapterPanicked \<Rightarrow> (DeDeny, ''internal_policy_error'', rs))"

definition adapter_evaluate :: "policy_adapter list \<Rightarrow> enforcement_request \<Rightarrow> decision_result" where
  "adapter_evaluate adapters req =
     (let (d, reason, rs) = consult_adapters adapters req DeAllow [] []
      in \<lparr>dr_request_id = nr_request_id req, dr_trace_id = nr_trace_id req, dr_decision = d, dr_reason = reason,
          dr_matched_policy_ids = map ad_adapter_id rs, dr_matched_route_id = ''default_allow'', dr_adapter_results = rs, dr_latency_ms = 1\<rparr>)"

definition denies :: "enforcement_request \<Rightarrow> policy_adapter \<Rightarrow> bool" where
  "denies req a \<longleftrightarrow> (case a req of Answered r \<Rightarrow> ad_decision r = DeDeny | AdapterFailed _ \<Rightarrow> False | AdapterPanicked \<Rightarrow> True)"

lemma consult_decision:
  "d \<in> {DeAllow, DeDeny} \<Longrightarrow>
   fst (consult_adapters as req d reason rs) = (if d = DeDeny \<or> (\<exists>a\<in>set as. denies req a) then DeDeny else DeAllow)"
  by (induction as arbitrary: d reason rs) (auto simp: denies_def split: adapter_answer.splits if_splits)

text \<open>The decision is a denial exactly when some adapter denies or panics, and an allowance otherwise: no other effect is ever
  returned, in whatever order the map yields the adapters.\<close>

lemma adapter_decision_exact:
  "dr_decision (adapter_evaluate as req) = (if \<exists>a\<in>set as. denies req a then DeDeny else DeAllow)"
  using consult_decision [of DeAllow as req "[]" "[]"] by (simp add: adapter_evaluate_def split_def Let_def)

lemma adapter_decision_order: "set as = set bs \<Longrightarrow> dr_decision (adapter_evaluate as req) = dr_decision (adapter_evaluate bs req)"
  by (simp add: adapter_decision_exact)

text \<open>An adapter that fails is skipped: when all fail, as when there is none, the request is allowed.\<close>

lemma failing_adapters_allow:
  assumes "\<forall>a\<in>set as. \<exists>e. a req = AdapterFailed e"
  shows "dr_decision (adapter_evaluate as req) = DeAllow"
  using assms by (force simp: adapter_decision_exact denies_def split: adapter_answer.splits)

text \<open>Every effect but a denial is lost: where an adapter asks for approval, redaction or a warning the result is a plain allowance.\<close>

lemma weaker_effects_lost:
  assumes "\<forall>a\<in>set as. \<exists>r. a req = Answered r \<and> ad_decision r = DeRequireApproval"
  shows "dr_decision (adapter_evaluate as req) = DeAllow"
  using assms by (force simp: adapter_decision_exact denies_def)

subsection \<open>Policy intents\<close>

datatype decision_mode = DmEnforce | DmObserve | DmShadow | DmDryRun

datatype fallback_action = FaDeny | FaAllowAudit | FaLastGood | FaQuarantine

record policy_metadata =
  md_id :: string
  md_tenant :: string
  md_name :: string
  md_version :: string
  md_labels :: "(string \<times> string) list"

record entity_selector =
  sl_type :: string
  sl_ids :: "string list"
  sl_selector :: "(string \<times> json) list"

record enforcement_config =
  en_preferred_pep_types :: "string list"
  en_os_scope :: "string list"
  en_fallback :: fallback_action

record policy_spec =
  sp_decision_mode :: decision_mode
  sp_priority :: "int option"
  sp_subjects_include :: "entity_selector list"
  sp_subjects_exclude :: "entity_selector list"
  sp_actions :: "string list"
  sp_resources_include :: "entity_selector list"
  sp_resources_exclude :: "entity_selector list"
  sp_constraints :: "(string \<times> json) list"
  sp_enforcement :: enforcement_config
  sp_obligations :: "(string \<times> json) list"

record intent_doc =
  in_api_version :: string
  in_kind :: string
  in_metadata :: policy_metadata
  in_spec :: policy_spec

datatype compiler_error = MissingPepType | UnsupportedPepType string | CompilationFailed string

fun show_compiler_error :: "compiler_error \<Rightarrow> string" where
  "show_compiler_error MissingPepType = ''Missing preferred PEP types in policy intent''"
| "show_compiler_error (UnsupportedPepType t) = ''Unsupported PEP type: '' @ t"
| "show_compiler_error (CompilationFailed e) = ''Compilation failed: '' @ e"

record compiled_policy =
  cp_engine :: string
  cp_source :: string
  cp_compiled_bytes :: string

definition nl :: string where
  "nl = [CHR 0x0A]"

definition compile_to_cedar :: "intent_doc \<Rightarrow> (compiler_error, compiled_policy) result" where
  "compile_to_cedar i =
     (let source = ''// Generated from '' @ md_name (in_metadata i) @ nl @ ''permit('' @ nl @ ''  principal,'' @ nl @ ''  action,'' @ nl @
            ''  resource'' @ nl @ '');'' @ nl
      in Inr \<lparr>cp_engine = ''cedar'', cp_source = source, cp_compiled_bytes = source\<rparr>)"

definition compile_to_opa :: "intent_doc \<Rightarrow> (compiler_error, compiled_policy) result" where
  "compile_to_opa i =
     (let source = ''package policy'' @ nl @ ''default allow = false'' @ nl @ ''allow {'' @ nl @ ''  # Generated from '' @ md_name (in_metadata i) @ nl @
            ''  input.action != '' @ [CHR 0x22, CHR 0x22] @ nl @ ''}'' @ nl
      in Inr \<lparr>cp_engine = ''opa_wasm'', cp_source = source, cp_compiled_bytes = source\<rparr>)"

definition compile :: "intent_doc \<Rightarrow> (compiler_error, compiled_policy) result" where
  "compile i =
     (case en_preferred_pep_types (sp_enforcement (in_spec i)) of
        [] \<Rightarrow> Inl MissingPepType
      | pep_type # _ \<Rightarrow>
          if pep_type = ''mcp_proxy'' \<or> pep_type = ''cedar'' then compile_to_cedar i
          else if pep_type = ''opa_wasm'' \<or> pep_type = ''opa'' then compile_to_opa i
          else Inl (UnsupportedPepType pep_type))"

lemma compile_succeeds_iff:
  "(\<exists>p. compile i = Inr p) \<longleftrightarrow>
   (\<exists>t ts. en_preferred_pep_types (sp_enforcement (in_spec i)) = t # ts \<and> t \<in> {''mcp_proxy'', ''cedar'', ''opa_wasm'', ''opa''})"
  by (auto simp: compile_def compile_to_cedar_def compile_to_opa_def Let_def split: list.splits)

text \<open>Subjects, actions, resources, constraints, mode and fallback of an intent do not reach the compiled policy: two intents of the
  same name and enforcement point compile to the same text, which permits everything.\<close>

lemma compiler_ignores_intent:
  assumes "md_name (in_metadata i) = md_name (in_metadata j)"
    and "en_preferred_pep_types (sp_enforcement (in_spec i)) = en_preferred_pep_types (sp_enforcement (in_spec j))"
  shows "compile i = compile j"
  using assms by (simp add: compile_def compile_to_cedar_def compile_to_opa_def split: list.splits)

end
