(* ===== verification/Usage_Accounting.thy ===== *)
theory Usage_Accounting
  imports Agent_Trust Utf8_Text
begin

text \<open>
  Accounting of model usage in \<^verbatim>\<open>src/crates/dek-agent-observer/src\<close>: the canonical token counts (\<^verbatim>\<open>usage_model.rs\<close>) and how the
  answers of the providers are read into them (\<^verbatim>\<open>usage_normalizer.rs\<close>, \<^verbatim>\<open>providers/\<close>), the price catalogue
  (\<^verbatim>\<open>usage_cost.rs\<close>, \<^verbatim>\<open>cost.rs\<close>), budgets (\<^verbatim>\<open>usage_budget.rs\<close>, \<^verbatim>\<open>cost.rs\<close>) and the totals of an agent (\<^verbatim>\<open>aggregate.rs\<close>).
  Token counts are \<^verbatim>\<open>i64\<close> and their sums wrap; costs are rational numbers. The regular expressions and the date parser are
  parameters. The usage event around the counts copies its fields from the context and is left out.
\<close>

subsection \<open>Token counts\<close>

definition i64_sum :: "int list \<Rightarrow> int" where
  "i64_sum xs = foldl (\<lambda>a b. i64_wrap (a + b)) 0 xs"

datatype usage_source =
    UsProviderResponse | UsProviderStreamingFinal | UsProviderBillingExport | UsSdkInstrumentation | UsProxyObservation
  | UsBrowserEstimate | UsLocalTokenizerEstimate | UsManualImport | UsReconciled | UsUnknown

datatype cost_source =
    CoProviderReported | CoPriceCatalogExact | CoPriceCatalogTiered | CoEstimatedTokenizer | CoBillingReconciled | CoUnknown

record canonical_tokens =
  input_tokens :: int
  output_tokens :: int
  total_tokens :: int
  cached_input_tokens :: int
  cache_write_input_tokens :: int
  cache_write_input_tokens_5m :: "int option"
  cache_write_input_tokens_1h :: "int option"
  reasoning_output_tokens :: int
  reasoning_input_tokens :: "int option"
  tool_prompt_tokens :: int
  tool_result_tokens :: int
  image_input_tokens :: int
  image_output_tokens :: int
  audio_input_tokens :: int
  audio_output_tokens :: int
  video_input_tokens :: int
  by_modality :: "(string \<times> int) list"
  usage_details_ext :: "(string \<times> int) list"
  tokens_estimated :: bool
  tokens_source :: usage_source

definition default_tokens :: canonical_tokens where
  "default_tokens = \<lparr>input_tokens = 0, output_tokens = 0, total_tokens = 0, cached_input_tokens = 0, cache_write_input_tokens = 0,
     cache_write_input_tokens_5m = None, cache_write_input_tokens_1h = None, reasoning_output_tokens = 0, reasoning_input_tokens = None,
     tool_prompt_tokens = 0, tool_result_tokens = 0, image_input_tokens = 0, image_output_tokens = 0, audio_input_tokens = 0,
     audio_output_tokens = 0, video_input_tokens = 0, by_modality = [], usage_details_ext = [], tokens_estimated = False, tokens_source = UsUnknown\<rparr>"

definition or_zero :: "int option \<Rightarrow> int" where
  "or_zero x = (case x of Some n \<Rightarrow> n | None \<Rightarrow> 0)"

definition computed_total_tokens :: "canonical_tokens \<Rightarrow> int" where
  "computed_total_tokens t =
     i64_wrap (i64_sum [input_tokens t, output_tokens t, cached_input_tokens t, cache_write_input_tokens t, or_zero (reasoning_input_tokens t),
         tool_prompt_tokens t, tool_result_tokens t, image_input_tokens t, image_output_tokens t, audio_input_tokens t, audio_output_tokens t,
         video_input_tokens t] + i64_sum (map snd (usage_details_ext t)))"

definition with_provider_total :: "int option \<Rightarrow> canonical_tokens \<Rightarrow> canonical_tokens" where
  "with_provider_total provider_total t =
     t\<lparr>total_tokens := (case provider_total of Some n \<Rightarrow> n | None \<Rightarrow> computed_total_tokens t)\<rparr>"

definition token_class_counts :: "canonical_tokens \<Rightarrow> (string \<times> int) list" where
  "token_class_counts t = [
     (''input_tokens'', input_tokens t), (''output_tokens'', output_tokens t), (''cached_input_tokens'', cached_input_tokens t),
     (''cache_write_input_tokens'', cache_write_input_tokens t), (''reasoning_output_tokens'', reasoning_output_tokens t),
     (''tool_prompt_tokens'', tool_prompt_tokens t), (''tool_result_tokens'', tool_result_tokens t), (''image_input_tokens'', image_input_tokens t),
     (''image_output_tokens'', image_output_tokens t), (''audio_input_tokens'', audio_input_tokens t), (''audio_output_tokens'', audio_output_tokens t),
     (''video_input_tokens'', video_input_tokens t)]"

subsection \<open>Reading the answer of a provider\<close>

fun as_i64 :: "json \<Rightarrow> int option" where
  "as_i64 (JInt i) = (if i64_range i then Some i else None)"
| "as_i64 _ = None"

definition i64_at :: "json \<Rightarrow> string \<Rightarrow> int" where
  "i64_at v key = or_zero (Option.bind (json_get v key) as_i64)"

definition optional_nested_i64 :: "json \<Rightarrow> string \<Rightarrow> string \<Rightarrow> int option" where
  "optional_nested_i64 v parent key = Option.bind (Option.bind (json_get v parent) (\<lambda>p. json_get p key)) as_i64"

definition nested_i64 :: "json \<Rightarrow> string \<Rightarrow> string \<Rightarrow> int" where
  "nested_i64 v parent key = or_zero (optional_nested_i64 v parent key)"

datatype usage_error = MissingUsage string | UnsupportedShape string string

fun show_usage_error :: "usage_error \<Rightarrow> string" where
  "show_usage_error (MissingUsage p) = ''missing provider usage object for '' @ p"
| "show_usage_error (UnsupportedShape p m) = ''unsupported provider response shape for '' @ p @ '': '' @ m"

definition usage_object :: "string \<Rightarrow> string \<Rightarrow> json \<Rightarrow> (usage_error, json) result" where
  "usage_object provider key raw = (case json_get raw key of None \<Rightarrow> Inl (MissingUsage provider) | Some u \<Rightarrow> Inr u)"

definition openai_tokens :: "json \<Rightarrow> canonical_tokens" where
  "openai_tokens usage =
     with_provider_total (Option.bind (json_get usage ''total_tokens'') as_i64)
       (default_tokens\<lparr>input_tokens := max (i64_at usage ''input_tokens'') (i64_at usage ''prompt_tokens''),
          output_tokens := max (i64_at usage ''output_tokens'') (i64_at usage ''completion_tokens''),
          cached_input_tokens := nested_i64 usage ''input_tokens_details'' ''cached_tokens'',
          reasoning_output_tokens := nested_i64 usage ''output_tokens_details'' ''reasoning_tokens'',
          tokens_source := UsProviderResponse\<rparr>)"

definition openai_api :: "json \<Rightarrow> string" where
  "openai_api usage = (if json_has usage ''prompt_tokens'' then ''chat_completions'' else ''responses'')"

definition anthropic_tokens :: "json \<Rightarrow> canonical_tokens" where
  "anthropic_tokens usage =
     (let m5 = optional_nested_i64 usage ''cache_creation'' ''ephemeral_5m_input_tokens'';
          h1 = optional_nested_i64 usage ''cache_creation'' ''ephemeral_1h_input_tokens'';
          cache_write = i64_wrap (i64_wrap (i64_at usage ''cache_creation_input_tokens'' + or_zero m5) + or_zero h1)
      in with_provider_total None
           (default_tokens\<lparr>input_tokens := i64_at usage ''input_tokens'', output_tokens := i64_at usage ''output_tokens'',
              cached_input_tokens := i64_at usage ''cache_read_input_tokens'', cache_write_input_tokens := cache_write,
              cache_write_input_tokens_5m := m5, cache_write_input_tokens_1h := h1, tokens_source := UsProviderResponse\<rparr>))"

definition collect_modalities :: "(string \<Rightarrow> string) \<Rightarrow> json \<Rightarrow> string \<Rightarrow> string \<Rightarrow> (string \<times> int) list \<Rightarrow> (string \<times> int) list" where
  "collect_modalities to_lower usage key direction m =
     (case Option.bind (json_get usage key) as_array of
        None \<Rightarrow> m
      | Some items \<Rightarrow> foldl (\<lambda>m item.
          case (Option.bind (or_else (json_get item ''modality'') (json_get item ''modalityType'')) as_str,
                Option.bind (or_else (json_get item ''tokenCount'') (json_get item ''token_count'')) as_i64) of
            (Some modality, Some n) \<Rightarrow> AList.update (direction @ ''_'' @ to_lower modality) n m
          | _ \<Rightarrow> m) m items)"

definition gemini_tokens :: "(string \<Rightarrow> string) \<Rightarrow> json \<Rightarrow> canonical_tokens" where
  "gemini_tokens to_lower usage =
     (let m = collect_modalities to_lower usage ''candidatesTokensDetails'' ''output'' (collect_modalities to_lower usage ''promptTokensDetails'' ''input'' [])
      in with_provider_total (Option.bind (json_get usage ''totalTokenCount'') as_i64)
           (default_tokens\<lparr>input_tokens := i64_at usage ''promptTokenCount'', cached_input_tokens := i64_at usage ''cachedContentTokenCount'',
              output_tokens := i64_at usage ''candidatesTokenCount'', tool_prompt_tokens := i64_at usage ''toolUsePromptTokenCount'',
              reasoning_output_tokens := i64_at usage ''thoughtsTokenCount'', by_modality := m, tokens_source := UsProviderResponse\<rparr>))"

definition bedrock_tokens :: "json \<Rightarrow> canonical_tokens" where
  "bedrock_tokens usage =
     with_provider_total (Option.bind (json_get usage ''totalTokens'') as_i64)
       (default_tokens\<lparr>input_tokens := i64_at usage ''inputTokens'', output_tokens := i64_at usage ''outputTokens'',
          cached_input_tokens := i64_at usage ''cacheReadInputTokens'', cache_write_input_tokens := i64_at usage ''cacheWriteInputTokens'',
          tokens_source := UsProviderResponse\<rparr>)"

subsection \<open>Prices\<close>

record tier_condition =
  cq_usage_key_regex :: string
  cq_operator :: string
  cq_value :: int

record price_tier =
  pt_tier_id :: string
  pt_priority :: int
  pt_condition :: tier_condition
  pt_prices_per_1m :: "(string \<times> f64) list"

record price_rule =
  pu_provider :: string
  pu_provider_api :: "string option"
  pu_model_match :: string
  pu_effective_from :: "string option"
  pu_effective_to :: "string option"
  pu_currency :: "string option"
  pu_prices_per_1m :: "(string \<times> f64) list"
  pu_tiers :: "price_tier list"

record price_catalog_v2 =
  pg_catalog_version :: string
  pg_default_currency :: string
  pg_models :: "price_rule list"

record cost_input =
  ci_provider :: string
  ci_provider_api :: "string option"
  ci_model :: string
  ci_occurred_at :: int
  ci_tokens :: canonical_tokens
  ci_reported_cost :: "f64 option"
  ci_reported_currency :: "string option"

record cost_breakdown =
  cb_currency :: string
  cb_input_cost :: f64
  cb_output_cost :: f64
  cb_cached_input_cost :: f64
  cb_cache_write_input_cost :: f64
  cb_reasoning_output_cost :: f64
  cb_tool_cost :: f64
  cb_image_cost :: f64
  cb_audio_cost :: f64
  cb_total_cost :: f64
  cb_price_catalog_version :: "string option"
  cb_pricing_tier_id :: "string option"
  cb_cost_source :: cost_source
  cb_estimated :: bool
  cb_cost_details_ext :: "(string \<times> f64) list"

definition default_breakdown :: cost_breakdown where
  "default_breakdown = \<lparr>cb_currency = ''USD'', cb_input_cost = 0, cb_output_cost = 0, cb_cached_input_cost = 0, cb_cache_write_input_cost = 0,
     cb_reasoning_output_cost = 0, cb_tool_cost = 0, cb_image_cost = 0, cb_audio_cost = 0, cb_total_cost = 0, cb_price_catalog_version = None,
     cb_pricing_tier_id = None, cb_cost_source = CoUnknown, cb_estimated = True, cb_cost_details_ext = []\<rparr>"

text \<open>The regular expression library (an invalid expression is \<open>None\<close>) and the date parser.\<close>

record price_env =
  px_regex :: "string \<Rightarrow> (string \<Rightarrow> bool) option"
  px_parse_time :: "string \<Rightarrow> int option"

text \<open>\<^verbatim>\<open>Iterator::max_by_key\<close> returns the last of several greatest elements.\<close>

fun max_by_key :: "('a \<Rightarrow> 'k::linorder) \<Rightarrow> 'a list \<Rightarrow> 'a option" where
  "max_by_key f [] = None"
| "max_by_key f (x # xs) = (case max_by_key f xs of None \<Rightarrow> Some x | Some y \<Rightarrow> if f y < f x then Some x else Some y)"

definition model_matches :: "price_env \<Rightarrow> string \<Rightarrow> string \<Rightarrow> bool" where
  "model_matches env pattern model \<longleftrightarrow> pattern = model \<or> (case px_regex env pattern of None \<Rightarrow> False | Some r \<Rightarrow> r model)"

definition effective_at :: "price_env \<Rightarrow> price_rule \<Rightarrow> int \<Rightarrow> bool" where
  "effective_at env rule at_time \<longleftrightarrow>
     (case Option.bind (pu_effective_from rule) (px_parse_time env) of None \<Rightarrow> True | Some t \<Rightarrow> t \<le> at_time) \<and>
     (case Option.bind (pu_effective_to rule) (px_parse_time env) of None \<Rightarrow> True | Some t \<Rightarrow> at_time < t)"

definition rule_matches :: "price_env \<Rightarrow> price_rule \<Rightarrow> cost_input \<Rightarrow> bool" where
  "rule_matches env rule inp \<longleftrightarrow>
     pu_provider rule = ci_provider inp \<and>
     (pu_provider_api rule = None \<or> pu_provider_api rule = ci_provider_api inp) \<and>
     effective_at env rule (ci_occurred_at inp) \<and> model_matches env (pu_model_match rule) (ci_model inp)"

definition rule_specificity :: "price_rule \<Rightarrow> nat" where
  "rule_specificity rule = length (pu_provider rule) + length (pu_model_match rule) + (if pu_provider_api rule = None then 0 else 1)"

definition tier_condition_matches :: "price_env \<Rightarrow> tier_condition \<Rightarrow> canonical_tokens \<Rightarrow> bool" where
  "tier_condition_matches env c tokens =
     (case px_regex env (cq_usage_key_regex c) of
        None \<Rightarrow> False
      | Some r \<Rightarrow>
          let total = i64_sum (map snd (filter (\<lambda>(k, _). r k) (token_class_counts tokens)))
          in if cq_operator c = ''gt'' then total > cq_value c
             else if cq_operator c = ''gte'' then total \<ge> cq_value c
             else if cq_operator c = ''lt'' then total < cq_value c
             else if cq_operator c = ''lte'' then total \<le> cq_value c
             else if cq_operator c = ''eq'' then total = cq_value c
             else False)"

definition matching_tier :: "price_env \<Rightarrow> price_rule \<Rightarrow> canonical_tokens \<Rightarrow> price_tier option" where
  "matching_tier env rule tokens = max_by_key pt_priority (filter (\<lambda>t. tier_condition_matches env (pt_condition t) tokens) (pu_tiers rule))"

definition price_for :: "string \<Rightarrow> int \<Rightarrow> (string \<times> f64) list \<Rightarrow> f64" where
  "price_for key tokens prices =
     (if tokens \<le> 0 then 0 else (of_int tokens / 1000000) * (case map_of prices key of Some p \<Rightarrow> p | None \<Rightarrow> 0))"

definition effective_prices :: "price_rule \<Rightarrow> price_tier option \<Rightarrow> (string \<times> f64) list" where
  "effective_prices rule tier =
     (case tier of None \<Rightarrow> pu_prices_per_1m rule | Some t \<Rightarrow> foldl (\<lambda>m (k, v). AList.update k v m) (pu_prices_per_1m rule) (pt_prices_per_1m t))"

definition ext_costs :: "(string \<times> int) list \<Rightarrow> (string \<times> f64) list \<Rightarrow> (string \<times> f64) list" where
  "ext_costs details prices = filter (\<lambda>(_, c). 0 < c) (map (\<lambda>(k, n). (k, price_for k n prices)) details)"

definition priced_breakdown :: "price_catalog_v2 \<Rightarrow> price_rule \<Rightarrow> price_tier option \<Rightarrow> canonical_tokens \<Rightarrow> cost_breakdown" where
  "priced_breakdown catalog rule tier t =
     (let prices = effective_prices rule tier;
          ic = price_for ''input_tokens'' (input_tokens t) prices;
          oc = price_for ''output_tokens'' (output_tokens t) prices;
          cc = price_for ''cached_input_tokens'' (cached_input_tokens t) prices;
          wc = price_for ''cache_write_input_tokens'' (cache_write_input_tokens t) prices;
          rc = price_for ''reasoning_output_tokens'' (reasoning_output_tokens t) prices;
          tc = price_for ''tool_prompt_tokens'' (tool_prompt_tokens t) prices + price_for ''tool_result_tokens'' (tool_result_tokens t) prices;
          mc = price_for ''image_input_tokens'' (image_input_tokens t) prices + price_for ''image_output_tokens'' (image_output_tokens t) prices;
          ac = price_for ''audio_input_tokens'' (audio_input_tokens t) prices + price_for ''audio_output_tokens'' (audio_output_tokens t) prices;
          ext = ext_costs (usage_details_ext t) prices
      in \<lparr>cb_currency = (case pu_currency rule of Some c \<Rightarrow> c | None \<Rightarrow> pg_default_currency catalog), cb_input_cost = ic, cb_output_cost = oc,
          cb_cached_input_cost = cc, cb_cache_write_input_cost = wc, cb_reasoning_output_cost = rc, cb_tool_cost = tc, cb_image_cost = mc,
          cb_audio_cost = ac, cb_total_cost = ic + oc + cc + wc + rc + tc + mc + ac + sum_list (map snd ext),
          cb_price_catalog_version = Some (pg_catalog_version catalog), cb_pricing_tier_id = map_option pt_tier_id tier,
          cb_cost_source = (if tier = None then CoPriceCatalogExact else CoPriceCatalogTiered), cb_estimated = True, cb_cost_details_ext = ext\<rparr>)"

definition calculate_cost_v2 :: "price_env \<Rightarrow> price_catalog_v2 \<Rightarrow> cost_input \<Rightarrow> cost_breakdown" where
  "calculate_cost_v2 env catalog inp =
     (case ci_reported_cost inp of
        Some cost \<Rightarrow> default_breakdown\<lparr>cb_currency := (case ci_reported_currency inp of Some c \<Rightarrow> c | None \<Rightarrow> pg_default_currency catalog),
            cb_total_cost := cost, cb_cost_source := CoProviderReported, cb_estimated := False\<rparr>
      | None \<Rightarrow> (case max_by_key rule_specificity (filter (\<lambda>r. rule_matches env r inp) (pg_models catalog)) of
            None \<Rightarrow> default_breakdown\<lparr>cb_currency := pg_default_currency catalog, cb_cost_source := CoUnknown, cb_estimated := True\<rparr>
          | Some rule \<Rightarrow> priced_breakdown catalog rule (matching_tier env rule (ci_tokens inp)) (ci_tokens inp)))"

subsection \<open>Budgets\<close>

record budget_limit =
  bl_budget_id :: string
  bl_soft_cost_limit :: "f64 option"
  bl_hard_cost_limit :: "f64 option"
  bl_soft_token_limit :: "int option"
  bl_hard_token_limit :: "int option"
  bl_action_on_soft :: string
  bl_action_on_hard :: string
  bl_enabled :: bool

record window_totals =
  wt_cost :: f64
  wt_tokens :: int

datatype budget_action =
    BudgetAllow | BudgetWarn f64 | BudgetRequireApproval string | BudgetThrottle string | BudgetDeny string | BudgetDegradeModel string | BudgetDisableTool string

record budget_evaluation =
  be_budget_id :: string
  be_action :: budget_action
  be_current_cost :: f64
  be_current_tokens :: int
  be_projected_cost :: f64
  be_projected_tokens :: int

definition soft_action :: "budget_limit \<Rightarrow> budget_action" where
  "soft_action p =
     (if bl_action_on_soft p = ''approval'' \<or> bl_action_on_soft p = ''require_approval''
      then BudgetRequireApproval ''soft budget threshold requires approval''
      else if bl_action_on_soft p = ''throttle'' then BudgetThrottle ''soft budget threshold reached''
      else BudgetWarn 1)"

definition hard_action :: "budget_limit \<Rightarrow> budget_action" where
  "hard_action p =
     (if bl_action_on_hard p = ''approval'' \<or> bl_action_on_hard p = ''require_approval''
      then BudgetRequireApproval ''hard budget threshold requires approval''
      else if bl_action_on_hard p = ''throttle'' then BudgetThrottle ''hard budget threshold reached''
      else if bl_action_on_hard p = ''degrade_model'' then BudgetDegradeModel ''policy-selected-lower-cost-model''
      else BudgetDeny ''hard budget threshold exceeded'')"

definition limit_reached :: "'a::linorder option \<Rightarrow> 'a \<Rightarrow> bool" where
  "limit_reached l x \<longleftrightarrow> (case l of None \<Rightarrow> False | Some m \<Rightarrow> m \<le> x)"

definition evaluate_budget :: "budget_limit \<Rightarrow> window_totals \<Rightarrow> window_totals \<Rightarrow> budget_evaluation" where
  "evaluate_budget p current projected =
     (let cost = wt_cost current + wt_cost projected;
          tokens = i64_wrap (wt_tokens current + wt_tokens projected);
          hard = limit_reached (bl_hard_cost_limit p) cost \<or> limit_reached (bl_hard_token_limit p) tokens;
          soft = limit_reached (bl_soft_cost_limit p) cost \<or> limit_reached (bl_soft_token_limit p) tokens
      in \<lparr>be_budget_id = bl_budget_id p,
          be_action = (if \<not> bl_enabled p then BudgetAllow else if hard then hard_action p else if soft then soft_action p else BudgetAllow),
          be_current_cost = wt_cost current, be_current_tokens = wt_tokens current, be_projected_cost = cost, be_projected_tokens = tokens\<rparr>)"

subsection \<open>The ledger\<close>

record token_usage =
  tu_input_tokens :: "int option"
  tu_output_tokens :: "int option"
  tu_total_tokens :: "int option"
  tu_model :: "string option"

record metered_observation = observation +
  mo_token_usage :: "token_usage option"

record ledger_entry =
  le_event_id :: string
  le_agent_id :: string
  le_provider :: string
  le_model :: "string option"
  le_input_tokens :: int
  le_output_tokens :: int
  le_total_tokens :: int
  le_input_cost :: f64
  le_output_cost :: f64
  le_total_cost :: f64
  le_currency :: string
  le_estimated :: bool
  le_timestamp :: string

record model_price =
  mq_input_per_1m :: f64
  mq_output_per_1m :: f64

record price_catalog =
  pc_catalog_version :: string
  pc_currency :: string
  pc_providers :: "(string \<times> (string \<times> model_price) list) list"

definition or_unknown :: "string option \<Rightarrow> string" where
  "or_unknown s = (case s of Some x \<Rightarrow> x | None \<Rightarrow> ''unknown'')"

definition calculate_cost :: "metered_observation \<Rightarrow> string \<Rightarrow> price_catalog \<Rightarrow> ledger_entry option" where
  "calculate_cost ev provider catalog =
     (case mo_token_usage ev of
        None \<Rightarrow> None
      | Some tokens \<Rightarrow>
          (let model = or_unknown (tu_model tokens) in
           case Option.bind (map_of (pc_providers catalog) provider) (\<lambda>m. map_of m model) of
             None \<Rightarrow> None
           | Some price \<Rightarrow>
               let n_in = or_zero (tu_input_tokens tokens); n_out = or_zero (tu_output_tokens tokens);
                   c_in = (of_int n_in / 1000000) * mq_input_per_1m price;
                   c_out = (of_int n_out / 1000000) * mq_output_per_1m price
               in Some \<lparr>le_event_id = ob_event_id ev, le_agent_id = or_unknown (ob_agent_id ev), le_provider = provider, le_model = Some model,
                    le_input_tokens = n_in, le_output_tokens = n_out, le_total_tokens = i64_wrap (n_in + n_out), le_input_cost = c_in,
                    le_output_cost = c_out, le_total_cost = c_in + c_out, le_currency = pc_currency catalog, le_estimated = True,
                    le_timestamp = ob_timestamp ev\<rparr>))"

record budget_policy =
  bg_agent_id :: string
  bg_daily_cost_cap_usd :: f64
  bg_daily_token_cap :: int

datatype budget_decision = WithinBudget | CostExceeded | TokenExceeded

definition check_budget :: "budget_policy \<Rightarrow> ledger_entry list \<Rightarrow> budget_decision" where
  "check_budget p todays =
     (let own = filter (\<lambda>e. le_agent_id e = bg_agent_id p) todays
      in if bg_daily_cost_cap_usd p \<le> sum_list (map le_total_cost own) then CostExceeded
         else if bg_daily_token_cap p \<le> i64_sum (map le_total_tokens own) then TokenExceeded
         else WithinBudget)"

record agent_stats =
  as_total_events :: u64
  as_resources_accessed :: u64
  as_total_input_tokens :: u64
  as_total_output_tokens :: u64

definition add_stats :: "(string \<times> agent_stats) list \<Rightarrow> metered_observation \<Rightarrow> (string \<times> agent_stats) list" where
  "add_stats m ev =
     (let agent = or_unknown (ob_agent_id ev);
          s = (case map_of m agent of Some s \<Rightarrow> s
               | None \<Rightarrow> \<lparr>as_total_events = 0, as_resources_accessed = 0, as_total_input_tokens = 0, as_total_output_tokens = 0\<rparr>);
          s = s\<lparr>as_total_events := as_total_events s + 1\<rparr>;
          s = (if ob_resource_id ev \<noteq> None then s\<lparr>as_resources_accessed := as_resources_accessed s + 1\<rparr> else s);
          s = (case mo_token_usage ev of None \<Rightarrow> s
               | Some t \<Rightarrow> s\<lparr>as_total_input_tokens := as_total_input_tokens s + word_of_int (or_zero (tu_input_tokens t)),
                            as_total_output_tokens := as_total_output_tokens s + word_of_int (or_zero (tu_output_tokens t))\<rparr>)
      in AList.update agent s m)"

definition aggregate_events :: "metered_observation list \<Rightarrow> (string \<times> agent_stats) list" where
  "aggregate_events evs = foldl add_stats [] evs"

subsection \<open>Sums\<close>

lemma i64_wrap_add_left: "i64_wrap (i64_wrap a + b) = i64_wrap (a + b)"
proof -
  have "i64_wrap a + b + 9223372036854775808 = (a + 9223372036854775808) mod 18446744073709551616 + b" by (simp add: i64_wrap_def)
  moreover have "((a + 9223372036854775808) mod 18446744073709551616 + b) mod 18446744073709551616 = (a + b + 9223372036854775808) mod 18446744073709551616"
    using mod_add_left_eq [of "a + 9223372036854775808" 18446744073709551616 b] by (simp add: ac_simps)
  ultimately show ?thesis unfolding i64_wrap_def [of "i64_wrap a + b"] i64_wrap_def [of "a + b"] by (simp only:)
qed

lemma i64_sum_wrap: "i64_sum xs = i64_wrap (sum_list xs)"
proof -
  have "foldl (\<lambda>a b. i64_wrap (a + b)) (i64_wrap acc) xs = i64_wrap (acc + sum_list xs)" for acc
    by (induction xs arbitrary: acc) (simp_all add: i64_wrap_add_left add.assoc)
  from this [of 0] show ?thesis by (simp add: i64_sum_def i64_wrap_def)
qed

lemma i64_sum_exact: "i64_range (sum_list xs) \<Longrightarrow> i64_sum xs = sum_list xs"
  by (simp add: i64_sum_wrap i64_wrap_id)

lemma max_by_key_Some: "max_by_key f xs = Some y \<Longrightarrow> y \<in> set xs \<and> (\<forall>x\<in>set xs. f x \<le> f y)"
proof (induction xs arbitrary: y)
  case (Cons x xs)
  show ?case
  proof (cases "max_by_key f xs")
    case None
    then have "xs = []" by (cases xs) (auto split: option.splits if_splits)
    then show ?thesis using Cons.prems by simp
  next
    case (Some z)
    then show ?thesis using Cons.IH [OF Some] Cons.prems by (auto split: if_splits)
  qed
qed simp

lemma max_by_key_None [simp]: "max_by_key f xs = None \<longleftrightarrow> xs = []"
  by (cases xs) (auto split: option.splits)

lemma price_for_nonneg:
  assumes "\<forall>(k, p)\<in>set prices. 0 \<le> p"
  shows "0 \<le> price_for key n prices"
proof -
  have "0 \<le> p" if "map_of prices key = Some p" for p using map_of_SomeD [OF that] assms by auto
  then show ?thesis by (auto simp: price_for_def split: option.splits)
qed

lemma ext_costs_total: "\<forall>(k, p)\<in>set prices. 0 \<le> p \<Longrightarrow> sum_list (map snd (ext_costs details prices)) = (\<Sum>(k, n)\<leftarrow>details. price_for k n prices)"
proof (induction details)
  case (Cons d details)
  obtain k n where d: "d = (k, n)" by (cases d)
  have "0 \<le> price_for k n prices" by (rule price_for_nonneg [OF Cons.prems])
  then show ?case using Cons by (auto simp: ext_costs_def d)
qed (simp add: ext_costs_def)

definition priced_classes :: "canonical_tokens \<Rightarrow> (string \<times> int) list" where
  "priced_classes t = filter (\<lambda>(k, _). k \<noteq> ''video_input_tokens'') (token_class_counts t) @ usage_details_ext t"

text \<open>Without a reported cost, the total is that of the most specific rule that matches, at the prices of its tier, summed over the
  classes of tokens; nothing is lost and nothing is negative as long as no price is.\<close>

lemma cost_total:
  assumes "\<forall>(k, p)\<in>set (effective_prices rule tier). 0 \<le> p"
  shows "cb_total_cost (priced_breakdown catalog rule tier t) = (\<Sum>(k, n)\<leftarrow>priced_classes t. price_for k n (effective_prices rule tier))"
  using ext_costs_total [OF assms, of "usage_details_ext t"]
  by (simp add: priced_breakdown_def Let_def priced_classes_def token_class_counts_def)

lemma cost_rule_most_specific:
  assumes "ci_reported_cost inp = None" and "\<exists>r\<in>set (pg_models catalog). rule_matches env r inp"
  shows "\<exists>rule\<in>set (pg_models catalog). rule_matches env rule inp \<and>
     (\<forall>r\<in>set (pg_models catalog). rule_matches env r inp \<longrightarrow> rule_specificity r \<le> rule_specificity rule) \<and>
     calculate_cost_v2 env catalog inp = priced_breakdown catalog rule (matching_tier env rule (ci_tokens inp)) (ci_tokens inp)"
proof -
  let ?c = "filter (\<lambda>r. rule_matches env r inp) (pg_models catalog)"
  have "?c \<noteq> []" using assms(2) by (auto simp: filter_empty_conv)
  then obtain rule where r: "max_by_key rule_specificity ?c = Some rule" using max_by_key_None [of rule_specificity ?c] by fastforce
  from max_by_key_Some [OF this] show ?thesis using assms(1) r by (intro bexI [of _ rule]) (auto simp: calculate_cost_v2_def)
qed

lemma unknown_model_costs_nothing:
  "ci_reported_cost inp = None \<Longrightarrow> \<forall>r\<in>set (pg_models catalog). \<not> rule_matches env r inp \<Longrightarrow>
   cb_total_cost (calculate_cost_v2 env catalog inp) = 0 \<and> cb_cost_source (calculate_cost_v2 env catalog inp) = CoUnknown"
  by (simp add: calculate_cost_v2_def filter_False default_breakdown_def)

text \<open>Video tokens count towards the tiers and the total number of tokens but have no price.\<close>

lemma video_tokens_free: "cb_total_cost (priced_breakdown catalog rule tier (t\<lparr>video_input_tokens := n\<rparr>)) = cb_total_cost (priced_breakdown catalog rule tier t)"
  by (simp add: priced_breakdown_def Let_def)

text \<open>The cached tokens of an answer are part of its input tokens, and both are charged: a cached call costs more than the same call
  without a cache.\<close>

lemma cached_tokens_charged_twice:
  assumes "0 < n" and "map_of (pu_prices_per_1m rule) ''cached_input_tokens'' = Some p" and "0 < p" and "cached_input_tokens t = 0"
  shows "cb_total_cost (priced_breakdown catalog rule None t) < cb_total_cost (priced_breakdown catalog rule None (t\<lparr>cached_input_tokens := n\<rparr>))"
  using assms by (simp add: priced_breakdown_def Let_def effective_prices_def price_for_def)

text \<open>The written cache is counted twice where the provider reports the total and its parts.\<close>

lemma cache_writes_counted_twice:
  assumes "i64_at u ''cache_creation_input_tokens'' = a + b" and "optional_nested_i64 u ''cache_creation'' ''ephemeral_5m_input_tokens'' = Some a"
    and "optional_nested_i64 u ''cache_creation'' ''ephemeral_1h_input_tokens'' = Some b" and "i64_range (2 * (a + b))" and "i64_range (2 * a + b)"
  shows "cache_write_input_tokens (anthropic_tokens u) = 2 * (a + b)"
proof -
  have "i64_wrap (a + b + a) = 2 * a + b" using assms(5) i64_wrap_id [of "2 * a + b"] by (simp add: algebra_simps)
  then show ?thesis using assms i64_wrap_id [of "2 * (a + b)"]
    by (simp add: anthropic_tokens_def Let_def with_provider_total_def or_zero_def algebra_simps)
qed

text \<open>A chat completion reports its cached tokens under another key, which is not read.\<close>

lemma chat_completion_cache_unseen:
  "cached_input_tokens (openai_tokens (JObj [(''prompt_tokens'', JInt 100), (''prompt_tokens_details'', JObj [(''cached_tokens'', JInt 90)])])) = 0"
  by (simp add: openai_tokens_def with_provider_total_def nested_i64_def optional_nested_i64_def or_zero_def)

subsection \<open>What a budget lets through\<close>

lemma hard_action_stops: "hard_action p \<noteq> BudgetAllow \<and> hard_action p \<noteq> BudgetWarn x"
  by (simp add: hard_action_def)

text \<open>An enabled budget that lets a call pass, with or without a warning, keeps the totals below every hard limit.\<close>

lemma budget_respects_hard_limits:
  assumes "bl_enabled p" and "be_action (evaluate_budget p cur proj) \<in> {BudgetAllow, BudgetWarn 1}" and "i64_range (wt_tokens cur + wt_tokens proj)"
  shows "(\<forall>l. bl_hard_cost_limit p = Some l \<longrightarrow> wt_cost cur + wt_cost proj < l) \<and> (\<forall>l. bl_hard_token_limit p = Some l \<longrightarrow> wt_tokens cur + wt_tokens proj < l)"
  using assms hard_action_stops [of p] by (auto simp: evaluate_budget_def Let_def limit_reached_def i64_wrap_id split: if_splits)

text \<open>Token totals that wrap around pass every limit.\<close>

lemma budget_wraps:
  "be_projected_tokens (evaluate_budget p \<lparr>wt_cost = c, wt_tokens = i64_max\<rparr> \<lparr>wt_cost = d, wt_tokens = 1\<rparr>) = i64_min"
  by (simp add: evaluate_budget_def Let_def i64_wrap_def)

lemma check_budget_exact:
  assumes "i64_range (\<Sum>e\<leftarrow>filter (\<lambda>e. le_agent_id e = bg_agent_id p) es. le_total_tokens e)"
  shows "check_budget p es = WithinBudget \<longleftrightarrow>
     (\<Sum>e\<leftarrow>filter (\<lambda>e. le_agent_id e = bg_agent_id p) es. le_total_cost e) < bg_daily_cost_cap_usd p \<and>
     (\<Sum>e\<leftarrow>filter (\<lambda>e. le_agent_id e = bg_agent_id p) es. le_total_tokens e) < bg_daily_token_cap p"
  using i64_sum_exact [OF assms] by (auto simp: check_budget_def Let_def)

lemma check_budget_own_entries: "check_budget p es = check_budget p (filter (\<lambda>e. le_agent_id e = bg_agent_id p) es)"
  by (simp add: check_budget_def)

lemma aggregate_counts:
  "(case map_of (foldl add_stats m evs) a of Some s \<Rightarrow> as_total_events s | None \<Rightarrow> 0) =
   (case map_of m a of Some s \<Rightarrow> as_total_events s | None \<Rightarrow> 0) + of_nat (length (filter (\<lambda>e. or_unknown (ob_agent_id e) = a) evs))"
proof (induction evs arbitrary: m)
  case (Cons e evs)
  have "(case map_of (add_stats m e) a of Some s \<Rightarrow> as_total_events s | None \<Rightarrow> 0) =
    (case map_of m a of Some s \<Rightarrow> as_total_events s | None \<Rightarrow> 0) + (if or_unknown (ob_agent_id e) = a then 1 else 0)"
    by (auto simp: add_stats_def Let_def split: option.splits)
  then show ?case using Cons.IH [of "add_stats m e"] by (simp add: add.assoc)
qed simp

end
