(* ===== verification/Agent_Correlation.thy ===== *)
theory Agent_Correlation
  imports Usage_Accounting "HOL-Library.List_Lexorder" "HOL-Library.Char_ord"
begin

text \<open>
  Attribution of raw events to agents, in \<^verbatim>\<open>src/crates/dek-agent-observer/src\<close>: the index over process identities
  (\<^verbatim>\<open>agent_correlator.rs\<close>) and the fall-back to a shadow candidate (\<^verbatim>\<open>correlate.rs\<close>). \<^verbatim>\<open>str::trim\<close> is taken over ASCII
  white space; the payload fields of an event that neither function reads are left out of its record.
\<close>

subsection \<open>Process identities\<close>

record process_signal =
  psg_pid :: "u32 option"
  psg_process_name :: "string option"
  psg_exe_path_hash :: "string option"
  psg_cgroup_id :: "u64 option"
  psg_remote_addr :: "string option"
  psg_remote_port :: "16 word option"

record process_binding =
  pb_agent_id :: string
  pb_pids :: "u32 list"
  pb_exe_path_hash :: "string option"
  pb_process_names :: "string list"
  pb_cgroup_ids :: "u64 list"

datatype match_basis = MbPidAndExe | MbExeHash | MbCgroup | MbPid | MbProcessNameUnique

fun basis_confidence :: "match_basis \<Rightarrow> nat" where
  "basis_confidence MbPidAndExe = 100"
| "basis_confidence MbExeHash = 90"
| "basis_confidence MbCgroup = 85"
| "basis_confidence MbPid = 70"
| "basis_confidence MbProcessNameUnique = 50"

record agent_resolution =
  ar_agent_id :: string
  ar_basis :: match_basis
  ar_confidence :: nat

record agent_correlator =
  ac_by_pid :: "u32 \<rightharpoonup> string"
  ac_by_cgroup :: "u64 \<rightharpoonup> string"
  ac_by_exe_hash :: "string \<rightharpoonup> string"
  ac_by_name :: "string \<rightharpoonup> string list"

definition correlator_default :: agent_correlator where
  "correlator_default = \<lparr>ac_by_pid = Map.empty, ac_by_cgroup = Map.empty, ac_by_exe_hash = Map.empty, ac_by_name = Map.empty\<rparr>"

definition name_key :: "string \<Rightarrow> string" where
  "name_key name = to_ascii_lowercase (trim name)"

definition names_at :: "(string \<rightharpoonup> string list) \<Rightarrow> string \<Rightarrow> string list" where
  "names_at m k = (case m k of Some l \<Rightarrow> l | None \<Rightarrow> [])"

definition add_name :: "string \<Rightarrow> (string \<rightharpoonup> string list) \<Rightarrow> string \<Rightarrow> (string \<rightharpoonup> string list)" where
  "add_name agent m name = (if name_key name = [] then m else m(name_key name \<mapsto> push_unique agent (names_at m (name_key name))))"

definition non_empty :: "string option \<Rightarrow> string option" where
  "non_empty h = (case h of Some x \<Rightarrow> if x = [] then None else Some x | None \<Rightarrow> None)"

definition index_binding :: "agent_correlator \<Rightarrow> process_binding \<Rightarrow> agent_correlator" where
  "index_binding c b =
     (if pb_agent_id b = [] then c
      else \<lparr>ac_by_pid = foldl (\<lambda>m p. m(p \<mapsto> pb_agent_id b)) (ac_by_pid c) (pb_pids b),
            ac_by_cgroup = foldl (\<lambda>m g. m(g \<mapsto> pb_agent_id b)) (ac_by_cgroup c) (pb_cgroup_ids b),
            ac_by_exe_hash = (case non_empty (pb_exe_path_hash b) of Some h \<Rightarrow> (ac_by_exe_hash c)(h \<mapsto> pb_agent_id b) | None \<Rightarrow> ac_by_exe_hash c),
            ac_by_name = foldl (add_name (pb_agent_id b)) (ac_by_name c) (pb_process_names b)\<rparr>)"

definition from_bindings :: "process_binding list \<Rightarrow> agent_correlator" where
  "from_bindings bs = foldl index_binding correlator_default bs"

definition res :: "string \<Rightarrow> match_basis \<Rightarrow> agent_resolution" where
  "res agent basis = \<lparr>ar_agent_id = agent, ar_basis = basis, ar_confidence = basis_confidence basis\<rparr>"

definition unique_name :: "agent_correlator \<Rightarrow> process_signal \<Rightarrow> string option" where
  "unique_name c s =
     (case psg_process_name s of
        None \<Rightarrow> None
      | Some name \<Rightarrow> (case ac_by_name c (name_key name) of Some [a] \<Rightarrow> Some a | _ \<Rightarrow> None))"

definition resolve :: "agent_correlator \<Rightarrow> process_signal \<Rightarrow> agent_resolution option" where
  "resolve c s =
     (let by_exe = Option.bind (non_empty (psg_exe_path_hash s)) (ac_by_exe_hash c);
          by_pid = Option.bind (psg_pid s) (ac_by_pid c)
      in case (by_exe, by_pid) of
           (Some e, Some p) \<Rightarrow> if e = p then Some (res e MbPidAndExe) else Some (res e MbExeHash)
         | (Some e, None) \<Rightarrow> Some (res e MbExeHash)
         | (None, _) \<Rightarrow> (case Option.bind (psg_cgroup_id s) (ac_by_cgroup c) of
               Some a \<Rightarrow> Some (res a MbCgroup)
             | None \<Rightarrow> (case by_pid of
                   Some p \<Rightarrow> Some (res p MbPid)
                 | None \<Rightarrow> map_option (\<lambda>a. res a MbProcessNameUnique) (unique_name c s))))"

record browser_scope =
  bs_base_name :: "string option"
  bs_display_name :: "string option"
  bs_browser_id :: "string option"
  bs_browser_name :: "string option"
  bs_candidate_id :: "string option"
  bs_discovery_candidate_id :: "string option"

record runtime_observation = metered_observation +
  ro_process_signal :: "process_signal option"
  ro_browser_scope :: "browser_scope option"

definition enrich_event :: "agent_correlator \<Rightarrow> runtime_observation \<Rightarrow> agent_resolution option \<times> runtime_observation" where
  "enrich_event c ev =
     (if ob_agent_id ev \<noteq> None then (None, ev)
      else case Option.bind (ro_process_signal ev) (resolve c) of
          None \<Rightarrow> (None, ev)
        | Some r \<Rightarrow> (Some r, ev\<lparr>ob_agent_id := Some (ar_agent_id r)\<rparr>))"

definition correlate_shadow_candidate :: "runtime_observation \<Rightarrow> runtime_observation" where
  "correlate_shadow_candidate ev =
     (if ob_agent_id ev = None \<and> ob_shadow_candidate_id ev = None
      then ev\<lparr>ob_shadow_candidate_id := Some (''shadow-candidate-'' @ ob_trace_id ev)\<rparr> else ev)"

definition correlate_event :: "agent_correlator \<Rightarrow> runtime_observation \<Rightarrow> agent_resolution option \<times> runtime_observation" where
  "correlate_event c ev =
     (let (r, ev') = enrich_event c ev in (r, if r = None then correlate_shadow_candidate ev' else ev'))"

subsection \<open>What the index holds\<close>

text \<open>A foreign key of a map goes to the last binding that claims it.\<close>

definition claims :: "process_binding \<Rightarrow> bool" where
  "claims b \<longleftrightarrow> pb_agent_id b \<noteq> []"

definition last_agent :: "(process_binding \<Rightarrow> bool) \<Rightarrow> process_binding list \<Rightarrow> string option" where
  "last_agent P bs = map_option pb_agent_id (find (\<lambda>b. claims b \<and> P b) (rev bs))"

lemma foldl_map_upd: "foldl (\<lambda>m p. m(p \<mapsto> v)) m ps k = (if k \<in> set ps then Some v else m k)"
  by (induction ps arbitrary: m) auto

lemma find_append: "find P (xs @ ys) = (case find P xs of Some x \<Rightarrow> Some x | None \<Rightarrow> find P ys)"
  by (induction xs) auto

lemma last_agent_snoc: "last_agent P (bs @ [b]) = (if claims b \<and> P b then Some (pb_agent_id b) else last_agent P bs)"
  by (simp add: last_agent_def)

lemma by_pid_from_bindings: "ac_by_pid (from_bindings bs) k = last_agent (\<lambda>b. k \<in> set (pb_pids b)) bs"
  by (induction bs rule: rev_induct)
    (auto simp: from_bindings_def last_agent_snoc index_binding_def foldl_map_upd claims_def correlator_default_def last_agent_def)

lemma by_cgroup_from_bindings: "ac_by_cgroup (from_bindings bs) k = last_agent (\<lambda>b. k \<in> set (pb_cgroup_ids b)) bs"
  by (induction bs rule: rev_induct)
    (auto simp: from_bindings_def last_agent_snoc index_binding_def foldl_map_upd claims_def correlator_default_def last_agent_def)

lemma by_exe_from_bindings: "ac_by_exe_hash (from_bindings bs) k = last_agent (\<lambda>b. non_empty (pb_exe_path_hash b) = Some k) bs"
  by (induction bs rule: rev_induct)
    (auto simp: from_bindings_def last_agent_snoc index_binding_def claims_def correlator_default_def last_agent_def split: option.splits)

definition claims_name :: "string \<Rightarrow> process_binding \<Rightarrow> bool" where
  "claims_name k b \<longleftrightarrow> claims b \<and> k \<noteq> [] \<and> k \<in> name_key ` set (pb_process_names b)"

lemma set_names_at_add: "set (names_at (add_name a m n) k) = set (names_at m k) \<union> (if name_key n = k \<and> k \<noteq> [] then {a} else {})"
  by (auto simp: add_name_def names_at_def)

lemma set_names_at_fold:
  "set (names_at (foldl (add_name a) m ns) k) = set (names_at m k) \<union> (if k \<noteq> [] \<and> k \<in> name_key ` set ns then {a} else {})"
  by (induction ns arbitrary: m) (auto simp: set_names_at_add)

lemma names_from_bindings: "set (names_at (ac_by_name (from_bindings bs)) k) = pb_agent_id ` {b \<in> set bs. claims_name k b}"
proof (induction bs rule: rev_induct)
  case (snoc b bs)
  have f: "from_bindings (bs @ [b]) = index_binding (from_bindings bs) b" by (simp add: from_bindings_def)
  show ?case unfolding f using snoc by (auto simp: index_binding_def set_names_at_fold claims_name_def claims_def)
qed (simp add: from_bindings_def correlator_default_def names_at_def)

lemma distinct_names_add: "distinct (names_at m k) \<Longrightarrow> distinct (names_at (add_name a m n) k)"
  by (auto simp: add_name_def names_at_def push_unique_def)

lemma distinct_names_fold: "distinct (names_at m k) \<Longrightarrow> distinct (names_at (foldl (add_name a) m ns) k)"
  by (induction ns arbitrary: m) (simp_all add: distinct_names_add)

lemma distinct_names: "distinct (names_at (ac_by_name (from_bindings bs)) k)"
proof (induction bs rule: rev_induct)
  case (snoc b bs)
  have f: "from_bindings (bs @ [b]) = index_binding (from_bindings bs) b" by (simp add: from_bindings_def)
  show ?case unfolding f using snoc by (simp add: index_binding_def distinct_names_fold)
qed (simp add: from_bindings_def correlator_default_def names_at_def)

lemma distinct_singleton: "distinct l \<Longrightarrow> l = [a] \<longleftrightarrow> set l = {a}"
  by (cases l) (auto simp: subset_singleton_iff)

lemma unique_name_exact:
  "unique_name (from_bindings bs) s = Some a \<longleftrightarrow>
   (\<exists>n. psg_process_name s = Some n \<and> pb_agent_id ` {b \<in> set bs. claims_name (name_key n) b} = {a})"
proof -
  have "ac_by_name (from_bindings bs) k = Some [a] \<longleftrightarrow> pb_agent_id ` {b \<in> set bs. claims_name k b} = {a}" for k
    unfolding names_from_bindings [symmetric] distinct_singleton [OF distinct_names, symmetric]
    by (simp add: names_at_def split: option.splits)
  moreover have "(case m of Some [x] \<Rightarrow> Some x | _ \<Rightarrow> None) = Some a \<longleftrightarrow> m = Some [a]" for m
    by (simp split: option.split list.split)
  ultimately show ?thesis by (cases "psg_process_name s") (simp_all add: unique_name_def)
qed

text \<open>An attribution is backed by a binding of the agent with the key that decided; a process name decides only where a single agent
  claims it.\<close>

lemma last_agent_Some: "last_agent P bs = Some a \<Longrightarrow> \<exists>b\<in>set bs. claims b \<and> pb_agent_id b = a \<and> P b"
proof -
  assume "last_agent P bs = Some a"
  then obtain b where b: "find (\<lambda>b. claims b \<and> P b) (rev bs) = Some b" "pb_agent_id b = a" by (auto simp: last_agent_def)
  from b(1) obtain i where "i < length (rev bs)" "b = rev bs ! i" "claims b \<and> P b" unfolding find_Some_iff by blast
  with b(2) show ?thesis by (metis nth_mem set_rev)
qed

definition backed :: "process_binding list \<Rightarrow> process_signal \<Rightarrow> agent_resolution \<Rightarrow> bool" where
  "backed bs s r \<longleftrightarrow> ar_confidence r = basis_confidence (ar_basis r) \<and> (\<exists>b\<in>set bs. claims b \<and> pb_agent_id b = ar_agent_id r \<and>
     (case ar_basis r of
        MbPidAndExe \<Rightarrow> non_empty (pb_exe_path_hash b) = psg_exe_path_hash s \<and> (\<exists>b'\<in>set bs. pb_agent_id b' = ar_agent_id r \<and> (\<exists>p\<in>set (pb_pids b'). psg_pid s = Some p))
      | MbExeHash \<Rightarrow> non_empty (pb_exe_path_hash b) = psg_exe_path_hash s
      | MbCgroup \<Rightarrow> \<exists>g\<in>set (pb_cgroup_ids b). psg_cgroup_id s = Some g
      | MbPid \<Rightarrow> \<exists>p\<in>set (pb_pids b). psg_pid s = Some p
      | MbProcessNameUnique \<Rightarrow> \<exists>n. psg_process_name s = Some n \<and> (\<forall>b'\<in>set bs. claims_name (name_key n) b' \<longrightarrow> pb_agent_id b' = ar_agent_id r)))"

lemma non_empty_Some: "non_empty h = Some x \<longleftrightarrow> h = Some x \<and> x \<noteq> []"
  by (auto simp: non_empty_def split: option.splits)

lemma resolve_backed:
  assumes "resolve (from_bindings bs) s = Some r"
  shows "backed bs s r"
proof -
  let ?c = "from_bindings bs"
  define e where "e = Option.bind (non_empty (psg_exe_path_hash s)) (ac_by_exe_hash ?c)"
  define p where "p = Option.bind (psg_pid s) (ac_by_pid ?c)"
  define g where "g = Option.bind (psg_cgroup_id s) (ac_by_cgroup ?c)"
  have E: "\<exists>b\<in>set bs. claims b \<and> pb_agent_id b = a \<and> non_empty (pb_exe_path_hash b) = psg_exe_path_hash s" if "e = Some a" for a
    using that unfolding e_def bind_eq_Some_conv by (auto simp: by_exe_from_bindings non_empty_Some dest!: last_agent_Some)
  have P: "\<exists>b\<in>set bs. claims b \<and> pb_agent_id b = a \<and> (\<exists>x\<in>set (pb_pids b). psg_pid s = Some x)" if "p = Some a" for a
    using that unfolding p_def bind_eq_Some_conv by (auto simp: by_pid_from_bindings dest!: last_agent_Some)
  have G: "\<exists>b\<in>set bs. claims b \<and> pb_agent_id b = a \<and> (\<exists>x\<in>set (pb_cgroup_ids b). psg_cgroup_id s = Some x)" if "g = Some a" for a
    using that unfolding g_def bind_eq_Some_conv by (auto simp: by_cgroup_from_bindings dest!: last_agent_Some)
  have N: "backed bs s (res a MbProcessNameUnique)" if "unique_name ?c s = Some a" for a
  proof -
    from that obtain n where n: "psg_process_name s = Some n" and i: "pb_agent_id ` {b \<in> set bs. claims_name (name_key n) b} = {a}"
      unfolding unique_name_exact by blast
    from i obtain b where b: "b \<in> set bs" "claims b" "pb_agent_id b = a" unfolding claims_name_def by blast
    from i have "pb_agent_id b' = a" if "b' \<in> set bs" "claims_name (name_key n) b'" for b' using that by blast
    with n b show ?thesis by (auto simp: backed_def res_def)
  qed
  have sources: "(\<exists>a. r = res a MbPidAndExe \<and> e = Some a \<and> p = Some a) \<or> (\<exists>a. r = res a MbExeHash \<and> e = Some a) \<or>
      (\<exists>a. r = res a MbCgroup \<and> g = Some a) \<or> (\<exists>a. r = res a MbPid \<and> p = Some a) \<or>
      (\<exists>a. r = res a MbProcessNameUnique \<and> unique_name ?c s = Some a)"
    using assms unfolding resolve_def e_def [symmetric] p_def [symmetric] g_def [symmetric] Let_def
    by (cases e; cases p; cases g; cases "unique_name ?c s") (auto split: if_splits)
  consider (pe) a where "r = res a MbPidAndExe" "e = Some a" "p = Some a" | (e) a where "r = res a MbExeHash" "e = Some a"
    | (g) a where "r = res a MbCgroup" "g = Some a" | (p) a where "r = res a MbPid" "p = Some a"
    | (n) a where "r = res a MbProcessNameUnique" "unique_name ?c s = Some a" using sources by blast
  then show ?thesis
  proof cases
    case pe
    from E [OF pe(2)] P [OF pe(3)] show ?thesis unfolding backed_def pe(1) res_def by auto
  next
    case e
    from E [OF e(2)] show ?thesis unfolding backed_def e(1) res_def by auto
  next
    case g
    from G [OF g(2)] show ?thesis unfolding backed_def g(1) res_def by auto
  next
    case p
    from P [OF p(2)] show ?thesis unfolding backed_def p(1) res_def by auto
  next
    case n
    from N [OF n(2)] show ?thesis unfolding n(1) .
  qed
qed

text \<open>The executable decides over everything else, and an attributed event keeps its agent.\<close>

lemma exe_hash_decides:
  assumes "psg_exe_path_hash s = Some h" and "h \<noteq> []" and "ac_by_exe_hash c h = Some a"
  shows "\<exists>r. resolve c s = Some r \<and> ar_agent_id r = a \<and> 90 \<le> ar_confidence r"
  using assms by (auto simp: resolve_def non_empty_def res_def Let_def split: option.splits)

lemma attribution_kept: "ob_agent_id ev = Some a \<Longrightarrow> correlate_event c ev = (None, ev)"
  by (simp add: correlate_event_def enrich_event_def correlate_shadow_candidate_def)

lemma correlated_or_shadow:
  "ob_agent_id (snd (correlate_event c ev)) \<noteq> None \<or> ob_shadow_candidate_id (snd (correlate_event c ev)) \<noteq> None"
  by (auto simp: correlate_event_def enrich_event_def correlate_shadow_candidate_def Let_def split: option.splits)

text \<open>Unlike a name, an executable that several agents share (an interpreter, say) is not ambiguous to the index: its events go to the agent listed
  last, with high confidence.\<close>

lemma shared_executable_misattributed:
  assumes "claims a" "claims b" "non_empty (pb_exe_path_hash a) = Some h" "non_empty (pb_exe_path_hash b) = Some h"
  shows "\<exists>r. resolve (from_bindings [a, b]) \<lparr>psg_pid = None, psg_process_name = None, psg_exe_path_hash = Some h, psg_cgroup_id = None,
     psg_remote_addr = None, psg_remote_port = None\<rparr> = Some r \<and>
     ar_agent_id r = pb_agent_id b \<and> ar_confidence r = 90"
proof -
  have "ac_by_exe_hash (from_bindings [a, b]) h = Some (pb_agent_id b)"
    unfolding by_exe_from_bindings using assms last_agent_snoc [of _ "[a]" b] by simp
  moreover have "h \<noteq> []" using assms(3) by (simp add: non_empty_Some)
  ultimately show ?thesis by (simp add: resolve_def non_empty_def res_def)
qed

end
