(* ===== verification/Guard_Spans.thy ===== *)
theory Guard_Spans
  imports Utf8_Text
begin

text \<open>
  Findings as spans of a text. \<^verbatim>\<open>pii.rs\<close> and \<^verbatim>\<open>output_guard.rs\<close> of \<^verbatim>\<open>src/crates/dek-guard-pipeline/src\<close>
  each select the most confident spans that do not overlap and then overwrite them from the back of the
  text to its front. The selection and the overwriting are stated once, over the accessors of a span type;
  the locale \<open>span_guard\<close> proves that they never panic and amount to one pass over the text.
\<close>

record redaction_finding =
  rf_kind :: string
  rf_confidence :: rat
  rf_path :: string
  rf_replacement :: string

subsection \<open>Selection\<close>

fun select_spans :: "('a \<Rightarrow> 'a \<Rightarrow> bool) \<Rightarrow> 'a list \<Rightarrow> 'a list \<Rightarrow> 'a list" where
  "select_spans ov sel [] = sel"
| "select_spans ov sel (x # xs) =
     select_spans ov (if list_ex (\<lambda>y. ov y x) sel then sel else sel @ [x]) xs"

lemma select_subset: "set (select_spans ov sel xs) \<subseteq> set sel \<union> set xs"
proof (induction xs arbitrary: sel)
  case (Cons x xs)
  from Cons.IH [of "if list_ex (\<lambda>y. ov y x) sel then sel else sel @ [x]"]
  show ?case by (auto split: if_splits)
qed simp

lemma select_keeps: "set sel \<subseteq> set (select_spans ov sel xs)"
proof (induction xs arbitrary: sel)
  case (Cons x xs)
  have "set sel \<subseteq> set (if list_ex (\<lambda>y. ov y x) sel then sel else sel @ [x])" by auto
  also have "\<dots> \<subseteq> set (select_spans ov sel (x # xs))" using Cons.IH by simp
  finally show ?case .
qed simp

lemma select_disjoint:
  "sorted_wrt (\<lambda>y x. \<not> ov y x) sel \<Longrightarrow> sorted_wrt (\<lambda>y x. \<not> ov y x) (select_spans ov sel xs)"
  by (induction xs arbitrary: sel) (auto simp: sorted_wrt_append list_ex_iff)

text \<open>What is not selected overlaps something selected that came before it.\<close>

lemma select_maximal:
  assumes "x \<in> set xs" and "sorted_wrt r xs" and "\<forall>y\<in>set sel. \<forall>z\<in>set xs. r y z"
  shows "x \<in> set (select_spans ov sel xs) \<or> (\<exists>y\<in>set (select_spans ov sel xs). ov y x \<and> r y x)"
  using assms
proof (induction xs arbitrary: sel)
  case (Cons z zs)
  let ?sel = "if list_ex (\<lambda>y. ov y z) sel then sel else sel @ [z]"
  have keep: "set ?sel \<subseteq> set (select_spans ov sel (z # zs))"
    using select_keeps [of ?sel ov zs] by simp
  show ?case
  proof (cases "x = z")
    case True
    show ?thesis
    proof (cases "list_ex (\<lambda>y. ov y z) sel")
      case ex: True
      then obtain y where "y \<in> set sel" "ov y z" by (auto simp: list_ex_iff)
      with Cons.prems(3) True keep ex show ?thesis by auto
    next
      case False
      with True keep show ?thesis by auto
    qed
  next
    case False
    with Cons.prems have "x \<in> set zs" "sorted_wrt r zs" "\<forall>y\<in>set ?sel. \<forall>z\<in>set zs. r y z"
      by (auto split: if_splits)
    from Cons.IH [OF this] show ?thesis by simp
  qed
qed simp

lemma sorted_wrt_insort_key:
  assumes "symp r"
  shows "sorted_wrt r (insort_key f x ys) \<longleftrightarrow> (\<forall>y\<in>set ys. r x y) \<and> sorted_wrt r ys"
proof (induction ys)
  case (Cons y ys)
  from assms have "r x y \<longleftrightarrow> r y x" by (auto dest: sympD)
  with Cons show ?case by (auto simp: set_insort_key)
qed simp

lemma sorted_wrt_sort_key: "symp r \<Longrightarrow> sorted_wrt r (sort_key f xs) \<longleftrightarrow> sorted_wrt r xs"
  by (induction xs) (auto simp: sorted_wrt_insort_key)

subsection \<open>Overwriting from the back\<close>

fun replace_spans :: "('a \<Rightarrow> nat) \<Rightarrow> ('a \<Rightarrow> nat) \<Rightarrow> ('a \<Rightarrow> string) \<Rightarrow> 'a list \<Rightarrow> string \<Rightarrow> string option" where
  "replace_spans st en rep [] s = Some s"
| "replace_spans st en rep (x # xs) s =
     Option.bind (replace_range s (st x) (en x) (rep x)) (replace_spans st en rep xs)"

text \<open>The reference: one pass from position \<open>pos\<close> that copies the text between the spans.\<close>

fun splice :: "('a \<Rightarrow> nat) \<Rightarrow> ('a \<Rightarrow> nat) \<Rightarrow> ('a \<Rightarrow> string) \<Rightarrow> string \<Rightarrow> nat \<Rightarrow> 'a list \<Rightarrow> string" where
  "splice st en rep s pos [] = drop pos s"
| "splice st en rep s pos (x # xs) = take (st x - pos) (drop pos s) @ rep x @ splice st en rep s (en x) xs"

lemma replace_spans_append:
  "replace_spans st en rep (xs @ ys) s = Option.bind (replace_spans st en rep xs s) (replace_spans st en rep ys)"
  by (induction xs arbitrary: s) (auto split: bind_splits)

definition rep_ok :: "string \<Rightarrow> bool" where
  "rep_ok r \<longleftrightarrow> r \<noteq> [] \<and> \<not> is_cont (hd r)"

lemma splice_start:
  assumes "is_char_boundary s pos" and "\<forall>x\<in>set xs. rep_ok (rep x) \<and> pos \<le> st x \<and> st x \<le> length s"
  shows "splice st en rep s pos xs = [] \<or> \<not> is_cont (hd (splice st en rep s pos xs)) \<or> pos = 0"
proof (cases "xs = [] \<or> pos < st (hd xs)")
  case True
  have "drop pos s = [] \<or> pos = 0 \<or> \<not> is_cont (hd (drop pos s))"
    using assms(1) by (auto simp: is_char_boundary_def hd_drop_conv_nth)
  with True assms(2) show ?thesis
    by (cases xs) (auto simp: hd_append hd_take)
next
  case False
  with assms(2) show ?thesis by (cases xs) (auto simp: rep_ok_def)
qed

lemma replace_spans_splice:
  assumes "sorted_wrt (\<lambda>x y. en x \<le> st y) xs" and "\<forall>x\<in>set xs. rep_ok (rep x) \<and> pos \<le> st x \<and> st x < en x \<and> range_ok s (st x) (en x)"
  shows "replace_spans st en rep (rev xs) s = Some (take pos s @ splice st en rep s pos xs)"
  using assms
proof (induction xs arbitrary: pos)
  case (Cons x xs)
  let ?t = "splice st en rep s (en x) xs"
  have x: "pos \<le> st x" "st x < en x" "en x \<le> length s" "is_char_boundary s (st x)" "is_char_boundary s (en x)"
    using Cons.prems(2) by (auto simp: range_ok_def)
  have xs: "\<forall>y\<in>set xs. rep_ok (rep y) \<and> en x \<le> st y \<and> st y < en y \<and> range_ok s (st y) (en y)"
    using Cons.prems by auto
  have IH: "replace_spans st en rep (rev xs) s = Some (take (en x) s @ ?t)"
    using Cons.IH xs Cons.prems(1) by simp
  have "?t = [] \<or> \<not> is_cont (hd ?t)"
  proof -
    have "\<forall>y\<in>set xs. rep_ok (rep y) \<and> en x \<le> st y \<and> st y \<le> length s"
      using xs by (auto simp: range_ok_def intro: order_trans)
    from splice_start [OF x(5) this, of en] x(2) show ?thesis by simp
  qed
  then have "range_ok (take (en x) s @ ?t) (st x) (en x)"
    using x boundary_take [of s "st x" "en x" ?t] boundary_take [of s "en x" "en x" ?t]
    by (auto simp: range_ok_def)
  then have "replace_range (take (en x) s @ ?t) (st x) (en x) (rep x) = Some (take (st x) s @ rep x @ ?t)"
    using x by (simp add: replace_range_def min_def)
  moreover have "take (st x) s = take pos s @ take (st x - pos) (drop pos s)"
    using x(1) by (metis le_add_diff_inverse take_add)
  ultimately show ?case by (simp add: replace_spans_append IH)
qed simp

subsection \<open>The contract of a guard's span type\<close>

locale span_guard =
  fixes st en :: "'a \<Rightarrow> nat"
    and conf :: "'a \<Rightarrow> rat"
    and rep :: "'a \<Rightarrow> string"
    and overlap :: "'a \<Rightarrow> 'a \<Rightarrow> bool"
    and dedupe :: "'a list \<Rightarrow> 'a list"
  assumes overlap: "overlap x y \<longleftrightarrow> st x < en y \<and> st y < en x"
    and dedupe: "dedupe xs = sort_key st (select_spans overlap [] (sort_key (\<lambda>x. - conf x) xs))"
    and rep: "rep_ok (rep x)"
begin

lemma dedupe_subset: "set (dedupe xs) \<subseteq> set xs"
  using select_subset [of overlap "[]" "sort_key (\<lambda>x. - conf x) xs"] by (simp add: dedupe)

lemma dedupe_sorted: "sorted_wrt (\<lambda>x y. st x \<le> st y) (dedupe xs)"
  using sorted_sort_key [of st "select_spans overlap [] (sort_key (\<lambda>x. - conf x) xs)"]
  by (simp add: dedupe sorted_map)

lemma dedupe_disjoint: "sorted_wrt (\<lambda>x y. \<not> overlap x y) (dedupe xs)"
proof -
  have "symp (\<lambda>x y. \<not> overlap x y)" by (auto simp: symp_def overlap)
  then show ?thesis unfolding dedupe by (simp add: sorted_wrt_sort_key select_disjoint)
qed

lemma dedupe_maximal:
  assumes "x \<in> set xs"
  shows "x \<in> set (dedupe xs) \<or> (\<exists>y\<in>set (dedupe xs). overlap y x \<and> conf x \<le> conf y)"
proof -
  have "sorted_wrt (\<lambda>y x. conf x \<le> conf y) (sort_key (\<lambda>x. - conf x) xs)"
    using sorted_sort_key [of "\<lambda>x. - conf x" xs] by (simp add: sorted_map)
  from select_maximal [OF _ this, of x "[]" overlap] assms show ?thesis
    by (simp add: dedupe)
qed

text \<open>With non-empty spans the selected ones lie one after the other.\<close>

lemma dedupe_ordered:
  assumes "\<forall>x\<in>set xs. st x < en x"
  shows "sorted_wrt (\<lambda>x y. en x \<le> st y) (dedupe xs)"
proof -
  have ne: "x \<in> set (dedupe xs) \<Longrightarrow> st x < en x" for x using dedupe_subset assms by blast
  have "sorted_wrt (\<lambda>x y. st x \<le> st y \<and> \<not> overlap x y) (dedupe xs)"
    using dedupe_sorted dedupe_disjoint by (simp add: sorted_wrt_iff_nth_less)
  then show ?thesis
    by (rule sorted_wrt_mono_rel [rotated]) (use ne in \<open>force simp: overlap\<close>)
qed

lemma redact_splices:
  assumes "\<forall>x\<in>set xs. st x < en x \<and> range_ok s (st x) (en x)" and "ys = filter P (dedupe xs)"
  shows "replace_spans st en rep (rev ys) s = Some (splice st en rep s 0 ys)"
proof -
  have "sorted_wrt (\<lambda>x y. en x \<le> st y) ys"
    unfolding assms(2) by (rule sorted_wrt_filter) (use dedupe_ordered assms(1) in blast)
  moreover have "\<forall>x\<in>set ys. rep_ok (rep x) \<and> 0 \<le> st x \<and> st x < en x \<and> range_ok s (st x) (en x)"
    using assms dedupe_subset [of xs] rep by auto
  ultimately show ?thesis using replace_spans_splice [of en st ys rep 0 s] by simp
qed

lemma dedupe_Nil [simp]: "dedupe [] = []"
  by (simp add: dedupe)

end

text \<open>A descending stable sort of spans in order is their reversal.\<close>

lemma sort_key_rev:
  fixes f :: "'a \<Rightarrow> nat"
  assumes "sorted_wrt (\<lambda>x y. f x < f y) xs"
  shows "sort_key (\<lambda>x. - int (f x)) xs = rev xs"
proof -
  have ins: "\<forall>y\<in>set ys. g y < g x \<Longrightarrow> insort_key g x ys = ys @ [x]" for g :: "'a \<Rightarrow> int" and x ys
    by (induction ys) auto
  show ?thesis using assms by (induction xs) (auto simp: ins)
qed


subsection \<open>Redaction of a JSON value\<close>

text \<open>Both guards rewrite every string of a value in place and collect what they found, with the path to it.
  Here \<open>f\<close> is the guard's treatment of one text.\<close>

type_synonym text_redactor = "string \<Rightarrow> string \<Rightarrow> (string \<times> redaction_finding list) option"

fun redact_tree :: "text_redactor \<Rightarrow> string \<Rightarrow> json \<Rightarrow> (json \<times> redaction_finding list) option"
  and redact_items :: "text_redactor \<Rightarrow> string \<Rightarrow> nat \<Rightarrow> json list \<Rightarrow> (json list \<times> redaction_finding list) option"
  and redact_fields :: "text_redactor \<Rightarrow> string \<Rightarrow> (string \<times> json) list \<Rightarrow> ((string \<times> json) list \<times> redaction_finding list) option"
where
  "redact_tree f path (JStr text) = map_option (\<lambda>(t, fs). (JStr t, fs)) (f text path)"
| "redact_tree f path (JArr xs) = map_option (\<lambda>(ys, fs). (JArr ys, fs)) (redact_items f path 0 xs)"
| "redact_tree f path (JObj m) = map_option (\<lambda>(m', fs). (JObj m', fs)) (redact_fields f path m)"
| "redact_tree f path v = Some (v, [])"
| "redact_items f path i [] = Some ([], [])"
| "redact_items f path i (x # xs) =
     Option.bind (redact_tree f (path @ ''['' @ show_nat i @ '']'') x) (\<lambda>(y, fs).
     map_option (\<lambda>(ys, gs). (y # ys, fs @ gs)) (redact_items f path (i + 1) xs))"
| "redact_fields f path [] = Some ([], [])"
| "redact_fields f path ((k, v) # m) =
     Option.bind (redact_tree f (path @ ''.'' @ k) v) (\<lambda>(w, fs).
     map_option (\<lambda>(m', gs). ((k, w) # m', fs @ gs)) (redact_fields f path m))"

text \<open>Two values of the same shape differ in their strings only.\<close>

fun same_shape :: "json \<Rightarrow> json \<Rightarrow> bool" where
  "same_shape (JStr s) (JStr t) = True"
| "same_shape (JArr xs) (JArr ys) = list_all2 same_shape xs ys"
| "same_shape (JObj m) (JObj m') = list_all2 (rel_prod (=) same_shape) m m'"
| "same_shape v w = (v = w)"

lemma redact_shape:
  "redact_tree f path v = Some (w, fs) \<Longrightarrow> same_shape v w"
  "redact_items f path i xs = Some (ys, fs) \<Longrightarrow> list_all2 same_shape xs ys"
  "redact_fields f path m = Some (m', fs) \<Longrightarrow> list_all2 (rel_prod (=) same_shape) m m'"
  by (induction f path v and f path i xs and f path m arbitrary: w fs and ys fs and m' fs
      rule: redact_tree_redact_items_redact_fields.induct)
     (auto split: bind_splits simp: Option.bind_eq_Some_conv)

lemma redact_total:
  "\<forall>t p. f t p \<noteq> None \<Longrightarrow> redact_tree f path v \<noteq> None"
  "\<forall>t p. f t p \<noteq> None \<Longrightarrow> redact_items f path i xs \<noteq> None"
  "\<forall>t p. f t p \<noteq> None \<Longrightarrow> redact_fields f path m \<noteq> None"
  by (induction f path v and f path i xs and f path m
      rule: redact_tree_redact_items_redact_fields.induct)
     (auto simp: Option.bind_eq_None_conv split: prod.splits)

text \<open>No finding, no change.\<close>

definition silent_id :: "text_redactor \<Rightarrow> bool" where
  "silent_id f \<longleftrightarrow> (\<forall>t p t'. f t p = Some (t', []) \<longrightarrow> t' = t)"

lemma redact_unchanged:
  "silent_id f \<Longrightarrow> redact_tree f path v = Some (w, []) \<Longrightarrow> w = v"
  "silent_id f \<Longrightarrow> redact_items f path i xs = Some (ys, []) \<Longrightarrow> ys = xs"
  "silent_id f \<Longrightarrow> redact_fields f path m = Some (m', []) \<Longrightarrow> m' = m"
  by (induction f path v and f path i xs and f path m arbitrary: w and ys and m'
      rule: redact_tree_redact_items_redact_fields.induct)
     (auto simp: Option.bind_eq_Some_conv silent_id_def)

end
