(* ===== verification/Guard_Normalize.thy ===== *)
theory Guard_Normalize
  imports Guard_Spans
begin

text \<open>
  \<^verbatim>\<open>src/crates/dek-guard-pipeline/src/normalize.rs\<close>: the text a scan matches against: zero-width
  characters removed, NFKC, confusable letters folded, HTML entities and percent escapes decoded, and the
  decodings of base64 tokens appended. The Unicode tables behind \<^verbatim>\<open>to_lowercase\<close> and NFKC and the base64
  engines are parameters.
\<close>

record text_env =
  te_to_lowercase :: "string \<Rightarrow> string"
  te_nfkc :: "string \<Rightarrow> string"
  te_b64_standard :: "string \<Rightarrow> string option"
  te_b64_url_safe :: "string \<Rightarrow> string option"
  te_b64_url_safe_no_pad :: "string \<Rightarrow> string option"

record normalized_text =
  nt_text :: string
  nt_steps :: "string list"

subsection \<open>Characters\<close>

text \<open>\<^verbatim>\<open>char::is_whitespace\<close> and \<^verbatim>\<open>char::is_control\<close>, on the UTF-8 bytes of a character.\<close>

definition char_is_whitespace :: "string \<Rightarrow> bool" where
  "char_is_whitespace c \<longleftrightarrow>
     (case map of_char c of
        [a] \<Rightarrow> a \<in> {9, 10, 11, 12, 13, 32::nat}
      | [a, b] \<Rightarrow> a = 194 \<and> b \<in> {133, 160}
      | [a, b, d] \<Rightarrow> (a, b, d) \<in> {(225, 154, 128), (226, 129, 159), (227, 128, 128), (226, 128, 168), (226, 128, 169), (226, 128, 175)}
          \<or> a = 226 \<and> b = 128 \<and> 128 \<le> d \<and> d \<le> 138
      | _ \<Rightarrow> False)"

text \<open>\<^verbatim>\<open>str::trim\<close>.\<close>

definition str_trim :: "string \<Rightarrow> string" where
  "str_trim s = concat (trim_matches char_is_whitespace (utf8_chars s))"

definition char_is_control :: "string \<Rightarrow> bool" where
  "char_is_control c \<longleftrightarrow>
     (case map of_char c of
        [a] \<Rightarrow> a < (32::nat) \<or> a = 127
      | [a, b] \<Rightarrow> a = 194 \<and> 128 \<le> b \<and> b < 160
      | _ \<Rightarrow> False)"

definition is_ascii_alphanumeric :: "string \<Rightarrow> bool" where
  "is_ascii_alphanumeric c \<longleftrightarrow>
     (case map of_char c of
        [a] \<Rightarrow> 48 \<le> a \<and> a \<le> 57 \<or> 65 \<le> a \<and> a \<le> 90 \<or> 97 \<le> a \<and> a \<le> (122::nat)
      | _ \<Rightarrow> False)"

definition zero_width_chars :: "string list" where
  "zero_width_chars = map bytes [[226, 128, 139], [226, 128, 140], [226, 128, 141], [226, 129, 160], [239, 187, 191]]"

definition strip_zero_width :: "string \<Rightarrow> string" where
  "strip_zero_width s = concat (filter (\<lambda>c. c \<notin> set zero_width_chars) (utf8_chars s))"

definition confusables :: "(char \<times> nat list list) list" where
  "confusables =
  [(CHR ''a'', [[239, 188, 161], [206, 145], [208, 144], [208, 176], [201, 145], [225, 142, 170]]),
   (CHR ''b'', [[239, 188, 162], [206, 146], [208, 146], [208, 172]]),
   (CHR ''c'', [[239, 188, 163], [207, 185], [208, 161], [209, 129]]),
   (CHR ''d'', [[239, 188, 164], [212, 129]]),
   (CHR ''e'', [[239, 188, 165], [206, 149], [208, 149], [208, 181]]),
   (CHR ''g'', [[239, 188, 167], [201, 161]]),
   (CHR ''h'', [[239, 188, 168], [206, 151], [208, 157]]),
   (CHR ''i'', [[239, 188, 169], [206, 153], [208, 134], [209, 150], [196, 177]]),
   (CHR ''k'', [[239, 188, 171], [206, 154], [208, 154]]),
   (CHR ''l'', [[239, 188, 172], [226, 132, 147]]),
   (CHR ''m'', [[239, 188, 173], [206, 156], [208, 156]]),
   (CHR ''n'', [[239, 188, 174], [206, 157]]),
   (CHR ''o'', [[239, 188, 175], [206, 159], [208, 158], [208, 190], [206, 191]]),
   (CHR ''p'', [[239, 188, 176], [206, 161], [208, 160], [209, 128]]),
   (CHR ''s'', [[239, 188, 179], [208, 133], [209, 149]]),
   (CHR ''t'', [[239, 188, 180], [206, 164], [208, 162]]),
   (CHR ''x'', [[239, 188, 184], [206, 167], [208, 165], [209, 133]]),
   (CHR ''y'', [[239, 188, 185], [206, 165], [208, 163], [209, 131]])]"

definition fold_char :: "string \<Rightarrow> string" where
  "fold_char c = (case find (\<lambda>(_, cs). c \<in> set (map bytes cs)) confusables of Some (l, _) \<Rightarrow> [l] | None \<Rightarrow> c)"

definition fold_confusables :: "string \<Rightarrow> string" where
  "fold_confusables s = concat (map fold_char (utf8_chars s))"

subsection \<open>Decoding\<close>

definition decode_common_entities :: "string \<Rightarrow> string" where
  "decode_common_entities s =
     fold (\<lambda>(p, r). str_replace_all p r)
       [(''&lt;'', ''<''), (''&gt;'', ''>''), (''&amp;'', ''&''), (''&quot;'', [CHR 0x22]), (''&#x27;'', [CHR 0x27]),
        (''&#x2f;'', ''/''), (''&#x3c;'', ''<''), (''&#x3e;'', ''>''), (''&#39;'', [CHR 0x27]), (''&#47;'', ''/''),
        (''&#60;'', ''<''), (''&#62;'', ''>'')] s"

definition from_hex :: "char \<Rightarrow> nat option" where
  "from_hex b =
     (let n = of_char b in
      if 48 \<le> n \<and> n \<le> 57 then Some (n - 48)
      else if 97 \<le> n \<and> n \<le> 102 then Some (n - 97 + 10)
      else if 65 \<le> n \<and> n \<le> 70 then Some (n - 65 + 10)
      else None)"

fun percent_loop :: "string \<Rightarrow> string" where
  "percent_loop (a # h # l # s) =
     (case (if a = CHR 0x25 then (from_hex h, from_hex l) else (None, None)) of
        (Some x, Some y) \<Rightarrow> char_of (x * 16 + y) # percent_loop s
      | _ \<Rightarrow> a # percent_loop (h # l # s))"
| "percent_loop s = s"

definition percent_decode_ascii :: "string \<Rightarrow> string" where
  "percent_decode_ascii text = (case from_utf8 (percent_loop text) of Some d \<Rightarrow> d | None \<Rightarrow> text)"

definition printable :: "string \<Rightarrow> bool" where
  "printable text \<longleftrightarrow>
     (let cs = utf8_chars text;
          n = length (filter (\<lambda>c. \<not> char_is_control c \<or> char_is_whitespace c) cs)
      in (of_nat n / of_nat (max (length cs) 1) :: rat) > 9 / 10)"

definition decode_base64_text :: "text_env \<Rightarrow> string \<Rightarrow> string option" where
  "decode_base64_text env token =
     (case or_else (te_b64_standard env token) (or_else (te_b64_url_safe env token) (te_b64_url_safe_no_pad env token)) of
        None \<Rightarrow> None
      | Some decoded \<Rightarrow>
          if length decoded > 512 then None
          else case from_utf8 decoded of
                 None \<Rightarrow> None
               | Some text \<Rightarrow> if printable text then Some text else None)"

definition token_separator :: "string \<Rightarrow> bool" where
  "token_separator c \<longleftrightarrow> char_is_whitespace c \<or> c \<in> {[CHR 0x22], [CHR 0x27], '','', '';'', ''('', '')''}"

definition candidate_token :: "string list \<Rightarrow> bool" where
  "candidate_token cs \<longleftrightarrow>
     \<not> (length (concat cs) < 16 \<or> length (concat cs) > 512) \<and>
     list_all (\<lambda>c. is_ascii_alphanumeric c \<or> c \<in> {''+'', ''/'', ''-'', ''_'', ''=''}) cs"

definition decode_base64_candidates :: "text_env \<Rightarrow> string \<Rightarrow> string list" where
  "decode_base64_candidates env text =
     foldl (\<lambda>decoded token.
         let trimmed = trim_matches (\<lambda>c. c \<in> {''.'', '':'', ''['', '']'', ''{'', ''}''}) token
         in if \<not> candidate_token trimmed then decoded
            else case decode_base64_text env (concat trimmed) of
                   None \<Rightarrow> decoded
                 | Some t \<Rightarrow> push_unique (te_to_lowercase env t) decoded)
       [] (split_by token_separator (utf8_chars text))"

subsection \<open>Normalisation\<close>

definition normalize_plain :: "text_env \<Rightarrow> string \<Rightarrow> string list \<Rightarrow> string \<times> string list" where
  "normalize_plain env text steps =
     (let folded = te_to_lowercase env (fold_confusables text);
          (c1, steps) = (if folded \<noteq> text then (folded, push_unique ''casefold_confusables'' steps) else (text, steps));
          d = decode_common_entities c1;
          (c2, steps) = (if d \<noteq> c1 then (d, push_unique ''decode_html_entities'' steps) else (c1, steps));
          p = percent_decode_ascii c2
      in if p \<noteq> c2 then (p, push_unique ''percent_decode'' steps) else (c2, steps))"

definition append_decoded :: "text_env \<Rightarrow> string \<Rightarrow> string \<times> string list \<Rightarrow> string \<times> string list" where
  "append_decoded env decoded acc =
     (let (n, decoded_steps) = normalize_plain env decoded []
      in (fst acc @ '' '' @ n, fold push_unique decoded_steps (snd acc)))"

definition normalize_for_match :: "text_env \<Rightarrow> string \<Rightarrow> normalized_text" where
  "normalize_for_match env text =
     (let c0 = strip_zero_width text;
          steps0 = (if c0 \<noteq> text then [''strip_zero_width''] else []);
          n = te_nfkc env c0;
          (c1, steps1) = (if n \<noteq> c0 then (n, steps0 @ [''unicode_nfkc'']) else (c0, steps0));
          decoded = decode_base64_candidates env c1;
          steps2 = (if decoded \<noteq> [] then steps1 @ [''decode_base64_candidates''] else steps1);
          (t, steps) = fold (append_decoded env) decoded (normalize_plain env c1 steps2)
      in \<lparr>nt_text = t, nt_steps = steps\<rparr>)"


subsection \<open>Lemmas\<close>

definition match_text :: "text_env \<Rightarrow> string \<Rightarrow> string" where
  "match_text env c =
     fst (fold (append_decoded env) (decode_base64_candidates env (te_nfkc env c)) (normalize_plain env (te_nfkc env c) []))"

lemma fst_normalize_plain: "fst (normalize_plain env c xs) = fst (normalize_plain env c ys)"
  by (simp add: normalize_plain_def Let_def split_def)

lemma fst_append_decoded: "fst (append_decoded env d p) = fst p @ '' '' @ fst (normalize_plain env d [])"
  by (simp add: append_decoded_def split_def Let_def)

lemma fst_append_all: "fst p = fst q \<Longrightarrow> fst (fold (append_decoded env) ds p) = fst (fold (append_decoded env) ds q)"
  by (induction ds arbitrary: p q) (auto simp: fst_append_decoded)

lemma nt_text_match: "nt_text (normalize_for_match env a) = match_text env (strip_zero_width a)"
proof -
  have "fst (fold (append_decoded env) ds (normalize_plain env c xs)) =
      fst (fold (append_decoded env) ds (normalize_plain env c []))" for ds c xs
    by (intro fst_append_all fst_normalize_plain)
  then show ?thesis
    using fst_normalize_plain [of env]
    by (auto simp: normalize_for_match_def match_text_def Let_def split_def)
qed

text \<open>Zero-width characters put anywhere between the characters of a text do not change what is matched.\<close>

lemma strip_zero_width_inserted:
  assumes "list_all utf8_group cs" "list_all utf8_group ds"
    and "filter (\<lambda>c. c \<notin> set zero_width_chars) cs = filter (\<lambda>c. c \<notin> set zero_width_chars) ds"
  shows "strip_zero_width (concat cs) = strip_zero_width (concat ds)"
  using assms by (simp add: strip_zero_width_def utf8_chars_concat)

definition hex_digit :: "nat \<Rightarrow> char" where
  "hex_digit n = (if n < 10 then char_of (48 + n) else char_of (97 + (n - 10)))"

definition percent_encode :: "string \<Rightarrow> string" where
  "percent_encode s = concat (map (\<lambda>c. let n = of_char c in [CHR 0x25, hex_digit (n div 16), hex_digit (n mod 16)]) s)"

lemma from_hex_digit: "n < 16 \<Longrightarrow> from_hex (hex_digit n) = Some n"
  by (auto simp: from_hex_def hex_digit_def Let_def)

lemma percent_loop_encode: "percent_loop (percent_encode s) = s"
proof (induction s)
  case (Cons c s)
  have "(of_char c :: nat) < 256" by simp
  then have "(of_char c :: nat) div 16 < 16" by (simp add: less_mult_imp_div_less)
  then have "from_hex (hex_digit (of_char c div 16)) = Some (of_char c div 16)"
      "from_hex (hex_digit (of_char c mod 16)) = Some (of_char c mod 16)"
    by (simp_all add: from_hex_digit)
  with Cons show ?case by (simp add: percent_encode_def Let_def)
qed (simp add: percent_encode_def)

lemma percent_roundtrip: "from_utf8 s = Some t \<Longrightarrow> percent_decode_ascii (percent_encode s) = t"
  by (simp add: percent_decode_ascii_def percent_loop_encode from_utf8_def split: if_splits)

end
