(* ===== verification/Guard_Output.thy ===== *)
theory Guard_Output
  imports Guard_Injection
begin

text \<open>
  \<^verbatim>\<open>output_guard.rs\<close> and \<^verbatim>\<open>spotlight.rs\<close> of \<^verbatim>\<open>src/crates/dek-guard-pipeline/src\<close>: secrets and risky
  markup in what a tool returns, leaks of the prompt or of a canary, and the delimiters put around data
  that declares itself untrusted. A panic of the rewriting is \<open>None\<close>.
\<close>

subsection \<open>Findings\<close>

record output_finding =
  of_kind :: string
  of_start :: nat
  of_end :: nat
  of_confidence :: rat

record output_guard_report =
  og_secrets :: "output_finding list"
  og_risky_markup :: "output_finding list"
  og_prompt_leak :: bool
  og_canary_leak :: bool

definition secret_patterns :: "(string \<times> regex_id) list" where
  "secret_patterns =
     [(''OPENAI_KEY'', RE_OPENAI_KEY), (''AWS_AKID'', RE_AWS_AKID), (''SLACK_BOT'', RE_SLACK_BOT),
      (''GH_PAT'', RE_GH_PAT), (''JWT'', RE_JWT), (''PRIVATE_KEY'', RE_PRIVATE_KEY)]"

definition risky_markup_patterns :: "(string \<times> regex_id) list" where
  "risky_markup_patterns =
     [(''SCRIPT_TAG'', RE_SCRIPT), (''JAVASCRIPT_URL'', RE_JAVASCRIPT_URL), (''EVENT_HANDLER'', RE_EVENT_HANDLER),
      (''DATA_HTML'', RE_DATA_HTML), (''EMBED_OBJECT'', RE_EMBED_OBJECT), (''MARKDOWN_JAVASCRIPT'', RE_MARKDOWN_JS)]"

definition prompt_leak_needles :: "string list" where
  "prompt_leak_needles =
     [''you are pollek'', ''system prompt'', ''developer message'', ''hidden instructions'', ''internal policy'',
      ''my instructions are'', ''<<untrusted_data'']"

definition out_ranges_overlap :: "output_finding \<Rightarrow> output_finding \<Rightarrow> bool" where
  "out_ranges_overlap l r \<longleftrightarrow> of_start l < of_end r \<and> of_start r < of_end l"

definition out_dedupe_overlaps :: "output_finding list \<Rightarrow> output_finding list" where
  "out_dedupe_overlaps fs =
     sort_key of_start (select_spans out_ranges_overlap [] (sort_key (\<lambda>f. - of_confidence f) fs))"

definition pattern_findings :: "regexes \<Rightarrow> string \<Rightarrow> rat \<Rightarrow> (string \<times> regex_id) list \<Rightarrow> string \<Rightarrow> output_finding list" where
  "pattern_findings rx pre c patterns text =
     concat (map (\<lambda>(kind, r). case rx r of
         None \<Rightarrow> []
       | Some find_iter \<Rightarrow>
           map (\<lambda>(a, b). \<lparr>of_kind = pre @ kind, of_start = a, of_end = b, of_confidence = c\<rparr>) (find_iter text)) patterns)"

definition shannon_entropy :: "string \<Rightarrow> real" where
  "shannon_entropy value =
     (let cs = utf8_chars value
      in if cs = [] then 0
         else - sum_list (map (\<lambda>c. let p = real (count_list cs c) / real (length cs) in p * log 2 p) (remdups cs)))"

definition generic_secrets :: "regexes \<Rightarrow> string \<Rightarrow> output_finding list" where
  "generic_secrets rx text =
     (case rx RE_GENERIC_KV of
        None \<Rightarrow> []
      | Some captures \<Rightarrow>
          map (\<lambda>(a, b). \<lparr>of_kind = ''SECRET_GENERIC_KV'', of_start = a, of_end = b, of_confidence = 85 / 100\<rparr>)
            (filter (\<lambda>(a, b). \<not> shannon_entropy (take (b - a) (drop a text)) < 3) (captures text)))"

definition detect_secrets :: "regexes \<Rightarrow> string \<Rightarrow> output_finding list" where
  "detect_secrets rx text =
     out_dedupe_overlaps (pattern_findings rx ''SECRET_'' (99 / 100) secret_patterns text @ generic_secrets rx text)"

definition detect_risky_markup :: "regexes \<Rightarrow> string \<Rightarrow> output_finding list" where
  "detect_risky_markup rx text =
     out_dedupe_overlaps (pattern_findings rx ''RISKY_MARKUP_'' (90 / 100) risky_markup_patterns text)"

definition detect_prompt_leak :: "string \<Rightarrow> bool" where
  "detect_prompt_leak output_lower \<longleftrightarrow> list_ex (str_contains output_lower) prompt_leak_needles"

definition scan_output :: "regexes \<Rightarrow> string \<Rightarrow> string option \<Rightarrow> output_guard_report" where
  "scan_output rx text canary =
     \<lparr>og_secrets = detect_secrets rx text, og_risky_markup = detect_risky_markup rx text,
      og_prompt_leak = detect_prompt_leak (to_ascii_lowercase text),
      og_canary_leak = (case canary of Some token \<Rightarrow> token \<noteq> [] \<and> str_contains text token | None \<Rightarrow> False)\<rparr>"

subsection \<open>Redaction\<close>

definition out_replacement :: "output_finding \<Rightarrow> string" where
  "out_replacement f = ''[REDACTED_'' @ of_kind f @ '']''"

definition out_redaction :: "string \<Rightarrow> output_finding \<Rightarrow> redaction_finding" where
  "out_redaction path f =
     \<lparr>rf_kind = of_kind f, rf_confidence = of_confidence f, rf_path = path @ '':offset:'' @ show_nat (of_start f),
      rf_replacement = out_replacement f\<rparr>"

definition text_findings :: "regexes \<Rightarrow> string \<Rightarrow> output_finding list" where
  "text_findings rx text = out_dedupe_overlaps (detect_secrets rx text @ detect_risky_markup rx text)"

definition out_redact_text :: "regexes \<Rightarrow> text_redactor" where
  "out_redact_text rx text path =
     (let findings = rev (text_findings rx text)
      in map_option (\<lambda>t. (t, map (out_redaction path) findings))
           (replace_spans of_start of_end out_replacement findings text))"

definition out_redact_value :: "regexes \<Rightarrow> json \<Rightarrow> (json \<times> redaction_finding list) option" where
  "out_redact_value rx v = redact_tree (out_redact_text rx) ''$'' v"

subsection \<open>Spotlighting\<close>

definition untrusted_data_begin :: string where
  "untrusted_data_begin = ''<<UNTRUSTED_DATA_BEGIN>>''"

definition untrusted_data_end :: string where
  "untrusted_data_end = ''<<UNTRUSTED_DATA_END>>''"

definition default_spotlight_marker :: string where
  "default_spotlight_marker = bytes [226, 129, 163]"

definition spotlight_untrusted :: "string \<Rightarrow> string \<Rightarrow> string" where
  "spotlight_untrusted content marker =
     (if str_contains content untrusted_data_begin \<and> str_contains content untrusted_data_end then content
      else untrusted_data_begin @ [CHR 0x0A] @
           str_replace_all [CHR 0x0A] (marker @ [CHR 0x0A]) (str_replace_all '' '' (marker @ '' '') content) @
           [CHR 0x0A] @ untrusted_data_end)"

definition str_trim :: "string \<Rightarrow> string" where
  "str_trim s = concat (trim_matches char_is_whitespace (utf8_chars s))"

definition value_is_untrusted :: "json option \<Rightarrow> bool" where
  "value_is_untrusted v \<longleftrightarrow>
     (case v of
        Some (JStr text) \<Rightarrow>
          to_ascii_lowercase (str_trim text) \<in>
            {''tool'', ''rag'', ''retrieval'', ''browser'', ''web'', ''document'', ''external'', ''untrusted''}
      | _ \<Rightarrow> False)"

definition object_declares_untrusted :: "(string \<times> json) list \<Rightarrow> bool" where
  "object_declares_untrusted m \<longleftrightarrow>
     map_of m ''trusted'' = Some (JBool False) \<or> value_is_untrusted (map_of m ''source_type'') \<or>
     value_is_untrusted (map_of m ''source'') \<or> value_is_untrusted (map_of m ''origin'') \<or>
     value_is_untrusted (map_of m ''role'') \<or> value_is_untrusted (map_of m ''trust'')"

fun is_untrusted_payload :: "json \<Rightarrow> bool" where
  "is_untrusted_payload (JObj m) = (object_declares_untrusted m \<or> list_ex (\<lambda>kv. is_untrusted_payload (snd kv)) m)"
| "is_untrusted_payload (JArr xs) = list_ex is_untrusted_payload xs"
| "is_untrusted_payload _ = False"

definition is_metadata_key :: "string \<Rightarrow> bool" where
  "is_metadata_key k \<longleftrightarrow>
     k \<in> {''id'', ''kind'', ''origin'', ''role'', ''source'', ''source_type'', ''trust'', ''trusted'', ''type''}"

fun spotlight_value :: "string \<Rightarrow> string option \<Rightarrow> json \<Rightarrow> json" where
  "spotlight_value marker key (JStr text) =
     (if (case key of Some k \<Rightarrow> is_metadata_key k | None \<Rightarrow> False) then JStr text
      else JStr (spotlight_untrusted text marker))"
| "spotlight_value marker key (JArr xs) = JArr (map (spotlight_value marker None) xs)"
| "spotlight_value marker key (JObj m) = JObj (map (\<lambda>(k, v). (k, spotlight_value marker (Some k) v)) m)"
| "spotlight_value marker key v = v"

definition spotlight_payload :: "json \<Rightarrow> string \<Rightarrow> json" where
  "spotlight_payload v marker = spotlight_value marker None v"


subsection \<open>Lemmas\<close>

interpretation out_spans: span_guard of_start of_end of_confidence out_replacement out_ranges_overlap out_dedupe_overlaps
  by unfold_locales
     (auto simp: out_ranges_overlap_def out_dedupe_overlaps_def out_replacement_def rep_ok_def is_cont_def)

text \<open>What the regular expression library promises: a match is a range of the text on character boundaries;
  and none of the expressions matches the empty text.\<close>

definition regexes_sound :: "regexes \<Rightarrow> bool" where
  "regexes_sound rx \<longleftrightarrow>
     (\<forall>r find_iter text a b. rx r = Some find_iter \<longrightarrow> (a, b) \<in> set (find_iter text) \<longrightarrow> a < b \<and> range_ok text a b)"

lemma no_regexes_sound: "regexes_sound no_regexes"
  by (simp add: regexes_sound_def no_regexes_def)

lemma regexes_soundD:
  "regexes_sound rx \<Longrightarrow> Some find_iter = rx r \<Longrightarrow> (a, b) \<in> set (find_iter text) \<Longrightarrow> a < b \<and> range_ok text a b"
  unfolding regexes_sound_def by (metis (no_types))

lemma pattern_findings_ok:
  "regexes_sound rx \<Longrightarrow> f \<in> set (pattern_findings rx pre c ps text) \<Longrightarrow>
   of_start f < of_end f \<and> range_ok text (of_start f) (of_end f)"
  by (auto simp: pattern_findings_def dest: regexes_soundD split: option.splits)

lemma generic_secrets_ok:
  "regexes_sound rx \<Longrightarrow> f \<in> set (generic_secrets rx text) \<Longrightarrow>
   of_start f < of_end f \<and> range_ok text (of_start f) (of_end f)"
  by (auto simp: generic_secrets_def dest: regexes_soundD split: option.splits)

lemma detected_ok:
  assumes "regexes_sound rx"
  shows "\<forall>f\<in>set (detect_secrets rx text @ detect_risky_markup rx text).
    of_start f < of_end f \<and> range_ok text (of_start f) (of_end f)"
proof -
  have "f \<in> set (detect_secrets rx text) \<Longrightarrow> f \<in> set (pattern_findings rx ''SECRET_'' (99 / 100) secret_patterns text)
      \<or> f \<in> set (generic_secrets rx text)" for f
    using out_spans.dedupe_subset unfolding detect_secrets_def by fastforce
  moreover have "f \<in> set (detect_risky_markup rx text) \<Longrightarrow>
      f \<in> set (pattern_findings rx ''RISKY_MARKUP_'' (90 / 100) risky_markup_patterns text)" for f
    using out_spans.dedupe_subset unfolding detect_risky_markup_def by fastforce
  ultimately show ?thesis
    using assms pattern_findings_ok generic_secrets_ok by (metis Un_iff set_append)
qed

lemma out_redact_text_splices:
  assumes "regexes_sound rx"
  shows "out_redact_text rx text path =
    Some (splice of_start of_end out_replacement text 0 (text_findings rx text),
          map (out_redaction path) (rev (text_findings rx text)))"
proof -
  have "filter (\<lambda>_. True) (text_findings rx text) = text_findings rx text" by simp
  from out_spans.redact_splices [OF detected_ok [OF assms], of "text_findings rx text" "\<lambda>_. True"] this
  show ?thesis by (simp add: out_redact_text_def text_findings_def Let_def)
qed

lemma out_silent_id: "silent_id (out_redact_text rx)"
  by (auto simp: silent_id_def out_redact_text_def Let_def)

lemma contains_append: "str_contains (a @ p @ b) p"
  by (auto simp: str_contains_sublist sublist_def)

text \<open>Marking is idempotent.\<close>

lemma spotlight_idempotent:
  "spotlight_untrusted (spotlight_untrusted c m) m = spotlight_untrusted c m"
proof (cases "str_contains c untrusted_data_begin \<and> str_contains c untrusted_data_end")
  case False
  let ?mid = "[CHR 0x0A] @ str_replace_all [CHR 0x0A] (m @ [CHR 0x0A]) (str_replace_all '' '' (m @ '' '') c) @ [CHR 0x0A]"
  have s: "spotlight_untrusted c m = untrusted_data_begin @ ?mid @ untrusted_data_end"
    using False by (auto simp: spotlight_untrusted_def)
  have "str_contains (spotlight_untrusted c m) untrusted_data_begin" "str_contains (spotlight_untrusted c m) untrusted_data_end"
    unfolding s using contains_append [of "[]" untrusted_data_begin "?mid @ untrusted_data_end"]
      contains_append [of "untrusted_data_begin @ ?mid" untrusted_data_end "[]"] by simp_all
  then show ?thesis by (simp add: spotlight_untrusted_def [of "spotlight_untrusted c m"])
qed (simp add: spotlight_untrusted_def)

end
