(* ===== verification/Agent_Activity.thy ===== *)
theory Agent_Activity
  imports Agent_Correlation Guard_Output
begin

text \<open>
  Identity of a browser session (\<^verbatim>\<open>browser_scope.rs\<close>), the usage of an observed call (\<^verbatim>\<open>egress_parser.rs\<close>) and the activity sets
  (\<^verbatim>\<open>activity.rs\<close>) of \<^verbatim>\<open>src/crates/dek-agent-observer/src\<close>. Parameters: parsing of JSON text, Unicode lower case, SHA-256 in hexadecimal,
  the baseline of cloud signatures, random identifiers, and the RFC 3339 parser of \<^verbatim>\<open>chrono\<close>, which gives the nanoseconds of an instant.
\<close>

subsection \<open>Browser sessions\<close>

record scope_env =
  sv_parse :: "string \<Rightarrow> json option"
  sv_lower :: "string \<Rightarrow> string"
  sv_sha256_hex :: "string \<Rightarrow> string"

fun first_str :: "json \<Rightarrow> string list \<Rightarrow> string option" where
  "first_str payload [] = None"
| "first_str payload (k # ks) = or_else (Option.bind (json_get payload k) as_str) (first_str payload ks)"

definition find_string :: "json \<Rightarrow> string list \<Rightarrow> string option" where
  "find_string payload ks = (case first_str payload ks of Some v \<Rightarrow> if str_trim v = [] then None else Some v | None \<Rightarrow> None)"

definition browser_scope_from_payload :: "json \<Rightarrow> json" where
  "browser_scope_from_payload payload =
     (case or_else (json_get payload ''browser_scope'') (json_get payload ''web_ai'') of Some s \<Rightarrow> s | None \<Rightarrow> payload)"

definition candidate_keys :: "string list" where
  "candidate_keys = [''candidate_id'', ''discovery_candidate_id'']"

definition name_keys :: "string list" where
  "name_keys = [''base_name'', ''display_name'', ''name'', ''provider_name'']"

definition candidate_id_from_payload :: "json \<Rightarrow> string option" where
  "candidate_id_from_payload payload = or_else (find_string (browser_scope_from_payload payload) candidate_keys) (find_string payload candidate_keys)"

definition browser_name_from_id :: "string \<Rightarrow> string" where
  "browser_name_from_id i =
     (let s = to_ascii_lowercase i in
      if s = ''chrome'' then ''Chrome'' else if s = ''edge'' \<or> s = ''msedge'' then ''Edge'' else if s = ''brave'' then ''Brave''
      else if s = ''opera'' then ''Opera'' else if s = ''vivaldi'' then ''Vivaldi'' else if s = ''chromium'' then ''Chromium''
      else if s = ''arc'' then ''Arc'' else if s = ''firefox'' then ''Firefox'' else if s = ''safari'' then ''Safari'' else ''Browser'')"

definition strip_suffix_or :: "string \<Rightarrow> string \<Rightarrow> string" where
  "strip_suffix_or s suf = (if ends_with s suf then take (length s - length suf) s else s)"

definition browser_scoped_name :: "string \<Rightarrow> string \<Rightarrow> string" where
  "browser_scoped_name base_name browser_name =
     (let trimmed = str_trim base_name; suf = '' ('' @ browser_name @ '')'' in
      if ends_with trimmed suf then trimmed else str_trim (strip_suffix_or trimmed '' (Web)'') @ suf)"

definition scoped_display_name_from_payload :: "json \<Rightarrow> string option" where
  "scoped_display_name_from_payload payload =
     (let scope = browser_scope_from_payload payload in
      Option.bind
        (or_else (or_else (find_string scope [''browser_name'']) (find_string payload [''browser_name'']))
           (map_option browser_name_from_id (or_else (find_string scope [''browser_id'']) (find_string payload [''browser_id'']))))
        (\<lambda>browser. map_option (\<lambda>base. browser_scoped_name base browser) (or_else (find_string scope name_keys) (find_string payload name_keys))))"

definition candidate_id_for_display_name :: "scope_env \<Rightarrow> string \<Rightarrow> string \<Rightarrow> string" where
  "candidate_id_for_display_name env tenant display_name =
     ''cand_'' @ take 16 (sv_sha256_hex env (tenant @ '':'' @ take 24 (sv_sha256_hex env (''name:'' @ sv_lower env display_name))))"

definition opt_str_value :: "string option \<Rightarrow> json" where
  "opt_str_value s = (case s of Some v \<Rightarrow> JStr v | None \<Rightarrow> JNull)"

definition scope_value :: "browser_scope \<Rightarrow> json" where
  "scope_value s = JObj [(''base_name'', opt_str_value (bs_base_name s)), (''display_name'', opt_str_value (bs_display_name s)),
     (''browser_id'', opt_str_value (bs_browser_id s)), (''browser_name'', opt_str_value (bs_browser_name s)),
     (''candidate_id'', opt_str_value (bs_candidate_id s)), (''discovery_candidate_id'', opt_str_value (bs_discovery_candidate_id s))]"

definition should_fill :: "runtime_observation \<Rightarrow> bool" where
  "should_fill ev \<longleftrightarrow> (case ob_agent_id ev of Some a \<Rightarrow> a = [] \<or> a = ''unknown'' | None \<Rightarrow> True)"

definition scoped_agent_id :: "scope_env \<Rightarrow> runtime_observation \<Rightarrow> string option" where
  "scoped_agent_id env ev =
     (let payload = sv_parse env (ob_payload_json ev);
          typed = map_option scope_value (ro_browser_scope ev)
      in or_else (or_else (Option.bind typed (\<lambda>s. find_string s candidate_keys)) (Option.bind payload candidate_id_from_payload))
           (or_else (Option.bind payload (\<lambda>p. find_string p [''agent_id'']))
              (map_option (candidate_id_for_display_name env (ob_tenant_id ev))
                 (or_else (Option.bind typed scoped_display_name_from_payload) (Option.bind payload scoped_display_name_from_payload)))))"

definition apply_browser_scoped_agent_id :: "scope_env \<Rightarrow> runtime_observation \<Rightarrow> runtime_observation" where
  "apply_browser_scoped_agent_id env ev =
     (if should_fill ev then
        case scoped_agent_id env ev of Some a \<Rightarrow> ev\<lparr>ob_agent_id := Some a\<rparr> | None \<Rightarrow> ev
      else ev)"

text \<open>A known agent keeps its name, an unknown one is named by what the event carries, and naming again changes nothing.\<close>

lemma scoped_agent_id_frame [simp]: "scoped_agent_id env (ev\<lparr>ob_agent_id := a\<rparr>) = scoped_agent_id env ev"
  by (simp add: scoped_agent_id_def)

lemma named_agent_kept: "ob_agent_id ev = Some a \<Longrightarrow> a \<noteq> [] \<Longrightarrow> a \<noteq> ''unknown'' \<Longrightarrow> apply_browser_scoped_agent_id env ev = ev"
  by (simp add: apply_browser_scoped_agent_id_def should_fill_def)

lemma naming_idempotent: "apply_browser_scoped_agent_id env (apply_browser_scoped_agent_id env ev) = apply_browser_scoped_agent_id env ev"
  by (simp add: apply_browser_scoped_agent_id_def split: option.split)

text \<open>The suffix of the browser is written once.\<close>

lemma ends_with_append [simp]: "ends_with (s @ p) p"
  by (simp add: ends_with_suffix suffix_def)

lemma scoped_name_suffix: "ends_with (browser_scoped_name base browser) ('' ('' @ browser @ '')'')"
  by (simp only: browser_scoped_name_def Let_def ends_with_append split: if_split) simp

text \<open>A first key with a blank value hides the later keys: an event whose \<^verbatim>\<open>candidate_id\<close> is blank is not attributed to its discovered
  candidate.\<close>

lemma blank_key_hides_candidate:
  "find_string (JObj [(''candidate_id'', JStr ''''), (''discovery_candidate_id'', JStr ''cand_1'')]) candidate_keys = None"
  by (simp add: find_string_def candidate_keys_def or_else_def str_trim_def trim_matches_def)

subsection \<open>Usage of an observed call\<close>

definition provider_from_host :: "string \<Rightarrow> string" where
  "provider_from_host host =
     (let h = to_ascii_lowercase host in
      if str_contains h ''api.openai.com'' then ''openai''
      else if str_contains h ''api.anthropic.com'' then ''anthropic''
      else if str_contains h ''generativelanguage.googleapis.com'' \<or> str_contains h ''aiplatform.googleapis.com'' then ''google''
      else if str_contains h ''api.mistral.ai'' then ''mistral''
      else if str_contains h ''api.deepseek.com'' then ''deepseek''
      else if str_contains h ''api.x.ai'' then ''xai''
      else if str_contains h ''api.groq.com'' then ''groq''
      else if str_contains h ''api.together.xyz'' then ''together''
      else if str_contains h ''api.perplexity.ai'' \<or> str_contains h ''sonar'' then ''perplexity''
      else if str_contains h ''api.fireworks.ai'' then ''fireworks''
      else if str_contains h ''api.cerebras.ai'' then ''cerebras''
      else if str_contains h ''api.replicate.com'' then ''replicate''
      else if str_contains h ''api-inference.huggingface.co'' \<or> str_contains h ''router.huggingface.co'' then ''huggingface''
      else if str_contains h ''api.cohere.com'' then ''cohere''
      else if str_contains h ''openrouter.ai'' then ''openrouter''
      else if str_contains h ''11434'' then ''ollama''
      else ''local'')"

definition token_i64 :: "json \<Rightarrow> string \<Rightarrow> int option" where
  "token_i64 v k = Option.bind (json_get v k) as_i64"

definition nested_token_i64 :: "json \<Rightarrow> string \<Rightarrow> string \<Rightarrow> int option" where
  "nested_token_i64 v parent k = Option.bind (json_get v parent) (\<lambda>o'. token_i64 o' k)"

definition has_ollama_usage :: "json \<Rightarrow> bool" where
  "has_ollama_usage body \<longleftrightarrow> json_has body ''prompt_eval_count'' \<or> json_has body ''eval_count''"

definition egress_usage_object :: "json \<Rightarrow> json option" where
  "egress_usage_object body =
     or_else (or_else (or_else (json_get body ''usage'') (json_get body ''usageMetadata''))
       (Option.bind (json_get body ''message_delta'') (\<lambda>m. json_get m ''usage'')))
       (if has_ollama_usage body then Some body else None)"

fun first_of :: "'a option list \<Rightarrow> 'a option" where
  "first_of [] = None"
| "first_of (x # xs) = or_else x (first_of xs)"

definition parse_llm_usage :: "string \<Rightarrow> json \<Rightarrow> (string \<times> token_usage) option" where
  "parse_llm_usage host body =
     (case egress_usage_object body of
        None \<Rightarrow> None
      | Some usage \<Rightarrow>
          let n_in = first_of [token_i64 usage ''prompt_tokens'', token_i64 usage ''input_tokens'', token_i64 usage ''promptTokenCount'',
                token_i64 usage ''prompt_eval_count'', nested_token_i64 usage ''tokens'' ''input_tokens'',
                nested_token_i64 usage ''billed_units'' ''input_tokens''];
              n_out = first_of [token_i64 usage ''completion_tokens'', token_i64 usage ''output_tokens'', token_i64 usage ''candidatesTokenCount'',
                token_i64 usage ''eval_count'', nested_token_i64 usage ''tokens'' ''output_tokens'',
                nested_token_i64 usage ''billed_units'' ''output_tokens''];
              total = first_of [token_i64 usage ''total_tokens'', token_i64 usage ''totalTokenCount'',
                (case (n_in, n_out) of (Some i, Some j) \<Rightarrow> Some (i64_wrap (i + j)) | _ \<Rightarrow> None),
                Some (i64_wrap (or_zero n_in + or_zero n_out))]
          in Some (provider_from_host host,
               \<lparr>tu_input_tokens = n_in, tu_output_tokens = n_out, tu_total_tokens = total,
                tu_model = Option.bind (or_else (json_get body ''model'') (json_get body ''modelVersion'')) as_str\<rparr>))"

definition llm_call_event ::
    "string \<Rightarrow> string \<Rightarrow> string \<Rightarrow> string \<Rightarrow> string option \<Rightarrow> string \<Rightarrow> json \<Rightarrow> int \<Rightarrow> runtime_observation option" where
  "llm_call_event uuid now tenant trace_id agent_id host body latency_ms =
     map_option (\<lambda>(provider, usage).
       \<lparr>ob_event_id = uuid, ob_tenant_id = tenant, ob_trace_id = trace_id, ob_agent_id = agent_id, ob_shadow_candidate_id = None,
        ob_tool_id = None, ob_resource_id = None, ob_surface = ''llm_egress'', ob_action = ''chat.completion'',
        ob_pep_type = Some ''network_egress'', ob_risk_level = None, ob_timestamp = now, ob_payload_json = ''{}'',
        ob_event_kind = EvLlmCall, ob_decision = None, ob_tool_call = None, ob_resource_access = None,
        ob_latency_ms = Some latency_ms, ob_provider = Some provider, mo_token_usage = Some usage,
        ro_process_signal = None, ro_browser_scope = None\<rparr>)
       (parse_llm_usage host body)"

record cloud_signature =
  cs_host_pattern :: string
  cs_kind :: string
  cs_name :: string
  cs_classification :: "string option"

definition classify_cloud_egress :: "cloud_signature list \<Rightarrow> string \<Rightarrow> (string \<times> string) option" where
  "classify_cloud_egress baseline host =
     (case find (\<lambda>s. str_contains host (cs_host_pattern s)) baseline of
        Some s \<Rightarrow> Some (cs_kind s, cs_name s)
      | None \<Rightarrow>
          if str_contains host ''api.openai.com'' \<or> str_contains host ''api.anthropic.com'' then Some (''api'', ''LLM API'')
          else if str_contains host ''drive.google.com'' then Some (''cloud_drive'', ''Google Drive'')
          else if str_contains host ''smtp'' \<or> str_contains host ''imap'' then Some (''email'', ''Email Service'')
          else if str_contains host ''github.com'' then Some (''saas'', ''GitHub'')
          else None)"

lemma first_of_total: "\<exists>t. first_of [a, b, c, Some d] = Some t"
  by (auto simp: or_else_def split: option.split)

text \<open>Every usage that is found has a total, so an event of an observed call can always be priced and budgeted.\<close>

lemma llm_call_metered:
  assumes "llm_call_event uuid now tenant tr agent host body ms = Some ev"
  shows "\<exists>u t. mo_token_usage ev = Some u \<and> tu_total_tokens u = Some t \<and> ob_agent_id ev = agent \<and> ob_provider ev = Some (provider_from_host host)"
  using assms by (auto simp: llm_call_event_def parse_llm_usage_def Let_def first_of_total split: option.splits simp del: first_of.simps)

lemma llm_call_observed_iff: "llm_call_event uuid now tenant tr agent host body ms = None \<longleftrightarrow> egress_usage_object body = None"
  by (simp add: llm_call_event_def parse_llm_usage_def Let_def split: option.split)

text \<open>Hosts are searched for as parts of a name: a host that only contains a provider's name is taken for the provider.\<close>

lemma provider_by_substring: "str_contains (to_ascii_lowercase h) ''api.openai.com'' \<Longrightarrow> provider_from_host h = ''openai''"
  by (simp add: provider_from_host_def Let_def)

lemma sonarqube_is_perplexity: "provider_from_host ''sonarqube.corp.example'' = ''perplexity''"
  by code_simp

text \<open>A streamed chunk with a null \<^verbatim>\<open>usage\<close> counts as a call of no tokens, also where the chunk has its counts elsewhere.\<close>

lemma null_usage_counts_zero:
  "map_option (tu_total_tokens \<circ> snd) (parse_llm_usage ''h'' (JObj [(''usage'', JNull), (''eval_count'', JInt 5)])) = Some (Some 0)"
  by code_simp

subsection \<open>Activity sets\<close>

record activity_counts =
  ct_total_decisions :: u32
  ct_denied_actions :: u32
  ct_mcp_invocations :: u32

definition zero_counts :: activity_counts where
  "zero_counts = \<lparr>ct_total_decisions = 0, ct_denied_actions = 0, ct_mcp_invocations = 0\<rparr>"

record activity_item =
  ai_timestamp :: string
  ai_event_type :: string
  ai_decision :: "string option"
  ai_resource :: string
  ai_reason :: string
  ai_pep_plane :: "string option"
  ai_enforced_for_real :: "bool option"
  ai_status_badge :: "string option"
  ai_message_th :: "string option"

record activity_set =
  at_start_time :: string
  at_end_time :: string
  at_duration_seconds :: u32
  at_counts :: activity_counts
  at_items :: "activity_item list"

definition activity_set_new :: "string \<Rightarrow> activity_set" where
  "activity_set_new start = \<lparr>at_start_time = start, at_end_time = [], at_duration_seconds = 0, at_counts = zero_counts, at_items = []\<rparr>"

definition count_item :: "activity_counts \<Rightarrow> activity_item \<Rightarrow> activity_counts" where
  "count_item c item =
     \<lparr>ct_total_decisions = (if ai_decision item \<noteq> None then ct_total_decisions c + 1 else ct_total_decisions c),
      ct_denied_actions = (if ai_decision item = Some ''deny'' then ct_denied_actions c + 1 else ct_denied_actions c),
      ct_mcp_invocations = (if ai_event_type item = ''mcp_tool_call'' then ct_mcp_invocations c + 1 else ct_mcp_invocations c)\<rparr>"

definition add_item :: "activity_set \<Rightarrow> activity_item \<Rightarrow> activity_set" where
  "add_item s item = s\<lparr>at_counts := count_item (at_counts s) item, at_items := at_items s @ [item]\<rparr>"

definition activity_counts_of :: "activity_item list \<Rightarrow> activity_counts" where
  "activity_counts_of items = foldl count_item zero_counts items"

definition activity_item_from_observation :: "observation \<Rightarrow> activity_item" where
  "activity_item_from_observation ev =
     \<lparr>ai_timestamp = ob_timestamp ev,
      ai_event_type = (case ob_event_kind ev of EvToolCall \<Rightarrow> ''mcp_tool_call'' | EvResourceAccess \<Rightarrow> ''resource_access''
         | EvLlmCall \<Rightarrow> ''llm_call'' | EvDecision \<Rightarrow> ''decision'' | EvGeneric \<Rightarrow> ob_action ev),
      ai_decision = map_option (\<lambda>d. if di_allow d then ''allow'' else ''deny'') (ob_decision ev),
      ai_resource = (case first_of [map_option ra_target_redacted (ob_resource_access ev), map_option tc_tool_name (ob_tool_call ev),
         ob_resource_id ev, ob_tool_id ev] of Some r \<Rightarrow> r | None \<Rightarrow> ob_surface ev),
      ai_reason = (case ob_decision ev of Some d \<Rightarrow> di_reason_code d | None \<Rightarrow> ob_action ev),
      ai_pep_plane = or_else (Option.bind (ob_decision ev) di_pep_plane) (ob_pep_type ev),
      ai_enforced_for_real = Option.bind (ob_decision ev) di_enforced_for_real,
      ai_status_badge = Option.bind (ob_decision ev) di_status_badge,
      ai_message_th = Option.bind (ob_decision ev) di_message_th\<rparr>"

definition activity_items_from_observations :: "observation list \<Rightarrow> activity_item list" where
  "activity_items_from_observations events = sort_key ai_timestamp (map activity_item_from_observation events)"

text \<open>\<^verbatim>\<open>num_seconds\<close> of a difference in nanoseconds rounds towards zero.\<close>

definition num_seconds :: "int \<Rightarrow> int" where
  "num_seconds d = (if d < 0 then - ((- d) div 1000000000) else d div 1000000000)"

definition finish_set :: "(string \<Rightarrow> int option) \<Rightarrow> activity_set \<Rightarrow> activity_set" where
  "finish_set parse_ts s =
     (let end_time = (if at_items s = [] then at_end_time s else ai_timestamp (last (at_items s)));
          duration = (case (parse_ts (at_start_time s), parse_ts end_time) of
             (Some a, Some b) \<Rightarrow> max (num_seconds (b - a)) 0 | _ \<Rightarrow> 0)
      in s\<lparr>at_end_time := end_time, at_duration_seconds := of_int (min duration 4294967295)\<rparr>)"

definition long_gap :: "int \<Rightarrow> int option \<Rightarrow> int option \<Rightarrow> bool" where
  "long_gap idle prev cur \<longleftrightarrow> (case (prev, cur) of (Some p, Some c) \<Rightarrow> num_seconds (c - p) > idle | _ \<Rightarrow> False)"

fun group_loop :: "(string \<Rightarrow> int option) \<Rightarrow> int \<Rightarrow> activity_item list \<Rightarrow> activity_set \<Rightarrow> int option \<Rightarrow> activity_set list" where
  "group_loop parse_ts idle [] cur prev = [finish_set parse_ts cur]"
| "group_loop parse_ts idle (item # items) cur prev =
     (let ts = parse_ts (ai_timestamp item) in
      if long_gap idle prev ts \<and> at_items cur \<noteq> []
      then finish_set parse_ts cur # group_loop parse_ts idle items (add_item (activity_set_new (ai_timestamp item)) item) (or_else ts prev)
      else group_loop parse_ts idle items (add_item cur item) (or_else ts prev))"

definition group_into_sets :: "(string \<Rightarrow> int option) \<Rightarrow> activity_item list \<Rightarrow> u32 \<Rightarrow> activity_set list" where
  "group_into_sets parse_ts raw idle =
     (case sort_key ai_timestamp raw of
        [] \<Rightarrow> []
      | item # items \<Rightarrow>
          group_loop parse_ts (uint idle) (item # items) (activity_set_new (ai_timestamp item)) (parse_ts (ai_timestamp item)))"


lemma finish_set_frame [simp]: "at_items (finish_set p s) = at_items s" "at_counts (finish_set p s) = at_counts s" "at_start_time (finish_set p s) = at_start_time s"
  by (simp_all add: finish_set_def Let_def)

lemma add_item_items [simp]: "at_items (add_item s i) = at_items s @ [i]"
  by (simp add: add_item_def)

lemma activity_set_new_items [simp]: "at_items (activity_set_new t) = []"
  by (simp add: activity_set_new_def)

lemma group_loop_items: "concat (map at_items (group_loop p idle items cur prev)) = at_items cur @ items"
  by (induction p idle items cur prev rule: group_loop.induct) (auto simp: Let_def)

lemma group_loop_nonempty:
  assumes "at_items cur \<noteq> [] \<or> items \<noteq> []"
  shows "\<forall>s\<in>set (group_loop p idle items cur prev). at_items s \<noteq> []"
  using assms
proof (induction p idle items cur prev rule: group_loop.induct)
  case (2 p idle item items cur prev)
  show ?case
  proof (cases "long_gap idle prev (p (ai_timestamp item)) \<and> at_items cur \<noteq> []")
    case True
    show ?thesis unfolding group_loop.simps Let_def if_P [OF True] using "2.IH"(1) [OF refl True] True by simp
  next
    case False
    show ?thesis unfolding group_loop.simps Let_def if_not_P [OF False] using "2.IH"(2) [OF refl False] by simp
  qed
qed simp

definition counted :: "activity_set \<Rightarrow> bool" where
  "counted s \<longleftrightarrow> at_counts s = activity_counts_of (at_items s)"

lemma counted_steps [simp]: "counted (activity_set_new t)" "counted s \<Longrightarrow> counted (add_item s i)" "counted (finish_set p s) = counted s"
  by (simp_all add: counted_def activity_counts_of_def activity_set_new_def add_item_def)

lemma group_loop_counted: "counted cur \<Longrightarrow> \<forall>s\<in>set (group_loop p idle items cur prev). counted s"
  by (induction p idle items cur prev rule: group_loop.induct) (auto simp: Let_def split: if_splits)

lemma group_loop_head:
  "group_loop p idle items cur prev \<noteq> [] \<and> (at_items cur \<noteq> [] \<longrightarrow> hd (at_items (hd (group_loop p idle items cur prev))) = hd (at_items cur))"
  by (induction p idle items cur prev rule: group_loop.induct) (auto simp: Let_def)

text \<open>Two neighbouring actions are apart when more than the idle time passes between them.\<close>

definition apart :: "(string \<Rightarrow> int option) \<Rightarrow> int \<Rightarrow> activity_item \<Rightarrow> activity_item \<Rightarrow> bool" where
  "apart p idle a b \<longleftrightarrow> long_gap idle (p (ai_timestamp a)) (p (ai_timestamp b))"

definition close_knit :: "(string \<Rightarrow> int option) \<Rightarrow> int \<Rightarrow> activity_item list \<Rightarrow> bool" where
  "close_knit p idle items \<longleftrightarrow> successively (\<lambda>a b. \<not> apart p idle a b) items"

lemma close_knit_snoc: "close_knit p idle (xs @ [x]) \<longleftrightarrow> close_knit p idle xs \<and> (xs = [] \<or> \<not> apart p idle (last xs) x)"
  by (auto simp: close_knit_def successively_append_iff)

lemma group_loop_gaps:
  assumes "\<forall>i\<in>set items. p (ai_timestamp i) \<noteq> None" and "at_items cur \<noteq> [] \<longrightarrow> prev = p (ai_timestamp (last (at_items cur)))"
    and "close_knit p idle (at_items cur)"
  shows "(\<forall>s\<in>set (group_loop p idle items cur prev). close_knit p idle (at_items s)) \<and>
    successively (\<lambda>s t. apart p idle (last (at_items s)) (hd (at_items t))) (group_loop p idle items cur prev)"
  using assms
proof (induction p idle items cur prev rule: group_loop.induct)
  case (2 p idle item items cur prev)
  have ts: "or_else (p (ai_timestamp item)) prev = p (ai_timestamp item)" using "2.prems"(1) by (auto simp: or_else_def)
  show ?case
  proof (cases "long_gap idle prev (p (ai_timestamp item)) \<and> at_items cur \<noteq> []")
    case True
    define rest where "rest = group_loop p idle items (add_item (activity_set_new (ai_timestamp item)) item) (p (ai_timestamp item))"
    from True "2.prems" have a: "apart p idle (last (at_items cur)) item" by (simp add: apart_def)
    have "rest \<noteq> [] \<and> hd (at_items (hd rest)) = item"
      using group_loop_head [of p idle items "add_item (activity_set_new (ai_timestamp item)) item" "p (ai_timestamp item)"] by (simp add: rest_def)
    then obtain s ss where r: "rest = s # ss" "hd (at_items s) = item" by (cases rest) auto
    have ih: "(\<forall>s\<in>set rest. close_knit p idle (at_items s)) \<and> successively (\<lambda>s t. apart p idle (last (at_items s)) (hd (at_items t))) rest"
      using "2.IH"(1) [OF refl True] "2.prems"(1) unfolding ts rest_def by (simp add: close_knit_def)
    have e: "group_loop p idle (item # items) cur prev = finish_set p cur # rest" using True by (simp add: ts rest_def)
    show ?thesis unfolding e using ih a r "2.prems"(3) by simp
  next
    case False
    have "\<not> apart p idle (last (at_items cur)) item" if "at_items cur \<noteq> []" using False that "2.prems"(2) by (simp add: apart_def)
    then have "close_knit p idle (at_items cur @ [item])" using "2.prems"(3) by (auto simp: close_knit_snoc)
    then have ih: "(\<forall>s\<in>set (group_loop p idle items (add_item cur item) (p (ai_timestamp item))). close_knit p idle (at_items s)) \<and>
      successively (\<lambda>s t. apart p idle (last (at_items s)) (hd (at_items t))) (group_loop p idle items (add_item cur item) (p (ai_timestamp item)))"
      using "2.IH"(2) [OF refl False] "2.prems"(1) by (simp add: ts)
    show ?thesis unfolding group_loop.simps Let_def if_not_P [OF False] ts by (rule ih)
  qed
qed simp

text \<open>The sets of a stream of actions: together they hold every action once, in the order of time; no set is empty and its counts are those
  of its actions; within a set no pause is longer than the idle time, and between two sets there is one.\<close>

lemma activity_sets_exact:
  assumes "\<forall>i\<in>set raw. p (ai_timestamp i) \<noteq> None"
  shows "let sets = group_into_sets p raw idle in
    concat (map at_items sets) = sort_key ai_timestamp raw \<and>
    (\<forall>s\<in>set sets. at_items s \<noteq> [] \<and> at_counts s = activity_counts_of (at_items s) \<and> close_knit p (uint idle) (at_items s)) \<and>
    successively (\<lambda>s t. apart p (uint idle) (last (at_items s)) (hd (at_items t))) sets"
proof (cases "sort_key ai_timestamp raw")
  case Nil
  then show ?thesis by (simp add: group_into_sets_def)
next
  case (Cons item items)
  let ?new = "activity_set_new (ai_timestamp item)" and ?prev = "p (ai_timestamp item)"
  have parse: "\<forall>i\<in>set (item # items). p (ai_timestamp i) \<noteq> None" using assms unfolding Cons [symmetric] by simp
  have e: "group_into_sets p raw idle = group_loop p (uint idle) (item # items) ?new ?prev"
    by (simp add: group_into_sets_def Cons)
  have n: "\<forall>s\<in>set (group_into_sets p raw idle). at_items s \<noteq> []" unfolding e by (rule group_loop_nonempty) simp
  have c: "\<forall>s\<in>set (group_into_sets p raw idle). counted s" unfolding e by (rule group_loop_counted) simp
  have g: "(\<forall>s\<in>set (group_into_sets p raw idle). close_knit p (uint idle) (at_items s)) \<and>
      successively (\<lambda>s t. apart p (uint idle) (last (at_items s)) (hd (at_items t))) (group_into_sets p raw idle)"
    unfolding e by (rule group_loop_gaps [OF parse]) (simp_all add: close_knit_def)
  have i: "concat (map at_items (group_into_sets p raw idle)) = sort_key ai_timestamp raw"
    unfolding e Cons group_loop_items by simp
  show ?thesis unfolding Let_def using n c g i unfolding counted_def by blast
qed

end
