(* ===== verification/Auth_Verifier.thy ===== *)
theory Auth_Verifier
  imports Activation
begin

text \<open>
  \<^verbatim>\<open>src/crates/dek-auth/src/lib.rs\<close>: bearer tokens. The JSON Web Token library is a parameter: reading the
  header, building a key, and the decoding that checks the signature and the claims a validation asks for.
\<close>

datatype algorithm =
    HS256 | HS384 | HS512 | RS256 | RS384 | RS512 | PS256 | PS384 | PS512 | ES256 | ES384 | EdDSA

definition allowed_algs :: "algorithm list" where
  "allowed_algs = [RS256, RS384, RS512, PS256, PS384, PS512, ES256, ES384]"

datatype auth_error =
    MissingToken
  | MalformedHeader string
  | MissingKid
  | UnknownKid string
  | UnsupportedAlg algorithm
  | NoKeyConfigured
  | InvalidKey string
  | ValidationError string
  | MissingClaim string

record identity =
  id_principal :: string
  id_tenant_id :: "string option"
  id_claims :: json

record jwt_header =
  jh_alg :: algorithm
  jh_kid :: "string option"

record validation =
  va_alg :: algorithm
  va_validate_exp :: bool
  va_leeway :: nat
  va_required_spec_claims :: "string list"
  va_issuer :: "string list option"
  va_audience :: "string list"
  va_validate_aud :: bool

record 'k jwt_env =
  jw_decode_header :: "string \<Rightarrow> (string, jwt_header) result"
  jw_jwks_find :: "json \<Rightarrow> string \<Rightarrow> json option"
  jw_from_jwk :: "json \<Rightarrow> (string, 'k) result"
  jw_from_rsa_pem :: "string \<Rightarrow> (string, 'k) result"
  jw_from_ec_pem :: "string \<Rightarrow> (string, 'k) result"
  jw_decode :: "string \<Rightarrow> 'k \<Rightarrow> validation \<Rightarrow> (string, json) result"

definition verifier_new :: "verifier_config \<Rightarrow> verifier_config" where
  "verifier_new cfg = (if vc_leeway_secs cfg = 0 then cfg\<lparr>vc_leeway_secs := 60\<rparr> else cfg)"

definition is_configured :: "verifier_config \<Rightarrow> bool" where
  "is_configured cfg \<longleftrightarrow> vc_jwks cfg \<noteq> None \<or> vc_public_key_pem cfg \<noteq> None"

definition key_result :: "(string, 'k) result \<Rightarrow> (auth_error, 'k) result" where
  "key_result r = map_sum InvalidKey id r"

definition select_key :: "'k jwt_env \<Rightarrow> verifier_config \<Rightarrow> jwt_header \<Rightarrow> algorithm \<Rightarrow> (auth_error, 'k) result" where
  "select_key env cfg header alg =
     (case vc_jwks cfg of
        Some jwks \<Rightarrow>
          (case jh_kid header of
             None \<Rightarrow> Inl MissingKid
           | Some kid \<Rightarrow>
               (case jw_jwks_find env jwks kid of
                  None \<Rightarrow> Inl (UnknownKid kid)
                | Some jwk \<Rightarrow> key_result (jw_from_jwk env jwk)))
      | None \<Rightarrow>
          (case vc_public_key_pem cfg of
             Some pem \<Rightarrow>
               if alg \<in> {RS256, RS384, RS512, PS256, PS384, PS512} then key_result (jw_from_rsa_pem env pem)
               else if alg \<in> {ES256, ES384} then key_result (jw_from_ec_pem env pem)
               else Inl (UnsupportedAlg alg)
           | None \<Rightarrow> Inl NoKeyConfigured))"

definition token_validation :: "verifier_config \<Rightarrow> algorithm \<Rightarrow> string list \<Rightarrow> validation" where
  "token_validation cfg alg aud =
     \<lparr>va_alg = alg, va_validate_exp = True, va_leeway = vc_leeway_secs cfg, va_required_spec_claims = [''exp''],
      va_issuer = map_option (\<lambda>iss. [iss]) (vc_issuer cfg), va_audience = aud, va_validate_aud = True\<rparr>"

definition identity_of :: "json \<Rightarrow> (auth_error, identity) result" where
  "identity_of claims =
     (case get_str claims ''sub'' of
        None \<Rightarrow> Inl (MissingClaim ''sub'')
      | Some sub \<Rightarrow>
          Inr \<lparr>id_principal = sub,
               id_tenant_id = Option.bind (or_else (json_get claims ''tenant_id'') (json_get claims ''tenant'')) as_str,
               id_claims = claims\<rparr>)"

definition verify_token :: "'k jwt_env \<Rightarrow> verifier_config \<Rightarrow> string \<Rightarrow> (auth_error, identity) result" where
  "verify_token env cfg token =
     (case jw_decode_header env token of
        Inl e \<Rightarrow> Inl (MalformedHeader e)
      | Inr header \<Rightarrow>
     (if jh_alg header \<notin> set allowed_algs then Inl (UnsupportedAlg (jh_alg header))
      else case select_key env cfg header (jh_alg header) of
        Inl e \<Rightarrow> Inl e
      | Inr key \<Rightarrow>
     (case vc_audience cfg of
        None \<Rightarrow> Inl (ValidationError ''no audience configured in jwt_config; 'aud' enforcement is mandatory'')
      | Some aud \<Rightarrow>
          if aud = [] then Inl (ValidationError ''no audience configured in jwt_config; 'aud' enforcement is mandatory'')
          else case jw_decode env token key (token_validation cfg (jh_alg header) aud) of
                 Inl e \<Rightarrow> Inl (ValidationError e)
               | Inr claims \<Rightarrow> identity_of claims)))"

definition extract_bearer :: "string option \<Rightarrow> (auth_error, string) result" where
  "extract_bearer auth_header =
     (case auth_header of
        None \<Rightarrow> Inl MissingToken
      | Some h \<Rightarrow>
          if \<not> starts_with h ''Bearer '' then Inl MissingToken
          else let t = trim (drop 7 h) in if t = [] then Inl MissingToken else Inr t)"

subsection \<open>Lemmas\<close>

lemma key_result_Inr [simp]: "key_result r = Inr k \<longleftrightarrow> r = Inr k"
  by (cases r) (simp_all add: key_result_def)

lemma select_key_source:
  assumes "select_key env cfg header alg = Inr key"
  shows "(\<exists>jwks kid jwk. vc_jwks cfg = Some jwks \<and> jh_kid header = Some kid \<and> jw_jwks_find env jwks kid = Some jwk \<and>
      jw_from_jwk env jwk = Inr key) \<or>
    (\<exists>pem. vc_jwks cfg = None \<and> vc_public_key_pem cfg = Some pem \<and>
      (jw_from_rsa_pem env pem = Inr key \<or> jw_from_ec_pem env pem = Inr key))"
  using assms unfolding select_key_def by (auto split: option.splits if_splits)


text \<open>
  C7. An identity is accepted only from a checked token: the token's algorithm is asymmetric, the key comes
  from the configured key set by its id, or from the configured PEM when there is no key set; an audience is
  configured, and the library accepted the token under a validation that requires and checks the expiry and
  checks the audience and, when one is configured, the issuer; the caller is the subject of those claims.
\<close>

theorem verified_identity_sound:
  assumes "verify_token env cfg token = Inr ident"
  shows "\<exists>header key aud claims. jw_decode_header env token = Inr header \<and>
    jh_alg header \<notin> {HS256, HS384, HS512, EdDSA} \<and>
    ((\<exists>jwks kid jwk. vc_jwks cfg = Some jwks \<and> jh_kid header = Some kid \<and> jw_jwks_find env jwks kid = Some jwk \<and>
        jw_from_jwk env jwk = Inr key) \<or>
     (\<exists>pem. vc_jwks cfg = None \<and> vc_public_key_pem cfg = Some pem \<and>
        (jw_from_rsa_pem env pem = Inr key \<or> jw_from_ec_pem env pem = Inr key))) \<and>
    vc_audience cfg = Some aud \<and> aud \<noteq> [] \<and>
    jw_decode env token key \<lparr>va_alg = jh_alg header, va_validate_exp = True, va_leeway = vc_leeway_secs cfg,
      va_required_spec_claims = [''exp''], va_issuer = map_option (\<lambda>iss. [iss]) (vc_issuer cfg),
      va_audience = aud, va_validate_aud = True\<rparr> = Inr claims \<and>
    get_str claims ''sub'' = Some (id_principal ident) \<and> id_claims ident = claims"
proof -
  from assms obtain header key aud claims where *: "jw_decode_header env token = Inr header"
      "jh_alg header \<in> set allowed_algs" "select_key env cfg header (jh_alg header) = Inr key"
      "vc_audience cfg = Some aud" "aud \<noteq> []" "jw_decode env token key (token_validation cfg (jh_alg header) aud) = Inr claims"
      "identity_of claims = Inr ident"
    unfolding verify_token_def by (auto split: sum.splits if_splits option.splits)
  have "jh_alg header \<notin> {HS256, HS384, HS512, EdDSA}" using *(2) by (auto simp: allowed_algs_def)
  moreover have "get_str claims ''sub'' = Some (id_principal ident)" "id_claims ident = claims"
    using *(7) by (auto simp: identity_of_def split: option.splits)
  ultimately show ?thesis
    using * select_key_source [OF *(3)] unfolding token_validation_def
    by (intro exI [of _ header] exI [of _ key] exI [of _ aud] exI [of _ claims]) (simp only: simp_thms)
qed

definition demo_claims :: json where
  "demo_claims = JObj [(''sub'', JStr ''alice''), (''tenant'', JStr ''acme'')]"

definition demo_jwt_env :: "string jwt_env" where
  "demo_jwt_env =
     \<lparr>jw_decode_header = (\<lambda>t. if t = ''tok'' then Inr \<lparr>jh_alg = ES256, jh_kid = None\<rparr> else Inl ''bad''),
      jw_jwks_find = (\<lambda>_ _. None), jw_from_jwk = (\<lambda>_. Inl ''bad''), jw_from_rsa_pem = (\<lambda>_. Inl ''bad''),
      jw_from_ec_pem = (\<lambda>pem. Inr pem),
      jw_decode = (\<lambda>t k v. if t = ''tok'' \<and> k = ''pem'' then Inr demo_claims else Inl ''bad'')\<rparr>"

definition demo_verifier :: verifier_config where
  "demo_verifier = \<lparr>vc_jwks = None, vc_public_key_pem = Some ''pem'', vc_issuer = None, vc_audience = Some [''pollek''], vc_leeway_secs = 60\<rparr>"

lemma demo_verify:
  "verify_token demo_jwt_env demo_verifier ''tok'' =
     Inr \<lparr>id_principal = ''alice'', id_tenant_id = Some ''acme'', id_claims = demo_claims\<rparr>"
  by (simp add: verify_token_def demo_jwt_env_def demo_verifier_def select_key_def allowed_algs_def key_result_def
      identity_of_def demo_claims_def or_else_def)

theorem verified_identity_sound_witness:
  "\<exists>header key aud claims. jw_decode_header demo_jwt_env ''tok'' = Inr header \<and>
    jh_alg header \<notin> {HS256, HS384, HS512, EdDSA} \<and> vc_audience demo_verifier = Some aud \<and> aud \<noteq> [] \<and>
    jw_decode demo_jwt_env ''tok'' key \<lparr>va_alg = jh_alg header, va_validate_exp = True, va_leeway = vc_leeway_secs demo_verifier,
      va_required_spec_claims = [''exp''], va_issuer = map_option (\<lambda>iss. [iss]) (vc_issuer demo_verifier),
      va_audience = aud, va_validate_aud = True\<rparr> = Inr claims \<and> get_str claims ''sub'' = Some ''alice''"
  using verified_identity_sound [OF demo_verify] by fastforce

end
