(* ===== verification/Guard_Pii.thy ===== *)
theory Guard_Pii
  imports Guard_Output
begin

text \<open>
  \<^verbatim>\<open>src/crates/dek-guard-pipeline/src/pii.rs\<close>: the recognisers of personal data with their checksums and
  context words, the optional entity recogniser behind an HTTP endpoint (its transport is a parameter), the
  selection of spans and the redaction of a text and of a JSON value. Checksum arithmetic stays far below
  the width of \<^verbatim>\<open>u32\<close> (at most 19 digits), so it is written on natural numbers.
\<close>

subsection \<open>Checksums\<close>

definition digit_of :: "char \<Rightarrow> nat option" where
  "digit_of c = (let n = (of_char c :: nat) in if 48 \<le> n \<and> n \<le> 57 then Some (n - 48) else None)"

definition digits_of :: "string \<Rightarrow> nat list" where
  "digits_of s = List.map_filter digit_of s"

definition luhn_digit :: "bool \<Rightarrow> nat \<Rightarrow> nat" where
  "luhn_digit dbl d = (if dbl then (if d * 2 > 9 then d * 2 - 9 else d * 2) else d)"

fun luhn_loop :: "bool \<Rightarrow> nat list \<Rightarrow> nat" where
  "luhn_loop dbl [] = 0"
| "luhn_loop dbl (d # ds) = luhn_digit dbl d + luhn_loop (\<not> dbl) ds"

definition luhn_valid :: "string \<Rightarrow> bool" where
  "luhn_valid value \<longleftrightarrow>
     (let digits = digits_of value
      in \<not> (length digits < 13 \<or> length digits > 19) \<and> luhn_loop False (rev digits) mod 10 = 0)"

definition thai_id_valid :: "string \<Rightarrow> bool" where
  "thai_id_valid value \<longleftrightarrow>
     (let digits = digits_of value
      in length digits = 13 \<and>
         (let s = sum_list (map (\<lambda>(i, d). d * (13 - i)) (enumerate 0 (take 12 digits)));
              check = (11 - s mod 11) mod 10
          in digits ! 12 = check))"

definition always_valid :: "string \<Rightarrow> bool" where
  "always_valid value = True"

subsection \<open>Spans\<close>

record pii_span =
  sp_entity_type :: string
  sp_start :: nat
  sp_end :: nat
  sp_value :: string
  sp_confidence :: rat
  sp_source :: string

record recognizer =
  rg_entity :: string
  rg_re :: regex_id
  rg_base_confidence :: rat
  rg_validate :: "string \<Rightarrow> bool"
  rg_context :: "string list"
  rg_require_context :: bool

definition recognizers :: "recognizer list" where
  "recognizers =
  [\<lparr>rg_entity = ''EMAIL'', rg_re = RE_EMAIL, rg_base_confidence = 95 / 100, rg_validate = always_valid,
      rg_context = [''email'', ''mail'', bytes [224, 184, 173, 224, 184, 181, 224, 185, 128, 224, 184, 161, 224, 184, 165]], rg_require_context = False\<rparr>,
   \<lparr>rg_entity = ''PHONE'', rg_re = RE_PHONE_TH, rg_base_confidence = 85 / 100, rg_validate = always_valid,
      rg_context = [''phone'', ''tel'', bytes [224, 185, 130, 224, 184, 151, 224, 184, 163], bytes [224, 185, 128, 224, 184, 154, 224, 184, 173, 224, 184, 163, 224, 185, 140]], rg_require_context = False\<rparr>,
   \<lparr>rg_entity = ''CREDIT_CARD'', rg_re = RE_CREDIT_CARD, rg_base_confidence = 70 / 100, rg_validate = luhn_valid,
      rg_context = [''card'', ''credit'', ''visa'', ''master'', bytes [224, 184, 154, 224, 184, 177, 224, 184, 149, 224, 184, 163]], rg_require_context = False\<rparr>,
   \<lparr>rg_entity = ''THAI_NATIONAL_ID'', rg_re = RE_THAI_ID, rg_base_confidence = 50 / 100, rg_validate = thai_id_valid,
      rg_context = [''national id'', bytes [224, 184, 154, 224, 184, 177, 224, 184, 149, 224, 184, 163, 224, 184, 155, 224, 184, 163, 224, 184, 176, 224, 184, 138, 224, 184, 178, 224, 184, 138, 224, 184, 153], bytes [224, 185, 128, 224, 184, 165, 224, 184, 130, 224, 184, 155, 224, 184, 163, 224, 184, 176, 224, 184, 136, 224, 184, 179, 224, 184, 149, 224, 184, 177, 224, 184, 167]], rg_require_context = False\<rparr>,
   \<lparr>rg_entity = ''PASSPORT'', rg_re = RE_PASSPORT, rg_base_confidence = 30 / 100, rg_validate = always_valid,
      rg_context = [''passport'', bytes [224, 184, 171, 224, 184, 153, 224, 184, 177, 224, 184, 135, 224, 184, 170, 224, 184, 183, 224, 184, 173, 224, 185, 128, 224, 184, 148, 224, 184, 180, 224, 184, 153, 224, 184, 151, 224, 184, 178, 224, 184, 135]], rg_require_context = True\<rparr>]"

definition pii_ranges_overlap :: "pii_span \<Rightarrow> pii_span \<Rightarrow> bool" where
  "pii_ranges_overlap l r \<longleftrightarrow> sp_start l < sp_end r \<and> sp_start r < sp_end l"

definition pii_dedupe_overlaps :: "pii_span list \<Rightarrow> pii_span list" where
  "pii_dedupe_overlaps spans =
     sort_key sp_start (select_spans pii_ranges_overlap [] (sort_key (\<lambda>s. - sp_confidence s) spans))"

fun walk_down :: "string \<Rightarrow> nat \<Rightarrow> nat" where
  "walk_down text 0 = 0"
| "walk_down text (Suc i) = (if is_char_boundary text (Suc i) then Suc i else walk_down text i)"

function walk_up :: "string \<Rightarrow> nat \<Rightarrow> nat" where
  "walk_up text i = (if i < length text \<and> \<not> is_char_boundary text i then walk_up text (Suc i) else i)"
  by pat_completeness auto
termination by (relation "measure (\<lambda>(text, i). length text - i)") auto

declare walk_up.simps [simp del]

definition previous_char_boundary :: "string \<Rightarrow> nat \<Rightarrow> nat" where
  "previous_char_boundary text index = walk_down text (min index (length text))"

definition next_char_boundary :: "string \<Rightarrow> nat \<Rightarrow> nat" where
  "next_char_boundary text index = walk_up text (min index (length text))"

definition context_contains :: "text_env \<Rightarrow> string \<Rightarrow> nat \<Rightarrow> nat \<Rightarrow> string list \<Rightarrow> bool option" where
  "context_contains env text s e keywords =
     (if keywords = [] then Some False
      else let ws = previous_char_boundary text (s - 40);
               we = next_char_boundary text (min (e + 40) (length text))
           in map_option (\<lambda>w. list_ex (str_contains (te_to_lowercase env w)) keywords) (str_range text ws we))"

subsection \<open>Detection\<close>

definition recognize_match :: "text_env \<Rightarrow> recognizer \<Rightarrow> string \<Rightarrow> nat \<times> nat \<Rightarrow> pii_span list option" where
  "recognize_match env g text m =
     (let (a, b) = m; value = take (b - a) (drop a text)
      in if \<not> rg_validate g value then Some []
         else map_option (\<lambda>has_context.
                if rg_require_context g \<and> \<not> has_context then []
                else [\<lparr>sp_entity_type = rg_entity g, sp_start = a, sp_end = b, sp_value = value,
                       sp_confidence = (if has_context then min (rg_base_confidence g + 30 / 100) (99 / 100)
                                        else rg_base_confidence g), sp_source = ''regex''\<rparr>])
              (context_contains env text a b (rg_context g)))"

fun collect :: "('a \<Rightarrow> 'b list option) \<Rightarrow> 'a list \<Rightarrow> 'b list option" where
  "collect f [] = Some []"
| "collect f (x # xs) = Option.bind (f x) (\<lambda>ys. map_option (\<lambda>zs. ys @ zs) (collect f xs))"

definition recognize :: "text_env \<Rightarrow> regexes \<Rightarrow> string \<Rightarrow> recognizer \<Rightarrow> pii_span list option" where
  "recognize env rx text g =
     (case rx (rg_re g) of None \<Rightarrow> Some [] | Some find_iter \<Rightarrow> collect (recognize_match env g text) (find_iter text))"

definition detect_pii :: "text_env \<Rightarrow> regexes \<Rightarrow> string \<Rightarrow> pii_span list option" where
  "detect_pii env rx text = map_option pii_dedupe_overlaps (collect (recognize env rx text) recognizers)"

subsection \<open>Entity recogniser\<close>

type_synonym ner_provider = "string \<Rightarrow> (plugin_error, pii_span list) result"

record gliner_provider =
  gp_endpoint :: string
  gp_labels :: "string list"
  gp_min_confidence :: rat
  gp_timeout :: duration

definition gliner_new :: "string \<Rightarrow> gliner_provider" where
  "gliner_new endpoint =
     \<lparr>gp_endpoint = endpoint, gp_labels = [''person'', ''address'', ''organization''],
      gp_min_confidence = 80 / 100, gp_timeout = from_millis 80\<rparr>"

record gliner_entity =
  gl_label :: string
  gl_start :: nat
  gl_end :: nat
  gl_score :: f32

definition normalize_ner_label :: "string \<Rightarrow> string" where
  "normalize_ner_label label =
     (let l = to_ascii_lowercase (str_trim label)
      in if l \<in> {''person'', ''name''} then ''PERSON''
         else if l \<in> {''address'', ''location''} then ''ADDRESS''
         else if l \<in> {''organization'', ''org''} then ''ORGANIZATION''
         else to_ascii_uppercase l)"

definition span_value :: "string \<Rightarrow> nat \<Rightarrow> nat \<Rightarrow> string option" where
  "span_value text s e =
     (if s \<ge> e \<or> e > length text then None
      else if \<not> is_char_boundary text s \<or> \<not> is_char_boundary text e then None
      else str_range text s e)"

definition entity_span :: "gliner_provider \<Rightarrow> string \<Rightarrow> gliner_entity \<Rightarrow> pii_span list" where
  "entity_span p text e =
     (let confidence = clamp_unit_score (gl_score e)
      in if confidence < gp_min_confidence p then []
         else case span_value text (gl_start e) (gl_end e) of
                None \<Rightarrow> []
              | Some value \<Rightarrow>
                  [\<lparr>sp_entity_type = normalize_ner_label (gl_label e), sp_start = gl_start e, sp_end = gl_end e,
                    sp_value = value, sp_confidence = confidence, sp_source = ''ner''\<rparr>])"

text \<open>The endpoint's entities, when the whole exchange succeeds; every failure is an empty answer.\<close>

definition gliner_detect :: "(gliner_provider \<Rightarrow> string \<Rightarrow> gliner_entity list option) \<Rightarrow> gliner_provider \<Rightarrow> ner_provider" where
  "gliner_detect post p text =
     (case post p text of
        None \<Rightarrow> Inr []
      | Some entities \<Rightarrow> Inr (pii_dedupe_overlaps (concat (map (entity_span p text) entities))))"

subsection \<open>Redaction\<close>

definition pii_replacement :: "pii_span \<Rightarrow> string" where
  "pii_replacement s = ''[REDACTED_'' @ sp_entity_type s @ '']''"

definition pii_redaction :: "string \<Rightarrow> pii_span \<Rightarrow> redaction_finding" where
  "pii_redaction path s =
     \<lparr>rf_kind = sp_entity_type s, rf_confidence = sp_confidence s, rf_path = path @ '':offset:'' @ show_nat (sp_start s),
      rf_replacement = pii_replacement s\<rparr>"

definition anonymize_at_path :: "string \<Rightarrow> pii_span list \<Rightarrow> rat \<Rightarrow> string \<Rightarrow> (string \<times> redaction_finding list) option" where
  "anonymize_at_path text spans min_confidence path =
     (let spans = sort_key (\<lambda>s. - int (sp_start s))
            (filter (\<lambda>s. sp_confidence s \<ge> min_confidence) (pii_dedupe_overlaps spans))
      in map_option (\<lambda>t. (t, map (pii_redaction path) spans))
           (replace_spans sp_start sp_end pii_replacement spans text))"

definition pii_candidates :: "text_env \<Rightarrow> regexes \<Rightarrow> ner_provider option \<Rightarrow> string \<Rightarrow> pii_span list option" where
  "pii_candidates env rx ner text =
     map_option (\<lambda>spans.
         case ner of
           Some provider \<Rightarrow> (case provider text of Inr ner_spans \<Rightarrow> spans @ ner_spans | Inl _ \<Rightarrow> spans)
         | None \<Rightarrow> spans) (detect_pii env rx text)"

definition pii_redact_text :: "text_env \<Rightarrow> regexes \<Rightarrow> ner_provider option \<Rightarrow> rat \<Rightarrow> text_redactor" where
  "pii_redact_text env rx ner min_confidence text path =
     Option.bind (pii_candidates env rx ner text) (\<lambda>spans. anonymize_at_path text spans min_confidence path)"

definition redact_value_with_ner :: "text_env \<Rightarrow> regexes \<Rightarrow> json \<Rightarrow> rat \<Rightarrow> ner_provider option \<Rightarrow>
    (json \<times> redaction_finding list) option" where
  "redact_value_with_ner env rx v min_confidence ner = redact_tree (pii_redact_text env rx ner min_confidence) ''$'' v"


subsection \<open>Lemmas\<close>

interpretation pii_spans: span_guard sp_start sp_end sp_confidence pii_replacement pii_ranges_overlap pii_dedupe_overlaps
  by unfold_locales
     (auto simp: pii_ranges_overlap_def pii_dedupe_overlaps_def pii_replacement_def rep_ok_def is_cont_def)

lemma walk_down_boundary: "is_char_boundary text (walk_down text i)" "walk_down text i \<le> i"
  by (induction i) (auto simp: is_char_boundary_def)

lemma walk_up_boundary:
  "i \<le> length text \<Longrightarrow> is_char_boundary text (walk_up text i) \<and> i \<le> walk_up text i \<and> walk_up text i \<le> length text"
proof (induction "text" i rule: walk_up.induct)
  case (1 t i)
  then show ?case
    using walk_up.simps [of t i] by (auto simp: is_char_boundary_def)
qed

lemma context_total: "a \<le> b \<Longrightarrow> context_contains env text a b ks \<noteq> None"
proof -
  assume "a \<le> b"
  let ?ws = "previous_char_boundary text (a - 40)" and ?we = "next_char_boundary text (min (b + 40) (length text))"
  have "is_char_boundary text ?ws" "?ws \<le> min (a - 40) (length text)"
    by (simp_all only: previous_char_boundary_def walk_down_boundary)
  moreover have "is_char_boundary text ?we \<and> min (b + 40) (length text) \<le> ?we \<and> ?we \<le> length text"
    using walk_up_boundary [of "min (b + 40) (length text)" "text"] by (simp add: next_char_boundary_def)
  ultimately have "range_ok text ?ws ?we" using \<open>a \<le> b\<close> by (auto simp: range_ok_def)
  then show ?thesis by (auto simp: context_contains_def Let_def str_range_def)
qed

definition span_ok :: "string \<Rightarrow> pii_span \<Rightarrow> bool" where
  "span_ok text s \<longleftrightarrow> sp_start s < sp_end s \<and> range_ok text (sp_start s) (sp_end s)"

lemma collect_total:
  "\<forall>x\<in>set xs. \<exists>ys. f x = Some ys \<and> (\<forall>y\<in>set ys. P y) \<Longrightarrow> \<exists>zs. collect f xs = Some zs \<and> (\<forall>z\<in>set zs. P z)"
  by (induction xs) auto

lemma recognize_match_ok:
  "a < b \<Longrightarrow> range_ok text a b \<Longrightarrow> \<exists>ys. recognize_match env g text (a, b) = Some ys \<and> (\<forall>y\<in>set ys. span_ok text y)"
proof -
  assume ab: "a < b" "range_ok text a b"
  then obtain h where "context_contains env text a b (rg_context g) = Some h"
    using context_total [of a b env "text" "rg_context g"] by auto
  with ab show ?thesis by (cases h) (simp_all add: recognize_match_def Let_def span_ok_def)
qed

lemma detect_pii_ok:
  assumes "regexes_sound rx"
  shows "\<exists>ys. detect_pii env rx text = Some ys \<and> (\<forall>y\<in>set ys. span_ok text y)"
proof -
  have "\<exists>ys. recognize env rx text g = Some ys \<and> (\<forall>y\<in>set ys. span_ok text y)" for g
  proof (cases "rx (rg_re g)")
    case (Some find_iter)
    have "\<exists>ys. recognize_match env g text m = Some ys \<and> (\<forall>y\<in>set ys. span_ok text y)" if "m \<in> set (find_iter text)" for m
      using regexes_soundD [OF assms Some [symmetric], of "fst m" "snd m" "text"] that
        recognize_match_ok [of "fst m" "snd m" "text" env g] by simp
    then show ?thesis
      using collect_total [of "find_iter text" "recognize_match env g text" "span_ok text"] Some
      by (simp add: recognize_def)
  qed (simp add: recognize_def)
  then obtain zs where "collect (recognize env rx text) recognizers = Some zs" "\<forall>z\<in>set zs. span_ok text z"
    using collect_total [of recognizers "recognize env rx text" "span_ok text"] by blast
  moreover have "set (pii_dedupe_overlaps zs) \<subseteq> set zs" by (rule pii_spans.dedupe_subset)
  ultimately show ?thesis by (auto simp: detect_pii_def)
qed

definition ner_sound :: "ner_provider option \<Rightarrow> bool" where
  "ner_sound ner \<longleftrightarrow>
     (\<forall>provider text ys. ner = Some provider \<longrightarrow> provider text = Inr ys \<longrightarrow> (\<forall>y\<in>set ys. span_ok text y))"

text \<open>Whatever the endpoint answers, the provider hands on only spans of the text.\<close>

lemma gliner_sound: "ner_sound (Some (gliner_detect post p))"
proof -
  have "span_ok t y" if "y \<in> set (entity_span p t e)" for y t e
    using that by (auto simp: entity_span_def Let_def span_value_def span_ok_def range_ok_def split: if_splits option.splits)
  moreover have "y \<in> set (pii_dedupe_overlaps zs) \<Longrightarrow> y \<in> set zs" for y zs using pii_spans.dedupe_subset by blast
  ultimately show ?thesis by (auto simp: ner_sound_def gliner_detect_def split: option.splits) fastforce
qed

lemma anonymize_splices:
  assumes "\<forall>s\<in>set spans. span_ok text s"
    and "kept = filter (\<lambda>s. sp_confidence s \<ge> min_confidence) (pii_dedupe_overlaps spans)"
  shows "anonymize_at_path text spans min_confidence path =
    Some (splice sp_start sp_end pii_replacement text 0 kept, map (pii_redaction path) (rev kept))"
proof -
  have ok: "\<forall>s\<in>set spans. sp_start s < sp_end s \<and> range_ok text (sp_start s) (sp_end s)"
    using assms(1) by (simp add: span_ok_def)
  then have "sorted_wrt (\<lambda>x y. sp_end x \<le> sp_start y) (pii_dedupe_overlaps spans)"
    by (intro pii_spans.dedupe_ordered) simp
  then have "sorted_wrt (\<lambda>x y. sp_end x \<le> sp_start y) kept" unfolding assms(2) by (rule sorted_wrt_filter)
  moreover have "\<forall>s\<in>set kept. sp_start s < sp_end s"
    using assms(2) ok pii_spans.dedupe_subset by fastforce
  ultimately have "sorted_wrt (\<lambda>x y. sp_start x < sp_start y) kept"
    by (auto elim!: sorted_wrt_mono_rel [rotated] dest!: bspec)
  then have "sort_key (\<lambda>s. - int (sp_start s)) kept = rev kept" by (rule sort_key_rev)
  then show ?thesis
    using pii_spans.redact_splices [OF ok assms(2)] by (simp add: anonymize_at_path_def assms(2) [symmetric] Let_def)
qed

lemma pii_silent_id: "silent_id (pii_redact_text env rx ner c)"
  by (auto simp: silent_id_def pii_redact_text_def anonymize_at_path_def Let_def Option.bind_eq_Some_conv)

lemma pii_candidates_ok:
  assumes "regexes_sound rx" "ner_sound ner"
  shows "\<exists>spans. pii_candidates env rx ner text = Some spans \<and> (\<forall>s\<in>set spans. span_ok text s)"
proof -
  obtain ys where ys: "detect_pii env rx text = Some ys" "\<forall>y\<in>set ys. span_ok text y"
    using detect_pii_ok [OF assms(1)] by blast
  show ?thesis
  proof (cases "\<exists>provider zs. ner = Some provider \<and> provider text = Inr zs")
    case True
    then obtain provider zs where p: "ner = Some provider" "provider text = Inr zs" by blast
    with assms(2) have "\<forall>s\<in>set (ys @ zs). span_ok text s" using ys(2) unfolding ner_sound_def by auto
    with p ys(1) show ?thesis by (simp add: pii_candidates_def)
  next
    case False
    with ys show ?thesis by (auto simp: pii_candidates_def split: option.splits sum.splits)
  qed
qed

lemma redact_value_total:
  assumes "regexes_sound rx" "ner_sound ner"
  shows "\<exists>w fs. redact_value_with_ner env rx v c ner = Some (w, fs)"
proof -
  have "pii_redact_text env rx ner c t p \<noteq> None" for t p
    using pii_candidates_ok [OF assms, of env t] anonymize_splices by (fastforce simp: pii_redact_text_def)
  then have "redact_value_with_ner env rx v c ner \<noteq> None"
    unfolding redact_value_with_ner_def by (intro redact_total) simp
  then show ?thesis by auto
qed

lemma out_redact_value_total:
  assumes "regexes_sound rx" shows "\<exists>w fs. out_redact_value rx v = Some (w, fs)"
proof -
  have "out_redact_value rx v \<noteq> None"
    unfolding out_redact_value_def by (intro redact_total) (simp add: out_redact_text_splices [OF assms])
  then show ?thesis by auto
qed


text \<open>
  C11. Redaction is exact and cannot panic: for regular expressions that report ranges of the text and any
  entity recogniser that does, the text of a JSON string is rewritten in one pass: the candidates kept lie
  one after the other, each is replaced by its label, everything between them is copied, and a candidate of
  sufficient confidence that is not kept overlaps a kept one that is at least as confident.
\<close>

theorem pii_redaction_exact:
  assumes "regexes_sound rx" and "ner_sound ner"
  shows "\<exists>spans kept. pii_candidates env rx ner text = Some spans \<and>
    pii_redact_text env rx ner c text path =
      Some (splice sp_start sp_end pii_replacement text 0 kept, map (pii_redaction path) (rev kept)) \<and>
    sorted_wrt (\<lambda>x y. sp_end x \<le> sp_start y) kept \<and> set kept \<subseteq> set spans \<and>
    (\<forall>x\<in>set spans. c \<le> sp_confidence x \<longrightarrow>
       x \<in> set kept \<or> (\<exists>y\<in>set kept. pii_ranges_overlap y x \<and> sp_confidence x \<le> sp_confidence y))"
proof -
  obtain spans where s: "pii_candidates env rx ner text = Some spans" "\<forall>s\<in>set spans. span_ok text s"
    using pii_candidates_ok [OF assms] by blast
  define kept where "kept = filter (\<lambda>s. sp_confidence s \<ge> c) (pii_dedupe_overlaps spans)"
  have "sorted_wrt (\<lambda>x y. sp_end x \<le> sp_start y) kept"
    unfolding kept_def using s(2) by (intro sorted_wrt_filter pii_spans.dedupe_ordered) (simp add: span_ok_def)
  moreover have "x \<in> set kept \<or> (\<exists>y\<in>set kept. pii_ranges_overlap y x \<and> sp_confidence x \<le> sp_confidence y)"
    if "x \<in> set spans" "c \<le> sp_confidence x" for x
    using pii_spans.dedupe_maximal [OF that(1)] that(2) unfolding kept_def by auto
  moreover have "set kept \<subseteq> set spans" unfolding kept_def using pii_spans.dedupe_subset by auto
  ultimately show ?thesis
    using s anonymize_splices [OF s(2) kept_def] by (intro exI [of _ spans] exI [of _ kept]) (simp add: pii_redact_text_def)
qed

definition demo_regexes :: regexes where
  "demo_regexes = (\<lambda>r. Some (\<lambda>text. if r = RE_EMAIL \<and> text = ''to a@b.co'' then [(3, 9)] else []))"

lemma demo_regexes_sound: "regexes_sound demo_regexes"
  by (auto simp: regexes_sound_def demo_regexes_def range_ok_def is_char_boundary_def is_cont_def)

theorem pii_redaction_exact_witness:
  "\<exists>spans kept. pii_candidates demo_text_env demo_regexes None ''to a@b.co'' = Some spans \<and>
    pii_redact_text demo_text_env demo_regexes None (4 / 5) ''to a@b.co'' ''$'' =
      Some (splice sp_start sp_end pii_replacement ''to a@b.co'' 0 kept, map (pii_redaction ''$'') (rev kept)) \<and>
    sorted_wrt (\<lambda>x y. sp_end x \<le> sp_start y) kept \<and> set kept \<subseteq> set spans \<and>
    (\<forall>x\<in>set spans. 4 / 5 \<le> sp_confidence x \<longrightarrow>
       x \<in> set kept \<or> (\<exists>y\<in>set kept. pii_ranges_overlap y x \<and> sp_confidence x \<le> sp_confidence y))"
  using demo_regexes_sound by (intro pii_redaction_exact) (simp_all add: ner_sound_def)

lemma mod_add_cancel:
  fixes a b r m :: nat
  assumes "(a + r) mod m = (b + r) mod m"
  shows "a mod m = b mod m"
proof -
  have "int (a + r) mod int m = int (b + r) mod int m" using assms by (metis zmod_int)
  then have "int m dvd int (a + r) - int (b + r)" by (simp only: mod_eq_dvd_iff)
  then have "int m dvd int a - int b" by simp
  then have "int a mod int m = int b mod int m" by (simp only: mod_eq_dvd_iff)
  then show ?thesis by (metis zmod_int of_nat_eq_iff)
qed

lemma luhn_digit_inj:
  assumes "d < 10" "e < 10" "luhn_digit b d mod 10 = luhn_digit b e mod 10"
  shows "d = e"
proof -
  have "luhn_digit b d < 10" "luhn_digit b e < 10" using assms(1,2) by (auto simp: luhn_digit_def)
  with assms(3) have "luhn_digit b d = luhn_digit b e" by simp
  then show ?thesis by (cases b) (simp_all add: luhn_digit_def split: if_splits, presburger+)
qed

lemma luhn_loop_append: "luhn_loop b (xs @ ys) = luhn_loop b xs + luhn_loop (if even (length xs) then b else \<not> b) ys"
  by (induction xs arbitrary: b) auto

lemma digits_of_append [simp]: "digits_of (a @ b) = digits_of a @ digits_of b"
  by (simp add: digits_of_def map_filter_def)

lemma digits_of_Cons: "digit_of c = Some d \<Longrightarrow> digits_of (c # s) = d # digits_of s"
  by (simp add: digits_of_def map_filter_def)

lemma digit_of_less: "digit_of c = Some d \<Longrightarrow> d < 10"
  by (auto simp: digit_of_def Let_def split: if_splits)

lemma digit_of_inj: "digit_of c = Some d \<Longrightarrow> digit_of c' = Some d \<Longrightarrow> c = c'"
  by (auto simp: digit_of_def Let_def split: if_splits) (metis diff_diff_cancel diff_le_self eq_diff_iff of_char_eq_iff)

text \<open>
  The card check catches every mistyped digit: changing one digit of an accepted number into another
  digit, wherever it stands and whatever separators surround it, makes the check fail.
\<close>

lemma luhn_catches_substitution:
  assumes "luhn_valid (pre @ [x] @ post)" and "digit_of x = Some d" and "digit_of y = Some e" and "x \<noteq> y"
  shows "\<not> luhn_valid (pre @ [y] @ post)"
proof
  assume *: "luhn_valid (pre @ [y] @ post)"
  let ?b = "if even (length (rev (digits_of post))) then False else True"
  let ?rest = "luhn_loop False (rev (digits_of post)) + luhn_loop (\<not> ?b) (rev (digits_of pre))"
  have "luhn_loop False (rev (digits_of (pre @ [z] @ post))) = luhn_digit ?b f + ?rest" if "digit_of z = Some f" for z f
    using that by (simp add: luhn_loop_append digits_of_Cons)
  with assms * have "(luhn_digit ?b d + ?rest) mod 10 = 0" "(luhn_digit ?b e + ?rest) mod 10 = 0"
    by (auto simp: luhn_valid_def Let_def)
  then have "luhn_digit ?b d mod 10 = luhn_digit ?b e mod 10" using mod_add_cancel [of _ ?rest 10] by metis
  then have "d = e" using luhn_digit_inj digit_of_less assms(2,3) by blast
  with assms digit_of_inj show False by blast
qed

end
