(* ===== verification/Guard_Pipeline.thy ===== *)
theory Guard_Pipeline
  imports Guard_Pii "HOL-Library.List_Lexorder" "HOL-Library.Char_ord"
begin

text \<open>
  \<^verbatim>\<open>lib.rs\<close>, \<^verbatim>\<open>config.rs\<close> and \<^verbatim>\<open>event.rs\<close> of \<^verbatim>\<open>src/crates/dek-guard-pipeline/src\<close>: the scan of a request
  and of a response, the modes, and the event a scan is reported with. A scan that panics is \<open>None\<close>;
  the printing of floating-point JSON numbers is a parameter.
\<close>

subsection \<open>Configuration\<close>

datatype guard_mode = GmObserve | GmWarn | GmEnforce | GmStrictDeny

record guard_thresholds =
  gt_injection_warn_score :: rat
  gt_injection_deny_score :: rat
  gt_pii_confidence :: rat

definition default_guard_thresholds :: guard_thresholds where
  "default_guard_thresholds =
     \<lparr>gt_injection_warn_score = 45 / 100, gt_injection_deny_score = 75 / 100, gt_pii_confidence = 80 / 100\<rparr>"

datatype ner_provider_kind = NerGliner | NerCustomHttp

record third_party_ner_config =
  tn_provider_id :: string
  tn_provider_kind :: ner_provider_kind
  tn_endpoint :: string
  tn_labels :: "string list"
  tn_min_confidence :: f32
  tn_timeout_ms :: nat

definition ner_config_gliner :: "string \<Rightarrow> third_party_ner_config" where
  "ner_config_gliner endpoint =
     \<lparr>tn_provider_id = ''gliner'', tn_provider_kind = NerGliner, tn_endpoint = endpoint,
      tn_labels = [''person'', ''address'', ''organization''], tn_min_confidence = Fin (80 / 100), tn_timeout_ms = 80\<rparr>"

record guard_config =
  gc_mode :: guard_mode
  gc_request_guard_enabled :: bool
  gc_response_guard_enabled :: bool
  gc_telemetry_enabled :: bool
  gc_enable_classifier :: bool
  gc_enable_ner :: bool
  gc_ner_provider :: "third_party_ner_config option"
  gc_enable_spotlight :: bool
  gc_output_canary :: "string option"
  gc_thresholds :: guard_thresholds

definition default_guard_config :: guard_config where
  "default_guard_config =
     \<lparr>gc_mode = GmEnforce, gc_request_guard_enabled = True, gc_response_guard_enabled = True,
      gc_telemetry_enabled = True, gc_enable_classifier = False, gc_enable_ner = False, gc_ner_provider = None,
      gc_enable_spotlight = True, gc_output_canary = None, gc_thresholds = default_guard_thresholds\<rparr>"

subsection \<open>Pipeline\<close>

record guard_env =
  ge_text :: text_env
  ge_regex :: regexes
  ge_show_float :: "f64 \<Rightarrow> string"
  ge_ner_post :: "gliner_provider \<Rightarrow> string \<Rightarrow> gliner_entity list option"

datatype guard_action = GAllow | GRedact | GDeny

record guard_outcome =
  go_action :: guard_action
  go_injection_score :: rat
  go_categories :: "string list"
  go_findings :: "redaction_finding list"
  go_redacted_payload :: "json option"
  go_normalization_steps :: "string list"
  go_confidence :: rat

definition outcome_allow :: guard_outcome where
  "outcome_allow =
     \<lparr>go_action = GAllow, go_injection_score = 0, go_categories = [], go_findings = [], go_redacted_payload = None,
      go_normalization_steps = [], go_confidence = 1\<rparr>"

record guard_pipeline =
  gp_cfg :: guard_config
  gp_ner :: "ner_provider option"
  gp_classifier :: "(string \<Rightarrow> (plugin_error, injection_score) result) option"

definition build_third_party_ner_provider :: "guard_env \<Rightarrow> third_party_ner_config \<Rightarrow> ner_provider" where
  "build_third_party_ner_provider env c =
     gliner_detect (ge_ner_post env)
       ((gliner_new (tn_endpoint c))\<lparr>gp_labels := tn_labels c, gp_min_confidence := clamp_unit_score (tn_min_confidence c),
          gp_timeout := from_millis (tn_timeout_ms c)\<rparr>)"

definition build_ner_provider :: "guard_env \<Rightarrow> guard_config \<Rightarrow> ner_provider option" where
  "build_ner_provider env cfg =
     (if \<not> gc_enable_ner cfg then None else map_option (build_third_party_ner_provider env) (gc_ner_provider cfg))"

definition guard_pipeline_new :: "guard_env \<Rightarrow> guard_config \<Rightarrow> guard_pipeline" where
  "guard_pipeline_new env cfg = \<lparr>gp_cfg = cfg, gp_ner = build_ner_provider env cfg, gp_classifier = None\<rparr>"

definition append_text :: "string \<Rightarrow> string \<Rightarrow> string" where
  "append_text t out = (if t = [] then out else if out \<noteq> [] then out @ '' '' @ t else t)"

fun append_payload_text :: "(f64 \<Rightarrow> string) \<Rightarrow> json \<Rightarrow> string \<Rightarrow> string" where
  "append_payload_text sf JNull out = out"
| "append_payload_text sf (JBool b) out = append_text (show_bool b) out"
| "append_payload_text sf (JInt i) out = append_text (show_int i) out"
| "append_payload_text sf (JFloat x) out = append_text (sf x) out"
| "append_payload_text sf (JStr s) out = append_text s out"
| "append_payload_text sf (JArr vs) out = fold (append_payload_text sf) vs out"
| "append_payload_text sf (JObj m) out = fold (\<lambda>kv. append_payload_text sf (snd kv)) m out"

definition payload_to_text :: "guard_env \<Rightarrow> json \<Rightarrow> string" where
  "payload_to_text env v = append_payload_text (ge_show_float env) v []"

record combined_scan =
  cs_score :: rat
  cs_categories :: "string list"
  cs_normalization_steps :: "string list"

definition scan_injection_text :: "guard_env \<Rightarrow> guard_pipeline \<Rightarrow> string \<Rightarrow> combined_scan" where
  "scan_injection_text env p t =
     (let report = scan_text (ge_text env) (ge_regex env) t;
          base = \<lparr>cs_score = ir_confidence report, cs_categories = ir_categories report,
                  cs_normalization_steps = ir_normalization_steps report\<rparr>
      in if gc_enable_classifier (gp_cfg p)
         then case gp_classifier p of
                None \<Rightarrow> base
              | Some classify \<Rightarrow>
                  (case classify (ir_normalized_text report) of
                     Inl _ \<Rightarrow> base
                   | Inr classified \<Rightarrow>
                       let classifier_score = clamp_unit_score (is_score classified)
                       in if classifier_score > 0
                          then \<lparr>cs_score = clamp_unit_score (Fin (cs_score base + classifier_score)),
                                cs_categories = fold push_unique (is_categories classified) (cs_categories base),
                                cs_normalization_steps = cs_normalization_steps base @ [''classifier_score'']\<rparr>
                          else base)
         else base)"

definition redact_pii_value :: "guard_env \<Rightarrow> guard_pipeline \<Rightarrow> json \<Rightarrow> (json \<times> redaction_finding list) option" where
  "redact_pii_value env p payload =
     redact_value_with_ner (ge_text env) (ge_regex env) payload (gt_pii_confidence (gc_thresholds (gp_cfg p)))
       (if gc_enable_ner (gp_cfg p) then gp_ner p else None)"

definition apply_mode :: "guard_pipeline \<Rightarrow> guard_outcome \<Rightarrow> guard_outcome" where
  "apply_mode p x =
     (case gc_mode (gp_cfg p) of
        GmObserve \<Rightarrow> if go_action x \<noteq> GAllow then x\<lparr>go_action := GAllow, go_redacted_payload := None\<rparr> else x
      | GmWarn \<Rightarrow> if go_action x \<noteq> GAllow then x\<lparr>go_action := GAllow, go_redacted_payload := None\<rparr> else x
      | GmStrictDeny \<Rightarrow> if go_action x = GRedact then x\<lparr>go_action := GDeny, go_redacted_payload := None\<rparr> else x
      | GmEnforce \<Rightarrow> x)"

definition scan_request :: "guard_env \<Rightarrow> guard_pipeline \<Rightarrow> json \<Rightarrow> guard_outcome option" where
  "scan_request env p payload =
     (if \<not> gc_request_guard_enabled (gp_cfg p) then Some outcome_allow
      else
        let scanned = scan_injection_text env p (payload_to_text env payload)
        in map_option (\<lambda>(pii_payload, findings).
             let has_pii = (findings \<noteq> []);
                 action = (if cs_score scanned \<ge> gt_injection_deny_score (gc_thresholds (gp_cfg p)) then GDeny
                           else if cs_score scanned > 0 \<or> has_pii then GRedact else GAllow)
             in if action = GAllow then outcome_allow
                else apply_mode p
                  \<lparr>go_action = action, go_injection_score = cs_score scanned,
                   go_categories = (if has_pii then push_unique ''llm02_sensitive_information_disclosure'' (cs_categories scanned)
                                    else cs_categories scanned),
                   go_findings = findings, go_redacted_payload = (if has_pii then Some pii_payload else None),
                   go_normalization_steps = cs_normalization_steps scanned,
                   go_confidence = (if has_pii then gt_pii_confidence (gc_thresholds (gp_cfg p)) else cs_score scanned)\<rparr>)
           (redact_pii_value env p payload))"

definition leak_outcome :: "combined_scan \<Rightarrow> guard_outcome" where
  "leak_outcome scanned =
     \<lparr>go_action = GDeny, go_injection_score = cs_score scanned,
      go_categories = push_unique ''llm07_system_prompt_leakage'' (cs_categories scanned), go_findings = [],
      go_redacted_payload = None, go_normalization_steps = cs_normalization_steps scanned, go_confidence = 1\<rparr>"

definition spotlight_outcome :: "combined_scan \<Rightarrow> bool \<Rightarrow> bool \<Rightarrow> redaction_finding list \<Rightarrow> json \<Rightarrow> guard_outcome" where
  "spotlight_outcome scanned has_pii has_output findings working =
     (let c1 = push_unique ''llm11_indirect_prompt_injection_boundary'' (cs_categories scanned);
          c2 = (if has_pii then push_unique ''llm02_sensitive_information_disclosure'' c1 else c1);
          c3 = (if has_output then push_unique ''llm05_improper_output_handling'' c2 else c2)
      in \<lparr>go_action = GRedact, go_injection_score = cs_score scanned, go_categories = c3, go_findings = findings,
          go_redacted_payload = Some (spotlight_payload working default_spotlight_marker),
          go_normalization_steps = cs_normalization_steps scanned @ [''spotlight_untrusted_data''],
          go_confidence = (if cs_score scanned > 0 then cs_score scanned else 1)\<rparr>)"

definition redaction_outcome :: "guard_pipeline \<Rightarrow> combined_scan \<Rightarrow> bool \<Rightarrow> bool \<Rightarrow> redaction_finding list \<Rightarrow> json \<Rightarrow> guard_outcome" where
  "redaction_outcome p scanned has_pii has_output findings working =
     (let c1 = (if has_pii then push_unique ''llm02_sensitive_information_disclosure'' [] else []);
          c2 = (if has_output then push_unique ''llm05_improper_output_handling'' c1 else c1)
      in \<lparr>go_action = GRedact, go_injection_score = cs_score scanned, go_categories = c2, go_findings = findings,
          go_redacted_payload = Some working, go_normalization_steps = cs_normalization_steps scanned,
          go_confidence = (if has_pii then gt_pii_confidence (gc_thresholds (gp_cfg p)) else 1)\<rparr>)"

definition response_outcome :: "guard_pipeline \<Rightarrow> combined_scan \<Rightarrow> json \<Rightarrow> redaction_finding list \<Rightarrow> json \<Rightarrow>
    json \<times> redaction_finding list \<Rightarrow> guard_outcome" where
  "response_outcome p scanned payload output_findings working pii =
     (let has_output = (output_findings \<noteq> []);
          has_pii = (snd pii \<noteq> []);
          working = (if has_pii then fst pii else working);
          findings = output_findings @ snd pii
      in if gc_enable_spotlight (gp_cfg p) \<and> is_untrusted_payload payload
         then apply_mode p (spotlight_outcome scanned has_pii has_output findings working)
         else if has_pii \<or> has_output
         then apply_mode p (redaction_outcome p scanned has_pii has_output findings working)
         else outcome_allow)"

definition scan_response :: "guard_env \<Rightarrow> guard_pipeline \<Rightarrow> json \<Rightarrow> guard_outcome option" where
  "scan_response env p payload =
     (if \<not> gc_response_guard_enabled (gp_cfg p) then Some outcome_allow
      else
        let t = payload_to_text env payload;
            scanned = scan_injection_text env p t;
            report = scan_output (ge_regex env) t (gc_output_canary (gp_cfg p))
        in if og_prompt_leak report \<or> og_canary_leak report then Some (apply_mode p (leak_outcome scanned))
           else
             Option.bind (out_redact_value (ge_regex env) payload) (\<lambda>(output_payload, output_findings).
               let working = (if output_findings \<noteq> [] then output_payload else payload)
               in map_option (response_outcome p scanned payload output_findings working) (redact_pii_value env p working)))"

subsection \<open>Transform plugin\<close>

datatype transform_direction = TdRequest | TdResponse

fun transform_scan :: "guard_env \<Rightarrow> guard_pipeline \<Rightarrow> transform_direction \<Rightarrow> json \<Rightarrow> guard_outcome option" where
  "transform_scan env p TdRequest v = scan_request env p v"
| "transform_scan env p TdResponse v = scan_response env p v"

definition transform_payload :: "guard_env \<Rightarrow> guard_pipeline \<Rightarrow> transform_direction \<Rightarrow> json \<Rightarrow> (json \<times> redaction_finding list) option" where
  "transform_payload env p d v =
     map_option (\<lambda>x. (case go_redacted_payload x of Some w \<Rightarrow> w | None \<Rightarrow> v, go_findings x)) (transform_scan env p d v)"

subsection \<open>Events\<close>

record guard_finding_summary =
  gs_kind :: string
  gs_count :: nat

record guard_remediation =
  gr_user_message :: string
  gr_recommended_actions :: "string list"
  gr_doc_url :: "string option"
  gr_can_override :: bool

record guard_event =
  gv_event_id :: string
  gv_ts :: string
  gv_tenant_id :: "string option"
  gv_agent_id :: "string option"
  gv_direction :: string
  gv_action :: guard_action
  gv_categories :: "string list"
  gv_injection_score :: rat
  gv_findings_summary :: "guard_finding_summary list"
  gv_severity :: string
  gv_remediation :: guard_remediation
  gv_redaction_applied :: bool

text \<open>The counts are kept in a \<^verbatim>\<open>BTreeMap\<close>: one entry per kind, in the order of the kinds.\<close>

definition summarize_findings :: "redaction_finding list \<Rightarrow> guard_finding_summary list" where
  "summarize_findings fs =
     map (\<lambda>k. \<lparr>gs_kind = k, gs_count = min 4294967295 (count_list (map rf_kind fs) k)\<rparr>) (sort (remdups (map rf_kind fs)))"

definition severity_for :: "guard_action \<Rightarrow> string list \<Rightarrow> string" where
  "severity_for action categories =
     (if action = GDeny \<and> list_ex (\<lambda>c. c = ''llm01_prompt_injection'' \<or> c = ''llm07_system_prompt_leakage'') categories
      then ''critical''
      else if action = GDeny \<or> action = GRedact then ''warn''
      else ''info'')"

definition remediation_for :: "guard_action \<Rightarrow> string list \<Rightarrow> guard_remediation" where
  "remediation_for action categories =
     (if list_ex (\<lambda>c. c = ''llm01_prompt_injection'') categories
      then \<lparr>gr_user_message = bytes [224, 184, 132, 224, 184, 179, 224, 184, 130, 224, 184, 173, 224, 184, 150, 224, 184, 185, 224, 184, 129, 224, 184, 154, 224, 184, 165, 224, 185, 135, 224, 184, 173, 224, 184, 129, 224, 185, 128, 224, 184, 158, 224, 184, 163, 224, 184, 178, 224, 184, 176, 224, 184, 149, 224, 184, 163, 224, 184, 167, 224, 184, 136, 224, 184, 158, 224, 184, 154, 224, 184, 163, 224, 184, 185, 224, 184, 155, 224, 185, 129, 224, 184, 154, 224, 184, 154, 32, 112, 114, 111, 109, 112, 116, 32, 105, 110, 106, 101, 99, 116, 105, 111, 110, 32, 224, 184, 171, 224, 184, 163, 224, 184, 183, 224, 184, 173, 224, 184, 132, 224, 184, 179, 224, 184, 170, 224, 184, 177, 224, 185, 136, 224, 184, 135, 224, 185, 129, 224, 184, 157, 224, 184, 135],
        gr_recommended_actions = [bytes [224, 184, 149, 224, 184, 163, 224, 184, 167, 224, 184, 136, 224, 184, 170, 224, 184, 173, 224, 184, 154, 224, 184, 130, 224, 185, 137, 224, 184, 173, 224, 184, 132, 224, 184, 167, 224, 184, 178, 224, 184, 161, 224, 184, 171, 224, 184, 163, 224, 184, 183, 224, 184, 173, 224, 185, 128, 224, 184, 173, 224, 184, 129, 224, 184, 170, 224, 184, 178, 224, 184, 163, 224, 184, 149, 224, 185, 137, 224, 184, 153, 224, 184, 151, 224, 184, 178, 224, 184, 135, 224, 184, 151, 224, 184, 181, 224, 185, 136, 32, 97, 103, 101, 110, 116, 32, 224, 184, 129, 224, 184, 179, 224, 184, 165, 224, 184, 177, 224, 184, 135, 224, 185, 131, 224, 184, 138, 224, 185, 137],
          bytes [224, 184, 165, 224, 184, 154, 224, 184, 132, 224, 184, 179, 224, 184, 170, 224, 184, 177, 224, 185, 136, 224, 184, 135, 224, 185, 129, 224, 184, 157, 224, 184, 135, 224, 184, 151, 224, 184, 181, 224, 185, 136, 224, 184, 158, 224, 184, 162, 224, 184, 178, 224, 184, 162, 224, 184, 178, 224, 184, 161, 224, 185, 128, 224, 184, 155, 224, 184, 165, 224, 184, 181, 224, 185, 136, 224, 184, 162, 224, 184, 153, 32, 115, 121, 115, 116, 101, 109, 47, 100, 101, 118, 101, 108, 111, 112, 101, 114, 32, 105, 110, 115, 116, 114, 117, 99, 116, 105, 111, 110],
          bytes [224, 184, 130, 224, 184, 173, 224, 184, 173, 224, 184, 153, 224, 184, 184, 224, 184, 161, 224, 184, 177, 224, 184, 149, 224, 184, 180, 224, 184, 156, 224, 185, 136, 224, 184, 178, 224, 184, 153, 32, 104, 117, 109, 97, 110, 45, 105, 110, 45, 116, 104, 101, 45, 108, 111, 111, 112, 32, 224, 184, 150, 224, 185, 137, 224, 184, 178, 224, 185, 128, 224, 184, 155, 224, 185, 135, 224, 184, 153, 224, 184, 135, 224, 184, 178, 224, 184, 153, 224, 184, 151, 224, 184, 181, 224, 185, 136, 224, 184, 149, 224, 184, 177, 224, 185, 137, 224, 184, 135, 224, 185, 131, 224, 184, 136, 224, 184, 151, 224, 184, 179, 224, 184, 136, 224, 184, 163, 224, 184, 180, 224, 184, 135]],
        gr_doc_url = Some ''https://pollek.ai/docs/guard/prompt-injection'', gr_can_override = True\<rparr>
      else if list_ex (\<lambda>c. c = ''llm07_system_prompt_leakage'') categories
      then \<lparr>gr_user_message = bytes [224, 184, 156, 224, 184, 165, 224, 184, 165, 224, 184, 177, 224, 184, 158, 224, 184, 152, 224, 185, 140, 224, 184, 150, 224, 184, 185, 224, 184, 129, 224, 184, 154, 224, 184, 165, 224, 185, 135, 224, 184, 173, 224, 184, 129, 224, 185, 128, 224, 184, 158, 224, 184, 163, 224, 184, 178, 224, 184, 176, 224, 184, 161, 224, 184, 181, 224, 184, 170, 224, 184, 177, 224, 184, 141, 224, 184, 141, 224, 184, 178, 224, 184, 147, 224, 184, 167, 224, 185, 136, 224, 184, 178, 32, 115, 121, 115, 116, 101, 109, 32, 112, 114, 111, 109, 112, 116, 32, 224, 184, 171, 224, 184, 163, 224, 184, 183, 224, 184, 173, 32, 99, 97, 110, 97, 114, 121, 32, 116, 111, 107, 101, 110, 32, 224, 184, 173, 224, 184, 178, 224, 184, 136, 224, 184, 163, 224, 184, 177, 224, 185, 136, 224, 184, 167, 224, 185, 132, 224, 184, 171, 224, 184, 165],
        gr_recommended_actions = [bytes [224, 184, 173, 224, 184, 162, 224, 185, 136, 224, 184, 178, 224, 184, 170, 224, 185, 136, 224, 184, 135, 224, 184, 156, 224, 184, 165, 224, 184, 165, 224, 184, 177, 224, 184, 158, 224, 184, 152, 224, 185, 140, 224, 184, 153, 224, 184, 181, 224, 185, 137, 224, 184, 129, 224, 184, 165, 224, 184, 177, 224, 184, 154, 224, 185, 132, 224, 184, 155, 224, 185, 131, 224, 184, 171, 224, 185, 137, 32, 97, 103, 101, 110, 116, 32, 224, 184, 171, 224, 184, 163, 224, 184, 183, 224, 184, 173, 224, 184, 156, 224, 184, 185, 224, 185, 137, 224, 185, 131, 224, 184, 138, 224, 185, 137, 224, 184, 155, 224, 184, 165, 224, 184, 178, 224, 184, 162, 224, 184, 151, 224, 184, 178, 224, 184, 135],
          bytes [224, 184, 171, 224, 184, 161, 224, 184, 184, 224, 184, 153, 224, 185, 128, 224, 184, 167, 224, 184, 181, 224, 184, 162, 224, 184, 153, 32, 99, 97, 110, 97, 114, 121, 47, 115, 101, 99, 114, 101, 116, 32, 224, 184, 151, 224, 184, 181, 224, 185, 136, 224, 185, 128, 224, 184, 129, 224, 184, 181, 224, 185, 136, 224, 184, 162, 224, 184, 167, 224, 184, 130, 224, 185, 137, 224, 184, 173, 224, 184, 135, 224, 184, 150, 224, 185, 137, 224, 184, 178, 224, 184, 158, 224, 184, 154, 224, 184, 129, 224, 184, 178, 224, 184, 163, 224, 184, 163, 224, 184, 177, 224, 185, 136, 224, 184, 167, 224, 185, 132, 224, 184, 171, 224, 184, 165, 224, 184, 136, 224, 184, 163, 224, 184, 180, 224, 184, 135],
          bytes [224, 184, 149, 224, 184, 163, 224, 184, 167, 224, 184, 136, 224, 184, 170, 224, 184, 173, 224, 184, 154, 32, 116, 111, 111, 108, 32, 111, 117, 116, 112, 117, 116, 32, 224, 185, 129, 224, 184, 165, 224, 184, 176, 32, 99, 111, 110, 118, 101, 114, 115, 97, 116, 105, 111, 110, 32, 224, 184, 129, 224, 185, 136, 224, 184, 173, 224, 184, 153, 224, 184, 171, 224, 184, 153, 224, 185, 137, 224, 184, 178]],
        gr_doc_url = Some ''https://pollek.ai/docs/guard/system-prompt-leak'', gr_can_override = False\<rparr>
      else if list_ex (\<lambda>c. c = ''llm02_sensitive_information_disclosure'') categories
      then \<lparr>gr_user_message = bytes [224, 184, 130, 224, 185, 137, 224, 184, 173, 224, 184, 161, 224, 184, 185, 224, 184, 165, 224, 184, 173, 224, 185, 136, 224, 184, 173, 224, 184, 153, 224, 185, 132, 224, 184, 171, 224, 184, 167, 224, 184, 150, 224, 184, 185, 224, 184, 129, 224, 184, 155, 224, 184, 129, 224, 184, 155, 224, 184, 180, 224, 184, 148, 224, 184, 129, 224, 185, 136, 224, 184, 173, 224, 184, 153, 224, 184, 170, 224, 185, 136, 224, 184, 135, 224, 184, 149, 224, 185, 136, 224, 184, 173],
        gr_recommended_actions = [bytes [224, 184, 149, 224, 184, 163, 224, 184, 167, 224, 184, 136, 224, 184, 170, 224, 184, 173, 224, 184, 154, 224, 184, 167, 224, 185, 136, 224, 184, 178, 224, 184, 130, 224, 185, 137, 224, 184, 173, 224, 184, 161, 224, 184, 185, 224, 184, 165, 224, 184, 151, 224, 184, 181, 224, 185, 136, 224, 184, 150, 224, 184, 185, 224, 184, 129, 224, 184, 155, 224, 184, 129, 224, 184, 155, 224, 184, 180, 224, 184, 148, 224, 184, 136, 224, 184, 179, 224, 185, 128, 224, 184, 155, 224, 185, 135, 224, 184, 153, 224, 184, 149, 224, 185, 136, 224, 184, 173, 224, 184, 132, 224, 184, 179, 224, 184, 130, 224, 184, 173, 224, 184, 171, 224, 184, 163, 224, 184, 183, 224, 184, 173, 224, 185, 132, 224, 184, 161, 224, 185, 136],
          bytes [224, 185, 131, 224, 184, 138, 224, 185, 137, 32, 100, 97, 116, 97, 32, 109, 105, 110, 105, 109, 105, 122, 97, 116, 105, 111, 110, 32, 224, 184, 171, 224, 184, 163, 224, 184, 183, 224, 184, 173, 224, 185, 128, 224, 184, 165, 224, 184, 183, 224, 184, 173, 224, 184, 129, 32, 114, 101, 115, 111, 117, 114, 99, 101, 32, 224, 184, 151, 224, 184, 181, 224, 185, 136, 224, 185, 129, 224, 184, 132, 224, 184, 154, 224, 184, 165, 224, 184, 135],
          bytes [224, 185, 128, 224, 184, 155, 224, 184, 180, 224, 184, 148, 32, 84, 104, 105, 114, 100, 32, 80, 97, 114, 116, 121, 32, 78, 69, 82, 32, 224, 185, 131, 224, 184, 153, 32, 69, 110, 116, 101, 114, 112, 114, 105, 115, 101, 32, 67, 108, 111, 117, 100, 32, 224, 184, 150, 224, 185, 137, 224, 184, 178, 224, 184, 149, 224, 185, 137, 224, 184, 173, 224, 184, 135, 224, 184, 129, 224, 184, 178, 224, 184, 163, 224, 184, 136, 224, 184, 177, 224, 184, 154, 224, 184, 138, 224, 184, 183, 224, 185, 136, 224, 184, 173, 47, 224, 184, 151, 224, 184, 181, 224, 185, 136, 224, 184, 173, 224, 184, 162, 224, 184, 185, 224, 185, 136, 224, 184, 171, 224, 184, 165, 224, 184, 178, 224, 184, 162, 224, 184, 160, 224, 184, 178, 224, 184, 169, 224, 184, 178, 224, 185, 131, 224, 184, 171, 224, 185, 137, 224, 184, 165, 224, 184, 176, 224, 185, 128, 224, 184, 173, 224, 184, 181, 224, 184, 162, 224, 184, 148, 224, 184, 130, 224, 184, 182, 224, 185, 137, 224, 184, 153]],
        gr_doc_url = Some ''https://pollek.ai/docs/guard/pii-redaction'', gr_can_override = False\<rparr>
      else if list_ex (\<lambda>c. c = ''llm05_improper_output_handling'') categories
      then \<lparr>gr_user_message = bytes [224, 184, 156, 224, 184, 165, 224, 184, 165, 224, 184, 177, 224, 184, 158, 224, 184, 152, 224, 185, 140, 224, 184, 150, 224, 184, 185, 224, 184, 129, 224, 184, 155, 224, 184, 129, 224, 184, 155, 224, 184, 180, 224, 184, 148, 224, 185, 128, 224, 184, 158, 224, 184, 163, 224, 184, 178, 224, 184, 176, 224, 184, 158, 224, 184, 154, 32, 115, 101, 99, 114, 101, 116, 32, 224, 184, 171, 224, 184, 163, 224, 184, 183, 224, 184, 173, 32, 109, 97, 114, 107, 117, 112, 32, 224, 184, 151, 224, 184, 181, 224, 185, 136, 224, 185, 128, 224, 184, 170, 224, 184, 181, 224, 185, 136, 224, 184, 162, 224, 184, 135, 224, 184, 129, 224, 185, 136, 224, 184, 173, 224, 184, 153, 224, 184, 170, 224, 185, 136, 224, 184, 135, 224, 184, 129, 224, 184, 165, 224, 184, 177, 224, 184, 154, 32, 97, 103, 101, 110, 116],
        gr_recommended_actions = [bytes [224, 184, 149, 224, 184, 163, 224, 184, 167, 224, 184, 136, 224, 184, 170, 224, 184, 173, 224, 184, 154, 32, 116, 111, 111, 108, 32, 224, 184, 171, 224, 184, 163, 224, 184, 183, 224, 184, 173, 32, 65, 80, 73, 32, 224, 184, 151, 224, 184, 181, 224, 185, 136, 224, 184, 170, 224, 185, 136, 224, 184, 135, 224, 184, 132, 224, 185, 136, 224, 184, 178, 32, 115, 101, 99, 114, 101, 116, 32, 224, 184, 129, 224, 184, 165, 224, 184, 177, 224, 184, 154, 224, 184, 161, 224, 184, 178],
          bytes [224, 184, 155, 224, 184, 180, 224, 184, 148, 224, 184, 129, 224, 184, 178, 224, 184, 163, 32, 101, 99, 104, 111, 32, 116, 111, 107, 101, 110, 47, 107, 101, 121, 32, 224, 185, 131, 224, 184, 153, 32, 108, 111, 103, 32, 224, 185, 129, 224, 184, 165, 224, 184, 176, 32, 114, 101, 115, 112, 111, 110, 115, 101],
          bytes [224, 184, 170, 224, 185, 136, 224, 184, 135, 224, 184, 173, 224, 184, 173, 224, 184, 129, 224, 185, 128, 224, 184, 137, 224, 184, 158, 224, 184, 178, 224, 184, 176, 224, 184, 130, 224, 185, 137, 224, 184, 173, 224, 184, 132, 224, 184, 167, 224, 184, 178, 224, 184, 161, 224, 184, 151, 224, 184, 181, 224, 185, 136, 224, 184, 156, 224, 185, 136, 224, 184, 178, 224, 184, 153, 32, 102, 105, 108, 116, 101, 114, 32, 114, 101, 115, 112, 111, 110, 115, 101, 32, 224, 185, 129, 224, 184, 165, 224, 185, 137, 224, 184, 167]],
        gr_doc_url = Some ''https://pollek.ai/docs/guard/output-handling'', gr_can_override = False\<rparr>
      else if action = GRedact
      then \<lparr>gr_user_message = bytes [224, 184, 163, 224, 184, 176, 224, 184, 154, 224, 184, 154, 224, 184, 155, 224, 184, 129, 224, 184, 155, 224, 184, 180, 224, 184, 148, 224, 184, 130, 224, 185, 137, 224, 184, 173, 224, 184, 161, 224, 184, 185, 224, 184, 165, 224, 184, 154, 224, 184, 178, 224, 184, 135, 224, 184, 170, 224, 185, 136, 224, 184, 167, 224, 184, 153, 224, 184, 129, 224, 185, 136, 224, 184, 173, 224, 184, 153, 224, 184, 170, 224, 185, 136, 224, 184, 135, 224, 184, 149, 224, 185, 136, 224, 184, 173],
        gr_recommended_actions = [bytes [224, 184, 149, 224, 184, 163, 224, 184, 167, 224, 184, 136, 224, 184, 170, 224, 184, 173, 224, 184, 154, 224, 184, 163, 224, 184, 178, 224, 184, 162, 224, 184, 165, 224, 184, 176, 224, 185, 128, 224, 184, 173, 224, 184, 181, 224, 184, 162, 224, 184, 148, 224, 185, 131, 224, 184, 153, 32, 71, 117, 97, 114, 100, 32, 73, 110, 99, 105, 100, 101, 110, 116, 32, 70, 101, 101, 100]],
        gr_doc_url = Some ''https://pollek.ai/docs/guard'', gr_can_override = False\<rparr>
      else \<lparr>gr_user_message = bytes [224, 185, 132, 224, 184, 161, 224, 185, 136, 224, 184, 158, 224, 184, 154, 224, 185, 128, 224, 184, 171, 224, 184, 149, 224, 184, 184, 224, 184, 129, 224, 184, 178, 224, 184, 163, 224, 184, 147, 224, 185, 140, 224, 184, 151, 224, 184, 181, 224, 185, 136, 224, 184, 149, 224, 185, 137, 224, 184, 173, 224, 184, 135, 224, 184, 154, 224, 184, 165, 224, 185, 135, 224, 184, 173, 224, 184, 129, 224, 184, 171, 224, 184, 163, 224, 184, 183, 224, 184, 173, 224, 184, 155, 224, 184, 129, 224, 184, 155, 224, 184, 180, 224, 184, 148],
        gr_recommended_actions = [],
        gr_doc_url = Some ''https://pollek.ai/docs/guard'', gr_can_override = False\<rparr>)"

definition event_from_outcome :: "string \<Rightarrow> string \<Rightarrow> string option \<Rightarrow> string option \<Rightarrow> string \<Rightarrow> guard_outcome \<Rightarrow> bool \<Rightarrow> guard_event" where
  "event_from_outcome event_id ts tenant_id agent_id direction x redaction_applied =
     \<lparr>gv_event_id = event_id, gv_ts = ts, gv_tenant_id = tenant_id, gv_agent_id = agent_id, gv_direction = direction,
      gv_action = go_action x, gv_categories = go_categories x, gv_injection_score = go_injection_score x,
      gv_findings_summary = summarize_findings (go_findings x),
      gv_severity = severity_for (go_action x) (go_categories x),
      gv_remediation = remediation_for (go_action x) (go_categories x), gv_redaction_applied = redaction_applied\<rparr>"


subsection \<open>Lemmas\<close>

lemma same_shape_refl [simp]: "same_shape v v"
proof (induction v)
  case (JObj m)
  have "rel_prod (=) same_shape kv kv" if "kv \<in> set m" for kv
    using JObj [OF that, of "snd kv"] by (cases kv) simp
  then show ?case by (simp add: list.rel_refl_strong)
qed (simp_all add: list.rel_refl_strong)

lemma same_shape_trans: "same_shape u v \<Longrightarrow> same_shape v w \<Longrightarrow> same_shape u w"
proof (induction u v arbitrary: w rule: same_shape.induct)
  case (1 s t)
  then show ?case by (cases w) auto
next
  case (2 xs ys)
  from "2.prems"(2) obtain zs where zs: "w = JArr zs" "list_all2 same_shape ys zs" by (cases w) auto
  have "same_shape (xs ! i) (zs ! i)" if "i < length xs" for i
    using "2.IH" [of "xs ! i" "ys ! i" "zs ! i"] "2.prems"(1) zs(2) that by (simp add: list_all2_conv_all_nth)
  with "2.prems"(1) zs show ?case by (simp add: list_all2_conv_all_nth)
next
  case (3 m m')
  from "3.prems"(2) obtain n where n: "w = JObj n" "list_all2 (rel_prod (=) same_shape) m' n" by (cases w) auto
  have "same_shape (snd (m ! i)) (snd (n ! i))" if "i < length m" for i
    using "3.IH" [of "m ! i" "m' ! i" "snd (m ! i)" "snd (m' ! i)" "snd (n ! i)"] "3.prems"(1) n(2) that
    by (simp add: list_all2_conv_all_nth rel_prod_sel snds.simps)
  with "3.prems"(1) n show ?case by (simp add: list_all2_conv_all_nth rel_prod_sel)
qed auto


lemma spotlight_shape: "same_shape v (spotlight_value m k v)"
proof (induction m k v rule: spotlight_value.induct)
  case (3 m k kvs)
  have "rel_prod (=) same_shape kv (case kv of (k, v) \<Rightarrow> (k, spotlight_value m (Some k) v))" if "kv \<in> set kvs" for kv
    using "3.IH" [OF that, of "fst kv" "snd kv"] by (cases kv) simp
  then show ?case by (auto simp: list_all2_map2 intro: list.rel_refl_strong)
qed (simp_all add: list_all2_map2 list.rel_refl_strong)

lemma redact_pii_shape: "redact_pii_value env p v = Some (w, fs) \<Longrightarrow> same_shape v w"
  by (auto simp: redact_pii_value_def redact_value_with_ner_def dest: redact_shape)

lemma out_redact_shape: "out_redact_value rx v = Some (w, fs) \<Longrightarrow> same_shape v w"
  by (auto simp: out_redact_value_def dest: redact_shape)

lemma apply_mode_payload: "go_redacted_payload (apply_mode p x) = Some w \<Longrightarrow> go_redacted_payload x = Some w"
  by (auto simp: apply_mode_def split: guard_mode.splits if_splits)

lemma scan_request_shape:
  "scan_request env p v = Some x \<Longrightarrow> go_redacted_payload x = Some w \<Longrightarrow> same_shape v w"
  by (auto simp: scan_request_def Let_def outcome_allow_def split: if_splits prod.splits
      dest!: apply_mode_payload redact_pii_shape)

lemma scan_response_cases:
  assumes "scan_response env p v = Some x"
  obtains (allowed) "x = outcome_allow"
  | (leak) s where "x = apply_mode p (leak_outcome s)"
  | (scanned) a fs b gs s where "out_redact_value (ge_regex env) v = Some (a, fs)"
      "redact_pii_value env p (if fs \<noteq> [] then a else v) = Some (b, gs)"
      "x = response_outcome p s v fs (if fs \<noteq> [] then a else v) (b, gs)"
proof (cases "gc_response_guard_enabled (gp_cfg p)")
  case True
  let ?t = "payload_to_text env v"
  let ?r = "scan_output (ge_regex env) ?t (gc_output_canary (gp_cfg p))"
  show thesis
  proof (cases "og_prompt_leak ?r \<or> og_canary_leak ?r")
    case True': True
    with True assms have "x = apply_mode p (leak_outcome (scan_injection_text env p ?t))"
      by (simp add: scan_response_def Let_def)
    then show thesis by (rule leak)
  next
    case False
    with True assms obtain a fs b gs where "out_redact_value (ge_regex env) v = Some (a, fs)"
        "redact_pii_value env p (if fs \<noteq> [] then a else v) = Some (b, gs)"
        "x = response_outcome p (scan_injection_text env p ?t) v fs (if fs \<noteq> [] then a else v) (b, gs)"
      unfolding scan_response_def Let_def
      by (simp only: if_True if_False not_True_eq_False not_False_eq_True) (auto simp: Option.bind_eq_Some_conv simp del: de_Morgan_disj)
    then show thesis by (rule scanned)
  qed
next
  case False
  with assms have "x = outcome_allow" by (simp add: scan_response_def)
  then show thesis by (rule allowed)
qed

lemma scan_response_shape:
  assumes "scan_response env p v = Some x" "go_redacted_payload x = Some w"
  shows "same_shape v w"
proof -
  have resp: "go_redacted_payload (response_outcome p s v fs u (b, gs)) = Some w \<Longrightarrow>
      w \<in> {if gs \<noteq> [] then b else u, spotlight_payload (if gs \<noteq> [] then b else u) default_spotlight_marker}" for s fs u b gs
    by (auto simp: response_outcome_def Let_def spotlight_outcome_def redaction_outcome_def outcome_allow_def
        split: if_splits dest!: apply_mode_payload)
  have no: "go_redacted_payload outcome_allow = None" "go_redacted_payload (apply_mode p (leak_outcome s)) \<noteq> Some w" for s
    by (auto simp: outcome_allow_def leak_outcome_def dest!: apply_mode_payload)
  show ?thesis
    using assms(1)
  proof (cases rule: scan_response_cases)
    case (scanned a fs b gs s)
    let ?v1 = "if fs \<noteq> [] then a else v"
    let ?working = "if gs \<noteq> [] then b else ?v1"
    have "same_shape v ?v1" using scanned(1) by (auto dest: out_redact_shape)
    moreover have "same_shape ?v1 ?working" using scanned(2) by (auto dest: redact_pii_shape)
    moreover have "same_shape ?working w"
      using resp [of s fs ?v1 b gs] assms(2) scanned(3) spotlight_shape by (auto simp: spotlight_payload_def)
    ultimately show ?thesis by (blast intro: same_shape_trans)
  qed (use assms(2) no in auto)
qed

text \<open>
  C8. The guards preserve the type of what they rewrite: the payload handed on, for a request or a response
  and in every mode, has the shape of the payload scanned; keys, array lengths, numbers, booleans and nulls
  are untouched and only strings differ.
\<close>

theorem guard_preserves_shape:
  assumes "transform_payload env p d v = Some (w, fs)"
  shows "same_shape v w"
proof -
  from assms obtain x where x: "transform_scan env p d v = Some x" "w = (case go_redacted_payload x of Some w \<Rightarrow> w | None \<Rightarrow> v)"
    by (auto simp: transform_payload_def)
  show ?thesis
  proof (cases "go_redacted_payload x")
    case None
    with x show ?thesis by simp
  next
    case (Some u)
    with x show ?thesis using scan_request_shape scan_response_shape by (cases d) auto
  qed
qed


definition demo_guard_env :: guard_env where
  "demo_guard_env = \<lparr>ge_text = demo_text_env, ge_regex = demo_regexes, ge_show_float = (\<lambda>_. ''0.5''), ge_ner_post = (\<lambda>_ _. None)\<rparr>"

definition demo_pipeline :: guard_pipeline where
  "demo_pipeline = guard_pipeline_new demo_guard_env default_guard_config"

definition guard_sound :: "guard_env \<Rightarrow> guard_pipeline \<Rightarrow> bool" where
  "guard_sound env p \<longleftrightarrow> regexes_sound (ge_regex env) \<and> (gc_enable_ner (gp_cfg p) \<longrightarrow> ner_sound (gp_ner p))"

text \<open>Every pipeline the code builds from a configuration is sound, whatever its endpoints answer.\<close>

lemma built_pipeline_sound: "regexes_sound (ge_regex env) \<Longrightarrow> guard_sound env (guard_pipeline_new env cfg)"
proof -
  have "ner_sound (build_ner_provider env cfg)"
  proof (cases "build_ner_provider env cfg")
    case (Some provider)
    then obtain c where "provider = build_third_party_ner_provider env c"
      by (auto simp: build_ner_provider_def split: if_splits)
    with Some show ?thesis by (simp add: build_third_party_ner_provider_def gliner_sound)
  qed (simp add: ner_sound_def)
  then show "regexes_sound (ge_regex env) \<Longrightarrow> ?thesis" by (simp add: guard_sound_def guard_pipeline_new_def)
qed

lemma demo_guard_sound: "guard_sound demo_guard_env demo_pipeline"
  unfolding demo_pipeline_def by (rule built_pipeline_sound) (simp add: demo_guard_env_def demo_regexes_sound)

lemma redact_pii_total: "guard_sound env p \<Longrightarrow> \<exists>w fs. redact_pii_value env p v = Some (w, fs)"
  unfolding redact_pii_value_def by (rule redact_value_total) (auto simp: guard_sound_def ner_sound_def)

text \<open>The classifier can only raise the score.\<close>

lemma classifier_raises:
  "ir_confidence (scan_text (ge_text env) (ge_regex env) t) \<le> cs_score (scan_injection_text env p t)"
proof -
  let ?r = "scan_text (ge_text env) (ge_regex env) t"
  have "ir_confidence ?r \<le> 1"
    by (simp add: scan_text_def scan_normalized_exact(3,2))
  then have "ir_confidence ?r \<le> clamp_unit_score (Fin (ir_confidence ?r + c))" if "0 < c" for c
    using that by (auto simp: clamp_unit_score_def)
  then show ?thesis by (auto simp: scan_injection_text_def Let_def split: option.splits sum.splits)
qed

fun mode_action :: "guard_mode \<Rightarrow> guard_action \<Rightarrow> guard_action" where
  "mode_action GmEnforce a = a"
| "mode_action GmStrictDeny a = (if a = GRedact then GDeny else a)"
| "mode_action _ a = GAllow"

lemma apply_mode_action: "go_action (apply_mode p x) = mode_action (gc_mode (gp_cfg p)) (go_action x)"
  by (cases "gc_mode (gp_cfg p)"; cases "go_action x") (auto simp: apply_mode_def)

lemma apply_mode_kept:
  "go_redacted_payload (apply_mode p x) =
     (if go_action (apply_mode p x) = go_action x then go_redacted_payload x else None)"
  by (cases "gc_mode (gp_cfg p)"; cases "go_action x") (auto simp: apply_mode_def)

text \<open>
  C9. What the request guard decides, exactly: with regular expressions that report ranges of the text, a
  scan always returns; it denies from the configured score on, otherwise redacts when anything was found in
  the text or as personal data, otherwise allows; observe and warn modes turn every outcome into an allow
  and strict mode turns a redaction into a deny; the redacted payload is handed on exactly when personal
  data was found and the mode kept the decision.
\<close>

theorem request_guard_exact:
  fixes v :: json
  assumes "guard_sound env p" and "gc_request_guard_enabled (gp_cfg p)"
  defines "score \<equiv> cs_score (scan_injection_text env p (payload_to_text env v))"
  shows "\<exists>w fs x. redact_pii_value env p v = Some (w, fs) \<and> scan_request env p v = Some x \<and>
    (let base = (if score \<ge> gt_injection_deny_score (gc_thresholds (gp_cfg p)) then GDeny
                 else if score > 0 \<or> fs \<noteq> [] then GRedact else GAllow)
     in go_action x = mode_action (gc_mode (gp_cfg p)) base \<and>
        go_redacted_payload x = (if fs \<noteq> [] \<and> base = go_action x then Some w else None))"
proof -
  obtain w fs where r: "redact_pii_value env p v = Some (w, fs)" using redact_pii_total [OF assms(1)] by blast
  show ?thesis
    using assms(2) r
    by (intro exI [of _ w] exI [of _ fs])
       (auto simp: scan_request_def score_def [symmetric] apply_mode_action apply_mode_kept outcome_allow_def Let_def
         split: guard_mode.splits, (cases "gc_mode (gp_cfg p)"; simp)+)
qed


lemma scan_request_total: "guard_sound env p \<Longrightarrow> \<exists>x. scan_request env p v = Some x"
  using redact_pii_total [of env p v] by (auto simp: scan_request_def Let_def)

theorem guard_preserves_shape_witness:
  "\<exists>w fs. transform_payload demo_guard_env demo_pipeline TdRequest (JObj [(''n'', JInt 1), (''to'', JStr ''to a@b.co'')]) = Some (w, fs) \<and>
     same_shape (JObj [(''n'', JInt 1), (''to'', JStr ''to a@b.co'')]) w"
proof -
  let ?v = "JObj [(''n'', JInt 1), (''to'', JStr ''to a@b.co'')]"
  obtain w fs where "transform_payload demo_guard_env demo_pipeline TdRequest ?v = Some (w, fs)"
    using scan_request_total [OF demo_guard_sound, of ?v] by (auto simp: transform_payload_def)
  then show ?thesis using guard_preserves_shape by blast
qed

theorem request_guard_exact_witness:
  "let score = cs_score (scan_injection_text demo_guard_env demo_pipeline (payload_to_text demo_guard_env (JStr ''to a@b.co'')))
   in \<exists>w fs x. redact_pii_value demo_guard_env demo_pipeline (JStr ''to a@b.co'') = Some (w, fs) \<and>
    scan_request demo_guard_env demo_pipeline (JStr ''to a@b.co'') = Some x \<and>
    (let base = (if score \<ge> gt_injection_deny_score (gc_thresholds (gp_cfg demo_pipeline)) then GDeny
                 else if score > 0 \<or> fs \<noteq> [] then GRedact else GAllow)
     in go_action x = mode_action (gc_mode (gp_cfg demo_pipeline)) base \<and>
        go_redacted_payload x = (if fs \<noteq> [] \<and> base = go_action x then Some w else None))"
  using request_guard_exact [OF demo_guard_sound, of "JStr ''to a@b.co''"]
  by (simp only: Let_def) (simp add: demo_pipeline_def guard_pipeline_new_def default_guard_config_def)

lemma signature_weights: "r \<in> set signature_rules \<Longrightarrow> sr_weight r \<le> 100"
  by (auto simp: signature_rules_def)

text \<open>
  C10. Zero-width characters do not hide an injection: when the matched form of a text contains a phrase of
  a signature whose weight reaches the configured score, every request whose text differs from it only by
  zero-width characters, put anywhere, is denied in the enforcing modes, whatever the other rules, the
  regular expressions and the classifier say.
\<close>

theorem hidden_injection_denied:
  assumes "guard_sound env p" and "gc_request_guard_enabled (gp_cfg p)" and "gc_mode (gp_cfg p) \<in> {GmEnforce, GmStrictDeny}"
    and "r \<in> set signature_rules" and "needle \<in> set (sr_needles r)"
    and "gt_injection_deny_score (gc_thresholds (gp_cfg p)) \<le> of_nat (sr_weight r) / 100"
    and "list_all utf8_group cs" and "list_all utf8_group ds"
    and "filter (\<lambda>c. c \<notin> set zero_width_chars) cs = filter (\<lambda>c. c \<notin> set zero_width_chars) ds"
    and "str_contains (nt_text (normalize_for_match (ge_text env) (concat ds))) needle"
    and "payload_to_text env v = concat cs"
  shows "\<exists>x. scan_request env p v = Some x \<and> go_action x = GDeny"
proof -
  let ?n = "normalize_for_match (ge_text env) (concat cs)"
  have "strip_zero_width (concat cs) = strip_zero_width (concat ds)"
    using assms(7,8,9) by (rule strip_zero_width_inserted)
  then have "str_contains (nt_text ?n) needle" using assms(10) by (simp add: nt_text_match)
  then have "sr_weight r \<le> ir_score (scan_normalized (ge_regex env) ?n)"
    using signature_rule_hit [OF assms(4,5)] signature_weights [OF assms(4)] by (simp add: scan_normalized_exact(2))
  then have "(of_nat (sr_weight r) :: rat) / 100 \<le> ir_confidence (scan_text (ge_text env) (ge_regex env) (concat cs))"
    unfolding scan_text_def scan_normalized_exact(3) by (simp del: of_nat_min add: divide_right_mono)
  then have "gt_injection_deny_score (gc_thresholds (gp_cfg p)) \<le> cs_score (scan_injection_text env p (payload_to_text env v))"
    using assms(6,11) classifier_raises [of env "concat cs" p] by simp
  moreover obtain w fs where "redact_pii_value env p v = Some (w, fs)" using redact_pii_total [OF assms(1)] by blast
  ultimately show ?thesis
    using assms(2,3) by (auto simp: scan_request_def Let_def apply_mode_action)
qed

theorem hidden_injection_denied_witness:
  "\<exists>x. scan_request demo_guard_env demo_pipeline (JStr (''by'' @ bytes [226, 128, 139] @ ''pass policy'')) = Some x \<and> go_action x = GDeny"
proof (rule hidden_injection_denied [where r = "signature_rules ! 0" and needle = "''bypass policy''"
      and cs = "[''b'', ''y'', bytes [226, 128, 139]] @ map (\<lambda>c. [c]) ''pass policy''"
      and ds = "map (\<lambda>c. [c]) ''bypass policy''"])
  show "str_contains (nt_text (normalize_for_match (ge_text demo_guard_env) (concat (map (\<lambda>c. [c]) ''bypass policy'')))) ''bypass policy''"
    using plain_text_fixed [of "''bypass policy''"]
    by (simp add: demo_guard_env_def plain_char_def starts_with_def)
qed (use demo_guard_sound in \<open>simp_all add: demo_pipeline_def guard_pipeline_new_def default_guard_config_def
      default_guard_thresholds_def signature_rules_def utf8_group_def is_cont_def bytes_def zero_width_chars_def
      payload_to_text_def append_text_def\<close>)

end
