(* ===== verification/Guard_Plugins.thy ===== *)
theory Guard_Plugins
  imports Guard_Pipeline
begin

text \<open>
  The two guard plugins the proxy links: \<^verbatim>\<open>src/plugins/content-guard/src/lib.rs\<close>, a keyword guard with its
  own normalisation, and \<^verbatim>\<open>src/plugins/pii-redactor/src/lib.rs\<close>, a detector whose redaction overwrites
  every match without removing overlaps first. The recognisers of the latter are parameters.
\<close>

subsection \<open>Content guard\<close>

definition input_rules :: "signature_rule list" where
  "input_rules =
  [\<lparr>sr_id = ''instruction_override'', sr_category = ''llm01_prompt_injection'', sr_weight = 35,
      sr_needles = [''ignore previous instructions'',
        ''ignore all prior'',
        ''disregard the above'',
        ''forget earlier instructions'',
        ''do not follow the policy'',
        ''bypass policy'',
        ''override safety'']\<rparr>,
   \<lparr>sr_id = ''role_rebinding'', sr_category = ''llm01_prompt_injection'', sr_weight = 30,
      sr_needles = [''you are now'',
        ''act as system'',
        ''developer mode'',
        ''jailbreak'',
        ''dan mode'']\<rparr>,
   \<lparr>sr_id = ''secret_exfiltration'', sr_category = ''llm02_sensitive_information_disclosure'', sr_weight = 35,
      sr_needles = [''reveal your instructions'',
        ''show hidden prompt'',
        ''print system prompt'',
        ''leak secrets'',
        ''dump environment'']\<rparr>,
   \<lparr>sr_id = ''payment_redirect'', sr_category = ''llm06_excessive_agency'', sr_weight = 35,
      sr_needles = [''redirect all payments'',
        ''change payout account'']\<rparr>,
   \<lparr>sr_id = ''multilingual_override'', sr_category = ''llm01_prompt_injection'', sr_weight = 30,
      sr_needles = [''ignora las instrucciones anteriores'',
        ''ignore les instructions precedentes'',
        ''ne tiens pas compte des instructions'',
        ''ignoriere vorherige anweisungen'',
        bytes [224, 185, 132, 224, 184, 161, 224, 185, 136, 224, 184, 149, 224, 185, 137, 224, 184, 173, 224, 184, 135, 224, 184, 151, 224, 184, 179, 224, 184, 149, 224, 184, 178, 224, 184, 161, 224, 184, 132, 224, 184, 179, 224, 184, 170, 224, 184, 177, 224, 185, 136, 224, 184, 135, 224, 184, 129, 224, 185, 136, 224, 184, 173, 224, 184, 153, 224, 184, 171, 224, 184, 153, 224, 185, 137, 224, 184, 178],
        bytes [224, 184, 165, 224, 184, 176, 224, 185, 128, 224, 184, 167, 224, 185, 137, 224, 184, 153, 224, 184, 132, 224, 184, 179, 224, 184, 170, 224, 184, 177, 224, 185, 136, 224, 184, 135, 224, 184, 129, 224, 185, 136, 224, 184, 173, 224, 184, 153, 224, 184, 171, 224, 184, 153, 224, 185, 137, 224, 184, 178],
        bytes [229, 137, 141, 227, 129, 174, 230, 140, 135, 231, 164, 186, 227, 130, 146, 231, 132, 161, 232, 166, 150],
        bytes [228, 187, 165, 229, 137, 141, 227, 129, 174, 230, 140, 135, 231, 164, 186, 227, 130, 146, 231, 132, 161, 232, 166, 150]]\<rparr>]"

definition output_rules :: "signature_rule list" where
  "output_rules =
  [\<lparr>sr_id = ''secret_echo'', sr_category = ''llm05_improper_output_handling'', sr_weight = 60,
      sr_needles = [''sk-'',
        ''akia'',
        ''xoxb-'',
        ''ghp_'',
        ''api_key'',
        ''api-key'',
        ''password='',
        ''-----begin'']\<rparr>,
   \<lparr>sr_id = ''unsafe_html_markdown'', sr_category = ''llm05_improper_output_handling'', sr_weight = 55,
      sr_needles = [''<script'',
        ''javascript:'',
        ''onerror='',
        ''onload='',
        ''data:text/html'',
        ''[click](javascript:'']\<rparr>,
   \<lparr>sr_id = ''prompt_leakage'', sr_category = ''llm07_system_prompt_leakage'', sr_weight = 45,
      sr_needles = [''system prompt'',
        ''developer message'',
        ''hidden instructions'',
        ''internal policy'']\<rparr>]"

definition cg_confusables :: "(char \<times> nat list list) list" where
  "cg_confusables =
  [(CHR ''a'', [[208, 176], [208, 144], [206, 177], [206, 145]]),
   (CHR ''e'', [[208, 181], [208, 149], [206, 181], [206, 149]]),
   (CHR ''i'', [[209, 150], [208, 134], [206, 185], [206, 153]]),
   (CHR ''o'', [[208, 190], [208, 158], [206, 191], [206, 159]]),
   (CHR ''p'', [[209, 128], [208, 160], [207, 129], [206, 161]]),
   (CHR ''c'', [[209, 129], [208, 161], [207, 178]]),
   (CHR ''y'', [[209, 131], [208, 163], [206, 179], [206, 165]]),
   (CHR ''x'', [[209, 133], [208, 165], [207, 135], [206, 167]])]"

definition cg_fold_confusables :: "string \<Rightarrow> string" where
  "cg_fold_confusables s =
     concat (map (\<lambda>c. case find (\<lambda>(_, cs). c \<in> set (map bytes cs)) cg_confusables of Some (l, _) \<Rightarrow> [l] | None \<Rightarrow> c) (utf8_chars s))"

definition cg_decode_common_entities :: "string \<Rightarrow> string" where
  "cg_decode_common_entities s =
     fold (\<lambda>(p, r). str_replace_all p r)
       [(''&lt;'', ''<''), (''&gt;'', ''>''), (''&amp;'', ''&''), (''&#x3c;'', ''<''), (''&#x3e;'', ''>''),
        (''&#60;'', ''<''), (''&#62;'', ''>'')] s"

definition cg_decode_base64_candidates :: "text_env \<Rightarrow> string \<Rightarrow> string list" where
  "cg_decode_base64_candidates env t =
     List.map_filter (\<lambda>token.
         let trimmed = trim_matches (\<lambda>c. c \<in> {''.'', '':'', ''['', '']'', ''{'', ''}''}) token
         in if \<not> candidate_token trimmed then None
            else map_option (te_to_lowercase env) (decode_base64_text env (concat trimmed)))
       (split_by token_separator (utf8_chars t))"

definition cg_normalize_for_match :: "text_env \<Rightarrow> string \<Rightarrow> normalized_text" where
  "cg_normalize_for_match env t =
     (let c0 = strip_zero_width t;
          s0 = (if c0 \<noteq> t then [''strip_zero_width''] else []);
          decoded = cg_decode_base64_candidates env c0;
          s1 = (if decoded \<noteq> [] then s0 @ [''decode_base64_candidates''] else s0);
          folded = te_to_lowercase env (cg_fold_confusables c0);
          (c1, s2) = (if folded \<noteq> c0 then (folded, s1 @ [''casefold_confusables'']) else (c0, s1));
          d = cg_decode_common_entities c1;
          (c2, s3) = (if d \<noteq> c1 then (d, s2 @ [''decode_html_entities'']) else (c1, s2));
          p = percent_decode_ascii c2;
          (c3, s4) = (if p \<noteq> c2 then (p, s3 @ [''percent_decode'']) else (c2, s3))
      in \<lparr>nt_text = (if decoded \<noteq> [] then c3 @ '' '' @ str_join '' '' decoded else c3), nt_steps = s4\<rparr>)"

record guard_result =
  gu_injection_detected :: bool
  gu_matched :: "string list"
  gu_recommended :: string
  gu_score :: nat
  gu_confidence :: rat
  gu_normalization_steps :: "string list"
  gu_categories :: "string list"

definition rule_fires :: "string \<Rightarrow> signature_rule \<Rightarrow> bool" where
  "rule_fires t r \<longleftrightarrow> list_ex (str_contains t) (sr_needles r)"

definition cg_evaluate :: "text_env \<Rightarrow> string \<Rightarrow> signature_rule list \<Rightarrow> guard_result" where
  "cg_evaluate env t rules =
     (let normalized = cg_normalize_for_match env t;
          fired = filter (rule_fires (nt_text normalized)) rules;
          score = foldl (\<lambda>s r. u16_saturating_add s (sr_weight r)) 0 fired
      in \<lparr>gu_injection_detected = score > 0, gu_matched = map sr_id fired,
          gu_recommended = (if score \<ge> 60 then ''deny'' else if score > 0 then ''redact'' else ''allow''),
          gu_score = score, gu_confidence = (if score = 0 then 0 else of_nat (min score 100) / 100),
          gu_normalization_steps = nt_steps normalized,
          gu_categories = foldl (\<lambda>cs r. push_unique (sr_category r) cs) [] fired\<rparr>)"

definition cg_scan :: "text_env \<Rightarrow> string \<Rightarrow> guard_result" where
  "cg_scan env t = cg_evaluate env t input_rules"

definition cg_scan_output :: "text_env \<Rightarrow> string \<Rightarrow> guard_result" where
  "cg_scan_output env t = cg_evaluate env t (input_rules @ output_rules)"

definition redact_token :: "text_env \<Rightarrow> string \<Rightarrow> string" where
  "redact_token env token =
     (let normalized = nt_text (cg_normalize_for_match env token)
      in if list_ex (\<lambda>r. list_ex (str_contains normalized) (sr_needles r)) output_rules
         then ''[REDACTED_BY_POLLEK_OUTPUT_GUARD]'' else token)"

definition cg_redact_text :: "text_env \<Rightarrow> string \<Rightarrow> string" where
  "cg_redact_text env t = str_join '' '' (map (redact_token env) (split_whitespace char_is_whitespace t))"

subsection \<open>PII redactor\<close>

datatype plugin_regex_id = P_EMAIL | P_PHONE | P_CC | P_THAI_ID | P_PASSPORT | P_BANK | P_IP | P_UUID | P_JWT | P_API_KEY

record detected_entity =
  de_entity_type :: string
  de_start :: nat
  de_end :: nat
  de_value :: string
  de_confidence :: rat
  de_source :: string

type_synonym plugin_regexes = "plugin_regex_id \<Rightarrow> string \<Rightarrow> (nat \<times> nat) list"

definition plugin_patterns :: "(string \<times> plugin_regex_id \<times> rat) list" where
  "plugin_patterns =
     [(''EMAIL'', P_EMAIL, 1),
      (''PHONE'', P_PHONE, 9 / 10),
      (''CREDIT_CARD'', P_CC, 95 / 100),
      (''THAI_NATIONAL_ID'', P_THAI_ID, 99 / 100),
      (''PASSPORT'', P_PASSPORT, 5 / 10),
      (''BANK_ACCOUNT'', P_BANK, 85 / 100),
      (''IP_ADDRESS'', P_IP, 9 / 10),
      (''UUID'', P_UUID, 1),
      (''JWT'', P_JWT, 1),
      (''API_KEY'', P_API_KEY, 9 / 10)]"

definition plugin_detect :: "plugin_regexes \<Rightarrow> string \<Rightarrow> detected_entity list" where
  "plugin_detect rx t =
     concat (map (\<lambda>(entity, r, c).
         map (\<lambda>(a, b). \<lparr>de_entity_type = entity, de_start = a, de_end = b, de_value = take (b - a) (drop a t),
                de_confidence = c, de_source = ''regex''\<rparr>) (rx r t)) plugin_patterns)"

definition plugin_replacement :: "detected_entity \<Rightarrow> string" where
  "plugin_replacement e = ''[REDACTED_'' @ de_entity_type e @ '']''"

definition plugin_redact :: "plugin_regexes \<Rightarrow> string \<Rightarrow> string option" where
  "plugin_redact rx t =
     replace_spans de_start de_end plugin_replacement (sort_key (\<lambda>e. - int (de_start e)) (plugin_detect rx t)) t"

fun process_json :: "plugin_regexes \<Rightarrow> json \<Rightarrow> json option" where
  "process_json rx (JStr s) = map_option JStr (plugin_redact rx s)"
| "process_json rx (JArr xs) = map_option JArr (those (map (process_json rx) xs))"
| "process_json rx (JObj m) = map_option JObj (those (map (\<lambda>(k, v). map_option (Pair k) (process_json rx v)) m))"
| "process_json rx v = Some v"

subsection \<open>Lemmas\<close>

lemma evaluate_score:
  "foldl (\<lambda>s r. u16_saturating_add s (sr_weight r)) s rs = (if rs = [] then s else min 65535 (s + sum_list (map sr_weight rs)))"
  by (induction rs arbitrary: s) (auto simp: u16_saturating_add_def)

lemma matched_exact: "set (gu_matched (cg_evaluate env t rules)) =
    {sr_id r | r. r \<in> set rules \<and> rule_fires (nt_text (cg_normalize_for_match env t)) r}"
  by (auto simp: cg_evaluate_def Let_def)

text \<open>Two recognisers that match the same range make the redactor panic: the label written for the first is
  shorter than the match, and the range of the second then ends past the text. The regular expressions for
  API keys and UUIDs both match the token of this text.\<close>

definition secret_uuid_text :: string where
  "secret_uuid_text = ''secret abcdef12-aaaa-bbbb-cccc-ddddeeee0001''"

definition secret_uuid_regexes :: plugin_regexes where
  "secret_uuid_regexes = (\<lambda>r t. if t = secret_uuid_text \<and> (r = P_UUID \<or> r = P_API_KEY) then [(7, 43)] else [])"

lemma plugin_overlap_panics: "plugin_redact secret_uuid_regexes secret_uuid_text = None"
  by (simp add: plugin_redact_def plugin_detect_def plugin_patterns_def secret_uuid_regexes_def secret_uuid_text_def
      plugin_replacement_def replace_range_def range_ok_def is_char_boundary_def is_cont_def)

end
