(* ===== verification/Mcp_Proxy.thy ===== *)
theory Mcp_Proxy
  imports Auth_Verifier Agent_Trust Guard_Plugins Admission_Control Rate_Limiter Enforcement_State
begin

text \<open>
  \<^verbatim>\<open>src/crates/dek-mcp-proxy/src/main.rs\<close> and \<^verbatim>\<open>state.rs\<close>, with \<^verbatim>\<open>src/crates/dek-mcp-normalizer\<close> and the
  request and response types of \<^verbatim>\<open>src/crates/dek-decision\<close>: the enforcement point that composes the
  other components. One request runs through authentication, admission, normalisation, the request guard,
  the trust score, the rate limit, the freshness gate, the router, the obligations and the response guard.

  The environment of a request holds what the process draws from outside: random identifiers (by the order
  in which they are drawn), the clock, the status file, failures of the observation store, hashing, the
  token library and the answers of the WebAssembly redactor. The release profile aborts on panic, so a
  request that panics has no result (\<open>None\<close>). The shadow evaluation is a task of its own: it is queued.
  The router's \<^verbatim>\<open>authorize\<close> never returns an error, so that branch of the handlers is left out, as are
  metrics, logging and the sandbox stub, which does nothing.
\<close>

subsection \<open>Normalised events\<close>

datatype transport_type = TrHttp | TrStdio | TrSse
datatype message_direction = MdRequest | MdResponse | MdNotification

record normalized_mcp_event =
  ne_event_id :: string
  ne_transport :: transport_type
  ne_direction :: message_direction
  ne_request_type :: string
  ne_jsonrpc_id :: "json option"
  ne_tenant_id :: string
  ne_device_id :: string
  ne_spiffe_id :: "string option"
  ne_user_id :: "string option"
  ne_agent_id :: "string option"
  ne_server_id :: "string option"
  ne_tool_name :: "string option"
  ne_resource_uri :: "string option"
  ne_prompt_name :: "string option"
  ne_payload :: json
  ne_session :: json
  ne_runtime :: json

definition normalize_request :: "string \<Rightarrow> string \<Rightarrow> json \<Rightarrow> string \<Rightarrow> string \<Rightarrow> string option \<Rightarrow> string option \<Rightarrow> normalized_mcp_event" where
  "normalize_request event_id os raw tenant_id device_id spiffe_id user_id =
     (let meth = (case get_str raw ''method'' of Some m \<Rightarrow> m | None \<Rightarrow> ''unknown'')
      in \<lparr>ne_event_id = event_id, ne_transport = TrHttp, ne_direction = MdRequest, ne_request_type = meth,
          ne_jsonrpc_id = json_get raw ''id'', ne_tenant_id = tenant_id, ne_device_id = device_id,
          ne_spiffe_id = spiffe_id, ne_user_id = user_id, ne_agent_id = Some ''unknown-agent'',
          ne_server_id = Some ''unknown-server'',
          ne_tool_name = (if meth = ''tools/call'' then Option.bind (json_get raw ''params'') (\<lambda>p. get_str p ''name'') else None),
          ne_resource_uri = None, ne_prompt_name = None, ne_payload = raw, ne_session = json_empty,
          ne_runtime = JObj [(''os'', JStr os)]\<rparr>)"

definition normalize_response :: "string \<Rightarrow> string \<Rightarrow> json \<Rightarrow> string \<Rightarrow> string \<Rightarrow> string option \<Rightarrow> string option \<Rightarrow> normalized_mcp_event" where
  "normalize_response event_id os raw tenant_id device_id spiffe_id user_id =
     \<lparr>ne_event_id = event_id, ne_transport = TrHttp, ne_direction = MdResponse, ne_request_type = ''unknown'',
      ne_jsonrpc_id = json_get raw ''id'', ne_tenant_id = tenant_id, ne_device_id = device_id,
      ne_spiffe_id = spiffe_id, ne_user_id = user_id, ne_agent_id = None, ne_server_id = None, ne_tool_name = None,
      ne_resource_uri = None, ne_prompt_name = None, ne_payload = raw, ne_session = json_empty,
      ne_runtime = JObj [(''os'', JStr os)]\<rparr>"

fun show_transport :: "transport_type \<Rightarrow> string" where
  "show_transport TrHttp = ''http''"
| "show_transport TrStdio = ''stdio''"
| "show_transport TrSse = ''sse''"

fun show_direction :: "message_direction \<Rightarrow> string" where
  "show_direction MdRequest = ''request''"
| "show_direction MdResponse = ''response''"
| "show_direction MdNotification = ''notification''"

definition opt_field :: "string \<Rightarrow> json option \<Rightarrow> (string \<times> json) list" where
  "opt_field k v = (case v of Some j \<Rightarrow> [(k, j)] | None \<Rightarrow> [])"

definition event_to_value :: "normalized_mcp_event \<Rightarrow> json" where
  "event_to_value e =
     JObj ([(''event_id'', JStr (ne_event_id e)), (''transport'', JStr (show_transport (ne_transport e))),
            (''direction'', JStr (show_direction (ne_direction e))), (''request_type'', JStr (ne_request_type e))] @
           opt_field ''jsonrpc_id'' (ne_jsonrpc_id e) @
           [(''tenant_id'', JStr (ne_tenant_id e)), (''device_id'', JStr (ne_device_id e))] @
           opt_field ''spiffe_id'' (map_option JStr (ne_spiffe_id e)) @ opt_field ''user_id'' (map_option JStr (ne_user_id e)) @
           opt_field ''agent_id'' (map_option JStr (ne_agent_id e)) @ opt_field ''server_id'' (map_option JStr (ne_server_id e)) @
           opt_field ''tool_name'' (map_option JStr (ne_tool_name e)) @
           opt_field ''resource_uri'' (map_option JStr (ne_resource_uri e)) @
           opt_field ''prompt_name'' (map_option JStr (ne_prompt_name e)) @
           [(''payload'', ne_payload e), (''session'', ne_session e), (''runtime'', ne_runtime e)])"

definition extract_tool_params :: "normalized_mcp_event \<Rightarrow> json" where
  "extract_tool_params e =
     (case Option.bind (json_get (ne_payload e) ''params'') (\<lambda>p. json_get p ''arguments'') of Some a \<Rightarrow> a | None \<Rightarrow> json_empty)"

definition str_or :: "string \<Rightarrow> string option \<Rightarrow> string" where
  "str_or d v = (case v of Some s \<Rightarrow> s | None \<Rightarrow> d)"

subsection \<open>State\<close>

datatype priority = PrioNormal | PrioHigh

record app_state =
  as_snapshot :: runtime_snapshot
  as_shadow_snapshot :: "runtime_snapshot option"
  as_shadow_tasks :: "json list"
  as_telemetry :: "(json \<times> priority) list option"
  as_admission :: admission_control
  as_rate_limiter :: rate_limiter
  as_observer :: observation_store
  as_guard_pipeline :: guard_pipeline
  as_gate :: gate

record 'k proxy_env =
  px_jwt :: "'k jwt_env"
  px_guard :: guard_env
  px_from_str :: "string \<Rightarrow> json option"
  px_uuid :: "nat \<Rightarrow> string"
  px_rfc3339 :: string
  px_os :: string
  px_jcs :: "json \<Rightarrow> string option"
  px_sha256_hex :: "string \<Rightarrow> string"
  px_now :: instant
  px_status_file :: "enforcement_status option"
  px_baseline_failure :: "string option"
  px_append_failure :: "string option"
  px_latency_ms :: int
  px_wasm_redactor :: "json \<Rightarrow> json option"
  px_plugin_regexes :: "plugin_regexes option"

definition app_state_new :: "guard_env \<Rightarrow> runtime_snapshot \<Rightarrow> bool \<Rightarrow> admission_control \<Rightarrow> rate_limiter \<Rightarrow> observation_store \<Rightarrow> app_state" where
  "app_state_new genv initial telemetry admission limiter observer =
     \<lparr>as_snapshot = initial, as_shadow_snapshot = None, as_shadow_tasks = [],
      as_telemetry = (if telemetry then Some [] else None), as_admission = admission, as_rate_limiter = limiter,
      as_observer = observer, as_guard_pipeline = guard_pipeline_new genv default_guard_config, as_gate = gate_new\<rparr>"

definition app_reload :: "runtime_snapshot \<Rightarrow> app_state \<Rightarrow> app_state" where
  "app_reload s st = st\<lparr>as_snapshot := s\<rparr>"

definition app_reload_shadow :: "runtime_snapshot \<Rightarrow> app_state \<Rightarrow> app_state" where
  "app_reload_shadow s st = st\<lparr>as_shadow_snapshot := Some s\<rparr>"

definition emit_async :: "json \<Rightarrow> priority \<Rightarrow> app_state \<Rightarrow> app_state" where
  "emit_async ev prio st = st\<lparr>as_telemetry := map_option (\<lambda>evs. evs @ [(ev, prio)]) (as_telemetry st)\<rparr>"

datatype body = JsonBody json | DecisionBody policy_decision

type_synonym response = "nat \<times> body"

subsection \<open>Guard events\<close>

fun guard_action_label :: "guard_action \<Rightarrow> string" where
  "guard_action_label GAllow = ''allow''"
| "guard_action_label GRedact = ''redact''"
| "guard_action_label GDeny = ''deny''"

definition strs :: "string list \<Rightarrow> json" where
  "strs xs = JArr (map JStr xs)"

definition opt_value :: "('a \<Rightarrow> json) \<Rightarrow> 'a option \<Rightarrow> json" where
  "opt_value f v = (case v of Some x \<Rightarrow> f x | None \<Rightarrow> JNull)"

definition summary_to_value :: "guard_finding_summary list \<Rightarrow> json" where
  "summary_to_value ss = JArr (map (\<lambda>s. JObj [(''kind'', JStr (gs_kind s)), (''count'', JInt (int (gs_count s)))]) ss)"

definition remediation_to_value :: "guard_remediation \<Rightarrow> json" where
  "remediation_to_value r =
     JObj [(''user_message'', JStr (gr_user_message r)), (''recommended_actions'', strs (gr_recommended_actions r)),
           (''doc_url'', opt_value JStr (gr_doc_url r)), (''can_override'', JBool (gr_can_override r))]"

definition guard_metadata :: "guard_outcome \<Rightarrow> bool \<Rightarrow> json" where
  "guard_metadata x redaction_applied =
     (let findings_summary = summary_to_value (summarize_findings (go_findings x))
      in JObj [(''plugin_id'', JStr ''dek.guard-pipeline''), (''action'', JStr (guard_action_label (go_action x))),
           (''injection_score'', JFloat (go_injection_score x)), (''categories'', strs (go_categories x)),
           (''normalization_steps'', strs (go_normalization_steps x)), (''confidence'', JFloat (go_confidence x)),
           (''findings_count'', JInt (int (length (go_findings x)))), (''findings'', findings_summary),
           (''findings_summary'', findings_summary), (''severity'', JStr (severity_for (go_action x) (go_categories x))),
           (''remediation'', remediation_to_value (remediation_for (go_action x) (go_categories x))),
           (''redaction'', JObj [(''applied'', JBool redaction_applied)])])"

definition guard_json_rpc_error :: "json \<Rightarrow> string \<Rightarrow> guard_outcome \<Rightarrow> string option \<Rightarrow> json" where
  "guard_json_rpc_error rpc message x guard_event_id =
     (let metadata = guard_metadata x False
      in JObj [(''jsonrpc'', JStr ''2.0''), (''id'', rpc),
           (''error'', JObj [(''code'', JInt (-32000)), (''message'', JStr message),
              (''data'', JObj [(''guard_event_id'', JStr (str_or ''ge_unemitted'' guard_event_id)),
                 (''action'', JStr (guard_action_label (go_action x))), (''categories'', strs (go_categories x)),
                 (''severity'', json_index metadata ''severity''), (''remediation'', json_index metadata ''remediation''),
                 (''guard'', metadata)])])])"

definition build_guard_event :: "'k proxy_env \<Rightarrow> nat \<Rightarrow> string option \<Rightarrow> string option \<Rightarrow> string \<Rightarrow> guard_outcome \<Rightarrow> bool \<Rightarrow> guard_event" where
  "build_guard_event env n tenant_id agent_id direction x redaction_applied =
     event_from_outcome (''ge_'' @ px_uuid env n) (px_rfc3339 env) tenant_id agent_id direction x redaction_applied"

definition guard_event_to_value :: "guard_event \<Rightarrow> json" where
  "guard_event_to_value ev =
     JObj [(''event_id'', JStr (gv_event_id ev)), (''ts'', JStr (gv_ts ev)), (''tenant_id'', opt_value JStr (gv_tenant_id ev)),
           (''agent_id'', opt_value JStr (gv_agent_id ev)), (''direction'', JStr (gv_direction ev)),
           (''action'', JStr (guard_action_label (gv_action ev))), (''categories'', strs (gv_categories ev)),
           (''injection_score'', JFloat (gv_injection_score ev)),
           (''findings_summary'', summary_to_value (gv_findings_summary ev)), (''severity'', JStr (gv_severity ev)),
           (''remediation'', remediation_to_value (gv_remediation ev)), (''redaction_applied'', JBool (gv_redaction_applied ev))]"

definition guard_event_envelope :: "guard_event \<Rightarrow> string option \<Rightarrow> json" where
  "guard_event_envelope ev device_id =
     JObj [(''schema_version'', JStr ''telemetry-envelope.v1''), (''event_id'', JStr (gv_event_id ev)),
           (''event_type'', JStr ''guard_incident''), (''timestamp'', JStr (gv_ts ev)),
           (''tenant_id'', JStr (str_or ''local'' (gv_tenant_id ev))),
           (''device_id'', JStr (str_or ''local-device'' device_id)),
           (''redaction_applied'', JBool (gv_redaction_applied ev)),
           (''payload'', JObj [(''guard_event'', guard_event_to_value ev), (''agent_id'', opt_value JStr (gv_agent_id ev)),
              (''direction'', JStr (gv_direction ev)), (''action'', JStr (guard_action_label (gv_action ev))),
              (''categories'', strs (gv_categories ev)), (''severity'', JStr (gv_severity ev)),
              (''findings'', summary_to_value (gv_findings_summary ev)),
              (''redaction'', JObj [(''applied'', JBool (gv_redaction_applied ev))]),
              (''remediation'', remediation_to_value (gv_remediation ev))])]"

definition emit_guard_event :: "guard_event \<Rightarrow> string option \<Rightarrow> priority \<Rightarrow> app_state \<Rightarrow> app_state" where
  "emit_guard_event ev device_id prio st = emit_async (guard_event_envelope ev device_id) prio st"

subsection \<open>Response filter\<close>

fun redact_guarded_value :: "text_env \<Rightarrow> json \<Rightarrow> json" where
  "redact_guarded_value tenv (JStr t) = JStr (cg_redact_text tenv t)"
| "redact_guarded_value tenv (JArr xs) = JArr (map (redact_guarded_value tenv) xs)"
| "redact_guarded_value tenv (JObj m) = JObj (map (\<lambda>(k, v). (k, redact_guarded_value tenv v)) m)"
| "redact_guarded_value tenv v = v"

record response_filter_outcome =
  rfo_action :: guard_action
  rfo_payload :: json
  rfo_reason :: string
  rfo_guard :: json

definition effective_response_guard :: "guard_outcome \<Rightarrow> bool \<Rightarrow> bool \<Rightarrow> bool \<Rightarrow> guard_outcome" where
  "effective_response_guard x redaction_applied pii_redacted force_redact =
     (let x1 = (if redaction_applied \<and> go_action x = GAllow then x\<lparr>go_action := GRedact\<rparr> else x);
          x2 = (if pii_redacted
                then x1\<lparr>go_categories := push_unique ''llm02_sensitive_information_disclosure'' (go_categories x1)\<rparr> else x1)
      in if force_redact then x2\<lparr>go_categories := push_unique ''llm05_improper_output_handling'' (go_categories x2)\<rparr> else x2)"

definition apply_guard_payload_transform :: "text_env \<Rightarrow> json \<Rightarrow> guard_outcome \<Rightarrow> bool \<Rightarrow> json \<times> string list \<times> bool" where
  "apply_guard_payload_transform tenv payload x force_redact =
     (case go_redacted_payload x of
        Some p \<Rightarrow> (p, [''spotlight_untrusted_data''], True)
      | None \<Rightarrow>
          if force_redact \<or> go_action x = GRedact
          then (redact_guarded_value tenv payload, [''redact_content''], True)
          else (payload, [], False))"

definition redact_pii_with_native_plugin :: "'k proxy_env \<Rightarrow> json \<Rightarrow> (json \<times> bool) option" where
  "redact_pii_with_native_plugin env payload =
     (case px_plugin_regexes env of
        None \<Rightarrow> Some (payload, False)
      | Some rx \<Rightarrow> map_option (\<lambda>p. (p, p \<noteq> payload)) (process_json rx payload))"

definition apply_pii_redaction :: "'k proxy_env \<Rightarrow> json \<Rightarrow> (json \<times> bool) option" where
  "apply_pii_redaction env payload =
     (case px_wasm_redactor env payload of
        Some redacted \<Rightarrow> Some (redacted, redacted \<noteq> payload)
      | None \<Rightarrow> redact_pii_with_native_plugin env payload)"

definition filter_response_payload :: "'k proxy_env \<Rightarrow> app_state \<Rightarrow> json \<Rightarrow> bool \<Rightarrow> string option \<Rightarrow> string option \<Rightarrow> string option \<Rightarrow>
    (response_filter_outcome \<times> app_state) option" where
  "filter_response_payload env st payload force_redact tenant_id agent_id device_id =
     Option.bind (scan_response (px_guard env) (as_guard_pipeline st) payload) (\<lambda>x.
       if go_action x = GDeny
       then Some (\<lparr>rfo_action = GDeny, rfo_payload = payload, rfo_reason = ''output_guard_blocked_risky_tool_response'',
                   rfo_guard = guard_metadata x False\<rparr>,
                  emit_guard_event (build_guard_event env 7 tenant_id agent_id ''response'' x False) device_id PrioHigh st)
       else
         let (filtered, reasons, applied) = apply_guard_payload_transform (ge_text (px_guard env)) payload x force_redact
         in map_option (\<lambda>(filtered, pii_redacted).
              let applied = (applied \<or> pii_redacted);
                  reasons = (if pii_redacted then reasons @ [''pii_redacted''] else reasons);
                  eff = effective_response_guard x applied pii_redacted force_redact
              in if applied
                 then (\<lparr>rfo_action = GRedact, rfo_payload = filtered, rfo_reason = str_join '','' reasons,
                        rfo_guard = guard_metadata eff True\<rparr>,
                       emit_guard_event (build_guard_event env 7 tenant_id agent_id ''response'' eff True) device_id PrioNormal st)
                 else (\<lparr>rfo_action = GAllow, rfo_payload = filtered, rfo_reason = ''allow'',
                        rfo_guard = guard_metadata eff False\<rparr>, st))
            (apply_pii_redaction env filtered))"

subsection \<open>The decision request\<close>

definition policy_input :: "normalized_mcp_event \<Rightarrow> string \<Rightarrow> json \<Rightarrow> json" where
  "policy_input e who params =
     json_insert_all (event_to_value e)
       [(''action'', JStr (str_or (ne_request_type e) (ne_tool_name e))), (''principal'', JStr who),
        (''params'', params), (''tool'', JStr (str_or [] (ne_tool_name e)))]"

definition decision_input :: "'k proxy_env \<Rightarrow> normalized_mcp_event \<Rightarrow> string \<Rightarrow> string \<Rightarrow> string \<Rightarrow> json \<Rightarrow> json" where
  "decision_input env e tenant device who ctx =
     JObj [(''decision_id'', JStr (px_uuid env 2)), (''request_id'', JStr (px_uuid env 3)), (''trace_id'', JNull),
           (''tenant_id'', JStr tenant), (''device_id'', JStr device),
           (''principal'', JObj [(''id'', JStr who), (''roles'', JArr [])]), (''agent'', JNull),
           (''action'', JStr (str_or (ne_request_type e) (ne_tool_name e))),
           (''resource'', JObj [(''resource_type'', JStr ''mcp_tool''),
              (''resource_id'', JStr (str_or ''*'' (ne_tool_name e))), (''uri'', opt_value JStr (ne_resource_uri e))]),
           (''context'', ctx),
           (''input_hash'', JStr (px_sha256_hex env (str_or [] (px_jcs env ctx))))]"

definition rate_key :: "normalized_mcp_event \<Rightarrow> string" where
  "rate_key e = str_or ''unknown'' (ne_agent_id e) @ '':'' @ str_or ''unknown'' (ne_tool_name e)"

definition merge_obligation_kinds :: "string list \<Rightarrow> string list \<Rightarrow> string list" where
  "merge_obligation_kinds extra decision = fold push_unique decision extra"

subsection \<open>Obligations\<close>

definition obligation_tags :: "string \<Rightarrow> string list" where
  "obligation_tags kind =
     (if kind = ''require_approval'' then [''SOC2-CC6.1'']
      else if kind = ''step_up_mfa'' then [''PCI-DSS-4.0'', ''HIPAA-164.312(a)(1)'']
      else if kind = ''require_sandbox'' then [''ASI05'']
      else if kind = ''redact_content'' then [''OWASP-LLM01'']
      else [])"

definition compliance_tags :: "string list \<Rightarrow> string list" where
  "compliance_tags obligations = remdups_adj (sort (concat (map obligation_tags obligations)))"

definition has_mfa :: "json \<Rightarrow> bool" where
  "has_mfa claims \<longleftrightarrow>
     Option.bind (json_get claims ''mfa'') as_bool = Some True \<or>
     (case Option.bind (json_get claims ''amr'') as_array of
        Some a \<Rightarrow> list_ex (\<lambda>s. as_str s = Some ''mfa'') a | None \<Rightarrow> False)"

definition decision_response :: "'k proxy_env \<Rightarrow> policy_decision \<Rightarrow> string list \<Rightarrow> json" where
  "decision_response env d obligations =
     JObj [(''decision_id'', JStr (px_uuid env 5)), (''allow'', JBool (pd_allow d)),
           (''reason_code'', JStr (if pd_allow d then ''OK'' else ''DENY'')), (''reason'', JStr (pd_reason d)),
           (''obligations'', JArr (map (\<lambda>k. JObj [(''kind'', JStr k), (''parameters'', json_empty)]) obligations)),
           (''effects'', pd_effects d), (''policy_bundle_id'', JStr ''bundle''), (''policy_bundle_version'', JStr ''v1''),
           (''evaluator_results'', JArr []), (''latency_ms'', JInt (px_latency_ms env))]"

definition observed_action :: "normalized_mcp_event \<Rightarrow> string" where
  "observed_action e = (if ne_request_type e = [] then ''tools/call'' else ne_request_type e)"

definition is_resource_action :: "string \<Rightarrow> bool" where
  "is_resource_action a \<longleftrightarrow> a = ''resources/read'' \<or> a = ''resources/list''"

definition decision_observation :: "'k proxy_env \<Rightarrow> normalized_mcp_event \<Rightarrow> string \<Rightarrow> policy_decision \<Rightarrow> string list \<Rightarrow> observation" where
  "decision_observation env e tenant d obligations =
     (let action = observed_action e; res = is_resource_action action
      in \<lparr>ob_event_id = px_uuid env 4, ob_tenant_id = tenant, ob_trace_id = px_uuid env 3, ob_agent_id = ne_agent_id e,
          ob_shadow_candidate_id = None, ob_tool_id = (if res then None else ne_tool_name e), ob_resource_id = None,
          ob_surface = ''mcp'', ob_action = action, ob_pep_type = Some ''mcp_proxy'', ob_risk_level = None,
          ob_timestamp = px_rfc3339 env, ob_payload_json = ''{}'',
          ob_event_kind = (if res then EvResourceAccess else EvToolCall),
          ob_decision = Some \<lparr>di_allow = pd_allow d, di_reason_code = (if pd_allow d then ''OK'' else ''DENY''),
             di_obligations = obligations, di_matched_policy_ids = [], di_compliance_tags = compliance_tags obligations,
             di_pep_plane = Some ''McpProxy'', di_enforced_for_real = Some True,
             di_status_badge = Some (if pd_allow d then ''Ok'' else ''Denied''),
             di_message_th = Some (if pd_allow d then bytes [224, 184, 173, 224, 184, 153, 224, 184, 184, 224, 184, 141, 224, 184, 178, 224, 184, 149]
               else bytes [224, 184, 155, 224, 184, 143, 224, 184, 180, 224, 185, 128, 224, 184, 170, 224, 184, 152])\<rparr>,
          ob_tool_call = (if res then None else Some \<lparr>tc_tool_name = str_or [] (ne_tool_name e),
             tc_server = None, tc_args_summary = None, tc_result_status = (if pd_allow d then ''ok'' else ''denied'')\<rparr>),
          ob_resource_access = (if res then Some \<lparr>ra_resource_type = ''mcp_resource'',
             ra_target_redacted = str_or [] (ne_resource_uri e), ra_bytes = None, ra_verb = ''read''\<rparr> else None),
          ob_latency_ms = Some (px_latency_ms env), ob_provider = None\<rparr>)"

fun show_event_kind :: "event_kind \<Rightarrow> string" where
  "show_event_kind EvGeneric = ''generic''"
| "show_event_kind EvLlmCall = ''llm_call''"
| "show_event_kind EvToolCall = ''tool_call''"
| "show_event_kind EvResourceAccess = ''resource_access''"
| "show_event_kind EvDecision = ''decision''"

definition decision_info_to_value :: "decision_info \<Rightarrow> json" where
  "decision_info_to_value d =
     JObj [(''allow'', JBool (di_allow d)), (''reason_code'', JStr (di_reason_code d)), (''obligations'', strs (di_obligations d)),
           (''matched_policy_ids'', strs (di_matched_policy_ids d)), (''compliance_tags'', strs (di_compliance_tags d)),
           (''pep_plane'', opt_value JStr (di_pep_plane d)), (''enforced_for_real'', opt_value JBool (di_enforced_for_real d)),
           (''status_badge'', opt_value JStr (di_status_badge d)), (''message_th'', opt_value JStr (di_message_th d))]"

definition observation_to_value :: "observation \<Rightarrow> json" where
  "observation_to_value v =
     JObj [(''event_id'', JStr (ob_event_id v)), (''tenant_id'', JStr (ob_tenant_id v)), (''trace_id'', JStr (ob_trace_id v)),
           (''agent_id'', opt_value JStr (ob_agent_id v)), (''shadow_candidate_id'', opt_value JStr (ob_shadow_candidate_id v)),
           (''tool_id'', opt_value JStr (ob_tool_id v)), (''resource_id'', opt_value JStr (ob_resource_id v)), (''surface'', JStr (ob_surface v)),
           (''action'', JStr (ob_action v)), (''pep_type'', opt_value JStr (ob_pep_type v)), (''risk_level'', opt_value JStr (ob_risk_level v)),
           (''timestamp'', JStr (ob_timestamp v)), (''payload_json'', JStr (ob_payload_json v)), (''token_usage'', JNull),
           (''browser_scope'', JNull), (''event_kind'', JStr (show_event_kind (ob_event_kind v))),
           (''decision'', opt_value decision_info_to_value (ob_decision v)),
           (''tool_call'', opt_value (\<lambda>t. JObj [(''tool_name'', JStr (tc_tool_name t)), (''server'', opt_value JStr (tc_server t)),
              (''args_summary'', opt_value JStr (tc_args_summary t)), (''result_status'', JStr (tc_result_status t))]) (ob_tool_call v)),
           (''resource_access'', opt_value (\<lambda>r. JObj [(''resource_type'', JStr (ra_resource_type r)),
              (''target_redacted'', JStr (ra_target_redacted r)), (''bytes'', opt_value JInt (ra_bytes r)),
              (''verb'', JStr (ra_verb r))]) (ob_resource_access v)),
           (''latency_ms'', opt_value JInt (ob_latency_ms v)), (''provider'', opt_value JStr (ob_provider v)), (''process_signal'', JNull)]"

definition usage_payload :: "'k proxy_env \<Rightarrow> normalized_mcp_event \<Rightarrow> policy_decision \<Rightarrow> json" where
  "usage_payload env e d =
     (let agent = JStr (str_or [] (ne_agent_id e));
          uri = JStr (str_or [] (ne_resource_uri e));
          verdict = JStr (if pd_allow d then ''allow'' else ''deny'')
      in if is_resource_action (observed_action e)
         then JObj [(''agent_id'', agent), (''agent_label'', agent), (''scope'', JStr ''local''), (''kind'', JStr ''file''),
                (''target_redacted'', uri), (''target_hash'', uri), (''mode'', JStr ''read''), (''decision'', verdict),
                (''enforced_for_real'', JBool True), (''observed_at'', JStr (px_rfc3339 env))]
         else JObj [(''agent_id'', agent), (''agent_label'', agent), (''tool_kind'', JStr ''mcp_tool''),
                (''tool_name'', JStr (str_or [] (ne_tool_name e))), (''server'', JStr ''mcp-proxy''),
                (''decision'', verdict), (''enforced_for_real'', JBool True), (''args_redacted'', JStr ''<redacted>''),
                (''observed_at'', JStr (px_rfc3339 env))])"

definition usage_envelope :: "'k proxy_env \<Rightarrow> normalized_mcp_event \<Rightarrow> string \<Rightarrow> string \<Rightarrow> policy_decision \<Rightarrow> json" where
  "usage_envelope env e tenant device d =
     JObj [(''schema_version'', JStr ''telemetry-envelope.v1''), (''event_id'', JStr (px_uuid env 6)),
           (''event_type'', JStr (if is_resource_action (observed_action e) then ''resource_access'' else ''tool_usage'')),
           (''timestamp'', JStr (px_rfc3339 env)), (''tenant_id'', JStr tenant), (''device_id'', JStr device),
           (''redaction_applied'', JBool False), (''payload'', usage_payload env e d)]"

definition approval_event :: "'k proxy_env \<Rightarrow> normalized_mcp_event \<Rightarrow> string \<Rightarrow> string \<Rightarrow> string \<Rightarrow> string list \<Rightarrow> json" where
  "approval_event env e tenant device who tags =
     JObj [(''schema_version'', JStr ''1.0''), (''event_type'', JStr ''enforcement.approval_required''),
           (''device_id'', JStr device), (''tenant_id'', JStr tenant), (''timestamp'', JStr (px_rfc3339 env)),
           (''compliance_tags'', if tags = [] then JNull else strs tags),
           (''mcp'', JObj [(''principal'', JStr who), (''tool'', JStr (str_or [] (ne_tool_name e))),
              (''method'', JStr (ne_request_type e)), (''request_id'', JStr (px_uuid env 3))])]"

subsection \<open>The request handler\<close>

definition rpc_error :: "json \<Rightarrow> int \<Rightarrow> string \<Rightarrow> (string \<times> json) list \<Rightarrow> json" where
  "rpc_error payload code message data =
     JObj [(''jsonrpc'', JStr ''2.0''), (''id'', json_index payload ''id''),
           (''error'', JObj ([(''code'', JInt code), (''message'', JStr message)] @ data))]"

definition forbidden :: "json \<Rightarrow> string \<Rightarrow> response" where
  "forbidden payload message = (403, JsonBody (rpc_error payload (-32000) message []))"

text \<open>After the router has answered: observation, telemetry, obligations and the response guard.\<close>

definition record_decision :: "'k proxy_env \<Rightarrow> normalized_mcp_event \<Rightarrow> string \<Rightarrow> string \<Rightarrow> policy_decision \<Rightarrow> string list \<Rightarrow> app_state \<Rightarrow> app_state" where
  "record_decision env e tenant device d obligations st =
     (let ob = decision_observation env e tenant d obligations;
          st1 = emit_async (json_insert (observation_to_value ob) ''event_type'' (JStr ''agent_observation'')) PrioNormal st;
          st2 = emit_async (usage_envelope env e tenant device d) PrioNormal st1
      in st2\<lparr>as_observer := observer_append (px_append_failure env) ob (as_observer st2)\<rparr>)"

definition allowed_reply :: "'k proxy_env \<Rightarrow> policy_decision \<Rightarrow> string list \<Rightarrow> json" where
  "allowed_reply env d obligations =
     JObj [(''status'', JStr ''allowed''), (''message'', JStr ''The request passed the PEP evaluation.''),
           (''decision'', decision_response env d obligations)]"

definition conclude_request :: "'k proxy_env \<Rightarrow> json \<Rightarrow> identity \<Rightarrow> normalized_mcp_event \<Rightarrow> string \<Rightarrow> string \<Rightarrow> string list \<Rightarrow>
    policy_decision \<Rightarrow> app_state \<Rightarrow> (response \<times> app_state) option" where
  "conclude_request env payload who e tenant device extra d st =
     (let obligations = merge_obligation_kinds extra (pd_obligations d);
          response = decision_response env d obligations;
          require_approval = (''require_approval'' \<in> set obligations);
          mfa_failed = (''step_up_mfa'' \<in> set obligations \<and> \<not> has_mfa (id_claims who));
          redact_content = (''redact_content'' \<in> set obligations);
          st1 = record_decision env e tenant device d obligations st;
          st2 = (if require_approval \<and> pd_allow d \<and> \<not> mfa_failed
                 then emit_async (approval_event env e tenant device (id_principal who) (compliance_tags obligations)) PrioHigh st1
                 else st1)
      in if pd_allow d \<and> \<not> require_approval \<and> \<not> mfa_failed
         then map_option (\<lambda>(x, st3).
                if rfo_action x = GDeny
                then ((403, JsonBody (rpc_error payload (-32000) (''Access Denied: '' @ rfo_reason x)
                        [(''data'', JObj [(''status'', JStr ''denied''), (''reason'', JStr (rfo_reason x)), (''guard'', rfo_guard x)])])), st3)
                else ((200, JsonBody (rfo_payload x)), st3))
              (filter_response_payload env st2
                 (allowed_reply env d obligations) redact_content (Some tenant) (ne_agent_id e) (Some device))
         else let (reason, code) = (if mfa_failed then (''step_up_mfa_required'', -32001)
                    else if require_approval then (''pending_approval'', -32002) else (pd_reason d, -32000))
              in Some ((403, JsonBody (rpc_error payload code (''Access Denied: '' @ reason)
                   [(''data'', JObj [(''status'', JStr ''denied''), (''reason'', JStr reason), (''decision'', response)])])), st2))"

definition queue_shadow :: "json \<Rightarrow> app_state \<Rightarrow> app_state" where
  "queue_shadow input st = (if as_shadow_snapshot st \<noteq> None then st\<lparr>as_shadow_tasks := as_shadow_tasks st @ [input]\<rparr> else st)"

definition evaluate_request :: "'k proxy_env \<Rightarrow> json \<Rightarrow> identity \<Rightarrow> normalized_mcp_event \<Rightarrow> string \<Rightarrow> string list \<Rightarrow> json \<Rightarrow> app_state \<Rightarrow>
    (response \<times> app_state) option" where
  "evaluate_request env payload who e tenant extra input st =
     (case strict_deny_reason (as_gate st) (px_status_file env) (px_now env) of
        (Some reason, g) \<Rightarrow>
          Some (forbidden payload (''Access Denied: policy_stale_failsafe: '' @ reason), st\<lparr>as_gate := g\<rparr>)
      | (None, g) \<Rightarrow>
          let r = authorize (sn_router (as_snapshot st)) input (px_now env);
              st1 = st\<lparr>as_gate := g, as_snapshot := (as_snapshot st)\<lparr>sn_router := ar_router r\<rparr>\<rparr>
          in conclude_request env payload who e tenant (dm_device_id (sn_metadata (as_snapshot st))) extra (ar_decision r)
               (queue_shadow input st1))"

definition trust_of :: "'k proxy_env \<Rightarrow> normalized_mcp_event \<Rightarrow> app_state \<Rightarrow> trust_score" where
  "trust_of env e st =
     (let agent = str_or ''unknown'' (ne_agent_id e)
      in case update_baseline (px_from_str env) (px_baseline_failure env) agent (as_observer st) of
           Inr s \<Rightarrow> s
         | Inl _ \<Rightarrow> \<lparr>ts_agent_id = agent, ts_score = 1, ts_high_deny_rate = None\<rparr>)"

definition limit_request :: "'k proxy_env \<Rightarrow> json \<Rightarrow> identity \<Rightarrow> normalized_mcp_event \<Rightarrow> string \<Rightarrow> string list \<Rightarrow> json \<Rightarrow> app_state \<Rightarrow>
    (response \<times> app_state) option" where
  "limit_request env payload who e tenant extra input st =
     (let trust = enforce_trust (trust_of env e st)
      in if trust = TrustKillSwitch then Some (forbidden payload ''Access Denied: Agent trust score too low'', st)
         else
           let extra = (if trust = TrustRequireApproval then extra @ [''require_approval''] else extra);
               (verdict, rl) = check_at (as_rate_limiter st) (rate_key e) (px_now env);
               st1 = st\<lparr>as_rate_limiter := rl\<rparr>
           in if verdict = Throttled
              then Some ((429, JsonBody (rpc_error payload (-32000) ''Access Denied: Rate limit exceeded'' [])), st1)
              else evaluate_request env payload who e tenant extra input st1)"

definition request_event :: "'k proxy_env \<Rightarrow> json \<Rightarrow> identity \<Rightarrow> string \<Rightarrow> app_state \<Rightarrow> normalized_mcp_event" where
  "request_event env payload who tenant st =
     (let md = sn_metadata (as_snapshot st)
      in normalize_request (px_uuid env 0) (px_os env) payload tenant (dm_device_id md) (dm_spiffe_id md) (Some (id_principal who)))"

definition guard_request :: "'k proxy_env \<Rightarrow> json \<Rightarrow> identity \<Rightarrow> string \<Rightarrow> app_state \<Rightarrow> (response \<times> app_state) option" where
  "guard_request env payload who tenant st =
     (let device = dm_device_id (sn_metadata (as_snapshot st));
          e = request_event env payload who tenant st;
          tool_params = extract_tool_params e
      in Option.bind (scan_request (px_guard env) (as_guard_pipeline st) tool_params) (\<lambda>x.
           let ev = (\<lambda>applied. build_guard_event env 1 (Some tenant) (ne_agent_id e) ''request'' x applied);
               params = (case go_redacted_payload x of Some p \<Rightarrow> p | None \<Rightarrow> tool_params);
               input = decision_input env e tenant device (id_principal who) (policy_input e (id_principal who) params)
           in case go_action x of
                GDeny \<Rightarrow>
                  Some ((403, JsonBody (guard_json_rpc_error (json_index payload ''id'')
                      ''Access Denied: Prompt injection or policy override detected'' x (Some (gv_event_id (ev False))))),
                    emit_guard_event (ev False) (Some device) PrioHigh st)
              | GRedact \<Rightarrow>
                  limit_request env payload who e tenant [''redact_content''] input
                    (emit_guard_event (ev (go_redacted_payload x \<noteq> None)) (Some device) PrioNormal st)
              | GAllow \<Rightarrow> limit_request env payload who e tenant [] input st))"

definition handle_mcp_request :: "'k proxy_env \<Rightarrow> string option \<Rightarrow> json \<Rightarrow> app_state \<Rightarrow> (response \<times> app_state) option" where
  "handle_mcp_request env auth_header payload st =
     (case extract_bearer auth_header of
        Inl _ \<Rightarrow> Some ((401, JsonBody (JObj [(''error'', JStr ''Missing bearer token'')])), st)
      | Inr token \<Rightarrow>
     (case verify_token (px_jwt env) (sn_verifier (as_snapshot st)) token of
        Inl e \<Rightarrow>
          (if e = NoKeyConfigured
           then Some ((500, JsonBody (JObj [(''error'', JStr ''Auth not configured'')])), st)
           else Some ((401, JsonBody (JObj [(''error'', JStr ''Invalid token'')])), st))
      | Inr who \<Rightarrow>
          let tenant = str_or (dm_tenant_id (sn_metadata (as_snapshot st))) (id_tenant_id who)
          in case try_admit (as_admission st) tenant of
               (None, ac) \<Rightarrow>
                 Some ((503, JsonBody (JObj [(''allow'', JBool False), (''decision'', JStr ''deny''),
                   (''reason'', JStr ''overloaded_backpressure'')])), st\<lparr>as_admission := ac\<rparr>)
             | (Some permit, ac) \<Rightarrow>
                 map_option (\<lambda>(r, st'). (r, st'\<lparr>as_admission := drop_permit (as_admission st') permit\<rparr>))
                   (guard_request env payload who tenant (st\<lparr>as_admission := ac\<rparr>))))"

subsection \<open>Sidecar endpoints\<close>

definition handle_authorize :: "'k proxy_env \<Rightarrow> json \<Rightarrow> app_state \<Rightarrow> response \<times> app_state" where
  "handle_authorize env payload st =
     (case strict_deny_reason (as_gate st) (px_status_file env) (px_now env) of
        (Some reason, g) \<Rightarrow>
          ((403, JsonBody (JObj [(''allow'', JBool False), (''decision'', JStr ''deny''),
             (''reason'', JStr (''policy_stale_failsafe: '' @ reason)), (''evaluator_id'', JStr ''freshness_gate'')])), st\<lparr>as_gate := g\<rparr>)
      | (None, g) \<Rightarrow>
          let r = authorize (sn_router (as_snapshot st)) payload (px_now env);
              st1 = st\<lparr>as_gate := g, as_snapshot := (as_snapshot st)\<lparr>sn_router := ar_router r\<rparr>\<rparr>;
              d = ar_decision r;
              require_mfa = (''step_up_mfa'' \<in> set (pd_obligations d));
              require_approval = (''require_approval'' \<in> set (pd_obligations d));
              d = (if require_mfa \<or> require_approval
                   then d\<lparr>pd_allow := False, pd_reason := (if require_mfa then ''step_up_mfa_required'' else ''pending_approval'')\<rparr>
                   else d)
          in ((if pd_allow d then 200 else 403, DecisionBody d), st1))"

definition handle_filter_request :: "json \<Rightarrow> response" where
  "handle_filter_request payload = (200, JsonBody (JObj [(''status'', JStr ''filtered''), (''payload'', payload)]))"

definition handle_filter_response :: "'k proxy_env \<Rightarrow> json \<Rightarrow> app_state \<Rightarrow> (response \<times> app_state) option" where
  "handle_filter_response env payload st =
     map_option (\<lambda>(x, st').
       (case rfo_action x of
          GDeny \<Rightarrow> (403, JsonBody (JObj [(''status'', JStr ''denied''), (''reason'', JStr (rfo_reason x)), (''guard'', rfo_guard x)]))
        | GRedact \<Rightarrow> (200, JsonBody (JObj [(''status'', JStr ''filtered''), (''reason'', JStr (rfo_reason x)), (''guard'', rfo_guard x), (''payload'', rfo_payload x)]))
        | GAllow \<Rightarrow> (200, JsonBody (rfo_payload x)), st'))
     (filter_response_payload env st payload False None None None)"

text \<open>The queued shadow evaluation, whose decision is only logged.\<close>

definition run_shadow_task :: "instant \<Rightarrow> app_state \<Rightarrow> app_state" where
  "run_shadow_task now st =
     (case (as_shadow_tasks st, as_shadow_snapshot st) of
        (input # rest, Some s) \<Rightarrow>
          st\<lparr>as_shadow_tasks := rest, as_shadow_snapshot := Some (s\<lparr>sn_router := ar_router (authorize (sn_router s) input now)\<rparr>)\<rparr>
      | _ \<Rightarrow> st)"

text \<open>
  The fallback of the server: a \<^verbatim>\<open>CONNECT\<close> is answered with success and tunnelled to the host and port of its
  target, with no authentication and no policy; the second component is where the bytes go.
\<close>

definition handle_forward_proxy :: "string \<Rightarrow> string option \<Rightarrow> nat option \<Rightarrow> nat \<times> (string \<times> nat) option" where
  "handle_forward_proxy http_method host port =
     (if http_method = ''CONNECT''
      then (200, Some (str_or [] host, case port of Some p \<Rightarrow> p | None \<Rightarrow> 443))
      else (502, None))"

subsection \<open>Start and hot reload\<close>

definition reload_metadata :: "activation_env \<Rightarrow> (json \<Rightarrow> enterprise_profile option) \<Rightarrow> json \<Rightarrow> dek_metadata \<Rightarrow> dek_metadata" where
  "reload_metadata env profile_from payload md =
     (let jwt = json_get payload ''jwt_config''
      in md\<lparr>dm_tenant_id := str_or (dm_tenant_id md) (get_str payload ''tenant_id''),
            dm_spiffe_id := or_else (get_str payload ''spiffe_id'') (dm_spiffe_id md),
            dm_jwt_public_key_pem := or_else (Option.bind jwt (\<lambda>j. get_str j ''public_key_pem'')) (dm_jwt_public_key_pem md),
            dm_jwks := or_else (Option.bind jwt (\<lambda>j. Option.bind (json_get j ''jwks'') (ax_jwks_from_value env))) (dm_jwks md),
            dm_issuer_url := or_else (Option.bind jwt (\<lambda>j. get_str j ''issuer_url'')) (dm_issuer_url md),
            dm_audience := or_else (Option.bind jwt (\<lambda>j. Option.bind (json_get j ''audience'') (ax_audience_from_value env))) (dm_audience md),
            dm_enterprise_profile := (case Option.bind (json_get payload ''enterprise_profile'') profile_from of
                Some p \<Rightarrow> p | None \<Rightarrow> dm_enterprise_profile md)\<rparr>)"

text \<open>\<^verbatim>\<open>Path::ends_with\<close> compares whole components: here the last one.\<close>

definition path_file_name :: "string \<Rightarrow> string" where
  "path_file_name path = rev (takeWhile (\<lambda>c. c \<noteq> CHR ''/'') (rev path))"

definition hot_reload :: "activation_env \<Rightarrow> (json \<Rightarrow> enterprise_profile option) \<Rightarrow> string \<Rightarrow> (string, string) result \<Rightarrow> app_state \<Rightarrow> app_state" where
  "hot_reload env profile_from path content st =
     (let is_active = (path_file_name path = ''active_bundle.json''); is_shadow = (path_file_name path = ''shadow_bundle.json'')
      in if \<not> (is_active \<or> is_shadow) then st
         else case content of
                Inl _ \<Rightarrow> st
              | Inr t \<Rightarrow>
                  (case ax_from_str env t of
                     Inl _ \<Rightarrow> st
                   | Inr payload \<Rightarrow>
                       let s = snapshot_new 0 ''hot-reload'' 0 (load_router_config (ax_builder env) policy_router_new payload)
                                 (reload_metadata env profile_from payload (sn_metadata (as_snapshot st)))
                       in if is_active then app_reload s st else app_reload_shadow s st))"

text \<open>
  The start of the process: the staged bundle, when there is one, fills an empty router and the metadata; a bundle that
  cannot be read or parsed leaves both empty, so that every request is denied; with no bundle one evaluator is
  registered and still no route. \<open>scale_from\<close> and \<open>profile_from\<close> deserialise.
\<close>

record scale_config =
  sc_max_concurrent :: nat
  sc_max_concurrent_per_tenant :: nat
  sc_pdp_timeout_ms :: nat
  sc_breaker_failure_threshold :: u32
  sc_breaker_cooldown_secs :: nat

definition default_scale_config :: scale_config where
  "default_scale_config =
     \<lparr>sc_max_concurrent = 512, sc_max_concurrent_per_tenant = 64, sc_pdp_timeout_ms = 200,
      sc_breaker_failure_threshold = 5, sc_breaker_cooldown_secs = 10\<rparr>"

definition start_state :: "activation_env \<Rightarrow> guard_env \<Rightarrow> (json \<Rightarrow> enterprise_profile option) \<Rightarrow> (json \<Rightarrow> scale_config option) \<Rightarrow>
    string \<Rightarrow> string \<Rightarrow> enterprise_profile \<Rightarrow> (string, string) result option \<Rightarrow> bool \<Rightarrow> observation_store \<Rightarrow> app_state" where
  "start_state env genv profile_from scale_from tenant_id device_id default_profile staged telemetry observer =
     (let md = \<lparr>dm_tenant_id = tenant_id, dm_device_id = device_id, dm_spiffe_id = None, dm_jwt_public_key_pem = None, dm_jwks = None,
                dm_issuer_url = None, dm_audience = None, dm_enterprise_profile = default_profile\<rparr>;
          (router, md, scale) =
            (case staged of
               None \<Rightarrow>
                 ((case openfga_new (ax_builder env) ''http://localhost:8080'' ''store_123'' None of
                     Inr adapter \<Rightarrow> register_evaluator policy_router_new ''openfga'' adapter
                   | Inl _ \<Rightarrow> policy_router_new), md, default_scale_config)
             | Some content \<Rightarrow>
                 (case content of
                    Inl _ \<Rightarrow> (policy_router_new, md, default_scale_config)
                  | Inr t \<Rightarrow>
                      (case ax_from_str env t of
                         Inl _ \<Rightarrow> (policy_router_new, md, default_scale_config)
                       | Inr payload \<Rightarrow>
                           (load_router_config (ax_builder env) policy_router_new payload, reload_metadata env profile_from payload md,
                            case Option.bind (json_get payload ''scale'') scale_from of Some sc \<Rightarrow> sc | None \<Rightarrow> default_scale_config))))
      in app_state_new genv (snapshot_new 0 ''initial'' 0 router md) telemetry
           (admission_new (sc_max_concurrent scale) (sc_max_concurrent_per_tenant scale)) (rate_limiter_new 100 10) observer)"

lemma policy_router_new_routes: "routes policy_router_new = []"
  by (simp add: policy_router_new_def)

text \<open>Without a readable bundle nothing is allowed: there is no route.\<close>

lemma start_without_bundle_denies:
  assumes "staged = None \<or> (\<exists>e. staged = Some (Inl e))"
  shows "\<not> pd_allow (ar_decision (authorize (sn_router (as_snapshot
    (start_state env genv pf sf tenant dv prof staged tel obs))) input now))"
  using assms
  by (auto simp: start_state_def app_state_new_def snapshot_new_def authorize_def authorize_inner_def policy_router_new_routes
      register_evaluator_def no_route_decision_def Let_def split: sum.splits)

end
