(* ===== verification/Enforcement_Points.thy ===== *)
theory Enforcement_Points
  imports Mcp_Proxy Router_Properties
begin

text \<open>
  The two other enforcement points in front of the policy router: the Envoy authorization server (\<^verbatim>\<open>src/crates/dek-ext-authz/src/main.rs\<close>)
  and the wrapper around a tool server that speaks over its standard streams (\<^verbatim>\<open>src/crates/dek-mcp-stdio-wrapper/src/main.rs\<close>), with the
  request type of \<^verbatim>\<open>src/crates/dek-decision/src/lib.rs\<close> they hand to the router. Parameters: JSON text, SHA-256, identifiers, the clock, the
  status file, the WebAssembly redactor. The streams of the wrapper are lists of lines; its two tasks are two kinds of steps in any
  order. Metrics, logging, spawning the child and the set-up of telemetry are left out.
\<close>

subsection \<open>The decision request\<close>

record decision_request_v1 =
  dv_decision_id :: string
  dv_request_id :: string
  dv_trace_id :: "string option"
  dv_tenant_id :: string
  dv_device_id :: string
  dv_principal_id :: string
  dv_roles :: "string list"
  dv_agent :: "(string \<times> string) option"
  dv_action :: string
  dv_resource_type :: string
  dv_resource_id :: string
  dv_uri :: "string option"
  dv_context :: json
  dv_input_hash :: string

definition decision_request_to_value :: "decision_request_v1 \<Rightarrow> json" where
  "decision_request_to_value r =
     JObj [(''decision_id'', JStr (dv_decision_id r)), (''request_id'', JStr (dv_request_id r)), (''trace_id'', opt_value JStr (dv_trace_id r)),
           (''tenant_id'', JStr (dv_tenant_id r)), (''device_id'', JStr (dv_device_id r)),
           (''principal'', JObj [(''id'', JStr (dv_principal_id r)), (''roles'', strs (dv_roles r))]),
           (''agent'', opt_value (\<lambda>(n, v). JObj [(''name'', JStr n), (''version'', JStr v)]) (dv_agent r)),
           (''action'', JStr (dv_action r)),
           (''resource'', JObj [(''resource_type'', JStr (dv_resource_type r)), (''resource_id'', JStr (dv_resource_id r)),
              (''uri'', opt_value JStr (dv_uri r))]),
           (''context'', dv_context r), (''input_hash'', JStr (dv_input_hash r))]"

subsection \<open>The Envoy authorization server\<close>

record http_attributes =
  ha_method :: string
  ha_scheme :: string
  ha_host :: string
  ha_path :: string
  ha_headers :: "(string \<times> string) list"

record check_request =
  cr_has_attributes :: bool
  cr_request :: "http_attributes option"
  cr_source_principal :: "string option"

datatype http_response = OkHttpResponse | DeniedHttpResponse int string

record check_response =
  cp_code :: int
  cp_message :: string
  cp_http_response :: http_response

record ext_authz =
  ea_router :: policy_router
  ea_tenant_id :: string
  ea_device_id :: string
  ea_admission :: admission_control
  ea_telemetry :: "(json \<times> priority) list option"
  ea_gate :: gate

record point_env =
  pt_uuid :: "nat \<Rightarrow> string"
  pt_rfc3339 :: string
  pt_now :: instant
  pt_status_file :: "enforcement_status option"

definition denied_check_response :: "string \<Rightarrow> check_response" where
  "denied_check_response reason = \<lparr>cp_code = 7, cp_message = reason, cp_http_response = DeniedHttpResponse 403 reason\<rparr>"

definition http_of :: "check_request \<Rightarrow> http_attributes option" where
  "http_of req = (if cr_has_attributes req then cr_request req else None)"

definition check_action :: "check_request \<Rightarrow> string" where
  "check_action req = (case http_of req of Some h \<Rightarrow> ha_method h | None \<Rightarrow> ''unknown'')"

definition check_resource :: "check_request \<Rightarrow> string" where
  "check_resource req = (case http_of req of Some h \<Rightarrow> ha_scheme h @ ''://'' @ ha_host h @ ha_path h | None \<Rightarrow> ''unknown'')"

definition check_principal :: "check_request \<Rightarrow> string" where
  "check_principal req = (if cr_has_attributes req then str_or ''anonymous'' (cr_source_principal req) else ''anonymous'')"

definition check_context :: "ext_authz \<Rightarrow> check_request \<Rightarrow> json" where
  "check_context s req =
     json_insert_all
       (JObj [(''pep_mode'', JStr ''envoy_ext_authz''),
              (''context'', JObj [(''tenant_id'', JStr (ea_tenant_id s)), (''device_id'', JStr (ea_device_id s))]),
              (''attributes'', JObj [(''headers'', case http_of req of Some h \<Rightarrow> JObj (map (map_prod (\<lambda>k. k) JStr) (ha_headers h)) | None \<Rightarrow> json_empty)])])
       [(''action'', JStr (check_action req)), (''principal'', JStr (check_principal req)), (''resource'', JStr (check_resource req))]"

definition check_decision_request :: "point_env \<Rightarrow> ext_authz \<Rightarrow> check_request \<Rightarrow> decision_request_v1" where
  "check_decision_request env s req =
     \<lparr>dv_decision_id = pt_uuid env 0, dv_request_id = pt_uuid env 1, dv_trace_id = None, dv_tenant_id = ea_tenant_id s,
      dv_device_id = ea_device_id s, dv_principal_id = check_principal req, dv_roles = [], dv_agent = None, dv_action = check_action req,
      dv_resource_type = ''url'', dv_resource_id = check_resource req, dv_uri = None, dv_context = check_context s req,
      dv_input_hash = ''ext_authz_hash''\<rparr>"

definition check_event :: "point_env \<Rightarrow> ext_authz \<Rightarrow> check_request \<Rightarrow> policy_decision \<Rightarrow> json" where
  "check_event env s req d =
     (let dr = check_decision_request env s req in
      JObj [(''schema_version'', JStr ''1.0''), (''event_id'', JStr (pt_uuid env 2)), (''event_type'', JStr ''decision_log''),
        (''timestamp'', JStr (pt_rfc3339 env)), (''tenant_id'', JStr (ea_tenant_id s)), (''workspace_id'', JStr ''default''),
        (''environment_id'', JStr ''local''), (''device_id'', JStr (ea_device_id s)), (''redaction_applied'', JBool False),
        (''payload'', JObj [(''decision_id'', JStr (dv_decision_id dr)), (''request_id'', JStr (dv_request_id dr)),
           (''trace_id'', JStr (dv_request_id dr)), (''decision'', JStr (if pd_allow d then ''allow'' else ''deny'')),
           (''reason'', JStr (pd_reason d)), (''matched_policy_ids'', JArr []), (''matched_route_id'', JNull), (''adapter_results'', JArr []),
           (''obligations'', JArr []), (''latency_ms'', JInt 0), (''principal'', JStr (check_principal req)), (''tool'', JStr ''ext_authz''),
           (''method'', JStr (check_action req)), (''resource'', JStr (check_resource req))])])"

definition check_answer :: "policy_decision \<Rightarrow> check_response" where
  "check_answer d =
     (if pd_allow d then \<lparr>cp_code = 0, cp_message = ''Allowed by Pollek DEK'', cp_http_response = OkHttpResponse\<rparr>
      else \<lparr>cp_code = 7, cp_message = pd_reason d, cp_http_response = DeniedHttpResponse 403 (''Access Denied by Pollek DEK: '' @ pd_reason d)\<rparr>)"

definition ext_authz_check :: "point_env \<Rightarrow> check_request \<Rightarrow> ext_authz \<Rightarrow> check_response \<times> ext_authz" where
  "ext_authz_check env req s =
     (case strict_deny_reason (ea_gate s) (pt_status_file env) (pt_now env) of
        (Some reason, g) \<Rightarrow> (denied_check_response (''policy_stale_failsafe: '' @ reason), s\<lparr>ea_gate := g\<rparr>)
      | (None, g) \<Rightarrow>
     (case try_admit (ea_admission s) (ea_tenant_id s) of
        (None, ac) \<Rightarrow> (denied_check_response ''overloaded_backpressure'', s\<lparr>ea_gate := g, ea_admission := ac\<rparr>)
      | (Some permit, ac) \<Rightarrow>
          let r = authorize (ea_router s) (decision_request_to_value (check_decision_request env s req)) (pt_now env);
              d = ar_decision r
          in (check_answer d,
              s\<lparr>ea_gate := g, ea_router := ar_router r, ea_admission := drop_permit ac permit,
                ea_telemetry := map_option (\<lambda>l. l @ [(check_event env s req d, PrioNormal)]) (ea_telemetry s)\<rparr>)))"

definition router_from_bundle :: "builder_env \<Rightarrow> json option \<Rightarrow> policy_router" where
  "router_from_bundle env bundle = (case bundle of Some payload \<Rightarrow> load_router_config env policy_router_new payload | None \<Rightarrow> policy_router_new)"

definition ext_authz_start :: "builder_env \<Rightarrow> json option \<Rightarrow> string option \<Rightarrow> string \<Rightarrow> bool \<Rightarrow> ext_authz" where
  "ext_authz_start env bundle tenant device telemetry =
     \<lparr>ea_router = router_from_bundle env bundle, ea_tenant_id = str_or ''default'' tenant, ea_device_id = device,
      ea_admission = admission_new (sc_max_concurrent default_scale_config) (sc_max_concurrent_per_tenant default_scale_config),
      ea_telemetry = (if telemetry then Some [] else None), ea_gate = gate_new\<rparr>"

subsection \<open>The wrapper of a tool server\<close>

record wrapper_env =
  wv_point :: point_env
  wv_os :: string
  wv_from_str :: "string \<Rightarrow> json option"
  wv_to_string :: "json \<Rightarrow> string"
  wv_sha256_hex :: "string \<Rightarrow> string"
  wv_redactor :: "(json \<Rightarrow> json option) option"

record stdio_wrapper =
  sw_router :: policy_router
  sw_tenant_id :: string
  sw_device_id :: string
  sw_spiffe_id :: "string option"
  sw_agent_id :: string
  sw_server_id :: string
  sw_telemetry :: "(json \<times> priority) list option"
  sw_child_in :: "string list"
  sw_parent_out :: "string list"

definition wrapper_event :: "wrapper_env \<Rightarrow> stdio_wrapper \<Rightarrow> json \<Rightarrow> normalized_mcp_event" where
  "wrapper_event env s payload =
     \<lparr>ne_event_id = pt_uuid (wv_point env) 0, ne_transport = TrStdio, ne_direction = MdRequest,
      ne_request_type = str_or ''unknown'' (get_str payload ''method''), ne_jsonrpc_id = json_get payload ''id'',
      ne_tenant_id = sw_tenant_id s, ne_device_id = sw_device_id s, ne_spiffe_id = sw_spiffe_id s, ne_user_id = Some (sw_agent_id s),
      ne_agent_id = Some (sw_agent_id s), ne_server_id = Some (sw_server_id s),
      ne_tool_name = Option.bind (json_get payload ''params'') (\<lambda>p. get_str p ''name''),
      ne_resource_uri = None, ne_prompt_name = None, ne_payload = payload, ne_session = json_empty, ne_runtime = JObj [(''os'', JStr (wv_os env))]\<rparr>"

definition wrapper_action :: "wrapper_env \<Rightarrow> stdio_wrapper \<Rightarrow> json \<Rightarrow> string" where
  "wrapper_action env s payload = str_or (ne_request_type (wrapper_event env s payload)) (ne_tool_name (wrapper_event env s payload))"

definition wrapper_context :: "wrapper_env \<Rightarrow> stdio_wrapper \<Rightarrow> json \<Rightarrow> json" where
  "wrapper_context env s payload =
     json_insert_all (event_to_value (wrapper_event env s payload))
       [(''action'', JStr (wrapper_action env s payload)), (''principal'', JStr (sw_agent_id s)), (''resource'', JStr (sw_server_id s))]"

definition wrapper_decision_request :: "wrapper_env \<Rightarrow> stdio_wrapper \<Rightarrow> json \<Rightarrow> decision_request_v1" where
  "wrapper_decision_request env s payload =
     \<lparr>dv_decision_id = pt_uuid (wv_point env) 1, dv_request_id = pt_uuid (wv_point env) 2, dv_trace_id = None, dv_tenant_id = sw_tenant_id s,
      dv_device_id = sw_device_id s, dv_principal_id = sw_agent_id s, dv_roles = [], dv_agent = None, dv_action = wrapper_action env s payload,
      dv_resource_type = ''mcp_tool'', dv_resource_id = sw_server_id s, dv_uri = None, dv_context = wrapper_context env s payload,
      dv_input_hash = wv_sha256_hex env (wv_to_string env (wrapper_context env s payload))\<rparr>"

definition wrapper_log :: "wrapper_env \<Rightarrow> stdio_wrapper \<Rightarrow> json \<Rightarrow> policy_decision \<Rightarrow> json" where
  "wrapper_log env s payload d =
     (let dr = wrapper_decision_request env s payload; e = wrapper_event env s payload in
      JObj [(''schema_version'', JStr ''1.0''), (''event_type'', JStr ''decision_log''), (''device_id'', JStr (sw_device_id s)),
        (''tenant_id'', JStr (sw_tenant_id s)), (''timestamp'', JStr (pt_rfc3339 (wv_point env))),
        (''mcp'', JObj [(''principal'', JStr (sw_agent_id s)), (''tool'', JStr (str_or [] (ne_tool_name e))), (''method'', JStr (ne_request_type e)),
           (''verdict'', JStr (if pd_allow d then ''allow'' else ''deny'')), (''reason'', JStr (pd_reason d)),
           (''request_id'', JStr (dv_request_id dr)), (''decision_id'', JStr (dv_decision_id dr))])])"

definition wrapper_denial :: "json \<Rightarrow> policy_decision \<Rightarrow> json" where
  "wrapper_denial payload d =
     rpc_error payload (-32001) ''Pollek policy denied MCP request'' [(''data'', JObj [(''reason'', JStr (pd_reason d))])]"

definition newline :: string where
  "newline = [CHR 0x0A]"

definition forward_line :: "bool \<Rightarrow> string \<Rightarrow> stdio_wrapper \<Rightarrow> bool \<times> stdio_wrapper" where
  "forward_line written line s = (if written then (True, s\<lparr>sw_child_in := sw_child_in s @ [line @ newline]\<rparr>) else (False, s))"

text \<open>One line from the agent; the flag says whether the task goes on (it ends when the child no longer reads).\<close>

definition wrap_request :: "wrapper_env \<Rightarrow> bool \<Rightarrow> string \<Rightarrow> stdio_wrapper \<Rightarrow> bool \<times> stdio_wrapper" where
  "wrap_request env written line s =
     (case wv_from_str env line of
        None \<Rightarrow> forward_line written line s
      | Some payload \<Rightarrow>
          let r = authorize (sw_router s) (decision_request_to_value (wrapper_decision_request env s payload)) (pt_now (wv_point env));
              d = ar_decision r;
              s1 = s\<lparr>sw_router := ar_router r,
                sw_telemetry := map_option (\<lambda>l. l @ [(wrapper_log env s payload d, PrioNormal)]) (sw_telemetry s)\<rparr>
          in if pd_allow d then forward_line written line s1
             else (True, s1\<lparr>sw_parent_out := sw_parent_out s1 @ [wv_to_string env (wrapper_denial payload d)]\<rparr>))"

text \<open>One line from the child.\<close>

definition wrap_response :: "wrapper_env \<Rightarrow> string \<Rightarrow> stdio_wrapper \<Rightarrow> stdio_wrapper" where
  "wrap_response env line s =
     s\<lparr>sw_parent_out := sw_parent_out s @
        [case wv_from_str env line of
           None \<Rightarrow> line
         | Some payload \<Rightarrow> wv_to_string env
             (case wv_redactor env of None \<Rightarrow> payload
              | Some redact \<Rightarrow> (case redact payload of Some redacted \<Rightarrow> redacted | None \<Rightarrow> payload))]\<rparr>"

definition wrapper_start :: "builder_env \<Rightarrow> json option \<Rightarrow> string \<Rightarrow> string \<Rightarrow> string \<Rightarrow> bool \<Rightarrow> stdio_wrapper" where
  "wrapper_start env bundle device agent server telemetry =
     \<lparr>sw_router = router_from_bundle env bundle,
      sw_tenant_id = str_or ''default-tenant'' (Option.bind bundle (\<lambda>p. get_str p ''tenant_id'')), sw_device_id = device,
      sw_spiffe_id = Option.bind bundle (\<lambda>p. get_str p ''spiffe_id''), sw_agent_id = agent, sw_server_id = server,
      sw_telemetry = (if telemetry then Some [] else None), sw_child_in = [], sw_parent_out = []\<rparr>"


subsection \<open>Authorization keeps the configuration of the router\<close>

lemma eval_loop_config: "same_config rt (fst (snd (eval_loop rt r payload dry eq fq c now)))"
proof (induction rt r payload dry eq fq c now rule: eval_loop.induct)
  case (2 rt r payload dry_run ev_id eq fq c now)
  obtain tn c' rt' now' where t: "eval_turn rt r payload dry_run ev_id fq c now = ((tn, c'), rt', now')"
    by (metis prod_cases3 surj_pair)
  have s: "same_config rt rt'" using eval_turn_config [of rt r payload dry_run ev_id fq c now] t by simp
  show ?case
  proof (cases tn)
    case Break
    with t s show ?thesis by simp
  next
    case Continue
    from "2.IH"(1) [OF t [symmetric] refl Continue refl] same_config_trans [OF s] t Continue show ?thesis by simp
  next
    case FallBack
    from "2.IH"(2) [OF t [symmetric] refl FallBack refl] same_config_trans [OF s] s t FallBack show ?thesis by (auto split: list.splits)
  qed
qed simp

lemma authorize_config: "same_config rt (ar_router (authorize rt payload now))"
  unfolding authorize_def
  by (auto simp: authorize_inner_def Let_def split_def eval_loop_config select_pool_config
      intro: same_config_trans [OF select_pool_config eval_loop_config] split: sum.split option.split)

text \<open>What an allowance of the router rests on: a route takes the request and, if it enforces, one of the evaluators of the
  configuration allowed this very request.\<close>

definition cleared :: "policy_router \<Rightarrow> json \<Rightarrow> bool" where
  "cleared rt input \<longleftrightarrow>
     (\<exists>r. match_route (routes rt) (context_extract input) = Inr r \<and>
        (route_enforcement_mode r = BreakGlass \<or> \<not> enforcing r \<or> (\<exists>ev. allowed_by rt input ev)))"

lemma authorize_cleared:
  assumes "pd_allow (ar_decision (authorize rt input now))"
  shows "cleared rt input"
proof (cases "match_route (routes rt) (context_extract input)")
  case (Inl d)
  then have "d = no_route_decision" unfolding match_route_Inl by blast
  with Inl assms show ?thesis by (simp add: authorize_def authorize_inner_def no_route_decision_def)
next
  case (Inr r)
  then show ?thesis using authorize_inner_allow_sound [OF Inr, of False now] assms unfolding authorize_def cleared_def by auto
qed

lemma cleared_config: "same_config rt rt' \<Longrightarrow> cleared rt' input = cleared rt input"
proof -
  assume c: "same_config rt rt'"
  then have "routes rt' = routes rt" by (simp add: same_config_def)
  then show ?thesis by (simp add: cleared_def allowed_by_config [OF c])
qed


subsection \<open>The Envoy server lets through what every gate lets through\<close>

lemma try_admit_tenant: "try_admit ac t = (Some p, ac') \<Longrightarrow> p = t"
  by (auto simp: try_admit_def Let_def split: if_splits prod.splits)

lemma admitted_iff: "fst (try_admit ac t) \<noteq> None \<longleftrightarrow> global_sem ac \<noteq> 0 \<and> tenant_available ac t \<noteq> 0"
  using try_admit_refused [of ac t] try_admit_admitted [of ac t] by fastforce

text \<open>
  C5. The Envoy authorization server answers a check with OK exactly when the policy is fresh enough, the server has room for the
  tenant and the router allows the request built from the check; what it allows was cleared by the configured router. A check that the
  first two gates stop leaves router and telemetry alone, and every check gives its permit back.
\<close>

theorem ext_authz_mediation:
  "let out = ext_authz_check env req s;
             open = (fst (strict_deny_reason (ea_gate s) (pt_status_file env) (pt_now env)) = None \<and>
                global_sem (ea_admission s) \<noteq> 0 \<and> tenant_available (ea_admission s) (ea_tenant_id s) \<noteq> 0);
             input = decision_request_to_value (check_decision_request env s req)
         in (cp_http_response (fst out) = OkHttpResponse \<longleftrightarrow> open \<and> pd_allow (ar_decision (authorize (ea_router s) input (pt_now env)))) \<and>
            (cp_http_response (fst out) = OkHttpResponse \<longleftrightarrow> cp_code (fst out) = 0) \<and>
            (cp_http_response (fst out) = OkHttpResponse \<longrightarrow> cleared (ea_router s) input) \<and>
            (\<not> open \<longrightarrow> ea_router (snd out) = ea_router s \<and> ea_telemetry (snd out) = ea_telemetry s) \<and>
            global_sem (ea_admission (snd out)) = global_sem (ea_admission s) \<and>
            tenant_available (ea_admission (snd out)) = tenant_available (ea_admission s)"
proof -
  obtain reason g where g: "strict_deny_reason (ea_gate s) (pt_status_file env) (pt_now env) = (reason, g)" by fastforce
  obtain permit ac where a: "try_admit (ea_admission s) (ea_tenant_id s) = (permit, ac)" by fastforce
  note adm = admitted_iff [of "ea_admission s" "ea_tenant_id s", unfolded a fst_conv]
  show ?thesis
  proof (cases "reason = None \<and> permit \<noteq> None")
    case True
    then obtain p where p: "permit = Some p" by blast
    have "p = ea_tenant_id s" using a p try_admit_tenant by metis
    from permit_returned [OF a [unfolded p this]] this authorize_cleared [of "ea_router s"] True adm show ?thesis
      by (simp add: ext_authz_check_def g a p Let_def check_answer_def)
  next
    case False
    then show ?thesis
      using try_admit_refused [of "ea_admission s" "ea_tenant_id s"] adm
      by (cases reason; cases permit) (auto simp: ext_authz_check_def g a denied_check_response_def Let_def)
  qed
qed


definition demo_point :: point_env where
  "demo_point = \<lparr>pt_uuid = (\<lambda>n. ''id''), pt_rfc3339 = ''t'', pt_now = 0, pt_status_file = None\<rparr>"

definition demo_authz :: ext_authz where
  "demo_authz = \<lparr>ea_router = policy_router_new, ea_tenant_id = ''t'', ea_device_id = ''d'', ea_admission = admission_new 2 1,
     ea_telemetry = Some [], ea_gate = gate_new\<rparr>"

definition demo_check :: check_request where
  "demo_check = \<lparr>cr_has_attributes = False, cr_request = None, cr_source_principal = None\<rparr>"

theorem ext_authz_mediation_witness:
  "cp_http_response (fst (ext_authz_check demo_point demo_check demo_authz)) \<noteq> OkHttpResponse \<and>
   ea_telemetry (snd (ext_authz_check demo_point demo_check demo_authz)) = Some [] \<and>
   global_sem (ea_admission (snd (ext_authz_check demo_point demo_check demo_authz))) = 2"
proof -
  have "fst (strict_deny_reason (ea_gate demo_authz) (pt_status_file demo_point) (pt_now demo_point)) \<noteq> None"
    by (simp add: demo_authz_def demo_point_def gate_new_def strict_deny_reason_def)
  moreover have "global_sem (ea_admission demo_authz) = 2" "ea_telemetry demo_authz = Some []" by (simp_all add: demo_authz_def admission_new_def)
  ultimately show ?thesis using ext_authz_mediation [of demo_point demo_check demo_authz] by (simp add: Let_def)
qed

subsection \<open>The wrapper forwards what the router cleared\<close>

text \<open>Lines of the agent and of the child arrive in any order; identifiers and clock differ from line to line.\<close>

inductive wrapper_step :: "(string \<Rightarrow> json option) \<Rightarrow> stdio_wrapper \<Rightarrow> stdio_wrapper \<Rightarrow> bool" for parse where
  request: "wv_from_str env = parse \<Longrightarrow> wrapper_step parse s (snd (wrap_request env written line s))"
| response: "wv_from_str env = parse \<Longrightarrow> wrapper_step parse s (wrap_response env line s)"

definition same_wrapper :: "stdio_wrapper \<Rightarrow> stdio_wrapper \<Rightarrow> bool" where
  "same_wrapper a b \<longleftrightarrow> same_config (sw_router a) (sw_router b) \<and> sw_tenant_id b = sw_tenant_id a \<and> sw_device_id b = sw_device_id a \<and>
     sw_spiffe_id b = sw_spiffe_id a \<and> sw_agent_id b = sw_agent_id a \<and> sw_server_id b = sw_server_id a"

definition line_cleared :: "(string \<Rightarrow> json option) \<Rightarrow> stdio_wrapper \<Rightarrow> string \<Rightarrow> bool" where
  "line_cleared parse start l \<longleftrightarrow>
     (\<exists>line. l = line @ newline \<and>
        (\<forall>payload. parse line = Some payload \<longrightarrow>
           (\<exists>env. cleared (sw_router start) (decision_request_to_value (wrapper_decision_request env start payload)))))"

definition wrapper_inv :: "(string \<Rightarrow> json option) \<Rightarrow> stdio_wrapper \<Rightarrow> stdio_wrapper \<Rightarrow> bool" where
  "wrapper_inv parse start s \<longleftrightarrow> same_wrapper start s \<and> (\<forall>l\<in>set (sw_child_in s). line_cleared parse start l)"

lemma wrapper_request_same: "same_wrapper start s \<Longrightarrow> wrapper_decision_request env s payload = wrapper_decision_request env start payload"
  by (simp add: same_wrapper_def wrapper_decision_request_def wrapper_action_def wrapper_context_def wrapper_event_def)

lemma forward_line_inv:
  assumes "wrapper_inv parse start s" and "line_cleared parse start (line @ newline)"
  shows "wrapper_inv parse start (snd (forward_line written line s))"
  using assms by (auto simp: wrapper_inv_def forward_line_def same_wrapper_def)

lemma wrap_request_inv:
  assumes inv: "wrapper_inv parse start s" and p: "wv_from_str env = parse"
  shows "wrapper_inv parse start (snd (wrap_request env written line s))"
proof (cases "parse line")
  case None
  then have "line_cleared parse start (line @ newline)" by (auto simp: line_cleared_def)
  with None inv p show ?thesis by (simp add: wrap_request_def forward_line_inv)
next
  case (Some payload)
  let ?input = "decision_request_to_value (wrapper_decision_request env start payload)"
  define r where "r = authorize (sw_router s) ?input (pt_now (wv_point env))"
  define s1 where "s1 = s\<lparr>sw_router := ar_router r,
    sw_telemetry := map_option (\<lambda>l. l @ [(wrapper_log env s payload (ar_decision r), PrioNormal)]) (sw_telemetry s)\<rparr>"
  from inv have same: "same_wrapper start s" by (simp add: wrapper_inv_def)
  have "same_config (sw_router start) (ar_router r)"
    using same same_config_trans [OF _ authorize_config] by (auto simp: same_wrapper_def r_def)
  with inv have inv1: "wrapper_inv parse start s1" by (simp add: wrapper_inv_def same_wrapper_def s1_def)
  have e: "wrap_request env written line s = (if pd_allow (ar_decision r) then forward_line written line s1
      else (True, s1\<lparr>sw_parent_out := sw_parent_out s1 @ [wv_to_string env (wrapper_denial payload (ar_decision r))]\<rparr>))"
    using Some p by (simp add: wrap_request_def wrapper_request_same [OF same] r_def s1_def Let_def)
  show ?thesis
  proof (cases "pd_allow (ar_decision r)")
    case True
    have "cleared (sw_router s) ?input" using True authorize_cleared by (auto simp: r_def)
    then have "cleared (sw_router start) ?input" using same cleared_config by (auto simp: same_wrapper_def)
    then have "line_cleared parse start (line @ newline)" using Some by (auto simp: line_cleared_def)
    with True e inv1 show ?thesis by (simp add: forward_line_inv)
  next
    case False
    with e inv1 show ?thesis by (simp add: wrapper_inv_def same_wrapper_def)
  qed
qed

lemma wrap_response_inv: "wrapper_inv parse start s \<Longrightarrow> wrapper_inv parse start (wrap_response env line s)"
  by (simp add: wrapper_inv_def same_wrapper_def wrap_response_def)

interpretation wrapper_sys: invariant_system "\<lambda>s. s = start \<and> sw_child_in start = []" "wrapper_step parse" "wrapper_inv parse start"
  for parse start
proof unfold_locales
  show "wrapper_inv parse start t" if "wrapper_step parse s t" "wrapper_inv parse start s" for s t
    using that by (cases rule: wrapper_step.cases) (simp_all add: wrap_request_inv wrap_response_inv)
qed (simp add: wrapper_inv_def same_wrapper_def)

text \<open>
  C6. Over any interleaving of lines from the agent and from the tool server, every line the wrapper passed to the tool server is either
  not JSON or was cleared by the router the wrapper started with: a route took the request made from this line, and where the route enforces, one
  of its configured evaluators allowed it.
\<close>

theorem wrapper_mediation:
  assumes "sw_child_in start = []" and "(wrapper_step parse)\<^sup>*\<^sup>* start s" and "l \<in> set (sw_child_in s)"
  shows "\<exists>line. l = line @ newline \<and>
    (\<forall>payload. parse line = Some payload \<longrightarrow>
       (\<exists>env. cleared (sw_router start) (decision_request_to_value (wrapper_decision_request env start payload))))"
  using wrapper_sys.inv_reachable [of start start parse s] assms unfolding wrapper_inv_def line_cleared_def by blast


definition demo_wrapper_env :: wrapper_env where
  "demo_wrapper_env = \<lparr>wv_point = demo_point, wv_os = ''linux'', wv_from_str = (\<lambda>_. Some (JObj [(''method'', JStr ''test'')])),
     wv_to_string = (\<lambda>_. ''{}''), wv_sha256_hex = (\<lambda>_. ''h''), wv_redactor = None\<rparr>"

definition demo_route :: route where
  "demo_route = (sample_route [] [] ''deny_overrides'')\<lparr>route_enforcement_mode := BreakGlass\<rparr>"

definition demo_wrapper :: stdio_wrapper where
  "demo_wrapper = \<lparr>sw_router = set_routes policy_router_new [demo_route], sw_tenant_id = ''t'', sw_device_id = ''d'',
     sw_spiffe_id = None, sw_agent_id = ''a'', sw_server_id = ''s'', sw_telemetry = None, sw_child_in = [], sw_parent_out = []\<rparr>"

lemma demo_forwarded: "sw_child_in (snd (wrap_request demo_wrapper_env True ''call'' demo_wrapper)) = [''call'' @ newline]"
proof -
  let ?input = "decision_request_to_value (wrapper_decision_request demo_wrapper_env demo_wrapper (JObj [(''method'', JStr ''test'')]))"
  have "ctx_method (context_extract ?input) = ''test''"
    by (simp add: context_extract_def decision_request_to_value_def wrapper_decision_request_def wrapper_action_def wrapper_event_def str_or_def or_else_def)
  then have m: "match_route (routes (sw_router demo_wrapper)) (context_extract ?input) = Inr demo_route"
    by (simp add: demo_wrapper_def set_routes_def demo_route_def sample_route_def route_matches_def)
  have "pd_allow (ar_decision (authorize (sw_router demo_wrapper) ?input t))" for t
    using breakglass_bypasses [OF m] by (simp add: authorize_def demo_route_def breakglass_decision_def)
  then show ?thesis
    by (simp add: wrap_request_def demo_wrapper_env_def forward_line_def Let_def) (simp add: demo_wrapper_def)
qed

theorem wrapper_mediation_witness:
  "\<exists>env. cleared (set_routes policy_router_new [demo_route])
     (decision_request_to_value (wrapper_decision_request env demo_wrapper (JObj [(''method'', JStr ''test'')])))"
proof -
  have step: "(wrapper_step (wv_from_str demo_wrapper_env))\<^sup>*\<^sup>* demo_wrapper (snd (wrap_request demo_wrapper_env True ''call'' demo_wrapper))"
    by (rule r_into_rtranclp) (rule wrapper_step.request, rule refl)
  have "\<exists>line. ''call'' @ newline = line @ newline \<and>
      (\<forall>payload. wv_from_str demo_wrapper_env line = Some payload \<longrightarrow>
         (\<exists>env. cleared (sw_router demo_wrapper) (decision_request_to_value (wrapper_decision_request env demo_wrapper payload))))"
    by (rule wrapper_mediation [OF _ step]) (simp_all add: demo_forwarded, simp add: demo_wrapper_def)
  then show ?thesis by (simp add: demo_wrapper_env_def) (simp add: demo_wrapper_def)
qed

text \<open>The server and the wrapper let an allowed request through whatever its obligations are, where the proxy waits for an approval or a second
  factor.\<close>

lemma obligations_ignored: "check_answer (d\<lparr>pd_obligations := obs\<rparr>) = check_answer d"
  by (simp add: check_answer_def)

text \<open>A batch of calls reaches the router as one request of method \<^verbatim>\<open>unknown\<close> without a tool: no policy sees which tools the batch calls, and all of it
  is passed on.\<close>

lemma batch_hides_calls: "wrapper_action env s (JArr calls) = ''unknown'' \<and> ne_tool_name (wrapper_event env s (JArr calls)) = None"
  by (simp add: wrapper_action_def wrapper_event_def str_or_def)

text \<open>The wrapper takes any named parameter for a tool: a prompt is authorized under the name of a tool.\<close>

lemma prompt_name_is_tool:
  "wrapper_action env s (JObj [(''method'', JStr ''prompts/get''), (''params'', JObj [(''name'', JStr n)])]) = n"
  by (simp add: wrapper_action_def wrapper_event_def str_or_def)

text \<open>When the redactor fails, the answer of the tool server goes out as it is.\<close>

lemma redactor_failure_passes:
  assumes "wv_from_str env line = Some payload" and "wv_redactor env = Some redact" and "redact payload = None"
  shows "sw_parent_out (wrap_response env line s) = sw_parent_out s @ [wv_to_string env payload]"
  using assms by (simp add: wrap_response_def)

text \<open>Without a bundle both points deny: there is no route.\<close>

lemma no_bundle_denies: "\<not> pd_allow (ar_decision (authorize (router_from_bundle env None) input now))"
  using authorize_cleared [of "policy_router_new" input now] by (auto simp: router_from_bundle_def cleared_def policy_router_new_routes)

end
