(* ===== verification/Trust_Gate.thy ===== *)
theory Trust_Gate
  imports Json_Value Guard_Output "HOL-Library.List_Lexorder" "HOL-Library.Char_ord"
begin

text \<open>
  \<^verbatim>\<open>src/crates/dek-trust-gate\<close>: the gate a signed bundle manifest passes before activation. Parameters
  (\<open>trust_env\<close>): the text of JSON scalars, SHA-256 in hexadecimal, the two base64 alphabets, Ed25519, and the
  deserialisation of the signature list. A verifying key is its 32 bytes. The check functions return their check
  results and failure classes in the order in which \<^verbatim>\<open>verify\<close> pushes them.
\<close>

record manifest_signature =
  ms_key_id :: "string option"
  ms_alg :: "string option"
  ms_sig :: string
  ms_payload_hash :: "string option"
  ms_public_key_pem :: "string option"

record trust_env =
  tg_to_string :: "json \<Rightarrow> string"
  tg_sha256_hex :: "string \<Rightarrow> string"
  tg_b64_standard :: "string \<Rightarrow> string option"
  tg_b64_url_safe_no_pad :: "string \<Rightarrow> string option"
  tg_vk_from_bytes_ok :: "string \<Rightarrow> bool"
  tg_verify_strict :: "string \<Rightarrow> string \<Rightarrow> string \<Rightarrow> bool"
  tg_signatures_from_value :: "json \<Rightarrow> manifest_signature list option"

subsection \<open>Model\<close>

record trust_policy =
  tp_require_signature :: bool
  tp_require_generation_monotonicity :: bool
  tp_require_provenance :: bool
  tp_require_sbom :: bool
  tp_require_test_attestation :: bool
  tp_signer_allowlist :: "string list"
  tp_expected_tenant :: "string option"
  tp_min_slsa_level :: nat
  tp_min_approvers :: nat

definition default_trust_policy :: trust_policy where
  "default_trust_policy =
     \<lparr>tp_require_signature = True, tp_require_generation_monotonicity = True, tp_require_provenance = False,
      tp_require_sbom = False, tp_require_test_attestation = False, tp_signer_allowlist = [],
      tp_expected_tenant = None, tp_min_slsa_level = 0, tp_min_approvers = 0\<rparr>"

record trusted_signer =
  si_key_id :: string
  si_verifying_key :: string

datatype gate_decision = GateAccept | GateQuarantine

datatype check_status = CkPass | CkFail | CkSkipped

record check_result =
  cr_name :: string
  cr_status :: check_status
  cr_detail :: string

definition check_pass :: "string \<Rightarrow> string \<Rightarrow> check_result" where
  "check_pass n d = \<lparr>cr_name = n, cr_status = CkPass, cr_detail = d\<rparr>"

definition check_fail :: "string \<Rightarrow> string \<Rightarrow> check_result" where
  "check_fail n d = \<lparr>cr_name = n, cr_status = CkFail, cr_detail = d\<rparr>"

definition check_skip :: "string \<Rightarrow> string \<Rightarrow> check_result" where
  "check_skip n d = \<lparr>cr_name = n, cr_status = CkSkipped, cr_detail = d\<rparr>"

record verdict =
  vd_decision :: gate_decision
  vd_bundle_id :: string
  vd_tenant :: string
  vd_revision :: string
  vd_signer_key_id :: "string option"
  vd_checks :: "check_result list"
  vd_failure_classes :: "string list"
  vd_evaluated_at_unix :: int

definition accepted :: "verdict \<Rightarrow> bool" where
  "accepted v \<longleftrightarrow> vd_decision v = GateAccept"

fun check_status_value :: "check_status \<Rightarrow> json" where
  "check_status_value CkPass = JStr ''pass''"
| "check_status_value CkFail = JStr ''fail''"
| "check_status_value CkSkipped = JStr ''skipped''"

definition check_value :: "check_result \<Rightarrow> json" where
  "check_value c = JObj [(''name'', JStr (cr_name c)), (''status'', check_status_value (cr_status c)), (''detail'', JStr (cr_detail c))]"

definition audit_payload :: "verdict \<Rightarrow> json" where
  "audit_payload v =
     JObj [(''event'', JStr ''trust_gate_verdict''), (''severity'', JStr (if accepted v then ''info'' else ''critical'')),
       (''decision'', JStr (case vd_decision v of GateAccept \<Rightarrow> ''accept'' | GateQuarantine \<Rightarrow> ''quarantine'')),
       (''bundle_id'', JStr (vd_bundle_id v)), (''tenant'', JStr (vd_tenant v)), (''revision'', JStr (vd_revision v)),
       (''signer_key_id'', case vd_signer_key_id v of None \<Rightarrow> JNull | Some k \<Rightarrow> JStr k),
       (''failure_classes'', JArr (map JStr (vd_failure_classes v))), (''checks'', JArr (map check_value (vd_checks v))),
       (''evaluated_at_unix'', JInt (vd_evaluated_at_unix v))]"

subsection \<open>Canonical JSON\<close>

definition added_keys :: "string list" where
  "added_keys = [''payload_hash'', ''signatures'', ''verification'', ''signing_action'']"

fun join_with :: "string \<Rightarrow> string list \<Rightarrow> string" where
  "join_with sep [] = []"
| "join_with sep [x] = x"
| "join_with sep (x # y # ys) = x @ sep @ join_with sep (y # ys)"

fun stable_json :: "trust_env \<Rightarrow> json \<Rightarrow> string" where
  "stable_json env (JObj m) =
     ''{'' @ join_with '','' (map (\<lambda>(k, val_json). tg_to_string env (JStr k) @ '':'' @ val_json)
       (sort_key fst (map (\<lambda>(k, v). (k, stable_json env v)) m))) @ ''}''"
| "stable_json env (JArr xs) = ''['' @ join_with '','' (map (stable_json env) xs) @ '']''"
| "stable_json env v = tg_to_string env v"

definition unsigned_payload :: "trust_env \<Rightarrow> json \<Rightarrow> string" where
  "unsigned_payload env manifest =
     (case manifest of
        JObj m \<Rightarrow> stable_json env (JObj (filter (\<lambda>(k, v). k \<notin> set added_keys) m))
      | other \<Rightarrow> stable_json env other)"

subsection \<open>Signers\<close>

fun split_newlines :: "string \<Rightarrow> string \<Rightarrow> string list" where
  "split_newlines acc [] = (if acc = [] then [] else [rev acc])"
| "split_newlines acc (c # cs) =
     (if c = CHR 0x0A
      then rev (case acc of CHR 0x0D # rest \<Rightarrow> rest | _ \<Rightarrow> acc) # split_newlines [] cs
      else split_newlines (c # acc) cs)"

text \<open>\<^verbatim>\<open>str::lines\<close>.\<close>

definition str_lines :: "string \<Rightarrow> string list" where
  "str_lines s = split_newlines [] s"

definition from_pem :: "trust_env \<Rightarrow> string \<Rightarrow> string \<Rightarrow> trusted_signer option" where
  "from_pem env kid pem =
     (let body = concat (filter (\<lambda>l. \<not> starts_with l ''-----'') (str_lines pem))
      in Option.bind (tg_b64_standard env (str_trim body)) (\<lambda>der.
           if length der < 32 then None
           else let raw = drop (length der - 32) der
                in if tg_vk_from_bytes_ok env raw then Some \<lparr>si_key_id = kid, si_verifying_key = raw\<rparr> else None))"

definition from_base64 :: "trust_env \<Rightarrow> string \<Rightarrow> string \<Rightarrow> trusted_signer option" where
  "from_base64 env kid b64 =
     Option.bind (tg_b64_standard env b64) (\<lambda>raw.
       if length raw = 32 \<and> tg_vk_from_bytes_ok env raw then Some \<lparr>si_key_id = kid, si_verifying_key = raw\<rparr> else None)"

subsection \<open>Checks\<close>

record verify_input =
  vi_manifest :: json
  vi_policy :: trust_policy
  vi_trusted_signers :: "trusted_signer list"
  vi_now_unix :: int
  vi_last_activated_revision :: "string option"
  vi_artifact_bytes :: "(string \<times> string) list"

definition str_field :: "json \<Rightarrow> string \<Rightarrow> string" where
  "str_field m k = (case get_str m k of Some s \<Rightarrow> s | None \<Rightarrow> [])"

type_synonym check_outcome = "check_result list \<times> string list"

text \<open>The two loops of the signature check: the signers for one signature, and the signatures; the second component
  is \<^verbatim>\<open>hash_ok\<close>.\<close>

fun try_signers :: "trust_env \<Rightarrow> string \<Rightarrow> string option \<Rightarrow> string \<Rightarrow> trusted_signer list \<Rightarrow> string option" where
  "try_signers env payload kid sig [] = None"
| "try_signers env payload kid sig (t # ts) =
     (if (\<exists>k\<in>set_option kid. k \<noteq> si_key_id t) then try_signers env payload kid sig ts
      else if tg_verify_strict env (si_verifying_key t) payload sig then Some (si_key_id t)
      else try_signers env payload kid sig ts)"

fun try_signatures :: "trust_env \<Rightarrow> string \<Rightarrow> string \<Rightarrow> trusted_signer list \<Rightarrow> manifest_signature list \<Rightarrow> bool \<Rightarrow> string option \<times> bool" where
  "try_signatures env payload hash ts [] hash_ok = (None, hash_ok)"
| "try_signatures env payload hash ts (s # ss) hash_ok =
     (if (\<exists>ph\<in>set_option (ms_payload_hash s). ph \<noteq> hash) then try_signatures env payload hash ts ss False
      else case tg_b64_url_safe_no_pad env (ms_sig s) of
             None \<Rightarrow> try_signatures env payload hash ts ss hash_ok
           | Some sig_bytes \<Rightarrow>
               if length sig_bytes \<noteq> 64 then try_signatures env payload hash ts ss hash_ok
               else case try_signers env payload (ms_key_id s) sig_bytes ts of
                      Some kid \<Rightarrow> (Some kid, hash_ok)
                    | None \<Rightarrow> try_signatures env payload hash ts ss hash_ok)"

definition manifest_signatures :: "trust_env \<Rightarrow> json \<Rightarrow> manifest_signature list" where
  "manifest_signatures env m =
     (case Option.bind (json_get m ''signatures'') (tg_signatures_from_value env) of Some ss \<Rightarrow> ss | None \<Rightarrow> [])"

definition quoted :: "string \<Rightarrow> string" where
  "quoted s = [CHR 0x27] @ s @ [CHR 0x27]"

definition check_signature :: "trust_env \<Rightarrow> verify_input \<Rightarrow> check_outcome \<times> string option" where
  "check_signature env i =
     (let payload = unsigned_payload env (vi_manifest i); payload_hash = tg_sha256_hex env payload;
          sigs = manifest_signatures env (vi_manifest i)
      in if \<not> tp_require_signature (vi_policy i) then (([check_skip ''signature'' ''not required by policy''], []), None)
         else if sigs = []
         then (([check_fail ''signature'' ''manifest carries no signatures''], [''signature_failure'']), None)
         else if vi_trusted_signers i = []
         then (([check_fail ''signature'' (''no trusted signer keys provisioned '' @ [CHR 0xE2, CHR 0x80, CHR 0x94] @ '' fail closed'')], [''signature_failure'']), None)
         else case try_signatures env payload payload_hash (vi_trusted_signers i) sigs True of
                (Some kid, _) \<Rightarrow>
                  (([check_pass ''signature'' (''Ed25519 verified by trusted signer '' @ quoted kid)], []), Some kid)
              | (None, hash_ok) \<Rightarrow>
                  (([check_fail ''signature''
                      (if \<not> hash_ok then ''signature payload_hash does not match recomputed manifest hash (tampered)''
                       else ''no signature verified against any pinned trusted signer (unsigned/forged/wrong-key)'')],
                    [''signature_failure'']), None))"

definition check_signer_allowlist :: "verify_input \<Rightarrow> string option \<Rightarrow> check_outcome" where
  "check_signer_allowlist i signer_key_id =
     (if tp_signer_allowlist (vi_policy i) = [] then ([check_skip ''signer_allowlist'' ''no allowlist configured''], [])
      else case signer_key_id of
             Some kid \<Rightarrow>
               if kid \<in> set (tp_signer_allowlist (vi_policy i))
               then ([check_pass ''signer_allowlist'' (''signer '' @ quoted kid @ '' allowlisted'')], [])
               else ([check_fail ''signer_allowlist'' (''signer '' @ quoted kid @ '' not in allowlist'')], [''signer_not_allowlisted''])
           | None \<Rightarrow> ([check_fail ''signer_allowlist'' ''no verified signer to check''], [''signer_not_allowlisted'']))"

definition check_tenant :: "verify_input \<Rightarrow> string \<Rightarrow> check_outcome" where
  "check_tenant i tenant =
     (case tp_expected_tenant (vi_policy i) of
        Some expected \<Rightarrow>
          if expected = tenant then ([check_pass ''tenant_match'' (''tenant '' @ quoted expected @ '' matches'')], [])
          else ([check_fail ''tenant_match'' (''manifest tenant '' @ quoted tenant @ '' != expected '' @ quoted expected)], [''tenant_mismatch''])
      | None \<Rightarrow> ([check_skip ''tenant_match'' ''no expected tenant configured''], []))"

definition check_generation :: "verify_input \<Rightarrow> string \<Rightarrow> check_outcome" where
  "check_generation i revision =
     (if \<not> tp_require_generation_monotonicity (vi_policy i) then ([check_skip ''generation_monotonicity'' ''not required by policy''], [])
      else case vi_last_activated_revision i of
             None \<Rightarrow> ([check_pass ''generation_monotonicity'' (''first activation at revision '' @ quoted revision)], [])
           | Some prev \<Rightarrow>
               if revision > prev
               then ([check_pass ''generation_monotonicity'' (''revision '' @ quoted revision @ '' > last '' @ quoted prev)], [])
               else ([check_fail ''generation_monotonicity''
                        (''revision '' @ quoted revision @ '' not newer than last '' @ quoted prev @ '' (downgrade/replay)'')], [''revision_mismatch'']))"

definition check_manifest_status :: "json \<Rightarrow> check_outcome" where
  "check_manifest_status m =
     (case get_str m ''status'' of
        Some s \<Rightarrow>
          if s = ''revoked'' then ([check_fail ''status'' (''bundle status is '' @ quoted ''revoked'')], [''revoked''])
          else ([check_pass ''status'' (''status '' @ quoted s)], [])
      | None \<Rightarrow> ([check_skip ''status'' ''no status field''], []))"

fun strip_repeatedly :: "nat \<Rightarrow> string \<Rightarrow> string \<Rightarrow> string" where
  "strip_repeatedly 0 p s = s"
| "strip_repeatedly (Suc n) p s = (if p \<noteq> [] \<and> starts_with s p then strip_repeatedly n p (drop (length p) s) else s)"

text \<open>\<^verbatim>\<open>str::trim_start_matches\<close>; each round drops a byte, so the length of the text is enough fuel.\<close>

definition trim_start_matches :: "string \<Rightarrow> string \<Rightarrow> string" where
  "trim_start_matches p s = strip_repeatedly (length s) p s"

definition artifact_problem :: "trust_env \<Rightarrow> (string \<times> string) list \<Rightarrow> json \<Rightarrow> string option" where
  "artifact_problem env bytes_of a =
     (let name = str_field a ''name''; declared = trim_start_matches ''sha256:'' (str_field a ''sha256'')
      in case map_of bytes_of name of
           None \<Rightarrow> Some (name @ '' (bytes not supplied)'')
         | Some content \<Rightarrow>
             let got = tg_sha256_hex env content
             in if got \<noteq> declared then Some (name @ '' (sha256 '' @ got @ '' != declared '' @ declared @ '')'') else None)"

definition check_artifacts :: "trust_env \<Rightarrow> verify_input \<Rightarrow> check_outcome" where
  "check_artifacts env i =
     (if vi_artifact_bytes i = []
      then ([check_skip ''artifact_integrity'' ''no artifact bytes provided (signature-only verification)''], [])
      else case Option.bind (json_get (vi_manifest i) ''artifacts'') as_array of
             None \<Rightarrow> ([check_skip ''artifact_integrity'' ''manifest declares no artifacts''], [])
           | Some arts \<Rightarrow>
               let bad = List.map_filter (artifact_problem env (vi_artifact_bytes i)) arts
               in if bad = []
                  then ([check_pass ''artifact_integrity'' (show_nat (length arts) @ '' artifact(s) match their authenticated digest'')], [])
                  else ([check_fail ''artifact_integrity'' (''digest mismatch: '' @ join_with ''; '' bad)], [''activation_failure'']))"

definition optional_extension :: "json \<Rightarrow> string \<Rightarrow> bool \<Rightarrow> check_outcome" where
  "optional_extension m key required =
     (if \<not> required then ([check_skip key ''not required by policy''], [])
      else case json_get m key of
             Some v \<Rightarrow>
               if \<not> is_null v then ([check_pass key ''present in signed manifest''], [])
               else ([check_fail key ''required but absent from signed manifest''], [key @ ''_missing''])
           | None \<Rightarrow> ([check_fail key ''required but absent from signed manifest''], [key @ ''_missing'']))"

definition gate_verify :: "trust_env \<Rightarrow> verify_input \<Rightarrow> verdict" where
  "gate_verify env i =
     (let m = vi_manifest i; p = vi_policy i;
          tenant = str_field m ''tenant_id''; revision = str_field m ''revision''; bundle_id = str_field m ''bundle_id'';
          (sig, signer_key_id) = check_signature env i;
          outcomes = [sig, check_signer_allowlist i signer_key_id, check_tenant i tenant, check_generation i revision,
            check_manifest_status m, check_artifacts env i, optional_extension m ''provenance'' (tp_require_provenance p),
            optional_extension m ''sbom'' (tp_require_sbom p), optional_extension m ''attestation'' (tp_require_test_attestation p)];
          failures = concat (map snd outcomes)
      in \<lparr>vd_decision = (if failures = [] then GateAccept else GateQuarantine), vd_bundle_id = bundle_id, vd_tenant = tenant,
          vd_revision = revision, vd_signer_key_id = signer_key_id, vd_checks = concat (map fst outcomes),
          vd_failure_classes = failures, vd_evaluated_at_unix = vi_now_unix i\<rparr>)"


subsection \<open>What a vouched manifest is\<close>

text \<open>A signature vouches for a payload through a signer.\<close>

definition vouched :: "trust_env \<Rightarrow> string \<Rightarrow> manifest_signature \<Rightarrow> trusted_signer \<Rightarrow> bool" where
  "vouched env payload s t \<longleftrightarrow>
     (ms_payload_hash s = None \<or> ms_payload_hash s = Some (tg_sha256_hex env payload)) \<and>
     (ms_key_id s = None \<or> ms_key_id s = Some (si_key_id t)) \<and>
     (\<exists>b. tg_b64_url_safe_no_pad env (ms_sig s) = Some b \<and> length b = 64 \<and> tg_verify_strict env (si_verifying_key t) payload b)"

lemma try_signers_Some:
  "try_signers env payload kid sig ts = Some k \<Longrightarrow>
     \<exists>t\<in>set ts. si_key_id t = k \<and> (kid = None \<or> kid = Some (si_key_id t)) \<and> tg_verify_strict env (si_verifying_key t) payload sig"
  by (induction env payload kid sig ts rule: try_signers.induct) (auto split: if_splits option.splits)

lemma try_signers_None:
  "try_signers env payload kid sig ts = None \<longleftrightarrow>
     \<not> (\<exists>t\<in>set ts. (kid = None \<or> kid = Some (si_key_id t)) \<and> tg_verify_strict env (si_verifying_key t) payload sig)"
  by (induction env payload kid sig ts rule: try_signers.induct) (cases "kid"; auto)+

definition signature_signer :: "trust_env \<Rightarrow> string \<Rightarrow> trusted_signer list \<Rightarrow> manifest_signature \<Rightarrow> string option" where
  "signature_signer env payload ts s =
     (if (\<exists>ph\<in>set_option (ms_payload_hash s). ph \<noteq> tg_sha256_hex env payload) then None
      else Option.bind (tg_b64_url_safe_no_pad env (ms_sig s)) (\<lambda>b.
             if length b \<noteq> 64 then None else try_signers env payload (ms_key_id s) b ts))"

lemma signature_signer_Some:
  "signature_signer env payload ts s = Some k \<Longrightarrow> \<exists>t\<in>set ts. si_key_id t = k \<and> vouched env payload s t"
  unfolding signature_signer_def vouched_def
  by (cases "ms_payload_hash s") (auto simp: bind_eq_Some_conv split: if_splits dest!: try_signers_Some)

lemma signature_signer_None:
  "signature_signer env payload ts s = None \<longleftrightarrow> \<not> (\<exists>t\<in>set ts. vouched env payload s t)"
  unfolding signature_signer_def vouched_def
  by (cases "ms_payload_hash s"; cases "tg_b64_url_safe_no_pad env (ms_sig s)") (simp_all del: not_None_eq add: try_signers_None)

lemma try_signatures_step:
  "\<exists>h'. fst (try_signatures env payload (tg_sha256_hex env payload) ts (s # ss) h) =
     (case signature_signer env payload ts s of
        Some k \<Rightarrow> Some k | None \<Rightarrow> fst (try_signatures env payload (tg_sha256_hex env payload) ts ss h'))"
  by (auto simp: signature_signer_def split: option.splits)

lemma try_signatures_Some:
  "fst (try_signatures env payload (tg_sha256_hex env payload) ts ss h) = Some k \<Longrightarrow>
     \<exists>s\<in>set ss. \<exists>t\<in>set ts. si_key_id t = k \<and> vouched env payload s t"
proof (induction ss arbitrary: h)
  case (Cons s ss)
  with try_signatures_step [of env payload ts s ss h] show ?case
    by (force split: option.splits dest: signature_signer_Some)
qed simp

lemma try_signatures_None:
  "fst (try_signatures env payload (tg_sha256_hex env payload) ts ss h) = None \<longleftrightarrow>
     \<not> (\<exists>s\<in>set ss. \<exists>t\<in>set ts. vouched env payload s t)"
proof (induction ss arbitrary: h)
  case (Cons s ss)
  show ?case
  proof (cases "signature_signer env payload ts s")
    case None
    with try_signatures_step [of env payload ts s ss h] obtain h' where
      "fst (try_signatures env payload (tg_sha256_hex env payload) ts (s # ss) h) =
       fst (try_signatures env payload (tg_sha256_hex env payload) ts ss h')" by auto
    then show ?thesis
      using Cons.IH [of h'] None unfolding signature_signer_None by (simp del: try_signatures.simps not_None_eq)
  next
    case (Some k)
    with try_signatures_step [of env payload ts s ss h] signature_signer_Some [OF Some] show ?thesis
      by (auto simp del: try_signatures.simps)
  qed
qed simp

subsection \<open>Canonical text\<close>

text \<open>Values that differ at most in the order of the keys of their objects.\<close>

inductive same_up_to_order :: "json \<Rightarrow> json \<Rightarrow> bool" where
  same_scalar: "same_up_to_order v v"
| same_array: "list_all2 same_up_to_order xs ys \<Longrightarrow> same_up_to_order (JArr xs) (JArr ys)"
| same_object: "list_all2 (rel_prod (=) same_up_to_order) m m' \<Longrightarrow> set m' = set m'' \<Longrightarrow> distinct (map fst m) \<Longrightarrow>
     distinct (map fst m'') \<Longrightarrow> same_up_to_order (JObj m) (JObj m'')"

lemma sort_by_key_unique:
  fixes xs ys :: "('a::linorder \<times> 'b) list"
  assumes "set xs = set ys" and "distinct (map fst xs)" and "distinct (map fst ys)"
  shows "sort_key fst xs = sort_key fst ys"
  by (rule map_sorted_distinct_set_unique [where f = fst]) (use assms in \<open>auto simp: distinct_map\<close>)

lemma stable_json_object_order:
  assumes "set m = set m'" and "distinct (map fst m)" and "distinct (map fst m')"
  shows "stable_json env (JObj m) = stable_json env (JObj m')"
proof -
  let ?f = "\<lambda>(k, v). (k, stable_json env v)"
  have "sort_key fst (map ?f m) = sort_key fst (map ?f m')"
    by (rule sort_by_key_unique) (use assms in \<open>auto simp: comp_def split_def\<close>)
  then show ?thesis by simp
qed

lemma stable_json_same: "same_up_to_order v w \<Longrightarrow> stable_json env v = stable_json env w"
proof (induction rule: same_up_to_order.induct)
  case (same_array xs ys)
  then have "map (stable_json env) xs = map (stable_json env) ys" by (induction rule: list_all2_induct) auto
  then show ?case by simp
next
  case (same_object m m' m'')
  from same_object(1) have keys: "map fst m = map fst m'" and
    "map (\<lambda>(k, v). (k, stable_json env v)) m = map (\<lambda>(k, v). (k, stable_json env v)) m'"
    by (induction rule: list_all2_induct) auto
  then have "stable_json env (JObj m) = stable_json env (JObj m')" by simp
  also have "\<dots> = stable_json env (JObj m'')"
    using same_object(2-4) keys by (intro stable_json_object_order) simp_all
  finally show ?case .
qed simp


text \<open>The signed text depends neither on the fields the cloud adds nor on the order of the keys.\<close>

lemma unsigned_payload_canonical:
  assumes "distinct (map fst m)" and "distinct (map fst m')"
    and "list_all2 (rel_prod (=) same_up_to_order) (filter (\<lambda>(k, v). k \<notin> set added_keys) m) m1"
    and "set m1 = set (filter (\<lambda>(k, v). k \<notin> set added_keys) m')"
  shows "unsigned_payload env (JObj m) = unsigned_payload env (JObj m')"
proof -
  have d: "distinct (map fst (filter (\<lambda>(k, v). k \<notin> set added_keys) n))" if "distinct (map fst n)" for n :: "(string \<times> json) list"
    using that by (induction n) auto
  have "same_up_to_order (JObj (filter (\<lambda>(k, v). k \<notin> set added_keys) m)) (JObj (filter (\<lambda>(k, v). k \<notin> set added_keys) m'))"
    using assms d by (intro same_object [OF assms(3,4)]) blast+
  from stable_json_same [OF this] show ?thesis by (simp add: unsigned_payload_def)
qed

subsection \<open>The checks, one by one\<close>

named_theorems passes_simps "when a check adds no failure class"

lemma check_signature_passes [passes_simps]:
  "snd (fst (check_signature env i)) = [] \<longleftrightarrow>
     (tp_require_signature (vi_policy i) \<longrightarrow>
       (\<exists>s\<in>set (manifest_signatures env (vi_manifest i)). \<exists>t\<in>set (vi_trusted_signers i).
          vouched env (unsigned_payload env (vi_manifest i)) s t))"
proof -
  let ?p = "unsigned_payload env (vi_manifest i)"
  obtain r h where r: "try_signatures env ?p (tg_sha256_hex env ?p) (vi_trusted_signers i) (manifest_signatures env (vi_manifest i)) True = (r, h)"
    by (cases "try_signatures env ?p (tg_sha256_hex env ?p) (vi_trusted_signers i) (manifest_signatures env (vi_manifest i)) True")
  have n: "r = None \<longleftrightarrow> \<not> (\<exists>s\<in>set (manifest_signatures env (vi_manifest i)). \<exists>t\<in>set (vi_trusted_signers i). vouched env ?p s t)"
    using try_signatures_None [of env ?p "vi_trusted_signers i" "manifest_signatures env (vi_manifest i)" True] r by simp
  show ?thesis
  proof (cases r)
    case None
    with n r show ?thesis by (simp add: check_signature_def Let_def)
  next
    case (Some k)
    then have "\<exists>s\<in>set (manifest_signatures env (vi_manifest i)). \<exists>t\<in>set (vi_trusted_signers i). vouched env ?p s t"
      using n by fastforce
    moreover from this have "manifest_signatures env (vi_manifest i) \<noteq> []" "vi_trusted_signers i \<noteq> []" by auto
    ultimately show ?thesis using r Some by (simp add: check_signature_def Let_def)
  qed
qed

lemma check_signature_signer:
  assumes "snd (check_signature env i) = Some k"
  shows "\<exists>s\<in>set (manifest_signatures env (vi_manifest i)). \<exists>t\<in>set (vi_trusted_signers i).
    si_key_id t = k \<and> vouched env (unsigned_payload env (vi_manifest i)) s t"
proof -
  let ?p = "unsigned_payload env (vi_manifest i)"
  have "fst (try_signatures env ?p (tg_sha256_hex env ?p) (vi_trusted_signers i) (manifest_signatures env (vi_manifest i)) True) = Some k"
    using assms by (auto simp: check_signature_def Let_def split: if_splits option.splits prod.splits)
  from try_signatures_Some [OF this] show ?thesis .
qed

lemma check_signer_allowlist_passes [passes_simps]:
  "snd (check_signer_allowlist i k) = [] \<longleftrightarrow>
     (tp_signer_allowlist (vi_policy i) = [] \<or> (\<exists>kid. k = Some kid \<and> kid \<in> set (tp_signer_allowlist (vi_policy i))))"
  by (auto simp: check_signer_allowlist_def split: option.splits)

lemma check_tenant_passes [passes_simps]:
  "snd (check_tenant i tenant) = [] \<longleftrightarrow> (tp_expected_tenant (vi_policy i) = None \<or> tp_expected_tenant (vi_policy i) = Some tenant)"
  by (auto simp: check_tenant_def split: option.splits)

lemma check_generation_passes [passes_simps]:
  "snd (check_generation i revision) = [] \<longleftrightarrow>
     (\<not> tp_require_generation_monotonicity (vi_policy i) \<or> (case vi_last_activated_revision i of None \<Rightarrow> True | Some prev \<Rightarrow> prev < revision))"
  by (auto simp: check_generation_def split: option.splits)

lemma check_manifest_status_passes [passes_simps]:
  "snd (check_manifest_status m) = [] \<longleftrightarrow> get_str m ''status'' \<noteq> Some ''revoked''"
  by (auto simp: check_manifest_status_def split: option.splits)

definition artifact_intact :: "trust_env \<Rightarrow> (string \<times> string) list \<Rightarrow> json \<Rightarrow> bool" where
  "artifact_intact env bytes_of a \<longleftrightarrow>
     (\<exists>b. map_of bytes_of (str_field a ''name'') = Some b \<and> tg_sha256_hex env b = trim_start_matches ''sha256:'' (str_field a ''sha256''))"

lemma artifact_problem_None: "artifact_problem env bytes_of a = None \<longleftrightarrow> artifact_intact env bytes_of a"
  by (auto simp: artifact_problem_def artifact_intact_def Let_def split: option.splits)

lemma map_filter_empty: "List.map_filter f xs = [] \<longleftrightarrow> (\<forall>x\<in>set xs. f x = None)"
  by (induction xs) (auto simp: List.map_filter_def split: option.splits)

lemma check_artifacts_passes [passes_simps]:
  "snd (check_artifacts env i) = [] \<longleftrightarrow>
     (vi_artifact_bytes i = [] \<or>
      (case Option.bind (json_get (vi_manifest i) ''artifacts'') as_array of
         None \<Rightarrow> True | Some arts \<Rightarrow> \<forall>a\<in>set arts. artifact_intact env (vi_artifact_bytes i) a))"
  by (auto simp: check_artifacts_def Let_def map_filter_empty artifact_problem_None split: option.splits)

lemma optional_extension_passes [passes_simps]:
  "snd (optional_extension m k required) = [] \<longleftrightarrow> (required \<longrightarrow> (\<exists>v. json_get m k = Some v \<and> v \<noteq> JNull))"
  by (auto simp: optional_extension_def is_null_def split: option.splits)

subsection \<open>Properties\<close>

text \<open>The gate as it is: every check, with the revision compared as text and an extension that only has to be there.\<close>

lemma gate_accepts_iff:
  fixes env i
  defines "m \<equiv> vi_manifest i" and "p \<equiv> vi_policy i" and "v \<equiv> gate_verify env i"
  shows "(accepted v \<longleftrightarrow>
      (tp_require_signature p \<longrightarrow>
        (\<exists>s\<in>set (manifest_signatures env m). \<exists>t\<in>set (vi_trusted_signers i). vouched env (unsigned_payload env m) s t)) \<and>
      (tp_signer_allowlist p = [] \<or> (\<exists>kid. vd_signer_key_id v = Some kid \<and> kid \<in> set (tp_signer_allowlist p))) \<and>
      (tp_expected_tenant p = None \<or> tp_expected_tenant p = Some (str_field m ''tenant_id'')) \<and>
      (\<not> tp_require_generation_monotonicity p \<or>
        (case vi_last_activated_revision i of None \<Rightarrow> True | Some prev \<Rightarrow> prev < str_field m ''revision'')) \<and>
      get_str m ''status'' \<noteq> Some ''revoked'' \<and>
      (vi_artifact_bytes i = [] \<or> (case Option.bind (json_get m ''artifacts'') as_array of
         None \<Rightarrow> True | Some arts \<Rightarrow> \<forall>a\<in>set arts. artifact_intact env (vi_artifact_bytes i) a)) \<and>
      (tp_require_provenance p \<longrightarrow> (\<exists>x. json_get m ''provenance'' = Some x \<and> x \<noteq> JNull)) \<and>
      (tp_require_sbom p \<longrightarrow> (\<exists>x. json_get m ''sbom'' = Some x \<and> x \<noteq> JNull)) \<and>
      (tp_require_test_attestation p \<longrightarrow> (\<exists>x. json_get m ''attestation'' = Some x \<and> x \<noteq> JNull))) \<and>
    (\<forall>kid. vd_signer_key_id v = Some kid \<longrightarrow>
      (\<exists>s\<in>set (manifest_signatures env m). \<exists>t\<in>set (vi_trusted_signers i). si_key_id t = kid \<and> vouched env (unsigned_payload env m) s t))"
proof -
  have s: "vd_signer_key_id v = snd (check_signature env i)" by (simp add: v_def gate_verify_def Let_def split: prod.splits)
  have a: "accepted v \<longleftrightarrow> snd (fst (check_signature env i)) = [] \<and> snd (check_signer_allowlist i (vd_signer_key_id v)) = [] \<and>
      snd (check_tenant i (str_field m ''tenant_id'')) = [] \<and> snd (check_generation i (str_field m ''revision'')) = [] \<and>
      snd (check_manifest_status m) = [] \<and> snd (check_artifacts env i) = [] \<and>
      snd (optional_extension m ''provenance'' (tp_require_provenance p)) = [] \<and>
      snd (optional_extension m ''sbom'' (tp_require_sbom p)) = [] \<and>
      snd (optional_extension m ''attestation'' (tp_require_test_attestation p)) = []"
    by (simp add: s accepted_def v_def gate_verify_def m_def p_def Let_def split: prod.splits)
  show ?thesis
    unfolding a passes_simps using s check_signature_signer [of env i] by (simp add: m_def p_def)
qed

text \<open>Revisions that are numbers of the same number of digits are ordered as texts the way they are as numbers.\<close>

definition is_digits :: "string \<Rightarrow> bool" where
  "is_digits s \<longleftrightarrow> (\<forall>c\<in>set s. CHR ''0'' \<le> c \<and> c \<le> CHR ''9'')"

fun revision_number :: "string \<Rightarrow> nat" where
  "revision_number [] = 0"
| "revision_number (c # cs) = (of_char c - 48) * 10 ^ length cs + revision_number cs"

lemma revision_number_bound: "is_digits s \<Longrightarrow> revision_number s < 10 ^ length s"
proof (induction s)
  case (Cons c cs)
  have "of_char c \<le> (57 :: nat)" using Cons.prems by (simp add: is_digits_def less_eq_char_def)
  then have "of_char c - 48 \<le> (9 :: nat)" by linarith
  then have "(of_char c - 48) * 10 ^ length cs \<le> 9 * (10 :: nat) ^ length cs" by (rule mult_right_mono) simp
  moreover have "revision_number cs < 10 ^ length cs" using Cons by (simp add: is_digits_def)
  ultimately have "(of_char c - 48) * 10 ^ length cs + revision_number cs < 10 * 10 ^ length cs" by linarith
  then show ?case by (simp only: revision_number.simps list.size power_Suc add_0_right add_Suc_right)
qed simp

lemma digits_order:
  "is_digits xs \<Longrightarrow> is_digits ys \<Longrightarrow> length xs = length ys \<Longrightarrow> xs < ys \<longleftrightarrow> revision_number xs < revision_number ys"
proof (induction xs ys rule: list_induct2')
  case (4 x xs y ys)
  let ?n = "10 ^ length xs :: nat"
  define a b :: nat where "a = of_char x - 48" and "b = of_char y - 48"
  have len: "length ys = length xs" using 4 by simp
  have d: "48 \<le> (of_char x :: nat)" "48 \<le> (of_char y :: nat)" using 4 by (auto simp: is_digits_def less_eq_char_def)
  have "x = y \<longleftrightarrow> (of_char x :: nat) = of_char y" by simp
  with d have xy: "x < y \<longleftrightarrow> a < b" "x = y \<longleftrightarrow> a = b" unfolding a_def b_def less_char_def by linarith+
  have bound: "revision_number xs < ?n" "revision_number ys < ?n"
    using revision_number_bound [of xs] revision_number_bound [of ys] 4 len by (auto simp: is_digits_def)
  have ih: "xs < ys \<longleftrightarrow> revision_number xs < revision_number ys" using 4 by (auto simp: is_digits_def)
  have far: "i * ?n + p < j * ?n + q" if "i < j" "p < ?n" for i j p q :: nat
  proof -
    have "Suc i * ?n \<le> j * ?n" using that(1) by (intro mult_right_mono) simp_all
    then show ?thesis using that(2) by simp
  qed
  show ?case
    using far [of a b "revision_number xs" "revision_number ys"] far [of b a "revision_number ys" "revision_number xs"] bound ih xy
    by (cases a b rule: linorder_cases) (auto simp: len a_def [symmetric] b_def [symmetric])
qed simp_all

text \<open>
  C34. Under a policy that requires no extensions, as the default does not, and for revisions that are numbers of the same number of digits, the gate accepts a
  manifest exactly when every check holds: a pinned signer's Ed25519 signature over the
  canonical payload (with a matching declared hash and key identifier), the verifying signer in the allowlist, the expected
  tenant, a revision greater than the last activated one, a status other than revoked, and every listed artifact with the bytes of its
  digest (when bytes are supplied). A signer is reported only when it vouches for the
  payload.
\<close>

theorem trust_gate_exact:
  fixes env i
  defines "m \<equiv> vi_manifest i" and "p \<equiv> vi_policy i" and "v \<equiv> gate_verify env i"
  assumes "\<not> tp_require_provenance p" and "\<not> tp_require_sbom p" and "\<not> tp_require_test_attestation p"
    and rev: "\<And>prev. vi_last_activated_revision i = Some prev \<Longrightarrow>
      is_digits prev \<and> is_digits (str_field m ''revision'') \<and> length prev = length (str_field m ''revision'')"
  shows "(accepted v \<longleftrightarrow>
      (tp_require_signature p \<longrightarrow>
        (\<exists>s\<in>set (manifest_signatures env m). \<exists>t\<in>set (vi_trusted_signers i). vouched env (unsigned_payload env m) s t)) \<and>
      (tp_signer_allowlist p = [] \<or> (\<exists>kid. vd_signer_key_id v = Some kid \<and> kid \<in> set (tp_signer_allowlist p))) \<and>
      (tp_expected_tenant p = None \<or> tp_expected_tenant p = Some (str_field m ''tenant_id'')) \<and>
      (\<not> tp_require_generation_monotonicity p \<or>
        (case vi_last_activated_revision i of None \<Rightarrow> True | Some prev \<Rightarrow> revision_number prev < revision_number (str_field m ''revision''))) \<and>
      get_str m ''status'' \<noteq> Some ''revoked'' \<and>
      (vi_artifact_bytes i = [] \<or> (case Option.bind (json_get m ''artifacts'') as_array of
         None \<Rightarrow> True | Some arts \<Rightarrow> \<forall>a\<in>set arts. artifact_intact env (vi_artifact_bytes i) a))) \<and>
    (\<forall>kid. vd_signer_key_id v = Some kid \<longrightarrow>
      (\<exists>s\<in>set (manifest_signatures env m). \<exists>t\<in>set (vi_trusted_signers i). si_key_id t = kid \<and> vouched env (unsigned_payload env m) s t))"
proof -
  have "(case vi_last_activated_revision i of None \<Rightarrow> True | Some prev \<Rightarrow> prev < str_field m ''revision'') \<longleftrightarrow>
      (case vi_last_activated_revision i of None \<Rightarrow> True | Some prev \<Rightarrow> revision_number prev < revision_number (str_field m ''revision''))"
    using rev digits_order by (auto split: option.splits)
  then show ?thesis using gate_accepts_iff [of env i] assms(4-6) unfolding m_def p_def v_def by simp
qed

definition demo_trust_env :: trust_env where
  "demo_trust_env =
     \<lparr>tg_to_string = (\<lambda>v. case v of JStr s \<Rightarrow> s | _ \<Rightarrow> ''null''), tg_sha256_hex = id, tg_b64_standard = Some,
      tg_b64_url_safe_no_pad = (\<lambda>s. Some (replicate 64 (hd s))), tg_vk_from_bytes_ok = (\<lambda>_. True),
      tg_verify_strict = (\<lambda>vk msg sig. hd vk = hd sig),
      tg_signatures_from_value = (\<lambda>_. Some [\<lparr>ms_key_id = Some ''k1'', ms_alg = None, ms_sig = ''a'', ms_payload_hash = None, ms_public_key_pem = None\<rparr>])\<rparr>"

definition demo_input :: "string \<Rightarrow> string \<Rightarrow> verify_input" where
  "demo_input key prev =
     \<lparr>vi_manifest = JObj [(''tenant_id'', JStr ''acme''), (''revision'', JStr ''7''), (''signatures'', JArr [])],
      vi_policy = default_trust_policy\<lparr>tp_signer_allowlist := [''k1''], tp_expected_tenant := Some ''acme''\<rparr>,
      vi_trusted_signers = [\<lparr>si_key_id = ''k1'', si_verifying_key = key\<rparr>], vi_now_unix = 0, vi_last_activated_revision = Some prev,
      vi_artifact_bytes = []\<rparr>"

theorem trust_gate_exact_witness:
  "accepted (gate_verify demo_trust_env (demo_input ''a'' ''6'')) \<and>
   \<not> accepted (gate_verify demo_trust_env (demo_input ''b'' ''6'')) \<and> \<not> accepted (gate_verify demo_trust_env (demo_input ''a'' ''7''))"
proof -
  have sig: "vd_signer_key_id (gate_verify demo_trust_env (demo_input ''a'' ''6'')) = Some ''k1''"
    by (simp add: gate_verify_def check_signature_def manifest_signatures_def demo_trust_env_def demo_input_def default_trust_policy_def Let_def)
  note d = default_trust_policy_def str_field_def demo_input_def
  have ms: "manifest_signatures demo_trust_env (vi_manifest (demo_input key prev)) =
      [\<lparr>ms_key_id = Some ''k1'', ms_alg = None, ms_sig = ''a'', ms_payload_hash = None, ms_public_key_pem = None\<rparr>]" for key prev
    by (simp add: manifest_signatures_def demo_trust_env_def demo_input_def)
  have v: "vouched demo_trust_env x \<lparr>ms_key_id = Some ''k1'', ms_alg = None, ms_sig = ''a'', ms_payload_hash = None, ms_public_key_pem = None\<rparr> t
      \<longleftrightarrow> si_key_id t = ''k1'' \<and> hd (si_verifying_key t) = CHR ''a''" for x t
    by (auto simp: vouched_def demo_trust_env_def)
  have t: "vi_trusted_signers (demo_input key prev) = [\<lparr>si_key_id = ''k1'', si_verifying_key = key\<rparr>]" for key prev
    by (simp add: demo_input_def)
  have "accepted (gate_verify demo_trust_env (demo_input ''a'' ''6''))"
    using trust_gate_exact [where env = demo_trust_env and i = "demo_input ''a'' ''6''"] sig unfolding ms t by (simp add: v) (simp add: d is_digits_def less_eq_char_def)
  moreover have "\<not> accepted (gate_verify demo_trust_env (demo_input ''b'' ''6''))"
    using trust_gate_exact [where env = demo_trust_env and i = "demo_input ''b'' ''6''"] unfolding ms t by (simp add: v) (simp add: d is_digits_def less_eq_char_def)
  moreover have "\<not> accepted (gate_verify demo_trust_env (demo_input ''a'' ''7''))"
    using trust_gate_exact [where env = demo_trust_env and i = "demo_input ''a'' ''7''"] unfolding ms t by (simp add: v) (simp add: d is_digits_def less_eq_char_def)
  ultimately show ?thesis by blast
qed

text \<open>Revisions are compared as text: a tenth revision is not newer than the ninth.\<close>

lemma revision_compared_as_text:
  assumes "tp_require_generation_monotonicity (vi_policy i)" and "vi_last_activated_revision i = Some ''9''"
    and "str_field (vi_manifest i) ''revision'' = ''10''"
  shows "vd_decision (gate_verify env i) = GateQuarantine \<and> ''revision_mismatch'' \<in> set (vd_failure_classes (gate_verify env i))"
proof -
  have lt: "\<not> ''9'' < (''10'' :: string)" by simp
  have "snd (check_generation i (str_field (vi_manifest i) ''revision'')) = [''revision_mismatch'']"
    using lt assms by (simp add: check_generation_def)
  then show ?thesis by (simp add: gate_verify_def Let_def split_def)
qed

text \<open>A required extension may be empty: an object without members or an empty text passes.\<close>

lemma empty_extension_passes:
  assumes "json_get m key \<in> {Some (JObj []), Some (JArr []), Some (JStr [])}"
  shows "snd (optional_extension m key True) = []"
  using assms by (auto simp: optional_extension_def is_null_def)

text \<open>The levels of provenance and approval that a policy names have no influence on the verdict.\<close>

lemma slsa_level_ignored:
  "gate_verify env (i\<lparr>vi_policy := (vi_policy i)\<lparr>tp_min_slsa_level := l, tp_min_approvers := n\<rparr>\<rparr>) = gate_verify env i"
proof -
  let ?j = "i\<lparr>vi_policy := (vi_policy i)\<lparr>tp_min_slsa_level := l, tp_min_approvers := n\<rparr>\<rparr>"
  have f: "vi_manifest ?j = vi_manifest i" "vi_trusted_signers ?j = vi_trusted_signers i" "vi_now_unix ?j = vi_now_unix i"
    "vi_last_activated_revision ?j = vi_last_activated_revision i" "vi_artifact_bytes ?j = vi_artifact_bytes i"
    "tp_require_signature (vi_policy ?j) = tp_require_signature (vi_policy i)"
    "tp_require_generation_monotonicity (vi_policy ?j) = tp_require_generation_monotonicity (vi_policy i)"
    "tp_signer_allowlist (vi_policy ?j) = tp_signer_allowlist (vi_policy i)"
    "tp_expected_tenant (vi_policy ?j) = tp_expected_tenant (vi_policy i)"
    "tp_require_provenance (vi_policy ?j) = tp_require_provenance (vi_policy i)"
    "tp_require_sbom (vi_policy ?j) = tp_require_sbom (vi_policy i)"
    "tp_require_test_attestation (vi_policy ?j) = tp_require_test_attestation (vi_policy i)"
    by simp_all
  show ?thesis
    unfolding gate_verify_def check_signature_def check_signer_allowlist_def check_tenant_def check_generation_def check_artifacts_def
      Let_def f ..
qed

end
