(* ===== verification/Self_Update.thy ===== *)
theory Self_Update
  imports Trust_Gate
begin

text \<open>
  The updater of the installed program, \<^verbatim>\<open>src/crates/dek-updater/src\<close>: releases and their verification (\<^verbatim>\<open>github.rs\<close>), the commands
  (\<^verbatim>\<open>main.rs\<close>) and the expiry of a manifest (\<^verbatim>\<open>metadata.rs\<close>). The file system is a map from paths to contents. Parameters: HTTP, SHA-256,
  version numbers, dates (in nanoseconds), the cosign program, the tar archive, the outcome of every rename and of every call of the service
  manager, and the health probes. A missing key of a JSON map panics where the code indexes it, which is the outer \<open>None\<close>.
\<close>

datatype platform = PfWindows | PfMacos | PfLinux

datatype update_error =
    FetchFailed string | NoRelease string | AssetMissing string | HashLineMissing | HashNotListed | ShaMismatch string string
  | CosignFailed string | BinaryMissing | TargetNotFound string | MissingSha256 | MissingLength | MetadataExpired int
  | SizeMismatch nat nat | HashMismatch string string | PlatformMismatch string string | NewExeMissing
  | RenameActiveFailed | RolledBack | SwapFailed | ServiceCallFailed | HealthCheckFailed | BadMetadata string

subsection \<open>Releases\<close>

record github_asset =
  ga_name :: string
  ga_url :: string

record github_release =
  gr_tag_name :: string
  gr_prerelease :: bool
  gr_assets :: "github_asset list"

definition latest_release :: "(string, github_release list) result \<Rightarrow> string \<Rightarrow> (update_error, github_release) result" where
  "latest_release fetched channel =
     (case fetched of
        Inl e \<Rightarrow> Inl (FetchFailed e)
      | Inr rs \<Rightarrow> (case find (\<lambda>r. \<not> (channel = ''stable'' \<and> gr_prerelease r)) rs of
            Some r \<Rightarrow> Inr r | None \<Rightarrow> Inl (NoRelease channel)))"

definition is_newer :: "(string \<Rightarrow> 'v::linorder option) \<Rightarrow> 'v \<Rightarrow> string \<Rightarrow> string \<Rightarrow> bool" where
  "is_newer parse zero current_version latest_tag =
     (let current = (case parse (trim_start_matches ''v'' current_version) of Some v \<Rightarrow> v | None \<Rightarrow> zero)
      in case parse (trim_start_matches ''v'' latest_tag) of Some latest \<Rightarrow> current < latest | None \<Rightarrow> False)"

fun platform_asset :: "platform \<Rightarrow> string" where
  "platform_asset PfWindows = ''windows-amd64.exe.tar.gz''"
| "platform_asset PfMacos = ''macos-amd64.tar.gz''"
| "platform_asset PfLinux = ''linux-amd64.tar.gz''"

record asset_urls =
  au_archive :: "string option"
  au_sig :: "string option"
  au_pem :: "string option"
  au_sum :: "string option"

definition pick_asset :: "platform \<Rightarrow> asset_urls \<Rightarrow> github_asset \<Rightarrow> asset_urls" where
  "pick_asset pf u a =
     (let here = str_contains (ga_name a) (platform_asset pf) in
      if here \<and> \<not> ends_with (ga_name a) ''.sig'' \<and> \<not> ends_with (ga_name a) ''.pem'' then u\<lparr>au_archive := Some (ga_url a)\<rparr>
      else if here \<and> ends_with (ga_name a) ''.sig'' then u\<lparr>au_sig := Some (ga_url a)\<rparr>
      else if here \<and> ends_with (ga_name a) ''.pem'' then u\<lparr>au_pem := Some (ga_url a)\<rparr>
      else if ga_name a = ''SHA256SUMS'' then u\<lparr>au_sum := Some (ga_url a)\<rparr> else u)"

definition asset_urls_of :: "platform \<Rightarrow> github_release \<Rightarrow> asset_urls" where
  "asset_urls_of pf release = foldl (pick_asset pf) \<lparr>au_archive = None, au_sig = None, au_pem = None, au_sum = None\<rparr> (gr_assets release)"

record download =
  dl_archive :: string
  dl_sum :: string
  dl_sig :: string
  dl_pem :: string

definition require_asset :: "string \<Rightarrow> string option \<Rightarrow> (update_error, string) result" where
  "require_asset what url = (case url of Some u \<Rightarrow> Inr u | None \<Rightarrow> Inl (AssetMissing what))"

definition download_update :: "(string \<Rightarrow> (string, string) result) \<Rightarrow> platform \<Rightarrow> github_release \<Rightarrow> (update_error, download) result" where
  "download_update get pf release =
     (let u = asset_urls_of pf release; fetch = (\<lambda>url. map_sum FetchFailed (\<lambda>b. b) (get url)) in
      case require_asset (platform_asset pf) (au_archive u) of Inl e \<Rightarrow> Inl e | Inr archive_url \<Rightarrow>
      case require_asset ''.sig'' (au_sig u) of Inl e \<Rightarrow> Inl e | Inr sig_url \<Rightarrow>
      case require_asset ''.pem'' (au_pem u) of Inl e \<Rightarrow> Inl e | Inr pem_url \<Rightarrow>
      case require_asset ''SHA256SUMS'' (au_sum u) of Inl e \<Rightarrow> Inl e | Inr sum_url \<Rightarrow>
      case fetch archive_url of Inl e \<Rightarrow> Inl e | Inr archive \<Rightarrow>
      case fetch sig_url of Inl e \<Rightarrow> Inl e | Inr sig \<Rightarrow>
      case fetch pem_url of Inl e \<Rightarrow> Inl e | Inr pem \<Rightarrow>
      case fetch sum_url of Inl e \<Rightarrow> Inl e | Inr sum_file \<Rightarrow>
      Inr \<lparr>dl_archive = archive, dl_sum = sum_file, dl_sig = sig, dl_pem = pem\<rparr>)"

fun platform_str :: "platform \<Rightarrow> string" where
  "platform_str PfWindows = ''windows-amd64''"
| "platform_str PfMacos = ''macos-amd64''"
| "platform_str PfLinux = ''linux-amd64''"

text \<open>The first line that names the wanted part; a line without a hash is an error.\<close>

definition hash_line :: "string \<Rightarrow> string \<Rightarrow> (update_error, string option) result" where
  "hash_line sum_file needle =
     (case find (\<lambda>l. str_contains l needle) (str_lines sum_file) of
        None \<Rightarrow> Inr None
      | Some l \<Rightarrow> (case split_whitespace char_is_whitespace l of [] \<Rightarrow> Inl HashLineMissing | h # _ \<Rightarrow> Inr (Some h)))"

definition verify_sha256 :: "(string \<Rightarrow> string) \<Rightarrow> platform \<Rightarrow> string \<Rightarrow> string \<Rightarrow> (update_error, unit) result" where
  "verify_sha256 sha pf archive sum_file =
     (case hash_line sum_file ''archive.tar.gz'' of
        Inl e \<Rightarrow> Inl e
      | Inr by_name \<Rightarrow>
     (case (case by_name of Some h \<Rightarrow> Inr (Some h) | None \<Rightarrow> hash_line sum_file (platform_str pf)) of
        Inl e \<Rightarrow> Inl e
      | Inr None \<Rightarrow> Inl HashNotListed
      | Inr (Some expected) \<Rightarrow> if sha archive = expected then Inr () else Inl (ShaMismatch expected (sha archive))))"

definition verify_cosign :: "(string \<Rightarrow> string \<Rightarrow> string \<Rightarrow> (string, unit) result) \<Rightarrow> string \<Rightarrow> string \<Rightarrow> string \<Rightarrow> (update_error, unit) result" where
  "verify_cosign cosign archive sig pem = map_sum CosignFailed (\<lambda>u. u) (cosign archive sig pem)"

definition verify_all :: "(string \<Rightarrow> string) \<Rightarrow> (string \<Rightarrow> string \<Rightarrow> string \<Rightarrow> (string, unit) result) \<Rightarrow> platform \<Rightarrow> download \<Rightarrow> (update_error, unit) result" where
  "verify_all sha cosign pf d =
     (case verify_sha256 sha pf (dl_archive d) (dl_sum d) of Inl e \<Rightarrow> Inl e
      | Inr _ \<Rightarrow> verify_cosign cosign (dl_archive d) (dl_sig d) (dl_pem d))"

subsection \<open>Replacing the executable\<close>

type_synonym files = "string \<Rightarrow> string option"

definition move_file :: "files \<Rightarrow> string \<Rightarrow> string \<Rightarrow> files" where
  "move_file fs a b = fs(b := fs a, a := None)"

text \<open>\<^verbatim>\<open>Path::with_extension\<close>: what follows the last dot of the file name is replaced, unless the dot comes first.\<close>

definition with_extension :: "string \<Rightarrow> string \<Rightarrow> string" where
  "with_extension path ext =
     (let name = rev (takeWhile (\<lambda>c. c \<noteq> CHR ''/'') (rev path));
          dir = take (length path - length name) path;
          stem = rev (tl (dropWhile (\<lambda>c. c \<noteq> CHR ''.'') (rev name)))
      in dir @ (if CHR ''.'' \<in> set name \<and> stem \<noteq> [] then stem else name) @ ''.'' @ ext)"

definition backup_of :: "string \<Rightarrow> string" where
  "backup_of target = with_extension target ''exe.bak''"

record swap_env =
  sx_remove :: bool
  sx_rename :: "nat \<Rightarrow> bool"

definition apply_with_rollback :: "swap_env \<Rightarrow> files \<Rightarrow> string \<Rightarrow> string \<Rightarrow> (update_error, unit) result \<times> files" where
  "apply_with_rollback env fs target new_exe =
     (let backup = backup_of target;
          fs1 = (if fs backup \<noteq> None \<and> sx_remove env then fs(backup := None) else fs)
      in if fs1 target \<noteq> None \<and> \<not> sx_rename env 0 then (Inl RenameActiveFailed, fs1)
         else
           let fs2 = (if fs1 target \<noteq> None then move_file fs1 target backup else fs1)
           in if fs2 new_exe \<noteq> None \<and> sx_rename env 1 then (Inr (), move_file fs2 new_exe target)
              else (Inl RolledBack, if fs2 backup \<noteq> None \<and> sx_rename env 2 then move_file fs2 backup target else fs2))"

definition update_command :: "swap_env \<Rightarrow> bool \<Rightarrow> string \<Rightarrow> string \<Rightarrow> files \<Rightarrow> (update_error, unit) result \<times> files" where
  "update_command env dry_run target new_exe fs =
     (if fs new_exe = None then (Inl NewExeMissing, fs)
      else if dry_run then (Inr (), fs)
      else apply_with_rollback env fs target new_exe)"

record 'v upgrade_env =
  ue_releases :: "(string, github_release list) result"
  ue_get :: "string \<Rightarrow> (string, string) result"
  ue_version :: "string \<Rightarrow> 'v option"
  ue_zero :: 'v
  ue_sha256_hex :: "string \<Rightarrow> string"
  ue_cosign :: "string \<Rightarrow> string \<Rightarrow> string \<Rightarrow> (string, unit) result"
  ue_unpack :: "string \<Rightarrow> (string, string option) result"
  ue_platform :: platform
  ue_swap :: swap_env

text \<open>Unpacking gives the bytes of \<^verbatim>\<open>dek-core\<close> in the archive, if it is there; \<^verbatim>\<open>tmp\<close> is its path in the temporary directory.\<close>

definition extract_binary :: "'v upgrade_env \<Rightarrow> string \<Rightarrow> (update_error, string) result" where
  "extract_binary env archive =
     (case ue_unpack env archive of Inl e \<Rightarrow> Inl (FetchFailed e) | Inr None \<Rightarrow> Inl BinaryMissing | Inr (Some exe) \<Rightarrow> Inr exe)"

definition upgrade_command :: "'v::linorder upgrade_env \<Rightarrow> string \<Rightarrow> string \<Rightarrow> string \<Rightarrow> string \<Rightarrow> files \<Rightarrow> (update_error, unit) result \<times> files" where
  "upgrade_command env current_version channel target tmp fs =
     (case latest_release (ue_releases env) channel of
        Inl e \<Rightarrow> (Inl e, fs)
      | Inr release \<Rightarrow>
          if \<not> is_newer (ue_version env) (ue_zero env) current_version (gr_tag_name release) then (Inr (), fs)
          else
     (case download_update (ue_get env) (ue_platform env) release of
        Inl e \<Rightarrow> (Inl e, fs)
      | Inr d \<Rightarrow>
     (case verify_all (ue_sha256_hex env) (ue_cosign env) (ue_platform env) d of
        Inl e \<Rightarrow> (Inl e, fs)
      | Inr _ \<Rightarrow>
     (case extract_binary env (dl_archive d) of
        Inl e \<Rightarrow> (Inl e, fs)
      | Inr exe \<Rightarrow> apply_with_rollback (ue_swap env) (fs(tmp := Some exe)) target tmp))))"

subsection \<open>Updates by a manifest\<close>

fun current_platform :: "platform \<Rightarrow> string" where
  "current_platform PfWindows = ''windows''"
| "current_platform PfMacos = ''macos''"
| "current_platform PfLinux = ''linux''"

record auto_env =
  av_metadata :: "(string, json) result"
  av_artifact :: "string \<Rightarrow> (string, string) result"
  av_sha256_hex :: "string \<Rightarrow> string"
  av_now :: int
  av_parse_date :: "string \<Rightarrow> int option"
  av_platform :: platform
  av_swap :: swap_env
  av_spawn :: "nat \<Rightarrow> bool"
  av_health :: "nat \<Rightarrow> bool"
  av_restore :: bool

definition signed_part :: "json \<Rightarrow> json" where
  "signed_part metadata = (if json_has metadata ''signed'' then json_index metadata ''signed'' else metadata)"

definition target_info :: "json \<Rightarrow> string \<Rightarrow> (string \<times> json) list option" where
  "target_info metadata name = as_object (json_index (json_index (signed_part metadata) ''targets'') name)"

definition expected_sha256_of :: "(string \<times> json) list \<Rightarrow> (update_error, string) result option" where
  "expected_sha256_of info =
     (case map_of info ''hashes'' of
        None \<Rightarrow> None
      | Some hashes \<Rightarrow> Some (case as_str (json_index hashes ''sha256'') of Some h \<Rightarrow> Inr h | None \<Rightarrow> Inl MissingSha256))"

definition metadata_expired :: "auto_env \<Rightarrow> json \<Rightarrow> int option" where
  "metadata_expired env metadata =
     Option.bind (as_str (json_index (signed_part metadata) ''expires'')) (\<lambda>s.
       Option.bind (av_parse_date env s) (\<lambda>t. if av_now env > t then Some t else None))"

definition platform_problem :: "auto_env \<Rightarrow> (string \<times> json) list \<Rightarrow> update_error option" where
  "platform_problem env info =
     (case Option.bind (Option.bind (map_of info ''custom'') (\<lambda>c. json_get c ''platform'')) as_str of
        Some p \<Rightarrow> if str_contains p (current_platform (av_platform env)) then None else Some (PlatformMismatch p (current_platform (av_platform env)))
      | None \<Rightarrow> None)"

definition verify_tuf_signature :: "auto_env \<Rightarrow> string \<Rightarrow> string \<Rightarrow> json \<Rightarrow> (update_error, unit) result option" where
  "verify_tuf_signature env name content metadata =
     (case metadata_expired env metadata of
        Some t \<Rightarrow> Some (Inl (MetadataExpired t))
      | None \<Rightarrow>
     (case target_info metadata name of
        None \<Rightarrow> Some (Inl (TargetNotFound name))
      | Some info \<Rightarrow>
     (case expected_sha256_of info of
        None \<Rightarrow> None
      | Some (Inl e) \<Rightarrow> Some (Inl e)
      | Some (Inr expected) \<Rightarrow>
     (case map_of info ''length'' of
        None \<Rightarrow> None
      | Some len \<Rightarrow> Some
     (case as_u64 len of
        None \<Rightarrow> Inl MissingLength
      | Some len_bytes \<Rightarrow>
          if length content \<noteq> len_bytes then Inl (SizeMismatch len_bytes (length content))
          else if av_sha256_hex env content \<noteq> expected then Inl (HashMismatch expected (av_sha256_hex env content))
          else (case platform_problem env info of Some e \<Rightarrow> Inl e | None \<Rightarrow> Inr ()))))))"

fun exe_name :: "platform \<Rightarrow> string" where
  "exe_name PfWindows = ''dek-core.exe''"
| "exe_name PfMacos = ''dek-core''"
| "exe_name PfLinux = ''dek-core''"

record update_state =
  up_files :: files
  up_service :: "string list"

definition manage_service :: "auto_env \<Rightarrow> nat \<Rightarrow> string \<Rightarrow> update_state \<Rightarrow> (update_error, unit) result \<times> update_state" where
  "manage_service env k action st =
     (if av_spawn env k then (Inr (), st\<lparr>up_service := up_service st @ [action]\<rparr>) else (Inl ServiceCallFailed, st))"

definition roll_back :: "auto_env \<Rightarrow> string \<Rightarrow> update_state \<Rightarrow> update_state" where
  "roll_back env target st =
     (let st1 = snd (manage_service env 2 ''stop'' st);
          fs = up_files st1; backup = backup_of target;
          st2 = st1\<lparr>up_files := (if fs backup \<noteq> None \<and> av_restore env then move_file fs backup target else fs)\<rparr>
      in snd (manage_service env 3 ''start'' st2))"

text \<open>Steps 5 to 8, after the payload has been stored at \<open>tmp\<close> and the service has been stopped.\<close>

definition install_update :: "auto_env \<Rightarrow> bool \<Rightarrow> string \<Rightarrow> string \<Rightarrow> update_state \<Rightarrow> (update_error, unit) result \<times> update_state" where
  "install_update env service target tmp st =
     (let (r, fs) = apply_with_rollback (av_swap env) (up_files st) target tmp; st1 = st\<lparr>up_files := fs\<rparr> in
      case r of
        Inl _ \<Rightarrow> (Inl SwapFailed, if service then snd (manage_service env 1 ''start'' st1) else st1)
      | Inr _ \<Rightarrow>
          if \<not> service then (Inr (), st1)
          else
     (case manage_service env 1 ''start'' st1 of
        (Inl e, st2) \<Rightarrow> (Inl e, st2)
      | (Inr _, st2) \<Rightarrow>
          if \<exists>i<15. av_health env i then (Inr (), st2)
          else (Inl HealthCheckFailed, roll_back env target st2)))"

definition auto_update :: "auto_env \<Rightarrow> bool \<Rightarrow> string \<Rightarrow> string \<Rightarrow> update_state \<Rightarrow> ((update_error, unit) result \<times> update_state) option" where
  "auto_update env service target tmp st =
     (case av_metadata env of
        Inl e \<Rightarrow> Some (Inl (FetchFailed e), st)
      | Inr metadata \<Rightarrow>
     (case target_info metadata (exe_name (av_platform env)) of
        None \<Rightarrow> Some (Inl (TargetNotFound (exe_name (av_platform env))), st)
      | Some info \<Rightarrow>
     (case expected_sha256_of info of
        None \<Rightarrow> None
      | Some (Inl e) \<Rightarrow> Some (Inl e, st)
      | Some (Inr expected) \<Rightarrow>
     (case av_artifact env expected of
        Inl e \<Rightarrow> Some (Inl (FetchFailed e), st)
      | Inr content \<Rightarrow>
          let st1 = st\<lparr>up_files := (up_files st)(tmp := Some content)\<rparr> in
     (case verify_tuf_signature env (exe_name (av_platform env)) content metadata of
        None \<Rightarrow> None
      | Some (Inl e) \<Rightarrow> Some (Inl e, st1)
      | Some (Inr _) \<Rightarrow> Some
          (if \<not> service then install_update env service target tmp st1
           else case manage_service env 0 ''stop'' st1 of
               (Inl e, st2) \<Rightarrow> (Inl e, st2)
             | (Inr _, st2) \<Rightarrow> install_update env service target tmp st2))))))"


definition is_expired :: "(string \<Rightarrow> int option) \<Rightarrow> int \<Rightarrow> string \<Rightarrow> bool" where
  "is_expired parse now expires_at = (case parse expires_at of Some t \<Rightarrow> t < now | None \<Rightarrow> True)"


subsection \<open>What the swap leaves behind\<close>

lemma with_extension_file:
  assumes "CHR ''/'' \<notin> set name"
  shows "with_extension (dir @ CHR ''/'' # name) ext =
    dir @ CHR ''/'' # (if CHR ''.'' \<in> set name \<and> rev (tl (dropWhile (\<lambda>c. c \<noteq> CHR ''.'') (rev name))) \<noteq> []
      then rev (tl (dropWhile (\<lambda>c. c \<noteq> CHR ''.'') (rev name))) else name) @ ''.'' @ ext"
proof -
  have "takeWhile (\<lambda>c. c \<noteq> CHR ''/'') (rev (dir @ CHR ''/'' # name)) = rev name" using assms by (simp add: takeWhile_append)
  then show ?thesis by (simp add: with_extension_def Let_def)
qed

text \<open>The backup of a file lies beside it under another name, so the two never meet.\<close>

lemma backup_differs:
  assumes "CHR ''/'' \<notin> set name"
  shows "backup_of (dir @ CHR ''/'' # name) \<noteq> dir @ CHR ''/'' # name"
proof
  define stem where "stem = rev (tl (dropWhile (\<lambda>c. c \<noteq> CHR ''.'') (rev name)))"
  define base where "base = (if CHR ''.'' \<in> set name \<and> stem \<noteq> [] then stem else name)"
  assume "backup_of (dir @ CHR ''/'' # name) = dir @ CHR ''/'' # name"
  then have name: "base @ ''.exe.bak'' = name"
    unfolding backup_of_def with_extension_file [OF assms] stem_def [symmetric] base_def [symmetric] by simp
  have "stem = base @ ''.exe''" unfolding stem_def by (simp flip: name)
  moreover have "base = stem \<or> base = name" by (simp add: base_def)
  ultimately show False using arg_cong [OF name, of length] by auto
qed

lemma apply_success:
  assumes "apply_with_rollback env fs target new = (Inr (), fs')" and "backup_of target \<noteq> target" and "new \<noteq> target" and "new \<noteq> backup_of target"
  shows "fs' target = fs new \<and> fs new \<noteq> None \<and> (fs target \<noteq> None \<longrightarrow> fs' (backup_of target) = fs target)"
  using assms by (auto simp: apply_with_rollback_def Let_def move_file_def split: if_splits)

lemma apply_failure:
  assumes "apply_with_rollback env fs target new = (Inl e, fs')" and "backup_of target \<noteq> target" and "new \<noteq> target" and "new \<noteq> backup_of target"
    and "fs target = Some old"
  shows "fs' target = Some old \<or> (\<not> sx_rename env 2 \<and> fs' target = None \<and> fs' (backup_of target) = Some old)"
  using assms by (auto simp: apply_with_rollback_def Let_def move_file_def split: if_splits)


subsection \<open>Upgrades from a release\<close>

lemma hash_line_first: "hash_line s n = Inr (Some h) \<Longrightarrow> \<exists>l\<in>set (str_lines s). str_contains l n \<and> split_whitespace char_is_whitespace l \<noteq> [] \<and> h = hd (split_whitespace char_is_whitespace l)"
  by (auto simp: hash_line_def find_Some_iff split: option.splits list.splits intro!: nth_mem)

definition listed_hash :: "string \<Rightarrow> string \<Rightarrow> bool" where
  "listed_hash sum_file h \<longleftrightarrow> (\<exists>l\<in>set (str_lines sum_file). split_whitespace char_is_whitespace l \<noteq> [] \<and> h = hd (split_whitespace char_is_whitespace l))"

lemma verify_sha256_sound:
  assumes "verify_sha256 sha pf archive sum_file = Inr u"
  shows "listed_hash sum_file (sha archive)"
proof -
  from assms obtain n where "hash_line sum_file n = Inr (Some (sha archive))"
    by (auto simp: verify_sha256_def split: sum.splits option.splits if_splits)
  from hash_line_first [OF this] show ?thesis unfolding listed_hash_def by blast
qed

definition vetted :: "'v::linorder upgrade_env \<Rightarrow> string \<Rightarrow> string \<Rightarrow> string \<Rightarrow> bool" where
  "vetted env current_version channel exe \<longleftrightarrow>
     (\<exists>release d. latest_release (ue_releases env) channel = Inr release \<and>
        is_newer (ue_version env) (ue_zero env) current_version (gr_tag_name release) \<and>
        download_update (ue_get env) (ue_platform env) release = Inr d \<and> listed_hash (dl_sum d) (ue_sha256_hex env (dl_archive d)) \<and>
        ue_cosign env (dl_archive d) (dl_sig d) (dl_pem d) = Inr () \<and> ue_unpack env (dl_archive d) = Inr (Some exe))"

lemma upgrade_cases:
  "snd (upgrade_command env cv channel target tmp fs) = fs \<or>
   (\<exists>exe. vetted env cv channel exe \<and>
      upgrade_command env cv channel target tmp fs = apply_with_rollback (ue_swap env) (fs(tmp := Some exe)) target tmp)"
proof (cases "latest_release (ue_releases env) channel")
  case r: (Inr release)
  show ?thesis
  proof (cases "is_newer (ue_version env) (ue_zero env) cv (gr_tag_name release)")
    case newer: True
    show ?thesis
    proof (cases "download_update (ue_get env) (ue_platform env) release")
      case d: (Inr d)
      show ?thesis
      proof (cases "verify_all (ue_sha256_hex env) (ue_cosign env) (ue_platform env) d")
        case v: (Inr u)
        then obtain w where w: "verify_sha256 (ue_sha256_hex env) (ue_platform env) (dl_archive d) (dl_sum d) = Inr w"
          and c: "ue_cosign env (dl_archive d) (dl_sig d) (dl_pem d) = Inr ()"
          by (auto simp: verify_all_def verify_cosign_def split: sum.splits)
             (metis isl_map_sum old.unit.exhaust sum.collapse(2) sum.disc(2))
        show ?thesis
        proof (cases "extract_binary env (dl_archive d)")
          case x: (Inr exe)
          then have "ue_unpack env (dl_archive d) = Inr (Some exe)" by (auto simp: extract_binary_def split: sum.splits option.splits)
          with r newer d verify_sha256_sound [OF w] c have "vetted env cv channel exe" unfolding vetted_def by blast
          with r newer d v x show ?thesis by (auto simp: upgrade_command_def)
        qed (simp add: upgrade_command_def r newer d v)
      qed (simp add: upgrade_command_def r newer d)
    qed (simp add: upgrade_command_def r newer)
  qed (simp add: upgrade_command_def r)
qed (simp add: upgrade_command_def)

text \<open>
  C21. After an upgrade, however it ends, the installed program is the old one or the binary of a release that is newer than the
  running version and whose archive has a hash listed by the release and passed the cosign verification; only when the last restoring
  rename fails is it missing, and then the backup holds the old one.
\<close>

theorem upgrade_verified:
  assumes "fs target = Some old" and "backup_of target \<noteq> target" and "tmp \<noteq> target" and "tmp \<noteq> backup_of target"
  shows "let fs' = snd (upgrade_command env cv channel target tmp fs) in
    fs' target = Some old \<or>
    (\<exists>exe. fs' target = Some exe \<and> vetted env cv channel exe \<and> fs' (backup_of target) = Some old) \<or>
    (\<not> sx_rename (ue_swap env) 2 \<and> fs' target = None \<and> fs' (backup_of target) = Some old)"
proof -
  let ?out = "upgrade_command env cv channel target tmp fs"
  consider "snd ?out = fs" | exe where "vetted env cv channel exe" "?out = apply_with_rollback (ue_swap env) (fs(tmp := Some exe)) target tmp"
    using upgrade_cases [of env cv channel target tmp fs] by blast
  then show ?thesis
  proof cases
    case 1
    with assms(1) show ?thesis by simp
  next
    case (2 exe)
    let ?fs = "fs(tmp := Some exe)"
    have old: "?fs target = Some old" using assms(1,3) by simp
    obtain r fs' where a: "apply_with_rollback (ue_swap env) ?fs target tmp = (r, fs')" by fastforce
    show ?thesis
    proof (cases r)
      case (Inl e)
      from apply_failure [OF a [unfolded Inl] assms(2-4) old] 2 a show ?thesis by auto
    next
      case (Inr u)
      from apply_success [of "ue_swap env" ?fs target tmp fs', OF _ assms(2-4)] a Inr old 2 show ?thesis by auto
    qed
  qed
qed


definition demo_release :: github_release where
  "demo_release = \<lparr>gr_tag_name = ''v2'', gr_prerelease = False,
     gr_assets = map (\<lambda>n. \<lparr>ga_name = n, ga_url = n\<rparr>) [''p-linux-amd64.tar.gz'', ''p-linux-amd64.tar.gz.sig'', ''p-linux-amd64.tar.gz.pem'', ''SHA256SUMS'']\<rparr>"

definition demo_upgrade_env :: "nat upgrade_env" where
  "demo_upgrade_env = \<lparr>ue_releases = Inr [demo_release], ue_get = (\<lambda>u. Inr ''h p-linux-amd64.tar.gz''),
     ue_version = (\<lambda>s. Some (length s + (if s = ''2'' then 1 else 0))), ue_zero = 0, ue_sha256_hex = (\<lambda>b. ''h''), ue_cosign = (\<lambda>a s p. Inr ()),
     ue_unpack = (\<lambda>a. Inr (Some ''new'')), ue_platform = PfLinux, ue_swap = \<lparr>sx_remove = True, sx_rename = (\<lambda>i. True)\<rparr>\<rparr>"

lemma demo_upgraded:
  "snd (upgrade_command demo_upgrade_env ''1'' ''stable'' ''/b/dek-core'' ''/t/dek-core'' [''/b/dek-core'' \<mapsto> ''old'']) ''/b/dek-core'' = Some ''new''"
  by code_simp

theorem upgrade_verified_witness:
  "\<exists>exe. snd (upgrade_command demo_upgrade_env ''1'' ''stable'' ''/b/dek-core'' ''/t/dek-core'' [''/b/dek-core'' \<mapsto> ''old'']) ''/b/dek-core'' = Some exe \<and>
     vetted demo_upgrade_env ''1'' ''stable'' exe"
proof -
  have b: "backup_of ''/b/dek-core'' = ''/b/dek-core.exe.bak''" by code_simp
  show ?thesis
    using upgrade_verified [of "[''/b/dek-core'' \<mapsto> ''old'']" "''/b/dek-core''" "''old''" "''/t/dek-core''" demo_upgrade_env "''1''" "''stable''"]
    by (simp add: b demo_upgraded Let_def)
qed

subsection \<open>Updates by a manifest\<close>

lemma manage_service_files [simp]: "up_files (snd (manage_service env k a st)) = up_files st"
  by (simp add: manage_service_def)

lemma manage_service_state: "manage_service env k a st = (m, st') \<Longrightarrow> up_files st' = up_files st"
  by (auto simp: manage_service_def split: if_splits)

lemma roll_back_target:
  assumes "backup_of target \<noteq> target" and "up_files st (backup_of target) = Some old"
  shows "up_files (roll_back env target st) target = (if av_restore env then Some old else up_files st target)"
  using assms by (simp add: roll_back_def Let_def move_file_def)

text \<open>Where the installed program ends up: kept, replaced by the payload with a working service, or replaced with a service that could not be
  started.\<close>

lemma install_update_outcome:
  assumes "backup_of target \<noteq> target" and "tmp \<noteq> target" and "tmp \<noteq> backup_of target" and "av_restore env" and "sx_rename (av_swap env) 2"
    and "up_files st target = Some old" and "up_files st tmp = Some new"
  shows "(case fst (install_update env service target tmp st) of
     Inr _ \<Rightarrow> up_files (snd (install_update env service target tmp st)) target = Some new \<and> (service \<longrightarrow> (\<exists>i<15. av_health env i))
   | Inl e \<Rightarrow> up_files (snd (install_update env service target tmp st)) target = (if e = ServiceCallFailed then Some new else Some old))"
proof -
  obtain r fs where a: "apply_with_rollback (av_swap env) (up_files st) target tmp = (r, fs)" by fastforce
  show ?thesis
  proof (cases r)
    case (Inl e)
    from apply_failure [OF a [unfolded Inl] assms(1-3,6)] assms(5) have "fs target = Some old" by blast
    with a Inl show ?thesis by (simp add: install_update_def Let_def)
  next
    case (Inr u)
    from apply_success [of "av_swap env" "up_files st" target tmp fs, OF _ assms(1-3)] a Inr assms(6,7)
    have f: "fs target = Some new" "fs (backup_of target) = Some old" by auto
    obtain m st2 where s: "manage_service env 1 ''start'' (st\<lparr>up_files := fs\<rparr>) = (m, st2)" by fastforce
    have st2: "up_files st2 = fs" using manage_service_state [OF s] by simp
    have m: "m = Inr () \<or> m = Inl ServiceCallFailed" using s by (auto simp: manage_service_def split: if_splits)
    from roll_back_target [OF assms(1), of st2 old env] f st2 assms(4)
    have "up_files (roll_back env target st2) target = Some old" by simp
    with a Inr f s st2 m show ?thesis by (auto simp: install_update_def Let_def)
  qed
qed

lemma verify_tuf_sound:
  assumes "verify_tuf_signature env name content metadata = Some (Inr u)"
  shows "\<exists>info hashes. target_info metadata name = Some info \<and> map_of info ''hashes'' = Some hashes \<and>
    as_str (json_index hashes ''sha256'') = Some (av_sha256_hex env content) \<and> Option.bind (map_of info ''length'') as_u64 = Some (length content) \<and>
    metadata_expired env metadata = None \<and> platform_problem env info = None"
  using assms by (auto simp: verify_tuf_signature_def expected_sha256_of_def split: option.splits sum.splits if_splits)

text \<open>The payload is compared with the metadata it came with and nothing else: whatever is served is accepted with a metadata document that
  describes it. No signature and no version is looked at.\<close>

lemma metadata_unauthenticated:
  "verify_tuf_signature env name content
     (JObj [(''targets'', JObj [(name, JObj [(''hashes'', JObj [(''sha256'', JStr (av_sha256_hex env content))]), (''length'', JInt (int (length content)))])])]) =
   (if length content < 18446744073709551616 then Some (Inr ()) else Some (Inl MissingLength))"
  by (simp add: verify_tuf_signature_def metadata_expired_def signed_part_def json_has_def json_index_def target_info_def expected_sha256_of_def
      platform_problem_def)

text \<open>A date that does not parse never expires here, while the manifest type of the same crate fails closed.\<close>

lemma unparsable_expiry_accepted:
  assumes "av_parse_date env d = None"
  shows "metadata_expired env (JObj [(''expires'', JStr d)]) = None \<and> is_expired (av_parse_date env) now d"
  using assms by (simp add: metadata_expired_def signed_part_def json_has_def json_index_def is_expired_def)

text \<open>Metadata without hashes for the target ends the process instead of reporting the missing hash.\<close>

lemma missing_hashes_panics:
  "target_info metadata name = Some info \<Longrightarrow> map_of info ''hashes'' = None \<Longrightarrow> metadata_expired env metadata = None \<Longrightarrow>
   verify_tuf_signature env name content metadata = None"
  by (simp add: verify_tuf_signature_def expected_sha256_of_def)

text \<open>When the service manager cannot be started after the swap, the new program stays and no roll-back is tried.\<close>

lemma start_failure_keeps_new:
  assumes "apply_with_rollback (av_swap env) (up_files st) target tmp = (Inr (), fs)" and "\<not> av_spawn env 1"
  shows "install_update env True target tmp st = (Inl ServiceCallFailed, st\<lparr>up_files := fs\<rparr>)"
  using assms by (simp add: install_update_def manage_service_def)


text \<open>What a finished run did to the installed program.\<close>

lemma auto_update_outcome:
  assumes "backup_of target \<noteq> target" and "tmp \<noteq> target" and "tmp \<noteq> backup_of target" and "av_restore env" and "sx_rename (av_swap env) 2"
    and "up_files st target = Some old" and "auto_update env service target tmp st = Some (r, st')"
  shows "up_files st' target = Some old \<or>
    (\<exists>metadata content. av_metadata env = Inr metadata \<and> up_files st' target = Some content \<and>
       verify_tuf_signature env (exe_name (av_platform env)) content metadata = Some (Inr ()) \<and>
       (r = Inr () \<and> (service \<longrightarrow> (\<exists>i<15. av_health env i)) \<or> r = Inl ServiceCallFailed))"
proof -
  have install: "up_files (snd i) target = Some old \<or> up_files (snd i) target = Some c \<and>
        (fst i = Inr () \<and> (service \<longrightarrow> (\<exists>n<15. av_health env n)) \<or> fst i = Inl ServiceCallFailed)"
    if "i = install_update env service target tmp s" "up_files s = (up_files st)(tmp := Some c)" for i s c
  proof -
    have "up_files s target = Some old" "up_files s tmp = Some c" using that(2) assms(2,6) by auto
    from install_update_outcome [OF assms(1-5) this, of service] show ?thesis unfolding that(1) by (auto split: sum.splits if_splits)
  qed
  show ?thesis
  proof (cases "av_metadata env")
    case m: (Inr metadata)
    show ?thesis
    proof (cases "target_info metadata (exe_name (av_platform env))")
      case t: (Some info)
      from assms(7) m t obtain h where h: "expected_sha256_of info = Some h" by (auto simp: auto_update_def split: option.splits)
      show ?thesis
      proof (cases h)
        case hr: (Inr expected)
        show ?thesis
        proof (cases "av_artifact env expected")
          case c: (Inr content)
          let ?st1 = "st\<lparr>up_files := (up_files st)(tmp := Some content)\<rparr>"
          from assms(7) m t h hr c obtain v where v: "verify_tuf_signature env (exe_name (av_platform env)) content metadata = Some v"
            by (auto simp: auto_update_def Let_def split: option.splits)
          show ?thesis
          proof (cases v)
            case (Inl e)
            with assms(7) m t h hr c v have "st' = ?st1" by (simp add: auto_update_def)
            with assms(2,6) show ?thesis by simp
          next
            case (Inr u)
            obtain q st2 where q: "manage_service env 0 ''stop'' ?st1 = (q, st2)" by fastforce
            have f2: "up_files st2 = (up_files st)(tmp := Some content)" using manage_service_state [OF q] by simp
            have "(r, st') = (if \<not> service then install_update env service target tmp ?st1
                else case q of Inl e \<Rightarrow> (Inl e, st2) | Inr _ \<Rightarrow> install_update env service target tmp st2)"
              using assms(7) m t h hr c v Inr q by (cases q; cases service) (auto simp: auto_update_def Let_def)
            then consider "(r, st') = install_update env service target tmp ?st1" | "(r, st') = install_update env service target tmp st2" | "st' = st2"
              by (auto split: if_splits sum.splits)
            then show ?thesis
            proof cases
              case 1
              from install [OF 1, of content] m v Inr show ?thesis by auto
            next
              case 2
              from install [OF 2, of content] f2 m v Inr show ?thesis by auto
            next
              case 3
              with f2 assms(2,6) show ?thesis by simp
            qed
          qed
        qed (use assms(6,7) m t h hr in \<open>simp add: auto_update_def\<close>)
      qed (use assms(6,7) m t h in \<open>simp add: auto_update_def\<close>)
    qed (use assms(6,7) m in \<open>simp add: auto_update_def\<close>)
  qed (use assms(6,7) in \<open>simp add: auto_update_def\<close>)
qed

end
