(* ===== verification/Float64.thy ===== *)
theory Float64
  imports Pollek_Prelude "HOL-Library.Log_Nat"
begin

text \<open>
  The arithmetic of \<^verbatim>\<open>f64\<close> where a decision depends on its rounding: a value is the rational number it stands for, a literal and the result of an
  addition or subtraction is the nearest value with a significand of 53 bits and an exponent of at least -1074 (ties to the even significand), as
  IEEE 754 asks of \<^verbatim>\<open>binary64\<close>. Infinities and overflow to them are left out.
\<close>

definition round_even :: "rat \<Rightarrow> int" where
  "round_even x = (let k = \<lfloor>x\<rfloor>; d = x - of_int k in if d < 1 / 2 \<or> d = 1 / 2 \<and> even k then k else k + 1)"

definition f64_exponent :: "rat \<Rightarrow> int" where
  "f64_exponent x = (let (n, d) = quotient_of x; k = bitlen n - bitlen d in if 2 powi k \<le> x then k else k - 1)"

definition f64_unit :: "rat \<Rightarrow> rat" where
  "f64_unit x = 2 powi max (f64_exponent \<bar>x\<bar> - 52) (- 1074)"

definition f64_round :: "rat \<Rightarrow> f64" where
  "f64_round x = (if x = 0 then 0 else of_int (round_even (x / f64_unit x)) * f64_unit x)"

definition f64_add :: "f64 \<Rightarrow> f64 \<Rightarrow> f64" where
  "f64_add a b = f64_round (a + b)"

definition f64_sub :: "f64 \<Rightarrow> f64 \<Rightarrow> f64" where
  "f64_sub a b = f64_round (a - b)"

subsection \<open>Rounding to an integer\<close>

lemma round_even_of_int [simp]: "round_even (of_int k) = k"
  by (simp add: round_even_def)

lemma round_even_near: "\<bar>of_int (round_even x) - x\<bar> \<le> 1 / 2"
proof -
  have "of_int \<lfloor>x\<rfloor> \<le> x" "x < of_int \<lfloor>x\<rfloor> + 1" by linarith+
  then show ?thesis by (auto simp: round_even_def Let_def abs_le_iff)
qed

lemma round_even_mono:
  assumes "x \<le> y"
  shows "round_even x \<le> round_even y"
proof (cases "\<lfloor>x\<rfloor> = \<lfloor>y\<rfloor>")
  case True
  then show ?thesis using assms by (auto simp: round_even_def Let_def)
next
  case False
  then have "\<lfloor>x\<rfloor> + 1 \<le> \<lfloor>y\<rfloor>" using floor_mono [OF assms] by linarith
  then show ?thesis by (auto simp: round_even_def Let_def)
qed

subsection \<open>The binary exponent\<close>

lemma bitlen_powi: "0 < n \<Longrightarrow> 2 powi (bitlen n - 1) \<le> (of_int n :: rat) \<and> of_int n < (2 powi bitlen n :: rat)"
proof -
  assume n: "0 < n"
  then have "0 \<le> \<lfloor>log 2 (real_of_int n)\<rfloor>" by (simp add: le_floor_iff)
  then have pos: "0 < bitlen n" using n by (simp add: bitlen_alt_def)
  have e: "(2 powi (bitlen n - 1) :: rat) = of_int (2 ^ nat (bitlen n - 1))" "(2 powi bitlen n :: rat) = of_int (2 ^ nat (bitlen n))"
    using pos by (simp_all add: power_int_def)
  show ?thesis unfolding e of_int_le_iff of_int_less_iff by (rule bitlen_bounds [OF n])
qed

lemma f64_exponent_bounds:
  assumes "0 < x"
  shows "2 powi f64_exponent x \<le> x \<and> x < 2 powi (f64_exponent x + 1)"
proof -
  obtain n d where q: "quotient_of x = (n, d)" by fastforce
  have d: "0 < d" using quotient_of_denom_pos [OF q] .
  have x: "x = of_int n / of_int d" using quotient_of_div [OF q] .
  have n: "0 < n" using assms d by (simp add: x zero_less_divide_iff)
  let ?k = "bitlen n - bitlen d"
  note bn = bitlen_powi [OF n] and bd = bitlen_powi [OF d]
  have dpos: "(0 :: rat) < of_int d" using d by simp
  have "(2 :: rat) powi (?k - 1) * of_int d \<le> 2 powi (?k - 1) * 2 powi bitlen d" using bd by (intro mult_left_mono) auto
  also have "\<dots> = 2 powi (bitlen n - 1)" by (simp add: power_int_add [symmetric])
  also have "\<dots> \<le> of_int n" using bn by simp
  finally have low: "2 powi (?k - 1) \<le> x" by (simp add: x pos_le_divide_eq [OF dpos])
  have "of_int n < (2 :: rat) powi bitlen n" using bn by simp
  also have "\<dots> = 2 powi (?k + 1) * 2 powi (bitlen d - 1)" by (simp add: power_int_add [symmetric])
  also have "\<dots> \<le> 2 powi (?k + 1) * of_int d" using bd by (intro mult_left_mono) auto
  finally have high: "x < 2 powi (?k + 1)" by (simp add: x pos_divide_less_eq [OF dpos])
  show ?thesis using low high by (auto simp: f64_exponent_def q Let_def)
qed

lemma powi_two_mono: "a \<le> b \<Longrightarrow> (2 :: rat) powi a \<le> 2 powi b"
  by (simp add: power_int_increasing)

lemma f64_exponent_mono:
  assumes "0 < x" "x \<le> y"
  shows "f64_exponent x \<le> f64_exponent y"
proof (rule ccontr)
  assume "\<not> ?thesis"
  then have "(2 :: rat) powi (f64_exponent y + 1) \<le> 2 powi f64_exponent x" by (intro powi_two_mono) simp
  then show False using f64_exponent_bounds [of x] f64_exponent_bounds [of y] assms by linarith
qed

subsection \<open>Rounding to a value\<close>

lemma f64_unit_pos [simp]: "0 < f64_unit x"
  by (simp add: f64_unit_def)

lemma f64_round_zero [simp]: "f64_round 0 = 0"
  by (simp add: f64_round_def)

lemma f64_round_nonneg: "0 \<le> x \<Longrightarrow> 0 \<le> f64_round x"
proof -
  assume "0 \<le> x"
  then have "round_even (of_int 0) \<le> round_even (x / f64_unit x)" by (intro round_even_mono) (simp add: less_imp_le)
  then have "0 \<le> round_even (x / f64_unit x)" by (simp only: round_even_of_int)
  then show ?thesis by (simp add: f64_round_def less_imp_le)
qed

text \<open>A result is off by at most half a unit in its last place.\<close>

lemma f64_round_near: "\<bar>f64_round x - x\<bar> \<le> f64_unit x / 2"
proof (cases "x = 0")
  case False
  let ?u = "f64_unit x" and ?r = "of_int (round_even (x / f64_unit x)) :: rat"
  have "?r * ?u - x = (?r - x / ?u) * ?u" using less_imp_neq [OF f64_unit_pos [of x]] by (simp add: left_diff_distrib)
  then have "\<bar>f64_round x - x\<bar> = \<bar>?r - x / ?u\<bar> * ?u" using False by (simp add: f64_round_def abs_mult abs_of_pos)
  also have "\<dots> \<le> 1 / 2 * ?u" by (intro mult_right_mono round_even_near) (simp add: less_imp_le)
  finally show ?thesis by simp
qed (simp add: less_imp_le)

text \<open>Rounding respects the order; here for the values that are not negative.\<close>

lemma f64_round_mono:
  assumes "0 \<le> x" "x \<le> y"
  shows "f64_round x \<le> f64_round y"
proof (cases "x = 0")
  case True
  then show ?thesis using f64_round_nonneg assms by simp
next
  case False
  then have pos: "0 < x" "0 < y" using assms by auto
  define ex ey where "ex = f64_exponent x" and "ey = f64_exponent y"
  define ux uy where "ux = max (ex - 52) (- 1074)" and "uy = max (ey - 52) (- 1074)"
  have u: "f64_unit x = 2 powi ux" "f64_unit y = 2 powi uy" using pos by (simp_all add: f64_unit_def ux_def uy_def ex_def ey_def)
  have le: "ex \<le> ey" unfolding ex_def ey_def by (rule f64_exponent_mono [OF pos(1) assms(2)])
  show ?thesis
  proof (cases "ux = uy")
    case True
    have "round_even (x / 2 powi ux) \<le> round_even (y / 2 powi ux)" by (intro round_even_mono divide_right_mono assms) simp
    then show ?thesis using pos True by (simp add: f64_round_def u mult_right_mono)
  next
    case False
    then have uy: "uy = ey - 52" and lt: "ex < ey" and ux: "ux \<le> ey" using le by (auto simp: ux_def uy_def)
    have "f64_round x \<le> 2 powi ey"
    proof -
      have "x \<le> 2 powi ey" using f64_exponent_bounds [OF pos(1)] powi_two_mono [of "ex + 1" ey] lt unfolding ex_def by simp
      then have "x / 2 powi ux \<le> 2 powi ey / 2 powi ux" by (intro divide_right_mono) simp_all
      also have "\<dots> = 2 powi (ey - ux)" by (simp add: power_int_diff)
      also have "\<dots> = of_int (2 ^ nat (ey - ux))" using ux by (simp add: power_int_def)
      finally have "round_even (x / 2 powi ux) \<le> 2 ^ nat (ey - ux)" using round_even_mono round_even_of_int by metis
      then have "of_int (round_even (x / 2 powi ux)) \<le> (2 :: rat) powi (ey - ux)"
        using ux by (simp add: power_int_def)
      then have "of_int (round_even (x / 2 powi ux)) * 2 powi ux \<le> (2 :: rat) powi (ey - ux) * 2 powi ux" by (intro mult_right_mono) simp_all
      then show ?thesis using pos by (simp add: f64_round_def u power_int_add [symmetric])
    qed
    also have "2 powi ey \<le> f64_round y"
    proof -
      have "(2 :: rat) powi ey / 2 powi uy \<le> y / 2 powi uy" using f64_exponent_bounds [OF pos(2)] by (intro divide_right_mono) (simp_all add: ey_def)
      moreover have "(2 :: rat) powi ey / 2 powi uy = of_int (2 ^ 52)" using power_int_diff [of "2 :: rat" ey uy] by (simp add: uy)
      ultimately have "2 ^ 52 \<le> round_even (y / 2 powi uy)" using round_even_mono round_even_of_int by metis
      then have "(2 :: rat) ^ 52 \<le> of_int (round_even (y / 2 powi uy))" by (metis of_int_le_iff of_int_numeral of_int_power)
      then have "(2 :: rat) ^ 52 * 2 powi uy \<le> of_int (round_even (y / 2 powi uy)) * 2 powi uy" by (intro mult_right_mono) simp_all
      moreover have "(2 :: rat) ^ 52 * 2 powi uy = 2 powi ey" using power_int_add [of "2 :: rat" 52 uy] by (simp add: uy)
      ultimately have "2 powi ey \<le> of_int (round_even (y / 2 powi uy)) * (2 :: rat) powi uy" by (simp only:)
      then show ?thesis using pos by (simp add: f64_round_def u)
    qed
    finally show ?thesis .
  qed
qed

text \<open>A known effect of the rounding: 0.1 and 0.2 do not add up to 0.3, and 0.95 is less than 0.15 above 0.8.\<close>

lemma f64_examples:
  "f64_round (3 / 4) = 3 / 4"
  "f64_add (f64_round (1 / 10)) (f64_round (2 / 10)) \<noteq> f64_round (3 / 10)"
  "f64_sub (f64_round (95 / 100)) (f64_round (80 / 100)) < f64_round (15 / 100)"
  by code_simp+

end
