(* ===== verification/Model_Classifier.thy ===== *)
theory Model_Classifier
  imports Guard_Normalize Civil_Time
begin

text \<open>
  \<^verbatim>\<open>src/crates/dek-fingerprint-defs/src/model_classifier.rs\<close>, with the records of \<^verbatim>\<open>model.rs\<close> it reads and returns: the class of a model from its
  identifier, by a table of known models, then by rules for model families, then as unknown, and the risk that its flags add up to. Parameters:
  the \<^verbatim>\<open>regex\<close> crate (which patterns compile, where they match, their first group) and Unicode lower case. Numbers are rationals, so the
  words for infinity and not-a-number are not read as numbers.
\<close>

subsection \<open>Definitions of a classifier\<close>

record vendor_def =
  vd_ns :: "string list"
  vd_vendor :: string
  vd_license_class :: "string option"
  vd_flags :: "string list"

record family_rule_def =
  fr_id :: string
  fr_pattern :: string
  fr_family :: string
  fr_vendor :: "string option"
  fr_tags :: "string list"
  fr_risk_base :: f64

datatype attribute_parser_def = ApString string | ApMap "(string \<times> string) list"

record risk_flag_def =
  rf_pattern :: string
  rf_flag :: string
  rf_risk_add :: f64
  rf_tags :: "string list"
  rf_note :: "string option"

record popular_model_def =
  pop_match_pattern :: string
  pop_match :: "string option"
  pop_display :: string
  pop_vendor :: "string option"
  pop_family :: string
  pop_license :: "string option"
  pop_arch :: "string option"
  pop_params_total_b :: "f64 option"
  pop_params_active_b :: "f64 option"
  pop_context :: "u64 option"
  pop_modality :: "string list"
  pop_popularity :: "string option"
  pop_tags :: "string list"
  pop_risk_base :: f64
  pop_flags :: "string list"
  pop_note :: "string option"

record model_classifier_def =
  mcd_vendors :: "vendor_def list"
  mcd_family_rules :: "family_rule_def list"
  mcd_attribute_parsers :: "(string \<times> attribute_parser_def) list"
  mcd_risk_flags :: "risk_flag_def list"
  mcd_popular_models :: "popular_model_def list"

record class_base =
  cb_display :: string
  cb_family :: string
  cb_vendor :: "string option"
  cb_license :: "string option"
  cb_arch :: "string option"
  cb_params_total_b :: "f64 option"
  cb_params_active_b :: "f64 option"
  cb_context :: "u64 option"
  cb_modality :: "string list"
  cb_quant :: "string option"
  cb_variant :: "string list"
  cb_capability_tags :: "string list"
  cb_risk_base :: f64
  cb_flags :: "string list"
  cb_matched_tier :: string

text \<open>The fields a result takes over from its base are kept together in \<open>ml_base\<close>; the risk of the base is not among them.\<close>

record model_class =
  ml_raw_id :: string
  ml_base :: class_base
  ml_vendor :: "string option"
  ml_risk_score :: f64
  ml_needs_human :: bool

definition unknown_class :: "string option \<Rightarrow> class_base" where
  "unknown_class vendor =
     \<lparr>cb_display = ''Unknown Model'', cb_family = ''unknown'', cb_vendor = vendor, cb_license = None, cb_arch = None, cb_params_total_b = None,
      cb_params_active_b = None, cb_context = None, cb_modality = [''text''], cb_quant = None, cb_variant = [], cb_capability_tags = [],
      cb_risk_base = 4 / 10, cb_flags = [], cb_matched_tier = ''unknown''\<rparr>"

subsection \<open>Compilation\<close>

record regex_env =
  rx_compiles :: "string \<Rightarrow> bool"
  rx_is_match :: "string \<Rightarrow> string \<Rightarrow> bool"
  rx_group1 :: "string \<Rightarrow> string \<Rightarrow> string option"
  rx_lowercase :: "string \<Rightarrow> string"

text \<open>A compiled pattern is its text; a rule whose pattern does not compile is left out.\<close>

record model_classifier =
  mc_vendors :: "vendor_def list"
  mc_family_rules :: "family_rule_def list"
  mc_popular_models :: "(string \<times> popular_model_def) list"
  mc_risk_flags :: "risk_flag_def list"
  mc_params_b :: "string option"
  mc_params_m :: "string option"
  mc_moe_active_b :: "string option"
  mc_moe_experts :: "string option"
  mc_context_hint :: "string option"
  mc_quant :: "string option"
  mc_variants :: "(string \<times> string) list"

definition compiled :: "regex_env \<Rightarrow> string \<Rightarrow> string option" where
  "compiled rx p = (if rx_compiles rx p then Some p else None)"

definition attribute_pattern :: "regex_env \<Rightarrow> model_classifier_def \<Rightarrow> string \<Rightarrow> string option" where
  "attribute_pattern rx d k = (case map_of (mcd_attribute_parsers d) k of Some (ApString s) \<Rightarrow> compiled rx s | _ \<Rightarrow> None)"

definition popular_pattern :: "popular_model_def \<Rightarrow> string" where
  "popular_pattern p = (case pop_match p of Some s \<Rightarrow> s | None \<Rightarrow> pop_match_pattern p)"

definition classifier_new :: "regex_env \<Rightarrow> model_classifier_def \<Rightarrow> model_classifier" where
  "classifier_new rx d =
     \<lparr>mc_vendors = mcd_vendors d,
      mc_family_rules = filter (\<lambda>r. rx_compiles rx (fr_pattern r)) (mcd_family_rules d),
      mc_popular_models = map (\<lambda>p. (popular_pattern p, p)) (filter (\<lambda>p. rx_compiles rx (popular_pattern p)) (mcd_popular_models d)),
      mc_risk_flags = filter (\<lambda>r. rx_compiles rx (rf_pattern r)) (mcd_risk_flags d),
      mc_params_b = attribute_pattern rx d ''params_b'', mc_params_m = attribute_pattern rx d ''params_m'',
      mc_moe_active_b = attribute_pattern rx d ''moe_active_b'', mc_moe_experts = attribute_pattern rx d ''moe_experts'',
      mc_context_hint = attribute_pattern rx d ''context_hint'', mc_quant = attribute_pattern rx d ''quant'',
      mc_variants = (case map_of (mcd_attribute_parsers d) ''variant'' of
          Some (ApMap vs) \<Rightarrow> filter (\<lambda>(k, v). rx_compiles rx v) vs | _ \<Rightarrow> [])\<rparr>"

subsection \<open>Numbers\<close>

text \<open>\<^verbatim>\<open>f64::from_str\<close>: a sign, digits with a decimal point, an exponent.\<close>

definition digits_or_empty :: "string \<Rightarrow> int option" where
  "digits_or_empty s = (if s = [] then Some 0 else unsigned_value s)"

definition parse_mantissa :: "string \<Rightarrow> f64 option" where
  "parse_mantissa s =
     (case split_once (CHR ''.'') s of
        None \<Rightarrow> map_option of_int (unsigned_value s)
      | Some (a, b) \<Rightarrow>
          if a = [] \<and> b = [] then None
          else (case (digits_or_empty a, digits_or_empty b) of
                  (Some x, Some y) \<Rightarrow> Some (of_int x + of_int y / 10 ^ length b) | _ \<Rightarrow> None))"

definition parse_exponent :: "string \<Rightarrow> f64 option" where
  "parse_exponent s =
     (case s of
        [] \<Rightarrow> None
      | c # r \<Rightarrow>
          if c = CHR ''-'' then map_option (\<lambda>n. 1 / 10 ^ nat n) (unsigned_value r)
          else map_option (\<lambda>n. 10 ^ nat n) (unsigned_value (if c = CHR ''+'' then r else s)))"

definition parse_unsigned_f64 :: "string \<Rightarrow> f64 option" where
  "parse_unsigned_f64 s =
     (case split_once (CHR ''e'') (to_ascii_lowercase s) of
        None \<Rightarrow> parse_mantissa s
      | Some (m, e) \<Rightarrow> (case (parse_mantissa m, parse_exponent e) of (Some x, Some y) \<Rightarrow> Some (x * y) | _ \<Rightarrow> None))"

definition parse_f64 :: "string \<Rightarrow> f64 option" where
  "parse_f64 s =
     (case s of
        [] \<Rightarrow> None
      | c # r \<Rightarrow> if c = CHR ''-'' then map_option uminus (parse_unsigned_f64 r)
                 else parse_unsigned_f64 (if c = CHR ''+'' then r else s))"

subsection \<open>Classification\<close>

definition lookup_vendor :: "regex_env \<Rightarrow> model_classifier \<Rightarrow> string \<Rightarrow> string option \<times> string list" where
  "lookup_vendor rx mc ident =
     (let pre = rx_lowercase rx (before (CHR ''/'') ident)
      in case find (\<lambda>v. \<exists>ns\<in>set (vd_ns v). rx_lowercase rx ns = pre) (mc_vendors mc) of
           Some v \<Rightarrow> (Some (vd_vendor v), vd_flags v) | None \<Rightarrow> (None, []))"

definition popular_class :: "popular_model_def \<Rightarrow> class_base" where
  "popular_class p =
     \<lparr>cb_display = pop_display p, cb_family = pop_family p, cb_vendor = pop_vendor p, cb_license = pop_license p, cb_arch = pop_arch p,
      cb_params_total_b = pop_params_total_b p, cb_params_active_b = pop_params_active_b p, cb_context = pop_context p,
      cb_modality = pop_modality p, cb_quant = None, cb_variant = [], cb_capability_tags = pop_tags p, cb_risk_base = pop_risk_base p,
      cb_flags = pop_flags p, cb_matched_tier = ''popular''\<rparr>"

definition match_popular :: "regex_env \<Rightarrow> model_classifier \<Rightarrow> string \<Rightarrow> class_base option" where
  "match_popular rx mc ident = map_option (\<lambda>(_, p). popular_class p) (find (\<lambda>(re, _). rx_is_match rx re ident) (mc_popular_models mc))"

definition family_class :: "family_rule_def \<Rightarrow> class_base" where
  "family_class f =
     \<lparr>cb_display = fr_family f @ '' (Unknown)'', cb_family = fr_family f, cb_vendor = fr_vendor f, cb_license = None, cb_arch = None,
      cb_params_total_b = None, cb_params_active_b = None, cb_context = None, cb_modality = [''text''], cb_quant = None, cb_variant = [],
      cb_capability_tags = fr_tags f, cb_risk_base = fr_risk_base f, cb_flags = [], cb_matched_tier = ''family''\<rparr>"

definition match_family :: "regex_env \<Rightarrow> model_classifier \<Rightarrow> string \<Rightarrow> class_base option" where
  "match_family rx mc ident = map_option family_class (find (\<lambda>f. rx_is_match rx (fr_pattern f) ident) (mc_family_rules mc))"

definition captured :: "regex_env \<Rightarrow> string option \<Rightarrow> string \<Rightarrow> string option" where
  "captured rx re ident = Option.bind re (\<lambda>p. rx_group1 rx p ident)"

definition parse_params_b :: "regex_env \<Rightarrow> model_classifier \<Rightarrow> string \<Rightarrow> f64 option" where
  "parse_params_b rx mc ident =
     (case captured rx (mc_params_b mc) ident of
        Some s \<Rightarrow> parse_f64 s
      | None \<Rightarrow> map_option (\<lambda>x. x / 1000) (Option.bind (captured rx (mc_params_m mc) ident) parse_f64))"

definition parse_active_b :: "regex_env \<Rightarrow> model_classifier \<Rightarrow> string \<Rightarrow> f64 option" where
  "parse_active_b rx mc ident = Option.bind (captured rx (mc_moe_active_b mc) ident) parse_f64"

definition parse_quant :: "regex_env \<Rightarrow> model_classifier \<Rightarrow> string \<Rightarrow> string option" where
  "parse_quant rx mc ident = map_option (rx_lowercase rx) (captured rx (mc_quant mc) ident)"

definition variant_tag :: "string \<Rightarrow> string option" where
  "variant_tag v =
     (if v = ''instruct'' then Some ''tool.use'' else if v = ''reasoning'' then Some ''reasoning.cot''
      else if v = ''coder'' then Some ''code.generation'' else if v = ''vision'' then Some ''vision.input''
      else if v = ''audio'' then Some ''audio.input'' else None)"

definition apply_variant_tags :: "class_base \<Rightarrow> string \<Rightarrow> class_base" where
  "apply_variant_tags base v =
     (case variant_tag v of None \<Rightarrow> base | Some t \<Rightarrow> base\<lparr>cb_capability_tags := push_unique t (cb_capability_tags base)\<rparr>)"

definition apply_variant :: "regex_env \<Rightarrow> string \<Rightarrow> class_base \<Rightarrow> string \<times> string \<Rightarrow> class_base" where
  "apply_variant rx ident base v =
     (if rx_is_match rx (snd v) ident then apply_variant_tags (base\<lparr>cb_variant := cb_variant base @ [fst v]\<rparr>) (fst v) else base)"

definition clamp01 :: "f64 \<Rightarrow> f64" where
  "clamp01 x = (if x < 0 then 0 else if x > 1 then 1 else x)"

definition apply_risk_flag :: "regex_env \<Rightarrow> string \<Rightarrow> f64 \<times> class_base \<Rightarrow> risk_flag_def \<Rightarrow> f64 \<times> class_base" where
  "apply_risk_flag rx ident s rf =
     (case s of (risk, base) \<Rightarrow>
        if rx_is_match rx (rf_pattern rf) ident
        then (clamp01 (risk + rf_risk_add rf),
              base\<lparr>cb_capability_tags := foldl (\<lambda>ts t. push_unique t ts) (cb_capability_tags base) (rf_tags rf),
                   cb_flags := push_unique (rf_flag rf) (cb_flags base)\<rparr>)
        else (risk, base))"

definition fill_attributes :: "regex_env \<Rightarrow> model_classifier \<Rightarrow> string \<Rightarrow> class_base \<Rightarrow> class_base" where
  "fill_attributes rx mc ident base =
     (let b1 = (if cb_params_total_b base = None then base\<lparr>cb_params_total_b := parse_params_b rx mc ident\<rparr> else base);
          b2 = (if cb_params_active_b b1 = None then b1\<lparr>cb_params_active_b := parse_active_b rx mc ident\<rparr> else b1);
          b3 = (if cb_params_active_b b2 \<noteq> None \<and> cb_arch b2 = None then b2\<lparr>cb_arch := Some ''moe''\<rparr> else b2)
      in if cb_quant b3 = None then b3\<lparr>cb_quant := parse_quant rx mc ident\<rparr> else b3)"

definition finalize_class :: "regex_env \<Rightarrow> model_classifier \<Rightarrow> string \<Rightarrow> class_base \<Rightarrow> string option \<Rightarrow> string list \<Rightarrow> model_class" where
  "finalize_class rx mc ident base vendor vflags =
     (let b1 = foldl (apply_variant rx ident) (fill_attributes rx mc ident base) (mc_variants mc);
          (risk, b2) = foldl (apply_risk_flag rx ident) (cb_risk_base b1, b1) (mc_risk_flags mc);
          b3 = b2\<lparr>cb_flags := foldl (\<lambda>fs f. push_unique f fs) (cb_flags b2) vflags\<rparr>
      in \<lparr>ml_raw_id = ident, ml_base = b3, ml_vendor = (case cb_vendor b3 of Some v \<Rightarrow> Some v | None \<Rightarrow> vendor),
          ml_risk_score = risk, ml_needs_human = (cb_matched_tier b3 = ''unknown'' \<or> risk \<ge> 7 / 10)\<rparr>)"

definition classify_model :: "regex_env \<Rightarrow> model_classifier \<Rightarrow> string \<Rightarrow> model_class" where
  "classify_model rx mc raw_id =
     (let ident = str_trim raw_id;
          (vendor, vendor_flags) = lookup_vendor rx mc ident
      in case match_popular rx mc ident of
           Some p \<Rightarrow> finalize_class rx mc ident p vendor vendor_flags
         | None \<Rightarrow>
             let base = (case match_family rx mc ident of Some f \<Rightarrow> f | None \<Rightarrow> unknown_class vendor)
             in finalize_class rx mc ident base vendor vendor_flags)"

subsection \<open>Risk and flags\<close>

lemma clamp01_bounds: "0 \<le> clamp01 x" "clamp01 x \<le> 1"
  by (simp_all add: clamp01_def)

lemma fill_attributes_keeps [simp]:
  "cb_risk_base (fill_attributes rx mc ident b) = cb_risk_base b" "cb_flags (fill_attributes rx mc ident b) = cb_flags b"
  "cb_matched_tier (fill_attributes rx mc ident b) = cb_matched_tier b" "cb_vendor (fill_attributes rx mc ident b) = cb_vendor b"
  by (simp_all add: fill_attributes_def Let_def)

lemma apply_variant_keeps [simp]:
  "cb_risk_base (apply_variant rx ident b v) = cb_risk_base b" "cb_flags (apply_variant rx ident b v) = cb_flags b"
  "cb_matched_tier (apply_variant rx ident b v) = cb_matched_tier b" "cb_vendor (apply_variant rx ident b v) = cb_vendor b"
  by (simp_all add: apply_variant_def apply_variant_tags_def split: option.split)

lemma variants_keep [simp]:
  "cb_risk_base (foldl (apply_variant rx ident) b vs) = cb_risk_base b" "cb_flags (foldl (apply_variant rx ident) b vs) = cb_flags b"
  "cb_matched_tier (foldl (apply_variant rx ident) b vs) = cb_matched_tier b" "cb_vendor (foldl (apply_variant rx ident) b vs) = cb_vendor b"
  by (induction vs arbitrary: b) simp_all

lemma apply_risk_flag_hit:
  "rx_is_match rx (rf_pattern rf) ident \<Longrightarrow> apply_risk_flag rx ident (r, b) rf =
     (clamp01 (r + rf_risk_add rf), b\<lparr>cb_capability_tags := foldl (\<lambda>ts t. push_unique t ts) (cb_capability_tags b) (rf_tags rf),
        cb_flags := push_unique (rf_flag rf) (cb_flags b)\<rparr>)"
  by (simp add: apply_risk_flag_def)

lemma apply_risk_flag_miss: "\<not> rx_is_match rx (rf_pattern rf) ident \<Longrightarrow> apply_risk_flag rx ident (r, b) rf = (r, b)"
  by (simp add: apply_risk_flag_def)

lemma risk_flags_effect:
  "foldl (apply_risk_flag rx ident) (r, b) rfs = (r', b') \<Longrightarrow>
     r' = foldl (\<lambda>r rf. clamp01 (r + rf_risk_add rf)) r (filter (\<lambda>rf. rx_is_match rx (rf_pattern rf) ident) rfs)
     \<and> set (cb_flags b') = set (cb_flags b) \<union> rf_flag ` {rf \<in> set rfs. rx_is_match rx (rf_pattern rf) ident}
     \<and> (distinct (cb_flags b) \<longrightarrow> distinct (cb_flags b'))
     \<and> cb_matched_tier b' = cb_matched_tier b \<and> cb_vendor b' = cb_vendor b"
proof (induction rfs arbitrary: r b)
  case (Cons rf rfs)
  show ?case
  proof (cases "rx_is_match rx (rf_pattern rf) ident")
    case True
    let ?b = "b\<lparr>cb_capability_tags := foldl (\<lambda>ts t. push_unique t ts) (cb_capability_tags b) (rf_tags rf),
                cb_flags := push_unique (rf_flag rf) (cb_flags b)\<rparr>"
    have "foldl (apply_risk_flag rx ident) (clamp01 (r + rf_risk_add rf), ?b) rfs = (r', b')"
      using Cons.prems apply_risk_flag_hit [OF True, of r b] by simp
    from Cons.IH [OF this] True show ?thesis by auto
  next
    case False
    then have "foldl (apply_risk_flag rx ident) (r, b) rfs = (r', b')" using Cons.prems apply_risk_flag_miss [OF False, of r b] by simp
    from Cons.IH [OF this] False show ?thesis by auto
  qed
qed simp

lemma set_push_all: "set (foldl (\<lambda>fs f. push_unique f fs) xs ys) = set xs \<union> set ys"
  by (induction ys arbitrary: xs) auto

lemma distinct_push_all: "distinct (foldl (\<lambda>fs f. push_unique f fs) xs ys) = distinct xs"
  by (induction ys arbitrary: xs) auto

definition class_base_of :: "regex_env \<Rightarrow> model_classifier \<Rightarrow> string \<Rightarrow> class_base" where
  "class_base_of rx mc ident =
     (case match_popular rx mc ident of Some p \<Rightarrow> p
      | None \<Rightarrow> (case match_family rx mc ident of Some f \<Rightarrow> f | None \<Rightarrow> unknown_class (fst (lookup_vendor rx mc ident))))"

lemma classify_model_alt:
  "classify_model rx mc raw_id =
     (let ident = str_trim raw_id
      in finalize_class rx mc ident (class_base_of rx mc ident) (fst (lookup_vendor rx mc ident)) (snd (lookup_vendor rx mc ident)))"
  by (simp add: classify_model_def class_base_of_def Let_def split: option.split prod.split)

text \<open>The risk is the risk of the table entry with what the matching flags add, kept between 0 and 1 after each; the flags are those of the entry,
  of the matching rules and of the vendor, none twice; a human has to look at unknown models and at a risk of 0.7 or more.\<close>

lemma classification_exact:
  fixes rx :: regex_env and mc :: model_classifier and raw_id :: string
  defines "m \<equiv> classify_model rx mc raw_id" and "ident \<equiv> str_trim raw_id"
  shows "ml_risk_score m = foldl (\<lambda>r rf. clamp01 (r + rf_risk_add rf)) (cb_risk_base (class_base_of rx mc ident))
            (filter (\<lambda>rf. rx_is_match rx (rf_pattern rf) ident) (mc_risk_flags mc))"
    and "set (cb_flags (ml_base m)) = set (cb_flags (class_base_of rx mc ident))
            \<union> rf_flag ` {rf \<in> set (mc_risk_flags mc). rx_is_match rx (rf_pattern rf) ident} \<union> set (snd (lookup_vendor rx mc ident))"
    and "distinct (cb_flags (class_base_of rx mc ident)) \<Longrightarrow> distinct (cb_flags (ml_base m))"
    and "ml_needs_human m \<longleftrightarrow> cb_matched_tier (class_base_of rx mc ident) = ''unknown'' \<or> ml_risk_score m \<ge> 7 / 10"
proof -
  let ?b = "foldl (apply_variant rx ident) (fill_attributes rx mc ident (class_base_of rx mc ident)) (mc_variants mc)"
  obtain r b where rb: "foldl (apply_risk_flag rx ident) (cb_risk_base ?b, ?b) (mc_risk_flags mc) = (r, b)" by fastforce
  note eff = risk_flags_effect [OF rb, simplified]
  have m: "m = \<lparr>ml_raw_id = ident, ml_base = b\<lparr>cb_flags := foldl (\<lambda>fs f. push_unique f fs) (cb_flags b) (snd (lookup_vendor rx mc ident))\<rparr>,
      ml_vendor = (case cb_vendor b of Some v \<Rightarrow> Some v | None \<Rightarrow> fst (lookup_vendor rx mc ident)),
      ml_risk_score = r, ml_needs_human = (cb_matched_tier b = ''unknown'' \<or> r \<ge> 7 / 10)\<rparr>"
    unfolding m_def classify_model_alt finalize_class_def Let_def ident_def [symmetric] rb by simp
  show "ml_risk_score m = foldl (\<lambda>r rf. clamp01 (r + rf_risk_add rf)) (cb_risk_base (class_base_of rx mc ident))
      (filter (\<lambda>rf. rx_is_match rx (rf_pattern rf) ident) (mc_risk_flags mc))"
    using eff by (simp add: m)
  show "set (cb_flags (ml_base m)) = set (cb_flags (class_base_of rx mc ident))
      \<union> rf_flag ` {rf \<in> set (mc_risk_flags mc). rx_is_match rx (rf_pattern rf) ident} \<union> set (snd (lookup_vendor rx mc ident))"
    using eff by (simp add: m set_push_all)
  show "distinct (cb_flags (class_base_of rx mc ident)) \<Longrightarrow> distinct (cb_flags (ml_base m))"
    using eff by (simp add: m distinct_push_all)
  show "ml_needs_human m \<longleftrightarrow> cb_matched_tier (class_base_of rx mc ident) = ''unknown'' \<or> ml_risk_score m \<ge> 7 / 10"
    using eff by (simp add: m)
qed

lemma clamped_sum_bounds: "0 \<le> r \<Longrightarrow> r \<le> 1 \<Longrightarrow> 0 \<le> foldl (\<lambda>r rf. clamp01 (r + rf_risk_add rf)) r rfs \<and> foldl (\<lambda>r rf. clamp01 (r + rf_risk_add rf)) r rfs \<le> 1"
  by (induction rfs arbitrary: r) (simp_all add: clamp01_bounds)

lemma risk_score_bounds:
  assumes "0 \<le> cb_risk_base (class_base_of rx mc (str_trim raw_id))"
    and "cb_risk_base (class_base_of rx mc (str_trim raw_id)) \<le> 1"
  shows "0 \<le> ml_risk_score (classify_model rx mc raw_id) \<and> ml_risk_score (classify_model rx mc raw_id) \<le> 1"
  unfolding classification_exact(1) using clamped_sum_bounds assms by blast

text \<open>A pattern that does not compile is dropped without an error: the attribute it reads is then never found.\<close>

lemma uncompiled_params_ignored:
  assumes "map_of (mcd_attribute_parsers d) ''params_b'' = Some (ApString p)" "\<not> rx_compiles rx p"
    and "map_of (mcd_attribute_parsers d) ''params_m'' = Some (ApString q)" "\<not> rx_compiles rx q"
  shows "parse_params_b rx (classifier_new rx d) ident = None"
  using assms by (simp add: parse_params_b_def classifier_new_def attribute_pattern_def compiled_def captured_def)

end
