(* ===== verification/Fingerprint_Defs.thy ===== *)
theory Fingerprint_Defs
  imports Float64 Trusted_Keys Detection_Rules Agent_Activity Model_Classifier "HOL-Library.List_Lexorder" "HOL-Library.Char_ord"
begin

text \<open>
  The catalogue of agent fingerprints, \<^verbatim>\<open>src/crates/dek-fingerprint-defs/src\<close>: the definitions (\<^verbatim>\<open>model.rs\<close>), their verification (\<^verbatim>\<open>verify.rs\<close>), the
  data base of the service and its updates by full and delta definitions (\<^verbatim>\<open>merge.rs\<close>, \<^verbatim>\<open>store.rs\<close>) and the store on disk (\<^verbatim>\<open>loader.rs\<close>). A hash map is
  an association list whose order means nothing. Parameters: JSON reading and writing of a definition, SHA-256, the version comparison of
  \<^verbatim>\<open>semver\<close>, the clock and the signature library.
\<close>

subsection \<open>Definitions\<close>

record signature_meta =
  sm_author :: string
  sm_description :: string
  sm_references :: "string list"
  sm_added_in :: string
  sm_tags :: "string list"

record port_probe_spec =
  pp_kind :: string
  pp_path :: string

datatype detection_logic = DlAnyOf | DlProcessAndConfig | DlProcessOrConfigWithPort | DlProcessOrPort | DlHashMatch | DlNetworkEgress

record install_marker =
  im_path :: string
  im_os :: "string option"
  im_weight :: "f64 option"

record package_marker =
  pm_ecosystem :: string
  pm_name :: string
  pm_global :: bool

record signal_weights =
  sw_process_name :: f64
  sw_cmd_pattern :: f64
  sw_exe_path :: f64
  sw_install_marker :: f64
  sw_cli_binary :: f64
  sw_package :: f64
  sw_config_path :: f64
  sw_port :: f64
  sw_egress :: f64
  sw_binary_hash :: f64

definition default_signal_weights :: signal_weights where
  "default_signal_weights =
     \<lparr>sw_process_name = f64_round (15 / 100), sw_cmd_pattern = f64_round (45 / 100), sw_exe_path = f64_round (40 / 100), sw_install_marker = f64_round (55 / 100),
      sw_cli_binary = f64_round (50 / 100),
      sw_package = f64_round (45 / 100), sw_config_path = f64_round (50 / 100), sw_port = f64_round (25 / 100),
      sw_egress = f64_round (30 / 100), sw_binary_hash = f64_round (95 / 100)\<rparr>"

record agent_signature_v2 =
  av_id :: string
  av_display_name :: string
  av_agent_type :: string
  av_revision :: nat
  av_meta :: signature_meta
  av_process_names :: "string list"
  av_binary_hashes :: "string list"
  av_config_paths :: "(string \<times> string list) list"
  av_config_parsers :: "string list"
  av_ports :: "16 word list"
  av_port_probe :: "port_probe_spec option"
  av_detection_logic :: detection_logic
  av_control_strategies :: "string list"
  av_risk_weight :: f64
  av_cmd_patterns :: "string list"
  av_exe_path_patterns :: "string list"
  av_install_markers :: "install_marker list"
  av_cli_binaries :: "string list"
  av_package_markers :: "package_marker list"
  av_env_markers :: "string list"
  av_egress_hosts :: "string list"
  av_vendor :: "string option"
  av_product :: "string option"
  av_capability_tags :: "string list"
  av_signal_weights :: "signal_weights option"

record web_ai_signature =
  wa_id :: string
  wa_canonical_service_id :: string
  wa_surface_group_id :: string
  wa_entity_role :: string
  wa_authority_boundary :: string
  wa_domain :: string
  wa_alias_domains :: "string list"
  wa_related_domains :: "string list"
  wa_not_alias_domains :: "string list"
  wa_exclusive_match :: bool
  wa_parent_precedence :: "string list"
  wa_observe_scope :: string
  wa_enforce_scope :: string
  wa_ui_class :: string
  wa_name :: string
  wa_vendor :: string
  wa_title_patterns :: "string list"
  wa_app_cmdline_patterns :: "string list"
  wa_capability_tags :: "string list"
  wa_risk_weight :: f64

definition stable_id :: "web_ai_signature \<Rightarrow> string" where
  "stable_id w = (if wa_id w = [] then wa_domain w else wa_id w)"

definition web_domains :: "web_ai_signature \<Rightarrow> string list" where
  "web_domains w = remdups_adj (sort (wa_domain w # wa_alias_domains w))"

record installed_app_marker =
  am_os :: "string option"
  am_paths :: "string list"
  am_process_names :: "string list"

record installed_app_signature =
  ia_id :: string
  ia_name :: string
  ia_vendor :: string
  ia_product :: string
  ia_agent_type :: string
  ia_capability_tags :: "string list"
  ia_process_names :: "string list"
  ia_markers :: "installed_app_marker list"

definition push_name :: "string list \<Rightarrow> string \<Rightarrow> string list" where
  "push_name names n = (if \<exists>e\<in>set names. eq_ignore_ascii_case e n then names else names @ [n])"

definition app_process_names :: "installed_app_signature \<Rightarrow> string list" where
  "app_process_names a = foldl (\<lambda>names m. foldl push_name names (am_process_names m)) (ia_process_names a) (ia_markers a)"

record browser_process =
  bp_process_names :: "string list"
  bp_engine :: string

record ai_process_hints =
  ah_require_match :: bool
  ah_name_tokens :: "string list"
  ah_cmd_tokens :: "string list"
  ah_deny_tokens :: "string list"

record collapse_rule =
  co_id :: string
  co_when_parent_signature_id :: "string option"
  co_when_endpoint :: "string option"
  co_child_service_ids :: "string list"
  co_parent_client_candidates :: "string list"
  co_same_window_seconds :: "u64 option"
  co_same_user_or_profile_required :: bool
  co_collapse_as :: string
  co_control_parent_only :: bool
  co_keep_child_visible :: bool

datatype definition_kind = DkFull | DkDelta

record fingerprint_definition =
  fd_schema_version :: string
  fd_definition_version :: u64
  fd_released_at :: string
  fd_min_engine_version :: string
  fd_kind :: definition_kind
  fd_base_version :: "u64 option"
  fd_signatures :: "agent_signature_v2 list"
  fd_removed_ids :: "string list"
  fd_catalog_hash :: string
  fd_model_classifier :: "model_classifier_def option"
  fd_web_ai_signatures :: "web_ai_signature list"
  fd_installed_app_signatures :: "installed_app_signature list"
  fd_browser_processes :: "browser_process list"
  fd_ai_process_hints :: ai_process_hints
  fd_cloud_resource_signatures :: "cloud_signature list"
  fd_collapse_rules :: "collapse_rule list"

subsection \<open>The data base\<close>

record fingerprint_db =
  db_version :: u64
  db_by_id :: "(string \<times> agent_signature_v2) list"
  db_web_ai :: "(string \<times> web_ai_signature) list"
  db_installed_apps :: "(string \<times> installed_app_signature) list"
  db_browser_processes :: "browser_process list"
  db_ai_process_hints :: ai_process_hints
  db_cloud_resource_signatures :: "(string \<times> cloud_signature) list"
  db_collapse_rules :: "collapse_rule list"

definition insert_all :: "('a \<Rightarrow> string) \<Rightarrow> (string \<times> 'a) list \<Rightarrow> 'a list \<Rightarrow> (string \<times> 'a) list" where
  "insert_all key m xs = foldl (\<lambda>m x. AList.update (key x) x m) m xs"

definition from_baseline :: "fingerprint_definition \<Rightarrow> fingerprint_db" where
  "from_baseline base =
     \<lparr>db_version = fd_definition_version base, db_by_id = insert_all av_id [] (fd_signatures base),
      db_web_ai = insert_all stable_id [] (fd_web_ai_signatures base),
      db_installed_apps = insert_all ia_id [] (fd_installed_app_signatures base),
      db_browser_processes = fd_browser_processes base, db_ai_process_hints = fd_ai_process_hints base,
      db_cloud_resource_signatures = insert_all cs_name [] (fd_cloud_resource_signatures base),
      db_collapse_rules = fd_collapse_rules base\<rparr>"

text \<open>\<open>iter_mut().find\<close> with a change of the element it finds.\<close>

fun update_first :: "('a \<Rightarrow> bool) \<Rightarrow> ('a \<Rightarrow> 'a) \<Rightarrow> 'a list \<Rightarrow> 'a list option" where
  "update_first P f [] = None"
| "update_first P f (x # xs) = (if P x then Some (f x # xs) else map_option (Cons x) (update_first P f xs))"

definition upsert :: "('a \<Rightarrow> bool) \<Rightarrow> ('a \<Rightarrow> 'a) \<Rightarrow> 'a \<Rightarrow> 'a list \<Rightarrow> 'a list" where
  "upsert P f incoming items = (case update_first P f items of Some items' \<Rightarrow> items' | None \<Rightarrow> items @ [incoming])"

definition upsert_collapse_rule :: "collapse_rule list \<Rightarrow> collapse_rule \<Rightarrow> collapse_rule list" where
  "upsert_collapse_rule items incoming = upsert (\<lambda>r. co_id r = co_id incoming) (\<lambda>_. incoming) incoming items"

definition same_browser :: "browser_process \<Rightarrow> browser_process \<Rightarrow> bool" where
  "same_browser incoming existing \<longleftrightarrow>
     bp_engine existing = bp_engine incoming
     \<and> (\<exists>e\<in>set (bp_process_names existing). \<exists>n\<in>set (bp_process_names incoming). eq_ignore_ascii_case e n)"

definition upsert_browser_process :: "browser_process list \<Rightarrow> browser_process \<Rightarrow> browser_process list" where
  "upsert_browser_process items incoming =
     upsert (same_browser incoming)
       (\<lambda>b. b\<lparr>bp_process_names := foldl push_name (bp_process_names b) (bp_process_names incoming)\<rparr>) incoming items"

definition hints_given :: "ai_process_hints \<Rightarrow> bool" where
  "hints_given h \<longleftrightarrow> ah_name_tokens h \<noteq> [] \<or> ah_cmd_tokens h \<noteq> [] \<or> ah_deny_tokens h \<noteq> [] \<or> ah_require_match h"

definition names_browser :: "string \<Rightarrow> browser_process \<Rightarrow> bool" where
  "names_browser ident b \<longleftrightarrow> (\<exists>n\<in>set (bp_process_names b). eq_ignore_ascii_case n ident)"

definition remove_ident :: "fingerprint_db \<Rightarrow> string \<Rightarrow> fingerprint_db" where
  "remove_ident db ident =
     db\<lparr>db_by_id := AList.delete ident (db_by_id db), db_web_ai := AList.delete ident (db_web_ai db),
        db_installed_apps := AList.delete ident (db_installed_apps db),
        db_cloud_resource_signatures := AList.delete ident (db_cloud_resource_signatures db),
        db_collapse_rules := filter (\<lambda>r. co_id r \<noteq> ident) (db_collapse_rules db),
        db_browser_processes := filter (\<lambda>b. \<not> names_browser ident b) (db_browser_processes db)\<rparr>"

definition apply_full :: "fingerprint_definition \<Rightarrow> fingerprint_db \<Rightarrow> fingerprint_db" where
  "apply_full d db =
     db\<lparr>db_by_id := insert_all av_id [] (fd_signatures d), db_web_ai := insert_all stable_id [] (fd_web_ai_signatures d),
        db_installed_apps := insert_all ia_id [] (fd_installed_app_signatures d), db_browser_processes := fd_browser_processes d,
        db_ai_process_hints := fd_ai_process_hints d,
        db_cloud_resource_signatures := insert_all cs_name [] (fd_cloud_resource_signatures d), db_collapse_rules := fd_collapse_rules d\<rparr>"

definition merge_into :: "fingerprint_definition \<Rightarrow> fingerprint_db \<Rightarrow> fingerprint_db" where
  "merge_into d db =
     db\<lparr>db_by_id := insert_all av_id (db_by_id db) (fd_signatures d), db_web_ai := insert_all stable_id (db_web_ai db) (fd_web_ai_signatures d),
        db_installed_apps := insert_all ia_id (db_installed_apps db) (fd_installed_app_signatures d),
        db_cloud_resource_signatures := insert_all cs_name (db_cloud_resource_signatures db) (fd_cloud_resource_signatures d),
        db_browser_processes := foldl upsert_browser_process (db_browser_processes db) (fd_browser_processes d),
        db_collapse_rules := foldl upsert_collapse_rule (db_collapse_rules db) (fd_collapse_rules d),
        db_ai_process_hints := (if hints_given (fd_ai_process_hints d) then fd_ai_process_hints d else db_ai_process_hints db)\<rparr>"

text \<open>\<open>FingerprintDb::apply\<close>: its only error is a delta on another base.\<close>

definition db_apply :: "fingerprint_definition \<Rightarrow> fingerprint_db \<Rightarrow> fingerprint_db option" where
  "db_apply d db =
     (case fd_kind d of
        DkFull \<Rightarrow> Some ((apply_full d db)\<lparr>db_version := fd_definition_version d\<rparr>)
      | DkDelta \<Rightarrow>
          if fd_base_version d \<noteq> Some (db_version db) then None
          else Some ((foldl remove_ident (merge_into d db) (fd_removed_ids d))\<lparr>db_version := fd_definition_version d\<rparr>))"

subsection \<open>Verification and the service\<close>

datatype fp_error =
    FpParse string | FpSignature | FpVersionParse string | FpEngineTooOld | FpSerialize string | FpHashMismatch string string
  | FpDeltaBaseMismatch | FpNoPrevious | FpFetch string

record fp_env =
  fe_crypto :: crypto
  fe_now_unix :: int
  fe_from_slice :: "string \<Rightarrow> (string, fingerprint_definition) result"
  fe_to_vec :: "fingerprint_definition \<Rightarrow> (string, string) result"
  fe_sha256_hex :: "string \<Rightarrow> string"
  fe_engine_below :: "string \<Rightarrow> (string, bool) result"

definition compute_catalog_hash :: "fp_env \<Rightarrow> fingerprint_definition \<Rightarrow> (fp_error, string) result" where
  "compute_catalog_hash env d = map_sum FpSerialize (fe_sha256_hex env) (fe_to_vec env (d\<lparr>fd_catalog_hash := []\<rparr>))"

definition check_catalog_hash :: "fp_env \<Rightarrow> fingerprint_definition \<Rightarrow> (fp_error, unit) result" where
  "check_catalog_hash env d =
     (if fd_catalog_hash d = [] then Inr ()
      else case compute_catalog_hash env d of
             Inl e \<Rightarrow> Inl e
           | Inr computed \<Rightarrow> if computed \<noteq> fd_catalog_hash d then Inl (FpHashMismatch (fd_catalog_hash d) computed) else Inr ())"

definition verify_definition :: "fp_env \<Rightarrow> trusted_key_set \<Rightarrow> string \<Rightarrow> string \<Rightarrow> fingerprint_definition \<Rightarrow> (fp_error, unit) result" where
  "verify_definition env keys raw sig d =
     (case verify (fe_crypto env) keys (fe_now_unix env) raw [\<lparr>sig_key_id = None, sig_b64 = sig\<rparr>] of
        Valid _ \<Rightarrow>
          (case fe_engine_below env (fd_min_engine_version d) of
             Inl e \<Rightarrow> Inl (FpVersionParse e)
           | Inr below \<Rightarrow> if below then Inl FpEngineTooOld else check_catalog_hash env d)
      | _ \<Rightarrow> Inl FpSignature)"

record fingerprint_service =
  fs_db :: fingerprint_db
  fs_prev_db :: "fingerprint_db option"
  fs_keys :: trusted_key_set

definition service_new :: "fingerprint_definition \<Rightarrow> trusted_key_set \<Rightarrow> fingerprint_service" where
  "service_new baseline keys = \<lparr>fs_db = from_baseline baseline, fs_prev_db = None, fs_keys = keys\<rparr>"

text \<open>An update reads the data base under the read lock and writes it under the write lock, two critical sections.\<close>

definition prepare_update :: "fp_env \<Rightarrow> string \<Rightarrow> string \<Rightarrow> fingerprint_service \<Rightarrow> (fp_error, fingerprint_db) result" where
  "prepare_update env raw sig svc =
     (case fe_from_slice env raw of
        Inl e \<Rightarrow> Inl (FpParse e)
      | Inr d \<Rightarrow>
          (case verify_definition env (fs_keys svc) raw sig d of
             Inl e \<Rightarrow> Inl e
           | Inr _ \<Rightarrow> (case db_apply d (fs_db svc) of None \<Rightarrow> Inl FpDeltaBaseMismatch | Some candidate \<Rightarrow> Inr candidate)))"

definition commit_update :: "fingerprint_db \<Rightarrow> fingerprint_service \<Rightarrow> fingerprint_service" where
  "commit_update candidate svc = svc\<lparr>fs_prev_db := Some (fs_db svc), fs_db := candidate\<rparr>"

definition update_from_bytes :: "fp_env \<Rightarrow> string \<Rightarrow> string \<Rightarrow> fingerprint_service \<Rightarrow> (fp_error, u64) result \<times> fingerprint_service" where
  "update_from_bytes env raw sig svc =
     (case prepare_update env raw sig svc of
        Inl e \<Rightarrow> (Inl e, svc)
      | Inr candidate \<Rightarrow> (Inr (db_version candidate), commit_update candidate svc))"

text \<open>The fallback looks for a text in the message of the error; messages of other errors can carry it, too.\<close>

definition mentions_mismatch :: "fp_error \<Rightarrow> bool" where
  "mentions_mismatch e =
     (let t = ''DELTA_BASE_MISMATCH'' in
      case e of FpDeltaBaseMismatch \<Rightarrow> True
      | FpParse s \<Rightarrow> str_contains s t | FpVersionParse s \<Rightarrow> str_contains s t | FpSerialize s \<Rightarrow> str_contains s t
      | FpHashMismatch a b \<Rightarrow> str_contains a t \<or> str_contains b t
      | FpFetch s \<Rightarrow> str_contains s t
      | _ \<Rightarrow> False)"

definition update_with_fallback ::
    "fp_env \<Rightarrow> (string, string \<times> string) result \<Rightarrow> string \<Rightarrow> string \<Rightarrow> fingerprint_service \<Rightarrow> (fp_error, u64) result \<times> fingerprint_service" where
  "update_with_fallback env fetched raw sig svc =
     (case update_from_bytes env raw sig svc of
        (Inr v, svc') \<Rightarrow> (Inr v, svc')
      | (Inl e, svc') \<Rightarrow>
          if mentions_mismatch e
          then (case fetched of Inl m \<Rightarrow> (Inl (FpFetch m), svc') | Inr (full_raw, full_sig) \<Rightarrow> update_from_bytes env full_raw full_sig svc')
          else (Inl e, svc'))"

definition fp_rollback :: "fingerprint_service \<Rightarrow> (fp_error, u64) result \<times> fingerprint_service" where
  "fp_rollback svc =
     (case fs_prev_db svc of
        Some prev \<Rightarrow> (Inr (db_version prev), svc\<lparr>fs_prev_db := None, fs_db := prev\<rparr>)
      | None \<Rightarrow> (Inl FpNoPrevious, svc))"

definition active_version :: "fingerprint_service \<Rightarrow> u64" where
  "active_version svc = db_version (fs_db svc)"

definition snapshot :: "fingerprint_service \<Rightarrow> agent_signature_v2 list" where
  "snapshot svc = map snd (db_by_id (fs_db svc))"

datatype update_strategy = StrategyFull | StrategyDelta

definition choose_update_strategy :: "u64 \<Rightarrow> u64 \<Rightarrow> nat \<Rightarrow> update_strategy" where
  "choose_update_strategy current latest delta_count =
     (if current = 0 then StrategyFull else if latest > current + 10 then StrategyFull else if delta_count > 50 then StrategyFull else StrategyDelta)"

subsection \<open>The store on disk\<close>

text \<open>\<open>load_latest_baseline\<close>: a definition in the bundle directory replaces the one that is built in.\<close>

definition load_latest_baseline :: "(string \<Rightarrow> (string, fingerprint_definition) result) \<Rightarrow> fingerprint_definition \<Rightarrow> string option \<Rightarrow> fingerprint_definition" where
  "load_latest_baseline from_str embedded bundle_file =
     (case bundle_file of
        None \<Rightarrow> embedded
      | Some content \<Rightarrow> (case from_str content of Inr parsed \<Rightarrow> parsed | Inl _ \<Rightarrow> embedded))"

record store_env =
  sv_definition :: "string \<Rightarrow> fingerprint_definition option"
  sv_signed :: "string \<Rightarrow> (fingerprint_definition \<times> string) option"
  sv_payload_bytes :: "fingerprint_definition \<Rightarrow> string option"
  sv_pretty :: "fingerprint_definition \<Rightarrow> string option"
  sv_b64 :: "string \<Rightarrow> string option"
  sv_verify :: "string \<Rightarrow> string \<Rightarrow> string \<Rightarrow> bool"

record definition_store =
  ds_current :: fingerprint_definition
  ds_disk :: "string option"

definition signed_valid :: "store_env \<Rightarrow> string option \<Rightarrow> fingerprint_definition \<times> string \<Rightarrow> bool" where
  "signed_valid env pubkey sd =
     (case pubkey of
        None \<Rightarrow> True
      | Some pk \<Rightarrow>
          (case sv_payload_bytes env (fst sd) of
             None \<Rightarrow> False
           | Some payload \<Rightarrow>
               (case sv_b64 env (snd sd) of
                  None \<Rightarrow> False
                | Some sig \<Rightarrow> length sig = 64 \<and> sv_verify env pk payload sig)))"

definition newer_definition :: "fingerprint_definition \<Rightarrow> fingerprint_definition \<Rightarrow> fingerprint_definition" where
  "newer_definition disk d =
     (if fd_definition_version disk > fd_definition_version d \<and> fd_schema_version disk = fd_schema_version d then disk else d)"

definition store_load :: "store_env \<Rightarrow> string option \<Rightarrow> fingerprint_definition \<Rightarrow> string option \<Rightarrow> definition_store" where
  "store_load env pubkey baseline disk =
     \<lparr>ds_current =
        (case disk of
           None \<Rightarrow> baseline
         | Some raw \<Rightarrow>
             (case sv_signed env raw of
                Some sd \<Rightarrow> if signed_valid env pubkey sd then newer_definition (fst sd) baseline else baseline
              | None \<Rightarrow>
                  (case sv_definition env raw of
                     Some d \<Rightarrow> if pubkey = None then newer_definition d baseline else baseline
                   | None \<Rightarrow> baseline))),
      ds_disk = disk\<rparr>"

definition same_web :: "web_ai_signature \<Rightarrow> web_ai_signature \<Rightarrow> bool" where
  "same_web w x \<longleftrightarrow> stable_id x = stable_id w \<or> wa_domain x = wa_domain w"

definition merge_definition_delta :: "fingerprint_definition \<Rightarrow> fingerprint_definition \<Rightarrow> fingerprint_definition" where
  "merge_definition_delta base delta =
     (let removed = set (fd_removed_ids delta);
          sigs = foldl (\<lambda>xs s. upsert (\<lambda>x. av_id x = av_id s) (\<lambda>_. s) s xs) (fd_signatures base) (fd_signatures delta);
          webs = foldl (\<lambda>xs w. upsert (same_web w) (\<lambda>_. w) w xs) (fd_web_ai_signatures base) (fd_web_ai_signatures delta);
          browsers = foldl upsert_browser_process (fd_browser_processes base) (fd_browser_processes delta)
      in base\<lparr>fd_definition_version := fd_definition_version delta,
           fd_signatures := filter (\<lambda>s. av_id s \<notin> removed) sigs,
           fd_web_ai_signatures := filter (\<lambda>s. wa_id s \<notin> removed \<and> wa_domain s \<notin> removed) webs,
           fd_installed_app_signatures := filter (\<lambda>s. ia_id s \<notin> removed) (fd_installed_app_signatures base),
           fd_browser_processes := filter (\<lambda>b. \<not> (\<exists>ident\<in>removed. names_browser ident b)) browsers,
           fd_ai_process_hints := (if hints_given (fd_ai_process_hints delta) then fd_ai_process_hints delta else fd_ai_process_hints base)\<rparr>)"

datatype store_error = StSchemaMismatch | StStaleVersion | StIo

definition store_apply_update :: "store_env \<Rightarrow> bool \<Rightarrow> fingerprint_definition \<Rightarrow> definition_store \<Rightarrow> (store_error, u64) result \<times> definition_store" where
  "store_apply_update env io_ok incoming st =
     (let cur = ds_current st in
      if fd_schema_version incoming \<noteq> fd_schema_version cur then (Inl StSchemaMismatch, st)
      else if \<not> fd_definition_version incoming > fd_definition_version cur then (Inl StStaleVersion, st)
      else
        let merged = (case fd_kind incoming of DkFull \<Rightarrow> incoming | DkDelta \<Rightarrow> merge_definition_delta cur incoming)
        in case sv_pretty env merged of
             None \<Rightarrow> (Inr (fd_definition_version merged), st\<lparr>ds_current := merged\<rparr>)
           | Some json \<Rightarrow>
               if \<not> io_ok then (Inl StIo, st)
               else (Inr (fd_definition_version merged), st\<lparr>ds_disk := Some json, ds_current := merged\<rparr>))"

subsection \<open>What an update does\<close>

definition last_with :: "('a \<Rightarrow> string) \<Rightarrow> string \<Rightarrow> 'a list \<Rightarrow> 'a option" where
  "last_with key ident xs = find (\<lambda>x. key x = ident) (rev xs)"

lemma map_of_insert_all:
  "map_of (insert_all key m xs) ident = (case last_with key ident xs of Some x \<Rightarrow> Some x | None \<Rightarrow> map_of m ident)"
proof (induction xs arbitrary: m rule: rev_induct)
  case Nil show ?case by (simp add: insert_all_def last_with_def)
next
  case (snoc x xs)
  have "insert_all key m (xs @ [x]) = AList.update (key x) x (insert_all key m xs)" by (simp add: insert_all_def)
  then show ?case using snoc [of m] by (simp add: update_conv last_with_def)
qed

lemma removed_by_id:
  "map_of (db_by_id (foldl remove_ident db ids)) ident = (if ident \<in> set ids then None else map_of (db_by_id db) ident)"
  by (induction ids arbitrary: db) (auto simp: remove_ident_def delete_conv)

lemma db_apply_by_id:
  assumes "db_apply d db = Some db'"
  shows "map_of (db_by_id db') ident =
     (case fd_kind d of
        DkFull \<Rightarrow> last_with av_id ident (fd_signatures d)
      | DkDelta \<Rightarrow> if ident \<in> set (fd_removed_ids d) then None
                   else (case last_with av_id ident (fd_signatures d) of Some s \<Rightarrow> Some s | None \<Rightarrow> map_of (db_by_id db) ident))"
proof (cases "fd_kind d")
  case DkFull
  then show ?thesis using assms by (auto simp: db_apply_def apply_full_def map_of_insert_all split: option.split)
next
  case DkDelta
  then have "db' = (foldl remove_ident (merge_into d db) (fd_removed_ids d))\<lparr>db_version := fd_definition_version d\<rparr>"
    using assms by (simp add: db_apply_def split: if_splits)
  then show ?thesis using DkDelta by (simp add: removed_by_id) (simp add: merge_into_def map_of_insert_all)
qed

lemma db_apply_Some_iff: "(\<exists>db'. db_apply d db = Some db') \<longleftrightarrow> (fd_kind d = DkFull \<or> fd_base_version d = Some (db_version db))"
  by (auto simp: db_apply_def split: definition_kind.split)

lemma db_apply_version: "db_apply d db = Some db' \<Longrightarrow> db_version db' = fd_definition_version d"
  by (auto simp: db_apply_def split: definition_kind.splits if_splits)

lemma verify_definition_ok_iff:
  "verify_definition env keys raw sig d = Inr () \<longleftrightarrow>
     (\<exists>k. verify (fe_crypto env) keys (fe_now_unix env) raw [\<lparr>sig_key_id = None, sig_b64 = sig\<rparr>] = Valid k)
     \<and> fe_engine_below env (fd_min_engine_version d) = Inr False
     \<and> (fd_catalog_hash d = [] \<or> compute_catalog_hash env d = Inr (fd_catalog_hash d))"
  by (auto simp: verify_definition_def check_catalog_hash_def split: verify_outcome.split sum.split if_splits)

definition admitted :: "fp_env \<Rightarrow> fingerprint_service \<Rightarrow> string \<Rightarrow> string \<Rightarrow> fingerprint_definition \<Rightarrow> bool" where
  "admitted env svc raw sig d \<longleftrightarrow>
     fe_from_slice env raw = Inr d \<and> verify_definition env (fs_keys svc) raw sig d = Inr ()
     \<and> (fd_kind d = DkFull \<or> fd_base_version d = Some (db_version (fs_db svc)))"

lemma prepare_update_iff:
  "prepare_update env raw sig svc = Inr cand \<longleftrightarrow> (\<exists>d. admitted env svc raw sig d \<and> db_apply d (fs_db svc) = Some cand)"
proof -
  have "prepare_update env raw sig svc = Inr cand \<longleftrightarrow>
      (\<exists>d. fe_from_slice env raw = Inr d \<and> verify_definition env (fs_keys svc) raw sig d = Inr () \<and> db_apply d (fs_db svc) = Some cand)"
    by (auto simp: prepare_update_def split: sum.split option.split)
  then show ?thesis unfolding admitted_def using db_apply_Some_iff by blast
qed

text \<open>What an update must satisfy: its bytes parse and carry the signature of a trusted key, the engine is new enough, the contents
  hash to the declared hash, and a delta builds on the version in use.\<close>

definition acceptable :: "fp_env \<Rightarrow> fingerprint_service \<Rightarrow> string \<Rightarrow> string \<Rightarrow> fingerprint_definition \<Rightarrow> bool" where
  "acceptable env svc raw sig d \<longleftrightarrow>
     fe_from_slice env raw = Inr d
     \<and> (\<exists>k. verify (fe_crypto env) (fs_keys svc) (fe_now_unix env) raw [\<lparr>sig_key_id = None, sig_b64 = sig\<rparr>] = Valid k)
     \<and> fe_engine_below env (fd_min_engine_version d) = Inr False
     \<and> compute_catalog_hash env d = Inr (fd_catalog_hash d)
     \<and> (fd_kind d = DkFull \<or> fd_base_version d = Some (db_version (fs_db svc)))"

lemma admitted_acceptable:
  assumes "\<And>d. fe_from_slice env raw = Inr d \<Longrightarrow> fd_catalog_hash d \<noteq> []"
  shows "admitted env svc raw sig d \<longleftrightarrow> acceptable env svc raw sig d"
  using assms unfolding admitted_def acceptable_def verify_definition_ok_iff by blast

lemma rollback_undoes_commit: "fp_rollback (commit_update c svc) = (Inr (db_version (fs_db svc)), svc\<lparr>fs_prev_db := None\<rparr>)"
  by (simp add: fp_rollback_def commit_update_def)

text \<open>The signature an update leaves under an identifier: the last one the definition gives for it; without one, a delta keeps the old
  signature unless it removes the identifier, which it also does to one it has just given.\<close>

definition updated_signature :: "fingerprint_definition \<Rightarrow> fingerprint_db \<Rightarrow> string \<Rightarrow> agent_signature_v2 option" where
  "updated_signature d db ident =
     (case fd_kind d of
        DkFull \<Rightarrow> last_with av_id ident (fd_signatures d)
      | DkDelta \<Rightarrow> if ident \<in> set (fd_removed_ids d) then None
                   else (case last_with av_id ident (fd_signatures d) of Some s \<Rightarrow> Some s | None \<Rightarrow> map_of (db_by_id db) ident))"

text \<open>C36. An update of the fingerprint catalogue that declares a hash of its contents is taken over exactly when it parses, one of the trusted
  keys has signed its bytes, the engine is new enough, its contents hash to that declared hash and, for a delta, it builds on the version
  in use. Then the version and every signature are those the definition gives, and a rollback brings the old data base back;
  otherwise nothing changes.\<close>

theorem fingerprint_update_exact:
  assumes hashed: "\<And>d. fe_from_slice env raw = Inr d \<Longrightarrow> fd_catalog_hash d \<noteq> []"
  shows "case update_from_bytes env raw sig svc of
     (Inl e, svc') \<Rightarrow> svc' = svc \<and> \<not> (\<exists>d. acceptable env svc raw sig d)
   | (Inr v, svc') \<Rightarrow> (\<exists>d. acceptable env svc raw sig d \<and> v = fd_definition_version d \<and> active_version svc' = v
        \<and> (\<forall>ident. map_of (db_by_id (fs_db svc')) ident = updated_signature d (fs_db svc) ident)
        \<and> fp_rollback svc' = (Inr (active_version svc), svc\<lparr>fs_prev_db := None\<rparr>))"
proof (cases "prepare_update env raw sig svc")
  note same = admitted_acceptable [of env raw svc sig, OF hashed]
  case (Inl e)
  then have "\<not> (\<exists>d. acceptable env svc raw sig d)"
    using prepare_update_iff [of env raw sig svc] db_apply_Some_iff same by (metis acceptable_def Inl_Inr_False)
  then show ?thesis using Inl by (simp add: update_from_bytes_def)
next
  case (Inr cand)
  then obtain d where d: "acceptable env svc raw sig d" "db_apply d (fs_db svc) = Some cand"
    using admitted_acceptable [of env raw svc sig, OF hashed] unfolding prepare_update_iff by blast
  have "map_of (db_by_id cand) ident = updated_signature d (fs_db svc) ident" for ident
    unfolding updated_signature_def by (rule db_apply_by_id [OF d(2)])
  moreover have "fs_db (commit_update cand svc) = cand" by (simp add: commit_update_def)
  ultimately show ?thesis using d(1) db_apply_version [OF d(2)] Inr rollback_undoes_commit [of cand svc]
    by (auto simp: update_from_bytes_def active_version_def)
qed

definition demo_definition :: "u64 \<Rightarrow> string \<Rightarrow> fingerprint_definition" where
  "demo_definition v h =
     \<lparr>fd_schema_version = ''pollek.def.v4'', fd_definition_version = v, fd_released_at = [], fd_min_engine_version = ''1.0.0'', fd_kind = DkFull,
      fd_base_version = None, fd_signatures = [], fd_removed_ids = [], fd_catalog_hash = h, fd_model_classifier = None,
      fd_web_ai_signatures = [], fd_installed_app_signatures = [], fd_browser_processes = [],
      fd_ai_process_hints = \<lparr>ah_require_match = False, ah_name_tokens = [], ah_cmd_tokens = [], ah_deny_tokens = []\<rparr>,
      fd_cloud_resource_signatures = [], fd_collapse_rules = []\<rparr>"

definition demo_fp_env :: fp_env where
  "demo_fp_env = \<lparr>fe_crypto = demo_crypto, fe_now_unix = 5, fe_from_slice = (\<lambda>raw. Inr (demo_definition 3 raw)), fe_to_vec = (\<lambda>_. Inr ''h''),
     fe_sha256_hex = (\<lambda>s. s), fe_engine_below = (\<lambda>_. Inr False)\<rparr>"

text \<open>A signed full definition of version 3 whose contents have the declared hash is taken over by a service that runs version 7.\<close>

theorem fingerprint_update_exact_witness:
  "acceptable demo_fp_env (service_new (demo_definition 7 ''h'') (from_single_pinned ''A'')) ''h'' ''AA'' (demo_definition 3 ''h'') \<and>
   active_version (snd (update_from_bytes demo_fp_env ''h'' ''AA'' (service_new (demo_definition 7 ''h'') (from_single_pinned ''A'')))) = 3"
proof -
  let ?svc = "service_new (demo_definition 7 ''h'') (from_single_pinned ''A'')"
  have h: "fd_catalog_hash d \<noteq> []" if "fe_from_slice demo_fp_env ''h'' = Inr d" for d
    using that by (auto simp: demo_fp_env_def demo_definition_def)
  have only: "d = demo_definition 3 ''h''" if "acceptable demo_fp_env ?svc ''h'' ''AA'' d" for d
    using that by (auto simp: acceptable_def demo_fp_env_def)
  have run: "fst (update_from_bytes demo_fp_env ''h'' ''AA'' ?svc) = Inr 3" by code_simp
  from fingerprint_update_exact [of demo_fp_env "''h''" ?svc "''AA''", OF h] run only show ?thesis
    by (cases "update_from_bytes demo_fp_env ''h'' ''AA'' ?svc") auto
qed

subsection \<open>Where updates fall short\<close>

text \<open>A full definition replaces a newer one: an old signed catalogue can be played back.\<close>

lemma older_full_accepted:
  assumes "admitted env svc raw sig d" "fd_kind d = DkFull"
  shows "fst (update_from_bytes env raw sig svc) = Inr (fd_definition_version d)"
proof -
  obtain cand where "db_apply d (fs_db svc) = Some cand" using db_apply_Some_iff assms(2) by blast
  moreover from this have "prepare_update env raw sig svc = Inr cand" unfolding prepare_update_iff using assms(1) by blast
  ultimately show ?thesis by (simp add: update_from_bytes_def db_apply_version)
qed

text \<open>Without a declared hash nothing is compared, for a full definition from the network as for a local delta.\<close>

lemma empty_hash_admitted:
  assumes "fe_from_slice env raw = Inr d" "fd_catalog_hash d = []" "fd_kind d = DkFull"
    "verify (fe_crypto env) (fs_keys svc) (fe_now_unix env) raw [\<lparr>sig_key_id = None, sig_b64 = sig\<rparr>] = Valid k"
    "fe_engine_below env (fd_min_engine_version d) = Inr False"
  shows "admitted env svc raw sig d"
  using assms by (simp add: admitted_def verify_definition_ok_iff)

text \<open>Two updates that both read before either writes: the second forgets what the first brought.\<close>

lemma concurrent_update_lost:
  assumes "prepare_update env raw\<^sub>1 sig\<^sub>1 svc = Inr a" "prepare_update env raw\<^sub>2 sig\<^sub>2 svc = Inr b"
  shows "\<exists>d. admitted env svc raw\<^sub>2 sig\<^sub>2 d
    \<and> (\<forall>ident. map_of (db_by_id (fs_db (commit_update b (commit_update a svc)))) ident = updated_signature d (fs_db svc) ident)"
  using assms(2) unfolding prepare_update_iff by (auto simp: commit_update_def updated_signature_def db_apply_by_id)

text \<open>The store on disk: versions only grow, but a delta is merged onto any base, and the parts of a delta other than agent, web and browser entries
  are dropped.\<close>

lemma store_update_monotone:
  assumes "store_apply_update env io_ok incoming st = (Inr v, st')"
  shows "v = fd_definition_version incoming \<and> fd_definition_version (ds_current st') = v \<and> v > fd_definition_version (ds_current st)
    \<and> fd_schema_version (ds_current st') = fd_schema_version (ds_current st)"
  using assms by (auto simp: store_apply_update_def merge_definition_delta_def Let_def split: if_splits option.splits definition_kind.splits)

lemma store_update_failure: "store_apply_update env io_ok incoming st = (Inl e, st') \<Longrightarrow> st' = st"
  by (auto simp: store_apply_update_def Let_def split: if_splits option.splits)

lemma store_delta_ignores_base: "merge_definition_delta base (delta\<lparr>fd_base_version := v\<rparr>) = merge_definition_delta base delta"
  by (simp add: merge_definition_delta_def Let_def)

lemma store_delta_drops:
  "fd_cloud_resource_signatures (merge_definition_delta base delta) = fd_cloud_resource_signatures base"
  "fd_collapse_rules (merge_definition_delta base delta) = fd_collapse_rules base"
  "fd_catalog_hash (merge_definition_delta base delta) = fd_catalog_hash base"
  "set (fd_installed_app_signatures (merge_definition_delta base delta)) \<subseteq> set (fd_installed_app_signatures base)"
  by (auto simp: merge_definition_delta_def Let_def)

text \<open>What the store writes carries no signature, so a store that asks for one starts from the baseline again.\<close>

lemma store_update_lost_on_restart:
  assumes "store_apply_update env True incoming st = (Inr v, st')" "ds_disk st' = Some json" "sv_signed env json = None"
  shows "ds_current (store_load env (Some pk) baseline (ds_disk st')) = baseline"
  using assms by (simp add: store_load_def split: option.split)

lemma store_load_not_older: "fd_definition_version (ds_current (store_load env pubkey baseline disk)) \<ge> fd_definition_version baseline"
  by (auto simp: store_load_def newer_definition_def split: option.split)

subsection \<open>An example\<close>

text \<open>A definition with another signature or another hash is refused; one that declares no hash is taken over, although it is full.\<close>

lemma update_example:
  "fst (update_from_bytes demo_fp_env ''h'' ''BB'' (service_new (demo_definition 7 ''h'') (from_single_pinned ''A''))) = Inl FpSignature"
  "fst (update_from_bytes demo_fp_env ''g'' ''AA'' (service_new (demo_definition 7 ''h'') (from_single_pinned ''A''))) = Inl (FpHashMismatch ''g'' ''h'')"
  "fst (update_from_bytes demo_fp_env [] ''AA'' (service_new (demo_definition 7 ''h'') (from_single_pinned ''A''))) = Inr 3"
  by code_simp+

end
