(* ===== verification/Spool_Table.thy ===== *)
theory Spool_Table
  imports Pollek_Prelude "HOL-Library.Product_Lexorder"
begin

text \<open>
  The table \<^verbatim>\<open>events\<close> that \<^verbatim>\<open>src/crates/dek-telemetry/src/spooler.rs\<close> and
  \<^verbatim>\<open>src/crates/dek-secure-spool/src/sqlite_spool.rs\<close> keep in SQLite, with the statements they run on it. The
  table is the list of its rows in the order of insertion; \<^verbatim>\<open>AUTOINCREMENT\<close> never reuses an identifier.
\<close>

datatype spool_priority = PLow | PNormal | PHigh | PCritical

fun priority_value :: "spool_priority \<Rightarrow> int" where
  "priority_value PLow = 0"
| "priority_value PNormal = 1"
| "priority_value PHigh = 2"
| "priority_value PCritical = 3"

definition priority_from_i32 :: "int \<Rightarrow> spool_priority" where
  "priority_from_i32 v = (if v = 3 then PCritical else if v = 2 then PHigh else if v = 1 then PNormal else PLow)"

record spool_row =
  tr_id :: int
  tr_priority :: int
  tr_payload :: string
  tr_nonce :: string

record spool_table =
  tb_rows :: "spool_row list"
  tb_next :: int
  tb_max_rows :: nat

definition default_max_rows :: int where
  "default_max_rows = 10000"

definition table_new :: "int \<Rightarrow> spool_table" where
  "table_new max_rows = \<lparr>tb_rows = [], tb_next = 1, tb_max_rows = nat (max max_rows 1)\<rparr>"

text \<open>\<^verbatim>\<open>ORDER BY priority DESC, id DESC\<close>, \<^verbatim>\<open>ORDER BY priority DESC, id ASC\<close> and \<^verbatim>\<open>ORDER BY id DESC\<close>.\<close>

definition newest_first :: "spool_row list \<Rightarrow> spool_row list" where
  "newest_first = sort_key (\<lambda>r. (- tr_priority r, - tr_id r))"

definition oldest_first :: "spool_row list \<Rightarrow> spool_row list" where
  "oldest_first = sort_key (\<lambda>r. (- tr_priority r, tr_id r))"

definition by_recency :: "spool_row list \<Rightarrow> spool_row list" where
  "by_recency = sort_key (\<lambda>r. - tr_id r)"

definition table_insert :: "spool_priority \<Rightarrow> string \<Rightarrow> string \<Rightarrow> spool_table \<Rightarrow> spool_table" where
  "table_insert prio payload nonce t =
     t\<lparr>tb_rows := tb_rows t @ [\<lparr>tr_id = tb_next t, tr_priority = priority_value prio, tr_payload = payload, tr_nonce = nonce\<rparr>],
       tb_next := tb_next t + 1\<rparr>"

definition table_evict :: "spool_table \<Rightarrow> spool_table" where
  "table_evict t =
     (let kept = map tr_id (take (tb_max_rows t) (newest_first (tb_rows t)))
      in t\<lparr>tb_rows := filter (\<lambda>r. tr_id r \<in> set kept) (tb_rows t)\<rparr>)"

definition table_push :: "spool_priority \<Rightarrow> string \<Rightarrow> string \<Rightarrow> spool_table \<Rightarrow> spool_table" where
  "table_push prio payload nonce t = table_evict (table_insert prio payload nonce t)"

definition table_top :: "nat \<Rightarrow> spool_table \<Rightarrow> spool_row list" where
  "table_top limit t = take limit (oldest_first (tb_rows t))"

definition table_recent :: "nat \<Rightarrow> spool_table \<Rightarrow> spool_row list" where
  "table_recent limit t = take limit (by_recency (tb_rows t))"

definition table_delete :: "int list \<Rightarrow> spool_table \<Rightarrow> spool_table" where
  "table_delete ids t = t\<lparr>tb_rows := filter (\<lambda>r. tr_id r \<notin> set ids) (tb_rows t)\<rparr>"

subsection \<open>Invariant\<close>

definition table_inv :: "spool_table \<Rightarrow> bool" where
  "table_inv t \<longleftrightarrow>
     sorted_wrt (\<lambda>r s. tr_id r < tr_id s) (tb_rows t) \<and> (\<forall>r\<in>set (tb_rows t). tr_id r < tb_next t) \<and>
     length (tb_rows t) \<le> tb_max_rows t \<and> 0 < tb_max_rows t"

lemma ids_distinct: "sorted_wrt (\<lambda>r s. tr_id r < tr_id s) rs \<Longrightarrow> distinct (map tr_id rs)"
  by (induction rs) auto

lemma ids_injective: "distinct (map tr_id rs) \<Longrightarrow> r \<in> set rs \<Longrightarrow> s \<in> set rs \<Longrightarrow> tr_id r = tr_id s \<Longrightarrow> r = s"
  by (metis distinct_map inj_onD)

text \<open>A query that keeps the first rows of an order keeps exactly those rows.\<close>

lemma filter_kept:
  assumes "distinct (map tr_id rs)" and "set ks \<subseteq> set rs"
  shows "set (filter (\<lambda>r. tr_id r \<in> tr_id ` set ks) rs) = set ks"
  using assms ids_injective [OF assms(1)] by auto

lemma filter_kept_length:
  assumes "distinct (map tr_id rs)" and "set ks \<subseteq> set rs" and "distinct (map tr_id ks)"
  shows "length (filter (\<lambda>r. tr_id r \<in> tr_id ` set ks) rs) = length ks"
proof -
  have "distinct (filter (\<lambda>r. tr_id r \<in> tr_id ` set ks) rs)" "distinct ks"
    using assms(1,3) by (auto simp: distinct_map)
  then show ?thesis
    using filter_kept [OF assms(1,2)] distinct_card by metis
qed

lemma newest_first_set [simp]: "set (newest_first rs) = set rs" "length (newest_first rs) = length rs"
  by (simp_all add: newest_first_def)

lemma newest_first_distinct: "distinct (map tr_id rs) \<Longrightarrow> distinct (map tr_id (newest_first rs))"
  by (simp add: newest_first_def distinct_map)

lemma evict_rows:
  assumes "distinct (map tr_id (tb_rows t))"
  shows "set (tb_rows (table_evict t)) = set (take (tb_max_rows t) (newest_first (tb_rows t)))"
    and "length (tb_rows (table_evict t)) = min (tb_max_rows t) (length (tb_rows t))"
proof -
  let ?ks = "take (tb_max_rows t) (newest_first (tb_rows t))"
  have sub: "set ?ks \<subseteq> set (tb_rows t)" using set_take_subset by fastforce
  have "distinct (map tr_id ?ks)"
    using newest_first_distinct [OF assms] by (simp add: take_map [symmetric])
  from filter_kept [OF assms sub] filter_kept_length [OF assms sub this]
  show "set (tb_rows (table_evict t)) = set ?ks" "length (tb_rows (table_evict t)) = min (tb_max_rows t) (length (tb_rows t))"
    by (simp_all add: table_evict_def Let_def)
qed

lemma table_insert_sorted:
  assumes "table_inv t"
  shows "sorted_wrt (\<lambda>r s. tr_id r < tr_id s) (tb_rows (table_insert p c n t))"
    and "\<forall>r\<in>set (tb_rows (table_insert p c n t)). tr_id r < tb_next (table_insert p c n t)"
  using assms by (auto simp: table_inv_def table_insert_def sorted_wrt_append)

lemma table_frame [frame_simps]:
  "tb_next (table_evict t) = tb_next t" "tb_max_rows (table_evict t) = tb_max_rows t"
  "tb_max_rows (table_insert p c n t) = tb_max_rows t" "tb_next (table_insert p c n t) = tb_next t + 1"
  "tb_next (table_delete ids t) = tb_next t" "tb_max_rows (table_delete ids t) = tb_max_rows t"
  by (simp_all add: table_evict_def table_insert_def table_delete_def Let_def)

lemma table_inv_push [inv_intros]:
  assumes "table_inv t" shows "table_inv (table_push p c n t)"
proof -
  let ?t = "table_insert p c n t"
  note s = table_insert_sorted [OF assms, of p c n]
  have "sorted_wrt (\<lambda>r s. tr_id r < tr_id s) (tb_rows (table_evict ?t))"
    using s(1) by (simp add: table_evict_def Let_def sorted_wrt_filter)
  moreover have "set (tb_rows (table_evict ?t)) \<subseteq> set (tb_rows ?t)" by (auto simp: table_evict_def Let_def)
  moreover have "length (tb_rows (table_evict ?t)) \<le> tb_max_rows t"
    using evict_rows(2) [OF ids_distinct [OF s(1)]] by (simp add: frame_simps)
  ultimately show ?thesis
    using s(2) assms by (auto simp: table_inv_def table_push_def frame_simps)
qed

lemma table_inv_delete [inv_intros]: "table_inv t \<Longrightarrow> table_inv (table_delete ids t)"
  by (auto simp: table_inv_def table_delete_def sorted_wrt_filter intro: order_trans [OF length_filter_le])

lemma table_inv_new [inv_intros]: "table_inv (table_new n)"
  by (simp add: table_inv_def table_new_def)

text \<open>Whatever is kept comes before whatever is evicted in the order of the query.\<close>

lemma take_sorted_key:
  assumes "x \<in> set (take n (sort_key f xs))" and "y \<in> set (drop n (sort_key f xs))"
  shows "f x \<le> f y"
proof -
  have "sorted (map f (take n (sort_key f xs)) @ map f (drop n (sort_key f xs)))"
    by (metis append_take_drop_id map_append sorted_sort_key)
  with assms show ?thesis by (auto simp: sorted_append)
qed

lemma evicted_is_least:
  assumes "distinct (map tr_id (tb_rows t))" and "r \<in> set (tb_rows t)" and "r \<notin> set (tb_rows (table_evict t))"
    and "k \<in> set (tb_rows (table_evict t))"
  shows "tr_priority r < tr_priority k \<or> (tr_priority r = tr_priority k \<and> tr_id r < tr_id k)"
proof -
  let ?s = "newest_first (tb_rows t)"
  have k: "k \<in> set (take (tb_max_rows t) ?s)" using assms(4) evict_rows(1) [OF assms(1)] by simp
  moreover have "set ?s = set (take (tb_max_rows t) ?s) \<union> set (drop (tb_max_rows t) ?s)"
    by (metis append_take_drop_id set_append)
  then have "r \<in> set (drop (tb_max_rows t) ?s)" using assms(2,3) evict_rows(1) [OF assms(1)] by auto
  ultimately have le: "(- tr_priority k, - tr_id k) \<le> (- tr_priority r, - tr_id r)"
    unfolding newest_first_def by (rule take_sorted_key)
  have "k \<in> set (tb_rows t)" using k set_take_subset by fastforce
  then have "tr_id r \<noteq> tr_id k" using ids_injective [OF assms(1,2)] assms(3,4) by blast
  with le show ?thesis by (auto simp: less_eq_prod_def)
qed

end
