(* ===== verification/Telemetry.thy ===== *)
theory Telemetry
  imports Spool_Table Guard_Spans Guard_Normalize Activation
begin

text \<open>
  \<^verbatim>\<open>src/crates/dek-telemetry\<close>: redaction, the durable spool, routing by event type, and the flusher that posts a
  batch and deletes what the cloud took. Parameters: the regular expressions' replacement, the cipher with its nonces, JSON
  text, and what each attempt to post answers. The background tasks are rounds: one call of \<open>flush_round\<close> is one
  turn of the flusher's loop. The mutexes recover from poisoning, so every call takes effect; metrics and logging are left out.
\<close>

record telemetry_env =
  tm_text :: text_env
  tm_replace_all :: "nat \<Rightarrow> string \<Rightarrow> string"
  tm_encrypt :: "string \<Rightarrow> string \<Rightarrow> string option"
  tm_decrypt :: "string \<Rightarrow> string \<Rightarrow> string option"
  tm_print :: "json \<Rightarrow> string"
  tm_parse :: "string \<Rightarrow> json option"

subsection \<open>Redactor\<close>

text \<open>The three patterns are numbered; each replaces its matches by \<^verbatim>\<open>[REDACTED]\<close>.\<close>

definition tl_redact_string :: "telemetry_env \<Rightarrow> string \<Rightarrow> string" where
  "tl_redact_string env s = tm_replace_all env 2 (tm_replace_all env 1 (tm_replace_all env 0 s))"

definition secret_key :: "telemetry_env \<Rightarrow> string \<Rightarrow> bool" where
  "secret_key env k \<longleftrightarrow>
     (let l = te_to_lowercase (tm_text env) k
      in str_contains l ''token'' \<or> str_contains l ''password'' \<or> str_contains l ''secret'')"

fun is_str :: "json \<Rightarrow> bool" where
  "is_str (JStr s) = True"
| "is_str _ = False"

fun tl_redact_value :: "telemetry_env \<Rightarrow> json \<Rightarrow> json" where
  "tl_redact_value env (JStr s) = JStr (tl_redact_string env s)"
| "tl_redact_value env (JArr xs) = JArr (map (tl_redact_value env) xs)"
| "tl_redact_value env (JObj m) =
     JObj (map (\<lambda>(k, v). (k, if secret_key env k \<and> is_str v then JStr ''[REDACTED_SECRET]'' else tl_redact_value env v)) m)"
| "tl_redact_value env v = v"

subsection \<open>Spool\<close>

type_synonym spooler = spool_table

definition spooler_new :: spooler where
  "spooler_new = table_new default_max_rows"

definition spooler_push :: "telemetry_env \<Rightarrow> string \<Rightarrow> spool_priority \<Rightarrow> json \<Rightarrow> spooler \<Rightarrow> (string, spooler) result" where
  "spooler_push env nonce prio payload sp =
     (case tm_encrypt env nonce (tm_print env payload) of
        None \<Rightarrow> Inl ''Encryption failed''
      | Some ct \<Rightarrow> Inr (table_push prio ct nonce sp))"

definition decode_row :: "telemetry_env \<Rightarrow> spool_row \<Rightarrow> (int \<times> json) option" where
  "decode_row env r =
     Option.bind (tm_decrypt env (tr_nonce r) (tr_payload r)) (\<lambda>pt.
     Option.bind (from_utf8 pt) (\<lambda>s. map_option (\<lambda>v. (tr_id r, v)) (tm_parse env s)))"

definition spooler_pop_batch :: "telemetry_env \<Rightarrow> nat \<Rightarrow> spooler \<Rightarrow> (int \<times> json) list" where
  "spooler_pop_batch env limit sp = List.map_filter (decode_row env) (table_top limit sp)"

definition spooler_peek_recent :: "telemetry_env \<Rightarrow> nat \<Rightarrow> spooler \<Rightarrow> (int \<times> json) list" where
  "spooler_peek_recent env limit sp = List.map_filter (decode_row env) (table_recent limit sp)"

definition spooler_delete_batch :: "int list \<Rightarrow> spooler \<Rightarrow> spooler" where
  "spooler_delete_batch ids sp = (if ids = [] then sp else table_delete ids sp)"

definition spooler_len :: "spooler \<Rightarrow> nat" where
  "spooler_len sp = length (tb_rows sp)"

subsection \<open>Routing\<close>

definition endpoint_for :: "json \<Rightarrow> string" where
  "endpoint_for event =
     (case get_str event ''event_type'' of
        None \<Rightarrow> ''/v1/telemetry/events''
      | Some t \<Rightarrow>
          if t = ''decision'' \<or> t = ''decision_log'' then ''/v1/telemetry/decision-logs''
          else if t = ''security'' \<or> t = ''security_event'' then ''/v1/telemetry/security-events''
          else if t = ''trace'' then ''/v1/telemetry/traces''
          else if t = ''ebpf_guardrail'' \<or> t = ''os_guardrail_event'' then ''/v1/telemetry/ebpf-events''
          else if t = ''metric'' \<or> t = ''runtime_metric'' then ''/v1/metrics''
          else ''/v1/telemetry/events'')"

type_synonym grouped = "(string \<times> int list \<times> json list) list"

definition group_step :: "int \<times> json \<Rightarrow> grouped \<Rightarrow> grouped" where
  "group_step e m =
     (let ep = endpoint_for (snd e); (ids, evs) = (case map_of m ep of Some entry \<Rightarrow> entry | None \<Rightarrow> ([], []))
      in AList.update ep (ids @ [fst e], evs @ [snd e]) m)"

definition group_by_endpoint :: "(int \<times> json) list \<Rightarrow> grouped" where
  "group_by_endpoint events = fold group_step events []"

subsection \<open>Sink\<close>

text \<open>What one attempt to post answers: a status, or no answer.\<close>

datatype post_reply = Replied nat | NoReply

definition is_success :: "nat \<Rightarrow> bool" where
  "is_success s \<longleftrightarrow> 200 \<le> s \<and> s < 300"

definition is_client_error :: "nat \<Rightarrow> bool" where
  "is_client_error s \<longleftrightarrow> 400 \<le> s \<and> s < 500"

datatype send_error = NonRetryable nat | Retryable nat | NetworkError

definition attempt :: "post_reply \<Rightarrow> (send_error, unit) result" where
  "attempt r =
     (case r of
        Replied s \<Rightarrow> if is_success s then Inr () else if is_client_error s then Inl (NonRetryable s) else Inl (Retryable s)
      | NoReply \<Rightarrow> Inl NetworkError)"

text \<open>The retry strategy has three delays: a failed attempt, of whatever kind, is repeated up to three times.\<close>

fun retry_start :: "nat \<Rightarrow> (nat \<Rightarrow> post_reply) \<Rightarrow> (send_error, unit) result" where
  "retry_start 0 reply = attempt (reply 0)"
| "retry_start (Suc n) reply =
     (case attempt (reply 0) of Inr u \<Rightarrow> Inr u | Inl _ \<Rightarrow> retry_start n (\<lambda>i. reply (i + 1)))"

text \<open>A batch leaves the spool when it was delivered, and also when the last attempt was answered with a client error, which drops its events.\<close>

definition leaves_spool :: "(send_error, unit) result \<Rightarrow> bool" where
  "leaves_spool r \<longleftrightarrow> (case r of Inr _ \<Rightarrow> True | Inl (NonRetryable _) \<Rightarrow> True | Inl _ \<Rightarrow> False)"

fun trim_end_suffix :: "nat \<Rightarrow> string \<Rightarrow> string \<Rightarrow> string" where
  "trim_end_suffix 0 p s = s"
| "trim_end_suffix (Suc n) p s = (if p \<noteq> [] \<and> ends_with s p then trim_end_suffix n p (take (length s - length p) s) else s)"

definition trim_end_matches :: "string \<Rightarrow> string \<Rightarrow> string" where
  "trim_end_matches p s = trim_end_suffix (length s) p s"

record telemetry_sink =
  tk_spooler :: spooler
  tk_endpoint_url :: string
  tk_profile :: enterprise_profile

definition set_enterprise_profile :: "enterprise_profile \<Rightarrow> telemetry_sink \<Rightarrow> telemetry_sink" where
  "set_enterprise_profile p k = k\<lparr>tk_profile := p\<rparr>"

fun remove_keys :: "string list \<Rightarrow> json \<Rightarrow> json" where
  "remove_keys ks (JObj m) = JObj (filter (\<lambda>(k, v). k \<notin> set ks) m)"
| "remove_keys ks v = v"

definition outgoing :: "telemetry_env \<Rightarrow> enterprise_profile \<Rightarrow> json \<Rightarrow> json" where
  "outgoing env profile event =
     tl_redact_value env
       (if profile = Regulated \<or> profile = Developer then remove_keys [''raw_payload'', ''http_body'', ''prompt''] event else event)"

definition sink_emit :: "telemetry_env \<Rightarrow> string \<Rightarrow> json \<Rightarrow> spool_priority \<Rightarrow> telemetry_sink \<Rightarrow> telemetry_sink" where
  "sink_emit env nonce event prio k =
     (case spooler_push env nonce prio (outgoing env (tk_profile k) event) (tk_spooler k) of
        Inl _ \<Rightarrow> k
      | Inr sp \<Rightarrow> k\<lparr>tk_spooler := sp\<rparr>)"

definition flush_base :: "telemetry_sink \<Rightarrow> string" where
  "flush_base k = trim_end_matches ''/'' (trim_end_matches ''/v1/telemetry/events'' (tk_endpoint_url k))"

text \<open>\<open>post url payload i\<close> is the answer to attempt \<open>i\<close>.\<close>

definition flush_ids :: "(string \<Rightarrow> json \<Rightarrow> nat \<Rightarrow> post_reply) \<Rightarrow> string \<Rightarrow> grouped \<Rightarrow> int list" where
  "flush_ids post base groups =
     concat (map (\<lambda>(suffix, ids, events).
       if leaves_spool (retry_start 3 (post (base @ suffix) (JObj [(''events'', JArr events)]))) then ids else []) groups)"

definition flush_round :: "telemetry_env \<Rightarrow> (string \<Rightarrow> json \<Rightarrow> nat \<Rightarrow> post_reply) \<Rightarrow> telemetry_sink \<Rightarrow> telemetry_sink" where
  "flush_round env post k =
     (let batch = spooler_pop_batch env 50 (tk_spooler k)
      in if batch = [] then k
         else let all_ok_ids = flush_ids post (flush_base k) (group_by_endpoint batch)
              in if all_ok_ids = [] then k else k\<lparr>tk_spooler := spooler_delete_batch all_ok_ids (tk_spooler k)\<rparr>)"

definition heartbeat_event :: "string \<Rightarrow> telemetry_sink \<Rightarrow> json" where
  "heartbeat_event now k =
     (let q = spooler_len (tk_spooler k)
      in JObj [(''schema_version'', JStr ''1.0''), (''event_type'', JStr ''heartbeat''), (''device_id'', JStr ''dek-device-01''),
           (''status'', JStr (if q > 1000 then ''degraded'' else ''healthy'')), (''telemetry_queue_depth'', JInt (int q)),
           (''timestamp'', JStr now)])"

definition heartbeat_round :: "telemetry_env \<Rightarrow> string \<Rightarrow> string \<Rightarrow> telemetry_sink \<Rightarrow> telemetry_sink" where
  "heartbeat_round env nonce now k = sink_emit env nonce (heartbeat_event now k) PNormal k"

subsection \<open>Grouping\<close>

lemma group_lookup:
  "map_of (fold group_step es m) ep =
     (let here = filter (\<lambda>e. endpoint_for (snd e) = ep) es
      in case map_of m ep of
           Some (ids, evs) \<Rightarrow> Some (ids @ map fst here, evs @ map snd here)
         | None \<Rightarrow> if here = [] then None else Some (map fst here, map snd here))"
proof (induction es arbitrary: m)
  case (Cons e es)
  show ?case
    unfolding fold.simps comp_def Cons.IH [of "group_step e m"]
    by (auto simp: group_step_def Let_def split: option.splits prod.splits)
qed (auto simp: Let_def split: option.splits)

lemma group_keys: "distinct (map fst m) \<Longrightarrow> distinct (map fst (fold group_step es m))"
proof (induction es arbitrary: m)
  case (Cons e es)
  have "distinct (map fst (group_step e m))"
    using Cons.prems by (auto simp: group_step_def Let_def distinct_update split: prod.splits)
  then show ?case using Cons.IH by simp
qed simp

lemma flush_ids_exact:
  "i \<in> set (flush_ids post base (group_by_endpoint batch)) \<longleftrightarrow>
     (\<exists>v. (i, v) \<in> set batch \<and>
        leaves_spool (retry_start 3 (post (base @ endpoint_for v)
          (JObj [(''events'', JArr (map snd (filter (\<lambda>e. endpoint_for (snd e) = endpoint_for v) batch)))]))))"
proof -
  let ?g = "group_by_endpoint batch"
  have d: "distinct (map fst ?g)" unfolding group_by_endpoint_def by (rule group_keys) simp
  have g: "(ep, ids, evs) \<in> set ?g \<longleftrightarrow> map_of ?g ep = Some (ids, evs)" for ep ids evs
    using d by (simp add: map_of_eq_Some_iff)
  have l: "map_of ?g ep = Some (ids, evs) \<longleftrightarrow> filter (\<lambda>e. endpoint_for (snd e) = ep) batch \<noteq> [] \<and>
      ids = map fst (filter (\<lambda>e. endpoint_for (snd e) = ep) batch) \<and> evs = map snd (filter (\<lambda>e. endpoint_for (snd e) = ep) batch)" for ep ids evs
    unfolding group_by_endpoint_def group_lookup by (auto simp: Let_def)
  have "i \<in> set (flush_ids post base ?g) \<longleftrightarrow> (\<exists>ep ids evs. (ep, ids, evs) \<in> set ?g \<and> i \<in> set ids \<and>
      leaves_spool (retry_start 3 (post (base @ ep) (JObj [(''events'', JArr evs)]))))"
    by (auto simp: flush_ids_def split: if_splits)
  also have "\<dots> \<longleftrightarrow> (\<exists>v. (i, v) \<in> set batch \<and> leaves_spool (retry_start 3 (post (base @ endpoint_for v)
      (JObj [(''events'', JArr (map snd (filter (\<lambda>e. endpoint_for (snd e) = endpoint_for v) batch)))]))))"
    unfolding g l by (force simp: filter_empty_conv)
  finally show ?thesis .
qed

lemma map_filter_set: "y \<in> set (List.map_filter f xs) \<longleftrightarrow> (\<exists>x\<in>set xs. f x = Some y)"
  by (induction xs) (auto simp: List.map_filter_def split: option.splits)

lemma decode_row_id: "decode_row env r = Some (i, v) \<Longrightarrow> i = tr_id r"
  by (auto simp: decode_row_def bind_eq_Some_conv)

lemma table_top_subset: "set (table_top n t) \<subseteq> set (tb_rows t)"
  using set_take_subset by (fastforce simp: table_top_def oldest_first_def)

definition demo_telemetry_text :: text_env where
  "demo_telemetry_text = \<lparr>te_to_lowercase = to_ascii_lowercase, te_nfkc = id, te_b64_standard = (\<lambda>_. None), te_b64_url_safe = (\<lambda>_. None),
     te_b64_url_safe_no_pad = (\<lambda>_. None)\<rparr>"

subsection \<open>Properties\<close>

text \<open>The answers to the at most four attempts of a post: one is a success, or none is and the fourth is a client error.\<close>

definition delivered :: "(nat \<Rightarrow> post_reply) \<Rightarrow> bool" where
  "delivered reply \<longleftrightarrow> (\<exists>i\<in>{0, 1, 2, 3}. case reply i of Replied s \<Rightarrow> is_success s | NoReply \<Rightarrow> False)"

definition dropped :: "(nat \<Rightarrow> post_reply) \<Rightarrow> bool" where
  "dropped reply \<longleftrightarrow> \<not> delivered reply \<and> (case reply 3 of Replied s \<Rightarrow> is_client_error s | NoReply \<Rightarrow> False)"

lemma leaves_spool_iff: "leaves_spool (retry_start 3 reply) \<longleftrightarrow> delivered reply \<or> dropped reply"
proof -
  have a: "attempt (reply i) = Inr () \<longleftrightarrow> (case reply i of Replied s \<Rightarrow> is_success s | NoReply \<Rightarrow> False)" for i
    by (simp add: attempt_def split: post_reply.split)
  have c: "leaves_spool (attempt (reply i)) \<longleftrightarrow>
      attempt (reply i) = Inr () \<or> (case reply i of Replied s \<Rightarrow> is_client_error s | NoReply \<Rightarrow> False)" for i
    by (simp add: attempt_def leaves_spool_def split: post_reply.split)
  have l: "leaves_spool (Inr u)" for u by (simp add: leaves_spool_def)
  show ?thesis unfolding delivered_def dropped_def a [symmetric]
    by (cases "attempt (reply 0)"; cases "attempt (reply 1)"; cases "attempt (reply 2)") (auto simp: numeral_3_eq_3 numeral_2_eq_2 c l)
qed

text \<open>
  C29. What a turn of the flusher deletes: exactly the spooled events that are among the first fifty by priority and age, can be decrypted and parsed,
  and whose endpoint either answered one of the four attempts to post their batch with success, or answered none with success and
  the last with a client error, of whatever kind. The events of the second sort are lost. All other rows stay, in
  their order.
\<close>

theorem flush_exact:
  assumes "table_inv (tk_spooler k)"
  shows "tb_rows (tk_spooler (flush_round env post k)) =
    filter (\<lambda>r. \<not> (r \<in> set (table_top 50 (tk_spooler k)) \<and> (\<exists>v reply. decode_row env r = Some (tr_id r, v) \<and>
      reply = post (flush_base k @ endpoint_for v) (JObj [(''events'',
        JArr (map snd (filter (\<lambda>e. endpoint_for (snd e) = endpoint_for v) (spooler_pop_batch env 50 (tk_spooler k)))))]) \<and>
      (delivered reply \<or> dropped reply))))
    (tb_rows (tk_spooler k))"
proof -
  let ?b = "spooler_pop_batch env 50 (tk_spooler k)"
  let ?ids = "flush_ids post (flush_base k) (group_by_endpoint ?b)"
  let ?took = "\<lambda>v. leaves_spool (retry_start 3 (post (flush_base k @ endpoint_for v)
      (JObj [(''events'', JArr (map snd (filter (\<lambda>e. endpoint_for (snd e) = endpoint_for v) ?b)))])))"
  have dist: "distinct (map tr_id (tb_rows (tk_spooler k)))" using assms by (auto simp: table_inv_def intro: ids_distinct)
  have nil: "?b = [] \<Longrightarrow> ?ids = []" by (simp add: group_by_endpoint_def flush_ids_def)
  have rows: "tb_rows (tk_spooler (flush_round env post k)) = filter (\<lambda>r. tr_id r \<notin> set ?ids) (tb_rows (tk_spooler k))"
    using nil by (cases "?b = []"; cases "?ids = []") (simp_all add: flush_round_def Let_def spooler_delete_batch_def table_delete_def)
  have "tr_id r \<in> set ?ids \<longleftrightarrow> r \<in> set (table_top 50 (tk_spooler k)) \<and> (\<exists>v. decode_row env r = Some (tr_id r, v) \<and> ?took v)"
    if r: "r \<in> set (tb_rows (tk_spooler k))" for r
  proof
    assume "tr_id r \<in> set ?ids"
    then obtain v where v: "(tr_id r, v) \<in> set ?b" "?took v" unfolding flush_ids_exact by blast
    then obtain r' where r': "r' \<in> set (table_top 50 (tk_spooler k))" "decode_row env r' = Some (tr_id r, v)"
      unfolding spooler_pop_batch_def map_filter_set by blast
    then have "r' = r" using ids_injective [OF dist _ r] table_top_subset decode_row_id by (metis subsetD)
    with r' v show "r \<in> set (table_top 50 (tk_spooler k)) \<and> (\<exists>v. decode_row env r = Some (tr_id r, v) \<and> ?took v)" by blast
  next
    assume "r \<in> set (table_top 50 (tk_spooler k)) \<and> (\<exists>v. decode_row env r = Some (tr_id r, v) \<and> ?took v)"
    then show "tr_id r \<in> set ?ids"
      unfolding flush_ids_exact spooler_pop_batch_def map_filter_set by blast
  qed
  then show ?thesis unfolding rows leaves_spool_iff by (intro filter_cong) auto
qed

definition demo_telemetry_env :: telemetry_env where
  "demo_telemetry_env =
     \<lparr>tm_text = demo_telemetry_text, tm_replace_all = (\<lambda>_ s. s), tm_encrypt = (\<lambda>n s. Some s), tm_decrypt = (\<lambda>n s. Some s),
      tm_print = (\<lambda>v. case v of JStr s \<Rightarrow> s | _ \<Rightarrow> ''{}''), tm_parse = (\<lambda>s. if s = ''{}'' then Some (JObj []) else Some (JStr s))\<rparr>"

text \<open>
  C31. The spool is bounded and gives up the least important events first: after a push it holds the smaller of its
  limit and one row more, and every row given up has a lower priority than every row kept, or the same priority
  and an older identifier.
\<close>

theorem spool_eviction:
  assumes "table_inv sp" and "spooler_push env nonce prio v sp = Inr sp'"
  shows "\<exists>row. tr_id row = tb_next sp \<and> tr_priority row = priority_value prio \<and>
    length (tb_rows sp') = min (tb_max_rows sp) (length (tb_rows sp) + 1) \<and>
    set (tb_rows sp') \<subseteq> set (tb_rows sp @ [row]) \<and>
    (\<forall>r\<in>set (tb_rows sp @ [row]) - set (tb_rows sp'). \<forall>k\<in>set (tb_rows sp').
       tr_priority r < tr_priority k \<or> (tr_priority r = tr_priority k \<and> tr_id r < tr_id k))"
proof -
  from assms(2) obtain ct where sp': "sp' = table_push prio ct nonce sp" by (auto simp: spooler_push_def split: option.splits)
  let ?row = "\<lparr>tr_id = tb_next sp, tr_priority = priority_value prio, tr_payload = ct, tr_nonce = nonce\<rparr>"
  let ?t = "table_insert prio ct nonce sp"
  have rows: "tb_rows ?t = tb_rows sp @ [?row]" by (simp add: table_insert_def)
  have d: "distinct (map tr_id (tb_rows ?t))" using table_insert_sorted(1) [OF assms(1)] by (rule ids_distinct)
  show ?thesis
    using evict_rows(2) [OF d] evicted_is_least [OF d] rows
    by (intro exI [of _ ?row]) (auto simp: sp' table_push_def frame_simps table_evict_def Let_def)
qed

text \<open>A row of the demonstration spool, and the witnesses of the two properties above.\<close>

definition demo_sink :: telemetry_sink where
  "demo_sink = \<lparr>tk_spooler = table_push PHigh ''a'' ''n'' (table_new 1), tk_endpoint_url = ''https://c/'', tk_profile = Enterprise\<rparr>"

lemma demo_rows: "tb_rows (tk_spooler demo_sink) = [\<lparr>tr_id = 1, tr_priority = 2, tr_payload = ''a'', tr_nonce = ''n''\<rparr>]"
  by (simp add: demo_sink_def table_push_def table_new_def table_insert_def table_evict_def newest_first_def Let_def)

theorem flush_exact_witness:
  "tb_rows (tk_spooler (flush_round demo_telemetry_env (\<lambda>_ _ i. if i = 2 then Replied 200 else NoReply) demo_sink)) = [] \<and>
   tb_rows (tk_spooler (flush_round demo_telemetry_env (\<lambda>_ _ _. Replied 503) demo_sink)) = tb_rows (tk_spooler demo_sink)"
proof -
  have inv: "table_inv (tk_spooler demo_sink)" unfolding demo_sink_def by (simp add: table_inv_push table_inv_new)
  have "decode_row demo_telemetry_env \<lparr>tr_id = 1, tr_priority = 2, tr_payload = ''a'', tr_nonce = ''n''\<rparr> = Some (1, JStr ''a'')"
    by (simp add: decode_row_def demo_telemetry_env_def from_utf8_def)
  then show ?thesis
    unfolding flush_exact [OF inv] demo_rows
    by (simp add: table_top_def demo_rows oldest_first_def delivered_def dropped_def is_success_def is_client_error_def)
qed

theorem spool_eviction_witness:
  "\<exists>sp' row. spooler_push demo_telemetry_env ''m'' PLow (JStr ''b'') (tk_spooler demo_sink) = Inr sp' \<and> tr_id row = 2 \<and>
     length (tb_rows sp') = 1 \<and> set (tb_rows sp') \<subseteq> set (tb_rows (tk_spooler demo_sink) @ [row])"
proof -
  have inv: "table_inv (tk_spooler demo_sink)" unfolding demo_sink_def by (simp add: table_inv_push table_inv_new)
  obtain sp' where p: "spooler_push demo_telemetry_env ''m'' PLow (JStr ''b'') (tk_spooler demo_sink) = Inr sp'"
    by (simp add: spooler_push_def demo_telemetry_env_def)
  have nx: "tb_next (tk_spooler demo_sink) = 2" "tb_max_rows (tk_spooler demo_sink) = 1"
    by (simp_all add: demo_sink_def table_push_def table_new_def frame_simps)
  from spool_eviction [OF inv p] p nx demo_rows show ?thesis by auto
qed

subsection \<open>No secret leaves\<close>

fun masked :: "telemetry_env \<Rightarrow> json \<Rightarrow> bool" where
  "masked env (JArr xs) \<longleftrightarrow> (\<forall>x\<in>set xs. masked env x)"
| "masked env (JObj m) \<longleftrightarrow>
     (\<forall>kv\<in>set m. (secret_key env (fst kv) \<longrightarrow> is_str (snd kv) \<longrightarrow> snd kv = JStr ''[REDACTED_SECRET]'') \<and> masked env (snd kv))"
| "masked env v \<longleftrightarrow> True"

lemma redact_is_str [simp]: "is_str (tl_redact_value env v) = is_str v"
  by (cases v) simp_all

lemma redact_masked: "masked env (tl_redact_value env v)"
  by (induction env v rule: tl_redact_value.induct) (auto split: if_splits)

text \<open>The sink and what can happen to it. Its codec is sound when what it stores can be read back.\<close>

definition codec_ok :: "telemetry_env \<Rightarrow> bool" where
  "codec_ok env \<longleftrightarrow>
     (\<forall>n v ct. tm_encrypt env n (tm_print env v) = Some ct \<longrightarrow> tm_decrypt env n ct = Some (tm_print env v)) \<and>
     (\<forall>v w. tm_parse env (tm_print env v) = Some w \<longrightarrow> w = v)"

inductive tel_step :: "telemetry_env \<Rightarrow> telemetry_sink \<Rightarrow> telemetry_sink \<Rightarrow> bool" for env where
  emitted: "tel_step env k (sink_emit env nonce event prio k)"
| flushed: "tel_step env k (flush_round env post k)"
| beat: "tel_step env k (heartbeat_round env nonce now k)"
| profiled: "tel_step env k (set_enterprise_profile p k)"

definition tel_init :: "telemetry_env \<Rightarrow> telemetry_sink \<Rightarrow> bool" where
  "tel_init env k \<longleftrightarrow> codec_ok env \<and> tk_spooler k = spooler_new"

definition sink_inv :: "telemetry_env \<Rightarrow> telemetry_sink \<Rightarrow> bool" where
  "sink_inv env k \<longleftrightarrow>
     codec_ok env \<and> table_inv (tk_spooler k) \<and> tb_max_rows (tk_spooler k) = 10000 \<and>
     (\<forall>r\<in>set (tb_rows (tk_spooler k)). \<forall>i v. decode_row env r = Some (i, v) \<longrightarrow> masked env v)"

lemma sink_inv_emit [inv_intros]:
  assumes "sink_inv env k" shows "sink_inv env (sink_emit env nonce event prio k)"
proof (cases "tm_encrypt env nonce (tm_print env (outgoing env (tk_profile k) event))")
  case None
  with assms show ?thesis by (simp add: sink_emit_def spooler_push_def)
next
  case (Some ct)
  let ?sp = "tk_spooler k" and ?v = "outgoing env (tk_profile k) event"
  let ?row = "\<lparr>tr_id = tb_next ?sp, tr_priority = priority_value prio, tr_payload = ct, tr_nonce = nonce\<rparr>"
  have k': "tk_spooler (sink_emit env nonce event prio k) = table_push prio ct nonce ?sp"
    using Some by (simp add: sink_emit_def spooler_push_def)
  have sub: "set (tb_rows (table_push prio ct nonce ?sp)) \<subseteq> insert ?row (set (tb_rows ?sp))"
    by (auto simp: table_push_def table_evict_def table_insert_def Let_def)
  have "v = ?v" if "decode_row env ?row = Some (i, v)" for i v
    using that assms Some by (auto simp: sink_inv_def codec_ok_def decode_row_def bind_eq_Some_conv from_utf8_def split: if_splits)
  then have row: "masked env v" if "decode_row env ?row = Some (i, v)" for i v
    using that redact_masked by (metis outgoing_def)
  have "tb_max_rows (table_push prio ct nonce ?sp) = tb_max_rows ?sp" by (simp add: table_push_def frame_simps)
  moreover have "masked env v" if "r \<in> set (tb_rows (table_push prio ct nonce ?sp))" "decode_row env r = Some (i, v)" for r i v
    using that sub row assms unfolding sink_inv_def by blast
  ultimately show ?thesis
    using assms table_inv_push unfolding sink_inv_def k' by metis
qed

lemma sink_inv_flush [inv_intros]:
  assumes "sink_inv env k" shows "sink_inv env (flush_round env post k)"
proof -
  have "tk_spooler (flush_round env post k) = tk_spooler k \<or> (\<exists>ids. tk_spooler (flush_round env post k) = table_delete ids (tk_spooler k))"
    by (auto simp: flush_round_def Let_def spooler_delete_batch_def)
  with assms show ?thesis
    by (auto simp: sink_inv_def table_inv_delete frame_simps) (auto simp: table_delete_def)
qed

lemma tel_step_inv: "tel_step env k k' \<Longrightarrow> sink_inv env k \<Longrightarrow> sink_inv env k'"
  by (induction rule: tel_step.induct)
     (auto simp: heartbeat_round_def set_enterprise_profile_def intro: sink_inv_emit sink_inv_flush, auto simp: sink_inv_def)

interpretation tel_sys: invariant_system "tel_init env" "tel_step env" "sink_inv env" for env
proof unfold_locales
  show "sink_inv env k" if "tel_init env k" for k
    using that table_inv_new [of default_max_rows]
    by (simp add: tel_init_def sink_inv_def spooler_new_def) (simp add: table_new_def default_max_rows_def)
qed (rule tel_step_inv)

text \<open>
  C30. Over any run of the telemetry sink, whatever is emitted and whatever the cloud answers: the spool never holds
  more than ten thousand events, and in every event it hands to the flusher each string under a key that contains
  \<open>token\<close>, \<open>password\<close> or \<open>secret\<close> (in any case, at any depth) is masked.
\<close>

theorem telemetry_masks_secrets:
  assumes "codec_ok env" and "tk_spooler k0 = spooler_new" and "(tel_step env)\<^sup>*\<^sup>* k0 k"
    and "(i, v) \<in> set (spooler_pop_batch env n (tk_spooler k))"
  shows "masked env v \<and> spooler_len (tk_spooler k) \<le> 10000"
proof -
  have inv: "sink_inv env k" using tel_sys.inv_reachable [of env k0 k] assms(1,2,3) by (simp add: tel_init_def)
  obtain r where "r \<in> set (table_top n (tk_spooler k))" "decode_row env r = Some (i, v)"
    using assms(4) unfolding spooler_pop_batch_def map_filter_set by blast
  with inv table_top_subset [of n "tk_spooler k"] show ?thesis by (auto simp: sink_inv_def table_inv_def spooler_len_def)
qed

definition mask_json :: json where
  "mask_json = JObj [(''token'', JStr ''[REDACTED_SECRET]'')]"

definition mask_env :: telemetry_env where
  "mask_env = demo_telemetry_env\<lparr>tm_print := (\<lambda>v. if v = mask_json then ''c'' else []),
     tm_parse := (\<lambda>s. if s = ''c'' then Some mask_json else None)\<rparr>"

definition mask_sink :: telemetry_sink where
  "mask_sink = \<lparr>tk_spooler = spooler_new, tk_endpoint_url = ''https://c/'', tk_profile = Enterprise\<rparr>"

theorem telemetry_masks_secrets_witness:
  "\<exists>i v. (i, v) \<in> set (spooler_pop_batch mask_env 50 (tk_spooler (sink_emit mask_env ''n'' (JObj [(''token'', JStr ''abc'')]) PNormal mask_sink))) \<and>
     masked mask_env v"
proof -
  let ?k = "sink_emit mask_env ''n'' (JObj [(''token'', JStr ''abc'')]) PNormal mask_sink"
  have "to_ascii_lowercase ''token'' = ''token''" by (simp add: to_ascii_lowercase_def)
  then have sk: "secret_key mask_env ''token''"
    by (simp add: secret_key_def mask_env_def demo_telemetry_env_def demo_telemetry_text_def starts_with_def Let_def)
  then have out: "outgoing mask_env Enterprise (JObj [(''token'', JStr ''abc'')]) = mask_json" by (simp add: outgoing_def mask_json_def)
  have "tb_rows (tk_spooler ?k) = [\<lparr>tr_id = 1, tr_priority = 1, tr_payload = ''c'', tr_nonce = ''n''\<rparr>]"
    using out by (simp add: sink_emit_def spooler_push_def mask_sink_def spooler_new_def mask_env_def demo_telemetry_env_def
        table_new_def table_push_def table_insert_def table_evict_def newest_first_def default_max_rows_def Let_def)
  then have pop: "(1, mask_json) \<in> set (spooler_pop_batch mask_env 50 (tk_spooler ?k))"
    by (simp add: spooler_pop_batch_def table_top_def oldest_first_def List.map_filter_def decode_row_def mask_env_def
        demo_telemetry_env_def from_utf8_def)
  have codec: "codec_ok mask_env" by (auto simp: codec_ok_def mask_env_def demo_telemetry_env_def)
  have run: "(tel_step mask_env)\<^sup>*\<^sup>* mask_sink ?k" by (blast intro: tel_step.emitted)
  from telemetry_masks_secrets [OF codec _ run pop] pop show ?thesis by (auto simp: mask_sink_def)
qed

text \<open>
  Events that cannot be read back are skipped but not deleted: when the first fifty rows are such, a turn of the
  flusher changes nothing, whatever is behind them.
\<close>

lemma unreadable_rows_block_flush:
  assumes "\<forall>r\<in>set (table_top 50 (tk_spooler k)). decode_row env r = None"
  shows "flush_round env post k = k"
proof -
  have "spooler_pop_batch env 50 (tk_spooler k) = []"
    using assms map_filter_set [of _ "decode_row env" "table_top 50 (tk_spooler k)"]
    by (metis ex_in_conv option.distinct(1) set_empty spooler_pop_batch_def)
  then show ?thesis by (simp add: flush_round_def)
qed

end
