(* ===== verification/Agent_Identity.thy ===== *)
theory Agent_Identity
  imports Fingerprint_Defs Telemetry "HOL-Library.Multiset"
begin

text \<open>
  Which agent a process is, \<^verbatim>\<open>src/crates/dek-agent-discovery/src\<close>: matching of one process against the signatures (\<^verbatim>\<open>signature_match.rs\<close>), the
  filter of the process scan (\<^verbatim>\<open>fingerprint.rs\<close>), and the resolver that weighs all signals and asks a human when it is not sure
  (\<^verbatim>\<open>identity.rs\<close>). Paths with a separator are those of Unix. Parameters: Unicode lower case and letters, the \<^verbatim>\<open>glob\<close> and \<^verbatim>\<open>regex\<close> crates, the home
  directory and two environment variables, and the printing of a number with two digits. Sums and differences of weights, and the literals they are compared with, are
  rounded as \<^verbatim>\<open>f64\<close> rounds them; the other numbers are only compared with each other.
\<close>

record match_env =
  mn_lower :: "string \<Rightarrow> string"
  mn_alphanumeric :: "string \<Rightarrow> bool"
  mn_glob :: "string \<Rightarrow> string \<Rightarrow> bool"
  mn_regex :: "string \<Rightarrow> string \<Rightarrow> bool"
  mn_home_dir :: "string option"
  mn_home_var :: string
  mn_local_app_data :: "string option"
  mn_app_data :: "string option"
  mn_two_digits :: "f64 \<Rightarrow> string"

subsection \<open>Path patterns\<close>

text \<open>\<open>rec\<close> of \<open>glob_match\<close>: \<^verbatim>\<open>**\<close> has become one star, and a single star the byte 2.\<close>

fun glob_rec :: "string \<Rightarrow> string \<Rightarrow> bool" where
  "glob_rec [] t = (t = [])"
| "glob_rec (c # p) [] = ((c = CHR ''*'' \<or> c = CHR 0x02) \<and> glob_rec p [])"
| "glob_rec (c # p) (x # t) =
     (if c = CHR ''*'' then glob_rec p (x # t) \<or> glob_rec (c # p) t
      else if c = CHR 0x02 then (x \<noteq> CHR ''/'' \<and> glob_rec (c # p) t) \<or> glob_rec p (x # t)
      else x = c \<and> glob_rec p t)"

definition glob_prepare :: "string \<Rightarrow> string" where
  "glob_prepare pat =
     map (\<lambda>c. if c = CHR 0x01 then CHR ''*'' else c)
       (map (\<lambda>c. if c = CHR ''*'' then CHR 0x02 else c) (str_replace_all ''**'' [CHR 0x01] pat))"

definition path_glob :: "string \<Rightarrow> string \<Rightarrow> bool" where
  "path_glob pat txt = glob_rec (glob_prepare pat) txt"

subsection \<open>Matching one process\<close>

record process_facts =
  pf_process_name :: string
  pf_exe_path :: string
  pf_cmdline :: string
  pf_installed_paths :: "string list"

record process_match =
  sx_id :: string
  sx_display_name :: string
  sx_vendor :: "string option"
  sx_agent_type :: string
  sx_confidence :: f64
  sx_matched_by :: string
  sx_capability_tags :: "string list"

definition generic_host_processes :: "string list" where
  "generic_host_processes =
     [''node'', ''node.exe'', ''python'', ''python.exe'', ''python3'', ''python3.exe'', ''bun'', ''bun.exe'', ''deno'', ''deno.exe'', ''java'', ''java.exe'',
      ''dotnet'', ''dotnet.exe'']"

definition is_generic_host_process :: "string \<Rightarrow> bool" where
  "is_generic_host_process name \<longleftrightarrow> to_ascii_lowercase (str_trim name) \<in> set generic_host_processes"

definition blank :: "string \<Rightarrow> bool" where
  "blank s \<longleftrightarrow> str_trim s = []"

definition after_last :: "char \<Rightarrow> string \<Rightarrow> string" where
  "after_last c s = rev (takeWhile (\<lambda>x. x \<noteq> c) (rev s))"

definition strip_ext :: "string \<Rightarrow> string" where
  "strip_ext s = (if CHR ''.'' \<in> set s then rev (tl (dropWhile (\<lambda>x. x \<noteq> CHR ''.'') (rev s))) else s)"

definition sig_basename :: "string \<Rightarrow> string" where
  "sig_basename path = strip_ext (after_last (CHR ''/'') path)"

definition forward_slashes :: "string \<Rightarrow> string" where
  "forward_slashes s = map (\<lambda>c. if c = CHR 0x5C then CHR ''/'' else c) s"

definition first_word :: "string \<Rightarrow> string option" where
  "first_word s = (case split_whitespace char_is_whitespace s of w # _ \<Rightarrow> Some w | [] \<Rightarrow> None)"

definition norm_path :: "match_env \<Rightarrow> string \<Rightarrow> string" where
  "norm_path env s = mn_lower env (forward_slashes s)"

definition name_hit :: "match_env \<Rightarrow> string \<Rightarrow> agent_signature_v2 \<Rightarrow> bool" where
  "name_hit env pname s \<longleftrightarrow>
     \<not> blank pname \<and> \<not> is_generic_host_process pname
     \<and> (\<exists>n\<in>set (av_process_names s). \<not> blank n \<and> \<not> is_generic_host_process n
          \<and> (eq_ignore_ascii_case n pname \<or> strip_ext pname = strip_ext (mn_lower env n)))"

definition exe_hit :: "match_env \<Rightarrow> string \<Rightarrow> agent_signature_v2 \<Rightarrow> bool" where
  "exe_hit env exe s \<longleftrightarrow> exe \<noteq> [] \<and> (\<exists>p\<in>set (av_exe_path_patterns s). \<not> blank p \<and> path_glob (mn_lower env p) exe)"

definition cmd_hit :: "match_env \<Rightarrow> string \<Rightarrow> agent_signature_v2 \<Rightarrow> bool" where
  "cmd_hit env cmd s \<longleftrightarrow> cmd \<noteq> [] \<and> (\<exists>p\<in>set (av_cmd_patterns s). \<not> blank p \<and> path_glob (mn_lower env p) cmd)"

definition cli_hit :: "string \<Rightarrow> string \<Rightarrow> agent_signature_v2 \<Rightarrow> bool" where
  "cli_hit exe cmd s \<longleftrightarrow>
     (\<not> blank exe \<or> \<not> blank cmd) \<and> (\<exists>b\<in>set (av_cli_binaries s). \<not> blank b \<and> (sig_basename exe = b \<or> first_word cmd = Some b))"

definition marker_hit :: "match_env \<Rightarrow> string list \<Rightarrow> agent_signature_v2 \<Rightarrow> bool" where
  "marker_hit env installed s \<longleftrightarrow>
     (\<exists>m\<in>set (av_install_markers s). \<exists>ip\<in>set installed. \<not> blank (im_path m) \<and> path_glob (mn_lower env (im_path m)) (norm_path env ip))"

text \<open>The signals of a signature in the order of the code: the confidence is the largest, the name that of the last.\<close>

definition signature_signals :: "match_env \<Rightarrow> process_facts \<Rightarrow> agent_signature_v2 \<Rightarrow> (f64 \<times> string) list" where
  "signature_signals env facts s =
     (let pname = mn_lower env (pf_process_name facts); exe = norm_path env (pf_exe_path facts); cmd = mn_lower env (pf_cmdline facts)
      in (if name_hit env pname s then [(9 / 10, ''process_name'')] else [])
         @ (if exe_hit env exe s then [(95 / 100, ''exe_path'')] else [])
         @ (if cmd_hit env cmd s then [(85 / 100, ''cmd_pattern'')] else [])
         @ (if cli_hit exe cmd s then [(8 / 10, ''cli_binary'')] else [])
         @ (if marker_hit env (pf_installed_paths facts) s then [(85 / 100, ''install_marker'')] else []))"

definition signal_confidence :: "(f64 \<times> string) list \<Rightarrow> f64" where
  "signal_confidence signals = foldl (\<lambda>conf (c, _). max conf c) 0 signals"

definition signal_name :: "(f64 \<times> string) list \<Rightarrow> string" where
  "signal_name signals = (if signals = [] then [] else snd (last signals))"

definition match_signature :: "match_env \<Rightarrow> process_facts \<Rightarrow> agent_signature_v2 \<Rightarrow> process_match option" where
  "match_signature env facts s =
     (let signals = signature_signals env facts s; conf = signal_confidence signals
      in if conf > 0
         then Some \<lparr>sx_id = av_id s, sx_display_name = av_display_name s, sx_vendor = av_vendor s, sx_agent_type = av_agent_type s,
                    sx_confidence = conf, sx_matched_by = signal_name signals, sx_capability_tags = av_capability_tags s\<rparr>
         else None)"

definition app_path_hit :: "match_env \<Rightarrow> process_facts \<Rightarrow> installed_app_signature \<Rightarrow> bool" where
  "app_path_hit env facts a \<longleftrightarrow>
     (let exe = norm_path env (pf_exe_path facts)
      in \<exists>m\<in>set (ia_markers a). \<exists>path\<in>set (am_paths m).
           (exe \<noteq> [] \<and> path_glob (mn_lower env path) exe)
           \<or> (\<exists>ip\<in>set (pf_installed_paths facts). path_glob (mn_lower env path) (norm_path env ip)))"

definition app_name_hit :: "match_env \<Rightarrow> process_facts \<Rightarrow> installed_app_signature \<Rightarrow> bool" where
  "app_name_hit env facts a \<longleftrightarrow>
     (let pname = mn_lower env (pf_process_name facts)
      in \<exists>n\<in>set (app_process_names a). \<not> blank pname \<and> \<not> blank n \<and> eq_ignore_ascii_case n pname)"

definition match_app :: "match_env \<Rightarrow> process_facts \<Rightarrow> installed_app_signature \<Rightarrow> process_match option" where
  "match_app env facts a =
     (let hit_path = app_path_hit env facts a
      in if hit_path \<or> app_name_hit env facts a
         then Some \<lparr>sx_id = ia_id a, sx_display_name = ia_name a, sx_vendor = Some (ia_vendor a), sx_agent_type = ia_agent_type a,
                    sx_confidence = (if hit_path then 95 / 100 else 9 / 10),
                    sx_matched_by = (if hit_path then ''install_path'' else ''process_name''), sx_capability_tags = ia_capability_tags a\<rparr>
         else None)"

definition better_match :: "process_match option \<Rightarrow> process_match option \<Rightarrow> process_match option" where
  "better_match best cand =
     (case (cand, best) of
        (None, _) \<Rightarrow> best
      | (Some c, None) \<Rightarrow> Some c
      | (Some c, Some b) \<Rightarrow> if sx_confidence c > sx_confidence b then Some c else best)"

definition match_process :: "match_env \<Rightarrow> process_facts \<Rightarrow> agent_signature_v2 list \<Rightarrow> installed_app_signature list \<Rightarrow> process_match option" where
  "match_process env facts sigs apps =
     foldl better_match (foldl better_match None (map (match_signature env facts) sigs)) (map (match_app env facts) apps)"

subsection \<open>The filter of the process scan\<close>

datatype inferred_agent_type = DesktopAgent | IdeAgent | CliAgent | BrowserAgent | WebAIApp | McpClient | McpServer | LocalModelServer | IdeExtension
  | CustomScriptAgent | AutomationAgent | UnknownAiProcess

record resolved_agent =
  ra_confidence :: f64
  ra_display_name :: "string option"
  ra_vendor :: "string option"
  ra_matched_signature_id :: "string option"
  ra_inferred_type :: inferred_agent_type
  ra_capability_tags :: "string list"

definition file_name :: "string \<Rightarrow> string option" where
  "file_name path =
     (let comps = filter (\<lambda>c. c \<noteq> [] \<and> c \<noteq> ''.'') (split_on (CHR ''/'') path)
      in if comps = [] \<or> last comps = ''..'' then None else Some (last comps))"

definition path_basename :: "string \<Rightarrow> string" where
  "path_basename path = (case file_name path of Some n \<Rightarrow> n | None \<Rightarrow> [])"

definition map_type :: "string \<Rightarrow> inferred_agent_type" where
  "map_type t =
     (if t = ''desktop_agent'' then DesktopAgent
      else if t \<in> {''ide'', ''ide_agent''} then IdeAgent
      else if t = ''cli_agent'' then CliAgent
      else if t = ''browser_agent'' then BrowserAgent
      else if t \<in> {''web_ai'', ''web_agent'', ''chat_ui''} then WebAIApp
      else if t \<in> {''local_model'', ''local_model_server''} then LocalModelServer
      else if t = ''automation_agent'' then AutomationAgent
      else if t = ''mcp_server'' then McpServer
      else if t = ''mcp_client'' then McpClient
      else UnknownAiProcess)"

definition legacy_hints :: "string list" where
  "legacy_hints = [''ai'', ''agent'', ''llm'', ''gpt'', ''claude'', ''gemini'', ''copilot'', ''ollama'', ''mcp'', ''langchain'', ''crew'', ''auto'']"

definition looks_ai_ish_legacy :: "string \<Rightarrow> string \<Rightarrow> bool" where
  "looks_ai_ish_legacy name cmd \<longleftrightarrow> (\<exists>h\<in>set legacy_hints. str_contains name h \<or> str_contains cmd h)"

definition token_matches :: "string \<Rightarrow> string \<Rightarrow> bool" where
  "token_matches token txt \<longleftrightarrow> (let t = to_ascii_lowercase (str_trim token) in t \<noteq> [] \<and> str_contains txt t)"

definition looks_ai_ish_with_hints :: "string \<Rightarrow> string \<Rightarrow> ai_process_hints \<Rightarrow> bool" where
  "looks_ai_ish_with_hints name cmd hints =
     (if \<exists>t\<in>set (ah_deny_tokens hints). token_matches t name \<or> token_matches t cmd then False
      else
        let hinted = (\<exists>t\<in>set (ah_name_tokens hints). token_matches t name) \<or> (\<exists>t\<in>set (ah_cmd_tokens hints). token_matches t cmd)
        in if ah_require_match hints then hinted else hinted \<or> looks_ai_ish_legacy name cmd)"

definition is_known_non_ai_support_process :: "string \<Rightarrow> string \<Rightarrow> string \<Rightarrow> bool" where
  "is_known_non_ai_support_process process_name exe_path cmdline =
     (let name = to_ascii_lowercase (str_trim process_name);
          joined = name @ '' '' @ to_ascii_lowercase exe_path @ '' '' @ to_ascii_lowercase cmdline
      in name \<in> {''supportassistagent.exe'', ''dell.supportassistagent.exe'', ''useroobebroker.exe''}
         \<or> str_contains name ''supportassist'' \<and> str_contains joined ''dell'' \<and> str_contains joined ''supportassist''
         \<or> str_contains name ''useroobebroker'' \<and> str_contains joined ''windows'' \<and> str_contains joined ''system32'')"

definition nothing_resolved :: resolved_agent where
  "nothing_resolved = \<lparr>ra_confidence = 0, ra_display_name = None, ra_vendor = None, ra_matched_signature_id = None,
     ra_inferred_type = UnknownAiProcess, ra_capability_tags = []\<rparr>"

definition consider_match :: "f64 \<Rightarrow> agent_signature_v2 \<Rightarrow> resolved_agent \<Rightarrow> resolved_agent" where
  "consider_match conf s best =
     (if conf > ra_confidence best
      then \<lparr>ra_confidence = conf, ra_display_name = Some (av_display_name s), ra_vendor = av_vendor s, ra_matched_signature_id = Some (av_id s),
            ra_inferred_type = map_type (av_agent_type s), ra_capability_tags = av_capability_tags s\<rparr>
      else best)"

definition consider_signature :: "match_env \<Rightarrow> string \<Rightarrow> string \<Rightarrow> string \<Rightarrow> resolved_agent \<Rightarrow> agent_signature_v2 \<Rightarrow> resolved_agent" where
  "consider_signature env pname exe cmd best s =
     (let b1 = (if exe \<noteq> [] \<and> (\<exists>p\<in>set (av_exe_path_patterns s). mn_glob env (mn_lower env p) exe) then consider_match (95 / 100) s best else best);
          b2 = (if \<not> is_generic_host_process pname \<and> (\<exists>n\<in>set (av_process_names s). \<not> is_generic_host_process n
                      \<and> (eq_ignore_ascii_case n pname \<or> strip_ext (mn_lower env n) = strip_ext pname))
                then consider_match (9 / 10) s b1 else b1);
          b3 = (if cmd \<noteq> [] \<and> (\<exists>p\<in>set (av_cmd_patterns s). mn_glob env (mn_lower env p) cmd) then consider_match (85 / 100) s b2 else b2)
      in if \<exists>b\<in>set (av_cli_binaries s). path_basename exe = b \<or> first_word cmd = Some b then consider_match (8 / 10) s b3 else b3)"

definition consider_app :: "match_env \<Rightarrow> string \<Rightarrow> resolved_agent \<Rightarrow> installed_app_signature \<Rightarrow> resolved_agent" where
  "consider_app env exe best a =
     (if exe \<noteq> [] \<and> (\<exists>m\<in>set (ia_markers a). \<exists>p\<in>set (am_paths m). mn_glob env (mn_lower env p) exe) \<and> 95 / 100 > ra_confidence best
      then \<lparr>ra_confidence = 95 / 100, ra_display_name = Some (ia_name a), ra_vendor = Some (ia_vendor a), ra_matched_signature_id = Some (ia_id a),
            ra_inferred_type = map_type (ia_agent_type a), ra_capability_tags = ia_capability_tags a\<rparr>
      else best)"

definition fingerprint_process_v2_with_hints ::
    "match_env \<Rightarrow> process_facts \<Rightarrow> agent_signature_v2 list \<Rightarrow> installed_app_signature list \<Rightarrow> ai_process_hints option \<Rightarrow> resolved_agent" where
  "fingerprint_process_v2_with_hints env facts sigs apps hints =
     (let pname = mn_lower env (pf_process_name facts); exe = norm_path env (pf_exe_path facts); cmd = mn_lower env (pf_cmdline facts)
      in if is_known_non_ai_support_process pname exe cmd then nothing_resolved
         else
           let best = foldl (consider_app env exe) (foldl (consider_signature env pname exe cmd) nothing_resolved sigs) apps;
               looks_ai_ish = (case hints of Some h \<Rightarrow> looks_ai_ish_with_hints pname cmd h | None \<Rightarrow> looks_ai_ish_legacy pname cmd)
           in if ra_confidence best = 0 \<and> looks_ai_ish then best\<lparr>ra_confidence := 45 / 100\<rparr> else best)"

text \<open>The older filter, deprecated in favour of the one above.\<close>

definition fingerprint_process :: "match_env \<Rightarrow> string \<Rightarrow> string list \<Rightarrow> string option \<Rightarrow> agent_signature_v2 list \<Rightarrow> f64" where
  "fingerprint_process env process_name cmd_template exe_path sigs =
     (let name = to_ascii_lowercase process_name; cmd = str_join '' '' cmd_template
      in if \<exists>s\<in>set sigs. \<exists>n\<in>set (av_process_names s). to_ascii_lowercase n = name then 6 / 10
         else if \<exists>s\<in>set sigs. \<exists>p\<in>set (av_cmd_patterns s). mn_regex env p cmd then 8 / 10
         else if (case exe_path of Some e \<Rightarrow> \<exists>s\<in>set sigs. \<exists>p\<in>set (av_exe_path_patterns s). mn_glob env p e | None \<Rightarrow> False) then 8 / 10
         else if \<exists>s\<in>set sigs. \<exists>c\<in>set (av_cli_binaries s). to_ascii_lowercase c = name then 7 / 10
         else if str_contains name ''python'' \<or> str_contains name ''node'' \<or> str_contains name ''n8n'' then 1 / 10
         else 0)"

subsection \<open>The resolver\<close>

record matched_signal =
  ms_kind :: string
  ms_detail :: string
  ms_weight :: f64

record agent_match =
  mt_signature_id :: string
  mt_display_name :: string
  mt_vendor :: "string option"
  mt_product :: "string option"
  mt_agent_type :: string
  mt_confidence :: f64
  mt_matched_signals :: "matched_signal list"
  mt_capability_tags :: "string list"

record resolution_context =
  rc_process_name :: string
  rc_cmd_redacted :: string
  rc_exe_path_norm :: "string option"
  rc_cwd_norm :: "string option"
  rc_binary_hash :: "string option"
  rc_listening_ports :: "16 word list"
  rc_present_paths :: "string list"
  rc_cli_on_path :: "string list"
  rc_packages :: "(string \<times> string) list"
  rc_egress_hosts :: "string list"
  rc_env_present :: "string list"

definition expand_path :: "match_env \<Rightarrow> string \<Rightarrow> string" where
  "expand_path env p =
     (if starts_with p ''~/'' then (case mn_home_dir env of Some home \<Rightarrow> home @ ''/'' @ drop 2 p | None \<Rightarrow> p) else p)"

definition redact_path_for_ui :: "match_env \<Rightarrow> string \<Rightarrow> string" where
  "redact_path_for_ui env path = (if mn_home_var env \<noteq> [] then str_replace_all (mn_home_var env) ''${HOME}'' path else path)"

definition signal :: "string \<Rightarrow> string \<Rightarrow> f64 \<Rightarrow> matched_signal" where
  "signal kind detail w = \<lparr>ms_kind = kind, ms_detail = detail, ms_weight = w\<rparr>"

definition process_name_signals :: "resolution_context \<Rightarrow> agent_signature_v2 \<Rightarrow> signal_weights \<Rightarrow> matched_signal list" where
  "process_name_signals ctx sig w =
     (let name = rc_process_name ctx
      in if \<not> blank name \<and> \<not> is_generic_host_process name
            \<and> (\<exists>n\<in>set (av_process_names sig). \<not> blank n \<and> \<not> is_generic_host_process n \<and> eq_ignore_ascii_case n name)
         then [signal ''process_name'' name (sw_process_name w)] else [])"

definition install_marker_signals :: "match_env \<Rightarrow> resolution_context \<Rightarrow> agent_signature_v2 \<Rightarrow> signal_weights \<Rightarrow> matched_signal list" where
  "install_marker_signals env ctx sig w =
     map (\<lambda>m. signal ''install_marker'' (redact_path_for_ui env (im_path m)) (case im_weight m of Some x \<Rightarrow> x | None \<Rightarrow> sw_install_marker w))
       (filter (\<lambda>m. \<not> blank (im_path m) \<and> expand_path env (im_path m) \<in> set (rc_present_paths ctx)) (av_install_markers sig))"

definition cmd_pattern_signals :: "match_env \<Rightarrow> resolution_context \<Rightarrow> agent_signature_v2 \<Rightarrow> signal_weights \<Rightarrow> matched_signal list" where
  "cmd_pattern_signals env ctx sig w =
     map (\<lambda>p. signal ''cmd_pattern'' p (sw_cmd_pattern w))
       (filter (\<lambda>p. \<not> blank p \<and> \<not> blank (rc_cmd_redacted ctx) \<and> mn_regex env p (rc_cmd_redacted ctx)) (av_cmd_patterns sig))"

definition exe_path_signals :: "match_env \<Rightarrow> resolution_context \<Rightarrow> agent_signature_v2 \<Rightarrow> signal_weights \<Rightarrow> matched_signal list" where
  "exe_path_signals env ctx sig w =
     (case rc_exe_path_norm ctx of
        None \<Rightarrow> []
      | Some exe \<Rightarrow> map (\<lambda>p. signal ''exe_path'' p (sw_exe_path w)) (filter (\<lambda>p. \<not> blank p \<and> mn_glob env p exe) (av_exe_path_patterns sig)))"

definition cli_binary_signals :: "resolution_context \<Rightarrow> agent_signature_v2 \<Rightarrow> signal_weights \<Rightarrow> matched_signal list" where
  "cli_binary_signals ctx sig w =
     map (\<lambda>c. signal ''cli_binary'' c (sw_cli_binary w)) (filter (\<lambda>c. \<not> blank c \<and> c \<in> set (rc_cli_on_path ctx)) (av_cli_binaries sig))"

definition package_signals :: "resolution_context \<Rightarrow> agent_signature_v2 \<Rightarrow> signal_weights \<Rightarrow> matched_signal list" where
  "package_signals ctx sig w =
     map (\<lambda>p. signal ''package'' (pm_name p) (sw_package w))
       (filter (\<lambda>p. \<not> blank (pm_ecosystem p) \<and> \<not> blank (pm_name p) \<and> (pm_ecosystem p, pm_name p) \<in> set (rc_packages ctx)) (av_package_markers sig))"

definition config_path_signals :: "match_env \<Rightarrow> resolution_context \<Rightarrow> agent_signature_v2 \<Rightarrow> signal_weights \<Rightarrow> matched_signal list" where
  "config_path_signals env ctx sig w =
     concat (map (\<lambda>(name, paths). map (\<lambda>_. signal ''config_path'' name (sw_config_path w))
       (filter (\<lambda>pat. \<not> blank pat \<and> (\<exists>p\<in>set (rc_present_paths ctx). mn_glob env pat p)) paths)) (av_config_paths sig))"

definition binary_hash_signals :: "resolution_context \<Rightarrow> agent_signature_v2 \<Rightarrow> signal_weights \<Rightarrow> matched_signal list" where
  "binary_hash_signals ctx sig w =
     (case rc_binary_hash ctx of
        Some h \<Rightarrow> if \<not> blank h \<and> h \<in> set (av_binary_hashes sig) then [signal ''binary_hash'' ''exact'' (sw_binary_hash w)] else []
      | None \<Rightarrow> [])"

definition egress_signals :: "resolution_context \<Rightarrow> agent_signature_v2 \<Rightarrow> signal_weights \<Rightarrow> matched_signal list" where
  "egress_signals ctx sig w =
     map (\<lambda>h. signal ''egress'' h (sw_egress w)) (filter (\<lambda>h. \<not> blank h \<and> h \<in> set (rc_egress_hosts ctx)) (av_egress_hosts sig))"

definition port_signals :: "resolution_context \<Rightarrow> agent_signature_v2 \<Rightarrow> signal_weights \<Rightarrow> matched_signal list" where
  "port_signals ctx sig w =
     map (\<lambda>p. signal ''port'' (show_nat (unat p)) (sw_port w)) (filter (\<lambda>p. p \<noteq> 0 \<and> p \<in> set (rc_listening_ports ctx)) (av_ports sig))"

definition all_signals :: "match_env \<Rightarrow> resolution_context \<Rightarrow> agent_signature_v2 \<Rightarrow> matched_signal list" where
  "all_signals env ctx sig =
     (let w = (case av_signal_weights sig of Some w \<Rightarrow> w | None \<Rightarrow> default_signal_weights)
      in process_name_signals ctx sig w @ install_marker_signals env ctx sig w @ cmd_pattern_signals env ctx sig w @ exe_path_signals env ctx sig w
         @ cli_binary_signals ctx sig w @ package_signals ctx sig w @ config_path_signals env ctx sig w @ binary_hash_signals ctx sig w
         @ egress_signals ctx sig w @ port_signals ctx sig w)"

definition score_signature :: "match_env \<Rightarrow> resolution_context \<Rightarrow> agent_signature_v2 \<Rightarrow> agent_match option" where
  "score_signature env ctx sig =
     (let signals = all_signals env ctx sig
      in if signals = [] then None
         else Some \<lparr>mt_signature_id = av_id sig, mt_display_name = av_display_name sig, mt_vendor = av_vendor sig, mt_product = av_product sig,
                    mt_agent_type = av_agent_type sig, mt_confidence = min (foldl f64_add 0 (map ms_weight signals)) 1, mt_matched_signals = signals,
                    mt_capability_tags = av_capability_tags sig\<rparr>)"

record resolver_decision =
  rd_best :: "agent_match option"
  rd_runner_up :: "agent_match option"
  rd_needs_human :: bool
  rd_reason :: string

definition confirm_threshold :: f64 where "confirm_threshold = f64_round (75 / 100)"
definition ambiguity_gap :: f64 where "ambiguity_gap = f64_round (15 / 100)"

definition describe_match :: "match_env \<Rightarrow> agent_match option \<Rightarrow> agent_match option \<Rightarrow> bool \<Rightarrow> string" where
  "describe_match env best runner_up needs_human =
     (let named = (\<lambda>m. mt_display_name m @ '' ('' @ mn_two_digits env (mt_confidence m) @ '')'') in
      case best of
        Some b \<Rightarrow>
          if needs_human then
            (case runner_up of
               Some r \<Rightarrow> ''Ambiguous match between '' @ named b @ '' and '' @ named r
             | None \<Rightarrow> ''Low confidence match for '' @ named b)
          else ''Strong match for '' @ named b
      | None \<Rightarrow> ''No matching signature found'')"

definition ask_human :: "agent_match option \<Rightarrow> agent_match option \<Rightarrow> bool" where
  "ask_human best runner_up =
     (case best of
        None \<Rightarrow> True
      | Some b \<Rightarrow> mt_confidence b < confirm_threshold
          \<or> (case runner_up of Some r \<Rightarrow> f64_sub (mt_confidence b) (mt_confidence r) < ambiguity_gap | None \<Rightarrow> False))"

definition sorted_matches :: "match_env \<Rightarrow> resolution_context \<Rightarrow> agent_signature_v2 list \<Rightarrow> agent_match list" where
  "sorted_matches env ctx sigs = sort_key (\<lambda>m. - mt_confidence m) (List.map_filter (score_signature env ctx) sigs)"

definition resolve_identity :: "match_env \<Rightarrow> resolution_context \<Rightarrow> agent_signature_v2 list \<Rightarrow> resolver_decision" where
  "resolve_identity env ctx sigs =
     (let matches = sorted_matches env ctx sigs;
          best = (case matches of m # _ \<Rightarrow> Some m | [] \<Rightarrow> None);
          runner_up = (case matches of _ # m # _ \<Rightarrow> Some m | _ \<Rightarrow> None);
          needs_human = ask_human best runner_up
      in \<lparr>rd_best = best, rd_runner_up = runner_up, rd_needs_human = needs_human, rd_reason = describe_match env best runner_up needs_human\<rparr>)"

text \<open>Installed applications by the path of a program.\<close>

definition app_match :: "installed_app_signature \<Rightarrow> f64 \<Rightarrow> matched_signal \<Rightarrow> agent_match" where
  "app_match a conf sg =
     \<lparr>mt_signature_id = ia_id a, mt_display_name = ia_name a, mt_vendor = Some (ia_vendor a), mt_product = Some (ia_product a),
      mt_agent_type = ia_agent_type a, mt_confidence = conf, mt_matched_signals = [sg], mt_capability_tags = ia_capability_tags a\<rparr>"

definition path_needle :: "match_env \<Rightarrow> string \<Rightarrow> string" where
  "path_needle env path =
     mn_lower env (forward_slashes (str_replace_all ''//'' ''/'' (str_replace_all ''*'' [] (str_replace_all ''**'' [] path))))"

definition app_by_install_path :: "match_env \<Rightarrow> string \<Rightarrow> installed_app_signature \<Rightarrow> agent_match option" where
  "app_by_install_path env exe_path a =
     (let p = norm_path env exe_path in
      case find (\<lambda>path. path_needle env path \<noteq> [] \<and> str_contains p (path_needle env path)) (concat (map am_paths (ia_markers a))) of
        Some path \<Rightarrow> Some (app_match a (95 / 100) (signal ''install_path'' path (95 / 100)))
      | None \<Rightarrow>
          (case file_name exe_path of
             Some pn \<Rightarrow>
               if \<exists>m\<in>set (ia_markers a). \<exists>n\<in>set (am_process_names m). eq_ignore_ascii_case n pn
               then Some (app_match a (9 / 10) (signal ''process_name'' pn (9 / 10))) else None
           | None \<Rightarrow> None))"

fun first_match :: "('a \<Rightarrow> 'b option) \<Rightarrow> 'a list \<Rightarrow> 'b option" where
  "first_match f [] = None"
| "first_match f (x # xs) = (case f x of Some y \<Rightarrow> Some y | None \<Rightarrow> first_match f xs)"

definition resolve_by_install_path :: "match_env \<Rightarrow> string \<Rightarrow> fingerprint_definition \<Rightarrow> agent_match option" where
  "resolve_by_install_path env exe_path defs = first_match (app_by_install_path env exe_path) (fd_installed_app_signatures defs)"

definition expand_vars :: "match_env \<Rightarrow> string \<Rightarrow> string" where
  "expand_vars env mp =
     (let e0 = expand_path env mp;
          e1 = (case mn_local_app_data env of Some v \<Rightarrow> str_replace_all ''%LOCALAPPDATA%'' v e0 | None \<Rightarrow> e0)
      in case mn_app_data env of Some v \<Rightarrow> str_replace_all ''%APPDATA%'' v e1 | None \<Rightarrow> e1)"

definition installed_app_hit :: "match_env \<Rightarrow> string \<Rightarrow> installed_app_signature \<Rightarrow> agent_match option" where
  "installed_app_hit env path a =
     map_option (\<lambda>mp. app_match a 1 (signal ''installed_app'' (''matched path: '' @ mp) 1))
       (find (\<lambda>mp. starts_with (norm_path env path) (norm_path env (expand_vars env mp))) (concat (map am_paths (ia_markers a))))"

definition resolve_installed_app :: "match_env \<Rightarrow> string \<Rightarrow> installed_app_signature list \<Rightarrow> agent_match option" where
  "resolve_installed_app env path sigs = first_match (installed_app_hit env path) sigs"

text \<open>The guess for a family of agents that no signature names.\<close>

definition has_claw :: "string \<Rightarrow> bool" where
  "has_claw s \<longleftrightarrow> str_contains s ''claw'' \<or> str_contains s ''paw''"

definition clean_token :: "match_env \<Rightarrow> string \<Rightarrow> string" where
  "clean_token env t =
     concat (filter (\<lambda>c. mn_alphanumeric env c \<or> c = ''-'' \<or> c = ''_'') (utf8_chars (trim_end_matches ''.exe'' (trim_end_matches ''.js'' t))))"

definition path_segments :: "string \<Rightarrow> string list" where
  "path_segments hay = map concat (split_by (\<lambda>c. char_is_whitespace c \<or> c = ''/'' \<or> c = [CHR 0x5C]) (utf8_chars hay))"

definition extract_claw_variant :: "match_env \<Rightarrow> string \<Rightarrow> string option" where
  "extract_claw_variant env hay =
     (let segs = path_segments hay in
      case find (\<lambda>(a, b). a = ''node_modules'' \<and> has_claw b) (zip segs (tl segs)) of
        Some (a, b) \<Rightarrow> Some (clean_token env b)
      | None \<Rightarrow> find (\<lambda>t. has_claw t \<and> length t \<le> 20 \<and> t \<noteq> []) (map (clean_token env) segs))"

definition pretty_claw :: "string \<Rightarrow> string" where
  "pretty_claw g =
     (if g = ''openclaw'' then ''OpenClaw'' else if g = ''antigravity'' then ''Antigravity'' else if g = ''hiclaw'' then ''HiClaw''
      else if g = ''qwenpaw'' then ''QwenPaw'' else if g = ''clawhub'' then ''ClawHub'' else g)"

definition claw_family_heuristic :: "match_env \<Rightarrow> resolution_context \<Rightarrow> agent_match option" where
  "claw_family_heuristic env ctx =
     (let hay = to_ascii_lowercase (rc_cmd_redacted ctx @ '' '' @ (case rc_exe_path_norm ctx of Some e \<Rightarrow> e | None \<Rightarrow> []) @ '' '' @
            str_join '' '' (rc_present_paths ctx));
          hit = (has_claw hay \<or> (\<exists>c\<in>set (rc_cli_on_path ctx). has_claw (to_ascii_lowercase c)))
      in if \<not> hit then None
         else
           let guess = (case extract_claw_variant env hay of Some g \<Rightarrow> g | None \<Rightarrow> ''unknown-claw'')
           in Some \<lparr>mt_signature_id = ''claw_family_generic:'' @ guess, mt_display_name = pretty_claw guess @ '' (Claw-family, unconfirmed)'',
                    mt_vendor = Some ''claw-family'', mt_product = Some guess, mt_agent_type = ''automation_agent'', mt_confidence = 55 / 100,
                    mt_matched_signals = [signal ''claw_family_heuristic'' ''matched *claw*/*paw* pattern'' (55 / 100)],
                    mt_capability_tags = [''net.egress.llm'', ''channel.messaging'', ''fs.write'']\<rparr>)"

subsection \<open>What patterns match\<close>

lemma split_Cons: "(\<exists>u v. x # t = u @ v \<and> Q u v) \<longleftrightarrow> Q [] (x # t) \<or> (\<exists>u v. t = u @ v \<and> Q (x # u) v)" (is "?l \<longleftrightarrow> ?r")
proof
  assume ?l
  then obtain u v where "x # t = u @ v" "Q u v" by blast
  then show ?r by (cases u) auto
next
  assume ?r
  then show ?l by (metis append_Cons append_Nil)
qed

lemma glob_rec_star: "glob_rec (CHR ''*'' # p) t \<longleftrightarrow> (\<exists>u v. t = u @ v \<and> glob_rec p v)"
proof (induction t)
  case (Cons x t)
  have "glob_rec (CHR ''*'' # p) (x # t) \<longleftrightarrow> glob_rec p (x # t) \<or> (\<exists>u v. t = u @ v \<and> glob_rec p v)" using Cons by simp
  also have "\<dots> \<longleftrightarrow> (\<exists>u v. x # t = u @ v \<and> glob_rec p v)" unfolding split_Cons by auto
  finally show ?case .
qed simp

lemma glob_rec_segment: "glob_rec (CHR 0x02 # p) t \<longleftrightarrow> (\<exists>u v. t = u @ v \<and> CHR ''/'' \<notin> set u \<and> glob_rec p v)"
proof (induction t)
  case (Cons x t)
  have "glob_rec (CHR 0x02 # p) (x # t) \<longleftrightarrow> (x \<noteq> CHR ''/'' \<and> (\<exists>u v. t = u @ v \<and> CHR ''/'' \<notin> set u \<and> glob_rec p v)) \<or> glob_rec p (x # t)"
    using Cons by simp
  also have "\<dots> \<longleftrightarrow> (\<exists>u v. x # t = u @ v \<and> CHR ''/'' \<notin> set u \<and> glob_rec p v)" unfolding split_Cons by auto
  finally show ?case .
qed simp

lemma glob_rec_literal: "c \<noteq> CHR ''*'' \<Longrightarrow> c \<noteq> CHR 0x02 \<Longrightarrow> glob_rec (c # p) t \<longleftrightarrow> (\<exists>v. t = c # v \<and> glob_rec p v)"
  by (cases t) auto

subsection \<open>The best match\<close>

lemma better_match_conf:
  "map_option sx_confidence (better_match best cand) =
     (case (map_option sx_confidence best, map_option sx_confidence cand) of
        (None, c) \<Rightarrow> c | (b, None) \<Rightarrow> b | (Some x, Some y) \<Rightarrow> Some (max x y))"
  by (auto simp: better_match_def max_def split: option.splits)

lemma best_match_fold:
  assumes "foldl better_match best cands = Some m"
  shows "(best = Some m \<or> Some m \<in> set cands) \<and> (\<forall>c. Some c \<in> set cands \<or> best = Some c \<longrightarrow> sx_confidence c \<le> sx_confidence m)"
  using assms
proof (induction cands arbitrary: best)
  case (Cons cand cands)
  have m: "foldl better_match (better_match best cand) cands = Some m" using Cons.prems by simp
  note ih = Cons.IH [OF m]
  have src: "better_match best cand = best \<or> better_match best cand = cand" by (simp add: better_match_def split: option.split)
  have up: "\<exists>d. better_match best cand = Some d \<and> sx_confidence c \<le> sx_confidence d" if "best = Some c \<or> cand = Some c" for c
    using that by (auto simp: better_match_def split: option.split)
  show ?case
  proof (intro conjI allI impI)
    show "best = Some m \<or> Some m \<in> set (cand # cands)" using ih src by auto
    fix c assume "Some c \<in> set (cand # cands) \<or> best = Some c"
    then consider "Some c \<in> set cands" | "best = Some c \<or> cand = Some c" by auto
    then show "sx_confidence c \<le> sx_confidence m"
    proof cases
      case 1 then show ?thesis using ih by blast
    next
      case 2
      then obtain d where d: "better_match best cand = Some d" "sx_confidence c \<le> sx_confidence d" using up by blast
      then have "sx_confidence d \<le> sx_confidence m" using ih by blast
      then show ?thesis using d(2) by simp
    qed
  qed
qed simp

definition agent_matches :: "match_env \<Rightarrow> resolution_context \<Rightarrow> agent_signature_v2 list \<Rightarrow> agent_match list" where
  "agent_matches env ctx sigs = List.map_filter (score_signature env ctx) sigs"

lemma sorted_matches_mset: "mset (sorted_matches env ctx sigs) = mset (agent_matches env ctx sigs)"
  by (simp add: sorted_matches_def agent_matches_def)

lemma sorted_matches_desc:
  assumes "sorted_matches env ctx sigs = b # rest" "m \<in> set rest"
  shows "mt_confidence m \<le> mt_confidence b"
proof -
  have "sorted (map (\<lambda>m. - mt_confidence m) (b # rest))" using assms(1) by (metis sorted_matches_def sorted_sort_key)
  then show ?thesis using assms(2) by auto
qed

lemma resolve_identity_fields:
  "rd_best (resolve_identity env ctx sigs) = (case sorted_matches env ctx sigs of m # _ \<Rightarrow> Some m | [] \<Rightarrow> None)"
  "rd_runner_up (resolve_identity env ctx sigs) = (case sorted_matches env ctx sigs of _ # m # _ \<Rightarrow> Some m | _ \<Rightarrow> None)"
  "rd_needs_human (resolve_identity env ctx sigs) = ask_human (rd_best (resolve_identity env ctx sigs)) (rd_runner_up (resolve_identity env ctx sigs))"
  by (simp_all add: resolve_identity_def Let_def)

lemma confirm_threshold_exact: "confirm_threshold = 3 / 4"
  by code_simp

lemma confirmed_iff:
  assumes "sorted_matches env ctx sigs = b # rest"
  shows "\<not> rd_needs_human (resolve_identity env ctx sigs) \<longleftrightarrow>
    3 / 4 \<le> mt_confidence b \<and> list_all (\<lambda>m. ambiguity_gap \<le> f64_sub (mt_confidence b) (mt_confidence m)) rest"
proof (cases rest)
  case Nil
  then show ?thesis using assms by (simp add: resolve_identity_fields ask_human_def confirm_threshold_exact not_less)
next
  case (Cons r rs)
  have "mt_confidence r \<le> mt_confidence b" using sorted_matches_desc [OF assms, of r] Cons by simp
  moreover have "mt_confidence m \<le> mt_confidence r" if "m \<in> set rs" for m
  proof -
    have "sorted (map (\<lambda>m. - mt_confidence m) (b # r # rs))" using assms Cons by (metis sorted_matches_def sorted_sort_key)
    then show ?thesis using that by auto
  qed
  ultimately have "f64_sub (mt_confidence b) (mt_confidence r) \<le> f64_sub (mt_confidence b) (mt_confidence m)" if "m \<in> set rs" for m
    unfolding f64_sub_def using that by (intro f64_round_mono) simp_all
  then have "list_all (\<lambda>m. ambiguity_gap \<le> f64_sub (mt_confidence b) (mt_confidence m)) rest \<longleftrightarrow>
      ambiguity_gap \<le> f64_sub (mt_confidence b) (mt_confidence r)"
    unfolding Cons list_all_iff by (metis list.set_intros(1) order_trans set_ConsD)
  then show ?thesis using assms Cons by (simp add: resolve_identity_fields ask_human_def confirm_threshold_exact not_less not_le)
qed

text \<open>C38. The resolver names an agent exactly when some signature has a signal; it names one with the largest confidence, which is the sum of the
  weights of its signals, added in order with the rounding of \<^verbatim>\<open>f64\<close>, and at most 1. It leaves a human out exactly when that confidence is 0.75 or
  more and its difference to every other match, computed in \<^verbatim>\<open>f64\<close>, is not below the \<^verbatim>\<open>f64\<close> nearest to 0.15.\<close>

theorem agent_resolution_exact:
  "case rd_best (resolve_identity env ctx sigs) of
     None \<Rightarrow> agent_matches env ctx sigs = [] \<and> rd_needs_human (resolve_identity env ctx sigs)
   | Some b \<Rightarrow> (\<exists>ms1 ms2. agent_matches env ctx sigs = ms1 @ b # ms2
       \<and> mt_confidence b = min (foldl f64_add 0 (map ms_weight (mt_matched_signals b))) 1
       \<and> list_all (\<lambda>m. mt_confidence m \<le> mt_confidence b) (ms1 @ ms2)
       \<and> (\<not> rd_needs_human (resolve_identity env ctx sigs) \<longleftrightarrow>
            3 / 4 \<le> mt_confidence b
            \<and> list_all (\<lambda>m. f64_round (15 / 100) \<le> f64_sub (mt_confidence b) (mt_confidence m)) (ms1 @ ms2)))"
proof (cases "sorted_matches env ctx sigs")
  case Nil
  then have "agent_matches env ctx sigs = []" using sorted_matches_mset [of env ctx sigs] by simp
  then show ?thesis using Nil by (simp add: resolve_identity_fields ask_human_def)
next
  case (Cons b rest)
  have mem: "b \<in> set (agent_matches env ctx sigs)" using Cons sorted_matches_mset by (metis list.set_intros(1) set_mset_mset)
  then obtain ms1 ms2 where split: "agent_matches env ctx sigs = ms1 @ b # ms2" by (meson split_list)
  have "mset rest = mset (ms1 @ ms2)" using sorted_matches_mset [of env ctx sigs] Cons split by simp
  then have set: "set rest = set (ms1 @ ms2)" by (metis set_mset_mset)
  have all: "list_all P rest \<longleftrightarrow> list_all P (ms1 @ ms2)" for P unfolding list_all_iff set ..
  have "mt_confidence b = min (foldl f64_add 0 (map ms_weight (mt_matched_signals b))) 1"
    using mem by (auto simp: agent_matches_def map_filter_def score_signature_def Let_def split: if_splits)
  moreover have "list_all (\<lambda>m. mt_confidence m \<le> mt_confidence b) (ms1 @ ms2)"
    unfolding list_all_iff set [symmetric] using sorted_matches_desc [OF Cons] by blast
  moreover have "rd_best (resolve_identity env ctx sigs) = Some b" using Cons by (simp add: resolve_identity_fields)
  ultimately show ?thesis using split confirmed_iff [OF Cons, unfolded ambiguity_gap_def] all by auto
qed

text \<open>Rounding decides: with the default weights a match by its hash is not told apart from one by an install marker and a port, although 0.95 and
  0.8 are 0.15 apart.\<close>

lemma gap_lost_to_rounding:
  defines "w \<equiv> default_signal_weights"
  assumes "mt_confidence b = min (foldl f64_add 0 [sw_binary_hash w]) 1"
    and "mt_confidence r = min (foldl f64_add 0 [sw_install_marker w, sw_port w]) 1"
  shows "ask_human (Some b) (Some r)"
proof -
  have "f64_sub (min (foldl f64_add 0 [sw_binary_hash w]) 1) (min (foldl f64_add 0 [sw_install_marker w, sw_port w]) 1) < ambiguity_gap"
    unfolding w_def by code_simp
  then show ?thesis by (simp add: ask_human_def assms(2,3))
qed

subsection \<open>Where matching falls short\<close>

text \<open>The name of a match is that of its last signal, not of the one its confidence comes from.\<close>

lemma match_named_by_last_signal:
  "signal_confidence [(95 / 100, ''exe_path''), (8 / 10, ''cli_binary'')] = 95 / 100
   \<and> signal_name [(95 / 100, ''exe_path''), (8 / 10, ''cli_binary'')] = ''cli_binary''"
  by (simp add: signal_confidence_def signal_name_def)

text \<open>A signature is not matched by the bare name of an interpreter, but an installed application is.\<close>

lemma interpreter_never_names_signature: "is_generic_host_process pname \<Longrightarrow> \<not> name_hit env pname s"
  by (simp add: name_hit_def)

lemma interpreter_names_app:
  assumes "mn_lower env (pf_process_name facts) = ''node''" "''node'' \<in> set (app_process_names a)"
  shows "match_app env facts a \<noteq> None"
proof -
  have "\<not> blank ''node''" by code_simp
  then have "app_name_hit env facts a" using assms by (auto simp: app_name_hit_def eq_ignore_ascii_case_def Let_def)
  then show ?thesis by (simp add: match_app_def Let_def)
qed

text \<open>An empty marker path of an installed application is a prefix of every path.\<close>

lemma empty_marker_matches_everything:
  assumes "m \<in> set (ia_markers a)" "[] \<in> set (am_paths m)" "mn_lower env [] = []"
  shows "resolve_installed_app env path (a # rest) \<noteq> None"
proof -
  have e: "expand_vars env [] = []"
    by (simp add: expand_vars_def expand_path_def starts_with_def Let_def split: option.split)
  have "[] \<in> set (concat (map am_paths (ia_markers a)))" using assms(1,2) by auto
  moreover have "starts_with (norm_path env path) (norm_path env (expand_vars env []))"
    by (simp add: e norm_path_def forward_slashes_def assms(3) starts_with_def)
  ultimately have "installed_app_hit env path a \<noteq> None" by (auto simp: installed_app_hit_def find_None_iff)
  then show ?thesis by (auto simp: resolve_installed_app_def)
qed

text \<open>The guess for the claw family takes every word that contains the letters paw, such as spawn.\<close>

lemma spawn_is_a_claw: "has_claw ''spawn''"
  by code_simp

end
