(* ===== verification/Pdp_Service.thy ===== *)
theory Pdp_Service
  imports Adapter_Decision Json_Value Guard_Normalize
begin

text \<open>
  Decision points as the local control plane offers them, \<^verbatim>\<open>src/crates/local-control-plane/src\<close>: the routes and their execution over a
  primary, fallbacks and retries (\<^verbatim>\<open>pdp_models.rs\<close>, \<^verbatim>\<open>pdp_router.rs\<close>), the wrapping of tool servers in an agent's configuration file
  (\<^verbatim>\<open>control_binding.rs\<close>) and the checks of policy drafts (\<^verbatim>\<open>compiler.rs\<close>). Parameters: the tables of routes and runtimes, the credentials,
  the HTTP exchange as a function of the number of the request, the Cedar engine, JSON text, files. Shadow calls and log lines have no
  influence on the answer and are left out.
\<close>

subsection \<open>Routes\<close>

datatype pdp_kind = KPolicyRouter | KOpaWasm | KCedarLocal | KWasmPlugin | KOpaServer | KOpenfgaServer | KCedarHttp | KAwsVerifiedPermissions
  | KCustomHttp | KCustomGrpc | KPollekCloudPdp

definition normalize_pdp_kind :: "(string \<Rightarrow> string) \<Rightarrow> string \<Rightarrow> pdp_kind option" where
  "normalize_pdp_kind lower input =
     (let v = map (\<lambda>c. if c = CHR ''-'' then CHR ''_'' else c) (lower (str_trim input))
      in if v \<in> {''opa'', ''opa_server''} then Some KOpaServer
         else if v = ''opa_wasm'' then Some KOpaWasm
         else if v = ''policy_router'' then Some KPolicyRouter
         else if v \<in> {''openfga'', ''open_fga'', ''openfga_server''} then Some KOpenfgaServer
         else if v \<in> {''cedar'', ''cedar_http''} then Some KCedarHttp
         else if v = ''cedar_local'' then Some KCedarLocal
         else if v \<in> {''aws_avp'', ''aws_verified_permissions''} then Some KAwsVerifiedPermissions
         else if v = ''custom_http'' then Some KCustomHttp
         else if v = ''custom_grpc'' then Some KCustomGrpc
         else if v \<in> {''pollek_cloud'', ''pollek_cloud_pdp''} then Some KPollekCloudPdp
         else if v = ''wasm_plugin'' then Some KWasmPlugin
         else None)"

datatype route_failure_behavior = FbDeny | FbAllow | FbFallback | FbLastKnownGood | FbNotApplicable

datatype route_mode = RmLocalOnly | RmLocalPrimaryRemoteFallback | RmRemotePrimaryLocalFallback | RmCloudPrimaryLocalFallback | RmShadowRemote
  | RmMirrorAuditOnly | RmStrictRemote

text \<open>Of a runtime, the fields that the execution of a route reads.\<close>

record pdp_runtime =
  prt_id :: string
  prt_enabled :: bool
  prt_endpoint :: "string option"
  prt_auth_ref :: "string option"

record route_match =
  rm_agent_ids :: "string list option"
  rm_resource_ids :: "string list option"
  rm_protocols :: "string list option"
  rm_policy_tags :: "string list option"
  rm_sensitivity :: "string list option"
  rm_environment :: "string list option"

record pdp_route_rule =
  prr_id :: string
  prr_name :: string
  prr_enabled :: bool
  prr_priority :: int
  prr_match :: route_match
  prr_mode :: route_mode
  prr_primary_pdp_id :: string
  prr_fallback_pdp_ids :: "string list"
  prr_shadow_pdp_ids :: "string list"
  prr_merge_strategy :: string
  prr_failure_behavior :: route_failure_behavior
  prr_timeout_ms :: u64
  prr_max_retries :: u32
  prr_circuit_breaker_threshold :: u32
  prr_cooldown_secs :: u32
  prr_last_known_good_ttl_secs :: "u32 option"

datatype http_answer = HaJson json | HaBadBody | HaStatus string | HaError string

datatype cedar_effect = CeAllow | CeDeny | CeAbstain

record pdp_env =
  pe_list_routes :: "string \<Rightarrow> (string, json list) result"
  pe_parse_route :: "json \<Rightarrow> pdp_route_rule option"
  pe_get_runtime :: "string \<Rightarrow> string \<Rightarrow> (string, json option) result"
  pe_parse_runtime :: "json \<Rightarrow> (string, pdp_runtime) result"
  pe_credential :: "string \<Rightarrow> string option"
  pe_send :: "nat \<Rightarrow> string \<Rightarrow> string option \<Rightarrow> u64 \<Rightarrow> json \<Rightarrow> http_answer"
  pe_cedar_permit :: "string \<Rightarrow> json \<Rightarrow> cedar_effect option"
  pe_debug :: "string list \<Rightarrow> string"

definition admits :: "string list option \<Rightarrow> string option \<Rightarrow> bool" where
  "admits allowed v \<longleftrightarrow> (case (v, allowed) of (Some x, Some xs) \<Rightarrow> xs = [] \<or> x \<in> set xs | _ \<Rightarrow> True)"

definition matches_pdp_route :: "pdp_route_rule \<Rightarrow> string option \<Rightarrow> string option \<Rightarrow> string option \<Rightarrow> bool" where
  "matches_pdp_route route agent_id resource_id protocol \<longleftrightarrow>
     admits (rm_agent_ids (prr_match route)) agent_id \<and> admits (rm_resource_ids (prr_match route)) resource_id
     \<and> admits (rm_protocols (prr_match route)) protocol"

definition enabled_routes :: "pdp_env \<Rightarrow> json list \<Rightarrow> pdp_route_rule list" where
  "enabled_routes env vals = sort_key prr_priority (filter prr_enabled (List.map_filter (pe_parse_route env) vals))"

definition evaluate_route :: "pdp_env \<Rightarrow> string \<Rightarrow> string option \<Rightarrow> string option \<Rightarrow> string option \<Rightarrow> (string, pdp_route_rule option) result" where
  "evaluate_route env tenant agent_id resource_id protocol =
     map_sum (\<lambda>e. e) (\<lambda>vals. find (\<lambda>r. matches_pdp_route r agent_id resource_id protocol) (enabled_routes env vals)) (pe_list_routes env tenant)"

text \<open>The list of routes that the administration interface gives out, the largest priority number first.\<close>

definition list_routes :: "pdp_env \<Rightarrow> string \<Rightarrow> (string, pdp_route_rule list) result" where
  "list_routes env tenant =
     map_sum (\<lambda>e. e) (\<lambda>vals. sort_key (\<lambda>r. - prr_priority r) (List.map_filter (pe_parse_route env) vals)) (pe_list_routes env tenant)"

text \<open>\<open>simulate_route\<close>: the decision point and the decision it reports, without asking it.\<close>

definition simulate_route :: "pdp_env \<Rightarrow> string \<Rightarrow> string option \<Rightarrow> string option \<Rightarrow> string option \<Rightarrow> (string, string \<times> string \<times> string) result" where
  "simulate_route env tenant agent_id resource_id protocol =
     map_sum (\<lambda>e. e) (\<lambda>rule. case rule of
         Some r \<Rightarrow> (prr_primary_pdp_id r, ''primary selected'', ''Simulated Allow'')
       | None \<Rightarrow> (''none'', ''no matching route'', ''Deny'')) (evaluate_route env tenant agent_id resource_id protocol)"

subsection \<open>Asking a decision point\<close>

definition decision_value :: "string \<Rightarrow> string \<Rightarrow> json" where
  "decision_value d reason = JObj [(''decision'', JStr d), (''reason'', JStr reason)]"

text \<open>The retry loop. The counter is a \<^verbatim>\<open>u32\<close>, so a route with the largest number of retries never gives up.\<close>

partial_function (option) attempt_loop :: "(nat \<Rightarrow> http_answer) \<Rightarrow> nat \<Rightarrow> u32 \<Rightarrow> u32 \<Rightarrow> ((string, json) result \<times> nat) option" where
  "attempt_loop send n attempts max_retries =
     (let attempts1 = attempts + 1 in
      case send n of
        HaJson j \<Rightarrow> Some (Inr j, Suc n)
      | HaBadBody \<Rightarrow> Some (Inr (decision_value ''Deny'' ''invalid response body''), Suc n)
      | HaStatus s \<Rightarrow> if attempts1 > max_retries then Some (Inl (''HTTP '' @ s), Suc n) else attempt_loop send (Suc n) attempts1 max_retries
      | HaError e \<Rightarrow> if attempts1 > max_retries then Some (Inl e, Suc n) else attempt_loop send (Suc n) attempts1 max_retries)"

definition bearer_token :: "pdp_env \<Rightarrow> pdp_runtime \<Rightarrow> string option" where
  "bearer_token env rt = (case pe_credential env (prt_id rt) of Some t \<Rightarrow> Some t | None \<Rightarrow> prt_auth_ref rt)"

definition built_in :: "pdp_env \<Rightarrow> string \<Rightarrow> string \<Rightarrow> json \<Rightarrow> json" where
  "built_in env tenant pdp_id payload =
     (let unsupported = decision_value ''Deny'' (''unsupported local PDP runtime: '' @ pdp_id) in
      if pdp_id = ''local.cedar'' then
        (case pe_cedar_permit env tenant payload of
           Some eff \<Rightarrow> decision_value (case eff of CeAllow \<Rightarrow> ''Allow'' | _ \<Rightarrow> ''Deny'') ''Evaluated by local dek-cedar engine''
         | None \<Rightarrow> unsupported)
      else unsupported)"

definition call_pdp :: "pdp_env \<Rightarrow> string \<Rightarrow> pdp_route_rule \<Rightarrow> json \<Rightarrow> string \<Rightarrow> nat \<Rightarrow> ((string, json) result \<times> nat) option" where
  "call_pdp env tenant rule payload pdp_id n =
     (case pe_get_runtime env tenant pdp_id of
        Inl e \<Rightarrow> Some (Inl e, n)
      | Inr None \<Rightarrow> Some (Inl ''PDP Runtime not found'', n)
      | Inr (Some val) \<Rightarrow>
          (case pe_parse_runtime env val of
             Inl e \<Rightarrow> Some (Inl e, n)
           | Inr rt \<Rightarrow>
               (case prt_endpoint rt of
                  Some endpoint \<Rightarrow>
                    attempt_loop (\<lambda>k. pe_send env k endpoint (bearer_token env rt) (prr_timeout_ms rule) payload) n 0 (prr_max_retries rule)
                | None \<Rightarrow> Some (Inr (built_in env tenant pdp_id payload), n))))"

text \<open>The decision points in their order until one answers; the errors of the ones before it.\<close>

fun first_answer :: "(string \<Rightarrow> nat \<Rightarrow> ((string, json) result \<times> nat) option) \<Rightarrow> (string \<times> string) list \<Rightarrow> nat \<Rightarrow> string list
    \<Rightarrow> (json option \<times> string list \<times> nat) option" where
  "first_answer ask [] n errors = Some (None, errors, n)"
| "first_answer ask ((label, pdp) # rest) n errors =
     (case ask pdp n of
        None \<Rightarrow> None
      | Some (Inr d, m) \<Rightarrow> Some (Some d, errors, m)
      | Some (Inl e, m) \<Rightarrow> first_answer ask rest m (errors @ [label @ '' '' @ pdp @ '': '' @ e]))"

definition route_chain :: "pdp_route_rule \<Rightarrow> (string \<times> string) list" where
  "route_chain rule = (''Primary'', prr_primary_pdp_id rule) # map (Pair ''Fallback'') (prr_fallback_pdp_ids rule)"

definition failure_decision :: "route_failure_behavior \<Rightarrow> string" where
  "failure_decision b = (case b of FbAllow \<Rightarrow> ''Allow'' | _ \<Rightarrow> ''Deny'')"

definition execute_route :: "pdp_env \<Rightarrow> string \<Rightarrow> string option \<Rightarrow> string option \<Rightarrow> string option \<Rightarrow> json \<Rightarrow> nat \<Rightarrow> (string, json \<times> nat) result option" where
  "execute_route env tenant agent_id resource_id protocol payload n =
     (case evaluate_route env tenant agent_id resource_id protocol of
        Inl e \<Rightarrow> Some (Inl e)
      | Inr None \<Rightarrow> Some (Inr (decision_value ''Deny'' ''No matching route'', n))
      | Inr (Some rule) \<Rightarrow>
          (case first_answer (call_pdp env tenant rule payload) (route_chain rule) n [] of
             None \<Rightarrow> None
           | Some (Some d, errors, m) \<Rightarrow> Some (Inr (d, m))
           | Some (None, errors, m) \<Rightarrow>
               Some (Inr (decision_value (failure_decision (prr_failure_behavior rule)) (''All PDPs failed. Errors: '' @ pe_debug env errors), m))))"

subsection \<open>Retries end\<close>

fun answer_of :: "http_answer \<Rightarrow> json option" where
  "answer_of (HaJson j) = Some j"
| "answer_of HaBadBody = Some (decision_value ''Deny'' ''invalid response body'')"
| "answer_of (HaStatus s) = None"
| "answer_of (HaError e) = None"

fun error_of :: "http_answer \<Rightarrow> string" where
  "error_of (HaStatus s) = ''HTTP '' @ s"
| "error_of (HaError e) = e"
| "error_of _ = []"

lemma attempt_loop_unfold:
  "attempt_loop send n attempts max_retries =
     (case answer_of (send n) of
        Some j \<Rightarrow> Some (Inr j, Suc n)
      | None \<Rightarrow> if attempts + 1 > max_retries then Some (Inl (error_of (send n)), Suc n) else attempt_loop send (Suc n) (attempts + 1) max_retries)"
  by (subst attempt_loop.simps) (cases "send n"; simp add: Let_def)

lemma attempt_loop_exact:
  assumes "unat attempts \<le> unat max_retries" "max_retries \<noteq> - 1"
  shows "attempt_loop send n attempts max_retries =
    (case find (\<lambda>k. answer_of (send k) \<noteq> None) [n..<n + (unat max_retries - unat attempts) + 1] of
       Some k \<Rightarrow> Some (Inr (the (answer_of (send k))), Suc k)
     | None \<Rightarrow> let k = n + (unat max_retries - unat attempts) in Some (Inl (error_of (send k)), Suc k))"
  using assms(1)
proof (induction "unat max_retries - unat attempts" arbitrary: n attempts)
  case 0
  then have eq: "attempts = max_retries" by (simp add: word_unat_eq_iff)
  have "unat max_retries + 1 < 2 ^ 32"
  proof (rule ccontr)
    assume "\<not> unat max_retries + 1 < 2 ^ 32"
    moreover have "unat max_retries < 2 ^ 32" using unsigned_less [of max_retries] by simp
    ultimately have "unat max_retries = unat (- 1 :: u32)" by (simp add: unsigned_minus_1_eq_mask mask_eq_exp_minus_1)
    then show False using assms(2) by (simp add: word_unat_eq_iff)
  qed
  then have "max_retries + 1 > max_retries" by (simp add: word_less_nat_alt unat_word_ariths)
  then show ?case unfolding eq by (subst attempt_loop_unfold) (simp split: option.split)
next
  case (Suc d)
  then have less: "unat attempts < unat max_retries" by simp
  have up: "unat (attempts + 1) = unat attempts + 1" by (rule unat_plus_one_if_bound [OF less])
  have not_gt: "\<not> attempts + 1 > max_retries" using up less by (simp add: word_less_nat_alt)
  have upt: "[n..<n + (unat max_retries - unat attempts) + 1] = n # [Suc n..<Suc n + (unat max_retries - unat (attempts + 1)) + 1]"
  proof -
    have "n + (unat max_retries - unat attempts) + 1 = Suc n + (unat max_retries - unat (attempts + 1)) + 1" using up less by arith
    then show ?thesis by (simp only: upt_conv_Cons [of n] less_Suc_eq_le)
  qed
  show ?case
  proof (cases "answer_of (send n)")
    case (Some j) then show ?thesis unfolding upt by (subst attempt_loop_unfold) simp
  next
    case None
    have "attempt_loop send n attempts max_retries = attempt_loop send (Suc n) (attempts + 1) max_retries"
      using None not_gt by (subst attempt_loop_unfold) simp
    also have "\<dots> = (case find (\<lambda>k. answer_of (send k) \<noteq> None) [Suc n..<Suc n + (unat max_retries - unat (attempts + 1)) + 1] of
       Some k \<Rightarrow> Some (Inr (the (answer_of (send k))), Suc k)
     | None \<Rightarrow> let k = Suc n + (unat max_retries - unat (attempts + 1)) in Some (Inl (error_of (send k)), Suc k))"
      using Suc.hyps(2) up less by (intro Suc.hyps(1)) simp_all
    finally have "attempt_loop send n attempts max_retries = \<dots>" .
    moreover have "n + (unat max_retries - unat attempts) = Suc n + (unat max_retries - unat (attempts + 1))" using up less by arith
    moreover have "find (\<lambda>k. answer_of (send k) \<noteq> None) (n # ks) = find (\<lambda>k. answer_of (send k) \<noteq> None) ks" for ks using None by simp
    ultimately show ?thesis unfolding upt by (simp only:)
  qed
qed

text \<open>With the largest number of retries a decision point that never answers keeps the request for ever.\<close>

lemma attempt_loop_stuck:
  assumes "\<And>k. answer_of (send k) = None"
  shows "attempt_loop send n attempts (- 1) = None"
proof -
  have "(\<forall>k. answer_of (s k) = None) \<longrightarrow> m \<noteq> - 1" if "attempt_loop s k a m = Some r" for s k a m r
    using that
  proof (rule attempt_loop.raw_induct [rotated])
    fix al and s :: "nat \<Rightarrow> http_answer" and n and a m :: u32 and r :: "(string, json) result \<times> nat"
    assume IH: "\<And>s n a m r. al s n a m = Some r \<Longrightarrow> (\<forall>k. answer_of (s k) = None) \<longrightarrow> m \<noteq> - 1"
      and body: "(let attempts1 = a + 1 in
      case s n of
        HaJson j \<Rightarrow> Some (Inr j, Suc n)
      | HaBadBody \<Rightarrow> Some (Inr (decision_value ''Deny'' ''invalid response body''), Suc n)
      | HaStatus st \<Rightarrow> if attempts1 > m then Some (Inl (''HTTP '' @ st), Suc n) else al s (Suc n) attempts1 m
      | HaError e \<Rightarrow> if attempts1 > m then Some (Inl e, Suc n) else al s (Suc n) attempts1 m) = Some r"
    show "(\<forall>k. answer_of (s k) = None) \<longrightarrow> m \<noteq> - 1"
    proof (intro impI notI)
      assume none: "\<forall>k. answer_of (s k) = None" and m: "m = - 1"
      have "answer_of (s n) = None" using none by blast
      then have "al s (Suc n) (a + 1) m = Some r" using body m by (cases "s n") (simp_all add: Let_def)
      then show False using IH none m by blast
    qed
  qed
  from this [of send n attempts "- 1"] show ?thesis using assms by (cases "attempt_loop send n attempts (- 1)") auto
qed

subsection \<open>What a route decides\<close>

lemma first_answer_Some:
  assumes "first_answer ask chain n errors = Some (Some d, errors', m)"
  shows "\<exists>label pdp k. (label, pdp) \<in> set chain \<and> ask pdp k = Some (Inr d, m)"
  using assms
proof (induction ask chain n errors rule: first_answer.induct)
  case (2 ask label pdp rest n errors)
  show ?case
  proof (cases "ask pdp n")
    case None then show ?thesis using "2.prems" by simp
  next
    case (Some rm)
    show ?thesis
    proof (cases "fst rm")
      case (Inl e)
      then obtain k where rm: "rm = (Inl e, k)" by (cases rm) simp
      have "first_answer ask rest k (errors @ [label @ '' '' @ pdp @ '': '' @ e]) = Some (Some d, errors', m)"
        using "2.prems" Some by (simp add: rm)
      from "2.IH" [OF Some rm [symmetric] refl this] obtain l' q' k' where "(l', q') \<in> set rest" "ask q' k' = Some (Inr d, m)" by blast
      then show ?thesis by (intro exI [of _ l'] exI [of _ q'] exI [of _ k']) simp
    next
      case (Inr d')
      then obtain k where rm: "rm = (Inr d', k)" by (cases rm) simp
      then have "ask pdp n = Some (Inr d, m)" using "2.prems" Some by simp
      then show ?thesis by (intro exI [of _ label] exI [of _ pdp] exI [of _ n]) simp
    qed
  qed
qed simp

lemma first_answer_None:
  assumes "first_answer ask chain n errors = Some (None, errors', m)" "(label, pdp) \<in> set chain"
  shows "\<exists>k e j. ask pdp k = Some (Inl e, j)"
  using assms
proof (induction ask chain n errors rule: first_answer.induct)
  case (2 ask l q rest n errors)
  show ?case
  proof (cases "ask q n")
    case None then show ?thesis using "2.prems" by simp
  next
    case (Some rm)
    show ?thesis
    proof (cases "fst rm")
      case (Inl e)
      then obtain k where rm: "rm = (Inl e, k)" by (cases rm) simp
      have rest: "first_answer ask rest k (errors @ [l @ '' '' @ q @ '': '' @ e]) = Some (None, errors', m)"
        using "2.prems" Some by (simp add: rm)
      show ?thesis
      proof (cases "pdp = q")
        case True then show ?thesis using Some rm by blast
      next
        case False
        then have "(label, pdp) \<in> set rest" using "2.prems"(2) by auto
        then show ?thesis by (rule "2.IH" [OF Some rm [symmetric] refl rest])
      qed
    next
      case (Inr d') then show ?thesis using "2.prems" Some by (cases rm) auto
    qed
  qed
qed simp

lemma first_answer_returns:
  assumes "\<And>pdp k. ask pdp k \<noteq> None"
  shows "first_answer ask chain n errors \<noteq> None"
  using assms by (induction ask chain n errors rule: first_answer.induct) (auto split: option.split sum.split)

lemma call_pdp_returns: "prr_max_retries rule \<noteq> - 1 \<Longrightarrow> call_pdp env tenant rule payload pdp n \<noteq> None"
  by (auto simp: call_pdp_def attempt_loop_exact Let_def split: sum.split option.split)

text \<open>The routes a request can take, in the order of the store, and the one it takes: one of them, and when they all have the same
  priority the first. Which of two priorities wins is left open, since the router and the administration interface disagree on it.\<close>

definition matching_routes :: "pdp_env \<Rightarrow> json list \<Rightarrow> string option \<Rightarrow> string option \<Rightarrow> string option \<Rightarrow> pdp_route_rule list" where
  "matching_routes env vals agent_id resource_id protocol =
     filter (\<lambda>r. prr_enabled r \<and> matches_pdp_route r agent_id resource_id protocol) (List.map_filter (pe_parse_route env) vals)"

definition selected_route :: "pdp_env \<Rightarrow> string \<Rightarrow> string option \<Rightarrow> string option \<Rightarrow> string option \<Rightarrow> pdp_route_rule \<Rightarrow> bool" where
  "selected_route env tenant agent_id resource_id protocol rule \<longleftrightarrow>
     (\<exists>vals. pe_list_routes env tenant = Inr vals
        \<and> (let ms = matching_routes env vals agent_id resource_id protocol
           in rule \<in> set ms \<and> ((\<forall>r\<in>set ms. prr_priority r = prr_priority rule) \<longrightarrow> rule = hd ms)))"

lemma find_hd_filter: "find P xs = Some x \<Longrightarrow> x = hd (filter P xs) \<and> x \<in> set xs \<and> P x"
  by (induction xs) (auto split: if_splits)

lemma filter_sort_key_const:
  assumes "\<And>x. x \<in> set xs \<Longrightarrow> P x \<Longrightarrow> f x = k"
  shows "filter P (sort_key f xs) = filter P xs"
proof -
  have only: "filter P ys = filter P (filter (\<lambda>x. f x = k) ys)" if "set ys \<subseteq> set xs" for ys
    using that assms by (induction ys) auto
  have "filter P (sort_key f xs) = filter P (filter (\<lambda>x. f x = k) (sort_key f xs))" by (rule only) simp
  also have "\<dots> = filter P (filter (\<lambda>x. f x = k) xs)" by (simp only: sort_key_stable)
  also have "\<dots> = filter P xs" by (rule only [symmetric]) simp
  finally show ?thesis .
qed

lemma evaluate_route_selected:
  assumes "evaluate_route env tenant a r p = Inr (Some rule)"
  shows "selected_route env tenant a r p rule"
proof -
  let ?P = "\<lambda>x. matches_pdp_route x a r p"
  obtain vals where vals: "pe_list_routes env tenant = Inr vals" "find ?P (enabled_routes env vals) = Some rule"
    using assms by (cases "pe_list_routes env tenant") (auto simp: evaluate_route_def)
  let ?es = "filter prr_enabled (List.map_filter (pe_parse_route env) vals)"
  note f = find_hd_filter [OF vals(2)]
  have "rule = hd (matching_routes env vals a r p)"
    if same: "\<And>x. x \<in> set (matching_routes env vals a r p) \<Longrightarrow> prr_priority x = prr_priority rule"
  proof -
    have "filter ?P (enabled_routes env vals) = filter ?P ?es"
      unfolding enabled_routes_def by (rule filter_sort_key_const) (use same in \<open>auto simp: matching_routes_def\<close>)
    then show ?thesis using f by (simp add: matching_routes_def conj_commute)
  qed
  then show ?thesis using vals(1) f by (auto simp: selected_route_def matching_routes_def enabled_routes_def Let_def)
qed

lemma execute_route_returns:
  assumes "\<And>rule. selected_route env tenant a r p rule \<Longrightarrow> prr_max_retries rule \<noteq> - 1"
  shows "execute_route env tenant a r p payload n \<noteq> None"
proof (cases "evaluate_route env tenant a r p")
  case (Inr rule_opt)
  show ?thesis
  proof (cases rule_opt)
    case (Some rule)
    then have "prr_max_retries rule \<noteq> - 1" using assms evaluate_route_selected Inr by blast
    then have "first_answer (call_pdp env tenant rule payload) (route_chain rule) n [] \<noteq> None"
      by (intro first_answer_returns call_pdp_returns)
    then show ?thesis using Inr Some by (auto simp: execute_route_def split: option.split)
  qed (simp add: execute_route_def Inr)
qed (simp add: execute_route_def)

text \<open>C37. A routed request is allowed only by one enabled route that matches it, the first of them in the store when they all have the same
  priority: one of its decision points, asked in the order primary then fallbacks, gave that answer, or none answered and the route
  says to allow on failure. Without a matching route, or when none answers and the route does not say so, there is no permission.\<close>

theorem pdp_route_allow_sound:
  assumes "execute_route env tenant agent_id resource_id protocol payload n = Some (Inr (v, m))" and "json_get v ''decision'' = Some (JStr ''Allow'')"
  shows "\<exists>rule. selected_route env tenant agent_id resource_id protocol rule
    \<and> ((\<exists>label pdp k. (label, pdp) \<in> set (route_chain rule) \<and> call_pdp env tenant rule payload pdp k = Some (Inr v, m))
       \<or> prr_failure_behavior rule = FbAllow
         \<and> (\<forall>label pdp. (label, pdp) \<in> set (route_chain rule) \<longrightarrow> (\<exists>k e j. call_pdp env tenant rule payload pdp k = Some (Inl e, j))))"
proof -
  let ?fa = "\<lambda>rule. first_answer (call_pdp env tenant rule payload) (route_chain rule) n []"
  obtain rule where rule: "evaluate_route env tenant agent_id resource_id protocol = Inr (Some rule)"
    using assms by (auto simp: execute_route_def decision_value_def split: sum.splits option.splits)
  obtain d errors k where fa: "?fa rule = Some (d, errors, k)"
    using assms(1) by (auto simp: execute_route_def rule split: option.splits)
  show ?thesis
  proof (cases d)
    case (Some x)
    then have "v = x" "m = k" using assms(1) by (simp_all add: execute_route_def rule fa)
    then show ?thesis using evaluate_route_selected [OF rule] first_answer_Some [OF fa [unfolded Some]] by blast
  next
    case None
    then have "prr_failure_behavior rule = FbAllow"
      using assms by (auto simp: execute_route_def rule fa decision_value_def failure_decision_def split: route_failure_behavior.splits)
    then show ?thesis using evaluate_route_selected [OF rule] first_answer_None [OF fa [unfolded None]] by blast
  qed
qed

definition demo_pdp_route :: pdp_route_rule where
  "demo_pdp_route = \<lparr>prr_id = ''r'', prr_name = ''r'', prr_enabled = True, prr_priority = 1,
     prr_match = \<lparr>rm_agent_ids = Some [''a''], rm_resource_ids = None, rm_protocols = None, rm_policy_tags = None, rm_sensitivity = None, rm_environment = None\<rparr>,
     prr_mode = RmLocalOnly, prr_primary_pdp_id = ''remote'', prr_fallback_pdp_ids = [''local.cedar''], prr_shadow_pdp_ids = [], prr_merge_strategy = [],
     prr_failure_behavior = FbDeny, prr_timeout_ms = 100, prr_max_retries = 0, prr_circuit_breaker_threshold = 0, prr_cooldown_secs = 0,
     prr_last_known_good_ttl_secs = None\<rparr>"

definition demo_pdp_env :: pdp_env where
  "demo_pdp_env = \<lparr>pe_list_routes = (\<lambda>_. Inr [JNull]), pe_parse_route = (\<lambda>_. Some demo_pdp_route),
     pe_get_runtime = (\<lambda>_ i. if i = ''local.cedar'' then Inr (Some JNull) else Inr None),
     pe_parse_runtime = (\<lambda>_. Inr \<lparr>prt_id = ''local.cedar'', prt_enabled = True, prt_endpoint = None, prt_auth_ref = None\<rparr>),
     pe_credential = (\<lambda>_. None), pe_send = (\<lambda>_ _ _ _ _. HaBadBody), pe_cedar_permit = (\<lambda>_ _. Some CeAllow), pe_debug = (\<lambda>_. [])\<rparr>"

theorem pdp_route_allow_sound_witness:
  "\<exists>v. execute_route demo_pdp_env ''t'' (Some ''a'') None None JNull 0 = Some (Inr (v, 0))
    \<and> json_get v ''decision'' = Some (JStr ''Allow'') \<and> (\<exists>rule. selected_route demo_pdp_env ''t'' (Some ''a'') None None rule)"
proof -
  let ?v = "decision_value ''Allow'' ''Evaluated by local dek-cedar engine''"
  have ex: "execute_route demo_pdp_env ''t'' (Some ''a'') None None JNull 0 = Some (Inr (?v, 0))" by code_simp
  have al: "json_get ?v ''decision'' = Some (JStr ''Allow'')" by code_simp
  from pdp_route_allow_sound [OF ex al] show ?thesis using ex al by blast
qed

text \<open>Of two routes of different priority the router takes the one with the smaller number, while the interface that lists them puts the
  larger number first and calls it the higher priority.\<close>

lemma smaller_number_decides:
  assumes "pe_list_routes env tenant = Inr [v, w]" "pe_parse_route env v = Some x" "pe_parse_route env w = Some y"
    "prr_enabled x" "prr_enabled y" "matches_pdp_route x a r p" "matches_pdp_route y a r p" "prr_priority x < prr_priority y"
  shows "evaluate_route env tenant a r p = Inr (Some x) \<and> list_routes env tenant = Inr [y, x]"
  using assms by (simp add: evaluate_route_def list_routes_def enabled_routes_def List.map_filter_def)

text \<open>The policy tags, the sensitivity and the environment of a route are not looked at, nor is its mode.\<close>

lemma route_conditions_ignored:
  "matches_pdp_route (route\<lparr>prr_match := (prr_match route)\<lparr>rm_policy_tags := t, rm_sensitivity := s, rm_environment := e\<rparr>, prr_mode := md\<rparr>) a r p
     = matches_pdp_route route a r p"
  by (simp add: matches_pdp_route_def)

text \<open>A request that does not name its agent passes a route for particular agents.\<close>

lemma unnamed_agent_matches: "rm_resource_ids (prr_match route) = None \<Longrightarrow> rm_protocols (prr_match route) = None \<Longrightarrow> matches_pdp_route route None r p"
  by (simp add: matches_pdp_route_def admits_def split: option.split)

text \<open>A runtime that is switched off is asked like any other.\<close>

lemma disabled_runtime_asked:
  assumes "\<And>val. pe_parse_runtime env2 val = map_sum (\<lambda>e. e) (\<lambda>rt. rt\<lparr>prt_enabled := b\<rparr>) (pe_parse_runtime env val)"
    and "pe_get_runtime env2 = pe_get_runtime env" "pe_send env2 = pe_send env" "pe_credential env2 = pe_credential env"
    "pe_cedar_permit env2 = pe_cedar_permit env"
  shows "call_pdp env2 tenant rule payload pdp n = call_pdp env tenant rule payload pdp n"
proof -
  have "built_in env2 = built_in env" by (intro ext) (simp only: built_in_def assms(5))
  moreover have "bearer_token env2 (rt\<lparr>prt_enabled := b\<rparr>) = bearer_token env rt" for rt by (simp add: bearer_token_def assms(4) split: option.split)
  ultimately show ?thesis using assms(1-3) by (simp add: call_pdp_def split: sum.split option.split)
qed

subsection \<open>Wrapping tool servers in a configuration file\<close>

definition wrapper_command :: string where "wrapper_command = ''dek-stdio-wrapper''"

definition server_command :: "(string \<times> json) list \<Rightarrow> string" where
  "server_command obj = (case Option.bind (map_of obj ''command'') as_str of Some c \<Rightarrow> c | None \<Rightarrow> [])"

definition server_args :: "(string \<times> json) list \<Rightarrow> json list" where
  "server_args obj = (case Option.bind (map_of obj ''args'') as_array of Some xs \<Rightarrow> xs | None \<Rightarrow> [])"

definition wrap_server :: "(string \<times> json) list \<Rightarrow> (string \<times> json) list" where
  "wrap_server obj =
     AList.update ''env'' (JObj [(''POLLEK_DEK_ROUTER_URL'', JStr ''http://127.0.0.1:3000/v1/pdp/route'')])
      (AList.update ''args''
        (JArr ([JStr ''--agent-id'', JStr ''agent_auto'', JStr ''--target-cmd'', JStr (server_command obj)] @ server_args obj))
      (AList.update ''command'' (JStr wrapper_command) obj))"

fun rewrite_server :: "json \<Rightarrow> json \<times> bool" where
  "rewrite_server (JObj obj) =
     (if server_command obj = [] then (JObj obj, False)
      else if server_command obj = wrapper_command then (JObj obj, True)
      else (JObj (wrap_server obj), True))"
| "rewrite_server j = (j, False)"

definition rewrite_servers :: "(string \<times> json) list \<Rightarrow> (string \<times> json) list \<times> bool" where
  "rewrite_servers servers =
     (map (\<lambda>(k, s). (k, fst (rewrite_server s))) servers, \<exists>(k, s)\<in>set servers. snd (rewrite_server s))"

record config_files =
  cf_config :: "string option"
  cf_backup :: "string option"

datatype binding_error = BeNoConfig | BeRead | BeInvalidJson | BeNoServers | BeNothingToWrap | BeBackupWrite | BeSerialize | BeConfigWrite | BeRestore

record file_env =
  fx_parse :: "string \<Rightarrow> json option"
  fx_pretty :: "json \<Rightarrow> string option"
  fx_read_ok :: bool
  fx_backup_ok :: bool
  fx_config_ok :: bool
  fx_remove_ok :: bool

definition apply_binding_to_config :: "file_env \<Rightarrow> config_files \<Rightarrow> (binding_error, unit) result \<times> config_files" where
  "apply_binding_to_config env fs =
     (case cf_config fs of
        None \<Rightarrow> (Inl BeNoConfig, fs)
      | Some content \<Rightarrow>
     if \<not> fx_read_ok env then (Inl BeRead, fs)
     else (case fx_parse env content of
        None \<Rightarrow> (Inl BeInvalidJson, fs)
      | Some config \<Rightarrow>
     (case Option.bind (json_get config ''mcpServers'') as_object of
        None \<Rightarrow> (Inl BeNoServers, fs)
      | Some servers \<Rightarrow>
          let (servers', rewritten) = rewrite_servers servers in
          if \<not> rewritten then (Inl BeNothingToWrap, fs)
          else if \<not> fx_backup_ok env then (Inl BeBackupWrite, fs)
          else
            let fs1 = fs\<lparr>cf_backup := Some content\<rparr>;
                config' = (case config of JObj m \<Rightarrow> JObj (AList.update ''mcpServers'' (JObj servers') m) | j \<Rightarrow> j)
            in case fx_pretty env config' of
                 None \<Rightarrow> (Inl BeSerialize, fs1)
               | Some json \<Rightarrow> if \<not> fx_config_ok env then (Inl BeConfigWrite, fs1) else (Inr (), fs1\<lparr>cf_config := Some json\<rparr>))))"

definition rollback_binding :: "file_env \<Rightarrow> config_files \<Rightarrow> (binding_error, bool) result \<times> config_files" where
  "rollback_binding env fs =
     (case cf_backup fs of
        None \<Rightarrow> (Inr False, fs)
      | Some content \<Rightarrow>
          if \<not> fx_config_ok env then (Inl BeRestore, fs)
          else if \<not> fx_remove_ok env then (Inl BeRestore, fs\<lparr>cf_config := Some content\<rparr>)
          else (Inr True, fs\<lparr>cf_config := Some content, cf_backup := None\<rparr>))"

lemma wrap_server_lookup:
  "map_of (wrap_server obj) k =
     (if k = ''env'' then Some (JObj [(''POLLEK_DEK_ROUTER_URL'', JStr ''http://127.0.0.1:3000/v1/pdp/route'')])
      else if k = ''args'' then
        Some (JArr ([JStr ''--agent-id'', JStr ''agent_auto'', JStr ''--target-cmd'', JStr (server_command obj)] @ server_args obj))
      else if k = ''command'' then Some (JStr wrapper_command) else map_of obj k)"
  by (simp add: wrap_server_def update_conv)

text \<open>Every server with a command runs under the wrapper afterwards, and the servers keep their names.\<close>

lemma rewritten_servers_wrapped:
  assumes "(k, JObj obj) \<in> set (fst (rewrite_servers servers))"
  shows "server_command obj = [] \<or> server_command obj = wrapper_command"
proof -
  obtain j where "JObj obj = fst (rewrite_server j)" using assms by (auto simp: rewrite_servers_def)
  moreover have "server_command (wrap_server ob) = wrapper_command" for ob
    unfolding server_command_def [of "wrap_server ob"] by (simp add: wrap_server_lookup)
  ultimately show ?thesis by (cases j) (auto split: if_splits)
qed

lemma rewritten_servers_names: "map fst (fst (rewrite_servers servers)) = map fst servers"
  by (simp add: rewrite_servers_def case_prod_beta comp_def)

lemma apply_then_rollback:
  assumes "apply_binding_to_config env fs = (Inr (), fs1)" "fx_remove_ok env"
  shows "rollback_binding env fs1 = (Inr True, fs\<lparr>cf_backup := None\<rparr>)"
  using assms by (auto simp: apply_binding_to_config_def rollback_binding_def Let_def split: option.splits if_splits prod.splits)

text \<open>Wrapping a second time finds the wrapped servers, counts them as rewritten and overwrites the backup with the wrapped file: the original
  is lost.\<close>

lemma second_apply_loses_original:
  assumes "apply_binding_to_config env fs = (Inr (), fs1)" "apply_binding_to_config env fs1 = (Inr (), fs2)"
  shows "cf_backup fs2 = cf_config fs1"
  using assms by (auto simp: apply_binding_to_config_def Let_def split: option.splits if_splits prod.splits)

text \<open>The environment of a wrapped server is replaced, not extended.\<close>

lemma wrapped_server_env_lost:
  "map_of (wrap_server obj) ''env'' = Some (JObj [(''POLLEK_DEK_ROUTER_URL'', JStr ''http://127.0.0.1:3000/v1/pdp/route'')])"
  by (simp add: wrap_server_lookup)

subsection \<open>Checks of policy drafts\<close>

datatype policy_source = RawText string string | TemplateSource string json | Structured json

record validation_result =
  vr_is_valid :: bool
  vr_errors :: "string list"

record compilation_result =
  cr_success :: bool
  cr_bytecode :: "string option"
  cr_errors :: "string list"

record simulation_result =
  sr_allowed :: bool
  sr_log_output :: "string list"

record draft_env =
  dx_cedar_new :: "string \<Rightarrow> (string, unit) result"
  dx_cedar_evaluate :: "string \<Rightarrow> json \<Rightarrow> (string, cedar_effect \<times> string) result"
  dx_intent :: "json \<Rightarrow> (string, intent_doc) result"

definition language_key :: "string \<Rightarrow> string" where
  "language_key l = to_ascii_lowercase (filter (\<lambda>c. c \<noteq> CHR ''_'' \<and> c \<noteq> CHR ''-'') l)"

definition language_matches :: "string \<Rightarrow> string \<Rightarrow> bool" where
  "language_matches language expected \<longleftrightarrow> language_key language = language_key expected"

fun raw_text_for_language :: "policy_source \<Rightarrow> string \<Rightarrow> (string, string) result" where
  "raw_text_for_language (RawText language txt) expected =
     (if language_matches language expected then Inr txt else Inl (expected @ '' compiler cannot compile language '' @ language))"
| "raw_text_for_language _ expected = Inl (expected @ '' compiler requires raw text policy source'')"

definition raw_text_errors :: "draft_env \<Rightarrow> string \<Rightarrow> string \<Rightarrow> string list" where
  "raw_text_errors env language txt =
     (if language = ''rego'' then (if str_contains txt ''package '' then [] else [''Rego policy is missing a package declaration''])
      else if language = ''cedar'' then (case dx_cedar_new env txt of Inr _ \<Rightarrow> [] | Inl e \<Rightarrow> [e])
      else if language = ''openfga'' then
        (if str_contains txt ''model'' \<and> str_contains txt ''type '' then [] else [''OpenFGA model is missing model or type declarations''])
      else [''unsupported policy language: '' @ language])"

definition validate_raw_text :: "draft_env \<Rightarrow> string \<Rightarrow> string \<Rightarrow> validation_result" where
  "validate_raw_text env language txt =
     (let errors = raw_text_errors env language txt in \<lparr>vr_is_valid = (errors = []), vr_errors = errors\<rparr>)"

definition validate_raw_language :: "draft_env \<Rightarrow> policy_source \<Rightarrow> string \<Rightarrow> validation_result" where
  "validate_raw_language env source expected =
     (case raw_text_for_language source expected of
        Inr txt \<Rightarrow> validate_raw_text env expected txt
      | Inl e \<Rightarrow> \<lparr>vr_is_valid = False, vr_errors = [e]\<rparr>)"

definition compile_raw_text :: "draft_env \<Rightarrow> policy_source \<Rightarrow> string \<Rightarrow> (string, compilation_result) result" where
  "compile_raw_text env source expected =
     (case raw_text_for_language source expected of
        Inl e \<Rightarrow> Inl e
      | Inr txt \<Rightarrow>
          let validation = validate_raw_text env expected txt in
          if \<not> vr_is_valid validation then Inr \<lparr>cr_success = False, cr_bytecode = None, cr_errors = vr_errors validation\<rparr>
          else Inr \<lparr>cr_success = True, cr_bytecode = Some txt, cr_errors = []\<rparr>)"

definition composite_validate :: "draft_env \<Rightarrow> policy_source \<Rightarrow> validation_result" where
  "composite_validate env source =
     (case source of
        Structured ir \<Rightarrow>
          (case dx_intent env ir of
             Inr intent \<Rightarrow>
               (case Adapter_Decision.compile intent of
                  Inr _ \<Rightarrow> \<lparr>vr_is_valid = True, vr_errors = []\<rparr>
                | Inl e \<Rightarrow> \<lparr>vr_is_valid = False, vr_errors = [show_compiler_error e]\<rparr>)
           | Inl e \<Rightarrow> \<lparr>vr_is_valid = False, vr_errors = [''invalid structured policy intent: '' @ e]\<rparr>)
      | _ \<Rightarrow> \<lparr>vr_is_valid = False, vr_errors = [''composite compiler requires structured policy intent'']\<rparr>)"

definition composite_compile :: "draft_env \<Rightarrow> policy_source \<Rightarrow> (string, compilation_result) result" where
  "composite_compile env source =
     (case source of
        Structured ir \<Rightarrow>
          (case dx_intent env ir of
             Inl e \<Rightarrow> Inl e
           | Inr intent \<Rightarrow>
               (case Adapter_Decision.compile intent of
                  Inr c \<Rightarrow> Inr \<lparr>cr_success = True, cr_bytecode = Some (cp_compiled_bytes c), cr_errors = []\<rparr>
                | Inl e \<Rightarrow> Inr \<lparr>cr_success = False, cr_bytecode = None, cr_errors = [show_compiler_error e]\<rparr>))
      | _ \<Rightarrow> Inr \<lparr>cr_success = False, cr_bytecode = None, cr_errors = [''composite compiler requires structured policy intent'']\<rparr>)"

datatype draft_compiler = RegoCompiler | CedarCompiler | OpenFgaCompiler | CompositeCompiler

fun draft_validate :: "draft_env \<Rightarrow> draft_compiler \<Rightarrow> policy_source \<Rightarrow> validation_result" where
  "draft_validate env RegoCompiler source = validate_raw_language env source ''rego''"
| "draft_validate env CedarCompiler source = validate_raw_language env source ''cedar''"
| "draft_validate env OpenFgaCompiler source = validate_raw_language env source ''openfga''"
| "draft_validate env CompositeCompiler source = composite_validate env source"

fun draft_compile :: "draft_env \<Rightarrow> draft_compiler \<Rightarrow> policy_source \<Rightarrow> (string, compilation_result) result" where
  "draft_compile env RegoCompiler source = compile_raw_text env source ''rego''"
| "draft_compile env CedarCompiler source = compile_raw_text env source ''cedar''"
| "draft_compile env OpenFgaCompiler source = compile_raw_text env source ''openfga''"
| "draft_compile env CompositeCompiler source = composite_compile env source"

definition simulate_closed :: "validation_result \<Rightarrow> string \<Rightarrow> simulation_result" where
  "simulate_closed v message = \<lparr>sr_allowed = False, sr_log_output = (if vr_is_valid v then [message] else vr_errors v)\<rparr>"

fun simulate_draft :: "draft_env \<Rightarrow> draft_compiler \<Rightarrow> policy_source \<Rightarrow> json \<Rightarrow> (string, simulation_result) result" where
  "simulate_draft env RegoCompiler source input =
     Inr (simulate_closed (validate_raw_language env source ''rego'') ''Rego local simulation is not available; fail closed.'')"
| "simulate_draft env CedarCompiler source input =
     (case raw_text_for_language source ''cedar'' of
        Inl e \<Rightarrow> Inl e
      | Inr txt \<Rightarrow>
          (case dx_cedar_new env txt of
             Inl e \<Rightarrow> Inl e
           | Inr _ \<Rightarrow>
               (case dx_cedar_evaluate env txt input of
                  Inl e \<Rightarrow> Inl e
                | Inr (eff, reason) \<Rightarrow> Inr \<lparr>sr_allowed = (eff = CeAllow), sr_log_output = [reason]\<rparr>)))"
| "simulate_draft env OpenFgaCompiler source input =
     Inr (simulate_closed (validate_raw_language env source ''openfga'') ''OpenFGA local simulation requires a configured OpenFGA runtime; fail closed.'')"
| "simulate_draft env CompositeCompiler source input =
     Inr (simulate_closed (composite_validate env source) ''Composite policy simulation must run through the selected PDP route; fail closed.'')"

lemma simulation_fails_closed:
  "simulate_draft env c source input = Inr r \<Longrightarrow> sr_allowed r \<Longrightarrow>
     c = CedarCompiler \<and> (\<exists>txt reason. raw_text_for_language source ''cedar'' = Inr txt \<and> dx_cedar_new env txt = Inr ()
       \<and> dx_cedar_evaluate env txt input = Inr (CeAllow, reason))"
  by (cases c) (auto simp: simulate_closed_def split: sum.splits)

lemma compile_raw_text_valid:
  "compile_raw_text env source l = Inr r \<Longrightarrow> cr_success r \<longleftrightarrow> vr_is_valid (validate_raw_language env source l)"
  by (auto simp: compile_raw_text_def validate_raw_language_def Let_def split: sum.splits if_splits)

lemma draft_compile_valid: "draft_compile env c source = Inr r \<Longrightarrow> cr_success r \<longleftrightarrow> vr_is_valid (draft_validate env c source)"
  by (cases c) (auto simp: compile_raw_text_valid composite_compile_def composite_validate_def split: policy_source.splits sum.splits)

text \<open>The compiler validates a source and hands its text on unchanged: it takes a comment for a package declaration.\<close>

lemma rego_comment_compiles:
  "compile_raw_text env (RawText ''rego'' ''# no package here'') ''rego'' = Inr \<lparr>cr_success = True, cr_bytecode = Some ''# no package here'', cr_errors = []\<rparr>"
proof -
  have "str_contains ''# no package here'' ''package ''" by code_simp
  then show ?thesis by (simp add: compile_raw_text_def language_matches_def validate_raw_text_def raw_text_errors_def del: str_contains.simps)
qed

end
