(* ===== verification/Proxy_Properties.thy ===== *)
theory Proxy_Properties
  imports Mcp_Proxy Router_Properties
begin

text \<open>
  Properties of the enforcement point as a whole: every gate stands between a request and its answer, permits
  come back, and a request that a gate stopped never reaches the policy engines.
\<close>

subsection \<open>Stages\<close>

lemma merged_obligations [simp]: "set (merge_obligation_kinds extra ds) = set extra \<union> set ds"
proof -
  have "set (fold push_unique ds extra) = set extra \<union> set ds"
    by (induction ds arbitrary: extra) (auto simp: push_unique_def)
  then show ?thesis by (simp add: merge_obligation_kinds_def)
qed

text \<open>What no stage of a request changes, and what a stage that answers early leaves alone.\<close>

lemmas emit_defs = emit_async_def emit_guard_event_def record_decision_def queue_shadow_def

lemma emit_guard_event_frame [frame_simps]:
  "as_snapshot (emit_guard_event ev d prio st) = as_snapshot st" "as_admission (emit_guard_event ev d prio st) = as_admission st"
  "as_guard_pipeline (emit_guard_event ev d prio st) = as_guard_pipeline st" "as_gate (emit_guard_event ev d prio st) = as_gate st"
  "as_rate_limiter (emit_guard_event ev d prio st) = as_rate_limiter st" "as_observer (emit_guard_event ev d prio st) = as_observer st"
  by (simp_all add: emit_guard_event_def emit_async_def)

lemma filter_response_result:
  assumes "filter_response_payload env st v force t a dv = Some (f, st')"
  shows "\<exists>y. scan_response (px_guard env) (as_guard_pipeline st) v = Some y \<and> (rfo_action f = GDeny \<longleftrightarrow> go_action y = GDeny)"
    and "as_snapshot st' = as_snapshot st" and "as_admission st' = as_admission st" and "as_observer st' = as_observer st"
    and "as_guard_pipeline st' = as_guard_pipeline st"
  using assms unfolding filter_response_payload_def
  by (auto simp: Let_def frame_simps split: if_splits prod.splits bind_splits)

lemma record_decision_frame [frame_simps]:
  "as_snapshot (record_decision env e t dv d obs st) = as_snapshot st" "as_admission (record_decision env e t dv d obs st) = as_admission st"
  "as_guard_pipeline (record_decision env e t dv d obs st) = as_guard_pipeline st"
  "as_observer (record_decision env e t dv d obs st) =
     observer_append (px_append_failure env) (decision_observation env e t d obs) (as_observer st)"
  by (simp_all add: record_decision_def emit_async_def Let_def)

lemma queue_shadow_frame [frame_simps]:
  "as_snapshot (queue_shadow i st) = as_snapshot st" "as_admission (queue_shadow i st) = as_admission st"
  "as_guard_pipeline (queue_shadow i st) = as_guard_pipeline st" "as_observer (queue_shadow i st) = as_observer st"
  by (simp_all add: queue_shadow_def)

lemma emit_async_frame [frame_simps]:
  "as_snapshot (emit_async ev prio st) = as_snapshot st" "as_admission (emit_async ev prio st) = as_admission st"
  "as_guard_pipeline (emit_async ev prio st) = as_guard_pipeline st" "as_observer (emit_async ev prio st) = as_observer st"
  by (simp_all add: emit_async_def)

text \<open>A request whose decision is concluded is either put through the response guard or refused.\<close>

definition concluded :: "'k proxy_env \<Rightarrow> normalized_mcp_event \<Rightarrow> string \<Rightarrow> string list \<Rightarrow> policy_decision \<Rightarrow> app_state \<Rightarrow> app_state \<Rightarrow> bool" where
  "concluded env e t obs d st st' \<longleftrightarrow>
     as_snapshot st' = as_snapshot st \<and> as_admission st' = as_admission st \<and> as_guard_pipeline st' = as_guard_pipeline st \<and>
     as_observer st' = observer_append (px_append_failure env) (decision_observation env e t d obs) (as_observer st)"

lemma concluded_filter:
  assumes "concluded env e t obs d st st2" and "filter_response_payload env st2 v force t' a dv = Some (f, st')"
  shows "concluded env e t obs d st st'"
  using assms(1) filter_response_result(2-5) [OF assms(2)] by (simp add: concluded_def)

lemma conclude_cases:
  fixes d extra who
  defines "obs \<equiv> merge_obligation_kinds extra (pd_obligations d)"
  defines "good \<equiv> pd_allow d \<and> ''require_approval'' \<notin> set obs \<and> (''step_up_mfa'' \<in> set obs \<longrightarrow> has_mfa (id_claims who))"
  assumes "conclude_request env payload who e t dv extra d st = Some ((s, b), st')"
  obtains (refused) "\<not> good" "s = 403" "concluded env e t obs d st st'"
  | (filtered) f st2 where "good" "concluded env e t obs d st st2"
      "filter_response_payload env st2 (allowed_reply env d obs) (''redact_content'' \<in> set obs) (Some t) (ne_agent_id e) (Some dv) = Some (f, st')"
      "s = (if rfo_action f = GDeny then 403 else 200)"
proof (cases good)
  case True
  let ?st2 = "record_decision env e t dv d obs st"
  have "concluded env e t obs d st ?st2" by (simp add: concluded_def frame_simps)
  moreover have "\<exists>f. filter_response_payload env ?st2 (allowed_reply env d obs) (''redact_content'' \<in> set obs) (Some t) (ne_agent_id e) (Some dv) = Some (f, st') \<and>
      s = (if rfo_action f = GDeny then 403 else 200)"
    using assms(3) True unfolding conclude_request_def obs_def [symmetric] Let_def good_def
    by (auto split: if_splits)
  ultimately show thesis using True filtered by blast
next
  case False
  let ?st1 = "record_decision env e t dv d obs st"
  have "s = 403 \<and> (st' = ?st1 \<or> (\<exists>ev prio. st' = emit_async ev prio ?st1))"
    using assms(3) False unfolding conclude_request_def obs_def [symmetric] Let_def good_def
    by (auto split: if_splits)
  then have "s = 403" "concluded env e t obs d st st'" by (auto simp: concluded_def frame_simps)
  with False show thesis using refused by blast
qed

lemma conclude_exact:
  assumes "conclude_request env payload who e t dv extra d st = Some ((s, b), st')"
  shows "s = 200 \<longleftrightarrow> pd_allow d \<and> ''require_approval'' \<notin> set extra \<union> set (pd_obligations d) \<and>
      (''step_up_mfa'' \<in> set extra \<union> set (pd_obligations d) \<longrightarrow> has_mfa (id_claims who)) \<and>
      (\<exists>y. scan_response (px_guard env) (as_guard_pipeline st)
         (allowed_reply env d (merge_obligation_kinds extra (pd_obligations d))) = Some y \<and> go_action y \<noteq> GDeny)"
    and "s = 200 \<or> s = 403"
    and "concluded env e t (merge_obligation_kinds extra (pd_obligations d)) d st st'"
proof -
  let ?obs = "merge_obligation_kinds extra (pd_obligations d)"
  let ?scan = "scan_response (px_guard env) (as_guard_pipeline st) (allowed_reply env d ?obs)"
  have "(s = 200 \<longleftrightarrow> pd_allow d \<and> ''require_approval'' \<notin> set ?obs \<and> (''step_up_mfa'' \<in> set ?obs \<longrightarrow> has_mfa (id_claims who)) \<and>
      (\<exists>y. ?scan = Some y \<and> go_action y \<noteq> GDeny)) \<and> (s = 200 \<or> s = 403) \<and> concluded env e t ?obs d st st'"
    using assms
  proof (cases rule: conclude_cases)
    case refused
    then show ?thesis by auto
  next
    case (filtered f st2)
    from filtered(2) have "as_guard_pipeline st2 = as_guard_pipeline st" by (simp add: concluded_def)
    with filter_response_result(1) [OF filtered(3)] obtain y where "?scan = Some y" "rfo_action f = GDeny \<longleftrightarrow> go_action y = GDeny"
      by auto
    with filtered(1,4) concluded_filter [OF filtered(2,3)] show ?thesis by auto
  qed
  then show "s = 200 \<longleftrightarrow> pd_allow d \<and> ''require_approval'' \<notin> set extra \<union> set (pd_obligations d) \<and>
      (''step_up_mfa'' \<in> set extra \<union> set (pd_obligations d) \<longrightarrow> has_mfa (id_claims who)) \<and> (\<exists>y. ?scan = Some y \<and> go_action y \<noteq> GDeny)"
    and "s = 200 \<or> s = 403" and "concluded env e t ?obs d st st'"
    unfolding merged_obligations by blast+
qed

definition decision_permits :: "'k proxy_env \<Rightarrow> guard_pipeline \<Rightarrow> identity \<Rightarrow> string list \<Rightarrow> policy_decision \<Rightarrow> bool" where
  "decision_permits env gp who extra d \<longleftrightarrow>
     pd_allow d \<and> ''require_approval'' \<notin> set extra \<union> set (pd_obligations d) \<and>
     (''step_up_mfa'' \<in> set extra \<union> set (pd_obligations d) \<longrightarrow> has_mfa (id_claims who)) \<and>
     (\<exists>y. scan_response (px_guard env) gp (allowed_reply env d (merge_obligation_kinds extra (pd_obligations d))) = Some y \<and>
          go_action y \<noteq> GDeny)"

lemma conclude_permits:
  assumes "conclude_request env payload who e t dv extra d st = Some ((s, b), st')"
  shows "s = 200 \<longleftrightarrow> decision_permits env (as_guard_pipeline st) who extra d"
  using conclude_exact(1) [OF assms] unfolding decision_permits_def .

definition routed :: "'k proxy_env \<Rightarrow> json \<Rightarrow> app_state \<Rightarrow> authorize_result" where
  "routed env input st = authorize (sn_router (as_snapshot st)) input (px_now env)"

lemma evaluate_exact:
  assumes "evaluate_request env payload who e t extra input st = Some ((s, b), st')"
  shows "s = 200 \<longleftrightarrow> fst (strict_deny_reason (as_gate st) (px_status_file env) (px_now env)) = None \<and>
      decision_permits env (as_guard_pipeline st) who extra (ar_decision (routed env input st))"
    and "s = 200 \<or> s = 403" and "as_admission st' = as_admission st" and "as_guard_pipeline st' = as_guard_pipeline st"
proof -
  obtain r g where g: "strict_deny_reason (as_gate st) (px_status_file env) (px_now env) = (r, g)" by fastforce
  have "(s = 200 \<longleftrightarrow> r = None \<and> decision_permits env (as_guard_pipeline st) who extra (ar_decision (routed env input st))) \<and>
    (s = 200 \<or> s = 403) \<and> as_admission st' = as_admission st \<and> as_guard_pipeline st' = as_guard_pipeline st"
  proof (cases r)
    case None
    let ?st1 = "queue_shadow input (st\<lparr>as_gate := g, as_snapshot := (as_snapshot st)\<lparr>sn_router := ar_router (routed env input st)\<rparr>\<rparr>)"
    have c: "conclude_request env payload who e t (dm_device_id (sn_metadata (as_snapshot st))) extra
        (ar_decision (routed env input st)) ?st1 = Some ((s, b), st')"
      using assms g None by (simp add: evaluate_request_def routed_def Let_def)
    show ?thesis
      using conclude_permits [OF c] conclude_exact(2,3) [OF c] None by (simp add: frame_simps concluded_def)
  next
    case (Some reason)
    then show ?thesis using assms g by (auto simp: evaluate_request_def forbidden_def)
  qed
  then show "s = 200 \<longleftrightarrow> fst (strict_deny_reason (as_gate st) (px_status_file env) (px_now env)) = None \<and>
      decision_permits env (as_guard_pipeline st) who extra (ar_decision (routed env input st))"
    and "s = 200 \<or> s = 403" and "as_admission st' = as_admission st" and "as_guard_pipeline st' = as_guard_pipeline st"
    using g by auto
qed

lemma limit_exact:
  assumes "limit_request env payload who e t extra input st = Some ((s, b), st')"
  shows "s = 200 \<longleftrightarrow> enforce_trust (trust_of env e st) \<noteq> TrustKillSwitch \<and>
      fst (check_at (as_rate_limiter st) (rate_key e) (px_now env)) = RateAllow \<and>
      fst (strict_deny_reason (as_gate st) (px_status_file env) (px_now env)) = None \<and>
      decision_permits env (as_guard_pipeline st) who
        (if enforce_trust (trust_of env e st) = TrustRequireApproval then extra @ [''require_approval''] else extra)
        (ar_decision (routed env input st))"
    and "as_admission st' = as_admission st" and "as_guard_pipeline st' = as_guard_pipeline st"
proof -
  obtain v rl where v: "check_at (as_rate_limiter st) (rate_key e) (px_now env) = (v, rl)" by fastforce
  let ?extra = "if enforce_trust (trust_of env e st) = TrustRequireApproval then extra @ [''require_approval''] else extra"
  have "(s = 200 \<longleftrightarrow> enforce_trust (trust_of env e st) \<noteq> TrustKillSwitch \<and> v = RateAllow \<and>
      fst (strict_deny_reason (as_gate st) (px_status_file env) (px_now env)) = None \<and>
      decision_permits env (as_guard_pipeline st) who ?extra (ar_decision (routed env input st))) \<and>
      as_admission st' = as_admission st \<and> as_guard_pipeline st' = as_guard_pipeline st"
  proof (cases "enforce_trust (trust_of env e st) = TrustKillSwitch \<or> v = Throttled")
    case True
    then show ?thesis using assms v by (auto simp: limit_request_def forbidden_def Let_def split: if_splits)
  next
    case False
    then have c: "evaluate_request env payload who e t ?extra input (st\<lparr>as_rate_limiter := rl\<rparr>) = Some ((s, b), st')"
      using assms v by (simp add: limit_request_def Let_def)
    from False have "v = RateAllow" by (cases v) simp_all
    with evaluate_exact [OF c] False show ?thesis by (simp add: routed_def)
  qed
  then show "s = 200 \<longleftrightarrow> enforce_trust (trust_of env e st) \<noteq> TrustKillSwitch \<and>
      fst (check_at (as_rate_limiter st) (rate_key e) (px_now env)) = RateAllow \<and>
      fst (strict_deny_reason (as_gate st) (px_status_file env) (px_now env)) = None \<and>
      decision_permits env (as_guard_pipeline st) who ?extra (ar_decision (routed env input st))"
    and "as_admission st' = as_admission st" and "as_guard_pipeline st' = as_guard_pipeline st"
    using v by simp_all
qed

text \<open>A trust score that asks for approval refuses the request, because nothing grants approval.\<close>

lemma limit_normal:
  assumes "limit_request env payload who e t extra input st = Some ((s, b), st')"
  shows "s = 200 \<longleftrightarrow> enforce_trust (trust_of env e st) = TrustNormal \<and>
      fst (check_at (as_rate_limiter st) (rate_key e) (px_now env)) = RateAllow \<and>
      fst (strict_deny_reason (as_gate st) (px_status_file env) (px_now env)) = None \<and>
      decision_permits env (as_guard_pipeline st) who extra (ar_decision (routed env input st))"
  unfolding limit_exact(1) [OF assms]
  by (cases "enforce_trust (trust_of env e st)") (simp_all add: decision_permits_def)

definition request_input :: "'k proxy_env \<Rightarrow> json \<Rightarrow> identity \<Rightarrow> string \<Rightarrow> guard_outcome \<Rightarrow> app_state \<Rightarrow> json" where
  "request_input env payload who t x st =
     (let e = request_event env payload who t st
      in decision_input env e t (dm_device_id (sn_metadata (as_snapshot st))) (id_principal who)
           (policy_input e (id_principal who) (case go_redacted_payload x of Some p \<Rightarrow> p | None \<Rightarrow> extract_tool_params e)))"

definition guard_obligation :: "guard_outcome \<Rightarrow> string list" where
  "guard_obligation x = (if go_action x = GRedact then [''redact_content''] else [])"

lemma trust_of_cong: "as_observer st = as_observer st' \<Longrightarrow> trust_of env e st = trust_of env e st'"
  by (simp add: trust_of_def)

lemma guard_exact:
  assumes "guard_request env payload who t st = Some ((s, b), st')"
  shows "\<exists>x. scan_request (px_guard env) (as_guard_pipeline st) (extract_tool_params (request_event env payload who t st)) = Some x \<and>
    (s = 200 \<longleftrightarrow> go_action x \<noteq> GDeny \<and> enforce_trust (trust_of env (request_event env payload who t st) st) = TrustNormal \<and>
      fst (check_at (as_rate_limiter st) (rate_key (request_event env payload who t st)) (px_now env)) = RateAllow \<and>
      fst (strict_deny_reason (as_gate st) (px_status_file env) (px_now env)) = None \<and>
      decision_permits env (as_guard_pipeline st) who (guard_obligation x)
        (ar_decision (routed env (request_input env payload who t x st) st))) \<and>
    as_admission st' = as_admission st \<and> as_guard_pipeline st' = as_guard_pipeline st"
proof -
  let ?e = "request_event env payload who t st" and ?dv = "dm_device_id (sn_metadata (as_snapshot st))"
  obtain x where x: "scan_request (px_guard env) (as_guard_pipeline st) (extract_tool_params ?e) = Some x"
    using assms unfolding guard_request_def Let_def by (cases "scan_request (px_guard env) (as_guard_pipeline st) (extract_tool_params ?e)") auto
  show ?thesis
  proof (cases "go_action x")
    case GDeny
    with assms x show ?thesis by (auto simp: guard_request_def Let_def frame_simps)
  next
    case GAllow
    then have "limit_request env payload who ?e t [] (request_input env payload who t x st) st = Some ((s, b), st')"
      using assms x by (simp add: guard_request_def request_input_def Let_def)
    from limit_normal [OF this] limit_exact(2,3) [OF this] x GAllow show ?thesis by (simp add: guard_obligation_def)
  next
    case GRedact
    then obtain st1 where "limit_request env payload who ?e t [''redact_content''] (request_input env payload who t x st) st1 = Some ((s, b), st')"
      and st1: "\<exists>ev prio. st1 = emit_guard_event ev (Some ?dv) prio st"
      using assms x by (auto simp: guard_request_def request_input_def Let_def)
    from limit_normal [OF this(1)] limit_exact(2,3) [OF this(1)] x GRedact st1
    show ?thesis by (auto simp: guard_obligation_def routed_def frame_simps trust_of_def)
  qed
qed

lemma admit_cases:
  obtains (admitted) ac where "try_admit a t = (Some t, ac)" | (full) ac where "try_admit a t = (None, ac)"
proof (cases "global_sem a \<noteq> 0 \<and> tenant_available a t \<noteq> 0")
  case True
  then show thesis using admitted try_admit_admitted [OF True] by (cases "try_admit a t") simp
next
  case False
  then have "global_sem a = 0 \<or> tenant_available a t = 0" by blast
  from try_admit_refused [OF this] show thesis using full by (cases "try_admit a t") simp
qed

text \<open>What a request that got past authentication and admission is worth.\<close>

lemma handle_cases:
  assumes "handle_mcp_request env h payload st = Some ((s, b), st')"
  obtains (unauthenticated) "\<And>token who. extract_bearer h = Inr token \<Longrightarrow> verify_token (px_jwt env) (sn_verifier (as_snapshot st)) token \<noteq> Inr who"
      "s = 401 \<or> s = 500" "st' = st"
  | (refused) token who ac where "extract_bearer h = Inr token" "verify_token (px_jwt env) (sn_verifier (as_snapshot st)) token = Inr who"
      "try_admit (as_admission st) (str_or (dm_tenant_id (sn_metadata (as_snapshot st))) (id_tenant_id who)) = (None, ac)"
      "s = 503" "st' = st\<lparr>as_admission := ac\<rparr>"
  | (running) token who t ac st2 where "extract_bearer h = Inr token" "verify_token (px_jwt env) (sn_verifier (as_snapshot st)) token = Inr who"
      "t = str_or (dm_tenant_id (sn_metadata (as_snapshot st))) (id_tenant_id who)" "try_admit (as_admission st) t = (Some t, ac)"
      "guard_request env payload who t (st\<lparr>as_admission := ac\<rparr>) = Some ((s, b), st2)"
      "st' = st2\<lparr>as_admission := drop_permit (as_admission st2) t\<rparr>"
proof (cases "\<exists>token who. extract_bearer h = Inr token \<and> verify_token (px_jwt env) (sn_verifier (as_snapshot st)) token = Inr who")
  case False
  then have "(s = 401 \<or> s = 500) \<and> st' = st"
    using assms by (auto simp: handle_mcp_request_def split: sum.splits if_splits)
  with False show thesis using unauthenticated by blast
next
  case True
  then obtain token who where a: "extract_bearer h = Inr token" "verify_token (px_jwt env) (sn_verifier (as_snapshot st)) token = Inr who"
    by blast
  let ?t = "str_or (dm_tenant_id (sn_metadata (as_snapshot st))) (id_tenant_id who)"
  show thesis
  proof (cases rule: admit_cases [of "as_admission st" ?t])
    case (admitted ac)
    then obtain st2 where "guard_request env payload who ?t (st\<lparr>as_admission := ac\<rparr>) = Some ((s, b), st2)"
        "st' = st2\<lparr>as_admission := drop_permit (as_admission st2) ?t\<rparr>"
      using assms a by (auto simp: handle_mcp_request_def Let_def)
    with a admitted show thesis using running by blast
  next
    case (full ac)
    then have "s = 503" "st' = st\<lparr>as_admission := ac\<rparr>"
      using assms a by (auto simp: handle_mcp_request_def Let_def)
    with a full show thesis using refused by blast
  qed
qed

subsection \<open>Properties\<close>

text \<open>
  C3. Complete mediation: a request is answered with success exactly when every gate lets it through. Its
  bearer token verifies under the live snapshot's verifier; the tenant has a free slot; the request guard does
  not deny the tool arguments; the agent's trust is normal; the rate limit allows the call; enforcement is not in
  strict deny; the router, given the redacted request, allows it and asks for no approval, and for
  multi-factor authentication only when the token's claims show it; and the response guard does not deny
  the answer.
\<close>

theorem complete_mediation:
  assumes "handle_mcp_request env h payload st = Some ((s, b), st')"
  shows "s = 200 \<longleftrightarrow> (\<exists>token who x y.
    extract_bearer h = Inr token \<and> verify_token (px_jwt env) (sn_verifier (as_snapshot st)) token = Inr who \<and>
    (let t = str_or (dm_tenant_id (sn_metadata (as_snapshot st))) (id_tenant_id who);
         e = request_event env payload who t st;
         d = ar_decision (authorize (sn_router (as_snapshot st)) (request_input env payload who t x st) (px_now env))
     in fst (try_admit (as_admission st) t) \<noteq> None \<and>
        scan_request (px_guard env) (as_guard_pipeline st) (extract_tool_params e) = Some x \<and> go_action x \<noteq> GDeny \<and>
        enforce_trust (trust_of env e st) = TrustNormal \<and>
        fst (check_at (as_rate_limiter st) (rate_key e) (px_now env)) = RateAllow \<and>
        fst (strict_deny_reason (as_gate st) (px_status_file env) (px_now env)) = None \<and>
        pd_allow d \<and> ''require_approval'' \<notin> set (pd_obligations d) \<and>
        (''step_up_mfa'' \<in> set (pd_obligations d) \<longrightarrow> has_mfa (id_claims who)) \<and>
        scan_response (px_guard env) (as_guard_pipeline st)
          (allowed_reply env d (merge_obligation_kinds (guard_obligation x) (pd_obligations d))) = Some y \<and>
        go_action y \<noteq> GDeny))"
  using assms
proof (cases rule: handle_cases)
  case unauthenticated
  then show ?thesis by fastforce
next
  case (refused token who ac)
  then show ?thesis by (simp add: Let_def)
next
  case (running token who t ac st2)
  from guard_exact [OF running(5)] obtain x where x:
      "scan_request (px_guard env) (as_guard_pipeline st) (extract_tool_params (request_event env payload who t st)) = Some x"
    and s: "s = 200 \<longleftrightarrow> go_action x \<noteq> GDeny \<and> enforce_trust (trust_of env (request_event env payload who t st) st) = TrustNormal \<and>
      fst (check_at (as_rate_limiter st) (rate_key (request_event env payload who t st)) (px_now env)) = RateAllow \<and>
      fst (strict_deny_reason (as_gate st) (px_status_file env) (px_now env)) = None \<and>
      decision_permits env (as_guard_pipeline st) who (guard_obligation x)
        (ar_decision (authorize (sn_router (as_snapshot st)) (request_input env payload who t x st) (px_now env)))"
    by (auto simp: request_event_def trust_of_def routed_def request_input_def)
  have "''require_approval'' \<notin> set (guard_obligation x)" "''step_up_mfa'' \<notin> set (guard_obligation x)"
    by (simp_all add: guard_obligation_def)
  then show ?thesis
    unfolding s using running(1-4) x by (auto simp: Let_def decision_permits_def)
qed

subsection \<open>Progress\<close>

text \<open>The handler answers whenever the guards and the redactor do.\<close>

definition guards_answer :: "'k proxy_env \<Rightarrow> app_state \<Rightarrow> bool" where
  "guards_answer env st \<longleftrightarrow>
     (\<forall>v. scan_request (px_guard env) (as_guard_pipeline st) v \<noteq> None) \<and>
     (\<forall>v. scan_response (px_guard env) (as_guard_pipeline st) v \<noteq> None) \<and> (\<forall>v. apply_pii_redaction env v \<noteq> None)"

lemma guards_answer_frame [simp]:
  "guards_answer env (emit_guard_event ev d prio st) = guards_answer env st"
  "guards_answer env (record_decision env' e t dv d' obs st) = guards_answer env st"
  "guards_answer env (queue_shadow i st) = guards_answer env st" "guards_answer env (st\<lparr>as_gate := g\<rparr>) = guards_answer env st"
  "guards_answer env (st\<lparr>as_snapshot := sn\<rparr>) = guards_answer env st" "guards_answer env (st\<lparr>as_rate_limiter := rl\<rparr>) = guards_answer env st"
  "guards_answer env (st\<lparr>as_admission := ac\<rparr>) = guards_answer env st"
  by (simp_all add: guards_answer_def frame_simps)

lemma filter_response_total:
  assumes "guards_answer env st"
  shows "filter_response_payload env st v force t a dv \<noteq> None"
proof -
  from assms have "scan_response (px_guard env) (as_guard_pipeline st) v \<noteq> None" unfolding guards_answer_def by blast
  then obtain x where x: "scan_response (px_guard env) (as_guard_pipeline st) v = Some x" by blast
  obtain w rs ap where w: "apply_guard_payload_transform (ge_text (px_guard env)) v x force = (w, rs, ap)" by (metis prod_cases3)
  from assms have "apply_pii_redaction env w \<noteq> None" unfolding guards_answer_def by blast
  then obtain q where "apply_pii_redaction env w = Some q" by blast
  with x w show ?thesis
    unfolding filter_response_payload_def by (cases q) (simp add: Let_def)
qed

lemma conclude_total: "guards_answer env st \<Longrightarrow> conclude_request env payload who e t dv extra d st \<noteq> None"
proof -
  let ?obs = "merge_obligation_kinds extra (pd_obligations d)"
  assume "guards_answer env st"
  then have "filter_response_payload env (record_decision env e t dv d ?obs st) (allowed_reply env d ?obs)
      (''redact_content'' \<in> set ?obs) (Some t) (ne_agent_id e) (Some dv) \<noteq> None"
    by (intro filter_response_total) simp
  then show ?thesis
    unfolding conclude_request_def Let_def by (simp del: not_None_eq merged_obligations add: split_def)
qed

lemma evaluate_total: "guards_answer env st \<Longrightarrow> evaluate_request env payload who e t extra input st \<noteq> None"
  unfolding evaluate_request_def Let_def
  by (cases "strict_deny_reason (as_gate st) (px_status_file env) (px_now env)"; cases "fst (strict_deny_reason (as_gate st) (px_status_file env) (px_now env))")
     (simp_all add: conclude_total del: not_None_eq)

lemma limit_total: "guards_answer env st \<Longrightarrow> limit_request env payload who e t extra input st \<noteq> None"
  unfolding limit_request_def Let_def
  by (cases "check_at (as_rate_limiter st) (rate_key e) (px_now env)") (simp add: evaluate_total del: not_None_eq)

lemma guard_total:
  assumes "guards_answer env st"
  shows "guard_request env payload who t st \<noteq> None"
proof -
  from assms have "scan_request (px_guard env) (as_guard_pipeline st) (extract_tool_params (request_event env payload who t st)) \<noteq> None"
    unfolding guards_answer_def by blast
  then obtain x where "scan_request (px_guard env) (as_guard_pipeline st) (extract_tool_params (request_event env payload who t st)) = Some x"
    by blast
  then show ?thesis
    using assms by (cases "go_action x") (simp_all add: guard_request_def Let_def limit_total del: not_None_eq)
qed

lemma handle_total: "guards_answer env st \<Longrightarrow> handle_mcp_request env h payload st \<noteq> None"
  unfolding handle_mcp_request_def Let_def
  by (simp add: guard_total split: sum.split option.split prod.split del: not_None_eq)

definition demo_metadata :: dek_metadata where
  "demo_metadata = \<lparr>dm_tenant_id = ''local'', dm_device_id = ''dev'', dm_spiffe_id = None, dm_jwt_public_key_pem = Some ''pem'',
     dm_jwks = None, dm_issuer_url = None, dm_audience = Some [''pollek''], dm_enterprise_profile = Developer\<rparr>"

definition demo_state :: app_state where
  "demo_state =
     \<lparr>as_snapshot = snapshot_new 1 ''b'' 1 (sample_router True [''pdp''] [] ''deny_overrides'') demo_metadata,
      as_shadow_snapshot = None, as_shadow_tasks = [], as_telemetry = None, as_admission = admission_new 4 2,
      as_rate_limiter = rate_limiter_new 10 1, as_observer = [],
      as_guard_pipeline = guard_pipeline_new demo_guard_env
        (default_guard_config\<lparr>gc_request_guard_enabled := False, gc_response_guard_enabled := False\<rparr>),
      as_gate = gate_new\<rparr>"

definition demo_proxy_env :: "string proxy_env" where
  "demo_proxy_env =
     \<lparr>px_jwt = demo_jwt_env, px_guard = demo_guard_env, px_from_str = (\<lambda>_. None), px_uuid = (\<lambda>_. ''id''), px_rfc3339 = ''now'',
      px_os = ''linux'', px_jcs = (\<lambda>_. None), px_sha256_hex = (\<lambda>_. ''00''), px_now = 0,
      px_status_file = Some \<lparr>es_state = Active 0, es_updated_unix = 0, es_bundle_version = None\<rparr>,
      px_baseline_failure = None, px_append_failure = None, px_latency_ms = 1,
      px_wasm_redactor = (\<lambda>v. Some v), px_plugin_regexes = None\<rparr>"

definition demo_call :: json where
  "demo_call = JObj [(''method'', JStr ''tools/call''), (''params'', JObj [(''name'', JStr ''test'')])]"

lemma sample_routed: "ctx_method (context_extract p) = ''test'' \<Longrightarrow>
    match_route (routes (sample_router ok required pool strategy)) (context_extract p) = Inr (sample_route required pool strategy)"
  by (simp add: sample_router_def sample_route_def set_routes_def route_matches_def)

lemma sample_allows:
  assumes "ctx_method (context_extract p) = ''test''"
  defines "d \<equiv> ar_decision (authorize (sample_router True [''pdp''] [] ''deny_overrides'') p 0)"
  shows "pd_allow d \<and> pd_obligations d = []"
proof -
  let ?r = "sample_route [''pdp''] [] ''deny_overrides''"
  let ?rt = "sample_router True [''pdp''] [] ''deny_overrides''"
  have r: "route_enforcement_mode ?r \<noteq> BreakGlass" "pdp_pool ?r = []" by (simp_all add: sample_route_def)
  have plan: "engine_plan_build ?r (context_extract p) av None =
      Some \<lparr>plan_evaluate_queue = [''pdp''], plan_fallback_queue = [], plan_shadow_pdps = []\<rparr>" for av
    by (simp add: engine_plan_build_def sample_route_def Let_def)
  have turn: "fst (eval_turn ?rt ?r p False ''pdp'' [] initial_decision 0) =
      (Continue, merge_decision initial_decision (sample_reply ''pdp'' True) ''deny_overrides'')"
    by (simp add: eval_turn_def permitted_def sample_evaluator sample_breaker permitted_at_def
        circuit_breaker_new_def evaluate_with_timeout_def sample_runtime_def merge_turn_def Let_def
        merge_decision_def merge_deny_def sample_reply_def initial_decision_def sample_route_def
        sample_router_def set_routes_def register_evaluator_def policy_router_new_def from_millis_def)
  then have "fst (eval_loop ?rt ?r p False [''pdp''] [] initial_decision 0) =
      merge_decision initial_decision (sample_reply ''pdp'' True) ''deny_overrides''"
    by (auto simp: split_def merge_decision_def merge_deny_def sample_reply_def initial_decision_def Let_def split: prod.splits)
  moreover have sel: "(if pdp_pool ?r \<noteq> [] then select_pdp_from_pool ?rt (pdp_pool ?r)
      (route_failover_strategy ?r) 0 else (None, ?rt)) = (None, ?rt)"
    by (simp add: r(2))
  ultimately have "d = (merge_decision initial_decision (sample_reply ''pdp'' True) ''deny_overrides'')\<lparr>pd_metadata := route_metadata ?r
      \<lparr>plan_evaluate_queue = [''pdp''], plan_fallback_queue = [], plan_shadow_pdps = []\<rparr>\<rparr>"
    using authorize_inner_routed(1) [OF sample_routed [OF assms(1)] r(1) sel, of False] plan by (simp add: d_def authorize_def)
  then show ?thesis
    by (simp add: merge_decision_def merge_deny_def sample_reply_def initial_decision_def Let_def)
qed

lemma demo_guards_answer: "guards_answer demo_proxy_env demo_state"
  by (simp add: guards_answer_def demo_state_def demo_proxy_env_def scan_request_def scan_response_def guard_pipeline_new_def
      apply_pii_redaction_def)

definition demo_identity :: identity where
  "demo_identity = \<lparr>id_principal = ''alice'', id_tenant_id = Some ''acme'', id_claims = demo_claims\<rparr>"

lemma demo_verified: "verify_token (px_jwt demo_proxy_env) (sn_verifier (as_snapshot demo_state)) ''tok'' = Inr demo_identity"
  using demo_verify
  by (simp add: demo_proxy_env_def demo_state_def snapshot_new_def demo_metadata_def demo_verifier_def demo_identity_def)

lemma demo_context:
  "ctx_method (context_extract (request_input demo_proxy_env demo_call demo_identity ''acme'' x demo_state)) = ''test''"
  by (simp add: request_input_def Let_def decision_input_def context_extract_def request_event_def normalize_request_def
      demo_call_def str_or_def or_else_def)

theorem complete_mediation_witness:
  "\<exists>b st'. handle_mcp_request demo_proxy_env (Some ''Bearer tok'') demo_call demo_state = Some ((200, b), st')"
proof -
  let ?env = demo_proxy_env and ?st = demo_state
  obtain s b st' where h: "handle_mcp_request ?env (Some ''Bearer tok'') demo_call ?st = Some ((s, b), st')"
    using handle_total [OF demo_guards_answer] by (metis option.exhaust prod.exhaust)
  have bearer: "extract_bearer (Some ''Bearer tok'') = Inr ''tok''"
    by (simp add: extract_bearer_def starts_with_def trim_def is_ws_def Let_def)
  have router: "sn_router (as_snapshot ?st) = sample_router True [''pdp''] [] ''deny_overrides''" "px_now ?env = 0"
    by (simp_all add: demo_state_def snapshot_new_def demo_proxy_env_def)
  have t: "str_or (dm_tenant_id (sn_metadata (as_snapshot ?st))) (id_tenant_id demo_identity) = ''acme''"
    by (simp add: demo_identity_def str_or_def)
  have "s = 200"
    unfolding complete_mediation [OF h] Let_def
    using bearer demo_verified sample_allows [OF demo_context [of outcome_allow]] router
    by (intro exI [of _ "''tok''"] exI [of _ demo_identity] exI [of _ outcome_allow])
       (simp add: t, simp add: demo_state_def demo_proxy_env_def scan_request_def scan_response_def guard_pipeline_new_def
         try_admit_def tenant_sem_def admission_new_def outcome_allow_def trust_of_def update_baseline_def recent_for_agent_def
         default_baseline_def calculate_trust_def enforce_trust_def check_at_def bucket_entry_def rate_limiter_new_def
         strict_deny_reason_def gate_new_def Let_def as_secs_f64_def)
  with h show ?thesis by blast
qed

text \<open>
  What the router sees of a request: the method of the routing context is the tool's name (the JSON-RPC
  method only when no tool is named), the resource type is always \<open>mcp_tool\<close>, and there is never a tool category or
  a severity. So a route for the method \<open>tools/call\<close> never matches a call of a tool of another name, and routes by category
  or severity never match traffic of this proxy.
\<close>

lemma proxy_route_context:
  "context_extract (request_input env payload who t x st) =
     \<lparr>ctx_payload = request_input env payload who t x st,
      ctx_method = (let m = (case get_str payload ''method'' of Some m \<Rightarrow> m | None \<Rightarrow> ''unknown'')
        in case Option.bind (json_get payload ''params'') (\<lambda>p. get_str p ''name'') of
             Some tool \<Rightarrow> if m = ''tools/call'' then tool else m | None \<Rightarrow> m),
      ctx_tool_category = None, ctx_resource_type = Some ''mcp_tool'', ctx_severity_level = None\<rparr>"
  by (simp add: request_input_def Let_def decision_input_def context_extract_def request_event_def normalize_request_def
      str_or_def or_else_def is_object_def split: option.split)

subsection \<open>Effects\<close>

text \<open>The one consultation of the router, and what it leaves behind.\<close>

definition consulted :: "'k proxy_env \<Rightarrow> normalized_mcp_event \<Rightarrow> string \<Rightarrow> string list \<Rightarrow> json \<Rightarrow> app_state \<Rightarrow> app_state \<Rightarrow> bool" where
  "consulted env e t extra input st st' \<longleftrightarrow>
     as_snapshot st' = (as_snapshot st)\<lparr>sn_router := ar_router (routed env input st)\<rparr> \<and>
     as_observer st' = observer_append (px_append_failure env)
       (decision_observation env e t (ar_decision (routed env input st))
          (merge_obligation_kinds extra (pd_obligations (ar_decision (routed env input st))))) (as_observer st)"

definition unconsulted :: "app_state \<Rightarrow> app_state \<Rightarrow> bool" where
  "unconsulted st st' \<longleftrightarrow> as_snapshot st' = as_snapshot st \<and> as_observer st' = as_observer st"

lemma evaluate_effects:
  assumes "evaluate_request env payload who e t extra input st = Some ((s, b), st')"
  shows "if fst (strict_deny_reason (as_gate st) (px_status_file env) (px_now env)) = None
    then consulted env e t extra input st st' else unconsulted st st'"
proof -
  obtain r g where g: "strict_deny_reason (as_gate st) (px_status_file env) (px_now env) = (r, g)" by fastforce
  show ?thesis
  proof (cases r)
    case None
    let ?st1 = "queue_shadow input (st\<lparr>as_gate := g, as_snapshot := (as_snapshot st)\<lparr>sn_router := ar_router (routed env input st)\<rparr>\<rparr>)"
    have "conclude_request env payload who e t (dm_device_id (sn_metadata (as_snapshot st))) extra
        (ar_decision (routed env input st)) ?st1 = Some ((s, b), st')"
      using assms g None by (simp add: evaluate_request_def routed_def Let_def)
    from conclude_exact(3) [OF this] None g show ?thesis by (simp add: concluded_def consulted_def frame_simps)
  next
    case (Some reason)
    then show ?thesis using assms g by (auto simp: evaluate_request_def unconsulted_def)
  qed
qed

definition trust_obligation :: "'k proxy_env \<Rightarrow> normalized_mcp_event \<Rightarrow> app_state \<Rightarrow> string list \<Rightarrow> string list" where
  "trust_obligation env e st extra =
     (if enforce_trust (trust_of env e st) = TrustRequireApproval then extra @ [''require_approval''] else extra)"

lemma limit_effects:
  assumes "limit_request env payload who e t extra input st = Some ((s, b), st')"
  shows "if enforce_trust (trust_of env e st) \<noteq> TrustKillSwitch \<and> fst (check_at (as_rate_limiter st) (rate_key e) (px_now env)) = RateAllow \<and>
      fst (strict_deny_reason (as_gate st) (px_status_file env) (px_now env)) = None
    then consulted env e t (trust_obligation env e st extra) input st st' else unconsulted st st'"
proof -
  obtain v rl where v: "check_at (as_rate_limiter st) (rate_key e) (px_now env) = (v, rl)" by fastforce
  show ?thesis
  proof (cases "enforce_trust (trust_of env e st) = TrustKillSwitch \<or> v = Throttled")
    case True
    then show ?thesis using assms v by (auto simp: limit_request_def unconsulted_def Let_def split: if_splits)
  next
    case False
    then have "evaluate_request env payload who e t (trust_obligation env e st extra) input (st\<lparr>as_rate_limiter := rl\<rparr>) = Some ((s, b), st')"
      using assms v by (simp add: limit_request_def trust_obligation_def Let_def)
    from evaluate_effects [OF this] False v show ?thesis
      by (cases v) (auto simp: consulted_def unconsulted_def routed_def split: if_splits)
  qed
qed

lemma guard_passes:
  assumes "guard_request env payload who t st = Some ((s, b), st')"
    and "scan_request (px_guard env) (as_guard_pipeline st) (extract_tool_params (request_event env payload who t st)) = Some x"
    and "go_action x \<noteq> GDeny"
  shows "\<exists>st1. limit_request env payload who (request_event env payload who t st) t (guard_obligation x)
      (request_input env payload who t x st) st1 = Some ((s, b), st') \<and>
    (st1 = st \<or> (\<exists>ev d prio. st1 = emit_guard_event ev d prio st))"
proof (cases "go_action x")
  case GAllow
  with assms show ?thesis by (auto simp: guard_request_def request_input_def guard_obligation_def Let_def)
next
  case GRedact
  with assms show ?thesis
    by (simp add: guard_request_def request_input_def guard_obligation_def Let_def) blast
qed (use assms in simp)

lemma guard_effects:
  assumes "guard_request env payload who t st = Some ((s, b), st')"
    and "scan_request (px_guard env) (as_guard_pipeline st) (extract_tool_params (request_event env payload who t st)) = Some x"
  shows "if go_action x \<noteq> GDeny \<and> enforce_trust (trust_of env (request_event env payload who t st) st) \<noteq> TrustKillSwitch \<and>
      fst (check_at (as_rate_limiter st) (rate_key (request_event env payload who t st)) (px_now env)) = RateAllow \<and>
      fst (strict_deny_reason (as_gate st) (px_status_file env) (px_now env)) = None
    then consulted env (request_event env payload who t st) t
      (trust_obligation env (request_event env payload who t st) st (guard_obligation x)) (request_input env payload who t x st) st st'
    else unconsulted st st'"
proof (cases "go_action x = GDeny")
  case True
  with assms show ?thesis by (auto simp: guard_request_def Let_def unconsulted_def frame_simps)
next
  case False
  then obtain st1 where l: "limit_request env payload who (request_event env payload who t st) t (guard_obligation x)
      (request_input env payload who t x st) st1 = Some ((s, b), st')"
    and st1: "st1 = st \<or> (\<exists>ev d prio. st1 = emit_guard_event ev d prio st)"
    using guard_passes [OF assms] by blast
  from st1 have "as_snapshot st1 = as_snapshot st" "as_observer st1 = as_observer st" "as_rate_limiter st1 = as_rate_limiter st"
      "as_gate st1 = as_gate st"
    by (auto simp: frame_simps)
  with limit_effects [OF l] False show ?thesis
    by (auto simp: trust_of_def trust_obligation_def consulted_def unconsulted_def routed_def split: if_splits)
qed

lemma admission_frame:
  "trust_of env e (st\<lparr>as_admission := ac\<rparr>) = trust_of env e st"
  "trust_obligation env e (st\<lparr>as_admission := ac\<rparr>) = trust_obligation env e st"
  by (simp_all add: trust_of_def trust_obligation_def fun_eq_iff)

text \<open>Every gate before the router is open for a request: who calls, for which tenant, and what the request guard made of it.\<close>

definition gates_open :: "'k proxy_env \<Rightarrow> string option \<Rightarrow> json \<Rightarrow> app_state \<Rightarrow> identity \<Rightarrow> string \<Rightarrow> guard_outcome \<Rightarrow> bool" where
  "gates_open env h payload st who t x \<longleftrightarrow>
     (\<exists>token. extract_bearer h = Inr token \<and> verify_token (px_jwt env) (sn_verifier (as_snapshot st)) token = Inr who) \<and>
     t = str_or (dm_tenant_id (sn_metadata (as_snapshot st))) (id_tenant_id who) \<and> fst (try_admit (as_admission st) t) \<noteq> None \<and>
     scan_request (px_guard env) (as_guard_pipeline st) (extract_tool_params (request_event env payload who t st)) = Some x \<and>
     go_action x \<noteq> GDeny \<and> enforce_trust (trust_of env (request_event env payload who t st) st) \<noteq> TrustKillSwitch \<and>
     fst (check_at (as_rate_limiter st) (rate_key (request_event env payload who t st)) (px_now env)) = RateAllow \<and>
     fst (strict_deny_reason (as_gate st) (px_status_file env) (px_now env)) = None"

lemma gates_effects:
  assumes "handle_mcp_request env h payload st = Some ((s, b), st')"
  shows "(\<forall>who t x. gates_open env h payload st who t x \<longrightarrow>
       consulted env (request_event env payload who t st) t
         (trust_obligation env (request_event env payload who t st) st (guard_obligation x)) (request_input env payload who t x st) st st') \<and>
    ((\<nexists>who t x. gates_open env h payload st who t x) \<longrightarrow> unconsulted st st')"
  using assms
proof (cases rule: handle_cases)
  case unauthenticated
  then show ?thesis by (auto simp: gates_open_def unconsulted_def)
next
  case (refused token who ac)
  then show ?thesis by (auto simp: gates_open_def unconsulted_def)
next
  case (running token who t ac st2)
  from guard_exact [OF running(5)] obtain x where x:
      "scan_request (px_guard env) (as_guard_pipeline st) (extract_tool_params (request_event env payload who t st)) = Some x"
    by (auto simp: request_event_def)
  let ?e = "request_event env payload who t st"
  let ?go = "go_action x \<noteq> GDeny \<and> enforce_trust (trust_of env ?e st) \<noteq> TrustKillSwitch \<and>
      fst (check_at (as_rate_limiter st) (rate_key ?e) (px_now env)) = RateAllow \<and>
      fst (strict_deny_reason (as_gate st) (px_status_file env) (px_now env)) = None"
  have e: "request_event env payload who t (st\<lparr>as_admission := ac\<rparr>) = ?e"
      "request_input env payload who t x (st\<lparr>as_admission := ac\<rparr>) = request_input env payload who t x st"
    by (simp_all add: request_event_def request_input_def)
  have effects: "if ?go then consulted env ?e t (trust_obligation env ?e st (guard_obligation x)) (request_input env payload who t x st) st st'
      else unconsulted st st'"
    using guard_effects [OF running(5), of x] x running(6)
    by (simp add: e admission_frame consulted_def unconsulted_def routed_def cong: if_cong split del: if_split)
  have "gates_open env h payload st who' t' x' \<longleftrightarrow> who' = who \<and> t' = t \<and> x' = x \<and> ?go" for who' t' x'
    using running(1-4) x by (auto simp: gates_open_def)
  then show ?thesis using effects by simp
qed

lemma permits_restored:
  assumes "handle_mcp_request env h payload st = Some ((s, b), st')"
  shows "available_global (as_admission st') = available_global (as_admission st) \<and> tenant_available (as_admission st') = tenant_available (as_admission st)"
  using assms
proof (cases rule: handle_cases)
  case (refused token who ac)
  let ?t = "str_or (dm_tenant_id (sn_metadata (as_snapshot st))) (id_tenant_id who)"
  have "global_sem (as_admission st) = 0 \<or> tenant_available (as_admission st) ?t = 0"
    using try_admit_admitted [of "as_admission st" ?t] refused(3) by force
  from try_admit_refused [OF this] refused show ?thesis by (simp add: available_global_def)
next
  case (running token who t ac st2)
  then have "as_admission st2 = ac" using guard_exact [OF running(5)] by auto
  then show ?thesis using permit_returned [OF running(4)] running(6) by (simp add: available_global_def)
qed simp

text \<open>
  C4. What a request leaves behind: every permit is back, globally and of each tenant. When all gates before the router are open (the
  caller is verified and admitted, the request guard passes, the trust score does not cut the agent off, the rate limit allows and
  enforcement is not in strict deny), the router is consulted once, on the redacted request, and its decision is appended to the
  observations. When they are not, no policy engine is consulted and nothing is recorded.
\<close>

theorem request_effects:
  assumes "handle_mcp_request env h payload st = Some ((s, b), st')"
  shows "available_global (as_admission st') = available_global (as_admission st) \<and>
    tenant_available (as_admission st') = tenant_available (as_admission st) \<and>
    (\<forall>who t x. gates_open env h payload st who t x \<longrightarrow>
       (let e = request_event env payload who t st;
            r = authorize (sn_router (as_snapshot st)) (request_input env payload who t x st) (px_now env)
        in as_snapshot st' = (as_snapshot st)\<lparr>sn_router := ar_router r\<rparr> \<and>
           as_observer st' = observer_append (px_append_failure env)
             (decision_observation env e t (ar_decision r)
                (merge_obligation_kinds (trust_obligation env e st (guard_obligation x)) (pd_obligations (ar_decision r)))) (as_observer st))) \<and>
    ((\<nexists>who t x. gates_open env h payload st who t x) \<longrightarrow> as_snapshot st' = as_snapshot st \<and> as_observer st' = as_observer st)"
  using gates_effects [OF assms] permits_restored [OF assms] by (simp add: consulted_def unconsulted_def routed_def Let_def)

theorem request_effects_witness:
  "\<exists>r st'. handle_mcp_request demo_proxy_env (Some ''Bearer tok'') demo_call demo_state = Some (r, st') \<and>
     tenant_available (as_admission st') = tenant_available (as_admission demo_state)"
proof -
  obtain s b st' where h: "handle_mcp_request demo_proxy_env (Some ''Bearer tok'') demo_call demo_state = Some ((s, b), st')"
    using handle_total [OF demo_guards_answer] by (metis option.exhaust prod.exhaust)
  with request_effects [OF h] show ?thesis by blast
qed

subsection \<open>The trust gate\<close>

text \<open>
  The proxy records every observation with an empty payload, and the trust score counts denials by the payload. So the
  gate never asks for approval, and the score has no value that reaches the kill switch.
\<close>

definition plain_store :: "app_state \<Rightarrow> bool" where
  "plain_store st \<longleftrightarrow> (\<forall>ev\<in>set (as_observer st). ob_payload_json ev = ''{}'')"

lemma plain_store_step:
  assumes "handle_mcp_request env h payload st = Some ((s, b), st')" and "plain_store st"
  shows "plain_store st'"
  using assms(1)
proof (cases rule: handle_cases)
  case (running token who t ac st2)
  from guard_exact [OF running(5)] obtain x where
    "scan_request (px_guard env) (as_guard_pipeline (st\<lparr>as_admission := ac\<rparr>))
      (extract_tool_params (request_event env payload who t (st\<lparr>as_admission := ac\<rparr>))) = Some x"
    by blast
  from guard_effects [OF running(5) this] have "as_observer st2 = as_observer st \<or> (\<exists>d obs.
      as_observer st2 = observer_append (px_append_failure env)
        (decision_observation env (request_event env payload who t (st\<lparr>as_admission := ac\<rparr>)) t d obs) (as_observer st))"
    by (auto simp: consulted_def unconsulted_def split: if_splits)
  moreover have "ob_payload_json (decision_observation env e t d obs) = ''{}''" for e d obs
    by (simp add: decision_observation_def Let_def)
  ultimately show ?thesis
    using running(6) assms(2) by (auto simp: plain_store_def observer_append_def split: if_splits)
qed (use assms(2) in \<open>simp_all add: plain_store_def\<close>)

lemma trust_gate_vacuous:
  assumes "plain_store st" and "px_from_str env ''{}'' = Some (JObj [])"
  shows "enforce_trust (trust_of env e st) = TrustNormal"
proof (cases "update_baseline (px_from_str env) (px_baseline_failure env) (str_or ''unknown'' (ne_agent_id e)) (as_observer st)")
  case (Inl err)
  then show ?thesis by (simp add: trust_of_def enforce_trust_def)
next
  case (Inr s)
  from empty_payloads_trusted [OF _ assms(2) this] assms(1) have "enforce_trust s = TrustNormal" by (simp add: plain_store_def)
  with Inr show ?thesis by (simp add: trust_of_def)
qed

end
