(* ===== verification/Secure_Spool.thy ===== *)
theory Secure_Spool
  imports Spool_Table Json_Value Utf8_Text
begin

text \<open>
  \<^verbatim>\<open>src/crates/dek-secure-spool\<close>: the encrypted segment files with their hash chain, and the SQLite spool. Parameters: the hash,
  the checksum, the authenticated cipher, the operating system's key store and the derived serialisers. A directory is the list of its
  files in the order the file system returns them; a file is its stem, its extension and its bytes. A write that
  fails may leave a part of the frame behind.
\<close>

datatype spool_error = SpFull nat nat | SpCrypto | SpIo string | SpSerde string | SpKeyManager string | SpEmptyPayload | SpTampered

subsection \<open>Audit chain\<close>

record audit_entry =
  ae_seq :: u64
  ae_timestamp :: string
  ae_payload_json :: string
  ae_prev_hash :: string
  ae_entry_hash :: string

definition audit_entry_new :: "(string \<Rightarrow> string) \<Rightarrow> u64 \<Rightarrow> string \<Rightarrow> string \<Rightarrow> string \<Rightarrow> audit_entry" where
  "audit_entry_new sha seq timestamp payload_json prev_hash =
     \<lparr>ae_seq = seq, ae_timestamp = timestamp, ae_payload_json = payload_json, ae_prev_hash = prev_hash,
      ae_entry_hash = sha (prev_hash @ payload_json)\<rparr>"

definition genesis :: string where
  "genesis = ''GENESIS''"

fun verify_from :: "(string \<Rightarrow> string) \<Rightarrow> string \<Rightarrow> audit_entry list \<Rightarrow> (u64, unit) result" where
  "verify_from sha prev [] = Inr ()"
| "verify_from sha prev (e # es) =
     (if ae_prev_hash e \<noteq> prev then Inl (ae_seq e)
      else if ae_entry_hash (audit_entry_new sha (ae_seq e) (ae_timestamp e) (ae_payload_json e) prev) \<noteq> ae_entry_hash e
      then Inl (ae_seq e)
      else verify_from sha (ae_entry_hash e) es)"

definition verify_chain :: "(string \<Rightarrow> string) \<Rightarrow> audit_entry list \<Rightarrow> (u64, unit) result" where
  "verify_chain sha entries = verify_from sha genesis entries"

subsection \<open>Records\<close>

record record_aad =
  ra_schema :: string
  ra_tenant_id :: string
  ra_device_id :: string
  ra_segment_id :: string
  ra_seq :: u64
  ra_key_id :: string
  ra_alg :: string

record encrypted_record =
  er_alg :: string
  er_key_id :: string
  er_nonce :: string
  er_aad :: record_aad
  er_ciphertext :: string

record aead_key =
  ak_key_id :: string
  ak_key_bytes :: string

record spool_event =
  se_schema_version :: string
  se_event_id :: string
  se_tenant_id :: string
  se_device_id :: string
  se_event_type :: string
  se_timestamp_unix_ms :: int
  se_body :: json

record spool_env =
  sx_sha256_hex :: "string \<Rightarrow> string"
  sx_crc32c :: "string \<Rightarrow> u32"
  sx_master_key :: "(string, string) result"
  sx_gcm_encrypt :: "string \<Rightarrow> string \<Rightarrow> string \<Rightarrow> string \<Rightarrow> string option"
  sx_gcm_decrypt :: "string \<Rightarrow> string \<Rightarrow> string \<Rightarrow> string \<Rightarrow> string option"
  sx_aad_bytes :: "record_aad \<Rightarrow> string option"
  sx_record_bytes :: "encrypted_record \<Rightarrow> string option"
  sx_record_from :: "string \<Rightarrow> encrypted_record option"
  sx_event_bytes :: "spool_event \<Rightarrow> string option"
  sx_event_from :: "string \<Rightarrow> spool_event option"
  sx_entry_to_value :: "audit_entry \<Rightarrow> json option"
  sx_entry_from_value :: "json \<Rightarrow> audit_entry option"
  sx_utf8_lossy :: "string \<Rightarrow> string"

definition encrypt_record :: "spool_env \<Rightarrow> aead_key \<Rightarrow> string \<Rightarrow> record_aad \<Rightarrow> string \<Rightarrow> encrypted_record option" where
  "encrypt_record env key nonce aad plaintext =
     Option.bind (sx_aad_bytes env aad) (\<lambda>aad_bytes.
     map_option (\<lambda>ct. \<lparr>er_alg = ''AES-256-GCM'', er_key_id = ak_key_id key, er_nonce = nonce, er_aad = aad, er_ciphertext = ct\<rparr>)
       (sx_gcm_encrypt env (ak_key_bytes key) nonce aad_bytes plaintext))"

definition decrypt_record :: "spool_env \<Rightarrow> aead_key \<Rightarrow> encrypted_record \<Rightarrow> string option" where
  "decrypt_record env key r =
     (if er_alg r \<noteq> ''AES-256-GCM'' \<or> er_key_id r \<noteq> ak_key_id key then None
      else Option.bind (sx_aad_bytes env (er_aad r)) (\<lambda>aad_bytes.
        sx_gcm_decrypt env (ak_key_bytes key) (er_nonce r) aad_bytes (er_ciphertext r)))"

definition active_aead_key :: "spool_env \<Rightarrow> (string, aead_key) result" where
  "active_aead_key env =
     (case sx_master_key env of Inl e \<Rightarrow> Inl e | Inr k \<Rightarrow> Inr \<lparr>ak_key_id = ''local-master-v1'', ak_key_bytes = k\<rparr>)"

subsection \<open>Segments\<close>

fun le_bytes :: "nat \<Rightarrow> nat \<Rightarrow> string" where
  "le_bytes 0 v = []"
| "le_bytes (Suc n) v = char_of (v mod 256) # le_bytes n (v div 256)"

fun from_le :: "string \<Rightarrow> nat" where
  "from_le [] = 0"
| "from_le (c # cs) = of_char c + 256 * from_le cs"

record segment_writer =
  sw_stem :: string
  sw_tenant_id :: string
  sw_device_id :: string
  sw_segment_id :: string
  sw_seq :: u64

record spool_file =
  sf_stem :: string
  sf_ext :: "string option"
  sf_bytes :: string

definition segment_header :: string where
  "segment_header = ''PDS1'' @ le_bytes 2 1"

definition segment_create :: "string \<Rightarrow> string \<Rightarrow> string \<Rightarrow> segment_writer \<times> spool_file" where
  "segment_create tenant_id device_id segment_id =
     (\<lparr>sw_stem = segment_id, sw_tenant_id = tenant_id, sw_device_id = device_id, sw_segment_id = segment_id, sw_seq = 0\<rparr>,
      \<lparr>sf_stem = segment_id, sf_ext = Some ''pds'', sf_bytes = segment_header\<rparr>)"

definition frame_bytes :: "spool_env \<Rightarrow> string \<Rightarrow> string" where
  "frame_bytes env frame = le_bytes 4 (length frame) @ frame @ le_bytes 4 (unat (sx_crc32c env frame))"

definition segment_frame :: "spool_env \<Rightarrow> aead_key \<Rightarrow> string \<Rightarrow> spool_event \<Rightarrow> segment_writer \<Rightarrow> (string, string) result" where
  "segment_frame env key nonce event w =
     (case sx_event_bytes env event of
        None \<Rightarrow> Inl ''invalid data''
      | Some plaintext \<Rightarrow>
     (case encrypt_record env key nonce
        \<lparr>ra_schema = ''pollek.spool.frame.v1'', ra_tenant_id = sw_tenant_id w, ra_device_id = sw_device_id w,
         ra_segment_id = sw_segment_id w, ra_seq = sw_seq w, ra_key_id = ak_key_id key, ra_alg = ''AES-256-GCM''\<rparr> plaintext of
        None \<Rightarrow> Inl ''encryption failed''
      | Some r \<Rightarrow>
     (case sx_record_bytes env r of
        None \<Rightarrow> Inl ''invalid data''
      | Some frame \<Rightarrow> if length frame > 4294967295 then Inl ''frame too large'' else Inr frame)))"

definition append_to :: "string \<Rightarrow> string \<Rightarrow> spool_file list \<Rightarrow> spool_file list" where
  "append_to stem bs = map (\<lambda>f. if sf_stem f = stem \<and> sf_ext f = Some ''pds'' then f\<lparr>sf_bytes := sf_bytes f @ bs\<rparr> else f)"

text \<open>\<open>torn\<close> is \<open>None\<close> when the whole frame reaches the file, otherwise how many of its bytes do before the write fails.\<close>

definition append_event :: "spool_env \<Rightarrow> nat option \<Rightarrow> aead_key \<Rightarrow> string \<Rightarrow> spool_event \<Rightarrow> segment_writer \<Rightarrow> spool_file list \<Rightarrow>
    (string, unit) result \<times> segment_writer \<times> spool_file list" where
  "append_event env torn key nonce event w files =
     (let w = w\<lparr>sw_seq := sw_seq w + 1\<rparr>
      in case segment_frame env key nonce event w of
           Inl e \<Rightarrow> (Inl e, w, files)
         | Inr frame \<Rightarrow>
             (case torn of
                None \<Rightarrow> (Inr (), w, append_to (sw_stem w) (frame_bytes env frame) files)
              | Some n \<Rightarrow> (Inl ''write failed'', w, append_to (sw_stem w) (take n (frame_bytes env frame)) files)))"

function read_frames :: "spool_env \<Rightarrow> string \<Rightarrow> (string, encrypted_record list) result" where
  "read_frames env bs =
     (if length bs < 4 then Inr []
      else let n = from_le (take 4 bs); rest = drop 4 bs
           in if n > 16 * 1024 * 1024 then Inl ''frame too large''
              else if length rest < n then Inl ''unexpected end of file''
              else let frame = take n rest; rest = drop n rest
                   in if length rest < 4 then Inl ''unexpected end of file''
                      else if from_le (take 4 rest) \<noteq> unat (sx_crc32c env frame) then Inl ''frame crc mismatch''
                      else case sx_record_from env frame of
                             None \<Rightarrow> Inl ''invalid data''
                           | Some r \<Rightarrow> map_sum id ((#) r) (read_frames env (drop 4 rest)))"
  by pat_completeness auto

termination
  by (relation "measure (\<lambda>(env, bs). length bs)") auto

declare read_frames.simps [simp del]

definition read_encrypted_records :: "spool_env \<Rightarrow> string \<Rightarrow> (string, encrypted_record list) result" where
  "read_encrypted_records env bs =
     (if length bs < 4 then Inl ''unexpected end of file''
      else if take 4 bs \<noteq> ''PDS1'' then Inl ''bad spool magic''
      else if length bs < 6 then Inl ''unexpected end of file''
      else if from_le (take 2 (drop 4 bs)) \<noteq> 1 then Inl ''unsupported spool version''
      else read_frames env (drop 6 bs))"

subsection \<open>Spool\<close>

record spool_state =
  ss_writer :: "segment_writer option"
  ss_current_segment_id :: string
  ss_current_size :: nat
  ss_last_hash :: string
  ss_seq :: u64

record spool =
  so_files :: "spool_file list"
  so_max_bytes :: nat
  so_has_key_manager :: bool
  so_tenant_id :: string
  so_device_id :: string
  so_state :: spool_state

definition spool_new :: "spool_file list \<Rightarrow> nat \<Rightarrow> bool \<Rightarrow> string \<Rightarrow> string \<Rightarrow> spool" where
  "spool_new files max_bytes has_key_manager tenant_id device_id =
     \<lparr>so_files = files, so_max_bytes = max_bytes, so_has_key_manager = has_key_manager, so_tenant_id = tenant_id,
      so_device_id = device_id,
      so_state = \<lparr>ss_writer = None, ss_current_segment_id = [], ss_current_size = 0, ss_last_hash = genesis, ss_seq = 0\<rparr>\<rparr>"

definition spool_default :: "spool_file list \<Rightarrow> spool" where
  "spool_default files = spool_new files 100 False ''local'' ''default''"

definition spool_current_size :: "spool \<Rightarrow> nat" where
  "spool_current_size s = sum_list (map (length \<circ> sf_bytes) (so_files s))"

definition ensure_capacity :: "spool \<Rightarrow> (spool_error, unit) result" where
  "ensure_capacity s =
     (if spool_current_size s > so_max_bytes s then Inl (SpFull (spool_current_size s) (so_max_bytes s)) else Inr ())"

definition spool_key :: "spool_env \<Rightarrow> spool \<Rightarrow> (spool_error, aead_key) result" where
  "spool_key env s =
     (if so_has_key_manager s then map_sum SpKeyManager id (active_aead_key env) else Inl (SpKeyManager ''No key manager provided''))"

text \<open>What one call of \<^verbatim>\<open>enqueue\<close> draws from outside.\<close>

record enqueue_io =
  eq_uuid :: string
  eq_segment_uuid :: string
  eq_rfc3339 :: string
  eq_unix_ms :: int
  eq_nonce :: string
  eq_create_ok :: bool
  eq_torn :: "nat option"

text \<open>
  \<^verbatim>\<open>enqueue\<close> takes the lock twice: first to number the entry and read the last hash, then to write the entry and store its hash. The
  two halves are separate definitions, so that calls can be interleaved between them.
\<close>

definition enqueue_begin :: "spool_env \<Rightarrow> string \<Rightarrow> spool \<Rightarrow> (spool_error, aead_key \<times> string \<times> u64) result \<times> spool" where
  "enqueue_begin env data s =
     (if data = [] then (Inl SpEmptyPayload, s)
      else case ensure_capacity s of
             Inl e \<Rightarrow> (Inl e, s)
           | Inr _ \<Rightarrow>
               (case spool_key env s of
                  Inl e \<Rightarrow> (Inl e, s)
                | Inr key \<Rightarrow>
                    let st = (so_state s)\<lparr>ss_seq := ss_seq (so_state s) + 1\<rparr>
                    in (Inr (key, ss_last_hash st, ss_seq st), s\<lparr>so_state := st\<rparr>)))"

definition spool_payload :: "spool_env \<Rightarrow> string \<Rightarrow> string" where
  "spool_payload env data = (case from_utf8 data of Some t \<Rightarrow> t | None \<Rightarrow> sx_utf8_lossy env data)"

definition spool_event_of :: "enqueue_io \<Rightarrow> spool \<Rightarrow> json \<Rightarrow> spool_event" where
  "spool_event_of io s body =
     \<lparr>se_schema_version = ''1.0'', se_event_id = eq_uuid io, se_tenant_id = so_tenant_id s, se_device_id = so_device_id s,
      se_event_type = ''raw'', se_timestamp_unix_ms = eq_unix_ms io, se_body = body\<rparr>"

definition open_writer :: "enqueue_io \<Rightarrow> spool \<Rightarrow> (spool_error, segment_writer \<times> spool) result" where
  "open_writer io s =
     (case ss_writer (so_state s) of
        Some w \<Rightarrow> Inr (w, s)
      | None \<Rightarrow>
          if \<not> eq_create_ok io \<or> (\<exists>f\<in>set (so_files s). sf_stem f = eq_segment_uuid io \<and> sf_ext f = Some ''pds'')
          then Inl (SpIo ''create failed'')
          else let (w, f) = segment_create (so_tenant_id s) (so_device_id s) (eq_segment_uuid io)
               in Inr (w, s\<lparr>so_files := so_files s @ [f],
                    so_state := (so_state s)\<lparr>ss_writer := Some w, ss_current_segment_id := eq_segment_uuid io\<rparr>\<rparr>))"

definition enqueue_commit :: "spool_env \<Rightarrow> enqueue_io \<Rightarrow> string \<Rightarrow> aead_key \<times> string \<times> u64 \<Rightarrow> spool \<Rightarrow> (spool_error, unit) result \<times> spool" where
  "enqueue_commit env io data ticket s =
     (let (key, prev_hash, seq) = ticket;
          entry = audit_entry_new (sx_sha256_hex env) seq (eq_rfc3339 io) (spool_payload env data) prev_hash
      in case sx_entry_to_value env entry of
           None \<Rightarrow> (Inl (SpSerde ''entry''), s)
         | Some body \<Rightarrow>
             (case open_writer io s of
                Inl e \<Rightarrow> (Inl e, s)
              | Inr (w, s) \<Rightarrow>
                  (case append_event env (eq_torn io) key (eq_nonce io) (spool_event_of io s body) w (so_files s) of
                     (Inl e, w, files) \<Rightarrow> (Inl (SpIo e), s\<lparr>so_files := files, so_state := (so_state s)\<lparr>ss_writer := Some w\<rparr>\<rparr>)
                   | (Inr _, w, files) \<Rightarrow>
                       (Inr (), s\<lparr>so_files := files, so_state := (so_state s)\<lparr>ss_writer := Some w, ss_last_hash := ae_entry_hash entry,
                          ss_current_size := ss_current_size (so_state s) + length data\<rparr>\<rparr>))))"

definition enqueue :: "spool_env \<Rightarrow> enqueue_io \<Rightarrow> string \<Rightarrow> spool \<Rightarrow> (spool_error, unit) result \<times> spool" where
  "enqueue env io data s =
     (case enqueue_begin env data s of
        (Inl e, s) \<Rightarrow> (Inl e, s)
      | (Inr ticket, s) \<Rightarrow> enqueue_commit env io data ticket s)"

definition record_entry :: "spool_env \<Rightarrow> aead_key \<Rightarrow> encrypted_record \<Rightarrow> audit_entry option" where
  "record_entry env key r =
     Option.bind (decrypt_record env key r) (\<lambda>plaintext.
     Option.bind (sx_event_from env plaintext) (\<lambda>event. sx_entry_from_value env (se_body event)))"

definition file_entries :: "spool_env \<Rightarrow> aead_key \<Rightarrow> spool_file \<Rightarrow> audit_entry list" where
  "file_entries env key f =
     (if sf_ext f = Some ''pds''
      then case read_encrypted_records env (sf_bytes f) of Inl _ \<Rightarrow> [] | Inr rs \<Rightarrow> List.map_filter (record_entry env key) rs
      else [])"

definition quarantine :: "spool_file list \<Rightarrow> spool_file list" where
  "quarantine files =
     (let moved = map sf_stem (filter (\<lambda>f. sf_ext f = Some ''pds'') files)
      in map (\<lambda>f. if sf_ext f = Some ''pds'' then f\<lparr>sf_ext := Some ''quarantine''\<rparr> else f)
           (filter (\<lambda>f. \<not> (sf_ext f = Some ''quarantine'' \<and> sf_stem f \<in> set moved)) files))"

definition replay :: "spool_env \<Rightarrow> spool \<Rightarrow> (spool_error, audit_entry list) result \<times> spool" where
  "replay env s =
     (case spool_key env s of
        Inl e \<Rightarrow> (Inl e, s)
      | Inr key \<Rightarrow>
          let results = sort_key (unat \<circ> ae_seq) (concat (map (file_entries env key) (so_files s)))
          in if results = [] then (Inr [], s)
             else case verify_chain (sx_sha256_hex env) results of
                    Inl _ \<Rightarrow> (Inl SpTampered, s\<lparr>so_files := quarantine (so_files s)\<rparr>)
                  | Inr _ \<Rightarrow>
                      (Inr results, s\<lparr>so_state := (so_state s)\<lparr>ss_seq := ae_seq (last results), ss_last_hash := ae_entry_hash (last results)\<rparr>\<rparr>))"

subsection \<open>SQLite spool\<close>

record sqlite_env =
  sq_encrypt :: "string \<Rightarrow> string \<Rightarrow> string option"
  sq_decrypt :: "string \<Rightarrow> string \<Rightarrow> string option"

text \<open>A poisoned lock is an error of every operation.\<close>

record sqlite_spool =
  sl_table :: spool_table
  sl_poisoned :: bool

definition sqlite_new :: "int \<Rightarrow> sqlite_spool" where
  "sqlite_new max_rows = \<lparr>sl_table = table_new max_rows, sl_poisoned = False\<rparr>"

definition sqlite_push :: "sqlite_env \<Rightarrow> string \<Rightarrow> spool_priority \<Rightarrow> string \<Rightarrow> sqlite_spool \<Rightarrow> (string, unit) result \<times> sqlite_spool" where
  "sqlite_push env nonce prio payload s =
     (case sq_encrypt env nonce payload of
        None \<Rightarrow> (Inl ''Encryption failed'', s)
      | Some ct \<Rightarrow>
          if sl_poisoned s then (Inl ''spool database lock poisoned'', s)
          else (Inr (), s\<lparr>sl_table := table_push prio ct nonce (sl_table s)\<rparr>))"

definition sqlite_row :: "sqlite_env \<Rightarrow> spool_row \<Rightarrow> (int \<times> string) option" where
  "sqlite_row env r = map_option (\<lambda>pt. (tr_id r, pt)) (sq_decrypt env (tr_nonce r) (tr_payload r))"

definition sqlite_pop_batch :: "sqlite_env \<Rightarrow> nat \<Rightarrow> sqlite_spool \<Rightarrow> (string, (int \<times> string) list) result" where
  "sqlite_pop_batch env limit s =
     (if sl_poisoned s then Inl ''spool database lock poisoned''
      else Inr (List.map_filter (sqlite_row env) (table_top limit (sl_table s))))"

definition sqlite_delete_batch :: "int list \<Rightarrow> sqlite_spool \<Rightarrow> (string, unit) result \<times> sqlite_spool" where
  "sqlite_delete_batch ids s =
     (if ids = [] then (Inr (), s)
      else if sl_poisoned s then (Inl ''spool database lock poisoned'', s)
      else (Inr (), s\<lparr>sl_table := table_delete ids (sl_table s)\<rparr>))"

definition sqlite_peek_recent :: "sqlite_env \<Rightarrow> nat \<Rightarrow> sqlite_spool \<Rightarrow> (string, string list) result" where
  "sqlite_peek_recent env limit s =
     (if sl_poisoned s then Inl ''spool database lock poisoned''
      else Inr (map snd (List.map_filter (sqlite_row env) (table_recent limit (sl_table s)))))"

subsection \<open>Framing\<close>

lemma le_bytes_length [simp]: "length (le_bytes n v) = n"
  by (induction n arbitrary: v) auto

lemma from_le_bytes: "from_le (le_bytes n v) = v mod 256 ^ n"
proof (induction n arbitrary: v)
  case (Suc n)
  have "v mod (256 * 256 ^ n) = 256 * (v div 256 mod 256 ^ n) + v mod 256" by (rule mod_mult2_eq)
  then show ?case using Suc.IH by simp
qed simp

definition frame_of :: "spool_env \<Rightarrow> string \<Rightarrow> encrypted_record \<Rightarrow> bool" where
  "frame_of env f r \<longleftrightarrow> sx_record_from env f = Some r \<and> length f \<le> 16 * 1024 * 1024"

lemma read_one_frame:
  assumes "frame_of env f r"
  shows "read_frames env (frame_bytes env f @ rest) = map_sum id ((#) r) (read_frames env rest)"
proof -
  have n: "from_le (le_bytes 4 (length f)) = length f"
    using assms by (simp add: from_le_bytes frame_of_def)
  have "unat (sx_crc32c env f) < 2 ^ 32" using unsigned_less [of "sx_crc32c env f"] by simp
  then have c: "from_le (le_bytes 4 (unat (sx_crc32c env f))) = unat (sx_crc32c env f)" by (simp add: from_le_bytes)
  show ?thesis
    using assms by (subst read_frames.simps) (simp add: frame_bytes_def n c frame_of_def Let_def)
qed

lemma read_frames_all:
  assumes "list_all2 (frame_of env) fs rs"
  shows "read_frames env (concat (map (frame_bytes env) fs)) = Inr rs"
  using assms
proof (induction rule: list_all2_induct)
  case Nil
  show ?case by (subst read_frames.simps) simp
next
  case (Cons f fs r rs)
  then show ?case by (simp add: read_one_frame)
qed

lemma header_read: "read_encrypted_records env (segment_header @ bs) = read_frames env bs"
  by (simp add: read_encrypted_records_def segment_header_def numeral_2_eq_2)

text \<open>A write that breaks off inside a frame makes the reader give up the whole segment.\<close>

lemma torn_frame_loses_segment:
  assumes "list_all2 (frame_of env) fs rs" and "frame_of env f r" and "4 \<le> n" and "n < length (frame_bytes env f)"
  shows "\<exists>e. read_encrypted_records env (segment_header @ concat (map (frame_bytes env) fs) @ take n (frame_bytes env f)) = Inl e"
proof -
  have "read_frames env (take n (frame_bytes env f)) = Inl ''unexpected end of file''"
  proof -
    have l: "from_le (le_bytes 4 (length f)) = length f" using assms(2) by (simp add: from_le_bytes frame_of_def)
    show ?thesis
      using assms(2,3,4) by (subst read_frames.simps) (auto simp: frame_bytes_def l frame_of_def Let_def min_def)
  qed
  moreover have "\<exists>e. read_frames env (concat (map (frame_bytes env) fs) @ bs) = Inl e"
    if "read_frames env bs = Inl e'" for bs e'
    using assms(1) by (induction rule: list_all2_induct) (use that in \<open>auto simp: read_one_frame\<close>)
  ultimately show ?thesis unfolding header_read by blast
qed

subsection \<open>Chain\<close>

lemma verify_from_snoc:
  "verify_from sha prev (es @ [e]) = Inr () \<longleftrightarrow>
     verify_from sha prev es = Inr () \<and> ae_prev_hash e = (if es = [] then prev else ae_entry_hash (last es)) \<and>
     ae_entry_hash e = sha (ae_prev_hash e @ ae_payload_json e)"
  by (induction es arbitrary: prev) (auto simp: audit_entry_new_def)

lemma chain_hash: "verify_from sha prev es = Inr () \<Longrightarrow> e \<in> set es \<Longrightarrow> ae_entry_hash e = sha (ae_prev_hash e @ ae_payload_json e)"
  by (induction es arbitrary: prev) (auto simp: audit_entry_new_def split: if_splits)

definition hashed :: "audit_entry list \<Rightarrow> string set" where
  "hashed es = (\<lambda>e. ae_prev_hash e @ ae_payload_json e) ` set es"

lemma chain_determined:
  assumes "verify_from sha genesis es = Inr ()" and "verify_from sha genesis es' = Inr ()"
    and "length es = length es'" and "es \<noteq> [] \<Longrightarrow> ae_entry_hash (last es) = ae_entry_hash (last es')"
    and "inj_on sha (hashed es \<union> hashed es')" and "\<And>x. length (sha x) = 64"
  shows "map ae_payload_json es = map ae_payload_json es'"
  using assms(1-5)
proof (induction es arbitrary: es' rule: rev_induct)
  case Nil
  then show ?case by simp
next
  case (snoc e es)
  then obtain fs f where es': "es' = fs @ [f]" "length es = length fs" by (cases es' rule: rev_cases) auto
  note v = snoc.prems(1)[unfolded verify_from_snoc] snoc.prems(2)[unfolded es'(1) verify_from_snoc]
  have "sha (ae_prev_hash e @ ae_payload_json e) = sha (ae_prev_hash f @ ae_payload_json f)"
    using snoc.prems(4) v es'(1) by simp
  then have eq: "ae_prev_hash e @ ae_payload_json e = ae_prev_hash f @ ae_payload_json f"
    by (rule inj_onD [OF snoc.prems(5)]) (simp_all add: hashed_def es'(1))
  have "ae_prev_hash e = ae_prev_hash f \<and> (es \<noteq> [] \<longrightarrow> ae_entry_hash (last es) = ae_entry_hash (last fs))"
  proof (cases "es = []")
    case True
    with es'(2) v show ?thesis by simp
  next
    case False
    with es'(2) have "fs \<noteq> []" by auto
    have "length (ae_entry_hash (last es)) = 64" "length (ae_entry_hash (last fs)) = 64"
      using chain_hash v False \<open>fs \<noteq> []\<close> assms(6) by (metis last_in_set)+
    with eq v False \<open>fs \<noteq> []\<close> show ?thesis by simp
  qed
  with eq have "ae_payload_json e = ae_payload_json f" "es \<noteq> [] \<Longrightarrow> ae_entry_hash (last es) = ae_entry_hash (last fs)" by auto
  moreover have "inj_on sha (hashed es \<union> hashed fs)"
    using snoc.prems(5) es'(1) by (auto simp: hashed_def intro: inj_on_subset)
  ultimately show ?case using snoc.IH [of fs] v es' by simp
qed

subsection \<open>What the spool holds\<close>

text \<open>The serialisers and the cipher read back what they wrote.\<close>

definition spool_codec :: "spool_env \<Rightarrow> bool" where
  "spool_codec env \<longleftrightarrow>
     (\<forall>r f. sx_record_bytes env r = Some f \<longrightarrow> sx_record_from env f = Some r) \<and>
     (\<forall>k n a m c. sx_gcm_encrypt env k n a m = Some c \<longrightarrow> sx_gcm_decrypt env k n a c = Some m) \<and>
     (\<forall>e b. sx_event_bytes env e = Some b \<longrightarrow> sx_event_from env b = Some e) \<and>
     (\<forall>e v. sx_entry_to_value env e = Some v \<longrightarrow> sx_entry_from_value env v = Some e)"

definition entry_frame :: "spool_env \<Rightarrow> aead_key \<Rightarrow> string \<Rightarrow> audit_entry \<Rightarrow> bool" where
  "entry_frame env key f e \<longleftrightarrow> (\<exists>r. frame_of env f r \<and> record_entry env key r = Some e)"

definition holds :: "spool_env \<Rightarrow> aead_key \<Rightarrow> spool \<Rightarrow> audit_entry list \<Rightarrow> bool" where
  "holds env key s es \<longleftrightarrow>
     spool_key env s = Inr key \<and>
     ((ss_writer (so_state s) = None \<and> so_files s = [] \<and> es = []) \<or>
      (\<exists>w fs. ss_writer (so_state s) = Some w \<and> list_all2 (entry_frame env key) fs es \<and>
         so_files s = [\<lparr>sf_stem = sw_stem w, sf_ext = Some ''pds'', sf_bytes = segment_header @ concat (map (frame_bytes env) fs)\<rparr>]))"

lemma decrypt_encrypted:
  assumes "spool_codec env" and "encrypt_record env key n aad m = Some r"
  shows "decrypt_record env key r = Some m"
  using assms by (auto simp: encrypt_record_def decrypt_record_def spool_codec_def bind_eq_Some_conv)

lemma segment_frame_entry:
  assumes "spool_codec env" and "segment_frame env key n ev w = Inr f" and "sx_entry_to_value env e = Some (se_body ev)"
    and "length f \<le> 16 * 1024 * 1024"
  shows "entry_frame env key f e"
proof -
  from assms(2) obtain pt r where "sx_event_bytes env ev = Some pt" "sx_record_bytes env r = Some f"
      "\<exists>aad. encrypt_record env key n aad pt = Some r"
    by (auto simp: segment_frame_def split: option.splits if_splits)
  then have "frame_of env f r" "decrypt_record env key r = Some pt" "sx_event_from env pt = Some ev" "sx_entry_from_value env (se_body ev) = Some e"
    using assms decrypt_encrypted by (auto simp: spool_codec_def frame_of_def)
  then show ?thesis by (auto simp: entry_frame_def record_entry_def)
qed

lemma append_event_done:
  assumes "append_event env torn key n ev w files = (Inr u, w', files')"
  shows "\<exists>f. segment_frame env key n ev (w\<lparr>sw_seq := sw_seq w + 1\<rparr>) = Inr f \<and> w' = w\<lparr>sw_seq := sw_seq w + 1\<rparr> \<and>
    files' = append_to (sw_stem w) (frame_bytes env f) files"
  using assms by (auto simp: append_event_def Let_def split: sum.splits option.splits)

lemma open_writer_holds:
  assumes "holds env key s es" and "open_writer io s = Inr (w, s1)"
  shows "holds env key s1 es \<and> ss_writer (so_state s1) = Some w \<and> ss_last_hash (so_state s1) = ss_last_hash (so_state s) \<and>
    ss_seq (so_state s1) = ss_seq (so_state s) \<and> spool_current_size s \<le> spool_current_size s1"
proof (cases "ss_writer (so_state s)")
  case None
  with assms have s: "so_files s = []" "es = []" "spool_key env s = Inr key" by (auto simp: holds_def)
  with None assms(2) have "w = \<lparr>sw_stem = eq_segment_uuid io, sw_tenant_id = so_tenant_id s, sw_device_id = so_device_id s,
      sw_segment_id = eq_segment_uuid io, sw_seq = 0\<rparr>"
    "s1 = s\<lparr>so_files := [\<lparr>sf_stem = eq_segment_uuid io, sf_ext = Some ''pds'', sf_bytes = segment_header\<rparr>],
       so_state := (so_state s)\<lparr>ss_writer := Some w, ss_current_segment_id := eq_segment_uuid io\<rparr>\<rparr>"
    by (auto simp: open_writer_def segment_create_def split: if_splits)
  with s show ?thesis by (auto simp: holds_def spool_key_def spool_current_size_def)
next
  case (Some w')
  with assms show ?thesis by (simp add: open_writer_def)
qed

lemma commit_holds:
  assumes "spool_codec env" and "holds env key s es" and "enqueue_commit env io d (key, prev, seq) s = (Inr u, s')"
    and "spool_current_size s' \<le> spool_current_size s + 16 * 1024 * 1024"
  shows "\<exists>e. e = audit_entry_new (sx_sha256_hex env) seq (eq_rfc3339 io) (spool_payload env d) prev \<and> holds env key s' (es @ [e]) \<and>
    ss_last_hash (so_state s') = ae_entry_hash e \<and> ss_seq (so_state s') = ss_seq (so_state s)"
proof -
  let ?e = "audit_entry_new (sx_sha256_hex env) seq (eq_rfc3339 io) (spool_payload env d) prev"
  from assms(3) obtain body w s1 w' files where b: "sx_entry_to_value env ?e = Some body" and o: "open_writer io s = Inr (w, s1)"
    and a: "append_event env (eq_torn io) key (eq_nonce io) (spool_event_of io s1 body) w (so_files s1) = (Inr u, w', files)"
    and s': "s' = s1\<lparr>so_files := files, so_state := (so_state s1)\<lparr>ss_writer := Some w', ss_last_hash := ae_entry_hash ?e,
        ss_current_size := ss_current_size (so_state s1) + length d\<rparr>\<rparr>"
    by (auto simp: enqueue_commit_def Let_def split: option.splits sum.splits prod.splits)
  note h = open_writer_holds [OF assms(2) o]
  from append_event_done [OF a] obtain f where f: "segment_frame env key (eq_nonce io) (spool_event_of io s1 body) (w\<lparr>sw_seq := sw_seq w + 1\<rparr>) = Inr f"
      "w' = w\<lparr>sw_seq := sw_seq w + 1\<rparr>" "files = append_to (sw_stem w) (frame_bytes env f) (so_files s1)" by blast
  from h obtain fs where fs: "list_all2 (entry_frame env key) fs es"
      "so_files s1 = [\<lparr>sf_stem = sw_stem w, sf_ext = Some ''pds'', sf_bytes = segment_header @ concat (map (frame_bytes env) fs)\<rparr>]"
    by (auto simp: holds_def)
  have "spool_current_size s' = spool_current_size s1 + length f + 8"
    using f(3) fs(2) by (simp add: s' spool_current_size_def append_to_def frame_bytes_def)
  then have "length f \<le> 16 * 1024 * 1024" using assms(4) h by linarith
  with segment_frame_entry [OF assms(1) f(1)] b have ef: "entry_frame env key f ?e" by (simp add: spool_event_of_def)
  have "list_all2 (entry_frame env key) (fs @ [f]) (es @ [?e])" using fs(1) ef by (simp add: list_all2_appendI)
  moreover have "files = [\<lparr>sf_stem = sw_stem w', sf_ext = Some ''pds'', sf_bytes = segment_header @ concat (map (frame_bytes env) (fs @ [f]))\<rparr>]"
    using f fs(2) by (simp add: append_to_def)
  moreover have "spool_key env s' = Inr key" using h s' by (simp add: holds_def spool_key_def)
  ultimately have "holds env key s' (es @ [?e])" unfolding holds_def s' by auto
  with h s' show ?thesis by auto
qed

lemma holds_entries:
  assumes "holds env key s es"
  shows "concat (map (file_entries env key) (so_files s)) = es"
proof -
  have *: "read_encrypted_records env (segment_header @ concat (map (frame_bytes env) fs)) = Inr rs \<and> List.map_filter (record_entry env key) rs = es"
    if "list_all2 (\<lambda>f r. frame_of env f r) fs rs" "list_all2 (\<lambda>r e. record_entry env key r = Some e) rs es" for fs rs
  proof -
    have "List.map_filter (record_entry env key) rs = es"
      using that(2) by (induction rule: list_all2_induct) (auto simp: List.map_filter_def)
    then show ?thesis using read_frames_all [of env fs rs] that(1) by (simp add: header_read)
  qed
  have "\<exists>rs. list_all2 (frame_of env) fs rs \<and> list_all2 (\<lambda>r e. record_entry env key r = Some e) rs es"
    if "list_all2 (entry_frame env key) fs es" for fs
    using that
  proof (induction rule: list_all2_induct)
    case (Cons f fs e es)
    then obtain r rs where "frame_of env f r" "record_entry env key r = Some e" "list_all2 (frame_of env) fs rs"
        "list_all2 (\<lambda>r e. record_entry env key r = Some e) rs es"
      by (auto simp: entry_frame_def)
    then show ?case by (intro exI [of _ "r # rs"]) simp
  qed simp
  with * assms show ?thesis by (fastforce simp: holds_def file_entries_def)
qed

subsection \<open>Runs\<close>

fun enqueue_all :: "spool_env \<Rightarrow> (enqueue_io \<times> string) list \<Rightarrow> spool \<Rightarrow> spool option" where
  "enqueue_all env [] s = Some s"
| "enqueue_all env ((io, d) # cs) s =
     (case enqueue env io d s of (Inr _, s') \<Rightarrow> enqueue_all env cs s' | (Inl _, _) \<Rightarrow> None)"

text \<open>No call of a run makes the files longer by more than a number of bytes.\<close>

fun grows_at_most :: "nat \<Rightarrow> spool_env \<Rightarrow> (enqueue_io \<times> string) list \<Rightarrow> spool \<Rightarrow> bool" where
  "grows_at_most n env [] s \<longleftrightarrow> True"
| "grows_at_most n env ((io, d) # cs) s \<longleftrightarrow>
     (case enqueue env io d s of (_, s') \<Rightarrow> spool_current_size s' \<le> spool_current_size s + n \<and> grows_at_most n env cs s')"

text \<open>A spool that has written the chain \<open>es\<close>, one entry after the other.\<close>

definition chained :: "spool_env \<Rightarrow> aead_key \<Rightarrow> spool \<Rightarrow> audit_entry list \<Rightarrow> bool" where
  "chained env key s es \<longleftrightarrow>
     holds env key s es \<and> verify_chain (sx_sha256_hex env) es = Inr () \<and>
     ss_last_hash (so_state s) = (if es = [] then genesis else ae_entry_hash (last es)) \<and>
     ss_seq (so_state s) = of_nat (length es) \<and> map ae_seq es = map of_nat [1..<Suc (length es)]"

lemma enqueue_chained:
  assumes "spool_codec env" and "chained env key s es" and "enqueue env io d s = (Inr u, s')"
    and "spool_current_size s' \<le> spool_current_size s + 16 * 1024 * 1024"
  shows "\<exists>e. chained env key s' (es @ [e]) \<and> ae_payload_json e = spool_payload env d"
proof -
  let ?st = "(so_state s)\<lparr>ss_seq := ss_seq (so_state s) + 1\<rparr>"
  let ?s = "s\<lparr>so_state := ?st\<rparr>"
  have k: "spool_key env s = Inr key" using assms(2) by (simp add: chained_def holds_def)
  from assms(3) k have c: "enqueue_commit env io d (key, ss_last_hash (so_state s), ss_seq (so_state s) + 1) ?s = (Inr u, s')"
    by (auto simp: enqueue_def enqueue_begin_def Let_def split: if_splits sum.splits)
  have "holds env key ?s es" using assms(2) by (auto simp: chained_def holds_def spool_key_def)
  moreover have "spool_current_size ?s = spool_current_size s" by (simp add: spool_current_size_def)
  ultimately obtain e where e:
      "e = audit_entry_new (sx_sha256_hex env) (ss_seq (so_state s) + 1) (eq_rfc3339 io) (spool_payload env d) (ss_last_hash (so_state s))"
      "holds env key s' (es @ [e])" "ss_last_hash (so_state s') = ae_entry_hash e" "ss_seq (so_state s') = ss_seq (so_state s) + 1"
    using commit_holds [OF assms(1) _ c] assms(4) by auto
  have "verify_chain (sx_sha256_hex env) (es @ [e]) = Inr ()"
    using assms(2) e(1) by (simp add: chained_def verify_chain_def verify_from_snoc audit_entry_new_def)
  then show ?thesis
    using e assms(2) by (intro exI [of _ e]) (simp add: chained_def audit_entry_new_def)
qed

lemma enqueue_all_chained:
  assumes "spool_codec env" and "chained env key s es" and "enqueue_all env cs s = Some s'" and "grows_at_most (16 * 1024 * 1024) env cs s"
  shows "\<exists>es'. chained env key s' (es @ es') \<and> map ae_payload_json es' = map (spool_payload env \<circ> snd) cs"
  using assms(2,3,4)
proof (induction cs arbitrary: s es)
  case Nil
  then show ?case by simp
next
  case (Cons c cs)
  obtain io d where c: "c = (io, d)" by fastforce
  with Cons.prems(2) obtain u s1 where s1: "enqueue env io d s = (Inr u, s1)" "enqueue_all env cs s1 = Some s'"
    by (auto split: sum.splits prod.splits)
  have g: "spool_current_size s1 \<le> spool_current_size s + 16 * 1024 * 1024" "grows_at_most (16 * 1024 * 1024) env cs s1"
    using Cons.prems(3) c s1(1) by simp_all
  from enqueue_chained [OF assms(1) Cons.prems(1) s1(1) g(1)] obtain e where
    e: "chained env key s1 (es @ [e])" "ae_payload_json e = spool_payload env d" by blast
  from Cons.IH [OF e(1) s1(2) g(2)] obtain es' where "chained env key s' ((es @ [e]) @ es')"
      "map ae_payload_json es' = map (spool_payload env \<circ> snd) cs" by blast
  with e(2) c show ?case by (intro exI [of _ "e # es'"]) simp
qed

lemma replay_chained:
  assumes "chained env key s es" and "length es < 2 ^ 64"
  shows "fst (replay env s) = Inr es" and "so_files (snd (replay env s)) = so_files s"
proof -
  have "map (unat \<circ> ae_seq) es = map unat (map ae_seq es)" by simp
  also have "\<dots> = map (\<lambda>i. unat (of_nat i :: u64)) [1..<Suc (length es)]" using assms(1) by (simp add: chained_def del: upt_Suc)
  also have "\<dots> = [1..<Suc (length es)]"
    by (rule map_idI) (use assms(2) in \<open>auto simp: unat_of_nat\<close>)
  finally have "sort_key (unat \<circ> ae_seq) es = es" by (intro sort_key_id_if_sorted) (simp del: upt_Suc)
  then have r: "sort_key (unat \<circ> ae_seq) (concat (map (file_entries env key) (so_files s))) = es"
    using holds_entries [of env key s es] assms(1) unfolding chained_def by presburger
  have k: "spool_key env s = Inr key" "verify_chain (sx_sha256_hex env) es = Inr ()" using assms(1) by (simp_all add: chained_def holds_def)
  show "fst (replay env s) = Inr es" "so_files (snd (replay env s)) = so_files s"
    by (simp_all add: replay_def k r Let_def)
qed

subsection \<open>Properties\<close>

text \<open>
  C32. The spool gives back what was put in: after a sequence of calls on a fresh spool, one after the other, that are all accepted and of which none
  makes the files longer by more than the 16 MiB that the reader takes for one frame, replay
  reads, decrypts, orders and verifies exactly the payloads of those calls, in their order, and leaves the files alone
  (for serialisers and a cipher that read back what they wrote). A payload that is no UTF-8 text comes back in the lossy conversion that was stored.
\<close>

theorem spool_roundtrip:
  assumes "spool_codec env" and "active_aead_key env = Inr key" and "length cs < 2 ^ 64"
    and "enqueue_all env cs (spool_new [] limit True tenant device) = Some s"
    and "grows_at_most (16 * 1024 * 1024) env cs (spool_new [] limit True tenant device)"
  shows "\<exists>es. fst (replay env s) = Inr es \<and> map ae_payload_json es = map (spool_payload env \<circ> snd) cs \<and>
    so_files (snd (replay env s)) = so_files s"
proof -
  have "chained env key (spool_new [] limit True tenant device) []"
    using assms(2) by (simp add: chained_def holds_def spool_new_def spool_key_def verify_chain_def)
  from enqueue_all_chained [OF assms(1) this assms(4,5)] obtain es where
    es: "chained env key s es" "map ae_payload_json es = map (spool_payload env \<circ> snd) cs" by auto
  from es(2) have "length es = length cs" by (metis length_map)
  with replay_chained [OF es(1)] assms(3) es(2) show ?thesis by auto
qed

text \<open>
  C33. The chain is evidence against tampering: two logs of the same length that both verify and end in the same hash
  hold the same payloads in the same order, unless two of the hashed texts collide.
\<close>

theorem chain_tamper_evident:
  assumes "verify_chain sha es = Inr ()" and "verify_chain sha es' = Inr ()" and "length es = length es'" and "es \<noteq> []"
    and "ae_entry_hash (last es) = ae_entry_hash (last es')"
    and "inj_on sha ((\<lambda>e. ae_prev_hash e @ ae_payload_json e) ` (set es \<union> set es'))" and "\<forall>x. length (sha x) = 64"
  shows "map ae_payload_json es = map ae_payload_json es'"
  using chain_determined [of sha es es'] assms by (simp add: verify_chain_def hashed_def image_Un)

text \<open>
  Calls that overlap between their two lock sections fork the chain: both entries carry the same previous hash, and the
  next replay reports tampering and moves the segment away.
\<close>

lemma spool_forks:
  assumes "spool_codec env" and "active_aead_key env = Inr key"
    and "enqueue_begin env d1 (spool_new [] limit True tenant device) = (Inr t1, s1)" and "enqueue_begin env d2 s1 = (Inr t2, s2)"
    and "enqueue_commit env io1 d1 t1 s2 = (Inr u1, s3)" and "enqueue_commit env io2 d2 t2 s3 = (Inr u2, s4)"
    and "sx_sha256_hex env (genesis @ spool_payload env d1) \<noteq> genesis"
    and "spool_current_size s3 \<le> spool_current_size s2 + 16 * 1024 * 1024" "spool_current_size s4 \<le> spool_current_size s3 + 16 * 1024 * 1024"
  shows "fst (replay env s4) = Inl SpTampered"
proof -
  have t: "t1 = (key, genesis, 1)" "t2 = (key, genesis, 2)" and h2: "holds env key s2 []"
    using assms(2,3,4) by (auto simp: enqueue_begin_def spool_new_def spool_key_def holds_def Let_def split: if_splits sum.splits)
  let ?e1 = "audit_entry_new (sx_sha256_hex env) 1 (eq_rfc3339 io1) (spool_payload env d1) genesis"
  let ?e2 = "audit_entry_new (sx_sha256_hex env) 2 (eq_rfc3339 io2) (spool_payload env d2) genesis"
  from commit_holds [OF assms(1) h2 assms(5) [unfolded t] assms(8)] have "holds env key s3 [?e1]" by simp
  from commit_holds [OF assms(1) this assms(6) [unfolded t] assms(9)] have h4: "holds env key s4 [?e1, ?e2]" by simp
  have "sort_key (unat \<circ> ae_seq) [?e1, ?e2] = [?e1, ?e2]" by (simp add: audit_entry_new_def)
  moreover have "\<exists>n. verify_chain (sx_sha256_hex env) [?e1, ?e2] = Inl n"
    using assms(7) by (auto simp: verify_chain_def audit_entry_new_def)
  ultimately show ?thesis
    using holds_entries [OF h4] h4 by (auto simp: replay_def holds_def Let_def)
qed

text \<open>The default spool has no key manager, so it accepts nothing.\<close>

lemma default_spool_rejects: "\<exists>e. fst (enqueue env io d (spool_default files)) = Inl e"
  by (auto simp: enqueue_def enqueue_begin_def spool_default_def spool_new_def spool_key_def ensure_capacity_def)

subsection \<open>Witnesses\<close>

definition demo_io :: enqueue_io where
  "demo_io = \<lparr>eq_uuid = ''u'', eq_segment_uuid = ''s'', eq_rfc3339 = ''t'', eq_unix_ms = 0, eq_nonce = ''n'', eq_create_ok = True, eq_torn = None\<rparr>"

definition demo_entry :: audit_entry where
  "demo_entry = audit_entry_new (\<lambda>_. ''h'') 1 ''t'' ''x'' genesis"

definition demo_event :: spool_event where
  "demo_event = spool_event_of demo_io (spool_new [] 100 True ''a'' ''b'') (JStr ''e'')"

definition demo_record :: encrypted_record where
  "demo_record = \<lparr>er_alg = ''AES-256-GCM'', er_key_id = ''local-master-v1'', er_nonce = ''n'',
     er_aad = \<lparr>ra_schema = ''pollek.spool.frame.v1'', ra_tenant_id = ''a'', ra_device_id = ''b'', ra_segment_id = ''s'', ra_seq = 1,
       ra_key_id = ''local-master-v1'', ra_alg = ''AES-256-GCM''\<rparr>, er_ciphertext = ''v''\<rparr>"

definition demo_spool_env :: spool_env where
  "demo_spool_env =
     \<lparr>sx_sha256_hex = (\<lambda>_. ''h''), sx_crc32c = (\<lambda>_. 7), sx_master_key = Inr ''k'', sx_gcm_encrypt = (\<lambda>k n a m. Some m),
      sx_gcm_decrypt = (\<lambda>k n a c. Some c), sx_aad_bytes = (\<lambda>_. Some []),
      sx_record_bytes = (\<lambda>r. if r = demo_record then Some ''r'' else None), sx_record_from = (\<lambda>f. if f = ''r'' then Some demo_record else None),
      sx_event_bytes = (\<lambda>e. if e = demo_event then Some ''v'' else None), sx_event_from = (\<lambda>b. if b = ''v'' then Some demo_event else None),
      sx_entry_to_value = (\<lambda>e. if e = demo_entry then Some (JStr ''e'') else None),
      sx_entry_from_value = (\<lambda>v. if v = JStr ''e'' then Some demo_entry else None), sx_utf8_lossy = id\<rparr>"

lemma demo_spool_codec: "spool_codec demo_spool_env"
  by (auto simp: spool_codec_def demo_spool_env_def frame_of_def split: if_splits)

lemma demo_enqueue: "\<exists>s. enqueue_all demo_spool_env [(demo_io, ''x'')] (spool_new [] 100 True ''a'' ''b'') = Some s \<and>
    grows_at_most (16 * 1024 * 1024) demo_spool_env [(demo_io, ''x'')] (spool_new [] 100 True ''a'' ''b'')"
proof -
  let ?s = "spool_new [] 100 True ''a'' ''b''"
  let ?k = "\<lparr>ak_key_id = ''local-master-v1'', ak_key_bytes = ''k''\<rparr>"
  let ?s1 = "?s\<lparr>so_state := (so_state ?s)\<lparr>ss_seq := 1\<rparr>\<rparr>"
  have b: "enqueue_begin demo_spool_env ''x'' ?s = (Inr (?k, genesis, 1), ?s1)"
    by (simp add: enqueue_begin_def spool_new_def ensure_capacity_def spool_current_size_def spool_key_def active_aead_key_def
        demo_spool_env_def Let_def)
  have p: "spool_payload demo_spool_env ''x'' = ''x''" by (simp add: spool_payload_def from_utf8_def)
  have e: "audit_entry_new (sx_sha256_hex demo_spool_env) 1 (eq_rfc3339 demo_io) ''x'' genesis = demo_entry"
    by (simp add: demo_entry_def demo_spool_env_def demo_io_def)
  have v: "sx_entry_to_value demo_spool_env demo_entry = Some (JStr ''e'')" by (simp add: demo_spool_env_def)
  obtain w s2 where w: "open_writer demo_io ?s1 = Inr (w, s2)" "sw_seq w = 0" "sw_tenant_id w = ''a''" "sw_device_id w = ''b''"
      "sw_segment_id w = ''s''" "so_tenant_id s2 = ''a''" "so_device_id s2 = ''b''" "spool_current_size s2 = 6"
    by (simp add: spool_current_size_def segment_header_def open_writer_def spool_new_def demo_io_def segment_create_def)
  have ev: "spool_event_of demo_io s2 (JStr ''e'') = demo_event"
    using w by (simp add: demo_event_def spool_event_of_def spool_new_def)
  have f: "segment_frame demo_spool_env ?k ''n'' demo_event (w\<lparr>sw_seq := sw_seq w + 1\<rparr>) = Inr ''r''"
    using w by (simp add: segment_frame_def encrypt_record_def demo_spool_env_def demo_record_def)
  obtain u s3 where s3: "enqueue_commit demo_spool_env demo_io ''x'' (?k, genesis, 1) ?s1 = (Inr u, s3)"
      "so_files s3 = append_to (sw_stem w) (frame_bytes demo_spool_env ''r'') (so_files s2)"
    using w f by (simp add: enqueue_commit_def p e v Let_def ev append_event_def) (simp add: demo_io_def)
  have "sum_list (map (length \<circ> sf_bytes) (append_to x bs fs)) \<le> sum_list (map (length \<circ> sf_bytes) fs) + length fs * length bs" for x bs fs
    by (induction fs) (auto simp: append_to_def)
  then have "spool_current_size s3 \<le> spool_current_size s2 + length (so_files s2) * 9"
    unfolding spool_current_size_def s3(2) by (rule order_trans) (simp add: frame_bytes_def)
  moreover have "length (so_files s2) \<le> 1" using w(1) by (auto simp: open_writer_def spool_new_def demo_io_def segment_create_def)
  ultimately have "spool_current_size s3 \<le> 16 * 1024 * 1024" using w by simp
  then show ?thesis using b s3(1) by (auto simp: enqueue_def)
qed

theorem spool_roundtrip_witness:
  "\<exists>s es. enqueue_all demo_spool_env [(demo_io, ''x'')] (spool_new [] 100 True ''a'' ''b'') = Some s \<and>
     fst (replay demo_spool_env s) = Inr es \<and> map ae_payload_json es = [''x'']"
proof -
  obtain s where s: "enqueue_all demo_spool_env [(demo_io, ''x'')] (spool_new [] 100 True ''a'' ''b'') = Some s"
    and g: "grows_at_most (16 * 1024 * 1024) demo_spool_env [(demo_io, ''x'')] (spool_new [] 100 True ''a'' ''b'')"
    using demo_enqueue by blast
  have k: "active_aead_key demo_spool_env = Inr \<lparr>ak_key_id = ''local-master-v1'', ak_key_bytes = ''k''\<rparr>"
    by (simp add: active_aead_key_def demo_spool_env_def)
  from spool_roundtrip [OF demo_spool_codec k _ s g] s show ?thesis by (auto simp: spool_payload_def from_utf8_def)
qed

theorem chain_tamper_evident_witness:
  "let sha = (\<lambda>x. take 64 (x @ replicate 64 (CHR ''z''))); e = audit_entry_new sha 1 ''t'' ''x'' genesis
   in verify_chain sha [e] = Inr () \<and> map ae_payload_json [e] = map ae_payload_json [e\<lparr>ae_timestamp := ''forged''\<rparr>]"
proof -
  let ?sha = "\<lambda>x. take 64 (x @ replicate 64 (CHR ''z''))"
  let ?e = "audit_entry_new ?sha 1 ''t'' ''x'' genesis"
  have "verify_chain ?sha [?e] = Inr ()" "verify_chain ?sha [?e\<lparr>ae_timestamp := ''forged''\<rparr>] = Inr ()"
    by (simp_all add: verify_chain_def audit_entry_new_def)
  with chain_tamper_evident [of ?sha "[?e]" "[?e\<lparr>ae_timestamp := ''forged''\<rparr>]"] show ?thesis by (simp add: Let_def)
qed

end
