(* ===== verification/Capability_Routing.thy ===== *)
theory Capability_Routing
  imports Json_Value
begin

text \<open>
  Which enforcement point and which decision engine a device can use: the schema types of
  \<^verbatim>\<open>src/crates/dek-domain-schema\<close> (\<^verbatim>\<open>control_level\<close>, \<^verbatim>\<open>capabilities\<close>,
  \<^verbatim>\<open>deployment_session\<close>), the detection of \<^verbatim>\<open>src/crates/dek-capability-registry\<close> over what
  the probes of the operating system answer, the planner \<^verbatim>\<open>src/crates/dek-policy-router/src/route_planner.rs\<close> and
  the router of \<^verbatim>\<open>src/crates/dek-pep-router\<close>. A localized text is its English text; the Thai twin of every
  message is left out, as are time stamps.
\<close>

type_synonym localized_text = string

subsection \<open>Schema\<close>

datatype control_level = LvObserve | LvWarn | LvApproval | LvEnforce | LvStrictDeny

definition may_block :: "control_level \<Rightarrow> bool" where
  "may_block l \<longleftrightarrow> l = LvApproval \<or> l = LvEnforce \<or> l = LvStrictDeny"

fun show_control_level :: "control_level \<Rightarrow> string" where
  "show_control_level LvObserve = ''observe''"
| "show_control_level LvWarn = ''warn''"
| "show_control_level LvApproval = ''approval''"
| "show_control_level LvEnforce = ''enforce''"
| "show_control_level LvStrictDeny = ''strict_deny''"

datatype capability_status =
    CsReady | CsReadyRequiresApproval | CsInstalledInactive | CsMissingPermission | CsMissingDriver | CsMissingBinary
  | CsUnsupportedOs | CsUnhealthy | CsUnknown

datatype enforcement_layer =
    ElMcpProxy | ElMcpStdioWrapper | ElHttpProxy | ElEbpfNetwork | ElWindowsWfp | ElMacosNetworkExtension
  | ElBrowserExtension | ElObserveOnly

datatype pdp_engine = EgCedar | EgOpaWasm | EgOpenFga | EgCloud | EgRouterOnly

datatype plan_route_mode = RmLocalOnly | RmLocalPrimaryRemoteFallback | RmCloudPrimaryLocalFallback | RmMirrorAuditOnly

datatype observability_path = OpSecureSpoolAndOtel | OpLocalOnly

datatype user_action_kind =
    UaApproveConfigPatch | UaApproveSystemExtension | UaInstallDriver | UaStartLocalService | UaConnectCloud
  | UaRebuildPolicyBundle | UaRetryDeployment

datatype event_status = EsInfo | EsSuccess | EsWarning | EsError | EsActionRequired

datatype deployment_scope = ScAgent string | ScEntity string | ScAgentGroup string | ScDevice string

record deployment_session =
  ds_deployment_id :: string
  ds_policy_id :: string
  ds_policy_version :: string
  ds_requested_control_level :: control_level
  ds_target_scope :: deployment_scope
  ds_created_by :: string

record pep_capability_status =
  pc_layer :: enforcement_layer
  pc_status :: capability_status
  pc_reason_code :: string
  pc_user_message :: localized_text
  pc_next_action :: "user_action_kind option"

record pdp_capability_status =
  dc_engine :: pdp_engine
  dc_status :: capability_status
  dc_reason_code :: string
  dc_user_message :: localized_text

record device_capability_report =
  rp_device_id :: string
  rp_peps :: "pep_capability_status list"
  rp_pdps :: "pdp_capability_status list"

record pep_selection =
  px_pep_id :: string
  px_layer :: enforcement_layer
  px_status :: capability_status
  px_reason_code :: string
  px_reason :: localized_text

record pdp_selection =
  dx_pdp_id :: string
  dx_engine :: pdp_engine
  dx_mode :: plan_route_mode
  dx_status :: capability_status
  dx_reason_code :: string
  dx_reason :: localized_text

record fallback_plan =
  fp_enabled :: bool
  fp_fallback_pep :: "enforcement_layer option"
  fp_fallback_pdp :: "pdp_engine option"

record user_message =
  um_message_id :: string
  um_text :: localized_text
  um_severity :: event_status

record user_action =
  ua_action_id :: string
  ua_kind :: user_action_kind
  ua_label :: localized_text
  ua_help :: localized_text
  ua_safe_to_retry :: bool

record routing_plan =
  pl_deployment_id :: string
  pl_agent_id :: string
  pl_selected_pep :: pep_selection
  pl_selected_pdp :: pdp_selection
  pl_effective_control_level :: control_level
  pl_observability_path :: observability_path
  pl_fallback :: fallback_plan
  pl_user_messages :: "user_message list"
  pl_required_actions :: "user_action list"

subsection \<open>Route planner\<close>

datatype route_error = NoValidPdp | NoValidPep

fun show_route_error :: "route_error \<Rightarrow> string" where
  "show_route_error NoValidPdp = ''No valid PDP engine found''"
| "show_route_error NoValidPep = ''No valid PEP layer found''"

fun debug_engine_lower :: "pdp_engine \<Rightarrow> string" where
  "debug_engine_lower EgCedar = ''cedar''"
| "debug_engine_lower EgOpaWasm = ''opawasm''"
| "debug_engine_lower EgOpenFga = ''openfga''"
| "debug_engine_lower EgCloud = ''cloud''"
| "debug_engine_lower EgRouterOnly = ''routeronly''"

fun debug_layer_lower :: "enforcement_layer \<Rightarrow> string" where
  "debug_layer_lower ElMcpProxy = ''mcpproxy''"
| "debug_layer_lower ElMcpStdioWrapper = ''mcpstdiowrapper''"
| "debug_layer_lower ElHttpProxy = ''httpproxy''"
| "debug_layer_lower ElEbpfNetwork = ''ebpfnetwork''"
| "debug_layer_lower ElWindowsWfp = ''windowswfp''"
| "debug_layer_lower ElMacosNetworkExtension = ''macosnetworkextension''"
| "debug_layer_lower ElBrowserExtension = ''browserextension''"
| "debug_layer_lower ElObserveOnly = ''observeonly''"

fun debug_action :: "user_action_kind \<Rightarrow> string" where
  "debug_action UaApproveConfigPatch = ''ApproveConfigPatch''"
| "debug_action UaApproveSystemExtension = ''ApproveSystemExtension''"
| "debug_action UaInstallDriver = ''InstallDriver''"
| "debug_action UaStartLocalService = ''StartLocalService''"
| "debug_action UaConnectCloud = ''ConnectCloud''"
| "debug_action UaRebuildPolicyBundle = ''RebuildPolicyBundle''"
| "debug_action UaRetryDeployment = ''RetryDeployment''"

text \<open>The loops of both selections: the first preference for which some entry is present.\<close>

fun first_present :: "('e \<Rightarrow> 'k) \<Rightarrow> 'k list \<Rightarrow> 'e list \<Rightarrow> 'e option" where
  "first_present key [] es = None"
| "first_present key (k # ks) es =
     (case find (\<lambda>e. key e = k) es of Some e \<Rightarrow> Some e | None \<Rightarrow> first_present key ks es)"

definition pdp_preference :: "pdp_engine list" where
  "pdp_preference = [EgCedar, EgOpaWasm, EgOpenFga, EgCloud]"

definition select_pdp :: "pdp_capability_status list \<Rightarrow> (route_error, pdp_selection) result" where
  "select_pdp pdps =
     (case first_present dc_engine pdp_preference pdps of
        Some d \<Rightarrow> Inr \<lparr>dx_pdp_id = debug_engine_lower (dc_engine d), dx_engine = dc_engine d, dx_mode = RmLocalOnly,
                     dx_status = dc_status d, dx_reason_code = dc_reason_code d, dx_reason = dc_user_message d\<rparr>
      | None \<Rightarrow> Inl NoValidPdp)"

definition pep_preference :: "enforcement_layer list" where
  "pep_preference = [ElEbpfNetwork, ElMacosNetworkExtension, ElWindowsWfp, ElMcpProxy, ElMcpStdioWrapper]"

definition select_pep :: "pep_capability_status list \<Rightarrow> (route_error, pep_selection) result" where
  "select_pep peps =
     (case first_present pc_layer pep_preference peps of
        Some p \<Rightarrow> Inr \<lparr>px_pep_id = debug_layer_lower (pc_layer p), px_layer = pc_layer p, px_status = pc_status p,
                     px_reason_code = pc_reason_code p, px_reason = pc_user_message p\<rparr>
      | None \<Rightarrow> Inl NoValidPep)"

definition calculate_fallback :: "pdp_selection \<Rightarrow> pep_selection \<Rightarrow> fallback_plan" where
  "calculate_fallback pdp pep = \<lparr>fp_enabled = True, fp_fallback_pep = Some ElObserveOnly, fp_fallback_pdp = Some EgCloud\<rparr>"

definition plan_actions :: "pep_selection \<Rightarrow> pep_capability_status list \<Rightarrow> user_action list" where
  "plan_actions pep peps =
     (case find (\<lambda>p. pc_layer p = px_layer pep) peps of
        None \<Rightarrow> []
      | Some cap \<Rightarrow>
          (case pc_next_action cap of
             None \<Rightarrow> []
           | Some action \<Rightarrow>
               [\<lparr>ua_action_id = ''action_'' @ debug_action action, ua_kind = action, ua_label = ''Resolve '' @ debug_action action,
                 ua_help = px_reason pep, ua_safe_to_retry = True\<rparr>]))"

definition plan_route :: "deployment_session \<Rightarrow> device_capability_report \<Rightarrow> (route_error, routing_plan) result" where
  "plan_route session caps =
     (case select_pdp (rp_pdps caps) of
        Inl e \<Rightarrow> Inl e
      | Inr pdp \<Rightarrow>
          (case select_pep (rp_peps caps) of
             Inl e \<Rightarrow> Inl e
           | Inr pep \<Rightarrow>
               let level = (if px_status pep \<noteq> CsReady \<or> dx_status pdp \<noteq> CsReady then LvObserve else ds_requested_control_level session)
               in Inr \<lparr>pl_deployment_id = ds_deployment_id session,
                   pl_agent_id = (case ds_target_scope session of ScAgent a \<Rightarrow> a | _ \<Rightarrow> ''unknown''),
                   pl_selected_pep = pep, pl_selected_pdp = pdp, pl_effective_control_level = level,
                   pl_observability_path = (if level = LvObserve then OpSecureSpoolAndOtel else OpLocalOnly),
                   pl_fallback = calculate_fallback pdp pep,
                   pl_user_messages =
                     (if px_status pep \<noteq> CsReady
                      then [\<lparr>um_message_id = ''pep_degraded'', um_text = px_reason pep, um_severity = EsWarning\<rparr>] else []),
                   pl_required_actions = (if px_status pep \<noteq> CsReady then plan_actions pep (rp_peps caps) else [])\<rparr>))"

subsection \<open>Capability registry\<close>

record pep_capability =
  pp_type :: string
  pp_transports :: "string list"
  pp_control_level :: control_level
  pp_status :: capability_status
  pp_status_reason :: "localized_text option"

record kernel_capabilities =
  kc_linux_ebpf :: "pep_capability option"
  kc_windows_wfp :: "pep_capability option"
  kc_macos_nefilter :: "pep_capability option"

record device_capabilities =
  dv_device_id :: string
  dv_dek_version :: string
  dv_pep :: "pep_capability list"
  dv_kernel :: kernel_capabilities

definition has_os_l4_ready :: "device_capabilities \<Rightarrow> bool" where
  "has_os_l4_ready d \<longleftrightarrow>
     (\<exists>p\<in>set (dv_pep d). (pp_type p = ''linux-ebpf'' \<or> pp_type p = ''windows-wfp'' \<or> pp_type p = ''macos-nefilter'') \<and>
        pp_status p = CsReady)"

text \<open>What the probes of the operating system answer: the platform the program was built for, the files, services and
  environment variables it looks at.\<close>

datatype os_probe =
    LinuxProbe "bool" "bool"
  | WindowsProbe "bool" "bool" "bool" "bool" "bool"
  | MacosProbe "bool" "bool" "bool" "bool"
  | OtherOsProbe

record native_network_probe =
  np_component_present :: bool
  np_permission_ready :: bool
  np_warm_check_passed :: bool
  np_missing_reason :: "string option"

definition native_network_capability :: "string \<Rightarrow> string \<Rightarrow> native_network_probe \<Rightarrow> pep_capability" where
  "native_network_capability type transport probe =
     (let (status, level, reason) =
        (if \<not> np_component_present probe
         then (CsMissingDriver, LvObserve,
           or_else (np_missing_reason probe) (Some ''Native network enforcement component is not installed or active''))
         else if \<not> np_permission_ready probe
         then (CsMissingPermission, LvObserve, Some ''Administrator approval is required before native network enforcement'')
         else if np_warm_check_passed probe then (CsReady, LvEnforce, None)
         else (CsInstalledInactive, LvObserve,
           Some ''Native network component is present, but the active enforce warm-check has not passed''))
      in \<lparr>pp_type = type, pp_transports = [transport], pp_control_level = level, pp_status = status, pp_status_reason = reason\<rparr>)"

definition detect_ebpf :: "bool \<Rightarrow> bool \<Rightarrow> pep_capability" where
  "detect_ebpf has_bpf has_root =
     (let (status, reason, level) =
        (if \<not> has_bpf then (CsMissingBinary, Some ''BPF filesystem is not mounted'', LvObserve)
         else if \<not> has_root
         then (CsMissingPermission, Some ''Root or CAP_BPF/CAP_NET_ADMIN privileges are required for eBPF'', LvObserve)
         else (CsReady, None, LvEnforce))
      in \<lparr>pp_type = ''linux-ebpf'', pp_transports = [''ebpf''], pp_control_level = level, pp_status = status, pp_status_reason = reason\<rparr>)"

text \<open>The arguments: the base filtering engine runs, a Pollek service runs, the driver variable, the approval variable,
  and whether the warm check passed (its variable, or a running service with the synthetic-deny variable).\<close>

definition detect_windows_wfp :: "bool \<Rightarrow> bool \<Rightarrow> bool \<Rightarrow> bool \<Rightarrow> bool \<Rightarrow> pep_capability" where
  "detect_windows_wfp bfe_running service_running driver_env admin_approved warm_check_passed =
     (let driver_present = driver_env \<or> service_running
      in native_network_capability ''windows-wfp'' ''wfp''
           \<lparr>np_component_present = bfe_running \<and> driver_present, np_permission_ready = service_running \<or> admin_approved,
            np_warm_check_passed = warm_check_passed,
            np_missing_reason = (if \<not> bfe_running then Some ''BFE service is not running''
              else if \<not> driver_present then Some ''Pollek WFP service or driver is not active'' else None)\<rparr>)"

definition detect_macos_nefilter :: "bool \<Rightarrow> bool \<Rightarrow> bool \<Rightarrow> bool \<Rightarrow> pep_capability" where
  "detect_macos_nefilter extension_present approved socket_ready warm_check_passed =
     native_network_capability ''macos-nefilter'' ''nefilter''
       \<lparr>np_component_present = extension_present, np_permission_ready = approved \<and> socket_ready,
        np_warm_check_passed = warm_check_passed,
        np_missing_reason = (if \<not> extension_present then Some ''Network Extension is not installed or active'' else None)\<rparr>"

definition mcp_capabilities :: "pep_capability list" where
  "mcp_capabilities =
     [\<lparr>pp_type = ''mcp-stdio'', pp_transports = [''stdio''], pp_control_level = LvEnforce, pp_status = CsReady, pp_status_reason = None\<rparr>,
      \<lparr>pp_type = ''mcp-http'', pp_transports = [''http''], pp_control_level = LvEnforce, pp_status = CsReady, pp_status_reason = None\<rparr>]"

fun detect_pep_capabilities :: "os_probe \<Rightarrow> pep_capability list" where
  "detect_pep_capabilities (LinuxProbe has_bpf has_root) = mcp_capabilities @ [detect_ebpf has_bpf has_root]"
| "detect_pep_capabilities (WindowsProbe a b c d e) = mcp_capabilities @ [detect_windows_wfp a b c d e]"
| "detect_pep_capabilities (MacosProbe a b c d) = mcp_capabilities @ [detect_macos_nefilter a b c d]"
| "detect_pep_capabilities OtherOsProbe = mcp_capabilities"

text \<open>The kernel entries of the registry hold the detected capability as JSON; the model keeps the capability.\<close>

definition gather :: "string \<Rightarrow> string \<Rightarrow> os_probe \<Rightarrow> device_capabilities" where
  "gather device_id dek_version probe =
     (let pep = detect_pep_capabilities probe; of_type = (\<lambda>t. find (\<lambda>p. pp_type p = t) pep)
      in \<lparr>dv_device_id = device_id, dv_dek_version = dek_version, dv_pep = pep,
          dv_kernel = \<lparr>kc_linux_ebpf = of_type ''linux-ebpf'', kc_windows_wfp = of_type ''windows-wfp'',
                       kc_macos_nefilter = of_type ''macos-nefilter''\<rparr>\<rparr>)"

record compatibility_rule =
  cl_preset_id :: string
  cl_pep_types :: "string list"
  cl_pdp_kinds :: "string list"
  cl_required_resources :: "string list"
  cl_enforceable :: bool

text \<open>The arguments are the fields of the binding and of the runtime that are read: its type, whether it can
  observe and enforce, and the kind of decision engine.\<close>

definition is_compatible :: "compatibility_rule \<Rightarrow> string \<Rightarrow> bool \<Rightarrow> bool \<Rightarrow> string \<Rightarrow> bool" where
  "is_compatible rule pep_type can_observe can_enforce pdp_kind \<longleftrightarrow>
     pep_type \<in> set (cl_pep_types rule) \<and> pdp_kind \<in> set (cl_pdp_kinds rule) \<and> can_observe \<and> (\<not> cl_enforceable rule \<or> can_enforce)"

subsection \<open>Router of enforcement points\<close>

datatype enforce_plane = PnKernelEbpf | PnKernelWfp | PnKernelNeFilter | PnMcpHttp | PnMcpStdio | PnNone

datatype enforce_capability = CpEnforce | CpObserveOnly | CpUnavailable

datatype pep_intent = NetworkEgress | McpToolCall bool | ResourceAccess

record pep_route =
  pr_plane :: enforce_plane
  pr_capability :: enforce_capability
  pr_transport :: string
  pr_reason_code :: string

definition route_network :: "device_capabilities \<Rightarrow> pep_route" where
  "route_network caps =
     (if kc_linux_ebpf (dv_kernel caps) \<noteq> None
      then \<lparr>pr_plane = PnKernelEbpf, pr_capability = CpEnforce, pr_transport = ''ebpf'', pr_reason_code = ''enforced''\<rparr>
      else if kc_macos_nefilter (dv_kernel caps) \<noteq> None
      then \<lparr>pr_plane = PnKernelNeFilter, pr_capability = CpEnforce, pr_transport = ''nefilter'', pr_reason_code = ''enforced''\<rparr>
      else if kc_windows_wfp (dv_kernel caps) \<noteq> None
      then \<lparr>pr_plane = PnKernelWfp, pr_capability = CpObserveOnly, pr_transport = ''wfp'', pr_reason_code = ''degraded_observe''\<rparr>
      else \<lparr>pr_plane = PnNone, pr_capability = CpUnavailable, pr_transport = ''none'', pr_reason_code = ''no_pep''\<rparr>)"

definition route_mcp :: "device_capabilities \<Rightarrow> bool \<Rightarrow> pep_route" where
  "route_mcp caps over_http =
     (let want = (if over_http then ''http'' else ''stdio'')
      in case find (\<lambda>p. want \<in> set (pp_transports p) \<and> pp_status p = CsReady) (dv_pep caps) of
           Some p \<Rightarrow> \<lparr>pr_plane = (if over_http then PnMcpHttp else PnMcpStdio), pr_capability = CpEnforce, pr_transport = want,
                        pr_reason_code = ''enforced''\<rparr>
         | None \<Rightarrow> \<lparr>pr_plane = PnNone, pr_capability = CpUnavailable, pr_transport = want, pr_reason_code = ''no_pep''\<rparr>)"

fun route_pep :: "pep_intent \<Rightarrow> device_capabilities \<Rightarrow> pep_route" where
  "route_pep NetworkEgress caps = route_network caps"
| "route_pep (McpToolCall over_http) caps = route_mcp caps over_http"
| "route_pep ResourceAccess caps = route_mcp caps True"

subsection \<open>What the planner chooses\<close>

lemma find_SomeD: "find P xs = Some x \<Longrightarrow> x \<in> set xs \<and> P x"
  by (auto simp: find_Some_iff)

lemma first_present_None: "first_present key ks es = None \<longleftrightarrow> (\<forall>k\<in>set ks. \<forall>e\<in>set es. key e \<noteq> k)"
  by (induction ks) (auto simp: find_None_iff split: option.splits dest: find_SomeD)

lemma first_present_Some:
  "first_present key ks es = Some e \<Longrightarrow>
     e \<in> set es \<and> (\<exists>us vs. ks = us @ key e # vs \<and> (\<forall>k\<in>set us. \<forall>d\<in>set es. key d \<noteq> k))"
proof (induction ks)
  case (Cons k ks)
  show ?case
  proof (cases "find (\<lambda>e. key e = k) es")
    case None
    with Cons obtain us vs where "e \<in> set es" "ks = us @ key e # vs" "\<forall>k\<in>set us. \<forall>d\<in>set es. key d \<noteq> k" by auto
    with None show ?thesis by (intro conjI exI [of _ "k # us"] exI [of _ vs]) (auto simp: find_None_iff)
  next
    case (Some d)
    with Cons.prems have "e = d" "d \<in> set es" "key d = k" by (auto simp: find_Some_iff)
    then show ?thesis by (intro conjI exI [of _ "[]"] exI [of _ ks]) auto
  qed
qed simp

lemma first_present_head: "find (\<lambda>e. key e = k) es = Some e \<Longrightarrow> first_present key (k # ks) es = Some e"
  by simp


lemma select_pdp_chosen:
  assumes "select_pdp pdps = Inr x"
  shows "\<exists>d\<in>set pdps. dx_engine x = dc_engine d \<and> dx_status x = dc_status d \<and>
    (\<exists>us vs. pdp_preference = us @ dc_engine d # vs \<and> (\<forall>e\<in>set pdps. dc_engine e \<notin> set us))"
proof -
  from assms obtain d where d: "first_present dc_engine pdp_preference pdps = Some d" "dx_engine x = dc_engine d" "dx_status x = dc_status d"
    by (auto simp: select_pdp_def split: option.splits)
  with first_present_Some [OF d(1)] show ?thesis by blast
qed

lemma select_pep_chosen:
  assumes "select_pep peps = Inr x"
  shows "\<exists>p\<in>set peps. px_layer x = pc_layer p \<and> px_status x = pc_status p \<and>
    (\<exists>us vs. pep_preference = us @ pc_layer p # vs \<and> (\<forall>e\<in>set peps. pc_layer e \<notin> set us))"
proof -
  from assms obtain p where p: "first_present pc_layer pep_preference peps = Some p" "px_layer x = pc_layer p" "px_status x = pc_status p"
    by (auto simp: select_pep_def split: option.splits)
  with first_present_Some [OF p(1)] show ?thesis by blast
qed

lemma plan_routeE:
  assumes "plan_route s c = Inr p"
  obtains pdp pep where "select_pdp (rp_pdps c) = Inr pdp" "select_pep (rp_peps c) = Inr pep"
    "pl_selected_pdp p = pdp" "pl_selected_pep p = pep"
    "pl_effective_control_level p = (if px_status pep \<noteq> CsReady \<or> dx_status pdp \<noteq> CsReady then LvObserve else ds_requested_control_level s)"
    "pl_observability_path p = (if pl_effective_control_level p = LvObserve then OpSecureSpoolAndOtel else OpLocalOnly)"
  using assms by (auto simp: plan_route_def Let_def split: sum.splits)

lemma select_pdp_error: "select_pdp pdps = Inl e \<longleftrightarrow> e = NoValidPdp \<and> (\<forall>d\<in>set pdps. dc_engine d = EgRouterOnly)"
proof -
  have "(\<forall>k\<in>set pdp_preference. x \<noteq> k) \<longleftrightarrow> x = EgRouterOnly" for x by (cases x) (auto simp: pdp_preference_def)
  then have "first_present dc_engine pdp_preference pdps = None \<longleftrightarrow> (\<forall>d\<in>set pdps. dc_engine d = EgRouterOnly)"
    unfolding first_present_None by metis
  then show ?thesis by (auto simp: select_pdp_def split: option.splits)
qed

lemma select_pep_error:
  "select_pep peps = Inl e \<longleftrightarrow> e = NoValidPep \<and> (\<forall>p\<in>set peps. pc_layer p \<in> {ElHttpProxy, ElBrowserExtension, ElObserveOnly})"
proof -
  have "(\<forall>k\<in>set pep_preference. x \<noteq> k) \<longleftrightarrow> x \<in> {ElHttpProxy, ElBrowserExtension, ElObserveOnly}" for x
    by (cases x) (auto simp: pep_preference_def)
  then have "first_present pc_layer pep_preference peps = None \<longleftrightarrow>
      (\<forall>p\<in>set peps. pc_layer p \<in> {ElHttpProxy, ElBrowserExtension, ElObserveOnly})"
    unfolding first_present_None by metis
  then show ?thesis by (auto simp: select_pep_def split: option.splits)
qed

lemma plan_route_error:
  "plan_route s c = Inl e \<longleftrightarrow>
     select_pdp (rp_pdps c) = Inl e \<or> ((\<exists>d. select_pdp (rp_pdps c) = Inr d) \<and> select_pep (rp_peps c) = Inl e)"
  by (cases "select_pdp (rp_pdps c)"; cases "select_pep (rp_peps c)") (simp_all add: plan_route_def Let_def)

subsection \<open>Properties\<close>

text \<open>
  A deployment plan never promises more than the device can do: the level is the requested one when the chosen
  enforcement point and decision engine are both ready and otherwise observe only; both are present on the device and no layer
  or engine of higher preference is. Planning fails exactly when the device has no engine, or else no layer, of the
  preference lists.
\<close>

lemma plan_route_sound:
  "case plan_route s c of
     Inr p \<Rightarrow>
       pl_effective_control_level p =
         (if px_status (pl_selected_pep p) = CsReady \<and> dx_status (pl_selected_pdp p) = CsReady then ds_requested_control_level s else LvObserve) \<and>
       (\<exists>d\<in>set (rp_pdps c). dx_engine (pl_selected_pdp p) = dc_engine d \<and> dx_status (pl_selected_pdp p) = dc_status d \<and>
          (\<exists>us vs. pdp_preference = us @ dc_engine d # vs \<and> (\<forall>e\<in>set (rp_pdps c). dc_engine e \<notin> set us))) \<and>
       (\<exists>l\<in>set (rp_peps c). px_layer (pl_selected_pep p) = pc_layer l \<and> px_status (pl_selected_pep p) = pc_status l \<and>
          (\<exists>us vs. pep_preference = us @ pc_layer l # vs \<and> (\<forall>e\<in>set (rp_peps c). pc_layer e \<notin> set us)))
   | Inl NoValidPdp \<Rightarrow> (\<forall>d\<in>set (rp_pdps c). dc_engine d = EgRouterOnly)
   | Inl NoValidPep \<Rightarrow> (\<exists>d\<in>set (rp_pdps c). dc_engine d \<noteq> EgRouterOnly) \<and>
       (\<forall>l\<in>set (rp_peps c). pc_layer l \<in> {ElHttpProxy, ElBrowserExtension, ElObserveOnly})"
proof (cases "plan_route s c")
  case (Inl e)
  have "\<not> (\<forall>d\<in>set (rp_pdps c). dc_engine d = EgRouterOnly)" if "select_pdp (rp_pdps c) = Inr d" for d
    using that select_pdp_error [of "rp_pdps c" NoValidPdp] by auto
  then show ?thesis
    using Inl [unfolded plan_route_error select_pdp_error select_pep_error] unfolding Inl by (cases e) auto
next
  case (Inr p)
  then obtain pdp pep where x: "select_pdp (rp_pdps c) = Inr pdp" "select_pep (rp_peps c) = Inr pep"
    "pl_selected_pdp p = pdp" "pl_selected_pep p = pep"
    "pl_effective_control_level p = (if px_status pep \<noteq> CsReady \<or> dx_status pdp \<noteq> CsReady then LvObserve else ds_requested_control_level s)"
    by (rule plan_routeE)
  with select_pdp_chosen [OF x(1)] select_pep_chosen [OF x(2)] show ?thesis by (simp add: Inr)
qed


definition demo_session :: deployment_session where
  "demo_session = \<lparr>ds_deployment_id = ''d'', ds_policy_id = ''p'', ds_policy_version = ''1'', ds_requested_control_level = LvEnforce,
     ds_target_scope = ScAgent ''a'', ds_created_by = ''t''\<rparr>"

definition demo_report :: "capability_status \<Rightarrow> device_capability_report" where
  "demo_report ebpf = \<lparr>rp_device_id = ''d'',
     rp_peps = [\<lparr>pc_layer = ElMcpProxy, pc_status = CsReady, pc_reason_code = [], pc_user_message = [], pc_next_action = None\<rparr>,
       \<lparr>pc_layer = ElEbpfNetwork, pc_status = ebpf, pc_reason_code = [], pc_user_message = [], pc_next_action = None\<rparr>],
     rp_pdps = [\<lparr>dc_engine = EgCedar, dc_status = CsReady, dc_reason_code = [], dc_user_message = []\<rparr>]\<rparr>"

text \<open>The preference looks at presence only: a kernel layer that is not ready keeps the ready proxy from being chosen, and
  the deployment is observe only.\<close>

lemma unready_layer_shadows_ready:
  assumes "\<exists>l\<in>set (rp_peps c). pc_layer l = ElEbpfNetwork" and "\<forall>l\<in>set (rp_peps c). pc_layer l = ElEbpfNetwork \<longrightarrow> pc_status l \<noteq> CsReady"
    and "plan_route s c = Inr p"
  shows "pl_effective_control_level p = LvObserve"
proof -
  from assms(1) obtain l where l: "find (\<lambda>e. pc_layer e = ElEbpfNetwork) (rp_peps c) = Some l" "l \<in> set (rp_peps c)" "pc_layer l = ElEbpfNetwork"
    by (cases "find (\<lambda>e. pc_layer e = ElEbpfNetwork) (rp_peps c)") (auto simp: find_None_iff dest: find_SomeD)
  then have "first_present pc_layer pep_preference (rp_peps c) = Some l" by (simp add: pep_preference_def)
  with l assms(2) have "px_status pep \<noteq> CsReady" if "select_pep (rp_peps c) = Inr pep" for pep
    using that by (auto simp: select_pep_def)
  then show ?thesis using assms(3) by (auto elim: plan_routeE)
qed

text \<open>The router of enforcement points believes every kernel entry: on a Linux host without the needed privileges the
  registry reports no layer ready and the observe level, and the route still claims kernel enforcement.\<close>

lemma network_route_ignores_status:
  "pr_capability (route_pep NetworkEgress (gather dev ver (LinuxProbe b r))) = CpEnforce \<and>
   (\<not> (b \<and> r) \<longrightarrow> \<not> has_os_l4_ready (gather dev ver (LinuxProbe b r)) \<and>
      (\<exists>p. kc_linux_ebpf (dv_kernel (gather dev ver (LinuxProbe b r))) = Some p \<and> pp_control_level p = LvObserve))"
  by (auto simp: gather_def route_network_def detect_ebpf_def mcp_capabilities_def has_os_l4_ready_def Let_def)

lemma native_probe_enforces_only_ready:
  "pp_control_level (native_network_capability t tr probe) = LvEnforce \<longleftrightarrow>
     np_component_present probe \<and> np_permission_ready probe \<and> np_warm_check_passed probe"
  "pp_status (native_network_capability t tr probe) = CsReady \<longleftrightarrow>
     np_component_present probe \<and> np_permission_ready probe \<and> np_warm_check_passed probe"
  by (simp_all add: native_network_capability_def)

text \<open>For tool calls the route is sound and complete: enforcement exactly when a ready point speaks the transport.\<close>

lemma route_mcp_exact:
  "pr_capability (route_mcp caps http) = CpEnforce \<longleftrightarrow>
     (\<exists>p\<in>set (dv_pep caps). (if http then ''http'' else ''stdio'') \<in> set (pp_transports p) \<and> pp_status p = CsReady)"
  by (auto simp: route_mcp_def Let_def find_None_iff dest: find_SomeD split: option.splits)

lemma gathered_mcp_routes_enforce:
  "pr_capability (route_pep (McpToolCall http) (gather dev ver probe)) = CpEnforce"
  by (cases probe; cases http) (auto simp: route_mcp_exact gather_def mcp_capabilities_def Let_def)

end
