(* ===== verification/Policy_Feasibility.thy ===== *)
theory Policy_Feasibility
  imports Capability_Routing
begin

text \<open>
  \<^verbatim>\<open>src/crates/dek-deployment-planner\<close> with the snapshot of \<^verbatim>\<open>src/crates/dek-capability-registry/src/snapshot.rs\<close> and the
  types of \<^verbatim>\<open>src/crates/dek-domain-schema/src/feasibility.rs\<close>: which control method carries a policy on this device, at
  which level, and which policies to suggest. Fields that are only passed through (identifiers of the result, time stamps, evidence) and the
  Thai texts are left out; a score is an integer, far from the limits of \<^verbatim>\<open>i32\<close>.
\<close>

datatype product_mode = PmDesktopSimple | PmDesktopAdvanced | PmEnterpriseServer | PmSovereignAirgap

datatype policy_intent =
    ItObserveAgentActivity | ItApproveRiskyToolCalls | ItBlockSpecificTools | ItRedactSensitiveParameters | ItBlockSensitiveFileUpload
  | ItBlockUnknownNetworkDestinations | ItRestrictLocalModelUsage | ItLimitTokenOrCostUsage | ItRequireEntityRelationship
  | ItDetectPromptInjection | ItKillSwitchOnAnomaly

datatype feasibility_status =
    FsCanEnforceNow | FsCanEnforceAfterApproval | FsCanPartiallyEnforce | FsCanObserveOnly | FsNeedsSetup | FsUnsupported | FsUnknown

datatype control_method =
    CmAgentToolControl | CmAgentConfigWrapper | CmLocalApiControl | CmBrowserActivityMonitor | CmSystemNetworkControl
  | CmProcessObservation | CmObserveOnly

datatype internal_pep =
    IpMcpProxy | IpMcpStdioWrapper | IpHttpProxy | IpBrowserExtension | IpLinuxEbpf | IpWindowsWfp | IpMacosNetworkExtension
  | IpSecureSpoolObserver | IpNone

datatype internal_pdp = IdCedar | IdOpaWasm | IdOpenFga | IdCloud | IdRouterOnly

record enforceability =
  ef_can_observe :: bool
  ef_can_warn :: bool
  ef_can_require_approval :: bool
  ef_can_enforce :: bool
  ef_can_strict_deny :: bool

record control_method_plan =
  mp_method :: control_method
  mp_internal_pep :: internal_pep
  mp_internal_pdp :: internal_pdp
  mp_enforceability :: enforceability
  mp_reason_code :: string
  mp_explanation :: localized_text

record policy_target =
  pt_target_id :: string
  pt_tenant_id :: string

record feasibility_request =
  fq_policy_id :: "string option"
  fq_policy_intent :: policy_intent
  fq_requested_control_level :: control_level
  fq_targets :: "policy_target list"
  fq_mode :: product_mode

datatype fallback_behavior = FbDowngradeToObserve | FbWarnThenObserve | FbRequireUserSetup | FbNoFallback

record route_preview =
  rv_user_control_method :: control_method
  rv_advanced_pep :: "internal_pep option"
  rv_advanced_pdp :: "internal_pdp option"
  rv_fallback :: fallback_behavior
  rv_warm_check_required :: bool
  rv_explanation :: localized_text

record feasibility_result =
  fr_target :: policy_target
  fr_policy_intent :: policy_intent
  fr_requested_control_level :: control_level
  fr_effective_control_level :: control_level
  fr_status :: feasibility_status
  fr_summary :: localized_text
  fr_detail :: localized_text
  fr_route_preview :: route_preview

subsection \<open>Snapshot\<close>

datatype method_status =
    McReady | McReadyAfterApproval | McInstalledInactive | McMissingPermission | McMissingComponent | McUnsupportedOnThisOs
  | McUnsupportedForThisAgent | McUnhealthy | McUnknown

record control_method_capability =
  mc_method :: control_method
  mc_internal_pep :: internal_pep
  mc_status :: method_status
  mc_can_observe :: bool
  mc_can_enforce :: bool
  mc_requires_admin :: bool
  mc_requires_user_approval :: bool
  mc_user_message :: localized_text

record agent_inventory =
  ai_agent_id :: string
  ai_mcp_surfaces :: "string list"
  ai_model_endpoints :: "string list"

record capability_snapshot =
  cn_agents :: "agent_inventory list"
  cn_methods :: "control_method_capability list"

definition capability_to_user_status :: "control_method_capability \<Rightarrow> feasibility_status" where
  "capability_to_user_status cap =
     (if mc_status cap = McReady \<and> mc_can_enforce cap then FsCanEnforceNow
      else if mc_status cap = McReadyAfterApproval \<and> mc_can_enforce cap then FsCanEnforceAfterApproval
      else if mc_status cap = McReady \<and> mc_can_observe cap then FsCanObserveOnly
      else if mc_status cap = McMissingPermission \<or> mc_status cap = McMissingComponent then FsNeedsSetup
      else if mc_status cap = McUnsupportedOnThisOs \<or> mc_status cap = McUnsupportedForThisAgent then FsUnsupported
      else FsUnknown)"

subsection \<open>Planner\<close>

record control_level_negotiation =
  ng_requested :: control_level
  ng_effective :: control_level
  ng_downgraded :: bool
  ng_reason :: localized_text
  ng_requires_user_confirmation :: bool

definition effective_level :: "control_level \<Rightarrow> enforceability \<Rightarrow> control_level" where
  "effective_level requested e =
     (if requested = LvStrictDeny \<and> ef_can_strict_deny e then LvStrictDeny
      else if requested = LvStrictDeny \<and> ef_can_enforce e then LvEnforce
      else if requested = LvEnforce \<and> ef_can_enforce e then LvEnforce
      else if requested = LvEnforce \<and> ef_can_require_approval e then LvApproval
      else if requested = LvApproval \<and> ef_can_require_approval e then LvApproval
      else if requested = LvWarn \<and> ef_can_warn e then LvWarn
      else if ef_can_observe e then LvObserve
      else LvObserve)"

definition negotiate_control_level :: "control_level \<Rightarrow> enforceability \<Rightarrow> control_level_negotiation" where
  "negotiate_control_level requested e =
     (let effective = effective_level requested e; downgraded = (effective \<noteq> requested)
      in \<lparr>ng_requested = requested, ng_effective = effective, ng_downgraded = downgraded,
          ng_reason = (if downgraded
            then ''This device cannot fully enforce the requested level yet. POLLEK will use the strongest available safe mode.''
            else ''The requested control level is supported on this device.''),
          ng_requires_user_confirmation = downgraded\<rparr>)"

fun desktop_bonus :: "control_method \<Rightarrow> int" where
  "desktop_bonus CmAgentToolControl = 40"
| "desktop_bonus CmAgentConfigWrapper = 30"
| "desktop_bonus CmLocalApiControl = 25"
| "desktop_bonus CmBrowserActivityMonitor = 15"
| "desktop_bonus CmSystemNetworkControl = - 10"
| "desktop_bonus CmProcessObservation = 10"
| "desktop_bonus CmObserveOnly = 0"

definition score_plan :: "feasibility_request \<Rightarrow> control_method_plan \<Rightarrow> int" where
  "score_plan req plan =
     (let e = mp_enforceability plan
      in (if ef_can_enforce e then 100 else 0) + (if ef_can_require_approval e then 70 else 0) + (if ef_can_warn e then 50 else 0) +
         (if ef_can_observe e then 20 else 0) + (if fq_mode req = PmDesktopSimple then desktop_bonus (mp_method plan) else 0) +
         (if fq_mode req = PmEnterpriseServer \<and> mp_method plan = CmSystemNetworkControl then 40 else 0))"

definition resolve_agent :: "policy_target \<Rightarrow> capability_snapshot \<Rightarrow> agent_inventory option" where
  "resolve_agent target snapshot = find (\<lambda>a. ai_agent_id a = pt_target_id target) (cn_agents snapshot)"

definition skipped_method :: "control_method_capability \<Rightarrow> bool" where
  "skipped_method m \<longleftrightarrow>
     mc_status m = McUnsupportedOnThisOs \<or> mc_status m = McUnsupportedForThisAgent \<or> mc_status m = McUnknown"

definition plan_of_method :: "control_method_capability \<Rightarrow> control_method_plan" where
  "plan_of_method m =
     \<lparr>mp_method = mc_method m, mp_internal_pep = mc_internal_pep m, mp_internal_pdp = IdCedar,
      mp_enforceability = \<lparr>ef_can_observe = mc_can_observe m, ef_can_warn = mc_can_enforce m,
        ef_can_require_approval = mc_requires_user_approval m \<or> mc_can_enforce m, ef_can_enforce = mc_can_enforce m,
        ef_can_strict_deny = mc_can_enforce m\<rparr>,
      mp_reason_code = ''mapped_from_capability'', mp_explanation = mc_user_message m\<rparr>"

definition observe_plan :: "string \<Rightarrow> localized_text \<Rightarrow> control_method_plan" where
  "observe_plan reason explanation =
     \<lparr>mp_method = CmObserveOnly, mp_internal_pep = IpNone, mp_internal_pdp = IdCloud,
      mp_enforceability = \<lparr>ef_can_observe = True, ef_can_warn = False, ef_can_require_approval = False, ef_can_enforce = False,
        ef_can_strict_deny = False\<rparr>,
      mp_reason_code = reason, mp_explanation = explanation\<rparr>"

definition candidate_methods_for_intent ::
  "policy_intent \<Rightarrow> agent_inventory option \<Rightarrow> capability_snapshot \<Rightarrow> (control_method_plan \<times> feasibility_status) list" where
  "candidate_methods_for_intent intent agent snapshot =
     (let plans = map (\<lambda>m. (plan_of_method m, capability_to_user_status m)) (filter (\<lambda>m. \<not> skipped_method m) (cn_methods snapshot))
      in if plans = []
         then [(observe_plan ''fallback_observe'' ''No active control method available. Reverting to observe only.'', FsCanObserveOnly)]
         else plans)"

definition select_best_control_method ::
  "feasibility_request \<Rightarrow> (control_method_plan \<times> feasibility_status) list \<Rightarrow> control_method_plan \<times> feasibility_status" where
  "select_best_control_method req candidates =
     (let ordered = sort_key (\<lambda>(plan, _). score_plan req plan) candidates
      in if ordered = [] then (observe_plan ''no_methods_found'' ''No suitable control methods found.'', FsUnknown) else last ordered)"

definition build_feasibility_result ::
  "feasibility_request \<Rightarrow> policy_target \<Rightarrow> control_method_plan \<times> feasibility_status \<Rightarrow> feasibility_result" where
  "build_feasibility_result req target candidate =
     (let (plan, status) = candidate; n = negotiate_control_level (fq_requested_control_level req) (mp_enforceability plan)
      in \<lparr>fr_target = target, fr_policy_intent = fq_policy_intent req, fr_requested_control_level = fq_requested_control_level req,
          fr_effective_control_level = ng_effective n, fr_status = status, fr_summary = ng_reason n, fr_detail = mp_explanation plan,
          fr_route_preview = \<lparr>rv_user_control_method = mp_method plan, rv_advanced_pep = Some (mp_internal_pep plan),
            rv_advanced_pdp = Some (mp_internal_pdp plan),
            rv_fallback = (if ng_downgraded n then FbDowngradeToObserve else FbNoFallback), rv_warm_check_required = True,
            rv_explanation = mp_explanation plan\<rparr>\<rparr>)"

definition evaluate_policy_feasibility :: "feasibility_request \<Rightarrow> capability_snapshot \<Rightarrow> feasibility_result list" where
  "evaluate_policy_feasibility req snapshot =
     map (\<lambda>target.
       let agent = resolve_agent target snapshot;
           candidates = candidate_methods_for_intent (fq_policy_intent req) agent snapshot;
           best = select_best_control_method req candidates
       in build_feasibility_result req target best) (fq_targets req)"

subsection \<open>Suggestions\<close>

record suggested_policy =
  sg_suggestion_id :: string
  sg_policy_template_id :: string
  sg_display_name :: localized_text
  sg_target_agent_ids :: "string list"
  sg_recommended_control_level :: control_level
  sg_feasibility :: feasibility_status
  sg_confidence :: f64
  sg_reason_codes :: "string list"

definition suggest_for_agent :: "agent_inventory \<Rightarrow> control_method_capability list \<Rightarrow> suggested_policy list" where
  "suggest_for_agent agent caps =
     (let aid = ai_agent_id agent;
          network_ready = (\<exists>c\<in>set caps. mc_method c = CmSystemNetworkControl \<and> mc_status c = McReady)
      in (if ai_mcp_surfaces agent \<noteq> []
          then [\<lparr>sg_suggestion_id = ''sugg-mcp-risky-'' @ aid, sg_policy_template_id = ''approve_risky_tool_calls'',
                  sg_display_name = ''Approve risky tool calls'', sg_target_agent_ids = [aid], sg_recommended_control_level = LvApproval,
                  sg_feasibility = FsCanEnforceAfterApproval, sg_confidence = 9 / 10, sg_reason_codes = [''mcp_surface_detected'']\<rparr>,
                \<lparr>sg_suggestion_id = ''sugg-mcp-redact-'' @ aid, sg_policy_template_id = ''redact_sensitive_parameters'',
                  sg_display_name = ''Redact sensitive parameters'', sg_target_agent_ids = [aid], sg_recommended_control_level = LvEnforce,
                  sg_feasibility = FsCanEnforceAfterApproval, sg_confidence = 9 / 10, sg_reason_codes = [''mcp_surface_detected'']\<rparr>]
          else []) @
         (if ai_model_endpoints agent \<noteq> []
          then [\<lparr>sg_suggestion_id = ''sugg-api-limit-'' @ aid, sg_policy_template_id = ''limit_token_or_cost_usage'',
                  sg_display_name = ''Limit token or cost usage'', sg_target_agent_ids = [aid], sg_recommended_control_level = LvWarn,
                  sg_feasibility = FsCanEnforceNow, sg_confidence = 9 / 10, sg_reason_codes = [''local_api_detected'']\<rparr>]
          else []) @
         (if network_ready
          then [\<lparr>sg_suggestion_id = ''sugg-net-block-'' @ aid, sg_policy_template_id = ''block_unknown_network_destinations'',
                  sg_display_name = ''Block unknown network destinations'', sg_target_agent_ids = [aid],
                  sg_recommended_control_level = LvEnforce, sg_feasibility = FsCanEnforceNow, sg_confidence = 95 / 100,
                  sg_reason_codes = [''network_control_ready'']\<rparr>]
          else [\<lparr>sg_suggestion_id = ''sugg-net-obs-'' @ aid, sg_policy_template_id = ''observe_unknown_network_destinations'',
                  sg_display_name = ''Observe network destinations'', sg_target_agent_ids = [aid],
                  sg_recommended_control_level = LvObserve, sg_feasibility = FsCanObserveOnly, sg_confidence = 8 / 10,
                  sg_reason_codes = [''network_control_not_ready'']\<rparr>]))"

definition suggest :: "capability_snapshot \<Rightarrow> suggested_policy list" where
  "suggest snapshot = concat (map (\<lambda>agent. suggest_for_agent agent (cn_methods snapshot)) (cn_agents snapshot))"

subsection \<open>Negotiation\<close>

fun level_rank :: "control_level \<Rightarrow> nat" where
  "level_rank LvObserve = 0"
| "level_rank LvWarn = 1"
| "level_rank LvApproval = 2"
| "level_rank LvEnforce = 3"
| "level_rank LvStrictDeny = 4"

fun level_supported :: "enforceability \<Rightarrow> control_level \<Rightarrow> bool" where
  "level_supported e LvObserve = True"
| "level_supported e LvWarn = ef_can_warn e"
| "level_supported e LvApproval = ef_can_require_approval e"
| "level_supported e LvEnforce = ef_can_enforce e"
| "level_supported e LvStrictDeny = ef_can_strict_deny e"

lemma effective_level_bounds:
  "level_rank (effective_level r e) \<le> level_rank r" "level_supported e (effective_level r e)"
  "level_supported e r \<Longrightarrow> effective_level r e = r"
  by (cases r; simp add: effective_level_def)+

subsection \<open>Selection\<close>

lemma sort_key_last:
  assumes "xs \<noteq> []"
  shows "last (sort_key f xs) \<in> set xs \<and> (\<forall>x\<in>set xs. f x \<le> f (last (sort_key f xs)))"
proof -
  let ?s = "sort_key f xs"
  have ne: "?s \<noteq> []" using assms by (metis length_0_conv length_sort)
  then have e: "?s = butlast ?s @ [last ?s]" by simp
  have "sorted (map f (butlast ?s @ [last ?s]))" using e by (metis sorted_sort_key)
  then have "\<forall>x\<in>set (butlast ?s). f x \<le> f (last ?s)" by (auto simp: sorted_append)
  moreover have "set xs = insert (last ?s) (set (butlast ?s))" using e by (metis Un_insert_right list.set(1) list.simps(15) set_append set_sort sup_bot_right)
  ultimately show ?thesis by auto
qed

lemma select_best_max:
  assumes "cs \<noteq> []"
  shows "select_best_control_method req cs \<in> set cs \<and>
    (\<forall>c\<in>set cs. score_plan req (fst c) \<le> score_plan req (fst (select_best_control_method req cs)))"
proof -
  have "sort_key (\<lambda>(plan, _). score_plan req plan) cs \<noteq> []" using assms by (metis length_0_conv length_sort)
  then show ?thesis
    using sort_key_last [OF assms, of "\<lambda>(plan, _). score_plan req plan"] by (simp add: select_best_control_method_def Let_def split_def)
qed


lemma candidates_cases:
  assumes "c \<in> set (candidate_methods_for_intent i a snap)"
  shows "c = (observe_plan ''fallback_observe'' ''No active control method available. Reverting to observe only.'', FsCanObserveOnly) \<or>
    (\<exists>m\<in>set (cn_methods snap). \<not> skipped_method m \<and> c = (plan_of_method m, capability_to_user_status m))"
  using assms by (auto simp: candidate_methods_for_intent_def Let_def split: if_splits)

lemma candidates_nonempty [simp]: "candidate_methods_for_intent i a snap \<noteq> []"
  by (simp add: candidate_methods_for_intent_def Let_def)

lemma candidates_complete:
  "m \<in> set (cn_methods snap) \<Longrightarrow> \<not> skipped_method m \<Longrightarrow> (plan_of_method m, capability_to_user_status m) \<in> set (candidate_methods_for_intent i a snap)"
  by (auto simp: candidate_methods_for_intent_def Let_def filter_empty_conv)

lemma resultE:
  assumes "r \<in> set (evaluate_policy_feasibility req snap)"
  obtains t plan status where "t \<in> set (fq_targets req)"
    "select_best_control_method req (candidate_methods_for_intent (fq_policy_intent req) (resolve_agent t snap) snap) = (plan, status)"
    "r = build_feasibility_result req t (plan, status)"
proof -
  from assms obtain t where "t \<in> set (fq_targets req)"
    "r = build_feasibility_result req t (select_best_control_method req (candidate_methods_for_intent (fq_policy_intent req) (resolve_agent t snap) snap))"
    by (auto simp: evaluate_policy_feasibility_def Let_def)
  with that show thesis by (metis surj_pair)
qed

lemma build_result_fields:
  "fr_effective_control_level (build_feasibility_result req t (plan, status)) = effective_level (fq_requested_control_level req) (mp_enforceability plan)"
  "fr_status (build_feasibility_result req t (plan, status)) = status"
  "rv_user_control_method (fr_route_preview (build_feasibility_result req t (plan, status))) = mp_method plan"
  by (simp_all add: build_feasibility_result_def negotiate_control_level_def Let_def)

lemma plan_of_method_fields [simp]:
  "mp_method (plan_of_method m) = mc_method m"
  "mp_enforceability (plan_of_method m) = \<lparr>ef_can_observe = mc_can_observe m, ef_can_warn = mc_can_enforce m,
     ef_can_require_approval = mc_requires_user_approval m \<or> mc_can_enforce m, ef_can_enforce = mc_can_enforce m, ef_can_strict_deny = mc_can_enforce m\<rparr>"
  by (simp_all add: plan_of_method_def)

lemma observe_plan_level [simp]: "effective_level l (mp_enforceability (observe_plan a b)) = LvObserve"
  by (cases l) (simp_all add: effective_level_def observe_plan_def)

lemma status_now: "capability_to_user_status m = FsCanEnforceNow \<longleftrightarrow> mc_status m = McReady \<and> mc_can_enforce m"
  by (simp add: capability_to_user_status_def)

lemma enforcing_plan_level: "mc_can_enforce m \<Longrightarrow> effective_level l (mp_enforceability (plan_of_method m)) = l"
  by (cases l) (simp_all add: effective_level_def)

lemma blocking_plan_level:
  "may_block (effective_level l (mp_enforceability (plan_of_method m))) \<Longrightarrow> mc_can_enforce m \<or> mc_requires_user_approval m"
  by (cases l) (auto simp: effective_level_def may_block_def split: if_splits)

subsection \<open>Properties\<close>

text \<open>
  The feasibility of a policy is reported honestly: the effective level never exceeds the requested one; a result
  that says the policy can be enforced now rests on a method of the snapshot that is ready and can enforce, and keeps the
  requested level; a level that may block rests on a supported method that can enforce or ask; and no supported method
  scores higher than the chosen one.
\<close>

lemma feasibility_sound:
  assumes "r \<in> set (evaluate_policy_feasibility req snap)"
  shows "level_rank (fr_effective_control_level r) \<le> level_rank (fq_requested_control_level req) \<and>
    (fr_status r = FsCanEnforceNow \<longrightarrow> fr_effective_control_level r = fq_requested_control_level req \<and>
       (\<exists>m\<in>set (cn_methods snap). mc_status m = McReady \<and> mc_can_enforce m \<and> rv_user_control_method (fr_route_preview r) = mc_method m)) \<and>
    (may_block (fr_effective_control_level r) \<longrightarrow>
       (\<exists>m\<in>set (cn_methods snap). \<not> skipped_method m \<and> (mc_can_enforce m \<or> mc_requires_user_approval m) \<and>
          rv_user_control_method (fr_route_preview r) = mc_method m \<and>
          (\<forall>m'\<in>set (cn_methods snap). \<not> skipped_method m' \<longrightarrow> score_plan req (plan_of_method m') \<le> score_plan req (plan_of_method m))))"
proof -
  from assms obtain t plan status where
    best: "select_best_control_method req (candidate_methods_for_intent (fq_policy_intent req) (resolve_agent t snap) snap) = (plan, status)"
    and r: "r = build_feasibility_result req t (plan, status)" by (rule resultE)
  let ?cs = "candidate_methods_for_intent (fq_policy_intent req) (resolve_agent t snap) snap"
  have mem: "(plan, status) \<in> set ?cs" and mx: "\<forall>c\<in>set ?cs. score_plan req (fst c) \<le> score_plan req plan"
    using select_best_max [of ?cs req] best by simp_all
  from candidates_cases [OF mem] show ?thesis
  proof
    assume "(plan, status) = (observe_plan ''fallback_observe'' ''No active control method available. Reverting to observe only.'', FsCanObserveOnly)"
    then show ?thesis by (simp add: r build_result_fields may_block_def)
  next
    assume "\<exists>m\<in>set (cn_methods snap). \<not> skipped_method m \<and> (plan, status) = (plan_of_method m, capability_to_user_status m)"
    then obtain m where m: "m \<in> set (cn_methods snap)" "\<not> skipped_method m" "plan = plan_of_method m" "status = capability_to_user_status m" by auto
    have sc: "\<forall>m'\<in>set (cn_methods snap). \<not> skipped_method m' \<longrightarrow> score_plan req (plan_of_method m') \<le> score_plan req (plan_of_method m)"
      using mx candidates_complete [of _ snap "fq_policy_intent req" "resolve_agent t snap"] m(3) by fastforce
    show ?thesis
      unfolding r build_result_fields m(3,4) status_now
      using effective_level_bounds(1) m(1,2) sc blocking_plan_level [of _ m] enforcing_plan_level [of m] by (metis plan_of_method_fields(1))
  qed
qed

definition demo_method :: "control_method \<Rightarrow> method_status \<Rightarrow> control_method_capability" where
  "demo_method m st = \<lparr>mc_method = m, mc_internal_pep = IpMcpProxy, mc_status = st, mc_can_observe = True, mc_can_enforce = True,
     mc_requires_admin = False, mc_requires_user_approval = False, mc_user_message = []\<rparr>"

definition demo_request :: feasibility_request where
  "demo_request = \<lparr>fq_policy_id = None, fq_policy_intent = ItBlockSpecificTools, fq_requested_control_level = LvEnforce,
     fq_targets = [\<lparr>pt_target_id = ''a'', pt_tenant_id = ''t''\<rparr>], fq_mode = PmDesktopSimple\<rparr>"

lemma demo_result:
  "evaluate_policy_feasibility demo_request \<lparr>cn_agents = [], cn_methods = ms\<rparr> =
     [build_feasibility_result demo_request \<lparr>pt_target_id = ''a'', pt_tenant_id = ''t''\<rparr>
        (select_best_control_method demo_request (candidate_methods_for_intent ItBlockSpecificTools None \<lparr>cn_agents = [], cn_methods = ms\<rparr>))]"
  by (simp add: evaluate_policy_feasibility_def demo_request_def resolve_agent_def Let_def)

lemma demo_best:
  "select_best_control_method demo_request (candidate_methods_for_intent ItBlockSpecificTools None \<lparr>cn_agents = [], cn_methods =
     [demo_method CmLocalApiControl McReady, demo_method CmAgentToolControl st]\<rparr>) =
   (if skipped_method (demo_method CmAgentToolControl st) then (plan_of_method (demo_method CmLocalApiControl McReady), FsCanEnforceNow)
    else (plan_of_method (demo_method CmAgentToolControl st), capability_to_user_status (demo_method CmAgentToolControl st)))"
  by (simp add: candidate_methods_for_intent_def select_best_control_method_def demo_method_def skipped_method_def score_plan_def
      demo_request_def plan_of_method_def capability_to_user_status_def Let_def)

text \<open>The score does not look at the status of a method: an agent-tool method whose component is missing is chosen before a
  local-API method that is ready, and the result promises the requested level although setup is needed.\<close>

lemma missing_method_beats_ready:
  "\<exists>r. evaluate_policy_feasibility demo_request
      \<lparr>cn_agents = [], cn_methods = [demo_method CmLocalApiControl McReady, demo_method CmAgentToolControl McMissingComponent]\<rparr> = [r] \<and>
     fr_status r = FsNeedsSetup \<and> fr_effective_control_level r = LvEnforce"
  unfolding demo_result demo_best
  by (simp add: build_result_fields skipped_method_def enforcing_plan_level demo_method_def demo_request_def capability_to_user_status_def
      plan_of_method_def effective_level_def)

text \<open>The strongest supported level is not always taken: on a device that can ask for approval but not enforce, a request for
  strict denial falls to observe while the weaker request to enforce becomes approval; warnings are skipped the same way.\<close>

lemma negotiation_skips_supported_levels:
  assumes "\<not> ef_can_enforce e" and "\<not> ef_can_strict_deny e" and "ef_can_require_approval e"
  shows "effective_level LvStrictDeny e = LvObserve \<and> effective_level LvEnforce e = LvApproval"
  using assms by (simp add: effective_level_def)

lemma suggest_network_once:
  "length (filter (\<lambda>s. sg_reason_codes s = [''network_control_ready''] \<or> sg_reason_codes s = [''network_control_not_ready'']) (suggest_for_agent a caps)) = 1 \<and>
   ((\<exists>s\<in>set (suggest_for_agent a caps). sg_policy_template_id s = ''block_unknown_network_destinations'') \<longleftrightarrow>
     (\<exists>c\<in>set caps. mc_method c = CmSystemNetworkControl \<and> mc_status c = McReady))"
  by (cases "\<exists>c\<in>set caps. mc_method c = CmSystemNetworkControl \<and> mc_status c = McReady";
      cases "ai_mcp_surfaces a = []"; cases "ai_model_endpoints a = []")
     (simp_all add: suggest_for_agent_def Let_def)

end
