(* ===== verification/Enforcement_Planner.thy ===== *)
theory Enforcement_Planner
  imports Guard_Normalize
begin

text \<open>
  \<^verbatim>\<open>src/crates/dek-enforcement-api\<close>: the planner (\<^verbatim>\<open>planner.rs\<close>), the assessment of a discovered agent
  (\<^verbatim>\<open>feasibility.rs\<close>) and the router that drives the network enforcers (\<^verbatim>\<open>router.rs\<close>). A control level is
  ordered as the source derives it. The Thai texts are left out. An enforcer is a state with a fallible operation.
\<close>

subsection \<open>Levels, domains, methods\<close>

datatype plan_level = EvlObserve | EvlWarn | EvlAsk | EvlEnforce

fun plan_level_rank :: "plan_level \<Rightarrow> nat" where
  "plan_level_rank EvlObserve = 0"
| "plan_level_rank EvlWarn = 1"
| "plan_level_rank EvlAsk = 2"
| "plan_level_rank EvlEnforce = 3"

lemma plan_level_rank_inj: "plan_level_rank a = plan_level_rank b \<longleftrightarrow> a = b"
  by (cases a; cases b) simp_all

instantiation plan_level :: linorder
begin

definition less_eq_plan_level :: "plan_level \<Rightarrow> plan_level \<Rightarrow> bool" where
  "less_eq_plan_level a b \<longleftrightarrow> plan_level_rank a \<le> plan_level_rank b"

definition less_plan_level :: "plan_level \<Rightarrow> plan_level \<Rightarrow> bool" where
  "less_plan_level a b \<longleftrightarrow> plan_level_rank a < plan_level_rank b"

instance
  by standard (auto simp: less_eq_plan_level_def less_plan_level_def plan_level_rank_inj)

end

lemma plan_level_bounds [simp]: "EvlObserve \<le> l" "l \<le> EvlEnforce"
  by (cases l; simp add: less_eq_plan_level_def)+

definition min_observe :: "plan_level \<Rightarrow> plan_level" where
  "min_observe l = EvlObserve"

datatype control_domain = DmNetwork | DmFileSystem | DmMcpTool | DmProcess | DmDns

fun domain_rank :: "control_domain \<Rightarrow> nat" where
  "domain_rank DmNetwork = 0"
| "domain_rank DmFileSystem = 1"
| "domain_rank DmMcpTool = 2"
| "domain_rank DmProcess = 3"
| "domain_rank DmDns = 4"

fun show_domain :: "control_domain \<Rightarrow> string" where
  "show_domain DmNetwork = ''network''"
| "show_domain DmFileSystem = ''file_system''"
| "show_domain DmMcpTool = ''mcp_tool''"
| "show_domain DmProcess = ''process''"
| "show_domain DmDns = ''dns''"

datatype plan_method_status = StAvailable | StNeedsInstall | StNeedsPermission | StUnsupported

record control_method_cap =
  cc_id :: string
  cc_domains :: "control_domain list"
  cc_max_level :: plan_level
  cc_status :: plan_method_status

record capability_upgrade =
  up_unlocks :: string
  up_action_id :: string
  up_reason_code :: string
  up_title_en :: string

type_synonym plan_snapshot = "control_method_cap list"

definition observe_capable :: "plan_snapshot \<Rightarrow> control_domain \<Rightarrow> control_method_cap option" where
  "observe_capable snap domain =
     find (\<lambda>m. domain \<in> set (cc_domains m) \<and> cc_max_level m \<ge> EvlObserve \<and> (cc_status m = StAvailable \<or> cc_status m = StNeedsPermission)) snap"

fun upgrade_for :: "control_domain \<Rightarrow> capability_upgrade option" where
  "upgrade_for DmNetwork = Some \<lparr>up_unlocks = ''real network egress blocking'', up_action_id = ''install_device_network_control'',
     up_reason_code = ''needs_os_network_extension'', up_title_en = ''Install device-level network control''\<rparr>"
| "upgrade_for DmDns = Some \<lparr>up_unlocks = ''real network egress blocking'', up_action_id = ''install_device_network_control'',
     up_reason_code = ''needs_os_network_extension'', up_title_en = ''Install device-level network control''\<rparr>"
| "upgrade_for DmMcpTool = Some \<lparr>up_unlocks = ''MCP tool-call enforcement'', up_action_id = ''approve_mcp_config_wrapper'',
     up_reason_code = ''needs_mcp_config_change'', up_title_en = ''Allow Pollek to wrap this agent'' @ [CHR 0x27] @ ''s tool configuration''\<rparr>"
| "upgrade_for DmFileSystem = Some \<lparr>up_unlocks = ''file access enforcement'', up_action_id = ''enable_file_activity_control'',
     up_reason_code = ''observe_only_no_local_control_method'', up_title_en = ''Enable file activity control''\<rparr>"
| "upgrade_for DmProcess = Some \<lparr>up_unlocks = ''process launch observation'', up_action_id = ''enable_process_observation'',
     up_reason_code = ''observe_only_no_local_control_method'', up_title_en = ''Enable process observation''\<rparr>"

record plan_policy =
  py_id :: string
  py_requested_level :: plan_level

definition raw_domains :: "string \<Rightarrow> control_domain list" where
  "raw_domains pid =
     (if str_contains pid ''mcp'' \<or> str_contains pid ''tool'' then [DmMcpTool]
      else if str_contains pid ''network'' \<or> str_contains pid ''shadow'' \<or> str_contains pid ''egress'' then [DmNetwork, DmDns]
      else if str_contains pid ''file'' \<or> str_contains pid ''folder'' \<or> str_contains pid ''secret'' \<or> str_contains pid ''write''
      then [DmFileSystem, DmMcpTool]
      else if str_contains pid ''prompt'' \<or> str_contains pid ''pii'' \<or> str_contains pid ''redact'' \<or> str_contains pid ''budget'' \<or>
        str_contains pid ''token'' \<or> str_contains pid ''cost''
      then [DmMcpTool, DmNetwork]
      else [DmMcpTool])"

definition required_domains :: "plan_policy \<Rightarrow> control_domain list" where
  "required_domains p = remdups_adj (sort_key domain_rank (raw_domains (to_ascii_lowercase (py_id p))))"

subsection \<open>Feasibility\<close>

record domain_feasibility =
  df_domain :: control_domain
  df_chosen_method :: "string option"
  df_level :: plan_level
  df_reason_code :: string
  df_setup_action_ids :: "string list"
  df_enforced_for_real :: bool

definition feasibility_ok :: "control_domain \<Rightarrow> control_method_cap \<Rightarrow> plan_level \<Rightarrow> domain_feasibility" where
  "feasibility_ok domain m level =
     \<lparr>df_domain = domain, df_chosen_method = Some (cc_id m), df_level = level,
      df_reason_code = (if cc_status m = StAvailable then ''fully_protected'' else ''observe_only_permission_required''),
      df_setup_action_ids = [], df_enforced_for_real = (cc_status m = StAvailable \<and> level \<ge> EvlEnforce)\<rparr>"

definition observe_fallback :: "control_domain \<Rightarrow> capability_upgrade option \<Rightarrow> domain_feasibility" where
  "observe_fallback domain upgrade =
     \<lparr>df_domain = domain, df_chosen_method = None, df_level = EvlObserve,
      df_reason_code = (case upgrade of
          Some u \<Rightarrow> if up_reason_code u \<noteq> [] then up_reason_code u else ''observe_only_no_local_control_method''
        | None \<Rightarrow> ''observe_only_no_local_control_method''),
      df_setup_action_ids = filter (\<lambda>i. i \<noteq> []) (case upgrade of Some u \<Rightarrow> [up_action_id u] | None \<Rightarrow> []),
      df_enforced_for_real = False\<rparr>"

datatype feasibility_verdict = VdFullyEnforceable | VdPartialObserve | VdObserveOnly | VdNotApplicable

record plan_result =
  ps_policy_id :: string
  ps_requested_level :: plan_level
  ps_achievable_level :: plan_level
  ps_verdict :: feasibility_verdict
  ps_per_domain :: "domain_feasibility list"
  ps_gaps :: "capability_upgrade list"
  ps_friendly_en :: string

fun verdict_text :: "feasibility_verdict \<Rightarrow> string" where
  "verdict_text VdFullyEnforceable = ''Fully enforceable on this device''"
| "verdict_text VdPartialObserve = ''Partly enforced '' @ [CHR 0xE2, CHR 0x80, CHR 0x94] @ '' tap to enable full enforcement''"
| "verdict_text VdObserveOnly = ''Observe-only '' @ [CHR 0xE2, CHR 0x80, CHR 0x94] @ '' install an add-on to actually block''"
| "verdict_text VdNotApplicable = ''Doesn'' @ [CHR 0x27] @ ''t apply to selected agent''"

definition build_result :: "plan_policy \<Rightarrow> plan_level \<Rightarrow> domain_feasibility list \<Rightarrow> capability_upgrade list \<Rightarrow> plan_result" where
  "build_result policy achievable per_domain gaps =
     (let verdict =
        (if gaps = [] then VdFullyEnforceable
         else if (\<exists>d\<in>set per_domain. df_level d = EvlObserve)
         then if (\<exists>d\<in>set per_domain. df_level d = EvlEnforce) then VdPartialObserve else VdObserveOnly
         else VdFullyEnforceable)
      in \<lparr>ps_policy_id = py_id policy, ps_requested_level = py_requested_level policy, ps_achievable_level = achievable,
          ps_verdict = verdict, ps_per_domain = per_domain, ps_gaps = gaps, ps_friendly_en = verdict_text verdict\<rparr>)"

fun method_preference :: "control_domain \<Rightarrow> string list" where
  "method_preference DmNetwork = [''linux_ebpf'', ''macos_netext'', ''windows_wfp_um'', ''mcp_http'']"
| "method_preference DmFileSystem = [''linux_landlock'', ''macos_es'', ''mcp_stdio'']"
| "method_preference DmMcpTool = [''mcp_stdio'', ''mcp_http'']"
| "method_preference DmProcess = [''linux_ebpf'', ''macos_es'', ''windows_etw'']"
| "method_preference DmDns = [''macos_netext'', ''linux_ebpf'', ''mcp_http'']"

fun find_map :: "('a \<Rightarrow> 'b option) \<Rightarrow> 'a list \<Rightarrow> 'b option" where
  "find_map f [] = None"
| "find_map f (x # xs) = (case f x of Some y \<Rightarrow> Some y | None \<Rightarrow> find_map f xs)"

definition select_method :: "control_domain \<Rightarrow> plan_level \<Rightarrow> plan_snapshot \<Rightarrow> control_method_cap option" where
  "select_method domain want snap =
     or_else
       (find_map (\<lambda>i. find (\<lambda>m. cc_id m = i \<and> cc_status m = StAvailable \<and> domain \<in> set (cc_domains m) \<and>
          cc_max_level m \<ge> min_observe want) snap) (method_preference domain))
       (observe_capable snap domain)"

text \<open>One turn of the loop over the domains; the state is the achievable level, the entries and the gaps.\<close>

definition assess_domain :: "plan_snapshot \<Rightarrow> plan_level \<Rightarrow> control_domain \<Rightarrow> plan_level \<times> domain_feasibility list \<times> capability_upgrade list \<Rightarrow>
    plan_level \<times> domain_feasibility list \<times> capability_upgrade list" where
  "assess_domain snap want domain st =
     (let (achievable, per_domain, gaps) = st
      in case select_method domain want snap of
           Some m \<Rightarrow> let lvl = min (cc_max_level m) want
                     in (min achievable lvl, per_domain @ [feasibility_ok domain m lvl], gaps)
         | None \<Rightarrow> let upgrade = upgrade_for domain
                    in (min EvlObserve achievable, per_domain @ [observe_fallback domain upgrade],
                        gaps @ (case upgrade of Some u \<Rightarrow> [u] | None \<Rightarrow> [])))"

definition assess_feasibility :: "plan_policy \<Rightarrow> plan_snapshot \<Rightarrow> plan_result" where
  "assess_feasibility policy snap =
     (let (achievable, per_domain, gaps) =
        fold (assess_domain snap (py_requested_level policy)) (required_domains policy) (EvlEnforce, [], [])
      in build_result policy achievable per_domain gaps)"

record method_binding =
  mb_domain :: control_domain
  mb_method_id :: string
  mb_effective_level :: plan_level

record method_plan =
  mt_policy_id :: string
  mt_bindings :: "method_binding list"
  mt_fallbacks :: "string list"
  mt_auto_selected :: bool

definition negotiate :: "plan_result \<Rightarrow> method_plan" where
  "negotiate r =
     \<lparr>mt_policy_id = ps_policy_id r,
      mt_bindings = List.map_filter (\<lambda>d. map_option (\<lambda>mid. \<lparr>mb_domain = df_domain d, mb_method_id = mid, mb_effective_level = df_level d\<rparr>)
        (df_chosen_method d)) (ps_per_domain r),
      mt_fallbacks = map (\<lambda>d. show_domain (df_domain d) @ '': observe (no enforce method)'')
        (filter (\<lambda>d. df_chosen_method d = None) (ps_per_domain r)),
      mt_auto_selected = True\<rparr>"

subsection \<open>Assessment of a discovered agent\<close>

datatype binding_kind =
    BkMcpStdioWrapper | BkMcpHttpProxy | BkOpenAiCompatibleProxy | BkAnthropicCompatibleProxy | BkOllamaProxy | BkNetworkEgressPep
  | BkFilePep | BkObserveOnly

fun binding_domain :: "binding_kind \<Rightarrow> control_domain option" where
  "binding_domain BkNetworkEgressPep = Some DmNetwork"
| "binding_domain BkFilePep = Some DmFileSystem"
| "binding_domain BkObserveOnly = None"
| "binding_domain _ = Some DmMcpTool"

text \<open>The body of the loop over the bindings is that of the planner, with the wanted level as the starting point.\<close>

definition assess :: "binding_kind list \<Rightarrow> plan_level \<Rightarrow> plan_snapshot \<Rightarrow> plan_result" where
  "assess bindings want snap =
     (let (achievable, per_domain, actions) = fold (assess_domain snap want) (List.map_filter binding_domain bindings) (want, [], [])
      in build_result \<lparr>py_id = ''derived_from_candidate'', py_requested_level = want\<rparr> achievable per_domain actions)"

subsection \<open>Router of the enforcers\<close>

fun run_all :: "('e \<Rightarrow> (string, unit) result \<times> 'e) \<Rightarrow> 'e list \<Rightarrow> (string, unit) result \<times> 'e list" where
  "run_all f [] = (Inr (), [])"
| "run_all f (e # es) =
     (case f e of
        (Inl err, e') \<Rightarrow> (Inl err, e' # es)
      | (Inr _, e') \<Rightarrow> (let (r, es') = run_all f es in (r, e' # es')))"

definition register_enforcer :: "'e \<Rightarrow> 'e list \<Rightarrow> 'e list" where
  "register_enforcer e es = es @ [e]"


subsection \<open>The loop over the domains\<close>

definition domain_entry :: "plan_snapshot \<Rightarrow> plan_level \<Rightarrow> control_domain \<Rightarrow> domain_feasibility" where
  "domain_entry snap want d =
     (case select_method d want snap of
        Some m \<Rightarrow> feasibility_ok d m (min (cc_max_level m) want)
      | None \<Rightarrow> observe_fallback d (upgrade_for d))"

definition domain_gaps :: "plan_snapshot \<Rightarrow> plan_level \<Rightarrow> control_domain \<Rightarrow> capability_upgrade list" where
  "domain_gaps snap want d = (if select_method d want snap = None then [the (upgrade_for d)] else [])"

lemma upgrade_for_Some: "upgrade_for d = Some (the (upgrade_for d))"
  by (cases d) simp_all

lemma assess_domain_step:
  "assess_domain snap want d (a, ps, gs) =
     (min a (df_level (domain_entry snap want d)), ps @ [domain_entry snap want d], gs @ domain_gaps snap want d)"
  using upgrade_for_Some [of d]
  by (auto simp: assess_domain_def domain_entry_def domain_gaps_def feasibility_ok_def observe_fallback_def min.commute Let_def split: option.splits)

lemma assess_fold:
  "fold (assess_domain snap want) ds (a, ps, gs) =
     (Min (insert a (df_level ` domain_entry snap want ` set ds)), ps @ map (domain_entry snap want) ds, gs @ concat (map (domain_gaps snap want) ds))"
proof (induction ds arbitrary: a ps gs)
  case (Cons d ds)
  have m: "Min (insert (min a b) A) = Min (insert a (insert b A))" if "finite A" for a b :: plan_level and A
    using that by (cases "A = {}") (simp_all add: min.assoc min.left_commute)
  show ?case
    by (simp add: assess_domain_step Cons.IH m)
qed simp

lemma find_map_Some: "find_map f xs = Some y \<Longrightarrow> \<exists>x\<in>set xs. f x = Some y"
  by (induction xs) (auto split: option.splits)

lemma select_method_Some:
  assumes "select_method d want snap = Some m"
  shows "m \<in> set snap \<and> d \<in> set (cc_domains m) \<and> (cc_status m = StAvailable \<or> cc_status m = StNeedsPermission)"
proof (cases "find_map (\<lambda>i. find (\<lambda>m. cc_id m = i \<and> cc_status m = StAvailable \<and> d \<in> set (cc_domains m) \<and> cc_max_level m \<ge> min_observe want) snap) (method_preference d)")
  case None
  then have "observe_capable snap d = Some m" using assms by (simp add: select_method_def or_else_def)
  then show ?thesis by (auto simp: observe_capable_def find_Some_iff)
next
  case (Some m')
  then have "m' = m" using assms by (simp add: select_method_def or_else_def)
  with find_map_Some [OF Some] show ?thesis by (auto simp: find_Some_iff)
qed

lemma select_method_None:
  "select_method d want snap = None \<longleftrightarrow> \<not> (\<exists>m\<in>set snap. d \<in> set (cc_domains m) \<and> (cc_status m = StAvailable \<or> cc_status m = StNeedsPermission))"
proof
  assume "select_method d want snap = None"
  then have "observe_capable snap d = None" by (auto simp: select_method_def or_else_def split: option.splits)
  then show "\<not> (\<exists>m\<in>set snap. d \<in> set (cc_domains m) \<and> (cc_status m = StAvailable \<or> cc_status m = StNeedsPermission))"
    by (auto simp: observe_capable_def find_None_iff)
next
  assume "\<not> (\<exists>m\<in>set snap. d \<in> set (cc_domains m) \<and> (cc_status m = StAvailable \<or> cc_status m = StNeedsPermission))"
  then show "select_method d want snap = None" using select_method_Some [of d want snap] by (cases "select_method d want snap") auto
qed

lemma domain_entry_facts:
  "df_domain (domain_entry snap want d) = d"
  "df_level (domain_entry snap want d) \<le> want"
  "df_enforced_for_real (domain_entry snap want d) \<Longrightarrow> want = EvlEnforce \<and>
     (\<exists>m\<in>set snap. cc_status m = StAvailable \<and> d \<in> set (cc_domains m) \<and> cc_max_level m = EvlEnforce \<and> df_chosen_method (domain_entry snap want d) = Some (cc_id m))"
  "df_chosen_method (domain_entry snap want d) = None \<longleftrightarrow> select_method d want snap = None"
proof -
  show "df_domain (domain_entry snap want d) = d" "df_level (domain_entry snap want d) \<le> want"
    "df_chosen_method (domain_entry snap want d) = None \<longleftrightarrow> select_method d want snap = None"
    by (auto simp: domain_entry_def feasibility_ok_def observe_fallback_def split: option.splits)
  assume "df_enforced_for_real (domain_entry snap want d)"
  then obtain m where m: "select_method d want snap = Some m" "cc_status m = StAvailable" "EvlEnforce \<le> min (cc_max_level m) want"
    "df_chosen_method (domain_entry snap want d) = Some (cc_id m)"
    by (auto simp: domain_entry_def feasibility_ok_def observe_fallback_def split: option.splits)
  then have "cc_max_level m = EvlEnforce" "want = EvlEnforce" by (auto intro: antisym)
  with m select_method_Some [OF m(1)] show "want = EvlEnforce \<and>
     (\<exists>m\<in>set snap. cc_status m = StAvailable \<and> d \<in> set (cc_domains m) \<and> cc_max_level m = EvlEnforce \<and> df_chosen_method (domain_entry snap want d) = Some (cc_id m))"
    by blast
qed

lemma required_domains_facts: "required_domains p \<noteq> []" "distinct (required_domains p)"
  by (simp_all add: required_domains_def raw_domains_def)


lemma assess_feasibility_unfold:
  "assess_feasibility p snap =
     build_result p (Min (insert EvlEnforce (df_level ` domain_entry snap (py_requested_level p) ` set (required_domains p))))
       (map (domain_entry snap (py_requested_level p)) (required_domains p))
       (concat (map (domain_gaps snap (py_requested_level p)) (required_domains p)))"
  by (simp add: assess_feasibility_def assess_fold)

lemma plan_result_fields [simp]:
  "ps_achievable_level (build_result p a ds gs) = a" "ps_per_domain (build_result p a ds gs) = ds" "ps_gaps (build_result p a ds gs) = gs"
  "ps_verdict (build_result p a ds gs) = VdFullyEnforceable \<longleftrightarrow> gs = [] \<or> (\<forall>d\<in>set ds. df_level d \<noteq> EvlObserve)"
  by (auto simp: build_result_def Let_def)

subsection \<open>Properties\<close>

text \<open>
  What the planner reports for a policy: one entry per required domain, in order; no entry above the requested level; the
  achievable level is the least of the entries; an entry counts as really enforced only with a method of the snapshot that is
  available, covers the domain and goes up to enforcement; and an entry has no method exactly when the device has neither an
  available nor a permissible one for the domain.
\<close>

lemma assess_feasibility_exact:
  "map df_domain (ps_per_domain (assess_feasibility p snap)) = required_domains p \<and>
   ps_achievable_level (assess_feasibility p snap) = Min (df_level ` set (ps_per_domain (assess_feasibility p snap))) \<and>
   ps_achievable_level (assess_feasibility p snap) \<le> py_requested_level p \<and>
   (\<forall>e\<in>set (ps_per_domain (assess_feasibility p snap)).
      df_level e \<le> py_requested_level p \<and>
      (df_enforced_for_real e \<longrightarrow> (\<exists>m\<in>set snap. cc_status m = StAvailable \<and> df_domain e \<in> set (cc_domains m) \<and>
         cc_max_level m = EvlEnforce \<and> df_chosen_method e = Some (cc_id m))) \<and>
      (df_chosen_method e = None \<longleftrightarrow>
        \<not> (\<exists>m\<in>set snap. df_domain e \<in> set (cc_domains m) \<and> (cc_status m = StAvailable \<or> cc_status m = StNeedsPermission))))"
proof -
  let ?w = "py_requested_level p" and ?ds = "required_domains p"
  let ?L = "df_level ` domain_entry snap ?w ` set ?ds"
  have fin: "finite ?L" "?L \<noteq> {}" using required_domains_facts(1) [of p] by auto
  have m: "Min (insert EvlEnforce ?L) = Min ?L" using fin by (simp add: min_absorb2)
  have le: "Min ?L \<le> ?w" using fin domain_entry_facts(2) [of snap ?w] Min_le [of ?L] by (meson ex_in_conv image_iff order_trans)
  have dom: "map (df_domain \<circ> domain_entry snap ?w) ?ds = ?ds" by (simp add: comp_def domain_entry_facts map_idI)
  have ent: "df_level e \<le> ?w \<and> (df_enforced_for_real e \<longrightarrow> (\<exists>m\<in>set snap. cc_status m = StAvailable \<and> df_domain e \<in> set (cc_domains m) \<and>
         cc_max_level m = EvlEnforce \<and> df_chosen_method e = Some (cc_id m))) \<and>
      (df_chosen_method e = None \<longleftrightarrow> \<not> (\<exists>m\<in>set snap. df_domain e \<in> set (cc_domains m) \<and> (cc_status m = StAvailable \<or> cc_status m = StNeedsPermission)))"
    if "e \<in> domain_entry snap ?w ` set ?ds" for e
    using that domain_entry_facts [of snap ?w] select_method_None [of _ ?w snap] by fastforce
  show ?thesis
    unfolding assess_feasibility_unfold plan_result_fields m map_map set_map dom by (intro conjI ballI refl le; drule ent; elim conjE; assumption)
qed

definition demo_cap :: "string \<Rightarrow> plan_level \<Rightarrow> control_method_cap" where
  "demo_cap i l = \<lparr>cc_id = i, cc_domains = [DmMcpTool], cc_max_level = l, cc_status = StAvailable\<rparr>"

definition demo_policy :: plan_policy where
  "demo_policy = \<lparr>py_id = ''mcp'', py_requested_level = EvlEnforce\<rparr>"

lemma demo_policy_domains: "required_domains demo_policy = [DmMcpTool]"
proof -
  have "to_ascii_lowercase ''mcp'' = ''mcp''" by (simp add: to_ascii_lowercase_def)
  then show ?thesis by (simp add: required_domains_def demo_policy_def raw_domains_def starts_with_def)
qed

lemma demo_select:
  "select_method DmMcpTool EvlEnforce [demo_cap ''mcp_stdio'' l, demo_cap ''mcp_http'' EvlEnforce] = Some (demo_cap ''mcp_stdio'' l)"
  by (simp add: select_method_def or_else_def demo_cap_def min_observe_def)

text \<open>A method of higher preference hides a better one: an available wrapper that only observes is chosen although the
  proxy could enforce, and the verdict is still that the policy is fully enforceable.\<close>

lemma preferred_method_hides_enforcement:
  "ps_achievable_level (assess_feasibility demo_policy [demo_cap ''mcp_stdio'' EvlObserve, demo_cap ''mcp_http'' EvlEnforce]) = EvlObserve \<and>
   ps_verdict (assess_feasibility demo_policy [demo_cap ''mcp_stdio'' EvlObserve, demo_cap ''mcp_http'' EvlEnforce]) = VdFullyEnforceable"
proof -
  have w: "py_requested_level demo_policy = EvlEnforce" by (simp add: demo_policy_def)
  have l: "cc_max_level (demo_cap i EvlObserve) = EvlObserve" for i by (simp add: demo_cap_def)
  show ?thesis
    unfolding assess_feasibility_unfold demo_policy_domains w plan_result_fields
    by (simp add: domain_entry_def domain_gaps_def demo_select feasibility_ok_def l min_absorb1 min_absorb2)
qed

text \<open>In general the verdict counts missing methods only, not levels.\<close>

lemma verdict_counts_methods:
  assumes "\<forall>d\<in>set (required_domains p). \<exists>m\<in>set snap. d \<in> set (cc_domains m) \<and> cc_status m = StNeedsPermission"
  shows "ps_verdict (assess_feasibility p snap) = VdFullyEnforceable"
proof -
  have "concat (map (domain_gaps snap (py_requested_level p)) (required_domains p)) = []"
    using assms select_method_None [of _ "py_requested_level p" snap] by (auto simp: domain_gaps_def)
  then show ?thesis by (simp add: assess_feasibility_unfold)
qed

text \<open>The plan drops no domain: each entry becomes a binding or a fallback line.\<close>

lemma negotiate_partition:
  "length (mt_bindings (negotiate r)) + length (mt_fallbacks (negotiate r)) = length (ps_per_domain r) \<and>
   (\<forall>b\<in>set (mt_bindings (negotiate r)). \<exists>d\<in>set (ps_per_domain r). df_domain d = mb_domain b \<and> df_level d = mb_effective_level b)"
proof -
  have "length (List.map_filter (\<lambda>d. map_option (f d) (df_chosen_method d)) ds) + length (filter (\<lambda>d. df_chosen_method d = None) ds) = length ds"
    for ds and f :: "domain_feasibility \<Rightarrow> string \<Rightarrow> method_binding"
    by (induction ds) (auto simp: List.map_filter_def split: option.splits)
  then show ?thesis by (auto simp: negotiate_def List.map_filter_def)
qed

text \<open>Driving the enforcers is not atomic: the calls before the failing one keep their effect and the ones after it do
  not happen.\<close>

lemma run_all_error:
  assumes "\<forall>e\<in>set as. \<exists>u. fst (f e) = Inr u" and "fst (f b) = Inl err"
  shows "run_all f (as @ b # cs) = (Inl err, map (snd \<circ> f) as @ snd (f b) # cs)"
  using assms by (induction as) (auto split: prod.splits sum.splits)

lemma run_all_ok: "\<forall>e\<in>set es. \<exists>u. fst (f e) = Inr u \<Longrightarrow> run_all f es = (Inr (), map (snd \<circ> f) es)"
  by (induction es) (auto split: prod.splits sum.splits)

end
