(* ===== verification/Security_Coverage.thy ===== *)
theory Security_Coverage
  imports Guard_Normalize
begin

text \<open>
  \<^verbatim>\<open>src/crates/dek-enforcement-api/src/security_coverage.rs\<close> with its types in \<^verbatim>\<open>src/crates/dek-domain-schema\<close>
  (\<^verbatim>\<open>capability_snapshot_v2.rs\<close>, \<^verbatim>\<open>security_coverage.rs\<close>): for every risk and control domain of a policy, what the device
  really enforces. The Thai texts, the generated identifier and the time stamp are left out.
\<close>

subsection \<open>Schema\<close>

datatype level_v2 = L2Observe | L2Warn | L2Ask | L2Enforce | L2StrictDeny

fun level_v2_rank :: "level_v2 \<Rightarrow> nat" where
  "level_v2_rank L2Observe = 0"
| "level_v2_rank L2Warn = 1"
| "level_v2_rank L2Ask = 2"
| "level_v2_rank L2Enforce = 3"
| "level_v2_rank L2StrictDeny = 4"

lemma level_v2_rank_inj: "level_v2_rank a = level_v2_rank b \<longleftrightarrow> a = b"
  by (cases a; cases b) simp_all

instantiation level_v2 :: linorder
begin

definition less_eq_level_v2 :: "level_v2 \<Rightarrow> level_v2 \<Rightarrow> bool" where
  "less_eq_level_v2 a b \<longleftrightarrow> level_v2_rank a \<le> level_v2_rank b"

definition less_level_v2 :: "level_v2 \<Rightarrow> level_v2 \<Rightarrow> bool" where
  "less_level_v2 a b \<longleftrightarrow> level_v2_rank a < level_v2_rank b"

instance
  by standard (auto simp: less_eq_level_v2_def less_level_v2_def level_v2_rank_inj)

end

lemma level_v2_least [simp]: "L2Observe \<le> l"
  by (simp add: less_eq_level_v2_def)

datatype domain_v2 =
    D2McpToolCall | D2NetworkEgress | D2Dns | D2FileAccess | D2ProcessLaunch | D2BrowserAiSession | D2IdentityUse | D2SkillInstall
  | D2SkillRuntime | D2TokenCost | D2PromptContent

datatype method_readiness =
    RdAvailable | RdDegraded | RdNeedsInstall | RdNeedsPermission | RdNeedsConfiguration | RdSimulatorOnly | RdUnsupported | RdFailed

datatype method_maturity = MtProduction | MtBeta | MtPreview | MtSimulator

record method_v2 =
  m2_method_id :: string
  m2_display_name_en :: string
  m2_domains :: "domain_v2 list"
  m2_max_level :: level_v2
  m2_status :: method_readiness
  m2_maturity :: method_maturity
  m2_setup_action_ids :: "string list"

record setup_action =
  sa_action_id :: string
  sa_title_en :: string
  sa_safe_to_skip :: bool

record snapshot_v2 =
  s2_control_methods :: "method_v2 list"
  s2_setup_actions :: "setup_action list"

definition can_control :: "method_v2 \<Rightarrow> domain_v2 \<Rightarrow> bool" where
  "can_control m d \<longleftrightarrow> d \<in> set (m2_domains m)"

definition can_enforce_for_real :: "method_v2 \<Rightarrow> level_v2 \<Rightarrow> bool" where
  "can_enforce_for_real m requested \<longleftrightarrow>
     m2_status m = RdAvailable \<and> m2_maturity m \<noteq> MtSimulator \<and> m2_max_level m \<ge> requested \<and> requested \<ge> L2Enforce"

definition can_observe_v2 :: "method_v2 \<Rightarrow> bool" where
  "can_observe_v2 m \<longleftrightarrow>
     m2_status m \<in> {RdAvailable, RdDegraded, RdNeedsPermission, RdNeedsConfiguration, RdSimulatorOnly} \<and> m2_max_level m \<ge> L2Observe"

datatype owasp_risk =
    Llm01PromptInjection | Llm02SensitiveInformationDisclosure | Llm03SupplyChain | Llm04DataAndModelPoisoning
  | Llm05ImproperOutputHandling | Llm06ExcessiveAgency | Llm07SystemPromptLeakage | Llm08VectorEmbeddingWeakness
  | Llm09Misinformation | Llm10UnboundedConsumption | Ast01MaliciousSkills | Ast02SupplyChainCompromise | Ast03OverPrivilegedSkills
  | Ast04InsecureMetadata | Ast05UntrustedExternalInstructions | Ast06WeakIsolation | Ast07UpdateDrift | Ast08PoorScanning
  | Ast09NoGovernance | Ast10CrossPlatformReuse

datatype coverage_level = ClNotApplicable | ClNotVisible | ClObserveOnly | ClWarnOnly | ClAskBeforeAction | ClEnforcePartial | ClEnforceFull

datatype reason_code =
    RsFullyProtected | RsObserveOnlyNoLocalControlMethod | RsObserveOnlyPermissionRequired | RsObserveOnlyUnsupportedOs
  | RsPartialAgentToolControlOnly | RsPartialNetworkControlOnly | RsNeedsMcpConfigChange | RsNeedsBrowserExtension
  | RsNeedsOsNetworkExtension | RsNeedsAdminPrivilege | RsNeedsServerSideProxy | RsNeedsCloudEnrollment | RsSimulatorOnly
  | RsPolicyNotApplicableToAgent | RsWarmCheckFailed | RsBundleRejected | RsContractVersionMismatch

fun reason_as_str :: "reason_code \<Rightarrow> string" where
  "reason_as_str RsFullyProtected = ''fully_protected''"
| "reason_as_str RsObserveOnlyNoLocalControlMethod = ''observe_only_no_local_control_method''"
| "reason_as_str RsObserveOnlyPermissionRequired = ''observe_only_permission_required''"
| "reason_as_str RsObserveOnlyUnsupportedOs = ''observe_only_unsupported_os''"
| "reason_as_str RsPartialAgentToolControlOnly = ''partial_agent_tool_control_only''"
| "reason_as_str RsPartialNetworkControlOnly = ''partial_network_control_only''"
| "reason_as_str RsNeedsMcpConfigChange = ''needs_mcp_config_change''"
| "reason_as_str RsNeedsBrowserExtension = ''needs_browser_extension''"
| "reason_as_str RsNeedsOsNetworkExtension = ''needs_os_network_extension''"
| "reason_as_str RsNeedsAdminPrivilege = ''needs_admin_privilege''"
| "reason_as_str RsNeedsServerSideProxy = ''needs_server_side_proxy''"
| "reason_as_str RsNeedsCloudEnrollment = ''needs_cloud_enrollment''"
| "reason_as_str RsSimulatorOnly = ''simulator_only''"
| "reason_as_str RsPolicyNotApplicableToAgent = ''policy_not_applicable_to_agent''"
| "reason_as_str RsWarmCheckFailed = ''warm_check_failed''"
| "reason_as_str RsBundleRejected = ''bundle_rejected''"
| "reason_as_str RsContractVersionMismatch = ''contract_version_mismatch''"

record coverage_request =
  cq_agent_id :: "string option"
  cq_entity_id :: "string option"
  cq_policy_id :: string
  cq_requested_level :: level_v2
  cq_evidence_ids :: "string list"

record coverage_item =
  cv_risk_id :: owasp_risk
  cv_policy_id :: string
  cv_agent_id :: "string option"
  cv_entity_id :: "string option"
  cv_domain :: domain_v2
  cv_requested_level :: level_v2
  cv_achievable_level :: coverage_level
  cv_observe_capable :: bool
  cv_enforce_capable :: bool
  cv_enforced_for_real :: bool
  cv_chosen_control_method :: "string option"
  cv_decision_engine :: "string option"
  cv_reason_code :: reason_code
  cv_friendly_en :: string
  cv_setup_actions :: "setup_action list"
  cv_evidence_ids :: "string list"

datatype coverage_verdict = CvFull | CvPartial | CvObserveOnly | CvNeedsSetup | CvNotApplicable | CvUnsupported

record coverage_summary =
  su_requested_level :: level_v2
  su_overall_achievable_level :: coverage_level
  su_verdict :: coverage_verdict
  su_title_en :: string
  su_friendly_en :: string

record coverage_report =
  cr_summary :: coverage_summary
  cr_items :: "coverage_item list"
  cr_setup_actions :: "setup_action list"

subsection \<open>Policy profiles\<close>

record policy_profile =
  pf_title_en :: string
  pf_risks :: "owasp_risk list"
  pf_domains :: "domain_v2 list"

definition policy_profile_of :: "string \<Rightarrow> policy_profile" where
  "policy_profile_of policy_id =
     (let i = to_ascii_lowercase policy_id
      in if str_contains i ''pii'' \<or> str_contains i ''redact'' \<or> str_contains i ''external_llm''
         then \<lparr>pf_title_en = ''Block PII to External AI'', pf_risks = [Llm02SensitiveInformationDisclosure, Llm06ExcessiveAgency],
               pf_domains = [D2McpToolCall, D2PromptContent, D2NetworkEgress]\<rparr>
         else if str_contains i ''prompt'' \<or> str_contains i ''injection''
         then \<lparr>pf_title_en = ''Detect Prompt Injection'', pf_risks = [Llm01PromptInjection, Ast05UntrustedExternalInstructions],
               pf_domains = [D2PromptContent, D2McpToolCall]\<rparr>
         else if str_contains i ''output'' \<or> str_contains i ''llm05'' \<or> str_contains i ''response''
         then \<lparr>pf_title_en = ''Guard AI Tool Output'',
               pf_risks = [Llm05ImproperOutputHandling, Llm02SensitiveInformationDisclosure, Llm07SystemPromptLeakage],
               pf_domains = [D2McpToolCall, D2PromptContent]\<rparr>
         else if str_contains i ''shadow'' \<or> str_contains i ''network'' \<or> str_contains i ''egress''
         then \<lparr>pf_title_en = ''Block Shadow AI Cloud APIs'',
               pf_risks = [Llm02SensitiveInformationDisclosure, Llm10UnboundedConsumption, Ast09NoGovernance],
               pf_domains = [D2NetworkEgress, D2Dns]\<rparr>
         else if str_contains i ''skill'' \<or> str_contains i ''plugin'' \<or> str_contains i ''supply''
         then \<lparr>pf_title_en = ''Skill and Plugin Supply Chain Guard'',
               pf_risks = [Llm03SupplyChain, Ast01MaliciousSkills, Ast02SupplyChainCompromise],
               pf_domains = [D2SkillInstall, D2SkillRuntime, D2FileAccess]\<rparr>
         else if str_contains i ''identity''
         then \<lparr>pf_title_en = ''Identity Use Guard'', pf_risks = [Llm06ExcessiveAgency, Ast03OverPrivilegedSkills],
               pf_domains = [D2IdentityUse, D2McpToolCall]\<rparr>
         else if str_contains i ''budget'' \<or> str_contains i ''token'' \<or> str_contains i ''cost''
         then \<lparr>pf_title_en = ''Cost and Token Limit'', pf_risks = [Llm10UnboundedConsumption], pf_domains = [D2TokenCost, D2NetworkEgress]\<rparr>
         else \<lparr>pf_title_en = ''Require Approval for Risky Tools'', pf_risks = [Llm06ExcessiveAgency, Ast03OverPrivilegedSkills],
               pf_domains = [D2McpToolCall, D2SkillRuntime]\<rparr>)"

subsection \<open>Items\<close>

definition method_rank :: "method_v2 \<Rightarrow> level_v2 \<Rightarrow> nat" where
  "method_rank m requested =
     (if can_enforce_for_real m requested then 0
      else case m2_status m of
             RdAvailable \<Rightarrow> (case m2_maturity m of MtProduction \<Rightarrow> 1 | MtBeta \<Rightarrow> 1 | MtPreview \<Rightarrow> 2 | MtSimulator \<Rightarrow> 7)
           | RdDegraded \<Rightarrow> 3
           | RdNeedsConfiguration \<Rightarrow> 4
           | RdNeedsPermission \<Rightarrow> 5
           | RdNeedsInstall \<Rightarrow> 6
           | RdSimulatorOnly \<Rightarrow> 7
           | RdUnsupported \<Rightarrow> (if m2_maturity m = MtSimulator then 7 else 8)
           | RdFailed \<Rightarrow> (if m2_maturity m = MtSimulator then 7 else 9))"

definition choose_method :: "snapshot_v2 \<Rightarrow> domain_v2 \<Rightarrow> level_v2 \<Rightarrow> method_v2 option" where
  "choose_method snapshot d requested =
     (case sort_key (\<lambda>m. method_rank m requested) (filter (\<lambda>m. can_control m d) (s2_control_methods snapshot)) of
        [] \<Rightarrow> None
      | m # _ \<Rightarrow> Some m)"

fun debug_domain_v2 :: "domain_v2 \<Rightarrow> string" where
  "debug_domain_v2 D2McpToolCall = ''McpToolCall''"
| "debug_domain_v2 D2NetworkEgress = ''NetworkEgress''"
| "debug_domain_v2 D2Dns = ''Dns''"
| "debug_domain_v2 D2FileAccess = ''FileAccess''"
| "debug_domain_v2 D2ProcessLaunch = ''ProcessLaunch''"
| "debug_domain_v2 D2BrowserAiSession = ''BrowserAiSession''"
| "debug_domain_v2 D2IdentityUse = ''IdentityUse''"
| "debug_domain_v2 D2SkillInstall = ''SkillInstall''"
| "debug_domain_v2 D2SkillRuntime = ''SkillRuntime''"
| "debug_domain_v2 D2TokenCost = ''TokenCost''"
| "debug_domain_v2 D2PromptContent = ''PromptContent''"

definition decision_engine_for_method :: "method_v2 \<Rightarrow> domain_v2 \<Rightarrow> string" where
  "decision_engine_for_method m d =
     (let i = m2_method_id m
      in if i = ''wasm_policy_evaluator'' then ''opa_wasm''
         else if i = ''mcp_stdio_wrapper'' \<or> i = ''mcp_http_proxy''
         then (if d \<in> {D2PromptContent, D2TokenCost} then ''plugin_wasm''
               else if d \<in> {D2IdentityUse, D2FileAccess, D2McpToolCall, D2SkillInstall, D2SkillRuntime} then ''cedar''
               else ''opa_wasm'')
         else if i = ''linux_ebpf'' \<or> i = ''windows_wfp'' \<or> i = ''macos_network_extension'' then ''opa_wasm''
         else if str_contains i ''openfga'' then ''openfga''
         else if str_contains i ''cedar'' then ''cedar''
         else if str_contains i ''wasm'' then ''opa_wasm''
         else ''cedar'')"

definition reason_for_method :: "method_v2 \<Rightarrow> domain_v2 \<Rightarrow> reason_code" where
  "reason_for_method m d =
     (if m2_maturity m = MtSimulator \<or> m2_status m = RdSimulatorOnly then RsSimulatorOnly
      else case m2_status m of
             RdAvailable \<Rightarrow> RsFullyProtected
           | RdNeedsPermission \<Rightarrow>
               if d \<in> {D2NetworkEgress, D2Dns} then RsNeedsOsNetworkExtension else RsObserveOnlyPermissionRequired
           | RdNeedsInstall \<Rightarrow>
               if d = D2BrowserAiSession then RsNeedsBrowserExtension
               else if d \<in> {D2McpToolCall, D2PromptContent} then RsNeedsMcpConfigChange
               else RsNeedsOsNetworkExtension
           | RdNeedsConfiguration \<Rightarrow> RsNeedsMcpConfigChange
           | RdDegraded \<Rightarrow> RsObserveOnlyPermissionRequired
           | RdSimulatorOnly \<Rightarrow> RsSimulatorOnly
           | RdUnsupported \<Rightarrow> RsObserveOnlyUnsupportedOs
           | RdFailed \<Rightarrow> RsWarmCheckFailed)"

definition friendly_for :: "reason_code \<Rightarrow> domain_v2 \<Rightarrow> method_v2 \<Rightarrow> string" where
  "friendly_for reason d m =
     (case reason of
        RsFullyProtected \<Rightarrow> ''Pollek can enforce '' @ debug_domain_v2 d @ '' with '' @ m2_display_name_en m @ ''.''
      | RsSimulatorOnly \<Rightarrow> ''This signal is simulated for testing. Real blocking is not enabled.''
      | RsNeedsOsNetworkExtension \<Rightarrow>
          ''Pollek can preview or observe this path, but real blocking needs device-level network control setup.''
      | RsNeedsMcpConfigChange \<Rightarrow>
          ''Pollek needs permission to bind this agent to an MCP wrapper or proxy before enforcing tool calls.''
      | RsNeedsBrowserExtension \<Rightarrow>
          ''Browser AI activity requires the Pollek browser extension before it can be controlled.''
      | _ \<Rightarrow> ''Pollek cannot fully enforce '' @ debug_domain_v2 d @ '' with the current setup.'')"

definition find_setup_action :: "snapshot_v2 \<Rightarrow> string \<Rightarrow> setup_action option" where
  "find_setup_action snapshot i = find (\<lambda>a. sa_action_id a = i) (s2_setup_actions snapshot)"

definition achievable_of :: "method_v2 \<Rightarrow> level_v2 \<Rightarrow> coverage_level" where
  "achievable_of m requested =
     (if can_enforce_for_real m requested then ClEnforceFull
      else if m2_status m = RdAvailable \<and> m2_max_level m \<ge> L2Ask \<and> m2_maturity m \<noteq> MtSimulator then ClAskBeforeAction
      else if can_observe_v2 m then ClObserveOnly
      else ClNotVisible)"

definition method_item :: "coverage_request \<Rightarrow> snapshot_v2 \<Rightarrow> owasp_risk \<Rightarrow> domain_v2 \<Rightarrow> method_v2 \<Rightarrow> coverage_item" where
  "method_item req snapshot risk d m =
     (let reason = reason_for_method m d; real = can_enforce_for_real m (cq_requested_level req)
      in \<lparr>cv_risk_id = risk, cv_policy_id = cq_policy_id req, cv_agent_id = cq_agent_id req, cv_entity_id = cq_entity_id req,
          cv_domain = d, cv_requested_level = cq_requested_level req, cv_achievable_level = achievable_of m (cq_requested_level req),
          cv_observe_capable = can_observe_v2 m, cv_enforce_capable = real, cv_enforced_for_real = real,
          cv_chosen_control_method = Some (m2_method_id m),
          cv_decision_engine = (if real then Some (decision_engine_for_method m d) else None), cv_reason_code = reason,
          cv_friendly_en = friendly_for reason d m,
          cv_setup_actions = List.map_filter (find_setup_action snapshot) (m2_setup_action_ids m),
          cv_evidence_ids = cq_evidence_ids req\<rparr>)"

definition setup_for_domain :: "snapshot_v2 \<Rightarrow> domain_v2 \<Rightarrow> setup_action list" where
  "setup_for_domain snapshot d =
     (let wanted = (if d \<in> {D2NetworkEgress, D2Dns} then ''network'' else if d \<in> {D2McpToolCall, D2PromptContent} then ''mcp''
        else if d = D2BrowserAiSession then ''browser'' else if d = D2FileAccess then ''file'' else [])
      in filter (\<lambda>a. str_contains (sa_action_id a) wanted) (s2_setup_actions snapshot))"

definition no_method_item :: "coverage_request \<Rightarrow> snapshot_v2 \<Rightarrow> owasp_risk \<Rightarrow> domain_v2 \<Rightarrow> coverage_item" where
  "no_method_item req snapshot risk d =
     \<lparr>cv_risk_id = risk, cv_policy_id = cq_policy_id req, cv_agent_id = cq_agent_id req, cv_entity_id = cq_entity_id req,
      cv_domain = d, cv_requested_level = cq_requested_level req, cv_achievable_level = ClNotVisible,
      cv_observe_capable = False, cv_enforce_capable = False, cv_enforced_for_real = False, cv_chosen_control_method = None,
      cv_decision_engine = None, cv_reason_code = RsObserveOnlyNoLocalControlMethod,
      cv_friendly_en = ''Pollek cannot currently see or control '' @ debug_domain_v2 d @ '' for this agent on this device.'',
      cv_setup_actions = setup_for_domain snapshot d, cv_evidence_ids = cq_evidence_ids req\<rparr>"

definition coverage_item_for :: "coverage_request \<Rightarrow> snapshot_v2 \<Rightarrow> owasp_risk \<Rightarrow> domain_v2 \<Rightarrow> coverage_item" where
  "coverage_item_for req snapshot risk d =
     (case choose_method snapshot d (cq_requested_level req) of
        Some m \<Rightarrow> method_item req snapshot risk d m
      | None \<Rightarrow> no_method_item req snapshot risk d)"

subsection \<open>Report\<close>

definition add_action :: "setup_action \<Rightarrow> setup_action list \<Rightarrow> setup_action list" where
  "add_action a out = (if (\<exists>x\<in>set out. sa_action_id x = sa_action_id a) then out else out @ [a])"

definition collect_setup_actions :: "snapshot_v2 \<Rightarrow> coverage_item list \<Rightarrow> setup_action list" where
  "collect_setup_actions snapshot items =
     (let out = fold (\<lambda>item out. fold add_action (cv_setup_actions item) out) items []
      in if out = [] then filter (\<lambda>a. \<not> sa_safe_to_skip a) (s2_setup_actions snapshot) else out)"

definition summarize :: "coverage_request \<Rightarrow> string \<Rightarrow> coverage_item list \<Rightarrow> coverage_summary" where
  "summarize req title items =
     (let any_full = (\<exists>i\<in>set items. cv_achievable_level i = ClEnforceFull);
          any_observe = (\<exists>i\<in>set items. cv_achievable_level i = ClObserveOnly);
          any_setup = (\<exists>i\<in>set items. cv_setup_actions i \<noteq> []);
          all_full = (items \<noteq> [] \<and> (\<forall>i\<in>set items. cv_achievable_level i = ClEnforceFull));
          (verdict, level, friendly) =
            (if all_full then (CvFull, ClEnforceFull, title @ '' can be enforced on this device.'')
             else if any_full \<and> any_observe
             then (CvPartial, ClEnforcePartial,
               title @ '' is partially enforceable; some activity will remain observe-only until setup is complete.'')
             else if any_setup then (CvNeedsSetup, ClObserveOnly, title @ '' needs setup before real enforcement is available.'')
             else (CvObserveOnly, ClObserveOnly,
               title @ '' can be monitored, but not enforced with the current local capability snapshot.''))
      in \<lparr>su_requested_level = cq_requested_level req, su_overall_achievable_level = level, su_verdict = verdict, su_title_en = title,
          su_friendly_en = friendly\<rparr>)"

definition assess_policy_coverage :: "coverage_request \<Rightarrow> snapshot_v2 \<Rightarrow> coverage_report" where
  "assess_policy_coverage req snapshot =
     (let profile = policy_profile_of (cq_policy_id req);
          items = concat (map (\<lambda>risk. map (coverage_item_for req snapshot risk) (pf_domains profile)) (pf_risks profile))
      in \<lparr>cr_summary = summarize req (pf_title_en profile) items, cr_items = items,
          cr_setup_actions = collect_setup_actions snapshot items\<rparr>)"


subsection \<open>The chosen method\<close>

lemma sort_key_head:
  assumes "sort_key f xs = y # ys"
  shows "y \<in> set xs \<and> (\<forall>x\<in>set xs. f y \<le> f x)"
proof -
  have s: "set xs = insert y (set ys)" using assms by (metis list.simps(15) set_sort)
  have "sorted (map f (y # ys))" using assms by (metis sorted_sort_key)
  then show ?thesis using s by auto
qed

lemma method_rank_zero: "method_rank m r = 0 \<longleftrightarrow> can_enforce_for_real m r"
  by (auto simp: method_rank_def split: method_readiness.splits method_maturity.splits)

lemma choose_method_None: "choose_method snap d r = None \<longleftrightarrow> \<not> (\<exists>m\<in>set (s2_control_methods snap). can_control m d)"
proof -
  let ?xs = "filter (\<lambda>m. can_control m d) (s2_control_methods snap)"
  have "choose_method snap d r = None \<longleftrightarrow> sort_key (\<lambda>m. method_rank m r) ?xs = []" by (simp add: choose_method_def split: list.splits)
  also have "\<dots> \<longleftrightarrow> ?xs = []" by (metis length_0_conv length_sort)
  finally show ?thesis by (simp add: filter_empty_conv)
qed

lemma choose_method_Some:
  assumes "choose_method snap d r = Some m"
  shows "m \<in> set (s2_control_methods snap) \<and> can_control m d \<and>
    (\<forall>m'\<in>set (s2_control_methods snap). can_control m' d \<longrightarrow> method_rank m r \<le> method_rank m' r)"
proof -
  from assms obtain ms where "sort_key (\<lambda>m. method_rank m r) (filter (\<lambda>m. can_control m d) (s2_control_methods snap)) = m # ms"
    by (auto simp: choose_method_def split: list.splits)
  from sort_key_head [OF this] show ?thesis by auto
qed

lemma achievable_full: "achievable_of m r = ClEnforceFull \<longleftrightarrow> can_enforce_for_real m r"
  by (simp add: achievable_of_def)

lemma item_fields:
  "cv_domain (coverage_item_for req snap risk d) = d" "cv_risk_id (coverage_item_for req snap risk d) = risk"
  "cv_achievable_level (coverage_item_for req snap risk d) = ClEnforceFull \<longleftrightarrow> cv_enforced_for_real (coverage_item_for req snap risk d)"
  "(cv_decision_engine (coverage_item_for req snap risk d) = None) \<longleftrightarrow> \<not> cv_enforced_for_real (coverage_item_for req snap risk d)"
  by (auto simp: coverage_item_for_def method_item_def no_method_item_def achievable_full Let_def split: option.splits)

lemma item_enforced:
  "cv_enforced_for_real (coverage_item_for req snap risk d) \<longleftrightarrow>
     (\<exists>m\<in>set (s2_control_methods snap). can_control m d \<and> can_enforce_for_real m (cq_requested_level req))"
proof (cases "choose_method snap d (cq_requested_level req)")
  case None
  then show ?thesis unfolding choose_method_None by (auto simp: coverage_item_for_def no_method_item_def None)
next
  case (Some m)
  from choose_method_Some [OF Some] have "can_enforce_for_real m (cq_requested_level req) \<longleftrightarrow>
      (\<exists>m\<in>set (s2_control_methods snap). can_control m d \<and> can_enforce_for_real m (cq_requested_level req))"
    by (metis le_zero_eq method_rank_zero)
  then show ?thesis by (simp add: coverage_item_for_def method_item_def Some Let_def)
qed

lemma report_items:
  "cr_items (assess_policy_coverage req snap) =
     map (\<lambda>(risk, d). coverage_item_for req snap risk d)
       (List.product (pf_risks (policy_profile_of (cq_policy_id req))) (pf_domains (policy_profile_of (cq_policy_id req))))"
  by (simp add: assess_policy_coverage_def Let_def product_concat_map map_concat comp_def)

lemma summarize_full:
  "su_verdict (summarize req title items) = CvFull \<longleftrightarrow> items \<noteq> [] \<and> (\<forall>i\<in>set items. cv_achievable_level i = ClEnforceFull)"
  by (simp add: summarize_def Let_def)

lemma profile_nonempty: "pf_risks (policy_profile_of i) \<noteq> []" "pf_domains (policy_profile_of i) \<noteq> []"
  by (simp_all add: policy_profile_of_def Let_def)

definition enforceable_domain :: "coverage_request \<Rightarrow> snapshot_v2 \<Rightarrow> domain_v2 \<Rightarrow> bool" where
  "enforceable_domain req snap d \<longleftrightarrow>
     (\<exists>m\<in>set (s2_control_methods snap). can_control m d \<and> can_enforce_for_real m (cq_requested_level req))"

subsection \<open>Properties\<close>

text \<open>
  The coverage report is true to the snapshot: it has one item for every risk and domain of the policy's profile; an
  item is shown as enforced for real exactly when some method that covers the domain is available, is not a simulator and reaches
  the requested level, which is at least enforcement; only then the level is full and a decision engine is named; and the
  verdict is full exactly when this holds for every domain of the profile.
\<close>

lemma coverage_report_exact:
  fixes req snap
  defines "rep \<equiv> assess_policy_coverage req snap" and "prof \<equiv> policy_profile_of (cq_policy_id req)"
  shows "map (\<lambda>i. (cv_risk_id i, cv_domain i)) (cr_items rep) = List.product (pf_risks prof) (pf_domains prof) \<and>
    (\<forall>i\<in>set (cr_items rep). (cv_enforced_for_real i \<longleftrightarrow> enforceable_domain req snap (cv_domain i)) \<and>
       (cv_achievable_level i = ClEnforceFull \<longleftrightarrow> enforceable_domain req snap (cv_domain i)) \<and> (cv_decision_engine i \<noteq> None \<longleftrightarrow> enforceable_domain req snap (cv_domain i))) \<and>
    (su_verdict (cr_summary rep) = CvFull \<longleftrightarrow> (\<forall>d\<in>set (pf_domains prof). enforceable_domain req snap d))"
proof -
  have items: "cr_items rep = map (\<lambda>(risk, d). coverage_item_for req snap risk d) (List.product (pf_risks prof) (pf_domains prof))"
    by (simp add: rep_def prof_def report_items)
  have "map (\<lambda>i. (cv_risk_id i, cv_domain i)) (cr_items rep) = List.product (pf_risks prof) (pf_domains prof)"
    unfolding items by (simp add: item_fields split_def comp_def)
  have i: "\<forall>i\<in>set (cr_items rep). (cv_enforced_for_real i \<longleftrightarrow> enforceable_domain req snap (cv_domain i)) \<and>
       (cv_achievable_level i = ClEnforceFull \<longleftrightarrow> enforceable_domain req snap (cv_domain i)) \<and> (cv_decision_engine i \<noteq> None \<longleftrightarrow> enforceable_domain req snap (cv_domain i))"
  proof
    fix i assume "i \<in> set (cr_items rep)"
    then obtain risk d where "i = coverage_item_for req snap risk d" unfolding items by auto
    then show "(cv_enforced_for_real i \<longleftrightarrow> enforceable_domain req snap (cv_domain i)) \<and>
       (cv_achievable_level i = ClEnforceFull \<longleftrightarrow> enforceable_domain req snap (cv_domain i)) \<and> (cv_decision_engine i \<noteq> None \<longleftrightarrow> enforceable_domain req snap (cv_domain i))"
      using item_fields [of req snap risk d] item_enforced [of req snap risk d] by (simp add: enforceable_domain_def del: not_None_eq)
  qed
  have "cr_summary rep = summarize req (pf_title_en prof) (cr_items rep)"
    by (simp add: rep_def prof_def assess_policy_coverage_def Let_def)
  then have "su_verdict (cr_summary rep) = CvFull \<longleftrightarrow> cr_items rep \<noteq> [] \<and> (\<forall>i\<in>set (cr_items rep). enforceable_domain req snap (cv_domain i))"
    using i by (simp add: summarize_full)
  moreover obtain risk risks where r: "pf_risks prof = risk # risks" using profile_nonempty(1) [of "cq_policy_id req"] by (auto simp: prof_def neq_Nil_conv)
  have "set (cr_items rep) = (\<lambda>(risk, d). coverage_item_for req snap risk d) ` (set (pf_risks prof) \<times> set (pf_domains prof))"
    unfolding items by simp
  then have "cv_domain ` set (cr_items rep) = set (pf_domains prof)" by (force simp: r item_fields image_iff)
  moreover from this have ne: "cr_items rep \<noteq> []" using profile_nonempty(2) [of "cq_policy_id req"] by (auto simp: prof_def)
  ultimately have "su_verdict (cr_summary rep) = CvFull \<longleftrightarrow> (\<forall>d\<in>set (pf_domains prof). enforceable_domain req snap d)"
    by (metis (no_types, lifting) image_iff)
  with i \<open>map (\<lambda>i. (cv_risk_id i, cv_domain i)) (cr_items rep) = List.product (pf_risks prof) (pf_domains prof)\<close> show ?thesis by blast
qed

definition demo_method_v2 :: "level_v2 \<Rightarrow> method_maturity \<Rightarrow> method_v2" where
  "demo_method_v2 l mt = \<lparr>m2_method_id = ''mcp_http_proxy'', m2_display_name_en = ''Proxy'', m2_domains = [D2McpToolCall, D2SkillRuntime],
     m2_max_level = l, m2_status = RdAvailable, m2_maturity = mt, m2_setup_action_ids = []\<rparr>"

definition demo_coverage_request :: coverage_request where
  "demo_coverage_request = \<lparr>cq_agent_id = None, cq_entity_id = None, cq_policy_id = [], cq_requested_level = L2Enforce, cq_evidence_ids = []\<rparr>"

lemma demo_profile: "pf_domains (policy_profile_of []) = [D2McpToolCall, D2SkillRuntime]"
  by (simp add: policy_profile_of_def to_ascii_lowercase_def)

text \<open>The reason looks at readiness only: a method that is available but stops below enforcement is reported as full protection
  although nothing is enforced.\<close>

lemma reason_overstates_protection:
  assumes "m2_status m = RdAvailable" and "m2_maturity m \<noteq> MtSimulator" and "m2_max_level m < L2Enforce"
  shows "cv_reason_code (method_item req snap risk d m) = RsFullyProtected \<and> \<not> cv_enforced_for_real (method_item req snap risk d m)"
  using assms by (auto simp: method_item_def reason_for_method_def can_enforce_for_real_def Let_def dest: order_trans)

text \<open>The summary knows partial coverage only next to observed domains: full enforcement of one domain beside an unseen one is
  summed up as monitoring without enforcement.\<close>

lemma summary_hides_enforcement:
  assumes "\<forall>i\<in>set items. cv_achievable_level i \<in> {ClEnforceFull, ClNotVisible} \<and> cv_setup_actions i = []"
    and "\<exists>i\<in>set items. cv_achievable_level i = ClNotVisible"
  shows "su_verdict (summarize req title items) = CvObserveOnly"
proof -
  have "\<not> (\<exists>i\<in>set items. cv_achievable_level i = ClObserveOnly)" "\<not> (\<exists>i\<in>set items. cv_setup_actions i \<noteq> [])"
    "\<not> (\<forall>i\<in>set items. cv_achievable_level i = ClEnforceFull)"
    using assms by force+
  then show ?thesis by (simp add: summarize_def Let_def)
qed

lemma collected_actions_distinct:
  "distinct (map sa_action_id (fold add_action as out))" if "distinct (map sa_action_id out)"
  using that
proof (induction as arbitrary: out)
  case (Cons a as)
  have "distinct (map sa_action_id (add_action a out))" using Cons.prems by (auto simp: add_action_def)
  with Cons.IH show ?case by simp
qed simp

end
