(* ===== verification/Capability_Broker.thy ===== *)
theory Capability_Broker
  imports Pollek_Prelude
begin

text \<open>
  \<^verbatim>\<open>src/crates/dek-capability\<close>: the broker that takes every sensor through probe, consent, installation and
  rollback, with the consent ledger and the rules for what a host permits. An adapter is a parameter that may answer differently at every call: its
  operations take the number of the call. Every operation returns its result, the new broker and the calls it made to the
  adapter. The maps of the broker are partial functions on the six sensors.
\<close>

subsection \<open>Types\<close>

datatype sensor = SnMcpProxy | SnProcess | SnFile | SnNetwork | SnBrowser | SnContent

datatype host_os = OsWindows | OsMacos | OsLinux

datatype achieved_level = AlNone | AlObserveOnly | AlEnforce

fun achieved_rank :: "achieved_level \<Rightarrow> nat" where
  "achieved_rank AlNone = 0"
| "achieved_rank AlObserveOnly = 1"
| "achieved_rank AlEnforce = 2"

lemma achieved_rank_inj: "achieved_rank a = achieved_rank b \<longleftrightarrow> a = b"
  by (cases a; cases b) simp_all

instantiation achieved_level :: linorder
begin

definition less_eq_achieved_level :: "achieved_level \<Rightarrow> achieved_level \<Rightarrow> bool" where
  "less_eq_achieved_level a b \<longleftrightarrow> achieved_rank a \<le> achieved_rank b"

definition less_achieved_level :: "achieved_level \<Rightarrow> achieved_level \<Rightarrow> bool" where
  "less_achieved_level a b \<longleftrightarrow> achieved_rank a < achieved_rank b"

instance
  by standard (auto simp: less_eq_achieved_level_def less_achieved_level_def achieved_rank_inj)

end

datatype gate_status = GtPass | GtRemediable | GtUnsupported

record remediation =
  re_action :: string
  re_deep_link :: "string option"
  re_requires_admin :: bool

record requirement =
  rq_code :: string
  rq_status :: gate_status
  rq_blocking :: bool
  rq_remediation :: "remediation option"

datatype capability_state =
    CaUnknown | CaProbed achieved_level | CaConsentRequested achieved_level | CaConsented achieved_level | CaInstalling
  | CaActive achieved_level | CaBlocked string achieved_level | CaRolledBack

fun capability_effective_level :: "capability_state \<Rightarrow> achieved_level" where
  "capability_effective_level (CaActive l) = l"
| "capability_effective_level (CaBlocked r l) = l"
| "capability_effective_level _ = AlNone"

fun state_tag :: "capability_state \<Rightarrow> string" where
  "state_tag CaUnknown = ''unknown''"
| "state_tag (CaProbed _) = ''probed''"
| "state_tag (CaConsentRequested _) = ''consent_requested''"
| "state_tag (CaConsented _) = ''consented''"
| "state_tag CaInstalling = ''installing''"
| "state_tag (CaActive _) = ''active''"
| "state_tag (CaBlocked _ _) = ''blocked''"
| "state_tag CaRolledBack = ''rolled_back''"

subsection \<open>Probe\<close>

record host_facts =
  hf_os :: "host_os option"
  hf_is_admin_or_root :: bool
  hf_win_driver_signed :: bool
  hf_win_test_signing :: bool
  hf_mac_es_entitlement_present :: bool
  hf_mac_system_extension_approved :: bool
  hf_mac_full_disk_access :: bool
  hf_linux_kernel_supports_ebpf :: bool
  hf_linux_kernel_supports_fanotify :: bool
  hf_linux_has_cap_sys_admin :: bool

record probe_report =
  rb_sensor :: sensor
  rb_os :: host_os
  rb_requirements :: "requirement list"
  rb_observe_supported :: bool

definition achievable_level :: "probe_report \<Rightarrow> achieved_level" where
  "achievable_level r =
     (let all_blocking_pass = (\<forall>q\<in>set (rb_requirements r). rq_blocking q \<longrightarrow> rq_status q = GtPass)
      in if all_blocking_pass \<and> rb_observe_supported r then AlEnforce
         else if rb_observe_supported r then AlObserveOnly
         else AlNone)"

definition missing :: "probe_report \<Rightarrow> requirement list" where
  "missing r = filter (\<lambda>q. rq_blocking q \<and> rq_status q \<noteq> GtPass) (rb_requirements r)"

definition require :: "string \<Rightarrow> gate_status \<Rightarrow> bool \<Rightarrow> remediation option \<Rightarrow> requirement" where
  "require code status blocking r = \<lparr>rq_code = code, rq_status = status, rq_blocking = blocking, rq_remediation = r\<rparr>"

definition rem_step :: "string \<Rightarrow> string option \<Rightarrow> bool \<Rightarrow> remediation option" where
  "rem_step action deep_link admin = Some \<lparr>re_action = action, re_deep_link = deep_link, re_requires_admin = admin\<rparr>"

definition pass_or :: "bool \<Rightarrow> gate_status \<Rightarrow> gate_status" where
  "pass_or b g = (if b then GtPass else g)"

definition windows_requirements :: "host_facts \<Rightarrow> requirement list" where
  "windows_requirements f =
     [require ''windows.admin'' (pass_or (hf_is_admin_or_root f) GtRemediable) True
        (rem_step ''Re-run the installer as Administrator'' None True),
      require ''windows.driver_signed'' (pass_or (hf_win_driver_signed f \<or> hf_win_test_signing f) GtRemediable) True
        (rem_step ''Install the signed Pollek driver build (EV-signed, WHQL-attested)'' None True)]"

definition macos_file_requirements :: "host_facts \<Rightarrow> requirement list" where
  "macos_file_requirements f =
     [require ''macos.es_entitlement'' (pass_or (hf_mac_es_entitlement_present f) GtUnsupported) True None,
      require ''macos.system_extension_approved'' (pass_or (hf_mac_system_extension_approved f) GtRemediable) True
        (rem_step ''Approve the Pollek System Extension'' (Some ''x-apple.systempreferences:com.apple.preference.security'') False),
      require ''macos.full_disk_access'' (pass_or (hf_mac_full_disk_access f) GtRemediable) False
        (rem_step ''Grant Full Disk Access to Pollek''
          (Some ''x-apple.systempreferences:com.apple.preference.security?Privacy_AllFiles'') False)]"

definition macos_network_requirements :: "host_facts \<Rightarrow> requirement list" where
  "macos_network_requirements f =
     [require ''macos.network_extension_entitlement'' (pass_or (hf_mac_es_entitlement_present f) GtUnsupported) True None,
      require ''macos.system_extension_approved'' (pass_or (hf_mac_system_extension_approved f) GtRemediable) True
        (rem_step ''Approve the Pollek Network Extension'' (Some ''x-apple.systempreferences:com.apple.preference.security'') False)]"

definition linux_file_requirements :: "host_facts \<Rightarrow> requirement list" where
  "linux_file_requirements f =
     [require ''linux.kernel_fanotify'' (pass_or (hf_linux_kernel_supports_fanotify f) GtUnsupported) True None,
      require ''linux.cap_sys_admin'' (pass_or (hf_linux_has_cap_sys_admin f) GtRemediable) True
        (rem_step ''Run the Pollek service with CAP_SYS_ADMIN (or as root)'' None True)]"

definition linux_ebpf_requirements :: "host_facts \<Rightarrow> requirement list" where
  "linux_ebpf_requirements f =
     [require ''linux.kernel_ebpf'' (pass_or (hf_linux_kernel_supports_ebpf f) GtUnsupported) True None,
      require ''linux.cap_bpf'' (pass_or (hf_linux_has_cap_sys_admin f) GtRemediable) True
        (rem_step ''Grant CAP_BPF/CAP_SYS_ADMIN to the Pollek service'' None True)]"

fun sensor_requirements :: "sensor \<Rightarrow> host_os \<Rightarrow> host_facts \<Rightarrow> requirement list" where
  "sensor_requirements SnFile OsWindows f = windows_requirements f"
| "sensor_requirements SnNetwork OsWindows f = windows_requirements f"
| "sensor_requirements SnProcess OsWindows f = windows_requirements f"
| "sensor_requirements SnFile OsMacos f = macos_file_requirements f"
| "sensor_requirements SnProcess OsMacos f = macos_file_requirements f"
| "sensor_requirements SnNetwork OsMacos f = macos_network_requirements f"
| "sensor_requirements SnFile OsLinux f = linux_file_requirements f"
| "sensor_requirements SnNetwork OsLinux f = linux_ebpf_requirements f"
| "sensor_requirements SnProcess OsLinux f = linux_ebpf_requirements f"
| "sensor_requirements SnBrowser _ f =
     [require ''browser.extension_installed'' GtRemediable True (rem_step ''Install the Pollek browser extension'' None False)]"
| "sensor_requirements SnContent _ f = []"
| "sensor_requirements SnMcpProxy _ f = []"

definition derive_requirements :: "sensor \<Rightarrow> host_facts \<Rightarrow> probe_report" where
  "derive_requirements s f =
     (let os = (case hf_os f of Some x \<Rightarrow> x | None \<Rightarrow> OsLinux)
      in if s = SnMcpProxy then \<lparr>rb_sensor = s, rb_os = os, rb_requirements = [], rb_observe_supported = True\<rparr>
         else \<lparr>rb_sensor = s, rb_os = os, rb_requirements = sensor_requirements s os f,
               rb_observe_supported = (\<not> (s = SnNetwork \<and> os = OsMacos) \<or> hf_mac_system_extension_approved f)\<rparr>)"

subsection \<open>Adapters\<close>

record install_outcome =
  io_achieved :: achieved_level
  io_rollback_token :: string

datatype adapter_error = InstallFailed string | RollbackFailed string

fun show_adapter_error :: "adapter_error \<Rightarrow> string" where
  "show_adapter_error (InstallFailed e) = ''install failed: '' @ e"
| "show_adapter_error (RollbackFailed e) = ''rollback failed: '' @ e"

record sensor_adapter =
  ad_sensor :: sensor
  ad_probe :: "nat \<Rightarrow> probe_report"
  ad_install :: "nat \<Rightarrow> (adapter_error, install_outcome) result"
  ad_verify :: "nat \<Rightarrow> achieved_level"
  ad_rollback :: "nat \<Rightarrow> string \<Rightarrow> (adapter_error, unit) result"

fun debug_sensor :: "sensor \<Rightarrow> string" where
  "debug_sensor SnMcpProxy = ''McpProxy''"
| "debug_sensor SnProcess = ''Process''"
| "debug_sensor SnFile = ''File''"
| "debug_sensor SnNetwork = ''Network''"
| "debug_sensor SnBrowser = ''Browser''"
| "debug_sensor SnContent = ''Content''"

definition default_adapter :: "sensor \<Rightarrow> host_facts \<Rightarrow> bool \<Rightarrow> sensor_adapter" where
  "default_adapter s f force_install_error =
     \<lparr>ad_sensor = s, ad_probe = (\<lambda>_. derive_requirements s f),
      ad_install = (\<lambda>_. if force_install_error then Inl (InstallFailed ''simulated OS install error'')
        else Inr \<lparr>io_achieved = achievable_level (derive_requirements s f), io_rollback_token = ''rbk-'' @ debug_sensor s\<rparr>),
      ad_verify = (\<lambda>_. achievable_level (derive_requirements s f)), ad_rollback = (\<lambda>_ _. Inr ())\<rparr>"

subsection \<open>Ledger\<close>

record consent_record =
  cs_sensor :: sensor
  cs_requested_level :: achieved_level
  cs_scope :: string
  cs_at_seq :: u64
  cs_granted :: bool
  cs_revoked_at_seq :: "u64 option"

type_synonym consent_ledger = "consent_record list"

definition ledger_record_decision :: "sensor \<Rightarrow> achieved_level \<Rightarrow> string \<Rightarrow> bool \<Rightarrow> u64 \<Rightarrow> consent_ledger \<Rightarrow> consent_ledger" where
  "ledger_record_decision s level scope granted at_seq l =
     l @ [\<lparr>cs_sensor = s, cs_requested_level = level, cs_scope = scope, cs_at_seq = at_seq, cs_granted = granted, cs_revoked_at_seq = None\<rparr>]"

definition is_granted :: "consent_ledger \<Rightarrow> sensor \<Rightarrow> bool" where
  "is_granted l s = (case find (\<lambda>r. cs_sensor r = s) (rev l) of Some r \<Rightarrow> cs_granted r \<and> cs_revoked_at_seq r = None | None \<Rightarrow> False)"

text \<open>\<^verbatim>\<open>rfind\<close> with a mutable reference: the last matching record is changed.\<close>

fun revoke_first :: "sensor \<Rightarrow> u64 \<Rightarrow> consent_ledger \<Rightarrow> bool \<times> consent_ledger" where
  "revoke_first s q [] = (False, [])"
| "revoke_first s q (r # rs) =
     (if cs_sensor r = s \<and> cs_granted r \<and> cs_revoked_at_seq r = None then (True, r\<lparr>cs_revoked_at_seq := Some q\<rparr> # rs)
      else let (b, rs') = revoke_first s q rs in (b, r # rs'))"

definition revoke :: "sensor \<Rightarrow> u64 \<Rightarrow> consent_ledger \<Rightarrow> bool \<times> consent_ledger" where
  "revoke s q l = (let (b, rs) = revoke_first s q (rev l) in (b, rev rs))"

subsection \<open>Broker\<close>

datatype broker_error = NotRegistered sensor | IllegalTransition sensor string string

record broker =
  br_adapters :: "sensor \<Rightarrow> sensor_adapter option"
  br_states :: "sensor \<Rightarrow> capability_state option"
  br_probes :: "sensor \<Rightarrow> probe_report option"
  br_rollback_tokens :: "sensor \<Rightarrow> string option"
  br_ledger :: consent_ledger
  br_seq :: u64

definition broker_new :: broker where
  "broker_new = \<lparr>br_adapters = (\<lambda>_. None), br_states = (\<lambda>_. None), br_probes = (\<lambda>_. None), br_rollback_tokens = (\<lambda>_. None),
     br_ledger = [], br_seq = 0\<rparr>"

datatype adapter_call = CallProbe sensor | CallInstall sensor | CallRollback sensor string

type_synonym broker_reply = "(broker_error, capability_state) result \<times> broker \<times> adapter_call list"

definition set_state :: "sensor \<Rightarrow> capability_state \<Rightarrow> broker \<Rightarrow> broker" where
  "set_state s st b = b\<lparr>br_states := (br_states b)(s := Some st)\<rparr>"

definition register :: "sensor_adapter \<Rightarrow> broker \<Rightarrow> broker" where
  "register a b = set_state (ad_sensor a) CaUnknown (b\<lparr>br_adapters := (br_adapters b)(ad_sensor a := Some a)\<rparr>)"

definition illegal :: "sensor \<Rightarrow> capability_state option \<Rightarrow> string \<Rightarrow> broker_error" where
  "illegal s st action = IllegalTransition s (case st of Some x \<Rightarrow> state_tag x | None \<Rightarrow> ''none'') action"

definition broker_probe :: "nat \<Rightarrow> sensor \<Rightarrow> broker \<Rightarrow> broker_reply" where
  "broker_probe now s b =
     (case br_adapters b s of
        None \<Rightarrow> (Inl (NotRegistered s), b, [])
      | Some a \<Rightarrow>
          let report = ad_probe a now; st = CaProbed (achievable_level report)
          in (Inr st, set_state s st (b\<lparr>br_probes := (br_probes b)(s := Some report)\<rparr>), [CallProbe s]))"

definition request_consent :: "sensor \<Rightarrow> broker \<Rightarrow> broker_reply" where
  "request_consent s b =
     (case br_states b s of
        Some (CaProbed a) \<Rightarrow> (Inr (CaConsentRequested a), set_state s (CaConsentRequested a) b, [])
      | other \<Rightarrow> (Inl (illegal s other ''request_consent''), b, []))"

definition grant_consent :: "sensor \<Rightarrow> string \<Rightarrow> broker \<Rightarrow> broker_reply" where
  "grant_consent s scope b =
     (case br_states b s of
        Some (CaConsentRequested a) \<Rightarrow>
          (let q = br_seq b + 1
           in (Inr (CaConsented a), set_state s (CaConsented a) (b\<lparr>br_seq := q, br_ledger := ledger_record_decision s a scope True q (br_ledger b)\<rparr>), []))
      | other \<Rightarrow> (Inl (illegal s other ''grant_consent''), b, []))"

definition deny_consent :: "sensor \<Rightarrow> broker \<Rightarrow> broker_reply" where
  "deny_consent s b =
     (case br_states b s of
        Some (CaConsentRequested a) \<Rightarrow>
          (let q = br_seq b + 1
           in (Inr (CaProbed a), set_state s (CaProbed a) (b\<lparr>br_seq := q, br_ledger := ledger_record_decision s a [] False q (br_ledger b)\<rparr>), []))
      | other \<Rightarrow> (Inl (illegal s other ''deny_consent''), b, []))"

definition installed_state :: "(adapter_error, install_outcome) result \<Rightarrow> capability_state" where
  "installed_state r =
     (case r of
        Inr x \<Rightarrow> if io_achieved x = AlNone then CaBlocked ''install completed but no observation could be activated'' AlNone
                 else CaActive (io_achieved x)
      | Inl e \<Rightarrow> CaBlocked (show_adapter_error e) AlNone)"

definition install :: "nat \<Rightarrow> sensor \<Rightarrow> broker \<Rightarrow> broker_reply" where
  "install now s b =
     (case br_states b s of
        Some (CaConsented _) \<Rightarrow>
          (let b1 = set_state s CaInstalling b
           in case br_adapters b1 s of
                None \<Rightarrow> (Inl (NotRegistered s), b1, [])
              | Some a \<Rightarrow>
                  let r = ad_install a now;
                      b2 = (case r of Inr x \<Rightarrow> b1\<lparr>br_rollback_tokens := (br_rollback_tokens b1)(s := Some (io_rollback_token x))\<rparr> | Inl _ \<Rightarrow> b1)
                  in (Inr (installed_state r), set_state s (installed_state r) b2, [CallInstall s]))
      | other \<Rightarrow> (Inl (illegal s other ''install''), b, []))"

fun can_roll_back :: "capability_state option \<Rightarrow> bool" where
  "can_roll_back (Some (CaActive _)) = True"
| "can_roll_back (Some (CaBlocked _ _)) = True"
| "can_roll_back (Some CaInstalling) = True"
| "can_roll_back _ = False"

definition roll_back_done :: "sensor \<Rightarrow> broker \<Rightarrow> broker" where
  "roll_back_done s b =
     (let q = br_seq b + 1 in set_state s CaRolledBack (b\<lparr>br_seq := q, br_ledger := snd (revoke s q (br_ledger b))\<rparr>))"

definition broker_rollback :: "nat \<Rightarrow> sensor \<Rightarrow> broker \<Rightarrow> broker_reply" where
  "broker_rollback now s b =
     (if \<not> can_roll_back (br_states b s) then (Inl (illegal s (br_states b s) ''rollback''), b, [])
      else case br_rollback_tokens b s of
             None \<Rightarrow> (Inr CaRolledBack, roll_back_done s b, [])
           | Some token \<Rightarrow>
               (case br_adapters b s of
                  None \<Rightarrow> (Inl (NotRegistered s), b, [])
                | Some a \<Rightarrow> (Inr CaRolledBack, roll_back_done s b, [CallRollback s token])))"

record capability_report =
  ct_sensor :: sensor
  ct_os :: host_os
  ct_state :: string
  ct_achieved_level :: achieved_level
  ct_achievable_level :: achieved_level
  ct_observe_supported :: bool
  ct_consented :: bool
  ct_requirements :: "requirement list"
  ct_missing :: "requirement list"
  ct_remediation :: "remediation list"

definition build_report :: "probe_report \<Rightarrow> capability_state \<Rightarrow> bool \<Rightarrow> capability_report" where
  "build_report p st consented =
     \<lparr>ct_sensor = rb_sensor p, ct_os = rb_os p, ct_state = state_tag st, ct_achieved_level = capability_effective_level st,
      ct_achievable_level = achievable_level p, ct_observe_supported = rb_observe_supported p, ct_consented = consented,
      ct_requirements = rb_requirements p, ct_missing = missing p, ct_remediation = List.map_filter rq_remediation (missing p)\<rparr>"

definition broker_report :: "sensor \<Rightarrow> broker \<Rightarrow> (broker_error, capability_report) result" where
  "broker_report s b =
     (case br_probes b s of
        None \<Rightarrow> Inl (NotRegistered s)
      | Some p \<Rightarrow> Inr (build_report p (case br_states b s of Some st \<Rightarrow> st | None \<Rightarrow> CaUnknown) (is_granted (br_ledger b) s)))"


subsection \<open>The ledger\<close>

definition last_granted :: "consent_ledger \<Rightarrow> sensor \<Rightarrow> bool" where
  "last_granted rs s = (case find (\<lambda>r. cs_sensor r = s) rs of Some r \<Rightarrow> cs_granted r \<and> cs_revoked_at_seq r = None | None \<Rightarrow> False)"

lemma is_granted_rev: "is_granted l s = last_granted (rev l) s"
  by (simp add: is_granted_def last_granted_def)

lemma last_granted_revoke: "last_granted (snd (revoke_first s q rs)) s' = (s' \<noteq> s \<and> last_granted rs s')"
  by (induction rs) (auto simp: last_granted_def split: option.splits prod.splits)

lemma is_granted_record [simp]: "is_granted (ledger_record_decision s lv sc g q l) s' = (if s' = s then g else is_granted l s')"
  by (auto simp: is_granted_def ledger_record_decision_def)

lemma is_granted_revoke [simp]: "is_granted (snd (revoke s q l)) s' = (s' \<noteq> s \<and> is_granted l s')"
  using last_granted_revoke [of s q "rev l" s'] by (auto simp: is_granted_rev revoke_def split: prod.splits)

lemma revoke_keeps_history: "length (snd (revoke s q l)) = length l"
proof -
  have "length (snd (revoke_first s q rs)) = length rs" for rs by (induction rs) (auto split: prod.splits)
  from this [of "rev l"] show ?thesis by (simp add: revoke_def Let_def split_def)
qed

subsection \<open>Runs of the broker\<close>

text \<open>One call to the broker, with any adapter and any answer of it.\<close>

inductive broker_step :: "broker \<Rightarrow> broker \<Rightarrow> bool" where
  step_register: "broker_step b (register a b)"
| step_probe: "broker_step b (fst (snd (broker_probe n s b)))"
| step_request: "broker_step b (fst (snd (request_consent s b)))"
| step_grant: "broker_step b (fst (snd (grant_consent s scope b)))"
| step_deny: "broker_step b (fst (snd (deny_consent s b)))"
| step_install: "broker_step b (fst (snd (install n s b)))"
| step_rollback: "broker_step b (fst (snd (broker_rollback n s b)))"

fun needs_consent :: "capability_state \<Rightarrow> bool" where
  "needs_consent (CaConsented _) = True"
| "needs_consent CaInstalling = True"
| "needs_consent (CaActive _) = True"
| "needs_consent (CaBlocked _ _) = True"
| "needs_consent _ = False"

definition sensor_inv :: "broker \<Rightarrow> sensor \<Rightarrow> bool" where
  "sensor_inv b s \<longleftrightarrow>
     (\<forall>st. br_states b s = Some st \<longrightarrow>
        br_adapters b s \<noteq> None \<and> (needs_consent st \<longrightarrow> is_granted (br_ledger b) s) \<and> st \<noteq> CaActive AlNone \<and> st \<noteq> CaInstalling)"

definition broker_inv :: "broker \<Rightarrow> bool" where
  "broker_inv b \<longleftrightarrow> (\<forall>s. sensor_inv b s)"

lemma set_state_simps [simp]:
  "br_states (set_state s st b) s' = (if s' = s then Some st else br_states b s')"
  "br_adapters (set_state s st b) = br_adapters b" "br_ledger (set_state s st b) = br_ledger b"
  "br_probes (set_state s st b) = br_probes b" "br_rollback_tokens (set_state s st b) = br_rollback_tokens b"
  by (auto simp: set_state_def)

lemma inv_set_state:
  assumes "broker_inv b" and "br_adapters b s \<noteq> None" and "needs_consent st \<Longrightarrow> is_granted (br_ledger b) s"
    and "st \<noteq> CaActive AlNone" and "st \<noteq> CaInstalling"
  shows "broker_inv (set_state s st b)"
  using assms by (auto simp: broker_inv_def sensor_inv_def simp del: not_None_eq)

lemma inv_frame: "broker_inv b \<Longrightarrow> br_states b' = br_states b \<Longrightarrow> br_adapters b' = br_adapters b \<Longrightarrow> br_ledger b' = br_ledger b \<Longrightarrow> broker_inv b'"
  by (simp add: broker_inv_def sensor_inv_def)

lemma inv_register [inv_intros]: "broker_inv b \<Longrightarrow> broker_inv (register a b)"
  by (auto simp: broker_inv_def sensor_inv_def register_def simp del: not_None_eq split: option.splits)

lemma inv_adapter: "broker_inv b \<Longrightarrow> br_states b s = Some st \<Longrightarrow> br_adapters b s \<noteq> None"
  by (auto simp: broker_inv_def sensor_inv_def dest!: spec [of _ s])

lemma inv_probe [inv_intros]: "broker_inv b \<Longrightarrow> broker_inv (fst (snd (broker_probe n s b)))"
  by (auto simp: broker_probe_def Let_def split: option.splits intro!: inv_set_state elim: inv_frame)

lemma inv_request [inv_intros]: "broker_inv b \<Longrightarrow> broker_inv (fst (snd (request_consent s b)))"
  by (auto simp: request_consent_def split: option.splits capability_state.splits intro!: inv_set_state dest: inv_adapter)

lemma inv_decide:
  assumes "broker_inv b" and "br_states b s = Some (CaConsentRequested a)" and "needs_consent st \<Longrightarrow> g"
    and "st \<noteq> CaActive AlNone" and "st \<noteq> CaInstalling"
  shows "broker_inv (set_state s st (b\<lparr>br_seq := q, br_ledger := ledger_record_decision s a sc g q (br_ledger b)\<rparr>))"
proof -
  have "br_adapters b s \<noteq> None" by (rule inv_adapter [OF assms(1,2)])
  with assms show ?thesis by (auto simp: broker_inv_def sensor_inv_def simp del: not_None_eq split: option.splits)
qed

lemma inv_grant [inv_intros]: "broker_inv b \<Longrightarrow> broker_inv (fst (snd (grant_consent s sc b)))"
  by (auto simp: grant_consent_def Let_def split: option.splits capability_state.splits intro!: inv_decide)

lemma inv_deny [inv_intros]: "broker_inv b \<Longrightarrow> broker_inv (fst (snd (deny_consent s b)))"
  by (auto simp: deny_consent_def Let_def split: option.splits capability_state.splits intro!: inv_decide)

lemma installed_state_cases:
  "installed_state r \<noteq> CaActive AlNone" "installed_state r \<noteq> CaInstalling" "needs_consent (installed_state r)"
  by (auto simp: installed_state_def split: sum.splits)

lemma install_effect:
  assumes "broker_inv b" and "br_states b s = Some (CaConsented a)"
  obtains ad where "br_adapters b s = Some ad" "fst (install n s b) = Inr (installed_state (ad_install ad n))"
    "br_states (fst (snd (install n s b))) = (br_states b)(s := Some (installed_state (ad_install ad n)))"
    "br_adapters (fst (snd (install n s b))) = br_adapters b" "br_ledger (fst (snd (install n s b))) = br_ledger b"
    "snd (snd (install n s b)) = [CallInstall s]"
proof -
  from inv_adapter [OF assms] obtain ad where ad: "br_adapters b s = Some ad" by auto
  show thesis
    by (rule that [OF ad]) (use assms(2) ad in \<open>auto simp: install_def Let_def fun_eq_iff split: sum.splits\<close>)
qed

lemma inv_install [inv_intros]: assumes "broker_inv b" shows "broker_inv (fst (snd (install n s b)))"
proof (cases "\<exists>a. br_states b s = Some (CaConsented a)")
  case True
  then obtain a where a: "br_states b s = Some (CaConsented a)" by blast
  have g: "is_granted (br_ledger b) s" using assms a by (auto simp: broker_inv_def sensor_inv_def dest!: spec [of _ s])
  from install_effect [OF assms a, of n] obtain ad where x: "br_adapters b s = Some ad"
    "br_states (fst (snd (install n s b))) = (br_states b)(s := Some (installed_state (ad_install ad n)))"
    "br_adapters (fst (snd (install n s b))) = br_adapters b" "br_ledger (fst (snd (install n s b))) = br_ledger b" by metis
  show ?thesis
    using assms g x installed_state_cases [of "ad_install ad n"]
    by (auto simp: broker_inv_def sensor_inv_def split: option.splits)
next
  case False
  then have "fst (snd (install n s b)) = b" by (auto simp: install_def split: option.splits capability_state.splits)
  with assms show ?thesis by simp
qed

lemma inv_rollback [inv_intros]: assumes "broker_inv b" shows "broker_inv (fst (snd (broker_rollback n s b)))"
proof -
  have "broker_inv (roll_back_done s b)" if cr: "can_roll_back (br_states b s)"
  proof -
    obtain st where "br_states b s = Some st" using cr by (cases "br_states b s") simp_all
    from inv_adapter [OF assms this] assms show ?thesis
      by (auto simp: roll_back_done_def Let_def broker_inv_def sensor_inv_def simp del: not_None_eq split: option.splits)
  qed
  with assms show ?thesis by (auto simp: broker_rollback_def split: option.splits)
qed

lemma broker_step_inv: "broker_step b b' \<Longrightarrow> broker_inv b \<Longrightarrow> broker_inv b'"
  by (induction rule: broker_step.induct) (auto intro: inv_intros)

interpretation broker_sys: invariant_system "\<lambda>b. b = broker_new" broker_step broker_inv
proof unfold_locales
  show "broker_inv b" if "b = broker_new" for b using that by (simp add: broker_inv_def sensor_inv_def broker_new_def)
qed (rule broker_step_inv)


subsection \<open>Properties\<close>

lemma install_refused:
  assumes "\<And>a. br_states b s \<noteq> Some (CaConsented a)"
  shows "install n s b = (Inl (illegal s (br_states b s) ''install''), b, [])"
  using assms by (auto simp: install_def split: option.splits capability_state.splits)

lemma broker_inv_granted: "broker_inv b \<Longrightarrow> br_states b s = Some st \<Longrightarrow> needs_consent st \<Longrightarrow> is_granted (br_ledger b) s"
  by (auto simp: broker_inv_def sensor_inv_def)

text \<open>
  C35. No sensor runs without consent: in every state the broker can reach, a sensor that is consented, active or
  blocked after an installation has a granted and unrevoked latest decision in the ledger, and an active sensor has a real
  level. An installation is possible only from the consented state: there the broker calls the adapter's installation once, for
  that sensor, whose consent is granted, and the answer decides between active and blocked; in every other state (active, blocked and
  rolled back among them) it refuses, calls no adapter and changes nothing. A rollback takes the consent back.
\<close>

theorem consent_before_install:
  assumes "broker_step\<^sup>*\<^sup>* broker_new b"
  shows "(\<forall>s st. br_states b s = Some st \<longrightarrow> (needs_consent st \<longrightarrow> is_granted (br_ledger b) s) \<and> st \<noteq> CaActive AlNone) \<and>
    (\<forall>n s. if \<exists>a. br_states b s = Some (CaConsented a)
       then is_granted (br_ledger b) s \<and> snd (snd (install n s b)) = [CallInstall s] \<and>
         (\<exists>ad. br_adapters b s = Some ad \<and> fst (install n s b) = Inr (installed_state (ad_install ad n)) \<and>
           br_states (fst (snd (install n s b))) = (br_states b)(s := Some (installed_state (ad_install ad n))))
       else install n s b = (Inl (illegal s (br_states b s) ''install''), b, [])) \<and>
    (\<forall>n s st. fst (broker_rollback n s b) = Inr st \<longrightarrow> \<not> is_granted (br_ledger (fst (snd (broker_rollback n s b)))) s)"
proof (intro conjI allI impI)
  have inv: "broker_inv b" using broker_sys.inv_reachable [OF refl assms] .
  fix s n
  show "is_granted (br_ledger b) s" if "br_states b s = Some st" "needs_consent st" for st
    using broker_inv_granted [OF inv that] .
  show "st \<noteq> CaActive AlNone" if "br_states b s = Some st" for st
    using inv that by (auto simp: broker_inv_def sensor_inv_def)
  show "if \<exists>a. br_states b s = Some (CaConsented a)
       then is_granted (br_ledger b) s \<and> snd (snd (install n s b)) = [CallInstall s] \<and>
         (\<exists>ad. br_adapters b s = Some ad \<and> fst (install n s b) = Inr (installed_state (ad_install ad n)) \<and>
           br_states (fst (snd (install n s b))) = (br_states b)(s := Some (installed_state (ad_install ad n))))
       else install n s b = (Inl (illegal s (br_states b s) ''install''), b, [])"
  proof (cases "\<exists>a. br_states b s = Some (CaConsented a)")
    case True
    then obtain a where a: "br_states b s = Some (CaConsented a)" by blast
    show ?thesis using True broker_inv_granted [OF inv a] by (auto intro: install_effect [OF inv a, of n])
  qed (simp add: install_refused)
  show "\<not> is_granted (br_ledger (fst (snd (broker_rollback n s b)))) s" if "fst (broker_rollback n s b) = Inr st" for st
    using that by (auto simp: broker_rollback_def roll_back_done_def Let_def split: if_splits option.splits)
qed

text \<open>A run on the content sensor, which has no requirement.\<close>

definition demo_facts :: host_facts where
  "demo_facts = \<lparr>hf_os = None, hf_is_admin_or_root = False, hf_win_driver_signed = False, hf_win_test_signing = False,
     hf_mac_es_entitlement_present = False, hf_mac_system_extension_approved = False, hf_mac_full_disk_access = False,
     hf_linux_kernel_supports_ebpf = False, hf_linux_kernel_supports_fanotify = False, hf_linux_has_cap_sys_admin = False\<rparr>"

definition demo_broker :: broker where
  "demo_broker = fst (snd (install 0 SnContent (fst (snd (grant_consent SnContent ''all'' (fst (snd (request_consent SnContent
     (fst (snd (broker_probe 0 SnContent (register (default_adapter SnContent demo_facts False) broker_new))))))))))))"

lemma demo_broker_active: "br_states demo_broker SnContent = Some (CaActive AlEnforce)"
  by (simp add: demo_broker_def install_def grant_consent_def request_consent_def broker_probe_def register_def default_adapter_def
      derive_requirements_def achievable_level_def installed_state_def demo_facts_def Let_def)

lemma demo_broker_reachable: "broker_step\<^sup>*\<^sup>* broker_new demo_broker"
  unfolding demo_broker_def by (meson broker_step.intros rtranclp.rtrancl_refl rtranclp.rtrancl_into_rtrancl)

theorem consent_before_install_witness:
  "br_states demo_broker SnContent = Some (CaActive AlEnforce) \<and> is_granted (br_ledger demo_broker) SnContent \<and>
   install 1 SnContent demo_broker = (Inl (IllegalTransition SnContent (state_tag (CaActive AlEnforce)) ''install''), demo_broker, [])"
proof -
  have "(if \<exists>a. br_states demo_broker SnContent = Some (CaConsented a) then P
      else install 1 SnContent demo_broker = (Inl (illegal SnContent (br_states demo_broker SnContent) ''install''), demo_broker, [])) \<Longrightarrow>
      install 1 SnContent demo_broker = (Inl (IllegalTransition SnContent (state_tag (CaActive AlEnforce)) ''install''), demo_broker, [])" for P
    by (simp add: demo_broker_active illegal_def)
  with consent_before_install [OF demo_broker_reachable] demo_broker_active show ?thesis by fastforce
qed

text \<open>A new probe is allowed in every state and forgets that the sensor is live: the reported level drops to none, a
  rollback is refused, and a denial recorded afterwards leaves the sensor installed.\<close>

lemma probe_forgets_active:
  assumes "br_states b s = Some (CaActive l)" and "br_adapters b s = Some a" and "broker_probe n s b = (r, b', calls)"
  shows "\<exists>st. br_states b' s = Some st \<and> capability_effective_level st = AlNone \<and> (\<exists>e. fst (broker_rollback m s b') = Inl e) \<and>
    br_rollback_tokens b' s = br_rollback_tokens b s \<and> CallRollback s t \<notin> set calls"
  using assms by (auto simp: broker_probe_def broker_rollback_def Let_def)

text \<open>What the rules of the operating systems amount to: the browser sensor never reaches enforcement, and the level of the
  others follows the facts.\<close>

lemma browser_never_enforces: "achievable_level (derive_requirements SnBrowser f) = AlObserveOnly"
  by (simp add: achievable_level_def derive_requirements_def require_def Let_def)

lemma achievable_enforce_linux:
  assumes "hf_os f = Some OsLinux"
  shows "achievable_level (derive_requirements SnFile f) = AlEnforce \<longleftrightarrow> hf_linux_kernel_supports_fanotify f \<and> hf_linux_has_cap_sys_admin f"
    and "achievable_level (derive_requirements SnNetwork f) = AlEnforce \<longleftrightarrow> hf_linux_kernel_supports_ebpf f \<and> hf_linux_has_cap_sys_admin f"
  using assms by (simp_all add: achievable_level_def derive_requirements_def linux_file_requirements_def linux_ebpf_requirements_def require_def
      pass_or_def Let_def)

lemma missing_empty_iff: "missing r = [] \<and> rb_observe_supported r \<longleftrightarrow> achievable_level r = AlEnforce"
  by (auto simp: missing_def achievable_level_def filter_empty_conv Let_def)

end
