(* ===== verification/Agent_Binding.thy ===== *)
theory Agent_Binding
  imports Json_Value
begin

text \<open>
  \<^verbatim>\<open>src/crates/dek-agent-binding\<close>: what a discovered agent can do, how it is to be controlled, guarded and recorded, the
  life cycle of its binding and the store of bindings. Starting the agent's tool server and asking it for its tools is I/O; the answer is an
  argument of \<open>tools_from_response\<close>. Of a signature only the identifier, the control strategies and the ports are read. Time
  stamps are arguments.
\<close>

subsection \<open>Capabilities\<close>

datatype surface =
    SfMcpStdio string "string list" | SfMcpHttp string | SfMcpSse string | SfOpenAiCompatApi nat | SfNativeProcess | SfBrowserExtension

record data_reach =
  dr_kind :: string
  dr_path_pattern :: "string option"
  dr_sensitivity :: string

record tool_capability =
  tc_tool_name :: string
  tc_description :: string
  tc_parameters_schema :: json
  tc_risk_class :: string

record capability_descriptor =
  ce_agent_signature_id :: string
  ce_interaction_surfaces :: "surface list"
  ce_data_reach :: "data_reach list"
  ce_tool_capabilities :: "tool_capability list"

record agent_signature =
  as_id :: string
  as_control_strategies :: "string list"
  as_ports :: "nat list"

definition strategy_surface :: "agent_signature \<Rightarrow> string \<Rightarrow> surface option" where
  "strategy_surface sig s =
     (if s = ''mcp_stdio_wrapper'' then Some (SfMcpStdio ''unknown'' [])
      else if s = ''ollama_proxy'' \<or> s = ''network_egress_pep''
      then Some (SfOpenAiCompatApi (case as_ports sig of p # _ \<Rightarrow> p | [] \<Rightarrow> 0))
      else None)"

definition capabilities_from_discovery :: "agent_signature \<Rightarrow> surface list \<Rightarrow> capability_descriptor" where
  "capabilities_from_discovery sig discovered =
     \<lparr>ce_agent_signature_id = as_id sig,
      ce_interaction_surfaces = (if discovered \<noteq> [] then discovered else List.map_filter (strategy_surface sig) (as_control_strategies sig)),
      ce_data_reach = [], ce_tool_capabilities = []\<rparr>"

definition risk_class_of :: "string \<Rightarrow> string" where
  "risk_class_of name =
     (if str_contains name ''delete'' \<or> str_contains name ''remove'' then ''delete''
      else if str_contains name ''exec'' \<or> str_contains name ''run'' then ''exec''
      else if str_contains name ''write'' \<or> str_contains name ''update'' then ''write''
      else ''read'')"

definition tool_of_value :: "json \<Rightarrow> tool_capability" where
  "tool_of_value t =
     (let name = (case get_str t ''name'' of Some n \<Rightarrow> n | None \<Rightarrow> ''unknown'')
      in \<lparr>tc_tool_name = name, tc_description = (case get_str t ''description'' of Some d \<Rightarrow> d | None \<Rightarrow> []),
          tc_parameters_schema = (case json_get t ''inputSchema'' of Some s \<Rightarrow> s | None \<Rightarrow> json_empty),
          tc_risk_class = risk_class_of name\<rparr>)"

definition tools_from_response :: "json \<Rightarrow> (string, tool_capability list) result" where
  "tools_from_response response =
     (case Option.bind (Option.bind (json_get response ''result'') (\<lambda>r. json_get r ''tools'')) as_array of
        Some tools \<Rightarrow> Inr (map tool_of_value tools)
      | None \<Rightarrow> Inl ''Invalid or missing tools array in response'')"

subsection \<open>Control\<close>

datatype control_strategy = CtStdioWrapperInjection string | CtHttpProxyRedirect string | CtNetworkEgressInterception | CtObserveOnly

record control_binding_spec =
  bs_surface_selector :: string
  bs_strategy :: control_strategy
  bs_reversible :: bool
  bs_requires_approval :: bool

datatype binding_level = BlObserve | BlEnforce

fun join_args :: "string list \<Rightarrow> string" where
  "join_args [] = []"
| "join_args [x] = x"
| "join_args (x # y # ys) = x @ '' '' @ join_args (y # ys)"

definition observe_spec :: "string \<Rightarrow> control_binding_spec" where
  "observe_spec sel = \<lparr>bs_surface_selector = sel, bs_strategy = CtObserveOnly, bs_reversible = True, bs_requires_approval = False\<rparr>"

definition http_spec :: "string list \<Rightarrow> binding_level \<Rightarrow> string \<Rightarrow> control_binding_spec" where
  "http_spec peps level url =
     (if level = BlEnforce \<and> ''mcp-http'' \<in> set peps
      then \<lparr>bs_surface_selector = ''mcp_http'', bs_strategy = CtHttpProxyRedirect (''http://127.0.0.1:8787/proxy?upstream='' @ url),
            bs_reversible = True, bs_requires_approval = False\<rparr>
      else observe_spec ''mcp_http'')"

fun bind_surface :: "string list \<Rightarrow> binding_level \<Rightarrow> surface \<Rightarrow> control_binding_spec" where
  "bind_surface peps level (SfMcpStdio command args) =
     (if level = BlEnforce \<and> ''mcp-stdio'' \<in> set peps
      then \<lparr>bs_surface_selector = ''mcp_stdio'',
            bs_strategy = CtStdioWrapperInjection (''dek-mcp-stdio-wrapper --target '' @ command @ '' '' @ join_args args),
            bs_reversible = True, bs_requires_approval = False\<rparr>
      else observe_spec ''mcp_stdio'')"
| "bind_surface peps level (SfMcpHttp url) = http_spec peps level url"
| "bind_surface peps level (SfMcpSse url) = http_spec peps level url"
| "bind_surface peps level (SfOpenAiCompatApi _) =
     (if level = BlEnforce \<and> (''linux-ebpf'' \<in> set peps \<or> ''windows-wfp'' \<in> set peps \<or> ''macos-nefilter'' \<in> set peps)
      then \<lparr>bs_surface_selector = ''openai_api'', bs_strategy = CtNetworkEgressInterception, bs_reversible = True, bs_requires_approval = True\<rparr>
      else observe_spec ''openai_api'')"
| "bind_surface peps level SfNativeProcess = observe_spec ''native''"
| "bind_surface peps level SfBrowserExtension = observe_spec ''native''"

definition plan_control_binding :: "capability_descriptor \<Rightarrow> string list \<Rightarrow> binding_level \<Rightarrow> control_binding_spec list" where
  "plan_control_binding cap peps level = map (bind_surface peps level) (ce_interaction_surfaces cap)"

subsection \<open>Guards and telemetry\<close>

datatype guard_kind = GkAllow | GkDeny | GkRequireApproval | GkRedactParams "string list"

record enforcement_hooks =
  eh_agent_signature_id :: string
  eh_default_policy_refs :: "string list"
  eh_tool_guards :: "(string \<times> guard_kind) list"
  eh_max_calls_per_min :: "nat option"
  eh_daily_cost_cap_usd :: "f64 option"
  eh_daily_token_cap :: "int option"

definition derive_enforcement :: "capability_descriptor \<Rightarrow> enforcement_hooks" where
  "derive_enforcement cap =
     \<lparr>eh_agent_signature_id = ce_agent_signature_id cap, eh_default_policy_refs = [''pollek.baseline.agent''],
      eh_tool_guards = map (\<lambda>t. (tc_tool_name t,
        if tc_risk_class t \<in> {''delete'', ''exec'', ''write''} then GkRequireApproval else GkAllow)) (ce_tool_capabilities cap),
      eh_max_calls_per_min = Some (if (\<exists>d\<in>set (ce_data_reach cap). dr_sensitivity d = ''critical'') then 30 else 120),
      eh_daily_cost_cap_usd = Some 50, eh_daily_token_cap = Some 2000000\<rparr>"

record telemetry_spec =
  tx_agent_signature_id :: string
  tx_redact_keys :: "string list"
  tx_redact_tool_args :: "string list"
  tx_events_endpoint :: string
  tx_metrics_endpoint :: string
  tx_batch_via_spool :: bool

definition derive_telemetry :: "capability_descriptor \<Rightarrow> telemetry_spec" where
  "derive_telemetry cap =
     \<lparr>tx_agent_signature_id = ce_agent_signature_id cap,
      tx_redact_keys = List.map_filter dr_path_pattern
        (filter (\<lambda>d. dr_sensitivity d = ''high'' \<or> dr_sensitivity d = ''critical'') (ce_data_reach cap)),
      tx_redact_tool_args = map tc_tool_name
        (filter (\<lambda>t. tc_risk_class t = ''write'' \<or> tc_risk_class t = ''exec'') (ce_tool_capabilities cap)),
      tx_events_endpoint = ''/v1/telemetry/events'', tx_metrics_endpoint = ''/v1/telemetry/metrics'', tx_batch_via_spool = True\<rparr>"

subsection \<open>Binding\<close>

datatype binding_lifecycle = BlcDiscovered | BlcProvisioned | BlcEnforced | BlcSuspended | BlcDeprovisioned

record agent_binding =
  ab_binding_id :: string
  ab_agent_instance_id :: string
  ab_signature_id :: string
  ab_tenant_id :: string
  ab_device_id :: string
  ab_capabilities :: capability_descriptor
  ab_control :: "control_binding_spec list"
  ab_enforcement :: enforcement_hooks
  ab_telemetry :: telemetry_spec
  ab_lifecycle :: binding_lifecycle
  ab_first_seen :: string
  ab_last_seen :: string

definition all_peps :: "string list" where
  "all_peps = [''mcp-stdio'', ''mcp-http'', ''linux-ebpf'', ''windows-wfp'', ''macos-nefilter'']"

definition from_discovery :: "string \<Rightarrow> string \<Rightarrow> agent_signature \<Rightarrow> string \<Rightarrow> string \<Rightarrow> string \<Rightarrow> surface list \<Rightarrow> agent_binding" where
  "from_discovery uuid now sig candidate_id tenant device discovered =
     (let cap = capabilities_from_discovery sig discovered
      in \<lparr>ab_binding_id = uuid, ab_agent_instance_id = candidate_id, ab_signature_id = as_id sig, ab_tenant_id = tenant, ab_device_id = device,
          ab_capabilities = cap, ab_control = plan_control_binding cap all_peps BlEnforce, ab_enforcement = derive_enforcement cap,
          ab_telemetry = derive_telemetry cap, ab_lifecycle = BlcDiscovered, ab_first_seen = now, ab_last_seen = now\<rparr>)"

definition reevaluate :: "agent_binding \<Rightarrow> string list \<Rightarrow> string list" where
  "reevaluate b observed =
     (let known = tc_tool_name ` set (ce_tool_capabilities (ab_capabilities b))
      in map (\<lambda>t. ''capability_drift:new_tool:'' @ t) (filter (\<lambda>t. t \<notin> known) observed))"

fun debug_lifecycle :: "binding_lifecycle \<Rightarrow> string" where
  "debug_lifecycle BlcDiscovered = ''Discovered''"
| "debug_lifecycle BlcProvisioned = ''Provisioned''"
| "debug_lifecycle BlcEnforced = ''Enforced''"
| "debug_lifecycle BlcSuspended = ''Suspended''"
| "debug_lifecycle BlcDeprovisioned = ''Deprovisioned''"

fun lifecycle_edge :: "binding_lifecycle \<Rightarrow> binding_lifecycle \<Rightarrow> bool" where
  "lifecycle_edge BlcDiscovered BlcProvisioned = True"
| "lifecycle_edge BlcProvisioned BlcEnforced = True"
| "lifecycle_edge BlcEnforced BlcSuspended = True"
| "lifecycle_edge BlcSuspended BlcEnforced = True"
| "lifecycle_edge BlcDiscovered BlcSuspended = True"
| "lifecycle_edge _ BlcDeprovisioned = True"
| "lifecycle_edge _ _ = False"

definition transition_to :: "string \<Rightarrow> binding_lifecycle \<Rightarrow> agent_binding \<Rightarrow> (string, unit) result \<times> agent_binding" where
  "transition_to now target b =
     (if lifecycle_edge (ab_lifecycle b) target then (Inr (), b\<lparr>ab_lifecycle := target, ab_last_seen := now\<rparr>)
      else (Inl (''Invalid lifecycle transition from '' @ debug_lifecycle (ab_lifecycle b) @ '' to '' @ debug_lifecycle target), b))"

subsection \<open>Store\<close>

type_synonym binding_store = "(string \<times> agent_binding) list"

definition binding_upsert :: "binding_store \<Rightarrow> agent_binding \<Rightarrow> binding_store" where
  "binding_upsert m b = AList.update (ab_binding_id b) b m"

definition binding_get :: "binding_store \<Rightarrow> string \<Rightarrow> agent_binding option" where
  "binding_get m i = map_of m i"

definition list_for_tenant :: "binding_store \<Rightarrow> string \<Rightarrow> agent_binding list" where
  "list_for_tenant m tenant = filter (\<lambda>b. ab_tenant_id b = tenant) (map snd m)"

definition binding_delete :: "binding_store \<Rightarrow> string \<Rightarrow> bool \<times> binding_store" where
  "binding_delete m i = (map_of m i \<noteq> None, filter (\<lambda>(k, _). k \<noteq> i) m)"

definition store_ok :: "binding_store \<Rightarrow> bool" where
  "store_ok m \<longleftrightarrow> distinct (map fst m) \<and> (\<forall>(k, b)\<in>set m. ab_binding_id b = k)"

lemma store_ok_upsert [inv_intros]: assumes "store_ok m" shows "store_ok (binding_upsert m b)"
proof -
  have "distinct (map fst (AList.update (ab_binding_id b) b m))" using assms by (simp add: store_ok_def distinct_update)
  moreover have "\<forall>(k, c)\<in>set (AList.update (ab_binding_id b) b m). ab_binding_id c = k"
    using assms unfolding store_ok_def by (induction m) (auto split: if_splits)
  ultimately show ?thesis by (simp add: store_ok_def binding_upsert_def)
qed

interpretation binding_map: upsert_store binding_get binding_upsert ab_binding_id id store_ok
  by unfold_locales (rule store_ok_upsert, assumption, simp add: binding_get_def binding_upsert_def update_conv')

lemma store_ok_delete [inv_intros]: "store_ok m \<Longrightarrow> store_ok (snd (binding_delete m i))"
  by (auto simp: store_ok_def binding_delete_def distinct_map_filter)

lemma get_after_delete: "binding_get (snd (binding_delete m i)) k = (if k = i then None else binding_get m k)"
  by (induction m) (auto simp: binding_get_def binding_delete_def)

text \<open>After any batch of inserts a lookup returns the last binding stored under the identifier, and the listing of a tenant
  shows exactly its bindings.\<close>

lemma store_lookup_batch:
  "binding_get (foldl binding_upsert [] bs) k = find (\<lambda>b. ab_binding_id b = k) (rev bs)"
  using binding_map.lookup_batch [of "[]" bs k] by (simp add: store_ok_def binding_get_def split: option.splits)

lemma list_for_tenant_exact:
  "store_ok m \<Longrightarrow> b \<in> set (list_for_tenant m t) \<longleftrightarrow> ab_tenant_id b = t \<and> binding_get m (ab_binding_id b) = Some b"
  by (force simp: list_for_tenant_def store_ok_def binding_get_def)

subsection \<open>Facts\<close>

text \<open>A control strategy other than observing needs the enforce level and an enforcement point on the list.\<close>

lemma bind_surface_controls:
  "bs_strategy (bind_surface peps level s) \<noteq> CtObserveOnly \<Longrightarrow> level = BlEnforce \<and> peps \<noteq> []"
  by (cases s) (auto simp: observe_spec_def http_spec_def split: if_splits)

lemma plan_length: "length (plan_control_binding cap peps level) = length (ce_interaction_surfaces cap)"
  by (simp add: plan_control_binding_def)

text \<open>A binding made from a discovery assumes every enforcement point of every platform, so the interception of network
  traffic is planned on a device that has none.\<close>

lemma discovery_assumes_all_peps:
  "SfOpenAiCompatApi p \<in> set ds \<Longrightarrow>
     \<exists>spec\<in>set (ab_control (from_discovery u now sig c t d ds)). bs_strategy spec = CtNetworkEgressInterception"
  by (force simp: from_discovery_def plan_control_binding_def capabilities_from_discovery_def all_peps_def Let_def)

text \<open>Risky tools are found by their lower-case names only.\<close>

lemma risk_class_case_sensitive: "risk_class_of ''DeleteAll'' = ''read''"
  by (simp add: risk_class_of_def starts_with_def)

lemma guards_follow_risk:
  "(t, g) \<in> set (eh_tool_guards (derive_enforcement cap)) \<Longrightarrow>
     g = GkAllow \<or> (g = GkRequireApproval \<and> (\<exists>c\<in>set (ce_tool_capabilities cap). tc_tool_name c = t \<and> tc_risk_class c \<noteq> ''read''))"
  by (auto simp: derive_enforcement_def split: if_splits)

text \<open>The life cycle: deprovisioning is final, and enforcement normally follows provisioning, except that a binding suspended
  right after discovery goes on to enforcement.\<close>

inductive lifecycle_path :: "binding_lifecycle \<Rightarrow> binding_lifecycle list \<Rightarrow> binding_lifecycle \<Rightarrow> bool" where
  path_nil: "lifecycle_path a [] a"
| path_cons: "lifecycle_edge a b \<Longrightarrow> lifecycle_path b bs c \<Longrightarrow> lifecycle_path a (b # bs) c"

inductive_cases lifecycle_path_consE: "lifecycle_path a (b # bs) c"

lemma deprovisioned_final: "lifecycle_path BlcDeprovisioned bs c \<Longrightarrow> c = BlcDeprovisioned \<and> set bs \<subseteq> {BlcDeprovisioned}"
proof (induction BlcDeprovisioned bs c rule: lifecycle_path.induct)
  case (path_cons b bs c)
  then show ?case by (cases b) auto
qed simp

lemma enforced_needs_provisioned_or_suspended:
  "lifecycle_path BlcDiscovered bs BlcEnforced \<Longrightarrow> BlcProvisioned \<in> set bs \<or> hd bs = BlcSuspended"
proof (erule lifecycle_path.cases)
  fix a b bs' c assume "BlcDiscovered = a" "bs = b # bs'" "lifecycle_edge a b" "lifecycle_path b bs' c" "BlcEnforced = c"
  then show ?thesis using deprovisioned_final by (cases b) fastforce+
qed simp

lemma suspension_skips_provisioning: "lifecycle_path BlcDiscovered [BlcSuspended, BlcEnforced] BlcEnforced"
  by (simp add: lifecycle_path.intros)

lemma transition_exact:
  "fst (transition_to now target b) = Inr () \<longleftrightarrow> lifecycle_edge (ab_lifecycle b) target"
  "\<not> lifecycle_edge (ab_lifecycle b) target \<Longrightarrow> snd (transition_to now target b) = b"
  by (simp_all add: transition_to_def)

end
