(* ===== verification/Plugin_Host.thy ===== *)
theory Plugin_Host
  imports Policy_Runtime Guard_Injection Trusted_Keys "HOL-Library.List_Lexorder" "HOL-Library.Char_ord"
begin

text \<open>
  The host of plugins, \<^verbatim>\<open>src/crates/dek-plugin-host/src\<close>, with the manifest and the capabilities of \<^verbatim>\<open>src/crates/dek-plugin-sdk/src/lib.rs\<close>: what a
  manifest asks for, what a user's consent grants, when a plugin may be loaded, the checked call, and the adapter that shows an evaluator to the
  policy router. Of a manifest, the fields the host reads. Parameters: SHA-256 in hexadecimal, the hexadecimal decoder, the signature
  library, and the evaluator itself.
\<close>

subsection \<open>Capabilities\<close>

datatype requested_capability = CapHost string | CapHttpOut string | CapKv string | CapNative string | CapDataScope string

text \<open>The order that \<^verbatim>\<open>derive(PartialOrd, Ord)\<close> gives: by constructor, then by value.\<close>

fun cap_rank :: "requested_capability \<Rightarrow> nat \<times> string" where
  "cap_rank (CapHost s) = (0, s)"
| "cap_rank (CapHttpOut s) = (1, s)"
| "cap_rank (CapKv s) = (2, s)"
| "cap_rank (CapNative s) = (3, s)"
| "cap_rank (CapDataScope s) = (4, s)"

lemma cap_rank_inject [simp]: "cap_rank a = cap_rank b \<longleftrightarrow> a = b"
  by (cases a; cases b) auto

instantiation requested_capability :: linorder
begin

definition less_eq_requested_capability :: "requested_capability \<Rightarrow> requested_capability \<Rightarrow> bool" where
  "less_eq_requested_capability a b \<longleftrightarrow>
     fst (cap_rank a) < fst (cap_rank b) \<or> fst (cap_rank a) = fst (cap_rank b) \<and> snd (cap_rank a) \<le> snd (cap_rank b)"

definition less_requested_capability :: "requested_capability \<Rightarrow> requested_capability \<Rightarrow> bool" where
  "less_requested_capability a b \<longleftrightarrow>
     fst (cap_rank a) < fst (cap_rank b) \<or> fst (cap_rank a) = fst (cap_rank b) \<and> snd (cap_rank a) < snd (cap_rank b)"

instance
proof
  fix a b c :: requested_capability
  show "a < b \<longleftrightarrow> a \<le> b \<and> \<not> b \<le> a" by (auto simp: less_requested_capability_def less_eq_requested_capability_def)
  show "a \<le> a" by (simp add: less_eq_requested_capability_def)
  show "a \<le> b \<Longrightarrow> b \<le> c \<Longrightarrow> a \<le> c" by (auto simp: less_eq_requested_capability_def)
  show "a \<le> b \<Longrightarrow> b \<le> a \<Longrightarrow> a = b"
    by (metis cap_rank_inject less_eq_requested_capability_def order_antisym_conv order_less_not_sym prod_eqI)
  show "a \<le> b \<or> b \<le> a" by (auto simp: less_eq_requested_capability_def)
qed

end

definition is_basic :: "requested_capability \<Rightarrow> bool" where
  "is_basic c \<longleftrightarrow> c = CapHost ''logging'' \<or> c = CapHost ''clock''"

definition is_sensitive :: "requested_capability \<Rightarrow> bool" where
  "is_sensitive c \<longleftrightarrow> \<not> is_basic c"

record plugin_capabilities =
  pc_host :: "string list"
  pc_http_out :: "string list"
  pc_kv :: "string list"
  pc_native :: "string list"
  pc_data_scope :: "string list"

definition requested :: "plugin_capabilities \<Rightarrow> requested_capability list" where
  "requested c = map CapHost (pc_host c) @ map CapHttpOut (pc_http_out c) @ map CapKv (pc_kv c) @ map CapNative (pc_native c)
     @ map CapDataScope (pc_data_scope c)"

record plugin_manifest =
  plg_id :: string
  plg_entry :: "string option"
  plg_capabilities :: plugin_capabilities
  plg_signature_status :: "string option option"
  plg_checksum :: "string option"
  plg_entrypoint :: string
  plg_permissions :: "string list"
  plg_signing :: "(string \<times> string) list"

definition entry_path :: "plugin_manifest \<Rightarrow> string" where
  "entry_path m = (case plg_entry m of Some e \<Rightarrow> e | None \<Rightarrow> if plg_entrypoint m = [] then ''plugin.wasm'' else plg_entrypoint m)"

definition requested_capabilities :: "plugin_manifest \<Rightarrow> requested_capability list" where
  "requested_capabilities m = remdups_adj (sort (requested (plg_capabilities m) @ map CapDataScope (plg_permissions m)))"

text \<open>Consent and grants are ordered sets; here lists without an element twice.\<close>

type_synonym capability_set = "requested_capability list"

definition consent_allow :: "requested_capability \<Rightarrow> capability_set \<Rightarrow> capability_set" where
  "consent_allow c s = List.insert c s"

definition grant :: "requested_capability \<Rightarrow> capability_set \<Rightarrow> capability_set" where
  "grant c s = List.insert c s"

definition can_http_out :: "capability_set \<Rightarrow> string \<Rightarrow> bool" where
  "can_http_out s host \<longleftrightarrow> CapHttpOut host \<in> set s"

definition can_native :: "capability_set \<Rightarrow> string \<Rightarrow> bool" where
  "can_native s cap_id \<longleftrightarrow> CapNative cap_id \<in> set s"

definition grant_capabilities :: "plugin_manifest \<Rightarrow> capability_set \<Rightarrow> capability_set" where
  "grant_capabilities m consent = foldl (\<lambda>caps r. if is_basic r \<or> r \<in> set consent then grant r caps else caps) [] (requested_capabilities m)"

subsection \<open>Loading\<close>

datatype plugin_load_error = LeState string | LeChecksumFormat | LeNoChecksum | LeHashMismatch string string | LeNoSignature | LeHex | LeSignatureLength
  | LePublicKey | LeVerification

record load_env =
  le_sha256_hex :: "string \<Rightarrow> string"
  le_hex_decode :: "string \<Rightarrow> string option"
  le_key_ok :: "string \<Rightarrow> bool"
  le_verify :: "string \<Rightarrow> string \<Rightarrow> string \<Rightarrow> bool"

definition ensure_signature_state_allows_load :: "plugin_manifest \<Rightarrow> (plugin_load_error, unit) result" where
  "ensure_signature_state_allows_load m =
     (case plg_signature_status m of
        None \<Rightarrow> Inr ()
      | Some st \<Rightarrow>
          let s = (case st of Some x \<Rightarrow> x | None \<Rightarrow> ''unknown'')
          in if s = ''valid'' then Inr () else Inl (LeState s))"

definition expected_sha256 :: "plugin_manifest \<Rightarrow> (plugin_load_error, string) result" where
  "expected_sha256 m =
     (case plg_checksum m of
        Some c \<Rightarrow> if starts_with c ''sha256:'' then Inr (to_ascii_lowercase (drop 7 c)) else Inl LeChecksumFormat
      | None \<Rightarrow> (case map_of (plg_signing m) ''sha256'' of Some v \<Rightarrow> Inr (to_ascii_lowercase v) | None \<Rightarrow> Inl LeNoChecksum))"

definition check_plugin_hash :: "load_env \<Rightarrow> plugin_manifest \<Rightarrow> string \<Rightarrow> (plugin_load_error, unit) result" where
  "check_plugin_hash env m wasm =
     (case expected_sha256 m of
        Inl e \<Rightarrow> Inl e
      | Inr h \<Rightarrow> if le_sha256_hex env wasm \<noteq> h then Inl (LeHashMismatch h (le_sha256_hex env wasm)) else Inr ())"

definition check_plugin_key :: "load_env \<Rightarrow> plugin_manifest \<Rightarrow> string \<Rightarrow> string \<Rightarrow> (plugin_load_error, unit) result" where
  "check_plugin_key env m wasm key =
     (case map_of (plg_signing m) ''ed25519_signature'' of
        None \<Rightarrow> Inl LeNoSignature
      | Some sig_hex \<Rightarrow>
          (case le_hex_decode env sig_hex of
             None \<Rightarrow> Inl LeHex
           | Some sig \<Rightarrow>
               if length sig \<noteq> 64 then Inl LeSignatureLength
               else if \<not> le_key_ok env key then Inl LePublicKey
               else if le_verify env key wasm sig then Inr () else Inl LeVerification))"

definition verify_plugin_signature :: "load_env \<Rightarrow> plugin_manifest \<Rightarrow> string \<Rightarrow> string \<Rightarrow> (plugin_load_error, unit) result" where
  "verify_plugin_signature env m wasm key =
     (case ensure_signature_state_allows_load m of
        Inl e \<Rightarrow> Inl e
      | Inr _ \<Rightarrow> (case check_plugin_hash env m wasm of Inl e \<Rightarrow> Inl e | Inr _ \<Rightarrow> check_plugin_key env m wasm key))"

subsection \<open>Calls\<close>

record plugin_policy =
  ppol_allowed_plugins :: "string list"

definition ensure_allowed :: "plugin_policy \<Rightarrow> string \<Rightarrow> string \<Rightarrow> string list \<Rightarrow> bool" where
  "ensure_allowed pol plugin_id operation permissions \<longleftrightarrow>
     plugin_id \<in> set (ppol_allowed_plugins pol) \<or> ''*'' \<in> set (ppol_allowed_plugins pol)"

definition plugin_timeout_ms :: "plugin_policy \<Rightarrow> string \<Rightarrow> nat" where
  "plugin_timeout_ms pol plugin_id = 150"

definition validate_output :: "plugin_policy \<Rightarrow> string \<Rightarrow> string \<Rightarrow> json \<Rightarrow> bool" where
  "validate_output pol plugin_id operation out = True"

datatype call_error = CallNotAllowed | CallTimeout | CallFailed string | CallInvalidOutput

record sdk_plugin =
  sp_id :: string
  sp_permissions :: "string list"
  sp_call :: "string \<Rightarrow> json \<Rightarrow> (string, json) result"
  sp_took_ms :: "string \<Rightarrow> json \<Rightarrow> nat"

definition call_plugin_checked :: "sdk_plugin \<Rightarrow> string \<Rightarrow> json \<Rightarrow> plugin_policy \<Rightarrow> (call_error, json) result" where
  "call_plugin_checked p operation input pol =
     (if \<not> ensure_allowed pol (sp_id p) operation (sp_permissions p) then Inl CallNotAllowed
      else if sp_took_ms p operation input > plugin_timeout_ms pol (sp_id p) then Inl CallTimeout
      else case sp_call p operation input of
             Inl e \<Rightarrow> Inl (CallFailed e)
           | Inr out \<Rightarrow> if validate_output pol (sp_id p) operation out then Inr out else Inl CallInvalidOutput)"

subsection \<open>Evaluators as the router sees them\<close>

datatype sdk_status = SdkSuccess | SdkError | SdkUnavailable | SdkTimeout | SdkSkipped

datatype sdk_effect = SdkAllow | SdkDeny | SdkAbstain

record sdk_decision =
  sd_evaluator_id :: string
  sd_evaluator_type :: string
  sd_required :: bool
  sd_status :: sdk_status
  sd_decision :: sdk_effect
  sd_reason :: string
  sd_obligations :: "string list"
  sd_effects :: json
  sd_metadata :: json

record eval_request =
  er_request_id :: string
  er_tenant_id :: "string option"
  er_subject :: "string option"
  er_action :: "string option"
  er_resource :: "string option"
  er_payload :: json

definition sdk_is_allow :: "sdk_decision \<Rightarrow> bool" where
  "sdk_is_allow d \<longleftrightarrow> sd_decision d = SdkAllow \<and> sd_status d = SdkSuccess"

definition input_str :: "json \<Rightarrow> string \<Rightarrow> string option" where
  "input_str j k = Option.bind (json_get j k) as_str"

definition eval_request_of :: "json \<Rightarrow> eval_request" where
  "eval_request_of input =
     \<lparr>er_request_id = (case input_str input ''request_id'' of Some s \<Rightarrow> s | None \<Rightarrow> ''auto-req''),
      er_tenant_id = input_str input ''tenant_id'',
      er_subject = Option.bind (json_get input ''principal'') (\<lambda>v. as_str (case json_get v ''id'' of Some i \<Rightarrow> i | None \<Rightarrow> v)),
      er_action = input_str input ''action'',
      er_resource = Option.bind (json_get input ''resource'') (\<lambda>v. if is_object v then input_str v ''id'' else as_str v),
      er_payload = input\<rparr>"

fun show_plugin_error :: "plugin_error \<Rightarrow> string" where
  "show_plugin_error (PluginUnavailable m) = ''plugin unavailable: '' @ m"
| "show_plugin_error (PluginInvalid m) = ''invalid plugin input: '' @ m"
| "show_plugin_error (PluginTimeout m) = ''plugin timeout: '' @ m"
| "show_plugin_error (PluginExecution m) = ''plugin execution failed: '' @ m"

definition evaluator_adapter :: "(eval_request \<Rightarrow> (plugin_error, sdk_decision) result) \<Rightarrow> json \<Rightarrow> policy_result" where
  "evaluator_adapter evaluator input =
     (case evaluator (eval_request_of input) of
        Inr d \<Rightarrow>
          Inr \<lparr>pd_evaluator_id = sd_evaluator_id d, pd_evaluator_type = sd_evaluator_type d, pd_required = sd_required d, pd_status = ''success'',
               pd_decision = (if sdk_is_allow d then ''allow'' else ''deny''), pd_allow = sdk_is_allow d, pd_reason = sd_reason d,
               pd_effects = sd_effects d, pd_obligations = sd_obligations d, pd_metadata = sd_metadata d, pd_explanation = None,
               pd_user_action_required = False, pd_user_action_th = None\<rparr>
      | Inl (PluginUnavailable m) \<Rightarrow> Inl (Unavailable m)
      | Inl e \<Rightarrow> Inl (Eval (show_plugin_error e)))"

subsection \<open>Grants and loads\<close>

lemma set_requested_capabilities:
  "set (requested_capabilities m) = set (requested (plg_capabilities m)) \<union> CapDataScope ` set (plg_permissions m)"
  by (simp add: requested_capabilities_def)

lemma set_grant_fold: "set (foldl (\<lambda>caps r. if P r then grant r caps else caps) s rs) = set s \<union> {r \<in> set rs. P r}"
  by (induction rs arbitrary: s) (auto simp: grant_def)

text \<open>A plugin gets what its manifest asks for, as far as it is basic or the user has consented to it.\<close>

lemma grants_exact:
  "set (grant_capabilities m consent) =
     {r. (r \<in> set (requested (plg_capabilities m)) \<or> r \<in> CapDataScope ` set (plg_permissions m)) \<and> (is_basic r \<or> r \<in> set consent)}"
  unfolding grant_capabilities_def set_grant_fold set_requested_capabilities by auto

lemma no_sensitive_without_consent: "r \<in> set (grant_capabilities m []) \<Longrightarrow> \<not> is_sensitive r"
  by (auto simp: grants_exact is_sensitive_def)

lemma grants_monotone: "set c \<subseteq> set c' \<Longrightarrow> set (grant_capabilities m c) \<subseteq> set (grant_capabilities m c')"
  by (auto simp: grants_exact)

lemma verify_plugin_signature_iff:
  "verify_plugin_signature env m wasm key = Inr () \<longleftrightarrow>
     (plg_signature_status m = None \<or> plg_signature_status m = Some (Some ''valid''))
     \<and> expected_sha256 m = Inr (le_sha256_hex env wasm)
     \<and> (\<exists>h sig. map_of (plg_signing m) ''ed25519_signature'' = Some h \<and> le_hex_decode env h = Some sig \<and> length sig = 64
          \<and> le_key_ok env key \<and> le_verify env key wasm sig)"
proof -
  have st: "ensure_signature_state_allows_load m = Inr () \<longleftrightarrow> plg_signature_status m = None \<or> plg_signature_status m = Some (Some ''valid'')"
    by (auto simp: ensure_signature_state_allows_load_def Let_def split: option.splits)
  have h: "check_plugin_hash env m wasm = Inr () \<longleftrightarrow> expected_sha256 m = Inr (le_sha256_hex env wasm)"
    by (auto simp: check_plugin_hash_def split: sum.split)
  have k: "check_plugin_key env m wasm key = Inr () \<longleftrightarrow> (\<exists>h sig. map_of (plg_signing m) ''ed25519_signature'' = Some h
      \<and> le_hex_decode env h = Some sig \<and> length sig = 64 \<and> le_key_ok env key \<and> le_verify env key wasm sig)"
    by (auto simp: check_plugin_key_def split: option.split)
  show ?thesis unfolding st [symmetric] h [symmetric] k [symmetric]
    by (auto simp: verify_plugin_signature_def split: sum.splits)
qed

lemma adapter_allows_iff:
  "(\<exists>d. evaluator_adapter ev input = Inr d \<and> pd_allow d) \<longleftrightarrow>
     (\<exists>d. ev (eval_request_of input) = Inr d \<and> sd_decision d = SdkAllow \<and> sd_status d = SdkSuccess)"
  by (auto simp: evaluator_adapter_def sdk_is_allow_def split: sum.splits plugin_error.splits)

text \<open>The signature is over the module only: the same module passes with any other set of capabilities in its manifest, and a manifest without
  a signature block passes the check of the signature state.\<close>

lemma capabilities_not_signed: "verify_plugin_signature env (m\<lparr>plg_capabilities := c, plg_permissions := p\<rparr>) wasm key = verify_plugin_signature env m wasm key"
proof -
  let ?m = "m\<lparr>plg_capabilities := c, plg_permissions := p\<rparr>"
  have "ensure_signature_state_allows_load ?m = ensure_signature_state_allows_load m" by (simp add: ensure_signature_state_allows_load_def)
  moreover have "expected_sha256 ?m = expected_sha256 m" by (simp add: expected_sha256_def split: option.split)
  then have "check_plugin_hash env ?m wasm = check_plugin_hash env m wasm" by (simp add: check_plugin_hash_def)
  moreover have "check_plugin_key env ?m wasm key = check_plugin_key env m wasm key" by (simp add: check_plugin_key_def)
  ultimately show ?thesis by (simp only: verify_plugin_signature_def)
qed

lemma missing_state_allowed: "plg_signature_status m = None \<Longrightarrow> ensure_signature_state_allows_load m = Inr ()"
  by (simp add: ensure_signature_state_allows_load_def)

text \<open>A permitted plugin may call any operation with any permissions, and its output is not looked at.\<close>

lemma permissions_not_checked: "ensure_allowed pol i op1 perms1 = ensure_allowed pol i op2 perms2"
  by (simp add: ensure_allowed_def)

lemma evaluator_status_lost:
  "ev (eval_request_of input) = Inr d \<Longrightarrow> sd_status d = SdkTimeout \<Longrightarrow>
     \<exists>p. evaluator_adapter ev input = Inr p \<and> pd_status p = ''success'' \<and> pd_decision p = ''deny''"
  by (auto simp: evaluator_adapter_def sdk_is_allow_def)

end
