(* ===== verification/Policy_Advice.thy ===== *)
theory Policy_Advice
  imports Capability_Routing Agent_Activity
begin

text \<open>
  Advice to the operator: policy suggestions from observed events (\<^verbatim>\<open>src/crates/dek-policy-suggester/src\<close>), actions recommended for a device
  (\<^verbatim>\<open>src/crates/dek-recommend/src/lib.rs\<close>) and the agreements a user has consented to (\<^verbatim>\<open>src/crates/dek-consent/src/lib.rs\<close>). The order in which a
  hash map yields its keys is that of their first occurrence. Parameters: identifiers and time stamps, the text of a template, files and JSON text.
  The Thai descriptions are left out.
\<close>

subsection \<open>Suggestions\<close>

datatype suggestion_type = StRegisterShadowAgent | StRestrictExternalLlmProvider | StRequireApprovalForSensitiveResource | StEnforceTokenBudget
  | StEnforceCostBudget | StRestrictMcpTool | StCreateOpenFgaRelationshipGuard | StCreateNetworkGuardrail | StDeployPromptInjectionGuard
  | StDeployPiiRedaction

datatype suggested_language = SlRego | SlCedar | SlOpenFga | SlPollekPolicyIntent | SlNetworkGuardrailJson

datatype suggestion_severity = SvLow | SvMedium | SvHigh | SvCritical

datatype suggestion_status = SsDraft | SsActive | SsDismissed | SsApproved

record policy_artifact =
  pa_name :: string
  pa_content :: string
  pa_language :: suggested_language

record policy_suggestion =
  su_suggestion_id :: string
  su_tenant_id :: string
  su_target_agent_id :: "string option"
  su_target_resource_id :: "string option"
  su_target_tool_id :: "string option"
  su_suggestion_type :: suggestion_type
  su_title :: string
  su_summary :: string
  su_severity :: suggestion_severity
  su_confidence :: f64
  su_recommended_policy_type :: suggested_language
  su_recommended_pep_type :: string
  su_artifacts :: "policy_artifact list"
  su_status :: suggestion_status
  su_created_at :: string

text \<open>What the rules take from outside: the identifiers of the four built-in rules, the time, the template of the cost rule.\<close>

record suggester_env =
  sg_ids :: "nat \<Rightarrow> string"
  sg_now :: string
  sg_cost_template :: string

type_synonym suggestion_rule = "metered_observation list \<Rightarrow> (string, policy_suggestion list) result"

fun evaluate_all :: "suggestion_rule list \<Rightarrow> suggestion_rule" where
  "evaluate_all [] events = Inr []"
| "evaluate_all (rule # rules) events =
     (case rule events of
        Inl e \<Rightarrow> Inl e
      | Inr xs \<Rightarrow> (case evaluate_all rules events of Inl e \<Rightarrow> Inl e | Inr ys \<Rightarrow> Inr (xs @ ys)))"

definition shadow_ids :: "metered_observation list \<Rightarrow> string list" where
  "shadow_ids events = List.map_filter ob_shadow_candidate_id events"

definition first_occurrences :: "string list \<Rightarrow> string list" where
  "first_occurrences xs = rev (remdups (rev xs))"

definition shadow_suggestion :: "suggester_env \<Rightarrow> string \<Rightarrow> nat \<Rightarrow> policy_suggestion" where
  "shadow_suggestion env sid n =
     \<lparr>su_suggestion_id = ''shadow-detect-'' @ sid, su_tenant_id = ''default'', su_target_agent_id = Some sid, su_target_resource_id = None,
      su_target_tool_id = None, su_suggestion_type = StRegisterShadowAgent, su_title = ''Unregistered Agent Detected: '' @ sid,
      su_summary = ''An unregistered agent (ID: '' @ sid @ '') was detected performing '' @ show_nat n @
        '' actions. Consider registering it or blocking it.'',
      su_severity = SvHigh, su_confidence = 9 / 10, su_recommended_policy_type = SlCedar, su_recommended_pep_type = ''mcp_proxy'', su_artifacts = [],
      su_status = SsDraft, su_created_at = sg_now env\<rparr>"

definition shadow_agent_detection_rule :: "suggester_env \<Rightarrow> suggestion_rule" where
  "shadow_agent_detection_rule env events =
     (let ids = shadow_ids events
      in Inr (map (\<lambda>sid. shadow_suggestion env sid (count_list ids sid)) (filter (\<lambda>sid. count_list ids sid \<ge> 3) (first_occurrences ids))))"

definition high_risk_hit :: "metered_observation \<Rightarrow> (string \<times> string) option" where
  "high_risk_hit ev =
     (case ob_risk_level ev of
        Some risk \<Rightarrow>
          if risk = ''high'' \<or> risk = ''critical''
          then (case (ob_agent_id ev, ob_resource_id ev) of (Some a, Some r) \<Rightarrow> Some (a, r) | _ \<Rightarrow> None) else None
      | None \<Rightarrow> None)"

fun high_risk_resource_rule :: "suggester_env \<Rightarrow> suggestion_rule" where
  "high_risk_resource_rule env [] = Inr []"
| "high_risk_resource_rule env (ev # events) =
     (case high_risk_hit ev of
        Some (a, r) \<Rightarrow>
          Inr [\<lparr>su_suggestion_id = ''high-risk-'' @ a @ ''-'' @ r, su_tenant_id = ob_tenant_id ev, su_target_agent_id = Some a,
                su_target_resource_id = Some r, su_target_tool_id = ob_tool_id ev, su_suggestion_type = StRequireApprovalForSensitiveResource,
                su_title = ''High Risk Resource Access Detected'',
                su_summary = ''Agent '' @ [CHR 0x27] @ a @ [CHR 0x27] @ '' accessed high-risk resource '' @ [CHR 0x27] @ r @ [CHR 0x27] @
                  ''. Consider requiring explicit approval.'',
                su_severity = SvCritical, su_confidence = 95 / 100, su_recommended_policy_type = SlCedar, su_recommended_pep_type = ''stdio_wrapper'',
                su_artifacts = [], su_status = SsDraft, su_created_at = sg_now env\<rparr>]
      | None \<Rightarrow> high_risk_resource_rule env events)"

definition cost_alert_threshold_usd :: f64 where "cost_alert_threshold_usd = 25"

definition cost_spike_rule :: "suggester_env \<Rightarrow> string \<Rightarrow> suggestion_rule" where
  "cost_spike_rule env tenant events =
     (let total_cost = (if \<exists>e\<in>set events. mo_token_usage e \<noteq> None then 30 else 0 :: f64)
      in if total_cost < cost_alert_threshold_usd then Inr []
         else Inr [\<lparr>su_suggestion_id = ''sug_'' @ sg_ids env 0, su_tenant_id = tenant, su_target_agent_id = None, su_target_resource_id = None,
           su_target_tool_id = None, su_suggestion_type = StEnforceCostBudget, su_title = ''AI usage cost exceeded suggested daily threshold'',
           su_summary = ''Observed estimated cost $30.00. Suggest daily budget guardrail.'', su_severity = SvMedium, su_confidence = 75 / 100,
           su_recommended_policy_type = SlRego, su_recommended_pep_type = ''forward_proxy'',
           su_artifacts = [\<lparr>pa_name = ''daily_ai_cost_budget.rego'', pa_content = sg_cost_template env, pa_language = SlRego\<rparr>],
           su_status = SsDraft, su_created_at = sg_now env\<rparr>])"

definition unregistered_egress_rule :: "suggester_env \<Rightarrow> string \<Rightarrow> suggestion_rule" where
  "unregistered_egress_rule env tenant events =
     Inr [\<lparr>su_suggestion_id = ''sug_'' @ sg_ids env 1, su_tenant_id = tenant, su_target_agent_id = None,
       su_target_resource_id = Some ''online.api_endpoint'', su_target_tool_id = None, su_suggestion_type = StRestrictExternalLlmProvider,
       su_title = ''Block Unregistered AI Egress'',
       su_summary = ''An unregistered process attempted to access api.openai.com. We suggest deploying a Rego policy to block this egress until the agent is registered.'',
       su_severity = SvHigh, su_confidence = 9 / 10, su_recommended_policy_type = SlRego, su_recommended_pep_type = ''envoy_proxy'', su_artifacts = [],
       su_status = SsDraft, su_created_at = sg_now env\<rparr>]"

definition prompt_injection_rule :: "suggester_env \<Rightarrow> string \<Rightarrow> suggestion_rule" where
  "prompt_injection_rule env tenant events =
     Inr [\<lparr>su_suggestion_id = ''sug_'' @ sg_ids env 2, su_tenant_id = tenant, su_target_agent_id = None, su_target_resource_id = None,
       su_target_tool_id = None, su_suggestion_type = StDeployPromptInjectionGuard, su_title = ''Prompt Injection Detected'',
       su_summary = ''Multiple attempts matching prompt injection signatures detected. Suggest deploying Content Guard.'', su_severity = SvHigh,
       su_confidence = 85 / 100, su_recommended_policy_type = SlRego, su_recommended_pep_type = ''mcp_proxy'', su_artifacts = [], su_status = SsDraft,
       su_created_at = sg_now env\<rparr>]"

definition pii_redaction_rule :: "suggester_env \<Rightarrow> string \<Rightarrow> suggestion_rule" where
  "pii_redaction_rule env tenant events =
     Inr [\<lparr>su_suggestion_id = ''sug_'' @ sg_ids env 3, su_tenant_id = tenant, su_target_agent_id = None, su_target_resource_id = None,
       su_target_tool_id = None, su_suggestion_type = StDeployPiiRedaction, su_title = ''PII Egress Detected'',
       su_summary = ''Possible PII (Email/Phone) sent to external LLM. Suggest enabling PII Redaction preset.'', su_severity = SvHigh,
       su_confidence = 9 / 10, su_recommended_policy_type = SlRego, su_recommended_pep_type = ''http_gateway'', su_artifacts = [], su_status = SsDraft,
       su_created_at = sg_now env\<rparr>]"

definition generate_suggestions :: "suggester_env \<Rightarrow> string \<Rightarrow> suggestion_rule" where
  "generate_suggestions env tenant =
     evaluate_all [cost_spike_rule env tenant, unregistered_egress_rule env tenant, prompt_injection_rule env tenant, pii_redaction_rule env tenant]"

definition recommend_pep :: "string \<Rightarrow> string" where
  "recommend_pep t =
     (if t \<in> {''RestrictExternalLlmProvider'', ''EnforceTokenBudget'', ''EnforceCostBudget''} then ''http_gateway''
      else if t \<in> {''RestrictMcpTool'', ''DeployPromptInjectionGuard''} then ''mcp_proxy''
      else if t = ''DeployPiiRedaction'' then ''http_gateway''
      else if t = ''CreateNetworkGuardrail'' then ''linux_ebpf''
      else if t = ''CreateOpenFgaRelationshipGuard'' then ''mcp_proxy''
      else ''unknown'')"

definition newline_char :: string where "newline_char = [CHR 0x0A]"

definition render_cedar :: "policy_suggestion \<Rightarrow> policy_artifact" where
  "render_cedar s = \<lparr>pa_name = ''policy.cedar'',
     pa_content = ''// '' @ su_title s @ newline_char @ ''// '' @ su_summary s @ newline_char @ ''permit('' @ newline_char @ ''    principal,'' @ newline_char @
       ''    action,'' @ newline_char @ ''    resource'' @ newline_char @ '');'',
     pa_language = SlCedar\<rparr>"

definition render_rego :: "policy_suggestion \<Rightarrow> policy_artifact" where
  "render_rego s = \<lparr>pa_name = ''policy.rego'',
     pa_content = ''package pollek.policy'' @ newline_char @ newline_char @ ''default allow = false'' @ newline_char @ newline_char @ ''# '' @ su_title s @
       newline_char @ ''# '' @ su_summary s,
     pa_language = SlRego\<rparr>"

definition render_openfga :: "policy_suggestion \<Rightarrow> policy_artifact" where
  "render_openfga s = \<lparr>pa_name = ''model.fga'',
     pa_content = ''model'' @ newline_char @ ''  schema 1.1'' @ newline_char @ newline_char @ ''type user'' @ newline_char @ ''type resource'' @ newline_char @
       ''  relations'' @ newline_char @ ''    define viewer: [user]'',
     pa_language = SlOpenFga\<rparr>"

lemma evaluate_all_exact:
  "evaluate_all rules events = Inr out \<longleftrightarrow> (\<exists>outs. list_all2 (\<lambda>rule xs. rule events = Inr xs) rules outs \<and> out = concat outs)"
proof (induction rules arbitrary: out)
  case (Cons rule rules)
  show ?case
  proof
    assume "evaluate_all (rule # rules) events = Inr out"
    then obtain xs ys where xs: "rule events = Inr xs" "evaluate_all rules events = Inr ys" "out = xs @ ys" by (auto split: sum.splits)
    then obtain outs where "list_all2 (\<lambda>rule xs. rule events = Inr xs) rules outs" "ys = concat outs" using Cons.IH by blast
    then show "\<exists>outs. list_all2 (\<lambda>rule xs. rule events = Inr xs) (rule # rules) outs \<and> out = concat outs"
      using xs by (intro exI [of _ "xs # outs"]) simp
  next
    assume "\<exists>outs. list_all2 (\<lambda>rule xs. rule events = Inr xs) (rule # rules) outs \<and> out = concat outs"
    then obtain xs outs where "rule events = Inr xs" "list_all2 (\<lambda>rule xs. rule events = Inr xs) rules outs" "out = xs @ concat outs"
      by (auto simp: list_all2_Cons1)
    moreover from this(2) have "evaluate_all rules events = Inr (concat outs)" using Cons.IH by blast
    ultimately show "evaluate_all (rule # rules) events = Inr out" by simp
  qed
qed auto

lemma set_first_occurrences [simp]: "set (first_occurrences xs) = set xs"
  by (simp add: first_occurrences_def)

text \<open>One suggestion for every unregistered agent seen three times or more, and no other.\<close>

lemma shadow_rule_exact:
  assumes "shadow_agent_detection_rule env events = Inr out"
  shows "set (map su_target_agent_id out) = Some ` {sid. 3 \<le> count_list (shadow_ids events) sid}" and "distinct (map su_target_agent_id out)"
proof -
  let ?ids = "shadow_ids events"
  have out: "map su_target_agent_id out = map Some (filter (\<lambda>sid. count_list ?ids sid \<ge> 3) (first_occurrences ?ids))"
    using assms by (auto simp: shadow_agent_detection_rule_def shadow_suggestion_def Let_def)
  have "sid \<in> set ?ids" if "3 \<le> count_list ?ids sid" for sid using that count_notin by fastforce
  then show "set (map su_target_agent_id out) = Some ` {sid. 3 \<le> count_list ?ids sid}" unfolding out by auto
  show "distinct (map su_target_agent_id out)" unfolding out by (simp add: distinct_map first_occurrences_def)
qed

text \<open>Three of the four built-in suggestions are made without any event.\<close>

lemma suggestions_without_events: "\<exists>a b c. generate_suggestions env tenant [] = Inr [a, b, c] \<and> su_title c = ''PII Egress Detected''"
  by (simp add: generate_suggestions_def cost_spike_rule_def unregistered_egress_rule_def prompt_injection_rule_def pii_redaction_rule_def
      cost_alert_threshold_usd_def)

text \<open>A suggestion to restrict is rendered for Cedar as a policy that permits everything.\<close>

lemma cedar_rendering_permits_all: "\<exists>pre. pa_content (render_cedar s) = pre @ ''permit('' @ newline_char @ ''    principal,'' @ newline_char @ ''    action,''
    @ newline_char @ ''    resource'' @ newline_char @ '');''"
  by (simp add: render_cedar_def)

subsection \<open>Recommended actions\<close>

datatype advice_severity = AdInfo | AdWarning | AdError

record recommended_action =
  rec_severity :: advice_severity
  rec_title :: string
  rec_cli_command :: "string option"

definition recommend :: "string \<Rightarrow> device_capabilities \<Rightarrow> activity_counts \<Rightarrow> recommended_action list" where
  "recommend os_type caps stats =
     (if os_type = ''linux'' \<and> kc_linux_ebpf (dv_kernel caps) = None
      then [\<lparr>rec_severity = AdWarning, rec_title = ''eBPF is missing'', rec_cli_command = Some ''pollek-dek doctor --fix ebpf''\<rparr>] else [])
     @ (if ct_mcp_invocations stats > 50 \<and> \<not> (\<exists>p\<in>set (dv_pep caps). str_contains (pp_type p) ''mcp'' \<and> pp_status p = CsReady)
        then [\<lparr>rec_severity = AdWarning, rec_title = ''MCP PEP not configured'',
               rec_cli_command = Some ''pollek-dek config set mcp.proxy.enabled true''\<rparr>] else [])"

subsection \<open>Consents\<close>

datatype agreement_type = AgEula | AgPrivacyNotice | AgTelemetry | AgBrowserHistoryScan

record agreement_consent =
  ac_agreement_type :: agreement_type
  ac_version :: string
  ac_timestamp :: string
  ac_user_identifier :: string

type_synonym consent_data = "(agreement_type \<times> agreement_consent) list"

record consent_env =
  cx_parse :: "string \<Rightarrow> consent_data option"
  cx_pretty :: "consent_data \<Rightarrow> string option"
  cx_readable :: bool
  cx_writable :: bool

definition consent_load :: "consent_env \<Rightarrow> string option \<Rightarrow> consent_data option" where
  "consent_load env file =
     (case file of None \<Rightarrow> Some [] | Some content \<Rightarrow> if cx_readable env then cx_parse env content else None)"

definition consent_save :: "consent_env \<Rightarrow> consent_data \<Rightarrow> string option \<Rightarrow> bool \<times> string option" where
  "consent_save env d file =
     (case cx_pretty env d of
        None \<Rightarrow> (False, file) | Some content \<Rightarrow> if cx_writable env then (True, Some content) else (False, file))"

definition record_consent :: "consent_env \<Rightarrow> string \<Rightarrow> agreement_type \<Rightarrow> string \<Rightarrow> string \<Rightarrow> string option \<Rightarrow> bool \<times> string option" where
  "record_consent env now t version user file =
     (case consent_load env file of
        None \<Rightarrow> (False, file)
      | Some d \<Rightarrow> consent_save env (AList.update t \<lparr>ac_agreement_type = t, ac_version = version, ac_timestamp = now, ac_user_identifier = user\<rparr> d) file)"

definition has_consented :: "consent_env \<Rightarrow> agreement_type \<Rightarrow> string option \<Rightarrow> bool option" where
  "has_consented env t file = map_option (\<lambda>d. map_of d t \<noteq> None) (consent_load env file)"

text \<open>A recorded consent is found again, and the others are kept, when the file gives back what was written.\<close>

lemma consent_roundtrip:
  assumes "record_consent env now t version user file = (True, file')" and "\<And>d c. cx_pretty env d = Some c \<Longrightarrow> cx_parse env c = Some d" "cx_readable env"
    and "consent_load env file = Some d"
  shows "has_consented env s file' = Some (s = t \<or> map_of d s \<noteq> None)"
proof -
  obtain c where c: "cx_pretty env (AList.update t \<lparr>ac_agreement_type = t, ac_version = version, ac_timestamp = now, ac_user_identifier = user\<rparr> d) = Some c"
      "file' = Some c"
    using assms(1,4) by (auto simp: record_consent_def consent_save_def split: option.splits if_splits)
  then show ?thesis using assms(2,3) by (auto simp: has_consented_def consent_load_def update_conv)
qed

text \<open>The version of an agreement plays no part in whether it counts as consented to.\<close>

lemma consent_version_ignored:
  assumes "cx_readable env" "cx_parse env c = Some [(t, r)]" "cx_parse env c' = Some [(t, r\<lparr>ac_version := v\<rparr>)]"
  shows "has_consented env t (Some c) = Some True \<and> has_consented env t (Some c') = Some True"
  using assms by (simp add: has_consented_def consent_load_def)

end
