(* ===== verification/Policy_Evaluators.thy ===== *)
theory Policy_Evaluators
  imports Plugin_Host
begin

text \<open>
  The evaluators behind the plugin interface: Cedar (\<^verbatim>\<open>src/crates/dek-cedar/src/lib.rs\<close>), OpenFGA (\<^verbatim>\<open>src/crates/dek-openfga/src/lib.rs\<close>) and OPA
  compiled to WebAssembly (\<^verbatim>\<open>src/crates/dek-opa-wasm/src/lib.rs\<close>). Parameters: the Cedar library, the answers of the OpenFGA server, the
  WebAssembly engine with the guest's exports, SHA-256, and printing and parsing of JSON text. The caches of Cedar and OpenFGA drop entries beyond their
  capacity on their own terms: in the model an entry may disappear at any time. Validation of a policy set against a schema is left out.
\<close>

subsection \<open>Results and answers with an age\<close>

definition and_then :: "('e, 'a) result \<Rightarrow> ('a \<Rightarrow> ('e, 'b) result) \<Rightarrow> ('e, 'b) result" where
  "and_then r f = (case r of Inl e \<Rightarrow> Inl e | Inr x \<Rightarrow> f x)"

definition map_err :: "('e \<Rightarrow> 'f) \<Rightarrow> ('e, 'a) result \<Rightarrow> ('f, 'a) result" where
  "map_err f r = (case r of Inl e \<Rightarrow> Inl (f e) | Inr x \<Rightarrow> Inr x)"

lemma and_then_simps [simp]: "and_then (Inl e) f = Inl e" "and_then (Inr x) f = f x"
  by (simp_all add: and_then_def)

lemma map_err_simps [simp]: "map_err f (Inl e) = Inl (f e)" "map_err f (Inr x) = Inr x"
  by (simp_all add: map_err_def)

lemma and_then_eq_Inr: "and_then r f = Inr y \<longleftrightarrow> (\<exists>x. r = Inr x \<and> f x = Inr y)"
  by (cases r) auto

lemma map_err_eq_Inr: "map_err g r = Inr y \<longleftrightarrow> r = Inr y"
  by (cases r) auto

type_synonym 'v answer_cache = "string \<rightharpoonup> 'v \<times> instant"

text \<open>An entry counts while it is not older than its time to live.\<close>

definition fresh_answer :: "'v answer_cache \<Rightarrow> string \<Rightarrow> duration \<Rightarrow> instant \<Rightarrow> 'v option" where
  "fresh_answer c k ttl now = (case c k of Some (v, ts) \<Rightarrow> if now - ts \<le> ttl then Some v else None | None \<Rightarrow> None)"

text \<open>Every entry was given by the source of answers at the instant it carries.\<close>

definition justified :: "(string \<Rightarrow> 'v \<Rightarrow> instant \<Rightarrow> bool) \<Rightarrow> 'v answer_cache \<Rightarrow> bool" where
  "justified given c \<longleftrightarrow> (\<forall>k v ts. c k = Some (v, ts) \<longrightarrow> given k v ts)"

lemma justified_empty [simp]: "justified given Map.empty"
  by (simp add: justified_def)

lemma justified_update: "justified given c \<Longrightarrow> given k v ts \<Longrightarrow> justified given (c(k \<mapsto> (v, ts)))"
  by (simp add: justified_def)

lemma justified_subset: "justified given c \<Longrightarrow> c' \<subseteq>\<^sub>m c \<Longrightarrow> justified given c'"
  unfolding justified_def map_le_def by (metis domI)

lemma justified_mono: "justified given c \<Longrightarrow> (\<And>k v ts. given k v ts \<Longrightarrow> given' k v ts) \<Longrightarrow> justified given' c"
  by (auto simp: justified_def)

lemma fresh_answer_justified:
  assumes "justified given c" "fresh_answer c k ttl now = Some v"
  obtains ts where "given k v ts" "now - ts \<le> ttl"
proof -
  obtain ts where "c k = Some (v, ts)" "now - ts \<le> ttl" using assms(2) by (auto simp: fresh_answer_def split: option.splits if_splits)
  then show thesis using that assms(1) unfolding justified_def by blast
qed

subsection \<open>Cedar\<close>

text \<open>The library, for a policy set that has been parsed; its contexts, entities, identifiers and requests are of one type. The answer of the
  authoriser is its decision, the policies that determined it, and the printed diagnostics.\<close>

record 'x cedar_lib =
  cl_context :: "json \<Rightarrow> (string, 'x) result"
  cl_empty_context :: 'x
  cl_entities :: "json \<Rightarrow> (string, 'x) result"
  cl_no_entities :: 'x
  cl_uid :: "string \<Rightarrow> (string, 'x) result"
  cl_type_name :: "string \<Rightarrow> (string, 'x) result"
  cl_entity_id :: "string \<Rightarrow> (string, 'x) result"
  cl_uid_of :: "'x \<Rightarrow> 'x \<Rightarrow> 'x"
  cl_request :: "'x \<Rightarrow> 'x \<Rightarrow> 'x \<Rightarrow> 'x \<Rightarrow> (string, 'x) result"
  cl_is_authorized :: "'x \<Rightarrow> 'x \<Rightarrow> bool \<times> string list \<times> string"
  cl_annotation :: "string \<Rightarrow> string option"
  cl_to_string :: "json \<Rightarrow> string option"

definition payload_str :: "json \<Rightarrow> string \<Rightarrow> string \<Rightarrow> string" where
  "payload_str payload k dflt = (case get_str payload k of Some s \<Rightarrow> s | None \<Rightarrow> dflt)"

definition cedar_ttl :: "json \<Rightarrow> duration" where
  "cedar_ttl payload =
     (let risk = payload_str payload ''risk_tier'' ''low''
      in if risk = ''high'' \<or> risk = ''critical'' then from_secs 0 else if risk = ''medium'' then from_secs 15 else from_secs 300)"

definition get_field :: "json \<Rightarrow> string \<Rightarrow> string option" where
  "get_field payload k =
     (case json_get payload k of
        None \<Rightarrow> None
      | Some v \<Rightarrow>
          if is_object v
          then Option.bind (or_else (json_get v ''kind'') (or_else (json_get v ''resource_type'') (or_else (json_get v ''id'') (json_get v ''resource_id'')))) as_str
          else as_str v)"

definition request_part :: "string option \<Rightarrow> json \<Rightarrow> string \<Rightarrow> string \<Rightarrow> string" where
  "request_part given payload k dflt = (case or_else given (get_field payload k) of Some s \<Rightarrow> s | None \<Rightarrow> dflt)"

definition make_uid :: "'x cedar_lib \<Rightarrow> string \<Rightarrow> string \<Rightarrow> (plugin_error, 'x) result" where
  "make_uid lib type_name ident =
     (if str_contains ident ''::'' then map_err (\<lambda>e. PluginInvalid (''EntityUid parse error: '' @ e)) (cl_uid lib ident)
      else and_then (map_err (\<lambda>e. PluginInvalid (''EntityTypeName parse error: '' @ e)) (cl_type_name lib type_name))
             (\<lambda>t. and_then (map_err (\<lambda>e. PluginInvalid (''EntityId parse error: '' @ e)) (cl_entity_id lib ident))
               (\<lambda>i. Inr (cl_uid_of lib t i))))"

definition cedar_context :: "'x cedar_lib \<Rightarrow> json \<Rightarrow> (plugin_error, 'x) result" where
  "cedar_context lib payload =
     (case json_get payload ''context'' of
        Some v \<Rightarrow> map_err (\<lambda>e. PluginInvalid (''Context parse error: '' @ e)) (cl_context lib v)
      | None \<Rightarrow> Inr (cl_empty_context lib))"

definition cedar_entities :: "'x cedar_lib \<Rightarrow> json \<Rightarrow> (plugin_error, 'x) result" where
  "cedar_entities lib payload =
     (case json_get payload ''entities'' of
        Some v \<Rightarrow> map_err (\<lambda>e. PluginInvalid (''Entities parse error: '' @ e)) (cl_entities lib v)
      | None \<Rightarrow> Inr (cl_no_entities lib))"

definition cedar_obligations :: "'x cedar_lib \<Rightarrow> string list \<Rightarrow> string list" where
  "cedar_obligations lib reasons = map (trim_matches (\<lambda>c. c = CHR 0x22)) (List.map_filter (cl_annotation lib) reasons)"

definition cedar_answer :: "'x cedar_lib \<Rightarrow> bool \<times> string list \<times> string \<Rightarrow> sdk_decision" where
  "cedar_answer lib ans =
     (case ans of (allowed, reasons, diagnostics) \<Rightarrow>
        \<lparr>sd_evaluator_id = ''cedar_native'', sd_evaluator_type = ''local_pdp'', sd_required = True, sd_status = SdkSuccess,
         sd_decision = (if allowed then SdkAllow else SdkDeny),
         sd_reason = (if allowed then ''Allowed by Cedar policy'' else ''Denied by Cedar policy''),
         sd_obligations = cedar_obligations lib reasons, sd_effects = json_empty,
         sd_metadata = JObj [(''policy_version'', JStr ''1.0''), (''diagnostics'', JStr diagnostics)]\<rparr>)"

text \<open>The evaluation after a miss of the cache. The three parts of the request come from the request itself, or else from its payload.\<close>

definition cedar_decide :: "'x cedar_lib \<Rightarrow> eval_request \<Rightarrow> (plugin_error, sdk_decision) result" where
  "cedar_decide lib input =
     (let payload = er_payload input;
          principal = request_part (er_subject input) payload ''principal'' ''User::\"unknown\"'';
          action = request_part (er_action input) payload ''action'' ''Action::\"unknown\"'';
          resource = request_part (er_resource input) payload ''resource'' ''Resource::\"unknown\"''
      in and_then (cedar_context lib payload) (\<lambda>ctx.
         and_then (cedar_entities lib payload) (\<lambda>ents.
         and_then (make_uid lib ''User'' principal) (\<lambda>p.
         and_then (make_uid lib ''Action'' action) (\<lambda>a.
         and_then (make_uid lib ''Resource'' resource) (\<lambda>r.
         and_then (map_err (\<lambda>e. PluginExecution (''Cedar Request Error: '' @ e)) (cl_request lib p a r ctx)) (\<lambda>q.
           Inr (cedar_answer lib (cl_is_authorized lib q ents)))))))))"

definition cedar_key :: "'x cedar_lib \<Rightarrow> eval_request \<Rightarrow> string" where
  "cedar_key lib input = (case cl_to_string lib (er_payload input) of Some s \<Rightarrow> s | None \<Rightarrow> [])"

definition cedar_cacheable :: "'x cedar_lib \<Rightarrow> eval_request \<Rightarrow> bool" where
  "cedar_cacheable lib input \<longleftrightarrow> cedar_ttl (er_payload input) \<noteq> 0 \<and> cedar_key lib input \<noteq> []"

definition cedar_evaluate ::
  "'x cedar_lib \<Rightarrow> instant \<Rightarrow> eval_request \<Rightarrow> sdk_decision answer_cache \<Rightarrow> (plugin_error, sdk_decision) result \<times> sdk_decision answer_cache" where
  "cedar_evaluate lib now input cache =
     (case (if cedar_cacheable lib input then fresh_answer cache (cedar_key lib input) (cedar_ttl (er_payload input)) now else None) of
        Some d \<Rightarrow> (Inr d, cache)
      | None \<Rightarrow>
          (case cedar_decide lib input of
             Inl e \<Rightarrow> (Inl e, cache)
           | Inr d \<Rightarrow> (Inr d, if cedar_cacheable lib input then cache(cedar_key lib input \<mapsto> (d, now)) else cache)))"

definition cedar_probe_request :: "string \<Rightarrow> eval_request" where
  "cedar_probe_request uuid =
     \<lparr>er_request_id = ''probe_'' @ uuid, er_tenant_id = Some ''local'', er_subject = None, er_action = None, er_resource = None,
      er_payload = JObj [(''principal'', JStr ''User::\"probe\"''), (''action'', JStr ''Action::\"tools/call\"''),
                         (''resource'', JStr ''Resource::\"safe.echo\"''), (''context'', JObj []), (''entities'', JArr [])]\<rparr>"

text \<open>The caches an adapter can reach: evaluations at any time, the drop of entries, and clearing.\<close>

inductive cedar_reaches :: "'x cedar_lib \<Rightarrow> eval_request list \<Rightarrow> sdk_decision answer_cache \<Rightarrow> bool" for lib where
  start: "cedar_reaches lib [] Map.empty"
| evaluated: "cedar_reaches lib rs c \<Longrightarrow> cedar_reaches lib (rs @ [r]) (snd (cedar_evaluate lib now r c))"
| dropped: "cedar_reaches lib rs c \<Longrightarrow> c' \<subseteq>\<^sub>m c \<Longrightarrow> cedar_reaches lib rs c'"

lemma cedar_cache_justified:
  "cedar_reaches lib rs c \<Longrightarrow> justified (\<lambda>k d ts. \<exists>r\<in>set rs. cedar_key lib r = k \<and> cedar_decide lib r = Inr d) c"
proof (induction rule: cedar_reaches.induct)
  case (evaluated rs c r now)
  let ?given = "\<lambda>rs k d (ts :: instant). \<exists>r\<in>set rs. cedar_key lib r = k \<and> cedar_decide lib r = Inr d"
  have c: "justified (?given (rs @ [r])) c" by (rule justified_mono [OF evaluated.IH]) auto
  show ?case
  proof (cases "snd (cedar_evaluate lib now r c) = c")
    case False
    then obtain d where d: "cedar_decide lib r = Inr d" "snd (cedar_evaluate lib now r c) = c(cedar_key lib r \<mapsto> (d, now))"
      by (auto simp: cedar_evaluate_def split: option.splits sum.splits if_splits)
    show ?thesis unfolding d(2) by (rule justified_update [OF c]) (use d(1) in auto)
  qed (use c in simp)
qed (auto intro: justified_subset)

text \<open>An answer of the adapter is an answer of the policy set to a request of the history with the same payload text, the request itself among them.\<close>

lemma cedar_answer_from_history:
  assumes "cedar_reaches lib rs c" "fst (cedar_evaluate lib now r c) = Inr d"
  shows "\<exists>r'\<in>insert r (set rs). cedar_key lib r' = cedar_key lib r \<and> cedar_decide lib r' = Inr d"
proof (cases "cedar_decide lib r = Inr d")
  case False
  then have "fresh_answer c (cedar_key lib r) (cedar_ttl (er_payload r)) now = Some d"
    using assms(2) by (auto simp: cedar_evaluate_def split: option.splits sum.splits if_splits)
  then show ?thesis by (rule fresh_answer_justified [OF cedar_cache_justified [OF assms(1)]]) blast
qed auto

text \<open>Requests that the adapter of the plugin host builds are determined by their payload: for them the cache changes nothing.\<close>

lemma cedar_cache_transparent:
  assumes "cedar_reaches lib (map eval_request_of js) c" and printed: "\<And>a b. cl_to_string lib a = cl_to_string lib b \<Longrightarrow> cl_to_string lib a \<noteq> None \<Longrightarrow> a = b"
  shows "fst (cedar_evaluate lib now (eval_request_of j) c) = cedar_decide lib (eval_request_of j)"
proof (cases "cedar_cacheable lib (eval_request_of j)")
  case True
  have key: "k = j" if "cedar_key lib (eval_request_of k) = cedar_key lib (eval_request_of j)" for k
    using that True printed [of k j] by (auto simp: cedar_cacheable_def cedar_key_def eval_request_of_def split: option.splits)
  show ?thesis
  proof (cases "fst (cedar_evaluate lib now (eval_request_of j) c)")
    case (Inl e)
    then show ?thesis by (auto simp: cedar_evaluate_def split: option.splits sum.splits if_splits)
  next
    case (Inr d)
    from cedar_answer_from_history [OF assms(1) Inr] obtain k where
      "cedar_key lib (eval_request_of k) = cedar_key lib (eval_request_of j)" "cedar_decide lib (eval_request_of k) = Inr d" by auto
    then show ?thesis using key [of k] Inr by simp
  qed
qed (auto simp: cedar_evaluate_def split: sum.splits)

lemma cedar_high_risk_uncached:
  assumes "get_str (er_payload r) ''risk_tier'' \<in> {Some ''high'', Some ''critical''}"
  shows "cedar_evaluate lib now r c = (cedar_decide lib r, c)"
  using assms by (auto simp: cedar_evaluate_def cedar_cacheable_def cedar_ttl_def payload_str_def from_secs_def split: sum.splits)

text \<open>Requests made otherwise carry a subject of their own, which is no part of the key: a cached answer to one subject is given to another. And a
  principal given as an object is known to the policies by its kind.\<close>

lemma cedar_cache_ignores_subject:
  assumes "cedar_cacheable lib r" "cedar_decide lib r = Inr d" "cedar_evaluate lib now r Map.empty = (Inr d, c)" "now \<le> later"
    "later - now \<le> cedar_ttl (er_payload r)"
  shows "fst (cedar_evaluate lib later (r\<lparr>er_subject := s\<rparr>) c) = Inr d"
proof -
  have "c = [cedar_key lib r \<mapsto> (d, now)]" using assms(1-3) by (simp add: cedar_evaluate_def fresh_answer_def)
  moreover have "cedar_key lib (r\<lparr>er_subject := s\<rparr>) = cedar_key lib r" "cedar_cacheable lib (r\<lparr>er_subject := s\<rparr>)"
    using assms(1) by (simp_all add: cedar_key_def cedar_cacheable_def)
  ultimately show ?thesis using assms(5) by (simp add: cedar_evaluate_def fresh_answer_def)
qed

lemma field_is_the_kind:
  "get_field (JObj [(''principal'', JObj [(''kind'', JStr ''user''), (''id'', JStr name)])]) ''principal'' = Some ''user''"
  by (simp add: get_field_def is_object_def or_else_def)

subsection \<open>OpenFGA\<close>

text \<open>What a check over HTTP comes to: no answer within half a second, no connection, or a status with a body that may not be JSON.\<close>

datatype fga_outcome = FgaTimeout | FgaConnect string | FgaResponse nat string "(string, json) result"

record openfga_adapter =
  fga_endpoint :: string
  fga_store_id :: string

definition openfga_ttl :: "json \<Rightarrow> duration" where
  "openfga_ttl payload =
     (let risk = payload_str payload ''risk_tier'' ''low''
      in from_secs (if risk = ''high'' \<or> risk = ''critical'' then 1 else if risk = ''medium'' then 30 else 300))"

definition openfga_decision :: "openfga_adapter \<Rightarrow> bool \<Rightarrow> string \<Rightarrow> sdk_decision" where
  "openfga_decision ad allow reason =
     \<lparr>sd_evaluator_id = ''openfga_remote'', sd_evaluator_type = ''remote_pdp'', sd_required = True, sd_status = SdkSuccess,
      sd_decision = (if allow then SdkAllow else SdkDeny), sd_reason = reason, sd_obligations = [], sd_effects = json_empty,
      sd_metadata = JObj [(''store_id'', JStr (fga_store_id ad))]\<rparr>"

definition openfga_tuple :: "json \<Rightarrow> string \<times> string \<times> string" where
  "openfga_tuple payload = (payload_str payload ''principal'' ''unknown'', payload_str payload ''action'' [], payload_str payload ''resource'' ''unknown'')"

definition openfga_key :: "string \<times> string \<times> string \<Rightarrow> string" where
  "openfga_key t = (case t of (user, relation, obj) \<Rightarrow> user @ ''|'' @ relation @ ''|'' @ obj)"

definition openfga_url :: "openfga_adapter \<Rightarrow> string" where
  "openfga_url ad = fga_endpoint ad @ ''/stores/'' @ fga_store_id ad @ ''/check''"

definition openfga_body :: "string \<times> string \<times> string \<Rightarrow> json" where
  "openfga_body t = (case t of (user, relation, obj) \<Rightarrow>
     JObj [(''tuple_key'', JObj [(''user'', JStr user), (''relation'', JStr relation), (''object'', JStr obj)])])"

definition openfga_answer :: "fga_outcome \<Rightarrow> (plugin_error, bool) result" where
  "openfga_answer res =
     (case res of
        FgaTimeout \<Rightarrow> Inl (PluginTimeout ''OpenFGA check timed out'')
      | FgaConnect e \<Rightarrow> Inl (PluginUnavailable (''OpenFGA connect failed: '' @ e))
      | FgaResponse status shown body \<Rightarrow>
          if \<not> (200 \<le> status \<and> status < 300) then Inl (PluginUnavailable (''OpenFGA HTTP '' @ shown))
          else and_then (map_err (\<lambda>e. PluginExecution (''parse OpenFGA response: '' @ e)) body)
                 (\<lambda>b. Inr (Option.bind (json_get b ''allowed'') as_bool = Some True)))"

definition openfga_evaluate ::
  "(string \<Rightarrow> json \<Rightarrow> fga_outcome) \<Rightarrow> openfga_adapter \<Rightarrow> instant \<Rightarrow> eval_request \<Rightarrow> bool answer_cache
     \<Rightarrow> (plugin_error, sdk_decision) result \<times> bool answer_cache" where
  "openfga_evaluate send ad now input cache =
     (let t = openfga_tuple (er_payload input); k = openfga_key t
      in case fresh_answer cache k (openfga_ttl (er_payload input)) now of
           Some allow \<Rightarrow> (Inr (openfga_decision ad allow (if allow then ''OpenFGA (cached) allowed'' else ''OpenFGA (cached) denied'')), cache)
         | None \<Rightarrow>
             (case openfga_answer (send (openfga_url ad) (openfga_body t)) of
                Inl e \<Rightarrow> (Inl e, cache(k := None))
              | Inr allow \<Rightarrow>
                  (Inr (openfga_decision ad allow (if allow then ''OpenFGA remote check allowed'' else ''OpenFGA remote check denied'')),
                   cache(k \<mapsto> (allow, now)))))"

text \<open>The server's answers change over time: a check in the history is the tuple asked for, the instant, and what came back.\<close>

inductive openfga_reaches :: "openfga_adapter \<Rightarrow> ((string \<times> string \<times> string) \<times> instant \<times> fga_outcome) list \<Rightarrow> bool answer_cache \<Rightarrow> bool" for ad where
  start: "openfga_reaches ad [] Map.empty"
| evaluated: "openfga_reaches ad h c \<Longrightarrow>
    openfga_reaches ad (h @ [(openfga_tuple (er_payload r), now, send (openfga_url ad) (openfga_body (openfga_tuple (er_payload r))))])
      (snd (openfga_evaluate send ad now r c))"
| dropped: "openfga_reaches ad h c \<Longrightarrow> c' \<subseteq>\<^sub>m c \<Longrightarrow> openfga_reaches ad h c'"

definition checked :: "((string \<times> string \<times> string) \<times> instant \<times> fga_outcome) list \<Rightarrow> string \<Rightarrow> bool \<Rightarrow> instant \<Rightarrow> bool" where
  "checked h k allow ts \<longleftrightarrow> (\<exists>t res. (t, ts, res) \<in> set h \<and> openfga_key t = k \<and> openfga_answer res = Inr allow)"

lemma openfga_cache_step:
  obtains "snd (openfga_evaluate send ad now r c) = c" | "snd (openfga_evaluate send ad now r c) = c(openfga_key (openfga_tuple (er_payload r)) := None)"
  | allow where "openfga_answer (send (openfga_url ad) (openfga_body (openfga_tuple (er_payload r)))) = Inr allow"
      "snd (openfga_evaluate send ad now r c) = c(openfga_key (openfga_tuple (er_payload r)) \<mapsto> (allow, now))"
proof (cases "fresh_answer c (openfga_key (openfga_tuple (er_payload r))) (openfga_ttl (er_payload r)) now")
  case None
  then show thesis using that(2,3)
    by (cases "openfga_answer (send (openfga_url ad) (openfga_body (openfga_tuple (er_payload r))))") (simp_all add: openfga_evaluate_def Let_def)
next
  case Some then show thesis using that(1) by (simp add: openfga_evaluate_def Let_def)
qed

lemma openfga_cache_justified: "openfga_reaches ad h c \<Longrightarrow> justified (checked h) c"
proof (induction rule: openfga_reaches.induct)
  case (evaluated h c r now send)
  let ?t = "openfga_tuple (er_payload r)"
  let ?res = "send (openfga_url ad) (openfga_body ?t)"
  have c: "justified (checked (h @ [(?t, now, ?res)])) c" by (rule justified_mono [OF evaluated.IH]) (auto simp: checked_def)
  show ?case
  proof (cases rule: openfga_cache_step [of send ad now r c])
    case 1 then show ?thesis using c by simp
  next
    case 2 show ?thesis unfolding 2 by (rule justified_subset [OF c]) (auto simp: map_le_def dom_def)
  next
    case (3 allow)
    have "checked (h @ [(?t, now, ?res)]) (openfga_key ?t) allow now"
      unfolding checked_def by (rule exI [of _ ?t], rule exI [of _ ?res]) (use 3(1) in simp)
    then show ?thesis unfolding 3(2) by (rule justified_update [OF c])
  qed
qed (auto intro: justified_subset)

text \<open>What the adapter answers, the server answered to a check with the same key: now, or not longer ago than the risk of the request admits.\<close>

lemma openfga_answer_from_server:
  assumes "openfga_reaches ad h c" "fst (openfga_evaluate send ad now r c) = Inr d"
  shows "openfga_answer (send (openfga_url ad) (openfga_body (openfga_tuple (er_payload r)))) = Inr (sdk_is_allow d)
    \<or> (\<exists>ts. checked h (openfga_key (openfga_tuple (er_payload r))) (sdk_is_allow d) ts \<and> now - ts \<le> openfga_ttl (er_payload r))"
proof (cases "fresh_answer c (openfga_key (openfga_tuple (er_payload r))) (openfga_ttl (er_payload r)) now")
  case None
  then show ?thesis using assms(2)
    by (auto simp: openfga_evaluate_def Let_def openfga_decision_def sdk_is_allow_def split: sum.splits)
next
  case (Some allow)
  then have "sdk_is_allow d = allow" using assms(2)
    by (cases allow) (auto simp: openfga_evaluate_def Let_def openfga_decision_def sdk_is_allow_def)
  then show ?thesis using fresh_answer_justified [OF openfga_cache_justified [OF assms(1)] Some] by blast
qed

lemma openfga_failure_not_cached:
  assumes "fst (openfga_evaluate send ad now r c) = Inl e"
  shows "snd (openfga_evaluate send ad now r c) (openfga_key (openfga_tuple (er_payload r))) = None"
  using assms by (auto simp: openfga_evaluate_def Let_def fresh_answer_def split: option.splits sum.splits)

text \<open>The key joins its parts with a bar that may occur in them: one tuple is answered with the check of another. And a principal that is given as an
  object is asked for as the user unknown.\<close>

lemma openfga_key_collision: "openfga_key (''a|b'', ''c'', res) = openfga_key (''a'', ''b|c'', res)"
  by (simp add: openfga_key_def)

lemma openfga_object_principal: "fst (openfga_tuple (JObj [(''principal'', JObj m)])) = ''unknown''"
  by (simp add: openfga_tuple_def payload_str_def)

subsection \<open>OPA in WebAssembly\<close>

text \<open>A guest is known by its exports: whether one is there with its type, and what a call of it does. Memory is a text of bytes. Pointers are 32 bits
  and signed, and turn into an index by sign extension.\<close>

type_synonym i32 = "32 word"

record 'g opa_engine =
  oe_instantiate :: "nat \<Rightarrow> nat \<Rightarrow> (string, 'g) result"
  oe_export :: "string \<Rightarrow> (string, unit) result"
  oe_call :: "string \<Rightarrow> i32 list \<Rightarrow> 'g \<Rightarrow> (string, i32 \<times> 'g) result"
  oe_memory :: "'g \<Rightarrow> string option"
  oe_set_memory :: "string \<Rightarrow> 'g \<Rightarrow> 'g"
  oe_to_string :: "json \<Rightarrow> (string, string) result"
  oe_from_str :: "string \<Rightarrow> json option"
  oe_utf8_error :: "string \<Rightarrow> string"

record opa_profile =
  op_max_memory_bytes :: nat
  op_max_fuel :: nat

definition default_opa_profile :: opa_profile where
  "default_opa_profile = \<lparr>op_max_memory_bytes = 10 * 1024 * 1024, op_max_fuel = 1000000\<rparr>"

definition guest_index :: "i32 \<Rightarrow> nat" where
  "guest_index p = unat (scast p :: 64 word)"

definition guest_write :: "'g opa_engine \<Rightarrow> i32 \<Rightarrow> string \<Rightarrow> 'g \<Rightarrow> (string, 'g) result" where
  "guest_write e p bs g =
     (case oe_memory e g of
        None \<Rightarrow> Inl ''Memory export not found''
      | Some m \<Rightarrow>
          if guest_index p + length bs > length m then Inl ''out of bounds memory access''
          else Inr (oe_set_memory e (take (guest_index p) m @ bs @ drop (guest_index p + length bs) m) g))"

definition write_json_to_memory :: "'g opa_engine \<Rightarrow> string \<Rightarrow> 'g \<Rightarrow> (string, i32 \<times> 'g) result" where
  "write_json_to_memory e txt g =
     and_then (oe_export e ''opa_malloc'') (\<lambda>_.
     and_then (oe_export e ''opa_json_parse'') (\<lambda>_.
     and_then (oe_call e ''opa_malloc'' [word_of_nat (length txt)] g) (\<lambda>(p, g1).
     and_then (guest_write e p txt g1) (\<lambda>g2.
     and_then (oe_call e ''opa_json_parse'' [p, word_of_nat (length txt)] g2) (\<lambda>(a, g3).
       if a = 0 then Inl ''opa_json_parse failed'' else Inr (a, g3))))))"

text \<open>The bytes up to the first zero. A pointer beyond the memory makes the slice panic, which ends the process: no result.\<close>

definition read_json_from_memory :: "'g opa_engine \<Rightarrow> i32 \<Rightarrow> 'g \<Rightarrow> (string, string) result option" where
  "read_json_from_memory e addr g =
     (case and_then (oe_export e ''opa_json_dump'') (\<lambda>_. oe_call e ''opa_json_dump'' [addr] g) of
        Inl err \<Rightarrow> Some (Inl err)
      | Inr (p, g1) \<Rightarrow>
          (case oe_memory e g1 of
             None \<Rightarrow> Some (Inl ''Memory export not found'')
           | Some m \<Rightarrow>
               if guest_index p > length m then None
               else let bs = takeWhile (\<lambda>c. c \<noteq> CHR 0x00) (drop (guest_index p) m)
                    in Some (case from_utf8 bs of Some txt \<Rightarrow> Inr txt | None \<Rightarrow> Inl (oe_utf8_error e bs))))"

definition exec_err :: "string \<Rightarrow> (string, 'a) result \<Rightarrow> (plugin_error, 'a) result" where
  "exec_err what r = map_err (\<lambda>e. PluginExecution (what @ '': '' @ e)) r"

definition opa_call :: "'g opa_engine \<Rightarrow> string \<Rightarrow> i32 list \<Rightarrow> 'g \<Rightarrow> (plugin_error, i32 \<times> 'g) result" where
  "opa_call e f xs g = and_then (exec_err (''missing '' @ f) (oe_export e f)) (\<lambda>_. exec_err (f @ '' failed'') (oe_call e f xs g))"

text \<open>One evaluation up to the address of its result. The guest runs inside a single poll of the task under a time limit, so that limit never strikes;
  fuel is what bounds it.\<close>

definition opa_run :: "'g opa_engine \<Rightarrow> opa_profile \<Rightarrow> json \<Rightarrow> (plugin_error, i32 \<times> 'g) result" where
  "opa_run e prof payload =
     and_then (map_err PluginInvalid (oe_to_string e payload)) (\<lambda>txt.
     and_then (exec_err ''instantiate error'' (oe_instantiate e (op_max_memory_bytes prof) (op_max_fuel prof))) (\<lambda>g0.
     and_then (opa_call e ''opa_eval_ctx_new'' [] g0) (\<lambda>(ctx, g1).
     and_then (exec_err ''write input error'' (write_json_to_memory e txt g1)) (\<lambda>(a, g2).
     and_then (opa_call e ''opa_eval_ctx_set_input'' [ctx, a] g2) (\<lambda>(_, g3).
     and_then (opa_call e ''opa_eval'' [ctx] g3) (\<lambda>(_, g4).
       opa_call e ''opa_eval_ctx_get_result'' [ctx] g4))))))"

definition allow_of :: "json \<Rightarrow> bool" where
  "allow_of v \<longleftrightarrow> Option.bind (json_get v ''allow'') as_bool = Some True"

text \<open>What a result document says: the decision, a reason and effects when it gives them.\<close>

definition opa_verdict :: "json \<Rightarrow> bool \<times> string option \<times> json option" where
  "opa_verdict v =
     (case as_array v of
        None \<Rightarrow> (allow_of v, None, None)
      | Some xs \<Rightarrow>
          (case xs of
             [] \<Rightarrow> (False, None, None)
           | x # _ \<Rightarrow>
               (case json_get x ''result'' of
                  None \<Rightarrow> (False, None, None)
                | Some res \<Rightarrow>
                    (case as_bool res of
                       Some b \<Rightarrow> (b, None, Some res)
                     | None \<Rightarrow> if is_object res then (allow_of res, get_str res ''reason'', Some res) else (False, None, Some res)))))"

definition opa_decision :: "string \<Rightarrow> bool \<Rightarrow> string \<Rightarrow> json \<Rightarrow> sdk_decision" where
  "opa_decision path allow reason effects =
     \<lparr>sd_evaluator_id = ''opa_wasm'', sd_evaluator_type = ''wasm_pdp'', sd_required = True, sd_status = SdkSuccess,
      sd_decision = (if allow then SdkAllow else SdkDeny), sd_reason = reason, sd_obligations = [], sd_effects = effects,
      sd_metadata = JObj [(''wasm_path'', JStr path)]\<rparr>"

definition opa_decide :: "'g opa_engine \<Rightarrow> string \<Rightarrow> string \<Rightarrow> sdk_decision" where
  "opa_decide e path txt =
     (case oe_from_str e txt of
        None \<Rightarrow> opa_decision path False (''Failed to parse WASM output JSON: '' @ txt) json_empty
      | Some v \<Rightarrow>
          (case opa_verdict v of (allow, reason, effects) \<Rightarrow>
             opa_decision path allow (case reason of Some s \<Rightarrow> s | None \<Rightarrow> ''Executed WASM policy'')
               (case effects of Some j \<Rightarrow> j | None \<Rightarrow> json_empty)))"

definition opa_evaluate :: "'g opa_engine \<Rightarrow> opa_profile \<Rightarrow> string \<Rightarrow> eval_request \<Rightarrow> (plugin_error, sdk_decision) result option" where
  "opa_evaluate e prof path input =
     (case opa_run e prof (er_payload input) of
        Inl err \<Rightarrow> Some (Inl err)
      | Inr (addr, g) \<Rightarrow>
          if addr = 0 then Some (Inr (opa_decision path False ''No result from evaluation'' json_empty))
          else (case read_json_from_memory e addr g of
                  None \<Rightarrow> None
                | Some (Inl err) \<Rightarrow> Some (Inl (PluginExecution (''read result error: '' @ err)))
                | Some (Inr txt) \<Rightarrow> Some (Inr (opa_decide e path txt))))"

lemma opa_verdict_allows_iff:
  "fst (opa_verdict v) \<longleftrightarrow>
     (case v of
        JArr xs \<Rightarrow> (\<exists>x rest. xs = x # rest \<and> (json_get x ''result'' = Some (JBool True)
                      \<or> (\<exists>m. json_get x ''result'' = Some (JObj m) \<and> map_of m ''allow'' = Some (JBool True))))
      | JObj m \<Rightarrow> map_of m ''allow'' = Some (JBool True)
      | _ \<Rightarrow> False)"
proof -
  have b: "Option.bind r as_bool = Some True \<longleftrightarrow> r = Some (JBool True)" for r
    by (cases r) (auto elim: as_bool.elims)
  show ?thesis
  proof (cases v)
    case (JArr xs)
    show ?thesis unfolding JArr
      by (cases xs) (auto simp: opa_verdict_def allow_of_def b is_object_def split: option.splits elim!: as_bool.elims as_object.elims)
  qed (simp_all add: opa_verdict_def allow_of_def b)
qed

text \<open>The process allows what the guest's result document allows, and nothing else.\<close>

lemma opa_allows_iff:
  "(\<exists>d. opa_evaluate e prof path input = Some (Inr d) \<and> sdk_is_allow d) \<longleftrightarrow>
     (\<exists>addr g txt v. opa_run e prof (er_payload input) = Inr (addr, g) \<and> addr \<noteq> 0 \<and> read_json_from_memory e addr g = Some (Inr txt)
        \<and> oe_from_str e txt = Some v \<and> fst (opa_verdict v))"
  by (auto simp: opa_evaluate_def opa_decide_def opa_decision_def sdk_is_allow_def split: sum.splits option.splits prod.splits if_splits)

lemma guest_write_keeps_length:
  assumes "guest_write e p bs g = Inr g'" "oe_memory e g = Some m" "\<And>m g. oe_memory e (oe_set_memory e m g) = Some m"
  shows "\<exists>m'. oe_memory e g' = Some m' \<and> length m' = length m \<and> take (length bs) (drop (guest_index p) m') = bs"
  using assms(1,2) by (auto simp: guest_write_def assms(3) min_def split: if_splits)

text \<open>A guest can end the process: it only has to hand out an address beyond its memory.\<close>

lemma bad_result_pointer_aborts:
  assumes "opa_run e prof (er_payload input) = Inr (addr, g)" "addr \<noteq> 0" "oe_export e ''opa_json_dump'' = Inr ()"
    "oe_call e ''opa_json_dump'' [addr] g = Inr (p, g')" "oe_memory e g' = Some m" "length m < guest_index p"
  shows "opa_evaluate e prof path input = None"
  using assms by (simp add: opa_evaluate_def read_json_from_memory_def)

record wasm_policy_manifest =
  wp_artifact_id :: string
  wp_wasm_sha256 :: string
  wp_abi :: string
  wp_entrypoint :: string
  wp_signature :: string

datatype artifact_error = ArtifactAbi string | ArtifactHash

definition validate_wasm_policy_artifact :: "(string \<Rightarrow> string) \<Rightarrow> wasm_policy_manifest \<Rightarrow> string \<Rightarrow> string \<Rightarrow> (artifact_error, unit) result" where
  "validate_wasm_policy_artifact sha256_hex m wasm trusted_key =
     (if wp_abi m \<noteq> ''opa-wasm-abi-v1'' then Inl (ArtifactAbi (wp_abi m))
      else if sha256_hex wasm \<noteq> wp_wasm_sha256 m then Inl ArtifactHash
      else Inr ())"

text \<open>Neither the signature of the manifest nor the trusted key is looked at.\<close>

lemma artifact_signature_ignored:
  "validate_wasm_policy_artifact sha (m\<lparr>wp_signature := s\<rparr>) wasm key = validate_wasm_policy_artifact sha m wasm key'"
  by (simp add: validate_wasm_policy_artifact_def)

end
