(* ===== verification/Wasm_Host.thy ===== *)
theory Wasm_Host
  imports Policy_Evaluators
begin

text \<open>
  The host of plugin modules, \<^verbatim>\<open>src/crates/dek-wasm-host/src\<close>: workers, their pool with its permits, and the loaded plugins. Parameters: the compiled
  module, that is what instantiating it gives, its exports and what its functions do to guest state and memory, and how often they call the import
  \<^verbatim>\<open>audit\<close>. The settings of the engine (allocator, caches, limits) are data handed to it.
\<close>

subsection \<open>Workers\<close>

record wasm_host_config =
  wc_enable_pooling_allocator :: bool
  wc_enable_memory_init_cow :: bool
  wc_enable_wasmtime_cache :: bool
  wc_max_core_instances :: nat
  wc_total_memories :: nat
  wc_total_tables :: nat
  wc_max_memory_bytes :: nat
  wc_table_elements :: nat
  wc_default_min_warm :: nat
  wc_default_max_warm :: nat
  wc_default_max_concurrency :: nat
  wc_acquire_timeout_ms :: nat
  wc_invoke_timeout_ms :: nat
  wc_max_worker_uses :: u64

definition default_wasm_host_config :: wasm_host_config where
  "default_wasm_host_config =
     \<lparr>wc_enable_pooling_allocator = True, wc_enable_memory_init_cow = True, wc_enable_wasmtime_cache = True, wc_max_core_instances = 128,
      wc_total_memories = 128, wc_total_tables = 128, wc_max_memory_bytes = 64 * 1024 * 1024, wc_table_elements = 4096, wc_default_min_warm = 2,
      wc_default_max_warm = 16, wc_default_max_concurrency = 32, wc_acquire_timeout_ms = 25, wc_invoke_timeout_ms = 50, wc_max_worker_uses = 10000\<rparr>"

record plugin_key =
  pk_tenant_id :: string
  pk_plugin_id :: string
  pk_version :: string
  pk_wasm_sha256 :: string
  pk_abi_version :: string

record host_state =
  hs_tenant_id :: string
  hs_plugin_id :: string
  hs_version :: string
  hs_request_id :: string
  hs_deadline :: instant
  hs_dirty :: bool

text \<open>A call of a guest function gives a value or a trap, the new guest state and memory, and the number of calls of \<^verbatim>\<open>audit\<close> on the way.\<close>

type_synonym ('g, 'a) guest_call = "'g \<times> string \<Rightarrow> (string, 'a) result \<times> ('g \<times> string) \<times> nat"

record 'g wasm_guest =
  wg_key :: plugin_key
  wg_instantiate :: "(string, ('g \<times> string) \<times> nat) result"
  wg_exports :: "string list"
  wg_set_fuel :: "u64 \<Rightarrow> 'g \<Rightarrow> 'g"
  wg_alloc :: "i32 \<Rightarrow> ('g, i32) guest_call"
  wg_dealloc :: "i32 \<Rightarrow> i32 \<Rightarrow> ('g, unit) guest_call"
  wg_reset :: "('g, i32) guest_call"
  wg_decide :: "i32 \<Rightarrow> i32 \<Rightarrow> ('g, u64) guest_call"

record 'g plugin_worker =
  pw_generation :: u64
  pw_uses :: u64
  pw_host :: host_state
  pw_guest :: "'g \<times> string"

datatype worker_error = WorkerInstantiate string | WorkerMissing string | WorkerInputTooLarge | WorkerTrap string | WorkerAllocation | WorkerWrite
  | WorkerOutputRange | WorkerOutputTooLarge | WorkerRead | WorkerNoPermit | WorkerNotLoaded string | WorkerCompile string

text \<open>The import \<^verbatim>\<open>audit\<close> marks the state as dirty.\<close>

definition call_guest :: "('g, 'a) guest_call \<Rightarrow> 'g plugin_worker \<Rightarrow> (string, 'a) result \<times> 'g plugin_worker" where
  "call_guest f w =
     (case f (pw_guest w) of (r, g, n) \<Rightarrow>
        (r, w\<lparr>pw_guest := g, pw_host := (pw_host w)\<lparr>hs_dirty := hs_dirty (pw_host w) \<or> 0 < n\<rparr>\<rparr>))"

definition required_exports :: "string list" where
  "required_exports = [''memory'', ''alloc'', ''dealloc'', ''pollek_plugin_reset'', ''pollek_plugin_decide'']"

definition worker_new :: "'g wasm_guest \<Rightarrow> u64 \<Rightarrow> string \<Rightarrow> instant \<Rightarrow> duration \<Rightarrow> (worker_error, 'g plugin_worker) result" where
  "worker_new m generation request_id now timeout =
     (case wg_instantiate m of
        Inl e \<Rightarrow> Inl (WorkerInstantiate e)
      | Inr (g, n) \<Rightarrow>
          (case List.find (\<lambda>x. x \<notin> set (wg_exports m)) required_exports of
             Some x \<Rightarrow> Inl (WorkerMissing x)
           | None \<Rightarrow>
               Inr \<lparr>pw_generation = generation, pw_uses = 0,
                    pw_host = \<lparr>hs_tenant_id = pk_tenant_id (wg_key m), hs_plugin_id = pk_plugin_id (wg_key m), hs_version = pk_version (wg_key m),
                               hs_request_id = request_id, hs_deadline = now + timeout, hs_dirty = 0 < n\<rparr>,
                    pw_guest = g\<rparr>))"

definition memory_write :: "i32 \<Rightarrow> string \<Rightarrow> string \<Rightarrow> string option" where
  "memory_write p bs m =
     (if guest_index p + length bs > length m then None else Some (take (guest_index p) m @ bs @ drop (guest_index p + length bs) m))"

definition memory_read :: "i32 \<Rightarrow> nat \<Rightarrow> string \<Rightarrow> string option" where
  "memory_read p n m = (if guest_index p + n > length m then None else Some (take n (drop (guest_index p) m)))"

text \<open>The two halves of what \<^verbatim>\<open>decide\<close> returns.\<close>

definition out_ptr :: "u64 \<Rightarrow> i32" where
  "out_ptr r = ucast (drop_bit 32 r)"

definition out_len :: "u64 \<Rightarrow> i32" where
  "out_len r = ucast r"

definition max_input :: nat where "max_input = 1024 * 1024"

definition read_output :: "'g wasm_guest \<Rightarrow> u64 \<Rightarrow> nat \<Rightarrow> 'g plugin_worker \<Rightarrow> (worker_error, string) result \<times> 'g plugin_worker" where
  "read_output m r max_output w =
     (if sint (out_ptr r) \<le> 0 \<or> sint (out_len r) < 0 then (Inl WorkerOutputRange, w)
      else if unat (out_len r) > max_output then (Inl WorkerOutputTooLarge, w)
      else (case memory_read (out_ptr r) (unat (out_len r)) (snd (pw_guest w)) of
              None \<Rightarrow> (Inl WorkerRead, w)
            | Some out \<Rightarrow> (Inr out, snd (call_guest (wg_dealloc m (out_ptr r) (out_len r)) w))))"

definition decide_call :: "'g wasm_guest \<Rightarrow> i32 \<Rightarrow> string \<Rightarrow> nat \<Rightarrow> 'g plugin_worker \<Rightarrow> (worker_error, string) result \<times> 'g plugin_worker" where
  "decide_call m p input max_output w =
     (case call_guest (wg_decide m p (word_of_nat (length input))) w of
        (Inl e, w1) \<Rightarrow> (Inl (WorkerTrap e), w1)
      | (Inr r, w1) \<Rightarrow> read_output m r max_output (snd (call_guest (wg_dealloc m p (word_of_nat (length input))) w1)))"

definition invoke_json :: "'g wasm_guest \<Rightarrow> string \<Rightarrow> nat \<Rightarrow> u64 \<Rightarrow> 'g plugin_worker \<Rightarrow> (worker_error, string) result \<times> 'g plugin_worker" where
  "invoke_json m input max_output fuel w =
     (if length input > max_input then (Inl WorkerInputTooLarge, w)
      else
        let w0 = w\<lparr>pw_guest := (wg_set_fuel m fuel (fst (pw_guest w)), snd (pw_guest w)), pw_uses := pw_uses w + 1\<rparr>
        in case call_guest (wg_alloc m (word_of_nat (length input))) w0 of
             (Inl e, w1) \<Rightarrow> (Inl (WorkerTrap e), w1)
           | (Inr p, w1) \<Rightarrow>
               if sint p \<le> 0 then (Inl WorkerAllocation, w1)
               else (case memory_write p input (snd (pw_guest w1)) of
                       None \<Rightarrow> (Inl WorkerWrite, w1)
                     | Some mem \<Rightarrow> decide_call m p input max_output (w1\<lparr>pw_guest := (fst (pw_guest w1), mem)\<rparr>)))"

definition reset_for_reuse :: "'g wasm_guest \<Rightarrow> 'g plugin_worker \<Rightarrow> (string, bool) result \<times> 'g plugin_worker" where
  "reset_for_reuse m w =
     (case call_guest (wg_reset m) w of
        (Inl e, w1) \<Rightarrow> (Inl e, w1)
      | (Inr rc, w1) \<Rightarrow> (Inr (rc = 0 \<and> \<not> hs_dirty (pw_host w1)), w1))"

subsection \<open>The pool\<close>

record 'g worker_pool =
  wk_guest :: "'g wasm_guest"
  wk_generation :: u64
  wk_min_warm :: nat
  wk_max_warm :: nat
  wk_max_worker_uses :: u64
  wk_invoke_timeout :: duration
  wk_warm :: "'g plugin_worker list"
  wk_permits :: nat

definition pool_new :: "'g wasm_guest \<Rightarrow> u64 \<Rightarrow> wasm_host_config \<Rightarrow> 'g worker_pool" where
  "pool_new m generation cfg =
     \<lparr>wk_guest = m, wk_generation = generation, wk_min_warm = wc_default_min_warm cfg, wk_max_warm = wc_default_max_warm cfg,
      wk_max_worker_uses = wc_max_worker_uses cfg, wk_invoke_timeout = from_millis (wc_invoke_timeout_ms cfg), wk_warm = [],
      wk_permits = wc_default_max_concurrency cfg\<rparr>"

definition pool_worker :: "string \<Rightarrow> instant \<Rightarrow> 'g worker_pool \<Rightarrow> (worker_error, 'g plugin_worker) result" where
  "pool_worker request_id now p = worker_new (wk_guest p) (wk_generation p) request_id now (wk_invoke_timeout p)"

fun prewarm_loop :: "nat list \<Rightarrow> instant \<Rightarrow> 'g worker_pool \<Rightarrow> (worker_error, unit) result \<times> 'g worker_pool" where
  "prewarm_loop [] now p = (Inr (), p)"
| "prewarm_loop (i # is) now p =
     (case pool_worker (''prewarm-'' @ show_nat i) now p of
        Inl e \<Rightarrow> (Inl e, p)
      | Inr w \<Rightarrow> prewarm_loop is now (p\<lparr>wk_warm := wk_warm p @ [w]\<rparr>))"

definition prewarm :: "instant \<Rightarrow> 'g worker_pool \<Rightarrow> (worker_error, unit) result \<times> 'g worker_pool" where
  "prewarm now p = prewarm_loop [0..<wk_min_warm p] now p"

text \<open>Acquiring waits for a permit; with none, the outcome is the one when the time is up. When no worker can be made the permit is given back.\<close>

definition acquire :: "string \<Rightarrow> instant \<Rightarrow> 'g worker_pool \<Rightarrow> (worker_error, 'g plugin_worker) result \<times> 'g worker_pool" where
  "acquire request_id now p =
     (if wk_permits p = 0 then (Inl WorkerNoPermit, p)
      else case wk_warm p of
             w # ws \<Rightarrow> (Inr w, p\<lparr>wk_warm := ws, wk_permits := wk_permits p - 1\<rparr>)
           | [] \<Rightarrow>
               (case pool_worker request_id now p of
                  Inl e \<Rightarrow> (Inl e, p)
                | Inr w \<Rightarrow> (Inr w, p\<lparr>wk_permits := wk_permits p - 1\<rparr>)))"

text \<open>Dropping a lease gives its permit back. Releasing one takes the worker out first, which already drops the rest of the lease.\<close>

definition drop_lease :: "'g worker_pool \<Rightarrow> 'g worker_pool" where
  "drop_lease p = p\<lparr>wk_permits := wk_permits p + 1\<rparr>"

definition settle :: "'g plugin_worker \<Rightarrow> 'g worker_pool \<Rightarrow> 'g worker_pool" where
  "settle w p =
     (if pw_generation w \<noteq> wk_generation p then p
      else if pw_uses w \<ge> wk_max_worker_uses p then p
      else (case reset_for_reuse (wk_guest p) w of
              (Inr True, w1) \<Rightarrow> if length (wk_warm p) < wk_max_warm p then p\<lparr>wk_warm := wk_warm p @ [w1]\<rparr> else p
            | _ \<Rightarrow> p))"

definition release :: "'g plugin_worker \<Rightarrow> 'g worker_pool \<Rightarrow> 'g worker_pool" where
  "release w p = settle w (drop_lease p)"

subsection \<open>The host\<close>

record 'g wasm_plugin_host =
  wh_cfg :: wasm_host_config
  wh_pools :: "string \<rightharpoonup> 'g worker_pool"
  wh_generation :: u64

definition wasm_host_new :: "wasm_host_config \<Rightarrow> 'g wasm_plugin_host" where
  "wasm_host_new cfg = \<lparr>wh_cfg = cfg, wh_pools = Map.empty, wh_generation = 1\<rparr>"

definition pool_key :: "plugin_key \<Rightarrow> string" where
  "pool_key k = pk_tenant_id k @ '':'' @ pk_plugin_id k @ '':'' @ pk_version k @ '':'' @ pk_wasm_sha256 k"

definition load_plugin ::
  "(plugin_key \<Rightarrow> string \<Rightarrow> (string, 'g wasm_guest) result) \<Rightarrow> instant \<Rightarrow> plugin_key \<Rightarrow> string \<Rightarrow> 'g wasm_plugin_host
     \<Rightarrow> (worker_error, unit) result \<times> 'g wasm_plugin_host" where
  "load_plugin compile now k wasm h =
     (case compile k wasm of
        Inl e \<Rightarrow> (Inl (WorkerCompile e), h)
      | Inr m \<Rightarrow>
          let h1 = h\<lparr>wh_generation := wh_generation h + 1\<rparr>
          in case prewarm now (pool_new m (wh_generation h) (wh_cfg h)) of
               (Inl e, _) \<Rightarrow> (Inl e, h1)
             | (Inr _, p) \<Rightarrow> (Inr (), h1\<lparr>wh_pools := (wh_pools h)(pool_key k \<mapsto> p)\<rparr>))"

definition host_invoke ::
  "instant \<Rightarrow> string \<Rightarrow> string \<Rightarrow> string \<Rightarrow> u64 \<Rightarrow> 'g wasm_plugin_host \<Rightarrow> (worker_error, string) result \<times> 'g wasm_plugin_host" where
  "host_invoke now key request_id input fuel h =
     (case wh_pools h key of
        None \<Rightarrow> (Inl (WorkerNotLoaded key), h)
      | Some p \<Rightarrow>
          (case acquire request_id now p of
             (Inl e, p1) \<Rightarrow> (Inl e, h\<lparr>wh_pools := (wh_pools h)(key \<mapsto> p1)\<rparr>)
           | (Inr w, p1) \<Rightarrow>
               (case invoke_json (wk_guest p) input max_input fuel w of
                  (Inl e, _) \<Rightarrow> (Inl e, h\<lparr>wh_pools := (wh_pools h)(key \<mapsto> drop_lease p1)\<rparr>)
                | (Inr out, w1) \<Rightarrow> (Inr out, h\<lparr>wh_pools := (wh_pools h)(key \<mapsto> release w1 p1)\<rparr>))))"

subsection \<open>What a call returns\<close>

lemma call_guest_keeps [simp]:
  "pw_generation (snd (call_guest f w)) = pw_generation w" "pw_uses (snd (call_guest f w)) = pw_uses w"
  "hs_request_id (pw_host (snd (call_guest f w))) = hs_request_id (pw_host w)" "hs_tenant_id (pw_host (snd (call_guest f w))) = hs_tenant_id (pw_host w)"
  by (simp_all add: call_guest_def split: prod.split)

lemma call_guest_dirty: "hs_dirty (pw_host w) \<Longrightarrow> hs_dirty (pw_host (snd (call_guest f w)))"
  by (simp add: call_guest_def split: prod.split)

lemma call_guest_result:
  assumes "call_guest f w = (r, w')"
  shows "pw_generation w' = pw_generation w" "pw_uses w' = pw_uses w" "hs_tenant_id (pw_host w') = hs_tenant_id (pw_host w)"
    "hs_request_id (pw_host w') = hs_request_id (pw_host w)"
  using call_guest_keeps [of f w] unfolding assms by simp_all

lemma read_output_keeps:
  "pw_generation (snd (read_output m r k w)) = pw_generation w" "pw_uses (snd (read_output m r k w)) = pw_uses w"
  "hs_tenant_id (pw_host (snd (read_output m r k w))) = hs_tenant_id (pw_host w)"
  "hs_request_id (pw_host (snd (read_output m r k w))) = hs_request_id (pw_host w)"
  by (simp_all add: read_output_def split: option.split)

lemma decide_call_keeps:
  "pw_generation (snd (decide_call m p i k w)) = pw_generation w" "pw_uses (snd (decide_call m p i k w)) = pw_uses w"
  "hs_tenant_id (pw_host (snd (decide_call m p i k w))) = hs_tenant_id (pw_host w)"
  "hs_request_id (pw_host (snd (decide_call m p i k w))) = hs_request_id (pw_host w)"
  by (auto simp: decide_call_def read_output_keeps call_guest_result split: prod.split sum.split)

lemma invoke_json_keeps:
  "pw_generation (snd (invoke_json m i k f w)) = pw_generation w"
  "pw_uses (snd (invoke_json m i k f w)) = (if length i > max_input then pw_uses w else pw_uses w + 1)"
  "hs_tenant_id (pw_host (snd (invoke_json m i k f w))) = hs_tenant_id (pw_host w)"
  "hs_request_id (pw_host (snd (invoke_json m i k f w))) = hs_request_id (pw_host w)"
  by (auto simp: invoke_json_def Let_def decide_call_keeps call_guest_result split: prod.split sum.split option.split)

text \<open>A returned output is a range of the guest's memory and no longer than asked for.\<close>

lemma read_output_within:
  assumes "read_output m r k w = (Inr out, w')"
  shows "length out \<le> k \<and> out = take (length out) (drop (guest_index (out_ptr r)) (snd (pw_guest w)))
    \<and> guest_index (out_ptr r) + length out \<le> length (snd (pw_guest w)) \<and> 0 < guest_index (out_ptr r)"
proof -
  have out: "out = take (unat (out_len r)) (drop (guest_index (out_ptr r)) (snd (pw_guest w)))" "unat (out_len r) \<le> k" "\<not> sint (out_ptr r) \<le> 0"
      "guest_index (out_ptr r) + unat (out_len r) \<le> length (snd (pw_guest w))"
    using assms by (auto simp: read_output_def memory_read_def split: if_splits option.splits)
  have len: "length out = unat (out_len r)" using out(1,4) by simp
  have "guest_index (out_ptr r) \<noteq> 0"
  proof
    assume "guest_index (out_ptr r) = 0"
    then have "(scast (out_ptr r) :: 64 word) = 0" unfolding guest_index_def by (rule unsigned_eq_0_iff [THEN iffD1])
    then have "sint (scast (out_ptr r) :: 64 word) = 0" by (simp only: sint_0)
    then show False using out(3) by (simp add: sint_up_scast is_up)
  qed
  then show ?thesis using out len by auto
qed

lemma invoke_json_bounded:
  assumes "invoke_json m i k f w = (Inr out, w')"
  shows "length out \<le> k \<and> length i \<le> max_input"
proof -
  from assms obtain p v where "length i \<le> max_input" "decide_call m p i k v = (Inr out, w')"
    by (auto simp: invoke_json_def Let_def split: if_splits prod.splits sum.splits option.splits)
  then show ?thesis by (auto simp: decide_call_def split: prod.splits sum.splits dest!: read_output_within)
qed

text \<open>The packed result of a guest is taken apart into the pointer and the length it was made of.\<close>

definition pack_output :: "i32 \<Rightarrow> i32 \<Rightarrow> u64" where
  "pack_output p n = push_bit 32 (ucast p) + ucast n"

lemma pack_output_roundtrip: "out_ptr (pack_output p n) = p \<and> out_len (pack_output p n) = n"
proof -
  have split: "pack_output p n = or (push_bit 32 (ucast p)) (ucast n)"
    unfolding pack_output_def
    by (rule disjunctive_add) (auto simp: bit_push_bit_iff bit_ucast_iff dest: bit_imp_le_length)
  show ?thesis unfolding split out_ptr_def out_len_def
    by (auto simp: bit_eq_iff bit_ucast_iff bit_drop_bit_eq bit_or_iff bit_push_bit_iff dest: bit_imp_le_length)
qed

subsection \<open>The pool over any run\<close>

text \<open>A pool with the workers that are out: one is acquired, or one comes back after a call, by a release or, when the call failed, by
  dropping its lease.\<close>

inductive pool_step :: "'g worker_pool \<times> 'g plugin_worker list \<Rightarrow> 'g worker_pool \<times> 'g plugin_worker list \<Rightarrow> bool" where
  pool_acquired: "acquire rid now p = (Inr w, p') \<Longrightarrow> pool_step (p, out) (p', w # out)"
| pool_refused: "acquire rid now p = (Inl e, p') \<Longrightarrow> pool_step (p, out) (p', out)"
| pool_released: "invoke_json (wk_guest p) i k f w = (Inr answer, w1) \<Longrightarrow> pool_step (p, xs @ w # ys) (release w1 p, xs @ ys)"
| pool_dropped: "invoke_json (wk_guest p) i k f w = (Inl e, w1) \<Longrightarrow> pool_step (p, xs @ w # ys) (drop_lease p, xs @ ys)"

definition pool_inv :: "nat \<Rightarrow> nat \<Rightarrow> u64 \<Rightarrow> 'g worker_pool \<times> 'g plugin_worker list \<Rightarrow> bool" where
  "pool_inv concurrency warm g s \<longleftrightarrow>
     (case s of (p, out) \<Rightarrow> wk_permits p + length out = concurrency \<and> length (wk_warm p) \<le> max warm (wk_max_warm p) \<and> wk_generation p = g
        \<and> list_all (\<lambda>w. pw_generation w = g) (wk_warm p @ out))"

lemma worker_new_generation: "worker_new m g rid now d = Inr w \<Longrightarrow> pw_generation w = g"
  by (auto simp: worker_new_def Let_def split: sum.splits option.splits if_splits prod.splits)

lemma reset_keeps_generation: "pw_generation (snd (reset_for_reuse m w)) = pw_generation w"
  by (auto simp: reset_for_reuse_def call_guest_def split: prod.split sum.split option.split)

lemma settle_fields:
  "wk_permits (settle w p) = wk_permits p" "wk_generation (settle w p) = wk_generation p" "wk_max_warm (settle w p) = wk_max_warm p"
  "wk_guest (settle w p) = wk_guest p"
  by (auto simp: settle_def split: prod.split sum.split bool.split)

lemma settle_warm:
  "wk_warm (settle w p) = wk_warm p \<or>
   (\<exists>w1. wk_warm (settle w p) = wk_warm p @ [w1] \<and> pw_generation w1 = wk_generation p \<and> length (wk_warm p) < wk_max_warm p \<and> pw_uses w < wk_max_worker_uses p)"
  using reset_keeps_generation [of "wk_guest p" w] by (auto simp: settle_def not_le split: prod.split sum.split bool.split)

lemma pool_step_inv: "pool_step s s' \<Longrightarrow> pool_inv c n g s \<Longrightarrow> pool_inv c n g s'"
proof (induction rule: pool_step.induct)
  case (pool_acquired rid now p w p' out)
  then show ?case
    by (auto simp: pool_inv_def acquire_def pool_worker_def split: if_splits list.splits sum.splits dest: worker_new_generation)
next
  case (pool_refused rid now p e p' out)
  then show ?case by (auto simp: pool_inv_def acquire_def split: if_splits list.splits sum.splits)
next
  case (pool_released p i k f w answer w1 xs ys)
  then show ?case
    using settle_warm [of w1 "drop_lease p"] by (auto simp: pool_inv_def release_def settle_fields drop_lease_def)
next
  case (pool_dropped p i k f w e w1 xs ys)
  then show ?case by (auto simp: pool_inv_def drop_lease_def)
qed

interpretation pool_sys: invariant_system "pool_inv c n g" pool_step "pool_inv c n g" for c n g
  by unfold_locales (auto intro: pool_step_inv)

lemma prewarm_loop_fields:
  "prewarm_loop is now p = (r, p') \<Longrightarrow> wk_permits p' = wk_permits p \<and> wk_generation p' = wk_generation p \<and> wk_max_warm p' = wk_max_warm p
     \<and> (\<exists>ws. wk_warm p' = wk_warm p @ ws \<and> length ws \<le> length is \<and> list_all (\<lambda>w. pw_generation w = wk_generation p) ws)"
proof (induction "is" arbitrary: p)
  case (Cons i "is")
  show ?case
  proof (cases "pool_worker (''prewarm-'' @ show_nat i) now p")
    case (Inr w)
    have "pw_generation w = wk_generation p" using Inr worker_new_generation by (auto simp: pool_worker_def)
    with Cons.IH [of "p\<lparr>wk_warm := wk_warm p @ [w]\<rparr>"] Cons.prems Inr show ?thesis by force
  qed (use Cons.prems in simp)
qed simp

text \<open>From a prewarmed pool on, the workers that are out and the permits add up to the configured number, all workers belong to the generation of the
  pool, and no more than the larger of both limits are kept warm.\<close>

lemma pool_conserves_permits:
  assumes "prewarm now (pool_new m g cfg) = (r, p0)" and "pool_step\<^sup>*\<^sup>* (p0, []) (p, out)"
  shows "wk_permits p + length out = wc_default_max_concurrency cfg
    \<and> length (wk_warm p) \<le> max (wc_default_min_warm cfg) (wk_max_warm p) \<and> list_all (\<lambda>w. pw_generation w = g) (wk_warm p @ out)"
proof -
  from prewarm_loop_fields [OF assms(1) [unfolded prewarm_def]]
  have "pool_inv (wc_default_max_concurrency cfg) (wc_default_min_warm cfg) g (p0, [])" by (auto simp: pool_inv_def pool_new_def)
  from pool_sys.inv_reachable [OF this assms(2)] show ?thesis by (simp add: pool_inv_def)
qed

subsection \<open>Where the host falls short\<close>

text \<open>A pool is found by a text in which the parts of the key are joined by colons, and without the version of the interface: the plugin of one
  tenant can stand for that of another.\<close>

lemma pool_key_collision:
  "pool_key \<lparr>pk_tenant_id = ''a:b'', pk_plugin_id = ''c'', pk_version = v, pk_wasm_sha256 = h, pk_abi_version = x\<rparr> =
   pool_key \<lparr>pk_tenant_id = ''a'', pk_plugin_id = ''b:c'', pk_version = v, pk_wasm_sha256 = h, pk_abi_version = y\<rparr>"
  by (simp add: pool_key_def)

text \<open>A warm worker answers a request under the identifier and the deadline of the request it was made for.\<close>

lemma warm_worker_keeps_request:
  assumes "0 < wk_permits p" "wk_warm p = w # ws"
  shows "fst (acquire rid now p) = Inr w"
    "hs_request_id (pw_host (snd (invoke_json (wk_guest p) i k f w))) = hs_request_id (pw_host w)"
  using assms by (simp_all add: acquire_def invoke_json_keeps)

end
