(* ===== verification/Spec2Isabelle.thy ===== *)
theory Spec2Isabelle
  imports Activation Kernel_Guard Kernel_Maps Probation Circuit_Breaker Admission_Control Rate_Limiter Router_Properties Policy_Syncer
    Detection_Rules Agent_Risk Adapter_Decision Agent_Activity Enforcement_Points Self_Update Agent_Identity Pdp_Service
    Proxy_Properties Telemetry Secure_Spool Trust_Gate Policy_Feasibility Enforcement_Planner Security_Coverage Capability_Broker Agent_Binding
    Plugin_Host Policy_Advice Policy_Evaluators Wasm_Host
begin

text \<open>
  \<^bold>\<open>Pollek: the device enforcement kit.\<close>

  Pollek runs on a user's device next to AI agents and decides what they may do. A policy bundle is published by a cloud control plane,
  downloaded, verified and staged on the device, activated, and then consulted by a proxy in front of every tool call of an agent.
  Around this path there are guards on the content of requests and answers, limits, telemetry and audit, planners that say what a
  given device can enforce, and analysers of what agents did. The development models the Rust code of these parts under
  \<^verbatim>\<open>src/crates\<close> and \<^verbatim>\<open>src/plugins\<close>; this theory imports all of it.

  \<^bold>\<open>How the code is translated.\<close> A struct is a record, an enum a datatype, a function a HOL function of the same name (with a
  prefix where two crates use one name, or where HOL has it). A method that changes its object returns the changed record. Errors are
  values of a sum type \<open>('e, 'a) result\<close> (\<open>Inl\<close> the error) or of \<open>option\<close>; a panic, which ends the process in the release profile,
  is an outermost \<open>None\<close> where the code can reach one. Integer types keep their width as words, or are integers with the wrap-around
  of the release profile written out (\<open>i64_wrap\<close>); \<^verbatim>\<open>usize\<close> values that count elements of a list in memory are natural numbers,
  and \<^verbatim>\<open>f64\<close> amounts are rational numbers without rounding, except in the agent resolver, whose thresholds depend on it
  (\<^verbatim>\<open>Float64\<close>). Strings are lists of UTF-8 bytes. A lock is a critical section: an
  operation that takes its locks more than once is split into the sections it really has. What is not Rust code of this repository
  (cryptography, JSON and YAML text, regular expressions, HTTP, SQL, WebAssembly, the clock, random identifiers, the file system) is a
  parameter, mostly bundled into a record of functions (\<open>\<dots>_env\<close>); what a theorem needs of it is a hypothesis. English message texts
  are kept where a caller can see them; Thai texts are left out.

  \<^bold>\<open>Shared theories.\<close> \<^verbatim>\<open>Pollek_Prelude\<close>: machine integers, list, option and map lemmas, the locale \<open>invariant_system\<close> (an initial
  predicate, a step relation and a predicate the steps keep; gives the predicate on all reachable states) and the locale \<open>upsert_store\<close>
  (a keyed store with insertion; gives lookup after a batch of insertions). \<^verbatim>\<open>Json_Value\<close>: the JSON values and accessors.
  \<^verbatim>\<open>Utf8_Text\<close>: text operations on bytes. \<^verbatim>\<open>Float64\<close>: rounding of \<^verbatim>\<open>f64\<close> sums and differences, its error and its monotonicity. \<^verbatim>\<open>Civil_Time\<close>: the expiry date parser of the syncer, its correctness against the
  calendar and the round trip with printing.

  \<^bold>\<open>The decision path.\<close>
  \<^item> \<^verbatim>\<open>Policy_Runtime\<close> (\<^verbatim>\<open>dek-policy-runtime\<close>): decisions, explanations and the WebAssembly evaluator's reading of its engine.
  \<^item> \<^verbatim>\<open>Engine_Selection\<close>, \<^verbatim>\<open>Policy_Router\<close>, \<^verbatim>\<open>Router_Properties\<close> (\<^verbatim>\<open>dek-policy-router\<close>): routes, engine scores, batch and failure modes,
    shadow evaluation and the evaluation loop. The router fails closed, and picks the first fitting route of highest priority.
  \<^item> \<^verbatim>\<open>Circuit_Breaker\<close>, \<^verbatim>\<open>Admission_Control\<close>, \<^verbatim>\<open>Rate_Limiter\<close> (\<^verbatim>\<open>dek-resilience\<close>): state machines with their invariants over all
    reachable states, the exact admission decision, the bound on admitted calls in any window, recovery of an open breaker.
  \<^item> \<^verbatim>\<open>Auth_Verifier\<close> (\<^verbatim>\<open>dek-auth\<close>): bearer tokens. \<^verbatim>\<open>Mcp_Proxy\<close> and \<^verbatim>\<open>Proxy_Properties\<close> (\<^verbatim>\<open>dek-mcp-proxy\<close>, \<^verbatim>\<open>dek-mcp-normalizer\<close>): every
    handler of the proxy as one state transformer; a request succeeds exactly when every gate lets it through, and a stopped request
    reaches no engine.
  \<^item> \<^verbatim>\<open>Enforcement_Points\<close> (\<^verbatim>\<open>dek-ext-authz\<close>, \<^verbatim>\<open>dek-mcp-stdio-wrapper\<close>): the Envoy server and the wrapper of a tool server, composed with the router; what they
    let through was cleared by it.
  \<^item> \<^verbatim>\<open>Guard_Normalize\<close>, \<^verbatim>\<open>Guard_Injection\<close>, \<^verbatim>\<open>Guard_Spans\<close>, \<^verbatim>\<open>Guard_Pii\<close>, \<^verbatim>\<open>Guard_Output\<close>, \<^verbatim>\<open>Guard_Pipeline\<close> (\<^verbatim>\<open>dek-guard-pipeline\<close>) and
    \<^verbatim>\<open>Guard_Plugins\<close> (\<^verbatim>\<open>src/plugins\<close>): scanning and redaction. The locale \<open>span_guard\<close> states what the two redactors share; each interprets
    it. Redaction equals a one-pass splice, keeps the shape of a payload, and hidden characters do not hide an injection.
  \<^item> \<^verbatim>\<open>Adapter_Decision\<close> (\<^verbatim>\<open>dek-decision\<close>, \<^verbatim>\<open>dek-policy-intent\<close>, \<^verbatim>\<open>dek-policy-compiler\<close>): the older router over adapters and the intent compiler.
  \<^item> \<^verbatim>\<open>Plugin_Host\<close> (\<^verbatim>\<open>dek-plugin-host\<close>, \<^verbatim>\<open>dek-plugin-sdk\<close>), \<^verbatim>\<open>Policy_Evaluators\<close> (\<^verbatim>\<open>dek-cedar\<close>, \<^verbatim>\<open>dek-openfga\<close>, \<^verbatim>\<open>dek-opa-wasm\<close>) and \<^verbatim>\<open>Wasm_Host\<close>
    (\<^verbatim>\<open>dek-wasm-host\<close>): consent to capabilities and loading of plugins; the evaluators with their caches, where a cached answer is always one that
    was given within its time to live; workers of plugin modules, whose output stays within the guest's memory, and their pool, which conserves
    its permits.

  \<^bold>\<open>The policy supply.\<close>
  \<^item> \<^verbatim>\<open>Trusted_Keys\<close>, \<^verbatim>\<open>Bundle_Rollback\<close>, \<^verbatim>\<open>Bundle_Pipeline\<close> (\<^verbatim>\<open>dek-bundle-sync\<close>, \<^verbatim>\<open>dek-bundle-format\<close>): trusted keys and their distribution,
    anti-rollback state, download, verification and staging of a bundle. Accepted bundles are authentic and fresh; a rejection leaves the
    installed bundle alone; stored versions never decrease, also when writing them fails, before the file is opened or midway: a torn file is
    refused from then on.
  \<^item> \<^verbatim>\<open>Enforcement_State\<close>, \<^verbatim>\<open>Audit_Trail\<close>, \<^verbatim>\<open>Policy_Syncer\<close> (\<^verbatim>\<open>dek-policy-syncer\<close>): freshness, the hash-chained audit and the sync cycle; before
    the first success everything is denied.
  \<^item> \<^verbatim>\<open>Trust_Gate\<close> (\<^verbatim>\<open>dek-trust-gate\<close>): the exact conditions under which a manifest is accepted, for policies without extensions and revisions of
    equal length. \<^verbatim>\<open>Router_Builder\<close> and \<^verbatim>\<open>Activation\<close>
    (\<^verbatim>\<open>dek-pdp-sdk\<close>, \<^verbatim>\<open>dek-activation\<close>): building the router and switching to it, all or nothing.
  \<^item> \<^verbatim>\<open>Kernel_Guard\<close>, \<^verbatim>\<open>Probation\<close> (\<^verbatim>\<open>dek-core\<close>): the split of network rules between kernel and user mode, refined from its specification, and the
    probation of an updated binary, which ends. \<^verbatim>\<open>Kernel_Maps\<close> (\<^verbatim>\<open>dek-ebpf-prog\<close>, \<^verbatim>\<open>dek-ebpfd\<close>): the connect programs, the maps they look up and
    the updater that writes them; an accepted update for a cgroup, an address or a port changes the verdicts its entry decides and no others.
  \<^item> \<^verbatim>\<open>Self_Update\<close> (\<^verbatim>\<open>dek-updater\<close>): releases, their verification and the replacement of the program; an upgrade leaves the old program or a verified
    newer one.

  \<^bold>\<open>Records.\<close> \<^verbatim>\<open>Spool_Table\<close>, \<^verbatim>\<open>Telemetry\<close> (\<^verbatim>\<open>dek-telemetry\<close>) and \<^verbatim>\<open>Secure_Spool\<close> (\<^verbatim>\<open>dek-secure-spool\<close>): redaction, spooling within a bound, flush
  that deletes what was delivered or given up, the encrypted segments with their round trip and tamper evidence.

  \<^bold>\<open>What a device can enforce.\<close> \<^verbatim>\<open>Capability_Routing\<close> (\<^verbatim>\<open>dek-domain-schema\<close>, \<^verbatim>\<open>dek-capability-registry\<close>, the route planner, \<^verbatim>\<open>dek-pep-router\<close>),
  \<^verbatim>\<open>Policy_Feasibility\<close> (\<^verbatim>\<open>dek-deployment-planner\<close>), \<^verbatim>\<open>Enforcement_Planner\<close> and \<^verbatim>\<open>Security_Coverage\<close> (\<^verbatim>\<open>dek-enforcement-api\<close>),
  \<^verbatim>\<open>Capability_Broker\<close> (\<^verbatim>\<open>dek-capability\<close>) and \<^verbatim>\<open>Agent_Binding\<close> (\<^verbatim>\<open>dek-agent-binding\<close>): no planner promises a level its device cannot reach,
  and no sensor is installed without a recorded consent. \<^verbatim>\<open>Pdp_Service\<close> (\<^verbatim>\<open>local-control-plane\<close>): routes to decision points with retries
  and fallbacks, wrapping of tool servers, checks of policy drafts; a request is allowed only by an answer or a route that allows on failure.

  \<^bold>\<open>What agents did.\<close> \<^verbatim>\<open>Agent_Trust\<close>, \<^verbatim>\<open>Usage_Accounting\<close>, \<^verbatim>\<open>Agent_Correlation\<close>, \<^verbatim>\<open>Agent_Activity\<close> (\<^verbatim>\<open>dek-agent-observer\<close>): trust score, token and cost
  accounting,
  budgets, attribution of events, naming of browser sessions, grouping of actions. \<^verbatim>\<open>Agent_Risk\<close> (\<^verbatim>\<open>dek-mcp-reputation\<close>, \<^verbatim>\<open>dek-risk-score\<close>, \<^verbatim>\<open>dek-a2a-mediator\<close>). \<^verbatim>\<open>Detection_Glob\<close> and
  \<^verbatim>\<open>Detection_Rules\<close> (\<^verbatim>\<open>dek-detection\<close>): path patterns against their meaning, and what a rule finds in a session. \<^verbatim>\<open>Model_Classifier\<close> and
  \<^verbatim>\<open>Fingerprint_Defs\<close> (\<^verbatim>\<open>dek-fingerprint-defs\<close>): the class and risk of a model, and when an update of the catalogue is taken over.
  \<^verbatim>\<open>Agent_Identity\<close> (\<^verbatim>\<open>dek-agent-discovery\<close>): which agent a process is, and when a human has to confirm it. \<^verbatim>\<open>Policy_Advice\<close> (\<^verbatim>\<open>dek-policy-suggester\<close>,
  \<^verbatim>\<open>dek-recommend\<close>, \<^verbatim>\<open>dek-consent\<close>): suggestions, recommended actions and agreements.

  \<^bold>\<open>Loops and bounds.\<close> Loops over data are structural. \<open>eval_loop\<close>, \<open>walk_up\<close>, \<open>read_frames\<close> and \<open>glob_loop\<close> have termination proofs by a
  measure (engines left, bytes left, bytes left, and for the glob matcher the text the last stars have not taken, then what is left of
  pattern and text). The
  probation loop polls the clock and is a \<open>partial_function (option)\<close> that is proved to return. \<open>trim_start_matches\<close> has the length of its
  text as fuel, which is enough because every round drops a byte.

  \<^bold>\<open>Not modelled.\<close> The web server of the local control plane with its SQL store, the scanners that discover agents, the supervisor and
  installers of \<^verbatim>\<open>dek-core\<close>, the loading of kernel programs and platform drivers, command line tools, enrolment and key stores:
  they are calls of operating systems, databases, web frameworks and engines, with little logic between the calls. The router builder takes its evaluators as parameters. Interleavings of threads are modelled only where the code splits an operation
  into several critical sections (enqueueing in the secure spool, emission of audit records, permits of the proxy); taking the
  global and the tenant permit of admission, and inserting a row into the spool table with the deletion that follows it, are one step each, and errors of
  the SQL library there, and partial copies of files, are left out.
\<close>

end
